(* ===== verification/Prelude.thy ===== *)
theory Prelude
  imports
    Main
    "HOL-Library.Word"
    "HOL-Library.Signed_Division"
begin

text \<open>
  The shared vocabulary of the development: results of Go calls, programs that thread the
  store through calls that may return an error or panic, and the reasoning principles the
  component theories use for such programs.

  A Go function of this repository takes a context that gives access to a mutable store,
  and ends in one of three ways: it returns a value, it returns an error, or it panics.
  Writes done before an error are not undone by the function itself, so a program yields the
  store in all three cases and the caller decides whether to keep it.
\<close>

subsection \<open>Hint collections\<close>

named_theorems prog_simps \<open>unfolding of the program combinators\<close>
named_theorems steps_intro \<open>closure of a store relation under the program combinators\<close>
named_theorems wp_simps \<open>weakest preconditions of the combinators and of the operations\<close>
named_theorems ok_simps \<open>inversion of successful runs\<close>

subsection \<open>Outcomes\<close>

datatype ('e, 'a) outcome = Ok 'a | Err 'e | Panic string

definition obind :: "('e, 'a) outcome \<Rightarrow> ('a \<Rightarrow> ('e, 'b) outcome) \<Rightarrow> ('e, 'b) outcome" where
  "obind r f = (case r of Ok x \<Rightarrow> f x | Err e \<Rightarrow> Err e | Panic p \<Rightarrow> Panic p)"

lemma obind_simps [simp]:
  "obind (Ok x) f = f x" "obind (Err e) f = Err e" "obind (Panic p) f = Panic p"
  by (simp_all add: obind_def)

lemma obind_eq_Ok: "obind r f = Ok y \<longleftrightarrow> (\<exists>x. r = Ok x \<and> f x = Ok y)"
  by (cases r) simp_all

fun is_Ok :: "('e, 'a) outcome \<Rightarrow> bool" where
  "is_Ok (Ok _) = True"
| "is_Ok _ = False"

lemma is_Ok_iff: "is_Ok r \<longleftrightarrow> (\<exists>x. r = Ok x)"
  by (cases r) simp_all

subsection \<open>Programs\<close>

type_synonym ('s, 'e, 'a) prog = "'s \<Rightarrow> ('e, 'a) outcome \<times> 's"

definition ret :: "'a \<Rightarrow> ('s, 'e, 'a) prog" where
  "ret x = (\<lambda>s. (Ok x, s))"

definition fail :: "'e \<Rightarrow> ('s, 'e, 'a) prog" where
  "fail e = (\<lambda>s. (Err e, s))"

definition panic :: "string \<Rightarrow> ('s, 'e, 'a) prog" where
  "panic p = (\<lambda>s. (Panic p, s))"

definition lift :: "('e, 'a) outcome \<Rightarrow> ('s, 'e, 'a) prog" where
  "lift r = (\<lambda>s. (r, s))"

definition gets :: "('s \<Rightarrow> 'a) \<Rightarrow> ('s, 'e, 'a) prog" where
  "gets f = (\<lambda>s. (Ok (f s), s))"

definition modify :: "('s \<Rightarrow> 's) \<Rightarrow> ('s, 'e, unit) prog" where
  "modify f = (\<lambda>s. (Ok (), f s))"

definition bnd :: "('s, 'e, 'a) prog \<Rightarrow> ('a \<Rightarrow> ('s, 'e, 'b) prog) \<Rightarrow> ('s, 'e, 'b) prog" where
  "bnd m f = (\<lambda>s. case m s of
      (Ok x, s') \<Rightarrow> f x s'
    | (Err e, s') \<Rightarrow> (Err e, s')
    | (Panic p, s') \<Rightarrow> (Panic p, s'))"

definition thn :: "('s, 'e, 'a) prog \<Rightarrow> ('s, 'e, 'b) prog \<Rightarrow> ('s, 'e, 'b) prog" where
  "thn m n = bnd m (\<lambda>_. n)"

text \<open>\<open>if err := m; err != nil { ... }\<close>: the handler sees the store the failing call left.\<close>

definition catch :: "('s, 'e, 'a) prog \<Rightarrow> ('e \<Rightarrow> ('s, 'e, 'a) prog) \<Rightarrow> ('s, 'e, 'a) prog" where
  "catch m h = (\<lambda>s. case m s of
      (Ok x, s') \<Rightarrow> (Ok x, s')
    | (Err e, s') \<Rightarrow> h e s'
    | (Panic p, s') \<Rightarrow> (Panic p, s'))"

text \<open>The error a call returned, if any, as a value: \<open>x, err := m\<close>.\<close>

definition attempt :: "('s, 'e, 'a) prog \<Rightarrow> ('s, 'e, 'e + 'a) prog" where
  "attempt m = (\<lambda>s. case m s of
      (Ok x, s') \<Rightarrow> (Ok (Inr x), s')
    | (Err e, s') \<Rightarrow> (Ok (Inl e), s')
    | (Panic p, s') \<Rightarrow> (Panic p, s'))"

text \<open>A \<open>for _, x := range xs\<close> loop whose body may return early with an error.\<close>

fun for_each :: "('x \<Rightarrow> ('s, 'e, unit) prog) \<Rightarrow> 'x list \<Rightarrow> ('s, 'e, unit) prog" where
  "for_each f [] = ret ()"
| "for_each f (x # xs) = thn (f x) (for_each f xs)"

text \<open>The same loop with variables \<open>acc\<close> declared before it and updated by the body.\<close>

fun fold_prog :: "('x \<Rightarrow> 'a \<Rightarrow> ('s, 'e, 'a) prog) \<Rightarrow> 'x list \<Rightarrow> 'a \<Rightarrow> ('s, 'e, 'a) prog" where
  "fold_prog f [] acc = ret acc"
| "fold_prog f (x # xs) acc = bnd (f x acc) (fold_prog f xs)"

lemmas prog_defs [prog_simps] = ret_def fail_def panic_def lift_def gets_def modify_def
  bnd_def thn_def catch_def attempt_def

subsection \<open>Inversion of successful runs\<close>

lemma bnd_Ok [ok_simps]:
  "bnd m f s = (Ok y, t) \<longleftrightarrow> (\<exists>x s'. m s = (Ok x, s') \<and> f x s' = (Ok y, t))"
  by (auto simp: bnd_def split: prod.splits outcome.splits)

lemma thn_Ok [ok_simps]:
  "thn m n s = (Ok y, t) \<longleftrightarrow> (\<exists>x s'. m s = (Ok x, s') \<and> n s' = (Ok y, t))"
  by (simp add: thn_def bnd_Ok)

lemma ret_Ok [ok_simps]: "ret x s = (Ok y, t) \<longleftrightarrow> y = x \<and> t = s"
  by (auto simp: ret_def)

lemma fail_Ok [ok_simps]: "fail e s = (Ok y, t) \<longleftrightarrow> False"
  by (simp add: fail_def)

lemma panic_Ok [ok_simps]: "panic p s = (Ok y, t) \<longleftrightarrow> False"
  by (simp add: panic_def)

lemma lift_Ok [ok_simps]: "lift r s = (Ok y, t) \<longleftrightarrow> r = Ok y \<and> t = s"
  by (auto simp: lift_def)

lemma gets_Ok [ok_simps]: "gets f s = (Ok y, t) \<longleftrightarrow> y = f s \<and> t = s"
  by (auto simp: gets_def)

lemma modify_Ok [ok_simps]: "modify f s = (Ok y, t) \<longleftrightarrow> t = f s"
  by (auto simp: modify_def)

lemma attempt_Ok [ok_simps]:
  "attempt m s = (Ok r, t) \<longleftrightarrow>
     (case r of Inr x \<Rightarrow> m s = (Ok x, t) | Inl e \<Rightarrow> m s = (Err e, t))"
  by (auto simp: attempt_def split: prod.splits outcome.splits sum.splits)

lemma catch_Ok [ok_simps]:
  "catch m h s = (Ok y, t) \<longleftrightarrow>
     m s = (Ok y, t) \<or> (\<exists>e s'. m s = (Err e, s') \<and> h e s' = (Ok y, t))"
  by (auto simp: catch_def split: prod.splits outcome.splits)

lemma if_run: "(if b then m else n) s = (if b then m s else n s)"
  by simp

lemma if_fail_Ok [ok_simps]:
  "(if b then fail e else m) s = (Ok y, t) \<longleftrightarrow> \<not> b \<and> m s = (Ok y, t)"
  "(if b then panic p else m) s = (Ok y, t) \<longleftrightarrow> \<not> b \<and> m s = (Ok y, t)"
  by (simp_all add: fail_def panic_def)

lemma case_prod_Ok [ok_simps]:
  "(case z of (a, b) \<Rightarrow> f a b) s = (Ok y, t) \<longleftrightarrow> (\<exists>a b. z = (a, b) \<and> f a b s = (Ok y, t))"
  by (cases z) simp

text \<open>Forward evaluation, for programs whose calls are known to succeed.\<close>

lemma bnd_step: "m s = (Ok x, s') \<Longrightarrow> bnd m f s = f x s'"
  by (simp add: bnd_def)

lemma thn_step: "m s = (Ok x, s') \<Longrightarrow> thn m n s = n s'"
  by (simp add: thn_def bnd_def)

lemma bnd_err: "m s = (Err e, s') \<Longrightarrow> bnd m f s = (Err e, s')"
  by (simp add: bnd_def)

lemma bnd_panic: "m s = (Panic p, s') \<Longrightarrow> bnd m f s = (Panic p, s')"
  by (simp add: bnd_def)

lemma run_simps:
  "ret x s = (Ok x, s)"
  "fail e s = (Err e, s)"
  "panic p s = (Panic p, s)"
  "lift r s = (r, s)"
  "gets f s = (Ok (f s), s)"
  "modify g s = (Ok (), g s)"
  by (simp_all add: prog_simps)

lemma run_of: "fst p = r \<Longrightarrow> p = (r, snd p)"
  by auto

lemma bnd_run_simps:
  "bnd (ret x) f = f x"
  "bnd (fail e) f = fail e"
  "bnd (panic p) f = panic p"
  "bnd (lift (Ok x)) f = f x"
  "bnd (lift (Err e)) f = fail e"
  "bnd (lift (Panic p)) f = panic p"
  "bnd (gets g) f s = f (g s) s"
  "bnd (modify h) f' s = f' () (h s)"
  "thn (ret x) n = n"
  "thn (modify h) n s = n (h s)"
  by (simp_all add: prog_simps)

subsection \<open>Weakest preconditions\<close>

text \<open>
  \<open>wp m Q E s\<close>: run from \<open>s\<close>, the program \<open>m\<close> establishes \<open>Q\<close> of the value it returns and the
  store, or else \<open>E\<close> of its error (\<open>None\<close> when it panicked) and the store it left. The
  equations push the two postconditions through a program text.
\<close>

definition wp :: "('s, 'e, 'a) prog \<Rightarrow> ('a \<Rightarrow> 's \<Rightarrow> bool) \<Rightarrow> ('e option \<Rightarrow> 's \<Rightarrow> bool) \<Rightarrow> 's \<Rightarrow> bool" where
  "wp m Q E s = (case m s of
      (Ok x, t) \<Rightarrow> Q x t
    | (Err e, t) \<Rightarrow> E (Some e) t
    | (Panic p, t) \<Rightarrow> E None t)"

text \<open>
  The rules for the combinators are equations between predicates on the store, so that they
  also apply inside a postcondition.
\<close>

lemma wp_basic [wp_simps]:
  "wp (ret x) Q E = Q x"
  "wp (fail e) Q E = E (Some e)"
  "wp (panic p) Q E = E None"
  by (simp_all add: wp_def ret_def fail_def panic_def fun_eq_iff)

lemma wp_gets [wp_simps]: "wp (gets f) Q E s = Q (f s) s"
  by (simp add: wp_def gets_def)

lemma wp_modify [wp_simps]: "wp (modify f) Q E s = Q () (f s)"
  by (simp add: wp_def modify_def)

lemma wp_bnd [wp_simps]: "wp (bnd m f) Q E = wp m (\<lambda>x. wp (f x) Q E) E"
  by (rule ext) (auto simp: wp_def bnd_def split: prod.splits outcome.splits)

lemma wp_thn [wp_simps]: "wp (thn m n) Q E = wp m (\<lambda>_. wp n Q E) E"
  by (simp add: thn_def wp_bnd)

lemma wp_catch [wp_simps]:
  "wp (catch m h) Q E
    = wp m Q (\<lambda>r. case r of None \<Rightarrow> E None | Some e \<Rightarrow> wp (h e) Q E)"
  by (rule ext) (auto simp: wp_def catch_def split: prod.splits outcome.splits)

lemma wp_attempt [wp_simps]:
  "wp (attempt m) Q E
    = wp m (\<lambda>x. Q (Inr x)) (\<lambda>r. case r of None \<Rightarrow> E None | Some e \<Rightarrow> Q (Inl e))"
  by (rule ext) (auto simp: wp_def attempt_def split: prod.splits outcome.splits)

lemma wp_lift [wp_simps]:
  "wp (lift r) Q E = (case r of Ok x \<Rightarrow> Q x | Err e \<Rightarrow> E (Some e) | Panic p \<Rightarrow> E None)"
  by (rule ext) (simp add: wp_def lift_def split: outcome.split)

lemma wp_if [wp_simps]: "wp (if b then m else n) Q E = (if b then wp m Q E else wp n Q E)"
  by simp

lemma wp_let [wp_simps]: "wp (let y = x in f y) Q E = wp (f x) Q E"
  by (simp add: Let_def)

lemma wp_case_prod [wp_simps]:
  "wp (case z of (a, b) \<Rightarrow> f a b) Q E = wp (f (fst z) (snd z)) Q E"
  by (cases z) simp

lemma wp_conseq:
  "wp m Q E s \<Longrightarrow> (\<And>x t. Q x t \<Longrightarrow> Q' x t) \<Longrightarrow> (\<And>r t. E r t \<Longrightarrow> E' r t) \<Longrightarrow> wp m Q' E' s"
  by (auto simp: wp_def split: prod.splits outcome.splits)

lemma wp_OkD: "wp m Q E s \<Longrightarrow> m s = (Ok x, t) \<Longrightarrow> Q x t"
  by (simp add: wp_def)

lemma wp_run: "wp m (\<lambda>x t. m s = (Ok x, t)) (\<lambda>r t. \<not> is_Ok (fst (m s)) \<and> snd (m s) = t) s"
  by (auto simp: wp_def split: prod.splits outcome.splits)

lemma wp_conj:
  "wp m Q E s \<Longrightarrow> wp m Q' E' s \<Longrightarrow> wp m (\<lambda>x t. Q x t \<and> Q' x t) (\<lambda>r t. E r t \<and> E' r t) s"
  by (auto simp: wp_def split: prod.splits outcome.splits)

text \<open>A loop invariant indexed by the elements still to be visited.\<close>

lemma wp_for_each:
  assumes "\<And>x ys s. I (x # ys) s \<Longrightarrow> wp (f x) (\<lambda>_. I ys) E s"
  shows "I xs s \<Longrightarrow> wp (for_each f xs) (\<lambda>_. I []) E s"
proof (induction xs arbitrary: s)
  case (Cons x xs)
  from assms [OF Cons.prems] show ?case
    by (simp add: wp_simps) (rule wp_conseq, assumption, rule Cons.IH)
qed (simp add: wp_simps)

lemma wp_fold_prog:
  assumes "\<And>x ys acc s. I (x # ys) acc s \<Longrightarrow> wp (f x acc) (I ys) E s"
  shows "I xs acc s \<Longrightarrow> wp (fold_prog f xs acc) (I []) E s"
proof (induction xs arbitrary: acc s)
  case (Cons x xs)
  from assms [OF Cons.prems] show ?case
    by (simp add: wp_simps) (rule wp_conseq, assumption, rule Cons.IH)
qed (simp add: wp_simps)

subsection \<open>Store relations kept by every run\<close>

text \<open>
  \<open>steps R m\<close>: whatever the outcome, the store after running \<open>m\<close> is related by \<open>R\<close> to the
  store before. With \<open>R\<close> an equality of projections this is a frame property, with \<open>R\<close> an
  implication an invariant, with \<open>R\<close> an order a monotonicity property. The locale collects
  the closure rules, which only need \<open>R\<close> to be reflexive and transitive.
\<close>

definition steps :: "('s \<Rightarrow> 's \<Rightarrow> bool) \<Rightarrow> ('s, 'e, 'a) prog \<Rightarrow> bool" where
  "steps R m \<longleftrightarrow> (\<forall>s. R s (snd (m s)))"

lemma stepsI: "(\<And>s r t. m s = (r, t) \<Longrightarrow> R s t) \<Longrightarrow> steps R m"
  by (metis steps_def prod.collapse)

lemma wp_any: "wp m (\<lambda>_. P) (\<lambda>_. P) s \<longleftrightarrow> P (snd (m s))"
  by (simp add: wp_def split_beta split: outcome.split)

lemma steps_wp: "steps R m \<longleftrightarrow> (\<forall>s. wp m (\<lambda>_. R s) (\<lambda>_. R s) s)"
  by (simp add: steps_def wp_any)

lemma steps_wp_at: "steps R m \<Longrightarrow> wp m (\<lambda>_. R s) (\<lambda>_. R s) s"
  by (simp add: steps_wp)

lemma stepsD: "steps R m \<Longrightarrow> m s = (r, t) \<Longrightarrow> R s t"
  by (metis steps_def snd_conv)

locale store_relation =
  fixes R :: "'s \<Rightarrow> 's \<Rightarrow> bool"
  assumes rel_refl: "R s s"
    and rel_trans: "R s t \<Longrightarrow> R t u \<Longrightarrow> R s u"
begin

lemma steps_pure [steps_intro]:
  "steps R (ret x)" "steps R (fail e)" "steps R (panic p)" "steps R (lift r)" "steps R (gets f)"
  by (simp_all add: steps_def rel_refl prog_defs)

lemma steps_modify [steps_intro]: "(\<And>s. R s (f s)) \<Longrightarrow> steps R (modify f)"
  by (simp add: steps_def modify_def)

lemma steps_bnd [steps_intro]:
  assumes "steps R m" and "\<And>x. steps R (f x)"
  shows "steps R (bnd m f)"
proof (rule stepsI)
  fix s r t
  assume run: "bnd m f s = (r, t)"
  obtain q s' where m: "m s = (q, s')" by fastforce
  have first: "R s s'" using assms(1) m by (rule stepsD)
  show "R s t"
  proof (cases q)
    case (Ok x)
    with run m have "f x s' = (r, t)" by (simp add: bnd_def)
    then have "R s' t" by (rule stepsD [OF assms(2)])
    with first show ?thesis by (rule rel_trans)
  qed (use run m first in \<open>auto simp: bnd_def\<close>)
qed

text \<open>The same, when what follows depends on how the first program ran.\<close>

lemma steps_bnd_run:
  assumes "steps R m" and "\<And>x s t. m s = (Ok x, t) \<Longrightarrow> wp (f x) (\<lambda>_. R t) (\<lambda>_. R t) t"
  shows "steps R (bnd m f)"
proof (rule stepsI)
  fix s r t
  assume run: "bnd m f s = (r, t)"
  obtain q s' where m: "m s = (q, s')" by fastforce
  have first: "R s s'" using assms(1) m by (rule stepsD)
  show "R s t"
  proof (cases q)
    case (Ok x)
    with run m have "f x s' = (r, t)" by (simp add: bnd_def)
    then have "R s' t" using assms(2) [of s x s'] m Ok by (simp add: wp_any)
    with first show ?thesis by (rule rel_trans)
  qed (use run m first in \<open>auto simp: bnd_def\<close>)
qed

lemma steps_thn [steps_intro]: "steps R m \<Longrightarrow> steps R n \<Longrightarrow> steps R (thn m n)"
  by (simp add: thn_def steps_bnd)

lemma steps_attempt [steps_intro]:
  assumes "steps R m"
  shows "steps R (attempt m)"
proof (rule stepsI)
  fix s r t
  assume run: "attempt m s = (r, t)"
  obtain q s' where m: "m s = (q, s')" by fastforce
  have "R s s'" using assms m by (rule stepsD)
  with run m show "R s t" by (auto simp: attempt_def split: outcome.splits)
qed

lemma steps_catch [steps_intro]:
  assumes "steps R m" and "\<And>e. steps R (h e)"
  shows "steps R (catch m h)"
proof (rule stepsI)
  fix s r t
  assume run: "catch m h s = (r, t)"
  obtain q s' where m: "m s = (q, s')" by fastforce
  have first: "R s s'" using assms(1) m by (rule stepsD)
  show "R s t"
  proof (cases q)
    case (Err e)
    with run m have "h e s' = (r, t)" by (simp add: catch_def)
    then have "R s' t" by (rule stepsD [OF assms(2)])
    with first show ?thesis by (rule rel_trans)
  qed (use run m first in \<open>auto simp: catch_def\<close>)
qed

lemma steps_for_each [steps_intro]:
  assumes "\<And>x. steps R (f x)"
  shows "steps R (for_each f xs)"
  by (induction xs) (auto intro!: assms steps_pure steps_thn)

lemma steps_fold_prog [steps_intro]:
  assumes "\<And>x acc. steps R (f x acc)"
  shows "steps R (fold_prog f xs acc)"
  by (induction xs arbitrary: acc) (auto intro!: assms steps_pure steps_bnd)

lemma steps_if [steps_intro]:
  "(b \<Longrightarrow> steps R m) \<Longrightarrow> (\<not> b \<Longrightarrow> steps R n) \<Longrightarrow> steps R (if b then m else n)"
  by simp

lemma steps_case_option [steps_intro]:
  "steps R m \<Longrightarrow> (\<And>x. steps R (f x)) \<Longrightarrow> steps R (case z of None \<Rightarrow> m | Some x \<Rightarrow> f x)"
  by (cases z) simp_all

lemma steps_case_sum [steps_intro]:
  "(\<And>x. steps R (f x)) \<Longrightarrow> (\<And>y. steps R (g y)) \<Longrightarrow>
     steps R (case z of Inl x \<Rightarrow> f x | Inr y \<Rightarrow> g y)"
  by (cases z) simp_all

lemma steps_case_prod [steps_intro]:
  "(\<And>x y. steps R (f x y)) \<Longrightarrow> steps R (case z of (x, y) \<Rightarrow> f x y)"
  by (cases z) simp

lemma steps_let [steps_intro]: "steps R (f x) \<Longrightarrow> steps R (let y = x in f y)"
  by (simp add: Let_def)

end

text \<open>
  A panic aborts the message, and what it leaves is thrown away. \<open>settles R m\<close> therefore asks
  less: when \<open>m\<close> returns, with a value or with an error, the store after is related by \<open>R\<close> to the
  store before. The closure rules are the same.
\<close>

definition settles :: "('s \<Rightarrow> 's \<Rightarrow> bool) \<Rightarrow> ('s, 'e, 'a) prog \<Rightarrow> bool" where
  "settles R m \<longleftrightarrow> (\<forall>s. wp m (\<lambda>_. R s) (\<lambda>r t. r = None \<or> R s t) s)"

lemma steps_settles: "steps R m \<Longrightarrow> settles R m"
  unfolding settles_def steps_wp by (auto elim: wp_conseq)

lemma settlesD: "settles R m \<Longrightarrow> wp m (\<lambda>_. R s) (\<lambda>r t. r = None \<or> R s t) s"
  by (simp add: settles_def)

lemma settles_Ok: "settles R m \<Longrightarrow> m s = (Ok x, t) \<Longrightarrow> R s t"
  by (rule wp_OkD [OF settlesD])

lemma settles_mono: "settles S m \<Longrightarrow> (\<And>s t. S s t \<Longrightarrow> R s t) \<Longrightarrow> settles R m"
  unfolding settles_def by (blast intro: wp_conseq)

lemma settles_if:
  "(b \<Longrightarrow> settles R m) \<Longrightarrow> (\<not> b \<Longrightarrow> settles R n) \<Longrightarrow> settles R (if b then m else n)"
  by simp

lemma settles_case_option:
  "settles R m \<Longrightarrow> (\<And>x. settles R (f x)) \<Longrightarrow> settles R (case z of None \<Rightarrow> m | Some x \<Rightarrow> f x)"
  by (cases z) simp_all

lemma settles_case_sum:
  "(\<And>x. settles R (f x)) \<Longrightarrow> (\<And>y. settles R (g y)) \<Longrightarrow>
     settles R (case z of Inl x \<Rightarrow> f x | Inr y \<Rightarrow> g y)"
  by (cases z) simp_all

lemma settles_case_prod: "(\<And>x y. settles R (f x y)) \<Longrightarrow> settles R (case z of (x, y) \<Rightarrow> f x y)"
  by (cases z) simp

lemma settles_let: "settles R (f x) \<Longrightarrow> settles R (let y = x in f y)"
  by (simp add: Let_def)

context store_relation
begin

lemma settles_pure:
  "settles R (ret x)" "settles R (fail e)" "settles R (panic p)" "settles R (lift r)" "settles R (gets f)"
  by (intro steps_settles steps_pure)+

lemma settles_modify: "(\<And>s. R s (f s)) \<Longrightarrow> settles R (modify f)"
  by (intro steps_settles steps_modify)

lemma settles_after: "R s t \<Longrightarrow> settles R m \<Longrightarrow> wp m (\<lambda>_. R s) (\<lambda>r u. r = None \<or> R s u) t"
  using settlesD [of R m t] by (auto elim!: wp_conseq intro: rel_trans)

lemma settles_bnd: "settles R m \<Longrightarrow> (\<And>x. settles R (f x)) \<Longrightarrow> settles R (bnd m f)"
  unfolding settles_def [of _ "bnd m f"] wp_bnd
  using settlesD [of R m] by (fastforce elim!: wp_conseq intro: settles_after)

lemma settles_thn: "settles R m \<Longrightarrow> settles R n \<Longrightarrow> settles R (thn m n)"
  unfolding thn_def by (rule settles_bnd)

lemma settles_attempt: "settles R m \<Longrightarrow> settles R (attempt m)"
  unfolding settles_def [of _ "attempt m"] wp_attempt
  using settlesD [of R m] by (fastforce elim!: wp_conseq split: option.split)

lemma settles_catch: "settles R m \<Longrightarrow> (\<And>e. settles R (h e)) \<Longrightarrow> settles R (catch m h)"
  unfolding settles_def [of _ "catch m h"] wp_catch
  using settlesD [of R m] by (fastforce elim!: wp_conseq intro: settles_after split: option.split)

lemma settles_for_each: "(\<And>x. settles R (f x)) \<Longrightarrow> settles R (for_each f xs)"
  by (induction xs) (auto intro: settles_pure settles_thn)

lemma settles_fold_prog: "(\<And>x acc. settles R (f x acc)) \<Longrightarrow> settles R (fold_prog f xs acc)"
  by (induction xs arbitrary: acc) (auto intro: settles_pure settles_bnd)

text \<open>A program that settles, run after another that did, and what follows it.\<close>

lemma settles_then:
  assumes "R s t" "settles R m" "\<And>x u. R s u \<Longrightarrow> wp (f x) Q E u" "\<And>r u. r = None \<or> R s u \<Longrightarrow> E r u"
  shows "wp (bnd m f) Q E t"
  unfolding wp_bnd by (rule wp_conseq [OF settles_after [OF assms(1,2)]]) (auto intro: assms(3,4))

lemmas settles_control = settles_pure settles_bnd settles_thn settles_attempt settles_catch
  settles_for_each settles_fold_prog settles_if settles_case_option settles_case_sum
  settles_case_prod settles_let

end

text \<open>The two relations used most: equality of a projection and preservation of a predicate.\<close>

definition same :: "('s \<Rightarrow> 'p) \<Rightarrow> 's \<Rightarrow> 's \<Rightarrow> bool" where
  "same f s t \<longleftrightarrow> f t = f s"

definition keeps :: "('s \<Rightarrow> bool) \<Rightarrow> 's \<Rightarrow> 's \<Rightarrow> bool" where
  "keeps P s t \<longleftrightarrow> (P s \<longrightarrow> P t)"

interpretation same_rel: store_relation "same f" for f
  by unfold_locales (simp_all add: same_def)

interpretation keeps_rel: store_relation "keeps P" for P
  by unfold_locales (simp_all add: keeps_def)

end
