(* ===== verification/Collections.thy ===== *)
theory Collections
  imports
    Prelude
    "HOL-Library.List_Lexorder"
    "HOL-Library.Product_Lexorder"
    "HOL-Library.Char_ord"
begin

text \<open>
  The typed key-value maps the keeper declares (\<open>collections.Map\<close>, \<open>collections.IndexedMap\<close>):
  \<open>Get\<close>, \<open>Has\<close>, \<open>Set\<close>, \<open>Remove\<close>, and iteration in ascending key order, optionally over the
  keys after an exclusive start. A map is the list of its entries in key order, so \<open>Walk\<close> and
  \<open>Iterate\<close> are list traversals and every operation computes.
\<close>

subsection \<open>The interface the keeper relies on\<close>

definition total_of :: "('k \<Rightarrow> 'v \<Rightarrow> int) \<Rightarrow> ('k \<times> 'v) list \<Rightarrow> int" where
  "total_of f es = sum_list (map (\<lambda>(k, v). f k v) es)"

lemma total_Nil [simp]: "total_of f [] = 0"
  by (simp add: total_of_def)

lemma total_Cons [simp]: "total_of f ((k, v) # es) = f k v + total_of f es"
  by (simp add: total_of_def)

lemma total_append [simp]: "total_of f (es @ fs) = total_of f es + total_of f fs"
  by (simp add: total_of_def)

lemma total_nonneg: "(\<And>k v. (k, v) \<in> set es \<Longrightarrow> 0 \<le> f k v) \<Longrightarrow> 0 \<le> total_of f es"
  by (auto simp: total_of_def intro!: sum_list_nonneg)

lemma total_mono:
  "(\<And>k v. (k, v) \<in> set es \<Longrightarrow> f k v \<le> g k v) \<Longrightarrow> total_of f es \<le> total_of g es"
  by (auto simp: total_of_def intro!: sum_list_mono)

lemma total_distinct:
  assumes "distinct (map fst es)"
  shows "total_of f es = (\<Sum>k\<in>fst ` set es. f k (the (map_of es k)))"
  using assms
proof (induction es)
  case (Cons e es)
  obtain k v where e: "e = (k, v)" by fastforce
  have "(\<Sum>j\<in>fst ` set es. f j (the (map_of (e # es) j))) = (\<Sum>j\<in>fst ` set es. f j (the (map_of es j)))"
    using Cons.prems e by (intro sum.cong) auto
  with Cons e show ?case by auto
qed simp

locale kv_map =
  fixes get :: "'m \<Rightarrow> 'k::linorder \<Rightarrow> 'v option"
    and put :: "'k \<Rightarrow> 'v \<Rightarrow> 'm \<Rightarrow> 'm"
    and del :: "'k \<Rightarrow> 'm \<Rightarrow> 'm"
    and entries :: "'m \<Rightarrow> ('k \<times> 'v) list"
    and ok :: "'m \<Rightarrow> bool"
  assumes get_put: "get (put k v m) j = (if j = k then Some v else get m j)"
    and get_del: "get (del k m) j = (if j = k then None else get m j)"
    and ok_put: "ok m \<Longrightarrow> ok (put k v m)"
    and ok_del: "ok m \<Longrightarrow> ok (del k m)"
    and get_entries: "get m k = map_of (entries m) k"
    and entries_sorted: "ok m \<Longrightarrow> sorted_wrt (<) (map fst (entries m))"
begin

lemma entries_distinct: "ok m \<Longrightarrow> distinct (map fst (entries m))"
  using entries_sorted strict_sorted_iff by blast

lemma in_entries_iff: "ok m \<Longrightarrow> (k, v) \<in> set (entries m) \<longleftrightarrow> get m k = Some v"
  by (simp add: get_entries entries_distinct)

lemma keys_eq: "fst ` set (entries m) = {k. get m k \<noteq> None}"
  by (auto simp: get_entries dom_map_of_conv_image_fst [symmetric] dom_def)

lemma keys_put: "fst ` set (entries (put k v m)) = insert k (fst ` set (entries m))"
  by (auto simp: keys_eq get_put)

lemma keys_del: "fst ` set (entries (del k m)) = fst ` set (entries m) - {k}"
  by (auto simp: keys_eq get_del)

lemma total_get: "ok m \<Longrightarrow> total_of f (entries m) = (\<Sum>k\<in>fst ` set (entries m). f k (the (get m k)))"
  by (simp add: total_distinct entries_distinct get_entries)

lemma total_split:
  assumes "ok m"
  shows "total_of f (entries m) = (case get m k of None \<Rightarrow> 0 | Some v \<Rightarrow> f k v)
    + (\<Sum>j\<in>fst ` set (entries m) - {k}. f j (the (get m j)))"
proof (cases "get m k")
  case None
  then have "k \<notin> fst ` set (entries m)" by (simp add: keys_eq)
  with None assms show ?thesis by (simp add: total_get)
next
  case (Some v)
  then have "k \<in> fst ` set (entries m)" by (simp add: keys_eq)
  with Some assms show ?thesis
    by (simp add: total_get sum.remove)
qed

text \<open>How a total over the values changes when one entry is written or removed.\<close>

lemma total_put:
  assumes "ok m"
  shows "total_of f (entries (put k v m))
    = total_of f (entries m) - (case get m k of None \<Rightarrow> 0 | Some u \<Rightarrow> f k u) + f k v"
  using total_split [OF ok_put [OF assms], of f k v k] total_split [OF assms, of f k]
  by (simp add: keys_put get_put)

lemma total_del:
  assumes "ok m"
  shows "total_of f (entries (del k m))
    = total_of f (entries m) - (case get m k of None \<Rightarrow> 0 | Some u \<Rightarrow> f k u)"
  using total_split [OF ok_del [OF assms], of f k k] total_split [OF assms, of f k]
  by (simp add: keys_del get_del)

end

subsection \<open>Maps as ordered entry lists\<close>

type_synonym ('k, 'v) cmap = "('k \<times> 'v) list"

abbreviation Map_Get :: "('k, 'v) cmap \<Rightarrow> 'k \<Rightarrow> 'v option" where
  "Map_Get m k \<equiv> map_of m k"

definition Map_Has :: "('k, 'v) cmap \<Rightarrow> 'k \<Rightarrow> bool" where
  "Map_Has m k = (Map_Get m k \<noteq> None)"

fun Map_Set :: "'k::linorder \<Rightarrow> 'v \<Rightarrow> ('k, 'v) cmap \<Rightarrow> ('k, 'v) cmap" where
  "Map_Set k v [] = [(k, v)]"
| "Map_Set k v ((j, u) # m) =
     (if j = k then (k, v) # m else if j < k then (j, u) # Map_Set k v m else (k, v) # (j, u) # m)"

definition Map_Remove :: "'k \<Rightarrow> ('k, 'v) cmap \<Rightarrow> ('k, 'v) cmap" where
  "Map_Remove k m = filter (\<lambda>e. fst e \<noteq> k) m"

text \<open>\<open>new(collections.Range[K]).StartExclusive(k)\<close>.\<close>

definition Map_After :: "'k::linorder \<Rightarrow> ('k, 'v) cmap \<Rightarrow> ('k, 'v) cmap" where
  "Map_After k m = filter (\<lambda>e. k < fst e) m"

text \<open>\<open>collections.NewPrefixedPairRange\<close>: the entries under a first key, by second key.\<close>

definition Map_Prefix :: "'j \<Rightarrow> ('j \<times> 'k, 'v) cmap \<Rightarrow> ('k, 'v) cmap" where
  "Map_Prefix j m = map (\<lambda>((_, k), v). (k, v)) (filter (\<lambda>e. fst (fst e) = j) m)"

definition map_ok :: "('k::linorder, 'v) cmap \<Rightarrow> bool" where
  "map_ok m = sorted_wrt (<) (map fst m)"

lemma map_ok_Nil [simp]: "map_ok []"
  by (simp add: map_ok_def)

lemma Map_Get_Set: "Map_Get (Map_Set k v m) j = (if j = k then Some v else Map_Get m j)"
  by (induction m) auto

lemma Map_Get_Remove: "Map_Get (Map_Remove k m) j = (if j = k then None else Map_Get m j)"
  by (induction m) (auto simp: Map_Remove_def)

lemma keys_Map_Set: "fst ` set (Map_Set k v m) = insert k (fst ` set m)"
  by (induction k v m rule: Map_Set.induct) (simp_all add: insert_commute)

lemma map_ok_Set: "map_ok m \<Longrightarrow> map_ok (Map_Set k v m)"
proof (induction m)
  case (Cons e m)
  obtain j u where e: "e = (j, u)" by fastforce
  have "\<forall>x\<in>fst ` set (Map_Set k v m). j < x" if "j < k"
    using Cons.prems that by (auto simp: e map_ok_def keys_Map_Set)
  with Cons show ?case by (auto simp: e map_ok_def)
qed (simp add: map_ok_def)

lemma map_ok_filter: "map_ok m \<Longrightarrow> map_ok (filter p m)"
  unfolding map_ok_def by (induction m) auto

lemma map_ok_Remove: "map_ok m \<Longrightarrow> map_ok (Map_Remove k m)"
  by (simp add: Map_Remove_def map_ok_filter)

interpretation cmap: kv_map map_of Map_Set Map_Remove "\<lambda>m. m" map_ok
  by unfold_locales
    (simp_all add: Map_Get_Set Map_Get_Remove map_ok_Set map_ok_Remove, simp add: map_ok_def)

declare Map_Get_Set [simp] Map_Get_Remove [simp]

lemma Map_Has_Set [simp]: "Map_Has (Map_Set k v m) j = (j = k \<or> Map_Has m j)"
  by (simp add: Map_Has_def)

lemma Map_Has_Remove [simp]: "Map_Has (Map_Remove k m) j = (j \<noteq> k \<and> Map_Has m j)"
  by (simp add: Map_Has_def)

text \<open>A write to a map: what it writes into keeps its order.\<close>

definition map_write :: "(('k::linorder, 'v) cmap \<Rightarrow> ('k, 'v) cmap) \<Rightarrow> bool" where
  "map_write f \<longleftrightarrow> (\<forall>m. map_ok m \<longrightarrow> map_ok (f m))"

lemma map_writes: "map_write (Map_Set k v)" "map_write (Map_Remove k)"
  by (simp_all add: map_write_def map_ok_Set map_ok_Remove)

text \<open>An optional map value read with a default, the \<open>err\<close>-as-zero idiom of the keeper.\<close>

definition get_or :: "'v \<Rightarrow> 'v option \<Rightarrow> 'v" where
  "get_or d x = (case x of None \<Rightarrow> d | Some v \<Rightarrow> v)"

lemma get_or_simps [simp]: "get_or d None = d" "get_or d (Some v) = v"
  by (simp_all add: get_or_def)

lemma total_Map_Set:
  "map_ok m \<Longrightarrow> total_of (\<lambda>_ v. v) (Map_Set k v m) = total_of (\<lambda>_ v. v) m - get_or 0 (Map_Get m k) + v"
  using cmap.total_put [of m "\<lambda>_ v. v" k v] by (simp add: get_or_def split: option.splits)

lemma Map_Prefix_Get:
  "Map_Get (Map_Prefix j m) k = Map_Get m (j, k)"
  by (induction m) (auto simp: Map_Prefix_def)

end
