(* ===== verification/Sdk_Math.thy ===== *)
theory Sdk_Math
  imports Prelude
begin

text \<open>
  The number types of \<open>cosmossdk.io/math\<close> the keeper computes with. \<open>Int\<close> is an arbitrary
  precision integer whose operations panic when a result needs more than 256 bits; \<open>SafeAdd\<close>
  and \<open>SafeSub\<close> report the overflow as an error instead. \<open>Quo\<close> truncates towards zero and
  panics on a zero divisor. \<open>LegacyDec\<close> is a fixed-point number with 18 decimals, represented
  here by its raw integer; its rounding division belongs to the library, so it is an argument
  of the definitions that use it, under the laws of the locale \<open>legacy_dec\<close>.
\<close>

subsection \<open>Int\<close>

definition fits :: "int \<Rightarrow> bool" where
  "fits x = (\<bar>x\<bar> < 2 ^ 256)"

definition checked :: "int \<Rightarrow> ('e, int) outcome" where
  "checked x = (if fits x then Ok x else Panic ''Int overflow'')"

definition Int_Add :: "int \<Rightarrow> int \<Rightarrow> ('e, int) outcome" where
  "Int_Add a b = checked (a + b)"

definition Int_Sub :: "int \<Rightarrow> int \<Rightarrow> ('e, int) outcome" where
  "Int_Sub a b = checked (a - b)"

definition Int_Mul :: "int \<Rightarrow> int \<Rightarrow> ('e, int) outcome" where
  "Int_Mul a b = checked (a * b)"

definition Int_Quo :: "int \<Rightarrow> int \<Rightarrow> ('e, int) outcome" where
  "Int_Quo a b = (if b = 0 then Panic ''Division by zero'' else Ok (a sdiv b))"

definition Int_SafeAdd :: "'e \<Rightarrow> int \<Rightarrow> int \<Rightarrow> ('e, int) outcome" where
  "Int_SafeAdd overflow a b = (if fits (a + b) then Ok (a + b) else Err overflow)"

definition Int_SafeSub :: "'e \<Rightarrow> int \<Rightarrow> int \<Rightarrow> ('e, int) outcome" where
  "Int_SafeSub overflow a b = (if fits (a - b) then Ok (a - b) else Err overflow)"

lemma checked_Ok [ok_simps]: "checked x = Ok y \<longleftrightarrow> fits x \<and> y = x"
  by (auto simp: checked_def)

lemma Int_Ok [ok_simps]:
  "Int_Add a b = Ok c \<longleftrightarrow> fits (a + b) \<and> c = a + b"
  "Int_Sub a b = Ok c \<longleftrightarrow> fits (a - b) \<and> c = a - b"
  "Int_Mul a b = Ok c \<longleftrightarrow> fits (a * b) \<and> c = a * b"
  "Int_Quo a b = Ok c \<longleftrightarrow> b \<noteq> 0 \<and> c = a sdiv b"
  "Int_SafeAdd e a b = Ok c \<longleftrightarrow> fits (a + b) \<and> c = a + b"
  "Int_SafeSub e a b = Ok c \<longleftrightarrow> fits (a - b) \<and> c = a - b"
  by (auto simp: Int_Add_def Int_Sub_def Int_Mul_def Int_Quo_def Int_SafeAdd_def
      Int_SafeSub_def checked_def)

lemma Int_no_Err [simp]:
  "checked x \<noteq> Err e" "Int_Add a b \<noteq> Err e" "Int_Sub a b \<noteq> Err e"
  "Int_Mul a b \<noteq> Err e" "Int_Quo a b \<noteq> Err e"
  by (auto simp: Int_Add_def Int_Sub_def Int_Mul_def Int_Quo_def checked_def)

lemma fits_0 [simp]: "fits 0"
  by (simp add: fits_def)

lemma fits_between: "fits b \<Longrightarrow> 0 \<le> a \<Longrightarrow> a \<le> b \<Longrightarrow> fits a"
  by (simp add: fits_def)

lemma sdiv_nonneg: "0 \<le> a \<Longrightarrow> 0 < b \<Longrightarrow> a sdiv b = a div (b::int)"
  by (cases "a = 0") (simp_all add: signed_divide_int_def)

lemma sdiv_nonneg_result: "0 \<le> a \<Longrightarrow> 0 < b \<Longrightarrow> 0 \<le> a sdiv (b::int)"
  by (simp add: sdiv_nonneg pos_imp_zdiv_nonneg_iff)

lemma sdiv_neg: "a < 0 \<Longrightarrow> 0 < b \<Longrightarrow> a sdiv b = - ((- a) div (b::int))"
  by (simp add: signed_divide_int_def)

text \<open>Truncation never exceeds the exact quotient by more than the sign allows.\<close>

lemma int_div_mult_le: "0 < b \<Longrightarrow> (a div b) * b \<le> (a::int)"
  using pos_mod_sign [of b a] div_mult_mod_eq [of a b] by linarith

lemma int_less_div_mult: "0 < b \<Longrightarrow> a < (a div b) * b + (b::int)"
  using pos_mod_bound [of b a] div_mult_mod_eq [of a b] by linarith

lemma sdiv_mult_le: "0 < b \<Longrightarrow> 0 \<le> a \<Longrightarrow> (a sdiv b) * b \<le> (a::int)"
  by (simp add: sdiv_nonneg int_div_mult_le)

lemma sdiv_mono: "0 < (c::int) \<Longrightarrow> a \<le> b \<Longrightarrow> a sdiv c \<le> b sdiv c"
  by (cases "0 \<le> a"; cases "0 \<le> b")
    (auto simp: sdiv_nonneg sdiv_neg zdiv_mono1 div_int_pos_iff
      intro: order_trans [of _ 0])

subsection \<open>LegacyDec\<close>

definition dec_one :: int where
  "dec_one = 10 ^ 18"

text \<open>\<open>LegacyNewDec\<close>, \<open>LegacyNewDecFromInt\<close>, \<open>Int.ToLegacyDec\<close>: the raw form of an integer.\<close>

definition LegacyDec_of :: "int \<Rightarrow> int" where
  "LegacyDec_of n = n * dec_one"

text \<open>\<open>MulInt\<close> panics when the raw product needs more than 315 bits; \<open>TruncateInt\<close> drops the
  decimals and panics when the integer part does not fit an \<open>Int\<close>.\<close>

definition LegacyDec_MulInt :: "int \<Rightarrow> int \<Rightarrow> ('e, int) outcome" where
  "LegacyDec_MulInt d i =
     (if \<bar>d * i\<bar> < 2 ^ 315 then Ok (d * i) else Panic ''Int overflow'')"

definition LegacyDec_TruncateInt :: "int \<Rightarrow> ('e, int) outcome" where
  "LegacyDec_TruncateInt d = checked (d sdiv dec_one)"

lemma LegacyDec_Ok [ok_simps]:
  "LegacyDec_MulInt d i = Ok c \<longleftrightarrow> \<bar>d * i\<bar> < 2 ^ 315 \<and> c = d * i"
  "LegacyDec_TruncateInt d = Ok c \<longleftrightarrow> fits (d sdiv dec_one) \<and> c = d sdiv dec_one"
  by (auto simp: LegacyDec_MulInt_def LegacyDec_TruncateInt_def checked_def)

lemma dec_one_pos [simp]: "0 < dec_one" "0 \<le> dec_one" "dec_one \<noteq> 0"
  by (simp_all add: dec_one_def)

text \<open>
  What the keeper relies on: \<open>Quo\<close> of non-negative decimals by a positive one is within half a
  unit of the last place above the exact quotient and less than one unit below it, and
  \<open>QuoInt\<close> truncates.
\<close>

locale legacy_dec =
  fixes quo :: "int \<Rightarrow> int \<Rightarrow> ('e, int) outcome"
    and quo_int :: "int \<Rightarrow> int \<Rightarrow> ('e, int) outcome"
  assumes quo_nonneg: "quo n d = Ok q \<Longrightarrow> 0 \<le> n \<Longrightarrow> 0 < d \<Longrightarrow> 0 \<le> q"
    and quo_upper: "quo n d = Ok q \<Longrightarrow> 0 \<le> n \<Longrightarrow> 0 < d \<Longrightarrow> 2 * q * d \<le> 2 * n * dec_one + d"
    and quo_lower: "quo n d = Ok q \<Longrightarrow> 0 \<le> n \<Longrightarrow> 0 < d \<Longrightarrow> n * dec_one < q * d + d"
    and quo_int_trunc: "quo_int n d = Ok q \<Longrightarrow> 0 \<le> n \<Longrightarrow> 0 < d \<Longrightarrow> q = n div d"
begin

text \<open>A share \<open>part / whole\<close> of \<open>amount\<close>, truncated: at most \<open>amount\<close>, and at most its exact value
  plus the rounding of the ratio scaled by \<open>amount\<close>.\<close>

lemma share_nonneg:
  assumes "quo (LegacyDec_of part) (LegacyDec_of whole) = Ok q" "0 \<le> part" "0 < whole" "0 \<le> amount"
  shows "0 \<le> (q * amount) sdiv dec_one"
proof -
  have "0 \<le> q"
    by (rule quo_nonneg [OF assms(1)]) (use assms in \<open>simp_all add: LegacyDec_of_def\<close>)
  with assms(4) show ?thesis by (simp add: sdiv_nonneg_result)
qed

lemma share_upper:
  assumes q: "quo (LegacyDec_of part) (LegacyDec_of whole) = Ok q"
    and part: "0 \<le> part" and whole: "0 < whole" and amount: "0 \<le> amount"
  shows "2 * whole * ((q * amount) sdiv dec_one) * dec_one
    \<le> 2 * part * amount * dec_one + whole * amount"
proof -
  have q0: "0 \<le> q"
    by (rule quo_nonneg [OF q]) (use part whole in \<open>simp_all add: LegacyDec_of_def\<close>)
  have "2 * q * (whole * dec_one) \<le> 2 * (part * dec_one) * dec_one + whole * dec_one"
    using quo_upper [OF q] part whole by (simp add: LegacyDec_of_def)
  then have "dec_one * (2 * q * whole) \<le> dec_one * (2 * part * dec_one + whole)"
    by (simp add: algebra_simps)
  then have ratio: "2 * q * whole \<le> 2 * part * dec_one + whole" by simp
  have "((q * amount) sdiv dec_one) * dec_one \<le> q * amount"
    using q0 amount by (simp add: sdiv_mult_le)
  then have "2 * whole * (((q * amount) sdiv dec_one) * dec_one) \<le> 2 * whole * (q * amount)"
    using whole by (intro mult_left_mono) simp_all
  also have "\<dots> = (2 * q * whole) * amount" by simp
  also have "\<dots> \<le> (2 * part * dec_one + whole) * amount"
    using ratio amount by (rule mult_right_mono)
  finally show ?thesis by (simp add: algebra_simps)
qed

text \<open>
  A user whose principal is at most the recorded total is never paid more than the recorded
  rewards, as long as that total is below \<open>2 * 10^18\<close> (two trillion dollars): the rounding of
  the ratio then adds less than one unit before the truncation.
\<close>

lemma share_le_part:
  assumes q: "quo (LegacyDec_of part) (LegacyDec_of whole) = Ok q"
    and part: "0 \<le> part" and amount: "0 \<le> amount" "amount \<le> whole"
    and whole: "0 < whole" "whole < 2 * dec_one"
  shows "(q * amount) sdiv dec_one \<le> part"
proof -
  let ?x = "(q * amount) sdiv dec_one"
  have "2 * whole * ?x * dec_one \<le> 2 * part * amount * dec_one + whole * amount"
    using share_upper [OF q part whole(1) amount(1)] .
  also have "\<dots> \<le> 2 * part * whole * dec_one + whole * whole"
    using part amount whole
    by (intro add_mono mult_right_mono mult_left_mono) simp_all
  also have "\<dots> < whole * (2 * part * dec_one + 2 * dec_one)"
    using whole by (simp add: algebra_simps)
  finally have "whole * (2 * dec_one * ?x) < whole * (2 * dec_one * (part + 1))"
    by (simp add: algebra_simps)
  then have "2 * dec_one * ?x < 2 * dec_one * (part + 1)"
    using whole(1) by (simp add: mult_less_cancel_left_pos)
  then have "?x < part + 1"
    using mult_less_cancel_left_pos [of "2 * dec_one" ?x "part + 1"] by simp
  then show ?thesis by simp
qed

end

text \<open>
  The division of \<open>cosmossdk.io/math\<close> rounds half to even after truncating at 36 decimals;
  written out, it satisfies the laws.
\<close>

definition round_half_even :: "int \<Rightarrow> int" where
  "round_half_even t =
     (let q = t div dec_one; r = t mod dec_one in
      if 2 * r < dec_one then q
      else if dec_one < 2 * r then q + 1
      else if even q then q else q + 1)"

definition legacy_Quo :: "int \<Rightarrow> int \<Rightarrow> ('e, int) outcome" where
  "legacy_Quo n d =
     (if d = 0 then Panic ''division by zero''
      else let t = (n * dec_one * dec_one) sdiv d;
               q = (if t < 0 then - round_half_even (- t) else round_half_even t)
           in if \<bar>q\<bar> < 2 ^ 315 then Ok q else Panic ''Int overflow'')"

definition legacy_QuoInt :: "int \<Rightarrow> int \<Rightarrow> ('e, int) outcome" where
  "legacy_QuoInt n d = (if d = 0 then Panic ''division by zero'' else Ok (n sdiv d))"

lemma round_half_even_bounds:
  assumes "0 \<le> t"
  shows "0 \<le> round_half_even t" "2 * round_half_even t * dec_one \<le> 2 * t + dec_one"
    "2 * t \<le> 2 * round_half_even t * dec_one + dec_one"
proof -
  define q r where "q = t div dec_one" and "r = t mod dec_one"
  have t: "t = q * dec_one + r" by (simp add: q_def r_def)
  have r: "0 \<le> r" "r < dec_one" by (simp_all add: r_def)
  have q: "0 \<le> q" using assms by (simp add: q_def pos_imp_zdiv_nonneg_iff)
  have rnd: "round_half_even t = (if 2 * r < dec_one then q else if dec_one < 2 * r then q + 1
      else if even q then q else q + 1)"
    by (simp add: round_half_even_def Let_def q_def r_def)
  show "0 \<le> round_half_even t" using q by (simp add: rnd)
  show "2 * round_half_even t * dec_one \<le> 2 * t + dec_one"
    unfolding rnd using r by (auto simp: t algebra_simps)
  show "2 * t \<le> 2 * round_half_even t * dec_one + dec_one"
    unfolding rnd using r by (auto simp: t algebra_simps)
qed

lemma legacy_Quo_nonneg:
  assumes "legacy_Quo n d = Ok q" "0 \<le> n" "0 < d"
  shows "q = round_half_even ((n * dec_one * dec_one) div d)"
    "0 \<le> (n * dec_one * dec_one) div d"
proof -
  have n: "0 \<le> n * dec_one * dec_one" using assms(2) by simp
  then show "0 \<le> (n * dec_one * dec_one) div d"
    using assms(3) by (simp add: pos_imp_zdiv_nonneg_iff)
  with n assms show "q = round_half_even ((n * dec_one * dec_one) div d)"
    by (auto simp: legacy_Quo_def Let_def sdiv_nonneg split: if_splits)
qed

interpretation legacy: legacy_dec legacy_Quo legacy_QuoInt
proof
  fix n d q :: int
  assume q: "legacy_Quo n d = (Ok q :: ('e, int) outcome)" and n: "0 \<le> n" and d: "0 < d"
  let ?t = "(n * dec_one * dec_one) div d"
  note b = round_half_even_bounds [OF legacy_Quo_nonneg(2) [OF q n d],
      folded legacy_Quo_nonneg(1) [OF q n d]]
  show "0 \<le> q" by (rule b(1))
  have t: "?t * d \<le> n * dec_one * dec_one" "n * dec_one * dec_one < ?t * d + d"
    using d by (simp_all only: int_div_mult_le int_less_div_mult)
  have "2 * q * dec_one * d \<le> (2 * ?t + dec_one) * d"
    using b(2) d by (intro mult_right_mono) simp_all
  also have "\<dots> \<le> dec_one * (2 * n * dec_one + d)"
    using t(1) by (simp add: algebra_simps)
  finally have "dec_one * (2 * q * d) \<le> dec_one * (2 * n * dec_one + d)"
    by (simp add: algebra_simps)
  then show "2 * q * d \<le> 2 * n * dec_one + d" by simp
  have "2 * (n * dec_one * dec_one) < (2 * ?t + 2) * d"
    using t(2) by (simp add: algebra_simps)
  also have "\<dots> \<le> (2 * q * dec_one + dec_one + 2) * d"
    using b(3) d by (intro mult_right_mono) simp_all
  also have "\<dots> \<le> (2 * q * dec_one + 2 * dec_one) * d"
    using d by (intro mult_right_mono) (simp_all add: dec_one_def)
  finally have "(2 * dec_one) * (n * dec_one) < (2 * dec_one) * (q * d + d)"
    by (simp add: algebra_simps)
  then show "n * dec_one < q * d + d"
    by (subst (asm) mult_less_cancel_left_pos) simp_all
next
  fix n d q :: int
  assume "legacy_QuoInt n d = (Ok q :: ('e, int) outcome)" "0 \<le> n" "0 < d"
  then show "q = n div d" by (simp add: legacy_QuoInt_def sdiv_nonneg)
qed

end
