(* ===== verification/Types.thy ===== *)
theory Types
  imports Collections Sdk_Math
begin

text \<open>
  The data of the dollar module: identifiers and their key order, the errors and events the
  handlers produce, the protobuf messages stored or received, the store of the keeper
  (\<open>keeper.Keeper\<close>, one record field per collection) and the surroundings of the keeper: its
  configuration and the third-party code it calls.
\<close>

subsection \<open>Basic types\<close>

type_synonym bytes = "8 word list"
type_synonym addr = bytes

text \<open>A parsed Go slice: its bytes, and the bytes of its array behind them, up to its capacity. A slice
  that fills its array is \<open>lit\<close> of its bytes.\<close>

datatype slice = Slice (data: bytes) (spare: bytes)

abbreviation lit :: "bytes \<Rightarrow> slice" where
  "lit bs \<equiv> Slice bs []"

text \<open>A \<open>time.Time\<close> is its Unix time in nanoseconds.\<close>

type_synonym time = int

definition Unix :: "time \<Rightarrow> int" where
  "Unix t = t div 10 ^ 9"

definition string_bytes :: "string \<Rightarrow> bytes" where
  "string_bytes s = map of_char s"

definition bytes_string :: "bytes \<Rightarrow> string" where
  "bytes_string bz = map (\<lambda>b. char_of (unat b)) bz"

lemma length_string_bytes [simp]: "length (string_bytes s) = length s"
  by (simp add: string_bytes_def)

lemma bytes_string_bytes: "bytes_string (string_bytes s) = s"
proof -
  have "unat (of_char c :: 8 word) = of_char c" for c :: char
    by (subst of_nat_of_char [symmetric]) (simp add: unat_of_nat)
  then have "char_of (unat (of_char c :: 8 word)) = c" for c :: char by simp
  then show ?thesis by (simp add: bytes_string_def string_bytes_def comp_def)
qed

text \<open>\<open>copy(make([]byte, n)[k:], src)\<close> on a zeroed destination.\<close>

definition copy_at :: "nat \<Rightarrow> nat \<Rightarrow> bytes \<Rightarrow> bytes" where
  "copy_at n k src =
     replicate (min k n) 0 @ take (n - k) src @ replicate (n - k - length src) 0"

text \<open>Left padding to \<open>n\<close> bytes: \<open>copy(dst[n-len(src):], src)\<close>, which panics on a longer source.\<close>

definition pad_left :: "nat \<Rightarrow> bytes \<Rightarrow> ('e, bytes) outcome" where
  "pad_left n src =
     (if length src \<le> n then Ok (replicate (n - length src) 0 @ src)
      else Panic ''slice bounds out of range'')"

lemma length_copy_at [simp]: "k \<le> n \<Longrightarrow> length (copy_at n k src) = n"
  by (simp add: copy_at_def)

lemma pad_left_length: "pad_left n src = Ok bs \<Longrightarrow> length bs = n"
  by (auto simp: pad_left_def split: if_splits)

subsection \<open>Enumerations\<close>

text \<open>
  A protobuf enumeration is open: the wire may carry any \<open>int32\<close>, so each type has a
  constructor for the codes without a name.
\<close>

datatype provider = IBC | HYPERLANE | OtherProvider "32 word"

datatype vault_type = UNSPECIFIED | STAKED | FLEXIBLE | OtherVault "32 word"

datatype paused_type = PAUSED_NONE | PAUSED_LOCK | PAUSED_UNLOCK | PAUSED_ALL | OtherPaused "32 word"

text \<open>\<open>_, exists := vaults.VaultType_value[v.String()]\<close>\<close>

fun VaultType_exists :: "vault_type \<Rightarrow> bool" where
  "VaultType_exists (OtherVault _) = False"
| "VaultType_exists _ = True"

fun PausedType_exists :: "paused_type \<Rightarrow> bool" where
  "PausedType_exists (OtherPaused _) = False"
| "PausedType_exists _ = True"

text \<open>The order of the keys that contain an enumeration code.\<close>

fun provider_rank :: "provider \<Rightarrow> nat \<times> nat" where
  "provider_rank IBC = (0, 0)"
| "provider_rank HYPERLANE = (1, 0)"
| "provider_rank (OtherProvider w) = (2, unat w)"

fun vault_rank :: "vault_type \<Rightarrow> nat \<times> nat" where
  "vault_rank UNSPECIFIED = (0, 0)"
| "vault_rank STAKED = (1, 0)"
| "vault_rank FLEXIBLE = (2, 0)"
| "vault_rank (OtherVault w) = (3, unat w)"

lemma provider_rank_eq [simp]: "provider_rank p = provider_rank q \<longleftrightarrow> p = q"
  by (cases p; cases q) (simp_all add: word_unat_eq_iff)

lemma vault_rank_eq [simp]: "vault_rank v = vault_rank u \<longleftrightarrow> v = u"
  by (cases v; cases u) (simp_all add: word_unat_eq_iff)

instantiation provider :: linorder
begin

definition less_eq_provider :: "provider \<Rightarrow> provider \<Rightarrow> bool" where
  "p \<le> q \<longleftrightarrow> provider_rank p \<le> provider_rank q"

definition less_provider :: "provider \<Rightarrow> provider \<Rightarrow> bool" where
  "p < q \<longleftrightarrow> provider_rank p < provider_rank q"

instance
  by standard
    (auto simp: less_eq_provider_def less_provider_def less_le_not_le dest: order_antisym
      intro: order_trans)

end

instantiation vault_type :: linorder
begin

definition less_eq_vault_type :: "vault_type \<Rightarrow> vault_type \<Rightarrow> bool" where
  "v \<le> u \<longleftrightarrow> vault_rank v \<le> vault_rank u"

definition less_vault_type :: "vault_type \<Rightarrow> vault_type \<Rightarrow> bool" where
  "v < u \<longleftrightarrow> vault_rank v < vault_rank u"

instance
  by standard
    (auto simp: less_eq_vault_type_def less_vault_type_def less_le_not_le dest: order_antisym
      intro: order_trans)

end

subsection \<open>Errors\<close>

text \<open>
  The errors registered by the three submodules, \<open>collections.ErrNotFound\<close>,
  \<open>math.ErrIntOverflow\<close>, the bank's \<open>ErrInsufficientFunds\<close>, errors made on the spot
  (\<open>fmt.Errorf\<close>, \<open>errors.New\<close>), and \<open>errors.Wrap\<close>, which keeps the cause.
\<close>

datatype error =
    ErrPaused | ErrDecreasingIndex | ErrInvalidAuthority | ErrInvalidRequest
  | ErrVaultsInvalidAuthority | ErrInvalidAmount | ErrInvalidVaultType | ErrInvalidPauseType
  | ErrActionPaused
  | ErrNoOwner | ErrNotOwner | ErrSameOwner | ErrPortalPaused | ErrInvalidPeer
  | ErrInvalidBridgePath | ErrInvalidMessage | ErrInvalidRecipient
  | ErrNotFound | ErrIntOverflow | ErrInsufficientFunds
  | ErrExternal string
  | Errorf string
  | Wrap error string

text \<open>\<open>errors.Is\<close> and \<open>sdkerrors.IsOf\<close> look through \<open>Wrap\<close>.\<close>

fun root_error :: "error \<Rightarrow> error" where
  "root_error (Wrap e _) = root_error e"
| "root_error e = e"

type_synonym 'a result = "(error, 'a) outcome"

subsection \<open>Stored messages\<close>

record stats =
  TotalHolders :: "64 word"
  TotalPrincipal :: int
  TotalYieldAccrued :: int

record peer =
  Transceiver :: bytes
  Manager :: bytes

record position =
  pos_Principal :: int
  pos_Index :: int
  pos_Amount :: int
  pos_Time :: time

text \<open>\<open>vaults.PositionEntry\<close>: a position with the first two components of its key.\<close>

record position_entry = position +
  pos_Address :: addr
  pos_Vault :: vault_type

record reward =
  rew_Index :: int
  rew_Total :: int
  rew_Rewards :: int

record vaults_stats =
  FlexibleTotalPrincipal :: int
  FlexibleTotalUsers :: "64 word"
  FlexibleTotalDistributedRewardsPrincipal :: "int option"
  StakedTotalPrincipal :: int
  StakedTotalUsers :: "64 word"

subsection \<open>Events\<close>

datatype kv = KVString string | KVBytes bytes | KVInt int

datatype event =
    YieldClaimed string int
  | Paused_Event | Unpaused_Event
  | IndexUpdated int int int int
  | YieldRecipientSet provider string string
  | PositionLocked string vault_type int int int
  | PositionUnlocked string vault_type int int int
  | PausedStateUpdated paused_type
  | RewardClaimed string int
  | Delivered bytes
  | MTokenReceived "32 word" bytes bytes string int int bytes
  | TransferRedeemed bytes
  | USDNTokenSent bytes "16 word" bytes string bytes int int bytes
  | PeerUpdated "16 word" bytes bytes bytes bytes
  | BridgingPathSet "16 word" bytes bool
  | OwnershipTransferred string string
  | PortalPaused_Event | PortalUnpaused_Event
  | EmitKV string "(string \<times> kv) list"

subsection \<open>The store\<close>

text \<open>
  The collections of \<open>keeper.Keeper\<close>. An item that was never set is \<open>None\<close>. The key of a
  position is the triple (address, vault, Unix seconds) of its \<open>TripleKeyCodec\<close>; both indexes
  of the indexed map are functions of that key. \<open>BlockTime\<close> is the time of the header info,
  \<open>Events\<close> what the event manager has collected, and \<open>App\<close> the state of every other module of
  the application (bank, IBC, Hyperlane, Wormhole, auth), of a type of its own.
\<close>

type_synonym position_key = "addr \<times> vault_type \<times> int"

record 'b world =
  Paused :: "bool option"
  Index :: "int option"
  Principal :: "(addr, int) cmap"
  Stats :: "stats option"
  TotalExternalYield :: "(provider \<times> string, int) cmap"
  YieldRecipients :: "(provider \<times> string, string) cmap"
  RetryAmounts :: "(provider \<times> string, int) cmap"
  PortalOwner :: "string option"
  PortalPaused :: "bool option"
  PortalPeers :: "(16 word, peer) cmap"
  PortalBridgingPaths :: "(16 word \<times> bytes, bool) cmap"
  PortalNonce :: "32 word option"
  VaultsPaused :: "paused_type option"
  VaultsSeasonOneEnded :: "bool option"
  VaultsPositions :: "(position_key, position) cmap"
  VaultsTotalFlexiblePrincipal :: "int option"
  VaultsRewards :: "(int, reward) cmap"
  VaultsStats :: "vaults_stats option"
  BlockTime :: time
  Events :: "event list"
  App :: 'b

type_synonym ('b, 'a) handler = "('b world, error, 'a) prog"

subsection \<open>Coins\<close>

text \<open>
  \<open>sdk.Coins\<close> as the keeper uses it: at most one coin per denomination. \<open>sdk.NewCoin\<close> panics
  on a negative amount, \<open>sdk.NewCoins\<close> drops a zero coin.
\<close>

type_synonym coins = "(string, int) cmap"

definition AmountOf :: "coins \<Rightarrow> string \<Rightarrow> int" where
  "AmountOf c d = get_or 0 (Map_Get c d)"

definition NewCoins1 :: "string \<Rightarrow> int \<Rightarrow> coins result" where
  "NewCoins1 d a =
     (if a < 0 then Panic ''negative coin amount'' else Ok (if a = 0 then [] else [(d, a)]))"

definition IsAllPositive :: "coins \<Rightarrow> bool" where
  "IsAllPositive c = (c \<noteq> [] \<and> list_all (\<lambda>(_, a). 0 < a) c)"

definition valid_coins :: "coins \<Rightarrow> bool" where
  "valid_coins c = (map_ok c \<and> list_all (\<lambda>(_, a). 0 < a) c)"

lemma NewCoins1_Ok [ok_simps]:
  "NewCoins1 d a = Ok c \<longleftrightarrow> 0 \<le> a \<and> c = (if a = 0 then [] else [(d, a)])"
  by (auto simp: NewCoins1_def)

lemma AmountOf_NewCoins1 [simp]:
  "AmountOf (if a = 0 then [] else [(d, a)]) d' = (if d' = d then a else 0)"
  by (simp add: AmountOf_def)

lemma valid_NewCoins1: "0 \<le> a \<Longrightarrow> valid_coins (if a = 0 then [] else [(d, a)])"
  by (simp add: valid_coins_def map_ok_def)

lemma IsAllPositive_NewCoins1:
  "0 \<le> a \<Longrightarrow> IsAllPositive (if a = 0 then [] else [(d, a)]) \<longleftrightarrow> 0 < a"
  by (simp add: IsAllPositive_def)

subsection \<open>Third-party data\<close>

text \<open>The fields the keeper reads of a Wormhole VAA, a Hyperlane token and a remote router.\<close>

record vaa =
  EmitterChain :: "16 word"
  EmitterAddress :: bytes
  VaaPayload :: slice

record hyp_token =
  TokenId :: bytes
  CollateralBalance :: int

record remote_router =
  ReceiverDomain :: "32 word"

text \<open>The fields the keeper sets in an ICS-20 \<open>MsgTransfer\<close>; the timeout height is zero and the
  memo empty.\<close>

record ibc_msg =
  SourcePort :: string
  SourceChannel :: string
  TokenAmount :: int
  Sender :: string
  Receiver :: string
  TimeoutTimestamp :: "64 word"

text \<open>The arguments of \<open>warp.RemoteTransferCollateral\<close> that are not constants.\<close>

record warp_msg =
  warp_Token :: hyp_token
  warp_Sender :: string
  warp_Domain :: "32 word"
  warp_Recipient :: bytes
  warp_Amount :: int

subsection \<open>The keeper's surroundings\<close>

text \<open>
  The configuration fields of \<open>keeper.Keeper\<close>, and one field per third-party operation: the
  bank keeper (\<open>types.BankKeeper\<close>; \<open>bank_Move\<close> is the movement of coins of its \<open>SendCoins\<close>,
  after the send restriction), the account keeper, address codecs and address derivation, the
  transfer, channel and warp keepers, the Wormhole keeper, Keccak-256 and the rounding
  divisions of \<open>LegacyDec\<close>.
\<close>

record 'b env =
  denom :: string
  authority :: string
  vaultsMinimumLock :: int
  vaultsMinimumUnlock :: int
  vaultsSeasonOneEndTimestamp :: int
  vaultsSeasonTwoYieldCollector :: addr
  bank_GetBalance :: "'b \<Rightarrow> addr \<Rightarrow> string \<Rightarrow> int"
  bank_GetSupply :: "'b \<Rightarrow> string \<Rightarrow> int"
  bank_MintCoins :: "string \<Rightarrow> coins \<Rightarrow> 'b \<Rightarrow> unit result \<times> 'b"
  bank_BurnCoins :: "string \<Rightarrow> coins \<Rightarrow> 'b \<Rightarrow> unit result \<times> 'b"
  bank_Move :: "addr \<Rightarrow> addr \<Rightarrow> coins \<Rightarrow> 'b \<Rightarrow> unit result \<times> 'b"
  account_SetModuleAccount :: "string \<Rightarrow> 'b \<Rightarrow> 'b"
  StringToBytes :: "string \<Rightarrow> addr option"
  BytesToString :: "addr \<Rightarrow> string option"
  AccString :: "addr \<Rightarrow> string"
  NewModuleAddress :: "string \<Rightarrow> addr"
  GetEscrowAddress :: "string \<Rightarrow> string \<Rightarrow> addr"
  GetChannel :: "'b \<Rightarrow> string \<Rightarrow> string \<Rightarrow> bool"
  ibc_Transfer :: "ibc_msg \<Rightarrow> ('b, unit) handler"
  DefaultRelativePacketTimeout :: "64 word"
  DecodeHexAddress :: "string \<Rightarrow> bytes option"
  GetInternalId :: "bytes \<Rightarrow> 64 word"
  HypTokens :: "'b \<Rightarrow> 64 word \<Rightarrow> hyp_token option"
  EnrolledRouters :: "'b \<Rightarrow> 64 word \<Rightarrow> remote_router list"
  RemoteTransferCollateral :: "warp_msg \<Rightarrow> ('b, unit) handler"
  WarpModuleName :: string
  GetChain :: "'b \<Rightarrow> (16 word) result"
  ParseAndVerifyVAA :: "bytes \<Rightarrow> 'b \<Rightarrow> vaa result \<times> 'b"
  PostMessage :: "string \<Rightarrow> bytes \<Rightarrow> 32 word \<Rightarrow> 'b \<Rightarrow> unit result \<times> 'b"
  Keccak256 :: "bytes \<Rightarrow> bytes"
  dec_Quo :: "int \<Rightarrow> int \<Rightarrow> int result"
  dec_QuoInt :: "int \<Rightarrow> int \<Rightarrow> int result"

subsection \<open>Module accounts\<close>

definition ModuleName :: string where "ModuleName = ''dollar''"
definition YieldName :: string where "YieldName = ''dollar/yield''"
definition StakedVaultName :: string where "StakedVaultName = ''dollar/vaults/staked''"
definition FlexibleVaultName :: string where "FlexibleVaultName = ''dollar/vaults/flexible''"

definition ModuleAddress :: "'b env \<Rightarrow> addr" where
  "ModuleAddress e = NewModuleAddress e ModuleName"

definition YieldAddress :: "'b env \<Rightarrow> addr" where
  "YieldAddress e = NewModuleAddress e YieldName"

definition StakedVaultAddress :: "'b env \<Rightarrow> addr" where
  "StakedVaultAddress e = NewModuleAddress e StakedVaultName"

definition FlexibleVaultAddress :: "'b env \<Rightarrow> addr" where
  "FlexibleVaultAddress e = NewModuleAddress e FlexibleVaultName"

subsection \<open>Access to the store\<close>

text \<open>\<open>Item.Get\<close>, with \<open>collections.ErrNotFound\<close> for an item that was never set.\<close>

definition item_get :: "('b world \<Rightarrow> 'a option) \<Rightarrow> ('b, 'a) handler" where
  "item_get f = (\<lambda>w. case f w of None \<Rightarrow> (Err ErrNotFound, w) | Some x \<Rightarrow> (Ok x, w))"

text \<open>\<open>errors.Wrap(err, msg)\<close> on a call that fails.\<close>

definition wrap_err :: "string \<Rightarrow> ('b, 'a) handler \<Rightarrow> ('b, 'a) handler" where
  "wrap_err msg m = catch m (\<lambda>e. fail (Wrap e msg))"

text \<open>A call into another module, which sees and changes only its own state.\<close>

definition app_call :: "('b \<Rightarrow> 'a result \<times> 'b) \<Rightarrow> ('b, 'a) handler" where
  "app_call g = (\<lambda>w. case g (App w) of (r, b) \<Rightarrow> (r, w\<lparr>App := b\<rparr>))"

definition emit :: "event \<Rightarrow> ('b, unit) handler" where
  "emit ev = modify (\<lambda>w. w\<lparr>Events := Events w @ [ev]\<rparr>)"

definition from_option :: "error \<Rightarrow> 'a option \<Rightarrow> ('b, 'a) handler" where
  "from_option e z = (case z of None \<Rightarrow> fail e | Some x \<Rightarrow> ret x)"

lemma item_get_Ok [ok_simps]: "item_get f w = (Ok x, w') \<longleftrightarrow> f w = Some x \<and> w' = w"
  by (auto simp: item_get_def split: option.splits)

lemma item_get_Some [simp]: "f w = Some x \<Longrightarrow> item_get f w = (Ok x, w)"
  by (simp add: item_get_def)

lemma wrap_err_Ok [ok_simps]: "wrap_err msg m w = (Ok x, w') \<longleftrightarrow> m w = (Ok x, w')"
  by (simp add: wrap_err_def catch_Ok fail_Ok)

lemma app_call_Ok [ok_simps]:
  "app_call g w = (Ok x, w') \<longleftrightarrow> (\<exists>b. g (App w) = (Ok x, b) \<and> w' = w\<lparr>App := b\<rparr>)"
  by (auto simp: app_call_def split: prod.splits)

lemma emit_Ok [ok_simps]: "emit ev w = (Ok x, w') \<longleftrightarrow> w' = w\<lparr>Events := Events w @ [ev]\<rparr>"
  by (auto simp: emit_def modify_Ok)

lemma emit_run: "emit ev w = (Ok (), w\<lparr>Events := Events w @ [ev]\<rparr>)"
  by (simp add: emit_def modify_def)

lemma from_option_Ok [ok_simps]: "from_option e z w = (Ok x, w') \<longleftrightarrow> z = Some x \<and> w' = w"
  by (auto simp: from_option_def ok_simps split: option.splits)

lemma wp_item_get [wp_simps]:
  "wp (item_get f) Q E w = (case f w of None \<Rightarrow> E (Some ErrNotFound) w | Some x \<Rightarrow> Q x w)"
  by (simp add: wp_def item_get_def split: option.split)

lemma wp_wrap_err [wp_simps]:
  "wp (wrap_err msg m) Q E = wp m Q (\<lambda>r. E (map_option (\<lambda>e. Wrap e msg) r))"
  by (rule ext) (auto simp: wp_def wrap_err_def prog_simps split: prod.splits outcome.splits)

lemma wp_emit [wp_simps]: "wp (emit ev) Q E w = Q () (w\<lparr>Events := Events w @ [ev]\<rparr>)"
  by (simp add: wp_def emit_run)

lemma wp_from_option [wp_simps]:
  "wp (from_option e z) Q E w = (case z of None \<Rightarrow> E (Some e) w | Some x \<Rightarrow> Q x w)"
  by (simp add: from_option_def wp_simps split: option.split)

lemma app_call_wp [wp_simps]:
  "wp (app_call g) Q E w = wp g (\<lambda>x b. Q x (w\<lparr>App := b\<rparr>)) (\<lambda>r b. E r (w\<lparr>App := b\<rparr>)) (App w)"
  by (auto simp: wp_def app_call_def split: prod.splits outcome.splits)

lemmas handler_defs [prog_simps] = item_get_def wrap_err_def app_call_def emit_def from_option_def

text \<open>A relation between stores that is kept by every run, over the accessors above.\<close>

locale world_relation = store_relation R for R :: "'b world \<Rightarrow> 'b world \<Rightarrow> bool"
begin

lemma steps_item_get [steps_intro]: "steps R (item_get f)"
  by (simp add: steps_wp wp_simps rel_refl split: option.split)

lemma steps_wrap_err [steps_intro]: "steps R m \<Longrightarrow> steps R (wrap_err msg m)"
  unfolding wrap_err_def by (intro steps_catch steps_pure)

lemma steps_from_option [steps_intro]: "steps R (from_option err z)"
  by (simp add: from_option_def steps_pure split: option.split)

lemmas steps_control = steps_pure steps_bnd steps_thn steps_attempt steps_catch steps_for_each
  steps_fold_prog steps_if steps_case_option steps_case_sum steps_case_prod steps_let
  steps_item_get steps_wrap_err steps_from_option

end

interpretation keeps_world: world_relation "keeps P" for P
  by unfold_locales

text \<open>A \<open>math.Int\<close> of a message is nil when the field is missing; using it panics.\<close>

definition non_nil :: "'a option \<Rightarrow> ('b, 'a) handler" where
  "non_nil z = (case z of None \<Rightarrow> panic ''nil Int'' | Some x \<Rightarrow> ret x)"

end
