(* ===== verification/State.thy ===== *)
theory State
  imports Types
begin

text \<open>
  \<open>keeper/math.go\<close> and \<open>keeper/state.go\<close>: the conversions between present amounts and principal,
  and the accessors of the dollar submodule's collections, with the statistics counters and the
  retry amounts of external yield.
\<close>

subsection \<open>Principal and present amounts\<close>

definition GetPrincipalAmountRoundedUp :: "int \<Rightarrow> int \<Rightarrow> int result" where
  "GetPrincipalAmountRoundedUp presentAmount index =
     obind (Int_Mul presentAmount (10 ^ 12)) (\<lambda>x.
     obind (Int_Add x index) (\<lambda>y.
     obind (Int_Sub y 1) (\<lambda>z.
     Int_Quo z index)))"

definition GetPrincipalAmountRoundedDown :: "int \<Rightarrow> int \<Rightarrow> int result" where
  "GetPrincipalAmountRoundedDown presentAmount index =
     obind (Int_Mul presentAmount (10 ^ 12)) (\<lambda>x. Int_Quo x index)"

definition GetPresentAmount :: "int \<Rightarrow> int \<Rightarrow> int result" where
  "GetPresentAmount principalAmount index =
     obind (Int_Mul principalAmount index) (\<lambda>x. Int_Quo x (10 ^ 12))"

subsection \<open>Accessors\<close>

definition GetPaused :: "'b world \<Rightarrow> bool" where
  "GetPaused w = get_or False (Paused w)"

definition DecrementTotalHolders :: "('b, unit) handler" where
  "DecrementTotalHolders =
     bnd (item_get Stats) (\<lambda>s.
     let s' = (if TotalHolders s > 0 then s\<lparr>TotalHolders := TotalHolders s - 1\<rparr> else s)
     in modify (Stats_update (\<lambda>_. Some s')))"

definition IncrementTotalHolders :: "('b, unit) handler" where
  "IncrementTotalHolders =
     bnd (item_get Stats) (\<lambda>s.
     modify (Stats_update (\<lambda>_. Some (s\<lparr>TotalHolders := TotalHolders s + 1\<rparr>))))"

definition GetTotalPrincipal :: "('b, int) handler" where
  "GetTotalPrincipal = bnd (item_get Stats) (\<lambda>s. ret (TotalPrincipal s))"

definition DecrementTotalPrincipal :: "int \<Rightarrow> ('b, unit) handler" where
  "DecrementTotalPrincipal amount =
     bnd (item_get Stats) (\<lambda>s.
     bnd (lift (Int_SafeSub ErrIntOverflow (TotalPrincipal s) amount)) (\<lambda>p.
     modify (Stats_update (\<lambda>_. Some (s\<lparr>TotalPrincipal := p\<rparr>)))))"

definition IncrementTotalPrincipal :: "int \<Rightarrow> ('b, unit) handler" where
  "IncrementTotalPrincipal amount =
     bnd (item_get Stats) (\<lambda>s.
     bnd (lift (Int_SafeAdd ErrIntOverflow (TotalPrincipal s) amount)) (\<lambda>p.
     modify (Stats_update (\<lambda>_. Some (s\<lparr>TotalPrincipal := p\<rparr>)))))"

definition IncrementTotalYieldAccrued :: "int \<Rightarrow> ('b, unit) handler" where
  "IncrementTotalYieldAccrued amount =
     bnd (item_get Stats) (\<lambda>s.
     bnd (lift (Int_SafeAdd ErrIntOverflow (TotalYieldAccrued s) amount)) (\<lambda>y.
     modify (Stats_update (\<lambda>_. Some (s\<lparr>TotalYieldAccrued := y\<rparr>)))))"

definition IncrementTotalExternalYield :: "provider \<Rightarrow> string \<Rightarrow> int \<Rightarrow> ('b, unit) handler" where
  "IncrementTotalExternalYield p identifier amount =
     bnd (gets (\<lambda>w. get_or 0 (Map_Get (TotalExternalYield w) (p, identifier)))) (\<lambda>current.
     bnd (lift (Int_Add current amount)) (\<lambda>v.
     modify (TotalExternalYield_update (Map_Set (p, identifier) v))))"

definition GetYieldRecipientsByProvider :: "provider \<Rightarrow> 'b world \<Rightarrow> (string, string) cmap" where
  "GetYieldRecipientsByProvider p w = Map_Prefix p (YieldRecipients w)"

definition HasYieldRecipient :: "provider \<Rightarrow> string \<Rightarrow> 'b world \<Rightarrow> bool" where
  "HasYieldRecipient p identifier w = Map_Has (YieldRecipients w) (p, identifier)"

definition GetRetryAmount :: "provider \<Rightarrow> string \<Rightarrow> 'b world \<Rightarrow> int" where
  "GetRetryAmount p identifier w = get_or 0 (Map_Get (RetryAmounts w) (p, identifier))"

definition GetRetryAmountAndRemove :: "provider \<Rightarrow> string \<Rightarrow> ('b, int) handler" where
  "GetRetryAmountAndRemove p identifier =
     bnd (gets (GetRetryAmount p identifier)) (\<lambda>retryAmount.
     thn (if 0 < retryAmount then modify (RetryAmounts_update (Map_Remove (p, identifier)))
          else ret ())
     (ret retryAmount))"

definition IncrementRetryAmount :: "provider \<Rightarrow> string \<Rightarrow> int \<Rightarrow> ('b, unit) handler" where
  "IncrementRetryAmount p identifier amount =
     bnd (gets (GetRetryAmount p identifier)) (\<lambda>retryAmount.
     bnd (lift (Int_Add retryAmount amount)) (\<lambda>v.
     modify (RetryAmounts_update (Map_Set (p, identifier) v))))"

subsection \<open>Facts about the conversions\<close>

lemma RoundedDown_Ok:
  "GetPrincipalAmountRoundedDown a i = Ok p \<longleftrightarrow>
     fits (a * 10 ^ 12) \<and> i \<noteq> 0 \<and> p = (a * 10 ^ 12) sdiv i"
  by (auto simp: GetPrincipalAmountRoundedDown_def obind_eq_Ok ok_simps)

lemma RoundedUp_Ok:
  "GetPrincipalAmountRoundedUp a i = Ok p \<longleftrightarrow>
     fits (a * 10 ^ 12) \<and> fits (a * 10 ^ 12 + i) \<and> fits (a * 10 ^ 12 + i - 1) \<and> i \<noteq> 0 \<and>
     p = (a * 10 ^ 12 + i - 1) sdiv i"
  by (auto simp: GetPrincipalAmountRoundedUp_def obind_eq_Ok ok_simps)

lemma PresentAmount_Ok:
  "GetPresentAmount p i = Ok a \<longleftrightarrow> fits (p * i) \<and> a = (p * i) sdiv 10 ^ 12"
  by (auto simp: GetPresentAmount_def obind_eq_Ok ok_simps)

lemma conversions_no_Err [simp]:
  "GetPrincipalAmountRoundedUp a i \<noteq> Err e"
  "GetPrincipalAmountRoundedDown a i \<noteq> Err e"
  "GetPresentAmount p i \<noteq> Err e"
  by (auto simp: GetPrincipalAmountRoundedUp_def GetPrincipalAmountRoundedDown_def
      GetPresentAmount_def obind_def split: outcome.splits)

lemma rounding_gap:
  assumes "0 < (i::int)"
  shows "x div i \<le> (x + i - 1) div i" "(x + i - 1) div i \<le> x div i + 1"
    "x \<le> (x + i - 1) div i * i"
proof -
  show "x div i \<le> (x + i - 1) div i" using assms by (intro zdiv_mono1) simp_all
  have "(x + i - 1) div i \<le> (x + i) div i" using assms by (intro zdiv_mono1) simp_all
  moreover have "(x + i) div i = x div i + 1"
    using assms by (metis div_add_self2 less_irrefl)
  ultimately show "(x + i - 1) div i \<le> x div i + 1" by linarith
  show "x \<le> (x + i - 1) div i * i"
    using int_less_div_mult [OF assms, of "x + i - 1"] by simp
qed

lemma rounded_down_le_up:
  assumes "GetPrincipalAmountRoundedDown a i = Ok d" "GetPrincipalAmountRoundedUp a i = Ok u"
    "0 \<le> a" "0 < i"
  shows "0 \<le> d" "d \<le> u" "u \<le> d + 1"
proof -
  have "d = (a * 10 ^ 12) div i" "u = (a * 10 ^ 12 + i - 1) div i"
    using assms by (auto simp: RoundedDown_Ok RoundedUp_Ok sdiv_nonneg)
  with rounding_gap [OF assms(4), of "a * 10 ^ 12"] show "d \<le> u" "u \<le> d + 1" by simp_all
  show "0 \<le> d" using assms \<open>d = _\<close> by (simp add: pos_imp_zdiv_nonneg_iff)
qed

lemma rounded_up_nonneg:
  "GetPrincipalAmountRoundedUp a i = Ok u \<Longrightarrow> 0 \<le> a \<Longrightarrow> 0 < i \<Longrightarrow> 0 \<le> u"
  by (auto simp: RoundedUp_Ok sdiv_nonneg_result)

lemma rounded_down_nonneg:
  "GetPrincipalAmountRoundedDown a i = Ok u \<Longrightarrow> 0 \<le> a \<Longrightarrow> 0 < i \<Longrightarrow> 0 \<le> u"
  by (auto simp: RoundedDown_Ok sdiv_nonneg_result)

lemma rounded_up_covers:
  assumes "GetPrincipalAmountRoundedUp a i = Ok u" "0 \<le> a" "0 < i"
  shows "a * 10 ^ 12 \<le> u * i" "u * i < a * 10 ^ 12 + i"
proof -
  have u: "u = (a * 10 ^ 12 + i - 1) div i" using assms by (auto simp: RoundedUp_Ok sdiv_nonneg)
  show "a * 10 ^ 12 \<le> u * i" unfolding u by (rule rounding_gap [OF assms(3)])
  show "u * i < a * 10 ^ 12 + i"
    unfolding u using int_div_mult_le [OF assms(3), of "a * 10 ^ 12 + i - 1"] by linarith
qed

lemma rounded_down_covered:
  assumes "GetPrincipalAmountRoundedDown a i = Ok d" "0 \<le> a" "0 < i"
  shows "d * i \<le> a * 10 ^ 12" "a * 10 ^ 12 < d * i + i"
proof -
  have d: "d = (a * 10 ^ 12) div i" using assms by (auto simp: RoundedDown_Ok sdiv_nonneg)
  show "d * i \<le> a * 10 ^ 12" "a * 10 ^ 12 < d * i + i"
    unfolding d using int_div_mult_le [OF assms(3)] int_less_div_mult [OF assms(3)] by simp_all
qed

lemma present_bounds:
  assumes "GetPresentAmount p i = Ok a" "0 \<le> p * i"
  shows "0 \<le> a" "a * 10 ^ 12 \<le> p * i" "p * i < a * 10 ^ 12 + 10 ^ 12"
proof -
  have a: "a = (p * i) div 10 ^ 12" using assms by (auto simp: PresentAmount_Ok sdiv_nonneg)
  show "0 \<le> a" using assms(2) by (simp add: a)
  show "a * 10 ^ 12 \<le> p * i" "p * i < a * 10 ^ 12 + 10 ^ 12"
    unfolding a using int_div_mult_le [of "10 ^ 12" "p * i"] int_less_div_mult [of "10 ^ 12" "p * i"]
    by simp_all
qed

lemma present_mono:
  assumes "GetPresentAmount p i = Ok a" "GetPresentAmount q j = Ok b" "p * i \<le> q * j"
  shows "a \<le> b"
  using assms by (auto simp: PresentAmount_Ok intro: sdiv_mono)

subsection \<open>Runs of the accessors\<close>

lemma state_Ok [ok_simps]:
  "DecrementTotalHolders w = (Ok x, w') \<longleftrightarrow> (\<exists>s. Stats w = Some s \<and>
     w' = w\<lparr>Stats := Some (if TotalHolders s > 0 then s\<lparr>TotalHolders := TotalHolders s - 1\<rparr> else s)\<rparr>)"
  "IncrementTotalHolders w = (Ok x, w') \<longleftrightarrow> (\<exists>s. Stats w = Some s \<and>
     w' = w\<lparr>Stats := Some (s\<lparr>TotalHolders := TotalHolders s + 1\<rparr>)\<rparr>)"
  "GetTotalPrincipal w = (Ok v, w') \<longleftrightarrow> (\<exists>s. Stats w = Some s \<and> v = TotalPrincipal s \<and> w' = w)"
  "DecrementTotalPrincipal a w = (Ok x, w') \<longleftrightarrow> (\<exists>s. Stats w = Some s \<and>
     fits (TotalPrincipal s - a) \<and>
     w' = w\<lparr>Stats := Some (s\<lparr>TotalPrincipal := TotalPrincipal s - a\<rparr>)\<rparr>)"
  "IncrementTotalPrincipal a w = (Ok x, w') \<longleftrightarrow> (\<exists>s. Stats w = Some s \<and>
     fits (TotalPrincipal s + a) \<and>
     w' = w\<lparr>Stats := Some (s\<lparr>TotalPrincipal := TotalPrincipal s + a\<rparr>)\<rparr>)"
  "IncrementTotalYieldAccrued a w = (Ok x, w') \<longleftrightarrow> (\<exists>s. Stats w = Some s \<and>
     fits (TotalYieldAccrued s + a) \<and>
     w' = w\<lparr>Stats := Some (s\<lparr>TotalYieldAccrued := TotalYieldAccrued s + a\<rparr>)\<rparr>)"
  unfolding DecrementTotalHolders_def IncrementTotalHolders_def GetTotalPrincipal_def
    DecrementTotalPrincipal_def IncrementTotalPrincipal_def IncrementTotalYieldAccrued_def
    Let_def ok_simps by blast+

lemma retry_Ok [ok_simps]:
  "IncrementTotalExternalYield p i a w = (Ok x, w') \<longleftrightarrow>
     (let v = get_or 0 (Map_Get (TotalExternalYield w) (p, i)) + a in
      fits v \<and> w' = TotalExternalYield_update (Map_Set (p, i) v) w)"
  "GetRetryAmountAndRemove p i w = (Ok r, w') \<longleftrightarrow> r = GetRetryAmount p i w \<and>
     w' = (if 0 < r then RetryAmounts_update (Map_Remove (p, i)) w else w)"
  "IncrementRetryAmount p i a w = (Ok x, w') \<longleftrightarrow>
     fits (GetRetryAmount p i w + a) \<and>
     w' = RetryAmounts_update (Map_Set (p, i) (GetRetryAmount p i w + a)) w"
  by (auto simp: IncrementTotalExternalYield_def GetRetryAmountAndRemove_def
      IncrementRetryAmount_def Let_def ok_simps split: if_splits)

lemma wp_stats [wp_simps]:
  "wp DecrementTotalHolders Q E w = (case Stats w of None \<Rightarrow> E (Some ErrNotFound) w
     | Some s \<Rightarrow> Q () (w\<lparr>Stats := Some (if TotalHolders s > 0
         then s\<lparr>TotalHolders := TotalHolders s - 1\<rparr> else s)\<rparr>))"
  "wp IncrementTotalHolders Q E w = (case Stats w of None \<Rightarrow> E (Some ErrNotFound) w
     | Some s \<Rightarrow> Q () (w\<lparr>Stats := Some (s\<lparr>TotalHolders := TotalHolders s + 1\<rparr>)\<rparr>))"
  "wp (DecrementTotalPrincipal a) Q E w = (case Stats w of None \<Rightarrow> E (Some ErrNotFound) w
     | Some s \<Rightarrow> if fits (TotalPrincipal s - a)
         then Q () (w\<lparr>Stats := Some (s\<lparr>TotalPrincipal := TotalPrincipal s - a\<rparr>)\<rparr>)
         else E (Some ErrIntOverflow) w)"
  "wp (IncrementTotalPrincipal a) Q E w = (case Stats w of None \<Rightarrow> E (Some ErrNotFound) w
     | Some s \<Rightarrow> if fits (TotalPrincipal s + a)
         then Q () (w\<lparr>Stats := Some (s\<lparr>TotalPrincipal := TotalPrincipal s + a\<rparr>)\<rparr>)
         else E (Some ErrIntOverflow) w)"
  "wp (IncrementTotalYieldAccrued a) Q E w = (case Stats w of None \<Rightarrow> E (Some ErrNotFound) w
     | Some s \<Rightarrow> if fits (TotalYieldAccrued s + a)
         then Q () (w\<lparr>Stats := Some (s\<lparr>TotalYieldAccrued := TotalYieldAccrued s + a\<rparr>)\<rparr>)
         else E (Some ErrIntOverflow) w)"
  by (simp_all add: DecrementTotalHolders_def IncrementTotalHolders_def DecrementTotalPrincipal_def
      IncrementTotalPrincipal_def IncrementTotalYieldAccrued_def Int_SafeAdd_def Int_SafeSub_def
      wp_simps split: option.split)

lemma wp_GetTotalPrincipal [wp_simps]:
  "wp GetTotalPrincipal Q E w = (case Stats w of None \<Rightarrow> E (Some ErrNotFound) w
     | Some s \<Rightarrow> Q (TotalPrincipal s) w)"
  by (simp add: GetTotalPrincipal_def wp_simps split: option.split)

lemma wp_retry [wp_simps]:
  "wp (IncrementTotalExternalYield p i a) Q E w =
     (let v = get_or 0 (Map_Get (TotalExternalYield w) (p, i)) + a in
      if fits v then Q () (TotalExternalYield_update (Map_Set (p, i) v) w)
      else E None w)"
  "wp (IncrementRetryAmount p i a) Q E w =
     (if fits (GetRetryAmount p i w + a)
      then Q () (RetryAmounts_update (Map_Set (p, i) (GetRetryAmount p i w + a)) w)
      else E None w)"
  by (simp_all add: IncrementTotalExternalYield_def IncrementRetryAmount_def Int_Add_def
      checked_def Let_def wp_simps)

lemma wp_GetRetryAmountAndRemove [wp_simps]:
  "wp (GetRetryAmountAndRemove p i) Q E w =
     Q (GetRetryAmount p i w)
       (if 0 < GetRetryAmount p i w then RetryAmounts_update (Map_Remove (p, i)) w else w)"
  by (simp add: GetRetryAmountAndRemove_def wp_simps)

end
