(* ===== verification/Bank.thy ===== *)
theory Bank
  imports Types
begin

text \<open>
  The bank keeper. \<open>types.BankKeeper\<close> is an interface; the locale \<open>bank_keeper\<close> states what the
  dollar keeper relies on of an implementation: how balances and supply change when an
  operation succeeds, that a failing operation changes nothing, and that a transfer covered by
  the sender's balance succeeds. The implementation of \<open>utils/mocks/bank.go\<close>, which the
  keeper's tests run on, is modelled below and shown to satisfy the interface.
\<close>

subsection \<open>The interface\<close>

locale bank_keeper =
  fixes GetBalance :: "'b \<Rightarrow> addr \<Rightarrow> string \<Rightarrow> int"
    and GetSupply :: "'b \<Rightarrow> string \<Rightarrow> int"
    and MintCoins :: "string \<Rightarrow> coins \<Rightarrow> 'b \<Rightarrow> unit result \<times> 'b"
    and BurnCoins :: "string \<Rightarrow> coins \<Rightarrow> 'b \<Rightarrow> unit result \<times> 'b"
    and Move :: "addr \<Rightarrow> addr \<Rightarrow> coins \<Rightarrow> 'b \<Rightarrow> unit result \<times> 'b"
    and module_address :: "string \<Rightarrow> addr"
    and valid :: "'b \<Rightarrow> bool"
  assumes balance_nonneg: "valid b \<Longrightarrow> 0 \<le> GetBalance b a d"
    and mint_ok: "MintCoins n c b = (Ok u, b') \<Longrightarrow> valid b \<Longrightarrow> valid_coins c \<Longrightarrow>
      valid b' \<and> GetBalance b' a d
        = GetBalance b a d + (if a = module_address n then AmountOf c d else 0) \<and>
      GetSupply b' d = GetSupply b d + AmountOf c d"
    and burn_ok: "BurnCoins n c b = (Ok u, b') \<Longrightarrow> valid b \<Longrightarrow> valid_coins c \<Longrightarrow>
      valid b' \<and> GetBalance b' a d
        = GetBalance b a d - (if a = module_address n then AmountOf c d else 0) \<and>
      GetSupply b' d = GetSupply b d - AmountOf c d"
    and move_ok: "Move f t c b = (Ok u, b') \<Longrightarrow> valid b \<Longrightarrow> valid_coins c \<Longrightarrow>
      valid b' \<and> AmountOf c d \<le> GetBalance b f d \<and>
      GetBalance b' a d = GetBalance b a d - (if a = f then AmountOf c d else 0)
        + (if a = t then AmountOf c d else 0) \<and>
      GetSupply b' d = GetSupply b d"
    and mint_err: "MintCoins n c b = (Err x, b') \<Longrightarrow> b' = b"
    and burn_err: "BurnCoins n c b = (Err x, b') \<Longrightarrow> b' = b"
    and move_err: "Move f t c b = (Err x, b') \<Longrightarrow> b' = b"
    and move_covered: "valid b \<Longrightarrow> valid_coins c \<Longrightarrow> (\<And>d. AmountOf c d \<le> GetBalance b f d) \<Longrightarrow>
      (\<And>d. fits (GetBalance b t d + AmountOf c d)) \<Longrightarrow> (\<And>d. fits (GetBalance b f d)) \<Longrightarrow>
      fst (Move f t c b) = Ok ()"
begin

lemma mint_valid: "MintCoins n c b = (Ok u, b') \<Longrightarrow> valid b \<Longrightarrow> valid_coins c \<Longrightarrow> valid b'"
  using mint_ok by blast

lemma mint_balance: "MintCoins n c b = (Ok u, b') \<Longrightarrow> valid b \<Longrightarrow> valid_coins c \<Longrightarrow>
    GetBalance b' a d = GetBalance b a d + (if a = module_address n then AmountOf c d else 0)"
  using mint_ok by blast

lemma mint_supply: "MintCoins n c b = (Ok u, b') \<Longrightarrow> valid b \<Longrightarrow> valid_coins c \<Longrightarrow>
    GetSupply b' d = GetSupply b d + AmountOf c d"
  using mint_ok by blast

lemma burn_valid: "BurnCoins n c b = (Ok u, b') \<Longrightarrow> valid b \<Longrightarrow> valid_coins c \<Longrightarrow> valid b'"
  using burn_ok by blast

lemma burn_balance: "BurnCoins n c b = (Ok u, b') \<Longrightarrow> valid b \<Longrightarrow> valid_coins c \<Longrightarrow>
    GetBalance b' a d = GetBalance b a d - (if a = module_address n then AmountOf c d else 0)"
  using burn_ok by blast

lemma burn_supply: "BurnCoins n c b = (Ok u, b') \<Longrightarrow> valid b \<Longrightarrow> valid_coins c \<Longrightarrow>
    GetSupply b' d = GetSupply b d - AmountOf c d"
  using burn_ok by blast

lemma move_valid: "Move f t c b = (Ok u, b') \<Longrightarrow> valid b \<Longrightarrow> valid_coins c \<Longrightarrow> valid b'"
  using move_ok by blast

lemma move_balance: "Move f t c b = (Ok u, b') \<Longrightarrow> valid b \<Longrightarrow> valid_coins c \<Longrightarrow>
    GetBalance b' a d = GetBalance b a d - (if a = f then AmountOf c d else 0)
      + (if a = t then AmountOf c d else 0)"
  using move_ok by blast

lemma move_supply: "Move f t c b = (Ok u, b') \<Longrightarrow> valid b \<Longrightarrow> valid_coins c \<Longrightarrow>
    GetSupply b' d = GetSupply b d"
  using move_ok by blast

lemma move_enough: "Move f t c b = (Ok u, b') \<Longrightarrow> valid b \<Longrightarrow> valid_coins c \<Longrightarrow>
    AmountOf c d \<le> GetBalance b f d"
  using move_ok by blast

lemmas move_facts = move_valid move_balance move_supply
lemmas mint_facts = mint_valid mint_balance mint_supply
lemmas burn_facts = burn_valid burn_balance burn_supply

text \<open>Issuance: what is minted to a module and moved on from it reaches the recipient only.\<close>

lemma mint_then_move:
  assumes mint: "MintCoins n c b = (Ok u, b1)" and move: "Move (module_address n) t c b1 = (Ok v, b2)"
    and "valid b" "valid_coins c"
  shows "valid b2"
    "GetBalance b2 a d = GetBalance b a d + (if a = t then AmountOf c d else 0)"
    "GetSupply b2 d = GetSupply b d + AmountOf c d"
  using mint_facts [OF mint assms(3,4)] move_facts [OF move _ assms(4)] by auto

text \<open>Redemption: what is moved to a module and burned there leaves the sender only.\<close>

lemma move_then_burn:
  assumes move: "Move f (module_address n) c b = (Ok u, b1)" and burn: "BurnCoins n c b1 = (Ok v, b2)"
    and "valid b" "valid_coins c"
  shows "valid b2"
    "GetBalance b2 a d = GetBalance b a d - (if a = f then AmountOf c d else 0)"
    "GetSupply b2 d = GetSupply b d - AmountOf c d"
  using move_facts [OF move assms(3,4)] burn_facts [OF burn _ assms(4)] by auto

end

subsection \<open>The implementation of \<open>utils/mocks\<close>\<close>

record mock_app =
  Balances :: "(addr, coins) cmap"
  Accounts :: "(addr, string) cmap"

text \<open>\<open>Coins.Add\<close> and \<open>Coins.SafeSub\<close>, coin by coin; zero coins are removed.\<close>

definition put_coin :: "string \<Rightarrow> int \<Rightarrow> coins \<Rightarrow> coins" where
  "put_coin d a c = (if a = 0 then Map_Remove d c else Map_Set d a c)"

fun Coins_Add :: "coins \<Rightarrow> coins \<Rightarrow> coins result" where
  "Coins_Add c [] = Ok c"
| "Coins_Add c ((d, a) # amt) =
     obind (Int_Add (AmountOf c d) a) (\<lambda>s. Coins_Add (put_coin d s c) amt)"

fun Coins_Sub :: "coins \<Rightarrow> coins \<Rightarrow> coins result" where
  "Coins_Sub c [] = Ok c"
| "Coins_Sub c ((d, a) # amt) =
     obind (Int_Sub (AmountOf c d) a) (\<lambda>s. Coins_Sub (put_coin d s c) amt)"

definition Coins_SafeSub :: "coins \<Rightarrow> coins \<Rightarrow> (coins \<times> bool) result" where
  "Coins_SafeSub c amt =
     obind (Coins_Sub c amt) (\<lambda>s. Ok (s, list_ex (\<lambda>(_, a). a < 0) s))"

definition balance_of :: "mock_app \<Rightarrow> addr \<Rightarrow> coins" where
  "balance_of b a = get_or [] (Map_Get (Balances b) a)"

definition set_balance :: "addr \<Rightarrow> coins \<Rightarrow> mock_app \<Rightarrow> mock_app" where
  "set_balance a c b = b\<lparr>Balances := Map_Set a c (Balances b)\<rparr>"

definition mock_GetBalance :: "mock_app \<Rightarrow> addr \<Rightarrow> string \<Rightarrow> int" where
  "mock_GetBalance b a d = AmountOf (balance_of b a) d"

definition mock_GetSupply :: "mock_app \<Rightarrow> string \<Rightarrow> int" where
  "mock_GetSupply b d = total_of (\<lambda>_ c. AmountOf c d) (Balances b)"

definition mock_MintCoins ::
    "(string \<Rightarrow> addr) \<Rightarrow> string \<Rightarrow> coins \<Rightarrow> mock_app \<Rightarrow> unit result \<times> mock_app" where
  "mock_MintCoins module_address moduleName amt =
     (let address = module_address moduleName in
      bnd (gets (\<lambda>b. balance_of b address)) (\<lambda>balance.
      bnd (lift (Coins_Add balance amt)) (\<lambda>newBalance.
      modify (set_balance address newBalance))))"

definition mock_BurnCoins ::
    "(string \<Rightarrow> addr) \<Rightarrow> string \<Rightarrow> coins \<Rightarrow> mock_app \<Rightarrow> unit result \<times> mock_app" where
  "mock_BurnCoins module_address moduleName amt =
     (let address = module_address moduleName in
      bnd (gets (\<lambda>b. balance_of b address)) (\<lambda>balance.
      bnd (lift (Coins_SafeSub balance amt)) (\<lambda>(newBalance, negative).
      if negative then fail (Wrap ErrInsufficientFunds ''balance is smaller'')
      else modify (set_balance address newBalance))))"

text \<open>\<open>SendCoins\<close> after the send restriction has returned the recipient.\<close>

definition mock_Move :: "addr \<Rightarrow> addr \<Rightarrow> coins \<Rightarrow> mock_app \<Rightarrow> unit result \<times> mock_app" where
  "mock_Move fromAddr toAddr amt =
     bnd (gets (\<lambda>b. balance_of b fromAddr)) (\<lambda>balance.
     bnd (lift (Coins_SafeSub balance amt)) (\<lambda>(newBalance, negative).
     if negative then fail (Wrap ErrInsufficientFunds ''balance is smaller'')
     else
       thn (modify (set_balance fromAddr newBalance))
       (bnd (gets (\<lambda>b. balance_of b toAddr)) (\<lambda>toBalance.
        bnd (lift (Coins_Add toBalance amt)) (\<lambda>toNew.
        modify (set_balance toAddr toNew))))))"

definition mock_SetModuleAccount :: "(string \<Rightarrow> addr) \<Rightarrow> string \<Rightarrow> mock_app \<Rightarrow> mock_app" where
  "mock_SetModuleAccount module_address name b =
     b\<lparr>Accounts := Map_Set (module_address name) name (Accounts b)\<rparr>"

definition mock_valid :: "mock_app \<Rightarrow> bool" where
  "mock_valid b = (map_ok (Balances b) \<and> list_all (\<lambda>(_, c). valid_coins c) (Balances b))"

subsection \<open>The implementation satisfies the interface\<close>

lemma AmountOf_put [simp]: "AmountOf (put_coin d a c) d' = (if d' = d then a else AmountOf c d')"
  by (simp add: put_coin_def AmountOf_def)

lemma AmountOf_Cons: "AmountOf ((d, a) # c) d' = (if d' = d then a else AmountOf c d')"
  by (simp add: AmountOf_def)

lemma AmountOf_absent: "d \<notin> fst ` set c \<Longrightarrow> AmountOf c d = 0"
  by (simp add: AmountOf_def map_of_eq_None_iff [THEN iffD2])

lemma map_ok_put: "map_ok c \<Longrightarrow> map_ok (put_coin d a c)"
  by (simp add: put_coin_def map_ok_Set map_ok_Remove)

lemma map_ok_ConsD: "map_ok ((d, a) # c) \<Longrightarrow> map_ok c \<and> d \<notin> fst ` set c"
  by (auto simp: map_ok_def)

lemma Coins_Add_spec:
  "Coins_Add c amt = Ok s \<Longrightarrow> map_ok amt \<Longrightarrow> map_ok c \<Longrightarrow>
     map_ok s \<and> (\<forall>d. AmountOf s d = AmountOf c d + AmountOf amt d)"
proof (induction c amt rule: Coins_Add.induct)
  case (2 c d a amt)
  let ?c = "put_coin d (AmountOf c d + a) c"
  from "2.prems" have run: "Coins_Add ?c amt = Ok s"
    by (auto simp: obind_eq_Ok ok_simps)
  have amt: "map_ok amt" "AmountOf amt d = 0"
    using map_ok_ConsD [OF "2.prems"(2)] by (auto simp: AmountOf_absent)
  have "map_ok s \<and> (\<forall>x. AmountOf s x = AmountOf ?c x + AmountOf amt x)"
    using run amt(1) map_ok_put [OF "2.prems"(3)] by (rule "2.IH")
  with amt(2) show ?case by (simp add: AmountOf_Cons)
qed (simp add: AmountOf_def)

lemma Coins_Sub_spec:
  "Coins_Sub c amt = Ok s \<Longrightarrow> map_ok amt \<Longrightarrow> map_ok c \<Longrightarrow>
     map_ok s \<and> (\<forall>d. AmountOf s d = AmountOf c d - AmountOf amt d)"
proof (induction c amt rule: Coins_Sub.induct)
  case (2 c d a amt)
  let ?c = "put_coin d (AmountOf c d - a) c"
  from "2.prems" have run: "Coins_Sub ?c amt = Ok s"
    by (auto simp: obind_eq_Ok ok_simps)
  have amt: "map_ok amt" "AmountOf amt d = 0"
    using map_ok_ConsD [OF "2.prems"(2)] by (auto simp: AmountOf_absent)
  have "map_ok s \<and> (\<forall>x. AmountOf s x = AmountOf ?c x - AmountOf amt x)"
    using run amt(1) map_ok_put [OF "2.prems"(3)] by (rule "2.IH")
  with amt(2) show ?case by (simp add: AmountOf_Cons)
qed (simp add: AmountOf_def)

text \<open>A ledger entry never holds a zero coin, so it is valid exactly if no amount is negative.\<close>

definition no_zero :: "coins \<Rightarrow> bool" where
  "no_zero c \<longleftrightarrow> (\<forall>d. Map_Get c d \<noteq> Some 0)"

lemma no_zero_put: "no_zero c \<Longrightarrow> no_zero (put_coin d a c)"
  by (simp add: no_zero_def put_coin_def)

lemma no_zero_Add: "Coins_Add c amt = Ok s \<Longrightarrow> no_zero c \<Longrightarrow> no_zero s"
  by (induction c amt rule: Coins_Add.induct) (auto simp: obind_eq_Ok intro: no_zero_put)

lemma no_zero_Sub: "Coins_Sub c amt = Ok s \<Longrightarrow> no_zero c \<Longrightarrow> no_zero s"
  by (induction c amt rule: Coins_Sub.induct) (auto simp: obind_eq_Ok intro: no_zero_put)

lemma entries_positive_iff:
  "map_ok c \<Longrightarrow> list_all (\<lambda>(_, a). P a) c \<longleftrightarrow> (\<forall>d a. Map_Get c d = Some a \<longrightarrow> P a)"
  by (auto simp: list_all_iff cmap.in_entries_iff)

lemma nonneg_entries_iff: "map_ok c \<Longrightarrow> list_all (\<lambda>(_, a). 0 \<le> a) c \<longleftrightarrow> (\<forall>d. 0 \<le> AmountOf c d)"
  by (auto simp: entries_positive_iff AmountOf_def get_or_def split: option.splits)

lemma valid_coins_iff:
  "valid_coins c \<longleftrightarrow> map_ok c \<and> no_zero c \<and> (\<forall>d. 0 \<le> AmountOf c d)"
proof -
  have "(\<forall>d a. Map_Get c d = Some a \<longrightarrow> 0 < a)
      \<longleftrightarrow> no_zero c \<and> (\<forall>d a. Map_Get c d = Some a \<longrightarrow> 0 \<le> a)"
    unfolding no_zero_def order_less_le by blast
  moreover have "list_all (\<lambda>(_, a). 0 < a) c = (\<forall>d a. Map_Get c d = Some a \<longrightarrow> 0 < a)"
    "(\<forall>d. 0 \<le> AmountOf c d) = (\<forall>d a. Map_Get c d = Some a \<longrightarrow> 0 \<le> a)" if "map_ok c"
    using that by (simp_all add: entries_positive_iff nonneg_entries_iff [symmetric])
  ultimately show ?thesis unfolding valid_coins_def by blast
qed

lemma valid_coinsD: "valid_coins c \<Longrightarrow> map_ok c" "valid_coins c \<Longrightarrow> no_zero c"
    "valid_coins c \<Longrightarrow> 0 \<le> AmountOf c d"
  by (simp_all add: valid_coins_iff)

lemma Coins_Add_valid:
  assumes "Coins_Add c amt = Ok s" "valid_coins c" "valid_coins amt"
  shows "valid_coins s" "AmountOf s d = AmountOf c d + AmountOf amt d"
  using Coins_Add_spec [OF assms(1)] no_zero_Add [OF assms(1)] assms(2,3)
  by (auto simp: valid_coins_iff)

lemma Coins_SafeSub_valid:
  assumes run: "Coins_SafeSub c amt = Ok (s, neg)" and c: "valid_coins c" and amt: "valid_coins amt"
  shows "AmountOf s d = AmountOf c d - AmountOf amt d"
    "neg \<longleftrightarrow> (\<exists>d. AmountOf c d < AmountOf amt d)" "\<not> neg \<Longrightarrow> valid_coins s"
proof -
  from run have sub: "Coins_Sub c amt = Ok s" and neg: "neg = list_ex (\<lambda>(_, a). a < 0) s"
    by (auto simp: Coins_SafeSub_def obind_eq_Ok)
  note spec = Coins_Sub_spec [OF sub valid_coinsD(1) [OF amt] valid_coinsD(1) [OF c]]
  then show amount: "AmountOf s d = AmountOf c d - AmountOf amt d" for d by simp
  have "\<not> neg \<longleftrightarrow> list_all (\<lambda>(_, a). 0 \<le> a) s"
    by (auto simp: neg list_ex_iff list_all_iff not_less)
  also have "\<dots> \<longleftrightarrow> (\<forall>d. 0 \<le> AmountOf s d)"
    using spec by (simp add: nonneg_entries_iff)
  finally have nonneg: "\<not> neg \<longleftrightarrow> (\<forall>d. 0 \<le> AmountOf s d)" .
  then have "neg \<longleftrightarrow> \<not> (\<forall>d. 0 \<le> AmountOf s d)" by blast
  then show "neg \<longleftrightarrow> (\<exists>d. AmountOf c d < AmountOf amt d)"
    by (simp add: amount not_le)
  show "valid_coins s" if "\<not> neg"
    using that nonneg spec no_zero_Sub [OF sub] valid_coinsD(2) [OF c]
    by (simp add: valid_coins_iff)
qed

lemma valid_balance_of: "mock_valid b \<Longrightarrow> valid_coins (balance_of b a)"
proof (cases "Map_Get (Balances b) a")
  case None
  then show ?thesis by (simp add: balance_of_def valid_coins_def)
next
  case (Some c)
  assume "mock_valid b"
  with Some have "(a, c) \<in> set (Balances b)" "list_all (\<lambda>(_, c). valid_coins c) (Balances b)"
    by (simp_all add: mock_valid_def map_of_SomeD)
  with Some show ?thesis by (auto simp: balance_of_def list_all_iff)
qed

lemma valid_set_balance: "mock_valid b \<Longrightarrow> valid_coins c \<Longrightarrow> mock_valid (set_balance a c b)"
  by (auto simp: mock_valid_def set_balance_def map_ok_Set entries_positive_iff)

lemma balance_of_set [simp]:
  "balance_of (set_balance a c b) a' = (if a' = a then c else balance_of b a')"
  by (simp add: balance_of_def set_balance_def)

lemma supply_set:
  assumes "mock_valid b"
  shows "mock_GetSupply (set_balance a c b) d
    = mock_GetSupply b d - AmountOf (balance_of b a) d + AmountOf c d"
  using assms cmap.total_put [of "Balances b" "\<lambda>_ c. AmountOf c d" a c]
  by (simp add: mock_valid_def mock_GetSupply_def set_balance_def balance_of_def get_or_def
      AmountOf_def split: option.splits)

lemmas mock_defs = mock_GetBalance_def mock_MintCoins_def mock_BurnCoins_def mock_Move_def

lemma mock_MintCoins_Ok:
  "mock_MintCoins ma n c b = (Ok u, b') \<longleftrightarrow>
     (\<exists>s. Coins_Add (balance_of b (ma n)) c = Ok s \<and> b' = set_balance (ma n) s b)"
  by (auto simp: mock_MintCoins_def Let_def ok_simps)

lemma mock_BurnCoins_Ok:
  "mock_BurnCoins ma n c b = (Ok u, b') \<longleftrightarrow>
     (\<exists>s. Coins_SafeSub (balance_of b (ma n)) c = Ok (s, False) \<and> b' = set_balance (ma n) s b)"
  by (auto simp: mock_BurnCoins_def Let_def ok_simps split: prod.splits if_splits)

lemma mock_Move_Ok:
  "mock_Move f t c b = (Ok u, b') \<longleftrightarrow>
     (\<exists>s r. Coins_SafeSub (balance_of b f) c = Ok (s, False) \<and>
        Coins_Add (balance_of (set_balance f s b) t) c = Ok r \<and>
        b' = set_balance t r (set_balance f s b))"
  unfolding mock_Move_def ok_simps by (auto; blast)

lemma Coins_no_Err: "Coins_Add c amt \<noteq> Err x" "Coins_SafeSub c amt \<noteq> Err x"
proof -
  have sub: "Coins_Sub c amt \<noteq> Err x" for c
    by (induction c amt rule: Coins_Sub.induct) (auto simp: obind_def split: outcome.splits)
  show "Coins_SafeSub c amt \<noteq> Err x"
    using sub by (auto simp: Coins_SafeSub_def obind_def split: outcome.splits)
  show "Coins_Add c amt \<noteq> Err x"
    by (induction c amt rule: Coins_Add.induct) (auto simp: obind_def split: outcome.splits)
qed

lemma mock_MintCoins_Err: "mock_MintCoins ma n c b = (Err x, b') \<Longrightarrow> b' = b"
  by (auto simp: mock_MintCoins_def Let_def prog_simps split: outcome.splits)

lemma mock_BurnCoins_Err: "mock_BurnCoins ma n c b = (Err x, b') \<Longrightarrow> b' = b"
  by (auto simp: mock_BurnCoins_def Let_def prog_simps split: outcome.splits prod.splits if_splits)

lemma mock_Move_Err: "mock_Move f t c b = (Err x, b') \<Longrightarrow> b' = b"
  using Coins_no_Err(1)
  by (fastforce simp: mock_Move_def prog_simps split: outcome.splits prod.splits if_splits)

lemma Coins_Sub_runs:
  "map_ok amt \<Longrightarrow> (\<And>d. fits (AmountOf c d - AmountOf amt d)) \<Longrightarrow> \<exists>s. Coins_Sub c amt = Ok s"
proof (induction c amt rule: Coins_Sub.induct)
  case (2 c d a amt)
  have amt: "map_ok amt" "AmountOf amt d = 0"
    using map_ok_ConsD [OF "2.prems"(1)] by (auto simp: AmountOf_absent)
  have d: "fits (AmountOf c d - a)" using "2.prems"(2) [of d] by (simp add: AmountOf_Cons)
  have "fits (AmountOf (put_coin d (AmountOf c d - a) c) x - AmountOf amt x)" for x
    using "2.prems"(2) [of x] d amt(2) by (simp add: AmountOf_Cons split: if_splits)
  with "2.IH" amt(1) d show ?case by (simp add: Int_Sub_def checked_def)
qed simp

lemma Coins_Add_runs:
  "map_ok amt \<Longrightarrow> (\<And>d. fits (AmountOf c d + AmountOf amt d)) \<Longrightarrow> \<exists>s. Coins_Add c amt = Ok s"
proof (induction c amt rule: Coins_Add.induct)
  case (2 c d a amt)
  have amt: "map_ok amt" "AmountOf amt d = 0"
    using map_ok_ConsD [OF "2.prems"(1)] by (auto simp: AmountOf_absent)
  have d: "fits (AmountOf c d + a)" using "2.prems"(2) [of d] by (simp add: AmountOf_Cons)
  have "fits (AmountOf (put_coin d (AmountOf c d + a) c) x + AmountOf amt x)" for x
    using "2.prems"(2) [of x] d amt(2) by (simp add: AmountOf_Cons split: if_splits)
  with "2.IH" amt(1) d show ?case by (simp add: Int_Add_def checked_def)
qed simp

lemma mock_Move_covered:
  assumes b: "mock_valid b" and c: "valid_coins c"
    and enough: "\<And>d. AmountOf c d \<le> mock_GetBalance b f d"
    and room: "\<And>d. fits (mock_GetBalance b t d + AmountOf c d)"
    and bound: "\<And>d. fits (mock_GetBalance b f d)"
  shows "fst (mock_Move f t c b) = Ok ()"
proof -
  have f: "valid_coins (balance_of b f)" using b by (rule valid_balance_of)
  have "fits (AmountOf (balance_of b f) d - AmountOf c d)" for d
    using bound [of d] enough [of d] valid_coinsD(3) [OF c, of d]
    by (intro fits_between [OF bound [of d]]) (simp_all add: mock_GetBalance_def)
  then obtain s where s: "Coins_Sub (balance_of b f) c = Ok s"
    using Coins_Sub_runs [OF valid_coinsD(1) [OF c]] by blast
  then obtain neg where sub: "Coins_SafeSub (balance_of b f) c = Ok (s, neg)"
    by (simp add: Coins_SafeSub_def)
  note sv = Coins_SafeSub_valid [OF sub f c]
  have neg: "\<not> neg" using enough by (simp add: sv(2) mock_GetBalance_def not_less)
  have "fits (AmountOf (balance_of (set_balance f s b) t) d + AmountOf c d)" for d
    using room [of d] bound [of d] by (simp add: sv(1) mock_GetBalance_def)
  then obtain r where "Coins_Add (balance_of (set_balance f s b) t) c = Ok r"
    using Coins_Add_runs [OF valid_coinsD(1) [OF c]] by blast
  with sub neg have "mock_Move f t c b = (Ok (), set_balance t r (set_balance f s b))"
    by (auto simp: mock_Move_Ok)
  then show ?thesis by simp
qed

interpretation mock_bank: bank_keeper mock_GetBalance mock_GetSupply "mock_MintCoins ma"
    "mock_BurnCoins ma" mock_Move ma mock_valid for ma
proof
  fix b a d assume "mock_valid b"
  then show "0 \<le> mock_GetBalance b a d"
    by (simp add: mock_GetBalance_def valid_coinsD(3) [OF valid_balance_of])
next
  fix n c b u b' a d
  assume run: "mock_MintCoins ma n c b = (Ok u, b')" and b: "mock_valid b" and c: "valid_coins c"
  then obtain s where s: "Coins_Add (balance_of b (ma n)) c = Ok s" "b' = set_balance (ma n) s b"
    by (auto simp: mock_MintCoins_Ok)
  note v = Coins_Add_valid [OF s(1) valid_balance_of [OF b] c]
  then show "mock_valid b' \<and> mock_GetBalance b' a d
      = mock_GetBalance b a d + (if a = ma n then AmountOf c d else 0) \<and>
      mock_GetSupply b' d = mock_GetSupply b d + AmountOf c d"
    using b by (simp add: s(2) valid_set_balance supply_set mock_GetBalance_def)
next
  fix n c b u b' a d
  assume run: "mock_BurnCoins ma n c b = (Ok u, b')" and b: "mock_valid b" and c: "valid_coins c"
  then obtain s where s: "Coins_SafeSub (balance_of b (ma n)) c = Ok (s, False)"
      "b' = set_balance (ma n) s b"
    by (auto simp: mock_BurnCoins_Ok)
  note v = Coins_SafeSub_valid [OF s(1) valid_balance_of [OF b] c]
  then show "mock_valid b' \<and> mock_GetBalance b' a d
      = mock_GetBalance b a d - (if a = ma n then AmountOf c d else 0) \<and>
      mock_GetSupply b' d = mock_GetSupply b d - AmountOf c d"
    using b by (simp add: s(2) valid_set_balance supply_set mock_GetBalance_def)
next
  fix f t c b u b' a d
  assume run: "mock_Move f t c b = (Ok u, b')" and b: "mock_valid b" and c: "valid_coins c"
  then obtain s r where s: "Coins_SafeSub (balance_of b f) c = Ok (s, False)"
      and r: "Coins_Add (balance_of (set_balance f s b) t) c = Ok r"
      and b': "b' = set_balance t r (set_balance f s b)"
    by (auto simp: mock_Move_Ok)
  note vs = Coins_SafeSub_valid [OF s valid_balance_of [OF b] c]
  have b1: "mock_valid (set_balance f s b)" using b vs(3) by (simp add: valid_set_balance)
  note vr = Coins_Add_valid [OF r valid_balance_of [OF b1] c]
  show "mock_valid b' \<and> AmountOf c d \<le> mock_GetBalance b f d \<and>
      mock_GetBalance b' a d = mock_GetBalance b a d - (if a = f then AmountOf c d else 0)
        + (if a = t then AmountOf c d else 0) \<and>
      mock_GetSupply b' d = mock_GetSupply b d"
    using vs(2) vr b b1
    by (auto simp: b' valid_set_balance supply_set mock_GetBalance_def vs(1) not_less)
next
  show "mock_MintCoins ma n c b = (Err x, b') \<Longrightarrow> b' = b" for n c b x b'
    by (rule mock_MintCoins_Err)
  show "mock_BurnCoins ma n c b = (Err x, b') \<Longrightarrow> b' = b" for n c b x b'
    by (rule mock_BurnCoins_Err)
  show "mock_Move f t c b = (Err x, b') \<Longrightarrow> b' = b" for f t c b x b'
    by (rule mock_Move_Err)
qed (rule mock_Move_covered)

end
