(* ===== verification/Transfers.thy ===== *)
theory Transfers
  imports State Bank
begin

text \<open>
  \<open>keeper/keeper.go\<close>: the send restriction that mirrors every transfer of the dollar in the
  principal ledger, the bank transfers that run under it, and the claimable yield of an
  account. The abstract view of the ledger (the sum of all principal against the recorded
  total) and its invariant are stated here, with the effect of every kind of transfer on it.
\<close>

subsection \<open>The send restriction\<close>

text \<open>The sender's half: its principal is debited, or the total is raised on issuance.\<close>

definition debitSender :: "'b env \<Rightarrow> addr \<Rightarrow> int \<Rightarrow> ('b, unit) handler" where
  "debitSender e sender prin =
     (if sender \<noteq> ModuleAddress e then
        bnd (gets (\<lambda>w. get_or 0 (Map_Get (Principal w) sender))) (\<lambda>senderPrincipal.
        bnd (lift (Int_Sub senderPrincipal prin)) (\<lambda>p.
        thn (modify (Principal_update (Map_Set sender p)))
        (bnd (gets (\<lambda>w. bank_GetBalance e (App w) sender (denom e))) (\<lambda>balance.
         if balance = 0
         then wrap_err ''unable to decrement total holders'' DecrementTotalHolders
         else ret ()))))
      else wrap_err ''unable to increment total principal'' (IncrementTotalPrincipal prin))"

text \<open>The recipient's half: its principal is credited, rounded down on issuance, or the total is
  lowered on withdrawal.\<close>

definition creditRecipient :: "'b env \<Rightarrow> addr \<Rightarrow> addr \<Rightarrow> int \<Rightarrow> int \<Rightarrow> int \<Rightarrow> ('b, unit) handler" where
  "creditRecipient e sender recipient amount index prin =
     (if recipient \<noteq> ModuleAddress e then
        bnd (if sender = ModuleAddress e then lift (GetPrincipalAmountRoundedDown amount index)
             else ret prin) (\<lambda>prin.
        bnd (gets (\<lambda>w. get_or 0 (Map_Get (Principal w) recipient))) (\<lambda>recipientPrincipal.
        bnd (lift (Int_Add recipientPrincipal prin)) (\<lambda>p.
        thn (modify (Principal_update (Map_Set recipient p)))
        (bnd (gets (\<lambda>w. bank_GetBalance e (App w) recipient (denom e))) (\<lambda>balance.
         if balance = 0
         then wrap_err ''unable to increment total holders'' IncrementTotalHolders
         else ret ())))))
      else wrap_err ''unable to decrement total principal'' (DecrementTotalPrincipal prin))"

definition SendRestrictionFn :: "'b env \<Rightarrow> addr \<Rightarrow> addr \<Rightarrow> coins \<Rightarrow> ('b, addr) handler" where
  "SendRestrictionFn e sender recipient coins =
     (let amount = AmountOf coins (denom e) in
      if amount \<noteq> 0 then
        if sender = YieldAddress e then ret recipient
        else if recipient = YieldAddress e then
          if sender = ModuleAddress e then ret recipient
          else fail (Errorf ''transfers to the yield account are not allowed'')
        else
          bnd (wrap_err ''unable to get index from state'' (item_get Index)) (\<lambda>index.
          bnd (lift (GetPrincipalAmountRoundedUp amount index)) (\<lambda>prin.
          thn (debitSender e sender prin)
          (thn (creditRecipient e sender recipient amount index prin)
          (ret recipient))))
      else ret recipient)"

subsection \<open>Transfers of the bank under the restriction\<close>

definition SendCoins :: "'b env \<Rightarrow> addr \<Rightarrow> addr \<Rightarrow> coins \<Rightarrow> ('b, unit) handler" where
  "SendCoins e fromAddr toAddr amt =
     bnd (SendRestrictionFn e fromAddr toAddr amt) (\<lambda>toAddr.
     app_call (bank_Move e fromAddr toAddr amt))"

definition SendCoinsFromAccountToModule ::
    "'b env \<Rightarrow> addr \<Rightarrow> string \<Rightarrow> coins \<Rightarrow> ('b, unit) handler" where
  "SendCoinsFromAccountToModule e senderAddr recipientModule amt =
     SendCoins e senderAddr (NewModuleAddress e recipientModule) amt"

definition SendCoinsFromModuleToAccount ::
    "'b env \<Rightarrow> string \<Rightarrow> addr \<Rightarrow> coins \<Rightarrow> ('b, unit) handler" where
  "SendCoinsFromModuleToAccount e senderModule recipientAddr amt =
     SendCoins e (NewModuleAddress e senderModule) recipientAddr amt"

definition SendCoinsFromModuleToModule ::
    "'b env \<Rightarrow> string \<Rightarrow> string \<Rightarrow> coins \<Rightarrow> ('b, unit) handler" where
  "SendCoinsFromModuleToModule e senderModule recipientModule amt =
     SendCoins e (NewModuleAddress e senderModule) (NewModuleAddress e recipientModule) amt"

subsection \<open>Claimable yield\<close>

definition GetYield :: "'b env \<Rightarrow> string \<Rightarrow> ('b, int \<times> addr) handler" where
  "GetYield e account =
     bnd (from_option (Wrap (ErrExternal ''address codec'') ''unable to decode account'')
            (StringToBytes e account)) (\<lambda>bz.
     bnd (gets (\<lambda>w. get_or 0 (Map_Get (Principal w) bz))) (\<lambda>prin.
     bnd (wrap_err ''unable to get index from state'' (item_get Index)) (\<lambda>index.
     bnd (gets (\<lambda>w. bank_GetBalance e (App w) bz (denom e))) (\<lambda>currentBalance.
     bnd (lift (GetPresentAmount prin index)) (\<lambda>expectedBalance.
     bnd (attempt (lift (Int_SafeSub ErrIntOverflow expectedBalance currentBalance))) (\<lambda>safe.
     let yield = (case safe of Inl _ \<Rightarrow> 0 | Inr y \<Rightarrow> if y = 1 \<or> y < 0 then 0 else y)
     in ret (yield, bz)))))))"

subsection \<open>The ledger, abstractly\<close>

text \<open>
  The principal ledger: what an account holds, the sum over all accounts, and the total the
  statistics record. Issuance rounds the recorded total up and the credited principal down, so
  the recorded total covers the sum.
\<close>

definition principal_of :: "'b world \<Rightarrow> addr \<Rightarrow> int" where
  "principal_of w a = get_or 0 (Map_Get (Principal w) a)"

definition principal_sum :: "'b world \<Rightarrow> int" where
  "principal_sum w = total_of (\<lambda>_ v. v) (Principal w)"

definition recorded_principal :: "'b world \<Rightarrow> int" where
  "recorded_principal w = (case Stats w of None \<Rightarrow> 0 | Some s \<Rightarrow> TotalPrincipal s)"

definition ledger_inv :: "'b world \<Rightarrow> bool" where
  "ledger_inv w \<longleftrightarrow> map_ok (Principal w) \<and> (\<forall>i. Index w = Some i \<longrightarrow> 0 < i) \<and>
     (\<exists>s. Stats w = Some s \<and> principal_sum w \<le> TotalPrincipal s)"

lemma principal_sum_set:
  "map_ok (Principal w) \<Longrightarrow>
     total_of (\<lambda>_ v. v) (Map_Set a v (Principal w)) = principal_sum w - principal_of w a + v"
  by (simp add: total_Map_Set principal_sum_def principal_of_def)

lemma principal_of_simps [simp]:
  "principal_of (w\<lparr>Stats := st\<rparr>) a = principal_of w a"
  "principal_of (w\<lparr>App := b\<rparr>) a = principal_of w a"
  "principal_of (w\<lparr>Principal := Map_Set a' v (Principal w)\<rparr>) a
     = (if a = a' then v else principal_of w a)"
  "principal_of (Principal_update (Map_Set a' v) w) a = (if a = a' then v else principal_of w a)"
  by (simp_all add: principal_of_def)

text \<open>The four kinds of movement, as the restriction distinguishes them.\<close>

datatype movement = Payout | Accrual | Forbidden | Mirrored

definition movement_of :: "'b env \<Rightarrow> addr \<Rightarrow> addr \<Rightarrow> movement" where
  "movement_of e sender recipient =
     (if sender = YieldAddress e then Payout
      else if recipient = YieldAddress e then
        if sender = ModuleAddress e then Accrual else Forbidden
      else Mirrored)"

lemma restriction_zero: "AmountOf c (denom e) = 0 \<Longrightarrow> SendRestrictionFn e f t c = ret t"
  by (simp add: SendRestrictionFn_def)

lemma restriction_payout: "movement_of e f t \<in> {Payout, Accrual} \<Longrightarrow> SendRestrictionFn e f t c = ret t"
  by (auto simp: SendRestrictionFn_def movement_of_def Let_def split: if_splits)

lemma restriction_forbidden:
  "movement_of e f t = Forbidden \<Longrightarrow> AmountOf c (denom e) \<noteq> 0 \<Longrightarrow>
     SendRestrictionFn e f t c = fail (Errorf ''transfers to the yield account are not allowed'')"
  by (auto simp: SendRestrictionFn_def movement_of_def Let_def split: if_splits)

text \<open>The restriction never redirects a transfer.\<close>

lemma restriction_recipient: "SendRestrictionFn e f t c w = (Ok t', w') \<Longrightarrow> t' = t"
  unfolding SendRestrictionFn_def Let_def
  by (auto simp: ok_simps split: if_splits)

subsection \<open>The ledger stays backed\<close>

definition backed :: "int \<Rightarrow> 'b world \<Rightarrow> bool" where
  "backed k w \<longleftrightarrow> map_ok (Principal w) \<and> (\<forall>i. Index w = Some i \<longrightarrow> 0 < i) \<and>
     (\<exists>s. Stats w = Some s \<and> principal_sum w + k \<le> TotalPrincipal s)"

lemma ledger_inv_backed: "ledger_inv = backed 0"
  by (simp add: ledger_inv_def backed_def fun_eq_iff)

lemma backed_mono: "backed k w \<Longrightarrow> j \<le> k \<Longrightarrow> backed j w"
  by (auto simp: backed_def)

lemma backed_set:
  "backed k (w\<lparr>Principal := Map_Set a v (Principal w)\<rparr>) \<longleftrightarrow>
     map_ok (Map_Set a v (Principal w)) \<and> (\<forall>i. Index w = Some i \<longrightarrow> 0 < i) \<and>
     (\<exists>s. Stats w = Some s \<and> total_of (\<lambda>_ v. v) (Map_Set a v (Principal w)) + k \<le> TotalPrincipal s)"
  by (simp add: backed_def principal_sum_def)

lemma debitSender_backed:
  assumes "backed k w" "0 \<le> p"
  shows "wp (debitSender e a p) (\<lambda>_. backed (k + p)) (\<lambda>_. backed k) w"
  using assms
  by (auto simp: debitSender_def wp_simps Int_Sub_def checked_def backed_def principal_sum_def
      map_ok_Set total_Map_Set split: option.split)

lemma creditRecipient_backed:
  assumes "backed p w" "0 \<le> p" "0 \<le> amount" "0 < index"
    and "GetPrincipalAmountRoundedUp amount index = Ok p"
  shows "wp (creditRecipient e s a amount index p) (\<lambda>_. backed 0) (\<lambda>_. backed 0) w"
proof -
  have down: "d \<le> p" "0 \<le> d" if "GetPrincipalAmountRoundedDown amount index = Ok d" for d
    using rounded_down_le_up [OF that assms(5,3,4)] by auto
  show ?thesis
    using assms(1,2) down
    by (auto simp: creditRecipient_def wp_simps Int_Add_def checked_def backed_def principal_sum_def
        map_ok_Set total_Map_Set split: option.split outcome.split)
qed


lemma restriction_mirrored:
  "movement_of e f t = Mirrored \<Longrightarrow> AmountOf c (denom e) \<noteq> 0 \<Longrightarrow>
     SendRestrictionFn e f t c =
       bnd (wrap_err ''unable to get index from state'' (item_get Index)) (\<lambda>index.
       bnd (lift (GetPrincipalAmountRoundedUp (AmountOf c (denom e)) index)) (\<lambda>prin.
       thn (debitSender e f prin)
       (thn (creditRecipient e f t (AmountOf c (denom e)) index prin)
       (ret t))))"
  by (auto simp: SendRestrictionFn_def movement_of_def Let_def split: if_splits)

lemma mirrored_backed:
  assumes inv: "ledger_inv w" and amount: "0 \<le> amount"
  shows "wp (bnd (wrap_err ''unable to get index from state'' (item_get Index)) (\<lambda>index.
       bnd (lift (GetPrincipalAmountRoundedUp amount index)) (\<lambda>prin.
       thn (debitSender e f prin)
       (thn (creditRecipient e f t amount index prin)
       (ret t))))) (\<lambda>_. ledger_inv) (\<lambda>_. ledger_inv) w"
proof (cases "Index w")
  case None
  then show ?thesis using inv by (simp add: wp_simps)
next
  case (Some i)
  have i: "0 < i" using inv Some by (simp add: ledger_inv_def)
  show ?thesis
  proof (cases "GetPrincipalAmountRoundedUp amount i")
    case (Ok p)
    have p: "0 \<le> p" using rounded_up_nonneg [OF Ok amount i] .
    have "wp (debitSender e f p) (\<lambda>_. backed p) (\<lambda>_. backed 0) w"
      using debitSender_backed [of 0 w p e f] inv p by (simp add: ledger_inv_backed)
    then have "wp (debitSender e f p)
        (\<lambda>_. wp (creditRecipient e f t amount i p) (\<lambda>_. backed 0) (\<lambda>_. backed 0)) (\<lambda>_. backed 0) w"
      by (rule wp_conseq) (auto intro: creditRecipient_backed [OF _ p amount i Ok])
    with Some Ok show ?thesis by (simp add: wp_simps ledger_inv_backed)
  qed (use Some inv in \<open>auto simp: wp_simps\<close>)
qed

text \<open>Whatever the outcome, the restriction leaves the recorded total covering the ledger.\<close>

lemma restriction_ledger:
  assumes "ledger_inv w" "0 \<le> AmountOf c (denom e)"
  shows "wp (SendRestrictionFn e f t c) (\<lambda>_. ledger_inv) (\<lambda>_. ledger_inv) w"
proof (cases "AmountOf c (denom e) = 0")
  case True
  with assms show ?thesis by (simp add: restriction_zero wp_simps)
next
  case False
  show ?thesis
  proof (cases "movement_of e f t")
    case Mirrored
    show ?thesis
      unfolding restriction_mirrored [OF Mirrored False] using assms by (rule mirrored_backed)
  qed (use assms False in \<open>simp_all add: restriction_payout restriction_forbidden wp_simps\<close>)
qed

lemma ledger_inv_App [simp]: "ledger_inv (w\<lparr>App := b\<rparr>) = ledger_inv w"
  by (simp add: ledger_inv_def principal_sum_def)

lemma app_call_ledger: "ledger_inv w \<Longrightarrow> wp (app_call g) (\<lambda>_. ledger_inv) (\<lambda>_. ledger_inv) w"
  by (auto simp: wp_def app_call_def split: prod.splits outcome.splits)

lemma SendCoins_wp_ledger:
  assumes "ledger_inv w" "0 \<le> AmountOf c (denom e)"
  shows "wp (SendCoins e f t c) (\<lambda>_. ledger_inv) (\<lambda>_. ledger_inv) w"
  unfolding SendCoins_def wp_bnd
  by (rule wp_conseq [OF restriction_ledger [OF assms]]) (simp_all add: app_call_ledger)

subsection \<open>The effect of a transfer on the principal of each account\<close>

lemma debitSender_effect:
  assumes "debitSender e f p w = (Ok u, w')"
  shows "principal_of w' a = principal_of w a - (if a = f \<and> f \<noteq> ModuleAddress e then p else 0)"
    and "recorded_principal w' = recorded_principal w + (if f = ModuleAddress e then p else 0)"
    and "App w' = App w" "Index w' = Index w"
  using assms
  by (auto simp: debitSender_def ok_simps recorded_principal_def principal_of_def
      split: if_splits)

lemma creditRecipient_effect:
  assumes "creditRecipient e f t amount i p w = (Ok u, w')"
  shows "\<exists>q. (if f = ModuleAddress e \<and> t \<noteq> ModuleAddress e
        then GetPrincipalAmountRoundedDown amount i = Ok q else q = p) \<and>
      (\<forall>a. principal_of w' a = principal_of w a + (if a = t \<and> t \<noteq> ModuleAddress e then q else 0)) \<and>
      recorded_principal w' = recorded_principal w - (if t = ModuleAddress e then p else 0) \<and>
      App w' = App w \<and> Index w' = Index w"
  using assms
  by (auto simp: creditRecipient_def ok_simps recorded_principal_def principal_of_def
      split: if_splits)

lemma transfer_effect:
  assumes run: "SendRestrictionFn e f t c w = (Ok r, w')" and mv: "movement_of e f t = Mirrored"
    and amount: "AmountOf c (denom e) \<noteq> 0"
  obtains i p q where "Index w = Some i" "GetPrincipalAmountRoundedUp (AmountOf c (denom e)) i = Ok p"
    "if f = ModuleAddress e \<and> t \<noteq> ModuleAddress e
     then GetPrincipalAmountRoundedDown (AmountOf c (denom e)) i = Ok q else q = p"
    "\<And>a. principal_of w' a = principal_of w a
       - (if a = f \<and> f \<noteq> ModuleAddress e then p else 0)
       + (if a = t \<and> t \<noteq> ModuleAddress e then q else 0)"
    "recorded_principal w' = recorded_principal w
       + (if f = ModuleAddress e then p else 0) - (if t = ModuleAddress e then p else 0)"
    "App w' = App w" "Index w' = Index w"
proof -
  from run obtain i p w1 w2 u v where idx: "Index w = Some i"
      and p: "GetPrincipalAmountRoundedUp (AmountOf c (denom e)) i = Ok p"
      and d: "debitSender e f p w = (Ok u, w1)"
      and cr: "creditRecipient e f t (AmountOf c (denom e)) i p w1 = (Ok v, w')"
    unfolding restriction_mirrored [OF mv amount] by (auto simp: ok_simps)
  from creditRecipient_effect [OF cr] debitSender_effect [OF d] idx p show ?thesis
    by (auto intro!: that)
qed

end
