(* ===== verification/Yield.thy ===== *)
theory Yield
  imports Transfers
begin

text \<open>
  \<open>keeper/msg_server.go\<close> and \<open>keeper/msg_server_v2.go\<close>: the messages of the dollar submodule,
  issuance and redemption, the index update with the distribution of the yield it accrues
  (vaults of season one and two, IBC channels, Hyperlane routes), and the registration of yield
  recipients.
\<close>

subsection \<open>Messages on the dollar itself\<close>

definition ClaimYield :: "'b env \<Rightarrow> string \<Rightarrow> ('b, unit) handler" where
  "ClaimYield e signer =
     bnd (gets GetPaused) (\<lambda>paused.
     if paused then fail ErrPaused
     else
       bnd (GetYield e signer) (\<lambda>(yield, account).
       bnd (lift (NewCoins1 (denom e) yield)) (\<lambda>coins.
       thn (wrap_err ''unable to distribute yield to user''
             (SendCoinsFromModuleToAccount e YieldName account coins))
       (emit (YieldClaimed signer yield)))))"

definition SetPausedState :: "'b env \<Rightarrow> string \<Rightarrow> bool \<Rightarrow> ('b, unit) handler" where
  "SetPausedState e signer paused =
     (if signer \<noteq> authority e then fail (Wrap ErrVaultsInvalidAuthority ''expected authority'')
      else
        thn (modify (Paused_update (\<lambda>_. Some paused)))
        (emit (if paused then Paused_Event else Unpaused_Event)))"

definition Burn :: "'b env \<Rightarrow> addr \<Rightarrow> int \<Rightarrow> ('b, unit) handler" where
  "Burn e sender amount =
     bnd (lift (NewCoins1 (denom e) amount)) (\<lambda>coins.
     thn (SendCoinsFromAccountToModule e sender ModuleName coins)
     (app_call (bank_BurnCoins e ModuleName coins)))"

subsection \<open>Yield of module accounts\<close>

definition claimModuleYield :: "'b env \<Rightarrow> addr \<Rightarrow> ('b, int) handler" where
  "claimModuleYield e address =
     bnd (attempt (GetYield e (AccString e address))) (\<lambda>r.
     case r of
       Inl _ \<Rightarrow> ret 0
     | Inr (yield, _) \<Rightarrow>
         if 0 < yield then
           bnd (lift (NewCoins1 (denom e) yield)) (\<lambda>coins.
           thn (SendCoinsFromModuleToAccount e YieldName address coins)
           (ret yield))
         else ret yield)"

text \<open>The principal that a yield amounts to moves from the Staked to the Flexible vault.\<close>

definition shiftYieldPrincipal :: "'b env \<Rightarrow> int \<Rightarrow> ('b, unit) handler" where
  "shiftYieldPrincipal e yield =
     bnd (item_get Index) (\<lambda>rawIndex.
     bnd (lift (dec_QuoInt e (LegacyDec_of rawIndex) (10 ^ 12))) (\<lambda>index.
     bnd (lift (dec_Quo e (LegacyDec_of yield) index)) (\<lambda>quotient.
     bnd (lift (LegacyDec_TruncateInt quotient)) (\<lambda>yieldPrincipal.
     bnd (gets (\<lambda>w. get_or 0 (Map_Get (Principal w) (StakedVaultAddress e)))) (\<lambda>stakedPrincipal.
     bnd (lift (Int_Sub stakedPrincipal yieldPrincipal)) (\<lambda>staked.
     thn (modify (Principal_update (Map_Set (StakedVaultAddress e) staked)))
     (bnd (gets (\<lambda>w. get_or 0 (Map_Get (Principal w) (FlexibleVaultAddress e)))) (\<lambda>flexiblePrincipal.
      bnd (lift (Int_Add flexiblePrincipal yieldPrincipal)) (\<lambda>flexible.
      modify (Principal_update (Map_Set (FlexibleVaultAddress e) flexible)))))))))))"

definition claimStakedVaultYield :: "'b env \<Rightarrow> ('b, int) handler" where
  "claimStakedVaultYield e =
     bnd (attempt (GetYield e (AccString e (StakedVaultAddress e)))) (\<lambda>r.
     case r of
       Inl _ \<Rightarrow> ret 0
     | Inr (yield, _) \<Rightarrow>
         if \<not> 0 < yield then ret 0
         else
           bnd (lift (NewCoins1 (denom e) yield)) (\<lambda>coins.
           thn (SendCoinsFromModuleToAccount e YieldName (FlexibleVaultAddress e) coins)
           (thn (shiftYieldPrincipal e yield)
           (ret yield))))"

subsection \<open>Yield of external chains\<close>

definition PortID :: string where "PortID = ''transfer''"

text \<open>One turn of the loop over the IBC yield recipients.\<close>

definition claimYieldIBC :: "'b env \<Rightarrow> string \<times> string \<Rightarrow> ('b, unit) handler" where
  "claimYieldIBC e = (\<lambda>(channelId, yieldRecipient).
     let escrowAddress = GetEscrowAddress e PortID channelId in
     bnd (wrap_err ''unable to claim yield'' (claimModuleYield e escrowAddress)) (\<lambda>yield.
     bnd (GetRetryAmountAndRemove IBC channelId) (\<lambda>retryAmount.
     bnd (lift (Int_Add yield retryAmount)) (\<lambda>accruedYield.
     if \<not> 0 < accruedYield then ret ()
     else
       bnd (gets BlockTime) (\<lambda>now.
       bnd (attempt (ibc_Transfer e \<lparr>
         SourcePort = PortID, SourceChannel = channelId, TokenAmount = accruedYield,
         Sender = AccString e escrowAddress, Receiver = yieldRecipient,
         TimeoutTimestamp = word_of_int now + DefaultRelativePacketTimeout e\<rparr>)) (\<lambda>transferErr.
       thn (case transferErr of
              Inl _ \<Rightarrow> wrap_err ''unable to increment retry amount''
                 (IncrementRetryAmount IBC channelId accruedYield)
            | Inr _ \<Rightarrow> ret ())
       (wrap_err ''unable to increment total yield''
         (IncrementTotalExternalYield IBC channelId yield))))))))"

definition claimExternalYieldIBC :: "'b env \<Rightarrow> ('b, unit) handler" where
  "claimExternalYieldIBC e =
     bnd (gets (GetYieldRecipientsByProvider IBC)) (\<lambda>yieldRecipients.
     for_each (claimYieldIBC e) yieldRecipients)"

definition getHyperlaneRouter :: "'b env \<Rightarrow> 64 word \<Rightarrow> ('b, remote_router) handler" where
  "getHyperlaneRouter e tokenId =
     bnd (gets (\<lambda>w. EnrolledRouters e (App w) tokenId)) (\<lambda>routers.
     case routers of
       [router] \<Rightarrow> ret router
     | _ \<Rightarrow> fail (Errorf ''expected only one router for hyperlane identifier''))"

text \<open>The first loop: the tokens of all recipients and the sum of their collateral.\<close>

definition collectToken ::
    "'b env \<Rightarrow> string \<times> string \<Rightarrow> int \<times> (string, hyp_token) cmap
      \<Rightarrow> ('b, int \<times> (string, hyp_token) cmap) handler" where
  "collectToken e = (\<lambda>(identifier, _) (totalCollateral, tokens).
     bnd (from_option (Wrap (ErrExternal ''hex'') ''unable to decode hyperlane identifier'')
            (DecodeHexAddress e identifier)) (\<lambda>rawIdentifier.
     bnd (gets (\<lambda>w. HypTokens e (App w) (GetInternalId e rawIdentifier))) (\<lambda>found.
     bnd (from_option (Wrap ErrNotFound ''unable to get hyperlane token from state'') found) (\<lambda>token.
     bnd (lift (Int_Add totalCollateral (CollateralBalance token))) (\<lambda>total.
     ret (total, Map_Set identifier token tokens))))))"

text \<open>The share of the yield that falls to a route with the given collateral.\<close>

definition collateralShare :: "'b env \<Rightarrow> int \<Rightarrow> int \<Rightarrow> int \<Rightarrow> int result" where
  "collateralShare e collateral totalCollateral yield =
     obind (dec_QuoInt e (LegacyDec_of collateral) totalCollateral) (\<lambda>collateralPortion.
     obind (LegacyDec_MulInt collateralPortion yield) LegacyDec_TruncateInt)"

text \<open>One turn of the second loop.\<close>

definition claimYieldHyperlane ::
    "'b env \<Rightarrow> int \<Rightarrow> int \<Rightarrow> (string, hyp_token) cmap \<Rightarrow> string \<times> string \<Rightarrow> ('b, unit) handler" where
  "claimYieldHyperlane e yield totalCollateral tokens = (\<lambda>(identifier, yieldRecipient).
     case Map_Get tokens identifier of
       None \<Rightarrow> panic ''nil collateral balance''
     | Some token \<Rightarrow>
       bnd (lift (collateralShare e (CollateralBalance token) totalCollateral yield)) (\<lambda>yieldPortion.
       bnd (GetRetryAmountAndRemove HYPERLANE identifier) (\<lambda>retryAmount.
       bnd (lift (Int_Add yieldPortion retryAmount)) (\<lambda>accruedYield.
       if \<not> 0 < accruedYield then ret ()
       else
         bnd (getHyperlaneRouter e (GetInternalId e (TokenId token))) (\<lambda>router.
         bnd (from_option (Wrap (ErrExternal ''hex'') ''unable to decode hyperlane yield recipient'')
                (DecodeHexAddress e yieldRecipient)) (\<lambda>yieldRecipientBz.
         bnd (attempt (RemoteTransferCollateral e \<lparr>
           warp_Token = token, warp_Sender = AccString e (NewModuleAddress e (WarpModuleName e)),
           warp_Domain = ReceiverDomain router, warp_Recipient = yieldRecipientBz,
           warp_Amount = accruedYield\<rparr>)) (\<lambda>transferErr.
         thn (case transferErr of
                Inl _ \<Rightarrow> wrap_err ''unable to increment retry amount''
                   (IncrementRetryAmount HYPERLANE identifier accruedYield)
              | Inr _ \<Rightarrow> ret ())
         (wrap_err ''unable to increment total yield''
           (IncrementTotalExternalYield HYPERLANE identifier yieldPortion)))))))))"

definition claimExternalYieldHyperlane :: "'b env \<Rightarrow> ('b, unit) handler" where
  "claimExternalYieldHyperlane e =
     bnd (gets (GetYieldRecipientsByProvider HYPERLANE)) (\<lambda>yieldRecipients.
     bnd (wrap_err ''unable to claim yield for hyperlane''
           (claimModuleYield e (NewModuleAddress e (WarpModuleName e)))) (\<lambda>yield.
     if \<not> 0 < yield then ret ()
     else
       bnd (fold_prog (collectToken e) yieldRecipients (0, [])) (\<lambda>(totalCollateral, tokens).
       if \<not> 0 < totalCollateral then ret ()
       else for_each (claimYieldHyperlane e yield totalCollateral tokens) yieldRecipients)))"

subsection \<open>Yield of the vaults\<close>

definition IsVaultsSeasonOneEnded :: "'b world \<Rightarrow> bool" where
  "IsVaultsSeasonOneEnded w = get_or False (VaultsSeasonOneEnded w)"

definition handleVaultsYieldSeasonOne :: "'b env \<Rightarrow> int \<Rightarrow> ('b, unit) handler" where
  "handleVaultsYieldSeasonOne e index =
     bnd (claimModuleYield e (FlexibleVaultAddress e)) (\<lambda>flexibleYield.
     bnd (claimStakedVaultYield e) (\<lambda>stakedYield.
     bnd (gets (\<lambda>w. get_or 0 (VaultsTotalFlexiblePrincipal w))) (\<lambda>current.
     bnd (lift (Int_Add 0 current)) (\<lambda>totalFlexiblePrincipal.
     bnd (lift (Int_Add stakedYield flexibleYield)) (\<lambda>rewards.
     modify (VaultsRewards_update (Map_Set index
       \<lparr>rew_Index = index, rew_Total = totalFlexiblePrincipal, rew_Rewards = rewards\<rparr>)))))))"

definition handleVaultsYieldSeasonTwo :: "'b env \<Rightarrow> ('b, unit) handler" where
  "handleVaultsYieldSeasonTwo e =
     bnd (claimModuleYield e (StakedVaultAddress e)) (\<lambda>yield.
     if \<not> 0 < yield then ret ()
     else
       bnd (lift (NewCoins1 (denom e) yield)) (\<lambda>coins.
       SendCoins e (StakedVaultAddress e) (vaultsSeasonTwoYieldCollector e) coins))"

subsection \<open>The index update\<close>

definition advanceIndex :: "int \<Rightarrow> ('b, int) handler" where
  "advanceIndex index =
     bnd (wrap_err ''unable to get index from state'' (item_get Index)) (\<lambda>oldIndex.
     if index \<le> oldIndex then fail ErrDecreasingIndex
     else thn (modify (Index_update (\<lambda>_. Some index))) (ret oldIndex))"

text \<open>The supply is raised to what the recorded principal is worth at the new index.\<close>

definition accrueYield :: "'b env \<Rightarrow> int \<Rightarrow> int \<Rightarrow> ('b, int) handler" where
  "accrueYield e totalPrincipal index =
     bnd (gets (\<lambda>w. bank_GetSupply e (App w) (denom e))) (\<lambda>currentSupply.
     bnd (lift (GetPresentAmount totalPrincipal index)) (\<lambda>expectedSupply.
     bnd (lift (Int_Sub expectedSupply currentSupply)) (\<lambda>difference.
     bnd (lift (NewCoins1 (denom e) difference)) (\<lambda>coins.
     if IsAllPositive coins then
       thn (wrap_err ''unable to mint coins'' (app_call (bank_MintCoins e ModuleName coins)))
       (thn (wrap_err ''unable to send coins''
              (SendCoinsFromModuleToModule e ModuleName YieldName coins))
       (let yield = AmountOf coins (denom e) in
        thn (wrap_err ''unable to increment total yield accrued'' (IncrementTotalYieldAccrued yield))
        (ret yield)))
     else ret 0))))"

definition UpdateIndex :: "'b env \<Rightarrow> int \<Rightarrow> ('b, unit) handler" where
  "UpdateIndex e index =
     bnd (advanceIndex index) (\<lambda>oldIndex.
     bnd (wrap_err ''unable to get total principal from state'' GetTotalPrincipal) (\<lambda>totalPrincipal.
     bnd (accrueYield e totalPrincipal index) (\<lambda>yield.
     bnd (gets IsVaultsSeasonOneEnded) (\<lambda>ended.
     thn (if \<not> ended then handleVaultsYieldSeasonOne e index else handleVaultsYieldSeasonTwo e)
     (thn (claimExternalYieldIBC e)
     (thn (claimExternalYieldHyperlane e)
     (emit (IndexUpdated oldIndex index totalPrincipal yield))))))))"

definition Mint :: "'b env \<Rightarrow> addr \<Rightarrow> int \<Rightarrow> int option \<Rightarrow> ('b, unit) handler" where
  "Mint e recipient amount index =
     thn (case index of
            None \<Rightarrow> ret ()
          | Some i \<Rightarrow> thn (attempt (UpdateIndex e i)) (ret ()))
     (bnd (lift (NewCoins1 (denom e) amount)) (\<lambda>coins.
      thn (app_call (bank_MintCoins e ModuleName coins))
      (SendCoinsFromModuleToAccount e ModuleName recipient coins)))"

subsection \<open>Registration of yield recipients\<close>

definition SetYieldRecipient ::
    "'b env \<Rightarrow> string \<Rightarrow> provider \<Rightarrow> string \<Rightarrow> string \<Rightarrow> ('b, unit) handler" where
  "SetYieldRecipient e signer p identifier recipient =
     (if signer \<noteq> authority e then fail (Wrap ErrInvalidAuthority ''expected authority'')
      else
        thn (case p of
               IBC \<Rightarrow>
                 bnd (gets (\<lambda>w. GetChannel e (App w) PortID identifier)) (\<lambda>found.
                 if \<not> found then fail (Errorf ''ibc identifier does not exist'') else ret ())
             | HYPERLANE \<Rightarrow>
                 bnd (from_option (Wrap (ErrExternal ''hex'') ''unable to decode hyperlane identifier'')
                        (DecodeHexAddress e identifier)) (\<lambda>rawIdentifier.
                 let tokenId = GetInternalId e rawIdentifier in
                 bnd (gets (\<lambda>w. HypTokens e (App w) tokenId)) (\<lambda>token.
                 if token = None then fail (Errorf ''hyperlane identifier does not exist'')
                 else thn (getHyperlaneRouter e tokenId) (ret ())))
             | OtherProvider _ \<Rightarrow> ret ())
        (thn (modify (YieldRecipients_update (Map_Set (p, identifier) recipient)))
        (emit (YieldRecipientSet p identifier recipient))))"

end
