(* ===== verification/Yield_Laws.thy ===== *)
theory Yield_Laws
  imports Yield
begin

text \<open>
  What the messages of the dollar submodule keep of the store, whatever their outcome. The
  locale \<open>keeper_relation\<close> names the elementary writes of the keeper; a relation on stores that
  admits them is admitted by every message. It is interpreted for the growth of the index, for
  the invariant of the principal ledger, and for the parts of the store no such message writes.
\<close>

subsection \<open>What third-party modules may do\<close>

text \<open>
  A call into the IBC transfer or the warp module runs code that is not part of this
  repository. It changes the state of the other modules, emits events, and reaches the keeper's
  store only through bank transfers, which run under the send restriction.
\<close>

inductive module_steps :: "'b env \<Rightarrow> 'b world \<Rightarrow> 'b world \<Rightarrow> bool" for e where
  stay: "module_steps e w w"
| app: "module_steps e w v \<Longrightarrow> module_steps e w (App_update g v)"
| event: "module_steps e w v \<Longrightarrow> module_steps e w (Events_update h v)"
| send: "module_steps e w v \<Longrightarrow> 0 \<le> AmountOf c (denom e) \<Longrightarrow> SendCoins e f t c v = (r, u) \<Longrightarrow>
    module_steps e w u"

definition external_calls :: "'b env \<Rightarrow> bool" where
  "external_calls e \<longleftrightarrow> (\<forall>m. steps (module_steps e) (ibc_Transfer e m)) \<and>
     (\<forall>m. steps (module_steps e) (RemoteTransferCollateral e m))"

subsection \<open>Relations kept by the elementary writes\<close>

locale transfer_relation = world_relation R for R :: "'b world \<Rightarrow> 'b world \<Rightarrow> bool" +
  fixes e :: "'b env"
  assumes rel_app: "R w (App_update g w)"
    and rel_events: "R w (Events_update h w)"
    and rel_send: "0 \<le> AmountOf c (denom e) \<Longrightarrow> steps R (SendRestrictionFn e f t c)"
begin

lemma steps_app_call [steps_intro]: "steps R (app_call g)"
proof (rule stepsI)
  fix s r t
  assume "app_call g s = (r, t)"
  then have "t = App_update (\<lambda>_. snd (g (App s))) s"
    by (auto simp: app_call_def split: prod.splits)
  then show "R s t" by (simp add: rel_app)
qed

lemma steps_emit [steps_intro]: "steps R (emit ev)"
  unfolding emit_def by (rule steps_modify) (rule rel_events)

lemma steps_NewCoins1:
  assumes "\<And>c. 0 \<le> AmountOf c (denom e) \<Longrightarrow> steps R (f c)"
  shows "steps R (bnd (lift (NewCoins1 (denom e) a)) f)"
proof (cases "NewCoins1 (denom e) a")
  case (Ok c)
  then have "0 \<le> AmountOf c (denom e)" by (auto simp: NewCoins1_Ok)
  from assms [OF this] Ok show ?thesis by (simp add: bnd_run_simps)
qed (simp_all add: bnd_run_simps steps_pure)

lemma steps_SendCoins: "0 \<le> AmountOf c (denom e) \<Longrightarrow> steps R (SendCoins e f t c)"
  unfolding SendCoins_def by (intro steps_bnd rel_send steps_app_call)

lemma steps_send:
  assumes "0 \<le> AmountOf c (denom e)"
  shows "steps R (SendCoins e f t c)"
    "steps R (SendCoinsFromAccountToModule e f m c)"
    "steps R (SendCoinsFromModuleToAccount e n t c)"
    "steps R (SendCoinsFromModuleToModule e n m c)"
  using assms
  by (simp_all add: steps_SendCoins SendCoinsFromAccountToModule_def
      SendCoinsFromModuleToAccount_def SendCoinsFromModuleToModule_def)

lemmas steps_basic = steps_control steps_app_call steps_emit steps_send

lemma module_steps_rel: "module_steps e w v \<Longrightarrow> R w v"
proof (induction rule: module_steps.induct)
  case (send w v c f t r u)
  have "R v u" by (rule stepsD [OF steps_SendCoins [OF send.hyps(2)] send.hyps(3)])
  with send.IH show ?case by (rule rel_trans)
qed (auto intro: rel_refl rel_trans [OF _ rel_app] rel_trans [OF _ rel_events])

lemma steps_external:
  assumes "external_calls e"
  shows "steps R (ibc_Transfer e im)" "steps R (RemoteTransferCollateral e wm)"
  using assms module_steps_rel by (auto simp: external_calls_def steps_def)

lemma steps_GetYield [steps_intro]: "steps R (GetYield e account)"
  unfolding GetYield_def by (intro steps_NewCoins1 steps_basic)

lemma steps_ClaimYield: "steps R (ClaimYield e signer)"
  unfolding ClaimYield_def by (intro steps_NewCoins1 steps_basic steps_GetYield)

lemma steps_Burn: "steps R (Burn e sender amount)"
  unfolding Burn_def by (intro steps_NewCoins1 steps_basic)

lemma steps_claimModuleYield: "steps R (claimModuleYield e a)"
  unfolding claimModuleYield_def by (intro steps_NewCoins1 steps_basic steps_GetYield)

end

locale keeper_relation = transfer_relation +
  assumes rel_index: "Index w = Some j \<Longrightarrow> j < i \<Longrightarrow> R w (Index_update (\<lambda>_. Some i) w)"
    and rel_rewards: "map_write k \<Longrightarrow> R w (VaultsRewards_update k w)"
    and rel_retry: "map_write l \<Longrightarrow> R w (RetryAmounts_update l w)"
    and rel_external: "map_write l \<Longrightarrow> R w (TotalExternalYield_update l w)"
    and rel_accrued: "steps R (IncrementTotalYieldAccrued a)"
    and rel_shift: "0 < y \<Longrightarrow> steps R (shiftYieldPrincipal e y)"
begin

lemma steps_claimStakedVaultYield: "steps R (claimStakedVaultYield e)"
  unfolding claimStakedVaultYield_def
  by (intro steps_NewCoins1 steps_basic steps_GetYield rel_shift) simp_all

lemma steps_retry:
  "steps R (GetRetryAmountAndRemove p i)"
  "steps R (IncrementRetryAmount p i a)"
  "steps R (IncrementTotalExternalYield p i a)"
  unfolding GetRetryAmountAndRemove_def IncrementRetryAmount_def IncrementTotalExternalYield_def
  by (intro steps_NewCoins1 steps_basic steps_modify rel_retry rel_external map_writes)+

lemma steps_claimExternalYieldIBC:
  "external_calls e \<Longrightarrow> steps R (claimExternalYieldIBC e)"
  unfolding claimExternalYieldIBC_def claimYieldIBC_def
  by (intro steps_NewCoins1 steps_basic steps_retry steps_claimModuleYield steps_external)

lemma steps_getHyperlaneRouter: "steps R (getHyperlaneRouter e i)"
  unfolding getHyperlaneRouter_def by (intro steps_NewCoins1 steps_basic) (auto split: list.split intro: steps_pure)

lemma steps_claimExternalYieldHyperlane:
  "external_calls e \<Longrightarrow> steps R (claimExternalYieldHyperlane e)"
  unfolding claimExternalYieldHyperlane_def claimYieldHyperlane_def collectToken_def split_beta
  by (intro steps_NewCoins1 steps_basic steps_retry steps_claimModuleYield steps_external steps_getHyperlaneRouter)

lemma steps_seasons:
  "steps R (handleVaultsYieldSeasonOne e i)"
  "steps R (handleVaultsYieldSeasonTwo e)"
  unfolding handleVaultsYieldSeasonOne_def handleVaultsYieldSeasonTwo_def
  by (intro steps_NewCoins1 steps_basic steps_claimModuleYield steps_claimStakedVaultYield steps_modify rel_rewards map_writes)+

lemma steps_advanceIndex: "steps R (advanceIndex i)"
  using rel_index
  by (auto simp: steps_wp advanceIndex_def wp_simps rel_refl split: option.split)

lemma steps_accrueYield: "steps R (accrueYield e p i)"
  unfolding accrueYield_def by (intro steps_NewCoins1 steps_basic rel_accrued)

lemma steps_UpdateIndex: "external_calls e \<Longrightarrow> steps R (UpdateIndex e i)"
  unfolding UpdateIndex_def GetTotalPrincipal_def
  by (intro steps_NewCoins1 steps_basic steps_advanceIndex steps_accrueYield steps_seasons
      steps_claimExternalYieldIBC steps_claimExternalYieldHyperlane)

lemma steps_Mint: "external_calls e \<Longrightarrow> steps R (Mint e recipient amount index)"
  unfolding Mint_def by (intro steps_NewCoins1 steps_basic steps_UpdateIndex)

end

subsection \<open>Relations that ignore the ledger\<close>

text \<open>
  A relation that admits any write to the principal ledger and to the statistics admits the
  send restriction, and with it every elementary write above.
\<close>

locale transfer_frame = world_relation R for R :: "'b world \<Rightarrow> 'b world \<Rightarrow> bool" +
  fixes e :: "'b env"
  assumes frame_app: "R w (App_update g w)"
    and frame_events: "R w (Events_update h w)"
    and frame_principal: "map_write m \<Longrightarrow> R w (Principal_update m w)"
    and frame_stats: "R w (Stats_update (\<lambda>_. Some s) w)"
begin

lemma frame_totals:
  "steps R DecrementTotalHolders" "steps R IncrementTotalHolders"
  "steps R (DecrementTotalPrincipal a)" "steps R (IncrementTotalPrincipal a)"
  "steps R (IncrementTotalYieldAccrued a)"
  by (auto simp: steps_wp wp_simps rel_refl frame_stats split: option.split)

lemma frame_send: "steps R (SendRestrictionFn e f t c)"
  unfolding SendRestrictionFn_def debitSender_def creditRecipient_def
  by (intro steps_control frame_totals steps_modify frame_principal map_writes)

lemma frame_shift: "steps R (shiftYieldPrincipal e y)"
  unfolding shiftYieldPrincipal_def by (intro steps_control steps_modify frame_principal map_writes)

end

sublocale transfer_frame \<subseteq> transfer_relation
  by unfold_locales (auto simp: frame_send intro: frame_app frame_events)

locale keeper_frame = transfer_frame +
  assumes frame_index: "Index w = Some j \<Longrightarrow> j < i \<Longrightarrow> R w (Index_update (\<lambda>_. Some i) w)"
    and frame_rewards: "map_write k \<Longrightarrow> R w (VaultsRewards_update k w)"
    and frame_retry: "map_write l \<Longrightarrow> R w (RetryAmounts_update l w)"
    and frame_external: "map_write l \<Longrightarrow> R w (TotalExternalYield_update l w)"

sublocale keeper_frame \<subseteq> keeper_relation
  by unfold_locales
    (auto simp: frame_totals frame_shift
      intro: frame_index frame_rewards frame_retry frame_external)

subsection \<open>The index only grows\<close>

definition index_grows :: "'b world \<Rightarrow> 'b world \<Rightarrow> bool" where
  "index_grows w v \<longleftrightarrow> (\<forall>i. Index w = Some i \<longrightarrow> (\<exists>j. Index v = Some j \<and> i \<le> j))"

interpretation index_frame: keeper_frame index_grows e for e
  by unfold_locales (auto simp: index_grows_def; force)+

subsection \<open>The parts of the store yield does not touch\<close>

text \<open>Everything of the Portal, and the positions, flags and counters of the vaults.\<close>

definition portal_view :: "'b world \<Rightarrow> _" where
  "portal_view w = (PortalOwner w, PortalPaused w, PortalPeers w, PortalBridgingPaths w, PortalNonce w)"

definition custody_view :: "'b world \<Rightarrow> _" where
  "custody_view w = (VaultsPaused w, VaultsSeasonOneEnded w, VaultsPositions w,
     VaultsTotalFlexiblePrincipal w, VaultsStats w)"

interpretation portal_frame: keeper_frame "same portal_view" e for e
  by unfold_locales (simp_all add: same_def portal_view_def)

interpretation custody_frame: keeper_frame "same custody_view" e for e
  by unfold_locales (simp_all add: same_def custody_view_def)

text \<open>Bank transfers alone also leave the index, the retry amounts and the rewards.\<close>

definition transfer_view :: "'b world \<Rightarrow> _" where
  "transfer_view w = (portal_view w, custody_view w, Index w, Paused w, YieldRecipients w,
     RetryAmounts w, TotalExternalYield w, VaultsRewards w, BlockTime w)"

interpretation transfers: transfer_frame "same transfer_view" e for e
  by unfold_locales (simp_all add: same_def transfer_view_def portal_view_def custody_view_def)

subsection \<open>The ledger stays covered\<close>

definition legacy_env :: "'b env \<Rightarrow> bool" where
  "legacy_env e \<longleftrightarrow> legacy_dec (dec_Quo e) (dec_QuoInt e)"

text \<open>The yield principal of a positive yield is not negative.\<close>

lemma yield_principal_nonneg:
  assumes "legacy_env e" "dec_QuoInt e (LegacyDec_of i) (10 ^ 12) = Ok ind" "0 < i"
    "dec_Quo e (LegacyDec_of y) ind = Ok q" "0 < y" "LegacyDec_TruncateInt q = Ok p"
  shows "0 \<le> p"
proof -
  have dec: "legacy_dec (dec_Quo e) (dec_QuoInt e)"
    using assms(1) by (simp add: legacy_env_def)
  have "ind = LegacyDec_of i div 10 ^ 12"
    using legacy_dec.quo_int_trunc [OF dec assms(2)] assms(3) by (simp add: LegacyDec_of_def)
  also have "\<dots> = i * 10 ^ 6"
    by (simp add: LegacyDec_of_def dec_one_def)
  finally have "0 < ind" using assms(3) by simp
  with legacy_dec.quo_nonneg [OF dec assms(4)] assms(5) have "0 \<le> q"
    by (simp add: LegacyDec_of_def)
  with assms(6) show ?thesis by (auto simp: ok_simps sdiv_nonneg_result)
qed

lemma shift_backed:
  assumes "legacy_env e" "0 < y" "ledger_inv w"
  shows "wp (shiftYieldPrincipal e y) (\<lambda>_. ledger_inv) (\<lambda>_. ledger_inv) w"
proof -
  have lower: "t - p \<le> b" if "t \<le> b" "dec_QuoInt e (LegacyDec_of i) 1000000000000 = Ok ind" "0 < i"
    "dec_Quo e (LegacyDec_of y) ind = Ok q" "LegacyDec_TruncateInt q = Ok p" for t b i ind q p
    using yield_principal_nonneg [OF assms(1) _ that(3,4) assms(2) that(5)] that(1,2) by simp
  show ?thesis
    using assms(3)
    by (auto simp: shiftYieldPrincipal_def wp_simps Int_Sub_def Int_Add_def checked_def
        ledger_inv_def principal_sum_def map_ok_Set total_Map_Set
        split: option.split outcome.split intro: lower)
qed

definition ledger_covered :: "'b env \<Rightarrow> 'b world \<Rightarrow> bool" where
  "ledger_covered e w \<longleftrightarrow> (legacy_env e \<longrightarrow> ledger_inv w)"

interpretation ledger: keeper_relation "keeps (ledger_covered e)" e for e
proof
  fix c f t a y
  show "steps (keeps (ledger_covered e)) (SendRestrictionFn e f t c)" if "0 \<le> AmountOf c (denom e)"
    using restriction_ledger [OF _ that]
    by (auto simp: steps_def keeps_def ledger_covered_def wp_any)
  show "steps (keeps (ledger_covered e)) (shiftYieldPrincipal e y)" if "0 < y"
    using shift_backed [OF _ that]
    by (auto simp: steps_def keeps_def ledger_covered_def wp_any)
  show "steps (keeps (ledger_covered e)) (IncrementTotalYieldAccrued a)"
    by (auto simp: steps_wp wp_simps keeps_def ledger_covered_def ledger_inv_def principal_sum_def
        split: option.split)
qed (force simp: keeps_def ledger_covered_def ledger_inv_def principal_sum_def)+

end
