(* ===== verification/Vault_State.thy ===== *)
theory Vault_State
  imports Yield_Laws
begin

text \<open>
  \<open>keeper/state_vaults.go\<close>: the accessors of the vaults submodule. A position is stored under
  (address, vault, Unix seconds); the two multi-indexes are functions of that key, so matching
  them selects the entries with the given first components in key order.
\<close>

subsection \<open>Accessors\<close>

definition GetVaultsPaused :: "'b world \<Rightarrow> paused_type" where
  "GetVaultsPaused w = get_or PAUSED_NONE (VaultsPaused w)"

definition GetVaultsTotalFlexiblePrincipal :: "('b, int) handler" where
  "GetVaultsTotalFlexiblePrincipal = item_get VaultsTotalFlexiblePrincipal"

fun position_entry_of :: "position_key \<times> position \<Rightarrow> position_entry" where
  "position_entry_of ((a, v, t), p) =
     \<lparr>pos_Principal = pos_Principal p, pos_Index = pos_Index p, pos_Amount = pos_Amount p,
      pos_Time = pos_Time p, pos_Address = a, pos_Vault = v\<rparr>"

definition GetVaultsPositions :: "'b world \<Rightarrow> position_entry list" where
  "GetVaultsPositions w = map position_entry_of (VaultsPositions w)"

definition GetVaultsPositionsByProvider :: "addr \<Rightarrow> 'b world \<Rightarrow> position_entry list" where
  "GetVaultsPositionsByProvider provider w =
     map position_entry_of (filter (\<lambda>((a, _, _), _). a = provider) (VaultsPositions w))"

definition GetVaultsPositionsByProviderAndVault ::
    "addr \<Rightarrow> vault_type \<Rightarrow> 'b world \<Rightarrow> position_entry list" where
  "GetVaultsPositionsByProviderAndVault provider vault w =
     map position_entry_of
       (filter (\<lambda>((a, v, _), _). a = provider \<and> v = vault) (VaultsPositions w))"

definition GetVaultsRewards :: "'b world \<Rightarrow> reward list" where
  "GetVaultsRewards w = map snd (VaultsRewards w)"

definition GetVaultsStats :: "('b, vaults_stats) handler" where
  "GetVaultsStats = item_get VaultsStats"

definition IncrementVaultUsers :: "vault_type \<Rightarrow> ('b, unit) handler" where
  "IncrementVaultUsers vault =
     bnd GetVaultsStats (\<lambda>s.
     modify (VaultsStats_update (\<lambda>_. Some (case vault of
         STAKED \<Rightarrow> s\<lparr>StakedTotalUsers := StakedTotalUsers s + 1\<rparr>
       | FLEXIBLE \<Rightarrow> s\<lparr>FlexibleTotalUsers := FlexibleTotalUsers s + 1\<rparr>
       | _ \<Rightarrow> s))))"

definition DecrementVaultUsers :: "vault_type \<Rightarrow> ('b, unit) handler" where
  "DecrementVaultUsers vault =
     bnd GetVaultsStats (\<lambda>s.
     modify (VaultsStats_update (\<lambda>_. Some (case vault of
         STAKED \<Rightarrow> s\<lparr>StakedTotalUsers := StakedTotalUsers s - 1\<rparr>
       | FLEXIBLE \<Rightarrow> s\<lparr>FlexibleTotalUsers := FlexibleTotalUsers s - 1\<rparr>
       | _ \<Rightarrow> s))))"

definition IncrementVaultTotalPrincipal :: "vault_type \<Rightarrow> int \<Rightarrow> ('b, unit) handler" where
  "IncrementVaultTotalPrincipal vault amount =
     bnd GetVaultsStats (\<lambda>s.
     bnd (lift (case vault of
         STAKED \<Rightarrow> obind (Int_Add (StakedTotalPrincipal s) amount)
           (\<lambda>p. Ok (s\<lparr>StakedTotalPrincipal := p\<rparr>))
       | FLEXIBLE \<Rightarrow> obind (Int_Add (FlexibleTotalPrincipal s) amount)
           (\<lambda>p. Ok (s\<lparr>FlexibleTotalPrincipal := p\<rparr>))
       | _ \<Rightarrow> Ok s)) (\<lambda>s'.
     modify (VaultsStats_update (\<lambda>_. Some s'))))"

definition DecrementVaultTotalPrincipal :: "vault_type \<Rightarrow> int \<Rightarrow> ('b, unit) handler" where
  "DecrementVaultTotalPrincipal vault amount =
     bnd GetVaultsStats (\<lambda>s.
     bnd (lift (case vault of
         STAKED \<Rightarrow> obind (Int_Sub (StakedTotalPrincipal s) amount)
           (\<lambda>p. Ok (s\<lparr>StakedTotalPrincipal := p\<rparr>))
       | FLEXIBLE \<Rightarrow> obind (Int_Sub (FlexibleTotalPrincipal s) amount)
           (\<lambda>p. Ok (s\<lparr>FlexibleTotalPrincipal := p\<rparr>))
       | _ \<Rightarrow> Ok s)) (\<lambda>s'.
     modify (VaultsStats_update (\<lambda>_. Some s'))))"

definition IncrementFlexibleTotalDistributedRewardsPrincipal :: "int \<Rightarrow> ('b, unit) handler" where
  "IncrementFlexibleTotalDistributedRewardsPrincipal amount =
     bnd GetVaultsStats (\<lambda>s.
     bnd (lift (case FlexibleTotalDistributedRewardsPrincipal s of
         Some d \<Rightarrow> Int_Add d amount
       | None \<Rightarrow> Ok amount)) (\<lambda>d.
     modify (VaultsStats_update (\<lambda>_. Some (s\<lparr>FlexibleTotalDistributedRewardsPrincipal := Some d\<rparr>)))))"

subsection \<open>The name of a position's account\<close>

text \<open>\<open>strings.ToLower\<close> on ASCII text and the decimal form of an integer.\<close>

definition to_lower_char :: "char \<Rightarrow> char" where
  "to_lower_char c =
     (let n = of_char c :: nat in if 65 \<le> n \<and> n \<le> 90 then char_of (n + 32) else c)"

definition ToLower :: "string \<Rightarrow> string" where
  "ToLower s = map to_lower_char s"

fun nat_decimal :: "nat \<Rightarrow> string" where
  "nat_decimal n =
     (if n < 10 then [char_of (48 + n)] else nat_decimal (n div 10) @ [char_of (48 + n mod 10)])"

declare nat_decimal.simps [simp del]

definition Itoa :: "int \<Rightarrow> string" where
  "Itoa i = (if i < 0 then ''-'' @ nat_decimal (nat (- i)) else nat_decimal (nat i))"

text \<open>Flexible positions have an account each, Staked positions share one.\<close>

definition ToUserVaultPositionModuleAccount :: "string \<Rightarrow> vault_type \<Rightarrow> int \<Rightarrow> string" where
  "ToUserVaultPositionModuleAccount address vaultType timestamp =
     (if vaultType = FLEXIBLE
      then ''dollar/vaults/flexible/'' @ ToLower address @ ''/'' @ Itoa timestamp
      else StakedVaultName)"

subsection \<open>Runs of the accessors\<close>

lemma wp_GetVaultsStats [wp_simps]:
  "wp GetVaultsStats Q E w = (case VaultsStats w of None \<Rightarrow> E (Some ErrNotFound) w | Some s \<Rightarrow> Q s w)"
  by (simp add: GetVaultsStats_def wp_simps)

lemmas vault_counter_defs = IncrementVaultUsers_def DecrementVaultUsers_def
  IncrementVaultTotalPrincipal_def DecrementVaultTotalPrincipal_def
  IncrementFlexibleTotalDistributedRewardsPrincipal_def

text \<open>The counters write the vault statistics only.\<close>

lemma vault_counters_frame:
  assumes "\<And>w s. R w (VaultsStats_update (\<lambda>_. Some s) w)" "\<And>w. R w w"
  shows "steps R (IncrementVaultUsers v)" "steps R (DecrementVaultUsers v)"
    "steps R (IncrementVaultTotalPrincipal v a)" "steps R (DecrementVaultTotalPrincipal v a)"
    "steps R (IncrementFlexibleTotalDistributedRewardsPrincipal a)"
  using assms
  by (auto simp: steps_wp vault_counter_defs wp_simps split: option.split outcome.split)

end
