(* ===== verification/Vaults.thy ===== *)
theory Vaults
  imports Vault_State
begin

text \<open>
  \<open>keeper/msg_server_vaults.go\<close> and \<open>keeper/abci.go\<close>: locking and unlocking positions, the
  rewards of the Flexible vault, the pause flag of the submodule, and the end of season one,
  which the begin blocker runs once.
\<close>

subsection \<open>Locking\<close>

text \<open>The checks of \<open>Lock\<close>, which decide on the address, the amount and the key of the position.\<close>

definition checkLock ::
    "'b env \<Rightarrow> string \<Rightarrow> vault_type \<Rightarrow> int option \<Rightarrow> ('b, addr \<times> int \<times> position_key) handler" where
  "checkLock e signer vault msgAmount =
     bnd (gets BlockTime) (\<lambda>time.
     bnd (gets GetVaultsPaused) (\<lambda>paused.
     if vault = FLEXIBLE \<and> vaultsSeasonOneEndTimestamp e < Unix time
     then fail (Wrap ErrActionPaused ''cannot lock because season one has ended'')
     else if paused = PAUSED_ALL \<or> paused = PAUSED_LOCK then fail (Wrap ErrActionPaused ''lock is paused'')
     else
       bnd (from_option (Errorf ''unable to decode user address'') (StringToBytes e signer)) (\<lambda>address.
       bnd (non_nil msgAmount) (\<lambda>amount.
       if amount < vaultsMinimumLock e then fail (Wrap ErrInvalidAmount ''must lock at least'')
       else if \<not> VaultType_exists vault \<or> vault = UNSPECIFIED
       then fail (Wrap ErrInvalidVaultType ''vault type does not exist'')
       else
         let key = (address, vault, Unix time) in
         bnd (gets (\<lambda>w. Map_Has (VaultsPositions w) key)) (\<lambda>has.
         bnd (gets (\<lambda>w. bank_GetBalance e (App w) address (denom e))) (\<lambda>balance.
         if has
         then fail (Wrap ErrInvalidVaultType ''cannot create multiple user positions in the same block'')
         else if balance < amount then fail (Wrap ErrInvalidAmount ''insufficient balance'')
         else ret (address, amount, key)))))))"

text \<open>\<open>total.Add(amountPrincipal)\<close> on the total flexible principal, zero when unset.\<close>

definition addTotalFlexible :: "int \<Rightarrow> ('b, unit) handler" where
  "addTotalFlexible amountPrincipal =
     bnd (gets (\<lambda>w. get_or 0 (VaultsTotalFlexiblePrincipal w))) (\<lambda>current.
     bnd (lift (Int_Add 0 current)) (\<lambda>s.
     bnd (lift (Int_Add s amountPrincipal)) (\<lambda>t.
     modify (VaultsTotalFlexiblePrincipal_update (\<lambda>_. Some t)))))"

definition Lock :: "'b env \<Rightarrow> string \<Rightarrow> vault_type \<Rightarrow> int option \<Rightarrow> ('b, unit) handler" where
  "Lock e signer vault msgAmount =
     bnd (checkLock e signer vault msgAmount) (\<lambda>(address, amount, key).
     bnd (gets BlockTime) (\<lambda>time.
     let name = ToUserVaultPositionModuleAccount signer vault (Unix time) in
     thn (modify (App_update (account_SetModuleAccount e name)))
     (bnd (lift (NewCoins1 (denom e) amount)) (\<lambda>coins.
      thn (SendCoins e address (NewModuleAddress e name) coins)
      (bnd (wrap_err ''unable to get index from state'' (item_get Index)) (\<lambda>index.
       bnd (lift (GetPrincipalAmountRoundedDown amount index)) (\<lambda>amountPrincipal.
       thn (modify (VaultsPositions_update (Map_Set key
             \<lparr>pos_Principal = amountPrincipal, pos_Index = index, pos_Amount = amount,
              pos_Time = time\<rparr>)))
       (thn (if vault = FLEXIBLE then addTotalFlexible amountPrincipal else ret ())
       (bnd (gets (GetVaultsPositionsByProviderAndVault address vault)) (\<lambda>positions.
        thn (if length positions = 1
             then wrap_err ''unable to increment vault total users'' (IncrementVaultUsers vault)
             else ret ())
        (thn (wrap_err ''unable to increment vault total principal''
               (IncrementVaultTotalPrincipal vault amountPrincipal))
        (emit (PositionLocked signer vault index amount amountPrincipal)))))))))))))"

subsection \<open>Rewards of the Flexible vault\<close>

text \<open>What a position is owed of one rewards record, whose last index is excluded.\<close>

definition userReward :: "'b env \<Rightarrow> int \<Rightarrow> int \<Rightarrow> reward \<Rightarrow> int result" where
  "userReward e currentIndex amountPrincipal r =
     (if rew_Index r \<noteq> currentIndex \<and> \<not> rew_Rewards r < 0 then
        obind (dec_Quo e (LegacyDec_of (rew_Rewards r)) (LegacyDec_of (rew_Total r))) (\<lambda>share.
        obind (LegacyDec_MulInt share amountPrincipal) LegacyDec_TruncateInt)
      else Ok 0)"

text \<open>The callback of the walk over the rewards records.\<close>

definition claimReward :: "'b env \<Rightarrow> int \<Rightarrow> int \<Rightarrow> int \<times> reward \<Rightarrow> int \<Rightarrow> ('b, int) handler" where
  "claimReward e currentIndex amountPrincipal = (\<lambda>(key, r) rewardsAmount.
     if \<not> 0 < rew_Total r \<or> \<not> 0 < rew_Rewards r then ret rewardsAmount
     else
       bnd (lift (userReward e currentIndex amountPrincipal r)) (\<lambda>reward.
       bnd (lift (Int_Sub (rew_Total r) amountPrincipal)) (\<lambda>t.
       bnd (lift (Int_Sub (rew_Rewards r) reward)) (\<lambda>rest.
       thn (modify (VaultsRewards_update (Map_Set key
             \<lparr>rew_Index = rew_Index r, rew_Total = t, rew_Rewards = rest\<rparr>)))
       (lift (Int_Add rewardsAmount reward))))))"

definition ClaimRewards :: "'b env \<Rightarrow> position_entry \<Rightarrow> int \<Rightarrow> ('b, int) handler" where
  "ClaimRewards e pos amount =
     bnd (from_option (ErrExternal ''address codec'') (BytesToString e (pos_Address pos))) (\<lambda>userAddress.
     bnd (gets (\<lambda>w. get_or 0 (Map_Get (Principal w) (FlexibleVaultAddress e)))) (\<lambda>current.
     bnd (lift (Int_Add 0 current)) (\<lambda>vaultRewardsPrincipal.
     if \<not> 0 < vaultRewardsPrincipal then ret 0
     else
       bnd (wrap_err ''unable to get index from state'' (item_get Index)) (\<lambda>currentIndex.
       bnd (lift (GetPrincipalAmountRoundedDown amount (pos_Index pos))) (\<lambda>amountPrincipal.
       bnd (gets VaultsRewards) (\<lambda>rewards.
       bnd (fold_prog (claimReward e currentIndex amountPrincipal)
              (Map_After (pos_Index pos) rewards) 0) (\<lambda>rewardsAmount.
       bnd (lift (NewCoins1 (denom e) rewardsAmount)) (\<lambda>coins.
       thn (SendCoins e (FlexibleVaultAddress e) (pos_Address pos) coins)
       (thn (emit (RewardClaimed userAddress rewardsAmount))
       (ret rewardsAmount))))))))))"

subsection \<open>Unlocking\<close>

text \<open>The flexible part of a turn of the loop: the total is lowered, rewards and yield of the
  position are claimed, and the yield is added to what is sent.\<close>

definition unlockFlexible ::
    "'b env \<Rightarrow> string \<Rightarrow> position_entry \<Rightarrow> int \<Rightarrow> int \<Rightarrow> ('b, int) handler" where
  "unlockFlexible e signer pos positionAmountToRemove positionPrincipalToRemove =
     bnd (gets (\<lambda>w. get_or 0 (VaultsTotalFlexiblePrincipal w))) (\<lambda>current.
     bnd (lift (Int_Add 0 current)) (\<lambda>totalVaultUsersPrincipal.
     bnd (lift (Int_Sub totalVaultUsersPrincipal positionPrincipalToRemove)) (\<lambda>t.
     thn (modify (VaultsTotalFlexiblePrincipal_update (\<lambda>_. Some t)))
     (bnd (ClaimRewards e pos positionAmountToRemove) (\<lambda>rewards.
      thn (wrap_err ''unable to increment flexible vault total distributed rewards principal''
            (IncrementFlexibleTotalDistributedRewardsPrincipal rewards))
      (bnd (claimModuleYield e (NewModuleAddress e
              (ToUserVaultPositionModuleAccount signer FLEXIBLE (Unix (pos_Time pos))))) (\<lambda>yield.
       if 0 < yield then lift (Int_Add positionAmountToRemove yield)
       else ret positionAmountToRemove)))))))"

text \<open>A position is removed or lowered by what is taken of it.\<close>

definition reducePosition :: "position_entry \<Rightarrow> int \<Rightarrow> int \<Rightarrow> ('b, unit) handler" where
  "reducePosition pos positionAmountToRemove positionPrincipalToRemove =
     (let key = (pos_Address pos, pos_Vault pos, Unix (pos_Time pos)) in
      if pos_Amount pos \<le> positionAmountToRemove
      then modify (VaultsPositions_update (Map_Remove key))
      else
        bnd (lift (Int_Sub (pos_Principal pos) positionPrincipalToRemove)) (\<lambda>updatedPrincipal.
        bnd (lift (Int_Sub (pos_Amount pos) positionAmountToRemove)) (\<lambda>updatedAmount.
        modify (VaultsPositions_update (Map_Set key
          \<lparr>pos_Principal = updatedPrincipal, pos_Index = pos_Index pos, pos_Amount = updatedAmount,
           pos_Time = pos_Time pos\<rparr>)))))"

text \<open>One turn of the loop over the positions: \<open>(remainingAmountToRemove, removedPrincipal)\<close>.\<close>

definition unlockPosition ::
    "'b env \<Rightarrow> string \<Rightarrow> vault_type \<Rightarrow> addr \<Rightarrow> position_entry \<Rightarrow> int \<times> int \<Rightarrow> ('b, int \<times> int) handler" where
  "unlockPosition e signer vault address pos = (\<lambda>(remaining, removed).
     if remaining = 0 then ret (remaining, removed)
     else
       let toRemove = (if remaining < pos_Amount pos then remaining else pos_Amount pos) in
       bnd (lift (GetPrincipalAmountRoundedDown toRemove (pos_Index pos))) (\<lambda>principalToRemove.
       bnd (if vault = FLEXIBLE then unlockFlexible e signer pos toRemove principalToRemove
            else ret toRemove) (\<lambda>amountToSend.
       bnd (lift (NewCoins1 (denom e) amountToSend)) (\<lambda>coins.
       thn (SendCoins e (NewModuleAddress e
              (ToUserVaultPositionModuleAccount signer (pos_Vault pos) (Unix (pos_Time pos))))
              address coins)
       (thn (reducePosition pos toRemove principalToRemove)
       (thn (wrap_err ''unable to emit position unlocked event''
              (emit (PositionUnlocked signer vault (pos_Index pos) amountToSend principalToRemove)))
       (bnd (lift (Int_Add removed principalToRemove)) (\<lambda>removed'.
        bnd (lift (Int_Sub remaining toRemove)) (\<lambda>remaining'.
        ret (remaining', removed'))))))))))"

text \<open>The checks of \<open>unlock\<close> on the amount against the user's positions.\<close>

fun sum_amounts :: "position_entry list \<Rightarrow> int \<Rightarrow> int result" where
  "sum_amounts [] t = Ok t"
| "sum_amounts (p # ps) t = obind (Int_Add t (pos_Amount p)) (sum_amounts ps)"

definition checkUnlock ::
    "'b env \<Rightarrow> string \<Rightarrow> vault_type \<Rightarrow> int option \<Rightarrow> ('b, addr \<times> int \<times> position_entry list) handler" where
  "checkUnlock e signer vault msgAmount =
     bnd (from_option (Errorf ''unable to decode user address'') (StringToBytes e signer)) (\<lambda>address.
     case msgAmount of
       None \<Rightarrow> fail (Wrap ErrInvalidAmount ''amount is zero'')
     | Some amount \<Rightarrow>
       if \<not> 0 < amount then fail (Wrap ErrInvalidAmount ''amount is zero'')
       else if \<not> VaultType_exists vault \<or> vault = UNSPECIFIED
       then fail (Wrap ErrInvalidVaultType ''vault type does not exist'')
       else
         bnd (gets (GetVaultsPositionsByProviderAndVault address vault)) (\<lambda>positions.
         bnd (lift (sum_amounts positions 0)) (\<lambda>totalPositions.
         if totalPositions < amount
         then fail (Wrap ErrInvalidAmount ''greater than the total amount left'')
         else if amount < vaultsMinimumUnlock e \<and> totalPositions \<noteq> amount then
           if amount \<noteq> totalPositions \<and> totalPositions < vaultsMinimumUnlock e
           then fail (Wrap ErrInvalidAmount ''must unlock the total amount left'')
           else fail (Wrap ErrInvalidAmount ''must unlock at least'')
         else ret (address, amount, positions))))"

definition unlock :: "'b env \<Rightarrow> string \<Rightarrow> vault_type \<Rightarrow> int option \<Rightarrow> ('b, unit) handler" where
  "unlock e signer vault msgAmount =
     bnd (checkUnlock e signer vault msgAmount) (\<lambda>(address, amount, positions).
     bnd (fold_prog (unlockPosition e signer vault address) positions (amount, 0))
       (\<lambda>(remaining, removedPrincipal).
     if remaining \<noteq> 0 \<or> \<bar>remaining\<bar> \<noteq> 0
     then fail (Wrap ErrInvalidAmount ''invalid amount left'')
     else
       bnd (gets (GetVaultsPositionsByProviderAndVault address vault)) (\<lambda>left.
       thn (if length left = 0
            then wrap_err ''unable to decrement vault total users'' (DecrementVaultUsers vault)
            else ret ())
       (wrap_err ''unable to decrement vault total principal''
         (DecrementVaultTotalPrincipal vault removedPrincipal)))))"

definition Unlock :: "'b env \<Rightarrow> string \<Rightarrow> vault_type \<Rightarrow> int option \<Rightarrow> ('b, unit) handler" where
  "Unlock e signer vault amount =
     bnd (gets BlockTime) (\<lambda>time.
     bnd (gets GetVaultsPaused) (\<lambda>paused.
     if vault = FLEXIBLE \<and> vaultsSeasonOneEndTimestamp e < Unix time
     then fail (Wrap ErrActionPaused ''cannot unlock because season one has ended'')
     else if paused = PAUSED_ALL \<or> paused = PAUSED_UNLOCK then fail (Wrap ErrActionPaused ''unlock is paused'')
     else unlock e signer vault amount))"

subsection \<open>Pausing\<close>

definition vaults_SetPausedState :: "'b env \<Rightarrow> string \<Rightarrow> paused_type \<Rightarrow> ('b, unit) handler" where
  "vaults_SetPausedState e signer paused =
     (if signer \<noteq> authority e then fail (Wrap ErrVaultsInvalidAuthority ''expected authority'')
      else if \<not> PausedType_exists paused
      then fail (Wrap ErrInvalidPauseType ''vaults pause type does not exist'')
      else
        thn (modify (VaultsPaused_update (\<lambda>_. Some paused)))
        (emit (PausedStateUpdated paused)))"

subsection \<open>The end of season one\<close>

text \<open>The total flexible amount of each user with a valid address, by address.\<close>

fun flexibleTotals :: "'b env \<Rightarrow> position_entry list \<Rightarrow> (string, int) cmap \<Rightarrow> (string, int) cmap result" where
  "flexibleTotals e [] users = Ok users"
| "flexibleTotals e (p # ps) users =
     (if pos_Vault p = FLEXIBLE then
        (case BytesToString e (pos_Address p) of
           None \<Rightarrow> flexibleTotals e ps users
         | Some address \<Rightarrow>
             (case Map_Get users address of
                None \<Rightarrow> flexibleTotals e ps (Map_Set address (pos_Amount p) users)
              | Some t \<Rightarrow> obind (Int_Add t (pos_Amount p))
                  (\<lambda>t'. flexibleTotals e ps (Map_Set address t' users))))
      else flexibleTotals e ps users)"

definition endVaultsSeasonOne :: "'b env \<Rightarrow> ('b, unit) handler" where
  "endVaultsSeasonOne e =
     bnd (gets GetVaultsPositions) (\<lambda>positions.
     bnd (lift (flexibleTotals e positions [])) (\<lambda>flexibleUsers.
     for_each (\<lambda>(address, amount).
       thn (attempt (unlock e address FLEXIBLE (Some amount))) (ret ())) flexibleUsers))"

text \<open>
  \<open>BeginBlocker\<close>. The unlocking runs on a cached store that is committed only when it returns
  without error; the deferred function marks season one as ended whatever the outcome, and a
  panic is recovered, after which the function returns no error.
\<close>

definition BeginBlocker :: "'b env \<Rightarrow> ('b, unit) handler" where
  "BeginBlocker e = (\<lambda>w.
     if vaultsSeasonOneEndTimestamp e < Unix (BlockTime w) \<and> \<not> IsVaultsSeasonOneEnded w then
       (case endVaultsSeasonOne e w of
          (Ok _, w') \<Rightarrow> (Ok (), w'\<lparr>VaultsSeasonOneEnded := Some True\<rparr>)
        | (Err x, _) \<Rightarrow> (Err x, w\<lparr>VaultsSeasonOneEnded := Some True\<rparr>)
        | (Panic _, _) \<Rightarrow> (Ok (), w\<lparr>VaultsSeasonOneEnded := Some True\<rparr>))
     else (Ok (), w))"

end
