(* ===== verification/Testbed.thy ===== *)
theory Testbed
  imports Yield_Laws
begin

text \<open>
  A concrete keeper: the surroundings instantiated with the bank of \<open>utils/mocks\<close>, the
  rounding divisions of \<open>LegacyDec\<close> and small stand-ins for the address codecs, the IBC
  transfer, the Hyperlane warp and the Wormhole module. The hypotheses of the properties are
  met by it, and concrete runs are evaluated on it.
\<close>

definition test_address :: "string \<Rightarrow> addr" where
  "test_address name = [word_of_nat (length name)]"

text \<open>An IBC channel whose packets are refused makes the transfer fail; every other transfer is
  accepted. The Hyperlane module accepts every transfer.\<close>

definition test_env :: "mock_app env" where
  "test_env = \<lparr>
     denom = ''uusdn'', authority = ''authority'',
     vaultsMinimumLock = 10, vaultsMinimumUnlock = 5,
     vaultsSeasonOneEndTimestamp = 1000, vaultsSeasonTwoYieldCollector = [99],
     bank_GetBalance = mock_GetBalance, bank_GetSupply = mock_GetSupply,
     bank_MintCoins = mock_MintCoins test_address, bank_BurnCoins = mock_BurnCoins test_address,
     bank_Move = mock_Move, account_SetModuleAccount = mock_SetModuleAccount test_address,
     StringToBytes = (\<lambda>s. if s = [] then None else Some (string_bytes s)),
     BytesToString = (\<lambda>a. Some (bytes_string a)),
     AccString = bytes_string,
     NewModuleAddress = test_address,
     GetEscrowAddress = (\<lambda>port channel. 200 # string_bytes channel),
     GetChannel = (\<lambda>b port channel. channel = ''channel-0''),
     ibc_Transfer = (\<lambda>m. if SourceChannel m = ''channel-9''
       then fail (ErrExternal ''channel is closed'') else ret ()),
     DefaultRelativePacketTimeout = 600000000000,
     DecodeHexAddress = (\<lambda>s. if s = [] then None else Some (string_bytes s)),
     GetInternalId = (\<lambda>bz. word_of_nat (length bz)),
     HypTokens = (\<lambda>b i. if i = 1 then Some \<lparr>TokenId = [1], CollateralBalance = 600\<rparr>
       else if i = 2 then Some \<lparr>TokenId = [1, 2], CollateralBalance = 300\<rparr> else None),
     EnrolledRouters = (\<lambda>b i. [\<lparr>ReceiverDomain = 7\<rparr>]),
     RemoteTransferCollateral = (\<lambda>m. ret ()),
     WarpModuleName = ''warp'',
     GetChain = (\<lambda>b. Ok 4009),
     ParseAndVerifyVAA = (\<lambda>bz b. (case bz of [] \<Rightarrow> Err (ErrExternal ''vaa'')
       | x # rest \<Rightarrow> Ok \<lparr>EmitterChain = ucast x, EmitterAddress = replicate 32 x, VaaPayload = lit rest\<rparr>, b)),
     PostMessage = (\<lambda>sender payload nonce b. (Ok (), b)),
     Keccak256 = (\<lambda>bz. take 32 bz),
     dec_Quo = legacy_Quo, dec_QuoInt = legacy_QuoInt\<rparr>"

text \<open>Two holders at an index of one, the supply backed by the recorded principal.\<close>

definition test_world :: "mock_app world" where
  "test_world = \<lparr>
     Paused = None, Index = Some (10 ^ 12),
     Principal = [([97], 1000), ([98], 500)],
     Stats = Some \<lparr>TotalHolders = 2, TotalPrincipal = 1500, TotalYieldAccrued = 0\<rparr>,
     TotalExternalYield = [], YieldRecipients = [], RetryAmounts = [],
     PortalOwner = Some ''owner'', PortalPaused = Some False,
     PortalPeers = [], PortalBridgingPaths = [], PortalNonce = Some 7,
     VaultsPaused = None, VaultsSeasonOneEnded = None, VaultsPositions = [],
     VaultsTotalFlexiblePrincipal = None, VaultsRewards = [],
     VaultsStats = Some \<lparr>FlexibleTotalPrincipal = 0, FlexibleTotalUsers = 0,
       FlexibleTotalDistributedRewardsPrincipal = Some 0, StakedTotalPrincipal = 0, StakedTotalUsers = 0\<rparr>,
     BlockTime = 500 * 10 ^ 9, Events = [],
     App = \<lparr>Balances = [([97], [(''uusdn'', 1000)]), ([98], [(''uusdn'', 500)])], Accounts = []\<rparr>\<rparr>"

lemma test_external: "external_calls test_env"
  by (auto simp: external_calls_def test_env_def steps_def run_simps intro: stay)

lemma test_legacy: "legacy_env test_env"
  unfolding legacy_env_def test_env_def env.simps by (rule legacy.legacy_dec_axioms)

lemma test_ledger: "ledger_inv test_world"
  by (simp add: ledger_inv_def test_world_def map_ok_def principal_sum_def)

lemma test_valid: "mock_valid (App test_world)"
  by (simp add: mock_valid_def test_world_def map_ok_def valid_coins_def)

end
