(* ===== verification/Effects.thy ===== *)
theory Effects
  imports Testbed
begin

text \<open>
  What the messages of the dollar submodule do to balances, supply, principal and yield, given
  the contract of the bank. The locale \<open>bank_env\<close> is the contract of \<open>Bank\<close> for the bank
  operations of the keeper's surroundings.
\<close>

subsection \<open>Balances seen by the keeper\<close>

definition balance :: "'b env \<Rightarrow> 'b world \<Rightarrow> addr \<Rightarrow> int" where
  "balance e w a = bank_GetBalance e (App w) a (denom e)"

definition total_supply :: "'b env \<Rightarrow> 'b world \<Rightarrow> int" where
  "total_supply e w = bank_GetSupply e (App w) (denom e)"

locale bank_env =
  fixes e :: "'b env" and valid :: "'b \<Rightarrow> bool"
  assumes bank_contract: "bank_keeper (bank_GetBalance e) (bank_GetSupply e) (bank_MintCoins e)
    (bank_BurnCoins e) (bank_Move e) (NewModuleAddress e) valid"

sublocale bank_env \<subseteq> bank: bank_keeper "bank_GetBalance e" "bank_GetSupply e"
    "bank_MintCoins e" "bank_BurnCoins e" "bank_Move e" "NewModuleAddress e" valid
  by (rule bank_contract)

lemma restriction_App: "SendRestrictionFn e f t c w = (r, w') \<Longrightarrow> App w' = App w"
proof -
  have "wp (SendRestrictionFn e f t c) (\<lambda>_ v. App v = App w) (\<lambda>_ v. App v = App w) w"
    by (simp add: SendRestrictionFn_def debitSender_def creditRecipient_def Let_def wp_simps
        split: option.split outcome.split)
  then show "SendRestrictionFn e f t c w = (r, w') \<Longrightarrow> App w' = App w"
    by (simp add: wp_any)
qed

lemma coins_of:
  "NewCoins1 d a = Ok c \<Longrightarrow> valid_coins c"
  "NewCoins1 d a = Ok c \<Longrightarrow> AmountOf c d' = (if d' = d then a else 0)"
  "NewCoins1 d a = Ok c \<Longrightarrow> 0 \<le> a"
  by (auto simp: NewCoins1_Ok valid_NewCoins1 simp del: if_split)

lemma coins_positive: "NewCoins1 d a = Ok c \<Longrightarrow> IsAllPositive c \<longleftrightarrow> 0 < a"
  by (auto simp: NewCoins1_Ok IsAllPositive_def)

text \<open>Everything but the ledger and the statistics survives the restriction.\<close>

lemma restriction_frame:
  assumes "SendRestrictionFn e f t c w = (r, w')"
  shows "Index w' = Index w" "Paused w' = Paused w" "VaultsPositions w' = VaultsPositions w"
proof -
  have "wp (SendRestrictionFn e f t c)
      (\<lambda>_ v. Index v = Index w \<and> Paused v = Paused w \<and> VaultsPositions v = VaultsPositions w)
      (\<lambda>_ v. Index v = Index w \<and> Paused v = Paused w \<and> VaultsPositions v = VaultsPositions w) w"
    by (simp add: SendRestrictionFn_def debitSender_def creditRecipient_def Let_def wp_simps
        split: option.split outcome.split)
  with assms show "Index w' = Index w" "Paused w' = Paused w"
    "VaultsPositions w' = VaultsPositions w"
    by (simp_all add: wp_any)
qed

lemma SendCoins_Ok:
  "SendCoins e f t c w = (Ok u, w') \<longleftrightarrow>
     (\<exists>w1 b. SendRestrictionFn e f t c w = (Ok t, w1) \<and> bank_Move e f t c (App w) = (Ok (), b) \<and>
        w' = w1\<lparr>App := b\<rparr>)"
proof
  assume "SendCoins e f t c w = (Ok u, w')"
  then obtain t' w1 b where r: "SendRestrictionFn e f t c w = (Ok t', w1)"
      and m: "bank_Move e f t' c (App w1) = (Ok u, b)" and w': "w' = w1\<lparr>App := b\<rparr>"
    by (auto simp: SendCoins_def bnd_Ok app_call_Ok)
  have "t' = t" "App w1 = App w" using restriction_recipient [OF r] restriction_App [OF r] by simp_all
  with r m w' show "\<exists>w1 b. SendRestrictionFn e f t c w = (Ok t, w1) \<and>
      bank_Move e f t c (App w) = (Ok (), b) \<and> w' = w1\<lparr>App := b\<rparr>" by auto
next
  assume "\<exists>w1 b. SendRestrictionFn e f t c w = (Ok t, w1) \<and> bank_Move e f t c (App w) = (Ok (), b) \<and>
    w' = w1\<lparr>App := b\<rparr>"
  then obtain w1 b where r: "SendRestrictionFn e f t c w = (Ok t, w1)"
      and m: "bank_Move e f t c (App w) = (Ok (), b)" and w': "w' = w1\<lparr>App := b\<rparr>" by blast
  from r have "App w1 = App w" by (rule restriction_App)
  with r m w' show "SendCoins e f t c w = (Ok u, w')" by (simp add: SendCoins_def bnd_Ok app_call_Ok)
qed

context bank_env
begin

lemma SendCoins_effect:
  assumes run: "SendCoins e f t c w = (Ok u, w')" and ok: "valid (App w)" "valid_coins c"
  shows "valid (App w')"
    "balance e w' a = balance e w a - (if a = f then AmountOf c (denom e) else 0)
       + (if a = t then AmountOf c (denom e) else 0)"
    "total_supply e w' = total_supply e w"
    "AmountOf c (denom e) \<le> balance e w f"
    "\<exists>w1. SendRestrictionFn e f t c w = (Ok t, w1) \<and> w' = w1\<lparr>App := App w'\<rparr>"
proof -
  from run obtain w1 b where r: "SendRestrictionFn e f t c w = (Ok t, w1)"
      and m: "bank_Move e f t c (App w) = (Ok (), b)" and w': "w' = w1\<lparr>App := b\<rparr>"
    by (auto simp: SendCoins_Ok)
  note facts = bank.move_facts [OF m ok] bank.move_enough [OF m ok]
  from facts w' show "valid (App w')"
    "balance e w' a = balance e w a - (if a = f then AmountOf c (denom e) else 0)
       + (if a = t then AmountOf c (denom e) else 0)"
    "total_supply e w' = total_supply e w" "AmountOf c (denom e) \<le> balance e w f"
    by (simp_all add: balance_def total_supply_def)
  from r w' show "\<exists>w1. SendRestrictionFn e f t c w = (Ok t, w1) \<and> w' = w1\<lparr>App := App w'\<rparr>"
    by auto
qed

end

text \<open>Transfers that the restriction lets pass without a ledger entry.\<close>

lemma unrecorded_send:
  assumes "movement_of e f t \<in> {Payout, Accrual}"
  shows "SendCoins e f t c w = (r, w') \<Longrightarrow> w' = w\<lparr>App := App w'\<rparr>"
  using assms
  by (auto simp: SendCoins_def restriction_payout bnd_run_simps app_call_def split: prod.splits)

lemma wp_frame_App:
  "w' = w\<lparr>App := b\<rparr> \<Longrightarrow> Principal w' = Principal w \<and> Index w' = Index w \<and> Stats w' = Stats w \<and>
     Events w' = Events w \<and> Paused w' = Paused w"
  by simp

subsection \<open>Claimable yield\<close>

text \<open>
  The yield of an account: the excess of what its principal is worth at the current index over
  its balance, where an excess of a single unit counts as none.
\<close>

definition claimable :: "'b env \<Rightarrow> 'b world \<Rightarrow> addr \<Rightarrow> int \<Rightarrow> int" where
  "claimable e w a i =
     (let y = (principal_of w a * i) sdiv 10 ^ 12 - balance e w a
      in if y < 2 \<or> \<not> fits y then 0 else y)"

lemma claimable_nonneg: "0 \<le> claimable e w a i"
  by (simp add: claimable_def Let_def)

lemma claimable_pos_iff: "0 < claimable e w a i \<longleftrightarrow> claimable e w a i \<noteq> 0"
  using claimable_nonneg [of e w a i] by linarith

lemma GetYield_run:
  "GetYield e acc w = (case StringToBytes e acc of
      None \<Rightarrow> (Err (Wrap (ErrExternal ''address codec'') ''unable to decode account''), w)
    | Some a \<Rightarrow> (case Index w of
        None \<Rightarrow> (Err (Wrap ErrNotFound ''unable to get index from state''), w)
      | Some i \<Rightarrow> if fits (principal_of w a * i) then (Ok (claimable e w a i, a), w)
                  else (Panic ''Int overflow'', w)))"
  by (simp add: GetYield_def prog_simps GetPresentAmount_def Int_Mul_def checked_def Int_Quo_def
      Int_SafeSub_def claimable_def principal_of_def balance_def Let_def split: option.split)

lemma GetYield_Ok:
  "GetYield e acc w = (Ok r, w') \<longleftrightarrow>
     (\<exists>a i. StringToBytes e acc = Some a \<and> Index w = Some i \<and> fits (principal_of w a * i) \<and>
        r = (claimable e w a i, a) \<and> w' = w)"
  by (auto simp: GetYield_run split: option.splits if_splits)

lemma ClaimYield_Ok:
  "ClaimYield e acc w = (Ok u, w') \<longleftrightarrow>
     \<not> GetPaused w \<and> (\<exists>a i c w1. StringToBytes e acc = Some a \<and> Index w = Some i \<and>
        fits (principal_of w a * i) \<and> NewCoins1 (denom e) (claimable e w a i) = Ok c \<and>
        SendCoins e (YieldAddress e) a c w = (Ok (), w1) \<and>
        w' = w1\<lparr>Events := Events w1 @ [YieldClaimed acc (claimable e w a i)]\<rparr>)"
  unfolding ClaimYield_def bnd_Ok gets_Ok if_fail_Ok
  by (simp add: bnd_Ok thn_Ok case_prod_Ok GetYield_Ok lift_Ok wrap_err_Ok emit_Ok
      SendCoinsFromModuleToAccount_def YieldAddress_def) blast

lemma payout_from_yield: "movement_of e (YieldAddress e) t = Payout"
  by (simp add: movement_of_def)

context bank_env
begin

lemma ClaimYield_effect:
  assumes run: "ClaimYield e acc w = (Ok u, w')" and ok: "valid (App w)"
    and a: "StringToBytes e acc = Some a" and i: "Index w = Some i" and other: "a \<noteq> YieldAddress e"
  shows "balance e w' a = balance e w a + claimable e w a i"
    "balance e w' (YieldAddress e) = balance e w (YieldAddress e) - claimable e w a i"
    "total_supply e w' = total_supply e w"
    "Principal w' = Principal w \<and> Index w' = Index w \<and> Stats w' = Stats w"
    "claimable e w' a i = 0"
proof -
  from run a i obtain c w1 where c: "NewCoins1 (denom e) (claimable e w a i) = Ok c"
      and send: "SendCoins e (YieldAddress e) a c w = (Ok (), w1)"
      and w': "w' = w1\<lparr>Events := Events w1 @ [YieldClaimed acc (claimable e w a i)]\<rparr>"
    by (auto simp: ClaimYield_Ok)
  note eff = SendCoins_effect [OF send ok coins_of(1) [OF c]]
  have frame: "w1 = w\<lparr>App := App w1\<rparr>"
    using unrecorded_send [OF _ send] by (simp add: payout_from_yield)
  have same: "balance e w' b = balance e w1 b" "total_supply e w' = total_supply e w1" for b
    by (simp_all add: w' balance_def total_supply_def)
  show bal: "balance e w' a = balance e w a + claimable e w a i"
    using eff(2) [of a] other coins_of(2) [OF c] by (simp add: same)
  show "balance e w' (YieldAddress e) = balance e w (YieldAddress e) - claimable e w a i"
    using eff(2) [of "YieldAddress e"] other coins_of(2) [OF c] by (simp add: same)
  show "total_supply e w' = total_supply e w" using eff(3) by (simp add: same)
  show stat: "Principal w' = Principal w \<and> Index w' = Index w \<and> Stats w' = Stats w"
    using wp_frame_App [OF frame] w' by simp
  then show "claimable e w' a i = 0"
    using bal by (simp add: claimable_def principal_of_def Let_def)
qed

end

subsection \<open>The index update\<close>

lemma advanceIndex_decreasing:
  "Index w = Some j \<Longrightarrow> i \<le> j \<Longrightarrow> advanceIndex i w = (Err ErrDecreasingIndex, w)"
  by (simp add: advanceIndex_def prog_simps)

lemma advanceIndex_increasing:
  "Index w = Some j \<Longrightarrow> j < i \<Longrightarrow> advanceIndex i w = (Ok j, w\<lparr>Index := Some i\<rparr>)"
  by (simp add: advanceIndex_def prog_simps)

lemma advanceIndex_unset:
  "Index w = None \<Longrightarrow> advanceIndex i w = (Err (Wrap ErrNotFound ''unable to get index from state''), w)"
  by (simp add: advanceIndex_def prog_simps)

lemma accrueYield_Ok:
  "accrueYield e p i w = (Ok y, w') \<longleftrightarrow>
     (\<exists>x c. GetPresentAmount p i = Ok x \<and> fits (x - total_supply e w) \<and>
        NewCoins1 (denom e) (x - total_supply e w) = Ok c \<and>
        (if IsAllPositive c then
           (\<exists>b w2. bank_MintCoins e ModuleName c (App w) = (Ok (), b) \<and>
              SendCoins e (ModuleAddress e) (YieldAddress e) c (w\<lparr>App := b\<rparr>) = (Ok (), w2) \<and>
              IncrementTotalYieldAccrued (AmountOf c (denom e)) w2 = (Ok (), w') \<and>
              y = AmountOf c (denom e))
         else y = 0 \<and> w' = w))"
  unfolding accrueYield_def bnd_Ok gets_Ok lift_Ok Int_Ok wrap_err_Ok total_supply_def
  by (simp add: thn_Ok bnd_Ok lift_Ok app_call_Ok wrap_err_Ok Let_def ret_Ok
      SendCoinsFromModuleToModule_def ModuleAddress_def YieldAddress_def) blast

text \<open>A supply above what the principal is worth makes the accrual panic.\<close>

lemma accrueYield_oversupplied:
  assumes "GetPresentAmount p i = Ok x" "x < total_supply e w" "fits (x - total_supply e w)"
  shows "accrueYield e p i w = (Panic ''negative coin amount'', w)"
  using assms
  by (simp add: accrueYield_def total_supply_def Int_Sub_def checked_def NewCoins1_def prog_simps)

lemma accrual_move: "ModuleAddress e \<noteq> YieldAddress e \<Longrightarrow>
    movement_of e (ModuleAddress e) (YieldAddress e) = Accrual"
  by (simp add: movement_of_def)

context bank_env
begin

text \<open>Coins minted to the module and moved on to the yield account.\<close>

lemma accrue_mint:
  assumes c: "NewCoins1 (denom e) y = Ok c" and mint: "bank_MintCoins e ModuleName c (App w) = (Ok (), b)"
    and send: "SendCoins e (ModuleAddress e) (YieldAddress e) c (w\<lparr>App := b\<rparr>) = (Ok (), w2)"
    and ok: "valid (App w)" and distinct: "ModuleAddress e \<noteq> YieldAddress e"
  shows "valid (App w2)" "total_supply e w2 = total_supply e w + y"
    "balance e w2 a = balance e w a + (if a = YieldAddress e then y else 0)"
    "w2 = w\<lparr>App := App w2\<rparr>"
proof -
  note m = bank.mint_facts [OF mint ok coins_of(1) [OF c], folded ModuleAddress_def]
  note s = SendCoins_effect [OF send _ coins_of(1) [OF c]]
  show "valid (App w2)" using s(1) m(1) by simp
  show "total_supply e w2 = total_supply e w + y"
    using s(3) m(1,3) coins_of(2) [OF c] by (simp add: total_supply_def)
  show "balance e w2 a = balance e w a + (if a = YieldAddress e then y else 0)"
    using s(2) m(1,2) coins_of(2) [OF c] distinct by (simp add: balance_def)
  show "w2 = w\<lparr>App := App w2\<rparr>"
    using unrecorded_send [OF _ send] accrual_move [OF distinct] by simp
qed

lemma accrueYield_effect:
  assumes run: "accrueYield e p i w = (Ok y, w')" and ok: "valid (App w)"
    and distinct: "ModuleAddress e \<noteq> YieldAddress e"
  shows "GetPresentAmount p i = Ok (total_supply e w + y)"
    "0 \<le> y" "valid (App w')" "total_supply e w' = total_supply e w + y"
    "balance e w' a = balance e w a + (if a = YieldAddress e then y else 0)"
    "Principal w' = Principal w \<and> Index w' = Index w"
    "recorded_principal w' = recorded_principal w"
proof -
  from run obtain x c where x: "GetPresentAmount p i = Ok x"
      and c: "NewCoins1 (denom e) (x - total_supply e w) = Ok c"
      and rest: "if IsAllPositive c then
        (\<exists>b w2. bank_MintCoins e ModuleName c (App w) = (Ok (), b) \<and>
           SendCoins e (ModuleAddress e) (YieldAddress e) c (w\<lparr>App := b\<rparr>) = (Ok (), w2) \<and>
           IncrementTotalYieldAccrued (AmountOf c (denom e)) w2 = (Ok (), w') \<and>
           y = AmountOf c (denom e))
       else y = 0 \<and> w' = w"
    by (auto simp: accrueYield_Ok)
  have pos: "IsAllPositive c \<longleftrightarrow> 0 < x - total_supply e w" "0 \<le> x - total_supply e w"
    "AmountOf c (denom e) = x - total_supply e w"
    using coins_positive [OF c] coins_of [OF c] by auto
  have x2: "total_supply e w \<le> x" using pos(2) by simp
  have y: "y = x - total_supply e w" using rest pos by (auto split: if_splits)
  with x x2 show "GetPresentAmount p i = Ok (total_supply e w + y)" "0 \<le> y" by simp_all
  have "valid (App w') \<and> total_supply e w' = total_supply e w + y \<and>
      balance e w' a = balance e w a + (if a = YieldAddress e then y else 0) \<and>
      Principal w' = Principal w \<and> Index w' = Index w \<and> recorded_principal w' = recorded_principal w"
  proof (cases "0 < y")
    case False
    with rest y ok pos show ?thesis by auto
  next
    case True
    with rest y pos obtain b w2 where m: "bank_MintCoins e ModuleName c (App w) = (Ok (), b)"
      and s: "SendCoins e (ModuleAddress e) (YieldAddress e) c (w\<lparr>App := b\<rparr>) = (Ok (), w2)"
      and i: "IncrementTotalYieldAccrued y w2 = (Ok (), w')" by auto
    note facts = accrue_mint [OF c [folded y] m s ok distinct]
    from i obtain st where "Stats w2 = Some st"
      "w' = w2\<lparr>Stats := Some (st\<lparr>TotalYieldAccrued := TotalYieldAccrued st + y\<rparr>)\<rparr>"
      by (auto simp: ok_simps)
    moreover have "Stats w = Stats w2" "Principal w2 = Principal w" "Index w2 = Index w"
      using wp_frame_App [OF facts(4)] by simp_all
    ultimately show ?thesis
      using facts(1-3) by (simp add: balance_def total_supply_def recorded_principal_def)
  qed
  then show "valid (App w')" "total_supply e w' = total_supply e w + y"
    "balance e w' a = balance e w a + (if a = YieldAddress e then y else 0)"
    "Principal w' = Principal w \<and> Index w' = Index w"
    "recorded_principal w' = recorded_principal w" by simp_all
qed

end

subsection \<open>Issuance and redemption\<close>

lemma Mint_Ok:
  "Mint e r amt None w = (Ok u, w') \<longleftrightarrow>
     (\<exists>c b. NewCoins1 (denom e) amt = Ok c \<and> bank_MintCoins e ModuleName c (App w) = (Ok (), b) \<and>
        SendCoins e (ModuleAddress e) r c (w\<lparr>App := b\<rparr>) = (Ok (), w'))"
  unfolding Mint_def
  by (simp add: thn_Ok ret_Ok bnd_Ok lift_Ok app_call_Ok SendCoinsFromModuleToAccount_def
      ModuleAddress_def) blast

lemma Burn_Ok:
  "Burn e s amt w = (Ok u, w') \<longleftrightarrow>
     (\<exists>c w1 b. NewCoins1 (denom e) amt = Ok c \<and>
        SendCoins e s (ModuleAddress e) c w = (Ok (), w1) \<and>
        bank_BurnCoins e ModuleName c (App w1) = (Ok (), b) \<and> w' = w1\<lparr>App := b\<rparr>)"
  unfolding Burn_def
  by (simp add: thn_Ok bnd_Ok lift_Ok app_call_Ok SendCoinsFromAccountToModule_def
      ModuleAddress_def)

text \<open>A user is any account but the module and the yield account.\<close>

definition is_user :: "'b env \<Rightarrow> addr \<Rightarrow> bool" where
  "is_user e a \<longleftrightarrow> a \<noteq> ModuleAddress e \<and> a \<noteq> YieldAddress e"

context bank_env
begin

lemma Mint_effect:
  assumes run: "Mint e r amt None w = (Ok u, w')" and ok: "valid (App w)" and amt: "amt \<noteq> 0"
    and r: "is_user e r" and distinct: "ModuleAddress e \<noteq> YieldAddress e"
  obtains i up down where "Index w = Some i" "GetPrincipalAmountRoundedUp amt i = Ok up"
    "GetPrincipalAmountRoundedDown amt i = Ok down"
    "\<And>a. principal_of w' a = principal_of w a + (if a = r then down else 0)"
    "recorded_principal w' = recorded_principal w + up"
    "\<And>a. balance e w' a = balance e w a + (if a = r then amt else 0)"
    "total_supply e w' = total_supply e w + amt"
proof -
  from run obtain c b where c: "NewCoins1 (denom e) amt = Ok c"
      and m: "bank_MintCoins e ModuleName c (App w) = (Ok (), b)"
      and s: "SendCoins e (ModuleAddress e) r c (w\<lparr>App := b\<rparr>) = (Ok (), w')"
    by (auto simp: Mint_Ok)
  note mf = bank.mint_facts [OF m ok coins_of(1) [OF c], folded ModuleAddress_def]
  note sf = SendCoins_effect [OF s _ coins_of(1) [OF c]]
  have amount: "AmountOf c (denom e) = amt" using coins_of(2) [OF c] by simp
  from s obtain w1 where sr: "SendRestrictionFn e (ModuleAddress e) r c (w\<lparr>App := b\<rparr>) = (Ok r, w1)"
      and w': "w' = w1\<lparr>App := App w'\<rparr>" by (auto simp: SendCoins_Ok)
  have mv: "movement_of e (ModuleAddress e) r = Mirrored"
    using r distinct by (simp add: movement_of_def is_user_def)
  have amt': "AmountOf c (denom e) \<noteq> 0" using amount amt by simp
  show ?thesis
  proof (rule transfer_effect [OF sr mv amt'])
    fix i p q
    assume i: "Index (w\<lparr>App := b\<rparr>) = Some i"
      and p: "GetPrincipalAmountRoundedUp (AmountOf c (denom e)) i = Ok p"
      and q: "if ModuleAddress e = ModuleAddress e \<and> r \<noteq> ModuleAddress e
         then GetPrincipalAmountRoundedDown (AmountOf c (denom e)) i = Ok q else q = p"
      and pr: "\<And>a. principal_of w1 a = principal_of (w\<lparr>App := b\<rparr>) a
        - (if a = ModuleAddress e \<and> ModuleAddress e \<noteq> ModuleAddress e then p else 0)
        + (if a = r \<and> r \<noteq> ModuleAddress e then q else 0)"
      and rec: "recorded_principal w1 = recorded_principal (w\<lparr>App := b\<rparr>)
        + (if ModuleAddress e = ModuleAddress e then p else 0) - (if r = ModuleAddress e then p else 0)"
    have r': "r \<noteq> ModuleAddress e" using r by (simp add: is_user_def)
    have "principal_of w' a = principal_of w1 a" "recorded_principal w' = recorded_principal w1" for a
      by (subst w', simp add: recorded_principal_def)+
    then show thesis
      using i p q pr rec r' amount sf(2,3) mf
      by (intro that [of i p q]) (simp_all add: recorded_principal_def balance_def total_supply_def)
  qed
qed

lemma Burn_effect:
  assumes run: "Burn e s amt w = (Ok u, w')" and ok: "valid (App w)" and amt: "amt \<noteq> 0"
    and s: "is_user e s" and distinct: "ModuleAddress e \<noteq> YieldAddress e"
  obtains i up where "Index w = Some i" "GetPrincipalAmountRoundedUp amt i = Ok up"
    "\<And>a. principal_of w' a = principal_of w a - (if a = s then up else 0)"
    "recorded_principal w' = recorded_principal w - up"
    "\<And>a. balance e w' a = balance e w a - (if a = s then amt else 0)"
    "total_supply e w' = total_supply e w - amt" "amt \<le> balance e w s"
proof -
  from run obtain c w2 b where c: "NewCoins1 (denom e) amt = Ok c"
      and sd: "SendCoins e s (ModuleAddress e) c w = (Ok (), w2)"
      and m: "bank_BurnCoins e ModuleName c (App w2) = (Ok (), b)" and w': "w' = w2\<lparr>App := b\<rparr>"
    by (auto simp: Burn_Ok)
  note sf = SendCoins_effect [OF sd ok coins_of(1) [OF c]]
  note mf = bank.burn_facts [OF m sf(1) coins_of(1) [OF c], folded ModuleAddress_def]
  have amount: "AmountOf c (denom e) = amt" using coins_of(2) [OF c] by simp
  from sd obtain w1 b1 where sr: "SendRestrictionFn e s (ModuleAddress e) c w = (Ok (ModuleAddress e), w1)"
      and w2: "w2 = w1\<lparr>App := b1\<rparr>" by (auto simp: SendCoins_Ok)
  have s': "s \<noteq> ModuleAddress e" using s by (simp add: is_user_def)
  have mv: "movement_of e s (ModuleAddress e) = Mirrored"
    using s distinct by (simp add: movement_of_def is_user_def)
  have amt': "AmountOf c (denom e) \<noteq> 0" using amount amt by simp
  show ?thesis
  proof (rule transfer_effect [OF sr mv amt'])
    fix i p q
    assume i: "Index w = Some i"
      and p: "GetPrincipalAmountRoundedUp (AmountOf c (denom e)) i = Ok p"
      and pr: "\<And>a. principal_of w1 a = principal_of w a
        - (if a = s \<and> s \<noteq> ModuleAddress e then p else 0)
        + (if a = ModuleAddress e \<and> ModuleAddress e \<noteq> ModuleAddress e then q else 0)"
      and rec: "recorded_principal w1 = recorded_principal w
        + (if s = ModuleAddress e then p else 0) - (if ModuleAddress e = ModuleAddress e then p else 0)"
    have "principal_of w' a = principal_of w1 a" "recorded_principal w' = recorded_principal w1" for a
      by (simp_all add: w' w2 recorded_principal_def)
    moreover have "balance e w' a = balance e w a - (if a = s then amt else 0)" for a
      using sf(2) [of a] mf(2) [of a "denom e"] amount by (simp add: w' balance_def)
    ultimately show thesis
      using i p pr rec s' amount sf(3,4) mf(3)
      by (intro that [of i p]) (simp_all add: w' total_supply_def balance_def)
  qed
qed

end

subsection \<open>Yield of IBC channels\<close>

definition ibc_message :: "'b env \<Rightarrow> string \<Rightarrow> string \<Rightarrow> int \<Rightarrow> time \<Rightarrow> ibc_msg" where
  "ibc_message e channel recipient amount now = \<lparr>
     SourcePort = PortID, SourceChannel = channel, TokenAmount = amount,
     Sender = AccString e (GetEscrowAddress e PortID channel), Receiver = recipient,
     TimeoutTimestamp = word_of_int now + DefaultRelativePacketTimeout e\<rparr>"

definition external_total :: "provider \<Rightarrow> string \<Rightarrow> 'b world \<Rightarrow> int" where
  "external_total p i w = get_or 0 (Map_Get (TotalExternalYield w) (p, i))"

lemma claimModuleYield_run:
  "claimModuleYield e a w = (case GetYield e (AccString e a) w of
      (Panic p, v) \<Rightarrow> (Panic p, v)
    | (Err x, v) \<Rightarrow> (Ok 0, v)
    | (Ok (y, b), v) \<Rightarrow>
        if 0 < y then
          (case SendCoins e (YieldAddress e) a [(denom e, y)] v of
             (Ok _, u) \<Rightarrow> (Ok y, u) | (Err x, u) \<Rightarrow> (Err x, u) | (Panic p, u) \<Rightarrow> (Panic p, u))
        else (Ok y, v))"
  by (simp add: claimModuleYield_def bnd_def attempt_def ret_def lift_def thn_def NewCoins1_def
      SendCoinsFromModuleToAccount_def YieldAddress_def split: prod.split outcome.split)

lemma claimModuleYield_nonneg: "claimModuleYield e a w = (Ok y, w') \<Longrightarrow> 0 \<le> y"
  by (auto simp: claimModuleYield_run GetYield_run claimable_nonneg claimable_pos_iff
      split: prod.splits outcome.splits if_splits option.splits)

lemma claimModuleYield_frame:
  "claimModuleYield e a w = (r, w') \<Longrightarrow> transfer_view w' = transfer_view w"
  using stepsD [OF transfers.steps_claimModuleYield] by (simp add: same_def)

lemma transfer_view_retry:
  "transfer_view w' = transfer_view w \<Longrightarrow> GetRetryAmount p i w' = GetRetryAmount p i w"
  "transfer_view w' = transfer_view w \<Longrightarrow> external_total p i w' = external_total p i w"
  by (simp_all add: transfer_view_def GetRetryAmount_def external_total_def)

lemma retry_after_remove:
  assumes "0 \<le> GetRetryAmount p i w"
  shows "GetRetryAmount p i
    (if 0 < GetRetryAmount p i w then RetryAmounts_update (Map_Remove (p, i)) w else w) = 0"
    "external_total q j
    (if 0 < GetRetryAmount p i w then RetryAmounts_update (Map_Remove (p, i)) w else w)
      = external_total q j w"
  using assms by (simp_all add: GetRetryAmount_def external_total_def)

text \<open>The body of the loop after the claim, as one equation.\<close>

definition settleIBC :: "'b env \<Rightarrow> string \<Rightarrow> string \<Rightarrow> int \<Rightarrow> int \<Rightarrow> ('b, unit) handler" where
  "settleIBC e ch rc y acc =
     bnd (gets BlockTime) (\<lambda>now.
     bnd (attempt (ibc_Transfer e (ibc_message e ch rc acc now))) (\<lambda>transferErr.
     thn (case transferErr of
            Inl _ \<Rightarrow> wrap_err ''unable to increment retry amount'' (IncrementRetryAmount IBC ch acc)
          | Inr _ \<Rightarrow> ret ())
     (wrap_err ''unable to increment total yield'' (IncrementTotalExternalYield IBC ch y))))"

lemma claimYieldIBC_settle:
  "claimYieldIBC e (ch, rc) =
     bnd (wrap_err ''unable to claim yield'' (claimModuleYield e (GetEscrowAddress e PortID ch))) (\<lambda>y.
     bnd (GetRetryAmountAndRemove IBC ch) (\<lambda>retryAmount.
     bnd (lift (Int_Add y retryAmount)) (\<lambda>acc.
     if \<not> 0 < acc then ret () else settleIBC e ch rc y acc)))"
  unfolding claimYieldIBC_def settleIBC_def ibc_message_def Let_def by simp

lemma settleIBC_effect:
  assumes run: "settleIBC e ch rc y acc w = (Ok u, w')" and ext: "external_calls e"
    and none: "GetRetryAmount IBC ch w = 0"
  obtains r w1 where "ibc_Transfer e (ibc_message e ch rc acc (BlockTime w)) w = (r, w1)"
    "GetRetryAmount IBC ch w' = (if is_Ok r then 0 else acc)"
    "external_total IBC ch w' = external_total IBC ch w + y"
proof -
  obtain r w1 where tr: "ibc_Transfer e (ibc_message e ch rc acc (BlockTime w)) w = (r, w1)"
    by fastforce
  have "transfer_view w1 = transfer_view w"
    using stepsD [OF transfers.steps_external(1) [OF ext] tr] by (simp add: same_def)
  note keep = transfer_view_retry [OF this]
  from run tr have "GetRetryAmount IBC ch w' = (if is_Ok r then 0 else acc) \<and>
      external_total IBC ch w' = external_total IBC ch w + y"
    using keep none
    by (cases r) (auto simp: settleIBC_def run_simps bnd_def thn_def attempt_def catch_def wrap_err_def
        IncrementRetryAmount_def IncrementTotalExternalYield_def Int_Add_def checked_def
        GetRetryAmount_def external_total_def split: if_splits)
  with tr show ?thesis by (intro that) auto
qed

text \<open>
  What one turn of the loop does to the books of a channel: the yield claimed is added to the
  channel's total, and together with the amount kept for a retry it is either handed to the
  transfer or kept for the next retry.
\<close>

lemma claimYieldIBC_books:
  assumes run: "claimYieldIBC e (ch, rc) w = (Ok u, w')" and ext: "external_calls e"
    and retry: "0 \<le> GetRetryAmount IBC ch w"
  obtains y w1 where "claimModuleYield e (GetEscrowAddress e PortID ch) w = (Ok y, w1)" "0 \<le> y"
    "let acc = y + GetRetryAmount IBC ch w in
       if 0 < acc then
         (\<exists>w2 r w3. ibc_Transfer e (ibc_message e ch rc acc (BlockTime w2)) w2 = (r, w3) \<and>
            GetRetryAmount IBC ch w' = (if is_Ok r then 0 else acc) \<and>
            external_total IBC ch w' = external_total IBC ch w + y)
       else GetRetryAmount IBC ch w' = 0 \<and> external_total IBC ch w' = external_total IBC ch w"
proof -
  from run obtain y w1 v where y: "claimModuleYield e (GetEscrowAddress e PortID ch) w = (Ok y, w1)"
      and v: "v = (if 0 < GetRetryAmount IBC ch w1
        then RetryAmounts_update (Map_Remove (IBC, ch)) w1 else w1)"
      and rest: "(if \<not> 0 < y + GetRetryAmount IBC ch w1 then ret ()
        else settleIBC e ch rc y (y + GetRetryAmount IBC ch w1)) v = (Ok u, w')"
    unfolding claimYieldIBC_settle bnd_Ok wrap_err_Ok lift_Ok Int_Ok retry_Ok(2) by auto
  note keep = transfer_view_retry [OF claimModuleYield_frame [OF y]]
  have r1: "0 \<le> GetRetryAmount IBC ch w1" using retry keep by simp
  note gone = retry_after_remove [OF r1, folded v]
  show ?thesis
  proof (rule that [OF y claimModuleYield_nonneg [OF y]])
    show "let acc = y + GetRetryAmount IBC ch w in
       if 0 < acc then
         (\<exists>w2 r w3. ibc_Transfer e (ibc_message e ch rc acc (BlockTime w2)) w2 = (r, w3) \<and>
            GetRetryAmount IBC ch w' = (if is_Ok r then 0 else acc) \<and>
            external_total IBC ch w' = external_total IBC ch w + y)
       else GetRetryAmount IBC ch w' = 0 \<and> external_total IBC ch w' = external_total IBC ch w"
    proof (cases "0 < y + GetRetryAmount IBC ch w")
      case False
      with rest keep gone show ?thesis by (simp add: ret_Ok Let_def)
    next
      case True
      with rest keep have "settleIBC e ch rc y (y + GetRetryAmount IBC ch w) v = (Ok u, w')" by simp
      from settleIBC_effect [OF this ext gone(1)] True show ?thesis
        unfolding Let_def using gone(2) keep(2) by (metis (no_types))
    qed
  qed
qed

subsection \<open>Yield of Hyperlane routes\<close>

lemma collectToken_step:
  "collectToken e (i, r) (t, tk) w = (Ok z, w') \<Longrightarrow>
     \<exists>tok. z = (t + CollateralBalance tok, Map_Set i tok tk) \<and> w' = w"
  unfolding collectToken_def case_prod_conv bnd_Ok gets_Ok lift_Ok Int_Ok ret_Ok from_option_Ok
  by blast

abbreviation collateral_in :: "(string, hyp_token) cmap \<Rightarrow> string \<Rightarrow> int" where
  "collateral_in tokens i \<equiv> CollateralBalance (the (Map_Get tokens i))"

lemma collectTokens_total:
  "fold_prog (collectToken e) rs (t, tk) w = (Ok (coll, tokens), w') \<Longrightarrow> distinct (map fst rs) \<Longrightarrow>
     coll = t + (\<Sum>(i, _)\<leftarrow>rs. collateral_in tokens i) \<and>
     (\<forall>i. i \<notin> fst ` set rs \<longrightarrow> Map_Get tokens i = Map_Get tk i) \<and> w' = w"
proof (induction rs arbitrary: t tk w)
  case Nil
  then show ?case by (simp add: ret_Ok)
next
  case (Cons x rs)
  obtain i r where x: "x = (i, r)" by fastforce
  from Cons.prems x obtain z w1 where "collectToken e (i, r) (t, tk) w = (Ok z, w1)"
      and rest: "fold_prog (collectToken e) rs z w1 = (Ok (coll, tokens), w')"
    by (auto simp: bnd_Ok)
  then obtain tok where z: "z = (t + CollateralBalance tok, Map_Set i tok tk)" "w1 = w"
    using collectToken_step by blast
  from Cons.prems(2) x have i: "i \<notin> fst ` set rs" by simp
  from Cons.IH [OF rest [unfolded z]] Cons.prems(2)
  have ih: "coll = t + CollateralBalance tok + (\<Sum>(i, _)\<leftarrow>rs. collateral_in tokens i)"
    "\<And>j. j \<notin> fst ` set rs \<Longrightarrow> Map_Get tokens j = Map_Get (Map_Set i tok tk) j" "w' = w"
    by simp_all
  from ih(2) [OF i] have "collateral_in tokens i = CollateralBalance tok" by simp
  with ih x show ?case by auto
qed

lemma collateralShare_bound:
  assumes "legacy_env e" "collateralShare e c coll y = Ok p" "0 \<le> c" "0 < coll" "0 \<le> y"
  shows "0 \<le> p" "p * coll \<le> c * y"
proof -
  have dec: "legacy_dec (dec_Quo e) (dec_QuoInt e)" using assms(1) by (simp add: legacy_env_def)
  from assms(2) obtain q where q: "dec_QuoInt e (LegacyDec_of c) coll = Ok q"
      and p: "p = (q * y) sdiv dec_one"
    by (auto simp: collateralShare_def obind_eq_Ok LegacyDec_Ok)
  have quo: "q = (c * dec_one) div coll"
    using legacy_dec.quo_int_trunc [OF dec q] assms(3,4) by (simp add: LegacyDec_of_def)
  have q0: "0 \<le> q" using quo assms(3,4) by (simp add: pos_imp_zdiv_nonneg_iff)
  have "p * dec_one \<le> q * y" using q0 assms(5) by (simp add: p sdiv_mult_le)
  then have "p * dec_one * coll \<le> q * y * coll" using assms(4) by simp
  also have "\<dots> = (q * coll) * y" by simp
  also have "\<dots> \<le> (c * dec_one) * y"
    using assms(4,5) by (intro mult_right_mono) (simp_all add: quo int_div_mult_le)
  finally have "dec_one * (p * coll) \<le> dec_one * (c * y)" by (simp add: algebra_simps)
  then show "p * coll \<le> c * y" by simp
  show "0 \<le> p" using q0 assms(5) by (simp add: p sdiv_nonneg_result)
qed

lemma collateralShares_sum:
  assumes env: "legacy_env e" and coll: "0 < coll" "coll = (\<Sum>x\<leftarrow>xs. c x)" and y: "0 \<le> y"
    and share: "\<And>x. x \<in> set xs \<Longrightarrow> 0 \<le> c x \<and> collateralShare e (c x) coll y = Ok (f x)"
  shows "(\<Sum>x\<leftarrow>xs. f x) \<le> y"
proof -
  have "(\<Sum>x\<leftarrow>xs. f x * coll) \<le> (\<Sum>x\<leftarrow>xs. c x * y)"
    using share by (intro sum_list_mono collateralShare_bound(2) [OF env _ _ coll(1) y]) auto
  then have "(\<Sum>x\<leftarrow>xs. f x) * coll \<le> coll * y"
    by (simp add: coll(2) sum_list_mult_const)
  with coll(1) show ?thesis
    by (simp add: mult.commute [of _ coll])
qed

subsection \<open>The Staked vault's yield principal\<close>

lemma shift_conserves:
  assumes run: "shiftYieldPrincipal e y w = (Ok u, w')" and ok: "map_ok (Principal w)"
  shows "principal_sum w' = principal_sum w" "map_ok (Principal w')" "App w' = App w"
    "\<exists>p. \<forall>a. principal_of w' a = principal_of w a - (if a = StakedVaultAddress e then p else 0)
       + (if a = FlexibleVaultAddress e then p else 0)"
proof -
  from run obtain p where
    w': "Principal w' = Map_Set (FlexibleVaultAddress e)
          (get_or 0 (Map_Get (Map_Set (StakedVaultAddress e)
             (principal_of w (StakedVaultAddress e) - p) (Principal w)) (FlexibleVaultAddress e)) + p)
          (Map_Set (StakedVaultAddress e) (principal_of w (StakedVaultAddress e) - p) (Principal w))"
      and app: "App w' = App w"
    unfolding shiftYieldPrincipal_def bnd_Ok item_get_Ok lift_Ok Int_Ok gets_Ok thn_Ok modify_Ok
      principal_of_def
    by auto
  show "App w' = App w" by (rule app)
  show "map_ok (Principal w')" by (simp add: w' ok map_ok_Set)
  show "principal_sum w' = principal_sum w"
    by (simp add: principal_sum_def w' ok map_ok_Set total_Map_Set principal_of_def)
  have "\<forall>a. principal_of w' a = principal_of w a - (if a = StakedVaultAddress e then p else 0)
       + (if a = FlexibleVaultAddress e then p else 0)"
    by (simp add: principal_of_def w')
  then show "\<exists>p. \<forall>a. principal_of w' a = principal_of w a
       - (if a = StakedVaultAddress e then p else 0) + (if a = FlexibleVaultAddress e then p else 0)" ..
qed

subsection \<open>The concrete keeper\<close>

lemma test_bank: "bank_env test_env mock_valid"
  by (simp add: bank_env_def test_env_def mock_bank.bank_keeper_axioms)

interpretation test: bank_env test_env mock_valid
  by (rule test_bank)

end
