(* ===== verification/Vaults_Laws.thy ===== *)
theory Vaults_Laws
  imports Vaults Effects
begin

text \<open>
  What the vault messages keep of the store and what they do to positions. The interfaces of
  \<open>Yield_Laws\<close> are extended by the writes of the vaults: those of a reward claim, and those of
  locking and unlocking.
\<close>

subsection \<open>Relations kept by the vault operations\<close>

locale reward_relation = transfer_relation +
  assumes rel_vrewards: "map_write k \<Longrightarrow> R w (VaultsRewards_update k w)"
    and rel_vstats: "R w (VaultsStats_update (\<lambda>_. Some s) w)"
begin

lemma steps_counters:
  "steps R (IncrementVaultUsers v)" "steps R (DecrementVaultUsers v)"
  "steps R (IncrementVaultTotalPrincipal v a)" "steps R (DecrementVaultTotalPrincipal v a)"
  "steps R (IncrementFlexibleTotalDistributedRewardsPrincipal a)"
  by (intro vault_counters_frame rel_vstats rel_refl)+

lemma steps_claimReward: "steps R (claimReward e i a x acc)"
  unfolding claimReward_def split_beta by (intro steps_basic steps_modify rel_vrewards map_writes)

lemma steps_ClaimRewards: "steps R (ClaimRewards e pos amount)"
  unfolding ClaimRewards_def
  by (intro steps_NewCoins1 steps_basic steps_claimReward)

end

locale flexible_relation = reward_relation +
  assumes rel_flexible: "R w (VaultsTotalFlexiblePrincipal_update (\<lambda>_. Some p) w)"
begin

lemma steps_addTotalFlexible: "steps R (addTotalFlexible a)"
  unfolding addTotalFlexible_def by (intro steps_basic steps_modify rel_flexible)

lemma steps_unlockFlexible: "steps R (unlockFlexible e signer pos a p)"
  unfolding unlockFlexible_def
  by (intro steps_basic steps_modify rel_flexible steps_ClaimRewards steps_counters
      steps_claimModuleYield)

end

text \<open>
  Positions are stored under the Unix seconds of their own time, so a write that respects this
  is all the vaults need.
\<close>

definition keyed :: "(position_key, position) cmap \<Rightarrow> bool" where
  "keyed m \<longleftrightarrow> map_ok m \<and> (\<forall>a v t p. Map_Get m (a, v, t) = Some p \<longrightarrow> t = Unix (pos_Time p))"

definition keyed_write :: "((position_key, position) cmap \<Rightarrow> (position_key, position) cmap) \<Rightarrow> bool" where
  "keyed_write f \<longleftrightarrow> (\<forall>m. keyed m \<longrightarrow> keyed (f m))"

lemma keyed_writes:
  "t = Unix (pos_Time p) \<Longrightarrow> keyed_write (Map_Set (a, v, t) p)"
  "keyed_write (Map_Remove k)"
  by (auto simp: keyed_write_def keyed_def map_ok_Set map_ok_Remove)

lemma checkLock_Ok:
  "checkLock e signer vault msg w = (Ok (a, amount, key), w') \<Longrightarrow>
     StringToBytes e signer = Some a \<and> msg = Some amount \<and> vaultsMinimumLock e \<le> amount \<and>
     VaultType_exists vault \<and> vault \<noteq> UNSPECIFIED \<and> key = (a, vault, Unix (BlockTime w)) \<and>
     Map_Get (VaultsPositions w) key = None \<and> amount \<le> balance e w a \<and>
     GetVaultsPaused w \<notin> {PAUSED_ALL, PAUSED_LOCK} \<and>
     (vault = FLEXIBLE \<longrightarrow> Unix (BlockTime w) \<le> vaultsSeasonOneEndTimestamp e) \<and> w' = w"
  by (auto simp: checkLock_def non_nil_def Let_def ok_simps Map_Has_def balance_def
      split: option.splits if_splits)

locale vault_relation = flexible_relation +
  assumes rel_positions: "keyed_write f \<Longrightarrow> R w (VaultsPositions_update f w)"
    and rel_season: "R w (w\<lparr>VaultsSeasonOneEnded := Some True\<rparr>)"
    and rel_vpaused: "R w (VaultsPaused_update (\<lambda>_. Some p) w)"
begin

lemma steps_reducePosition: "steps R (reducePosition pos a p)"
  unfolding reducePosition_def by (intro steps_basic steps_modify rel_positions keyed_writes; simp)

lemma steps_checkUnlock: "steps R (checkUnlock e signer vault amount)"
  unfolding checkUnlock_def by (intro steps_basic)

lemma steps_unlockPosition: "steps R (unlockPosition e signer vault a pos acc)"
  unfolding unlockPosition_def split_beta
  by (intro steps_NewCoins1 steps_basic steps_unlockFlexible steps_reducePosition)

lemma steps_unlock: "steps R (unlock e signer vault amount)"
  unfolding unlock_def
  by (intro steps_basic steps_checkUnlock steps_unlockPosition steps_counters)

lemma steps_Unlock: "steps R (Unlock e signer vault amount)"
  unfolding Unlock_def by (intro steps_basic steps_unlock)

lemma steps_checkLock: "steps R (checkLock e signer vault amount)"
  unfolding checkLock_def non_nil_def by (intro steps_basic)

lemma steps_Lock: "steps R (Lock e signer vault amount)"
  unfolding Lock_def
proof (rule steps_bnd_run [OF steps_checkLock], clarify, goal_cases)
  case (1 a n x y z s t)
  then have "(x, y, z) = (a, vault, Unix (BlockTime t))" using checkLock_Ok by blast
  then show ?case
    unfolding wp_bnd [of "gets _"] wp_gets Let_def
    by (intro steps_wp_at, simp only:)
      (intro steps_NewCoins1 steps_basic steps_modify rel_app rel_positions keyed_writes
        steps_addTotalFlexible steps_counters; simp)
qed

lemma steps_vaults_SetPausedState: "steps R (vaults_SetPausedState e signer p)"
  unfolding vaults_SetPausedState_def by (intro steps_basic steps_modify rel_vpaused)

lemma steps_endVaultsSeasonOne: "steps R (endVaultsSeasonOne e)"
  unfolding endVaultsSeasonOne_def by (intro steps_basic steps_unlock)

lemma steps_BeginBlocker: "steps R (BeginBlocker e)"
proof (rule stepsI)
  fix w r v
  assume run: "BeginBlocker e w = (r, v)"
  obtain q w' where endrun: "endVaultsSeasonOne e w = (q, w')" by fastforce
  have "R w w'" using steps_endVaultsSeasonOne endrun by (rule stepsD)
  moreover have "R w' (w'\<lparr>VaultsSeasonOneEnded := Some True\<rparr>)"
    "R w (w\<lparr>VaultsSeasonOneEnded := Some True\<rparr>)" by (rule rel_season)+
  ultimately show "R w v"
    using run endrun by (auto simp: BeginBlocker_def rel_refl intro: rel_trans
        split: if_splits outcome.splits)
qed

end

interpretation index_vaults: vault_relation index_grows e for e
  by unfold_locales (auto simp: index_grows_def)

interpretation portal_vaults: vault_relation "same portal_view" e for e
  by unfold_locales (simp_all add: same_def portal_view_def)

interpretation ledger_vaults: vault_relation "keeps (ledger_covered e)" e for e
  by unfold_locales (auto simp: keeps_def ledger_covered_def ledger_inv_def principal_sum_def)

text \<open>A reward claim leaves the positions, the index and the flags of the vaults.\<close>

definition reward_view :: "'b world \<Rightarrow> _" where
  "reward_view w = (portal_view w, VaultsPositions w, Index w, BlockTime w, VaultsPaused w,
     VaultsSeasonOneEnded w, RetryAmounts w, YieldRecipients w)"

interpretation reward_frame: transfer_frame "same reward_view" e for e
  by unfold_locales (simp_all add: same_def reward_view_def portal_view_def)

interpretation rewards: flexible_relation "same reward_view" e for e
  by unfold_locales (simp_all add: same_def reward_view_def portal_view_def)

text \<open>Claims and transfers leave the total flexible principal.\<close>

definition flexible_total :: "'b world \<Rightarrow> int" where
  "flexible_total w = get_or 0 (VaultsTotalFlexiblePrincipal w)"

interpretation flexible_transfer: transfer_frame "same VaultsTotalFlexiblePrincipal" e for e
  by unfold_locales (simp_all add: same_def)

interpretation flexible_claim: reward_relation "same VaultsTotalFlexiblePrincipal" e for e
  by unfold_locales (simp_all add: same_def)

subsection \<open>Positions\<close>

text \<open>
  The positions are well formed: entries are ordered, each is stored under the Unix seconds of
  its own time, its amount is positive, it was opened at a positive index, and its principal is
  at least what its amount is worth at that index.
\<close>

definition position_ok :: "position_key \<Rightarrow> position \<Rightarrow> bool" where
  "position_ok = (\<lambda>(_, _, t) p. t = Unix (pos_Time p) \<and> 0 < pos_Amount p \<and> 0 < pos_Index p \<and>
     (pos_Amount p * 10 ^ 12) div pos_Index p \<le> pos_Principal p)"

definition positions_ok :: "'b world \<Rightarrow> bool" where
  "positions_ok w \<longleftrightarrow> map_ok (VaultsPositions w) \<and>
     (\<forall>k p. Map_Get (VaultsPositions w) k = Some p \<longrightarrow> position_ok k p)"

text \<open>The locked amount of a user in a vault, and the principal of all positions of a vault.\<close>

definition locked_amount :: "addr \<Rightarrow> vault_type \<Rightarrow> 'b world \<Rightarrow> int" where
  "locked_amount a v w = total_of (\<lambda>(a', v', _) p. if a' = a \<and> v' = v then pos_Amount p else 0)
     (VaultsPositions w)"

definition vault_principal :: "vault_type \<Rightarrow> 'b world \<Rightarrow> int" where
  "vault_principal v w = total_of (\<lambda>(_, v', _) p. if v' = v then pos_Principal p else 0)
     (VaultsPositions w)"

definition pos_key :: "position_entry \<Rightarrow> position_key" where
  "pos_key pos = (pos_Address pos, pos_Vault pos, Unix (pos_Time pos))"

definition pos_value :: "position_entry \<Rightarrow> position" where
  "pos_value pos = \<lparr>pos_Principal = pos_Principal pos, pos_Index = pos_Index pos,
     pos_Amount = pos_Amount pos, pos_Time = pos_Time pos\<rparr>"

text \<open>What one turn of the unlock loop does to the stored positions.\<close>

definition reduced :: "position_entry \<Rightarrow> int \<Rightarrow> int \<Rightarrow> (position_key, position) cmap
    \<Rightarrow> (position_key, position) cmap" where
  "reduced pos tk pr m =
     (let key = (pos_Address pos, pos_Vault pos, Unix (pos_Time pos)) in
      if pos_Amount pos \<le> tk then Map_Remove key m
      else Map_Set key \<lparr>pos_Principal = pos_Principal pos - pr, pos_Index = pos_Index pos,
        pos_Amount = pos_Amount pos - tk, pos_Time = pos_Time pos\<rparr> m)"

lemma reducePosition_Ok:
  "reducePosition pos a p w = (Ok u, w') \<Longrightarrow> w' = VaultsPositions_update (reduced pos a p) w"
  by (auto simp: reducePosition_def reduced_def Let_def ok_simps split: if_splits)

text \<open>The amount a turn takes of a position, with what is left to remove.\<close>

definition taken :: "int \<Rightarrow> position_entry \<Rightarrow> int" where
  "taken remaining pos = (if remaining < pos_Amount pos then remaining else pos_Amount pos)"

lemma unlockPosition_zero: "unlockPosition e signer vault a pos (0, removed) = ret (0, removed)"
  by (simp add: unlockPosition_def)

lemma reward_viewD:
  assumes "reward_view v = reward_view w"
  shows "VaultsPositions v = VaultsPositions w" "Index v = Index w"
  using assms by (simp_all add: reward_view_def)

lemma wp_view: "steps (same f) m \<Longrightarrow> wp m (\<lambda>_ v. f v = f w) (\<lambda>_ v. f v = f w) w"
  by (simp add: wp_any steps_def same_def)

lemma send_view:
  "0 \<le> AmountOf c (denom e) \<Longrightarrow> SendCoins e f t c w = (r, v) \<Longrightarrow> reward_view v = reward_view w"
  using stepsD [OF reward_frame.steps_SendCoins] by (fastforce simp: same_def)

lemma unlockFlexible_view:
  "unlockFlexible e signer pos a p w = (r, v) \<Longrightarrow> reward_view v = reward_view w"
  using stepsD [OF rewards.steps_unlockFlexible] by (fastforce simp: same_def)

lemma send_flexible:
  "0 \<le> AmountOf c (denom e) \<Longrightarrow> SendCoins e f t c w = (r, v) \<Longrightarrow> flexible_total v = flexible_total w"
  using stepsD [OF flexible_transfer.steps_SendCoins] by (fastforce simp: same_def flexible_total_def)

lemma unlockFlexible_total:
  assumes "unlockFlexible e signer pos a p w = (Ok x, v)"
  shows "flexible_total v = flexible_total w - p"
proof -
  let ?w1 = "VaultsTotalFlexiblePrincipal_update (\<lambda>_. Some (flexible_total w - p)) w"
  from assms obtain r w2 w3 y w4 where c: "ClaimRewards e pos a ?w1 = (Ok r, w2)"
      and i: "IncrementFlexibleTotalDistributedRewardsPrincipal r w2 = (Ok (), w3)"
      and y: "claimModuleYield e (NewModuleAddress e
        (ToUserVaultPositionModuleAccount signer FLEXIBLE (Unix (pos_Time pos)))) w3 = (Ok y, w4)"
      and v: "v = w4"
    unfolding unlockFlexible_def flexible_total_def
    by (auto simp: bnd_Ok thn_Ok gets_Ok lift_Ok modify_Ok wrap_err_Ok Int_Ok if_run ret_Ok
        split: if_splits)
  have "VaultsTotalFlexiblePrincipal w2 = VaultsTotalFlexiblePrincipal ?w1"
    using stepsD [OF flexible_claim.steps_ClaimRewards c] by (simp add: same_def)
  moreover have "VaultsTotalFlexiblePrincipal w3 = VaultsTotalFlexiblePrincipal w2"
    using stepsD [OF flexible_claim.steps_counters(5) i] by (simp add: same_def)
  moreover have "VaultsTotalFlexiblePrincipal w4 = VaultsTotalFlexiblePrincipal w3"
    using stepsD [OF flexible_transfer.steps_claimModuleYield y] by (simp add: same_def)
  ultimately show ?thesis by (simp add: v flexible_total_def)
qed

lemma unlockPosition_effect:
  assumes run: "unlockPosition e signer vault a pos (rem, removed) w = (Ok z, w')" and rem: "rem \<noteq> 0"
  obtains pr where "GetPrincipalAmountRoundedDown (taken rem pos) (pos_Index pos) = Ok pr"
    "z = (rem - taken rem pos, removed + pr)"
    "VaultsPositions w' = reduced pos (taken rem pos) pr (VaultsPositions w)" "Index w' = Index w"
    "flexible_total w' = flexible_total w - (if vault = FLEXIBLE then pr else 0)"
proof -
  from run rem obtain pr send c w1 w2 w3 where
      pr: "GetPrincipalAmountRoundedDown (taken rem pos) (pos_Index pos) = Ok pr"
      and flex: "(if vault = FLEXIBLE then unlockFlexible e signer pos (taken rem pos) pr
         else ret (taken rem pos)) w = (Ok send, w1)"
      and c: "NewCoins1 (denom e) send = Ok c"
      and sent: "SendCoins e (NewModuleAddress e (ToUserVaultPositionModuleAccount signer
           (pos_Vault pos) (Unix (pos_Time pos)))) a c w1 = (Ok (), w2)"
      and red: "reducePosition pos (taken rem pos) pr w2 = (Ok (), w3)"
      and w': "w' = w3\<lparr>Events := Events w3 @ [PositionUnlocked signer vault (pos_Index pos) send pr]\<rparr>"
      and z: "z = (rem - taken rem pos, removed + pr)"
    unfolding unlockPosition_def case_prod_conv Let_def taken_def [symmetric]
    by (auto simp: bnd_Ok thn_Ok lift_Ok wrap_err_Ok emit_Ok ret_Ok Int_Ok)
  have "reward_view w1 = reward_view w"
    using flex unlockFlexible_view by (auto simp: ret_Ok split: if_splits)
  moreover have "reward_view w2 = reward_view w1"
    using send_view [OF _ sent] coins_of(2,3) [OF c] by simp
  ultimately have "VaultsPositions w2 = VaultsPositions w" "Index w2 = Index w"
    using reward_viewD by metis+
  moreover have "flexible_total w1 = flexible_total w - (if vault = FLEXIBLE then pr else 0)"
    using flex unlockFlexible_total by (auto simp: ret_Ok split: if_splits)
  moreover have "flexible_total w2 = flexible_total w1"
    using send_flexible [OF _ sent] coins_of(2,3) [OF c] by simp
  ultimately show ?thesis
    using reducePosition_Ok [OF red] w' pr z by (intro that) (simp_all add: flexible_total_def)
qed

text \<open>The value a position keeps after a turn, if any.\<close>

definition rest_value :: "position_entry \<Rightarrow> int \<Rightarrow> int \<Rightarrow> position" where
  "rest_value pos tk pr = \<lparr>pos_Principal = pos_Principal pos - pr, pos_Index = pos_Index pos,
     pos_Amount = pos_Amount pos - tk, pos_Time = pos_Time pos\<rparr>"

lemma reduced_alt:
  "reduced pos tk pr m = (if pos_Amount pos \<le> tk then Map_Remove (pos_key pos) m
     else Map_Set (pos_key pos) (rest_value pos tk pr) m)"
  by (simp add: reduced_def pos_key_def rest_value_def Let_def)

lemma reduced_ok: "map_ok m \<Longrightarrow> map_ok (reduced pos tk pr m)"
  by (simp add: reduced_alt map_ok_Set map_ok_Remove)

lemma reduced_other: "k \<noteq> pos_key pos \<Longrightarrow> Map_Get (reduced pos tk pr m) k = Map_Get m k"
  by (simp add: reduced_alt)

lemma reduced_total:
  assumes "map_ok m" "Map_Get m (pos_key pos) = Some (pos_value pos)"
  shows "total_of W (reduced pos tk pr m) = total_of W m - W (pos_key pos) (pos_value pos)
    + (if pos_Amount pos \<le> tk then 0 else W (pos_key pos) (rest_value pos tk pr))"
  using assms by (simp add: reduced_alt cmap.total_put cmap.total_del)

text \<open>Rounding down is superadditive, so a position keeps covering what is left of it.\<close>

lemma div_superadditive: "0 < (i::int) \<Longrightarrow> x div i + y div i \<le> (x + y) div i"
proof -
  assume i: "0 < i"
  have "(x div i + y div i) * i \<le> x + y"
    using int_div_mult_le [OF i, of x] int_div_mult_le [OF i, of y] by (simp add: distrib_right)
  then show ?thesis using i by (metis div_mult_self_is_m zdiv_mono1 less_irrefl nonzero_mult_div_cancel_right)
qed

lemma position_ok_rest:
  assumes "position_ok k (pos_value pos)" "GetPrincipalAmountRoundedDown tk (pos_Index pos) = Ok pr"
    "0 \<le> tk" "tk < pos_Amount pos"
  shows "position_ok k (rest_value pos tk pr)"
proof -
  have i: "0 < pos_Index pos" using assms(1) by (auto simp: position_ok_def pos_value_def)
  have pr: "pr = (tk * 10 ^ 12) div pos_Index pos"
    using assms(2,3) i by (auto simp: RoundedDown_Ok sdiv_nonneg)
  have "((pos_Amount pos - tk) * 10 ^ 12) div pos_Index pos + pr
      \<le> ((pos_Amount pos - tk) * 10 ^ 12 + tk * 10 ^ 12) div pos_Index pos"
    unfolding pr by (rule div_superadditive [OF i])
  also have "(pos_Amount pos - tk) * 10 ^ 12 + tk * 10 ^ 12 = pos_Amount pos * 10 ^ 12"
    by (simp add: algebra_simps)
  finally show ?thesis
    using assms(1,4) by (auto simp: position_ok_def pos_value_def rest_value_def split: prod.splits)
qed

lemma taken_bounds:
  "0 \<le> rem \<Longrightarrow> 0 < pos_Amount pos \<Longrightarrow> 0 \<le> taken rem pos"
  "taken rem pos \<le> pos_Amount pos" "taken rem pos \<le> rem"
  by (auto simp: taken_def)

text \<open>One turn, on the abstract view.\<close>

lemma unlock_turn:
  assumes run: "unlockPosition e signer vault a pos (rem, removed) w = (Ok (rem', removed'), w')"
    and ok: "positions_ok w" and rem: "0 \<le> rem"
    and at: "pos_Address pos = a" "pos_Vault pos = vault"
    and stored: "Map_Get (VaultsPositions w) (pos_key pos) = Some (pos_value pos)"
  shows "positions_ok w'" "rem' = rem - taken rem pos"
    "locked_amount a' v' w' = locked_amount a' v' w
       - (if a' = a \<and> v' = vault then taken rem pos else 0)"
    "vault_principal v' w' + (if v' = vault then removed' - removed else 0) \<le> vault_principal v' w"
    "k \<noteq> pos_key pos \<Longrightarrow> Map_Get (VaultsPositions w') k = Map_Get (VaultsPositions w) k"
    "Index w' = Index w"
    "flexible_total w' = flexible_total w - (if vault = FLEXIBLE then removed' - removed else 0)"
proof -
  have pok: "position_ok (pos_key pos) (pos_value pos)" and mok: "map_ok (VaultsPositions w)"
    using ok stored unfolding positions_ok_def by blast+
  then have pos: "0 < pos_Amount pos" "0 < pos_Index pos"
    "(pos_Amount pos * 10 ^ 12) div pos_Index pos \<le> pos_Principal pos"
    by (auto simp: position_ok_def pos_value_def split: prod.splits)
  have key: "pos_key pos = (a, vault, Unix (pos_Time pos))" by (simp add: pos_key_def at)
  have "positions_ok w' \<and> rem' = rem - taken rem pos \<and>
      locked_amount a' v' w' = locked_amount a' v' w - (if a' = a \<and> v' = vault then taken rem pos else 0) \<and>
      vault_principal v' w' + (if v' = vault then removed' - removed else 0) \<le> vault_principal v' w \<and>
      (k \<noteq> pos_key pos \<longrightarrow> Map_Get (VaultsPositions w') k = Map_Get (VaultsPositions w) k) \<and>
      Index w' = Index w \<and>
      flexible_total w' = flexible_total w - (if vault = FLEXIBLE then removed' - removed else 0)"
    for a' v' k
  proof (cases "rem = 0")
    case True
    with run pos(1) ok show ?thesis by (simp add: unlockPosition_zero ret_Ok taken_def)
  next
    case False
    let ?t = "taken rem pos"
    from run False obtain pr where
      pr: "GetPrincipalAmountRoundedDown ?t (pos_Index pos) = Ok pr"
        and z: "rem' = rem - ?t" "removed' = removed + pr"
        and m: "VaultsPositions w' = reduced pos ?t pr (VaultsPositions w)" and i: "Index w' = Index w"
        and fl: "flexible_total w' = flexible_total w - (if vault = FLEXIBLE then pr else 0)"
      by (rule unlockPosition_effect) auto
    note t = taken_bounds [of rem pos]
    have prv: "pr = (?t * 10 ^ 12) div pos_Index pos"
      using pr rem pos t(1) by (auto simp: RoundedDown_Ok sdiv_nonneg)
    have full: "pr \<le> pos_Principal pos"
    proof -
      have "pr \<le> (pos_Amount pos * 10 ^ 12) div pos_Index pos"
        unfolding prv using t(2) pos(2) by (intro zdiv_mono1) simp_all
      with pos(3) show ?thesis by simp
    qed
    have "positions_ok w'"
      unfolding positions_ok_def m
    proof (intro conjI allI impI)
      show "map_ok (reduced pos ?t pr (VaultsPositions w))" by (rule reduced_ok [OF mok])
      fix k p assume "Map_Get (reduced pos ?t pr (VaultsPositions w)) k = Some p"
      then have "Map_Get (VaultsPositions w) k = Some p \<or>
          k = pos_key pos \<and> p = rest_value pos ?t pr \<and> ?t < pos_Amount pos"
        by (auto simp: reduced_alt split: if_splits)
      then show "position_ok k p"
        using ok position_ok_rest [OF pok pr t(1) [OF rem pos(1)]] unfolding positions_ok_def by blast
    qed
    moreover have "locked_amount a' v' w' = locked_amount a' v' w - (if a' = a \<and> v' = vault then ?t else 0)"
      using t(2)
      by (simp add: locked_amount_def m reduced_total [OF mok stored] key pos_value_def rest_value_def)
    moreover have "vault_principal v' w' + (if v' = vault then removed' - removed else 0)
        \<le> vault_principal v' w"
      using full
      by (simp add: vault_principal_def m reduced_total [OF mok stored] key pos_value_def
          rest_value_def z)
    ultimately show ?thesis using z i fl by (simp add: m reduced_other)
  qed
  then show "positions_ok w'" "rem' = rem - taken rem pos"
    "locked_amount a' v' w' = locked_amount a' v' w - (if a' = a \<and> v' = vault then taken rem pos else 0)"
    "vault_principal v' w' + (if v' = vault then removed' - removed else 0) \<le> vault_principal v' w"
    "k \<noteq> pos_key pos \<Longrightarrow> Map_Get (VaultsPositions w') k = Map_Get (VaultsPositions w) k"
    "Index w' = Index w"
    "flexible_total w' = flexible_total w - (if vault = FLEXIBLE then removed' - removed else 0)"
    by blast+
qed

subsection \<open>The whole loop\<close>

definition positions_total :: "position_entry list \<Rightarrow> int" where
  "positions_total ps = (\<Sum>p\<leftarrow>ps. pos_Amount p)"

lemma unlock_loop:
  assumes "fold_prog (unlockPosition e signer vault a) ps (rem, removed) w = (Ok (rem', removed'), w')"
    and "positions_ok w" "0 \<le> rem" "distinct (map pos_key ps)"
    and "\<And>p. p \<in> set ps \<Longrightarrow> pos_Address p = a \<and> pos_Vault p = vault \<and>
      Map_Get (VaultsPositions w) (pos_key p) = Some (pos_value p)"
  shows "positions_ok w' \<and> rem' = max 0 (rem - positions_total ps) \<and> Index w' = Index w \<and>
    (\<forall>a' v'. locked_amount a' v' w'
       = locked_amount a' v' w - (if a' = a \<and> v' = vault then rem - rem' else 0)) \<and>
    (\<forall>v'. vault_principal v' w' + (if v' = vault then removed' - removed else 0)
       \<le> vault_principal v' w) \<and>
    flexible_total w' = flexible_total w - (if vault = FLEXIBLE then removed' - removed else 0)"
  using assms
proof (induction ps arbitrary: rem removed w)
  case Nil
  then show ?case by (auto simp: ret_Ok positions_total_def)
next
  case (Cons p ps)
  from Cons.prems(1) obtain r1 d1 w1 where
      turn: "unlockPosition e signer vault a p (rem, removed) w = (Ok (r1, d1), w1)"
      and rest: "fold_prog (unlockPosition e signer vault a) ps (r1, d1) w1 = (Ok (rem', removed'), w')"
    by (auto simp: bnd_Ok)
  have p: "pos_Address p = a" "pos_Vault p = vault"
    "Map_Get (VaultsPositions w) (pos_key p) = Some (pos_value p)"
    using Cons.prems(5) [of p] by simp_all
  note t = unlock_turn [OF turn Cons.prems(2,3) p]
  have amount: "0 < pos_Amount p"
    using Cons.prems(2) p(3) unfolding positions_ok_def position_ok_def pos_value_def by fastforce
  have r1: "0 \<le> r1" using t(2) taken_bounds(3) [of rem p] by simp
  have keys: "pos_key q \<noteq> pos_key p" if "q \<in> set ps" for q
    using that Cons.prems(4) by (metis distinct.simps(2) image_eqI list.set_map list.simps(9))
  have stored: "pos_Address q = a \<and> pos_Vault q = vault \<and>
      Map_Get (VaultsPositions w1) (pos_key q) = Some (pos_value q)" if "q \<in> set ps" for q
    using Cons.prems(5) [of q] that t(5) [OF keys [OF that]] by simp
  have "positions_total ps \<ge> 0"
    unfolding positions_total_def
  proof (rule sum_list_nonneg, clarsimp)
    fix q assume "q \<in> set ps"
    then show "0 \<le> pos_Amount q"
      using t(1) stored [of q] unfolding positions_ok_def position_ok_def pos_value_def by fastforce
  qed
  moreover note Cons.IH [OF rest t(1) r1 _ stored] Cons.prems(4)
  ultimately have ih: "positions_ok w'" "rem' = max 0 (r1 - positions_total ps)" "Index w' = Index w1"
    "\<And>a' v'. locked_amount a' v' w'
       = locked_amount a' v' w1 - (if a' = a \<and> v' = vault then r1 - rem' else 0)"
    "\<And>v'. vault_principal v' w' + (if v' = vault then removed' - d1 else 0) \<le> vault_principal v' w1"
    "positions_total ps \<ge> 0"
    "flexible_total w' = flexible_total w1 - (if vault = FLEXIBLE then removed' - d1 else 0)"
    by auto
  have "rem' = max 0 (rem - positions_total (p # ps))"
    using ih(2,6) t(2) amount by (auto simp: positions_total_def taken_def)
  moreover have "locked_amount a' v' w'
      = locked_amount a' v' w - (if a' = a \<and> v' = vault then rem - rem' else 0)" for a' v'
    using ih(4) [of a' v'] t(3) [of a' v'] t(2) by simp
  moreover have "vault_principal v' w' + (if v' = vault then removed' - removed else 0)
      \<le> vault_principal v' w" for v'
    using ih(5) [of v'] t(4) [of v'] by (simp split: if_splits)
  ultimately show ?case using ih(1,3,7) t(6,7) by simp
qed

text \<open>The positions the loop runs over are the stored ones of the user.\<close>

definition positions_keyed :: "'b world \<Rightarrow> bool" where
  "positions_keyed w \<longleftrightarrow> keyed (VaultsPositions w)"

lemma positions_ok_keyed: "positions_ok w \<Longrightarrow> positions_keyed w"
  unfolding positions_ok_def positions_keyed_def keyed_def position_ok_def by fastforce

lemma user_positions:
  assumes "positions_keyed w" "p \<in> set (GetVaultsPositionsByProviderAndVault a v w)"
  shows "pos_Address p = a \<and> pos_Vault p = v \<and>
    Map_Get (VaultsPositions w) (pos_key p) = Some (pos_value p)"
proof -
  from assms(2) obtain t q where p: "p = position_entry_of ((a, v, t), q)"
      and mem: "((a, v, t), q) \<in> set (VaultsPositions w)"
    by (auto simp: GetVaultsPositionsByProviderAndVault_def)
  have get: "Map_Get (VaultsPositions w) (a, v, t) = Some q"
    using cmap.in_entries_iff [of "VaultsPositions w" "(a, v, t)" q] mem assms(1)
    by (simp add: positions_keyed_def keyed_def)
  then have "t = Unix (pos_Time q)"
    using assms(1) unfolding positions_keyed_def keyed_def by blast
  with get show ?thesis by (simp add: p pos_key_def pos_value_def)
qed

lemma user_positions_distinct:
  assumes "positions_keyed w"
  shows "distinct (map pos_key (GetVaultsPositionsByProviderAndVault a v w))"
proof -
  let ?f = "\<lambda>((a', v', _), _). a' = a \<and> v' = v"
  let ?m = "VaultsPositions w"
  have ok: "map_ok ?m" using assms by (simp add: positions_keyed_def keyed_def)
  have "pos_key (position_entry_of x) = fst x" if "x \<in> set ?m" for x
  proof -
    obtain a' v' t q where x: "x = ((a', v', t), q)" by (metis prod.collapse)
    have "Map_Get ?m (a', v', t) = Some q"
      using cmap.in_entries_iff [OF ok, of "(a', v', t)" q] that x by blast
    then have "t = Unix (pos_Time q)"
      using assms unfolding positions_keyed_def keyed_def by blast
    with x show ?thesis by (simp add: pos_key_def)
  qed
  then have "map pos_key (GetVaultsPositionsByProviderAndVault a v w) = map fst (filter ?f ?m)"
    by (auto simp: GetVaultsPositionsByProviderAndVault_def)
  moreover have "distinct (map fst (filter ?f ?m))"
    using cmap.entries_distinct [OF map_ok_filter [OF ok]] .
  ultimately show ?thesis by simp
qed

lemma user_positions_total:
  "positions_total (GetVaultsPositionsByProviderAndVault a v w) = locked_amount a v w"
proof -
  have "positions_total (map position_entry_of (filter (\<lambda>((a', v', _), _). a' = a \<and> v' = v) m))
      = total_of (\<lambda>(a', v', _) p. if a' = a \<and> v' = v then pos_Amount p else 0) m" for m
    by (induction m) (auto simp: positions_total_def split: if_splits)
  then show ?thesis
    by (simp add: locked_amount_def GetVaultsPositionsByProviderAndVault_def)
qed

lemma sum_amounts_Ok: "sum_amounts ps t = Ok s \<Longrightarrow> s = t + positions_total ps"
proof (induction ps arbitrary: t)
  case (Cons p ps)
  from Cons.prems have "sum_amounts ps (t + pos_Amount p) = Ok s"
    by (auto simp: obind_eq_Ok ok_simps)
  from Cons.IH [OF this] show ?case by (simp add: positions_total_def)
qed (simp add: positions_total_def)

subsection \<open>Unlocking, on the abstract view\<close>

lemma checkUnlock_Ok:
  "checkUnlock e signer vault msg w = (Ok (a, amount, ps), w') \<Longrightarrow>
     StringToBytes e signer = Some a \<and> msg = Some amount \<and> 0 < amount \<and>
     VaultType_exists vault \<and> vault \<noteq> UNSPECIFIED \<and>
     ps = GetVaultsPositionsByProviderAndVault a vault w \<and> amount \<le> locked_amount a vault w \<and>
     (vaultsMinimumUnlock e \<le> amount \<or> amount = locked_amount a vault w) \<and> w' = w"
  by (auto simp: checkUnlock_def ok_simps user_positions_total [symmetric] dest!: sum_amounts_Ok
      split: option.splits if_splits)

text \<open>After a check that succeeds, the loop takes the requested amount and leaves nothing.\<close>

lemma unlock_loop_complete:
  assumes check: "checkUnlock e signer vault msg w = (Ok (a, amount, ps), w1)" and ok: "positions_ok w"
    and run: "fold_prog (unlockPosition e signer vault a) ps (amount, 0) w1 = (Ok (rem', removed), w')"
  shows "rem' = 0 \<and> positions_ok w' \<and> Index w' = Index w \<and>
    (\<forall>a' v'. locked_amount a' v' w'
       = locked_amount a' v' w - (if a' = a \<and> v' = vault then amount else 0)) \<and>
    (\<forall>v'. vault_principal v' w' + (if v' = vault then removed else 0) \<le> vault_principal v' w) \<and>
    flexible_total w' = flexible_total w - (if vault = FLEXIBLE then removed else 0)"
proof -
  note c = checkUnlock_Ok [OF check]
  have run': "fold_prog (unlockPosition e signer vault a)
      (GetVaultsPositionsByProviderAndVault a vault w) (amount, 0) w = (Ok (rem', removed), w')"
    using run c by simp
  note loop = unlock_loop [OF run' ok _ user_positions_distinct [OF positions_ok_keyed [OF ok]]
      user_positions [OF positions_ok_keyed [OF ok]]]
  have "rem' = 0" using loop c by (simp add: user_positions_total)
  with loop c show ?thesis by (auto split: if_splits)
qed

text \<open>The counters leave both views.\<close>

lemma counters_steps:
  "steps (same (\<lambda>w. (reward_view w, flexible_total w))) (IncrementVaultUsers v)"
  "steps (same (\<lambda>w. (reward_view w, flexible_total w))) (DecrementVaultUsers v)"
  "steps (same (\<lambda>w. (reward_view w, flexible_total w))) (IncrementVaultTotalPrincipal v a)"
  "steps (same (\<lambda>w. (reward_view w, flexible_total w))) (DecrementVaultTotalPrincipal v a)"
  by (intro vault_counters_frame;
      simp add: same_def reward_view_def portal_view_def flexible_total_def)+

lemmas counters_view = counters_steps [THEN stepsD, unfolded same_def prod.inject]

lemma positions_view:
  assumes "reward_view v = reward_view w"
  shows "positions_ok v = positions_ok w" "locked_amount a u v = locked_amount a u w"
    "vault_principal u v = vault_principal u w"
  using reward_viewD [OF assms] by (simp_all add: positions_ok_def locked_amount_def vault_principal_def)

lemma unlock_effect:
  assumes run: "unlock e signer vault msg w = (Ok u, w')" and ok: "positions_ok w"
  obtains a amount removed where "StringToBytes e signer = Some a" "msg = Some amount" "0 < amount"
    "amount \<le> locked_amount a vault w" "positions_ok w'" "Index w' = Index w"
    "\<And>a' v'. locked_amount a' v' w'
       = locked_amount a' v' w - (if a' = a \<and> v' = vault then amount else 0)"
    "\<And>v'. vault_principal v' w' + (if v' = vault then removed else 0) \<le> vault_principal v' w"
    "flexible_total w' = flexible_total w - (if vault = FLEXIBLE then removed else 0)"
proof -
  from run obtain a amount ps w1 rem removed w2 w3 where
      check: "checkUnlock e signer vault msg w = (Ok (a, amount, ps), w1)"
      and loop: "fold_prog (unlockPosition e signer vault a) ps (amount, 0) w1 = (Ok (rem, removed), w2)"
      and users: "(if length (GetVaultsPositionsByProviderAndVault a vault w2) = 0
        then wrap_err ''unable to decrement vault total users'' (DecrementVaultUsers vault)
        else ret ()) w2 = (Ok (), w3)"
      and total: "DecrementVaultTotalPrincipal vault removed w3 = (Ok (), w')"
    unfolding unlock_def by (auto simp: bnd_Ok case_prod_Ok if_fail_Ok thn_Ok gets_Ok wrap_err_Ok)
  note c = checkUnlock_Ok [OF check] and l = unlock_loop_complete [OF check ok loop]
  have "reward_view w3 = reward_view w2 \<and> flexible_total w3 = flexible_total w2"
    using users counters_view(2) by (auto simp: ret_Ok wrap_err_Ok split: if_splits)
  moreover note counters_view(4) [OF total]
  ultimately have "reward_view w' = reward_view w2" "flexible_total w' = flexible_total w2" by auto
  note v = positions_view [OF this(1)] reward_viewD(2) [OF this(1)] this(2)
  show ?thesis using c l by (intro that [of a amount removed]) (simp_all add: v)
qed

subsection \<open>Locking, on the abstract view\<close>

lemma Lock_effect:
  assumes run: "Lock e signer vault msg w = (Ok u, w')"
  obtains a amount i p where "StringToBytes e signer = Some a" "msg = Some amount"
    "vaultsMinimumLock e \<le> amount" "vault \<noteq> UNSPECIFIED" "amount \<le> balance e w a"
    "Map_Get (VaultsPositions w) (a, vault, Unix (BlockTime w)) = None"
    "Index w = Some i" "GetPrincipalAmountRoundedDown amount i = Ok p"
    "VaultsPositions w' = Map_Set (a, vault, Unix (BlockTime w))
       \<lparr>pos_Principal = p, pos_Index = i, pos_Amount = amount, pos_Time = BlockTime w\<rparr>
       (VaultsPositions w)"
    "flexible_total w' = flexible_total w + (if vault = FLEXIBLE then p else 0)" "Index w' = Index w"
proof -
  let ?app = "\<lambda>n w. App_update (account_SetModuleAccount e n) w"
  from run obtain a amount key w1 n c w2 i p w4 w5 w6 where
      check: "checkLock e signer vault msg w = (Ok (a, amount, key), w1)"
      and c: "NewCoins1 (denom e) amount = Ok c"
      and sent: "SendCoins e a (NewModuleAddress e n) c (?app n w1) = (Ok (), w2)"
      and i: "Index w2 = Some i" and p: "GetPrincipalAmountRoundedDown amount i = Ok p"
      and total: "(if vault = FLEXIBLE then addTotalFlexible p else ret ())
        (VaultsPositions_update (Map_Set key \<lparr>pos_Principal = p, pos_Index = i,
          pos_Amount = amount, pos_Time = BlockTime w1\<rparr>) w2) = (Ok (), w4)"
      and users: "(if length (GetVaultsPositionsByProviderAndVault a vault w4) = 1
        then wrap_err ''unable to increment vault total users'' (IncrementVaultUsers vault)
        else ret ()) w4 = (Ok (), w5)"
      and prin: "IncrementVaultTotalPrincipal vault p w5 = (Ok (), w6)"
      and w': "w' = w6\<lparr>Events := Events w6 @ [PositionLocked signer vault i amount p]\<rparr>"
    unfolding Lock_def Let_def
    by (auto simp: bnd_Ok case_prod_Ok gets_Ok thn_Ok modify_Ok lift_Ok wrap_err_Ok item_get_Ok emit_Ok)
  note ck = checkLock_Ok [OF check]
  have "reward_view w2 = reward_view (?app n w1)" "flexible_total w2 = flexible_total (?app n w1)"
    using send_view [OF _ sent] send_flexible [OF _ sent] coins_of(2,3) [OF c] by simp_all
  then have w2: "VaultsPositions w2 = VaultsPositions w" "Index w2 = Index w"
    "flexible_total w2 = flexible_total w"
    using ck by (simp_all add: reward_view_def portal_view_def flexible_total_def)
  have w4: "VaultsPositions w4 = Map_Set key \<lparr>pos_Principal = p, pos_Index = i, pos_Amount = amount,
      pos_Time = BlockTime w\<rparr> (VaultsPositions w)" "Index w4 = Index w"
    "flexible_total w4 = flexible_total w + (if vault = FLEXIBLE then p else 0)"
    using total w2 ck
    by (auto simp: addTotalFlexible_def bnd_Ok gets_Ok lift_Ok Int_Ok modify_Ok ret_Ok
        flexible_total_def split: if_splits)
  have "reward_view w5 = reward_view w4 \<and> flexible_total w5 = flexible_total w4"
    using users counters_view(1) by (auto simp: ret_Ok wrap_err_Ok split: if_splits)
  with counters_view(3) [OF prin] have "reward_view w6 = reward_view w4" "flexible_total w6 = flexible_total w4"
    by simp_all
  then have "VaultsPositions w' = VaultsPositions w4" "Index w' = Index w4"
    "flexible_total w' = flexible_total w4"
    using reward_viewD [of w6 w4] by (simp_all add: w' flexible_total_def)
  with ck i p w2 w4 show ?thesis by (intro that [of a amount i p]) auto
qed

subsection \<open>The invariant of the positions\<close>

text \<open>
  The total flexible principal covers the principal of the flexible positions; it is the
  denominator of the rewards the next index update records.
\<close>

definition vaults_inv :: "'b world \<Rightarrow> bool" where
  "vaults_inv w \<longleftrightarrow> positions_ok w \<and> vault_principal FLEXIBLE w \<le> flexible_total w"

lemma unlock_vaults_inv:
  assumes "unlock e signer vault msg w = (Ok u, w')" "vaults_inv w"
  shows "vaults_inv w'"
proof -
  have ok: "positions_ok w" using assms(2) by (simp add: vaults_inv_def)
  show ?thesis
  proof (rule unlock_effect [OF assms(1) ok])
    fix removed
    assume "positions_ok w'"
      and p: "\<And>v'. vault_principal v' w' + (if v' = vault then removed else 0) \<le> vault_principal v' w"
      and t: "flexible_total w' = flexible_total w - (if vault = FLEXIBLE then removed else 0)"
    show ?thesis
      using assms(2) \<open>positions_ok w'\<close> p [of FLEXIBLE] t by (auto simp: vaults_inv_def split: if_splits)
  qed
qed

lemma Lock_vaults_inv:
  assumes "Lock e signer vault msg w = (Ok u, w')" "vaults_inv w" "0 < vaultsMinimumLock e"
    "\<And>i. Index w = Some i \<Longrightarrow> 0 < i"
  shows "vaults_inv w'"
proof (rule Lock_effect [OF assms(1)])
  fix a amount i p
  assume amount: "vaultsMinimumLock e \<le> amount" and i: "Index w = Some i"
    and new: "Map_Get (VaultsPositions w) (a, vault, Unix (BlockTime w)) = None"
    and p: "GetPrincipalAmountRoundedDown amount i = Ok p"
    and m: "VaultsPositions w' = Map_Set (a, vault, Unix (BlockTime w))
       \<lparr>pos_Principal = p, pos_Index = i, pos_Amount = amount, pos_Time = BlockTime w\<rparr>
       (VaultsPositions w)"
    and t: "flexible_total w' = flexible_total w + (if vault = FLEXIBLE then p else 0)"
  let ?v = "\<lparr>pos_Principal = p, pos_Index = i, pos_Amount = amount, pos_Time = BlockTime w\<rparr>"
  have pos: "0 < amount" "0 < i" using amount assms(3,4) i by auto
  have "p = (amount * 10 ^ 12) div i" using p pos by (auto simp: RoundedDown_Ok sdiv_nonneg)
  then have v: "position_ok (a, vault, Unix (BlockTime w)) ?v" using pos by (simp add: position_ok_def)
  have ok: "map_ok (VaultsPositions w)"
    "\<And>k p. Map_Get (VaultsPositions w) k = Some p \<Longrightarrow> position_ok k p"
    using assms(2) unfolding vaults_inv_def positions_ok_def by blast+
  have "positions_ok w'"
    unfolding positions_ok_def m using ok v by (auto simp: map_ok_Set simp del: split_paired_All)
  moreover have "vault_principal FLEXIBLE w'
      = vault_principal FLEXIBLE w + (if vault = FLEXIBLE then p else 0)"
    using cmap.total_put [OF ok(1), of _ "(a, vault, Unix (BlockTime w))" ?v] new
    by (simp add: vault_principal_def m)
  ultimately show ?thesis using assms(2) t by (simp add: vaults_inv_def)
qed

subsection \<open>Rewards\<close>

text \<open>What the rewards records still hold.\<close>

definition reward_pot :: "'b world \<Rightarrow> int" where
  "reward_pot w = total_of (\<lambda>_ r. rew_Rewards r) (VaultsRewards w)"

text \<open>A record a position of principal \<open>p\<close> can be paid from: its total covers the position.\<close>

definition covers :: "int \<Rightarrow> reward \<Rightarrow> bool" where
  "covers p r \<longleftrightarrow> 0 \<le> rew_Rewards r \<and>
     (0 < rew_Total r \<and> 0 < rew_Rewards r \<longrightarrow> p \<le> rew_Total r \<and> rew_Total r < 2 * dec_one)"

lemma userReward_bound:
  assumes "legacy_env e" "userReward e ci p r = Ok x" "0 \<le> p" "covers p r" "0 < rew_Total r" "0 < rew_Rewards r"
  shows "0 \<le> x" "x \<le> rew_Rewards r"
proof -
  have dec: "legacy_dec (dec_Quo e) (dec_QuoInt e)" using assms(1) by (simp add: legacy_env_def)
  have c: "p \<le> rew_Total r" "rew_Total r < 2 * dec_one" using assms(4-6) by (simp_all add: covers_def)
  have "0 \<le> x \<and> x \<le> rew_Rewards r"
  proof (cases "rew_Index r \<noteq> ci \<and> \<not> rew_Rewards r < 0")
    case True
    with assms(2) obtain q where q: "dec_Quo e (LegacyDec_of (rew_Rewards r)) (LegacyDec_of (rew_Total r)) = Ok q"
        and x: "x = (q * p) sdiv dec_one"
      by (auto simp: userReward_def obind_eq_Ok LegacyDec_Ok)
    from legacy_dec.share_nonneg [OF dec q] legacy_dec.share_le_part [OF dec q] assms(3,5,6) c
    show ?thesis by (simp add: x)
  next
    case False
    with assms(2,6) show ?thesis by (auto simp: userReward_def split: if_splits)
  qed
  then show "0 \<le> x" "x \<le> rew_Rewards r" by simp_all
qed

lemma claimReward_effect:
  assumes run: "claimReward e ci p (k, r) acc w = (Ok acc', w')"
    and m: "map_ok (VaultsRewards w)" "Map_Get (VaultsRewards w) k = Some r"
  shows "map_ok (VaultsRewards w')" "acc' - acc = reward_pot w - reward_pot w'"
    "j \<noteq> k \<Longrightarrow> Map_Get (VaultsRewards w') j = Map_Get (VaultsRewards w) j"
    "legacy_env e \<Longrightarrow> 0 \<le> p \<Longrightarrow> covers p r \<Longrightarrow> acc \<le> acc' \<and>
       (\<exists>r'. Map_Get (VaultsRewards w') k = Some r' \<and> 0 \<le> rew_Rewards r')"
proof -
  from run m consider "acc' = acc" "w' = w" "\<not> (0 < rew_Total r \<and> 0 < rew_Rewards r)"
    | x where "userReward e ci p r = Ok x" "0 < rew_Total r" "0 < rew_Rewards r" "acc' = acc + x"
      "w' = VaultsRewards_update (Map_Set k \<lparr>rew_Index = rew_Index r, rew_Total = rew_Total r - p,
         rew_Rewards = rew_Rewards r - x\<rparr>) w"
    unfolding claimReward_def case_prod_conv
    by (auto simp: bnd_Ok thn_Ok lift_Ok Int_Ok modify_Ok ret_Ok split: if_splits)
  then have "map_ok (VaultsRewards w') \<and> acc' - acc = reward_pot w - reward_pot w' \<and>
      (j \<noteq> k \<longrightarrow> Map_Get (VaultsRewards w') j = Map_Get (VaultsRewards w) j) \<and>
      (legacy_env e \<longrightarrow> 0 \<le> p \<longrightarrow> covers p r \<longrightarrow> acc \<le> acc' \<and>
       (\<exists>r'. Map_Get (VaultsRewards w') k = Some r' \<and> 0 \<le> rew_Rewards r'))" for j
  proof cases
    case 1
    with m show ?thesis by (auto simp: covers_def)
  next
    case 2
    with m userReward_bound [OF _ 2(1)] show ?thesis
      by (auto simp: map_ok_Set reward_pot_def cmap.total_put [OF m(1)])
  qed
  then show "map_ok (VaultsRewards w')" "acc' - acc = reward_pot w - reward_pot w'"
    "j \<noteq> k \<Longrightarrow> Map_Get (VaultsRewards w') j = Map_Get (VaultsRewards w) j"
    "legacy_env e \<Longrightarrow> 0 \<le> p \<Longrightarrow> covers p r \<Longrightarrow> acc \<le> acc' \<and>
       (\<exists>r'. Map_Get (VaultsRewards w') k = Some r' \<and> 0 \<le> rew_Rewards r')"
    by blast+
qed

lemma claimRewards_walk:
  assumes "fold_prog (claimReward e ci p) es acc w = (Ok acc', w')"
    and "map_ok (VaultsRewards w)" "distinct (map fst es)"
    and "\<And>k r. (k, r) \<in> set es \<Longrightarrow> Map_Get (VaultsRewards w) k = Some r"
  shows "map_ok (VaultsRewards w') \<and> acc' - acc = reward_pot w - reward_pot w' \<and>
    (\<forall>j. j \<notin> fst ` set es \<longrightarrow> Map_Get (VaultsRewards w') j = Map_Get (VaultsRewards w) j) \<and>
    (legacy_env e \<longrightarrow> 0 \<le> p \<longrightarrow> (\<forall>(k, r) \<in> set es. covers p r) \<longrightarrow> acc \<le> acc' \<and>
       (\<forall>(k, _) \<in> set es. \<exists>r'. Map_Get (VaultsRewards w') k = Some r' \<and> 0 \<le> rew_Rewards r'))"
  using assms
proof (induction es arbitrary: acc w)
  case Nil
  then show ?case by (simp add: ret_Ok)
next
  case (Cons x es)
  obtain k r where x: "x = (k, r)" by fastforce
  from Cons.prems(1) x obtain a1 w1 where step: "claimReward e ci p (k, r) acc w = (Ok a1, w1)"
      and rest: "fold_prog (claimReward e ci p) es a1 w1 = (Ok acc', w')"
    by (auto simp: bnd_Ok)
  have get: "Map_Get (VaultsRewards w) k = Some r" using Cons.prems(4) [of k r] x by simp
  note s = claimReward_effect [OF step Cons.prems(2) get]
  have k: "k \<notin> fst ` set es" using Cons.prems(3) x by simp
  have stored: "Map_Get (VaultsRewards w1) j = Some q" if "(j, q) \<in> set es" for j q
    using Cons.prems(4) [of j q] that s(3) [of j] k by force
  have ih: "map_ok (VaultsRewards w') \<and> acc' - a1 = reward_pot w1 - reward_pot w' \<and>
    (\<forall>j. j \<notin> fst ` set es \<longrightarrow> Map_Get (VaultsRewards w') j = Map_Get (VaultsRewards w1) j) \<and>
    (legacy_env e \<longrightarrow> 0 \<le> p \<longrightarrow> (\<forall>(k, r) \<in> set es. covers p r) \<longrightarrow> a1 \<le> acc' \<and>
       (\<forall>(k, _) \<in> set es. \<exists>r'. Map_Get (VaultsRewards w') k = Some r' \<and> 0 \<le> rew_Rewards r'))"
    using Cons.IH [OF rest s(1) _ stored] Cons.prems(3) by simp
  with s k show ?case by (auto simp: x)
qed

text \<open>A claim pays out exactly what it takes from the records, and overdraws none of them.\<close>

interpretation pot_transfer: transfer_frame "same VaultsRewards" e for e
  by unfold_locales (simp_all add: same_def)

lemma Map_After_mem: "(k, r) \<in> set (Map_After i m) \<Longrightarrow> (k, r) \<in> set m \<and> i < k"
  by (simp add: Map_After_def)

lemma ClaimRewards_effect:
  assumes run: "ClaimRewards e pos amount w = (Ok x, w')" and m: "map_ok (VaultsRewards w)"
  shows "reward_pot w' = reward_pot w - x" "map_ok (VaultsRewards w')"
    "legacy_env e \<Longrightarrow> 0 \<le> amount \<Longrightarrow> 0 < pos_Index pos \<Longrightarrow>
     (\<And>k r p. Map_Get (VaultsRewards w) k = Some r \<Longrightarrow> pos_Index pos < k \<Longrightarrow>
        GetPrincipalAmountRoundedDown amount (pos_Index pos) = Ok p \<Longrightarrow> covers p r) \<Longrightarrow>
     (\<And>k r. Map_Get (VaultsRewards w) k = Some r \<Longrightarrow> 0 \<le> rew_Rewards r) \<Longrightarrow>
     0 \<le> x \<and> (\<forall>k r. Map_Get (VaultsRewards w') k = Some r \<longrightarrow> 0 \<le> rew_Rewards r)"
proof -
  let ?es = "Map_After (pos_Index pos) (VaultsRewards w)"
  have dist: "distinct (map fst ?es)"
    using cmap.entries_distinct [OF map_ok_filter [OF m]] by (simp add: Map_After_def)
  have stored: "Map_Get (VaultsRewards w) k = Some r \<and> pos_Index pos < k" if "(k, r) \<in> set ?es" for k r
    using Map_After_mem [OF that] cmap.in_entries_iff [OF m, of k r] by simp
  from run consider "x = 0" "w' = w"
    | ci p w1 c w2 s where "GetPrincipalAmountRoundedDown amount (pos_Index pos) = Ok p"
      "fold_prog (claimReward e ci p) ?es 0 w = (Ok x, w1)" "NewCoins1 (denom e) x = Ok c"
      "SendCoins e (FlexibleVaultAddress e) (pos_Address pos) c w1 = (Ok (), w2)"
      "w' = w2\<lparr>Events := Events w2 @ [RewardClaimed s x]\<rparr>"
    unfolding ClaimRewards_def
    by (auto simp: bnd_Ok thn_Ok gets_Ok lift_Ok Int_Ok item_get_Ok wrap_err_Ok from_option_Ok
        emit_Ok ret_Ok if_run split: if_splits)
  then have "reward_pot w' = reward_pot w - x \<and> map_ok (VaultsRewards w') \<and>
    (legacy_env e \<longrightarrow> 0 \<le> amount \<longrightarrow> 0 < pos_Index pos \<longrightarrow>
     (\<forall>k r p. Map_Get (VaultsRewards w) k = Some r \<longrightarrow> pos_Index pos < k \<longrightarrow>
        GetPrincipalAmountRoundedDown amount (pos_Index pos) = Ok p \<longrightarrow> covers p r) \<longrightarrow>
     (\<forall>k r. Map_Get (VaultsRewards w) k = Some r \<longrightarrow> 0 \<le> rew_Rewards r) \<longrightarrow>
     0 \<le> x \<and> (\<forall>k r. Map_Get (VaultsRewards w') k = Some r \<longrightarrow> 0 \<le> rew_Rewards r))"
  proof cases
    case 1
    with m show ?thesis by simp
  next
    case 2
    have w2: "VaultsRewards w' = VaultsRewards w1"
      using stepsD [OF pot_transfer.steps_SendCoins 2(4)] coins_of(2,3) [OF 2(3)]
      by (simp add: 2(5) same_def)
    have walk: "map_ok (VaultsRewards w1) \<and> x = reward_pot w - reward_pot w1 \<and>
      (\<forall>j. j \<notin> fst ` set ?es \<longrightarrow> Map_Get (VaultsRewards w1) j = Map_Get (VaultsRewards w) j) \<and>
      (legacy_env e \<longrightarrow> 0 \<le> p \<longrightarrow> (\<forall>(k, r) \<in> set ?es. covers p r) \<longrightarrow> 0 \<le> x \<and>
       (\<forall>(k, _) \<in> set ?es. \<exists>r'. Map_Get (VaultsRewards w1) k = Some r' \<and> 0 \<le> rew_Rewards r'))"
      using claimRewards_walk [OF 2(2) m dist conjunct1 [OF stored]] unfolding diff_zero .
    show ?thesis
    proof (intro conjI impI)
      show "reward_pot w' = reward_pot w - x" using walk w2 by (simp add: reward_pot_def)
      show "map_ok (VaultsRewards w')" using walk w2 by simp
      assume h: "legacy_env e" "0 \<le> amount" "0 < pos_Index pos"
        "\<forall>k r p. Map_Get (VaultsRewards w) k = Some r \<longrightarrow> pos_Index pos < k \<longrightarrow>
          GetPrincipalAmountRoundedDown amount (pos_Index pos) = Ok p \<longrightarrow> covers p r"
        "\<forall>k r. Map_Get (VaultsRewards w) k = Some r \<longrightarrow> 0 \<le> rew_Rewards r"
      have "0 \<le> p" using rounded_down_nonneg [OF 2(1) h(2,3)] .
      moreover have "\<forall>(k, r) \<in> set ?es. covers p r" using stored h(4) 2(1) by blast
      moreover note walk h(1)
      ultimately have fin: "0 \<le> x"
        "\<forall>(k, _) \<in> set ?es. \<exists>r'. Map_Get (VaultsRewards w1) k = Some r' \<and> 0 \<le> rew_Rewards r'"
        by blast+
      then show "0 \<le> x" by simp
      show "\<forall>k r. Map_Get (VaultsRewards w') k = Some r \<longrightarrow> 0 \<le> rew_Rewards r"
      proof (intro allI impI)
        fix k r assume r: "Map_Get (VaultsRewards w') k = Some r"
        show "0 \<le> rew_Rewards r"
        proof (cases "k \<in> fst ` set ?es")
          case True
          with fin(2) r w2 show ?thesis by fastforce
        next
          case False
          with walk h(5) r w2 show ?thesis by metis
        qed
      qed
    qed
  qed
  then show "reward_pot w' = reward_pot w - x" "map_ok (VaultsRewards w')"
    "legacy_env e \<Longrightarrow> 0 \<le> amount \<Longrightarrow> 0 < pos_Index pos \<Longrightarrow>
     (\<And>k r p. Map_Get (VaultsRewards w) k = Some r \<Longrightarrow> pos_Index pos < k \<Longrightarrow>
        GetPrincipalAmountRoundedDown amount (pos_Index pos) = Ok p \<Longrightarrow> covers p r) \<Longrightarrow>
     (\<And>k r. Map_Get (VaultsRewards w) k = Some r \<Longrightarrow> 0 \<le> rew_Rewards r) \<Longrightarrow>
     0 \<le> x \<and> (\<forall>k r. Map_Get (VaultsRewards w') k = Some r \<longrightarrow> 0 \<le> rew_Rewards r)"
    by blast+
qed

subsection \<open>The end of season one\<close>

lemma for_each_attempt_no_Err:
  "fst (for_each (\<lambda>(x, y). thn (attempt (f x y)) (ret ())) xs w) \<noteq> Err err"
  by (induction xs arbitrary: w)
    (auto simp: thn_def bnd_def attempt_def ret_def split: prod.splits outcome.splits)

lemma flexibleTotals_no_Err: "flexibleTotals e ps users \<noteq> Err x"
  by (induction e ps users rule: flexibleTotals.induct)
    (auto simp: obind_def Int_Add_def checked_def split: option.splits outcome.splits)

text \<open>The errors of single users are swallowed, so the end of season one never fails.\<close>

lemma endVaultsSeasonOne_no_Err: "fst (endVaultsSeasonOne e w) \<noteq> Err x"
  by (auto simp: endVaultsSeasonOne_def bnd_def gets_def lift_def for_each_attempt_no_Err
      flexibleTotals_no_Err split: outcome.split)

lemma BeginBlocker_cases:
  "BeginBlocker e w =
     (if vaultsSeasonOneEndTimestamp e < Unix (BlockTime w) \<and> \<not> IsVaultsSeasonOneEnded w then
        (Ok (), (if is_Ok (fst (endVaultsSeasonOne e w)) then snd (endVaultsSeasonOne e w) else w)
           \<lparr>VaultsSeasonOneEnded := Some True\<rparr>)
      else (Ok (), w))"
  using endVaultsSeasonOne_no_Err [of e w]
  by (cases "endVaultsSeasonOne e w"; cases "fst (endVaultsSeasonOne e w)")
    (auto simp: BeginBlocker_def)

end
