(* ===== verification/Ntt.thy ===== *)
theory Ntt
  imports Types
begin

text \<open>
  The wire formats of the Portal: \<open>types/portal/ntt\<close> (manager message, native token transfer,
  transceiver message), \<open>types/portal/additional_payload.go\<close> and \<open>types/portal/payload.go\<close>.

  A Go slice is more than its bytes: slicing beyond its length but within the capacity of its
  underlying array does not panic, it reads what lies behind. A parsed slice is therefore a pair
  of its bytes and the spare bytes behind them.
\<close>

subsection \<open>Big-endian numbers\<close>

fun be :: "nat \<Rightarrow> nat \<Rightarrow> bytes" where
  "be 0 v = []"
| "be (Suc n) v = be n (v div 256) @ [word_of_nat v]"

definition unbe :: "bytes \<Rightarrow> nat" where
  "unbe bs = foldl (\<lambda>a b. a * 256 + unat b) 0 bs"

lemma length_be [simp]: "length (be n v) = n"
  by (induction n arbitrary: v) simp_all

lemma unbe_Nil [simp]: "unbe [] = 0"
  by (simp add: unbe_def)

lemma unbe_snoc [simp]: "unbe (bs @ [b]) = unbe bs * 256 + unat b"
  by (simp add: unbe_def)

lemma unbe_be: "unbe (be n v) = v mod 256 ^ n"
proof (induction n arbitrary: v)
  case (Suc n)
  have "unbe (be (Suc n) v) = (v div 256 mod 256 ^ n) * 256 + v mod 256"
    by (simp add: Suc unat_of_nat)
  also have "\<dots> = v mod (256 * 256 ^ n)"
    by (subst mod_mult2_eq) simp
  finally show ?case by (simp add: mult.commute)
qed simp

lemma unbe_bound: "unbe bs < 256 ^ length bs"
proof (induction bs rule: rev_induct)
  case (snoc b bs)
  have "unat b < 256" using unsigned_less [of b] by simp
  with snoc show ?case by simp
qed simp

lemma be_unbe: "be (length bs) (unbe bs) = bs"
proof (induction bs rule: rev_induct)
  case (snoc b bs)
  have "(256 :: 8 word) = 0" by simp
  then have "x * 256 = 0" for x :: "8 word" by (simp only: mult_zero_right)
  moreover have "unat b < 256" using unsigned_less [of b] by simp
  ultimately show ?case using snoc by simp
qed simp

lemma be_inject: "v < 256 ^ n \<Longrightarrow> v' < 256 ^ n \<Longrightarrow> be n v = be n v' \<Longrightarrow> v = v'"
  by (metis mod_less unbe_be)

text \<open>\<open>AppendUint16\<close>, \<open>AppendUint64\<close> and the readers.\<close>

definition put16 :: "16 word \<Rightarrow> bytes" where "put16 w = be 2 (unat w)"
definition put32 :: "32 word \<Rightarrow> bytes" where "put32 w = be 4 (unat w)"
definition put64 :: "64 word \<Rightarrow> bytes" where "put64 w = be 8 (unat w)"
definition get16 :: "bytes \<Rightarrow> 16 word" where "get16 bs = word_of_nat (unbe bs)"
definition get64 :: "bytes \<Rightarrow> 64 word" where "get64 bs = word_of_nat (unbe bs)"

lemma length_put [simp]: "length (put16 w) = 2" "length (put32 x) = 4" "length (put64 y) = 8"
  by (simp_all add: put16_def put32_def put64_def)

lemma get_put [simp]: "get16 (put16 w) = w" "get64 (put64 y) = y"
proof -
  have "unat w < 65536" using unsigned_less [of w] by simp
  then show "get16 (put16 w) = w" by (simp add: get16_def put16_def unbe_be)
  have "unat y < 256 ^ 8" using unsigned_less [of y] by simp
  then show "get64 (put64 y) = y" by (simp add: get64_def put64_def unbe_be)
qed

lemma unat16: "n < 65536 \<Longrightarrow> unat (word_of_nat n :: 16 word) = n"
  by (simp add: unat_of_nat)

text \<open>An \<open>int64\<close> is stored as the \<open>uint64\<close> of the same bits.\<close>

definition uint64 :: "int \<Rightarrow> 64 word" where "uint64 i = word_of_int i"
definition int64 :: "64 word \<Rightarrow> int" where "int64 w = sint w"

lemma int64_uint64: "- (2 ^ 63) \<le> i \<Longrightarrow> i < 2 ^ 63 \<Longrightarrow> int64 (uint64 i) = i"
  by (simp add: int64_def uint64_def sint_sbintrunc' signed_take_bit_int_eq_self)

subsection \<open>Slices\<close>

text \<open>\<open>s[i:j]\<close>: the upper bound may reach to the capacity.\<close>

definition subslice :: "slice \<Rightarrow> nat \<Rightarrow> nat \<Rightarrow> slice result" where
  "subslice s i j =
     (let all = data s @ spare s in
      if i \<le> j \<and> j \<le> length all then Ok (Slice (take (j - i) (drop i all)) (drop j all))
      else Panic ''slice bounds out of range'')"

text \<open>\<open>s[i:]\<close>: the upper bound is the length.\<close>

definition slice_from :: "slice \<Rightarrow> nat \<Rightarrow> slice result" where
  "slice_from s i =
     (if i \<le> length (data s) then Ok (Slice (drop i (data s)) (spare s))
      else Panic ''slice bounds out of range'')"

text \<open>A segment inside the length is read whatever lies behind.\<close>

lemma subslice_append:
  "subslice (Slice (a @ b @ c) t) (length a) (length a + length b) = Ok (Slice b (c @ t))"
  by (simp add: subslice_def)

lemma subslice_first: "length b = n \<Longrightarrow> subslice (Slice (b @ c) t) 0 n = Ok (Slice b (c @ t))"
  by (simp add: subslice_def)

lemma subslice_at:
  "i = length a \<Longrightarrow> j = length a + length b \<Longrightarrow>
     subslice (Slice (a @ b @ c) t) i j = Ok (Slice b (c @ t))"
  by (simp add: subslice_def)

lemma slice_from_append: "i = length a \<Longrightarrow> slice_from (Slice (a @ b) t) i = Ok (Slice b t)"
  by (simp add: slice_from_def)

subsection \<open>Messages\<close>

record manager_message =
  Id :: slice
  mm_Sender :: slice
  Payload :: slice

record native_token_transfer =
  Amount :: "64 word"
  SourceToken :: slice
  To :: slice
  ToChain :: "16 word"
  AdditionalPayload :: slice

record transceiver_message =
  SourceManagerAddress :: slice
  RecipientManagerAddress :: slice
  ManagerPayload :: slice
  TransceiverPayload :: slice

definition NativeTokenTransferPrefix :: bytes where
  "NativeTokenTransferPrefix = [0x99, 0x4e, 0x54, 0x54]"

definition TransceiverMessagePrefix :: bytes where
  "TransceiverMessagePrefix = [0x99, 0x45, 0xff, 0x10]"

subsection \<open>The manager message\<close>

definition EncodeManagerMessage :: "manager_message \<Rightarrow> bytes" where
  "EncodeManagerMessage msg =
     data (Id msg) @ data (mm_Sender msg)
     @ put16 (word_of_nat (length (data (Payload msg)))) @ data (Payload msg)"

definition ParseManagerMessage :: "slice \<Rightarrow> manager_message result" where
  "ParseManagerMessage bz =
     (if length (data bz) < 66 then Err (Errorf ''manager message is malformed'')
      else
        obind (subslice bz 0 32) (\<lambda>i.
        obind (subslice bz 32 64) (\<lambda>s.
        obind (subslice bz 64 66) (\<lambda>l.
        obind (slice_from bz 66) (\<lambda>p.
        if length (data p) \<noteq> unat (get16 (data l))
        then Err (Errorf ''manager message payload is invalid length'')
        else Ok \<lparr>Id = i, mm_Sender = s, Payload = p\<rparr>)))))"

definition ManagerMessageDigest :: "(bytes \<Rightarrow> bytes) \<Rightarrow> 16 word \<Rightarrow> manager_message \<Rightarrow> bytes" where
  "ManagerMessageDigest keccak sourceChainId msg =
     keccak (put16 sourceChainId @ EncodeManagerMessage msg)"

subsection \<open>The native token transfer\<close>

definition EncodeNativeTokenTransfer :: "native_token_transfer \<Rightarrow> bytes" where
  "EncodeNativeTokenTransfer ntt =
     NativeTokenTransferPrefix @ [6] @ put64 (Amount ntt) @ data (SourceToken ntt)
     @ data (To ntt) @ put16 (ToChain ntt)
     @ (if 0 < length (data (AdditionalPayload ntt))
        then put16 (word_of_nat (length (data (AdditionalPayload ntt)))) @ data (AdditionalPayload ntt)
        else [])"

definition empty_transfer :: native_token_transfer where
  "empty_transfer = \<lparr>Amount = 0, SourceToken = lit [], To = lit [], ToChain = 0,
     AdditionalPayload = lit []\<rparr>"

text \<open>On an error the transfer returned beside it is the empty one, which the callers that ignore
  the error go on with.\<close>

definition ParseNativeTokenTransfer :: "slice \<Rightarrow> native_token_transfer result" where
  "ParseNativeTokenTransfer bz =
     (if length (data bz) < 79 then Err (Errorf ''native token transfer is malformed'')
      else
        obind (subslice bz 0 4) (\<lambda>prefix.
        if data prefix \<noteq> NativeTokenTransferPrefix
        then Err (Errorf ''native token transfer prefix is invalid'')
        else
          obind (subslice bz 5 13) (\<lambda>amount.
          obind (subslice bz 13 45) (\<lambda>sourceToken.
          obind (subslice bz 45 77) (\<lambda>to.
          obind (subslice bz 77 79) (\<lambda>toChain.
          if 79 < length (data bz) then
            if length (data bz) < 81 then Err (Errorf ''native token transfer is malformed'')
            else
              obind (subslice bz 79 81) (\<lambda>payloadLength.
              obind (slice_from bz 81) (\<lambda>p.
              if length (data p) \<noteq> unat (get16 (data payloadLength))
              then Err (Errorf ''native token transfer additional payload is invalid length'')
              else Ok \<lparr>Amount = get64 (data amount), SourceToken = sourceToken, To = to,
                ToChain = get16 (data toChain), AdditionalPayload = p\<rparr>))
          else Ok \<lparr>Amount = get64 (data amount), SourceToken = sourceToken, To = to,
            ToChain = get16 (data toChain), AdditionalPayload = lit []\<rparr>))))))"

subsection \<open>The transceiver message\<close>

definition EncodeTransceiverMessage :: "transceiver_message \<Rightarrow> bytes" where
  "EncodeTransceiverMessage msg =
     TransceiverMessagePrefix @ data (SourceManagerAddress msg) @ data (RecipientManagerAddress msg)
     @ put16 (word_of_nat (length (data (ManagerPayload msg)))) @ data (ManagerPayload msg)
     @ put16 (word_of_nat (length (data (TransceiverPayload msg)))) @ data (TransceiverPayload msg)"

definition ParseTransceiverMessage :: "slice \<Rightarrow> transceiver_message result" where
  "ParseTransceiverMessage bz =
     obind (subslice bz 0 4) (\<lambda>prefix.
     if data prefix \<noteq> TransceiverMessagePrefix
     then Err (Errorf ''transceiver message prefix is invalid'')
     else
       obind (subslice bz 4 36) (\<lambda>source.
       obind (subslice bz 36 68) (\<lambda>recipient.
       obind (subslice bz 68 70) (\<lambda>l.
       let managerPayloadLength = unat (get16 (data l)) in
       obind (subslice bz 70 (70 + managerPayloadLength)) (\<lambda>managerPayload.
       let offset = 70 + managerPayloadLength in
       obind (subslice bz offset (offset + 2)) (\<lambda>l'.
       obind (subslice bz (offset + 2) (offset + 2 + unat (get16 (data l')))) (\<lambda>transceiverPayload.
       Ok \<lparr>SourceManagerAddress = source, RecipientManagerAddress = recipient,
         ManagerPayload = managerPayload, TransceiverPayload = transceiverPayload\<rparr>)))))))"

subsection \<open>The additional payload\<close>

definition EncodeAdditionalPayload :: "int \<Rightarrow> bytes \<Rightarrow> bytes" where
  "EncodeAdditionalPayload index destinationToken = put64 (uint64 index) @ destinationToken"

definition DecodeAdditionalPayload :: "slice \<Rightarrow> (int \<times> slice) result" where
  "DecodeAdditionalPayload bz =
     (if length (data bz) < 40
      then Err (Errorf ''native token transfer additional payload is invalid length'')
      else
        obind (subslice bz 0 8) (\<lambda>index.
        obind (subslice bz 8 40) (\<lambda>destinationToken.
        Ok (int64 (get64 (data index)), destinationToken))))"

subsection \<open>Payloads\<close>

datatype payload_type = Unknown_Payload | Token_Payload | Index_Payload

text \<open>\<open>M0IT\<close>, the prefix of an index payload.\<close>

definition M0IT :: bytes where "M0IT = [0x4d, 0x30, 0x49, 0x54]"

definition GetPayloadType :: "slice \<Rightarrow> payload_type" where
  "GetPayloadType payload =
     (if length (data payload) < 4 then Unknown_Payload
      else if take 4 (data payload) = NativeTokenTransferPrefix then Token_Payload
      else if take 4 (data payload) = M0IT then Index_Payload
      else Unknown_Payload)"

record token_payload =
  tp_Amount :: int
  tp_Index :: int
  tp_Recipient :: slice
  tp_DestinationChainId :: "16 word"
  tp_DestinationToken :: slice

text \<open>Both errors are ignored, so a malformed transfer continues with the empty one, and taking
  the recipient out of its empty address panics.\<close>

definition DecodeTokenPayload :: "slice \<Rightarrow> token_payload result" where
  "DecodeTokenPayload payload =
     obind (case ParseNativeTokenTransfer payload of
              Err _ \<Rightarrow> Ok empty_transfer | r \<Rightarrow> r) (\<lambda>ntt.
     obind (case DecodeAdditionalPayload (AdditionalPayload ntt) of
              Err _ \<Rightarrow> Ok (0, lit []) | r \<Rightarrow> r) (\<lambda>(index, destinationToken).
     obind (slice_from (To ntt) 12) (\<lambda>recipient.
     Ok \<lparr>tp_Amount = uint (Amount ntt), tp_Index = index, tp_Recipient = recipient,
       tp_DestinationChainId = ToChain ntt, tp_DestinationToken = destinationToken\<rparr>)))"

definition DecodeIndexPayload :: "slice \<Rightarrow> (int \<times> 16 word) result" where
  "DecodeIndexPayload payload =
     obind (subslice payload 4 12) (\<lambda>index.
     obind (subslice payload 12 14) (\<lambda>destination.
     Ok (int64 (get64 (data index)), get16 (data destination))))"

definition EncodeIndexPayload :: "int \<Rightarrow> 16 word \<Rightarrow> bytes" where
  "EncodeIndexPayload index destination = M0IT @ put64 (uint64 index) @ put16 destination"

text \<open>What an event needs of the message that carried it.\<close>

record events_payload =
  ep_SourceChainId :: "32 word"
  ep_Sender :: bytes
  ep_MessageId :: bytes

subsection \<open>Round trips\<close>

lemma parse_manager:
  assumes "length (data (Id m)) = 32" "length (data (mm_Sender m)) = 32"
    "length (data (Payload m)) < 65536"
  obtains m' where "ParseManagerMessage (Slice (EncodeManagerMessage m) t) = Ok m'"
    "data (Id m') = data (Id m)" "data (mm_Sender m') = data (mm_Sender m)"
    "Payload m' = Slice (data (Payload m)) t"
proof -
  let ?l = "put16 (word_of_nat (length (data (Payload m))))"
  let ?bz = "Slice (EncodeManagerMessage m) t"
  have parts: "subslice ?bz 0 32 = Ok (Slice (data (Id m)) (data (mm_Sender m) @ ?l @ data (Payload m) @ t))"
    "subslice ?bz 32 64 = Ok (Slice (data (mm_Sender m)) (?l @ data (Payload m) @ t))"
    "subslice ?bz 64 66 = Ok (Slice ?l (data (Payload m) @ t))"
    "slice_from ?bz 66 = Ok (Slice (data (Payload m)) t)"
    using assms by (simp_all add: subslice_def slice_from_def EncodeManagerMessage_def)
  have len: "\<not> length (data ?bz) < 66" "unat (get16 ?l) = length (data (Payload m))"
    using assms by (simp_all add: EncodeManagerMessage_def unat16)
  show ?thesis
    by (rule that [of "\<lparr>Id = Slice (data (Id m)) (data (mm_Sender m) @ ?l @ data (Payload m) @ t),
          mm_Sender = Slice (data (mm_Sender m)) (?l @ data (Payload m) @ t),
          Payload = Slice (data (Payload m)) t\<rparr>"])
      (use parts len in \<open>simp_all add: ParseManagerMessage_def\<close>)
qed

lemma parse_transceiver:
  assumes "length (data (SourceManagerAddress m)) = 32" "length (data (RecipientManagerAddress m)) = 32"
    "length (data (ManagerPayload m)) < 65536" "length (data (TransceiverPayload m)) < 65536"
  obtains m' where "ParseTransceiverMessage (Slice (EncodeTransceiverMessage m) t) = Ok m'"
    "data (SourceManagerAddress m') = data (SourceManagerAddress m)"
    "data (RecipientManagerAddress m') = data (RecipientManagerAddress m)"
    "data (ManagerPayload m') = data (ManagerPayload m)"
    "data (TransceiverPayload m') = data (TransceiverPayload m)"
proof -
  let ?p = "data (ManagerPayload m)" and ?q = "data (TransceiverPayload m)"
  let ?l = "put16 (word_of_nat (length ?p))" and ?k = "put16 (word_of_nat (length ?q))"
  let ?s = "data (SourceManagerAddress m)" and ?r = "data (RecipientManagerAddress m)"
  let ?bz = "Slice (EncodeTransceiverMessage m) t"
  have pre: "length TransceiverMessagePrefix = 4" by (simp add: TransceiverMessagePrefix_def)
  have len: "unat (get16 ?l) = length ?p" "unat (get16 ?k) = length ?q"
    using assms by (simp_all add: unat16)
  have parts: "subslice ?bz 0 4 = Ok (Slice TransceiverMessagePrefix (?s @ ?r @ ?l @ ?p @ ?k @ ?q @ t))"
    "subslice ?bz 4 36 = Ok (Slice ?s (?r @ ?l @ ?p @ ?k @ ?q @ t))"
    "subslice ?bz 36 68 = Ok (Slice ?r (?l @ ?p @ ?k @ ?q @ t))"
    "subslice ?bz 68 70 = Ok (Slice ?l (?p @ ?k @ ?q @ t))"
    "subslice ?bz 70 (70 + length ?p) = Ok (Slice ?p (?k @ ?q @ t))"
    "subslice ?bz (70 + length ?p) (70 + length ?p + 2) = Ok (Slice ?k (?q @ t))"
    "subslice ?bz (70 + length ?p + 2) (70 + length ?p + 2 + length ?q) = Ok (Slice ?q t)"
    using assms pre by (simp_all add: subslice_def EncodeTransceiverMessage_def)
  have "ParseTransceiverMessage ?bz = Ok \<lparr>SourceManagerAddress = Slice ?s (?r @ ?l @ ?p @ ?k @ ?q @ t),
      RecipientManagerAddress = Slice ?r (?l @ ?p @ ?k @ ?q @ t),
      ManagerPayload = Slice ?p (?k @ ?q @ t), TransceiverPayload = Slice ?q t\<rparr>"
    unfolding ParseTransceiverMessage_def Let_def
    by (simp only: parts obind_simps slice.sel len simp_thms if_False)
  then show ?thesis by (rule that) simp_all
qed

lemma transfer_parts:
  assumes "length p = 4" "length a = 8" "length s = 32" "length r = 32" "length c = 2"
  shows "subslice (Slice (p @ [6] @ a @ s @ r @ c @ x) t) 0 4 = Ok (Slice p ([6] @ a @ s @ r @ c @ x @ t))"
    "subslice (Slice (p @ [6] @ a @ s @ r @ c @ x) t) 5 13 = Ok (Slice a (s @ r @ c @ x @ t))"
    "subslice (Slice (p @ [6] @ a @ s @ r @ c @ x) t) 13 45 = Ok (Slice s (r @ c @ x @ t))"
    "subslice (Slice (p @ [6] @ a @ s @ r @ c @ x) t) 45 77 = Ok (Slice r (c @ x @ t))"
    "subslice (Slice (p @ [6] @ a @ s @ r @ c @ x) t) 77 79 = Ok (Slice c (x @ t))"
  using assms by (simp_all add: subslice_def)

lemma parse_transfer:
  assumes "length (data (SourceToken n)) = 32" "length (data (To n)) = 32"
    "length (data (AdditionalPayload n)) < 65536"
  obtains n' where "ParseNativeTokenTransfer (Slice (EncodeNativeTokenTransfer n) t) = Ok n'"
    "Amount n' = Amount n" "data (SourceToken n') = data (SourceToken n)" "data (To n') = data (To n)"
    "ToChain n' = ToChain n" "data (AdditionalPayload n') = data (AdditionalPayload n)"
proof -
  let ?a = "put64 (Amount n)" and ?s = "data (SourceToken n)" and ?o = "data (To n)"
  let ?c = "put16 (ToChain n)" and ?p = "data (AdditionalPayload n)"
  let ?l = "put16 (word_of_nat (length ?p))"
  let ?x = "if 0 < length ?p then ?l @ ?p else []"
  let ?bz = "Slice (EncodeNativeTokenTransfer n) t"
  have pre: "length NativeTokenTransferPrefix = 4" by (simp add: NativeTokenTransferPrefix_def)
  have bz: "EncodeNativeTokenTransfer n = NativeTokenTransferPrefix @ [6] @ ?a @ ?s @ ?o @ ?c @ ?x"
    by (simp add: EncodeNativeTokenTransfer_def)
  have parts: "subslice ?bz 0 4 = Ok (Slice NativeTokenTransferPrefix ([6] @ ?a @ ?s @ ?o @ ?c @ ?x @ t))"
    "subslice ?bz 5 13 = Ok (Slice ?a (?s @ ?o @ ?c @ ?x @ t))"
    "subslice ?bz 13 45 = Ok (Slice ?s (?o @ ?c @ ?x @ t))"
    "subslice ?bz 45 77 = Ok (Slice ?o (?c @ ?x @ t))"
    "subslice ?bz 77 79 = Ok (Slice ?c (?x @ t))"
    unfolding bz by (rule transfer_parts; simp add: pre assms)+
  have len: "length (data ?bz) = 79 + length ?x"
    using assms pre by (simp add: bz)
  show ?thesis
  proof (cases "?p = []")
    case True
    then have x: "?x = []" by simp
    have len': "length (EncodeNativeTokenTransfer n) < 79 \<longleftrightarrow> False"
      "79 < length (EncodeNativeTokenTransfer n) \<longleftrightarrow> False"
      using len x by simp_all
    have "ParseNativeTokenTransfer ?bz = Ok \<lparr>Amount = Amount n, SourceToken = Slice ?s (?o @ ?c @ ?x @ t),
        To = Slice ?o (?c @ ?x @ t), ToChain = ToChain n, AdditionalPayload = lit []\<rparr>"
      unfolding ParseNativeTokenTransfer_def
      by (simp only: parts obind_simps slice.sel len' simp_thms if_False get_put)
    then show ?thesis by (rule that) (simp_all add: True)
  next
    case False
    then have x: "?x = ?l @ ?p" by simp
    have more: "subslice ?bz 79 81 = Ok (Slice ?l (?p @ t))" "slice_from ?bz 81 = Ok (Slice ?p t)"
      using assms pre x by (simp_all add: bz subslice_def slice_from_def)
    have k: "unat (get16 ?l) = length ?p" using assms(3) by (simp add: unat16)
    have len': "length (EncodeNativeTokenTransfer n) < 79 \<longleftrightarrow> False"
      "79 < length (EncodeNativeTokenTransfer n) \<longleftrightarrow> True"
      "length (EncodeNativeTokenTransfer n) < 81 \<longleftrightarrow> False"
      using len x False by simp_all
    have "ParseNativeTokenTransfer ?bz = Ok \<lparr>Amount = Amount n, SourceToken = Slice ?s (?o @ ?c @ ?x @ t),
        To = Slice ?o (?c @ ?x @ t), ToChain = ToChain n, AdditionalPayload = Slice ?p t\<rparr>"
      unfolding ParseNativeTokenTransfer_def
      by (simp only: parts more obind_simps slice.sel len' k unat16 [OF assms(3)] simp_thms if_False if_True get_put)
    then show ?thesis by (rule that) simp_all
  qed
qed

lemma decode_additional:
  assumes "length tok = 32" "- (2 ^ 63) \<le> i" "i < 2 ^ 63"
  obtains d where "DecodeAdditionalPayload (Slice (EncodeAdditionalPayload i tok) t) = Ok (i, d)"
    "data d = tok"
proof -
  have "subslice (Slice (EncodeAdditionalPayload i tok) t) 0 8 = Ok (Slice (put64 (uint64 i)) (tok @ t))"
    "subslice (Slice (EncodeAdditionalPayload i tok) t) 8 40 = Ok (Slice tok t)"
    "\<not> length (data (Slice (EncodeAdditionalPayload i tok) t)) < 40"
    using assms(1) by (simp_all add: subslice_def EncodeAdditionalPayload_def)
  then show ?thesis
    using int64_uint64 [OF assms(2,3)] by (intro that [of "Slice tok t"]) (simp_all add: DecodeAdditionalPayload_def)
qed

lemma decode_index:
  assumes "- (2 ^ 63) \<le> i" "i < 2 ^ 63"
  shows "DecodeIndexPayload (Slice (EncodeIndexPayload i d) t) = Ok (i, d)"
proof -
  have "subslice (Slice (EncodeIndexPayload i d) t) 4 12 = Ok (Slice (put64 (uint64 i)) (put16 d @ t))"
    "subslice (Slice (EncodeIndexPayload i d) t) 12 14 = Ok (Slice (put16 d) t)"
    by (simp_all add: subslice_def EncodeIndexPayload_def M0IT_def)
  then show ?thesis using int64_uint64 [OF assms] by (simp add: DecodeIndexPayload_def)
qed

lemma type_of_index: "GetPayloadType (Slice (EncodeIndexPayload i d) t) = Index_Payload"
  by (simp add: GetPayloadType_def EncodeIndexPayload_def M0IT_def NativeTokenTransferPrefix_def)

lemma type_of_transfer: "GetPayloadType (Slice (EncodeNativeTokenTransfer n) t) = Token_Payload"
  by (simp add: GetPayloadType_def EncodeNativeTokenTransfer_def NativeTokenTransferPrefix_def)

text \<open>A transfer the Portal sends is decoded to its fields, the recipient without its padding.\<close>

lemma decode_token:
  assumes "length src = 32" "length to = 32" "length tok = 32" "- (2 ^ 63) \<le> i" "i < 2 ^ 63"
  obtains p where "DecodeTokenPayload (Slice (EncodeNativeTokenTransfer \<lparr>Amount = a,
      SourceToken = lit src, To = lit to, ToChain = c,
      AdditionalPayload = lit (EncodeAdditionalPayload i tok)\<rparr>) t) = Ok p"
    "tp_Amount p = uint a" "tp_Index p = i" "data (tp_Recipient p) = drop 12 to"
    "tp_DestinationChainId p = c" "data (tp_DestinationToken p) = tok"
proof -
  let ?n = "\<lparr>Amount = a, SourceToken = lit src, To = lit to, ToChain = c,
      AdditionalPayload = lit (EncodeAdditionalPayload i tok)\<rparr>"
  have "length (EncodeAdditionalPayload i tok) = 40"
    using assms(3) by (simp add: EncodeAdditionalPayload_def)
  with assms(1,2) obtain n' where n': "ParseNativeTokenTransfer (Slice (EncodeNativeTokenTransfer ?n) t) = Ok n'"
      "Amount n' = a" "data (To n') = to" "ToChain n' = c"
      "data (AdditionalPayload n') = EncodeAdditionalPayload i tok"
    by (rule_tac parse_transfer [of ?n t]) auto
  obtain d where d: "DecodeAdditionalPayload (AdditionalPayload n') = Ok (i, d)" "data d = tok"
    using decode_additional [OF assms(3-5), of "spare (AdditionalPayload n')"] n'(5)
    by (metis slice.collapse)
  have "slice_from (To n') 12 = Ok (Slice (drop 12 to) (spare (To n')))"
    using n'(3) assms(2) by (simp add: slice_from_def)
  with n' d show ?thesis
    by (intro that [of "\<lparr>tp_Amount = uint a, tp_Index = i, tp_Recipient = Slice (drop 12 to) (spare (To n')),
        tp_DestinationChainId = c, tp_DestinationToken = d\<rparr>"]) (simp_all add: DecodeTokenPayload_def)
qed

end
