(* ===== verification/Portal.thy ===== *)
theory Portal
  imports Ntt Yield
begin

text \<open>
  The Portal: \<open>keeper/state_portal.go\<close>, \<open>Deliver\<close> and \<open>HandlePayload\<close> of \<open>keeper/keeper.go\<close>,
  and the messages of \<open>keeper/msg_server_portal.go\<close>.
\<close>

subsection \<open>Identity of the Portal\<close>

definition PortalSubmoduleName :: string where
  "PortalSubmoduleName = ''dollar/portal''"

text \<open>\<open>NewKeeper\<close> copies the manager address behind twelve zero bytes.\<close>

definition PaddedManagerAddress :: "'b env \<Rightarrow> bytes" where
  "PaddedManagerAddress e = copy_at 32 12 (NewModuleAddress e (PortalSubmoduleName @ ''/manager''))"

text \<open>The error of \<open>BytesToString\<close> is ignored.\<close>

definition TransceiverAddress :: "'b env \<Rightarrow> string" where
  "TransceiverAddress e =
     get_or '''' (BytesToString e (NewModuleAddress e (PortalSubmoduleName @ ''/transceiver'')))"

text \<open>The denomination, padded on the left; a longer one makes \<open>NewKeeper\<close> panic, so no keeper
  with one exists.\<close>

definition RawToken :: "'b env \<Rightarrow> bytes" where
  "RawToken e = (let bz = string_bytes (denom e) in replicate (32 - length bz) 0 @ bz)"

definition NewKeeper_panics :: "'b env \<Rightarrow> bool" where
  "NewKeeper_panics e = (32 < length (string_bytes (denom e)))"

subsection \<open>State\<close>

definition GetPortalPaused :: "'b world \<Rightarrow> bool" where
  "GetPortalPaused w = get_or False (PortalPaused w)"

definition GetPortalPeers :: "'b world \<Rightarrow> (16 word, peer) cmap" where
  "GetPortalPeers w = PortalPeers w"

definition GetPortalBridgingPaths :: "'b world \<Rightarrow> (16 word \<times> bytes) list" where
  "GetPortalBridgingPaths w = map fst (filter snd (PortalBridgingPaths w))"

definition IncrementPortalNonce :: "('b, 32 word) handler" where
  "IncrementPortalNonce =
     bnd (wrap_err ''unable to get portal nonce from state'' (item_get PortalNonce)) (\<lambda>nonce.
     thn (modify (PortalNonce_update (\<lambda>_. Some (nonce + 1))))
     (ret nonce))"

subsection \<open>Delivery\<close>

definition HandlePayload :: "'b env \<Rightarrow> slice \<Rightarrow> events_payload \<Rightarrow> ('b, unit) handler" where
  "HandlePayload e payload ep =
     bnd (wrap_err ''unable to get wormhole chain id'' (\<lambda>w. (GetChain e (App w), w))) (\<lambda>chain.
     case GetPayloadType payload of
       Unknown_Payload \<Rightarrow> ret ()
     | Token_Payload \<Rightarrow>
         bnd (lift (DecodeTokenPayload payload)) (\<lambda>tp.
         if chain \<noteq> tp_DestinationChainId tp then fail (Errorf ''wrong destination chain'')
         else if RawToken e \<noteq> data (tp_DestinationToken tp)
         then fail (Errorf ''wrong destination token'')
         else
           thn (Mint e (data (tp_Recipient tp)) (tp_Amount tp) (Some (tp_Index tp)))
           (bnd (from_option (Errorf ''error encoding the recipient address'')
                   (BytesToString e (data (tp_Recipient tp)))) (\<lambda>recipient.
            thn (emit (MTokenReceived (ep_SourceChainId ep) (data (tp_DestinationToken tp)) (ep_Sender ep)
                   recipient (tp_Amount tp) (tp_Index tp) (ep_MessageId ep)))
            (emit (TransferRedeemed (ep_MessageId ep))))))
     | Index_Payload \<Rightarrow>
         bnd (lift (DecodeIndexPayload payload)) (\<lambda>(index, destination).
         if chain \<noteq> destination then fail (Errorf ''not destination chain'')
         else UpdateIndex e index))"

text \<open>\<open>Keeper.Deliver\<close>; the emitter chain of a VAA has sixteen bits.\<close>

definition Deliver :: "'b env \<Rightarrow> bytes \<Rightarrow> ('b, unit) handler" where
  "Deliver e bz =
     bnd (gets GetPortalPaused) (\<lambda>paused.
     if paused then fail ErrPortalPaused
     else
       bnd (app_call (ParseAndVerifyVAA e bz)) (\<lambda>vaa.
       bnd (gets (\<lambda>w. Map_Get (PortalPeers w) (EmitterChain vaa))) (\<lambda>found.
       bnd (from_option (Wrap ErrInvalidPeer ''chain not configured'') found) (\<lambda>peer.
       if Transceiver peer \<noteq> EmitterAddress vaa
       then fail (Wrap ErrInvalidPeer ''expected another transceiver'')
       else
         bnd (lift (ParseTransceiverMessage (VaaPayload vaa))) (\<lambda>transceiverMessage.
         if Manager peer \<noteq> data (SourceManagerAddress transceiverMessage)
         then fail (Wrap ErrInvalidPeer ''expected another manager'')
         else if PaddedManagerAddress e \<noteq> data (RecipientManagerAddress transceiverMessage)
         then fail (Wrap ErrInvalidMessage ''expected another recipient manager'')
         else
           bnd (lift (ParseManagerMessage (ManagerPayload transceiverMessage))) (\<lambda>managerMessage.
           let messageId = ManagerMessageDigest (Keccak256 e) (EmitterChain vaa) managerMessage in
           HandlePayload e (Payload managerMessage)
             \<lparr>ep_SourceChainId = ucast (EmitterChain vaa), ep_Sender = data (mm_Sender managerMessage),
               ep_MessageId = messageId\<rparr>))))))"

definition portal_Deliver :: "'b env \<Rightarrow> bytes \<Rightarrow> ('b, unit) handler" where
  "portal_Deliver e bz = thn (Deliver e bz) (emit (Delivered bz))"

subsection \<open>Transfer\<close>

text \<open>\<open>Int.Uint64\<close> and \<open>Int.Int64\<close> panic outside their range.\<close>

definition Int_Uint64 :: "int \<Rightarrow> (64 word) result" where
  "Int_Uint64 i = (if 0 \<le> i \<and> i < 2 ^ 64 then Ok (word_of_int i) else Panic ''Uint64() out of bounds'')"

definition Int_Int64 :: "int \<Rightarrow> int result" where
  "Int_Int64 i = (if - (2 ^ 63) \<le> i \<and> i < 2 ^ 63 then Ok i else Panic ''Int64() out of bound'')"

text \<open>The native token transfer that a message asks for.\<close>

definition transferPayload ::
    "'b env \<Rightarrow> int \<Rightarrow> 64 word \<Rightarrow> 16 word \<Rightarrow> bytes \<Rightarrow> bytes \<Rightarrow> bytes" where
  "transferPayload e index amount chain token recipient =
     EncodeNativeTokenTransfer \<lparr>Amount = amount, SourceToken = lit (RawToken e), To = lit recipient,
       ToChain = chain, AdditionalPayload = lit (EncodeAdditionalPayload index token)\<rparr>"

text \<open>The two events of the legacy kind.\<close>

definition emitTransferSent :: "int \<Rightarrow> 16 word \<Rightarrow> bytes \<Rightarrow> 32 word \<Rightarrow> bytes \<Rightarrow> ('b, unit) handler" where
  "emitTransferSent amount chain recipient nonce messageId =
     bnd (lift (Int_Int64 amount)) (\<lambda>a.
     thn (emit (EmitKV ''transfer_sent'' [(''recipient'', KVBytes recipient),
        (''refund_address'', KVString ''''), (''amount'', KVInt a), (''fee'', KVString ''''),
        (''recipient_chain'', KVInt (uint chain)), (''msg_sequence'', KVInt (uint nonce))]))
     (emit (EmitKV ''transfer_sent'' [(''digest'', KVBytes messageId)])))"

definition portal_Transfer ::
    "'b env \<Rightarrow> string \<Rightarrow> int option \<Rightarrow> 16 word \<Rightarrow> bytes \<Rightarrow> bytes \<Rightarrow> ('b, unit) handler" where
  "portal_Transfer e signer msgAmount chainId token recipient =
     bnd (gets GetPortalPaused) (\<lambda>paused.
     if paused then fail ErrPortalPaused
     else
       bnd (gets (\<lambda>w. Map_Get (PortalPeers w) chainId)) (\<lambda>found.
       bnd (from_option (Wrap ErrInvalidPeer ''chain is not configured'') found) (\<lambda>peer.
       bnd (gets (\<lambda>w. Map_Has (PortalBridgingPaths w) (chainId, token))) (\<lambda>has.
       if \<not> has then fail (Wrap ErrInvalidBridgePath ''token is not configured for chain'')
       else if length recipient \<noteq> 32 then fail (Wrap ErrInvalidRecipient ''recipient must be 32 bytes'')
       else
         bnd (wrap_err ''unable to get index from state'' (item_get Index)) (\<lambda>index.
         bnd (non_nil msgAmount) (\<lambda>amount.
         bnd (lift (Int_Uint64 amount)) (\<lambda>amount64.
         let rawNativeTokenTransfer = transferPayload e index amount64 chainId token recipient in
         bnd (from_option (Wrap (ErrExternal ''bech32'') ''unable to decode account'')
                (StringToBytes e signer)) (\<lambda>sender.
         bnd (lift (pad_left 32 sender)) (\<lambda>rawSender.
         bnd IncrementPortalNonce (\<lambda>nonce.
         bnd (lift (pad_left 32 (put32 nonce))) (\<lambda>i.
         let managerMessage = \<lparr>Id = lit i, mm_Sender = lit rawSender,
               Payload = lit rawNativeTokenTransfer\<rparr> in
         bnd (wrap_err ''unable to get wormhole chain id'' (\<lambda>w. (GetChain e (App w), w))) (\<lambda>chain.
         let messageId = ManagerMessageDigest (Keccak256 e) chain managerMessage;
             rawTransceiverMessage = EncodeTransceiverMessage
               \<lparr>SourceManagerAddress = lit (PaddedManagerAddress e),
                 RecipientManagerAddress = lit (Manager peer),
                 ManagerPayload = lit (EncodeManagerMessage managerMessage),
                 TransceiverPayload = lit []\<rparr> in
         thn (wrap_err ''unable to burn coins'' (Burn e sender amount))
         (thn (wrap_err ''unable to post transfer message''
                (app_call (PostMessage e (TransceiverAddress e) rawTransceiverMessage nonce)))
         (thn (emit (USDNTokenSent (RawToken e) chainId token signer recipient amount index messageId))
         (emitTransferSent amount chainId recipient nonce messageId)))))))))))))))"

subsection \<open>Administration\<close>

definition EnsureOwner :: "'b world \<Rightarrow> string \<Rightarrow> error option" where
  "EnsureOwner w signer =
     (let owner = get_or '''' (PortalOwner w) in
      if owner = '''' then Some ErrNoOwner
      else if signer \<noteq> owner then Some (Wrap ErrNotOwner ''expected owner'')
      else None)"

definition asOwner :: "string \<Rightarrow> ('b, unit) handler \<Rightarrow> ('b, unit) handler" where
  "asOwner signer m =
     bnd (gets (\<lambda>w. EnsureOwner w signer)) (\<lambda>err.
     case err of Some x \<Rightarrow> fail x | None \<Rightarrow> m)"

definition portal_SetPausedState :: "string \<Rightarrow> bool \<Rightarrow> ('b, unit) handler" where
  "portal_SetPausedState signer paused =
     asOwner signer
       (thn (modify (PortalPaused_update (\<lambda>_. Some paused)))
        (emit (if paused then PortalPaused_Event else PortalUnpaused_Event)))"

definition SetPeer :: "'b env \<Rightarrow> string \<Rightarrow> 16 word \<Rightarrow> bytes \<Rightarrow> bytes \<Rightarrow> ('b, unit) handler" where
  "SetPeer e signer chainId transceiver manager =
     asOwner signer
       (if chainId = 0 then fail (Wrap ErrInvalidPeer ''chain cannot be 0'')
        else
          bnd (attempt (\<lambda>w. (GetChain e (App w), w))) (\<lambda>chain.
          if (case chain of Inl _ \<Rightarrow> True | Inr own \<Rightarrow> chainId = own)
          then fail (Wrap ErrInvalidPeer ''chain cannot be the own chain'')
          else if length transceiver \<noteq> 32
          then fail (Wrap ErrInvalidPeer ''transceiver must be 32 bytes'')
          else if transceiver = replicate 32 0
          then fail (Wrap ErrInvalidPeer ''transceiver must not be empty'')
          else if length manager \<noteq> 32
          then fail (Wrap ErrInvalidPeer ''manager must be 32 bytes'')
          else if manager = replicate 32 0
          then fail (Wrap ErrInvalidPeer ''manager must not be empty'')
          else
            bnd (gets (\<lambda>w. get_or \<lparr>Transceiver = [], Manager = []\<rparr> (Map_Get (PortalPeers w) chainId))) (\<lambda>peer.
            thn (modify (PortalPeers_update (Map_Set chainId \<lparr>Transceiver = transceiver, Manager = manager\<rparr>)))
            (emit (PeerUpdated chainId (Transceiver peer) transceiver (Manager peer) manager)))))"

definition SetBridgingPath ::
    "'b env \<Rightarrow> string \<Rightarrow> 16 word \<Rightarrow> bytes \<Rightarrow> bool \<Rightarrow> ('b, unit) handler" where
  "SetBridgingPath e signer chainId token supported =
     asOwner signer
       (bnd (wrap_err ''unable to get wormhole chain id'' (\<lambda>w. (GetChain e (App w), w))) (\<lambda>own.
        if chainId = own then fail (Wrap ErrInvalidBridgePath ''destination chain cannot be the own chain'')
        else if length token \<noteq> 32
        then fail (Wrap ErrInvalidBridgePath ''destination token must be 32 bytes'')
        else if token = replicate 32 0
        then fail (Wrap ErrInvalidBridgePath ''destination token must not be empty'')
        else
          thn (modify (PortalBridgingPaths_update (Map_Set (chainId, token) supported)))
          (emit (BridgingPathSet chainId token supported))))"

definition TransferOwnership :: "'b env \<Rightarrow> string \<Rightarrow> string \<Rightarrow> ('b, unit) handler" where
  "TransferOwnership e signer newOwner =
     asOwner signer
       (bnd (from_option (Wrap (ErrExternal ''bech32'') ''unable to decode new owner address'')
               (StringToBytes e newOwner)) (\<lambda>_.
        if newOwner = signer then fail ErrSameOwner
        else
          thn (modify (PortalOwner_update (\<lambda>_. Some newOwner)))
          (emit (OwnershipTransferred signer newOwner))))"

end
