(* ===== verification/Portal_Laws.thy ===== *)
theory Portal_Laws
  imports Portal Effects
begin

text \<open>
  What the Portal messages keep of the store. The locale \<open>portal_relation\<close> adds the writes of the
  Portal to those of the keeper; it is interpreted for the growth of the index, the coverage of
  the ledger and the custody of the vaults. The rest of the theory evaluates delivery on messages
  in the wire format, and a transfer that succeeds.
\<close>

subsection \<open>Relations kept by the Portal\<close>

locale portal_relation = keeper_relation +
  assumes rel_portal_owner: "R w (PortalOwner_update (\<lambda>_. Some owner) w)"
    and rel_portal_paused: "R w (PortalPaused_update (\<lambda>_. Some paused) w)"
    and rel_portal_peers: "c \<noteq> 0 \<Longrightarrow> length t = 32 \<Longrightarrow> length m = 32 \<Longrightarrow>
      R w (PortalPeers_update (Map_Set c \<lparr>Transceiver = t, Manager = m\<rparr>) w)"
    and rel_portal_paths: "map_write f \<Longrightarrow> R w (PortalBridgingPaths_update f w)"
    and rel_portal_nonce: "R w (PortalNonce_update (\<lambda>_. Some nonce) w)"
begin

lemma steps_read [steps_intro]: "steps R (\<lambda>w. (f w, w))"
  by (simp add: steps_def rel_refl)

lemma steps_nonce: "steps R IncrementPortalNonce"
  unfolding IncrementPortalNonce_def by (intro steps_basic steps_modify rel_portal_nonce)

lemma steps_HandlePayload: "external_calls e \<Longrightarrow> steps R (HandlePayload e payload ep)"
  unfolding HandlePayload_def
  by (intro steps_basic steps_read)
    (auto split: payload_type.split intro!: steps_basic steps_Mint steps_UpdateIndex)

lemma steps_Deliver: "external_calls e \<Longrightarrow> steps R (Deliver e bz)"
  unfolding Deliver_def by (intro steps_basic steps_HandlePayload)

lemma steps_portal_Deliver: "external_calls e \<Longrightarrow> steps R (portal_Deliver e bz)"
  unfolding portal_Deliver_def by (intro steps_basic steps_Deliver)

lemma steps_portal_Transfer: "steps R (portal_Transfer e signer amount c tok recipient)"
  unfolding portal_Transfer_def emitTransferSent_def non_nil_def
  by (intro steps_basic steps_read steps_nonce steps_Burn)

lemma steps_asOwner: "steps R m \<Longrightarrow> steps R (asOwner signer m)"
  unfolding asOwner_def by (intro steps_basic)

lemma steps_administration:
  "steps R (portal_SetPausedState signer p)"
  "steps R (SetPeer e signer c t m)"
  "steps R (SetBridgingPath e signer c tok s)"
  "steps R (TransferOwnership e signer n)"
  unfolding portal_SetPausedState_def SetPeer_def SetBridgingPath_def TransferOwnership_def
  by (intro steps_asOwner steps_basic steps_read steps_modify rel_portal_owner rel_portal_paused
      rel_portal_peers rel_portal_paths map_writes; simp)+

end

interpretation index_portal: portal_relation index_grows e for e
  by unfold_locales (auto simp: index_grows_def)

interpretation ledger_portal: portal_relation "keeps (ledger_covered e)" e for e
  by unfold_locales (auto simp: keeps_def ledger_covered_def ledger_inv_def principal_sum_def)

interpretation custody_portal: portal_relation "same custody_view" e for e
  by unfold_locales (simp_all add: same_def custody_view_def)

subsection \<open>The owner\<close>

lemma asOwner_refuses: "PortalOwner w \<noteq> Some signer \<or> signer = '''' \<Longrightarrow>
    \<exists>err. root_error err \<in> {ErrNoOwner, ErrNotOwner} \<and> asOwner signer m w = (Err err, w)"
  by (cases "PortalOwner w") (auto simp: asOwner_def EnsureOwner_def bnd_run_simps run_simps)

lemma asOwner_run: "PortalOwner w = Some signer \<Longrightarrow> signer \<noteq> '''' \<Longrightarrow> asOwner signer m w = m w"
  by (simp add: asOwner_def EnsureOwner_def bnd_run_simps)

lemma asOwner_Ok: "asOwner signer m w = (Ok x, w') \<longleftrightarrow>
    PortalOwner w = Some signer \<and> signer \<noteq> '''' \<and> m w = (Ok x, w')"
  using asOwner_refuses [of w signer m] asOwner_run [of w signer m]
  by (cases "PortalOwner w = Some signer \<and> signer \<noteq> ''''") auto

subsection \<open>Peers are well formed\<close>

definition peers_ok :: "'b env \<Rightarrow> 'b world \<Rightarrow> bool" where
  "peers_ok e w \<longleftrightarrow> map_ok (PortalPeers w) \<and>
     (\<forall>c p. Map_Get (PortalPeers w) c = Some p \<longrightarrow>
        c \<noteq> 0 \<and> length (Transceiver p) = 32 \<and> length (Manager p) = 32)"

lemma bnd_attempt_read: "bnd (attempt (\<lambda>w. (g w, w))) f w =
    (case g w of Ok x \<Rightarrow> f (Inr x) w | Err err \<Rightarrow> f (Inl err) w | Panic p \<Rightarrow> (Panic p, w))"
  by (simp add: bnd_def attempt_def split: outcome.split)

lemma SetPeer_Ok:
  assumes "SetPeer e signer c t m w = (Ok u, w')"
  shows "PortalOwner w = Some signer" "c \<noteq> 0" "\<exists>own. GetChain e (App w) = Ok own \<and> c \<noteq> own"
    "length t = 32" "length m = 32" "t \<noteq> replicate 32 0" "m \<noteq> replicate 32 0"
    "PortalPeers w' = Map_Set c \<lparr>Transceiver = t, Manager = m\<rparr> (PortalPeers w)"
  using assms
  by (cases "GetChain e (App w)"; auto simp: SetPeer_def asOwner_Ok bnd_attempt_read run_simps
      if_fail_Ok bnd_run_simps thn_Ok modify_Ok emit_Ok)+

lemma SetPeer_peers_ok:
  assumes "SetPeer e signer c t m w = (Ok u, w')" "peers_ok e w"
  shows "peers_ok e w'"
  using SetPeer_Ok [OF assms(1)] assms(2) by (auto simp: peers_ok_def map_ok_Set)

subsection \<open>Delivery in the wire format\<close>

text \<open>The transceiver message around a payload, from one manager to another.\<close>

definition envelope :: "bytes \<Rightarrow> bytes \<Rightarrow> bytes \<Rightarrow> bytes \<Rightarrow> bytes \<Rightarrow> bytes" where
  "envelope source recipient mid sender payload =
     EncodeTransceiverMessage \<lparr>SourceManagerAddress = lit source,
       RecipientManagerAddress = lit recipient,
       ManagerPayload = lit (EncodeManagerMessage \<lparr>Id = lit mid, mm_Sender = lit sender, Payload = lit payload\<rparr>),
       TransceiverPayload = lit []\<rparr>"

lemma length_manager [simp]: "length (PaddedManagerAddress e) = 32"
  by (simp add: PaddedManagerAddress_def)

lemma length_EncodeManagerMessage:
  "length (EncodeManagerMessage m) = length (data (Id m)) + length (data (mm_Sender m)) + 2 + length (data (Payload m))"
  by (simp add: EncodeManagerMessage_def)

lemma digest_cong:
  "data (Id m) = data (Id n) \<Longrightarrow> data (mm_Sender m) = data (mm_Sender n) \<Longrightarrow> data (Payload m) = data (Payload n) \<Longrightarrow>
    ManagerMessageDigest k c m = ManagerMessageDigest k c n"
  by (simp add: ManagerMessageDigest_def EncodeManagerMessage_def)

text \<open>A message of the configured peer reaches \<open>HandlePayload\<close> with the bytes it carries.\<close>

lemma Deliver_envelope:
  assumes "\<not> GetPortalPaused w" and "ParseAndVerifyVAA e bz (App w) = (Ok v, b)"
    and "Map_Get (PortalPeers w) (EmitterChain v) = Some peer" "EmitterAddress v = Transceiver peer"
    and "VaaPayload v = Slice (envelope (Manager peer) (PaddedManagerAddress e) mid sender payload) t"
    and len: "length mid = 32" "length sender = 32" "length (Manager peer) = 32"
      "length payload < 65536 - 66"
  obtains s where "data s = payload"
    "Deliver e bz w = HandlePayload e s \<lparr>ep_SourceChainId = ucast (EmitterChain v), ep_Sender = sender,
       ep_MessageId = ManagerMessageDigest (Keccak256 e) (EmitterChain v)
         \<lparr>Id = lit mid, mm_Sender = lit sender, Payload = lit payload\<rparr>\<rparr> (w\<lparr>App := b\<rparr>)"
proof -
  let ?mm = "\<lparr>Id = lit mid, mm_Sender = lit sender, Payload = lit payload\<rparr>"
  let ?tm = "\<lparr>SourceManagerAddress = lit (Manager peer), RecipientManagerAddress = lit (PaddedManagerAddress e),
       ManagerPayload = lit (EncodeManagerMessage ?mm), TransceiverPayload = lit []\<rparr>"
  obtain tm where tm: "ParseTransceiverMessage (VaaPayload v) = Ok tm"
      "data (SourceManagerAddress tm) = Manager peer"
      "data (RecipientManagerAddress tm) = PaddedManagerAddress e"
      "data (ManagerPayload tm) = EncodeManagerMessage ?mm"
    using parse_transceiver [of ?tm t thesis] len
    by (auto simp: assms(5) envelope_def length_EncodeManagerMessage)
  obtain mm where mm: "ParseManagerMessage (ManagerPayload tm) = Ok mm"
      "data (Id mm) = mid" "data (mm_Sender mm) = sender" "data (Payload mm) = payload"
  proof -
    have "ManagerPayload tm = Slice (EncodeManagerMessage ?mm) (spare (ManagerPayload tm))"
      using tm(4) by (metis slice.collapse)
    with parse_manager [of ?mm "spare (ManagerPayload tm)" thesis] len that show ?thesis by force
  qed
  have dig: "ManagerMessageDigest (Keccak256 e) (EmitterChain v) mm
      = ManagerMessageDigest (Keccak256 e) (EmitterChain v) ?mm"
    by (rule digest_cong) (simp_all add: mm)
  show ?thesis
    by (rule that [OF mm(4)])
      (use assms(1-4) tm mm dig in \<open>simp add: Deliver_def app_call_def bnd_def gets_def from_option_def
         ret_def lift_def Let_def\<close>)
qed

subsection \<open>Transfers that succeed\<close>

lemma Int_Uint64_Ok: "Int_Uint64 a = Ok x \<longleftrightarrow> 0 \<le> a \<and> a < 2 ^ 64 \<and> x = word_of_int a"
  by (auto simp: Int_Uint64_def)

lemma uint_Uint64: "Int_Uint64 a = Ok x \<Longrightarrow> uint x = a"
  by (auto simp: Int_Uint64_Ok uint_word_of_int_eq take_bit_int_eq_self)

lemma emitTransferSent_Ok: "emitTransferSent amount c recipient n d w = (Ok x, w') \<Longrightarrow>
    - (2 ^ 63) \<le> amount \<and> amount < 2 ^ 63 \<and> (\<exists>h. w' = Events_update h w)"
  by (auto simp: emitTransferSent_def Int_Int64_def bnd_Ok lift_Ok thn_Ok emit_def modify_Ok
      split: if_splits)

lemma IncrementPortalNonce_Ok: "IncrementPortalNonce w = (Ok n, w') \<longleftrightarrow>
    PortalNonce w = Some n \<and> w' = w\<lparr>PortalNonce := Some (n + 1)\<rparr>"
  by (auto simp: IncrementPortalNonce_def ok_simps)

lemma pad_left_Ok: "pad_left n bs = Ok x \<longleftrightarrow> length bs \<le> n \<and> x = replicate (n - length bs) 0 @ bs"
  by (auto simp: pad_left_def)

lemma Transfer_effect:
  assumes "portal_Transfer e signer (Some amount) c tok recipient w = (Ok u, w')"
  obtains peer i sender n v b x y where
    "\<not> GetPortalPaused w" "Map_Get (PortalPeers w) c = Some peer"
    "Map_Has (PortalBridgingPaths w) (c, tok)" "length recipient = 32" "Index w = Some i"
    "0 \<le> amount" "amount < 2 ^ 63" "StringToBytes e signer = Some sender" "length sender \<le> 32"
    "PortalNonce w = Some n" "Burn e sender amount (w\<lparr>PortalNonce := Some (n + 1)\<rparr>) = (Ok x, v)"
    "PostMessage e (TransceiverAddress e) (envelope (PaddedManagerAddress e) (Manager peer)
       (replicate 28 0 @ put32 n) (replicate (32 - length sender) 0 @ sender)
       (transferPayload e i (word_of_int amount) c tok recipient)) n (App v) = (Ok y, b)"
    "\<exists>h. w' = Events_update h (v\<lparr>App := b\<rparr>)"
proof -
  have ev: "\<exists>k. z = Events_update k (v\<lparr>App := b\<rparr>)" if "z = Events_update h (v\<lparr>App := b, Events := es\<rparr>)"
    for z v :: "'a world" and b es h
    using that by (intro exI [of _ "\<lambda>_. h es"]) simp
  have pad: "32 - length (put32 n) = 28" for n by simp
  show ?thesis
    using assms
    unfolding portal_Transfer_def non_nil_def option.case ret_Ok Let_def bnd_Ok gets_Ok if_fail_Ok from_option_Ok lift_Ok
      wrap_err_Ok item_get_Ok pad_left_Ok Int_Uint64_Ok IncrementPortalNonce_Ok
    apply (elim exE conjE)
    apply hypsubst
    apply (simp only: thn_Ok wrap_err_Ok app_call_Ok emit_Ok prod.inject not_not pad)
    apply (elim exE conjE)
    apply hypsubst
    apply (frule emitTransferSent_Ok)
    apply (elim exE conjE)
    apply (rule that)
    apply assumption+
    apply (simp only: envelope_def)
    apply (erule ev)
    done
qed

text \<open>Conversely, once every guard holds and the two calls succeed, the transfer does.\<close>

lemma emitTransferSent_run: "- (2 ^ 63) \<le> amount \<Longrightarrow> amount < 2 ^ 63 \<Longrightarrow>
    \<exists>h. emitTransferSent amount c recipient n d w = (Ok (), Events_update h w)"
  by (auto simp: emitTransferSent_def Int_Int64_def bnd_run_simps thn_def bnd_def emit_def modify_def
      lift_def intro: exI [of _ "\<lambda>_. x" for x])

lemma Transfer_run:
  assumes "\<not> GetPortalPaused w" "Map_Get (PortalPeers w) c = Some peer"
    "Map_Has (PortalBridgingPaths w) (c, tok)" "length recipient = 32" "Index w = Some i"
    "0 \<le> amount" "amount < 2 ^ 63" "StringToBytes e signer = Some sender" "length sender \<le> 32"
    "PortalNonce w = Some n" "GetChain e (App w) = Ok own"
    "Burn e sender amount (w\<lparr>PortalNonce := Some (n + 1)\<rparr>) = (Ok (), v)"
    "PostMessage e (TransceiverAddress e) (envelope (PaddedManagerAddress e) (Manager peer)
       (replicate 28 0 @ put32 n) (replicate (32 - length sender) 0 @ sender)
       (transferPayload e i (word_of_int amount) c tok recipient)) n (App v) = (Ok (), b)"
  shows "fst (portal_Transfer e signer (Some amount) c tok recipient w) = Ok ()"
proof -
  have u: "Int_Uint64 amount = Ok (word_of_int amount)" using assms by (simp add: Int_Uint64_Ok)
  have s: "pad_left 32 sender = (Ok (replicate (32 - length sender) 0 @ sender) :: bytes result)"
    using assms by (simp add: pad_left_Ok)
  have p: "pad_left 32 (put32 n) = (Ok (replicate 28 0 @ put32 n) :: bytes result)"
    by (simp add: pad_left_Ok)
  have nonce: "IncrementPortalNonce w = (Ok n, w\<lparr>PortalNonce := Some (n + 1)\<rparr>)"
    using assms by (simp add: IncrementPortalNonce_Ok)
  have "- (2 ^ 63) \<le> amount" using assms(6) by simp
  note last = emitTransferSent_run [OF this assms(7)]
  have fst_last: "fst (emitTransferSent amount c recipient n d x) = Ok ()" for d x
    using last [of c recipient n d x] by auto
  have wrap: "wrap_err msg m x = (Ok y, z)" if "m x = (Ok y, z)" for msg m x y z
    using that by (simp add: wrap_err_Ok)
  have post: "app_call (PostMessage e (TransceiverAddress e) (envelope (PaddedManagerAddress e) (Manager peer)
       (replicate 28 0 @ put32 n) (replicate (32 - length sender) 0 @ sender)
       (transferPayload e i (word_of_int amount) c tok recipient)) n) v = (Ok (), v\<lparr>App := b\<rparr>)"
    using assms(13) by (simp add: app_call_Ok)
  have chain: "wrap_err msg (\<lambda>w. (GetChain e (App w), w)) (w\<lparr>PortalNonce := k\<rparr>)
      = (Ok own, w\<lparr>PortalNonce := k\<rparr>)" for msg k
    by (rule wrap) (simp add: assms(11))
  have idx: "wrap_err msg (item_get Index) w = (Ok i, w)" for msg
    by (rule wrap) (simp add: assms(5))
  have burn: "wrap_err msg (Burn e sender amount) (w\<lparr>PortalNonce := Some (n + 1)\<rparr>) = (Ok (), v)" for msg
    by (rule wrap) (rule assms(12))
  have posted: "wrap_err msg (app_call (PostMessage e (TransceiverAddress e) (envelope (PaddedManagerAddress e) (Manager peer)
       (replicate 28 0 @ put32 n) (replicate (32 - length sender) 0 @ sender)
       (transferPayload e i (word_of_int amount) c tok recipient)) n)) v = (Ok (), v\<lparr>App := b\<rparr>)" for msg
    by (rule wrap) (rule post)
  show ?thesis
    unfolding portal_Transfer_def non_nil_def Let_def thn_def bnd_def gets_def lift_def from_option_def ret_def
    by (simp add: assms(1-5,8) u s p nonce chain idx envelope_def [symmetric]
        burn posted emit_run fst_last
        del: split_paired_All)
qed

subsection \<open>Deliveries that succeed\<close>

lemma Deliver_Ok:
  assumes "Deliver e bz w = (Ok u, w')"
  obtains v b peer tm mm ep where "\<not> GetPortalPaused w" "ParseAndVerifyVAA e bz (App w) = (Ok v, b)"
    "Map_Get (PortalPeers w) (EmitterChain v) = Some peer" "Transceiver peer = EmitterAddress v"
    "ParseTransceiverMessage (VaaPayload v) = Ok tm" "Manager peer = data (SourceManagerAddress tm)"
    "PaddedManagerAddress e = data (RecipientManagerAddress tm)"
    "ParseManagerMessage (ManagerPayload tm) = Ok mm"
    "HandlePayload e (Payload mm) ep (w\<lparr>App := b\<rparr>) = (Ok u, w')"
proof -
  have peers: "PortalPeers (x\<lparr>App := b\<rparr>) = PortalPeers x" for x :: "'a world" and b by simp
  show ?thesis
    using assms
    unfolding Deliver_def Let_def bnd_Ok gets_Ok if_fail_Ok from_option_Ok lift_Ok app_call_Ok
    apply (elim exE conjE)
    apply hypsubst
    apply (simp (no_asm_use) only: peers not_not)
    apply (rule that)
    apply assumption+
    done
qed

lemma GetPayloadType_data: "data s = data t \<Longrightarrow> GetPayloadType s = GetPayloadType t"
  by (simp add: GetPayloadType_def)

text \<open>What the Portal of one chain sends, the Portal of the destination mints.\<close>

lemma HandlePayload_transfer:
  assumes "data s = transferPayload e0 i a c (RawToken e) recipient"
    and "GetChain e (App w) = Ok c" "length (RawToken e0) = 32" "length (RawToken e) = 32"
    and "length recipient = 32" "- (2 ^ 63) \<le> i" "i < 2 ^ 63"
    and "Mint e (drop 12 recipient) (uint a) (Some i) w = (Ok u, v)"
    and "BytesToString e (drop 12 recipient) = Some r"
  shows "\<exists>h. HandlePayload e s ep w = (Ok (), Events_update h v)"
proof -
  have "s = Slice (data s) (spare s)" by simp
  then have s: "s = Slice (EncodeNativeTokenTransfer \<lparr>Amount = a, SourceToken = lit (RawToken e0),
      To = lit recipient, ToChain = c,
      AdditionalPayload = lit (EncodeAdditionalPayload i (RawToken e))\<rparr>) (spare s)"
    by (simp only: assms(1) transferPayload_def)
  obtain p where p: "DecodeTokenPayload s = Ok p" "tp_Amount p = uint a" "tp_Index p = i"
      "data (tp_Recipient p) = drop 12 recipient" "tp_DestinationChainId p = c"
      "data (tp_DestinationToken p) = RawToken e"
    using decode_token [OF assms(3,5,4,6,7)] s by metis
  have t: "GetPayloadType s = Token_Payload"
    using type_of_transfer s by metis
  have chain: "wrap_err msg (\<lambda>w. (GetChain e (App w), w)) w = (Ok c, w)" for msg
    by (simp add: wrap_err_Ok assms(2))
  from assms(8) have mint: "Mint e (drop 12 recipient) (uint a) (Some i) w = (Ok (), v)" by simp
  show ?thesis
    unfolding HandlePayload_def
    by (simp add: bnd_def thn_def chain t p lift_def mint from_option_def ret_def assms(9) emit_def modify_def)
      (rule exI [of _ "\<lambda>es. x" for x], simp)
qed

lemma HandlePayload_index:
  assumes "data s = EncodeIndexPayload i d" "GetChain e (App w) = Ok c"
    and "- (2 ^ 63) \<le> i" "i < 2 ^ 63"
  shows "HandlePayload e s ep w = (if d = c then UpdateIndex e i w
      else (Err (Errorf ''not destination chain''), w))"
proof -
  have s: "s = Slice (EncodeIndexPayload i d) (spare s)" using assms(1) by (metis slice.collapse)
  have t: "GetPayloadType s = Index_Payload" "DecodeIndexPayload s = Ok (i, d)"
    using type_of_index decode_index [OF assms(3,4)] s by metis+
  have chain: "wrap_err msg (\<lambda>w. (GetChain e (App w), w)) w = (Ok c, w)" for msg
    by (simp add: wrap_err_Ok assms(2))
  show ?thesis
    unfolding HandlePayload_def
    by (simp add: bnd_def chain t lift_def fail_def)
qed

end
