(* ===== verification/Ibc.thy ===== *)
theory Ibc
  imports Effects Testbed
begin

text \<open>
  The IBC layer: \<open>ibc_middleware.go\<close>, which keeps the yield of a packet that failed for a
  retry, and \<open>isc4_wrapper.go\<close>, which lets the dollar out only over channels with a yield
  recipient. The wrapped application and the wrapped packet sender are parameters, as are the
  decoders of ICS-20 packets and acknowledgements.
\<close>

subsection \<open>Packets and callbacks\<close>

record packet =
  pk_SourcePort :: string
  pk_SourceChannel :: string
  pk_Data :: bytes

record packet_data =
  pd_Denom :: string
  pd_Amount :: string
  pd_Sender :: string

text \<open>The decoders: the ICS-20 data of a packet, whether an acknowledgement reports success, and
  the number a string denotes.\<close>

record ibc_codec =
  UnmarshalPacketData :: "bytes \<Rightarrow> packet_data option"
  UnmarshalAck :: "bytes \<Rightarrow> bool option"
  NewIntFromString :: "string \<Rightarrow> int option"

text \<open>\<open>porttypes.IBCModule\<close>: the arguments of the channel handshake, which the middleware hands
  on, have a type of their own.\<close>

record ('h, 'b) ibc_module =
  OnChanOpenInit :: "'h \<Rightarrow> ('b, string) handler"
  OnChanOpenTry :: "'h \<Rightarrow> ('b, string) handler"
  OnChanOpenAck :: "'h \<Rightarrow> ('b, unit) handler"
  OnChanOpenConfirm :: "'h \<Rightarrow> ('b, unit) handler"
  OnChanCloseInit :: "'h \<Rightarrow> ('b, unit) handler"
  OnChanCloseConfirm :: "'h \<Rightarrow> ('b, unit) handler"
  OnRecvPacket :: "packet \<Rightarrow> addr \<Rightarrow> ('b, bytes) handler"
  OnAcknowledgementPacket :: "packet \<Rightarrow> bytes \<Rightarrow> addr \<Rightarrow> ('b, unit) handler"
  OnTimeoutPacket :: "packet \<Rightarrow> addr \<Rightarrow> ('b, unit) handler"

subsection \<open>The middleware\<close>

text \<open>\<open>AddAmountToRetry\<close> returns nothing: an error of \<open>IncrementRetryAmount\<close> is dropped.\<close>

definition AddAmountToRetry :: "'b env \<Rightarrow> ibc_codec \<Rightarrow> packet \<Rightarrow> ('b, unit) handler" where
  "AddAmountToRetry e cdc pk =
     (case UnmarshalPacketData cdc (pk_Data pk) of
        None \<Rightarrow> ret ()
      | Some pd \<Rightarrow>
          if pd_Denom pd = denom e
             \<and> pd_Sender pd = AccString e (GetEscrowAddress e (pk_SourcePort pk) (pk_SourceChannel pk)) then
            (case NewIntFromString cdc (pd_Amount pd) of
               None \<Rightarrow> ret ()
             | Some amount \<Rightarrow>
                 thn (attempt (IncrementRetryAmount IBC (pk_SourceChannel pk) amount)) (ret ()))
          else ret ())"

definition middleware_OnAcknowledgementPacket ::
    "'b env \<Rightarrow> ibc_codec \<Rightarrow> ('h, 'b) ibc_module \<Rightarrow> packet \<Rightarrow> bytes \<Rightarrow> addr \<Rightarrow> ('b, unit) handler" where
  "middleware_OnAcknowledgementPacket e cdc underlying pk acknowledgement relayer =
     (case UnmarshalAck cdc acknowledgement of
        None \<Rightarrow> OnAcknowledgementPacket underlying pk acknowledgement relayer
      | Some success \<Rightarrow>
          thn (if \<not> success then AddAmountToRetry e cdc pk else ret ())
          (OnAcknowledgementPacket underlying pk acknowledgement relayer))"

definition middleware_OnTimeoutPacket ::
    "'b env \<Rightarrow> ibc_codec \<Rightarrow> ('h, 'b) ibc_module \<Rightarrow> packet \<Rightarrow> addr \<Rightarrow> ('b, unit) handler" where
  "middleware_OnTimeoutPacket e cdc underlying pk relayer =
     thn (AddAmountToRetry e cdc pk) (OnTimeoutPacket underlying pk relayer)"

text \<open>Every other callback is the one of the wrapped application.\<close>

definition NewIBCModule :: "'b env \<Rightarrow> ibc_codec \<Rightarrow> ('h, 'b) ibc_module \<Rightarrow> ('h, 'b) ibc_module" where
  "NewIBCModule e cdc underlying = \<lparr>
     OnChanOpenInit = OnChanOpenInit underlying,
     OnChanOpenTry = OnChanOpenTry underlying,
     OnChanOpenAck = OnChanOpenAck underlying,
     OnChanOpenConfirm = OnChanOpenConfirm underlying,
     OnChanCloseInit = OnChanCloseInit underlying,
     OnChanCloseConfirm = OnChanCloseConfirm underlying,
     OnRecvPacket = OnRecvPacket underlying,
     OnAcknowledgementPacket = middleware_OnAcknowledgementPacket e cdc underlying,
     OnTimeoutPacket = middleware_OnTimeoutPacket e cdc underlying\<rparr>"

subsection \<open>The packet sender\<close>



subsection \<open>What the middleware keeps\<close>

text \<open>A packet of yield: the module's own denomination, sent by the escrow account itself.\<close>

definition yield_packet :: "'b env \<Rightarrow> ibc_codec \<Rightarrow> packet \<Rightarrow> int option" where
  "yield_packet e cdc pk =
     (case UnmarshalPacketData cdc (pk_Data pk) of
        None \<Rightarrow> None
      | Some pd \<Rightarrow>
          if pd_Denom pd = denom e
             \<and> pd_Sender pd = AccString e (GetEscrowAddress e (pk_SourcePort pk) (pk_SourceChannel pk))
          then NewIntFromString cdc (pd_Amount pd) else None)"

lemma AddAmountToRetry_run:
  "AddAmountToRetry e cdc pk w = (case yield_packet e cdc pk of
      None \<Rightarrow> (Ok (), w)
    | Some a \<Rightarrow>
        let r = GetRetryAmount IBC (pk_SourceChannel pk) w + a in
        if fits r then (Ok (), RetryAmounts_update (Map_Set (IBC, pk_SourceChannel pk) r) w)
        else (Panic ''Int overflow'', w))"
  by (auto simp: AddAmountToRetry_def yield_packet_def IncrementRetryAmount_def thn_def bnd_def attempt_def
      gets_def lift_def modify_def ret_def Int_Add_def checked_def Let_def split: option.split)

lemma AddAmountToRetry_adds:
  assumes "yield_packet e cdc pk = Some a" "fits (GetRetryAmount IBC (pk_SourceChannel pk) w + a)"
  obtains f where "AddAmountToRetry e cdc pk w = (Ok (), RetryAmounts_update f w)"
    "\<And>p i. GetRetryAmount p i (RetryAmounts_update f w)
       = GetRetryAmount p i w + (if (p, i) = (IBC, pk_SourceChannel pk) then a else 0)"
proof (rule that)
  let ?f = "Map_Set (IBC, pk_SourceChannel pk) (GetRetryAmount IBC (pk_SourceChannel pk) w + a)"
  show "AddAmountToRetry e cdc pk w = (Ok (), RetryAmounts_update ?f w)"
    using assms by (simp add: AddAmountToRetry_run Let_def)
  show "GetRetryAmount p i (RetryAmounts_update ?f w)
       = GetRetryAmount p i w + (if (p, i) = (IBC, pk_SourceChannel pk) then a else 0)" for p i
    by (simp add: GetRetryAmount_def)
qed

lemma no_yield_packet: "yield_packet e cdc pk = None \<Longrightarrow> AddAmountToRetry e cdc pk = ret ()"
  by (rule ext) (simp add: AddAmountToRetry_run ret_def)

context transfer_relation
begin

lemma steps_AddAmountToRetry:
  assumes "\<And>w l. map_write l \<Longrightarrow> R w (RetryAmounts_update l w)"
  shows "steps R (AddAmountToRetry e cdc pk)"
  by (simp add: steps_def AddAmountToRetry_run Let_def assms map_writes rel_refl split: option.split)

end

subsection \<open>A concrete codec\<close>

text \<open>Packet data is an amount in unary, sent by the escrow account of channel 0 when it is
  marked with a one; an acknowledgement is a single byte.\<close>

definition test_codec :: ibc_codec where
  "test_codec = \<lparr>
     UnmarshalPacketData = (\<lambda>bz. case bz of [] \<Rightarrow> None
       | x # rest \<Rightarrow> Some \<lparr>pd_Denom = ''uusdn'', pd_Amount = replicate (length rest) CHR ''1'',
           pd_Sender = (if x = 1 then bytes_string (200 # string_bytes ''channel-0'') else ''user'')\<rparr>),
     UnmarshalAck = (\<lambda>bz. case bz of [x] \<Rightarrow> Some (x = 1) | _ \<Rightarrow> None),
     NewIntFromString = (\<lambda>s. Some (int (length s)))\<rparr>"

definition test_module :: "(unit, mock_app) ibc_module" where
  "test_module = \<lparr>
     OnChanOpenInit = (\<lambda>_. ret ''''), OnChanOpenTry = (\<lambda>_. ret ''''),
     OnChanOpenAck = (\<lambda>_. ret ()), OnChanOpenConfirm = (\<lambda>_. ret ()),
     OnChanCloseInit = (\<lambda>_. ret ()), OnChanCloseConfirm = (\<lambda>_. ret ()),
     OnRecvPacket = (\<lambda>_ _. ret []), OnAcknowledgementPacket = (\<lambda>_ _ _. ret ()),
     OnTimeoutPacket = (\<lambda>_ _. ret ())\<rparr>"


definition test_packet :: "8 word \<Rightarrow> packet" where
  "test_packet x = \<lparr>pk_SourcePort = PortID, pk_SourceChannel = ''channel-0'', pk_Data = [x, 0, 0, 0]\<rparr>"

subsection \<open>Properties\<close>

text \<open>C31 (failed_packet_requeued): when a packet of yield times out or is acknowledged with an error, exactly its
  amount is added to what its channel has to retry, the retry amounts of all other channels and
  everything else stay, and then the wrapped application runs on that store.\<close>

theorem failed_packet_requeued:
  assumes "yield_packet e cdc pk = Some a" "fits (GetRetryAmount IBC (pk_SourceChannel pk) w + a)"
    and "UnmarshalAck cdc ack = Some False"
  shows "\<exists>f. let v = RetryAmounts_update f w; m = NewIBCModule e cdc underlying in
    (\<forall>p i. GetRetryAmount p i v
       = GetRetryAmount p i w + (if (p, i) = (IBC, pk_SourceChannel pk) then a else 0)) \<and>
    OnTimeoutPacket m pk relayer w = OnTimeoutPacket underlying pk relayer v \<and>
    OnAcknowledgementPacket m pk ack relayer w = OnAcknowledgementPacket underlying pk ack relayer v"
proof -
  obtain f where f: "AddAmountToRetry e cdc pk w = (Ok (), RetryAmounts_update f w)"
    "\<And>p i. GetRetryAmount p i (RetryAmounts_update f w)
       = GetRetryAmount p i w + (if (p, i) = (IBC, pk_SourceChannel pk) then a else 0)"
    using AddAmountToRetry_adds [OF assms(1,2)] by blast
  have "OnTimeoutPacket (NewIBCModule e cdc underlying) pk relayer w
      = OnTimeoutPacket underlying pk relayer (RetryAmounts_update f w)"
    "OnAcknowledgementPacket (NewIBCModule e cdc underlying) pk ack relayer w
      = OnAcknowledgementPacket underlying pk ack relayer (RetryAmounts_update f w)"
    using f(1)
    by (simp_all add: NewIBCModule_def middleware_OnTimeoutPacket_def
        middleware_OnAcknowledgementPacket_def assms(3) thn_def bnd_def)
  with f(2) show ?thesis unfolding Let_def by blast
qed

theorem failed_packet_requeued_witness:
  "\<exists>v. OnTimeoutPacket (NewIBCModule test_env test_codec test_module) (test_packet 1) [] test_world = (Ok (), v) \<and>
     GetRetryAmount IBC ''channel-0'' v = 3"
proof -
  have y: "yield_packet test_env test_codec (test_packet 1) = Some 3" by code_simp
  have at: "GetRetryAmount IBC (pk_SourceChannel (test_packet 1)) test_world = 0"
    "pk_SourceChannel (test_packet 1) = ''channel-0''" by code_simp+
  have fit: "fits (GetRetryAmount IBC (pk_SourceChannel (test_packet 1)) test_world + 3)"
    unfolding at(1) by (simp add: fits_def)
  have ack: "UnmarshalAck test_codec [0] = Some False" by (simp add: test_codec_def)
  from failed_packet_requeued [OF y fit ack, of test_module "[]"] at
  show ?thesis by (auto simp: Let_def test_module_def ret_def)
qed

text \<open>A packet that is not one of yield, or was acknowledged with success, leaves the
  retry amounts alone: the middleware does what the wrapped application does.\<close>

theorem other_packets_untouched:
  assumes "yield_packet e cdc pk = None \<or> UnmarshalAck cdc ack \<noteq> Some False"
  shows "OnAcknowledgementPacket (NewIBCModule e cdc underlying) pk ack relayer
      = OnAcknowledgementPacket underlying pk ack relayer \<and>
    (yield_packet e cdc pk = None \<longrightarrow>
      OnTimeoutPacket (NewIBCModule e cdc underlying) pk relayer = OnTimeoutPacket underlying pk relayer)"
  using assms no_yield_packet [of e cdc pk]
  by (auto simp: NewIBCModule_def middleware_OnTimeoutPacket_def middleware_OnAcknowledgementPacket_def
      bnd_run_simps split: option.split)

theorem other_packets_untouched_witness:
  "OnTimeoutPacket (NewIBCModule test_env test_codec test_module) (test_packet 0) []
     = OnTimeoutPacket test_module (test_packet 0) []"
proof -
  have y: "yield_packet test_env test_codec (test_packet 0) = None" by code_simp
  with other_packets_untouched [of test_env test_codec "test_packet 0"] show ?thesis by blast
qed



end
