(* ===== verification/Chain.thy ===== *)
theory Chain
  imports Vaults_Laws Portal_Laws Ibc
begin

text \<open>
  The module as a whole: \<open>RegisterServices\<close> and \<open>BeginBlock\<close> of \<open>module.go\<close> give the steps of a
  chain that runs it. The locale \<open>chain_relation\<close> joins the interfaces of all components; a
  relation that admits their elementary writes is admitted by every step.
\<close>

subsection \<open>Messages\<close>

datatype message =
    MsgClaimYield string
  | MsgSetPausedState string bool
  | MsgSetYieldRecipient string provider string string
  | MsgDeliver bytes
  | MsgTransfer string "int option" "16 word" bytes bytes
  | MsgPortalSetPausedState string bool
  | MsgSetPeer string "16 word" bytes bytes
  | MsgSetBridgingPath string "16 word" bytes bool
  | MsgTransferOwnership string string
  | MsgLock string vault_type "int option"
  | MsgUnlock string vault_type "int option"
  | MsgVaultsSetPausedState string paused_type

text \<open>The four message servers that are registered.\<close>

fun RegisterServices :: "'b env \<Rightarrow> message \<Rightarrow> ('b, unit) handler" where
  "RegisterServices e (MsgClaimYield signer) = ClaimYield e signer"
| "RegisterServices e (MsgSetPausedState signer paused) = SetPausedState e signer paused"
| "RegisterServices e (MsgSetYieldRecipient signer p identifier recipient) =
     SetYieldRecipient e signer p identifier recipient"
| "RegisterServices e (MsgDeliver vaa) = portal_Deliver e vaa"
| "RegisterServices e (MsgTransfer signer amount chain token recipient) =
     portal_Transfer e signer amount chain token recipient"
| "RegisterServices e (MsgPortalSetPausedState signer paused) = portal_SetPausedState signer paused"
| "RegisterServices e (MsgSetPeer signer chain transceiver manager) =
     SetPeer e signer chain transceiver manager"
| "RegisterServices e (MsgSetBridgingPath signer chain token supported) =
     SetBridgingPath e signer chain token supported"
| "RegisterServices e (MsgTransferOwnership signer newOwner) = TransferOwnership e signer newOwner"
| "RegisterServices e (MsgLock signer vault amount) = Lock e signer vault amount"
| "RegisterServices e (MsgUnlock signer vault amount) = Unlock e signer vault amount"
| "RegisterServices e (MsgVaultsSetPausedState signer paused) = vaults_SetPausedState e signer paused"

subsection \<open>Steps of the chain\<close>

text \<open>
  A message that succeeds; one that fails leaves the store as it was, so it is no step. The begin
  blocker. The failure of an IBC packet, reported by a timeout or an error acknowledgement.
  Whatever other modules do, which reaches the store of this one only through bank transfers.
  The passing of time between blocks.
\<close>

inductive chain_step :: "'b env \<Rightarrow> 'b world \<Rightarrow> 'b world \<Rightarrow> bool" for e where
  message: "RegisterServices e m w = (Ok u, v) \<Longrightarrow> chain_step e w v"
| begin_block: "BeginBlocker e w = (r, v) \<Longrightarrow> chain_step e w v"
| packet_failed: "AddAmountToRetry e cdc pk w = (r, v) \<Longrightarrow> chain_step e w v"
| other_modules: "module_steps e w v \<Longrightarrow> chain_step e w v"
| next_block: "BlockTime w \<le> t \<Longrightarrow> chain_step e w (w\<lparr>BlockTime := t\<rparr>)"

inductive_cases chain_stepE: "chain_step e w v"

subsection \<open>Relations kept by every step\<close>

text \<open>The messages of the authority of the module.\<close>

locale authority_relation = keeper_relation +
  assumes rel_paused: "R w (Paused_update (\<lambda>_. Some paused) w)"
    and rel_recipients: "map_write f \<Longrightarrow> R w (YieldRecipients_update f w)"
begin

lemma steps_SetPausedState: "steps R (SetPausedState e signer p)"
  unfolding SetPausedState_def by (intro steps_basic steps_modify rel_paused)

lemma steps_case_provider: "steps R a \<Longrightarrow> steps R b \<Longrightarrow> (\<And>x. steps R (c x)) \<Longrightarrow>
    steps R (case p of IBC \<Rightarrow> a | HYPERLANE \<Rightarrow> b | OtherProvider x \<Rightarrow> c x)"
  by (cases p) simp_all

lemma steps_SetYieldRecipient: "steps R (SetYieldRecipient e signer p identifier recipient)"
  unfolding SetYieldRecipient_def
  by (intro steps_basic steps_case_provider steps_modify rel_recipients map_writes steps_getHyperlaneRouter)

end

locale chain_relation = portal_relation R e + vault_relation R e + authority_relation R e
  for R :: "'b world \<Rightarrow> 'b world \<Rightarrow> bool" and e :: "'b env" +
  assumes rel_time: "BlockTime w \<le> t \<Longrightarrow> R w (w\<lparr>BlockTime := t\<rparr>)"
begin

lemma steps_packet_failed: "steps R (AddAmountToRetry e cdc pk)"
  by (rule steps_AddAmountToRetry) (rule rel_retry)

lemma steps_message: "external_calls e \<Longrightarrow> steps R (RegisterServices e m)"
  by (cases m) (simp_all add: steps_ClaimYield steps_SetPausedState steps_SetYieldRecipient
      steps_portal_Deliver steps_portal_Transfer steps_administration steps_Lock steps_Unlock
      steps_vaults_SetPausedState)

lemma step_rel: "chain_step e w v \<Longrightarrow> external_calls e \<Longrightarrow> R w v"
  by (elim chain_stepE)
    (auto intro: stepsD [OF steps_message] stepsD [OF steps_BeginBlocker]
      stepsD [OF steps_packet_failed] module_steps_rel rel_time)

lemma reach_rel: "(chain_step e)\<^sup>*\<^sup>* w v \<Longrightarrow> external_calls e \<Longrightarrow> R w v"
  by (induction rule: rtranclp_induct) (auto intro: rel_refl rel_trans step_rel)

end

text \<open>The index never decreases, and season one never reopens.\<close>

interpretation index_chain: chain_relation index_grows e for e
  by unfold_locales (auto simp: index_grows_def)

definition season_stays :: "'b world \<Rightarrow> 'b world \<Rightarrow> bool" where
  "season_stays w v \<longleftrightarrow> (IsVaultsSeasonOneEnded w \<longrightarrow> IsVaultsSeasonOneEnded v)"

interpretation season_frame: keeper_frame season_stays e for e
  by unfold_locales (auto simp: season_stays_def IsVaultsSeasonOneEnded_def)

interpretation season_chain: chain_relation season_stays e for e
  by unfold_locales (auto simp: season_stays_def IsVaultsSeasonOneEnded_def)

text \<open>Time only passes.\<close>

definition time_passes :: "'b world \<Rightarrow> 'b world \<Rightarrow> bool" where
  "time_passes w v \<longleftrightarrow> BlockTime w \<le> BlockTime v"

interpretation time_frame: keeper_frame time_passes e for e
  by unfold_locales (simp_all add: time_passes_def)

interpretation time_chain: chain_relation time_passes e for e
  by unfold_locales (simp_all add: time_passes_def)

text \<open>The ledger stays covered and the peers stay well formed.\<close>

interpretation ledger_chain: chain_relation "keeps (ledger_covered e)" e for e
  by unfold_locales (auto simp: keeps_def ledger_covered_def ledger_inv_def principal_sum_def)

interpretation peers_frame: keeper_frame "keeps (peers_ok e')" e for e' e
  by unfold_locales (simp_all add: keeps_def peers_ok_def)

interpretation peers_chain: chain_relation "keeps (peers_ok e')" e for e' e
  by unfold_locales (auto simp: keeps_def peers_ok_def map_ok_Set)

subsection \<open>The vaults stay sound until season one ends\<close>

text \<open>
  Positions and the total flexible principal change only with a lock, an unlock or the end of
  season one, which unlocks what it can and may leave a partly unlocked user behind.
\<close>

definition vaults_safe :: "'b world \<Rightarrow> bool" where
  "vaults_safe w \<longleftrightarrow> IsVaultsSeasonOneEnded w \<or> vaults_inv w"

lemma vaults_safe_custody: "custody_view v = custody_view w \<Longrightarrow> vaults_safe v = vaults_safe w"
  by (simp add: vaults_safe_def custody_view_def IsVaultsSeasonOneEnded_def vaults_inv_def positions_ok_def
      vault_principal_def flexible_total_def)

interpretation custody_admin: authority_relation "same custody_view" e for e
  by unfold_locales (simp_all add: same_def custody_view_def)

text \<open>Every message but those of the vaults leaves the custody as it is.\<close>

fun vault_message :: "message \<Rightarrow> bool" where
  "vault_message (MsgLock _ _ _) = True"
| "vault_message (MsgUnlock _ _ _) = True"
| "vault_message (MsgVaultsSetPausedState _ _) = True"
| "vault_message _ = False"

lemma message_custody:
  assumes "RegisterServices e m w = (r, v)" "external_calls e"
    and "\<not> vault_message m"
  shows "custody_view v = custody_view w"
proof -
  have "steps (same custody_view) (RegisterServices e m)"
    using assms(2-) by (cases m)
      (simp_all add: custody_frame.steps_ClaimYield custody_admin.steps_SetPausedState
        custody_admin.steps_SetYieldRecipient custody_portal.steps_portal_Deliver
        custody_portal.steps_portal_Transfer custody_portal.steps_administration)
  from stepsD [OF this assms(1)] show ?thesis by (simp add: same_def)
qed

lemma Unlock_Ok: "Unlock e signer vault a w = (Ok u, v) \<Longrightarrow> unlock e signer vault a w = (Ok u, v)"
  by (auto simp: Unlock_def bnd_Ok gets_Ok if_fail_Ok)

lemma pause_vaults_inv: "vaults_SetPausedState e s p w = (Ok u, v) \<Longrightarrow> vaults_inv w \<Longrightarrow> vaults_inv v"
  by (auto simp: vaults_SetPausedState_def if_fail_Ok thn_Ok modify_Ok emit_Ok vaults_inv_def
      positions_ok_def vault_principal_def flexible_total_def)

lemma message_vaults_safe:
  assumes run: "RegisterServices e m w = (Ok u, v)" and ext: "external_calls e" and lock: "0 < vaultsMinimumLock e"
    and i: "\<forall>i. Index w = Some i \<longrightarrow> 0 < i" and safe: "vaults_safe w"
  shows "vaults_safe v"
proof (cases "IsVaultsSeasonOneEnded w")
  case True
  with stepsD [OF season_chain.steps_message [OF ext] run] show ?thesis
    by (simp add: vaults_safe_def season_stays_def)
next
  case False
  with safe have inv: "vaults_inv w" by (simp add: vaults_safe_def)
  show ?thesis
  proof (cases "vault_message m")
    case True
    then consider s t a where "m = MsgLock s t a" | s t a where "m = MsgUnlock s t a"
      | s p where "m = MsgVaultsSetPausedState s p"
      by (cases m) auto
    then have "vaults_inv v"
    proof cases
      case (1 s t a)
      with run have "Lock e s t a w = (Ok u, v)" by simp
      then show ?thesis by (rule Lock_vaults_inv [OF _ inv lock]) (use i in blast)
    next
      case (2 s t a)
      with run have "unlock e s t a w = (Ok u, v)" by (simp add: Unlock_Ok)
      then show ?thesis using inv by (rule unlock_vaults_inv)
    next
      case (3 s p)
      with run have "vaults_SetPausedState e s p w = (Ok u, v)" by simp
      then show ?thesis using inv by (rule pause_vaults_inv)
    qed
    then show ?thesis by (simp add: vaults_safe_def)
  next
    case False
    from vaults_safe_custody [OF message_custody [OF run ext False]] safe show ?thesis by simp
  qed
qed

lemma step_vaults_safe:
  assumes "chain_step e w v" "external_calls e" "0 < vaultsMinimumLock e"
    and "\<forall>i. Index w = Some i \<longrightarrow> 0 < i" "vaults_safe w"
  shows "vaults_safe v"
  using assms(1)
proof cases
  case (message m u)
  show ?thesis by (rule message_vaults_safe [OF message assms(2-)])
next
  case (begin_block r)
  then have "v = w \<or> IsVaultsSeasonOneEnded v"
    unfolding BeginBlocker_cases by (auto simp: IsVaultsSeasonOneEnded_def split: if_splits)
  with assms(5) show ?thesis by (auto simp: vaults_safe_def)
next
  case (packet_failed cdc pk r)
  have "steps (same custody_view) (AddAmountToRetry e cdc pk)"
    by (rule custody_frame.steps_AddAmountToRetry) (simp add: same_def custody_view_def)
  from stepsD [OF this packet_failed] have "custody_view v = custody_view w" by (simp add: same_def)
  from vaults_safe_custody [OF this] assms(5) show ?thesis by simp
next
  case other_modules
  from custody_frame.module_steps_rel [OF this] have "custody_view v = custody_view w" by (simp add: same_def)
  from vaults_safe_custody [OF this] assms(5) show ?thesis by simp
next
  case (next_block t)
  have "custody_view v = custody_view w" unfolding next_block by (simp add: custody_view_def)
  from vaults_safe_custody [OF this] assms(5) show ?thesis by simp
qed

subsection \<open>The invariant of the module\<close>

definition chain_inv :: "'b env \<Rightarrow> 'b world \<Rightarrow> bool" where
  "chain_inv e w \<longleftrightarrow> ledger_inv w \<and> peers_ok e w \<and> vaults_safe w"

definition chain_env :: "'b env \<Rightarrow> bool" where
  "chain_env e \<longleftrightarrow> external_calls e \<and> legacy_env e \<and> 0 < vaultsMinimumLock e"

lemma step_chain_inv:
  assumes "chain_step e w v" "chain_env e" "chain_inv e w"
  shows "chain_inv e v"
proof -
  have ext: "external_calls e" "legacy_env e" "0 < vaultsMinimumLock e"
    using assms(2) by (simp_all add: chain_env_def)
  have "ledger_inv v"
    using ledger_chain.step_rel [OF assms(1) ext(1)] assms(3) ext(2)
    by (simp add: keeps_def ledger_covered_def chain_inv_def)
  moreover have "peers_ok e v"
    using peers_chain.step_rel [OF assms(1) ext(1), of e] assms(3) by (simp add: keeps_def chain_inv_def)
  moreover have "vaults_safe v"
    using step_vaults_safe [OF assms(1) ext(1,3)] assms(3) by (simp add: chain_inv_def ledger_inv_def)
  ultimately show ?thesis by (simp add: chain_inv_def)
qed

lemma reach_chain_inv:
  assumes "(chain_step e)\<^sup>*\<^sup>* w v" "chain_env e" "chain_inv e w"
  shows "chain_inv e v"
  using assms by (induction rule: rtranclp_induct) (auto intro: step_chain_inv)

end
