(* ===== verification/Custody.thy ===== *)
theory Custody
  imports Chain
begin

text \<open>
  An abstract specification of the vaults, and the refinement: while season one is open, a chain
  that runs the module does to the locked amounts only what a custodian may do, which is to take
  amounts in and to give back at most what a user has in a vault.
\<close>

subsection \<open>The specification\<close>

type_synonym custody = "addr \<Rightarrow> vault_type \<Rightarrow> int"

inductive custody_step :: "int \<Rightarrow> custody \<Rightarrow> custody \<Rightarrow> bool" for minimum where
  take_in: "minimum \<le> n \<Longrightarrow> vault \<noteq> UNSPECIFIED \<Longrightarrow>
    custody_step minimum L (L(a := (L a)(vault := L a vault + n)))"
| give_back: "0 < n \<Longrightarrow> n \<le> L a vault \<Longrightarrow>
    custody_step minimum L (L(a := (L a)(vault := L a vault - n)))"

subsection \<open>The abstraction\<close>

definition locked :: "'b world \<Rightarrow> custody" where
  "locked w = (\<lambda>a vault. locked_amount a vault w)"

lemma locked_custody: "custody_view v = custody_view w \<Longrightarrow> locked v = locked w"
  by (simp add: locked_def locked_amount_def custody_view_def)

lemma Lock_refines:
  assumes "Lock e signer vault msg w = (Ok u, v)" "map_ok (VaultsPositions w)"
  shows "custody_step (vaultsMinimumLock e) (locked w) (locked v)"
proof (rule Lock_effect [OF assms(1)])
  fix a amount i p
  assume n: "vaultsMinimumLock e \<le> amount" "vault \<noteq> UNSPECIFIED"
    and new: "Map_Get (VaultsPositions w) (a, vault, Unix (BlockTime w)) = None"
    and m: "VaultsPositions v = Map_Set (a, vault, Unix (BlockTime w))
       \<lparr>pos_Principal = p, pos_Index = i, pos_Amount = amount, pos_Time = BlockTime w\<rparr> (VaultsPositions w)"
  have "locked v = (locked w)(a := (locked w a)(vault := locked w a vault + amount))"
    using cmap.total_put [OF assms(2), of _ "(a, vault, Unix (BlockTime w))"] new
    by (auto simp: locked_def locked_amount_def m fun_eq_iff)
  with take_in [OF n] show ?thesis by simp
qed

lemma unlock_refines:
  assumes "unlock e signer vault msg w = (Ok u, v)" "positions_ok w"
  shows "custody_step minimum (locked w) (locked v)"
proof (rule unlock_effect [OF assms])
  fix a amount
  assume n: "0 < amount" "amount \<le> locked_amount a vault w"
    and eff: "\<And>a' v'. locked_amount a' v' v
       = locked_amount a' v' w - (if a' = a \<and> v' = vault then amount else 0)"
  have "locked v = (locked w)(a := (locked w a)(vault := locked w a vault - amount))"
    using eff by (auto simp: locked_def fun_eq_iff)
  moreover have "amount \<le> locked w a vault" using n(2) by (simp add: locked_def)
  ultimately show ?thesis using give_back [OF n(1)] by simp
qed

subsection \<open>The refinement\<close>

lemma message_refines:
  assumes run: "RegisterServices e m w = (Ok u, v)" and ext: "external_calls e" and ok: "positions_ok w"
  shows "(custody_step (vaultsMinimumLock e))\<^sup>=\<^sup>= (locked w) (locked v)"
proof (cases "vault_message m")
  case True
  then consider s t a where "m = MsgLock s t a" | s t a where "m = MsgUnlock s t a"
    | s p where "m = MsgVaultsSetPausedState s p"
    by (cases m) auto
  then show ?thesis
  proof cases
    case 1
    with run ok show ?thesis by (auto simp: positions_ok_def intro: Lock_refines)
  next
    case 2
    with run ok show ?thesis by (auto dest: Unlock_Ok intro: unlock_refines)
  next
    case 3
    with run show ?thesis
      by (auto simp: vaults_SetPausedState_def if_fail_Ok thn_Ok modify_Ok emit_Ok locked_def locked_amount_def)
  qed
next
  case False
  from locked_custody [OF message_custody [OF run ext False]] show ?thesis by simp
qed

lemma step_refines:
  assumes "chain_step e w v" "external_calls e" "positions_ok w" "\<not> IsVaultsSeasonOneEnded v"
  shows "(custody_step (vaultsMinimumLock e))\<^sup>=\<^sup>= (locked w) (locked v)"
  using assms(1)
proof cases
  case (message m u)
  show ?thesis by (rule message_refines [OF message assms(2,3)])
next
  case (begin_block r)
  with assms(4) have "v = w"
    unfolding BeginBlocker_cases by (auto simp: IsVaultsSeasonOneEnded_def split: if_splits)
  then show ?thesis by simp
next
  case (packet_failed cdc pk r)
  have "steps (same custody_view) (AddAmountToRetry e cdc pk)"
    by (rule custody_frame.steps_AddAmountToRetry) (simp add: same_def custody_view_def)
  from stepsD [OF this packet_failed] have "custody_view v = custody_view w" by (simp add: same_def)
  from locked_custody [OF this] show ?thesis by simp
next
  case other_modules
  from custody_frame.module_steps_rel [OF this] have "custody_view v = custody_view w" by (simp add: same_def)
  from locked_custody [OF this] show ?thesis by simp
next
  case (next_block t)
  have "custody_view v = custody_view w" unfolding next_block by (simp add: custody_view_def)
  from locked_custody [OF this] show ?thesis by simp
qed

lemma reach_refines:
  assumes "(chain_step e)\<^sup>*\<^sup>* w v" "chain_env e" "chain_inv e w" "\<not> IsVaultsSeasonOneEnded v"
  shows "(custody_step (vaultsMinimumLock e))\<^sup>*\<^sup>* (locked w) (locked v)"
  using assms(1,4)
proof (induction rule: rtranclp_induct)
  case (step u v)
  have ext: "external_calls e" using assms(2) by (simp add: chain_env_def)
  have open_u: "\<not> IsVaultsSeasonOneEnded u"
    using season_chain.step_rel [OF step.hyps(2) ext] step.prems by (auto simp: season_stays_def)
  have "positions_ok u"
    using reach_chain_inv [OF step.hyps(1) assms(2,3)] open_u
    by (simp add: chain_inv_def vaults_safe_def vaults_inv_def)
  from step_refines [OF step.hyps(2) ext this step.prems] step.IH [OF open_u] show ?case by auto
qed simp

subsection \<open>A concrete run\<close>

text \<open>A position is locked, then the begin blocker runs.\<close>

definition locked_world :: "mock_app world" where
  "locked_world = snd (Lock test_env ''a'' FLEXIBLE (Some 100) test_world)"

lemma locked_world_run:
  "fst (Lock test_env ''a'' FLEXIBLE (Some 100) test_world) = Ok ()"
  "\<not> IsVaultsSeasonOneEnded (snd (BeginBlocker test_env locked_world))"
  by code_simp+

end
