(* ===== verification/Guards.thy ===== *)
theory Guards
  imports Vaults_Laws Portal_Laws Ibc
begin

text \<open>
  Accounts that only their owner may draw on. The locale \<open>guarded_relation\<close> states what a relation
  on stores must admit to be kept by every message but those that lock and unlock: writes to
  other collections, mints, burns and transfers out of accounts that are not guarded, and calls
  into other modules that leave the balances of guarded accounts alone.
\<close>

subsection \<open>What other modules may do\<close>

text \<open>A change of the other modules' state that is invisible in the bank.\<close>

definition quiet :: "'b env \<Rightarrow> ('b \<Rightarrow> bool) \<Rightarrow> ('b \<Rightarrow> 'b) \<Rightarrow> bool" where
  "quiet e valid g \<longleftrightarrow> (\<forall>b. (valid b \<longrightarrow> valid (g b)) \<and>
     (\<forall>a. bank_GetBalance e (g b) a (denom e) = bank_GetBalance e b a (denom e)))"

text \<open>Other modules transfer coins of the accounts they control, which are not the guarded ones.\<close>

inductive foreign_steps ::
    "'b env \<Rightarrow> ('b \<Rightarrow> bool) \<Rightarrow> (addr \<Rightarrow> bool) \<Rightarrow> 'b world \<Rightarrow> 'b world \<Rightarrow> bool" for e valid guarded where
  no_step: "foreign_steps e valid guarded w w"
| quiet_step: "foreign_steps e valid guarded w v \<Longrightarrow> quiet e valid g \<Longrightarrow>
    foreign_steps e valid guarded w (App_update g v)"
| event_step: "foreign_steps e valid guarded w v \<Longrightarrow> foreign_steps e valid guarded w (Events_update h v)"
| send_step: "foreign_steps e valid guarded w v \<Longrightarrow> \<not> guarded f \<Longrightarrow> valid_coins c \<Longrightarrow>
    SendCoins e f t c v = (r, u) \<Longrightarrow> (\<And>p. r \<noteq> Panic p) \<Longrightarrow> foreign_steps e valid guarded w u"

text \<open>They are steps of other modules in the sense of the chain.\<close>

lemma valid_coins_nonneg: "valid_coins c \<Longrightarrow> 0 \<le> AmountOf c d"
  by (simp add: valid_coins_iff)

lemma foreign_module_steps: "foreign_steps e valid guarded w v \<Longrightarrow> module_steps e w v"
  by (induction rule: foreign_steps.induct)
    (auto intro: module_steps.intros valid_coins_nonneg)

text \<open>The operations of other modules the keeper calls behave like that.\<close>

definition guarded_calls :: "'b env \<Rightarrow> ('b \<Rightarrow> bool) \<Rightarrow> (addr \<Rightarrow> bool) \<Rightarrow> bool" where
  "guarded_calls e valid guarded \<longleftrightarrow>
     (\<forall>m. settles (foreign_steps e valid guarded) (ibc_Transfer e m)) \<and>
     (\<forall>m. settles (foreign_steps e valid guarded) (RemoteTransferCollateral e m)) \<and>
     (\<forall>n. quiet e valid (account_SetModuleAccount e n)) \<and>
     (\<forall>bz. quiet e valid (\<lambda>b. snd (ParseAndVerifyVAA e bz b))) \<and>
     (\<forall>sender payload nonce. quiet e valid (\<lambda>b. snd (PostMessage e sender payload nonce b)))"

subsection \<open>Relations kept outside the vaults\<close>

locale guarded_relation = world_relation R for R :: "'b world \<Rightarrow> 'b world \<Rightarrow> bool" +
  fixes e :: "'b env" and valid :: "'b \<Rightarrow> bool" and guarded :: "addr \<Rightarrow> bool"
  assumes rel_store: "App v = App w \<Longrightarrow> VaultsPositions v = VaultsPositions w \<Longrightarrow> R w v"
    and rel_quiet: "quiet e valid g \<Longrightarrow> R w (App_update g w)"
    and rel_move: "\<not> guarded f \<Longrightarrow> valid_coins c \<Longrightarrow> settles R (app_call (bank_Move e f t c))"
    and rel_mint: "valid_coins c \<Longrightarrow> settles R (app_call (bank_MintCoins e n c))"
    and rel_burn: "valid_coins c \<Longrightarrow> settles R (app_call (bank_BurnCoins e ModuleName c))"
    and rel_season_two: "settles R (handleVaultsYieldSeasonTwo e)"
    and own_free: "\<not> guarded (ModuleAddress e)" "\<not> guarded (YieldAddress e)" "\<not> guarded (FlexibleVaultAddress e)"
begin

lemma settles_store:
  "(\<And>w. App (f w) = App w \<and> VaultsPositions (f w) = VaultsPositions w) \<Longrightarrow> settles R (modify f)"
  by (rule settles_modify) (simp add: rel_store)

lemma settles_access:
  "settles R (item_get g)" "settles R (from_option err z)" "settles R (emit ev)"
  by (auto simp: emit_def intro: settles_store steps_settles steps_item_get steps_from_option)

lemma settles_wrap_err: "settles R m \<Longrightarrow> settles R (wrap_err msg m)"
  unfolding wrap_err_def by (intro settles_control)

lemma settles_quiet: "quiet e valid (\<lambda>b. snd (g b)) \<Longrightarrow> settles R (app_call g)"
proof (rule steps_settles, rule stepsI)
  fix s r t
  assume q: "quiet e valid (\<lambda>b. snd (g b))" and "app_call g s = (r, t)"
  then have "t = App_update (\<lambda>b. snd (g b)) s" by (auto simp: app_call_def split: prod.splits)
  with rel_quiet [OF q] show "R s t" by simp
qed

lemma settles_NewCoins1:
  assumes "\<And>c. valid_coins c \<Longrightarrow> settles R (f c)"
  shows "settles R (bnd (lift (NewCoins1 (denom e) a)) f)"
proof (cases "NewCoins1 (denom e) a")
  case (Ok c)
  with assms [OF coins_of(1) [OF Ok]] show ?thesis by (simp add: bnd_run_simps)
qed (simp_all add: bnd_run_simps settles_pure)

lemmas settles_basic = settles_NewCoins1 settles_control settles_access settles_wrap_err settles_store

lemma settles_totals:
  "settles R DecrementTotalHolders" "settles R IncrementTotalHolders"
  "settles R (DecrementTotalPrincipal a)" "settles R (IncrementTotalPrincipal a)"
  "settles R (IncrementTotalYieldAccrued a)"
  "settles R (IncrementRetryAmount p i a)" "settles R (GetRetryAmountAndRemove p i)"
  "settles R (IncrementTotalExternalYield p i a)"
  unfolding DecrementTotalHolders_def IncrementTotalHolders_def DecrementTotalPrincipal_def
    IncrementTotalPrincipal_def IncrementTotalYieldAccrued_def IncrementRetryAmount_def
    GetRetryAmountAndRemove_def IncrementTotalExternalYield_def
  by (intro settles_basic; simp)+

lemma settles_restriction: "settles R (SendRestrictionFn e f t c)"
  unfolding SendRestrictionFn_def debitSender_def creditRecipient_def
  by (intro settles_basic settles_totals; simp)

lemma settles_send:
  assumes "\<not> guarded f" "valid_coins c"
  shows "settles R (SendCoins e f t c)" "settles R (SendCoinsFromAccountToModule e f m c)"
  using rel_move [OF assms]
  by (auto simp: SendCoins_def SendCoinsFromAccountToModule_def
      intro!: settles_bnd settles_restriction)

lemma settles_send_own:
  assumes "valid_coins c"
  shows "settles R (SendCoinsFromModuleToAccount e YieldName t c)"
    "settles R (SendCoinsFromModuleToAccount e ModuleName t c)"
    "settles R (SendCoinsFromModuleToModule e ModuleName YieldName c)"
    "settles R (SendCoins e (FlexibleVaultAddress e) t c)"
  using settles_send [OF _ assms] own_free
  by (simp_all add: SendCoinsFromModuleToAccount_def SendCoinsFromModuleToModule_def
      ModuleAddress_def YieldAddress_def)

lemma foreign_rel: "foreign_steps e valid guarded w v \<Longrightarrow> R w v"
proof (induction rule: foreign_steps.induct)
  case (send_step w v f c t r u)
  have "R v u"
    using settlesD [OF settles_send(1) [OF send_step.hyps(2,3)], of t v] send_step.hyps(4,5)
    by (auto simp: wp_def split: outcome.splits)
  with send_step.IH show ?case by (rule rel_trans)
qed (auto intro: rel_refl rel_trans [OF _ rel_quiet] rel_trans [OF _ rel_store])

lemma settles_calls:
  assumes "guarded_calls e valid guarded"
  shows "settles R (ibc_Transfer e im)" "settles R (RemoteTransferCollateral e wm)"
    "settles R (modify (App_update (account_SetModuleAccount e n)))"
    "settles R (app_call (ParseAndVerifyVAA e bz))" "settles R (app_call (PostMessage e s payload nonce))"
proof -
  show "settles R (ibc_Transfer e im)" "settles R (RemoteTransferCollateral e wm)"
    using assms by (auto simp: guarded_calls_def intro: settles_mono foreign_rel)
  show "settles R (modify (App_update (account_SetModuleAccount e n)))"
    by (intro settles_modify rel_quiet) (use assms in \<open>simp add: guarded_calls_def\<close>)
qed (use assms in \<open>auto simp: guarded_calls_def intro: settles_quiet\<close>)

subsection \<open>The dollar submodule\<close>

lemma settles_GetYield: "settles R (GetYield e account)"
  unfolding GetYield_def by (intro settles_basic)

lemma settles_ClaimYield: "settles R (ClaimYield e signer)"
  unfolding ClaimYield_def by (intro settles_basic settles_GetYield settles_send_own)

lemma settles_Burn: "\<not> guarded s \<Longrightarrow> settles R (Burn e s a)"
  unfolding Burn_def by (intro settles_basic settles_send rel_burn)

lemma settles_claimModuleYield: "settles R (claimModuleYield e a)"
  unfolding claimModuleYield_def by (intro settles_basic settles_GetYield settles_send_own)

lemma settles_shift: "settles R (shiftYieldPrincipal e y)"
  unfolding shiftYieldPrincipal_def by (intro settles_basic; simp)

lemma settles_claimStakedVaultYield: "settles R (claimStakedVaultYield e)"
  unfolding claimStakedVaultYield_def
  by (intro settles_basic settles_GetYield settles_send_own settles_shift)

lemma settles_season_one: "settles R (handleVaultsYieldSeasonOne e i)"
  unfolding handleVaultsYieldSeasonOne_def
  by (intro settles_basic settles_claimModuleYield settles_claimStakedVaultYield; simp)

lemma settles_external_yield:
  assumes "guarded_calls e valid guarded"
  shows "settles R (claimExternalYieldIBC e)" "settles R (claimExternalYieldHyperlane e)"
proof -
  have r: "settles R (getHyperlaneRouter e i)" for i
    unfolding getHyperlaneRouter_def by (intro settles_basic) (auto split: list.split intro: settles_pure)
  show "settles R (claimExternalYieldIBC e)" "settles R (claimExternalYieldHyperlane e)"
    unfolding claimExternalYieldIBC_def claimYieldIBC_def claimExternalYieldHyperlane_def
      claimYieldHyperlane_def collectToken_def split_beta
    by (intro settles_basic settles_totals settles_claimModuleYield settles_calls [OF assms] r)+
qed

lemma settles_UpdateIndex:
  assumes "guarded_calls e valid guarded"
  shows "settles R (UpdateIndex e i)"
  unfolding UpdateIndex_def GetTotalPrincipal_def advanceIndex_def accrueYield_def
  by (intro settles_basic settles_totals settles_external_yield [OF assms] settles_season_one
      rel_season_two rel_mint settles_send_own; simp)

lemma settles_Mint: "guarded_calls e valid guarded \<Longrightarrow> settles R (Mint e r a i)"
  unfolding Mint_def
  by (intro settles_basic settles_UpdateIndex rel_mint settles_send_own)

lemma settles_authority:
  "settles R (SetPausedState e signer p)" "settles R (SetYieldRecipient e signer pr identifier recipient)"
proof -
  have pr: "settles R a \<Longrightarrow> settles R b \<Longrightarrow> (\<And>x. settles R (c x)) \<Longrightarrow>
      settles R (case pr of IBC \<Rightarrow> a | HYPERLANE \<Rightarrow> b | OtherProvider x \<Rightarrow> c x)" for a b c
    by (cases pr) simp_all
  have r: "settles R (getHyperlaneRouter e i)" for i
    unfolding getHyperlaneRouter_def by (intro settles_basic) (auto split: list.split intro: settles_pure)
  show "settles R (SetPausedState e signer p)" "settles R (SetYieldRecipient e signer pr identifier recipient)"
    unfolding SetPausedState_def SetYieldRecipient_def by (intro settles_basic pr r; simp)+
qed

subsection \<open>The Portal\<close>

lemma settles_read: "settles R (\<lambda>w. (f w, w))"
  by (intro steps_settles) (simp add: steps_def rel_refl)

lemma settles_HandlePayload: "guarded_calls e valid guarded \<Longrightarrow> settles R (HandlePayload e payload ep)"
  unfolding HandlePayload_def
  by (intro settles_basic settles_read)
    (auto split: payload_type.split intro!: settles_basic settles_Mint settles_UpdateIndex)

lemma settles_portal_Deliver: "guarded_calls e valid guarded \<Longrightarrow> settles R (portal_Deliver e bz)"
  unfolding portal_Deliver_def Deliver_def
  by (intro settles_basic settles_HandlePayload settles_calls)

lemma settles_nonce: "settles R IncrementPortalNonce"
  unfolding IncrementPortalNonce_def by (intro settles_basic; simp)

lemma settles_bnd_option:
  "(\<And>x. z = Some x \<Longrightarrow> settles R (f x)) \<Longrightarrow> settles R (bnd (from_option err z) f)"
  by (cases z) (simp_all add: from_option_def bnd_run_simps settles_pure)

lemma settles_portal_Transfer:
  assumes "guarded_calls e valid guarded" "\<And>a. StringToBytes e signer = Some a \<Longrightarrow> \<not> guarded a"
  shows "settles R (portal_Transfer e signer amount c tok recipient)"
  unfolding portal_Transfer_def emitTransferSent_def non_nil_def
  by (intro settles_bnd_option settles_basic settles_read settles_nonce settles_Burn assms(2)
      settles_calls [OF assms(1)])

lemma settles_owner:
  "settles R (portal_SetPausedState signer p)" "settles R (SetPeer e signer ch t m)"
  "settles R (SetBridgingPath e signer ch tok s)" "settles R (TransferOwnership e signer n)"
  unfolding portal_SetPausedState_def SetPeer_def SetBridgingPath_def TransferOwnership_def asOwner_def
  by (intro settles_basic settles_read; simp)+

subsection \<open>The IBC middleware and the rewards of the vaults\<close>

lemma settles_AddAmountToRetry: "settles R (AddAmountToRetry e cdc pk)"
  unfolding AddAmountToRetry_def by (intro settles_basic settles_totals)

lemma settles_counters:
  "settles R (IncrementVaultUsers v)" "settles R (DecrementVaultUsers v)"
  "settles R (IncrementVaultTotalPrincipal v a)" "settles R (DecrementVaultTotalPrincipal v a)"
  "settles R (IncrementFlexibleTotalDistributedRewardsPrincipal a)"
  by (intro steps_settles vault_counters_frame rel_refl rel_store; simp)+

lemma settles_addTotalFlexible: "settles R (addTotalFlexible a)"
  unfolding addTotalFlexible_def by (intro settles_basic; simp)

lemma settles_ClaimRewards: "settles R (ClaimRewards e pos amount)"
  unfolding ClaimRewards_def claimReward_def split_beta
  by (intro settles_basic settles_send_own; simp)

lemma settles_checkLock: "settles R (checkLock e signer vault a)"
  unfolding checkLock_def non_nil_def by (intro settles_basic)

lemma settles_vaults_SetPausedState: "settles R (vaults_SetPausedState e signer pt)"
  unfolding vaults_SetPausedState_def by (intro settles_basic; simp)

end

end
