(* ===== verification/Solvency.thy ===== *)
theory Solvency
  imports Chain Guards Testbed
begin

text \<open>
  The vaults keep what they owe. Every position has an account of the bank; while users and other
  modules cannot draw on these accounts, each of them holds at least the amounts of the positions
  it belongs to, in every reachable state, also after season one.
\<close>

subsection \<open>What an account holds for positions\<close>

text \<open>The account of a position, by the text of the user's address.\<close>

definition position_account :: "'b env \<Rightarrow> position_key \<Rightarrow> addr" where
  "position_account e = (\<lambda>(a, vault, t).
     NewModuleAddress e (ToUserVaultPositionModuleAccount (get_or '''' (BytesToString e a)) vault t))"

definition vault_account :: "'b env \<Rightarrow> addr \<Rightarrow> bool" where
  "vault_account e A \<longleftrightarrow> (\<exists>k. position_account e k = A)"

definition held :: "'b env \<Rightarrow> 'b world \<Rightarrow> addr \<Rightarrow> int" where
  "held e w A = total_of (\<lambda>k p. if position_account e k = A then pos_Amount p else 0) (VaultsPositions w)"

text \<open>What an account has beyond the positions it belongs to.\<close>

definition surplus :: "'b env \<Rightarrow> 'b world \<Rightarrow> addr \<Rightarrow> int" where
  "surplus e w A = balance e w A - held e w A"

text \<open>Nothing is spent from the accounts of positions, and no position changes.\<close>

definition unspent :: "'b env \<Rightarrow> ('b \<Rightarrow> bool) \<Rightarrow> 'b world \<Rightarrow> 'b world \<Rightarrow> bool" where
  "unspent e valid w v \<longleftrightarrow> (valid (App w) \<longrightarrow> valid (App v) \<and>
     VaultsPositions v = VaultsPositions w \<and> (\<forall>A. vault_account e A \<longrightarrow> balance e w A \<le> balance e v A))"

text \<open>The same, and one account holds an amount on top of what it had.\<close>

definition set_aside :: "'b env \<Rightarrow> ('b \<Rightarrow> bool) \<Rightarrow> addr \<Rightarrow> int \<Rightarrow> 'b world \<Rightarrow> 'b world \<Rightarrow> bool" where
  "set_aside e valid a d w v \<longleftrightarrow> (valid (App w) \<longrightarrow> valid (App v) \<and>
     VaultsPositions v = VaultsPositions w \<and>
     (\<forall>A. vault_account e A \<longrightarrow> balance e w A + (if A = a then d else 0) \<le> balance e v A))"

text \<open>No surplus shrinks.\<close>

definition custody_kept :: "'b env \<Rightarrow> ('b \<Rightarrow> bool) \<Rightarrow> 'b world \<Rightarrow> 'b world \<Rightarrow> bool" where
  "custody_kept e valid w v \<longleftrightarrow> (valid (App w) \<and> positions_keyed w \<longrightarrow>
     valid (App v) \<and> positions_keyed v \<and> (\<forall>A. vault_account e A \<longrightarrow> surplus e w A \<le> surplus e v A))"

interpretation unspent_world: world_relation "unspent e valid" for e valid
  by unfold_locales (auto simp: unspent_def intro: order_trans)

interpretation custody_world: world_relation "custody_kept e valid" for e valid
  by unfold_locales (auto simp: custody_kept_def intro: order_trans)

lemma set_aside_unspent: "set_aside e valid a d w v \<Longrightarrow> 0 \<le> d \<Longrightarrow> unspent e valid w v"
  by (fastforce simp: set_aside_def unspent_def split: if_splits)

lemma set_aside_none: "set_aside e valid a 0 = unspent e valid"
  by (auto simp: set_aside_def unspent_def fun_eq_iff)

lemma unspent_custody: "unspent e valid w v \<Longrightarrow> custody_kept e valid w v"
  by (auto simp: unspent_def custody_kept_def positions_keyed_def keyed_def surplus_def held_def)

lemma custody_event: "custody_kept e valid w (Events_update f v) \<longleftrightarrow> custody_kept e valid w v"
  by (simp add: custody_kept_def surplus_def held_def balance_def positions_keyed_def keyed_def)

subsection \<open>Assumptions\<close>

text \<open>
  The module's own accounts are no accounts of positions (their names differ, and addresses are
  hashes of names); texts of one address differ in case only; the other modules the keeper calls
  do not draw on the accounts of positions.
\<close>

locale vault_custody = bank_env e valid for e :: "'b env" and valid :: "'b \<Rightarrow> bool" +
  assumes own_accounts: "\<not> vault_account e (ModuleAddress e)" "\<not> vault_account e (YieldAddress e)"
      "\<not> vault_account e (FlexibleVaultAddress e)"
    and address_texts: "StringToBytes e s = Some a \<Longrightarrow>
      \<exists>t. BytesToString e a = Some t \<and> ToLower t = ToLower s"
    and calls: "guarded_calls e valid (vault_account e)"

subsection \<open>Transfers and claims, on balances\<close>

context bank_env
begin

lemma wp_SendCoins:
  assumes "valid (App w)" "valid_coins c"
  shows "wp (SendCoins e f t c) (\<lambda>_ v. valid (App v) \<and> VaultsPositions v = VaultsPositions w \<and>
      (\<forall>A. balance e v A = balance e w A - (if A = f then AmountOf c (denom e) else 0)
         + (if A = t then AmountOf c (denom e) else 0)))
    (\<lambda>r v. r = None \<or> App v = App w \<and> VaultsPositions v = VaultsPositions w) w"
proof -
  obtain r v where run: "SendCoins e f t c w = (r, v)" by fastforce
  obtain q w1 where sr: "SendRestrictionFn e f t c w = (q, w1)" by fastforce
  note frame = restriction_App [OF sr] restriction_frame(3) [OF sr]
  have pos: "VaultsPositions v = VaultsPositions w"
    using run sr frame by (auto simp: SendCoins_def bnd_def app_call_def split: outcome.splits prod.splits)
  show ?thesis
  proof (cases r)
    case (Ok u)
    with run have run': "SendCoins e f t c w = (Ok u, v)" by simp
    from SendCoins_effect [OF run' assms] pos show ?thesis by (simp add: wp_def run')
  next
    case (Err x)
    with run sr frame have "App v = App w"
      by (auto simp: SendCoins_def bnd_def app_call_def dest: bank.move_err split: outcome.splits prod.splits)
    with pos Err show ?thesis by (simp add: wp_def run)
  qed (simp add: wp_def run)
qed

lemma wp_claimModuleYield:
  assumes "valid (App w)"
  shows "wp (claimModuleYield e a) (\<lambda>y v. 0 \<le> y \<and> valid (App v) \<and> VaultsPositions v = VaultsPositions w \<and>
      (\<forall>A. balance e v A = balance e w A - (if A = YieldAddress e then y else 0) + (if A = a then y else 0)))
    (\<lambda>r v. r = None \<or> App v = App w \<and> VaultsPositions v = VaultsPositions w) w"
proof -
  have coins: "valid_coins [(denom e, y)]" "AmountOf [(denom e, y)] (denom e) = y" if "0 < y" for y
    using that by (simp_all add: valid_coins_def map_ok_def AmountOf_def)
  obtain r v where run: "GetYield e (AccString e a) w = (r, v)" by fastforce
  then have v: "v = w" "\<And>y b. r = Ok (y, b) \<Longrightarrow> 0 \<le> y"
    by (auto simp: GetYield_run claimable_nonneg split: option.splits if_splits)
  show ?thesis
  proof (cases r)
    case (Ok yb)
    obtain y b where yb: "yb = (y, b)" by fastforce
    show ?thesis
    proof (cases "0 < y")
      case True
      obtain x u where send: "SendCoins e (YieldAddress e) a [(denom e, y)] w = (x, u)" by fastforce
      have go: "claimModuleYield e a w = (case x of Ok _ \<Rightarrow> (Ok y, u) | Err err \<Rightarrow> (Err err, u) | Panic p \<Rightarrow> (Panic p, u))"
        using True v Ok yb by (cases x) (simp_all add: claimModuleYield_run run send)
      from wp_SendCoins [OF assms coins(1) [OF True], of "YieldAddress e" a] go send True
      show ?thesis
        by (cases x) (simp_all add: wp_def coins(2))
    qed (use v Ok yb assms in \<open>auto simp: wp_def claimModuleYield_run run\<close>)
  qed (use v assms in \<open>simp_all add: wp_def claimModuleYield_run run\<close>)
qed

end

text \<open>Season two passes the yield of the staked account on, and not more than that.\<close>

text \<open>A transfer out of an account that holds the amount on top of what it had.\<close>

context bank_env
begin

lemma set_aside_send:
  assumes w: "valid (App w)" and v: "set_aside e valid f d w v" and c: "valid_coins c"
  shows "wp (SendCoins e f t c) (\<lambda>_. set_aside e valid f (d - AmountOf c (denom e)) w)
    (\<lambda>r u. r = None \<or> set_aside e valid f d w u) v"
proof (rule wp_conseq [OF wp_SendCoins [OF _ c, of v f t]])
  show "valid (App v)" using v w by (simp add: set_aside_def)
  show "r = None \<or> set_aside e valid f d w u"
    if "r = None \<or> App u = App v \<and> VaultsPositions u = VaultsPositions v" for r u
    using that v by (auto simp: set_aside_def balance_def)
  show "set_aside e valid f (d - AmountOf c (denom e)) w u"
    if u: "valid (App u) \<and> VaultsPositions u = VaultsPositions v \<and>
      (\<forall>A. balance e u A = balance e v A - (if A = f then AmountOf c (denom e) else 0)
         + (if A = t then AmountOf c (denom e) else 0))" for u
  proof -
    have "balance e w A + (if A = f then d - AmountOf c (denom e) else 0) \<le> balance e u A"
      if "vault_account e A" for A
    proof -
      have "balance e w A + (if A = f then d else 0) \<le> balance e v A"
        using v w that by (simp add: set_aside_def)
      then show ?thesis
        using valid_coins_nonneg [OF c, of "denom e"] spec [OF conjunct2 [OF conjunct2 [OF u]], of A]
        by (simp split: if_splits)
    qed
    with u v w show ?thesis by (simp add: set_aside_def)
  qed
qed

lemma set_aside_send_amount:
  assumes w: "valid (App w)" and v: "set_aside e valid f d w v" and d: "0 \<le> d"
  shows "wp (bnd (lift (NewCoins1 (denom e) y)) (SendCoins e f t))
      (\<lambda>_. set_aside e valid f (d - y) w) (\<lambda>r u. r = None \<or> unspent e valid w u) v"
proof (cases "NewCoins1 (denom e) y")
  case (Ok c)
  show ?thesis
    using set_aside_send [OF w v coins_of(1) [OF Ok], of t] coins_of(2) [OF Ok, of "denom e"]
    by (auto simp: wp_simps Ok elim!: wp_conseq intro: set_aside_unspent [OF _ d])
qed (simp_all add: wp_simps NewCoins1_def split: if_splits)

lemma unspent_pass:
  "valid (App w) \<Longrightarrow> set_aside e valid f y w v \<Longrightarrow> 0 \<le> y \<Longrightarrow>
     wp (bnd (lift (NewCoins1 (denom e) y)) (SendCoins e f t))
       (\<lambda>_. unspent e valid w) (\<lambda>r u. r = None \<or> unspent e valid w u) v"
  using set_aside_send_amount [of w f y v y t] by (simp add: set_aside_none)

text \<open>What an account receives from one that belongs to no position is set aside there.\<close>

lemma set_aside_receive:
  assumes w: "valid (App w)" and v: "unspent e valid w v" and free: "\<not> vault_account e f" and c: "valid_coins c"
  shows "wp (SendCoins e f t c) (\<lambda>_. set_aside e valid t (AmountOf c (denom e)) w)
    (\<lambda>r u. r = None \<or> unspent e valid w u) v"
proof (rule wp_conseq [OF wp_SendCoins [OF _ c, of v f t]])
  show "valid (App v)" using v w by (simp add: unspent_def)
  show "r = None \<or> unspent e valid w u"
    if "r = None \<or> App u = App v \<and> VaultsPositions u = VaultsPositions v" for r u
    using that v by (auto simp: unspent_def balance_def)
  show "set_aside e valid t (AmountOf c (denom e)) w u"
    if u: "valid (App u) \<and> VaultsPositions u = VaultsPositions v \<and>
      (\<forall>A. balance e u A = balance e v A - (if A = f then AmountOf c (denom e) else 0)
         + (if A = t then AmountOf c (denom e) else 0))" for u
    using u v w free by (auto simp: unspent_def set_aside_def)
qed

lemma set_aside_claim:
  assumes w: "valid (App w)" and v: "unspent e valid w v" and free: "\<not> vault_account e (YieldAddress e)"
  shows "wp (claimModuleYield e a) (\<lambda>y u. 0 \<le> y \<and> set_aside e valid a y w u)
    (\<lambda>r u. r = None \<or> unspent e valid w u) v"
proof (rule wp_conseq [OF wp_claimModuleYield [of v a]])
  show "valid (App v)" using v w by (simp add: unspent_def)
  show "r = None \<or> unspent e valid w u"
    if "r = None \<or> App u = App v \<and> VaultsPositions u = VaultsPositions v" for r u
    using that v by (auto simp: unspent_def balance_def)
  show "0 \<le> y \<and> set_aside e valid a y w u"
    if u: "0 \<le> y \<and> valid (App u) \<and> VaultsPositions u = VaultsPositions v \<and>
      (\<forall>A. balance e u A = balance e v A - (if A = YieldAddress e then y else 0) + (if A = a then y else 0))"
    for y u
    using u v w free by (auto simp: unspent_def set_aside_def)
qed

end

lemma unspent_app_call:
  assumes "\<And>b u b'. g b = (Ok u, b') \<Longrightarrow> valid b \<Longrightarrow>
      valid b' \<and> (\<forall>A. vault_account e A \<longrightarrow> bank_GetBalance e b A (denom e) \<le> bank_GetBalance e b' A (denom e))"
    and "\<And>b x b'. g b = (Err x, b') \<Longrightarrow> b' = b"
  shows "settles (unspent e valid) (app_call g)"
  unfolding settles_def
proof
  fix w :: "'a world"
  obtain r b where run: "g (App w) = (r, b)" by fastforce
  show "wp (app_call g) (\<lambda>_. unspent e valid w) (\<lambda>r v. r = None \<or> unspent e valid w v) w"
    by (cases r) (use assms [of "App w"] run in \<open>auto simp: wp_def app_call_def unspent_def balance_def\<close>)
qed

sublocale vault_custody \<subseteq> vault: guarded_relation "unspent e valid" e valid "vault_account e"
proof
  show "App v = App w \<Longrightarrow> VaultsPositions v = VaultsPositions w \<Longrightarrow> unspent e valid w v" for w v
    by (simp add: unspent_def balance_def)
  show "quiet e valid g \<Longrightarrow> unspent e valid w (App_update g w)" for g w
    by (simp add: unspent_def quiet_def balance_def)
  show "settles (unspent e valid) (app_call (bank_Move e f t c))"
    if "\<not> vault_account e f" and c: "valid_coins c" for f t c
    by (rule unspent_app_call)
      (use that bank.move_err bank.move_facts [OF _ _ c] valid_coins_nonneg [OF c, of "denom e"] in auto)
  show "settles (unspent e valid) (app_call (bank_MintCoins e n c))" if c: "valid_coins c" for n c
    by (rule unspent_app_call)
      (use bank.mint_err bank.mint_facts [OF _ _ c] valid_coins_nonneg [OF c, of "denom e"] in auto)
  show "settles (unspent e valid) (app_call (bank_BurnCoins e ModuleName c))" if c: "valid_coins c" for c
    by (rule unspent_app_call)
      (use own_accounts(1) bank.burn_err bank.burn_facts [OF _ _ c] in \<open>auto simp: ModuleAddress_def\<close>)
  show "settles (unspent e valid) (handleVaultsYieldSeasonTwo e)"
    unfolding settles_def
  proof
    fix w
    show "wp (handleVaultsYieldSeasonTwo e) (\<lambda>_. unspent e valid w) (\<lambda>r v. r = None \<or> unspent e valid w v) w"
    proof (cases "valid (App w)")
      case True
      then show ?thesis
        unfolding handleVaultsYieldSeasonTwo_def wp_bnd [of "claimModuleYield _ _"]
        by (intro wp_conseq [OF set_aside_claim [OF True _ own_accounts(2)]] unspent_world.rel_refl)
          (auto intro: unspent_pass set_aside_unspent simp: wp_basic)
    qed (auto simp: unspent_def wp_def split: prod.split outcome.split)
  qed
qed (rule own_accounts)+

subsection \<open>Unlocking\<close>

context vault_custody
begin

text \<open>The flexible part leaves in the position's account what is sent on top of the amount.\<close>

lemma wp_unlockFlexible:
  assumes w: "valid (App w)"
    and acct: "acct = NewModuleAddress e (ToUserVaultPositionModuleAccount s FLEXIBLE (Unix (pos_Time pos)))"
  shows "wp (unlockFlexible e s pos a p) (\<lambda>send v. a \<le> send \<and> set_aside e valid acct (send - a) w v)
    (\<lambda>r v. r = None \<or> unspent e valid w v) w"
proof -
  let ?E = "\<lambda>r v. r = None \<or> unspent e valid w v"
  let ?Q = "\<lambda>send v. a \<le> send \<and> set_aside e valid acct (send - a) w v"
  have yield: "wp (bnd (claimModuleYield e acct) (\<lambda>y. if 0 < y then lift (Int_Add a y) else ret a)) ?Q ?E v"
    if v: "unspent e valid w v" for v
    unfolding wp_bnd
    by (rule wp_conseq [OF set_aside_claim [OF w v own_accounts(2)]])
      (auto simp: wp_simps Int_Add_def checked_def)
  have counted: "wp (thn (wrap_err msg (IncrementFlexibleTotalDistributedRewardsPrincipal rewards))
      (bnd (claimModuleYield e acct) (\<lambda>y. if 0 < y then lift (Int_Add a y) else ret a))) ?Q ?E v"
    if v: "unspent e valid w v" for v msg rewards
    unfolding thn_def
    by (rule vault.settles_then [OF v]) (auto intro: yield vault.settles_wrap_err vault.settles_counters)
  have claimed: "wp (bnd (ClaimRewards e pos a) (\<lambda>rewards.
      thn (wrap_err msg (IncrementFlexibleTotalDistributedRewardsPrincipal rewards))
      (bnd (claimModuleYield e acct) (\<lambda>y. if 0 < y then lift (Int_Add a y) else ret a)))) ?Q ?E v"
    if v: "unspent e valid w v" for v msg
    by (rule vault.settles_then [OF v vault.settles_ClaimRewards]) (auto intro: counted)
  show ?thesis
    unfolding unlockFlexible_def acct [symmetric]
    by (rule vault.settles_then [OF vault.rel_refl vault.settles_pure(5)],
        rule vault.settles_then [OF _ vault.settles_pure(4)], assumption,
        rule vault.settles_then [OF _ vault.settles_pure(4)], assumption,
        subst thn_def, rule vault.settles_then [OF _ vault.settles_store], assumption)
      (auto intro: claimed)
qed

text \<open>What a turn of the loop takes out of a position, the position gives up.\<close>

lemma account_of:
  assumes "StringToBytes e signer = Some (pos_Address pos)"
  shows "NewModuleAddress e (ToUserVaultPositionModuleAccount signer (pos_Vault pos) (Unix (pos_Time pos)))
    = position_account e (pos_key pos)"
  using address_texts [OF assms]
  by (auto simp: position_account_def pos_key_def ToUserVaultPositionModuleAccount_def)

lemma reduced_custody:
  assumes v: "set_aside e valid (position_account e (pos_key pos)) (- tk) w v" and tk: "tk \<le> pos_Amount pos"
    and keyed: "positions_keyed w" and stored: "Map_Get (VaultsPositions w) (pos_key pos) = Some (pos_value pos)"
  shows "custody_kept e valid w (VaultsPositions_update (reduced pos tk pr) v)"
proof -
  let ?u = "VaultsPositions_update (reduced pos tk pr) v"
  have ok: "map_ok (VaultsPositions w)" using keyed by (simp add: positions_keyed_def keyed_def)
  { assume w: "valid (App w)"
    then have pos: "VaultsPositions ?u = reduced pos tk pr (VaultsPositions w)" "valid (App ?u)"
      using v by (simp_all add: set_aside_def)
    have "positions_keyed ?u"
      using keyed by (auto simp: positions_keyed_def keyed_def pos map_ok_Set map_ok_Remove reduced_alt pos_key_def rest_value_def
          split: if_splits)
    moreover have "surplus e w A \<le> surplus e ?u A" if "vault_account e A" for A
    proof -
      have "held e ?u A = held e w A - (if position_account e (pos_key pos) = A then tk else 0)"
        using tk by (simp add: held_def pos reduced_total [OF ok stored] pos_value_def rest_value_def)
      moreover have "balance e w A + (if A = position_account e (pos_key pos) then - tk else 0) \<le> balance e ?u A"
        using v w that by (simp add: set_aside_def balance_def)
      ultimately show ?thesis by (simp add: surplus_def split: if_splits)
    qed
    ultimately have "valid (App ?u) \<and> positions_keyed ?u \<and> (\<forall>A. vault_account e A \<longrightarrow> surplus e w A \<le> surplus e ?u A)"
      using pos by blast }
  then show ?thesis by (simp add: custody_kept_def)
qed

lemma wp_reducePosition:
  assumes "set_aside e valid (position_account e (pos_key pos)) (- tk) w v" "tk \<le> pos_Amount pos"
    and "positions_keyed w" "Map_Get (VaultsPositions w) (pos_key pos) = Some (pos_value pos)"
  shows "wp (reducePosition pos tk pr) (\<lambda>_ u. custody_kept e valid w u \<and>
      (valid (App w) \<longrightarrow> VaultsPositions u = reduced pos tk pr (VaultsPositions w)))
    (\<lambda>r u. r = None) v"
proof -
  obtain r u where run: "reducePosition pos tk pr v = (r, u)" by fastforce
  have "r \<noteq> Err x" for x
    using run by (auto simp: reducePosition_def Let_def Int_Sub_def checked_def bnd_run_simps run_simps
        split: if_splits)
  then show ?thesis
    using reducePosition_Ok [of pos tk pr v "()" u] reduced_custody [OF assms] assms(1) run
    by (cases r) (auto simp: wp_def set_aside_def)
qed

lemma wp_finishPosition:
  assumes v: "set_aside e valid (position_account e (pos_key pos)) (- taken rem pos) w v"
    and w: "valid (App w)" and keyed: "positions_keyed w"
    and stored: "Map_Get (VaultsPositions w) (pos_key pos) = Some (pos_value pos)"
  shows "wp (thn (reducePosition pos (taken rem pos) pr)
      (thn (wrap_err ''unable to emit position unlocked event''
          (emit (PositionUnlocked signer vault (pos_Index pos) send pr)))
       (bnd (lift (Int_Add removed pr)) (\<lambda>removed'.
        bnd (lift (Int_Sub rem (taken rem pos))) (\<lambda>rem'. ret (rem', removed'))))))
    (\<lambda>_ v. custody_kept e valid w v \<and> (\<forall>k. k \<noteq> pos_key pos \<longrightarrow>
       Map_Get (VaultsPositions v) k = Map_Get (VaultsPositions w) k))
    (\<lambda>r v. r = None \<or> custody_kept e valid w v) v"
  unfolding wp_thn [of "reducePosition _ _ _"]
  by (rule wp_conseq [OF wp_reducePosition [OF v taken_bounds(2) keyed stored]])
    (simp_all add: wp_simps Int_Add_def Int_Sub_def checked_def custody_event reduced_other w
      del: split_paired_All)

lemma wp_unlockPosition:
  assumes decode: "StringToBytes e signer = Some a" and pos: "pos_Address pos = a" "pos_Vault pos = vault"
    and w: "valid (App w)" and keyed: "positions_keyed w"
    and stored: "Map_Get (VaultsPositions w) (pos_key pos) = Some (pos_value pos)"
  shows "wp (unlockPosition e signer vault a pos acc)
    (\<lambda>_ v. custody_kept e valid w v \<and> (\<forall>k. k \<noteq> pos_key pos \<longrightarrow>
       Map_Get (VaultsPositions v) k = Map_Get (VaultsPositions w) k))
    (\<lambda>r v. r = None \<or> custody_kept e valid w v) w"
proof -
  let ?acct = "position_account e (pos_key pos)"
  let ?Q = "\<lambda>v. custody_kept e valid w v \<and> (\<forall>k. k \<noteq> pos_key pos \<longrightarrow>
      Map_Get (VaultsPositions v) k = Map_Get (VaultsPositions w) k)"
  let ?E = "\<lambda>r v. r = None \<or> custody_kept e valid w v"
  have acct: "NewModuleAddress e (ToUserVaultPositionModuleAccount signer vault (Unix (pos_Time pos))) = ?acct"
    using account_of [of signer pos] decode pos by simp
  obtain rem removed where acc: "acc = (rem, removed)" by fastforce
  let ?t = "taken rem pos"
  define finish :: "int \<Rightarrow> int \<Rightarrow> ('b, int \<times> int) handler" where
    "finish pr send = thn (reducePosition pos ?t pr)
      (thn (wrap_err ''unable to emit position unlocked event''
          (emit (PositionUnlocked signer vault (pos_Index pos) send pr)))
       (bnd (lift (Int_Add removed pr)) (\<lambda>removed'.
        bnd (lift (Int_Sub rem ?t)) (\<lambda>rem'. ret (rem', removed')))))" for pr send
  note reduced = wp_finishPosition [OF _ w keyed stored, where rem = rem and removed = removed and signer = signer
      and vault = vault, folded finish_def]
  have sent: "wp (bnd (lift (NewCoins1 (denom e) send)) (\<lambda>c. thn (SendCoins e ?acct a c) (finish pr send))) (\<lambda>_. ?Q) ?E v"
    if v: "set_aside e valid ?acct (send - ?t) w v" and send: "?t \<le> send" for pr send v
  proof -
    have "wp (bnd (lift (NewCoins1 (denom e) send)) (SendCoins e ?acct a)) (\<lambda>_. wp (finish pr send) (\<lambda>_. ?Q) ?E) ?E v"
      by (rule wp_conseq [OF set_aside_send_amount [OF w v]])
        (use send in \<open>auto intro: reduced unspent_custody simp del: split_paired_All\<close>)
    then show ?thesis by (simp add: wp_bnd wp_thn del: split_paired_All)
  qed
  show ?thesis
  proof (cases "rem = 0")
    case True
    then show ?thesis by (simp add: acc unlockPosition_zero wp_basic custody_world.rel_refl del: split_paired_All)
  next
    case False
    have "wp (if vault = FLEXIBLE then unlockFlexible e signer pos ?t pr else ret ?t)
        (\<lambda>send v. ?t \<le> send \<and> set_aside e valid ?acct (send - ?t) w v) (\<lambda>r v. r = None \<or> unspent e valid w v) w" for pr
      using wp_unlockFlexible [OF w, of ?acct signer pos ?t pr] acct
      by (cases "vault = FLEXIBLE") (simp_all add: wp_basic set_aside_none unspent_world.rel_refl)
    then have "wp (if vault = FLEXIBLE then unlockFlexible e signer pos ?t pr else ret ?t)
        (\<lambda>send. wp (bnd (lift (NewCoins1 (denom e) send)) (\<lambda>c. thn (SendCoins e ?acct a c) (finish pr send))) (\<lambda>_. ?Q) ?E) ?E w" for pr
      by (rule wp_conseq) (auto intro: sent unspent_custody simp del: split_paired_All)
    with False show ?thesis
      unfolding acc unlockPosition_def prod.case Let_def taken_def [symmetric] pos(2) acct finish_def [symmetric]
      by (simp add: wp_bnd wp_lift del: split_paired_All split: outcome.split)
  qed
qed

lemma wp_unlock_loop:
  assumes decode: "StringToBytes e signer = Some a" and w: "valid (App w)" and keyed: "positions_keyed w"
  shows "wp (fold_prog (unlockPosition e signer vault a) (GetVaultsPositionsByProviderAndVault a vault w) acc)
    (\<lambda>_. custody_kept e valid w) (\<lambda>r v. r = None \<or> custody_kept e valid w v) w"
proof -
  let ?I = "\<lambda>ps acc v. custody_kept e valid w v \<and> distinct (map pos_key ps) \<and>
    (\<forall>p\<in>set ps. pos_Address p = a \<and> pos_Vault p = vault \<and>
       Map_Get (VaultsPositions v) (pos_key p) = Some (pos_value p))"
  let ?E = "\<lambda>r v. r = None \<or> custody_kept e valid w v"
  have turn: "wp (unlockPosition e signer vault a p acc) (?I ps) ?E v" if I: "?I (p # ps) acc v" for p ps acc v
  proof -
    have v: "valid (App v)" "positions_keyed v" using I w keyed by (simp_all add: custody_kept_def)
    have p: "pos_Address p = a" "pos_Vault p = vault" "Map_Get (VaultsPositions v) (pos_key p) = Some (pos_value p)"
      using I by simp_all
    have "pos_key q \<noteq> pos_key p" if "q \<in> set ps" for q
      using I that by (metis distinct.simps(2) image_eqI list.set_map list.simps(9))
    then show ?thesis
      using I by (intro wp_conseq [OF wp_unlockPosition [OF decode p(1,2) v p(3)]])
        (auto intro: custody_world.rel_trans simp del: split_paired_All)
  qed
  have "?I (GetVaultsPositionsByProviderAndVault a vault w) acc w"
    using user_positions [OF keyed] user_positions_distinct [OF keyed] custody_world.rel_refl by blast
  from wp_fold_prog [where I = ?I and E = ?E, OF turn this] show ?thesis
    by (rule wp_conseq) auto
qed

lemma settles_custody: "settles (unspent e valid) m \<Longrightarrow> settles (custody_kept e valid) m"
  by (rule settles_mono, assumption, rule unspent_custody)

lemma settles_run:
  assumes "settles R m"
    and "\<And>x t. m s = (Ok x, t) \<Longrightarrow> R s t \<Longrightarrow> wp (f x) Q (\<lambda>r v. r = None \<or> R s v) t"
  shows "wp (bnd m f) Q (\<lambda>r v. r = None \<or> R s v) s"
  unfolding wp_bnd
  by (rule wp_conseq [OF wp_conj [OF settlesD [OF assms(1)] wp_run]]) (auto intro: assms(2))

lemma settles_unlock: "settles (custody_kept e valid) (unlock e signer vault amount)"
  unfolding settles_def
proof
  fix w
  let ?E = "\<lambda>r v. r = None \<or> custody_kept e valid w v"
  show "wp (unlock e signer vault amount) (\<lambda>_. custody_kept e valid w) ?E w"
  proof (cases "valid (App w) \<and> positions_keyed w")
    case True
    show ?thesis
      unfolding unlock_def
    proof (rule settles_run, unfold checkUnlock_def [of e signer vault amount], 
        intro settles_custody vault.settles_basic, fold checkUnlock_def, clarify)
      fix a n ps t
      assume "checkUnlock e signer vault amount w = (Ok (a, n, ps), t)"
      then have c: "StringToBytes e signer = Some a" "ps = GetVaultsPositionsByProviderAndVault a vault w" "t = w"
        using checkUnlock_Ok by blast+
      show "wp (bnd (fold_prog (unlockPosition e signer vault a) ps (n, 0)) (\<lambda>(remaining, removedPrincipal).
            if remaining \<noteq> 0 \<or> \<bar>remaining\<bar> \<noteq> 0 then fail (Wrap ErrInvalidAmount ''invalid amount left'')
            else bnd (gets (GetVaultsPositionsByProviderAndVault a vault)) (\<lambda>left.
              thn (if length left = 0
                   then wrap_err ''unable to decrement vault total users'' (DecrementVaultUsers vault) else ret ())
              (wrap_err ''unable to decrement vault total principal''
                (DecrementVaultTotalPrincipal vault removedPrincipal)))))
          (\<lambda>_. custody_kept e valid w) ?E t"
        unfolding c(2,3) wp_bnd [of "fold_prog _ _ _"] using True
        by (intro wp_conseq [OF wp_unlock_loop [OF c(1)]] custody_world.settles_after
            settles_custody vault.settles_basic vault.settles_counters) auto
    qed
  qed (auto simp: custody_kept_def wp_def split: prod.split outcome.split)
qed

lemma settles_Unlock: "settles (custody_kept e valid) (Unlock e signer vault amount)"
  unfolding Unlock_def by (intro custody_world.settles_control settles_unlock)

subsection \<open>Locking\<close>

lemma opened_custody:
  assumes v: "set_aside e valid (position_account e (a, vault, Unix time)) n w v"
    and keyed: "positions_keyed w" and new: "Map_Get (VaultsPositions w) (a, vault, Unix time) = None"
    and p: "pos_Amount p = n" "pos_Time p = time"
  shows "custody_kept e valid w (VaultsPositions_update (Map_Set (a, vault, Unix time) p) v)"
proof -
  let ?k = "(a, vault, Unix time)"
  let ?u = "VaultsPositions_update (Map_Set ?k p) v"
  have ok: "map_ok (VaultsPositions w)" using keyed by (simp add: positions_keyed_def keyed_def)
  { assume w: "valid (App w)"
    then have pos: "VaultsPositions ?u = Map_Set ?k p (VaultsPositions w)" "valid (App ?u)"
      using v by (simp_all add: set_aside_def)
    have "positions_keyed ?u"
      using keyed p(2) by (auto simp: positions_keyed_def keyed_def pos map_ok_Set)
    moreover have "surplus e w A \<le> surplus e ?u A" if "vault_account e A" for A
    proof -
      have "held e ?u A = held e w A + (if position_account e ?k = A then n else 0)"
        using new by (simp add: held_def pos cmap.total_put [OF ok] p(1))
      moreover have "balance e w A + (if A = position_account e ?k then n else 0) \<le> balance e ?u A"
        using v w that by (simp add: set_aside_def balance_def)
      ultimately show ?thesis by (simp add: surplus_def split: if_splits)
    qed
    ultimately have "valid (App ?u) \<and> positions_keyed ?u \<and> (\<forall>A. vault_account e A \<longrightarrow> surplus e w A \<le> surplus e ?u A)"
      using pos by blast }
  then show ?thesis by (simp add: custody_kept_def)
qed

text \<open>The amount is sent to the account, then the position is stored and the counters are raised.\<close>

lemma wp_openPosition:
  assumes w: "valid (App w)" "positions_keyed w" and v: "unspent e valid w v" and free: "\<not> vault_account e f"
    and new: "Map_Get (VaultsPositions w) (a, vault, Unix time) = None"
    and acct: "acct = position_account e (a, vault, Unix time)"
    and p: "\<And>i pr. pos_Amount (p i pr) = n \<and> pos_Time (p i pr) = time"
    and m: "\<And>i pr. settles (custody_kept e valid) (m i pr)"
  shows "wp (bnd (lift (NewCoins1 (denom e) n)) (\<lambda>c. thn (SendCoins e f acct c)
      (bnd (wrap_err msg (item_get Index)) (\<lambda>i.
       bnd (lift (GetPrincipalAmountRoundedDown n i)) (\<lambda>pr.
       thn (modify (VaultsPositions_update (Map_Set (a, vault, Unix time) (p i pr)))) (m i pr))))))
    (\<lambda>_. custody_kept e valid w) (\<lambda>r u. r = None \<or> custody_kept e valid w u) v" (is "wp _ ?Q ?E v")
proof (cases "NewCoins1 (denom e) n")
  case (Ok c)
  have amount: "AmountOf c (denom e) = n" using coins_of(2) [OF Ok] by simp
  have opened: "wp (thn (modify (VaultsPositions_update (Map_Set (a, vault, Unix time) (p i pr)))) (m i pr)) ?Q ?E u"
    if u: "set_aside e valid acct n w u" for i pr u
    using custody_world.settles_after [OF opened_custody [OF u [unfolded acct] w(2) new] m] p
    by (simp add: wp_thn wp_modify)
  have stored: "wp (bnd (wrap_err msg (item_get Index)) (\<lambda>i. bnd (lift (GetPrincipalAmountRoundedDown n i)) (\<lambda>pr.
      thn (modify (VaultsPositions_update (Map_Set (a, vault, Unix time) (p i pr)))) (m i pr)))) ?Q ?E u"
    if u: "set_aside e valid acct n w u" for u
    using opened [OF u] unspent_custody [OF set_aside_unspent [OF u coins_of(3) [OF Ok]]]
    by (auto simp: wp_bnd wp_lift wp_wrap_err wp_item_get split: option.split outcome.split)
  show ?thesis
    unfolding Ok wp_bnd [of "lift (Ok c)"] wp_lift outcome.case wp_thn [of "SendCoins _ _ _ _"]
    by (intro wp_conseq [OF set_aside_receive [OF w(1) v free coins_of(1) [OF Ok], unfolded amount]])
      (auto intro: stored unspent_custody)
qed (simp_all add: wp_simps NewCoins1_def split: if_splits)

lemma settles_Lock:
  assumes free: "\<And>a. StringToBytes e signer = Some a \<Longrightarrow> \<not> vault_account e a"
  shows "settles (custody_kept e valid) (Lock e signer vault msg)"
  unfolding settles_def
proof
  fix w
  show "wp (Lock e signer vault msg) (\<lambda>_. custody_kept e valid w) (\<lambda>r v. r = None \<or> custody_kept e valid w v) w"
  proof (cases "valid (App w) \<and> positions_keyed w")
    case True
    show ?thesis
      unfolding Lock_def
    proof (rule settles_run [OF settles_custody [OF vault.settles_checkLock]], clarify, goal_cases)
      case (1 a n x y z t)
      then have c: "StringToBytes e signer = Some a" "(x, y, z) = (a, vault, Unix (BlockTime w))"
          "Map_Get (VaultsPositions w) (a, vault, Unix (BlockTime w)) = None" "t = w"
        using checkLock_Ok by blast+
      let ?n = "ToUserVaultPositionModuleAccount signer vault (Unix (BlockTime w))"
      have acct: "NewModuleAddress e ?n = position_account e (a, vault, Unix (BlockTime w))"
        using account_of [of signer "position_entry_of ((a, vault, Unix (BlockTime w)), 
          \<lparr>pos_Principal = 0, pos_Index = 0, pos_Amount = 0, pos_Time = BlockTime w\<rparr>)"] c(1)
        by (simp add: pos_key_def)
      have quiet: "unspent e valid w (App_update (account_SetModuleAccount e ?n) w)"
        using calls by (intro vault.rel_quiet) (simp add: guarded_calls_def)
      show ?case
        unfolding c(2,4) wp_bnd [of "gets _"] wp_gets Let_def wp_thn [of "modify _"] wp_modify
        by (rule wp_openPosition [OF conjunct1 [OF True] conjunct2 [OF True] quiet free [OF c(1)] c(3) acct])
          (simp, intro settles_custody vault.settles_basic vault.settles_addTotalFlexible vault.settles_counters)
    qed
  qed (auto simp: custody_kept_def wp_def split: prod.split outcome.split)
qed

subsection \<open>The end of season one\<close>

lemma custody_BeginBlocker:
  assumes "BeginBlocker e w = (r, v)"
  shows "custody_kept e valid w v"
proof -
  have flag: "custody_kept e valid u v \<longleftrightarrow> custody_kept e valid u v'"
    if "v = v'\<lparr>VaultsSeasonOneEnded := Some True\<rparr>" for u v v' :: "'b world"
    unfolding that by (simp add: custody_kept_def surplus_def held_def balance_def positions_keyed_def keyed_def)
  have ended: "settles (custody_kept e valid) (endVaultsSeasonOne e)"
    unfolding endVaultsSeasonOne_def by (intro custody_world.settles_control settles_unlock)
  obtain q u where run: "endVaultsSeasonOne e w = (q, u)" by fastforce
  then have "is_Ok q \<Longrightarrow> custody_kept e valid w u" using settles_Ok [OF ended] by (cases q) simp_all
  then show ?thesis
    using assms flag custody_world.rel_refl [of e valid w] run unfolding BeginBlocker_cases
    by (auto split: if_splits)
qed

end

subsection \<open>A chain on which nobody signs for the account of a position\<close>

text \<open>The messages that take coins from their signer.\<close>

fun debited :: "message \<Rightarrow> string option" where
  "debited (MsgTransfer signer amount chain token recipient) = Some signer"
| "debited (MsgLock signer vault amount) = Some signer"
| "debited m = None"

definition signed_by_user :: "'b env \<Rightarrow> message \<Rightarrow> bool" where
  "signed_by_user e m \<longleftrightarrow> (case debited m of None \<Rightarrow> True | Some s \<Rightarrow>
     (case StringToBytes e s of None \<Rightarrow> True | Some a \<Rightarrow> \<not> vault_account e a))"

inductive user_step :: "'b env \<Rightarrow> ('b \<Rightarrow> bool) \<Rightarrow> 'b world \<Rightarrow> 'b world \<Rightarrow> bool" for e valid where
  user_message: "signed_by_user e m \<Longrightarrow> RegisterServices e m w = (Ok u, v) \<Longrightarrow> user_step e valid w v"
| user_begin_block: "BeginBlocker e w = (r, v) \<Longrightarrow> user_step e valid w v"
| user_packet_failed: "AddAmountToRetry e cdc pk w = (r, v) \<Longrightarrow> (\<And>p. r \<noteq> Panic p) \<Longrightarrow> user_step e valid w v"
| user_other_modules: "foreign_steps e valid (vault_account e) w v \<Longrightarrow> user_step e valid w v"
| user_next_block: "BlockTime w \<le> t \<Longrightarrow> user_step e valid w (w\<lparr>BlockTime := t\<rparr>)"

lemma user_chain_step: "user_step e valid w v \<Longrightarrow> chain_step e w v"
  by (cases rule: user_step.cases) (auto intro: chain_step.intros foreign_module_steps)

context vault_custody
begin

lemma settles_message:
  assumes "signed_by_user e m"
  shows "settles (custody_kept e valid) (RegisterServices e m)"
proof (cases m)
  case (MsgTransfer s n c t r)
  with assms show ?thesis
    by (auto simp: signed_by_user_def intro!: settles_custody vault.settles_portal_Transfer calls)
next
  case (MsgLock s v n)
  with assms show ?thesis by (auto simp: signed_by_user_def intro!: settles_Lock)
qed (auto intro: settles_Unlock settles_custody vault.settles_ClaimYield vault.settles_authority
    vault.settles_portal_Deliver vault.settles_owner vault.settles_vaults_SetPausedState calls)

lemma custody_step:
  assumes "user_step e valid w v"
  shows "custody_kept e valid w v"
  using assms
proof cases
  case (user_message m u)
  from settles_Ok [OF settles_message [OF user_message(1)] user_message(2)] show ?thesis .
next
  case (user_begin_block r)
  then show ?thesis by (rule custody_BeginBlocker)
next
  case (user_packet_failed cdc pk r)
  have "settles (custody_kept e valid) (AddAmountToRetry e cdc pk)"
    by (rule settles_custody) (rule vault.settles_AddAmountToRetry)
  from settlesD [OF this, of w] user_packet_failed show ?thesis
    by (cases r) (auto simp: wp_def)
next
  case user_other_modules
  then show ?thesis by (intro unspent_custody vault.foreign_rel)
next
  case (user_next_block t)
  show ?thesis unfolding user_next_block(1)
    by (simp add: custody_kept_def surplus_def held_def balance_def positions_keyed_def keyed_def)
qed

lemma custody_reach: "(user_step e valid)\<^sup>*\<^sup>* w v \<Longrightarrow> custody_kept e valid w v"
  by (induction rule: rtranclp_induct) (auto intro: custody_world.rel_refl custody_world.rel_trans custody_step)

end

definition solvent :: "'b env \<Rightarrow> 'b world \<Rightarrow> bool" where
  "solvent e w \<longleftrightarrow> (\<forall>A. vault_account e A \<longrightarrow> held e w A \<le> balance e w A)"

text \<open>It is a fair start: a store without positions is solvent.\<close>

lemma no_positions_solvent:
  assumes "bank_env e valid" "valid (App w)" "VaultsPositions w = []"
  shows "solvent e w" "positions_keyed w"
  using bank_keeper.balance_nonneg [OF bank_env.bank_contract [OF assms(1)] assms(2)] assms(3)
  by (simp_all add: solvent_def held_def balance_def positions_keyed_def keyed_def map_ok_def)

subsection \<open>A keeper with these accounts\<close>

text \<open>The keeper of the tests, with the names of accounts as their addresses.\<close>

definition named_env :: "mock_app env" where
  "named_env = test_env\<lparr>NewModuleAddress := string_bytes, bank_MintCoins := mock_MintCoins string_bytes,
     bank_BurnCoins := mock_BurnCoins string_bytes, account_SetModuleAccount := mock_SetModuleAccount string_bytes\<rparr>"

lemma position_name: "length (ToUserVaultPositionModuleAccount s v t) = 20 \<or>
    23 \<le> length (ToUserVaultPositionModuleAccount s v t)"
  by (simp add: ToUserVaultPositionModuleAccount_def StakedVaultName_def)

lemma named_own:
  assumes "length s < 20 \<or> length s = 22"
  shows "\<not> vault_account named_env (string_bytes s)"
proof
  assume "vault_account named_env (string_bytes s)"
  then obtain a v t where "string_bytes (ToUserVaultPositionModuleAccount (bytes_string a) v t) = string_bytes s"
    by (auto simp: vault_account_def position_account_def named_env_def test_env_def)
  then have "length (ToUserVaultPositionModuleAccount (bytes_string a) v t) = length s"
    unfolding string_bytes_def by (rule map_eq_imp_length_eq)
  with position_name [of "bytes_string a" v t] assms show False by linarith
qed

lemma named_calls: "guarded_calls named_env mock_valid guarded"
  unfolding guarded_calls_def named_env_def test_env_def
  by (auto simp: settles_def wp_simps quiet_def mock_SetModuleAccount_def mock_valid_def mock_GetBalance_def
      balance_of_def intro: foreign_steps.intros)

interpretation named_custody: vault_custody named_env mock_valid
proof (intro vault_custody.intro bank_env.intro vault_custody_axioms.intro)
  show "bank_keeper (bank_GetBalance named_env) (bank_GetSupply named_env) (bank_MintCoins named_env)
      (bank_BurnCoins named_env) (bank_Move named_env) (NewModuleAddress named_env) mock_valid"
    unfolding named_env_def test_env_def env.simps by (rule mock_bank.bank_keeper_axioms)
  have own: "NewModuleAddress named_env = string_bytes" by (simp add: named_env_def)
  show "\<not> vault_account named_env (ModuleAddress named_env)" "\<not> vault_account named_env (YieldAddress named_env)"
      "\<not> vault_account named_env (FlexibleVaultAddress named_env)"
    by (simp_all add: ModuleAddress_def YieldAddress_def FlexibleVaultAddress_def own named_own ModuleName_def
        YieldName_def FlexibleVaultName_def)
  show "\<exists>t. BytesToString named_env a = Some t \<and> ToLower t = ToLower s" if "StringToBytes named_env s = Some a" for s a
    using that by (auto simp: named_env_def test_env_def bytes_string_bytes split: if_splits)
qed (rule named_calls)

subsection \<open>A concrete run\<close>

text \<open>Two users lock, one in each vault; season one ends and the Flexible position is paid back.\<close>

definition staked_world :: "mock_app world" where
  "staked_world = snd (Lock named_env ''a'' STAKED (Some 100) test_world)"

definition both_world :: "mock_app world" where
  "both_world = snd (Lock named_env ''b'' FLEXIBLE (Some 200) staked_world)"

definition ended_world :: "mock_app world" where
  "ended_world = snd (BeginBlocker named_env (both_world\<lparr>BlockTime := 2000 * 10 ^ 9\<rparr>))"

lemma named_lock:
  assumes "is_Ok (fst (Lock named_env [c] vault n w))"
  shows "user_step named_env mock_valid w (snd (Lock named_env [c] vault n w))"
proof (rule user_message)
  have "fst (Lock named_env [c] vault n w) = Ok ()"
    using assms by (cases "fst (Lock named_env [c] vault n w)") auto
  from run_of [OF this] show "RegisterServices named_env (MsgLock [c] vault n) w = (Ok (), snd (Lock named_env [c] vault n w))"
    by simp
  have "\<not> vault_account named_env (string_bytes [c])" by (rule named_own) simp
  then show "signed_by_user named_env (MsgLock [c] vault n)"
    by (simp add: signed_by_user_def named_env_def test_env_def)
qed

lemma staked_step: "user_step named_env mock_valid test_world staked_world"
  unfolding staked_world_def by (rule named_lock) code_simp

lemma staked_reach: "(user_step named_env mock_valid)\<^sup>*\<^sup>* test_world staked_world"
  using staked_step by blast

lemma ended_reach: "(user_step named_env mock_valid)\<^sup>*\<^sup>* test_world ended_world"
proof -
  have "user_step named_env mock_valid staked_world both_world"
    unfolding both_world_def by (rule named_lock) code_simp
  moreover have "user_step named_env mock_valid both_world (both_world\<lparr>BlockTime := 2000 * 10 ^ 9\<rparr>)"
    by (rule user_next_block) code_simp
  moreover have "user_step named_env mock_valid (both_world\<lparr>BlockTime := 2000 * 10 ^ 9\<rparr>) ended_world"
    unfolding ended_world_def by (rule user_begin_block [OF prod.collapse [symmetric]])
  ultimately show ?thesis using staked_reach by (meson rtranclp.rtrancl_into_rtrancl)
qed

lemma test_solvent: "solvent named_env test_world" "positions_keyed test_world"
  by (rule no_positions_solvent [OF named_custody.bank_env_axioms test_valid]; simp add: test_world_def)+

subsection \<open>Solvency\<close>

text \<open>C2 (vaults_solvent): the vaults keep what they owe: on a chain where no account of a position signs a
  message and other modules leave these accounts alone, every account of a position always holds
  at least the sum of the positions it belongs to, whatever users lock and unlock, however the
  index moves, and also when the end of season one unlocks what it can.\<close>

theorem vaults_solvent:
  assumes "vault_custody e valid" "(user_step e valid)\<^sup>*\<^sup>* w v" "valid (App w)" "positions_keyed w" "solvent e w"
  shows "solvent e v \<and> (\<forall>k. held e v (position_account e k) \<le> balance e v (position_account e k))"
proof -
  have "solvent e v"
    using vault_custody.custody_reach [OF assms(1,2)] assms(3-5)
    by (fastforce simp: custody_kept_def solvent_def surplus_def)
  then show ?thesis by (auto simp: solvent_def vault_account_def)
qed

text \<open>What is left after the season: the Staked position, and the user of the Flexible one repaid.\<close>

lemma ended_positions:
  "VaultsPositions ended_world = [(([97], STAKED, 500),
     \<lparr>pos_Principal = 100, pos_Index = 10 ^ 12, pos_Amount = 100, pos_Time = 500 * 10 ^ 9\<rparr>)]"
  by code_simp

lemma vaults_solvent_witness:
  "solvent named_env ended_world \<and> held named_env ended_world (StakedVaultAddress named_env) = 100 \<and>
    balance named_env ended_world [98] = 500"
proof -
  have "position_account named_env ([97], STAKED, 500) = StakedVaultAddress named_env" by code_simp
  moreover have "balance named_env ended_world [98] = 500" by code_simp
  ultimately show ?thesis
    using vaults_solvent [OF named_custody.vault_custody_axioms ended_reach test_valid test_solvent(2,1)]
    by (simp add: held_def ended_positions)
qed

end
