(* ===== verification/Withdrawal.thy ===== *)
theory Withdrawal
  imports Solvency
begin

text \<open>
  What is locked can be withdrawn: with the accounts of positions solvent, an unlock from the
  Staked vault that passes its checks succeeds. The only other obstacle is the width of
  \<open>math.Int\<close>, so the numbers are assumed to leave room for the amount.
\<close>

subsection \<open>Programs that return\<close>

lemma wp_returns: "wp m Q (\<lambda>_ _. False) s \<longleftrightarrow> (\<exists>x t. m s = (Ok x, t) \<and> Q x t)"
  by (auto simp: wp_def split: prod.split outcome.split)

text \<open>The conversions return when the scaled amount is in the width, with results of this size.\<close>

lemma rounded_up_returns:
  assumes "0 \<le> a" "0 < i" "i \<le> 2 ^ 255" "a * 10 ^ 12 < 2 ^ 255"
  shows "\<exists>p. GetPrincipalAmountRoundedUp a i = Ok p \<and> 0 \<le> p \<and> p \<le> a * 10 ^ 12 + 1"
proof -
  let ?x = "a * 10 ^ 12"
  have x: "0 \<le> ?x" "0 \<le> ?x + i - 1" using assms(1,2) by simp_all
  have fit: "fits ?x" "fits (?x + i)" "fits (?x + i - 1)" using assms x by (simp_all add: fits_def)
  have "?x div i \<le> ?x" using zdiv_mono2 [OF x(1) zero_less_one, of i] assms(2) by simp
  then have "(?x + i - 1) div i \<le> ?x + 1" using rounding_gap(2) [OF assms(2), of ?x] by linarith
  moreover have "0 \<le> (?x + i - 1) div i" using x assms(2) by (simp add: pos_imp_zdiv_nonneg_iff)
  ultimately show ?thesis using fit x assms(2) by (simp add: RoundedUp_Ok sdiv_nonneg)
qed

lemma rounded_down_returns:
  assumes "0 \<le> a" "0 < i" "a * 10 ^ 12 < 2 ^ 255"
  shows "\<exists>p. GetPrincipalAmountRoundedDown a i = Ok p \<and> 0 \<le> p \<and> p \<le> a * 10 ^ 12 \<and> p = (a * 10 ^ 12) div i"
proof -
  have x: "0 \<le> a * 10 ^ 12" using assms(1) by simp
  have "fits (a * 10 ^ 12)" using assms x by (simp add: fits_def)
  moreover have "a * 10 ^ 12 div i \<le> a * 10 ^ 12" using zdiv_mono2 [OF x zero_less_one, of i] assms(2) by simp
  ultimately show ?thesis
    using x assms(2) by (simp add: RoundedDown_Ok sdiv_nonneg pos_imp_zdiv_nonneg_iff)
qed

subsection \<open>Transfers that return\<close>

text \<open>An account leaves room for an amount: neither its principal nor a balance of it overflows.\<close>

definition room :: "'b env \<Rightarrow> 'b world \<Rightarrow> addr \<Rightarrow> int \<Rightarrow> bool" where
  "room e w A n \<longleftrightarrow> \<bar>principal_of w A\<bar> + n < 2 ^ 256 \<and> (\<forall>d. bank_GetBalance e (App w) A d + n < 2 ^ 256)"

lemma room_less: "room e w A n \<Longrightarrow> m \<le> n \<Longrightarrow> room e w A m"
  unfolding room_def by (meson add_left_mono le_less_trans)

lemma room_after:
  assumes "room e w A n" "\<bar>principal_of v A\<bar> \<le> \<bar>principal_of w A\<bar> + k"
    "\<And>d. bank_GetBalance e (App v) A d \<le> bank_GetBalance e (App w) A d + k" "m + k \<le> n"
  shows "room e v A m"
proof -
  have "bank_GetBalance e (App v) A d + m < 2 ^ 256" for d
    using assms(1) [unfolded room_def, THEN conjunct2, rule_format, of d] assms(3) [of d] assms(4) by linarith
  moreover have "\<bar>principal_of v A\<bar> + m < 2 ^ 256"
    using assms(1) [unfolded room_def, THEN conjunct1] assms(2,4) by linarith
  ultimately show ?thesis by (simp add: room_def)
qed

text \<open>Everything of the store a withdrawal relies on and a transfer leaves alone.\<close>

definition withdrawal_view :: "'b world \<Rightarrow> _" where
  "withdrawal_view w = (VaultsPositions w, VaultsStats w, Index w, Stats w = None)"

lemma wp_restriction_returns:
  assumes i: "Index w = Some i" "0 < i" "i \<le> 2 ^ 255" and stats: "Stats w \<noteq> None"
    and users: "f \<notin> {ModuleAddress e, YieldAddress e}" "t \<notin> {ModuleAddress e, YieldAddress e}" "f \<noteq> t"
    and y: "0 < AmountOf c (denom e)" "AmountOf c (denom e) * 10 ^ 12 < 2 ^ 255"
    and room: "room e w f (AmountOf c (denom e) * 10 ^ 12 + 1)" "room e w t (AmountOf c (denom e) * 10 ^ 12 + 1)"
  shows "wp (SendRestrictionFn e f t c) (\<lambda>r v. withdrawal_view v = withdrawal_view w \<and>
      (\<forall>A. \<bar>principal_of v A\<bar> \<le> \<bar>principal_of w A\<bar> + AmountOf c (denom e) * 10 ^ 12 + 1))
    (\<lambda>_ _. False) w"
proof -
  obtain p where p: "GetPrincipalAmountRoundedUp (AmountOf c (denom e)) i = Ok p" "0 \<le> p"
      "p \<le> AmountOf c (denom e) * 10 ^ 12 + 1"
    using rounded_up_returns [of "AmountOf c (denom e)" i] i y by auto
  have mv: "movement_of e f t = Mirrored" using users by (simp add: movement_of_def)
  have fit: "fits (principal_of w f - p)" "fits (principal_of w t + p)"
    using room [unfolded room_def, THEN conjunct1] p(2,3) unfolding fits_def by linarith+
  obtain s where s: "Stats w = Some s" using stats by blast
  have nz: "AmountOf c (denom e) \<noteq> 0" using y by simp
  show ?thesis
    using p fit users s i(1)
    by (auto simp: restriction_mirrored [OF mv nz] debitSender_def creditRecipient_def wp_simps
        Int_Sub_def Int_Add_def checked_def principal_of_def withdrawal_view_def)
qed

context bank_env
begin

lemma wp_SendCoins_returns:
  assumes w: "valid (App w)" and i: "Index w = Some i" "0 < i" "i \<le> 2 ^ 255" and stats: "Stats w \<noteq> None"
    and users: "f \<notin> {ModuleAddress e, YieldAddress e}" "t \<notin> {ModuleAddress e, YieldAddress e}" "f \<noteq> t"
    and y: "0 < y" "y * 10 ^ 12 < 2 ^ 255" "y \<le> balance e w f"
    and room: "room e w f (y * 10 ^ 12 + 1)" "room e w t (y * 10 ^ 12 + 1)"
  shows "wp (SendCoins e f t [(denom e, y)]) (\<lambda>_ v. valid (App v) \<and> withdrawal_view v = withdrawal_view w \<and>
      (\<forall>A. \<bar>principal_of v A\<bar> \<le> \<bar>principal_of w A\<bar> + y * 10 ^ 12 + 1) \<and>
      (\<forall>A d. bank_GetBalance e (App v) A d = bank_GetBalance e (App w) A d
         - (if A = f \<and> d = denom e then y else 0) + (if A = t \<and> d = denom e then y else 0)))
    (\<lambda>_ _. False) w"
proof -
  let ?c = "[(denom e, y)]"
  have c: "valid_coins ?c" "\<And>d. AmountOf ?c d = (if d = denom e then y else 0)"
    using y(1) by (auto simp: valid_coins_def map_ok_def AmountOf_def)
  obtain r v1 where r: "SendRestrictionFn e f t ?c w = (Ok r, v1)" and v1: "withdrawal_view v1 = withdrawal_view w"
      "\<And>A. \<bar>principal_of v1 A\<bar> \<le> \<bar>principal_of w A\<bar> + y * 10 ^ 12 + 1"
    using wp_restriction_returns [OF i stats users, of ?c] y room
    unfolding wp_returns c(2) by auto
  have t: "r = t" by (rule restriction_recipient [OF r])
  note bal = bank.balance_nonneg [OF w]
  have "fst (bank_Move e f t ?c (App w)) = Ok ()"
  proof (rule bank.move_covered [OF w c(1)])
    show "AmountOf ?c d \<le> bank_GetBalance e (App w) f d" for d
      using y(3) bal [of f d] by (simp add: c(2) balance_def)
    show "fits (bank_GetBalance e (App w) t d + AmountOf ?c d)" for d
      using room(2) [unfolded room_def, THEN conjunct2, rule_format, of d] bal [of t d] y(1)
      by (auto simp: c(2) fits_def)
    show "fits (bank_GetBalance e (App w) f d)" for d
      using room(1) [unfolded room_def, THEN conjunct2, rule_format, of d] bal [of f d] y(1)
      by (simp add: fits_def)
  qed
  then obtain b where m: "bank_Move e f t ?c (App w) = (Ok (), b)" by (metis fst_conv surj_pair)
  have "SendCoins e f t ?c w = (Ok (), v1\<lparr>App := b\<rparr>)" using r m t by (auto simp: SendCoins_Ok)
  with v1 bank.move_facts [OF m w c(1)] show ?thesis
    unfolding wp_returns by (auto simp: c(2) withdrawal_view_def)
qed

end

subsection \<open>One position\<close>

text \<open>What an account holds for positions is at least what each of them is for.\<close>

lemma held_position:
  assumes "positions_ok w" "Map_Get (VaultsPositions w) k = Some p" "position_account e k = A"
  shows "pos_Amount p \<le> held e w A"
proof -
  let ?f = "\<lambda>k p. if position_account e k = A then pos_Amount p else 0"
  have ok: "map_ok (VaultsPositions w)" using assms(1) by (simp add: positions_ok_def)
  have "0 \<le> total_of ?f (Map_Remove k (VaultsPositions w))"
  proof (rule total_nonneg)
    fix j q assume "(j, q) \<in> set (Map_Remove k (VaultsPositions w))"
    then have "Map_Get (VaultsPositions w) j = Some q"
      using cmap.in_entries_iff [OF map_ok_Remove [OF ok], of j q k] by (auto split: if_splits)
    then have "0 < pos_Amount q"
      using assms(1) unfolding positions_ok_def position_ok_def by fastforce
    then show "0 \<le> ?f j q" by simp
  qed
  then show ?thesis using assms(2,3) by (simp add: held_def cmap.total_del [OF ok])
qed

lemma reducePosition_returns:
  assumes "fits (pos_Principal pos)" "fits (pos_Amount pos)" "0 \<le> tk" "0 \<le> pr"
    "pr \<le> pos_Principal pos"
  shows "reducePosition pos tk pr w = (Ok (), VaultsPositions_update (reduced pos tk pr) w)"
  using assms fits_between [of "pos_Principal pos" "pos_Principal pos - pr"]
    fits_between [of "pos_Amount pos" "pos_Amount pos - tk"]
  by (simp add: reducePosition_def reduced_def Let_def Int_Sub_def checked_def bnd_run_simps run_simps)

text \<open>The state of a withdrawal from the Staked vault between two turns of the loop.\<close>

definition withdrawing ::
    "'b env \<Rightarrow> ('b \<Rightarrow> bool) \<Rightarrow> 'b world \<Rightarrow> addr \<Rightarrow> int \<Rightarrow> position_entry list \<Rightarrow> int \<times> int \<Rightarrow> 'b world \<Rightarrow> bool" where
  "withdrawing e valid w a n ps = (\<lambda>(rem, removed) v.
     valid (App v) \<and> positions_ok v \<and> held e v (StakedVaultAddress e) \<le> balance e v (StakedVaultAddress e) \<and>
     VaultsStats v = VaultsStats w \<and> Index v = Index w \<and> Stats v \<noteq> None \<and>
     0 \<le> rem \<and> rem \<le> n \<and> 0 \<le> removed \<and> removed \<le> (n - rem) * 10 ^ 12 \<and>
     balance e v a = balance e w a + (n - rem) \<and> room e v a (rem * 10 ^ 12 + int (length ps)) \<and>
     room e v (StakedVaultAddress e) (rem * 10 ^ 12 + int (length ps)) \<and>
     distinct (map pos_key ps) \<and>
     (\<forall>p\<in>set ps. pos_Address p = a \<and> pos_Vault p = STAKED \<and> fits (pos_Principal p) \<and> fits (pos_Amount p) \<and>
        Map_Get (VaultsPositions v) (pos_key p) = Some (pos_value p)))"

text \<open>A turn that takes what it can keeps the state of the withdrawal.\<close>

lemma withdrawing_turn:
  assumes I: "withdrawing e valid w a n (p # ps) (rem, removed) v"
    and run: "unlockPosition e signer STAKED a p (rem, removed) v = (Ok (rem - taken rem p, removed + pr),
      v1\<lparr>VaultsPositions := reduced p (taken rem p) pr (VaultsPositions v1), Events := evs\<rparr>)"
    and rem: "rem \<noteq> 0" and pr: "0 \<le> pr" "pr \<le> taken rem p * 10 ^ 12"
    and user: "a \<noteq> StakedVaultAddress e"
    and v1: "valid (App v1)" "withdrawal_view v1 = withdrawal_view v"
      "\<And>A. \<bar>principal_of v1 A\<bar> \<le> \<bar>principal_of v A\<bar> + taken rem p * 10 ^ 12 + 1"
      "\<And>A d. bank_GetBalance e (App v1) A d = bank_GetBalance e (App v) A d
         - (if A = StakedVaultAddress e \<and> d = denom e then taken rem p else 0)
         + (if A = a \<and> d = denom e then taken rem p else 0)"
  shows "withdrawing e valid w a n ps (rem - taken rem p, removed + pr)
    (v1\<lparr>VaultsPositions := reduced p (taken rem p) pr (VaultsPositions v1), Events := evs\<rparr>)"
    (is "withdrawing _ _ _ _ _ _ _ ?v")
proof -
  let ?S = "StakedVaultAddress e" and ?t = "taken rem p"
  have ok: "positions_ok v" and pos: "pos_Address p = a" "pos_Vault p = STAKED"
      "Map_Get (VaultsPositions v) (pos_key p) = Some (pos_value p)" and r: "0 \<le> rem"
    using I by (auto simp: withdrawing_def)
  note turn = unlock_turn [OF run ok r pos]
  have p: "0 < pos_Amount p" using ok pos(3) unfolding positions_ok_def position_ok_def pos_value_def by fastforce
  have t: "0 < ?t" "?t \<le> rem" "?t \<le> pos_Amount p" using r rem p by (auto simp: taken_def)
  have view: "VaultsPositions ?v = reduced p ?t pr (VaultsPositions v)" "VaultsStats ?v = VaultsStats v"
      "Index ?v = Index v" "Stats ?v = None \<longleftrightarrow> Stats v = None" "App ?v = App v1" "principal_of ?v A = principal_of v1 A" for A
    using v1(2) by (simp_all add: withdrawal_view_def principal_of_def)
  have key: "position_account e (pos_key p) = ?S"
    by (simp add: position_account_def pos_key_def pos(2) ToUserVaultPositionModuleAccount_def StakedVaultAddress_def)
  have "held e ?v ?S = held e v ?S - ?t"
    using ok t(3) key by (simp only: held_def view(1)) (simp add: reduced_total [OF _ pos(3)] positions_ok_def pos_value_def rest_value_def)
  moreover have "balance e ?v ?S = balance e v ?S - ?t" using v1(4) user by (auto simp: balance_def)
  moreover have "balance e ?v a = balance e v a + ?t" using v1(4) user by (auto simp: balance_def)
  moreover have "room e ?v A ((rem - ?t) * 10 ^ 12 + int (length ps))"
    if "room e v A (rem * 10 ^ 12 + int (length (p # ps)))" for A
  proof (rule room_after [OF that])
    show "\<bar>principal_of ?v A\<bar> \<le> \<bar>principal_of v A\<bar> + (?t * 10 ^ 12 + 1)" using v1(3) [of A] by (simp add: view(6))
    show "bank_GetBalance e (App ?v) A d \<le> bank_GetBalance e (App v) A d + (?t * 10 ^ 12 + 1)" for d
      unfolding view(5) v1(4) [of A d] using t(1) by auto
  qed (simp add: algebra_simps)
  moreover have "pos_key q \<noteq> pos_key p" if "q \<in> set ps" for q
  proof -
    have "pos_key p \<notin> pos_key ` set ps" using I by (simp add: withdrawing_def)
    with that show ?thesis by (metis imageI)
  qed
  ultimately show ?thesis
    using I turn(1,5) view v1(1) pr t r by (auto simp: withdrawing_def algebra_simps simp del: split_paired_All)
qed

context bank_env
begin

text \<open>A turn that takes something sends it, stores what is left and goes on.\<close>

lemma turn_returns:
  assumes at: "pos_Vault p = STAKED" "fits (pos_Principal p)" "fits (pos_Amount p)"
    and t: "0 < taken rem p" and pr: "GetPrincipalAmountRoundedDown (taken rem p) (pos_Index p) = Ok pr"
      "0 \<le> pr" "pr \<le> pos_Principal p"
    and send: "SendCoins e (StakedVaultAddress e) a [(denom e, taken rem p)] v = (Ok (), v1)"
    and fit: "fits (removed + pr)" "fits (rem - taken rem p)"
  shows "unlockPosition e signer STAKED a p (rem, removed) v = (Ok (rem - taken rem p, removed + pr),
    v1\<lparr>VaultsPositions := reduced p (taken rem p) pr (VaultsPositions v1),
       Events := Events v1 @ [PositionUnlocked signer STAKED (pos_Index p) (taken rem p) pr]\<rparr>)"
proof -
  have rem: "rem \<noteq> 0" using t by (auto simp: taken_def split: if_splits)
  have red: "reducePosition p (taken rem p) pr v1
      = (Ok (), VaultsPositions_update (reduced p (taken rem p) pr) v1)"
    by (rule reducePosition_returns) (use at t pr in simp_all)
  have acct: "NewModuleAddress e (ToUserVaultPositionModuleAccount signer STAKED (Unix (pos_Time p)))
      = StakedVaultAddress e"
    by (simp add: ToUserVaultPositionModuleAccount_def StakedVaultAddress_def)
  show ?thesis
    using rem t fit
    by (simp add: unlockPosition_def Let_def taken_def [symmetric] pr(1) at(1) acct NewCoins1_def
        send red prog_simps Int_Add_def Int_Sub_def checked_def wrap_err_def emit_def catch_def)
qed

lemma wp_unlockPosition_returns:
  assumes I: "withdrawing e valid w a n (p # ps) (rem, removed) v"
    and i: "Index w = Some i" "0 < i" "i \<le> 2 ^ 255" and n: "n * 10 ^ 12 < 2 ^ 255"
    and users: "a \<notin> {ModuleAddress e, YieldAddress e, StakedVaultAddress e}"
      "StakedVaultAddress e \<notin> {ModuleAddress e, YieldAddress e}"
  shows "wp (unlockPosition e signer STAKED a p (rem, removed)) (withdrawing e valid w a n ps) (\<lambda>_ _. False) v"
proof (cases "rem = 0")
  case True
  with I show ?thesis
    by (auto simp: unlockPosition_zero wp_basic withdrawing_def intro: room_less)
next
  case False
  let ?S = "StakedVaultAddress e" and ?t = "taken rem p"
  have pos: "pos_Address p = a" "pos_Vault p = STAKED" "Map_Get (VaultsPositions v) (pos_key p) = Some (pos_value p)"
      "fits (pos_Principal p)" "fits (pos_Amount p)" and ok: "positions_ok v" and v: "valid (App v)"
    and rem: "0 < rem" "rem \<le> n" and idx: "Index v = Some i" "Stats v \<noteq> None"
    and room: "room e v a (rem * 10 ^ 12 + int (length (p # ps)))" "room e v ?S (rem * 10 ^ 12 + int (length (p # ps)))"
    and removed: "0 \<le> removed" "removed \<le> (n - rem) * 10 ^ 12"
    using I False i by (auto simp: withdrawing_def)
  have pok: "position_ok (pos_key p) (pos_value p)" using ok pos(3) unfolding positions_ok_def by blast
  then have p: "0 < pos_Amount p" "0 < pos_Index p" "(pos_Amount p * 10 ^ 12) div pos_Index p \<le> pos_Principal p"
    by (auto simp: position_ok_def pos_value_def split: prod.splits)
  have t: "0 < ?t" "?t \<le> rem" "?t \<le> pos_Amount p" "?t * 10 ^ 12 \<le> rem * 10 ^ 12" using rem p(1) by (auto simp: taken_def)
  obtain pr where pr: "GetPrincipalAmountRoundedDown ?t (pos_Index p) = Ok pr" "0 \<le> pr" "pr \<le> ?t * 10 ^ 12"
      "pr = (?t * 10 ^ 12) div pos_Index p"
    using rounded_down_returns [of ?t "pos_Index p"] t p(2) n rem(2) by fastforce
  have "pr \<le> (pos_Amount p * 10 ^ 12) div pos_Index p"
    unfolding pr(4) using t(3) p(2) by (intro zdiv_mono1) simp_all
  with p(3) have full: "pr \<le> pos_Principal p" by simp
  have key: "position_account e (pos_key p) = ?S"
    by (simp add: position_account_def pos_key_def pos(2) ToUserVaultPositionModuleAccount_def StakedVaultAddress_def)
  have enough: "?t \<le> balance e v ?S"
    using held_position [OF ok pos(3) key] I t(3) by (simp add: withdrawing_def pos_value_def)
  obtain v1 where send: "SendCoins e ?S a [(denom e, ?t)] v = (Ok (), v1)"
    and v1: "valid (App v1)" "withdrawal_view v1 = withdrawal_view v"
      "\<And>A. \<bar>principal_of v1 A\<bar> \<le> \<bar>principal_of v A\<bar> + ?t * 10 ^ 12 + 1"
      "\<And>A d. bank_GetBalance e (App v1) A d = bank_GetBalance e (App v) A d
         - (if A = ?S \<and> d = denom e then ?t else 0) + (if A = a \<and> d = denom e then ?t else 0)"
    using wp_SendCoins_returns [OF v idx(1) i(2,3) idx(2) users(2) _ _ t(1) _ enough room_less [OF room(2)] room_less [OF room(1)]]
      users(1) t(4) n rem unfolding wp_returns by auto
  have fit: "fits (removed + pr)" "fits (rem - ?t)" using removed pr(2,3) t n rem by (auto simp: fits_def)
  note run = turn_returns [OF pos(2,4,5) t(1) pr(1,2) full send fit, of signer]
  show ?thesis
    using withdrawing_turn [OF I run False pr(2,3) _ v1] users(1) run by (simp add: wp_def)
qed

end

subsection \<open>The whole withdrawal\<close>

lemma sum_amounts_returns:
  assumes "\<And>p. p \<in> set ps \<Longrightarrow> 0 \<le> pos_Amount p" "0 \<le> t" "fits (t + positions_total ps)"
  shows "sum_amounts ps t = Ok (t + positions_total ps)"
  using assms
proof (induction ps arbitrary: t)
  case (Cons p ps)
  have "0 \<le> positions_total ps"
    unfolding positions_total_def using Cons.prems(1) by (intro sum_list_nonneg) auto
  then have "fits (t + pos_Amount p)"
    using Cons.prems by (intro fits_between [OF Cons.prems(3)]) (auto simp: positions_total_def)
  with Cons show ?case by (simp add: positions_total_def Int_Add_def checked_def add.assoc)
qed (simp add: positions_total_def)

text \<open>The numbers of the store leave room for withdrawing \<open>n\<close>.\<close>

definition withdrawal_fits :: "'b env \<Rightarrow> 'b world \<Rightarrow> addr \<Rightarrow> int \<Rightarrow> bool" where
  "withdrawal_fits e w a n \<longleftrightarrow> (let ps = GetVaultsPositionsByProviderAndVault a STAKED w in
     n * 10 ^ 12 < 2 ^ 255 \<and> fits (locked_amount a STAKED w) \<and>
     (\<forall>p\<in>set ps. fits (pos_Principal p) \<and> fits (pos_Amount p)) \<and>
     room e w a (n * 10 ^ 12 + int (length ps)) \<and> room e w (StakedVaultAddress e) (n * 10 ^ 12 + int (length ps)) \<and>
     (case Index w of None \<Rightarrow> False | Some i \<Rightarrow> 0 < i \<and> i \<le> 2 ^ 255) \<and> Stats w \<noteq> None \<and>
     (case VaultsStats w of None \<Rightarrow> False
      | Some s \<Rightarrow> \<bar>StakedTotalPrincipal s\<bar> + n * 10 ^ 12 < 2 ^ 256))"

lemma checkUnlock_returns:
  assumes a: "StringToBytes e signer = Some a" and n: "0 < n" "n \<le> locked_amount a STAKED w"
    and min: "vaultsMinimumUnlock e \<le> n \<or> n = locked_amount a STAKED w"
    and ok: "positions_ok w" and fit: "fits (locked_amount a STAKED w)"
  shows "checkUnlock e signer STAKED (Some n) w = (Ok (a, n, GetVaultsPositionsByProviderAndVault a STAKED w), w)"
proof -
  have "0 \<le> pos_Amount p" if "p \<in> set (GetVaultsPositionsByProviderAndVault a STAKED w)" for p
    using user_positions [OF positions_ok_keyed [OF ok] that] ok
    unfolding positions_ok_def position_ok_def pos_value_def by fastforce
  then have "sum_amounts (GetVaultsPositionsByProviderAndVault a STAKED w) 0 = Ok (locked_amount a STAKED w)"
    using sum_amounts_returns [of "GetVaultsPositionsByProviderAndVault a STAKED w" 0] fit
    by (simp add: user_positions_total)
  with a n min show ?thesis
    by (auto simp: checkUnlock_def bnd_run_simps run_simps from_option_def)
qed

context bank_env
begin

lemma unlock_returns:
  assumes a: "StringToBytes e signer = Some a" and n: "0 < n" "n \<le> locked_amount a STAKED w"
    and min: "vaultsMinimumUnlock e \<le> n \<or> n = locked_amount a STAKED w"
    and w: "valid (App w)" and ok: "positions_ok w" and fit: "withdrawal_fits e w a n"
    and funds: "held e w (StakedVaultAddress e) \<le> balance e w (StakedVaultAddress e)"
    and users: "a \<notin> {ModuleAddress e, YieldAddress e, StakedVaultAddress e}"
      "StakedVaultAddress e \<notin> {ModuleAddress e, YieldAddress e}"
  shows "\<exists>v. unlock e signer STAKED (Some n) w = (Ok (), v) \<and> balance e v a = balance e w a + n"
proof -
  let ?ps = "GetVaultsPositionsByProviderAndVault a STAKED w"
  obtain i s where i: "Index w = Some i" "0 < i" "i \<le> 2 ^ 255" and s: "VaultsStats w = Some s"
      "\<bar>StakedTotalPrincipal s\<bar> + n * 10 ^ 12 < 2 ^ 256"
    using fit by (auto simp: withdrawal_fits_def Let_def split: option.splits)
  have small: "n * 10 ^ 12 < 2 ^ 255" "fits (locked_amount a STAKED w)"
    using fit by (simp_all add: withdrawal_fits_def Let_def)
  note check = checkUnlock_returns [OF a n min ok small(2)]
  have "withdrawing e valid w a n ?ps (n, 0) w"
    using w ok funds fit n(1) user_positions [OF positions_ok_keyed [OF ok]]
      user_positions_distinct [OF positions_ok_keyed [OF ok]]
    by (auto simp: withdrawing_def withdrawal_fits_def Let_def)
  from wp_fold_prog [where I = "withdrawing e valid w a n" and E = "\<lambda>_ _. False", OF _ this]
  have "wp (fold_prog (unlockPosition e signer STAKED a) ?ps (n, 0)) (withdrawing e valid w a n []) (\<lambda>_ _. False) w"
    using wp_unlockPosition_returns [OF _ i small(1) users] by fastforce
  then obtain rem removed v where loop: "fold_prog (unlockPosition e signer STAKED a) ?ps (n, 0) w = (Ok (rem, removed), v)"
      and v: "withdrawing e valid w a n [] (rem, removed) v"
    unfolding wp_returns by auto
  have rem: "rem = 0" using unlock_loop_complete [OF check ok loop] by simp
  have "fits (StakedTotalPrincipal s - removed)" "VaultsStats v = Some s" "balance e v a = balance e w a + n"
    using v s rem by (auto simp: withdrawing_def fits_def)
  then have "wp (thn (if length (GetVaultsPositionsByProviderAndVault a STAKED v) = 0
            then wrap_err ''unable to decrement vault total users'' (DecrementVaultUsers STAKED) else ret ())
       (wrap_err ''unable to decrement vault total principal'' (DecrementVaultTotalPrincipal STAKED removed)))
     (\<lambda>_ u. balance e u a = balance e w a + n) (\<lambda>_ _. False) v"
    by (auto simp: balance_def wp_simps vault_counter_defs Int_Sub_def checked_def)
  then show ?thesis
    unfolding wp_returns unlock_def by (auto simp: bnd_def check loop rem gets_def)
qed

end

text \<open>C5 (staked_withdrawal): withdrawing is possible: on a chain where only users and other modules that leave the
  accounts of positions alone act, and which began solvent, in every state in which the
  positions are sound and unlocking is not paused, a user who asks for an amount that is locked in
  the Staked vault, of at least the minimum or all of it, gets exactly this amount paid out,
  provided the numbers of the store leave room for it in 256 bits.\<close>

theorem staked_withdrawal:
  assumes "vault_custody e valid" "(user_step e valid)\<^sup>*\<^sup>* w v" "valid (App w)" "positions_keyed w" "solvent e w"
    and "positions_ok v" "GetVaultsPaused v \<notin> {PAUSED_ALL, PAUSED_UNLOCK}" "withdrawal_fits e v a n"
    and "StringToBytes e signer = Some a" "\<not> vault_account e a" "a \<notin> {ModuleAddress e, YieldAddress e}"
    and "0 < n" "n \<le> locked_amount a STAKED v" "vaultsMinimumUnlock e \<le> n \<or> n = locked_amount a STAKED v"
  shows "\<exists>u. Unlock e signer STAKED (Some n) v = (Ok (), u) \<and> balance e u a = balance e v a + n \<and>
    locked_amount a STAKED u = locked_amount a STAKED v - n"
proof -
  have staked: "vault_account e (StakedVaultAddress e)"
    by (auto simp: vault_account_def position_account_def ToUserVaultPositionModuleAccount_def StakedVaultAddress_def)
  note own = vault_custody.own_accounts [OF assms(1)]
  have kept: "valid (App v)" "solvent e v"
    using vault_custody.custody_reach [OF assms(1,2)] assms(3-5)
    by (fastforce simp: custody_kept_def solvent_def surplus_def)+
  have "\<exists>u. unlock e signer STAKED (Some n) v = (Ok (), u) \<and> balance e u a = balance e v a + n"
    using kept staked own assms(10,11)
    by (intro bank_env.unlock_returns [OF vault_custody.axioms(1) [OF assms(1)] assms(9,12-14) _ assms(6,8)])
      (auto simp: solvent_def)
  then obtain u where u: "unlock e signer STAKED (Some n) v = (Ok (), u)" "balance e u a = balance e v a + n" by blast
  have "locked_amount a STAKED u = locked_amount a STAKED v - n"
    by (rule unlock_effect [OF u(1) assms(6)]) (use assms(9) in auto)
  moreover have "Unlock e signer STAKED (Some n) v = (Ok (), u)"
    using u(1) assms(7) by (simp add: Unlock_def bnd_run_simps)
  ultimately show ?thesis using u(2) by blast
qed

lemma staked_values:
  "VaultsPositions staked_world = [(([97], STAKED, 500),
     \<lparr>pos_Principal = 100, pos_Index = 10 ^ 12, pos_Amount = 100, pos_Time = 500 * 10 ^ 9\<rparr>)]"
  "Balances (App staked_world) = [([97], [(''uusdn'', 900)]), ([98], [(''uusdn'', 500)]),
     (StakedVaultAddress named_env, [(''uusdn'', 100)])]"
  "Principal staked_world = [([97], 900), ([98], 500), (StakedVaultAddress named_env, 100)]"
  by code_simp+

lemma staked_balances: "bank_GetBalance named_env (App staked_world) A d \<le> 1000"
  by (simp add: named_env_def test_env_def mock_GetBalance_def balance_of_def staked_values AmountOf_Cons AmountOf_def)

lemma staked_principal: "\<bar>principal_of staked_world A\<bar> \<le> 1000"
  by (simp add: principal_of_def staked_values get_or_def)

lemma staked_withdrawal_witness:
  "\<exists>u. Unlock named_env ''a'' STAKED (Some 60) staked_world = (Ok (), u) \<and>
    balance named_env u [97] = balance named_env staked_world [97] + 60 \<and>
    locked_amount [97] STAKED u = locked_amount [97] STAKED staked_world - 60"
proof (rule staked_withdrawal [OF named_custody.vault_custody_axioms staked_reach test_valid
      test_solvent(2,1)])
  show "positions_ok staked_world"
    by (simp add: positions_ok_def position_ok_def staked_values map_ok_def Unix_def)
  have "room named_env staked_world A (60 * 10 ^ 12 + 1)" for A
  proof -
    have "bank_GetBalance named_env (App staked_world) A d + (60 * 10 ^ 12 + 1) < 2 ^ 256" for d
      using staked_balances [of A d] by simp
    then show ?thesis using staked_principal [of A] by (simp add: room_def)
  qed
  moreover have "length (GetVaultsPositionsByProviderAndVault [97] STAKED staked_world) = 1" by code_simp
  moreover have "fits (locked_amount [97] STAKED staked_world)"
      "\<forall>p\<in>set (GetVaultsPositionsByProviderAndVault [97] STAKED staked_world). fits (pos_Principal p) \<and> fits (pos_Amount p)"
      "Index staked_world = Some (10 ^ 12)" "Stats staked_world \<noteq> None"
      "map_option StakedTotalPrincipal (VaultsStats staked_world) = Some 100"
    by code_simp+
  ultimately show "withdrawal_fits named_env staked_world [97] 60"
    by (auto simp: withdrawal_fits_def Let_def)
  show "\<not> vault_account named_env [97]"
    using named_own [of "''a''"] by (simp add: string_bytes_def)
qed (code_simp+)

end
