(* ===== verification/State_Maps.thy ===== *)
theory State_Maps
  imports Vault_State
begin

text \<open>
  The readers of \<open>keeper/state.go\<close> that return a whole collection as a Go map with printable
  keys and values, and \<open>types/v2/provider.go\<close>, which reads such a key back. A Go map is a
  collection of its entries by key; the order in which it is ranged over is not specified, so
  the code that does so takes the entries as a list in any order.
\<close>

subsection \<open>Filling a map\<close>

definition fill :: "('x \<Rightarrow> 'k::linorder) \<Rightarrow> ('x \<Rightarrow> 'v) \<Rightarrow> 'x list \<Rightarrow> ('k, 'v) cmap \<Rightarrow> ('k, 'v) cmap" where
  "fill k v xs m = foldl (\<lambda>m x. Map_Set (k x) (v x) m) m xs"

lemma fill_simps [simp]:
  "fill k v [] m = m"
  "fill k v (x # xs) m = fill k v xs (Map_Set (k x) (v x) m)"
  by (simp_all add: fill_def)

lemma map_ok_fill [simp]: "map_ok m \<Longrightarrow> map_ok (fill k v xs m)"
  by (induction xs arbitrary: m) (simp_all add: map_ok_Set)

lemma fill_get:
  "distinct (map k xs) \<Longrightarrow> Map_Get (fill k v xs m) j = Some y \<longleftrightarrow>
     (\<exists>x\<in>set xs. k x = j \<and> v x = y) \<or> (j \<notin> k ` set xs \<and> Map_Get m j = Some y)"
proof (induction xs arbitrary: m)
  case (Cons x xs)
  then show ?case by (cases "k x = j") force+
qed simp

lemma map_ok_distinct: "map_ok m \<Longrightarrow> distinct (map fst m)"
  by (simp add: map_ok_def strict_sorted_iff)

lemma map_get_mem: "map_ok m \<Longrightarrow> Map_Get m k = Some v \<longleftrightarrow> (k, v) \<in> set m"
  by (simp add: map_ok_distinct)

lemma map_ok_ext:
  assumes "map_ok m" "map_ok n" "\<And>k v. Map_Get m k = Some v \<longleftrightarrow> Map_Get n k = Some v"
  shows "m = n"
proof (rule map_sorted_distinct_set_unique)
  have inj: "inj_on fst (set m \<union> set n)"
    using assms by (auto simp: inj_on_def map_get_mem [symmetric])
  show "inj_on fst (set m \<union> set n)" by (rule inj)
  show "sorted (map fst m)" "sorted (map fst n)" "distinct (map fst m)" "distinct (map fst n)"
    using assms(1,2) by (auto simp: map_ok_def strict_sorted_iff)
  show "set m = set n" using assms by (auto simp: map_get_mem)
qed

text \<open>A map rebuilt from entries that denote exactly its own is the map.\<close>

lemma fill_rebuild:
  assumes "map_ok m" "distinct (map k xs)" "\<And>a b. (a, b) \<in> set m \<longleftrightarrow> (\<exists>x\<in>set xs. k x = a \<and> v x = b)"
  shows "fill k v xs [] = m"
proof (rule map_ok_ext)
  show "Map_Get (fill k v xs []) a = Some b \<longleftrightarrow> Map_Get m a = Some b" for a b
    unfolding fill_get [OF assms(2)] map_get_mem [OF assms(1)] assms(3) by simp
qed (simp_all add: assms(1))

lemma fill_self: "map_ok m \<Longrightarrow> fill fst snd m [] = m"
  by (rule fill_rebuild) (force simp: map_ok_distinct)+

text \<open>Printing the entries of a map and reading them back, key and value by key and value.\<close>

lemma printed_mem:
  assumes "map_ok m" "\<And>a p. (a, p) \<in> set m \<Longrightarrow> dk (ek a) = Some a"
  shows "(s, t) \<in> set (fill (\<lambda>x. ek (fst x)) (\<lambda>x. ev (snd x)) m []) \<longleftrightarrow> (\<exists>(a, p)\<in>set m. ek a = s \<and> ev p = t)"
proof -
  have "inj_on ek (fst ` set m)"
    by (rule inj_on_inverseI [of _ "\<lambda>s. the (dk s)"]) (auto simp: assms(2))
  then have "distinct (map (\<lambda>x. ek (fst x)) m)"
    using map_ok_distinct [OF assms(1)] distinct_map [of ek "map fst m"] by (simp add: comp_def)
  note get = fill_get [OF this, of "\<lambda>x. ev (snd x)" "[]" s t]
  have "map_ok (fill (\<lambda>x. ek (fst x)) (\<lambda>x. ev (snd x)) m [])" by simp
  from map_get_mem [OF this, of s t] get show ?thesis by (auto simp: case_prod_beta)
qed

lemma print_parse:
  assumes "map_ok m" "\<And>a p. (a, p) \<in> set m \<Longrightarrow> dk (ek a) = Some a \<and> dv (ev p) = Some p"
  defines "M \<equiv> fill (\<lambda>x. ek (fst x)) (\<lambda>x. ev (snd x)) m []"
  shows "(s, t) \<in> set M \<Longrightarrow> \<exists>a p. dk s = Some a \<and> dv t = Some p"
    "fill (\<lambda>x. the (dk (fst x))) (\<lambda>x. the (dv (snd x))) M [] = m"
proof -
  have mem: "(s, t) \<in> set M \<longleftrightarrow> (\<exists>(a, p)\<in>set m. ek a = s \<and> ev p = t)" for s t
    unfolding M_def by (rule printed_mem [OF assms(1), of dk]) (simp add: assms(2))
  show "\<exists>a p. dk s = Some a \<and> dv t = Some p" if "(s, t) \<in> set M"
  proof -
    from that obtain a p where "(a, p) \<in> set m" "ek a = s" "ev p = t" unfolding mem by blast
    with assms(2) show ?thesis by blast
  qed
  have M: "map_ok M" by (simp add: M_def)
  have key: "ek (the (dk (fst x))) = fst x" if "x \<in> set M" for x
  proof -
    from that have "(fst x, snd x) \<in> set M" by simp
    then obtain a p where "(a, p) \<in> set m" "ek a = fst x" unfolding mem by blast
    then show ?thesis using assms(2) [of a p] by (metis option.sel)
  qed
  show "fill (\<lambda>x. the (dk (fst x))) (\<lambda>x. the (dv (snd x))) M [] = m"
  proof (rule fill_rebuild [OF assms(1)])
    have "inj_on (\<lambda>x. the (dk (fst x))) (set M)"
    proof (rule inj_onI)
      fix x y
      assume "x \<in> set M" "y \<in> set M" "the (dk (fst x)) = the (dk (fst y))"
      then have "fst x = fst y" using key by metis
      with \<open>x \<in> set M\<close> \<open>y \<in> set M\<close> show "x = y"
        using map_ok_distinct [OF M] by (simp add: distinct_map inj_on_def)
    qed
    moreover have "distinct M" using map_ok_distinct [OF M] by (simp add: distinct_map)
    ultimately show "distinct (map (\<lambda>x. the (dk (fst x))) M)" by (simp add: distinct_map)
    show "(a, p) \<in> set m \<longleftrightarrow> (\<exists>x\<in>set M. the (dk (fst x)) = a \<and> the (dv (snd x)) = p)" for a p
    proof
      assume "(a, p) \<in> set m"
      then have "(ek a, ev p) \<in> set M" "dk (ek a) = Some a \<and> dv (ev p) = Some p"
        using mem assms(2) by blast+
      then show "\<exists>x\<in>set M. the (dk (fst x)) = a \<and> the (dv (snd x)) = p"
        by (intro bexI [of _ "(ek a, ev p)"]) simp_all
    next
      assume "\<exists>x\<in>set M. the (dk (fst x)) = a \<and> the (dv (snd x)) = p"
      then obtain s t where st: "(s, t) \<in> set M" "the (dk s) = a" "the (dv t) = p" by auto
      then obtain b q where "(b, q) \<in> set m" "ek b = s" "ev q = t" unfolding mem by blast
      with assms(2) [of b q] st(2,3) show "(a, p) \<in> set m" by (metis option.sel)
    qed
  qed
qed

subsection \<open>Keys of yield recipients\<close>

fun Provider_String :: "provider \<Rightarrow> string" where
  "Provider_String IBC = ''IBC''"
| "Provider_String HYPERLANE = ''HYPERLANE''"
| "Provider_String (OtherProvider w) = Itoa (sint w)"

text \<open>\<open>Provider_value[name]\<close>, zero for an unknown name.\<close>

definition Provider_value :: "string \<Rightarrow> provider" where
  "Provider_value name = (if name = ''HYPERLANE'' then HYPERLANE else IBC)"

text \<open>\<open>fmt.Sprintf("%s/%s", provider, identifier)\<close>\<close>

definition recipient_key :: "provider \<times> string \<Rightarrow> string" where
  "recipient_key = (\<lambda>(p, i). Provider_String p @ ''/'' @ i)"

fun strings_Split :: "char \<Rightarrow> string \<Rightarrow> string list" where
  "strings_Split c [] = [[]]"
| "strings_Split c (x # xs) =
     (if x = c then [] # strings_Split c xs
      else (case strings_Split c xs of [] \<Rightarrow> [[x]] | y # ys \<Rightarrow> (x # y) # ys))"

definition ParseYieldRecipientKey :: "string \<Rightarrow> (provider \<times> string) result" where
  "ParseYieldRecipientKey key =
     (case strings_Split CHR ''/'' key of
        name # identifier # _ \<Rightarrow> Ok (Provider_value name, identifier)
      | _ \<Rightarrow> Panic ''index out of range'')"

lemma strings_Split_none: "c \<notin> set s \<Longrightarrow> strings_Split c s = [s]"
  by (induction s) auto

lemma strings_Split_first: "c \<notin> set s \<Longrightarrow> strings_Split c (s @ c # t) = s # strings_Split c t"
  by (induction s) auto

definition known_key :: "provider \<times> string \<Rightarrow> bool" where
  "known_key = (\<lambda>(p, i). p \<in> {IBC, HYPERLANE} \<and> CHR ''/'' \<notin> set i)"

lemma parse_recipient_key: "known_key k \<Longrightarrow> ParseYieldRecipientKey (recipient_key k) = Ok k"
  by (auto simp: known_key_def recipient_key_def ParseYieldRecipientKey_def Provider_value_def
      strings_Split_none split: prod.splits)

lemma recipient_key_inj: "known_key k \<Longrightarrow> known_key j \<Longrightarrow> recipient_key k = recipient_key j \<Longrightarrow> k = j"
  by (metis outcome.inject(1) parse_recipient_key)

subsection \<open>The readers\<close>

definition GetTotalExternalYield :: "'b world \<Rightarrow> (string, string) cmap" where
  "GetTotalExternalYield w = fill (\<lambda>x. recipient_key (fst x)) (\<lambda>x. Itoa (snd x)) (TotalExternalYield w) []"

definition GetYieldRecipients :: "'b world \<Rightarrow> (string, string) cmap" where
  "GetYieldRecipients w = fill (\<lambda>x. recipient_key (fst x)) snd (YieldRecipients w) []"

definition GetRetryAmounts :: "'b world \<Rightarrow> (string, string) cmap" where
  "GetRetryAmounts w = fill (\<lambda>x. recipient_key (fst x)) (\<lambda>x. Itoa (snd x)) (RetryAmounts w) []"

text \<open>The walk stops at the first address that has no textual form; what was read so far is
  returned beside the error.\<close>

fun principal_walk ::
    "'b env \<Rightarrow> (addr \<times> int) list \<Rightarrow> (string, string) cmap \<Rightarrow> (string, string) cmap \<times> error option" where
  "principal_walk e [] m = (m, None)"
| "principal_walk e ((a, p) # ps) m =
     (case BytesToString e a of
        None \<Rightarrow> (m, Some (ErrExternal ''address codec''))
      | Some address \<Rightarrow> principal_walk e ps (Map_Set address (Itoa p) m))"

definition GetPrincipal :: "'b env \<Rightarrow> 'b world \<Rightarrow> (string, string) cmap \<times> error option" where
  "GetPrincipal e w = principal_walk e (Principal w) []"

lemma principal_walk_fill:
  "(\<And>a p. (a, p) \<in> set ps \<Longrightarrow> BytesToString e a \<noteq> None) \<Longrightarrow>
     principal_walk e ps m = (fill (\<lambda>x. the (BytesToString e (fst x))) (\<lambda>x. Itoa (snd x)) ps m, None)"
proof (induction ps arbitrary: m)
  case (Cons x ps)
  obtain a p where x: "x = (a, p)" by fastforce
  from Cons.prems [of a p] obtain s where "BytesToString e a = Some s" by (auto simp: x)
  moreover have "principal_walk e ps m' = (fill (\<lambda>x. the (BytesToString e (fst x))) (\<lambda>x. Itoa (snd x)) ps m', None)" for m'
    by (rule Cons.IH) (use Cons.prems in auto)
  ultimately show ?case by (simp add: x)
qed simp

end
