(* ===== verification/Wire.thy ===== *)
theory Wire
  imports Types
begin

text \<open>
  The wire format of the generated message code: the varint and length-delimited readers that
  every generated \<open>Unmarshal\<close> repeats, the loop over the fields, and the backward writes of
  \<open>Marshal\<close> into a buffer of the computed size. The runtime of the \<open>pulsar\<close> generator is a
  parameter; \<open>gogo\<close> code carries its own helpers, which are modelled and satisfy its contract.
\<close>

subsection \<open>Errors\<close>

definition WireIntOverflow :: error where "WireIntOverflow = Errorf ''proto: integer overflow''"
definition WireInvalidLength :: error where
  "WireInvalidLength = Errorf ''proto: negative length found during unmarshaling''"
definition WireUnexpectedEOF :: error where "WireUnexpectedEOF = ErrExternal ''unexpected EOF''"

subsection \<open>Reading\<close>

text \<open>
  \<open>for shift := uint(0); ; shift += 7\<close>: the value, accumulated in a word of the type of the
  field, and the number of bytes read.
\<close>

primrec read_varint :: "nat \<Rightarrow> 'w::len word \<Rightarrow> bytes \<Rightarrow> ('w word \<times> nat) result" where
  "read_varint shift acc [] = (if 64 \<le> shift then Err WireIntOverflow else Err WireUnexpectedEOF)"
| "read_varint shift acc (b # bs) =
     (if 64 \<le> shift then Err WireIntOverflow
      else
        let acc' = or acc (push_bit shift (ucast (and b 0x7F))) in
        if b < 0x80 then Ok (acc', 1)
        else obind (read_varint (shift + 7) acc' bs) (\<lambda>(v, n). Ok (v, n + 1)))"

text \<open>A length and that many bytes; \<open>i\<close> is the index of the reader in its buffer.\<close>

definition read_delimited :: "nat \<Rightarrow> bytes \<Rightarrow> (bytes \<times> nat) result" where
  "read_delimited i bs =
     obind (read_varint 0 0 bs) (\<lambda>(len :: 64 word, n).
     if 2 ^ 63 \<le> unat len then Err WireInvalidLength
     else if 2 ^ 63 \<le> i + n + unat len then Err WireInvalidLength
     else if length bs < n + unat len then Err WireUnexpectedEOF
     else Ok (take (unat len) (drop n bs), n + unat len))"

text \<open>
  The kinds of field, with the wire type they require: the value goes into the message by
  \<open>upd\<close>, and the number of bytes read is returned. A custom field has a type with its own
  \<open>Unmarshal\<close>, given by \<open>parse\<close>.
\<close>

definition varint_field :: "int \<Rightarrow> ('w::len word \<Rightarrow> 'm) \<Rightarrow> bytes \<Rightarrow> ('m \<times> nat) result" where
  "varint_field wireType upd bs =
     (if wireType \<noteq> 0 then Err (Errorf ''proto: wrong wireType'')
      else obind (read_varint 0 0 bs) (\<lambda>(v, n). Ok (upd v, n)))"

definition bytes_field :: "int \<Rightarrow> nat \<Rightarrow> (bytes \<Rightarrow> 'm) \<Rightarrow> bytes \<Rightarrow> ('m \<times> nat) result" where
  "bytes_field wireType i upd bs =
     (if wireType \<noteq> 2 then Err (Errorf ''proto: wrong wireType'')
      else obind (read_delimited i bs) (\<lambda>(s, n). Ok (upd s, n)))"

definition custom_field :: "int \<Rightarrow> nat \<Rightarrow> (bytes \<Rightarrow> 'v result) \<Rightarrow> ('v \<Rightarrow> 'm) \<Rightarrow> bytes \<Rightarrow> ('m \<times> nat) result" where
  "custom_field wireType i parse upd bs =
     (if wireType \<noteq> 2 then Err (Errorf ''proto: wrong wireType'')
      else obind (read_delimited i bs) (\<lambda>(s, n). obind (parse s) (\<lambda>v. Ok (upd v, n))))"

definition bool_field :: "int \<Rightarrow> (bool \<Rightarrow> 'm) \<Rightarrow> bytes \<Rightarrow> ('m \<times> nat) result" where
  "bool_field wireType upd bs =
     (if wireType \<noteq> 0 then Err (Errorf ''proto: wrong wireType'')
      else obind (read_varint 0 (0 :: 64 word) bs) (\<lambda>(v, n). Ok (upd (v \<noteq> 0), n)))"

text \<open>
  The loop \<open>for iNdEx < l\<close> over the fields of a message. \<open>field\<close> is the \<open>switch\<close> on the field
  number, \<open>None\<close> its default case: the field is skipped and, in \<open>pulsar\<close> code, kept as unknown.
  A skip of no bytes would repeat the loop forever.
\<close>

partial_function (option) read_fields ::
    "(bytes \<Rightarrow> int result) \<Rightarrow> (int \<Rightarrow> int \<Rightarrow> 'm \<Rightarrow> nat \<Rightarrow> bytes \<Rightarrow> ('m \<times> nat) result option) \<Rightarrow>
     (bytes \<Rightarrow> 'm \<Rightarrow> 'm) \<Rightarrow> 'm \<Rightarrow> nat \<Rightarrow> bytes \<Rightarrow> 'm result option" where
  "read_fields skip field unknown x i bs =
     (if bs = [] then Some (Ok x)
      else
        (case read_varint 0 (0 :: 64 word) bs of
          Err err \<Rightarrow> Some (Err err)
        | Panic p \<Rightarrow> Some (Panic p)
        | Ok (wire, n) \<Rightarrow>
            let fieldNum = sint (ucast (drop_bit 3 wire) :: 32 word); wireType = uint (and wire 7) in
            if wireType = 4 then Some (Err (Errorf ''proto: wiretype end group for non-group''))
            else if fieldNum \<le> 0 then Some (Err (Errorf ''proto: illegal tag''))
            else
              (case field fieldNum wireType x (i + n) (drop n bs) of
                Some (Ok (x', k)) \<Rightarrow> read_fields skip field unknown x' (i + n + k) (drop (n + k) bs)
              | Some (Err err) \<Rightarrow> Some (Err err)
              | Some (Panic p) \<Rightarrow> Some (Panic p)
              | None \<Rightarrow>
                  (case skip bs of
                     Err err \<Rightarrow> Some (Err err)
                   | Panic p \<Rightarrow> Some (Panic p)
                   | Ok skippy \<Rightarrow>
                       if skippy < 0 \<or> 2 ^ 63 \<le> int i + skippy then Some (Err WireInvalidLength)
                       else if int (length bs) < skippy then Some (Err WireUnexpectedEOF)
                       else read_fields skip field unknown (unknown (take (nat skippy) bs) x)
                              (i + nat skippy) (drop (nat skippy) bs)))))"

subsection \<open>Writing\<close>

text \<open>A buffer of fixed size, written from its end: the bytes left in front and those written.\<close>

type_synonym buffer = "nat \<times> bytes"

definition put :: "bytes \<Rightarrow> buffer \<Rightarrow> buffer result" where
  "put bs = (\<lambda>(i, written). if length bs \<le> i then Ok (i - length bs, bs @ written)
     else Panic ''slice bounds out of range'')"

definition buffer_bytes :: "buffer \<Rightarrow> bytes" where
  "buffer_bytes = (\<lambda>(i, written). replicate i 0 @ written)"

text \<open>What the generated code takes from \<open>github.com/cosmos/cosmos-proto/runtime\<close>.\<close>

record wire_runtime =
  EncodeVarint :: "64 word \<Rightarrow> bytes"
  Sov :: "64 word \<Rightarrow> nat"
  Skip :: "bytes \<Rightarrow> int result"

text \<open>A scalar field is written unless it is zero, a delimited one unless it is empty.\<close>

definition put_varint :: "wire_runtime \<Rightarrow> 8 word \<Rightarrow> 64 word \<Rightarrow> buffer \<Rightarrow> buffer result" where
  "put_varint rt tag v b = (if v = 0 then Ok b else obind (put (EncodeVarint rt v) b) (put [tag]))"

definition put_delimited :: "wire_runtime \<Rightarrow> 8 word \<Rightarrow> bytes \<Rightarrow> buffer \<Rightarrow> buffer result" where
  "put_delimited rt tag bs b =
     (if bs = [] then Ok b
      else obind (put bs b) (\<lambda>b.
        obind (put (EncodeVarint rt (word_of_nat (length bs))) b) (put [tag])))"

definition put_bool :: "8 word \<Rightarrow> bool \<Rightarrow> buffer \<Rightarrow> buffer result" where
  "put_bool tag v b = (if v then obind (put [1] b) (put [tag]) else Ok b)"

definition size_varint :: "wire_runtime \<Rightarrow> 64 word \<Rightarrow> nat" where
  "size_varint rt v = (if v \<noteq> 0 then 1 + Sov rt v else 0)"

definition size_delimited :: "wire_runtime \<Rightarrow> bytes \<Rightarrow> nat" where
  "size_delimited rt bs = (let l = length bs in if 0 < l then 1 + l + Sov rt (word_of_nat l) else 0)"

definition size_bool :: "bool \<Rightarrow> nat" where
  "size_bool v = (if v then 2 else 0)"

subsection \<open>The contract of the runtime\<close>

text \<open>\<open>EncodeVarint\<close> writes as many bytes as \<open>Sov\<close> counts, and reading them gives the value back.
  \<open>Skip\<close> never skips nothing.\<close>

definition varint_runtime :: "wire_runtime \<Rightarrow> bool" where
  "varint_runtime rt \<longleftrightarrow> (\<forall>v. length (EncodeVarint rt v) = Sov rt v) \<and>
     (\<forall>v rest. read_varint 0 0 (EncodeVarint rt v @ rest) = Ok (v, Sov rt v))"

definition skip_progress :: "(bytes \<Rightarrow> int result) \<Rightarrow> bool" where
  "skip_progress skip \<longleftrightarrow> (\<forall>bs n. skip bs = Ok n \<longrightarrow> n \<noteq> 0)"

subsection \<open>Lemmas\<close>

lemma read_varint_pos: "read_varint shift acc bs = Ok (v, n) \<Longrightarrow> 0 < n \<and> n \<le> length bs"
proof (induction bs arbitrary: shift acc n)
  case (Cons b bs)
  from Cons.prems show ?case
    by (auto simp: Let_def obind_eq_Ok split: if_splits dest: Cons.IH)
qed (simp split: if_splits)

text \<open>The fields a message writes, as the bytes they add in front.\<close>

definition varint_bytes :: "wire_runtime \<Rightarrow> 8 word \<Rightarrow> 64 word \<Rightarrow> bytes" where
  "varint_bytes rt tag v = (if v = 0 then [] else tag # EncodeVarint rt v)"

definition delimited_bytes :: "wire_runtime \<Rightarrow> 8 word \<Rightarrow> bytes \<Rightarrow> bytes" where
  "delimited_bytes rt tag bs =
     (if bs = [] then [] else tag # EncodeVarint rt (word_of_nat (length bs)) @ bs)"

definition bool_bytes :: "8 word \<Rightarrow> bool \<Rightarrow> bytes" where
  "bool_bytes tag v = (if v then [tag, 1] else [])"

lemma wire_lengths [simp]:
  "varint_runtime rt \<Longrightarrow> length (varint_bytes rt tag v) = size_varint rt v"
  "varint_runtime rt \<Longrightarrow> length (delimited_bytes rt tag bs) = size_delimited rt bs"
  "length (bool_bytes tag t) = size_bool t"
  by (simp_all add: varint_bytes_def size_varint_def delimited_bytes_def size_delimited_def bool_bytes_def
      size_bool_def varint_runtime_def Let_def)

lemma put_bytes: "length bs \<le> i \<Longrightarrow> put bs (i, written) = Ok (i - length bs, bs @ written)"
  by (simp add: put_def)

lemma put_varint_bytes:
  "varint_runtime rt \<Longrightarrow> size_varint rt v \<le> i \<Longrightarrow>
    put_varint rt tag v (i, written) = Ok (i - size_varint rt v, varint_bytes rt tag v @ written)"
  by (auto simp: put_varint_def put_def varint_bytes_def size_varint_def varint_runtime_def split: if_splits)

lemma put_delimited_bytes:
  "varint_runtime rt \<Longrightarrow> size_delimited rt bs \<le> i \<Longrightarrow>
    put_delimited rt tag bs (i, written) = Ok (i - size_delimited rt bs, delimited_bytes rt tag bs @ written)"
  by (auto simp: put_delimited_def put_def delimited_bytes_def size_delimited_def varint_runtime_def Let_def
      split: if_splits)

lemma put_bool_bytes:
  "size_bool v \<le> i \<Longrightarrow> put_bool tag v (i, written) = Ok (i - size_bool v, bool_bytes tag v @ written)"
  by (auto simp: put_bool_def put_def bool_bytes_def size_bool_def split: if_splits)

lemmas wire_puts = put_bytes put_varint_bytes put_delimited_bytes put_bool_bytes

lemma buffer_bytes_full [simp]: "buffer_bytes (0, written) = written"
  by (simp add: buffer_bytes_def)

text \<open>The field number and the wire type of a one-byte tag.\<close>

definition wire_tag :: "8 word \<Rightarrow> int \<Rightarrow> int \<Rightarrow> bool" where
  "wire_tag tag num wt \<longleftrightarrow> tag < 0x80 \<and> 0 < num \<and> wt \<noteq> 4 \<and>
     (let w = ucast (and tag 0x7F) :: 64 word in
      num = sint (ucast (drop_bit 3 w) :: 32 word) \<and> wt = uint (and w 7))"

lemma wire_tags:
  "wire_tag 0x8 1 0" "wire_tag 0xA 1 2" "wire_tag 0x10 2 0" "wire_tag 0x12 2 2"
  "wire_tag 0x18 3 0" "wire_tag 0x1A 3 2" "wire_tag 0x20 4 0" "wire_tag 0x22 4 2"
  "wire_tag 0x28 5 0" "wire_tag 0x2A 5 2" "wire_tag 0x30 6 0" "wire_tag 0x32 6 2"
  "wire_tag 0x38 7 0" "wire_tag 0x3A 7 2" "wire_tag 0x40 8 0" "wire_tag 0x42 8 2" "wire_tag 0x4A 9 2"
  by code_simp+

text \<open>
  \<open>reads \<dots> x i bs y\<close>: read at index \<open>i\<close> into \<open>x\<close>, the bytes give \<open>y\<close>. The rules below follow the fields
  as they were written.
\<close>

definition reads ::
    "(bytes \<Rightarrow> int result) \<Rightarrow> (int \<Rightarrow> int \<Rightarrow> 'm \<Rightarrow> nat \<Rightarrow> bytes \<Rightarrow> ('m \<times> nat) result option) \<Rightarrow>
     (bytes \<Rightarrow> 'm \<Rightarrow> 'm) \<Rightarrow> 'm \<Rightarrow> nat \<Rightarrow> bytes \<Rightarrow> 'm \<Rightarrow> bool" where
  "reads skip field unknown x i bs y \<longleftrightarrow>
     (i + length bs < 2 ^ 63 \<longrightarrow> read_fields skip field unknown x i bs = Some (Ok y))"

lemma readsD:
  "reads skip field unknown x 0 bs y \<Longrightarrow> length bs < 2 ^ 63 \<Longrightarrow> read_fields skip field unknown x 0 bs = Some (Ok y)"
  by (simp add: reads_def)

lemma reads_done: "x = y \<Longrightarrow> reads skip field unknown x i [] y"
  by (subst reads_def, subst read_fields.simps) simp

lemma reads_field:
  assumes "wire_tag tag num wt" "field num wt x (i + 1) (bs @ rest) = Some (Ok (x', length bs))"
    and "reads skip field unknown x' (i + 1 + length bs) rest y"
  shows "reads skip field unknown x i (tag # bs @ rest) y"
proof -
  let ?w = "ucast (and tag 0x7F) :: 64 word"
  from assms(1) have t: "tag < 0x80" "num = sint (ucast (drop_bit 3 ?w) :: 32 word)" "0 < num" "wt = uint (and ?w 7)" "wt \<noteq> 4"
    by (simp_all add: wire_tag_def Let_def)
  have "read_fields skip field unknown x i (tag # bs @ rest) = read_fields skip field unknown x' (i + 1 + length bs) rest"
    using assms(2) by (subst read_fields.simps) (use t in \<open>simp add: Let_def\<close>)
  then show ?thesis using assms(3) by (simp add: reads_def add.assoc)
qed

lemma varint_field_bytes:
  "varint_runtime rt \<Longrightarrow> varint_field 0 upd (EncodeVarint rt v @ rest) = Ok (upd v, Sov rt v)"
  by (simp add: varint_field_def varint_runtime_def)

lemma reads_varint:
  assumes "varint_runtime rt" "wire_tag tag num 0"
    and "\<And>bs. field num 0 x (i + 1) bs = Some (varint_field 0 upd bs)" "v = 0 \<Longrightarrow> upd v = x"
    and "reads skip field unknown (upd v) (i + size_varint rt v) rest y"
  shows "reads skip field unknown x i (varint_bytes rt tag v @ rest) y"
proof (cases "v = 0")
  case False
  with assms(1,5) have "reads skip field unknown (upd v) (i + 1 + length (EncodeVarint rt v)) rest y"
    by (simp add: size_varint_def varint_runtime_def add.assoc)
  from reads_field [where field = field, OF assms(2) _ this, of x] assms(1,3) False show ?thesis
    by (simp add: varint_field_bytes varint_runtime_def varint_bytes_def)
qed (use assms(4,5) in \<open>simp add: varint_bytes_def size_varint_def\<close>)

text \<open>Reading a varint into fewer bits keeps the low part of the 64-bit value.\<close>

lemma read_varint_ucast:
  assumes "LENGTH('w::len) \<le> 64"
  shows "read_varint s (ucast (acc :: 64 word) :: 'w word) bs
    = obind (read_varint s acc bs) (\<lambda>(v, n). Ok (ucast v, n))"
proof (induction bs arbitrary: s acc)
  case (Cons b bs)
  have "or (ucast acc) (push_bit s (ucast (and b 0x7F))) = (ucast (or acc (push_bit s (ucast (and b 0x7F)))) :: 'w word)"
    using assms by (intro bit_word_eqI) (auto simp: bit_simps)
  then show ?case
    using Cons.IH [of "s + 7" "or acc (push_bit s (ucast (and b 0x7F)))"]
    by (cases "read_varint (s + 7) (or acc (push_bit s (ucast (and b 0x7F)))) bs")
      (auto simp: Let_def split: prod.splits)
qed simp

lemma varint_field_ucast:
  assumes "LENGTH('w::len) \<le> 64"
  shows "varint_field wireType upd bs = varint_field wireType (\<lambda>v :: 64 word. upd (ucast v :: 'w word)) bs"
  using read_varint_ucast [OF assms, of 0 0 bs]
  by (cases "read_varint 0 (0 :: 64 word) bs") (auto simp: varint_field_def split: prod.splits)

lemma wire_casts [simp]:
  "ucast (ucast (v :: 32 word) :: 64 word) = v" "ucast (scast (v :: 32 word) :: 64 word) = v"
  "ucast (ucast (h :: 16 word) :: 64 word) = h" "ucast (ucast (v :: 32 word) :: 64 word) = (ucast v :: 16 word)"
  "ucast (ucast (h :: 16 word) :: 64 word) = (ucast h :: 32 word)"
  by (rule bit_word_eqI, auto simp: bit_simps)+

lemma wire_casts_zero [simp]:
  "(ucast (v :: 32 word) :: 64 word) = 0 \<longleftrightarrow> v = 0" "(scast (v :: 32 word) :: 64 word) = 0 \<longleftrightarrow> v = 0"
  "(ucast (h :: 16 word) :: 64 word) = 0 \<longleftrightarrow> h = 0"
  using wire_casts(1,2) [of v] wire_casts(3) [of h] by (metis unsigned_0, metis unsigned_0 signed_0, metis unsigned_0)

lemma reads_narrow:
  assumes "varint_runtime rt" "LENGTH('w::len) \<le> 64" "wire_tag tag num 0"
    and "\<And>bs. field num 0 x (i + 1) bs = Some (varint_field 0 (upd :: 'w word \<Rightarrow> _) bs)"
    and "v = 0 \<Longrightarrow> upd (ucast v) = x"
    and "reads skip field unknown (upd (ucast v)) (i + size_varint rt v) rest y"
  shows "reads skip field unknown x i (varint_bytes rt tag v @ rest) y"
proof (rule reads_varint [where upd = "\<lambda>v. upd (ucast v)", OF assms(1,3)])
  fix bs
  show "field num 0 x (i + 1) bs = Some (varint_field 0 (\<lambda>v :: 64 word. upd (ucast v)) bs)"
    unfolding assms(4) by (rule arg_cong [OF varint_field_ucast [OF assms(2)]])
qed (rule assms(5), assumption, rule assms(6))

lemma reads_varint32:
  assumes "varint_runtime rt" "wire_tag tag num 0"
    and "\<And>bs. field num 0 x (i + 1) bs = Some (varint_field 0 (upd :: 32 word \<Rightarrow> _) bs)"
    and "v = 0 \<Longrightarrow> upd (ucast v) = x"
    and "reads skip field unknown (upd (ucast v)) (i + size_varint rt v) rest y"
  shows "reads skip field unknown x i (varint_bytes rt tag v @ rest) y"
  by (rule reads_narrow [OF assms(1) _ assms(2-5)]) simp

lemma reads_varint16:
  assumes "varint_runtime rt" "wire_tag tag num 0"
    and "\<And>bs. field num 0 x (i + 1) bs = Some (varint_field 0 (upd :: 16 word \<Rightarrow> _) bs)"
    and "v = 0 \<Longrightarrow> upd (ucast v) = x"
    and "reads skip field unknown (upd (ucast v)) (i + size_varint rt v) rest y"
  shows "reads skip field unknown x i (varint_bytes rt tag v @ rest) y"
  by (rule reads_narrow [OF assms(1) _ assms(2-5)]) simp

lemma custom_field_bytes:
  assumes "varint_runtime rt" "i + Sov rt (word_of_nat (length s)) + length s < 2 ^ 63"
  shows "custom_field 2 i parse upd (EncodeVarint rt (word_of_nat (length s)) @ s @ rest)
    = obind (parse s) (\<lambda>v. Ok (upd v, Sov rt (word_of_nat (length s)) + length s))"
proof -
  let ?l = "word_of_nat (length s) :: 64 word"
  have l: "unat ?l = length s"
    using assms(2) by (simp add: unsigned_of_nat take_bit_nat_eq_self)
  have n: "length (EncodeVarint rt ?l) = Sov rt ?l"
    using assms(1) by (simp add: varint_runtime_def)
  have "read_varint 0 0 (EncodeVarint rt ?l @ s @ rest) = Ok (?l, Sov rt ?l)"
    using assms(1) by (simp add: varint_runtime_def)
  then show ?thesis
    using assms(2) l n by (simp add: custom_field_def read_delimited_def drop_append)
qed

text \<open>A custom field reads a nonempty delimited field; the plain one is an instance.\<close>

lemma bytes_field_custom: "bytes_field wireType i upd = custom_field wireType i Ok upd"
  by (rule ext) (simp add: bytes_field_def custom_field_def)

lemma reads_delimited:
  assumes "varint_runtime rt" "wire_tag tag num 2"
    and "\<And>bs. field num 2 x (i + 1) bs = Some (custom_field 2 (i + 1) parse upd bs)"
    and "s \<noteq> []" "parse s = Ok v"
    and "reads skip field unknown (upd v) (i + size_delimited rt s) rest y"
  shows "reads skip field unknown x i (delimited_bytes rt tag s @ rest) y"
proof -
  let ?b = "EncodeVarint rt (word_of_nat (length s)) @ s"
  have l: "i + 1 + length ?b = i + size_delimited rt s"
    using assms(1,4) by (simp add: size_delimited_def varint_runtime_def Let_def)
  show ?thesis
  proof (cases "i + 1 + length ?b < 2 ^ 63")
    case True
    then have "custom_field 2 (i + 1) parse upd (?b @ rest) = Ok (upd v, length ?b)"
      using custom_field_bytes [OF assms(1), of "i + 1" s parse upd rest] assms(1,5)
      by (simp add: varint_runtime_def)
    with reads_field [where field = field, OF assms(2), of x i "?b" rest "upd v", unfolded l] assms(3,4,6)
    show ?thesis by (simp add: delimited_bytes_def)
  qed (use assms(1) l in \<open>simp add: reads_def\<close>)
qed

lemma reads_bytes:
  assumes "varint_runtime rt" "wire_tag tag num 2"
    and "\<And>bs. field num 2 x (i + 1) bs = Some (bytes_field 2 (i + 1) upd bs)" "s = [] \<Longrightarrow> upd s = x"
    and "reads skip field unknown (upd s) (i + size_delimited rt s) rest y"
  shows "reads skip field unknown x i (delimited_bytes rt tag s @ rest) y"
proof (cases "s = []")
  case False
  show ?thesis
    by (rule reads_delimited [where parse = Ok and upd = upd, OF assms(1,2) _ False refl assms(5)])
      (simp only: assms(3) bytes_field_custom)
qed (use assms(4,5) in \<open>simp add: delimited_bytes_def size_delimited_def\<close>)

lemma reads_bool:
  assumes "wire_tag tag num 0"
    and "\<And>bs. field num 0 x (i + 1) bs = Some (bool_field 0 upd bs)" "\<not> v \<Longrightarrow> upd v = x"
    and "reads skip field unknown (upd v) (i + size_bool v) rest y"
  shows "reads skip field unknown x i (bool_bytes tag v @ rest) y"
proof (cases v)
  case True
  have "bool_field 0 upd ([1] @ rest) = Ok (upd True, length [1 :: 8 word])"
    by (simp add: bool_field_def Let_def)
  with reads_field [where field = field, OF assms(1), of x i "[1]" rest "upd True"] assms(2,4) True show ?thesis
    by (simp add: bool_bytes_def size_bool_def)
qed (use assms(3,4) in \<open>simp add: bool_bytes_def size_bool_def\<close>)

text \<open>With a skip that makes progress, the loop returns for every input.\<close>

lemma read_fields_returns:
  assumes "skip_progress skip"
  shows "\<exists>r. read_fields skip field unknown x i bs = Some r"
proof (induction "length bs" arbitrary: x i bs rule: less_induct)
  case less
  have again: "\<exists>r. read_fields skip field unknown y j (drop n bs) = Some r" if "0 < n" "bs \<noteq> []" for y j n
    using less [of "drop n bs" y j] that by simp
  show ?case
  proof (cases "bs = []")
    case False
    show ?thesis
    proof (cases "read_varint 0 (0 :: 64 word) bs")
      case (Ok vn)
      obtain wire n where vn: "vn = (wire, n)" by fastforce
      with Ok have "0 < n" using read_varint_pos [of 0 "0 :: 64 word" bs wire n] by simp
      have skipped: "0 < nat k" if "skip bs = Ok k" "\<not> k < 0" for k
        using assms that by (auto simp: skip_progress_def order_less_le)
      from again [OF _ False] skipped Ok vn False \<open>0 < n\<close> show ?thesis
        by (subst read_fields.simps) (auto simp: Let_def split: outcome.split option.split)
    qed (use False in \<open>subst read_fields.simps, simp\<close>)+
  qed (subst read_fields.simps, simp)
qed

end
