(* ===== verification/Gogo.thy ===== *)
theory Gogo
  imports Wire
begin

text \<open>
  The helpers of the \<open>gogo\<close> generator in \<open>types/v2/dollar.pb.go\<close> (every generated file repeats
  them): the size and the bytes of a varint, and the skipping of an unknown field. They satisfy
  the contract of the runtime, which they instantiate.
\<close>

subsection \<open>Definitions\<close>

text \<open>Dropping bits lowers a value, which is why both loops over a varint end.\<close>

lemma drop_bit_unat: "unat (drop_bit n (x :: 64 word)) = unat x div 2 ^ n"
  unfolding unat_drop_bit_eq by (rule drop_bit_eq_div)

lemma drop_bit_less: "x \<noteq> 0 \<Longrightarrow> 0 < n \<Longrightarrow> unat (drop_bit n (x :: 64 word)) < unat x"
  unfolding drop_bit_unat by (rule div_less_dividend) (use one_less_power [of "2 :: nat" n] in \<open>simp_all add: unat_gt_0\<close>)

text \<open>\<open>math/bits.Len64\<close>: the number of bits needed to represent a value.\<close>

function bits_Len64 :: "64 word \<Rightarrow> nat" where
  "bits_Len64 x = (if x = 0 then 0 else Suc (bits_Len64 (drop_bit 1 x)))"
  by auto

termination
  by (relation "measure unat") (simp_all add: drop_bit_less)

declare bits_Len64.simps [simp del]

definition sovDollar :: "64 word \<Rightarrow> nat" where
  "sovDollar x = (bits_Len64 (or x 1) + 6) div 7"

text \<open>The bytes \<open>encodeVarintDollar\<close> writes from \<open>offset - sovDollar(v)\<close> on.\<close>

function encodeVarintDollar :: "64 word \<Rightarrow> bytes" where
  "encodeVarintDollar v =
     (if 0x80 \<le> v then ucast (or (and v 0x7F) 0x80) # encodeVarintDollar (drop_bit 7 v)
      else [ucast v])"
  by auto

termination
  by (relation "measure unat") (auto intro!: drop_bit_less)

declare encodeVarintDollar.simps [simp del]

text \<open>The number of bytes of the field at the front, groups included; \<open>i\<close> is the index reached.\<close>

definition skip_width :: "nat \<Rightarrow> bytes \<Rightarrow> int \<Rightarrow> nat result" where
  "skip_width depth bs wireType =
     (if wireType = 0 then obind (read_varint 0 (0 :: 64 word) bs) (\<lambda>(_, n). Ok n)
      else if wireType = 1 then Ok 8
      else if wireType = 2 then
        obind (read_varint 0 (0 :: 64 word) bs) (\<lambda>(len, n).
          if sint len < 0 then Err WireInvalidLength else Ok (n + unat len))
      else if wireType = 3 then Ok 0
      else if wireType = 4 then
        (if depth = 0 then Err (Errorf ''proto: unexpected end of group'') else Ok 0)
      else if wireType = 5 then Ok 4
      else Err (Errorf ''proto: illegal wireType''))"

definition skip_depth :: "nat \<Rightarrow> int \<Rightarrow> nat" where
  "skip_depth depth wireType = (if wireType = 3 then depth + 1 else if wireType = 4 then depth - 1 else depth)"

function skipDollar :: "nat \<Rightarrow> nat \<Rightarrow> bytes \<Rightarrow> int result" where
  "skipDollar i depth bs =
     (if bs = [] then Err WireUnexpectedEOF
      else
        case read_varint 0 (0 :: 64 word) bs of
          Err err \<Rightarrow> Err err
        | Panic p \<Rightarrow> Panic p
        | Ok (wire, n) \<Rightarrow>
            let wireType = uint (and wire 7) in
            (case skip_width depth (drop n bs) wireType of
               Err err \<Rightarrow> Err err
             | Panic p \<Rightarrow> Panic p
             | Ok k \<Rightarrow>
                 if 2 ^ 63 \<le> i + n + k then Err WireInvalidLength
                 else if skip_depth depth wireType = 0 then Ok (int (i + n + k))
                 else skipDollar (i + n + k) (skip_depth depth wireType) (drop (n + k) bs)))"
  by auto

termination
proof (relation "measure (\<lambda>(_, _, bs). length bs)")
  fix i depth bs vn wire n k x
  assume "bs \<noteq> []" "read_varint 0 (0 :: 64 word) bs = Ok vn" "(wire, n) = vn"
  then have "0 < n" using read_varint_pos [of 0 "0 :: 64 word" bs wire n] by simp
  with \<open>bs \<noteq> []\<close> show "((i + n + k, skip_depth depth x, drop (n + k) bs), i, depth, bs)
      \<in> measure (\<lambda>(_, _, bs). length bs)" by simp
qed simp

declare skipDollar.simps [simp del]

definition gogo_runtime :: wire_runtime where
  "gogo_runtime = \<lparr>EncodeVarint = encodeVarintDollar, Sov = sovDollar, Skip = skipDollar 0 0\<rparr>"

subsection \<open>The contract\<close>

lemma skip_progress_Dollar: "skipDollar i depth bs = Ok n \<Longrightarrow> int i < n"
proof (induction i depth bs rule: skipDollar.induct)
  case (1 i depth bs)
  from "1.prems" obtain wire m k where *: "bs \<noteq> []" "read_varint 0 (0 :: 64 word) bs = Ok (wire, m)"
      "skip_width depth (drop m bs) (uint (and wire 7)) = Ok k" "i + m + k < 2 ^ 63"
    and r: "(if skip_depth depth (uint (and wire 7)) = 0 then Ok (int (i + m + k))
       else skipDollar (i + m + k) (skip_depth depth (uint (and wire 7))) (drop (m + k) bs)) = Ok n"
    by (subst (asm) skipDollar.simps) (auto simp: Let_def not_le split: if_splits outcome.splits)
  have "0 < m" using read_varint_pos [OF *(2)] by simp
  moreover have "int (i + m + k) < n" if "skip_depth depth (uint (and wire 7)) \<noteq> 0"
    using "1.IH" [OF *(1,2) refl refl *(3)] *(4) r that by simp
  ultimately show ?case using r by (cases "skip_depth depth (uint (and wire 7)) = 0") auto
qed

lemma Len64_zero [simp]: "bits_Len64 0 = 0"
  by (simp add: bits_Len64.simps)

lemma Len64_drop: "x \<noteq> 0 \<Longrightarrow> bits_Len64 x = Suc (bits_Len64 (drop_bit 1 x))"
  by (subst bits_Len64.simps) simp

lemma or_one_nonzero: "or (x :: 64 word) 1 \<noteq> 0"
  by (metis bit_0_eq bit_or_iff bit_1_0 bot_apply bot_bool_def)

lemma Len64_or: "x \<noteq> 0 \<Longrightarrow> bits_Len64 (or x 1) = bits_Len64 x"
proof -
  assume x: "x \<noteq> 0"
  have "drop_bit 1 (or x 1) = drop_bit 1 x" by (rule bit_word_eqI) (auto simp: bit_simps bit_1_iff)
  then show ?thesis using x or_one_nonzero by (simp add: Len64_drop)
qed

lemma Len64_shift: "2 ^ k \<le> unat x \<Longrightarrow> bits_Len64 x = k + bits_Len64 (drop_bit k x)"
proof (induction k)
  case (Suc k)
  then have le: "2 ^ k \<le> unat x" by simp
  have "drop_bit k x \<noteq> 0"
    using Suc.prems by (simp add: unat_eq_zero [symmetric] drop_bit_unat div_eq_0_iff del: unat_eq_zero)
  then show ?case using Suc.IH [OF le] by (simp add: Len64_drop)
qed simp

lemma Len64_bound: "unat x < 2 ^ k \<Longrightarrow> bits_Len64 x \<le> k"
proof (induction k arbitrary: x)
  case (Suc k)
  show ?case
  proof (cases "x = 0")
    case False
    have "unat (drop_bit 1 x) < 2 ^ k" using Suc.prems by (simp add: drop_bit_unat less_mult_imp_div_less)
    from Suc.IH [OF this] False show ?thesis by (simp add: Len64_drop)
  qed simp
next
  case 0
  then have "x = 0" by (simp add: unat_eq_zero)
  then show ?case by simp
qed

lemma sovDollar_le: "sovDollar v \<le> 10"
proof -
  have "unat (or v 1) < 2 ^ 64" using unsigned_less [of "or v 1"] by simp
  from Len64_bound [OF this] show ?thesis by (simp add: sovDollar_def)
qed

lemma word_small: "unat (v :: 64 word) < 2 ^ k \<Longrightarrow> take_bit k v = v"
  by (simp add: word_unat_eq_iff unsigned_take_bit_eq take_bit_nat_eq_self)

lemma drop_bit_7_nonzero: "0x80 \<le> (v :: 64 word) \<Longrightarrow> drop_bit 7 v \<noteq> 0"
proof
  assume "0x80 \<le> v" "drop_bit 7 v = 0"
  then have "unat v div 2 ^ 7 = 0" using drop_bit_unat [of 7 v] by simp
  moreover have "128 \<le> unat v" using \<open>0x80 \<le> v\<close> by (simp add: word_le_nat_alt)
  ultimately show False by simp
qed

lemma length_encodeVarintDollar: "length (encodeVarintDollar v) = sovDollar v"
proof (induction v rule: encodeVarintDollar.induct)
  case (1 v)
  show ?case
  proof (cases "0x80 \<le> v")
    case True
    have v: "v \<noteq> 0" using True by auto
    have "2 ^ 7 \<le> unat v" using True by (simp add: word_le_nat_alt)
    from Len64_shift [OF this] have len: "bits_Len64 v = 7 + bits_Len64 (drop_bit 7 v)" .
    have "length (encodeVarintDollar v) = Suc (sovDollar (drop_bit 7 v))"
      using True 1 by (simp add: encodeVarintDollar.simps [of v])
    with len v drop_bit_7_nonzero [OF True] show ?thesis by (simp add: sovDollar_def Len64_or)
  next
    case False
    then have "unat v < 2 ^ 7" by (simp add: word_le_nat_alt)
    from word_small [OF this] have "or v 1 = take_bit 7 (or v 1)" by (simp add: take_bit_or)
    then have "unat (or v 1) = unat (or v 1) mod 2 ^ 7" by (metis take_bit_eq_mod unsigned_take_bit_eq)
    then have "unat (or v 1) < 2 ^ 7" by (metis mod_less_divisor zero_less_numeral zero_less_power)
    then have "bits_Len64 (or v 1) \<le> 7" by (rule Len64_bound)
    moreover have "bits_Len64 (or v 1) \<noteq> 0" using Len64_drop [OF or_one_nonzero] by simp
    ultimately have "sovDollar v = 1" by (auto simp: sovDollar_def div_nat_eqI)
    with False show ?thesis by (simp add: encodeVarintDollar.simps [of v])
  qed
qed

lemma byte_high: "(b :: 8 word) < 0x80 \<longleftrightarrow> \<not> bit b 7"
proof -
  have "bit b 7 \<longleftrightarrow> odd (uint b div 128)"
    using bit_uint_iff [of b 7] bit_iff_odd [of "uint b" 7] by simp
  moreover have "0 \<le> uint b" "uint b < 256" using uint_lt2p [of b] by simp_all
  moreover have "even (u div 128) \<longleftrightarrow> u < 128" if "0 \<le> u" "u < 256" for u :: int
    using that by (cases "u < 128") (simp_all, presburger)
  ultimately show ?thesis by (simp add: word_less_def)
qed

lemma low_byte: "and (b :: 'w::len word) 0x7F = take_bit 7 b"
  by (simp add: take_bit_eq_mask mask_eq_exp_minus_1)

lemma high_bit: "(0x80 :: 'w::len word) = 2 ^ 7"
  by simp

lemma continuation_byte:
  fixes v :: "64 word"
  defines "b \<equiv> ucast (or (and v 0x7F) 0x80) :: 8 word"
  shows "\<not> b < 0x80" "ucast (and b 0x7F) = take_bit 7 v"
proof -
  have "bit b 7"
    unfolding b_def low_byte high_bit bit_unsigned_iff bit_or_iff bit_exp_iff by simp
  then show "\<not> b < 0x80" by (simp add: byte_high)
  show "ucast (and b 0x7F) = take_bit 7 v"
    unfolding b_def low_byte high_bit
    by (rule bit_word_eqI, unfold bit_take_bit_iff bit_unsigned_iff bit_or_iff bit_exp_iff) auto
qed

lemma last_byte:
  fixes v :: "64 word"
  assumes "unat v < 2 ^ 7"
  shows "ucast v < (0x80 :: 8 word)" "ucast (and (ucast v :: 8 word) 0x7F) = v"
proof -
  have v: "take_bit 7 v = v" using assms by (rule word_small)
  then have "\<not> bit v 7" by (metis bit_take_bit_iff less_irrefl)
  then show "ucast v < (0x80 :: 8 word)" by (simp add: byte_high bit_simps)
  have "ucast (and (ucast v :: 8 word) 0x7F) = take_bit 7 v"
    unfolding low_byte by (rule bit_word_eqI) (auto simp: bit_simps)
  with v show "ucast (and (ucast v :: 8 word) 0x7F) = v" by simp
qed

lemma split_push: "or (or acc (push_bit s (take_bit 7 v))) (push_bit (s + 7) (drop_bit 7 v)) = or acc (push_bit s v)"
  for v :: "64 word"
proof (rule bit_word_eqI)
  fix n
  show "bit (or (or acc (push_bit s (take_bit 7 v))) (push_bit (s + 7) (drop_bit 7 v))) n \<longleftrightarrow> bit (or acc (push_bit s v)) n"
    if "n < LENGTH(64)"
    using that by (cases "s + 7 \<le> n") (auto simp: bit_simps)
qed

lemma read_encodeVarintDollar:
  "shift < 64 \<Longrightarrow> unat v < 2 ^ (64 - shift) \<Longrightarrow>
    read_varint shift acc (encodeVarintDollar v @ rest)
      = Ok (or acc (push_bit shift v), length (encodeVarintDollar v))"
proof (induction v arbitrary: shift acc rule: encodeVarintDollar.induct)
  case (1 v)
  show ?case
  proof (cases "0x80 \<le> v")
    case True
    then have v: "2 ^ 7 \<le> unat v" by (simp add: word_le_nat_alt)
    then have "(2 :: nat) ^ 7 < 2 ^ (64 - shift)" using 1(3) by (rule le_less_trans)
    then have shift: "7 < 64 - shift" by (simp only: power_strict_increasing_iff)
    then have "64 - shift = (64 - (shift + 7)) + 7" by simp
    then have "(2 :: nat) ^ (64 - shift) = 2 ^ (64 - (shift + 7)) * 2 ^ 7" by (metis power_add)
    with 1(3) have "unat (drop_bit 7 v) < 2 ^ (64 - (shift + 7))"
      unfolding drop_bit_unat by (simp add: less_mult_imp_div_less)
    moreover have "shift + 7 < 64" using shift by simp
    ultimately have "read_varint (shift + 7) acc' (encodeVarintDollar (drop_bit 7 v) @ rest)
        = Ok (or acc' (push_bit (shift + 7) (drop_bit 7 v)), length (encodeVarintDollar (drop_bit 7 v)))" for acc'
      using 1(1) [OF True] by blast
    then show ?thesis
      using 1(2) True continuation_byte [of v] split_push [of acc shift v]
      by (simp add: encodeVarintDollar.simps [of v] Let_def)
  next
    case False
    then have "unat v < 2 ^ 7" by (simp add: word_le_nat_alt)
    from last_byte [OF this] False 1(2) show ?thesis
      by (simp add: encodeVarintDollar.simps [of v] Let_def)
  qed
qed

text \<open>The helpers satisfy the contract.\<close>

lemma gogo_varint: "varint_runtime gogo_runtime"
proof -
  have "unat v < 2 ^ (64 - 0)" for v :: "64 word" using unsigned_less [of v] by simp
  then show ?thesis
    using read_encodeVarintDollar [of 0 _ 0]
    by (simp add: varint_runtime_def gogo_runtime_def length_encodeVarintDollar)
qed

lemma gogo_skip: "skip_progress (Skip gogo_runtime)"
  using skip_progress_Dollar [of 0 0] by (force simp: skip_progress_def gogo_runtime_def)

subsection \<open>Custom fields and sized buffers\<close>

text \<open>
  Amounts are \<open>math.Int\<close>, whose \<open>Marshal\<close> and \<open>Unmarshal\<close> are the library's; an \<open>Int\<close> that was never
  set is \<open>None\<close>, and \<open>Unmarshal\<close> has its receiver as an argument. \<open>Size\<close> is the length of what
  \<open>MarshalTo\<close> writes.
\<close>

record custom =
  Custom_Marshal :: "int option \<Rightarrow> bytes"
  Custom_Unmarshal :: "int option \<Rightarrow> bytes \<Rightarrow> int option result"

text \<open>Unlike a string, such a field is written even when it is empty.\<close>

definition size_custom :: "bytes \<Rightarrow> nat" where
  "size_custom bs = (let l = length bs in 1 + l + sovDollar (word_of_nat l))"

definition put_custom :: "8 word \<Rightarrow> bytes \<Rightarrow> buffer \<Rightarrow> buffer result" where
  "put_custom tag bs b =
     obind (put bs b) (\<lambda>b.
     obind (put (encodeVarintDollar (word_of_nat (length bs))) b) (put [tag]))"

text \<open>\<open>dAtA[:n]\<close>, with the number of bytes written to the end of the buffer.\<close>

definition sized_bytes :: "buffer \<Rightarrow> bytes" where
  "sized_bytes = (\<lambda>(i, written). take (length written) (replicate i 0 @ written))"

lemma sized_bytes_full [simp]: "sized_bytes (0, written) = written"
  by (simp add: sized_bytes_def)

lemma gogo_size_bounds:
  "size_varint gogo_runtime v \<le> 11" "size_delimited gogo_runtime bs \<le> 11 + length bs"
  "size_custom bs \<le> 11 + length bs"
  using sovDollar_le [of v] sovDollar_le [of "word_of_nat (length bs)"]
  by (simp_all add: size_varint_def size_delimited_def size_custom_def gogo_runtime_def Let_def)

text \<open>The texts of the numbers in a range are not empty and read back.\<close>

definition custom_codec :: "custom \<Rightarrow> (int \<Rightarrow> bool) \<Rightarrow> bool" where
  "custom_codec ic ok \<longleftrightarrow>
     (\<forall>a v. ok a \<longrightarrow> Custom_Marshal ic (Some a) \<noteq> [] \<and> Custom_Unmarshal ic v (Custom_Marshal ic (Some a)) = Ok (Some a))"

lemma custom_codecD:
  assumes "custom_codec ic ok" "ok a"
  shows "Custom_Marshal ic (Some a) \<noteq> []" "Custom_Unmarshal ic v (Custom_Marshal ic (Some a)) = Ok (Some a)"
  using assms by (simp_all add: custom_codec_def)

definition given :: "(int \<Rightarrow> bool) \<Rightarrow> int option \<Rightarrow> bool" where
  "given ok v \<longleftrightarrow> (case v of None \<Rightarrow> False | Some a \<Rightarrow> ok a)"

lemma givenD:
  assumes "custom_codec ic ok" "given ok v"
  shows "Custom_Marshal ic v \<noteq> []" "Custom_Unmarshal ic u (Custom_Marshal ic v) = Ok v"
  using assms custom_codecD [OF assms(1)] by (auto simp: given_def split: option.splits)

text \<open>A custom field that is not empty is a delimited one.\<close>

lemma custom_delimited:
  "bs \<noteq> [] \<Longrightarrow> put_custom tag bs b = put_delimited gogo_runtime tag bs b"
  "bs \<noteq> [] \<Longrightarrow> size_custom bs = size_delimited gogo_runtime bs"
  by (simp_all add: put_custom_def put_delimited_def size_custom_def size_delimited_def gogo_runtime_def)

end
