(* ===== verification/Decimal.thy ===== *)
theory Decimal
  imports Vault_State Gogo
begin

text \<open>
  Decimal texts of numbers and their parser, as an instance of what the model takes from
  \<open>math.Int\<close>: its texts are not empty and read back. The concrete examples use it.
\<close>

fun parse_digits :: "int \<Rightarrow> string \<Rightarrow> int option" where
  "parse_digits n [] = Some n"
| "parse_digits n (c # cs) = (let d = of_char c - 48 in
     if 0 \<le> d \<and> d \<le> (9 :: int) then parse_digits (10 * n + d) cs else None)"

definition test_NewIntFromString :: "string \<Rightarrow> int option" where
  "test_NewIntFromString s = (if s = [] then None else if hd s = CHR ''-'' then map_option uminus (parse_digits 0 (tl s))
     else parse_digits 0 s)"

lemma parse_digits_append:
  "parse_digits n (s @ t) = (case parse_digits n s of None \<Rightarrow> None | Some m \<Rightarrow> parse_digits m t)"
  by (induction n s rule: parse_digits.induct) (simp_all add: Let_def)

lemma of_char_digit: "d < 10 \<Longrightarrow> of_char (char_of (48 + d :: nat)) = (48 + int d)"
  by (subst of_nat_of_char [symmetric]) simp

lemma parse_digit: "d < 10 \<Longrightarrow> parse_digits n [char_of (48 + d :: nat)] = Some (10 * n + int d)"
  using of_char_digit [of d] by (simp add: Let_def)

lemma parse_nat_decimal: "parse_digits 0 (nat_decimal n) = Some (int n)"
proof (induction n rule: nat_decimal.induct)
  case (1 n)
  show ?case
  proof (cases "n < 10")
    case True
    then show ?thesis using parse_digit [of n 0] by (simp add: nat_decimal.simps)
  next
    case False
    have "10 * int (n div 10) + int (n mod 10) = int n" by presburger
    with 1 [OF False] False parse_digit [of "n mod 10" "int (n div 10)"] show ?thesis
      by (subst nat_decimal.simps) (simp add: parse_digits_append del: parse_digits.simps)
  qed
qed

lemma nat_decimal_hd: "nat_decimal n \<noteq> [] \<and> hd (nat_decimal n) \<noteq> CHR ''-''"
proof (induction n rule: nat_decimal.induct)
  case (1 n)
  have "char_of (48 + d) \<noteq> CHR ''-''" if "d < 10" for d :: nat
  proof
    assume "char_of (48 + d) = CHR ''-''"
    then have "of_char (char_of (48 + d)) = (of_char CHR ''-'' :: int)" by simp
    with of_char_digit [OF that] show False by simp
  qed
  with 1 show ?case by (subst (1 2) nat_decimal.simps) simp
qed

lemma parse_Itoa: "test_NewIntFromString (Itoa i) = Some i"
  using parse_nat_decimal [of "nat i"] parse_nat_decimal [of "nat (- i)"] nat_decimal_hd [of "nat i"]
  by (auto simp: test_NewIntFromString_def Itoa_def)

definition decimal_codec :: custom where
  "decimal_codec = \<lparr>Custom_Marshal = (\<lambda>v. string_bytes (Itoa (case v of None \<Rightarrow> 0 | Some i \<Rightarrow> i))),
     Custom_Unmarshal = (\<lambda>_ bs. case test_NewIntFromString (bytes_string bs) of
       None \<Rightarrow> Err (ErrExternal ''math/big'') | Some i \<Rightarrow> Ok (Some i))\<rparr>"

lemma decimal_custom: "custom_codec decimal_codec (\<lambda>_. True)"
proof -
  have "Itoa i \<noteq> []" for i using nat_decimal_hd by (simp add: Itoa_def)
  then show ?thesis
    using bytes_string_bytes
    by (auto simp: custom_codec_def decimal_codec_def parse_Itoa string_bytes_def)
qed

lemma decimal_texts:
  "Custom_Marshal decimal_codec (Some 0) = [0x30]" "Custom_Marshal decimal_codec (Some 100) = [0x31, 0x30, 0x30]"
  "Custom_Marshal decimal_codec (Some 1500) = [0x31, 0x35, 0x30, 0x30]"
  by code_simp+

end
