(* ===== verification/Genesis.thy ===== *)
theory Genesis
  imports State_Maps Portal Vaults Testbed Decimal
begin

text \<open>
  Genesis (\<open>genesis.go\<close>, \<open>types/v2/genesis.go\<close>) and the migration of the statistics from version
  1 to 2 (\<open>keeper/migrations.go\<close>). Every error of \<open>InitGenesis\<close> is a panic.
\<close>

subsection \<open>Genesis states\<close>

record portal_genesis =
  pg_Owner :: string
  pg_Paused :: bool
  pg_Peers :: "(16 word \<times> peer) list"
  pg_BridgingPaths :: "(16 word \<times> bytes) list"
  pg_Nonce :: "32 word"

record vaults_genesis =
  vg_Positions :: "position_entry list"
  vg_Rewards :: "reward list"
  vg_TotalFlexiblePrincipal :: int
  vg_Paused :: paused_type
  vg_SeasonOneEnded :: bool
  vg_Stats :: vaults_stats

record genesis_state =
  gs_Portal :: portal_genesis
  gs_Vaults :: vaults_genesis
  gs_Paused :: bool
  gs_Index :: int
  gs_Principal :: "(string \<times> string) list"
  gs_Stats :: stats
  gs_TotalExternalYield :: "(string \<times> string) list"
  gs_YieldRecipients :: "(string \<times> string) list"
  gs_RetryAmounts :: "(string \<times> string) list"

text \<open>The zero values of the two statistics; a nil \<open>Int\<close> is stored as zero.\<close>

definition zero_stats :: stats where
  "zero_stats = \<lparr>TotalHolders = 0, TotalPrincipal = 0, TotalYieldAccrued = 0\<rparr>"

definition zero_vaults_stats :: vaults_stats where
  "zero_vaults_stats = \<lparr>FlexibleTotalPrincipal = 0, FlexibleTotalUsers = 0,
     FlexibleTotalDistributedRewardsPrincipal = None, StakedTotalPrincipal = 0, StakedTotalUsers = 0\<rparr>"

definition DefaultGenesisState :: genesis_state where
  "DefaultGenesisState = \<lparr>
     gs_Portal = \<lparr>pg_Owner = '''', pg_Paused = False, pg_Peers = [], pg_BridgingPaths = [], pg_Nonce = 0\<rparr>,
     gs_Vaults = \<lparr>vg_Positions = [], vg_Rewards = [], vg_TotalFlexiblePrincipal = 0,
       vg_Paused = PAUSED_NONE, vg_SeasonOneEnded = False, vg_Stats = zero_vaults_stats\<rparr>,
     gs_Paused = False, gs_Index = 10 ^ 12, gs_Principal = [], gs_Stats = zero_stats,
     gs_TotalExternalYield = [], gs_YieldRecipients = [], gs_RetryAmounts = []\<rparr>"

subsection \<open>Import\<close>

text \<open>\<open>if err != nil { panic(...) }\<close>\<close>

definition must :: "string \<Rightarrow> 'a option \<Rightarrow> ('b, 'a) handler" where
  "must msg z = (case z of None \<Rightarrow> panic msg | Some x \<Rightarrow> ret x)"

definition init_principal ::
    "'b env \<Rightarrow> (string \<Rightarrow> int option) \<Rightarrow> string \<times> string \<Rightarrow> ('b, unit) handler" where
  "init_principal e NewIntFromString = (\<lambda>(rawAccount, rawPrincipal).
     bnd (must ''unable to decode account'' (StringToBytes e rawAccount)) (\<lambda>account.
     bnd (must ''unable to parse principal'' (NewIntFromString rawPrincipal)) (\<lambda>p.
     modify (Principal_update (Map_Set account p)))))"

definition init_external :: "(string \<Rightarrow> int option) \<Rightarrow> string \<times> string \<Rightarrow> ('b, unit) handler" where
  "init_external NewIntFromString = (\<lambda>(key, rawAmount).
     bnd (lift (ParseYieldRecipientKey key)) (\<lambda>k.
     bnd (must ''unable to parse total external yield'' (NewIntFromString rawAmount)) (\<lambda>amount.
     modify (TotalExternalYield_update (Map_Set k amount)))))"

definition init_recipient :: "string \<times> string \<Rightarrow> ('b, unit) handler" where
  "init_recipient = (\<lambda>(key, recipient).
     bnd (lift (ParseYieldRecipientKey key)) (\<lambda>k.
     modify (YieldRecipients_update (Map_Set k recipient))))"

definition init_retry :: "(string \<Rightarrow> int option) \<Rightarrow> string \<times> string \<Rightarrow> ('b, unit) handler" where
  "init_retry NewIntFromString = (\<lambda>(key, rawRetryAmount).
     bnd (must ''unable to decode retry amount'' (NewIntFromString rawRetryAmount)) (\<lambda>retryAmount.
     bnd (lift (ParseYieldRecipientKey key)) (\<lambda>k.
     modify (RetryAmounts_update (Map_Set k retryAmount)))))"

definition init_peer :: "16 word \<times> peer \<Rightarrow> ('b, unit) handler" where
  "init_peer = (\<lambda>(chain, peer). modify (PortalPeers_update (Map_Set chain peer)))"

definition init_path :: "16 word \<times> bytes \<Rightarrow> ('b, unit) handler" where
  "init_path path = modify (PortalBridgingPaths_update (Map_Set path True))"

definition init_portal :: "portal_genesis \<Rightarrow> ('b, unit) handler" where
  "init_portal g =
     thn (modify (PortalOwner_update (\<lambda>_. Some (pg_Owner g))))
     (thn (modify (PortalPaused_update (\<lambda>_. Some (pg_Paused g))))
     (thn (for_each init_peer (pg_Peers g))
     (thn (for_each init_path (pg_BridgingPaths g))
     (modify (PortalNonce_update (\<lambda>_. Some (pg_Nonce g)))))))"

definition init_position :: "position_entry \<Rightarrow> ('b, unit) handler" where
  "init_position p =
     modify (VaultsPositions_update (Map_Set (pos_Address p, pos_Vault p, Unix (pos_Time p))
       \<lparr>pos_Principal = pos_Principal p, pos_Index = pos_Index p, pos_Amount = pos_Amount p,
        pos_Time = pos_Time p\<rparr>))"

definition init_reward :: "reward \<Rightarrow> ('b, unit) handler" where
  "init_reward r =
     modify (VaultsRewards_update (Map_Set (rew_Index r)
       \<lparr>rew_Index = rew_Index r, rew_Total = rew_Total r, rew_Rewards = rew_Rewards r\<rparr>))"

definition init_vaults :: "vaults_genesis \<Rightarrow> ('b, unit) handler" where
  "init_vaults g =
     thn (for_each init_position (vg_Positions g))
     (thn (for_each init_reward (vg_Rewards g))
     (thn (modify (VaultsPaused_update (\<lambda>_. Some (vg_Paused g))))
     (thn (modify (VaultsSeasonOneEnded_update (\<lambda>_. Some (vg_SeasonOneEnded g))))
     (thn (modify (VaultsStats_update (\<lambda>_. Some (vg_Stats g))))
     (modify (VaultsTotalFlexiblePrincipal_update (\<lambda>_. Some (vg_TotalFlexiblePrincipal g))))))))"

definition InitGenesis ::
    "'b env \<Rightarrow> (string \<Rightarrow> int option) \<Rightarrow> genesis_state \<Rightarrow> ('b, unit) handler" where
  "InitGenesis e NewIntFromString g =
     thn (modify (Paused_update (\<lambda>_. Some (gs_Paused g))))
     (thn (modify (Index_update (\<lambda>_. Some (gs_Index g))))
     (thn (for_each (init_principal e NewIntFromString) (gs_Principal g))
     (thn (modify (Stats_update (\<lambda>_. Some (gs_Stats g))))
     (thn (for_each (init_external NewIntFromString) (gs_TotalExternalYield g))
     (thn (for_each init_recipient (gs_YieldRecipients g))
     (thn (for_each (init_retry NewIntFromString) (gs_RetryAmounts g))
     (thn (init_portal (gs_Portal g))
     (init_vaults (gs_Vaults g)))))))))"

subsection \<open>Export\<close>

text \<open>Every error is ignored: an item that was never set is exported as its zero value.\<close>

definition ExportGenesis :: "'b env \<Rightarrow> 'b world \<Rightarrow> genesis_state" where
  "ExportGenesis e w = \<lparr>
     gs_Portal = \<lparr>pg_Owner = get_or '''' (PortalOwner w), pg_Paused = GetPortalPaused w,
       pg_Peers = GetPortalPeers w, pg_BridgingPaths = GetPortalBridgingPaths w,
       pg_Nonce = get_or 0 (PortalNonce w)\<rparr>,
     gs_Vaults = \<lparr>vg_Positions = GetVaultsPositions w, vg_Rewards = GetVaultsRewards w,
       vg_TotalFlexiblePrincipal = get_or 0 (VaultsTotalFlexiblePrincipal w),
       vg_Paused = GetVaultsPaused w, vg_SeasonOneEnded = IsVaultsSeasonOneEnded w,
       vg_Stats = get_or zero_vaults_stats (VaultsStats w)\<rparr>,
     gs_Paused = GetPaused w, gs_Index = get_or 0 (Index w), gs_Principal = fst (GetPrincipal e w),
     gs_Stats = get_or zero_stats (Stats w), gs_TotalExternalYield = GetTotalExternalYield w,
     gs_YieldRecipients = GetYieldRecipients w, gs_RetryAmounts = GetRetryAmounts w\<rparr>"

subsection \<open>Loops that fill a map\<close>

lemma for_each_fill:
  assumes step: "\<And>x w. x \<in> set xs \<Longrightarrow> body x w = (Ok (), upd (Map_Set (k x) (v x)) w)"
    and upd: "\<And>f g w. upd f (upd g w) = upd (f \<circ> g) w" "\<And>w. upd id w = w"
  shows "for_each body xs w = (Ok (), upd (fill k v xs) w)"
  using step
proof (induction xs arbitrary: w)
  case Nil
  then show ?case using upd(2) [of w] by (simp add: ret_def id_def fill_def)
next
  case (Cons x xs)
  have "for_each body xs w' = (Ok (), upd (fill k v xs) w')" for w'
    by (rule Cons.IH) (use Cons.prems in simp)
  moreover have "fill k v (x # xs) = fill k v xs \<circ> Map_Set (k x) (v x)" by (rule ext) simp
  ultimately show ?case using Cons.prems [of x w] by (simp add: thn_def bnd_def upd comp_def)
qed

lemma must_Some [simp]: "must msg (Some x) = ret x"
  by (simp add: must_def)

subsection \<open>What genesis carries over\<close>

text \<open>The module's own part of the store.\<close>

definition module_state :: "'b world \<Rightarrow> _" where
  "module_state w = (Paused w, Index w, Principal w, Stats w, TotalExternalYield w, YieldRecipients w,
     RetryAmounts w, portal_view w, custody_view w, VaultsRewards w)"

text \<open>
  What an export needs in order to be complete: every item was set, every address has a textual
  form that decodes to it, every provider is known, no identifier contains a slash, every
  bridging path is supported, and positions and rewards sit under the keys their fields give.
\<close>

definition address_ok :: "'b env \<Rightarrow> addr \<Rightarrow> bool" where
  "address_ok e a = (case BytesToString e a of None \<Rightarrow> False | Some s \<Rightarrow> StringToBytes e s = Some a)"

definition exportable :: "'b env \<Rightarrow> (string \<Rightarrow> int option) \<Rightarrow> 'b world \<Rightarrow> bool" where
  "exportable e NewIntFromString w \<longleftrightarrow>
     Paused w \<noteq> None \<and> Index w \<noteq> None \<and> Stats w \<noteq> None \<and> PortalOwner w \<noteq> None \<and> PortalPaused w \<noteq> None \<and>
     PortalNonce w \<noteq> None \<and> VaultsPaused w \<noteq> None \<and> VaultsSeasonOneEnded w \<noteq> None \<and>
     VaultsTotalFlexiblePrincipal w \<noteq> None \<and> VaultsStats w \<noteq> None \<and>
     map_ok (Principal w) \<and> map_ok (TotalExternalYield w) \<and> map_ok (YieldRecipients w) \<and>
     map_ok (RetryAmounts w) \<and> map_ok (PortalPeers w) \<and> map_ok (PortalBridgingPaths w) \<and>
     map_ok (VaultsPositions w) \<and> map_ok (VaultsRewards w) \<and>
     (\<forall>(a, p)\<in>set (Principal w). address_ok e a \<and>
        NewIntFromString (Itoa p) = Some p) \<and>
     (\<forall>(k, x)\<in>set (TotalExternalYield w). known_key k \<and> NewIntFromString (Itoa x) = Some x) \<and>
     (\<forall>(k, x)\<in>set (RetryAmounts w). known_key k \<and> NewIntFromString (Itoa x) = Some x) \<and>
     (\<forall>(k, _)\<in>set (YieldRecipients w). known_key k) \<and>
     (\<forall>(_, supported)\<in>set (PortalBridgingPaths w). supported) \<and>
     (\<forall>((_, _, t), p)\<in>set (VaultsPositions w). t = Unix (pos_Time p)) \<and>
     (\<forall>(k, r)\<in>set (VaultsRewards w). rew_Index r = k)"

definition empty_store :: "'b world \<Rightarrow> bool" where
  "empty_store w \<longleftrightarrow> Principal w = [] \<and> TotalExternalYield w = [] \<and> YieldRecipients w = [] \<and>
     RetryAmounts w = [] \<and> PortalPeers w = [] \<and> PortalBridgingPaths w = [] \<and>
     VaultsPositions w = [] \<and> VaultsRewards w = []"

text \<open>Each of the loops rebuilds its map.\<close>

definition key_of :: "string \<Rightarrow> (provider \<times> string) option" where
  "key_of s = (case ParseYieldRecipientKey s of Ok k \<Rightarrow> Some k | _ \<Rightarrow> None)"

lemma key_of_Some: "key_of s = Some k \<longleftrightarrow> ParseYieldRecipientKey s = Ok k"
  by (simp add: key_of_def split: outcome.split)

lemma key_of_print: "known_key k \<Longrightarrow> key_of (recipient_key k) = Some k"
  by (simp add: key_of_Some parse_recipient_key)

lemma export_principal:
  assumes "map_ok (Principal w)"
    and "\<forall>(a, p)\<in>set (Principal w). address_ok e a \<and> nifs (Itoa p) = Some p"
  shows "for_each (init_principal e nifs) (fst (GetPrincipal e w)) v
    = (Ok (), Principal_update (fill (\<lambda>x. the (StringToBytes e (fst x))) (\<lambda>x. the (nifs (snd x))) (fst (GetPrincipal e w))) v)"
    "fill (\<lambda>x. the (StringToBytes e (fst x))) (\<lambda>x. the (nifs (snd x))) (fst (GetPrincipal e w)) [] = Principal w"
proof -
  have get: "fst (GetPrincipal e w) = fill (\<lambda>x. the (BytesToString e (fst x))) (\<lambda>x. Itoa (snd x)) (Principal w) []"
    unfolding GetPrincipal_def using assms(2)
    by (subst principal_walk_fill) (auto simp: address_ok_def split: option.splits)
  have codec: "StringToBytes e (the (BytesToString e a)) = Some a \<and> nifs (Itoa p) = Some p"
    if "(a, p) \<in> set (Principal w)" for a p
    using assms(2) that by (auto simp: address_ok_def split: option.splits)
  note pp = print_parse [OF assms(1), of "StringToBytes e" "\<lambda>a. the (BytesToString e a)" nifs Itoa, OF codec]
  show "fill (\<lambda>x. the (StringToBytes e (fst x))) (\<lambda>x. the (nifs (snd x))) (fst (GetPrincipal e w)) [] = Principal w"
    unfolding get by (rule pp(2))
  show "for_each (init_principal e nifs) (fst (GetPrincipal e w)) v
    = (Ok (), Principal_update (fill (\<lambda>x. the (StringToBytes e (fst x))) (\<lambda>x. the (nifs (snd x))) (fst (GetPrincipal e w))) v)"
  proof (rule for_each_fill)
    fix x :: "string \<times> string" and u
    assume "x \<in> set (fst (GetPrincipal e w))"
    then have "\<exists>a p. StringToBytes e (fst x) = Some a \<and> nifs (snd x) = Some p"
      unfolding get using pp(1) [of "fst x" "snd x"] by simp
    then show "init_principal e nifs x u = (Ok (), Principal_update (Map_Set (the (StringToBytes e (fst x))) (the (nifs (snd x)))) u)"
      by (auto simp: init_principal_def bnd_run_simps run_simps split: prod.split)
  qed (simp_all add: comp_def)
qed

lemma keyed_import:
  fixes m :: "(provider \<times> string, 'v) cmap" and ev :: "'v \<Rightarrow> 's"
  assumes m: "map_ok m" "\<And>k x. (k, x) \<in> set m \<Longrightarrow> known_key k \<and> dv (ev x) = Some x"
    and step: "\<And>s t k x u. key_of s = Some k \<Longrightarrow> dv t = Some x \<Longrightarrow> body (s, t) u = (Ok (), upd (Map_Set k x) u)"
    and upd: "\<And>f g u. upd f (upd g u) = upd (f \<circ> g) u" "\<And>u. upd id u = u"
  shows "\<exists>f. (\<forall>v. for_each body (fill (\<lambda>x. recipient_key (fst x)) (\<lambda>x. ev (snd x)) m []) v = (Ok (), upd f v)) \<and> f [] = m"
proof -
  have codec: "key_of (recipient_key k) = Some k \<and> dv (ev x) = Some x" if "(k, x) \<in> set m" for k x
    using m(2) [OF that] key_of_print by blast
  note pp = print_parse [OF m(1), of key_of recipient_key dv ev, OF codec]
  let ?M = "fill (\<lambda>x. recipient_key (fst x)) (\<lambda>x. ev (snd x)) m []"
  have "for_each body ?M v = (Ok (), upd (fill (\<lambda>x. the (key_of (fst x))) (\<lambda>x. the (dv (snd x))) ?M) v)" for v
  proof (rule for_each_fill [OF _ upd])
    fix x :: "string \<times> 's" and u
    assume "x \<in> set ?M"
    then obtain k p where "key_of (fst x) = Some k" "dv (snd x) = Some p"
      using pp(1) [of "fst x" "snd x"] by auto
    with step [of "fst x" k "snd x" p u]
    show "body x u = (Ok (), upd (Map_Set (the (key_of (fst x))) (the (dv (snd x)))) u)" by simp
  qed
  with pp(2) show ?thesis by blast
qed

lemma export_external:
  assumes "map_ok (TotalExternalYield w)" "\<forall>(k, x)\<in>set (TotalExternalYield w). known_key k \<and> nifs (Itoa x) = Some x"
  shows "\<exists>f. (\<forall>v. for_each (init_external nifs) (GetTotalExternalYield w) v = (Ok (), TotalExternalYield_update f v)) \<and>
    f [] = TotalExternalYield w"
  unfolding GetTotalExternalYield_def
  by (rule keyed_import [where dv = nifs, OF assms(1)])
    (use assms(2) in \<open>auto simp: init_external_def key_of_Some bnd_run_simps run_simps comp_def\<close>)

lemma export_retry:
  assumes "map_ok (RetryAmounts w)" "\<forall>(k, x)\<in>set (RetryAmounts w). known_key k \<and> nifs (Itoa x) = Some x"
  shows "\<exists>f. (\<forall>v. for_each (init_retry nifs) (GetRetryAmounts w) v = (Ok (), RetryAmounts_update f v)) \<and>
    f [] = RetryAmounts w"
  unfolding GetRetryAmounts_def
  by (rule keyed_import [where dv = nifs, OF assms(1)])
    (use assms(2) in \<open>auto simp: init_retry_def key_of_Some bnd_run_simps run_simps comp_def\<close>)

lemma export_recipients:
  assumes "map_ok (YieldRecipients w)" "\<forall>(k, _)\<in>set (YieldRecipients w). known_key k"
  shows "\<exists>f. (\<forall>v :: 'b world. for_each init_recipient (GetYieldRecipients w) v = (Ok (), YieldRecipients_update f v)) \<and>
    f [] = YieldRecipients w"
proof -
  have eq: "GetYieldRecipients w = fill (\<lambda>x. recipient_key (fst x)) (\<lambda>x. id (snd x)) (YieldRecipients w) []"
    by (simp add: GetYieldRecipients_def)
  have known: "known_key k \<and> Some (id x) = Some x" if "(k, x) \<in> set (YieldRecipients w)" for k x
    using assms(2) that by auto
  have step: "init_recipient (s, t) u = (Ok (), YieldRecipients_update (Map_Set k x) u)"
    if "key_of s = Some k" "Some t = Some x" for s t k x and u :: "'b world"
    using that by (simp add: init_recipient_def key_of_Some bnd_run_simps run_simps)
  show ?thesis
    unfolding eq by (rule keyed_import [where dv = Some and body = init_recipient and upd = YieldRecipients_update, OF assms(1)]) (use known step in \<open>auto simp: comp_def\<close>)
qed

text \<open>The loops over peers, paths, positions and rewards.\<close>

lemma export_peers:
  assumes "map_ok (PortalPeers w)"
  shows "\<exists>f. (\<forall>v. for_each init_peer (GetPortalPeers w) v
    = (Ok (), PortalPeers_update f v)) \<and> f [] = PortalPeers w"
  unfolding GetPortalPeers_def
  by (rule exI [of _ "fill fst snd (PortalPeers w)"], intro conjI allI fill_self [OF assms] for_each_fill)
    (auto simp: init_peer_def run_simps comp_def)

lemma export_paths:
  assumes "map_ok (PortalBridgingPaths w)" "\<forall>(_, supported)\<in>set (PortalBridgingPaths w). supported"
  shows "\<exists>f. (\<forall>v. for_each init_path (GetPortalBridgingPaths w) v
    = (Ok (), PortalBridgingPaths_update f v)) \<and> f [] = PortalBridgingPaths w"
proof (intro exI conjI allI)
  let ?f = "fill (\<lambda>x. x) (\<lambda>_. True) (GetPortalBridgingPaths w)"
  have all: "filter snd (PortalBridgingPaths w) = PortalBridgingPaths w"
    using assms(2) by (auto simp: filter_id_conv)
  show "for_each init_path (GetPortalBridgingPaths w) v
    = (Ok (), PortalBridgingPaths_update ?f v)" for v
    by (rule for_each_fill) (auto simp: init_path_def run_simps comp_def)
  show "?f [] = PortalBridgingPaths w"
    unfolding GetPortalBridgingPaths_def all
    by (rule fill_rebuild [OF assms(1)]) (use assms in \<open>force simp: map_ok_distinct\<close>)+
qed

lemma export_positions:
  assumes "map_ok (VaultsPositions w)" "\<forall>((_, _, t), p)\<in>set (VaultsPositions w). t = Unix (pos_Time p)"
  shows "\<exists>f. (\<forall>v. for_each init_position (GetVaultsPositions w) v = (Ok (), VaultsPositions_update f v)) \<and>
    f [] = VaultsPositions w"
proof (intro exI conjI allI)
  let ?k = "\<lambda>p. (pos_Address p, pos_Vault p, Unix (pos_Time p))"
  let ?v = "\<lambda>p. \<lparr>pos_Principal = pos_Principal p, pos_Index = pos_Index p, pos_Amount = pos_Amount p, pos_Time = pos_Time p\<rparr>"
  have entry: "(?k (position_entry_of x), ?v (position_entry_of x)) = x" if "x \<in> set (VaultsPositions w)" for x
    using assms(2) that by (cases x rule: position_entry_of.cases) auto
  show "for_each init_position (GetVaultsPositions w) v
    = (Ok (), VaultsPositions_update (fill ?k ?v (GetVaultsPositions w)) v)" for v
    by (rule for_each_fill) (auto simp: init_position_def run_simps comp_def)
  show "fill ?k ?v (GetVaultsPositions w) [] = VaultsPositions w"
  proof (rule fill_rebuild [OF assms(1)])
    have "map ?k (GetVaultsPositions w) = map fst (VaultsPositions w)"
      unfolding GetVaultsPositions_def map_map
      by (rule map_cong [OF refl]) (use entry in \<open>simp add: prod_eq_iff\<close>)
    then show "distinct (map ?k (GetVaultsPositions w))" using map_ok_distinct [OF assms(1)] by simp
    show "(a, b) \<in> set (VaultsPositions w) \<longleftrightarrow> (\<exists>x\<in>set (GetVaultsPositions w). ?k x = a \<and> ?v x = b)" for a b
    proof
      assume ab: "(a, b) \<in> set (VaultsPositions w)"
      then have "position_entry_of (a, b) \<in> set (GetVaultsPositions w)" by (simp add: GetVaultsPositions_def)
      with entry [OF ab] show "\<exists>x\<in>set (GetVaultsPositions w). ?k x = a \<and> ?v x = b"
        by (intro bexI [of _ "position_entry_of (a, b)"]) (simp_all only: prod.inject)
    next
      assume "\<exists>x\<in>set (GetVaultsPositions w). ?k x = a \<and> ?v x = b"
      then obtain y where y: "y \<in> set (VaultsPositions w)" "?k (position_entry_of y) = a" "?v (position_entry_of y) = b"
        unfolding GetVaultsPositions_def by (auto simp del: prod.inject)
      from entry [OF y(1)] y show "(a, b) \<in> set (VaultsPositions w)" by (simp only:)
    qed
  qed
qed

lemma export_rewards:
  assumes "map_ok (VaultsRewards w)" "\<forall>(k, r)\<in>set (VaultsRewards w). rew_Index r = k"
  shows "\<exists>f. (\<forall>v :: 'b world. for_each init_reward (GetVaultsRewards w) v = (Ok (), VaultsRewards_update f v)) \<and>
    f [] = VaultsRewards w"
proof (intro exI conjI allI)
  show "for_each init_reward (GetVaultsRewards w) v
    = (Ok (), VaultsRewards_update (fill rew_Index id (GetVaultsRewards w)) v)" for v :: "'b world"
  proof (rule for_each_fill)
    have "\<lparr>rew_Index = rew_Index x, rew_Total = rew_Total x, rew_Rewards = rew_Rewards x\<rparr> = x" for x by simp
    then show "init_reward x u = (Ok (), VaultsRewards_update (Map_Set (rew_Index x) (id x)) u)" for x and u :: "'b world"
      unfolding init_reward_def modify_def by (simp only: id_apply)
  qed (simp_all add: comp_def)
  have rew: "rew_Index (snd x) = fst x" if "x \<in> set (VaultsRewards w)" for x
    using assms(2) that by (cases x) auto
  show "fill rew_Index id (GetVaultsRewards w) [] = VaultsRewards w"
  proof (rule fill_rebuild [OF assms(1)])
    have "map rew_Index (GetVaultsRewards w) = map fst (VaultsRewards w)"
      unfolding GetVaultsRewards_def map_map by (rule map_cong [OF refl]) (simp add: rew)
    then show "distinct (map rew_Index (GetVaultsRewards w))" using map_ok_distinct [OF assms(1)] by simp
    show "(a, b) \<in> set (VaultsRewards w) \<longleftrightarrow> (\<exists>x\<in>set (GetVaultsRewards w). rew_Index x = a \<and> id x = b)" for a b
      using rew by (force simp: GetVaultsRewards_def)
  qed
qed

subsection \<open>Migration\<close>

text \<open>
  \<open>Migrate1to2\<close> reads the statistics as version 1 and writes them as version 2, which has the
  same three fields. The version 1 item lives under the same key, so it is read from the bytes
  stored there by a decoder of its own.
\<close>

record stats_v1 =
  v1_TotalHolders :: "64 word"
  v1_TotalPrincipal :: int
  v1_TotalYieldAccrued :: int

definition Migrate1to2 :: "('b world \<Rightarrow> stats_v1 option) \<Rightarrow> ('b, unit) handler" where
  "Migrate1to2 v1Stats =
     bnd (wrap_err ''failed to get noble dollar v1 stats'' (item_get v1Stats)) (\<lambda>s.
     modify (Stats_update (\<lambda>_. Some \<lparr>TotalHolders = v1_TotalHolders s,
       TotalPrincipal = v1_TotalPrincipal s, TotalYieldAccrued = v1_TotalYieldAccrued s\<rparr>)))"

subsection \<open>Properties\<close>

text \<open>What can be exported, in the parts the loops need.\<close>

lemma exportableD:
  assumes "exportable e NewIntFromString w"
  shows "map_ok (Principal w)" "map_ok (TotalExternalYield w)" "map_ok (YieldRecipients w)"
    "map_ok (RetryAmounts w)" "map_ok (PortalPeers w)" "map_ok (PortalBridgingPaths w)"
    "map_ok (VaultsPositions w)" "map_ok (VaultsRewards w)"
    "\<forall>(a, p)\<in>set (Principal w). address_ok e a \<and>
        NewIntFromString (Itoa p) = Some p"
    "\<forall>(k, x)\<in>set (TotalExternalYield w). known_key k \<and> NewIntFromString (Itoa x) = Some x"
    "\<forall>(k, x)\<in>set (RetryAmounts w). known_key k \<and> NewIntFromString (Itoa x) = Some x"
    "\<forall>(k, _)\<in>set (YieldRecipients w). known_key k"
    "\<forall>(_, supported)\<in>set (PortalBridgingPaths w). supported"
    "\<forall>((_, _, t), p)\<in>set (VaultsPositions w). t = Unix (pos_Time p)"
    "\<forall>(k, r)\<in>set (VaultsRewards w). rew_Index r = k"
  using assms unfolding exportable_def by blast+

lemma exported_items:
  assumes "exportable e NewIntFromString w"
  shows "Paused w = Some (GetPaused w)" "Index w = Some (get_or 0 (Index w))"
    "Stats w = Some (get_or zero_stats (Stats w))" "PortalOwner w = Some (get_or '''' (PortalOwner w))"
    "PortalPaused w = Some (GetPortalPaused w)" "PortalNonce w = Some (get_or 0 (PortalNonce w))"
    "VaultsPaused w = Some (GetVaultsPaused w)" "VaultsSeasonOneEnded w = Some (IsVaultsSeasonOneEnded w)"
    "VaultsTotalFlexiblePrincipal w = Some (get_or 0 (VaultsTotalFlexiblePrincipal w))"
    "VaultsStats w = Some (get_or zero_vaults_stats (VaultsStats w))"
  using assms
  by (auto simp: exportable_def GetPaused_def GetPortalPaused_def GetVaultsPaused_def IsVaultsSeasonOneEnded_def)

text \<open>C12 (genesis_round_trip): importing the exported genesis of a store into an empty store restores the whole
  state of the module: index, principal, statistics, yield recipients, retry amounts, the Portal
  and the vaults.\<close>

theorem genesis_round_trip:
  fixes e :: "'b env"
  assumes "exportable e NewIntFromString w" "empty_store v"
  shows "\<exists>v'. InitGenesis e NewIntFromString (ExportGenesis e w) v = (Ok (), v') \<and>
    module_state v' = module_state w"
proof -
  note h = exportableD [OF assms(1)]
  define fp where "fp = fill (\<lambda>x. the (StringToBytes e (fst x))) (\<lambda>x. the (NewIntFromString (snd x))) (fst (GetPrincipal e w))"
  have p: "for_each (init_principal e NewIntFromString) (fst (GetPrincipal e w)) u = (Ok (), Principal_update fp u)"
    "fp [] = Principal w" for u :: "'b world"
    unfolding fp_def by (rule export_principal [OF h(1,9)])+
  obtain f1 where f1: "\<And>u :: 'b world. for_each (init_external NewIntFromString) (GetTotalExternalYield w) u
      = (Ok (), TotalExternalYield_update f1 u)" "f1 [] = TotalExternalYield w"
    using export_external [OF h(2,10)] by blast
  obtain f2 where f2: "\<And>u :: 'b world. for_each init_recipient (GetYieldRecipients w) u
      = (Ok (), YieldRecipients_update f2 u)" "f2 [] = YieldRecipients w"
    using export_recipients [OF h(3,12)] by blast
  obtain f3 where f3: "\<And>u :: 'b world. for_each (init_retry NewIntFromString) (GetRetryAmounts w) u
      = (Ok (), RetryAmounts_update f3 u)" "f3 [] = RetryAmounts w"
    using export_retry [OF h(4,11)] by blast
  obtain f4 where f4: "\<And>u :: 'b world. for_each init_peer (GetPortalPeers w) u = (Ok (), PortalPeers_update f4 u)" "f4 [] = PortalPeers w"
    using export_peers [OF h(5)] by blast
  obtain f5 where f5: "\<And>u :: 'b world. for_each init_path (GetPortalBridgingPaths w) u = (Ok (), PortalBridgingPaths_update f5 u)" "f5 [] = PortalBridgingPaths w"
    using export_paths [OF h(6,13)] by blast
  obtain f6 where f6: "\<And>u :: 'b world. for_each init_position (GetVaultsPositions w) u
      = (Ok (), VaultsPositions_update f6 u)" "f6 [] = VaultsPositions w"
    using export_positions [OF h(7,14)] by blast
  obtain f7 where f7: "\<And>u :: 'b world. for_each init_reward (GetVaultsRewards w) u
      = (Ok (), VaultsRewards_update f7 u)" "f7 [] = VaultsRewards w"
    using export_rewards [OF h(8,15)] by blast
  note items = exported_items [OF assms(1)]
  obtain v' where "InitGenesis e NewIntFromString (ExportGenesis e w) v = (Ok (), v')"
    "module_state v' = module_state w"
    unfolding InitGenesis_def ExportGenesis_def init_portal_def init_vaults_def
    using assms(2) items p(2) f1(2) f2(2) f3(2) f4(2) f5(2) f6(2) f7(2)
    by (simp add: thn_def bnd_def modify_def p(1) f1(1) f2(1) f3(1) f4(1) f5(1) f6(1) f7(1)
        module_state_def portal_view_def custody_view_def empty_store_def)
  then show ?thesis by blast
qed

text \<open>A store that uses every collection.\<close>

definition genesis_world :: "mock_app world" where
  "genesis_world = test_world\<lparr>
     Paused := Some False, VaultsPaused := Some PAUSED_LOCK, VaultsSeasonOneEnded := Some False,
     TotalExternalYield := [((IBC, ''channel-0''), 25)],
     YieldRecipients := [((IBC, ''channel-0''), ''noble''), ((HYPERLANE, ''0x01''), ''eth'')],
     RetryAmounts := [((IBC, ''channel-0''), 7)],
     PortalPeers := [(2, \<lparr>Transceiver = [1], Manager = [2]\<rparr>)],
     PortalBridgingPaths := [((2, [3]), True)],
     VaultsPositions := [(([97], FLEXIBLE, 5),
       \<lparr>pos_Principal = 100, pos_Index = 10 ^ 12, pos_Amount = 100, pos_Time = 5000000001\<rparr>)],
     VaultsTotalFlexiblePrincipal := Some 100,
     VaultsRewards := [(10 ^ 12, \<lparr>rew_Index = 10 ^ 12, rew_Total = 100, rew_Rewards = 0\<rparr>)]\<rparr>"

lemma genesis_round_trip_witness:
  "\<exists>v'. InitGenesis test_env test_NewIntFromString (ExportGenesis test_env genesis_world)
      (genesis_world\<lparr>Principal := [], TotalExternalYield := [], YieldRecipients := [], RetryAmounts := [],
        PortalPeers := [], PortalBridgingPaths := [], VaultsPositions := [], VaultsRewards := []\<rparr>) = (Ok (), v') \<and>
    module_state v' = module_state genesis_world"
proof (rule genesis_round_trip)
  show "exportable test_env test_NewIntFromString genesis_world" by code_simp
next
  show "empty_store (genesis_world\<lparr>Principal := [], TotalExternalYield := [], YieldRecipients := [], RetryAmounts := [],
        PortalPeers := [], PortalBridgingPaths := [], VaultsPositions := [], VaultsRewards := []\<rparr>)"
    by (simp add: empty_store_def)
qed

end
