(* ===== verification/Store_Type.thy ===== *)
theory Store_Type
  imports Chain Genesis
begin

text \<open>
  The type of the store. The collections are ordered maps without duplicate keys, a position is
  stored under its owner, its vault and the Unix seconds of its own time, and the items that
  genesis sets are there. Every handler keeps this, whatever its outcome.
\<close>

definition collections_ok :: "'b world \<Rightarrow> bool" where
  "collections_ok w \<longleftrightarrow> map_ok (Principal w) \<and> map_ok (TotalExternalYield w) \<and> map_ok (YieldRecipients w) \<and>
     map_ok (RetryAmounts w) \<and> map_ok (PortalPeers w) \<and> map_ok (PortalBridgingPaths w) \<and>
     keyed (VaultsPositions w) \<and> map_ok (VaultsRewards w)"

definition items_set :: "'b world \<Rightarrow> bool" where
  "items_set w \<longleftrightarrow> Paused w \<noteq> None \<and> Index w \<noteq> None \<and> Stats w \<noteq> None \<and> PortalOwner w \<noteq> None \<and>
     PortalPaused w \<noteq> None \<and> PortalNonce w \<noteq> None \<and> VaultsPaused w \<noteq> None \<and>
     VaultsSeasonOneEnded w \<noteq> None \<and> VaultsStats w \<noteq> None \<and> VaultsTotalFlexiblePrincipal w \<noteq> None"

definition store_ok :: "'b world \<Rightarrow> bool" where
  "store_ok w \<longleftrightarrow> collections_ok w \<and> items_set w"

lemmas store_ok_defs = store_ok_def collections_ok_def items_set_def

subsection \<open>Every step keeps it\<close>

interpretation type_frame: keeper_frame "keeps store_ok" e for e
  by unfold_locales (auto simp: keeps_def store_ok_defs map_write_def)

interpretation type_chain: chain_relation "keeps store_ok" e for e
  by unfold_locales (auto simp: keeps_def store_ok_defs map_write_def keyed_write_def map_ok_Set)

subsection \<open>Genesis establishes it\<close>

lemma must_steps: "steps (keeps P) (must msg z)"
  by (cases z) (simp_all add: must_def keeps_rel.steps_pure)

lemma genesis_writes:
  "steps (keeps collections_ok) (init_principal e p a)" "steps (keeps collections_ok) (init_external p b)"
  "steps (keeps collections_ok) (init_recipient c)" "steps (keeps collections_ok) (init_retry p d)"
  "steps (keeps collections_ok) (init_peer f)" "steps (keeps collections_ok) (init_path g)"
  "steps (keeps collections_ok) (init_position h)" "steps (keeps collections_ok) (init_reward r)"
  unfolding init_principal_def init_external_def init_recipient_def init_retry_def init_peer_def
    init_path_def init_position_def init_reward_def
  by (intro keeps_rel.steps_case_prod keeps_rel.steps_bnd keeps_rel.steps_pure must_steps keeps_rel.steps_modify;
      simp add: keeps_def collections_ok_def map_ok_Set keyed_def)+

text \<open>The loops of genesis leave the items alone.\<close>

definition items_view :: "'b world \<Rightarrow> _" where
  "items_view w = (Paused w, Index w, Stats w, PortalOwner w, PortalPaused w, PortalNonce w,
     VaultsPaused w, VaultsSeasonOneEnded w, VaultsStats w, VaultsTotalFlexiblePrincipal w)"

lemma must_same: "steps (same f) (must msg z)"
  by (cases z) (simp_all add: must_def same_rel.steps_pure)

lemma genesis_items:
  "steps (same items_view) (for_each (init_principal e p) as)" "steps (same items_view) (for_each (init_external p) bs)"
  "steps (same items_view) (for_each init_recipient cs)" "steps (same items_view) (for_each (init_retry p) ds)"
  "steps (same items_view) (for_each init_peer fs)" "steps (same items_view) (for_each init_path gs)"
  "steps (same items_view) (for_each init_position hs)" "steps (same items_view) (for_each init_reward rs)"
  unfolding init_principal_def init_external_def init_recipient_def init_retry_def init_peer_def
    init_path_def init_position_def init_reward_def
  by (intro same_rel.steps_for_each same_rel.steps_case_prod same_rel.steps_bnd same_rel.steps_pure must_same
      same_rel.steps_modify; simp add: same_def items_view_def)+

lemma items_run:
  "steps (same items_view) m \<Longrightarrow> (\<And>x t. items_view t = items_view s \<Longrightarrow> Q x t) \<Longrightarrow> wp m Q (\<lambda>_ _. True) s"
  "Q () (h s) \<Longrightarrow> wp (modify h) Q E s"
  "wp m (\<lambda>_. wp n Q E) E s \<Longrightarrow> wp (thn m n) Q E s"
  using stepsD [of "same items_view" m s]
  by (auto simp: wp_def same_def modify_def thn_def bnd_def split: prod.splits outcome.splits)

lemma InitGenesis_items:
  assumes "InitGenesis e p g w = (Ok (), v)"
  shows "items_set v"
proof -
  have "wp (InitGenesis e p g) (\<lambda>_. items_set) (\<lambda>_ _. True) w"
    unfolding InitGenesis_def init_portal_def init_vaults_def
    by (intro items_run(2,3) items_run(1) [OF genesis_items(1)] items_run(1) [OF genesis_items(2)]
        items_run(1) [OF genesis_items(3)] items_run(1) [OF genesis_items(4)] items_run(1) [OF genesis_items(5)]
        items_run(1) [OF genesis_items(6)] items_run(1) [OF genesis_items(7)] items_run(1) [OF genesis_items(8)])
      (simp add: items_set_def items_view_def)
  then show ?thesis using assms by (rule wp_OkD)
qed

lemma InitGenesis_store_ok:
  assumes "InitGenesis e p g w = (Ok (), v)" "collections_ok w"
  shows "store_ok v"
proof -
  have "steps (keeps collections_ok) (InitGenesis e p g)"
    unfolding InitGenesis_def init_portal_def init_vaults_def
    by (intro keeps_rel.steps_thn keeps_rel.steps_for_each keeps_rel.steps_modify genesis_writes;
        simp add: keeps_def collections_ok_def)
  from stepsD [OF this assms(1)] assms(2) have "collections_ok v" by (simp add: keeps_def)
  with InitGenesis_items [OF assms(1)] show ?thesis by (simp add: store_ok_def)
qed

subsection \<open>The property\<close>

text \<open>C23 (store_well_typed): whatever genesis a chain starts from, if it is imported without a panic, then in
  every state the chain reaches each collection is an ordered map without duplicate keys, every
  position is stored under the Unix seconds of its own time, and every item that genesis sets is
  set, so that no handler meets a missing one.\<close>

theorem store_well_typed:
  assumes "external_calls e" "empty_store w" "InitGenesis e parse g w = (Ok (), v)"
    and "(chain_step e)\<^sup>*\<^sup>* v u"
  shows "map_ok (Principal u) \<and> map_ok (TotalExternalYield u) \<and> map_ok (YieldRecipients u) \<and>
    map_ok (RetryAmounts u) \<and> map_ok (PortalPeers u) \<and> map_ok (PortalBridgingPaths u) \<and> map_ok (VaultsRewards u) \<and>
    map_ok (VaultsPositions u) \<and>
    (\<forall>a vault t p. Map_Get (VaultsPositions u) (a, vault, t) = Some p \<longrightarrow> t = Unix (pos_Time p)) \<and> items_set u"
proof -
  have "collections_ok w" using assms(2) by (simp add: empty_store_def collections_ok_def keyed_def)
  then have "store_ok v" by (rule InitGenesis_store_ok [OF assms(3)])
  then have "store_ok u" using type_chain.reach_rel [OF assms(4,1)] by (simp add: keeps_def)
  then show ?thesis unfolding store_ok_def collections_ok_def keyed_def by blast
qed

text \<open>The default genesis, and an owner who never came.\<close>

lemma store_well_typed_witness:
  "let w = test_world\<lparr>Principal := []\<rparr>; v = snd (InitGenesis test_env test_NewIntFromString DefaultGenesisState w);
       u = snd (BeginBlocker test_env v)
   in map_ok (VaultsPositions u) \<and> items_set u"
proof -
  let ?w = "test_world\<lparr>Principal := []\<rparr>"
  let ?v = "snd (InitGenesis test_env test_NewIntFromString DefaultGenesisState ?w)"
  have "fst (InitGenesis test_env test_NewIntFromString DefaultGenesisState ?w) = Ok ()" by code_simp
  from run_of [OF this] have g: "InitGenesis test_env test_NewIntFromString DefaultGenesisState ?w = (Ok (), ?v)" .
  have "empty_store ?w" by (simp add: empty_store_def test_world_def)
  moreover have "(chain_step test_env)\<^sup>*\<^sup>* ?v (snd (BeginBlocker test_env ?v))"
    by (rule r_into_rtranclp) (rule begin_block [OF prod.collapse [symmetric]])
  ultimately show ?thesis using store_well_typed [OF test_external _ g] unfolding Let_def by blast
qed

end
