(* ===== verification/Wiring.thy ===== *)
theory Wiring
  imports Portal
begin

text \<open>
  How a keeper comes to be: the keys and prefixes of its collections (\<open>types/keys.go\<close> and those of
  the submodules), \<open>NewKeeper\<close> with its schema, \<open>ProvideModule\<close> of \<open>module.go\<close> with the checks of
  the configuration, and the codes under which the errors are registered (\<open>types/**/errors.go\<close>).
\<close>

subsection \<open>The schema\<close>

definition PausedKey :: string where "PausedKey = ''paused''"
definition IndexKey :: string where "IndexKey = ''index''"
definition PrincipalPrefix :: string where "PrincipalPrefix = ''principal/''"
definition StatsKey :: string where "StatsKey = ''stats''"
definition TotalExternalYieldPrefix :: string where "TotalExternalYieldPrefix = ''total_external_yield/''"
definition YieldRecipientPrefix :: string where "YieldRecipientPrefix = ''yield_recipient/''"
definition RetryAmountPrefix :: string where "RetryAmountPrefix = ''retry_amount/''"

definition OwnerKey :: string where "OwnerKey = ''portal/owner''"
definition portal_PausedKey :: string where "portal_PausedKey = ''portal/paused''"
definition PeerPrefix :: string where "PeerPrefix = ''portal/peer/''"
definition BridgingPathPrefix :: string where "BridgingPathPrefix = ''portal/bridging_path/''"
definition NonceKey :: string where "NonceKey = ''portal/nonce''"

definition vaults_PausedKey :: string where "vaults_PausedKey = ''vaults/paused''"
definition SeasonOneEndedKey :: string where "SeasonOneEndedKey = ''vaults/season_one_ended''"
definition TotalFlexiblePrincipalKey :: string where
  "TotalFlexiblePrincipalKey = ''vaults/total_flexible_principal''"
definition PositionPrefix :: string where "PositionPrefix = ''vaults/position/''"
definition RewardPrefix :: string where "RewardPrefix = ''vaults/reward/''"
definition vaults_StatsKey :: string where "vaults_StatsKey = ''vaults/stats''"

lemmas keys = PausedKey_def IndexKey_def PrincipalPrefix_def StatsKey_def TotalExternalYieldPrefix_def
  YieldRecipientPrefix_def RetryAmountPrefix_def OwnerKey_def portal_PausedKey_def PeerPrefix_def
  BridgingPathPrefix_def NonceKey_def vaults_PausedKey_def SeasonOneEndedKey_def
  TotalFlexiblePrincipalKey_def PositionPrefix_def RewardPrefix_def vaults_StatsKey_def

text \<open>Prefix and name of each collection and index, in the order they register with the builder;
  the indexes of the positions do so before the map they belong to.\<close>

definition NewVaultsPositionsIndexes :: "(string \<times> string) list" where
  "NewVaultsPositionsIndexes =
     [(''vaults_positions_by_provider'', ''vaults_positions_by_provider''),
      (''vaults_positions_by_pair_provider_and_vault'', ''vaults_positions_by_pair_provider_and_vault'')]"

definition keeper_schema :: "(string \<times> string) list" where
  "keeper_schema =
     [(PausedKey, ''paused''), (IndexKey, ''index''), (PrincipalPrefix, ''principal''), (StatsKey, ''stats''),
      (TotalExternalYieldPrefix, ''total_external_yield''), (YieldRecipientPrefix, ''yield_recipients''),
      (RetryAmountPrefix, ''retry_amounts''),
      (OwnerKey, ''portal_owner''), (portal_PausedKey, ''portal_paused''), (PeerPrefix, ''portal_peers''),
      (BridgingPathPrefix, ''portal_bridging_paths''), (NonceKey, ''portal_nonce''),
      (vaults_PausedKey, ''vaults_paused''), (SeasonOneEndedKey, ''vaults_season_one_ended'')]
     @ NewVaultsPositionsIndexes @
     [(PositionPrefix, ''vaults_positions''),
      (TotalFlexiblePrincipalKey, ''vaults_total_flexible_principal''), (RewardPrefix, ''vaults_rewards''),
      (vaults_StatsKey, ''vaults_stats'')]"

subsection \<open>Building a keeper\<close>

text \<open>
  \<open>Build\<close> is that of the schema builder, which returns an error or none. The keeper is the
  surroundings with its configuration set; its IBC keepers are set later.
\<close>

definition NewKeeper ::
    "((string \<times> string) list \<Rightarrow> error option) \<Rightarrow> string \<Rightarrow> string \<Rightarrow> int \<Rightarrow> int \<Rightarrow> int \<Rightarrow> addr \<Rightarrow> 'b env \<Rightarrow> 'b env result" where
  "NewKeeper Build d auth minimumLock minimumUnlock seasonOneEndTimestamp seasonTwoYieldCollector e =
     (let keeper = e\<lparr>denom := d, authority := auth, vaultsMinimumLock := minimumLock,
            vaultsMinimumUnlock := minimumUnlock, vaultsSeasonOneEndTimestamp := seasonOneEndTimestamp,
            vaultsSeasonTwoYieldCollector := seasonTwoYieldCollector\<rparr> in
      if NewKeeper_panics keeper then Panic ''slice bounds out of range''
      else case Build keeper_schema of Some err \<Rightarrow> Panic ''schema'' | None \<Rightarrow> Ok keeper)"

text \<open>The configuration (\<open>modulev1.Module\<close>).\<close>

record config =
  cfg_Denom :: string
  cfg_Authority :: string
  cfg_VaultsMinimumLock :: int
  cfg_VaultsMinimumUnlock :: int
  cfg_VaultsSeasonOneEndTimestamp :: int
  cfg_VaultsSeasonTwoYieldCollector :: string

definition ProvideModule ::
    "((string \<times> string) list \<Rightarrow> error option) \<Rightarrow> (string \<Rightarrow> addr) \<Rightarrow> config \<Rightarrow> 'b env \<Rightarrow> 'b env result" where
  "ProvideModule Build NewModuleAddressOrBech32Address c e =
     (if cfg_Authority c = '''' then Panic ''authority for Noble Dollar module must be set''
      else if cfg_VaultsSeasonOneEndTimestamp c = 0 then Panic ''vaults season one end timestamp must be set''
      else if cfg_VaultsSeasonTwoYieldCollector c = '''' then Panic ''vaults season two yield collector must be set''
      else case StringToBytes e (cfg_VaultsSeasonTwoYieldCollector c) of
        None \<Rightarrow> Panic ''vaults season two yield collector must be a valid address''
      | Some collector \<Rightarrow>
          NewKeeper Build (cfg_Denom c) (AccString e (NewModuleAddressOrBech32Address (cfg_Authority c)))
            (cfg_VaultsMinimumLock c) (cfg_VaultsMinimumUnlock c) (cfg_VaultsSeasonOneEndTimestamp c)
            collector e)"

subsection \<open>Codes of the errors\<close>

text \<open>Codespace and code of the registered errors.\<close>

fun Register :: "error \<Rightarrow> (string \<times> nat) option" where
  "Register ErrInvalidRequest = Some (''dollar'', 0)"
| "Register ErrInvalidAuthority = Some (''dollar'', 1)"
| "Register ErrPaused = Some (''dollar'', 2)"
| "Register ErrDecreasingIndex = Some (''dollar'', 3)"
| "Register ErrNoOwner = Some (''dollar/portal'', 1)"
| "Register ErrNotOwner = Some (''dollar/portal'', 2)"
| "Register ErrSameOwner = Some (''dollar/portal'', 3)"
| "Register ErrPortalPaused = Some (''dollar/portal'', 4)"
| "Register ErrInvalidPeer = Some (''dollar/portal'', 5)"
| "Register ErrInvalidBridgePath = Some (''dollar/portal'', 6)"
| "Register ErrInvalidMessage = Some (''dollar/portal'', 7)"
| "Register ErrInvalidRecipient = Some (''dollar/portal'', 8)"
| "Register ErrVaultsInvalidAuthority = Some (''dollar/vaults'', 1)"
| "Register ErrInvalidAmount = Some (''dollar/vaults'', 2)"
| "Register ErrInvalidVaultType = Some (''dollar/vaults'', 3)"
| "Register ErrInvalidPauseType = Some (''dollar/vaults'', 4)"
| "Register ErrActionPaused = Some (''dollar/vaults'', 5)"
| "Register _ = None"

subsection \<open>Lemmas\<close>

text \<open>No two collections share a name, and no prefix is the start of another, so that no key of
  one collection is a key of another, and the builder has nothing to object to.\<close>

definition prefix_free :: "string list \<Rightarrow> bool" where
  "prefix_free ps = sorted_wrt (\<lambda>p q. take (length p) q \<noteq> p \<and> take (length q) p \<noteq> q) ps"

lemma schema_names: "distinct (map snd keeper_schema)"
  by (simp add: keeper_schema_def NewVaultsPositionsIndexes_def)

lemma schema_prefix_free: "prefix_free (map fst keeper_schema)"
  by (simp add: prefix_free_def keeper_schema_def NewVaultsPositionsIndexes_def keys)

lemma prefix_free_disjoint:
  assumes "prefix_free ps" "p \<in> set ps" "q \<in> set ps" "p \<noteq> q"
  shows "p @ k \<noteq> q @ l"
proof
  assume "p @ k = q @ l"
  then have "take (length p) q = p \<or> take (length q) p = q"
    by (metis append_eq_append_conv_if take_all nat_le_linear)
  moreover have "take (length p) q \<noteq> p \<and> take (length q) p \<noteq> q"
    using assms unfolding prefix_free_def by (induction ps) auto
  ultimately show False by blast
qed

lemma keys_disjoint:
  "p \<in> fst ` set keeper_schema \<Longrightarrow> q \<in> fst ` set keeper_schema \<Longrightarrow> p \<noteq> q \<Longrightarrow> p @ k \<noteq> q @ l"
  using prefix_free_disjoint [OF schema_prefix_free] by auto

text \<open>A keeper that was provided has a denomination that fits 32 bytes, which the payloads of the
  Portal rely on, and a decoded collector.\<close>

lemma provided_keeper:
  assumes "ProvideModule Build auth c e = Ok k"
  shows "length (RawToken k) = 32" "cfg_Authority c \<noteq> ''''" "vaultsSeasonOneEndTimestamp k \<noteq> 0"
    "StringToBytes k (cfg_VaultsSeasonTwoYieldCollector c) = Some (vaultsSeasonTwoYieldCollector k)"
  using assms
  by (auto simp: ProvideModule_def NewKeeper_def NewKeeper_panics_def RawToken_def Let_def
      split: if_splits option.splits)

lemma codes_distinct: "Register x = Some c \<Longrightarrow> Register y = Some c \<Longrightarrow> x = y"
  by (cases x; cases y) auto

end
