(* ===== verification/Messages.thy ===== *)
theory Messages
  imports Gogo
begin

text \<open>
  The generated code of the messages the module stores, returns or is configured with, as the
  client API has it (\<open>api/**/*.pulsar.go\<close>): size, \<open>Marshal\<close> and \<open>Unmarshal\<close>. Strings and
  byte fields are both byte lists, an enum is its 32-bit number. A nil message, which has size
  zero, is not modelled.
\<close>

subsection \<open>What a codec promises\<close>

text \<open>
  A message the codec keeps in full, and which fits a slice, is written into exactly the computed
  size and read back as it was.
\<close>

definition exact_codec ::
    "('m \<Rightarrow> nat) \<Rightarrow> ('m \<Rightarrow> bytes result) \<Rightarrow> (bytes \<Rightarrow> 'm result option) \<Rightarrow> ('m \<Rightarrow> bool) \<Rightarrow> bool" where
  "exact_codec size_of marshal unmarshal kept \<longleftrightarrow>
     (\<forall>x. kept x \<and> size_of x < 2 ^ 63 \<longrightarrow>
        (\<exists>bs. marshal x = Ok bs \<and> length bs = size_of x \<and> unmarshal bs = Some (Ok x)))"

definition writes :: "bytes result \<Rightarrow> bytes \<Rightarrow> nat \<Rightarrow> bool" where
  "writes m bs n \<longleftrightarrow> m = Ok bs \<and> length bs = n"

lemma exact_codecI:
  assumes "\<And>x. kept x \<Longrightarrow> writes (marshal x) (written x) (size_of x)"
    and "\<And>x. kept x \<Longrightarrow> length (written x) < 2 ^ 63 \<Longrightarrow> unmarshal (written x) = Some (Ok x)"
  shows "exact_codec size_of marshal unmarshal kept"
  unfolding exact_codec_def using assms unfolding writes_def by metis

text \<open>What one codec writes another may read.\<close>

lemma codec_readsI:
  assumes "writes marshal bs n" "n < 2 ^ 63"
    and "length bs < 2 ^ 63 \<Longrightarrow> unmarshal bs = Some (Ok y)"
  shows "\<exists>bs. marshal = Ok bs \<and> unmarshal bs = Some (Ok y)"
  using assms by (simp add: writes_def)

locale message_codec =
  fixes size_of :: "'m \<Rightarrow> nat" and marshal :: "'m \<Rightarrow> bytes result"
    and unmarshal :: "bytes \<Rightarrow> 'm result option" and kept :: "'m \<Rightarrow> bool"
  assumes exact: "exact_codec size_of marshal unmarshal kept"
    and returns: "\<exists>r. unmarshal bs = Some r"
begin

lemma marshal_exact:
  "kept x \<Longrightarrow> size_of x < 2 ^ 63 \<Longrightarrow>
    \<exists>bs. marshal x = Ok bs \<and> length bs = size_of x \<and> unmarshal bs = Some (Ok x)"
  using exact by (simp add: exact_codec_def)

lemma round_trip: "kept x \<Longrightarrow> size_of x < 2 ^ 63 \<Longrightarrow> marshal x = Ok bs \<Longrightarrow> unmarshal bs = Some (Ok x)"
  using marshal_exact [of x] by auto

lemma marshal_inj:
  "kept x \<Longrightarrow> size_of x < 2 ^ 63 \<Longrightarrow> kept y \<Longrightarrow> size_of y < 2 ^ 63 \<Longrightarrow> marshal x = Ok bs \<Longrightarrow>
    marshal y = Ok bs \<Longrightarrow> x = y"
  using round_trip [of x bs] round_trip [of y bs] by simp

end

subsection \<open>Stats (dollarv2)\<close>

text \<open>\<open>Stats\<close> of \<open>api/v2/dollar.pulsar.go\<close>.\<close>

record dollarv2_Stats =
  dv2_TotalHolders :: "64 word"
  dv2_TotalPrincipal :: bytes
  dv2_TotalYieldAccrued :: bytes
  dv2_unknownFields :: bytes

definition dollarv2_Stats_size :: "wire_runtime \<Rightarrow> dollarv2_Stats \<Rightarrow> nat" where
  "dollarv2_Stats_size rt x =
     size_varint rt (dv2_TotalHolders x) +
     size_delimited rt (dv2_TotalPrincipal x) +
     size_delimited rt (dv2_TotalYieldAccrued x) +
     length (dv2_unknownFields x)"

definition dollarv2_Stats_marshal :: "wire_runtime \<Rightarrow> dollarv2_Stats \<Rightarrow> bytes result" where
  "dollarv2_Stats_marshal rt x =
     obind (put (dv2_unknownFields x) (dollarv2_Stats_size rt x, [])) (\<lambda>b.
     obind (put_delimited rt 0x1A (dv2_TotalYieldAccrued x) b) (\<lambda>b.
     obind (put_delimited rt 0x12 (dv2_TotalPrincipal x) b) (\<lambda>b.
     obind (put_varint rt 0x8 (dv2_TotalHolders x) b) (\<lambda>b.
     Ok (buffer_bytes b)))))"

definition dollarv2_Stats_field ::
    "int \<Rightarrow> int \<Rightarrow> dollarv2_Stats \<Rightarrow> nat \<Rightarrow> bytes \<Rightarrow> (dollarv2_Stats \<times> nat) result option" where
  "dollarv2_Stats_field fieldNum wireType x i bs =
     (if fieldNum = 1 then Some (varint_field wireType (\<lambda>v. x\<lparr>dv2_TotalHolders := v\<rparr>) bs)
      else if fieldNum = 2 then Some (bytes_field wireType i (\<lambda>v. x\<lparr>dv2_TotalPrincipal := v\<rparr>) bs)
      else if fieldNum = 3 then Some (bytes_field wireType i (\<lambda>v. x\<lparr>dv2_TotalYieldAccrued := v\<rparr>) bs)
      else None)"

definition dollarv2_Stats_unmarshal :: "wire_runtime \<Rightarrow> bool \<Rightarrow> bytes \<Rightarrow> dollarv2_Stats result option" where
  "dollarv2_Stats_unmarshal rt discardUnknown bs =
     read_fields (Skip rt) dollarv2_Stats_field
       (\<lambda>u x. if discardUnknown then x else x\<lparr>dv2_unknownFields := dv2_unknownFields x @ u\<rparr>)
       \<lparr>dv2_TotalHolders = 0, dv2_TotalPrincipal = [], dv2_TotalYieldAccrued = [], dv2_unknownFields = []\<rparr> 0 bs"

lemma dollarv2_Stats_written:
  assumes "varint_runtime rt" "dv2_unknownFields x = []"
  shows "writes (dollarv2_Stats_marshal rt x)
    (varint_bytes rt 0x8 (dv2_TotalHolders x) @
      delimited_bytes rt 0x12 (dv2_TotalPrincipal x) @
      delimited_bytes rt 0x1A (dv2_TotalYieldAccrued x) @
      [])
    (dollarv2_Stats_size rt x)"
  by (simp add: writes_def dollarv2_Stats_marshal_def dollarv2_Stats_size_def assms wire_puts)

lemma dollarv2_Stats_exact:
  assumes "varint_runtime rt"
  shows "exact_codec (dollarv2_Stats_size rt) (dollarv2_Stats_marshal rt) 
    (dollarv2_Stats_unmarshal rt' discardUnknown) (\<lambda>x. dv2_unknownFields x = [])"
  by (rule exact_codecI, rule dollarv2_Stats_written [OF assms], assumption,
    unfold dollarv2_Stats_unmarshal_def, erule readsD [rotated],
    (rule reads_varint [OF assms] reads_bytes [OF assms], rule wire_tags,
        simp add: dollarv2_Stats_field_def, simp)+, rule reads_done, simp)

lemma dollarv2_Stats_returns:
  "skip_progress (Skip rt) \<Longrightarrow> \<exists>r. dollarv2_Stats_unmarshal rt discardUnknown bs = Some r"
  unfolding dollarv2_Stats_unmarshal_def by (rule read_fields_returns)

interpretation dollarv2_Stats_codec: message_codec "dollarv2_Stats_size gogo_runtime" "dollarv2_Stats_marshal gogo_runtime"
    "dollarv2_Stats_unmarshal gogo_runtime discardUnknown" "\<lambda>x. dv2_unknownFields x = []" for discardUnknown
  by unfold_locales (rule dollarv2_Stats_exact [OF gogo_varint], rule dollarv2_Stats_returns [OF gogo_skip])

subsection \<open>Peer (portalv1)\<close>

text \<open>\<open>Peer\<close> of \<open>api/portal/v1/portal.pulsar.go\<close>.\<close>

record portalv1_Peer =
  pv1_Transceiver :: bytes
  pv1_Manager :: bytes
  pv1_unknownFields :: bytes

definition portalv1_Peer_size :: "wire_runtime \<Rightarrow> portalv1_Peer \<Rightarrow> nat" where
  "portalv1_Peer_size rt x =
     size_delimited rt (pv1_Transceiver x) +
     size_delimited rt (pv1_Manager x) +
     length (pv1_unknownFields x)"

definition portalv1_Peer_marshal :: "wire_runtime \<Rightarrow> portalv1_Peer \<Rightarrow> bytes result" where
  "portalv1_Peer_marshal rt x =
     obind (put (pv1_unknownFields x) (portalv1_Peer_size rt x, [])) (\<lambda>b.
     obind (put_delimited rt 0x12 (pv1_Manager x) b) (\<lambda>b.
     obind (put_delimited rt 0xA (pv1_Transceiver x) b) (\<lambda>b.
     Ok (buffer_bytes b))))"

definition portalv1_Peer_field ::
    "int \<Rightarrow> int \<Rightarrow> portalv1_Peer \<Rightarrow> nat \<Rightarrow> bytes \<Rightarrow> (portalv1_Peer \<times> nat) result option" where
  "portalv1_Peer_field fieldNum wireType x i bs =
     (if fieldNum = 1 then Some (bytes_field wireType i (\<lambda>v. x\<lparr>pv1_Transceiver := v\<rparr>) bs)
      else if fieldNum = 2 then Some (bytes_field wireType i (\<lambda>v. x\<lparr>pv1_Manager := v\<rparr>) bs)
      else None)"

definition portalv1_Peer_unmarshal :: "wire_runtime \<Rightarrow> bool \<Rightarrow> bytes \<Rightarrow> portalv1_Peer result option" where
  "portalv1_Peer_unmarshal rt discardUnknown bs =
     read_fields (Skip rt) portalv1_Peer_field
       (\<lambda>u x. if discardUnknown then x else x\<lparr>pv1_unknownFields := pv1_unknownFields x @ u\<rparr>)
       \<lparr>pv1_Transceiver = [], pv1_Manager = [], pv1_unknownFields = []\<rparr> 0 bs"

lemma portalv1_Peer_written:
  assumes "varint_runtime rt" "pv1_unknownFields x = []"
  shows "writes (portalv1_Peer_marshal rt x)
    (delimited_bytes rt 0xA (pv1_Transceiver x) @
      delimited_bytes rt 0x12 (pv1_Manager x) @
      [])
    (portalv1_Peer_size rt x)"
  by (simp add: writes_def portalv1_Peer_marshal_def portalv1_Peer_size_def assms wire_puts)

lemma portalv1_Peer_exact:
  assumes "varint_runtime rt"
  shows "exact_codec (portalv1_Peer_size rt) (portalv1_Peer_marshal rt) 
    (portalv1_Peer_unmarshal rt' discardUnknown) (\<lambda>x. pv1_unknownFields x = [])"
  by (rule exact_codecI, rule portalv1_Peer_written [OF assms], assumption,
    unfold portalv1_Peer_unmarshal_def, erule readsD [rotated],
    (rule reads_bytes [OF assms], rule wire_tags,
        simp add: portalv1_Peer_field_def, simp)+, rule reads_done, simp)

lemma portalv1_Peer_returns:
  "skip_progress (Skip rt) \<Longrightarrow> \<exists>r. portalv1_Peer_unmarshal rt discardUnknown bs = Some r"
  unfolding portalv1_Peer_unmarshal_def by (rule read_fields_returns)

interpretation portalv1_Peer_codec: message_codec "portalv1_Peer_size gogo_runtime" "portalv1_Peer_marshal gogo_runtime"
    "portalv1_Peer_unmarshal gogo_runtime discardUnknown" "\<lambda>x. pv1_unknownFields x = []" for discardUnknown
  by unfold_locales (rule portalv1_Peer_exact [OF gogo_varint], rule portalv1_Peer_returns [OF gogo_skip])

subsection \<open>BridgingPath (portalv1)\<close>

text \<open>\<open>BridgingPath\<close> of \<open>api/portal/v1/portal.pulsar.go\<close>.\<close>

record portalv1_BridgingPath =
  pv1b_DestinationChainId :: "32 word"
  pv1b_DestinationToken :: bytes
  pv1b_unknownFields :: bytes

definition portalv1_BridgingPath_size :: "wire_runtime \<Rightarrow> portalv1_BridgingPath \<Rightarrow> nat" where
  "portalv1_BridgingPath_size rt x =
     size_varint rt (ucast (pv1b_DestinationChainId x)) +
     size_delimited rt (pv1b_DestinationToken x) +
     length (pv1b_unknownFields x)"

definition portalv1_BridgingPath_marshal :: "wire_runtime \<Rightarrow> portalv1_BridgingPath \<Rightarrow> bytes result" where
  "portalv1_BridgingPath_marshal rt x =
     obind (put (pv1b_unknownFields x) (portalv1_BridgingPath_size rt x, [])) (\<lambda>b.
     obind (put_delimited rt 0x12 (pv1b_DestinationToken x) b) (\<lambda>b.
     obind (put_varint rt 0x8 (ucast (pv1b_DestinationChainId x)) b) (\<lambda>b.
     Ok (buffer_bytes b))))"

definition portalv1_BridgingPath_field ::
    "int \<Rightarrow> int \<Rightarrow> portalv1_BridgingPath \<Rightarrow> nat \<Rightarrow> bytes \<Rightarrow> (portalv1_BridgingPath \<times> nat) result option" where
  "portalv1_BridgingPath_field fieldNum wireType x i bs =
     (if fieldNum = 1 then Some (varint_field wireType (\<lambda>v. x\<lparr>pv1b_DestinationChainId := v\<rparr>) bs)
      else if fieldNum = 2 then Some (bytes_field wireType i (\<lambda>v. x\<lparr>pv1b_DestinationToken := v\<rparr>) bs)
      else None)"

definition portalv1_BridgingPath_unmarshal :: "wire_runtime \<Rightarrow> bool \<Rightarrow> bytes \<Rightarrow> portalv1_BridgingPath result option" where
  "portalv1_BridgingPath_unmarshal rt discardUnknown bs =
     read_fields (Skip rt) portalv1_BridgingPath_field
       (\<lambda>u x. if discardUnknown then x else x\<lparr>pv1b_unknownFields := pv1b_unknownFields x @ u\<rparr>)
       \<lparr>pv1b_DestinationChainId = 0, pv1b_DestinationToken = [], pv1b_unknownFields = []\<rparr> 0 bs"

lemma portalv1_BridgingPath_written:
  assumes "varint_runtime rt" "pv1b_unknownFields x = []"
  shows "writes (portalv1_BridgingPath_marshal rt x)
    (varint_bytes rt 0x8 (ucast (pv1b_DestinationChainId x)) @
      delimited_bytes rt 0x12 (pv1b_DestinationToken x) @
      [])
    (portalv1_BridgingPath_size rt x)"
  by (simp add: writes_def portalv1_BridgingPath_marshal_def portalv1_BridgingPath_size_def assms wire_puts)

lemma portalv1_BridgingPath_exact:
  assumes "varint_runtime rt"
  shows "exact_codec (portalv1_BridgingPath_size rt) (portalv1_BridgingPath_marshal rt) 
    (portalv1_BridgingPath_unmarshal rt' discardUnknown) (\<lambda>x. pv1b_unknownFields x = [])"
  by (rule exact_codecI, rule portalv1_BridgingPath_written [OF assms], assumption,
    unfold portalv1_BridgingPath_unmarshal_def, erule readsD [rotated],
    (rule reads_varint32 [OF assms] reads_bytes [OF assms], rule wire_tags,
        simp add: portalv1_BridgingPath_field_def, simp)+, rule reads_done, simp)

lemma portalv1_BridgingPath_returns:
  "skip_progress (Skip rt) \<Longrightarrow> \<exists>r. portalv1_BridgingPath_unmarshal rt discardUnknown bs = Some r"
  unfolding portalv1_BridgingPath_unmarshal_def by (rule read_fields_returns)

interpretation portalv1_BridgingPath_codec: message_codec "portalv1_BridgingPath_size gogo_runtime" "portalv1_BridgingPath_marshal gogo_runtime"
    "portalv1_BridgingPath_unmarshal gogo_runtime discardUnknown" "\<lambda>x. pv1b_unknownFields x = []" for discardUnknown
  by unfold_locales (rule portalv1_BridgingPath_exact [OF gogo_varint], rule portalv1_BridgingPath_returns [OF gogo_skip])

subsection \<open>Reward (vaultsv1)\<close>

text \<open>\<open>Reward\<close> of \<open>api/vaults/v1/vaults.pulsar.go\<close>.\<close>

record vaultsv1_Reward =
  vv1_Index :: "64 word"
  vv1_Total :: bytes
  vv1_Rewards :: bytes
  vv1_unknownFields :: bytes

definition vaultsv1_Reward_size :: "wire_runtime \<Rightarrow> vaultsv1_Reward \<Rightarrow> nat" where
  "vaultsv1_Reward_size rt x =
     size_varint rt (vv1_Index x) +
     size_delimited rt (vv1_Total x) +
     size_delimited rt (vv1_Rewards x) +
     length (vv1_unknownFields x)"

definition vaultsv1_Reward_marshal :: "wire_runtime \<Rightarrow> vaultsv1_Reward \<Rightarrow> bytes result" where
  "vaultsv1_Reward_marshal rt x =
     obind (put (vv1_unknownFields x) (vaultsv1_Reward_size rt x, [])) (\<lambda>b.
     obind (put_delimited rt 0x1A (vv1_Rewards x) b) (\<lambda>b.
     obind (put_delimited rt 0x12 (vv1_Total x) b) (\<lambda>b.
     obind (put_varint rt 0x8 (vv1_Index x) b) (\<lambda>b.
     Ok (buffer_bytes b)))))"

definition vaultsv1_Reward_field ::
    "int \<Rightarrow> int \<Rightarrow> vaultsv1_Reward \<Rightarrow> nat \<Rightarrow> bytes \<Rightarrow> (vaultsv1_Reward \<times> nat) result option" where
  "vaultsv1_Reward_field fieldNum wireType x i bs =
     (if fieldNum = 1 then Some (varint_field wireType (\<lambda>v. x\<lparr>vv1_Index := v\<rparr>) bs)
      else if fieldNum = 2 then Some (bytes_field wireType i (\<lambda>v. x\<lparr>vv1_Total := v\<rparr>) bs)
      else if fieldNum = 3 then Some (bytes_field wireType i (\<lambda>v. x\<lparr>vv1_Rewards := v\<rparr>) bs)
      else None)"

definition vaultsv1_Reward_unmarshal :: "wire_runtime \<Rightarrow> bool \<Rightarrow> bytes \<Rightarrow> vaultsv1_Reward result option" where
  "vaultsv1_Reward_unmarshal rt discardUnknown bs =
     read_fields (Skip rt) vaultsv1_Reward_field
       (\<lambda>u x. if discardUnknown then x else x\<lparr>vv1_unknownFields := vv1_unknownFields x @ u\<rparr>)
       \<lparr>vv1_Index = 0, vv1_Total = [], vv1_Rewards = [], vv1_unknownFields = []\<rparr> 0 bs"

lemma vaultsv1_Reward_written:
  assumes "varint_runtime rt" "vv1_unknownFields x = []"
  shows "writes (vaultsv1_Reward_marshal rt x)
    (varint_bytes rt 0x8 (vv1_Index x) @
      delimited_bytes rt 0x12 (vv1_Total x) @
      delimited_bytes rt 0x1A (vv1_Rewards x) @
      [])
    (vaultsv1_Reward_size rt x)"
  by (simp add: writes_def vaultsv1_Reward_marshal_def vaultsv1_Reward_size_def assms wire_puts)

lemma vaultsv1_Reward_exact:
  assumes "varint_runtime rt"
  shows "exact_codec (vaultsv1_Reward_size rt) (vaultsv1_Reward_marshal rt) 
    (vaultsv1_Reward_unmarshal rt' discardUnknown) (\<lambda>x. vv1_unknownFields x = [])"
  by (rule exact_codecI, rule vaultsv1_Reward_written [OF assms], assumption,
    unfold vaultsv1_Reward_unmarshal_def, erule readsD [rotated],
    (rule reads_varint [OF assms] reads_bytes [OF assms], rule wire_tags,
        simp add: vaultsv1_Reward_field_def, simp)+, rule reads_done, simp)

lemma vaultsv1_Reward_returns:
  "skip_progress (Skip rt) \<Longrightarrow> \<exists>r. vaultsv1_Reward_unmarshal rt discardUnknown bs = Some r"
  unfolding vaultsv1_Reward_unmarshal_def by (rule read_fields_returns)

interpretation vaultsv1_Reward_codec: message_codec "vaultsv1_Reward_size gogo_runtime" "vaultsv1_Reward_marshal gogo_runtime"
    "vaultsv1_Reward_unmarshal gogo_runtime discardUnknown" "\<lambda>x. vv1_unknownFields x = []" for discardUnknown
  by unfold_locales (rule vaultsv1_Reward_exact [OF gogo_varint], rule vaultsv1_Reward_returns [OF gogo_skip])

subsection \<open>Stats (vaultsv1)\<close>

text \<open>\<open>Stats\<close> of \<open>api/vaults/v1/vaults.pulsar.go\<close>.\<close>

record vaultsv1_Stats =
  vv1s_FlexibleTotalPrincipal :: bytes
  vv1s_FlexibleTotalUsers :: "64 word"
  vv1s_FlexibleTotalDistributedRewardsPrincipal :: bytes
  vv1s_StakedTotalPrincipal :: bytes
  vv1s_StakedTotalUsers :: "64 word"
  vv1s_unknownFields :: bytes

definition vaultsv1_Stats_size :: "wire_runtime \<Rightarrow> vaultsv1_Stats \<Rightarrow> nat" where
  "vaultsv1_Stats_size rt x =
     size_delimited rt (vv1s_FlexibleTotalPrincipal x) +
     size_varint rt (vv1s_FlexibleTotalUsers x) +
     size_delimited rt (vv1s_FlexibleTotalDistributedRewardsPrincipal x) +
     size_delimited rt (vv1s_StakedTotalPrincipal x) +
     size_varint rt (vv1s_StakedTotalUsers x) +
     length (vv1s_unknownFields x)"

definition vaultsv1_Stats_marshal :: "wire_runtime \<Rightarrow> vaultsv1_Stats \<Rightarrow> bytes result" where
  "vaultsv1_Stats_marshal rt x =
     obind (put (vv1s_unknownFields x) (vaultsv1_Stats_size rt x, [])) (\<lambda>b.
     obind (put_varint rt 0x28 (vv1s_StakedTotalUsers x) b) (\<lambda>b.
     obind (put_delimited rt 0x22 (vv1s_StakedTotalPrincipal x) b) (\<lambda>b.
     obind (put_delimited rt 0x1A (vv1s_FlexibleTotalDistributedRewardsPrincipal x) b) (\<lambda>b.
     obind (put_varint rt 0x10 (vv1s_FlexibleTotalUsers x) b) (\<lambda>b.
     obind (put_delimited rt 0xA (vv1s_FlexibleTotalPrincipal x) b) (\<lambda>b.
     Ok (buffer_bytes b)))))))"

definition vaultsv1_Stats_field ::
    "int \<Rightarrow> int \<Rightarrow> vaultsv1_Stats \<Rightarrow> nat \<Rightarrow> bytes \<Rightarrow> (vaultsv1_Stats \<times> nat) result option" where
  "vaultsv1_Stats_field fieldNum wireType x i bs =
     (if fieldNum = 1 then Some (bytes_field wireType i (\<lambda>v. x\<lparr>vv1s_FlexibleTotalPrincipal := v\<rparr>) bs)
      else if fieldNum = 2 then Some (varint_field wireType (\<lambda>v. x\<lparr>vv1s_FlexibleTotalUsers := v\<rparr>) bs)
      else if fieldNum = 3 then Some (bytes_field wireType i (\<lambda>v. x\<lparr>vv1s_FlexibleTotalDistributedRewardsPrincipal := v\<rparr>) bs)
      else if fieldNum = 4 then Some (bytes_field wireType i (\<lambda>v. x\<lparr>vv1s_StakedTotalPrincipal := v\<rparr>) bs)
      else if fieldNum = 5 then Some (varint_field wireType (\<lambda>v. x\<lparr>vv1s_StakedTotalUsers := v\<rparr>) bs)
      else None)"

definition vaultsv1_Stats_unmarshal :: "wire_runtime \<Rightarrow> bool \<Rightarrow> bytes \<Rightarrow> vaultsv1_Stats result option" where
  "vaultsv1_Stats_unmarshal rt discardUnknown bs =
     read_fields (Skip rt) vaultsv1_Stats_field
       (\<lambda>u x. if discardUnknown then x else x\<lparr>vv1s_unknownFields := vv1s_unknownFields x @ u\<rparr>)
       \<lparr>vv1s_FlexibleTotalPrincipal = [], vv1s_FlexibleTotalUsers = 0, vv1s_FlexibleTotalDistributedRewardsPrincipal = [], vv1s_StakedTotalPrincipal = [], vv1s_StakedTotalUsers = 0, vv1s_unknownFields = []\<rparr> 0 bs"

lemma vaultsv1_Stats_written:
  assumes "varint_runtime rt" "vv1s_unknownFields x = []"
  shows "writes (vaultsv1_Stats_marshal rt x)
    (delimited_bytes rt 0xA (vv1s_FlexibleTotalPrincipal x) @
      varint_bytes rt 0x10 (vv1s_FlexibleTotalUsers x) @
      delimited_bytes rt 0x1A (vv1s_FlexibleTotalDistributedRewardsPrincipal x) @
      delimited_bytes rt 0x22 (vv1s_StakedTotalPrincipal x) @
      varint_bytes rt 0x28 (vv1s_StakedTotalUsers x) @
      [])
    (vaultsv1_Stats_size rt x)"
  by (simp add: writes_def vaultsv1_Stats_marshal_def vaultsv1_Stats_size_def assms wire_puts)

lemma vaultsv1_Stats_exact:
  assumes "varint_runtime rt"
  shows "exact_codec (vaultsv1_Stats_size rt) (vaultsv1_Stats_marshal rt) 
    (vaultsv1_Stats_unmarshal rt' discardUnknown) (\<lambda>x. vv1s_unknownFields x = [])"
  by (rule exact_codecI, rule vaultsv1_Stats_written [OF assms], assumption,
    unfold vaultsv1_Stats_unmarshal_def, erule readsD [rotated],
    (rule reads_bytes [OF assms] reads_varint [OF assms], rule wire_tags,
        simp add: vaultsv1_Stats_field_def, simp)+, rule reads_done, simp)

lemma vaultsv1_Stats_returns:
  "skip_progress (Skip rt) \<Longrightarrow> \<exists>r. vaultsv1_Stats_unmarshal rt discardUnknown bs = Some r"
  unfolding vaultsv1_Stats_unmarshal_def by (rule read_fields_returns)

interpretation vaultsv1_Stats_codec: message_codec "vaultsv1_Stats_size gogo_runtime" "vaultsv1_Stats_marshal gogo_runtime"
    "vaultsv1_Stats_unmarshal gogo_runtime discardUnknown" "\<lambda>x. vv1s_unknownFields x = []" for discardUnknown
  by unfold_locales (rule vaultsv1_Stats_exact [OF gogo_varint], rule vaultsv1_Stats_returns [OF gogo_skip])

subsection \<open>Module (modulev1)\<close>

text \<open>\<open>Module\<close> of \<open>api/module/v1/module.pulsar.go\<close>.\<close>

record modulev1_Module =
  mv1_Denom :: bytes
  mv1_Authority :: bytes
  mv1_VaultsMinimumLock :: "64 word"
  mv1_VaultsMinimumUnlock :: "64 word"
  mv1_VaultsSeasonOneEndTimestamp :: "64 word"
  mv1_VaultsSeasonTwoYieldCollector :: bytes
  mv1_unknownFields :: bytes

definition modulev1_Module_size :: "wire_runtime \<Rightarrow> modulev1_Module \<Rightarrow> nat" where
  "modulev1_Module_size rt x =
     size_delimited rt (mv1_Denom x) +
     size_delimited rt (mv1_Authority x) +
     size_varint rt (mv1_VaultsMinimumLock x) +
     size_varint rt (mv1_VaultsMinimumUnlock x) +
     size_varint rt (mv1_VaultsSeasonOneEndTimestamp x) +
     size_delimited rt (mv1_VaultsSeasonTwoYieldCollector x) +
     length (mv1_unknownFields x)"

definition modulev1_Module_marshal :: "wire_runtime \<Rightarrow> modulev1_Module \<Rightarrow> bytes result" where
  "modulev1_Module_marshal rt x =
     obind (put (mv1_unknownFields x) (modulev1_Module_size rt x, [])) (\<lambda>b.
     obind (put_delimited rt 0x32 (mv1_VaultsSeasonTwoYieldCollector x) b) (\<lambda>b.
     obind (put_varint rt 0x28 (mv1_VaultsSeasonOneEndTimestamp x) b) (\<lambda>b.
     obind (put_varint rt 0x20 (mv1_VaultsMinimumUnlock x) b) (\<lambda>b.
     obind (put_varint rt 0x18 (mv1_VaultsMinimumLock x) b) (\<lambda>b.
     obind (put_delimited rt 0x12 (mv1_Authority x) b) (\<lambda>b.
     obind (put_delimited rt 0xA (mv1_Denom x) b) (\<lambda>b.
     Ok (buffer_bytes b))))))))"

definition modulev1_Module_field ::
    "int \<Rightarrow> int \<Rightarrow> modulev1_Module \<Rightarrow> nat \<Rightarrow> bytes \<Rightarrow> (modulev1_Module \<times> nat) result option" where
  "modulev1_Module_field fieldNum wireType x i bs =
     (if fieldNum = 1 then Some (bytes_field wireType i (\<lambda>v. x\<lparr>mv1_Denom := v\<rparr>) bs)
      else if fieldNum = 2 then Some (bytes_field wireType i (\<lambda>v. x\<lparr>mv1_Authority := v\<rparr>) bs)
      else if fieldNum = 3 then Some (varint_field wireType (\<lambda>v. x\<lparr>mv1_VaultsMinimumLock := v\<rparr>) bs)
      else if fieldNum = 4 then Some (varint_field wireType (\<lambda>v. x\<lparr>mv1_VaultsMinimumUnlock := v\<rparr>) bs)
      else if fieldNum = 5 then Some (varint_field wireType (\<lambda>v. x\<lparr>mv1_VaultsSeasonOneEndTimestamp := v\<rparr>) bs)
      else if fieldNum = 6 then Some (bytes_field wireType i (\<lambda>v. x\<lparr>mv1_VaultsSeasonTwoYieldCollector := v\<rparr>) bs)
      else None)"

definition modulev1_Module_unmarshal :: "wire_runtime \<Rightarrow> bool \<Rightarrow> bytes \<Rightarrow> modulev1_Module result option" where
  "modulev1_Module_unmarshal rt discardUnknown bs =
     read_fields (Skip rt) modulev1_Module_field
       (\<lambda>u x. if discardUnknown then x else x\<lparr>mv1_unknownFields := mv1_unknownFields x @ u\<rparr>)
       \<lparr>mv1_Denom = [], mv1_Authority = [], mv1_VaultsMinimumLock = 0, mv1_VaultsMinimumUnlock = 0, mv1_VaultsSeasonOneEndTimestamp = 0, mv1_VaultsSeasonTwoYieldCollector = [], mv1_unknownFields = []\<rparr> 0 bs"

lemma modulev1_Module_written:
  assumes "varint_runtime rt" "mv1_unknownFields x = []"
  shows "writes (modulev1_Module_marshal rt x)
    (delimited_bytes rt 0xA (mv1_Denom x) @
      delimited_bytes rt 0x12 (mv1_Authority x) @
      varint_bytes rt 0x18 (mv1_VaultsMinimumLock x) @
      varint_bytes rt 0x20 (mv1_VaultsMinimumUnlock x) @
      varint_bytes rt 0x28 (mv1_VaultsSeasonOneEndTimestamp x) @
      delimited_bytes rt 0x32 (mv1_VaultsSeasonTwoYieldCollector x) @
      [])
    (modulev1_Module_size rt x)"
  by (simp add: writes_def modulev1_Module_marshal_def modulev1_Module_size_def assms wire_puts)

lemma modulev1_Module_exact:
  assumes "varint_runtime rt"
  shows "exact_codec (modulev1_Module_size rt) (modulev1_Module_marshal rt) 
    (modulev1_Module_unmarshal rt' discardUnknown) (\<lambda>x. mv1_unknownFields x = [])"
  by (rule exact_codecI, rule modulev1_Module_written [OF assms], assumption,
    unfold modulev1_Module_unmarshal_def, erule readsD [rotated],
    (rule reads_bytes [OF assms] reads_varint [OF assms], rule wire_tags,
        simp add: modulev1_Module_field_def, simp)+, rule reads_done, simp)

lemma modulev1_Module_returns:
  "skip_progress (Skip rt) \<Longrightarrow> \<exists>r. modulev1_Module_unmarshal rt discardUnknown bs = Some r"
  unfolding modulev1_Module_unmarshal_def by (rule read_fields_returns)

interpretation modulev1_Module_codec: message_codec "modulev1_Module_size gogo_runtime" "modulev1_Module_marshal gogo_runtime"
    "modulev1_Module_unmarshal gogo_runtime discardUnknown" "\<lambda>x. mv1_unknownFields x = []" for discardUnknown
  by unfold_locales (rule modulev1_Module_exact [OF gogo_varint], rule modulev1_Module_returns [OF gogo_skip])

subsection \<open>The codecs together\<close>

lemmas stored_exact =
  dollarv2_Stats_exact portalv1_Peer_exact portalv1_BridgingPath_exact vaultsv1_Reward_exact
  vaultsv1_Stats_exact modulev1_Module_exact

lemmas stored_returns =
  dollarv2_Stats_returns portalv1_Peer_returns portalv1_BridgingPath_returns
  vaultsv1_Reward_returns vaultsv1_Stats_returns modulev1_Module_returns

end
