(* ===== verification/Api_Tx.thy ===== *)
theory Api_Tx
  imports Messages
begin

text \<open>
  The transactions of the client API and their responses: \<open>tx.pulsar.go\<close> under \<open>api/v1\<close>,
  \<open>api/v2\<close>, \<open>api/portal/v1\<close> and \<open>api/vaults/v1\<close>, and \<open>injection.pulsar.go\<close>.
\<close>

subsection \<open>MsgClaimYield (dollarv1)\<close>

text \<open>\<open>MsgClaimYield\<close> of \<open>api/v1/tx.pulsar.go\<close>.\<close>

record dollarv1_MsgClaimYield =
  dollarv1_MsgClaimYield_Signer :: bytes
  dollarv1_MsgClaimYield_unknownFields :: bytes

definition dollarv1_MsgClaimYield_size :: "wire_runtime \<Rightarrow> dollarv1_MsgClaimYield \<Rightarrow> nat" where
  "dollarv1_MsgClaimYield_size rt x =
     size_delimited rt (dollarv1_MsgClaimYield_Signer x) +
     length (dollarv1_MsgClaimYield_unknownFields x)"

definition dollarv1_MsgClaimYield_marshal :: "wire_runtime \<Rightarrow> dollarv1_MsgClaimYield \<Rightarrow> bytes result" where
  "dollarv1_MsgClaimYield_marshal rt x =
     obind (put (dollarv1_MsgClaimYield_unknownFields x) (dollarv1_MsgClaimYield_size rt x, [])) (\<lambda>b.
     obind (put_delimited rt 0xA (dollarv1_MsgClaimYield_Signer x) b) (\<lambda>b.
     Ok (buffer_bytes b)))"

definition dollarv1_MsgClaimYield_field ::
    "int \<Rightarrow> int \<Rightarrow> dollarv1_MsgClaimYield \<Rightarrow> nat \<Rightarrow> bytes \<Rightarrow> (dollarv1_MsgClaimYield \<times> nat) result option" where
  "dollarv1_MsgClaimYield_field fieldNum wireType x i bs =
     (if fieldNum = 1 then Some (bytes_field wireType i (\<lambda>v. x\<lparr>dollarv1_MsgClaimYield_Signer := v\<rparr>) bs)
      else None)"

definition dollarv1_MsgClaimYield_unmarshal :: "wire_runtime \<Rightarrow> bool \<Rightarrow> bytes \<Rightarrow> dollarv1_MsgClaimYield result option" where
  "dollarv1_MsgClaimYield_unmarshal rt discardUnknown bs =
     read_fields (Skip rt) dollarv1_MsgClaimYield_field
       (\<lambda>u x. if discardUnknown then x else x\<lparr>dollarv1_MsgClaimYield_unknownFields := dollarv1_MsgClaimYield_unknownFields x @ u\<rparr>)
       \<lparr>dollarv1_MsgClaimYield_Signer = [], dollarv1_MsgClaimYield_unknownFields = []\<rparr> 0 bs"

lemma dollarv1_MsgClaimYield_written:
  assumes "varint_runtime rt" "dollarv1_MsgClaimYield_unknownFields x = []"
  shows "writes (dollarv1_MsgClaimYield_marshal rt x)
    (delimited_bytes rt 0xA (dollarv1_MsgClaimYield_Signer x) @
      [])
    (dollarv1_MsgClaimYield_size rt x)"
  by (simp add: writes_def dollarv1_MsgClaimYield_marshal_def dollarv1_MsgClaimYield_size_def assms wire_puts)

lemma dollarv1_MsgClaimYield_exact:
  assumes "varint_runtime rt"
  shows "exact_codec (dollarv1_MsgClaimYield_size rt) (dollarv1_MsgClaimYield_marshal rt) 
    (dollarv1_MsgClaimYield_unmarshal rt' discardUnknown) (\<lambda>x. dollarv1_MsgClaimYield_unknownFields x = [])"
  by (rule exact_codecI, rule dollarv1_MsgClaimYield_written [OF assms], assumption,
    unfold dollarv1_MsgClaimYield_unmarshal_def, erule readsD [rotated],
    (rule reads_bytes [OF assms], rule wire_tags,
        simp add: dollarv1_MsgClaimYield_field_def, simp)+, rule reads_done, simp)

lemma dollarv1_MsgClaimYield_returns:
  "skip_progress (Skip rt) \<Longrightarrow> \<exists>r. dollarv1_MsgClaimYield_unmarshal rt discardUnknown bs = Some r"
  unfolding dollarv1_MsgClaimYield_unmarshal_def by (rule read_fields_returns)

subsection \<open>MsgClaimYieldResponse (dollarv1)\<close>

text \<open>\<open>MsgClaimYieldResponse\<close> of \<open>api/v1/tx.pulsar.go\<close>.\<close>

record dollarv1_MsgClaimYieldResponse =
  dollarv1_MsgClaimYieldResponse_unknownFields :: bytes

definition dollarv1_MsgClaimYieldResponse_size :: "wire_runtime \<Rightarrow> dollarv1_MsgClaimYieldResponse \<Rightarrow> nat" where
  "dollarv1_MsgClaimYieldResponse_size rt x =
     length (dollarv1_MsgClaimYieldResponse_unknownFields x)"

definition dollarv1_MsgClaimYieldResponse_marshal :: "wire_runtime \<Rightarrow> dollarv1_MsgClaimYieldResponse \<Rightarrow> bytes result" where
  "dollarv1_MsgClaimYieldResponse_marshal rt x =
     obind (put (dollarv1_MsgClaimYieldResponse_unknownFields x) (dollarv1_MsgClaimYieldResponse_size rt x, [])) (\<lambda>b.
     Ok (buffer_bytes b))"

definition dollarv1_MsgClaimYieldResponse_field ::
    "int \<Rightarrow> int \<Rightarrow> dollarv1_MsgClaimYieldResponse \<Rightarrow> nat \<Rightarrow> bytes \<Rightarrow> (dollarv1_MsgClaimYieldResponse \<times> nat) result option" where
  "dollarv1_MsgClaimYieldResponse_field fieldNum wireType x i bs =
     None"

definition dollarv1_MsgClaimYieldResponse_unmarshal :: "wire_runtime \<Rightarrow> bool \<Rightarrow> bytes \<Rightarrow> dollarv1_MsgClaimYieldResponse result option" where
  "dollarv1_MsgClaimYieldResponse_unmarshal rt discardUnknown bs =
     read_fields (Skip rt) dollarv1_MsgClaimYieldResponse_field
       (\<lambda>u x. if discardUnknown then x else x\<lparr>dollarv1_MsgClaimYieldResponse_unknownFields := dollarv1_MsgClaimYieldResponse_unknownFields x @ u\<rparr>)
       \<lparr>dollarv1_MsgClaimYieldResponse_unknownFields = []\<rparr> 0 bs"

lemma dollarv1_MsgClaimYieldResponse_written:
  assumes "varint_runtime rt" "dollarv1_MsgClaimYieldResponse_unknownFields x = []"
  shows "writes (dollarv1_MsgClaimYieldResponse_marshal rt x)
    ([] :: bytes)
    (dollarv1_MsgClaimYieldResponse_size rt x)"
  by (simp add: writes_def dollarv1_MsgClaimYieldResponse_marshal_def dollarv1_MsgClaimYieldResponse_size_def assms wire_puts)

lemma dollarv1_MsgClaimYieldResponse_exact:
  assumes "varint_runtime rt"
  shows "exact_codec (dollarv1_MsgClaimYieldResponse_size rt) (dollarv1_MsgClaimYieldResponse_marshal rt) 
    (dollarv1_MsgClaimYieldResponse_unmarshal rt' discardUnknown) (\<lambda>x. dollarv1_MsgClaimYieldResponse_unknownFields x = [])"
  by (rule exact_codecI, rule dollarv1_MsgClaimYieldResponse_written [OF assms], assumption,
    unfold dollarv1_MsgClaimYieldResponse_unmarshal_def, erule readsD [rotated],
    rule reads_done, simp)

lemma dollarv1_MsgClaimYieldResponse_returns:
  "skip_progress (Skip rt) \<Longrightarrow> \<exists>r. dollarv1_MsgClaimYieldResponse_unmarshal rt discardUnknown bs = Some r"
  unfolding dollarv1_MsgClaimYieldResponse_unmarshal_def by (rule read_fields_returns)

subsection \<open>MsgSetPausedState (dollarv1)\<close>

text \<open>\<open>MsgSetPausedState\<close> of \<open>api/v1/tx.pulsar.go\<close>.\<close>

record dollarv1_MsgSetPausedState =
  dollarv1_MsgSetPausedState_Signer :: bytes
  dollarv1_MsgSetPausedState_Paused :: bool
  dollarv1_MsgSetPausedState_unknownFields :: bytes

definition dollarv1_MsgSetPausedState_size :: "wire_runtime \<Rightarrow> dollarv1_MsgSetPausedState \<Rightarrow> nat" where
  "dollarv1_MsgSetPausedState_size rt x =
     size_delimited rt (dollarv1_MsgSetPausedState_Signer x) +
     size_bool (dollarv1_MsgSetPausedState_Paused x) +
     length (dollarv1_MsgSetPausedState_unknownFields x)"

definition dollarv1_MsgSetPausedState_marshal :: "wire_runtime \<Rightarrow> dollarv1_MsgSetPausedState \<Rightarrow> bytes result" where
  "dollarv1_MsgSetPausedState_marshal rt x =
     obind (put (dollarv1_MsgSetPausedState_unknownFields x) (dollarv1_MsgSetPausedState_size rt x, [])) (\<lambda>b.
     obind (put_bool 0x10 (dollarv1_MsgSetPausedState_Paused x) b) (\<lambda>b.
     obind (put_delimited rt 0xA (dollarv1_MsgSetPausedState_Signer x) b) (\<lambda>b.
     Ok (buffer_bytes b))))"

definition dollarv1_MsgSetPausedState_field ::
    "int \<Rightarrow> int \<Rightarrow> dollarv1_MsgSetPausedState \<Rightarrow> nat \<Rightarrow> bytes \<Rightarrow> (dollarv1_MsgSetPausedState \<times> nat) result option" where
  "dollarv1_MsgSetPausedState_field fieldNum wireType x i bs =
     (if fieldNum = 1 then Some (bytes_field wireType i (\<lambda>v. x\<lparr>dollarv1_MsgSetPausedState_Signer := v\<rparr>) bs)
      else if fieldNum = 2 then Some (bool_field wireType (\<lambda>v. x\<lparr>dollarv1_MsgSetPausedState_Paused := v\<rparr>) bs)
      else None)"

definition dollarv1_MsgSetPausedState_unmarshal :: "wire_runtime \<Rightarrow> bool \<Rightarrow> bytes \<Rightarrow> dollarv1_MsgSetPausedState result option" where
  "dollarv1_MsgSetPausedState_unmarshal rt discardUnknown bs =
     read_fields (Skip rt) dollarv1_MsgSetPausedState_field
       (\<lambda>u x. if discardUnknown then x else x\<lparr>dollarv1_MsgSetPausedState_unknownFields := dollarv1_MsgSetPausedState_unknownFields x @ u\<rparr>)
       \<lparr>dollarv1_MsgSetPausedState_Signer = [], dollarv1_MsgSetPausedState_Paused = False, dollarv1_MsgSetPausedState_unknownFields = []\<rparr> 0 bs"

lemma dollarv1_MsgSetPausedState_written:
  assumes "varint_runtime rt" "dollarv1_MsgSetPausedState_unknownFields x = []"
  shows "writes (dollarv1_MsgSetPausedState_marshal rt x)
    (delimited_bytes rt 0xA (dollarv1_MsgSetPausedState_Signer x) @
      bool_bytes 0x10 (dollarv1_MsgSetPausedState_Paused x) @
      [])
    (dollarv1_MsgSetPausedState_size rt x)"
  by (simp add: writes_def dollarv1_MsgSetPausedState_marshal_def dollarv1_MsgSetPausedState_size_def assms wire_puts)

lemma dollarv1_MsgSetPausedState_exact:
  assumes "varint_runtime rt"
  shows "exact_codec (dollarv1_MsgSetPausedState_size rt) (dollarv1_MsgSetPausedState_marshal rt) 
    (dollarv1_MsgSetPausedState_unmarshal rt' discardUnknown) (\<lambda>x. dollarv1_MsgSetPausedState_unknownFields x = [])"
  by (rule exact_codecI, rule dollarv1_MsgSetPausedState_written [OF assms], assumption,
    unfold dollarv1_MsgSetPausedState_unmarshal_def, erule readsD [rotated],
    (rule reads_bytes [OF assms] reads_bool, rule wire_tags,
        simp add: dollarv1_MsgSetPausedState_field_def, simp)+, rule reads_done, simp)

lemma dollarv1_MsgSetPausedState_returns:
  "skip_progress (Skip rt) \<Longrightarrow> \<exists>r. dollarv1_MsgSetPausedState_unmarshal rt discardUnknown bs = Some r"
  unfolding dollarv1_MsgSetPausedState_unmarshal_def by (rule read_fields_returns)

subsection \<open>MsgSetPausedStateResponse (dollarv1)\<close>

text \<open>\<open>MsgSetPausedStateResponse\<close> of \<open>api/v1/tx.pulsar.go\<close>.\<close>

record dollarv1_MsgSetPausedStateResponse =
  dollarv1_MsgSetPausedStateResponse_unknownFields :: bytes

definition dollarv1_MsgSetPausedStateResponse_size :: "wire_runtime \<Rightarrow> dollarv1_MsgSetPausedStateResponse \<Rightarrow> nat" where
  "dollarv1_MsgSetPausedStateResponse_size rt x =
     length (dollarv1_MsgSetPausedStateResponse_unknownFields x)"

definition dollarv1_MsgSetPausedStateResponse_marshal :: "wire_runtime \<Rightarrow> dollarv1_MsgSetPausedStateResponse \<Rightarrow> bytes result" where
  "dollarv1_MsgSetPausedStateResponse_marshal rt x =
     obind (put (dollarv1_MsgSetPausedStateResponse_unknownFields x) (dollarv1_MsgSetPausedStateResponse_size rt x, [])) (\<lambda>b.
     Ok (buffer_bytes b))"

definition dollarv1_MsgSetPausedStateResponse_field ::
    "int \<Rightarrow> int \<Rightarrow> dollarv1_MsgSetPausedStateResponse \<Rightarrow> nat \<Rightarrow> bytes \<Rightarrow> (dollarv1_MsgSetPausedStateResponse \<times> nat) result option" where
  "dollarv1_MsgSetPausedStateResponse_field fieldNum wireType x i bs =
     None"

definition dollarv1_MsgSetPausedStateResponse_unmarshal :: "wire_runtime \<Rightarrow> bool \<Rightarrow> bytes \<Rightarrow> dollarv1_MsgSetPausedStateResponse result option" where
  "dollarv1_MsgSetPausedStateResponse_unmarshal rt discardUnknown bs =
     read_fields (Skip rt) dollarv1_MsgSetPausedStateResponse_field
       (\<lambda>u x. if discardUnknown then x else x\<lparr>dollarv1_MsgSetPausedStateResponse_unknownFields := dollarv1_MsgSetPausedStateResponse_unknownFields x @ u\<rparr>)
       \<lparr>dollarv1_MsgSetPausedStateResponse_unknownFields = []\<rparr> 0 bs"

lemma dollarv1_MsgSetPausedStateResponse_written:
  assumes "varint_runtime rt" "dollarv1_MsgSetPausedStateResponse_unknownFields x = []"
  shows "writes (dollarv1_MsgSetPausedStateResponse_marshal rt x)
    ([] :: bytes)
    (dollarv1_MsgSetPausedStateResponse_size rt x)"
  by (simp add: writes_def dollarv1_MsgSetPausedStateResponse_marshal_def dollarv1_MsgSetPausedStateResponse_size_def assms wire_puts)

lemma dollarv1_MsgSetPausedStateResponse_exact:
  assumes "varint_runtime rt"
  shows "exact_codec (dollarv1_MsgSetPausedStateResponse_size rt) (dollarv1_MsgSetPausedStateResponse_marshal rt) 
    (dollarv1_MsgSetPausedStateResponse_unmarshal rt' discardUnknown) (\<lambda>x. dollarv1_MsgSetPausedStateResponse_unknownFields x = [])"
  by (rule exact_codecI, rule dollarv1_MsgSetPausedStateResponse_written [OF assms], assumption,
    unfold dollarv1_MsgSetPausedStateResponse_unmarshal_def, erule readsD [rotated],
    rule reads_done, simp)

lemma dollarv1_MsgSetPausedStateResponse_returns:
  "skip_progress (Skip rt) \<Longrightarrow> \<exists>r. dollarv1_MsgSetPausedStateResponse_unmarshal rt discardUnknown bs = Some r"
  unfolding dollarv1_MsgSetPausedStateResponse_unmarshal_def by (rule read_fields_returns)

subsection \<open>MsgSetYieldRecipient (dollarv2)\<close>

text \<open>\<open>MsgSetYieldRecipient\<close> of \<open>api/v2/tx.pulsar.go\<close>.\<close>

record dollarv2_MsgSetYieldRecipient =
  dollarv2_MsgSetYieldRecipient_Signer :: bytes
  dollarv2_MsgSetYieldRecipient_Provider :: "32 word"
  dollarv2_MsgSetYieldRecipient_Identifier :: bytes
  dollarv2_MsgSetYieldRecipient_Recipient :: bytes
  dollarv2_MsgSetYieldRecipient_unknownFields :: bytes

definition dollarv2_MsgSetYieldRecipient_size :: "wire_runtime \<Rightarrow> dollarv2_MsgSetYieldRecipient \<Rightarrow> nat" where
  "dollarv2_MsgSetYieldRecipient_size rt x =
     size_delimited rt (dollarv2_MsgSetYieldRecipient_Signer x) +
     size_varint rt (scast (dollarv2_MsgSetYieldRecipient_Provider x)) +
     size_delimited rt (dollarv2_MsgSetYieldRecipient_Identifier x) +
     size_delimited rt (dollarv2_MsgSetYieldRecipient_Recipient x) +
     length (dollarv2_MsgSetYieldRecipient_unknownFields x)"

definition dollarv2_MsgSetYieldRecipient_marshal :: "wire_runtime \<Rightarrow> dollarv2_MsgSetYieldRecipient \<Rightarrow> bytes result" where
  "dollarv2_MsgSetYieldRecipient_marshal rt x =
     obind (put (dollarv2_MsgSetYieldRecipient_unknownFields x) (dollarv2_MsgSetYieldRecipient_size rt x, [])) (\<lambda>b.
     obind (put_delimited rt 0x22 (dollarv2_MsgSetYieldRecipient_Recipient x) b) (\<lambda>b.
     obind (put_delimited rt 0x1A (dollarv2_MsgSetYieldRecipient_Identifier x) b) (\<lambda>b.
     obind (put_varint rt 0x10 (scast (dollarv2_MsgSetYieldRecipient_Provider x)) b) (\<lambda>b.
     obind (put_delimited rt 0xA (dollarv2_MsgSetYieldRecipient_Signer x) b) (\<lambda>b.
     Ok (buffer_bytes b))))))"

definition dollarv2_MsgSetYieldRecipient_field ::
    "int \<Rightarrow> int \<Rightarrow> dollarv2_MsgSetYieldRecipient \<Rightarrow> nat \<Rightarrow> bytes \<Rightarrow> (dollarv2_MsgSetYieldRecipient \<times> nat) result option" where
  "dollarv2_MsgSetYieldRecipient_field fieldNum wireType x i bs =
     (if fieldNum = 1 then Some (bytes_field wireType i (\<lambda>v. x\<lparr>dollarv2_MsgSetYieldRecipient_Signer := v\<rparr>) bs)
      else if fieldNum = 2 then Some (varint_field wireType (\<lambda>v. x\<lparr>dollarv2_MsgSetYieldRecipient_Provider := v\<rparr>) bs)
      else if fieldNum = 3 then Some (bytes_field wireType i (\<lambda>v. x\<lparr>dollarv2_MsgSetYieldRecipient_Identifier := v\<rparr>) bs)
      else if fieldNum = 4 then Some (bytes_field wireType i (\<lambda>v. x\<lparr>dollarv2_MsgSetYieldRecipient_Recipient := v\<rparr>) bs)
      else None)"

definition dollarv2_MsgSetYieldRecipient_unmarshal :: "wire_runtime \<Rightarrow> bool \<Rightarrow> bytes \<Rightarrow> dollarv2_MsgSetYieldRecipient result option" where
  "dollarv2_MsgSetYieldRecipient_unmarshal rt discardUnknown bs =
     read_fields (Skip rt) dollarv2_MsgSetYieldRecipient_field
       (\<lambda>u x. if discardUnknown then x else x\<lparr>dollarv2_MsgSetYieldRecipient_unknownFields := dollarv2_MsgSetYieldRecipient_unknownFields x @ u\<rparr>)
       \<lparr>dollarv2_MsgSetYieldRecipient_Signer = [], dollarv2_MsgSetYieldRecipient_Provider = 0, dollarv2_MsgSetYieldRecipient_Identifier = [], dollarv2_MsgSetYieldRecipient_Recipient = [], dollarv2_MsgSetYieldRecipient_unknownFields = []\<rparr> 0 bs"

lemma dollarv2_MsgSetYieldRecipient_written:
  assumes "varint_runtime rt" "dollarv2_MsgSetYieldRecipient_unknownFields x = []"
  shows "writes (dollarv2_MsgSetYieldRecipient_marshal rt x)
    (delimited_bytes rt 0xA (dollarv2_MsgSetYieldRecipient_Signer x) @
      varint_bytes rt 0x10 (scast (dollarv2_MsgSetYieldRecipient_Provider x)) @
      delimited_bytes rt 0x1A (dollarv2_MsgSetYieldRecipient_Identifier x) @
      delimited_bytes rt 0x22 (dollarv2_MsgSetYieldRecipient_Recipient x) @
      [])
    (dollarv2_MsgSetYieldRecipient_size rt x)"
  by (simp add: writes_def dollarv2_MsgSetYieldRecipient_marshal_def dollarv2_MsgSetYieldRecipient_size_def assms wire_puts)

lemma dollarv2_MsgSetYieldRecipient_exact:
  assumes "varint_runtime rt"
  shows "exact_codec (dollarv2_MsgSetYieldRecipient_size rt) (dollarv2_MsgSetYieldRecipient_marshal rt) 
    (dollarv2_MsgSetYieldRecipient_unmarshal rt' discardUnknown) (\<lambda>x. dollarv2_MsgSetYieldRecipient_unknownFields x = [])"
  by (rule exact_codecI, rule dollarv2_MsgSetYieldRecipient_written [OF assms], assumption,
    unfold dollarv2_MsgSetYieldRecipient_unmarshal_def, erule readsD [rotated],
    (rule reads_bytes [OF assms] reads_varint32 [OF assms], rule wire_tags,
        simp add: dollarv2_MsgSetYieldRecipient_field_def, simp)+, rule reads_done, simp)

lemma dollarv2_MsgSetYieldRecipient_returns:
  "skip_progress (Skip rt) \<Longrightarrow> \<exists>r. dollarv2_MsgSetYieldRecipient_unmarshal rt discardUnknown bs = Some r"
  unfolding dollarv2_MsgSetYieldRecipient_unmarshal_def by (rule read_fields_returns)

subsection \<open>MsgSetYieldRecipientResponse (dollarv2)\<close>

text \<open>\<open>MsgSetYieldRecipientResponse\<close> of \<open>api/v2/tx.pulsar.go\<close>.\<close>

record dollarv2_MsgSetYieldRecipientResponse =
  dollarv2_MsgSetYieldRecipientResponse_unknownFields :: bytes

definition dollarv2_MsgSetYieldRecipientResponse_size :: "wire_runtime \<Rightarrow> dollarv2_MsgSetYieldRecipientResponse \<Rightarrow> nat" where
  "dollarv2_MsgSetYieldRecipientResponse_size rt x =
     length (dollarv2_MsgSetYieldRecipientResponse_unknownFields x)"

definition dollarv2_MsgSetYieldRecipientResponse_marshal :: "wire_runtime \<Rightarrow> dollarv2_MsgSetYieldRecipientResponse \<Rightarrow> bytes result" where
  "dollarv2_MsgSetYieldRecipientResponse_marshal rt x =
     obind (put (dollarv2_MsgSetYieldRecipientResponse_unknownFields x) (dollarv2_MsgSetYieldRecipientResponse_size rt x, [])) (\<lambda>b.
     Ok (buffer_bytes b))"

definition dollarv2_MsgSetYieldRecipientResponse_field ::
    "int \<Rightarrow> int \<Rightarrow> dollarv2_MsgSetYieldRecipientResponse \<Rightarrow> nat \<Rightarrow> bytes \<Rightarrow> (dollarv2_MsgSetYieldRecipientResponse \<times> nat) result option" where
  "dollarv2_MsgSetYieldRecipientResponse_field fieldNum wireType x i bs =
     None"

definition dollarv2_MsgSetYieldRecipientResponse_unmarshal :: "wire_runtime \<Rightarrow> bool \<Rightarrow> bytes \<Rightarrow> dollarv2_MsgSetYieldRecipientResponse result option" where
  "dollarv2_MsgSetYieldRecipientResponse_unmarshal rt discardUnknown bs =
     read_fields (Skip rt) dollarv2_MsgSetYieldRecipientResponse_field
       (\<lambda>u x. if discardUnknown then x else x\<lparr>dollarv2_MsgSetYieldRecipientResponse_unknownFields := dollarv2_MsgSetYieldRecipientResponse_unknownFields x @ u\<rparr>)
       \<lparr>dollarv2_MsgSetYieldRecipientResponse_unknownFields = []\<rparr> 0 bs"

lemma dollarv2_MsgSetYieldRecipientResponse_written:
  assumes "varint_runtime rt" "dollarv2_MsgSetYieldRecipientResponse_unknownFields x = []"
  shows "writes (dollarv2_MsgSetYieldRecipientResponse_marshal rt x)
    ([] :: bytes)
    (dollarv2_MsgSetYieldRecipientResponse_size rt x)"
  by (simp add: writes_def dollarv2_MsgSetYieldRecipientResponse_marshal_def dollarv2_MsgSetYieldRecipientResponse_size_def assms wire_puts)

lemma dollarv2_MsgSetYieldRecipientResponse_exact:
  assumes "varint_runtime rt"
  shows "exact_codec (dollarv2_MsgSetYieldRecipientResponse_size rt) (dollarv2_MsgSetYieldRecipientResponse_marshal rt) 
    (dollarv2_MsgSetYieldRecipientResponse_unmarshal rt' discardUnknown) (\<lambda>x. dollarv2_MsgSetYieldRecipientResponse_unknownFields x = [])"
  by (rule exact_codecI, rule dollarv2_MsgSetYieldRecipientResponse_written [OF assms], assumption,
    unfold dollarv2_MsgSetYieldRecipientResponse_unmarshal_def, erule readsD [rotated],
    rule reads_done, simp)

lemma dollarv2_MsgSetYieldRecipientResponse_returns:
  "skip_progress (Skip rt) \<Longrightarrow> \<exists>r. dollarv2_MsgSetYieldRecipientResponse_unmarshal rt discardUnknown bs = Some r"
  unfolding dollarv2_MsgSetYieldRecipientResponse_unmarshal_def by (rule read_fields_returns)

subsection \<open>MsgDeliver (portalv1)\<close>

text \<open>\<open>MsgDeliver\<close> of \<open>api/portal/v1/tx.pulsar.go\<close>.\<close>

record portalv1_MsgDeliver =
  portalv1_MsgDeliver_Signer :: bytes
  portalv1_MsgDeliver_Vaa :: bytes
  portalv1_MsgDeliver_unknownFields :: bytes

definition portalv1_MsgDeliver_size :: "wire_runtime \<Rightarrow> portalv1_MsgDeliver \<Rightarrow> nat" where
  "portalv1_MsgDeliver_size rt x =
     size_delimited rt (portalv1_MsgDeliver_Signer x) +
     size_delimited rt (portalv1_MsgDeliver_Vaa x) +
     length (portalv1_MsgDeliver_unknownFields x)"

definition portalv1_MsgDeliver_marshal :: "wire_runtime \<Rightarrow> portalv1_MsgDeliver \<Rightarrow> bytes result" where
  "portalv1_MsgDeliver_marshal rt x =
     obind (put (portalv1_MsgDeliver_unknownFields x) (portalv1_MsgDeliver_size rt x, [])) (\<lambda>b.
     obind (put_delimited rt 0x12 (portalv1_MsgDeliver_Vaa x) b) (\<lambda>b.
     obind (put_delimited rt 0xA (portalv1_MsgDeliver_Signer x) b) (\<lambda>b.
     Ok (buffer_bytes b))))"

definition portalv1_MsgDeliver_field ::
    "int \<Rightarrow> int \<Rightarrow> portalv1_MsgDeliver \<Rightarrow> nat \<Rightarrow> bytes \<Rightarrow> (portalv1_MsgDeliver \<times> nat) result option" where
  "portalv1_MsgDeliver_field fieldNum wireType x i bs =
     (if fieldNum = 1 then Some (bytes_field wireType i (\<lambda>v. x\<lparr>portalv1_MsgDeliver_Signer := v\<rparr>) bs)
      else if fieldNum = 2 then Some (bytes_field wireType i (\<lambda>v. x\<lparr>portalv1_MsgDeliver_Vaa := v\<rparr>) bs)
      else None)"

definition portalv1_MsgDeliver_unmarshal :: "wire_runtime \<Rightarrow> bool \<Rightarrow> bytes \<Rightarrow> portalv1_MsgDeliver result option" where
  "portalv1_MsgDeliver_unmarshal rt discardUnknown bs =
     read_fields (Skip rt) portalv1_MsgDeliver_field
       (\<lambda>u x. if discardUnknown then x else x\<lparr>portalv1_MsgDeliver_unknownFields := portalv1_MsgDeliver_unknownFields x @ u\<rparr>)
       \<lparr>portalv1_MsgDeliver_Signer = [], portalv1_MsgDeliver_Vaa = [], portalv1_MsgDeliver_unknownFields = []\<rparr> 0 bs"

lemma portalv1_MsgDeliver_written:
  assumes "varint_runtime rt" "portalv1_MsgDeliver_unknownFields x = []"
  shows "writes (portalv1_MsgDeliver_marshal rt x)
    (delimited_bytes rt 0xA (portalv1_MsgDeliver_Signer x) @
      delimited_bytes rt 0x12 (portalv1_MsgDeliver_Vaa x) @
      [])
    (portalv1_MsgDeliver_size rt x)"
  by (simp add: writes_def portalv1_MsgDeliver_marshal_def portalv1_MsgDeliver_size_def assms wire_puts)

lemma portalv1_MsgDeliver_exact:
  assumes "varint_runtime rt"
  shows "exact_codec (portalv1_MsgDeliver_size rt) (portalv1_MsgDeliver_marshal rt) 
    (portalv1_MsgDeliver_unmarshal rt' discardUnknown) (\<lambda>x. portalv1_MsgDeliver_unknownFields x = [])"
  by (rule exact_codecI, rule portalv1_MsgDeliver_written [OF assms], assumption,
    unfold portalv1_MsgDeliver_unmarshal_def, erule readsD [rotated],
    (rule reads_bytes [OF assms], rule wire_tags,
        simp add: portalv1_MsgDeliver_field_def, simp)+, rule reads_done, simp)

lemma portalv1_MsgDeliver_returns:
  "skip_progress (Skip rt) \<Longrightarrow> \<exists>r. portalv1_MsgDeliver_unmarshal rt discardUnknown bs = Some r"
  unfolding portalv1_MsgDeliver_unmarshal_def by (rule read_fields_returns)

subsection \<open>MsgDeliverResponse (portalv1)\<close>

text \<open>\<open>MsgDeliverResponse\<close> of \<open>api/portal/v1/tx.pulsar.go\<close>.\<close>

record portalv1_MsgDeliverResponse =
  portalv1_MsgDeliverResponse_unknownFields :: bytes

definition portalv1_MsgDeliverResponse_size :: "wire_runtime \<Rightarrow> portalv1_MsgDeliverResponse \<Rightarrow> nat" where
  "portalv1_MsgDeliverResponse_size rt x =
     length (portalv1_MsgDeliverResponse_unknownFields x)"

definition portalv1_MsgDeliverResponse_marshal :: "wire_runtime \<Rightarrow> portalv1_MsgDeliverResponse \<Rightarrow> bytes result" where
  "portalv1_MsgDeliverResponse_marshal rt x =
     obind (put (portalv1_MsgDeliverResponse_unknownFields x) (portalv1_MsgDeliverResponse_size rt x, [])) (\<lambda>b.
     Ok (buffer_bytes b))"

definition portalv1_MsgDeliverResponse_field ::
    "int \<Rightarrow> int \<Rightarrow> portalv1_MsgDeliverResponse \<Rightarrow> nat \<Rightarrow> bytes \<Rightarrow> (portalv1_MsgDeliverResponse \<times> nat) result option" where
  "portalv1_MsgDeliverResponse_field fieldNum wireType x i bs =
     None"

definition portalv1_MsgDeliverResponse_unmarshal :: "wire_runtime \<Rightarrow> bool \<Rightarrow> bytes \<Rightarrow> portalv1_MsgDeliverResponse result option" where
  "portalv1_MsgDeliverResponse_unmarshal rt discardUnknown bs =
     read_fields (Skip rt) portalv1_MsgDeliverResponse_field
       (\<lambda>u x. if discardUnknown then x else x\<lparr>portalv1_MsgDeliverResponse_unknownFields := portalv1_MsgDeliverResponse_unknownFields x @ u\<rparr>)
       \<lparr>portalv1_MsgDeliverResponse_unknownFields = []\<rparr> 0 bs"

lemma portalv1_MsgDeliverResponse_written:
  assumes "varint_runtime rt" "portalv1_MsgDeliverResponse_unknownFields x = []"
  shows "writes (portalv1_MsgDeliverResponse_marshal rt x)
    ([] :: bytes)
    (portalv1_MsgDeliverResponse_size rt x)"
  by (simp add: writes_def portalv1_MsgDeliverResponse_marshal_def portalv1_MsgDeliverResponse_size_def assms wire_puts)

lemma portalv1_MsgDeliverResponse_exact:
  assumes "varint_runtime rt"
  shows "exact_codec (portalv1_MsgDeliverResponse_size rt) (portalv1_MsgDeliverResponse_marshal rt) 
    (portalv1_MsgDeliverResponse_unmarshal rt' discardUnknown) (\<lambda>x. portalv1_MsgDeliverResponse_unknownFields x = [])"
  by (rule exact_codecI, rule portalv1_MsgDeliverResponse_written [OF assms], assumption,
    unfold portalv1_MsgDeliverResponse_unmarshal_def, erule readsD [rotated],
    rule reads_done, simp)

lemma portalv1_MsgDeliverResponse_returns:
  "skip_progress (Skip rt) \<Longrightarrow> \<exists>r. portalv1_MsgDeliverResponse_unmarshal rt discardUnknown bs = Some r"
  unfolding portalv1_MsgDeliverResponse_unmarshal_def by (rule read_fields_returns)

subsection \<open>MsgTransfer (portalv1)\<close>

text \<open>\<open>MsgTransfer\<close> of \<open>api/portal/v1/tx.pulsar.go\<close>.\<close>

record portalv1_MsgTransfer =
  portalv1_MsgTransfer_Signer :: bytes
  portalv1_MsgTransfer_Amount :: bytes
  portalv1_MsgTransfer_DestinationChainId :: "32 word"
  portalv1_MsgTransfer_DestinationToken :: bytes
  portalv1_MsgTransfer_Recipient :: bytes
  portalv1_MsgTransfer_unknownFields :: bytes

definition portalv1_MsgTransfer_size :: "wire_runtime \<Rightarrow> portalv1_MsgTransfer \<Rightarrow> nat" where
  "portalv1_MsgTransfer_size rt x =
     size_delimited rt (portalv1_MsgTransfer_Signer x) +
     size_delimited rt (portalv1_MsgTransfer_Amount x) +
     size_varint rt (ucast (portalv1_MsgTransfer_DestinationChainId x)) +
     size_delimited rt (portalv1_MsgTransfer_DestinationToken x) +
     size_delimited rt (portalv1_MsgTransfer_Recipient x) +
     length (portalv1_MsgTransfer_unknownFields x)"

definition portalv1_MsgTransfer_marshal :: "wire_runtime \<Rightarrow> portalv1_MsgTransfer \<Rightarrow> bytes result" where
  "portalv1_MsgTransfer_marshal rt x =
     obind (put (portalv1_MsgTransfer_unknownFields x) (portalv1_MsgTransfer_size rt x, [])) (\<lambda>b.
     obind (put_delimited rt 0x2A (portalv1_MsgTransfer_Recipient x) b) (\<lambda>b.
     obind (put_delimited rt 0x22 (portalv1_MsgTransfer_DestinationToken x) b) (\<lambda>b.
     obind (put_varint rt 0x18 (ucast (portalv1_MsgTransfer_DestinationChainId x)) b) (\<lambda>b.
     obind (put_delimited rt 0x12 (portalv1_MsgTransfer_Amount x) b) (\<lambda>b.
     obind (put_delimited rt 0xA (portalv1_MsgTransfer_Signer x) b) (\<lambda>b.
     Ok (buffer_bytes b)))))))"

definition portalv1_MsgTransfer_field ::
    "int \<Rightarrow> int \<Rightarrow> portalv1_MsgTransfer \<Rightarrow> nat \<Rightarrow> bytes \<Rightarrow> (portalv1_MsgTransfer \<times> nat) result option" where
  "portalv1_MsgTransfer_field fieldNum wireType x i bs =
     (if fieldNum = 1 then Some (bytes_field wireType i (\<lambda>v. x\<lparr>portalv1_MsgTransfer_Signer := v\<rparr>) bs)
      else if fieldNum = 2 then Some (bytes_field wireType i (\<lambda>v. x\<lparr>portalv1_MsgTransfer_Amount := v\<rparr>) bs)
      else if fieldNum = 3 then Some (varint_field wireType (\<lambda>v. x\<lparr>portalv1_MsgTransfer_DestinationChainId := v\<rparr>) bs)
      else if fieldNum = 4 then Some (bytes_field wireType i (\<lambda>v. x\<lparr>portalv1_MsgTransfer_DestinationToken := v\<rparr>) bs)
      else if fieldNum = 5 then Some (bytes_field wireType i (\<lambda>v. x\<lparr>portalv1_MsgTransfer_Recipient := v\<rparr>) bs)
      else None)"

definition portalv1_MsgTransfer_unmarshal :: "wire_runtime \<Rightarrow> bool \<Rightarrow> bytes \<Rightarrow> portalv1_MsgTransfer result option" where
  "portalv1_MsgTransfer_unmarshal rt discardUnknown bs =
     read_fields (Skip rt) portalv1_MsgTransfer_field
       (\<lambda>u x. if discardUnknown then x else x\<lparr>portalv1_MsgTransfer_unknownFields := portalv1_MsgTransfer_unknownFields x @ u\<rparr>)
       \<lparr>portalv1_MsgTransfer_Signer = [], portalv1_MsgTransfer_Amount = [], portalv1_MsgTransfer_DestinationChainId = 0, portalv1_MsgTransfer_DestinationToken = [], portalv1_MsgTransfer_Recipient = [], portalv1_MsgTransfer_unknownFields = []\<rparr> 0 bs"

lemma portalv1_MsgTransfer_written:
  assumes "varint_runtime rt" "portalv1_MsgTransfer_unknownFields x = []"
  shows "writes (portalv1_MsgTransfer_marshal rt x)
    (delimited_bytes rt 0xA (portalv1_MsgTransfer_Signer x) @
      delimited_bytes rt 0x12 (portalv1_MsgTransfer_Amount x) @
      varint_bytes rt 0x18 (ucast (portalv1_MsgTransfer_DestinationChainId x)) @
      delimited_bytes rt 0x22 (portalv1_MsgTransfer_DestinationToken x) @
      delimited_bytes rt 0x2A (portalv1_MsgTransfer_Recipient x) @
      [])
    (portalv1_MsgTransfer_size rt x)"
  by (simp add: writes_def portalv1_MsgTransfer_marshal_def portalv1_MsgTransfer_size_def assms wire_puts)

lemma portalv1_MsgTransfer_exact:
  assumes "varint_runtime rt"
  shows "exact_codec (portalv1_MsgTransfer_size rt) (portalv1_MsgTransfer_marshal rt) 
    (portalv1_MsgTransfer_unmarshal rt' discardUnknown) (\<lambda>x. portalv1_MsgTransfer_unknownFields x = [])"
  by (rule exact_codecI, rule portalv1_MsgTransfer_written [OF assms], assumption,
    unfold portalv1_MsgTransfer_unmarshal_def, erule readsD [rotated],
    (rule reads_bytes [OF assms] reads_varint32 [OF assms], rule wire_tags,
        simp add: portalv1_MsgTransfer_field_def, simp)+, rule reads_done, simp)

lemma portalv1_MsgTransfer_returns:
  "skip_progress (Skip rt) \<Longrightarrow> \<exists>r. portalv1_MsgTransfer_unmarshal rt discardUnknown bs = Some r"
  unfolding portalv1_MsgTransfer_unmarshal_def by (rule read_fields_returns)

subsection \<open>MsgTransferResponse (portalv1)\<close>

text \<open>\<open>MsgTransferResponse\<close> of \<open>api/portal/v1/tx.pulsar.go\<close>.\<close>

record portalv1_MsgTransferResponse =
  portalv1_MsgTransferResponse_unknownFields :: bytes

definition portalv1_MsgTransferResponse_size :: "wire_runtime \<Rightarrow> portalv1_MsgTransferResponse \<Rightarrow> nat" where
  "portalv1_MsgTransferResponse_size rt x =
     length (portalv1_MsgTransferResponse_unknownFields x)"

definition portalv1_MsgTransferResponse_marshal :: "wire_runtime \<Rightarrow> portalv1_MsgTransferResponse \<Rightarrow> bytes result" where
  "portalv1_MsgTransferResponse_marshal rt x =
     obind (put (portalv1_MsgTransferResponse_unknownFields x) (portalv1_MsgTransferResponse_size rt x, [])) (\<lambda>b.
     Ok (buffer_bytes b))"

definition portalv1_MsgTransferResponse_field ::
    "int \<Rightarrow> int \<Rightarrow> portalv1_MsgTransferResponse \<Rightarrow> nat \<Rightarrow> bytes \<Rightarrow> (portalv1_MsgTransferResponse \<times> nat) result option" where
  "portalv1_MsgTransferResponse_field fieldNum wireType x i bs =
     None"

definition portalv1_MsgTransferResponse_unmarshal :: "wire_runtime \<Rightarrow> bool \<Rightarrow> bytes \<Rightarrow> portalv1_MsgTransferResponse result option" where
  "portalv1_MsgTransferResponse_unmarshal rt discardUnknown bs =
     read_fields (Skip rt) portalv1_MsgTransferResponse_field
       (\<lambda>u x. if discardUnknown then x else x\<lparr>portalv1_MsgTransferResponse_unknownFields := portalv1_MsgTransferResponse_unknownFields x @ u\<rparr>)
       \<lparr>portalv1_MsgTransferResponse_unknownFields = []\<rparr> 0 bs"

lemma portalv1_MsgTransferResponse_written:
  assumes "varint_runtime rt" "portalv1_MsgTransferResponse_unknownFields x = []"
  shows "writes (portalv1_MsgTransferResponse_marshal rt x)
    ([] :: bytes)
    (portalv1_MsgTransferResponse_size rt x)"
  by (simp add: writes_def portalv1_MsgTransferResponse_marshal_def portalv1_MsgTransferResponse_size_def assms wire_puts)

lemma portalv1_MsgTransferResponse_exact:
  assumes "varint_runtime rt"
  shows "exact_codec (portalv1_MsgTransferResponse_size rt) (portalv1_MsgTransferResponse_marshal rt) 
    (portalv1_MsgTransferResponse_unmarshal rt' discardUnknown) (\<lambda>x. portalv1_MsgTransferResponse_unknownFields x = [])"
  by (rule exact_codecI, rule portalv1_MsgTransferResponse_written [OF assms], assumption,
    unfold portalv1_MsgTransferResponse_unmarshal_def, erule readsD [rotated],
    rule reads_done, simp)

lemma portalv1_MsgTransferResponse_returns:
  "skip_progress (Skip rt) \<Longrightarrow> \<exists>r. portalv1_MsgTransferResponse_unmarshal rt discardUnknown bs = Some r"
  unfolding portalv1_MsgTransferResponse_unmarshal_def by (rule read_fields_returns)

subsection \<open>MsgSetPausedState (portalv1)\<close>

text \<open>\<open>MsgSetPausedState\<close> of \<open>api/portal/v1/tx.pulsar.go\<close>.\<close>

record portalv1_MsgSetPausedState =
  portalv1_MsgSetPausedState_Signer :: bytes
  portalv1_MsgSetPausedState_Paused :: bool
  portalv1_MsgSetPausedState_unknownFields :: bytes

definition portalv1_MsgSetPausedState_size :: "wire_runtime \<Rightarrow> portalv1_MsgSetPausedState \<Rightarrow> nat" where
  "portalv1_MsgSetPausedState_size rt x =
     size_delimited rt (portalv1_MsgSetPausedState_Signer x) +
     size_bool (portalv1_MsgSetPausedState_Paused x) +
     length (portalv1_MsgSetPausedState_unknownFields x)"

definition portalv1_MsgSetPausedState_marshal :: "wire_runtime \<Rightarrow> portalv1_MsgSetPausedState \<Rightarrow> bytes result" where
  "portalv1_MsgSetPausedState_marshal rt x =
     obind (put (portalv1_MsgSetPausedState_unknownFields x) (portalv1_MsgSetPausedState_size rt x, [])) (\<lambda>b.
     obind (put_bool 0x10 (portalv1_MsgSetPausedState_Paused x) b) (\<lambda>b.
     obind (put_delimited rt 0xA (portalv1_MsgSetPausedState_Signer x) b) (\<lambda>b.
     Ok (buffer_bytes b))))"

definition portalv1_MsgSetPausedState_field ::
    "int \<Rightarrow> int \<Rightarrow> portalv1_MsgSetPausedState \<Rightarrow> nat \<Rightarrow> bytes \<Rightarrow> (portalv1_MsgSetPausedState \<times> nat) result option" where
  "portalv1_MsgSetPausedState_field fieldNum wireType x i bs =
     (if fieldNum = 1 then Some (bytes_field wireType i (\<lambda>v. x\<lparr>portalv1_MsgSetPausedState_Signer := v\<rparr>) bs)
      else if fieldNum = 2 then Some (bool_field wireType (\<lambda>v. x\<lparr>portalv1_MsgSetPausedState_Paused := v\<rparr>) bs)
      else None)"

definition portalv1_MsgSetPausedState_unmarshal :: "wire_runtime \<Rightarrow> bool \<Rightarrow> bytes \<Rightarrow> portalv1_MsgSetPausedState result option" where
  "portalv1_MsgSetPausedState_unmarshal rt discardUnknown bs =
     read_fields (Skip rt) portalv1_MsgSetPausedState_field
       (\<lambda>u x. if discardUnknown then x else x\<lparr>portalv1_MsgSetPausedState_unknownFields := portalv1_MsgSetPausedState_unknownFields x @ u\<rparr>)
       \<lparr>portalv1_MsgSetPausedState_Signer = [], portalv1_MsgSetPausedState_Paused = False, portalv1_MsgSetPausedState_unknownFields = []\<rparr> 0 bs"

lemma portalv1_MsgSetPausedState_written:
  assumes "varint_runtime rt" "portalv1_MsgSetPausedState_unknownFields x = []"
  shows "writes (portalv1_MsgSetPausedState_marshal rt x)
    (delimited_bytes rt 0xA (portalv1_MsgSetPausedState_Signer x) @
      bool_bytes 0x10 (portalv1_MsgSetPausedState_Paused x) @
      [])
    (portalv1_MsgSetPausedState_size rt x)"
  by (simp add: writes_def portalv1_MsgSetPausedState_marshal_def portalv1_MsgSetPausedState_size_def assms wire_puts)

lemma portalv1_MsgSetPausedState_exact:
  assumes "varint_runtime rt"
  shows "exact_codec (portalv1_MsgSetPausedState_size rt) (portalv1_MsgSetPausedState_marshal rt) 
    (portalv1_MsgSetPausedState_unmarshal rt' discardUnknown) (\<lambda>x. portalv1_MsgSetPausedState_unknownFields x = [])"
  by (rule exact_codecI, rule portalv1_MsgSetPausedState_written [OF assms], assumption,
    unfold portalv1_MsgSetPausedState_unmarshal_def, erule readsD [rotated],
    (rule reads_bytes [OF assms] reads_bool, rule wire_tags,
        simp add: portalv1_MsgSetPausedState_field_def, simp)+, rule reads_done, simp)

lemma portalv1_MsgSetPausedState_returns:
  "skip_progress (Skip rt) \<Longrightarrow> \<exists>r. portalv1_MsgSetPausedState_unmarshal rt discardUnknown bs = Some r"
  unfolding portalv1_MsgSetPausedState_unmarshal_def by (rule read_fields_returns)

subsection \<open>MsgSetPausedStateResponse (portalv1)\<close>

text \<open>\<open>MsgSetPausedStateResponse\<close> of \<open>api/portal/v1/tx.pulsar.go\<close>.\<close>

record portalv1_MsgSetPausedStateResponse =
  portalv1_MsgSetPausedStateResponse_unknownFields :: bytes

definition portalv1_MsgSetPausedStateResponse_size :: "wire_runtime \<Rightarrow> portalv1_MsgSetPausedStateResponse \<Rightarrow> nat" where
  "portalv1_MsgSetPausedStateResponse_size rt x =
     length (portalv1_MsgSetPausedStateResponse_unknownFields x)"

definition portalv1_MsgSetPausedStateResponse_marshal :: "wire_runtime \<Rightarrow> portalv1_MsgSetPausedStateResponse \<Rightarrow> bytes result" where
  "portalv1_MsgSetPausedStateResponse_marshal rt x =
     obind (put (portalv1_MsgSetPausedStateResponse_unknownFields x) (portalv1_MsgSetPausedStateResponse_size rt x, [])) (\<lambda>b.
     Ok (buffer_bytes b))"

definition portalv1_MsgSetPausedStateResponse_field ::
    "int \<Rightarrow> int \<Rightarrow> portalv1_MsgSetPausedStateResponse \<Rightarrow> nat \<Rightarrow> bytes \<Rightarrow> (portalv1_MsgSetPausedStateResponse \<times> nat) result option" where
  "portalv1_MsgSetPausedStateResponse_field fieldNum wireType x i bs =
     None"

definition portalv1_MsgSetPausedStateResponse_unmarshal :: "wire_runtime \<Rightarrow> bool \<Rightarrow> bytes \<Rightarrow> portalv1_MsgSetPausedStateResponse result option" where
  "portalv1_MsgSetPausedStateResponse_unmarshal rt discardUnknown bs =
     read_fields (Skip rt) portalv1_MsgSetPausedStateResponse_field
       (\<lambda>u x. if discardUnknown then x else x\<lparr>portalv1_MsgSetPausedStateResponse_unknownFields := portalv1_MsgSetPausedStateResponse_unknownFields x @ u\<rparr>)
       \<lparr>portalv1_MsgSetPausedStateResponse_unknownFields = []\<rparr> 0 bs"

lemma portalv1_MsgSetPausedStateResponse_written:
  assumes "varint_runtime rt" "portalv1_MsgSetPausedStateResponse_unknownFields x = []"
  shows "writes (portalv1_MsgSetPausedStateResponse_marshal rt x)
    ([] :: bytes)
    (portalv1_MsgSetPausedStateResponse_size rt x)"
  by (simp add: writes_def portalv1_MsgSetPausedStateResponse_marshal_def portalv1_MsgSetPausedStateResponse_size_def assms wire_puts)

lemma portalv1_MsgSetPausedStateResponse_exact:
  assumes "varint_runtime rt"
  shows "exact_codec (portalv1_MsgSetPausedStateResponse_size rt) (portalv1_MsgSetPausedStateResponse_marshal rt) 
    (portalv1_MsgSetPausedStateResponse_unmarshal rt' discardUnknown) (\<lambda>x. portalv1_MsgSetPausedStateResponse_unknownFields x = [])"
  by (rule exact_codecI, rule portalv1_MsgSetPausedStateResponse_written [OF assms], assumption,
    unfold portalv1_MsgSetPausedStateResponse_unmarshal_def, erule readsD [rotated],
    rule reads_done, simp)

lemma portalv1_MsgSetPausedStateResponse_returns:
  "skip_progress (Skip rt) \<Longrightarrow> \<exists>r. portalv1_MsgSetPausedStateResponse_unmarshal rt discardUnknown bs = Some r"
  unfolding portalv1_MsgSetPausedStateResponse_unmarshal_def by (rule read_fields_returns)

subsection \<open>MsgSetPeer (portalv1)\<close>

text \<open>\<open>MsgSetPeer\<close> of \<open>api/portal/v1/tx.pulsar.go\<close>.\<close>

record portalv1_MsgSetPeer =
  portalv1_MsgSetPeer_Signer :: bytes
  portalv1_MsgSetPeer_Chain :: "32 word"
  portalv1_MsgSetPeer_Transceiver :: bytes
  portalv1_MsgSetPeer_Manager :: bytes
  portalv1_MsgSetPeer_unknownFields :: bytes

definition portalv1_MsgSetPeer_size :: "wire_runtime \<Rightarrow> portalv1_MsgSetPeer \<Rightarrow> nat" where
  "portalv1_MsgSetPeer_size rt x =
     size_delimited rt (portalv1_MsgSetPeer_Signer x) +
     size_varint rt (ucast (portalv1_MsgSetPeer_Chain x)) +
     size_delimited rt (portalv1_MsgSetPeer_Transceiver x) +
     size_delimited rt (portalv1_MsgSetPeer_Manager x) +
     length (portalv1_MsgSetPeer_unknownFields x)"

definition portalv1_MsgSetPeer_marshal :: "wire_runtime \<Rightarrow> portalv1_MsgSetPeer \<Rightarrow> bytes result" where
  "portalv1_MsgSetPeer_marshal rt x =
     obind (put (portalv1_MsgSetPeer_unknownFields x) (portalv1_MsgSetPeer_size rt x, [])) (\<lambda>b.
     obind (put_delimited rt 0x22 (portalv1_MsgSetPeer_Manager x) b) (\<lambda>b.
     obind (put_delimited rt 0x1A (portalv1_MsgSetPeer_Transceiver x) b) (\<lambda>b.
     obind (put_varint rt 0x10 (ucast (portalv1_MsgSetPeer_Chain x)) b) (\<lambda>b.
     obind (put_delimited rt 0xA (portalv1_MsgSetPeer_Signer x) b) (\<lambda>b.
     Ok (buffer_bytes b))))))"

definition portalv1_MsgSetPeer_field ::
    "int \<Rightarrow> int \<Rightarrow> portalv1_MsgSetPeer \<Rightarrow> nat \<Rightarrow> bytes \<Rightarrow> (portalv1_MsgSetPeer \<times> nat) result option" where
  "portalv1_MsgSetPeer_field fieldNum wireType x i bs =
     (if fieldNum = 1 then Some (bytes_field wireType i (\<lambda>v. x\<lparr>portalv1_MsgSetPeer_Signer := v\<rparr>) bs)
      else if fieldNum = 2 then Some (varint_field wireType (\<lambda>v. x\<lparr>portalv1_MsgSetPeer_Chain := v\<rparr>) bs)
      else if fieldNum = 3 then Some (bytes_field wireType i (\<lambda>v. x\<lparr>portalv1_MsgSetPeer_Transceiver := v\<rparr>) bs)
      else if fieldNum = 4 then Some (bytes_field wireType i (\<lambda>v. x\<lparr>portalv1_MsgSetPeer_Manager := v\<rparr>) bs)
      else None)"

definition portalv1_MsgSetPeer_unmarshal :: "wire_runtime \<Rightarrow> bool \<Rightarrow> bytes \<Rightarrow> portalv1_MsgSetPeer result option" where
  "portalv1_MsgSetPeer_unmarshal rt discardUnknown bs =
     read_fields (Skip rt) portalv1_MsgSetPeer_field
       (\<lambda>u x. if discardUnknown then x else x\<lparr>portalv1_MsgSetPeer_unknownFields := portalv1_MsgSetPeer_unknownFields x @ u\<rparr>)
       \<lparr>portalv1_MsgSetPeer_Signer = [], portalv1_MsgSetPeer_Chain = 0, portalv1_MsgSetPeer_Transceiver = [], portalv1_MsgSetPeer_Manager = [], portalv1_MsgSetPeer_unknownFields = []\<rparr> 0 bs"

lemma portalv1_MsgSetPeer_written:
  assumes "varint_runtime rt" "portalv1_MsgSetPeer_unknownFields x = []"
  shows "writes (portalv1_MsgSetPeer_marshal rt x)
    (delimited_bytes rt 0xA (portalv1_MsgSetPeer_Signer x) @
      varint_bytes rt 0x10 (ucast (portalv1_MsgSetPeer_Chain x)) @
      delimited_bytes rt 0x1A (portalv1_MsgSetPeer_Transceiver x) @
      delimited_bytes rt 0x22 (portalv1_MsgSetPeer_Manager x) @
      [])
    (portalv1_MsgSetPeer_size rt x)"
  by (simp add: writes_def portalv1_MsgSetPeer_marshal_def portalv1_MsgSetPeer_size_def assms wire_puts)

lemma portalv1_MsgSetPeer_exact:
  assumes "varint_runtime rt"
  shows "exact_codec (portalv1_MsgSetPeer_size rt) (portalv1_MsgSetPeer_marshal rt) 
    (portalv1_MsgSetPeer_unmarshal rt' discardUnknown) (\<lambda>x. portalv1_MsgSetPeer_unknownFields x = [])"
  by (rule exact_codecI, rule portalv1_MsgSetPeer_written [OF assms], assumption,
    unfold portalv1_MsgSetPeer_unmarshal_def, erule readsD [rotated],
    (rule reads_bytes [OF assms] reads_varint32 [OF assms], rule wire_tags,
        simp add: portalv1_MsgSetPeer_field_def, simp)+, rule reads_done, simp)

lemma portalv1_MsgSetPeer_returns:
  "skip_progress (Skip rt) \<Longrightarrow> \<exists>r. portalv1_MsgSetPeer_unmarshal rt discardUnknown bs = Some r"
  unfolding portalv1_MsgSetPeer_unmarshal_def by (rule read_fields_returns)

subsection \<open>MsgSetPeerResponse (portalv1)\<close>

text \<open>\<open>MsgSetPeerResponse\<close> of \<open>api/portal/v1/tx.pulsar.go\<close>.\<close>

record portalv1_MsgSetPeerResponse =
  portalv1_MsgSetPeerResponse_unknownFields :: bytes

definition portalv1_MsgSetPeerResponse_size :: "wire_runtime \<Rightarrow> portalv1_MsgSetPeerResponse \<Rightarrow> nat" where
  "portalv1_MsgSetPeerResponse_size rt x =
     length (portalv1_MsgSetPeerResponse_unknownFields x)"

definition portalv1_MsgSetPeerResponse_marshal :: "wire_runtime \<Rightarrow> portalv1_MsgSetPeerResponse \<Rightarrow> bytes result" where
  "portalv1_MsgSetPeerResponse_marshal rt x =
     obind (put (portalv1_MsgSetPeerResponse_unknownFields x) (portalv1_MsgSetPeerResponse_size rt x, [])) (\<lambda>b.
     Ok (buffer_bytes b))"

definition portalv1_MsgSetPeerResponse_field ::
    "int \<Rightarrow> int \<Rightarrow> portalv1_MsgSetPeerResponse \<Rightarrow> nat \<Rightarrow> bytes \<Rightarrow> (portalv1_MsgSetPeerResponse \<times> nat) result option" where
  "portalv1_MsgSetPeerResponse_field fieldNum wireType x i bs =
     None"

definition portalv1_MsgSetPeerResponse_unmarshal :: "wire_runtime \<Rightarrow> bool \<Rightarrow> bytes \<Rightarrow> portalv1_MsgSetPeerResponse result option" where
  "portalv1_MsgSetPeerResponse_unmarshal rt discardUnknown bs =
     read_fields (Skip rt) portalv1_MsgSetPeerResponse_field
       (\<lambda>u x. if discardUnknown then x else x\<lparr>portalv1_MsgSetPeerResponse_unknownFields := portalv1_MsgSetPeerResponse_unknownFields x @ u\<rparr>)
       \<lparr>portalv1_MsgSetPeerResponse_unknownFields = []\<rparr> 0 bs"

lemma portalv1_MsgSetPeerResponse_written:
  assumes "varint_runtime rt" "portalv1_MsgSetPeerResponse_unknownFields x = []"
  shows "writes (portalv1_MsgSetPeerResponse_marshal rt x)
    ([] :: bytes)
    (portalv1_MsgSetPeerResponse_size rt x)"
  by (simp add: writes_def portalv1_MsgSetPeerResponse_marshal_def portalv1_MsgSetPeerResponse_size_def assms wire_puts)

lemma portalv1_MsgSetPeerResponse_exact:
  assumes "varint_runtime rt"
  shows "exact_codec (portalv1_MsgSetPeerResponse_size rt) (portalv1_MsgSetPeerResponse_marshal rt) 
    (portalv1_MsgSetPeerResponse_unmarshal rt' discardUnknown) (\<lambda>x. portalv1_MsgSetPeerResponse_unknownFields x = [])"
  by (rule exact_codecI, rule portalv1_MsgSetPeerResponse_written [OF assms], assumption,
    unfold portalv1_MsgSetPeerResponse_unmarshal_def, erule readsD [rotated],
    rule reads_done, simp)

lemma portalv1_MsgSetPeerResponse_returns:
  "skip_progress (Skip rt) \<Longrightarrow> \<exists>r. portalv1_MsgSetPeerResponse_unmarshal rt discardUnknown bs = Some r"
  unfolding portalv1_MsgSetPeerResponse_unmarshal_def by (rule read_fields_returns)

subsection \<open>MsgSetBridgingPath (portalv1)\<close>

text \<open>\<open>MsgSetBridgingPath\<close> of \<open>api/portal/v1/tx.pulsar.go\<close>.\<close>

record portalv1_MsgSetBridgingPath =
  portalv1_MsgSetBridgingPath_Signer :: bytes
  portalv1_MsgSetBridgingPath_DestinationChainId :: "32 word"
  portalv1_MsgSetBridgingPath_DestinationToken :: bytes
  portalv1_MsgSetBridgingPath_Supported :: bool
  portalv1_MsgSetBridgingPath_unknownFields :: bytes

definition portalv1_MsgSetBridgingPath_size :: "wire_runtime \<Rightarrow> portalv1_MsgSetBridgingPath \<Rightarrow> nat" where
  "portalv1_MsgSetBridgingPath_size rt x =
     size_delimited rt (portalv1_MsgSetBridgingPath_Signer x) +
     size_varint rt (ucast (portalv1_MsgSetBridgingPath_DestinationChainId x)) +
     size_delimited rt (portalv1_MsgSetBridgingPath_DestinationToken x) +
     size_bool (portalv1_MsgSetBridgingPath_Supported x) +
     length (portalv1_MsgSetBridgingPath_unknownFields x)"

definition portalv1_MsgSetBridgingPath_marshal :: "wire_runtime \<Rightarrow> portalv1_MsgSetBridgingPath \<Rightarrow> bytes result" where
  "portalv1_MsgSetBridgingPath_marshal rt x =
     obind (put (portalv1_MsgSetBridgingPath_unknownFields x) (portalv1_MsgSetBridgingPath_size rt x, [])) (\<lambda>b.
     obind (put_bool 0x20 (portalv1_MsgSetBridgingPath_Supported x) b) (\<lambda>b.
     obind (put_delimited rt 0x1A (portalv1_MsgSetBridgingPath_DestinationToken x) b) (\<lambda>b.
     obind (put_varint rt 0x10 (ucast (portalv1_MsgSetBridgingPath_DestinationChainId x)) b) (\<lambda>b.
     obind (put_delimited rt 0xA (portalv1_MsgSetBridgingPath_Signer x) b) (\<lambda>b.
     Ok (buffer_bytes b))))))"

definition portalv1_MsgSetBridgingPath_field ::
    "int \<Rightarrow> int \<Rightarrow> portalv1_MsgSetBridgingPath \<Rightarrow> nat \<Rightarrow> bytes \<Rightarrow> (portalv1_MsgSetBridgingPath \<times> nat) result option" where
  "portalv1_MsgSetBridgingPath_field fieldNum wireType x i bs =
     (if fieldNum = 1 then Some (bytes_field wireType i (\<lambda>v. x\<lparr>portalv1_MsgSetBridgingPath_Signer := v\<rparr>) bs)
      else if fieldNum = 2 then Some (varint_field wireType (\<lambda>v. x\<lparr>portalv1_MsgSetBridgingPath_DestinationChainId := v\<rparr>) bs)
      else if fieldNum = 3 then Some (bytes_field wireType i (\<lambda>v. x\<lparr>portalv1_MsgSetBridgingPath_DestinationToken := v\<rparr>) bs)
      else if fieldNum = 4 then Some (bool_field wireType (\<lambda>v. x\<lparr>portalv1_MsgSetBridgingPath_Supported := v\<rparr>) bs)
      else None)"

definition portalv1_MsgSetBridgingPath_unmarshal :: "wire_runtime \<Rightarrow> bool \<Rightarrow> bytes \<Rightarrow> portalv1_MsgSetBridgingPath result option" where
  "portalv1_MsgSetBridgingPath_unmarshal rt discardUnknown bs =
     read_fields (Skip rt) portalv1_MsgSetBridgingPath_field
       (\<lambda>u x. if discardUnknown then x else x\<lparr>portalv1_MsgSetBridgingPath_unknownFields := portalv1_MsgSetBridgingPath_unknownFields x @ u\<rparr>)
       \<lparr>portalv1_MsgSetBridgingPath_Signer = [], portalv1_MsgSetBridgingPath_DestinationChainId = 0, portalv1_MsgSetBridgingPath_DestinationToken = [], portalv1_MsgSetBridgingPath_Supported = False, portalv1_MsgSetBridgingPath_unknownFields = []\<rparr> 0 bs"

lemma portalv1_MsgSetBridgingPath_written:
  assumes "varint_runtime rt" "portalv1_MsgSetBridgingPath_unknownFields x = []"
  shows "writes (portalv1_MsgSetBridgingPath_marshal rt x)
    (delimited_bytes rt 0xA (portalv1_MsgSetBridgingPath_Signer x) @
      varint_bytes rt 0x10 (ucast (portalv1_MsgSetBridgingPath_DestinationChainId x)) @
      delimited_bytes rt 0x1A (portalv1_MsgSetBridgingPath_DestinationToken x) @
      bool_bytes 0x20 (portalv1_MsgSetBridgingPath_Supported x) @
      [])
    (portalv1_MsgSetBridgingPath_size rt x)"
  by (simp add: writes_def portalv1_MsgSetBridgingPath_marshal_def portalv1_MsgSetBridgingPath_size_def assms wire_puts)

lemma portalv1_MsgSetBridgingPath_exact:
  assumes "varint_runtime rt"
  shows "exact_codec (portalv1_MsgSetBridgingPath_size rt) (portalv1_MsgSetBridgingPath_marshal rt) 
    (portalv1_MsgSetBridgingPath_unmarshal rt' discardUnknown) (\<lambda>x. portalv1_MsgSetBridgingPath_unknownFields x = [])"
  by (rule exact_codecI, rule portalv1_MsgSetBridgingPath_written [OF assms], assumption,
    unfold portalv1_MsgSetBridgingPath_unmarshal_def, erule readsD [rotated],
    (rule reads_bytes [OF assms] reads_varint32 [OF assms] reads_bool, rule wire_tags,
        simp add: portalv1_MsgSetBridgingPath_field_def, simp)+, rule reads_done, simp)

lemma portalv1_MsgSetBridgingPath_returns:
  "skip_progress (Skip rt) \<Longrightarrow> \<exists>r. portalv1_MsgSetBridgingPath_unmarshal rt discardUnknown bs = Some r"
  unfolding portalv1_MsgSetBridgingPath_unmarshal_def by (rule read_fields_returns)

subsection \<open>MsgSetBridgingPathResponse (portalv1)\<close>

text \<open>\<open>MsgSetBridgingPathResponse\<close> of \<open>api/portal/v1/tx.pulsar.go\<close>.\<close>

record portalv1_MsgSetBridgingPathResponse =
  portalv1_MsgSetBridgingPathResponse_unknownFields :: bytes

definition portalv1_MsgSetBridgingPathResponse_size :: "wire_runtime \<Rightarrow> portalv1_MsgSetBridgingPathResponse \<Rightarrow> nat" where
  "portalv1_MsgSetBridgingPathResponse_size rt x =
     length (portalv1_MsgSetBridgingPathResponse_unknownFields x)"

definition portalv1_MsgSetBridgingPathResponse_marshal :: "wire_runtime \<Rightarrow> portalv1_MsgSetBridgingPathResponse \<Rightarrow> bytes result" where
  "portalv1_MsgSetBridgingPathResponse_marshal rt x =
     obind (put (portalv1_MsgSetBridgingPathResponse_unknownFields x) (portalv1_MsgSetBridgingPathResponse_size rt x, [])) (\<lambda>b.
     Ok (buffer_bytes b))"

definition portalv1_MsgSetBridgingPathResponse_field ::
    "int \<Rightarrow> int \<Rightarrow> portalv1_MsgSetBridgingPathResponse \<Rightarrow> nat \<Rightarrow> bytes \<Rightarrow> (portalv1_MsgSetBridgingPathResponse \<times> nat) result option" where
  "portalv1_MsgSetBridgingPathResponse_field fieldNum wireType x i bs =
     None"

definition portalv1_MsgSetBridgingPathResponse_unmarshal :: "wire_runtime \<Rightarrow> bool \<Rightarrow> bytes \<Rightarrow> portalv1_MsgSetBridgingPathResponse result option" where
  "portalv1_MsgSetBridgingPathResponse_unmarshal rt discardUnknown bs =
     read_fields (Skip rt) portalv1_MsgSetBridgingPathResponse_field
       (\<lambda>u x. if discardUnknown then x else x\<lparr>portalv1_MsgSetBridgingPathResponse_unknownFields := portalv1_MsgSetBridgingPathResponse_unknownFields x @ u\<rparr>)
       \<lparr>portalv1_MsgSetBridgingPathResponse_unknownFields = []\<rparr> 0 bs"

lemma portalv1_MsgSetBridgingPathResponse_written:
  assumes "varint_runtime rt" "portalv1_MsgSetBridgingPathResponse_unknownFields x = []"
  shows "writes (portalv1_MsgSetBridgingPathResponse_marshal rt x)
    ([] :: bytes)
    (portalv1_MsgSetBridgingPathResponse_size rt x)"
  by (simp add: writes_def portalv1_MsgSetBridgingPathResponse_marshal_def portalv1_MsgSetBridgingPathResponse_size_def assms wire_puts)

lemma portalv1_MsgSetBridgingPathResponse_exact:
  assumes "varint_runtime rt"
  shows "exact_codec (portalv1_MsgSetBridgingPathResponse_size rt) (portalv1_MsgSetBridgingPathResponse_marshal rt) 
    (portalv1_MsgSetBridgingPathResponse_unmarshal rt' discardUnknown) (\<lambda>x. portalv1_MsgSetBridgingPathResponse_unknownFields x = [])"
  by (rule exact_codecI, rule portalv1_MsgSetBridgingPathResponse_written [OF assms], assumption,
    unfold portalv1_MsgSetBridgingPathResponse_unmarshal_def, erule readsD [rotated],
    rule reads_done, simp)

lemma portalv1_MsgSetBridgingPathResponse_returns:
  "skip_progress (Skip rt) \<Longrightarrow> \<exists>r. portalv1_MsgSetBridgingPathResponse_unmarshal rt discardUnknown bs = Some r"
  unfolding portalv1_MsgSetBridgingPathResponse_unmarshal_def by (rule read_fields_returns)

subsection \<open>MsgTransferOwnership (portalv1)\<close>

text \<open>\<open>MsgTransferOwnership\<close> of \<open>api/portal/v1/tx.pulsar.go\<close>.\<close>

record portalv1_MsgTransferOwnership =
  portalv1_MsgTransferOwnership_Signer :: bytes
  portalv1_MsgTransferOwnership_NewOwner :: bytes
  portalv1_MsgTransferOwnership_unknownFields :: bytes

definition portalv1_MsgTransferOwnership_size :: "wire_runtime \<Rightarrow> portalv1_MsgTransferOwnership \<Rightarrow> nat" where
  "portalv1_MsgTransferOwnership_size rt x =
     size_delimited rt (portalv1_MsgTransferOwnership_Signer x) +
     size_delimited rt (portalv1_MsgTransferOwnership_NewOwner x) +
     length (portalv1_MsgTransferOwnership_unknownFields x)"

definition portalv1_MsgTransferOwnership_marshal :: "wire_runtime \<Rightarrow> portalv1_MsgTransferOwnership \<Rightarrow> bytes result" where
  "portalv1_MsgTransferOwnership_marshal rt x =
     obind (put (portalv1_MsgTransferOwnership_unknownFields x) (portalv1_MsgTransferOwnership_size rt x, [])) (\<lambda>b.
     obind (put_delimited rt 0x12 (portalv1_MsgTransferOwnership_NewOwner x) b) (\<lambda>b.
     obind (put_delimited rt 0xA (portalv1_MsgTransferOwnership_Signer x) b) (\<lambda>b.
     Ok (buffer_bytes b))))"

definition portalv1_MsgTransferOwnership_field ::
    "int \<Rightarrow> int \<Rightarrow> portalv1_MsgTransferOwnership \<Rightarrow> nat \<Rightarrow> bytes \<Rightarrow> (portalv1_MsgTransferOwnership \<times> nat) result option" where
  "portalv1_MsgTransferOwnership_field fieldNum wireType x i bs =
     (if fieldNum = 1 then Some (bytes_field wireType i (\<lambda>v. x\<lparr>portalv1_MsgTransferOwnership_Signer := v\<rparr>) bs)
      else if fieldNum = 2 then Some (bytes_field wireType i (\<lambda>v. x\<lparr>portalv1_MsgTransferOwnership_NewOwner := v\<rparr>) bs)
      else None)"

definition portalv1_MsgTransferOwnership_unmarshal :: "wire_runtime \<Rightarrow> bool \<Rightarrow> bytes \<Rightarrow> portalv1_MsgTransferOwnership result option" where
  "portalv1_MsgTransferOwnership_unmarshal rt discardUnknown bs =
     read_fields (Skip rt) portalv1_MsgTransferOwnership_field
       (\<lambda>u x. if discardUnknown then x else x\<lparr>portalv1_MsgTransferOwnership_unknownFields := portalv1_MsgTransferOwnership_unknownFields x @ u\<rparr>)
       \<lparr>portalv1_MsgTransferOwnership_Signer = [], portalv1_MsgTransferOwnership_NewOwner = [], portalv1_MsgTransferOwnership_unknownFields = []\<rparr> 0 bs"

lemma portalv1_MsgTransferOwnership_written:
  assumes "varint_runtime rt" "portalv1_MsgTransferOwnership_unknownFields x = []"
  shows "writes (portalv1_MsgTransferOwnership_marshal rt x)
    (delimited_bytes rt 0xA (portalv1_MsgTransferOwnership_Signer x) @
      delimited_bytes rt 0x12 (portalv1_MsgTransferOwnership_NewOwner x) @
      [])
    (portalv1_MsgTransferOwnership_size rt x)"
  by (simp add: writes_def portalv1_MsgTransferOwnership_marshal_def portalv1_MsgTransferOwnership_size_def assms wire_puts)

lemma portalv1_MsgTransferOwnership_exact:
  assumes "varint_runtime rt"
  shows "exact_codec (portalv1_MsgTransferOwnership_size rt) (portalv1_MsgTransferOwnership_marshal rt) 
    (portalv1_MsgTransferOwnership_unmarshal rt' discardUnknown) (\<lambda>x. portalv1_MsgTransferOwnership_unknownFields x = [])"
  by (rule exact_codecI, rule portalv1_MsgTransferOwnership_written [OF assms], assumption,
    unfold portalv1_MsgTransferOwnership_unmarshal_def, erule readsD [rotated],
    (rule reads_bytes [OF assms], rule wire_tags,
        simp add: portalv1_MsgTransferOwnership_field_def, simp)+, rule reads_done, simp)

lemma portalv1_MsgTransferOwnership_returns:
  "skip_progress (Skip rt) \<Longrightarrow> \<exists>r. portalv1_MsgTransferOwnership_unmarshal rt discardUnknown bs = Some r"
  unfolding portalv1_MsgTransferOwnership_unmarshal_def by (rule read_fields_returns)

subsection \<open>MsgTransferOwnershipResponse (portalv1)\<close>

text \<open>\<open>MsgTransferOwnershipResponse\<close> of \<open>api/portal/v1/tx.pulsar.go\<close>.\<close>

record portalv1_MsgTransferOwnershipResponse =
  portalv1_MsgTransferOwnershipResponse_unknownFields :: bytes

definition portalv1_MsgTransferOwnershipResponse_size :: "wire_runtime \<Rightarrow> portalv1_MsgTransferOwnershipResponse \<Rightarrow> nat" where
  "portalv1_MsgTransferOwnershipResponse_size rt x =
     length (portalv1_MsgTransferOwnershipResponse_unknownFields x)"

definition portalv1_MsgTransferOwnershipResponse_marshal :: "wire_runtime \<Rightarrow> portalv1_MsgTransferOwnershipResponse \<Rightarrow> bytes result" where
  "portalv1_MsgTransferOwnershipResponse_marshal rt x =
     obind (put (portalv1_MsgTransferOwnershipResponse_unknownFields x) (portalv1_MsgTransferOwnershipResponse_size rt x, [])) (\<lambda>b.
     Ok (buffer_bytes b))"

definition portalv1_MsgTransferOwnershipResponse_field ::
    "int \<Rightarrow> int \<Rightarrow> portalv1_MsgTransferOwnershipResponse \<Rightarrow> nat \<Rightarrow> bytes \<Rightarrow> (portalv1_MsgTransferOwnershipResponse \<times> nat) result option" where
  "portalv1_MsgTransferOwnershipResponse_field fieldNum wireType x i bs =
     None"

definition portalv1_MsgTransferOwnershipResponse_unmarshal :: "wire_runtime \<Rightarrow> bool \<Rightarrow> bytes \<Rightarrow> portalv1_MsgTransferOwnershipResponse result option" where
  "portalv1_MsgTransferOwnershipResponse_unmarshal rt discardUnknown bs =
     read_fields (Skip rt) portalv1_MsgTransferOwnershipResponse_field
       (\<lambda>u x. if discardUnknown then x else x\<lparr>portalv1_MsgTransferOwnershipResponse_unknownFields := portalv1_MsgTransferOwnershipResponse_unknownFields x @ u\<rparr>)
       \<lparr>portalv1_MsgTransferOwnershipResponse_unknownFields = []\<rparr> 0 bs"

lemma portalv1_MsgTransferOwnershipResponse_written:
  assumes "varint_runtime rt" "portalv1_MsgTransferOwnershipResponse_unknownFields x = []"
  shows "writes (portalv1_MsgTransferOwnershipResponse_marshal rt x)
    ([] :: bytes)
    (portalv1_MsgTransferOwnershipResponse_size rt x)"
  by (simp add: writes_def portalv1_MsgTransferOwnershipResponse_marshal_def portalv1_MsgTransferOwnershipResponse_size_def assms wire_puts)

lemma portalv1_MsgTransferOwnershipResponse_exact:
  assumes "varint_runtime rt"
  shows "exact_codec (portalv1_MsgTransferOwnershipResponse_size rt) (portalv1_MsgTransferOwnershipResponse_marshal rt) 
    (portalv1_MsgTransferOwnershipResponse_unmarshal rt' discardUnknown) (\<lambda>x. portalv1_MsgTransferOwnershipResponse_unknownFields x = [])"
  by (rule exact_codecI, rule portalv1_MsgTransferOwnershipResponse_written [OF assms], assumption,
    unfold portalv1_MsgTransferOwnershipResponse_unmarshal_def, erule readsD [rotated],
    rule reads_done, simp)

lemma portalv1_MsgTransferOwnershipResponse_returns:
  "skip_progress (Skip rt) \<Longrightarrow> \<exists>r. portalv1_MsgTransferOwnershipResponse_unmarshal rt discardUnknown bs = Some r"
  unfolding portalv1_MsgTransferOwnershipResponse_unmarshal_def by (rule read_fields_returns)

subsection \<open>MsgDeliverInjection (portalv1)\<close>

text \<open>\<open>MsgDeliverInjection\<close> of \<open>api/portal/v1/injection.pulsar.go\<close>.\<close>

record portalv1_MsgDeliverInjection =
  portalv1_MsgDeliverInjection_Vaa :: bytes
  portalv1_MsgDeliverInjection_unknownFields :: bytes

definition portalv1_MsgDeliverInjection_size :: "wire_runtime \<Rightarrow> portalv1_MsgDeliverInjection \<Rightarrow> nat" where
  "portalv1_MsgDeliverInjection_size rt x =
     size_delimited rt (portalv1_MsgDeliverInjection_Vaa x) +
     length (portalv1_MsgDeliverInjection_unknownFields x)"

definition portalv1_MsgDeliverInjection_marshal :: "wire_runtime \<Rightarrow> portalv1_MsgDeliverInjection \<Rightarrow> bytes result" where
  "portalv1_MsgDeliverInjection_marshal rt x =
     obind (put (portalv1_MsgDeliverInjection_unknownFields x) (portalv1_MsgDeliverInjection_size rt x, [])) (\<lambda>b.
     obind (put_delimited rt 0xA (portalv1_MsgDeliverInjection_Vaa x) b) (\<lambda>b.
     Ok (buffer_bytes b)))"

definition portalv1_MsgDeliverInjection_field ::
    "int \<Rightarrow> int \<Rightarrow> portalv1_MsgDeliverInjection \<Rightarrow> nat \<Rightarrow> bytes \<Rightarrow> (portalv1_MsgDeliverInjection \<times> nat) result option" where
  "portalv1_MsgDeliverInjection_field fieldNum wireType x i bs =
     (if fieldNum = 1 then Some (bytes_field wireType i (\<lambda>v. x\<lparr>portalv1_MsgDeliverInjection_Vaa := v\<rparr>) bs)
      else None)"

definition portalv1_MsgDeliverInjection_unmarshal :: "wire_runtime \<Rightarrow> bool \<Rightarrow> bytes \<Rightarrow> portalv1_MsgDeliverInjection result option" where
  "portalv1_MsgDeliverInjection_unmarshal rt discardUnknown bs =
     read_fields (Skip rt) portalv1_MsgDeliverInjection_field
       (\<lambda>u x. if discardUnknown then x else x\<lparr>portalv1_MsgDeliverInjection_unknownFields := portalv1_MsgDeliverInjection_unknownFields x @ u\<rparr>)
       \<lparr>portalv1_MsgDeliverInjection_Vaa = [], portalv1_MsgDeliverInjection_unknownFields = []\<rparr> 0 bs"

lemma portalv1_MsgDeliverInjection_written:
  assumes "varint_runtime rt" "portalv1_MsgDeliverInjection_unknownFields x = []"
  shows "writes (portalv1_MsgDeliverInjection_marshal rt x)
    (delimited_bytes rt 0xA (portalv1_MsgDeliverInjection_Vaa x) @
      [])
    (portalv1_MsgDeliverInjection_size rt x)"
  by (simp add: writes_def portalv1_MsgDeliverInjection_marshal_def portalv1_MsgDeliverInjection_size_def assms wire_puts)

lemma portalv1_MsgDeliverInjection_exact:
  assumes "varint_runtime rt"
  shows "exact_codec (portalv1_MsgDeliverInjection_size rt) (portalv1_MsgDeliverInjection_marshal rt) 
    (portalv1_MsgDeliverInjection_unmarshal rt' discardUnknown) (\<lambda>x. portalv1_MsgDeliverInjection_unknownFields x = [])"
  by (rule exact_codecI, rule portalv1_MsgDeliverInjection_written [OF assms], assumption,
    unfold portalv1_MsgDeliverInjection_unmarshal_def, erule readsD [rotated],
    (rule reads_bytes [OF assms], rule wire_tags,
        simp add: portalv1_MsgDeliverInjection_field_def, simp)+, rule reads_done, simp)

lemma portalv1_MsgDeliverInjection_returns:
  "skip_progress (Skip rt) \<Longrightarrow> \<exists>r. portalv1_MsgDeliverInjection_unmarshal rt discardUnknown bs = Some r"
  unfolding portalv1_MsgDeliverInjection_unmarshal_def by (rule read_fields_returns)

subsection \<open>MsgLock (vaultsv1)\<close>

text \<open>\<open>MsgLock\<close> of \<open>api/vaults/v1/tx.pulsar.go\<close>.\<close>

record vaultsv1_MsgLock =
  vaultsv1_MsgLock_Signer :: bytes
  vaultsv1_MsgLock_Vault :: "32 word"
  vaultsv1_MsgLock_Amount :: bytes
  vaultsv1_MsgLock_unknownFields :: bytes

definition vaultsv1_MsgLock_size :: "wire_runtime \<Rightarrow> vaultsv1_MsgLock \<Rightarrow> nat" where
  "vaultsv1_MsgLock_size rt x =
     size_delimited rt (vaultsv1_MsgLock_Signer x) +
     size_varint rt (scast (vaultsv1_MsgLock_Vault x)) +
     size_delimited rt (vaultsv1_MsgLock_Amount x) +
     length (vaultsv1_MsgLock_unknownFields x)"

definition vaultsv1_MsgLock_marshal :: "wire_runtime \<Rightarrow> vaultsv1_MsgLock \<Rightarrow> bytes result" where
  "vaultsv1_MsgLock_marshal rt x =
     obind (put (vaultsv1_MsgLock_unknownFields x) (vaultsv1_MsgLock_size rt x, [])) (\<lambda>b.
     obind (put_delimited rt 0x1A (vaultsv1_MsgLock_Amount x) b) (\<lambda>b.
     obind (put_varint rt 0x10 (scast (vaultsv1_MsgLock_Vault x)) b) (\<lambda>b.
     obind (put_delimited rt 0xA (vaultsv1_MsgLock_Signer x) b) (\<lambda>b.
     Ok (buffer_bytes b)))))"

definition vaultsv1_MsgLock_field ::
    "int \<Rightarrow> int \<Rightarrow> vaultsv1_MsgLock \<Rightarrow> nat \<Rightarrow> bytes \<Rightarrow> (vaultsv1_MsgLock \<times> nat) result option" where
  "vaultsv1_MsgLock_field fieldNum wireType x i bs =
     (if fieldNum = 1 then Some (bytes_field wireType i (\<lambda>v. x\<lparr>vaultsv1_MsgLock_Signer := v\<rparr>) bs)
      else if fieldNum = 2 then Some (varint_field wireType (\<lambda>v. x\<lparr>vaultsv1_MsgLock_Vault := v\<rparr>) bs)
      else if fieldNum = 3 then Some (bytes_field wireType i (\<lambda>v. x\<lparr>vaultsv1_MsgLock_Amount := v\<rparr>) bs)
      else None)"

definition vaultsv1_MsgLock_unmarshal :: "wire_runtime \<Rightarrow> bool \<Rightarrow> bytes \<Rightarrow> vaultsv1_MsgLock result option" where
  "vaultsv1_MsgLock_unmarshal rt discardUnknown bs =
     read_fields (Skip rt) vaultsv1_MsgLock_field
       (\<lambda>u x. if discardUnknown then x else x\<lparr>vaultsv1_MsgLock_unknownFields := vaultsv1_MsgLock_unknownFields x @ u\<rparr>)
       \<lparr>vaultsv1_MsgLock_Signer = [], vaultsv1_MsgLock_Vault = 0, vaultsv1_MsgLock_Amount = [], vaultsv1_MsgLock_unknownFields = []\<rparr> 0 bs"

lemma vaultsv1_MsgLock_written:
  assumes "varint_runtime rt" "vaultsv1_MsgLock_unknownFields x = []"
  shows "writes (vaultsv1_MsgLock_marshal rt x)
    (delimited_bytes rt 0xA (vaultsv1_MsgLock_Signer x) @
      varint_bytes rt 0x10 (scast (vaultsv1_MsgLock_Vault x)) @
      delimited_bytes rt 0x1A (vaultsv1_MsgLock_Amount x) @
      [])
    (vaultsv1_MsgLock_size rt x)"
  by (simp add: writes_def vaultsv1_MsgLock_marshal_def vaultsv1_MsgLock_size_def assms wire_puts)

lemma vaultsv1_MsgLock_exact:
  assumes "varint_runtime rt"
  shows "exact_codec (vaultsv1_MsgLock_size rt) (vaultsv1_MsgLock_marshal rt) 
    (vaultsv1_MsgLock_unmarshal rt' discardUnknown) (\<lambda>x. vaultsv1_MsgLock_unknownFields x = [])"
  by (rule exact_codecI, rule vaultsv1_MsgLock_written [OF assms], assumption,
    unfold vaultsv1_MsgLock_unmarshal_def, erule readsD [rotated],
    (rule reads_bytes [OF assms] reads_varint32 [OF assms], rule wire_tags,
        simp add: vaultsv1_MsgLock_field_def, simp)+, rule reads_done, simp)

lemma vaultsv1_MsgLock_returns:
  "skip_progress (Skip rt) \<Longrightarrow> \<exists>r. vaultsv1_MsgLock_unmarshal rt discardUnknown bs = Some r"
  unfolding vaultsv1_MsgLock_unmarshal_def by (rule read_fields_returns)

subsection \<open>MsgLockResponse (vaultsv1)\<close>

text \<open>\<open>MsgLockResponse\<close> of \<open>api/vaults/v1/tx.pulsar.go\<close>.\<close>

record vaultsv1_MsgLockResponse =
  vaultsv1_MsgLockResponse_unknownFields :: bytes

definition vaultsv1_MsgLockResponse_size :: "wire_runtime \<Rightarrow> vaultsv1_MsgLockResponse \<Rightarrow> nat" where
  "vaultsv1_MsgLockResponse_size rt x =
     length (vaultsv1_MsgLockResponse_unknownFields x)"

definition vaultsv1_MsgLockResponse_marshal :: "wire_runtime \<Rightarrow> vaultsv1_MsgLockResponse \<Rightarrow> bytes result" where
  "vaultsv1_MsgLockResponse_marshal rt x =
     obind (put (vaultsv1_MsgLockResponse_unknownFields x) (vaultsv1_MsgLockResponse_size rt x, [])) (\<lambda>b.
     Ok (buffer_bytes b))"

definition vaultsv1_MsgLockResponse_field ::
    "int \<Rightarrow> int \<Rightarrow> vaultsv1_MsgLockResponse \<Rightarrow> nat \<Rightarrow> bytes \<Rightarrow> (vaultsv1_MsgLockResponse \<times> nat) result option" where
  "vaultsv1_MsgLockResponse_field fieldNum wireType x i bs =
     None"

definition vaultsv1_MsgLockResponse_unmarshal :: "wire_runtime \<Rightarrow> bool \<Rightarrow> bytes \<Rightarrow> vaultsv1_MsgLockResponse result option" where
  "vaultsv1_MsgLockResponse_unmarshal rt discardUnknown bs =
     read_fields (Skip rt) vaultsv1_MsgLockResponse_field
       (\<lambda>u x. if discardUnknown then x else x\<lparr>vaultsv1_MsgLockResponse_unknownFields := vaultsv1_MsgLockResponse_unknownFields x @ u\<rparr>)
       \<lparr>vaultsv1_MsgLockResponse_unknownFields = []\<rparr> 0 bs"

lemma vaultsv1_MsgLockResponse_written:
  assumes "varint_runtime rt" "vaultsv1_MsgLockResponse_unknownFields x = []"
  shows "writes (vaultsv1_MsgLockResponse_marshal rt x)
    ([] :: bytes)
    (vaultsv1_MsgLockResponse_size rt x)"
  by (simp add: writes_def vaultsv1_MsgLockResponse_marshal_def vaultsv1_MsgLockResponse_size_def assms wire_puts)

lemma vaultsv1_MsgLockResponse_exact:
  assumes "varint_runtime rt"
  shows "exact_codec (vaultsv1_MsgLockResponse_size rt) (vaultsv1_MsgLockResponse_marshal rt) 
    (vaultsv1_MsgLockResponse_unmarshal rt' discardUnknown) (\<lambda>x. vaultsv1_MsgLockResponse_unknownFields x = [])"
  by (rule exact_codecI, rule vaultsv1_MsgLockResponse_written [OF assms], assumption,
    unfold vaultsv1_MsgLockResponse_unmarshal_def, erule readsD [rotated],
    rule reads_done, simp)

lemma vaultsv1_MsgLockResponse_returns:
  "skip_progress (Skip rt) \<Longrightarrow> \<exists>r. vaultsv1_MsgLockResponse_unmarshal rt discardUnknown bs = Some r"
  unfolding vaultsv1_MsgLockResponse_unmarshal_def by (rule read_fields_returns)

subsection \<open>MsgUnlock (vaultsv1)\<close>

text \<open>\<open>MsgUnlock\<close> of \<open>api/vaults/v1/tx.pulsar.go\<close>.\<close>

record vaultsv1_MsgUnlock =
  vaultsv1_MsgUnlock_Signer :: bytes
  vaultsv1_MsgUnlock_Vault :: "32 word"
  vaultsv1_MsgUnlock_Amount :: bytes
  vaultsv1_MsgUnlock_unknownFields :: bytes

definition vaultsv1_MsgUnlock_size :: "wire_runtime \<Rightarrow> vaultsv1_MsgUnlock \<Rightarrow> nat" where
  "vaultsv1_MsgUnlock_size rt x =
     size_delimited rt (vaultsv1_MsgUnlock_Signer x) +
     size_varint rt (scast (vaultsv1_MsgUnlock_Vault x)) +
     size_delimited rt (vaultsv1_MsgUnlock_Amount x) +
     length (vaultsv1_MsgUnlock_unknownFields x)"

definition vaultsv1_MsgUnlock_marshal :: "wire_runtime \<Rightarrow> vaultsv1_MsgUnlock \<Rightarrow> bytes result" where
  "vaultsv1_MsgUnlock_marshal rt x =
     obind (put (vaultsv1_MsgUnlock_unknownFields x) (vaultsv1_MsgUnlock_size rt x, [])) (\<lambda>b.
     obind (put_delimited rt 0x1A (vaultsv1_MsgUnlock_Amount x) b) (\<lambda>b.
     obind (put_varint rt 0x10 (scast (vaultsv1_MsgUnlock_Vault x)) b) (\<lambda>b.
     obind (put_delimited rt 0xA (vaultsv1_MsgUnlock_Signer x) b) (\<lambda>b.
     Ok (buffer_bytes b)))))"

definition vaultsv1_MsgUnlock_field ::
    "int \<Rightarrow> int \<Rightarrow> vaultsv1_MsgUnlock \<Rightarrow> nat \<Rightarrow> bytes \<Rightarrow> (vaultsv1_MsgUnlock \<times> nat) result option" where
  "vaultsv1_MsgUnlock_field fieldNum wireType x i bs =
     (if fieldNum = 1 then Some (bytes_field wireType i (\<lambda>v. x\<lparr>vaultsv1_MsgUnlock_Signer := v\<rparr>) bs)
      else if fieldNum = 2 then Some (varint_field wireType (\<lambda>v. x\<lparr>vaultsv1_MsgUnlock_Vault := v\<rparr>) bs)
      else if fieldNum = 3 then Some (bytes_field wireType i (\<lambda>v. x\<lparr>vaultsv1_MsgUnlock_Amount := v\<rparr>) bs)
      else None)"

definition vaultsv1_MsgUnlock_unmarshal :: "wire_runtime \<Rightarrow> bool \<Rightarrow> bytes \<Rightarrow> vaultsv1_MsgUnlock result option" where
  "vaultsv1_MsgUnlock_unmarshal rt discardUnknown bs =
     read_fields (Skip rt) vaultsv1_MsgUnlock_field
       (\<lambda>u x. if discardUnknown then x else x\<lparr>vaultsv1_MsgUnlock_unknownFields := vaultsv1_MsgUnlock_unknownFields x @ u\<rparr>)
       \<lparr>vaultsv1_MsgUnlock_Signer = [], vaultsv1_MsgUnlock_Vault = 0, vaultsv1_MsgUnlock_Amount = [], vaultsv1_MsgUnlock_unknownFields = []\<rparr> 0 bs"

lemma vaultsv1_MsgUnlock_written:
  assumes "varint_runtime rt" "vaultsv1_MsgUnlock_unknownFields x = []"
  shows "writes (vaultsv1_MsgUnlock_marshal rt x)
    (delimited_bytes rt 0xA (vaultsv1_MsgUnlock_Signer x) @
      varint_bytes rt 0x10 (scast (vaultsv1_MsgUnlock_Vault x)) @
      delimited_bytes rt 0x1A (vaultsv1_MsgUnlock_Amount x) @
      [])
    (vaultsv1_MsgUnlock_size rt x)"
  by (simp add: writes_def vaultsv1_MsgUnlock_marshal_def vaultsv1_MsgUnlock_size_def assms wire_puts)

lemma vaultsv1_MsgUnlock_exact:
  assumes "varint_runtime rt"
  shows "exact_codec (vaultsv1_MsgUnlock_size rt) (vaultsv1_MsgUnlock_marshal rt) 
    (vaultsv1_MsgUnlock_unmarshal rt' discardUnknown) (\<lambda>x. vaultsv1_MsgUnlock_unknownFields x = [])"
  by (rule exact_codecI, rule vaultsv1_MsgUnlock_written [OF assms], assumption,
    unfold vaultsv1_MsgUnlock_unmarshal_def, erule readsD [rotated],
    (rule reads_bytes [OF assms] reads_varint32 [OF assms], rule wire_tags,
        simp add: vaultsv1_MsgUnlock_field_def, simp)+, rule reads_done, simp)

lemma vaultsv1_MsgUnlock_returns:
  "skip_progress (Skip rt) \<Longrightarrow> \<exists>r. vaultsv1_MsgUnlock_unmarshal rt discardUnknown bs = Some r"
  unfolding vaultsv1_MsgUnlock_unmarshal_def by (rule read_fields_returns)

subsection \<open>MsgUnlockResponse (vaultsv1)\<close>

text \<open>\<open>MsgUnlockResponse\<close> of \<open>api/vaults/v1/tx.pulsar.go\<close>.\<close>

record vaultsv1_MsgUnlockResponse =
  vaultsv1_MsgUnlockResponse_unknownFields :: bytes

definition vaultsv1_MsgUnlockResponse_size :: "wire_runtime \<Rightarrow> vaultsv1_MsgUnlockResponse \<Rightarrow> nat" where
  "vaultsv1_MsgUnlockResponse_size rt x =
     length (vaultsv1_MsgUnlockResponse_unknownFields x)"

definition vaultsv1_MsgUnlockResponse_marshal :: "wire_runtime \<Rightarrow> vaultsv1_MsgUnlockResponse \<Rightarrow> bytes result" where
  "vaultsv1_MsgUnlockResponse_marshal rt x =
     obind (put (vaultsv1_MsgUnlockResponse_unknownFields x) (vaultsv1_MsgUnlockResponse_size rt x, [])) (\<lambda>b.
     Ok (buffer_bytes b))"

definition vaultsv1_MsgUnlockResponse_field ::
    "int \<Rightarrow> int \<Rightarrow> vaultsv1_MsgUnlockResponse \<Rightarrow> nat \<Rightarrow> bytes \<Rightarrow> (vaultsv1_MsgUnlockResponse \<times> nat) result option" where
  "vaultsv1_MsgUnlockResponse_field fieldNum wireType x i bs =
     None"

definition vaultsv1_MsgUnlockResponse_unmarshal :: "wire_runtime \<Rightarrow> bool \<Rightarrow> bytes \<Rightarrow> vaultsv1_MsgUnlockResponse result option" where
  "vaultsv1_MsgUnlockResponse_unmarshal rt discardUnknown bs =
     read_fields (Skip rt) vaultsv1_MsgUnlockResponse_field
       (\<lambda>u x. if discardUnknown then x else x\<lparr>vaultsv1_MsgUnlockResponse_unknownFields := vaultsv1_MsgUnlockResponse_unknownFields x @ u\<rparr>)
       \<lparr>vaultsv1_MsgUnlockResponse_unknownFields = []\<rparr> 0 bs"

lemma vaultsv1_MsgUnlockResponse_written:
  assumes "varint_runtime rt" "vaultsv1_MsgUnlockResponse_unknownFields x = []"
  shows "writes (vaultsv1_MsgUnlockResponse_marshal rt x)
    ([] :: bytes)
    (vaultsv1_MsgUnlockResponse_size rt x)"
  by (simp add: writes_def vaultsv1_MsgUnlockResponse_marshal_def vaultsv1_MsgUnlockResponse_size_def assms wire_puts)

lemma vaultsv1_MsgUnlockResponse_exact:
  assumes "varint_runtime rt"
  shows "exact_codec (vaultsv1_MsgUnlockResponse_size rt) (vaultsv1_MsgUnlockResponse_marshal rt) 
    (vaultsv1_MsgUnlockResponse_unmarshal rt' discardUnknown) (\<lambda>x. vaultsv1_MsgUnlockResponse_unknownFields x = [])"
  by (rule exact_codecI, rule vaultsv1_MsgUnlockResponse_written [OF assms], assumption,
    unfold vaultsv1_MsgUnlockResponse_unmarshal_def, erule readsD [rotated],
    rule reads_done, simp)

lemma vaultsv1_MsgUnlockResponse_returns:
  "skip_progress (Skip rt) \<Longrightarrow> \<exists>r. vaultsv1_MsgUnlockResponse_unmarshal rt discardUnknown bs = Some r"
  unfolding vaultsv1_MsgUnlockResponse_unmarshal_def by (rule read_fields_returns)

subsection \<open>MsgSetPausedState (vaultsv1)\<close>

text \<open>\<open>MsgSetPausedState\<close> of \<open>api/vaults/v1/tx.pulsar.go\<close>.\<close>

record vaultsv1_MsgSetPausedState =
  vaultsv1_MsgSetPausedState_Signer :: bytes
  vaultsv1_MsgSetPausedState_Paused :: "32 word"
  vaultsv1_MsgSetPausedState_unknownFields :: bytes

definition vaultsv1_MsgSetPausedState_size :: "wire_runtime \<Rightarrow> vaultsv1_MsgSetPausedState \<Rightarrow> nat" where
  "vaultsv1_MsgSetPausedState_size rt x =
     size_delimited rt (vaultsv1_MsgSetPausedState_Signer x) +
     size_varint rt (scast (vaultsv1_MsgSetPausedState_Paused x)) +
     length (vaultsv1_MsgSetPausedState_unknownFields x)"

definition vaultsv1_MsgSetPausedState_marshal :: "wire_runtime \<Rightarrow> vaultsv1_MsgSetPausedState \<Rightarrow> bytes result" where
  "vaultsv1_MsgSetPausedState_marshal rt x =
     obind (put (vaultsv1_MsgSetPausedState_unknownFields x) (vaultsv1_MsgSetPausedState_size rt x, [])) (\<lambda>b.
     obind (put_varint rt 0x10 (scast (vaultsv1_MsgSetPausedState_Paused x)) b) (\<lambda>b.
     obind (put_delimited rt 0xA (vaultsv1_MsgSetPausedState_Signer x) b) (\<lambda>b.
     Ok (buffer_bytes b))))"

definition vaultsv1_MsgSetPausedState_field ::
    "int \<Rightarrow> int \<Rightarrow> vaultsv1_MsgSetPausedState \<Rightarrow> nat \<Rightarrow> bytes \<Rightarrow> (vaultsv1_MsgSetPausedState \<times> nat) result option" where
  "vaultsv1_MsgSetPausedState_field fieldNum wireType x i bs =
     (if fieldNum = 1 then Some (bytes_field wireType i (\<lambda>v. x\<lparr>vaultsv1_MsgSetPausedState_Signer := v\<rparr>) bs)
      else if fieldNum = 2 then Some (varint_field wireType (\<lambda>v. x\<lparr>vaultsv1_MsgSetPausedState_Paused := v\<rparr>) bs)
      else None)"

definition vaultsv1_MsgSetPausedState_unmarshal :: "wire_runtime \<Rightarrow> bool \<Rightarrow> bytes \<Rightarrow> vaultsv1_MsgSetPausedState result option" where
  "vaultsv1_MsgSetPausedState_unmarshal rt discardUnknown bs =
     read_fields (Skip rt) vaultsv1_MsgSetPausedState_field
       (\<lambda>u x. if discardUnknown then x else x\<lparr>vaultsv1_MsgSetPausedState_unknownFields := vaultsv1_MsgSetPausedState_unknownFields x @ u\<rparr>)
       \<lparr>vaultsv1_MsgSetPausedState_Signer = [], vaultsv1_MsgSetPausedState_Paused = 0, vaultsv1_MsgSetPausedState_unknownFields = []\<rparr> 0 bs"

lemma vaultsv1_MsgSetPausedState_written:
  assumes "varint_runtime rt" "vaultsv1_MsgSetPausedState_unknownFields x = []"
  shows "writes (vaultsv1_MsgSetPausedState_marshal rt x)
    (delimited_bytes rt 0xA (vaultsv1_MsgSetPausedState_Signer x) @
      varint_bytes rt 0x10 (scast (vaultsv1_MsgSetPausedState_Paused x)) @
      [])
    (vaultsv1_MsgSetPausedState_size rt x)"
  by (simp add: writes_def vaultsv1_MsgSetPausedState_marshal_def vaultsv1_MsgSetPausedState_size_def assms wire_puts)

lemma vaultsv1_MsgSetPausedState_exact:
  assumes "varint_runtime rt"
  shows "exact_codec (vaultsv1_MsgSetPausedState_size rt) (vaultsv1_MsgSetPausedState_marshal rt) 
    (vaultsv1_MsgSetPausedState_unmarshal rt' discardUnknown) (\<lambda>x. vaultsv1_MsgSetPausedState_unknownFields x = [])"
  by (rule exact_codecI, rule vaultsv1_MsgSetPausedState_written [OF assms], assumption,
    unfold vaultsv1_MsgSetPausedState_unmarshal_def, erule readsD [rotated],
    (rule reads_bytes [OF assms] reads_varint32 [OF assms], rule wire_tags,
        simp add: vaultsv1_MsgSetPausedState_field_def, simp)+, rule reads_done, simp)

lemma vaultsv1_MsgSetPausedState_returns:
  "skip_progress (Skip rt) \<Longrightarrow> \<exists>r. vaultsv1_MsgSetPausedState_unmarshal rt discardUnknown bs = Some r"
  unfolding vaultsv1_MsgSetPausedState_unmarshal_def by (rule read_fields_returns)

subsection \<open>MsgSetPausedStateResponse (vaultsv1)\<close>

text \<open>\<open>MsgSetPausedStateResponse\<close> of \<open>api/vaults/v1/tx.pulsar.go\<close>.\<close>

record vaultsv1_MsgSetPausedStateResponse =
  vaultsv1_MsgSetPausedStateResponse_unknownFields :: bytes

definition vaultsv1_MsgSetPausedStateResponse_size :: "wire_runtime \<Rightarrow> vaultsv1_MsgSetPausedStateResponse \<Rightarrow> nat" where
  "vaultsv1_MsgSetPausedStateResponse_size rt x =
     length (vaultsv1_MsgSetPausedStateResponse_unknownFields x)"

definition vaultsv1_MsgSetPausedStateResponse_marshal :: "wire_runtime \<Rightarrow> vaultsv1_MsgSetPausedStateResponse \<Rightarrow> bytes result" where
  "vaultsv1_MsgSetPausedStateResponse_marshal rt x =
     obind (put (vaultsv1_MsgSetPausedStateResponse_unknownFields x) (vaultsv1_MsgSetPausedStateResponse_size rt x, [])) (\<lambda>b.
     Ok (buffer_bytes b))"

definition vaultsv1_MsgSetPausedStateResponse_field ::
    "int \<Rightarrow> int \<Rightarrow> vaultsv1_MsgSetPausedStateResponse \<Rightarrow> nat \<Rightarrow> bytes \<Rightarrow> (vaultsv1_MsgSetPausedStateResponse \<times> nat) result option" where
  "vaultsv1_MsgSetPausedStateResponse_field fieldNum wireType x i bs =
     None"

definition vaultsv1_MsgSetPausedStateResponse_unmarshal :: "wire_runtime \<Rightarrow> bool \<Rightarrow> bytes \<Rightarrow> vaultsv1_MsgSetPausedStateResponse result option" where
  "vaultsv1_MsgSetPausedStateResponse_unmarshal rt discardUnknown bs =
     read_fields (Skip rt) vaultsv1_MsgSetPausedStateResponse_field
       (\<lambda>u x. if discardUnknown then x else x\<lparr>vaultsv1_MsgSetPausedStateResponse_unknownFields := vaultsv1_MsgSetPausedStateResponse_unknownFields x @ u\<rparr>)
       \<lparr>vaultsv1_MsgSetPausedStateResponse_unknownFields = []\<rparr> 0 bs"

lemma vaultsv1_MsgSetPausedStateResponse_written:
  assumes "varint_runtime rt" "vaultsv1_MsgSetPausedStateResponse_unknownFields x = []"
  shows "writes (vaultsv1_MsgSetPausedStateResponse_marshal rt x)
    ([] :: bytes)
    (vaultsv1_MsgSetPausedStateResponse_size rt x)"
  by (simp add: writes_def vaultsv1_MsgSetPausedStateResponse_marshal_def vaultsv1_MsgSetPausedStateResponse_size_def assms wire_puts)

lemma vaultsv1_MsgSetPausedStateResponse_exact:
  assumes "varint_runtime rt"
  shows "exact_codec (vaultsv1_MsgSetPausedStateResponse_size rt) (vaultsv1_MsgSetPausedStateResponse_marshal rt) 
    (vaultsv1_MsgSetPausedStateResponse_unmarshal rt' discardUnknown) (\<lambda>x. vaultsv1_MsgSetPausedStateResponse_unknownFields x = [])"
  by (rule exact_codecI, rule vaultsv1_MsgSetPausedStateResponse_written [OF assms], assumption,
    unfold vaultsv1_MsgSetPausedStateResponse_unmarshal_def, erule readsD [rotated],
    rule reads_done, simp)

lemma vaultsv1_MsgSetPausedStateResponse_returns:
  "skip_progress (Skip rt) \<Longrightarrow> \<exists>r. vaultsv1_MsgSetPausedStateResponse_unmarshal rt discardUnknown bs = Some r"
  unfolding vaultsv1_MsgSetPausedStateResponse_unmarshal_def by (rule read_fields_returns)

subsection \<open>The codecs together\<close>

lemmas api_tx_exact =
  dollarv1_MsgClaimYield_exact dollarv1_MsgClaimYieldResponse_exact
  dollarv1_MsgSetPausedState_exact dollarv1_MsgSetPausedStateResponse_exact
  dollarv2_MsgSetYieldRecipient_exact dollarv2_MsgSetYieldRecipientResponse_exact
  portalv1_MsgDeliver_exact portalv1_MsgDeliverResponse_exact portalv1_MsgTransfer_exact
  portalv1_MsgTransferResponse_exact portalv1_MsgSetPausedState_exact
  portalv1_MsgSetPausedStateResponse_exact portalv1_MsgSetPeer_exact
  portalv1_MsgSetPeerResponse_exact portalv1_MsgSetBridgingPath_exact
  portalv1_MsgSetBridgingPathResponse_exact portalv1_MsgTransferOwnership_exact
  portalv1_MsgTransferOwnershipResponse_exact portalv1_MsgDeliverInjection_exact
  vaultsv1_MsgLock_exact vaultsv1_MsgLockResponse_exact vaultsv1_MsgUnlock_exact
  vaultsv1_MsgUnlockResponse_exact vaultsv1_MsgSetPausedState_exact
  vaultsv1_MsgSetPausedStateResponse_exact

lemmas api_tx_returns =
  dollarv1_MsgClaimYield_returns dollarv1_MsgClaimYieldResponse_returns
  dollarv1_MsgSetPausedState_returns dollarv1_MsgSetPausedStateResponse_returns
  dollarv2_MsgSetYieldRecipient_returns dollarv2_MsgSetYieldRecipientResponse_returns
  portalv1_MsgDeliver_returns portalv1_MsgDeliverResponse_returns portalv1_MsgTransfer_returns
  portalv1_MsgTransferResponse_returns portalv1_MsgSetPausedState_returns
  portalv1_MsgSetPausedStateResponse_returns portalv1_MsgSetPeer_returns
  portalv1_MsgSetPeerResponse_returns portalv1_MsgSetBridgingPath_returns
  portalv1_MsgSetBridgingPathResponse_returns portalv1_MsgTransferOwnership_returns
  portalv1_MsgTransferOwnershipResponse_returns portalv1_MsgDeliverInjection_returns
  vaultsv1_MsgLock_returns vaultsv1_MsgLockResponse_returns vaultsv1_MsgUnlock_returns
  vaultsv1_MsgUnlockResponse_returns vaultsv1_MsgSetPausedState_returns
  vaultsv1_MsgSetPausedStateResponse_returns

end
