(* ===== verification/Codec_Tx.thy ===== *)
theory Codec_Tx
  imports Api_Tx
begin

text \<open>
  The transactions as the chain reads them: \<open>Size\<close>, \<open>Marshal\<close> (with \<open>MarshalToSizedBuffer\<close>) and
  \<open>Unmarshal\<close> of \<open>types/**/tx.pb.go\<close> and \<open>types/portal/injection.pb.go\<close>. The lemmas \<open>_received\<close> say
  what the chain reads of the bytes the client API writes; a chain identifier, 32 bits wide at the
  client, keeps its low 16 bits only. A nil message is not modelled.
\<close>

subsection \<open>MsgClaimYield (types)\<close>

text \<open>\<open>MsgClaimYield\<close> of \<open>types/tx.pb.go\<close>.\<close>

record types_MsgClaimYield =
  types_MsgClaimYield_Signer :: bytes

definition types_MsgClaimYield_Size :: "types_MsgClaimYield \<Rightarrow> nat" where
  "types_MsgClaimYield_Size x =
     size_delimited gogo_runtime (types_MsgClaimYield_Signer x)"

definition types_MsgClaimYield_Marshal :: "types_MsgClaimYield \<Rightarrow> bytes result" where
  "types_MsgClaimYield_Marshal x =
     obind (put_delimited gogo_runtime 0xA (types_MsgClaimYield_Signer x) (types_MsgClaimYield_Size x, [])) (\<lambda>b.
     Ok (sized_bytes b))"

definition types_MsgClaimYield_field ::
    "int \<Rightarrow> int \<Rightarrow> types_MsgClaimYield \<Rightarrow> nat \<Rightarrow> bytes \<Rightarrow> (types_MsgClaimYield \<times> nat) result option" where
  "types_MsgClaimYield_field fieldNum wireType x i bs =
     (if fieldNum = 1 then Some (bytes_field wireType i (\<lambda>v. x\<lparr>types_MsgClaimYield_Signer := v\<rparr>) bs)
      else None)"

definition types_MsgClaimYield_Unmarshal :: "bytes \<Rightarrow> types_MsgClaimYield result option" where
  "types_MsgClaimYield_Unmarshal bs =
     read_fields (Skip gogo_runtime) types_MsgClaimYield_field (\<lambda>u x. x)
       \<lparr>types_MsgClaimYield_Signer = []\<rparr> 0 bs"

lemma types_MsgClaimYield_written:
  shows "writes (types_MsgClaimYield_Marshal x)
    (delimited_bytes gogo_runtime 0xA (types_MsgClaimYield_Signer x) @
      [])
    (types_MsgClaimYield_Size x)"
  by (simp add: writes_def types_MsgClaimYield_Marshal_def types_MsgClaimYield_Size_def wire_puts gogo_varint)

lemma types_MsgClaimYield_exact:
  shows "exact_codec (types_MsgClaimYield_Size) (types_MsgClaimYield_Marshal) (types_MsgClaimYield_Unmarshal)
    (\<lambda>x. True)"
  by (rule exact_codecI, rule types_MsgClaimYield_written,
    unfold types_MsgClaimYield_Unmarshal_def, erule readsD [rotated],
    (rule reads_bytes [OF gogo_varint], rule wire_tags, simp add: types_MsgClaimYield_field_def, simp)+, rule reads_done, simp)

lemma types_MsgClaimYield_returns: "\<exists>r. types_MsgClaimYield_Unmarshal bs = Some r"
  unfolding types_MsgClaimYield_Unmarshal_def by (rule read_fields_returns [OF gogo_skip])

lemma types_MsgClaimYield_received:
  assumes "varint_runtime rt" "dollarv1_MsgClaimYield_unknownFields x = []"
    and "dollarv1_MsgClaimYield_size rt x < 2 ^ 63"
  shows "\<exists>bs. dollarv1_MsgClaimYield_marshal rt x = Ok bs \<and> types_MsgClaimYield_Unmarshal bs = Some (Ok
     \<lparr>types_MsgClaimYield_Signer = dollarv1_MsgClaimYield_Signer x\<rparr>)"
  by (rule codec_readsI [OF dollarv1_MsgClaimYield_written [OF assms(1,2)] assms(3)],
    unfold types_MsgClaimYield_Unmarshal_def, erule readsD [rotated],
    (rule reads_bytes [OF assms(1)], rule wire_tags, simp add: types_MsgClaimYield_field_def, simp)+, rule reads_done, simp)

subsection \<open>MsgClaimYieldResponse (types)\<close>

text \<open>\<open>MsgClaimYieldResponse\<close> of \<open>types/tx.pb.go\<close>.\<close>

datatype types_MsgClaimYieldResponse = types_MsgClaimYieldResponse

definition types_MsgClaimYieldResponse_Size :: "types_MsgClaimYieldResponse \<Rightarrow> nat" where
  "types_MsgClaimYieldResponse_Size x =
     0"

definition types_MsgClaimYieldResponse_Marshal :: "types_MsgClaimYieldResponse \<Rightarrow> bytes result" where
  "types_MsgClaimYieldResponse_Marshal x =
     Ok (sized_bytes (types_MsgClaimYieldResponse_Size x, []))"

definition types_MsgClaimYieldResponse_field ::
    "int \<Rightarrow> int \<Rightarrow> types_MsgClaimYieldResponse \<Rightarrow> nat \<Rightarrow> bytes \<Rightarrow> (types_MsgClaimYieldResponse \<times> nat) result option" where
  "types_MsgClaimYieldResponse_field fieldNum wireType x i bs =
     None"

definition types_MsgClaimYieldResponse_Unmarshal :: "bytes \<Rightarrow> types_MsgClaimYieldResponse result option" where
  "types_MsgClaimYieldResponse_Unmarshal bs =
     read_fields (Skip gogo_runtime) types_MsgClaimYieldResponse_field (\<lambda>u x. x)
       types_MsgClaimYieldResponse 0 bs"

lemma types_MsgClaimYieldResponse_written:
  shows "writes (types_MsgClaimYieldResponse_Marshal x)
    ([] :: bytes)
    (types_MsgClaimYieldResponse_Size x)"
  by (simp add: writes_def types_MsgClaimYieldResponse_Marshal_def types_MsgClaimYieldResponse_Size_def wire_puts gogo_varint)

lemma types_MsgClaimYieldResponse_exact:
  shows "exact_codec (types_MsgClaimYieldResponse_Size) (types_MsgClaimYieldResponse_Marshal) (types_MsgClaimYieldResponse_Unmarshal)
    (\<lambda>x. True)"
  by (rule exact_codecI, rule types_MsgClaimYieldResponse_written,
    unfold types_MsgClaimYieldResponse_Unmarshal_def, erule readsD [rotated],
    rule reads_done, metis types_MsgClaimYieldResponse.exhaust)

lemma types_MsgClaimYieldResponse_returns: "\<exists>r. types_MsgClaimYieldResponse_Unmarshal bs = Some r"
  unfolding types_MsgClaimYieldResponse_Unmarshal_def by (rule read_fields_returns [OF gogo_skip])

subsection \<open>MsgSetPausedState (types)\<close>

text \<open>\<open>MsgSetPausedState\<close> of \<open>types/tx.pb.go\<close>.\<close>

record types_MsgSetPausedState =
  types_MsgSetPausedState_Signer :: bytes
  types_MsgSetPausedState_Paused :: bool

definition types_MsgSetPausedState_Size :: "types_MsgSetPausedState \<Rightarrow> nat" where
  "types_MsgSetPausedState_Size x =
     size_delimited gogo_runtime (types_MsgSetPausedState_Signer x) +
     size_bool (types_MsgSetPausedState_Paused x)"

definition types_MsgSetPausedState_Marshal :: "types_MsgSetPausedState \<Rightarrow> bytes result" where
  "types_MsgSetPausedState_Marshal x =
     obind (put_bool 0x10 (types_MsgSetPausedState_Paused x) (types_MsgSetPausedState_Size x, [])) (\<lambda>b.
     obind (put_delimited gogo_runtime 0xA (types_MsgSetPausedState_Signer x) b) (\<lambda>b.
     Ok (sized_bytes b)))"

definition types_MsgSetPausedState_field ::
    "int \<Rightarrow> int \<Rightarrow> types_MsgSetPausedState \<Rightarrow> nat \<Rightarrow> bytes \<Rightarrow> (types_MsgSetPausedState \<times> nat) result option" where
  "types_MsgSetPausedState_field fieldNum wireType x i bs =
     (if fieldNum = 1 then Some (bytes_field wireType i (\<lambda>v. x\<lparr>types_MsgSetPausedState_Signer := v\<rparr>) bs)
      else if fieldNum = 2 then Some (bool_field wireType (\<lambda>v. x\<lparr>types_MsgSetPausedState_Paused := v\<rparr>) bs)
      else None)"

definition types_MsgSetPausedState_Unmarshal :: "bytes \<Rightarrow> types_MsgSetPausedState result option" where
  "types_MsgSetPausedState_Unmarshal bs =
     read_fields (Skip gogo_runtime) types_MsgSetPausedState_field (\<lambda>u x. x)
       \<lparr>types_MsgSetPausedState_Signer = [], types_MsgSetPausedState_Paused = False\<rparr> 0 bs"

lemma types_MsgSetPausedState_written:
  shows "writes (types_MsgSetPausedState_Marshal x)
    (delimited_bytes gogo_runtime 0xA (types_MsgSetPausedState_Signer x) @
      bool_bytes 0x10 (types_MsgSetPausedState_Paused x) @
      [])
    (types_MsgSetPausedState_Size x)"
  by (simp add: writes_def types_MsgSetPausedState_Marshal_def types_MsgSetPausedState_Size_def wire_puts gogo_varint)

lemma types_MsgSetPausedState_exact:
  shows "exact_codec (types_MsgSetPausedState_Size) (types_MsgSetPausedState_Marshal) (types_MsgSetPausedState_Unmarshal)
    (\<lambda>x. True)"
  by (rule exact_codecI, rule types_MsgSetPausedState_written,
    unfold types_MsgSetPausedState_Unmarshal_def, erule readsD [rotated],
    (rule reads_bytes [OF gogo_varint] reads_bool, rule wire_tags, simp add: types_MsgSetPausedState_field_def, simp)+, rule reads_done, simp)

lemma types_MsgSetPausedState_returns: "\<exists>r. types_MsgSetPausedState_Unmarshal bs = Some r"
  unfolding types_MsgSetPausedState_Unmarshal_def by (rule read_fields_returns [OF gogo_skip])

lemma types_MsgSetPausedState_received:
  assumes "varint_runtime rt" "dollarv1_MsgSetPausedState_unknownFields x = []"
    and "dollarv1_MsgSetPausedState_size rt x < 2 ^ 63"
  shows "\<exists>bs. dollarv1_MsgSetPausedState_marshal rt x = Ok bs \<and> types_MsgSetPausedState_Unmarshal bs = Some (Ok
     \<lparr>types_MsgSetPausedState_Signer = dollarv1_MsgSetPausedState_Signer x,
      types_MsgSetPausedState_Paused = dollarv1_MsgSetPausedState_Paused x\<rparr>)"
  by (rule codec_readsI [OF dollarv1_MsgSetPausedState_written [OF assms(1,2)] assms(3)],
    unfold types_MsgSetPausedState_Unmarshal_def, erule readsD [rotated],
    (rule reads_bytes [OF assms(1)] reads_bool, rule wire_tags, simp add: types_MsgSetPausedState_field_def, simp)+, rule reads_done, simp)

subsection \<open>MsgSetPausedStateResponse (types)\<close>

text \<open>\<open>MsgSetPausedStateResponse\<close> of \<open>types/tx.pb.go\<close>.\<close>

datatype types_MsgSetPausedStateResponse = types_MsgSetPausedStateResponse

definition types_MsgSetPausedStateResponse_Size :: "types_MsgSetPausedStateResponse \<Rightarrow> nat" where
  "types_MsgSetPausedStateResponse_Size x =
     0"

definition types_MsgSetPausedStateResponse_Marshal :: "types_MsgSetPausedStateResponse \<Rightarrow> bytes result" where
  "types_MsgSetPausedStateResponse_Marshal x =
     Ok (sized_bytes (types_MsgSetPausedStateResponse_Size x, []))"

definition types_MsgSetPausedStateResponse_field ::
    "int \<Rightarrow> int \<Rightarrow> types_MsgSetPausedStateResponse \<Rightarrow> nat \<Rightarrow> bytes \<Rightarrow> (types_MsgSetPausedStateResponse \<times> nat) result option" where
  "types_MsgSetPausedStateResponse_field fieldNum wireType x i bs =
     None"

definition types_MsgSetPausedStateResponse_Unmarshal :: "bytes \<Rightarrow> types_MsgSetPausedStateResponse result option" where
  "types_MsgSetPausedStateResponse_Unmarshal bs =
     read_fields (Skip gogo_runtime) types_MsgSetPausedStateResponse_field (\<lambda>u x. x)
       types_MsgSetPausedStateResponse 0 bs"

lemma types_MsgSetPausedStateResponse_written:
  shows "writes (types_MsgSetPausedStateResponse_Marshal x)
    ([] :: bytes)
    (types_MsgSetPausedStateResponse_Size x)"
  by (simp add: writes_def types_MsgSetPausedStateResponse_Marshal_def types_MsgSetPausedStateResponse_Size_def wire_puts gogo_varint)

lemma types_MsgSetPausedStateResponse_exact:
  shows "exact_codec (types_MsgSetPausedStateResponse_Size) (types_MsgSetPausedStateResponse_Marshal) (types_MsgSetPausedStateResponse_Unmarshal)
    (\<lambda>x. True)"
  by (rule exact_codecI, rule types_MsgSetPausedStateResponse_written,
    unfold types_MsgSetPausedStateResponse_Unmarshal_def, erule readsD [rotated],
    rule reads_done, metis types_MsgSetPausedStateResponse.exhaust)

lemma types_MsgSetPausedStateResponse_returns: "\<exists>r. types_MsgSetPausedStateResponse_Unmarshal bs = Some r"
  unfolding types_MsgSetPausedStateResponse_Unmarshal_def by (rule read_fields_returns [OF gogo_skip])

subsection \<open>MsgSetYieldRecipient (v2)\<close>

text \<open>\<open>MsgSetYieldRecipient\<close> of \<open>types/v2/tx.pb.go\<close>.\<close>

record v2_MsgSetYieldRecipient =
  v2_MsgSetYieldRecipient_Signer :: bytes
  v2_MsgSetYieldRecipient_Provider :: "32 word"
  v2_MsgSetYieldRecipient_Identifier :: bytes
  v2_MsgSetYieldRecipient_Recipient :: bytes

definition v2_MsgSetYieldRecipient_Size :: "v2_MsgSetYieldRecipient \<Rightarrow> nat" where
  "v2_MsgSetYieldRecipient_Size x =
     size_delimited gogo_runtime (v2_MsgSetYieldRecipient_Signer x) +
     size_varint gogo_runtime (scast (v2_MsgSetYieldRecipient_Provider x)) +
     size_delimited gogo_runtime (v2_MsgSetYieldRecipient_Identifier x) +
     size_delimited gogo_runtime (v2_MsgSetYieldRecipient_Recipient x)"

definition v2_MsgSetYieldRecipient_Marshal :: "v2_MsgSetYieldRecipient \<Rightarrow> bytes result" where
  "v2_MsgSetYieldRecipient_Marshal x =
     obind (put_delimited gogo_runtime 0x22 (v2_MsgSetYieldRecipient_Recipient x) (v2_MsgSetYieldRecipient_Size x, [])) (\<lambda>b.
     obind (put_delimited gogo_runtime 0x1A (v2_MsgSetYieldRecipient_Identifier x) b) (\<lambda>b.
     obind (put_varint gogo_runtime 0x10 (scast (v2_MsgSetYieldRecipient_Provider x)) b) (\<lambda>b.
     obind (put_delimited gogo_runtime 0xA (v2_MsgSetYieldRecipient_Signer x) b) (\<lambda>b.
     Ok (sized_bytes b)))))"

definition v2_MsgSetYieldRecipient_field ::
    "int \<Rightarrow> int \<Rightarrow> v2_MsgSetYieldRecipient \<Rightarrow> nat \<Rightarrow> bytes \<Rightarrow> (v2_MsgSetYieldRecipient \<times> nat) result option" where
  "v2_MsgSetYieldRecipient_field fieldNum wireType x i bs =
     (if fieldNum = 1 then Some (bytes_field wireType i (\<lambda>v. x\<lparr>v2_MsgSetYieldRecipient_Signer := v\<rparr>) bs)
      else if fieldNum = 2 then Some (varint_field wireType (\<lambda>v. x\<lparr>v2_MsgSetYieldRecipient_Provider := v\<rparr>) bs)
      else if fieldNum = 3 then Some (bytes_field wireType i (\<lambda>v. x\<lparr>v2_MsgSetYieldRecipient_Identifier := v\<rparr>) bs)
      else if fieldNum = 4 then Some (bytes_field wireType i (\<lambda>v. x\<lparr>v2_MsgSetYieldRecipient_Recipient := v\<rparr>) bs)
      else None)"

definition v2_MsgSetYieldRecipient_Unmarshal :: "bytes \<Rightarrow> v2_MsgSetYieldRecipient result option" where
  "v2_MsgSetYieldRecipient_Unmarshal bs =
     read_fields (Skip gogo_runtime) v2_MsgSetYieldRecipient_field (\<lambda>u x. x)
       \<lparr>v2_MsgSetYieldRecipient_Signer = [], v2_MsgSetYieldRecipient_Provider = 0, v2_MsgSetYieldRecipient_Identifier = [], v2_MsgSetYieldRecipient_Recipient = []\<rparr> 0 bs"

lemma v2_MsgSetYieldRecipient_written:
  shows "writes (v2_MsgSetYieldRecipient_Marshal x)
    (delimited_bytes gogo_runtime 0xA (v2_MsgSetYieldRecipient_Signer x) @
      varint_bytes gogo_runtime 0x10 (scast (v2_MsgSetYieldRecipient_Provider x)) @
      delimited_bytes gogo_runtime 0x1A (v2_MsgSetYieldRecipient_Identifier x) @
      delimited_bytes gogo_runtime 0x22 (v2_MsgSetYieldRecipient_Recipient x) @
      [])
    (v2_MsgSetYieldRecipient_Size x)"
  by (simp add: writes_def v2_MsgSetYieldRecipient_Marshal_def v2_MsgSetYieldRecipient_Size_def wire_puts gogo_varint)

lemma v2_MsgSetYieldRecipient_exact:
  shows "exact_codec (v2_MsgSetYieldRecipient_Size) (v2_MsgSetYieldRecipient_Marshal) (v2_MsgSetYieldRecipient_Unmarshal)
    (\<lambda>x. True)"
  by (rule exact_codecI, rule v2_MsgSetYieldRecipient_written,
    unfold v2_MsgSetYieldRecipient_Unmarshal_def, erule readsD [rotated],
    (rule reads_bytes [OF gogo_varint] reads_varint32 [OF gogo_varint], rule wire_tags, simp add: v2_MsgSetYieldRecipient_field_def, simp)+, rule reads_done, simp)

lemma v2_MsgSetYieldRecipient_returns: "\<exists>r. v2_MsgSetYieldRecipient_Unmarshal bs = Some r"
  unfolding v2_MsgSetYieldRecipient_Unmarshal_def by (rule read_fields_returns [OF gogo_skip])

lemma v2_MsgSetYieldRecipient_received:
  assumes "varint_runtime rt" "dollarv2_MsgSetYieldRecipient_unknownFields x = []"
    and "dollarv2_MsgSetYieldRecipient_size rt x < 2 ^ 63"
  shows "\<exists>bs. dollarv2_MsgSetYieldRecipient_marshal rt x = Ok bs \<and> v2_MsgSetYieldRecipient_Unmarshal bs = Some (Ok
     \<lparr>v2_MsgSetYieldRecipient_Signer = dollarv2_MsgSetYieldRecipient_Signer x,
      v2_MsgSetYieldRecipient_Provider = dollarv2_MsgSetYieldRecipient_Provider x,
      v2_MsgSetYieldRecipient_Identifier = dollarv2_MsgSetYieldRecipient_Identifier x,
      v2_MsgSetYieldRecipient_Recipient = dollarv2_MsgSetYieldRecipient_Recipient x\<rparr>)"
  by (rule codec_readsI [OF dollarv2_MsgSetYieldRecipient_written [OF assms(1,2)] assms(3)],
    unfold v2_MsgSetYieldRecipient_Unmarshal_def, erule readsD [rotated],
    (rule reads_bytes [OF assms(1)] reads_varint32 [OF assms(1)], rule wire_tags, simp add: v2_MsgSetYieldRecipient_field_def, simp)+, rule reads_done, simp)

subsection \<open>MsgSetYieldRecipientResponse (v2)\<close>

text \<open>\<open>MsgSetYieldRecipientResponse\<close> of \<open>types/v2/tx.pb.go\<close>.\<close>

datatype v2_MsgSetYieldRecipientResponse = v2_MsgSetYieldRecipientResponse

definition v2_MsgSetYieldRecipientResponse_Size :: "v2_MsgSetYieldRecipientResponse \<Rightarrow> nat" where
  "v2_MsgSetYieldRecipientResponse_Size x =
     0"

definition v2_MsgSetYieldRecipientResponse_Marshal :: "v2_MsgSetYieldRecipientResponse \<Rightarrow> bytes result" where
  "v2_MsgSetYieldRecipientResponse_Marshal x =
     Ok (sized_bytes (v2_MsgSetYieldRecipientResponse_Size x, []))"

definition v2_MsgSetYieldRecipientResponse_field ::
    "int \<Rightarrow> int \<Rightarrow> v2_MsgSetYieldRecipientResponse \<Rightarrow> nat \<Rightarrow> bytes \<Rightarrow> (v2_MsgSetYieldRecipientResponse \<times> nat) result option" where
  "v2_MsgSetYieldRecipientResponse_field fieldNum wireType x i bs =
     None"

definition v2_MsgSetYieldRecipientResponse_Unmarshal :: "bytes \<Rightarrow> v2_MsgSetYieldRecipientResponse result option" where
  "v2_MsgSetYieldRecipientResponse_Unmarshal bs =
     read_fields (Skip gogo_runtime) v2_MsgSetYieldRecipientResponse_field (\<lambda>u x. x)
       v2_MsgSetYieldRecipientResponse 0 bs"

lemma v2_MsgSetYieldRecipientResponse_written:
  shows "writes (v2_MsgSetYieldRecipientResponse_Marshal x)
    ([] :: bytes)
    (v2_MsgSetYieldRecipientResponse_Size x)"
  by (simp add: writes_def v2_MsgSetYieldRecipientResponse_Marshal_def v2_MsgSetYieldRecipientResponse_Size_def wire_puts gogo_varint)

lemma v2_MsgSetYieldRecipientResponse_exact:
  shows "exact_codec (v2_MsgSetYieldRecipientResponse_Size) (v2_MsgSetYieldRecipientResponse_Marshal) (v2_MsgSetYieldRecipientResponse_Unmarshal)
    (\<lambda>x. True)"
  by (rule exact_codecI, rule v2_MsgSetYieldRecipientResponse_written,
    unfold v2_MsgSetYieldRecipientResponse_Unmarshal_def, erule readsD [rotated],
    rule reads_done, metis v2_MsgSetYieldRecipientResponse.exhaust)

lemma v2_MsgSetYieldRecipientResponse_returns: "\<exists>r. v2_MsgSetYieldRecipientResponse_Unmarshal bs = Some r"
  unfolding v2_MsgSetYieldRecipientResponse_Unmarshal_def by (rule read_fields_returns [OF gogo_skip])

subsection \<open>MsgDeliver (portal)\<close>

text \<open>\<open>MsgDeliver\<close> of \<open>types/portal/tx.pb.go\<close>.\<close>

record portal_MsgDeliver =
  portal_MsgDeliver_Signer :: bytes
  portal_MsgDeliver_Vaa :: bytes

definition portal_MsgDeliver_Size :: "portal_MsgDeliver \<Rightarrow> nat" where
  "portal_MsgDeliver_Size x =
     size_delimited gogo_runtime (portal_MsgDeliver_Signer x) +
     size_delimited gogo_runtime (portal_MsgDeliver_Vaa x)"

definition portal_MsgDeliver_Marshal :: "portal_MsgDeliver \<Rightarrow> bytes result" where
  "portal_MsgDeliver_Marshal x =
     obind (put_delimited gogo_runtime 0x12 (portal_MsgDeliver_Vaa x) (portal_MsgDeliver_Size x, [])) (\<lambda>b.
     obind (put_delimited gogo_runtime 0xA (portal_MsgDeliver_Signer x) b) (\<lambda>b.
     Ok (sized_bytes b)))"

definition portal_MsgDeliver_field ::
    "int \<Rightarrow> int \<Rightarrow> portal_MsgDeliver \<Rightarrow> nat \<Rightarrow> bytes \<Rightarrow> (portal_MsgDeliver \<times> nat) result option" where
  "portal_MsgDeliver_field fieldNum wireType x i bs =
     (if fieldNum = 1 then Some (bytes_field wireType i (\<lambda>v. x\<lparr>portal_MsgDeliver_Signer := v\<rparr>) bs)
      else if fieldNum = 2 then Some (bytes_field wireType i (\<lambda>v. x\<lparr>portal_MsgDeliver_Vaa := v\<rparr>) bs)
      else None)"

definition portal_MsgDeliver_Unmarshal :: "bytes \<Rightarrow> portal_MsgDeliver result option" where
  "portal_MsgDeliver_Unmarshal bs =
     read_fields (Skip gogo_runtime) portal_MsgDeliver_field (\<lambda>u x. x)
       \<lparr>portal_MsgDeliver_Signer = [], portal_MsgDeliver_Vaa = []\<rparr> 0 bs"

lemma portal_MsgDeliver_written:
  shows "writes (portal_MsgDeliver_Marshal x)
    (delimited_bytes gogo_runtime 0xA (portal_MsgDeliver_Signer x) @
      delimited_bytes gogo_runtime 0x12 (portal_MsgDeliver_Vaa x) @
      [])
    (portal_MsgDeliver_Size x)"
  by (simp add: writes_def portal_MsgDeliver_Marshal_def portal_MsgDeliver_Size_def wire_puts gogo_varint)

lemma portal_MsgDeliver_exact:
  shows "exact_codec (portal_MsgDeliver_Size) (portal_MsgDeliver_Marshal) (portal_MsgDeliver_Unmarshal)
    (\<lambda>x. True)"
  by (rule exact_codecI, rule portal_MsgDeliver_written,
    unfold portal_MsgDeliver_Unmarshal_def, erule readsD [rotated],
    (rule reads_bytes [OF gogo_varint], rule wire_tags, simp add: portal_MsgDeliver_field_def, simp)+, rule reads_done, simp)

lemma portal_MsgDeliver_returns: "\<exists>r. portal_MsgDeliver_Unmarshal bs = Some r"
  unfolding portal_MsgDeliver_Unmarshal_def by (rule read_fields_returns [OF gogo_skip])

lemma portal_MsgDeliver_received:
  assumes "varint_runtime rt" "portalv1_MsgDeliver_unknownFields x = []"
    and "portalv1_MsgDeliver_size rt x < 2 ^ 63"
  shows "\<exists>bs. portalv1_MsgDeliver_marshal rt x = Ok bs \<and> portal_MsgDeliver_Unmarshal bs = Some (Ok
     \<lparr>portal_MsgDeliver_Signer = portalv1_MsgDeliver_Signer x,
      portal_MsgDeliver_Vaa = portalv1_MsgDeliver_Vaa x\<rparr>)"
  by (rule codec_readsI [OF portalv1_MsgDeliver_written [OF assms(1,2)] assms(3)],
    unfold portal_MsgDeliver_Unmarshal_def, erule readsD [rotated],
    (rule reads_bytes [OF assms(1)], rule wire_tags, simp add: portal_MsgDeliver_field_def, simp)+, rule reads_done, simp)

subsection \<open>MsgDeliverResponse (portal)\<close>

text \<open>\<open>MsgDeliverResponse\<close> of \<open>types/portal/tx.pb.go\<close>.\<close>

datatype portal_MsgDeliverResponse = portal_MsgDeliverResponse

definition portal_MsgDeliverResponse_Size :: "portal_MsgDeliverResponse \<Rightarrow> nat" where
  "portal_MsgDeliverResponse_Size x =
     0"

definition portal_MsgDeliverResponse_Marshal :: "portal_MsgDeliverResponse \<Rightarrow> bytes result" where
  "portal_MsgDeliverResponse_Marshal x =
     Ok (sized_bytes (portal_MsgDeliverResponse_Size x, []))"

definition portal_MsgDeliverResponse_field ::
    "int \<Rightarrow> int \<Rightarrow> portal_MsgDeliverResponse \<Rightarrow> nat \<Rightarrow> bytes \<Rightarrow> (portal_MsgDeliverResponse \<times> nat) result option" where
  "portal_MsgDeliverResponse_field fieldNum wireType x i bs =
     None"

definition portal_MsgDeliverResponse_Unmarshal :: "bytes \<Rightarrow> portal_MsgDeliverResponse result option" where
  "portal_MsgDeliverResponse_Unmarshal bs =
     read_fields (Skip gogo_runtime) portal_MsgDeliverResponse_field (\<lambda>u x. x)
       portal_MsgDeliverResponse 0 bs"

lemma portal_MsgDeliverResponse_written:
  shows "writes (portal_MsgDeliverResponse_Marshal x)
    ([] :: bytes)
    (portal_MsgDeliverResponse_Size x)"
  by (simp add: writes_def portal_MsgDeliverResponse_Marshal_def portal_MsgDeliverResponse_Size_def wire_puts gogo_varint)

lemma portal_MsgDeliverResponse_exact:
  shows "exact_codec (portal_MsgDeliverResponse_Size) (portal_MsgDeliverResponse_Marshal) (portal_MsgDeliverResponse_Unmarshal)
    (\<lambda>x. True)"
  by (rule exact_codecI, rule portal_MsgDeliverResponse_written,
    unfold portal_MsgDeliverResponse_Unmarshal_def, erule readsD [rotated],
    rule reads_done, metis portal_MsgDeliverResponse.exhaust)

lemma portal_MsgDeliverResponse_returns: "\<exists>r. portal_MsgDeliverResponse_Unmarshal bs = Some r"
  unfolding portal_MsgDeliverResponse_Unmarshal_def by (rule read_fields_returns [OF gogo_skip])

subsection \<open>MsgTransfer (portal)\<close>

text \<open>\<open>MsgTransfer\<close> of \<open>types/portal/tx.pb.go\<close>.\<close>

record portal_MsgTransfer =
  portal_MsgTransfer_Signer :: bytes
  portal_MsgTransfer_Amount :: "int option"
  portal_MsgTransfer_DestinationChainId :: "16 word"
  portal_MsgTransfer_DestinationToken :: bytes
  portal_MsgTransfer_Recipient :: bytes

definition portal_MsgTransfer_Size :: "custom \<Rightarrow> portal_MsgTransfer \<Rightarrow> nat" where
  "portal_MsgTransfer_Size ic x =
     size_delimited gogo_runtime (portal_MsgTransfer_Signer x) +
     size_custom (Custom_Marshal ic (portal_MsgTransfer_Amount x)) +
     size_varint gogo_runtime (ucast (portal_MsgTransfer_DestinationChainId x)) +
     size_delimited gogo_runtime (portal_MsgTransfer_DestinationToken x) +
     size_delimited gogo_runtime (portal_MsgTransfer_Recipient x)"

definition portal_MsgTransfer_Marshal :: "custom \<Rightarrow> portal_MsgTransfer \<Rightarrow> bytes result" where
  "portal_MsgTransfer_Marshal ic x =
     obind (put_delimited gogo_runtime 0x2A (portal_MsgTransfer_Recipient x) (portal_MsgTransfer_Size ic x, [])) (\<lambda>b.
     obind (put_delimited gogo_runtime 0x22 (portal_MsgTransfer_DestinationToken x) b) (\<lambda>b.
     obind (put_varint gogo_runtime 0x18 (ucast (portal_MsgTransfer_DestinationChainId x)) b) (\<lambda>b.
     obind (put_custom 0x12 (Custom_Marshal ic (portal_MsgTransfer_Amount x)) b) (\<lambda>b.
     obind (put_delimited gogo_runtime 0xA (portal_MsgTransfer_Signer x) b) (\<lambda>b.
     Ok (sized_bytes b))))))"

definition portal_MsgTransfer_field ::
    "custom \<Rightarrow> int \<Rightarrow> int \<Rightarrow> portal_MsgTransfer \<Rightarrow> nat \<Rightarrow> bytes \<Rightarrow> (portal_MsgTransfer \<times> nat) result option" where
  "portal_MsgTransfer_field ic fieldNum wireType x i bs =
     (if fieldNum = 1 then Some (bytes_field wireType i (\<lambda>v. x\<lparr>portal_MsgTransfer_Signer := v\<rparr>) bs)
      else if fieldNum = 2 then Some (custom_field wireType i (Custom_Unmarshal ic (portal_MsgTransfer_Amount x)) (\<lambda>v. x\<lparr>portal_MsgTransfer_Amount := v\<rparr>) bs)
      else if fieldNum = 3 then Some (varint_field wireType (\<lambda>v. x\<lparr>portal_MsgTransfer_DestinationChainId := v\<rparr>) bs)
      else if fieldNum = 4 then Some (bytes_field wireType i (\<lambda>v. x\<lparr>portal_MsgTransfer_DestinationToken := v\<rparr>) bs)
      else if fieldNum = 5 then Some (bytes_field wireType i (\<lambda>v. x\<lparr>portal_MsgTransfer_Recipient := v\<rparr>) bs)
      else None)"

definition portal_MsgTransfer_Unmarshal :: "custom \<Rightarrow> bytes \<Rightarrow> portal_MsgTransfer result option" where
  "portal_MsgTransfer_Unmarshal ic bs =
     read_fields (Skip gogo_runtime) (portal_MsgTransfer_field ic) (\<lambda>u x. x)
       \<lparr>portal_MsgTransfer_Signer = [], portal_MsgTransfer_Amount = None, portal_MsgTransfer_DestinationChainId = 0, portal_MsgTransfer_DestinationToken = [], portal_MsgTransfer_Recipient = []\<rparr> 0 bs"

lemma portal_MsgTransfer_written:
  assumes "custom_codec ic ok" "given ok (portal_MsgTransfer_Amount x)"
  shows "writes (portal_MsgTransfer_Marshal ic x)
    (delimited_bytes gogo_runtime 0xA (portal_MsgTransfer_Signer x) @
      delimited_bytes gogo_runtime 0x12 (Custom_Marshal ic (portal_MsgTransfer_Amount x)) @
      varint_bytes gogo_runtime 0x18 (ucast (portal_MsgTransfer_DestinationChainId x)) @
      delimited_bytes gogo_runtime 0x22 (portal_MsgTransfer_DestinationToken x) @
      delimited_bytes gogo_runtime 0x2A (portal_MsgTransfer_Recipient x) @
      [])
    (portal_MsgTransfer_Size ic x)"
  using assms(2) by (simp add: writes_def portal_MsgTransfer_Marshal_def portal_MsgTransfer_Size_def wire_puts gogo_varint
    custom_delimited givenD [OF assms(1)])

lemma portal_MsgTransfer_exact:
  assumes "custom_codec ic ok"
  shows "exact_codec (portal_MsgTransfer_Size ic) (portal_MsgTransfer_Marshal ic) (portal_MsgTransfer_Unmarshal ic)
    (\<lambda>x. given ok (portal_MsgTransfer_Amount x))"
  by (rule exact_codecI, rule portal_MsgTransfer_written [OF assms], assumption,
    unfold portal_MsgTransfer_Unmarshal_def, erule readsD [rotated],
    ((rule reads_bytes [OF gogo_varint] reads_varint16 [OF gogo_varint], rule wire_tags, simp add: portal_MsgTransfer_field_def, simp) |
      (rule reads_delimited [OF gogo_varint], rule wire_tags, simp add: portal_MsgTransfer_field_def, simp add: givenD [OF assms], simp add: givenD [OF assms]))+, rule reads_done, simp)

lemma portal_MsgTransfer_returns: "\<exists>r. portal_MsgTransfer_Unmarshal ic bs = Some r"
  unfolding portal_MsgTransfer_Unmarshal_def by (rule read_fields_returns [OF gogo_skip])

lemma portal_MsgTransfer_received:
  assumes "varint_runtime rt" "portalv1_MsgTransfer_unknownFields x = []"
    and "portalv1_MsgTransfer_size rt x < 2 ^ 63" "custom_codec ic ok" "ok a" "portalv1_MsgTransfer_Amount x = Custom_Marshal ic (Some a)"
  shows "\<exists>bs. portalv1_MsgTransfer_marshal rt x = Ok bs \<and> portal_MsgTransfer_Unmarshal ic bs = Some (Ok
     \<lparr>portal_MsgTransfer_Signer = portalv1_MsgTransfer_Signer x,
      portal_MsgTransfer_Amount = Some a,
      portal_MsgTransfer_DestinationChainId = ucast (portalv1_MsgTransfer_DestinationChainId x),
      portal_MsgTransfer_DestinationToken = portalv1_MsgTransfer_DestinationToken x,
      portal_MsgTransfer_Recipient = portalv1_MsgTransfer_Recipient x\<rparr>)"
  by (rule codec_readsI [OF portalv1_MsgTransfer_written [OF assms(1,2)] assms(3)],
    unfold portal_MsgTransfer_Unmarshal_def, erule readsD [rotated],
    ((rule reads_bytes [OF assms(1)] reads_varint16 [OF assms(1)], rule wire_tags, simp add: portal_MsgTransfer_field_def, simp) |
      (rule reads_delimited [OF assms(1)], rule wire_tags, simp add: portal_MsgTransfer_field_def, simp add: assms(6) custom_codecD [OF assms(4,5)], simp add: assms(6) custom_codecD [OF assms(4,5)]))+, rule reads_done, simp)

subsection \<open>MsgTransferResponse (portal)\<close>

text \<open>\<open>MsgTransferResponse\<close> of \<open>types/portal/tx.pb.go\<close>.\<close>

datatype portal_MsgTransferResponse = portal_MsgTransferResponse

definition portal_MsgTransferResponse_Size :: "portal_MsgTransferResponse \<Rightarrow> nat" where
  "portal_MsgTransferResponse_Size x =
     0"

definition portal_MsgTransferResponse_Marshal :: "portal_MsgTransferResponse \<Rightarrow> bytes result" where
  "portal_MsgTransferResponse_Marshal x =
     Ok (sized_bytes (portal_MsgTransferResponse_Size x, []))"

definition portal_MsgTransferResponse_field ::
    "int \<Rightarrow> int \<Rightarrow> portal_MsgTransferResponse \<Rightarrow> nat \<Rightarrow> bytes \<Rightarrow> (portal_MsgTransferResponse \<times> nat) result option" where
  "portal_MsgTransferResponse_field fieldNum wireType x i bs =
     None"

definition portal_MsgTransferResponse_Unmarshal :: "bytes \<Rightarrow> portal_MsgTransferResponse result option" where
  "portal_MsgTransferResponse_Unmarshal bs =
     read_fields (Skip gogo_runtime) portal_MsgTransferResponse_field (\<lambda>u x. x)
       portal_MsgTransferResponse 0 bs"

lemma portal_MsgTransferResponse_written:
  shows "writes (portal_MsgTransferResponse_Marshal x)
    ([] :: bytes)
    (portal_MsgTransferResponse_Size x)"
  by (simp add: writes_def portal_MsgTransferResponse_Marshal_def portal_MsgTransferResponse_Size_def wire_puts gogo_varint)

lemma portal_MsgTransferResponse_exact:
  shows "exact_codec (portal_MsgTransferResponse_Size) (portal_MsgTransferResponse_Marshal) (portal_MsgTransferResponse_Unmarshal)
    (\<lambda>x. True)"
  by (rule exact_codecI, rule portal_MsgTransferResponse_written,
    unfold portal_MsgTransferResponse_Unmarshal_def, erule readsD [rotated],
    rule reads_done, metis portal_MsgTransferResponse.exhaust)

lemma portal_MsgTransferResponse_returns: "\<exists>r. portal_MsgTransferResponse_Unmarshal bs = Some r"
  unfolding portal_MsgTransferResponse_Unmarshal_def by (rule read_fields_returns [OF gogo_skip])

subsection \<open>MsgSetPausedState (portal)\<close>

text \<open>\<open>MsgSetPausedState\<close> of \<open>types/portal/tx.pb.go\<close>.\<close>

record portal_MsgSetPausedState =
  portal_MsgSetPausedState_Signer :: bytes
  portal_MsgSetPausedState_Paused :: bool

definition portal_MsgSetPausedState_Size :: "portal_MsgSetPausedState \<Rightarrow> nat" where
  "portal_MsgSetPausedState_Size x =
     size_delimited gogo_runtime (portal_MsgSetPausedState_Signer x) +
     size_bool (portal_MsgSetPausedState_Paused x)"

definition portal_MsgSetPausedState_Marshal :: "portal_MsgSetPausedState \<Rightarrow> bytes result" where
  "portal_MsgSetPausedState_Marshal x =
     obind (put_bool 0x10 (portal_MsgSetPausedState_Paused x) (portal_MsgSetPausedState_Size x, [])) (\<lambda>b.
     obind (put_delimited gogo_runtime 0xA (portal_MsgSetPausedState_Signer x) b) (\<lambda>b.
     Ok (sized_bytes b)))"

definition portal_MsgSetPausedState_field ::
    "int \<Rightarrow> int \<Rightarrow> portal_MsgSetPausedState \<Rightarrow> nat \<Rightarrow> bytes \<Rightarrow> (portal_MsgSetPausedState \<times> nat) result option" where
  "portal_MsgSetPausedState_field fieldNum wireType x i bs =
     (if fieldNum = 1 then Some (bytes_field wireType i (\<lambda>v. x\<lparr>portal_MsgSetPausedState_Signer := v\<rparr>) bs)
      else if fieldNum = 2 then Some (bool_field wireType (\<lambda>v. x\<lparr>portal_MsgSetPausedState_Paused := v\<rparr>) bs)
      else None)"

definition portal_MsgSetPausedState_Unmarshal :: "bytes \<Rightarrow> portal_MsgSetPausedState result option" where
  "portal_MsgSetPausedState_Unmarshal bs =
     read_fields (Skip gogo_runtime) portal_MsgSetPausedState_field (\<lambda>u x. x)
       \<lparr>portal_MsgSetPausedState_Signer = [], portal_MsgSetPausedState_Paused = False\<rparr> 0 bs"

lemma portal_MsgSetPausedState_written:
  shows "writes (portal_MsgSetPausedState_Marshal x)
    (delimited_bytes gogo_runtime 0xA (portal_MsgSetPausedState_Signer x) @
      bool_bytes 0x10 (portal_MsgSetPausedState_Paused x) @
      [])
    (portal_MsgSetPausedState_Size x)"
  by (simp add: writes_def portal_MsgSetPausedState_Marshal_def portal_MsgSetPausedState_Size_def wire_puts gogo_varint)

lemma portal_MsgSetPausedState_exact:
  shows "exact_codec (portal_MsgSetPausedState_Size) (portal_MsgSetPausedState_Marshal) (portal_MsgSetPausedState_Unmarshal)
    (\<lambda>x. True)"
  by (rule exact_codecI, rule portal_MsgSetPausedState_written,
    unfold portal_MsgSetPausedState_Unmarshal_def, erule readsD [rotated],
    (rule reads_bytes [OF gogo_varint] reads_bool, rule wire_tags, simp add: portal_MsgSetPausedState_field_def, simp)+, rule reads_done, simp)

lemma portal_MsgSetPausedState_returns: "\<exists>r. portal_MsgSetPausedState_Unmarshal bs = Some r"
  unfolding portal_MsgSetPausedState_Unmarshal_def by (rule read_fields_returns [OF gogo_skip])

lemma portal_MsgSetPausedState_received:
  assumes "varint_runtime rt" "portalv1_MsgSetPausedState_unknownFields x = []"
    and "portalv1_MsgSetPausedState_size rt x < 2 ^ 63"
  shows "\<exists>bs. portalv1_MsgSetPausedState_marshal rt x = Ok bs \<and> portal_MsgSetPausedState_Unmarshal bs = Some (Ok
     \<lparr>portal_MsgSetPausedState_Signer = portalv1_MsgSetPausedState_Signer x,
      portal_MsgSetPausedState_Paused = portalv1_MsgSetPausedState_Paused x\<rparr>)"
  by (rule codec_readsI [OF portalv1_MsgSetPausedState_written [OF assms(1,2)] assms(3)],
    unfold portal_MsgSetPausedState_Unmarshal_def, erule readsD [rotated],
    (rule reads_bytes [OF assms(1)] reads_bool, rule wire_tags, simp add: portal_MsgSetPausedState_field_def, simp)+, rule reads_done, simp)

subsection \<open>MsgSetPausedStateResponse (portal)\<close>

text \<open>\<open>MsgSetPausedStateResponse\<close> of \<open>types/portal/tx.pb.go\<close>.\<close>

datatype portal_MsgSetPausedStateResponse = portal_MsgSetPausedStateResponse

definition portal_MsgSetPausedStateResponse_Size :: "portal_MsgSetPausedStateResponse \<Rightarrow> nat" where
  "portal_MsgSetPausedStateResponse_Size x =
     0"

definition portal_MsgSetPausedStateResponse_Marshal :: "portal_MsgSetPausedStateResponse \<Rightarrow> bytes result" where
  "portal_MsgSetPausedStateResponse_Marshal x =
     Ok (sized_bytes (portal_MsgSetPausedStateResponse_Size x, []))"

definition portal_MsgSetPausedStateResponse_field ::
    "int \<Rightarrow> int \<Rightarrow> portal_MsgSetPausedStateResponse \<Rightarrow> nat \<Rightarrow> bytes \<Rightarrow> (portal_MsgSetPausedStateResponse \<times> nat) result option" where
  "portal_MsgSetPausedStateResponse_field fieldNum wireType x i bs =
     None"

definition portal_MsgSetPausedStateResponse_Unmarshal :: "bytes \<Rightarrow> portal_MsgSetPausedStateResponse result option" where
  "portal_MsgSetPausedStateResponse_Unmarshal bs =
     read_fields (Skip gogo_runtime) portal_MsgSetPausedStateResponse_field (\<lambda>u x. x)
       portal_MsgSetPausedStateResponse 0 bs"

lemma portal_MsgSetPausedStateResponse_written:
  shows "writes (portal_MsgSetPausedStateResponse_Marshal x)
    ([] :: bytes)
    (portal_MsgSetPausedStateResponse_Size x)"
  by (simp add: writes_def portal_MsgSetPausedStateResponse_Marshal_def portal_MsgSetPausedStateResponse_Size_def wire_puts gogo_varint)

lemma portal_MsgSetPausedStateResponse_exact:
  shows "exact_codec (portal_MsgSetPausedStateResponse_Size) (portal_MsgSetPausedStateResponse_Marshal) (portal_MsgSetPausedStateResponse_Unmarshal)
    (\<lambda>x. True)"
  by (rule exact_codecI, rule portal_MsgSetPausedStateResponse_written,
    unfold portal_MsgSetPausedStateResponse_Unmarshal_def, erule readsD [rotated],
    rule reads_done, metis portal_MsgSetPausedStateResponse.exhaust)

lemma portal_MsgSetPausedStateResponse_returns: "\<exists>r. portal_MsgSetPausedStateResponse_Unmarshal bs = Some r"
  unfolding portal_MsgSetPausedStateResponse_Unmarshal_def by (rule read_fields_returns [OF gogo_skip])

subsection \<open>MsgSetPeer (portal)\<close>

text \<open>\<open>MsgSetPeer\<close> of \<open>types/portal/tx.pb.go\<close>.\<close>

record portal_MsgSetPeer =
  portal_MsgSetPeer_Signer :: bytes
  portal_MsgSetPeer_Chain :: "16 word"
  portal_MsgSetPeer_Transceiver :: bytes
  portal_MsgSetPeer_Manager :: bytes

definition portal_MsgSetPeer_Size :: "portal_MsgSetPeer \<Rightarrow> nat" where
  "portal_MsgSetPeer_Size x =
     size_delimited gogo_runtime (portal_MsgSetPeer_Signer x) +
     size_varint gogo_runtime (ucast (portal_MsgSetPeer_Chain x)) +
     size_delimited gogo_runtime (portal_MsgSetPeer_Transceiver x) +
     size_delimited gogo_runtime (portal_MsgSetPeer_Manager x)"

definition portal_MsgSetPeer_Marshal :: "portal_MsgSetPeer \<Rightarrow> bytes result" where
  "portal_MsgSetPeer_Marshal x =
     obind (put_delimited gogo_runtime 0x22 (portal_MsgSetPeer_Manager x) (portal_MsgSetPeer_Size x, [])) (\<lambda>b.
     obind (put_delimited gogo_runtime 0x1A (portal_MsgSetPeer_Transceiver x) b) (\<lambda>b.
     obind (put_varint gogo_runtime 0x10 (ucast (portal_MsgSetPeer_Chain x)) b) (\<lambda>b.
     obind (put_delimited gogo_runtime 0xA (portal_MsgSetPeer_Signer x) b) (\<lambda>b.
     Ok (sized_bytes b)))))"

definition portal_MsgSetPeer_field ::
    "int \<Rightarrow> int \<Rightarrow> portal_MsgSetPeer \<Rightarrow> nat \<Rightarrow> bytes \<Rightarrow> (portal_MsgSetPeer \<times> nat) result option" where
  "portal_MsgSetPeer_field fieldNum wireType x i bs =
     (if fieldNum = 1 then Some (bytes_field wireType i (\<lambda>v. x\<lparr>portal_MsgSetPeer_Signer := v\<rparr>) bs)
      else if fieldNum = 2 then Some (varint_field wireType (\<lambda>v. x\<lparr>portal_MsgSetPeer_Chain := v\<rparr>) bs)
      else if fieldNum = 3 then Some (bytes_field wireType i (\<lambda>v. x\<lparr>portal_MsgSetPeer_Transceiver := v\<rparr>) bs)
      else if fieldNum = 4 then Some (bytes_field wireType i (\<lambda>v. x\<lparr>portal_MsgSetPeer_Manager := v\<rparr>) bs)
      else None)"

definition portal_MsgSetPeer_Unmarshal :: "bytes \<Rightarrow> portal_MsgSetPeer result option" where
  "portal_MsgSetPeer_Unmarshal bs =
     read_fields (Skip gogo_runtime) portal_MsgSetPeer_field (\<lambda>u x. x)
       \<lparr>portal_MsgSetPeer_Signer = [], portal_MsgSetPeer_Chain = 0, portal_MsgSetPeer_Transceiver = [], portal_MsgSetPeer_Manager = []\<rparr> 0 bs"

lemma portal_MsgSetPeer_written:
  shows "writes (portal_MsgSetPeer_Marshal x)
    (delimited_bytes gogo_runtime 0xA (portal_MsgSetPeer_Signer x) @
      varint_bytes gogo_runtime 0x10 (ucast (portal_MsgSetPeer_Chain x)) @
      delimited_bytes gogo_runtime 0x1A (portal_MsgSetPeer_Transceiver x) @
      delimited_bytes gogo_runtime 0x22 (portal_MsgSetPeer_Manager x) @
      [])
    (portal_MsgSetPeer_Size x)"
  by (simp add: writes_def portal_MsgSetPeer_Marshal_def portal_MsgSetPeer_Size_def wire_puts gogo_varint)

lemma portal_MsgSetPeer_exact:
  shows "exact_codec (portal_MsgSetPeer_Size) (portal_MsgSetPeer_Marshal) (portal_MsgSetPeer_Unmarshal)
    (\<lambda>x. True)"
  by (rule exact_codecI, rule portal_MsgSetPeer_written,
    unfold portal_MsgSetPeer_Unmarshal_def, erule readsD [rotated],
    (rule reads_bytes [OF gogo_varint] reads_varint16 [OF gogo_varint], rule wire_tags, simp add: portal_MsgSetPeer_field_def, simp)+, rule reads_done, simp)

lemma portal_MsgSetPeer_returns: "\<exists>r. portal_MsgSetPeer_Unmarshal bs = Some r"
  unfolding portal_MsgSetPeer_Unmarshal_def by (rule read_fields_returns [OF gogo_skip])

lemma portal_MsgSetPeer_received:
  assumes "varint_runtime rt" "portalv1_MsgSetPeer_unknownFields x = []"
    and "portalv1_MsgSetPeer_size rt x < 2 ^ 63"
  shows "\<exists>bs. portalv1_MsgSetPeer_marshal rt x = Ok bs \<and> portal_MsgSetPeer_Unmarshal bs = Some (Ok
     \<lparr>portal_MsgSetPeer_Signer = portalv1_MsgSetPeer_Signer x,
      portal_MsgSetPeer_Chain = ucast (portalv1_MsgSetPeer_Chain x),
      portal_MsgSetPeer_Transceiver = portalv1_MsgSetPeer_Transceiver x,
      portal_MsgSetPeer_Manager = portalv1_MsgSetPeer_Manager x\<rparr>)"
  by (rule codec_readsI [OF portalv1_MsgSetPeer_written [OF assms(1,2)] assms(3)],
    unfold portal_MsgSetPeer_Unmarshal_def, erule readsD [rotated],
    (rule reads_bytes [OF assms(1)] reads_varint16 [OF assms(1)], rule wire_tags, simp add: portal_MsgSetPeer_field_def, simp)+, rule reads_done, simp)

subsection \<open>MsgSetPeerResponse (portal)\<close>

text \<open>\<open>MsgSetPeerResponse\<close> of \<open>types/portal/tx.pb.go\<close>.\<close>

datatype portal_MsgSetPeerResponse = portal_MsgSetPeerResponse

definition portal_MsgSetPeerResponse_Size :: "portal_MsgSetPeerResponse \<Rightarrow> nat" where
  "portal_MsgSetPeerResponse_Size x =
     0"

definition portal_MsgSetPeerResponse_Marshal :: "portal_MsgSetPeerResponse \<Rightarrow> bytes result" where
  "portal_MsgSetPeerResponse_Marshal x =
     Ok (sized_bytes (portal_MsgSetPeerResponse_Size x, []))"

definition portal_MsgSetPeerResponse_field ::
    "int \<Rightarrow> int \<Rightarrow> portal_MsgSetPeerResponse \<Rightarrow> nat \<Rightarrow> bytes \<Rightarrow> (portal_MsgSetPeerResponse \<times> nat) result option" where
  "portal_MsgSetPeerResponse_field fieldNum wireType x i bs =
     None"

definition portal_MsgSetPeerResponse_Unmarshal :: "bytes \<Rightarrow> portal_MsgSetPeerResponse result option" where
  "portal_MsgSetPeerResponse_Unmarshal bs =
     read_fields (Skip gogo_runtime) portal_MsgSetPeerResponse_field (\<lambda>u x. x)
       portal_MsgSetPeerResponse 0 bs"

lemma portal_MsgSetPeerResponse_written:
  shows "writes (portal_MsgSetPeerResponse_Marshal x)
    ([] :: bytes)
    (portal_MsgSetPeerResponse_Size x)"
  by (simp add: writes_def portal_MsgSetPeerResponse_Marshal_def portal_MsgSetPeerResponse_Size_def wire_puts gogo_varint)

lemma portal_MsgSetPeerResponse_exact:
  shows "exact_codec (portal_MsgSetPeerResponse_Size) (portal_MsgSetPeerResponse_Marshal) (portal_MsgSetPeerResponse_Unmarshal)
    (\<lambda>x. True)"
  by (rule exact_codecI, rule portal_MsgSetPeerResponse_written,
    unfold portal_MsgSetPeerResponse_Unmarshal_def, erule readsD [rotated],
    rule reads_done, metis portal_MsgSetPeerResponse.exhaust)

lemma portal_MsgSetPeerResponse_returns: "\<exists>r. portal_MsgSetPeerResponse_Unmarshal bs = Some r"
  unfolding portal_MsgSetPeerResponse_Unmarshal_def by (rule read_fields_returns [OF gogo_skip])

subsection \<open>MsgSetBridgingPath (portal)\<close>

text \<open>\<open>MsgSetBridgingPath\<close> of \<open>types/portal/tx.pb.go\<close>.\<close>

record portal_MsgSetBridgingPath =
  portal_MsgSetBridgingPath_Signer :: bytes
  portal_MsgSetBridgingPath_DestinationChainId :: "16 word"
  portal_MsgSetBridgingPath_DestinationToken :: bytes
  portal_MsgSetBridgingPath_Supported :: bool

definition portal_MsgSetBridgingPath_Size :: "portal_MsgSetBridgingPath \<Rightarrow> nat" where
  "portal_MsgSetBridgingPath_Size x =
     size_delimited gogo_runtime (portal_MsgSetBridgingPath_Signer x) +
     size_varint gogo_runtime (ucast (portal_MsgSetBridgingPath_DestinationChainId x)) +
     size_delimited gogo_runtime (portal_MsgSetBridgingPath_DestinationToken x) +
     size_bool (portal_MsgSetBridgingPath_Supported x)"

definition portal_MsgSetBridgingPath_Marshal :: "portal_MsgSetBridgingPath \<Rightarrow> bytes result" where
  "portal_MsgSetBridgingPath_Marshal x =
     obind (put_bool 0x20 (portal_MsgSetBridgingPath_Supported x) (portal_MsgSetBridgingPath_Size x, [])) (\<lambda>b.
     obind (put_delimited gogo_runtime 0x1A (portal_MsgSetBridgingPath_DestinationToken x) b) (\<lambda>b.
     obind (put_varint gogo_runtime 0x10 (ucast (portal_MsgSetBridgingPath_DestinationChainId x)) b) (\<lambda>b.
     obind (put_delimited gogo_runtime 0xA (portal_MsgSetBridgingPath_Signer x) b) (\<lambda>b.
     Ok (sized_bytes b)))))"

definition portal_MsgSetBridgingPath_field ::
    "int \<Rightarrow> int \<Rightarrow> portal_MsgSetBridgingPath \<Rightarrow> nat \<Rightarrow> bytes \<Rightarrow> (portal_MsgSetBridgingPath \<times> nat) result option" where
  "portal_MsgSetBridgingPath_field fieldNum wireType x i bs =
     (if fieldNum = 1 then Some (bytes_field wireType i (\<lambda>v. x\<lparr>portal_MsgSetBridgingPath_Signer := v\<rparr>) bs)
      else if fieldNum = 2 then Some (varint_field wireType (\<lambda>v. x\<lparr>portal_MsgSetBridgingPath_DestinationChainId := v\<rparr>) bs)
      else if fieldNum = 3 then Some (bytes_field wireType i (\<lambda>v. x\<lparr>portal_MsgSetBridgingPath_DestinationToken := v\<rparr>) bs)
      else if fieldNum = 4 then Some (bool_field wireType (\<lambda>v. x\<lparr>portal_MsgSetBridgingPath_Supported := v\<rparr>) bs)
      else None)"

definition portal_MsgSetBridgingPath_Unmarshal :: "bytes \<Rightarrow> portal_MsgSetBridgingPath result option" where
  "portal_MsgSetBridgingPath_Unmarshal bs =
     read_fields (Skip gogo_runtime) portal_MsgSetBridgingPath_field (\<lambda>u x. x)
       \<lparr>portal_MsgSetBridgingPath_Signer = [], portal_MsgSetBridgingPath_DestinationChainId = 0, portal_MsgSetBridgingPath_DestinationToken = [], portal_MsgSetBridgingPath_Supported = False\<rparr> 0 bs"

lemma portal_MsgSetBridgingPath_written:
  shows "writes (portal_MsgSetBridgingPath_Marshal x)
    (delimited_bytes gogo_runtime 0xA (portal_MsgSetBridgingPath_Signer x) @
      varint_bytes gogo_runtime 0x10 (ucast (portal_MsgSetBridgingPath_DestinationChainId x)) @
      delimited_bytes gogo_runtime 0x1A (portal_MsgSetBridgingPath_DestinationToken x) @
      bool_bytes 0x20 (portal_MsgSetBridgingPath_Supported x) @
      [])
    (portal_MsgSetBridgingPath_Size x)"
  by (simp add: writes_def portal_MsgSetBridgingPath_Marshal_def portal_MsgSetBridgingPath_Size_def wire_puts gogo_varint)

lemma portal_MsgSetBridgingPath_exact:
  shows "exact_codec (portal_MsgSetBridgingPath_Size) (portal_MsgSetBridgingPath_Marshal) (portal_MsgSetBridgingPath_Unmarshal)
    (\<lambda>x. True)"
  by (rule exact_codecI, rule portal_MsgSetBridgingPath_written,
    unfold portal_MsgSetBridgingPath_Unmarshal_def, erule readsD [rotated],
    (rule reads_bytes [OF gogo_varint] reads_varint16 [OF gogo_varint] reads_bool, rule wire_tags, simp add: portal_MsgSetBridgingPath_field_def, simp)+, rule reads_done, simp)

lemma portal_MsgSetBridgingPath_returns: "\<exists>r. portal_MsgSetBridgingPath_Unmarshal bs = Some r"
  unfolding portal_MsgSetBridgingPath_Unmarshal_def by (rule read_fields_returns [OF gogo_skip])

lemma portal_MsgSetBridgingPath_received:
  assumes "varint_runtime rt" "portalv1_MsgSetBridgingPath_unknownFields x = []"
    and "portalv1_MsgSetBridgingPath_size rt x < 2 ^ 63"
  shows "\<exists>bs. portalv1_MsgSetBridgingPath_marshal rt x = Ok bs \<and> portal_MsgSetBridgingPath_Unmarshal bs = Some (Ok
     \<lparr>portal_MsgSetBridgingPath_Signer = portalv1_MsgSetBridgingPath_Signer x,
      portal_MsgSetBridgingPath_DestinationChainId = ucast (portalv1_MsgSetBridgingPath_DestinationChainId x),
      portal_MsgSetBridgingPath_DestinationToken = portalv1_MsgSetBridgingPath_DestinationToken x,
      portal_MsgSetBridgingPath_Supported = portalv1_MsgSetBridgingPath_Supported x\<rparr>)"
  by (rule codec_readsI [OF portalv1_MsgSetBridgingPath_written [OF assms(1,2)] assms(3)],
    unfold portal_MsgSetBridgingPath_Unmarshal_def, erule readsD [rotated],
    (rule reads_bytes [OF assms(1)] reads_varint16 [OF assms(1)] reads_bool, rule wire_tags, simp add: portal_MsgSetBridgingPath_field_def, simp)+, rule reads_done, simp)

subsection \<open>MsgSetBridgingPathResponse (portal)\<close>

text \<open>\<open>MsgSetBridgingPathResponse\<close> of \<open>types/portal/tx.pb.go\<close>.\<close>

datatype portal_MsgSetBridgingPathResponse = portal_MsgSetBridgingPathResponse

definition portal_MsgSetBridgingPathResponse_Size :: "portal_MsgSetBridgingPathResponse \<Rightarrow> nat" where
  "portal_MsgSetBridgingPathResponse_Size x =
     0"

definition portal_MsgSetBridgingPathResponse_Marshal :: "portal_MsgSetBridgingPathResponse \<Rightarrow> bytes result" where
  "portal_MsgSetBridgingPathResponse_Marshal x =
     Ok (sized_bytes (portal_MsgSetBridgingPathResponse_Size x, []))"

definition portal_MsgSetBridgingPathResponse_field ::
    "int \<Rightarrow> int \<Rightarrow> portal_MsgSetBridgingPathResponse \<Rightarrow> nat \<Rightarrow> bytes \<Rightarrow> (portal_MsgSetBridgingPathResponse \<times> nat) result option" where
  "portal_MsgSetBridgingPathResponse_field fieldNum wireType x i bs =
     None"

definition portal_MsgSetBridgingPathResponse_Unmarshal :: "bytes \<Rightarrow> portal_MsgSetBridgingPathResponse result option" where
  "portal_MsgSetBridgingPathResponse_Unmarshal bs =
     read_fields (Skip gogo_runtime) portal_MsgSetBridgingPathResponse_field (\<lambda>u x. x)
       portal_MsgSetBridgingPathResponse 0 bs"

lemma portal_MsgSetBridgingPathResponse_written:
  shows "writes (portal_MsgSetBridgingPathResponse_Marshal x)
    ([] :: bytes)
    (portal_MsgSetBridgingPathResponse_Size x)"
  by (simp add: writes_def portal_MsgSetBridgingPathResponse_Marshal_def portal_MsgSetBridgingPathResponse_Size_def wire_puts gogo_varint)

lemma portal_MsgSetBridgingPathResponse_exact:
  shows "exact_codec (portal_MsgSetBridgingPathResponse_Size) (portal_MsgSetBridgingPathResponse_Marshal) (portal_MsgSetBridgingPathResponse_Unmarshal)
    (\<lambda>x. True)"
  by (rule exact_codecI, rule portal_MsgSetBridgingPathResponse_written,
    unfold portal_MsgSetBridgingPathResponse_Unmarshal_def, erule readsD [rotated],
    rule reads_done, metis portal_MsgSetBridgingPathResponse.exhaust)

lemma portal_MsgSetBridgingPathResponse_returns: "\<exists>r. portal_MsgSetBridgingPathResponse_Unmarshal bs = Some r"
  unfolding portal_MsgSetBridgingPathResponse_Unmarshal_def by (rule read_fields_returns [OF gogo_skip])

subsection \<open>MsgTransferOwnership (portal)\<close>

text \<open>\<open>MsgTransferOwnership\<close> of \<open>types/portal/tx.pb.go\<close>.\<close>

record portal_MsgTransferOwnership =
  portal_MsgTransferOwnership_Signer :: bytes
  portal_MsgTransferOwnership_NewOwner :: bytes

definition portal_MsgTransferOwnership_Size :: "portal_MsgTransferOwnership \<Rightarrow> nat" where
  "portal_MsgTransferOwnership_Size x =
     size_delimited gogo_runtime (portal_MsgTransferOwnership_Signer x) +
     size_delimited gogo_runtime (portal_MsgTransferOwnership_NewOwner x)"

definition portal_MsgTransferOwnership_Marshal :: "portal_MsgTransferOwnership \<Rightarrow> bytes result" where
  "portal_MsgTransferOwnership_Marshal x =
     obind (put_delimited gogo_runtime 0x12 (portal_MsgTransferOwnership_NewOwner x) (portal_MsgTransferOwnership_Size x, [])) (\<lambda>b.
     obind (put_delimited gogo_runtime 0xA (portal_MsgTransferOwnership_Signer x) b) (\<lambda>b.
     Ok (sized_bytes b)))"

definition portal_MsgTransferOwnership_field ::
    "int \<Rightarrow> int \<Rightarrow> portal_MsgTransferOwnership \<Rightarrow> nat \<Rightarrow> bytes \<Rightarrow> (portal_MsgTransferOwnership \<times> nat) result option" where
  "portal_MsgTransferOwnership_field fieldNum wireType x i bs =
     (if fieldNum = 1 then Some (bytes_field wireType i (\<lambda>v. x\<lparr>portal_MsgTransferOwnership_Signer := v\<rparr>) bs)
      else if fieldNum = 2 then Some (bytes_field wireType i (\<lambda>v. x\<lparr>portal_MsgTransferOwnership_NewOwner := v\<rparr>) bs)
      else None)"

definition portal_MsgTransferOwnership_Unmarshal :: "bytes \<Rightarrow> portal_MsgTransferOwnership result option" where
  "portal_MsgTransferOwnership_Unmarshal bs =
     read_fields (Skip gogo_runtime) portal_MsgTransferOwnership_field (\<lambda>u x. x)
       \<lparr>portal_MsgTransferOwnership_Signer = [], portal_MsgTransferOwnership_NewOwner = []\<rparr> 0 bs"

lemma portal_MsgTransferOwnership_written:
  shows "writes (portal_MsgTransferOwnership_Marshal x)
    (delimited_bytes gogo_runtime 0xA (portal_MsgTransferOwnership_Signer x) @
      delimited_bytes gogo_runtime 0x12 (portal_MsgTransferOwnership_NewOwner x) @
      [])
    (portal_MsgTransferOwnership_Size x)"
  by (simp add: writes_def portal_MsgTransferOwnership_Marshal_def portal_MsgTransferOwnership_Size_def wire_puts gogo_varint)

lemma portal_MsgTransferOwnership_exact:
  shows "exact_codec (portal_MsgTransferOwnership_Size) (portal_MsgTransferOwnership_Marshal) (portal_MsgTransferOwnership_Unmarshal)
    (\<lambda>x. True)"
  by (rule exact_codecI, rule portal_MsgTransferOwnership_written,
    unfold portal_MsgTransferOwnership_Unmarshal_def, erule readsD [rotated],
    (rule reads_bytes [OF gogo_varint], rule wire_tags, simp add: portal_MsgTransferOwnership_field_def, simp)+, rule reads_done, simp)

lemma portal_MsgTransferOwnership_returns: "\<exists>r. portal_MsgTransferOwnership_Unmarshal bs = Some r"
  unfolding portal_MsgTransferOwnership_Unmarshal_def by (rule read_fields_returns [OF gogo_skip])

lemma portal_MsgTransferOwnership_received:
  assumes "varint_runtime rt" "portalv1_MsgTransferOwnership_unknownFields x = []"
    and "portalv1_MsgTransferOwnership_size rt x < 2 ^ 63"
  shows "\<exists>bs. portalv1_MsgTransferOwnership_marshal rt x = Ok bs \<and> portal_MsgTransferOwnership_Unmarshal bs = Some (Ok
     \<lparr>portal_MsgTransferOwnership_Signer = portalv1_MsgTransferOwnership_Signer x,
      portal_MsgTransferOwnership_NewOwner = portalv1_MsgTransferOwnership_NewOwner x\<rparr>)"
  by (rule codec_readsI [OF portalv1_MsgTransferOwnership_written [OF assms(1,2)] assms(3)],
    unfold portal_MsgTransferOwnership_Unmarshal_def, erule readsD [rotated],
    (rule reads_bytes [OF assms(1)], rule wire_tags, simp add: portal_MsgTransferOwnership_field_def, simp)+, rule reads_done, simp)

subsection \<open>MsgTransferOwnershipResponse (portal)\<close>

text \<open>\<open>MsgTransferOwnershipResponse\<close> of \<open>types/portal/tx.pb.go\<close>.\<close>

datatype portal_MsgTransferOwnershipResponse = portal_MsgTransferOwnershipResponse

definition portal_MsgTransferOwnershipResponse_Size :: "portal_MsgTransferOwnershipResponse \<Rightarrow> nat" where
  "portal_MsgTransferOwnershipResponse_Size x =
     0"

definition portal_MsgTransferOwnershipResponse_Marshal :: "portal_MsgTransferOwnershipResponse \<Rightarrow> bytes result" where
  "portal_MsgTransferOwnershipResponse_Marshal x =
     Ok (sized_bytes (portal_MsgTransferOwnershipResponse_Size x, []))"

definition portal_MsgTransferOwnershipResponse_field ::
    "int \<Rightarrow> int \<Rightarrow> portal_MsgTransferOwnershipResponse \<Rightarrow> nat \<Rightarrow> bytes \<Rightarrow> (portal_MsgTransferOwnershipResponse \<times> nat) result option" where
  "portal_MsgTransferOwnershipResponse_field fieldNum wireType x i bs =
     None"

definition portal_MsgTransferOwnershipResponse_Unmarshal :: "bytes \<Rightarrow> portal_MsgTransferOwnershipResponse result option" where
  "portal_MsgTransferOwnershipResponse_Unmarshal bs =
     read_fields (Skip gogo_runtime) portal_MsgTransferOwnershipResponse_field (\<lambda>u x. x)
       portal_MsgTransferOwnershipResponse 0 bs"

lemma portal_MsgTransferOwnershipResponse_written:
  shows "writes (portal_MsgTransferOwnershipResponse_Marshal x)
    ([] :: bytes)
    (portal_MsgTransferOwnershipResponse_Size x)"
  by (simp add: writes_def portal_MsgTransferOwnershipResponse_Marshal_def portal_MsgTransferOwnershipResponse_Size_def wire_puts gogo_varint)

lemma portal_MsgTransferOwnershipResponse_exact:
  shows "exact_codec (portal_MsgTransferOwnershipResponse_Size) (portal_MsgTransferOwnershipResponse_Marshal) (portal_MsgTransferOwnershipResponse_Unmarshal)
    (\<lambda>x. True)"
  by (rule exact_codecI, rule portal_MsgTransferOwnershipResponse_written,
    unfold portal_MsgTransferOwnershipResponse_Unmarshal_def, erule readsD [rotated],
    rule reads_done, metis portal_MsgTransferOwnershipResponse.exhaust)

lemma portal_MsgTransferOwnershipResponse_returns: "\<exists>r. portal_MsgTransferOwnershipResponse_Unmarshal bs = Some r"
  unfolding portal_MsgTransferOwnershipResponse_Unmarshal_def by (rule read_fields_returns [OF gogo_skip])

subsection \<open>MsgDeliverInjection (portal)\<close>

text \<open>\<open>MsgDeliverInjection\<close> of \<open>types/portal/injection.pb.go\<close>.\<close>

record portal_MsgDeliverInjection =
  portal_MsgDeliverInjection_Vaa :: bytes

definition portal_MsgDeliverInjection_Size :: "portal_MsgDeliverInjection \<Rightarrow> nat" where
  "portal_MsgDeliverInjection_Size x =
     size_delimited gogo_runtime (portal_MsgDeliverInjection_Vaa x)"

definition portal_MsgDeliverInjection_Marshal :: "portal_MsgDeliverInjection \<Rightarrow> bytes result" where
  "portal_MsgDeliverInjection_Marshal x =
     obind (put_delimited gogo_runtime 0xA (portal_MsgDeliverInjection_Vaa x) (portal_MsgDeliverInjection_Size x, [])) (\<lambda>b.
     Ok (sized_bytes b))"

definition portal_MsgDeliverInjection_field ::
    "int \<Rightarrow> int \<Rightarrow> portal_MsgDeliverInjection \<Rightarrow> nat \<Rightarrow> bytes \<Rightarrow> (portal_MsgDeliverInjection \<times> nat) result option" where
  "portal_MsgDeliverInjection_field fieldNum wireType x i bs =
     (if fieldNum = 1 then Some (bytes_field wireType i (\<lambda>v. x\<lparr>portal_MsgDeliverInjection_Vaa := v\<rparr>) bs)
      else None)"

definition portal_MsgDeliverInjection_Unmarshal :: "bytes \<Rightarrow> portal_MsgDeliverInjection result option" where
  "portal_MsgDeliverInjection_Unmarshal bs =
     read_fields (Skip gogo_runtime) portal_MsgDeliverInjection_field (\<lambda>u x. x)
       \<lparr>portal_MsgDeliverInjection_Vaa = []\<rparr> 0 bs"

lemma portal_MsgDeliverInjection_written:
  shows "writes (portal_MsgDeliverInjection_Marshal x)
    (delimited_bytes gogo_runtime 0xA (portal_MsgDeliverInjection_Vaa x) @
      [])
    (portal_MsgDeliverInjection_Size x)"
  by (simp add: writes_def portal_MsgDeliverInjection_Marshal_def portal_MsgDeliverInjection_Size_def wire_puts gogo_varint)

lemma portal_MsgDeliverInjection_exact:
  shows "exact_codec (portal_MsgDeliverInjection_Size) (portal_MsgDeliverInjection_Marshal) (portal_MsgDeliverInjection_Unmarshal)
    (\<lambda>x. True)"
  by (rule exact_codecI, rule portal_MsgDeliverInjection_written,
    unfold portal_MsgDeliverInjection_Unmarshal_def, erule readsD [rotated],
    (rule reads_bytes [OF gogo_varint], rule wire_tags, simp add: portal_MsgDeliverInjection_field_def, simp)+, rule reads_done, simp)

lemma portal_MsgDeliverInjection_returns: "\<exists>r. portal_MsgDeliverInjection_Unmarshal bs = Some r"
  unfolding portal_MsgDeliverInjection_Unmarshal_def by (rule read_fields_returns [OF gogo_skip])

lemma portal_MsgDeliverInjection_received:
  assumes "varint_runtime rt" "portalv1_MsgDeliverInjection_unknownFields x = []"
    and "portalv1_MsgDeliverInjection_size rt x < 2 ^ 63"
  shows "\<exists>bs. portalv1_MsgDeliverInjection_marshal rt x = Ok bs \<and> portal_MsgDeliverInjection_Unmarshal bs = Some (Ok
     \<lparr>portal_MsgDeliverInjection_Vaa = portalv1_MsgDeliverInjection_Vaa x\<rparr>)"
  by (rule codec_readsI [OF portalv1_MsgDeliverInjection_written [OF assms(1,2)] assms(3)],
    unfold portal_MsgDeliverInjection_Unmarshal_def, erule readsD [rotated],
    (rule reads_bytes [OF assms(1)], rule wire_tags, simp add: portal_MsgDeliverInjection_field_def, simp)+, rule reads_done, simp)

subsection \<open>MsgLock (vaults)\<close>

text \<open>\<open>MsgLock\<close> of \<open>types/vaults/tx.pb.go\<close>.\<close>

record vaults_MsgLock =
  vaults_MsgLock_Signer :: bytes
  vaults_MsgLock_Vault :: "32 word"
  vaults_MsgLock_Amount :: "int option"

definition vaults_MsgLock_Size :: "custom \<Rightarrow> vaults_MsgLock \<Rightarrow> nat" where
  "vaults_MsgLock_Size ic x =
     size_delimited gogo_runtime (vaults_MsgLock_Signer x) +
     size_varint gogo_runtime (scast (vaults_MsgLock_Vault x)) +
     size_custom (Custom_Marshal ic (vaults_MsgLock_Amount x))"

definition vaults_MsgLock_Marshal :: "custom \<Rightarrow> vaults_MsgLock \<Rightarrow> bytes result" where
  "vaults_MsgLock_Marshal ic x =
     obind (put_custom 0x1A (Custom_Marshal ic (vaults_MsgLock_Amount x)) (vaults_MsgLock_Size ic x, [])) (\<lambda>b.
     obind (put_varint gogo_runtime 0x10 (scast (vaults_MsgLock_Vault x)) b) (\<lambda>b.
     obind (put_delimited gogo_runtime 0xA (vaults_MsgLock_Signer x) b) (\<lambda>b.
     Ok (sized_bytes b))))"

definition vaults_MsgLock_field ::
    "custom \<Rightarrow> int \<Rightarrow> int \<Rightarrow> vaults_MsgLock \<Rightarrow> nat \<Rightarrow> bytes \<Rightarrow> (vaults_MsgLock \<times> nat) result option" where
  "vaults_MsgLock_field ic fieldNum wireType x i bs =
     (if fieldNum = 1 then Some (bytes_field wireType i (\<lambda>v. x\<lparr>vaults_MsgLock_Signer := v\<rparr>) bs)
      else if fieldNum = 2 then Some (varint_field wireType (\<lambda>v. x\<lparr>vaults_MsgLock_Vault := v\<rparr>) bs)
      else if fieldNum = 3 then Some (custom_field wireType i (Custom_Unmarshal ic (vaults_MsgLock_Amount x)) (\<lambda>v. x\<lparr>vaults_MsgLock_Amount := v\<rparr>) bs)
      else None)"

definition vaults_MsgLock_Unmarshal :: "custom \<Rightarrow> bytes \<Rightarrow> vaults_MsgLock result option" where
  "vaults_MsgLock_Unmarshal ic bs =
     read_fields (Skip gogo_runtime) (vaults_MsgLock_field ic) (\<lambda>u x. x)
       \<lparr>vaults_MsgLock_Signer = [], vaults_MsgLock_Vault = 0, vaults_MsgLock_Amount = None\<rparr> 0 bs"

lemma vaults_MsgLock_written:
  assumes "custom_codec ic ok" "given ok (vaults_MsgLock_Amount x)"
  shows "writes (vaults_MsgLock_Marshal ic x)
    (delimited_bytes gogo_runtime 0xA (vaults_MsgLock_Signer x) @
      varint_bytes gogo_runtime 0x10 (scast (vaults_MsgLock_Vault x)) @
      delimited_bytes gogo_runtime 0x1A (Custom_Marshal ic (vaults_MsgLock_Amount x)) @
      [])
    (vaults_MsgLock_Size ic x)"
  using assms(2) by (simp add: writes_def vaults_MsgLock_Marshal_def vaults_MsgLock_Size_def wire_puts gogo_varint
    custom_delimited givenD [OF assms(1)])

lemma vaults_MsgLock_exact:
  assumes "custom_codec ic ok"
  shows "exact_codec (vaults_MsgLock_Size ic) (vaults_MsgLock_Marshal ic) (vaults_MsgLock_Unmarshal ic)
    (\<lambda>x. given ok (vaults_MsgLock_Amount x))"
  by (rule exact_codecI, rule vaults_MsgLock_written [OF assms], assumption,
    unfold vaults_MsgLock_Unmarshal_def, erule readsD [rotated],
    ((rule reads_bytes [OF gogo_varint] reads_varint32 [OF gogo_varint], rule wire_tags, simp add: vaults_MsgLock_field_def, simp) |
      (rule reads_delimited [OF gogo_varint], rule wire_tags, simp add: vaults_MsgLock_field_def, simp add: givenD [OF assms], simp add: givenD [OF assms]))+, rule reads_done, simp)

lemma vaults_MsgLock_returns: "\<exists>r. vaults_MsgLock_Unmarshal ic bs = Some r"
  unfolding vaults_MsgLock_Unmarshal_def by (rule read_fields_returns [OF gogo_skip])

lemma vaults_MsgLock_received:
  assumes "varint_runtime rt" "vaultsv1_MsgLock_unknownFields x = []"
    and "vaultsv1_MsgLock_size rt x < 2 ^ 63" "custom_codec ic ok" "ok a" "vaultsv1_MsgLock_Amount x = Custom_Marshal ic (Some a)"
  shows "\<exists>bs. vaultsv1_MsgLock_marshal rt x = Ok bs \<and> vaults_MsgLock_Unmarshal ic bs = Some (Ok
     \<lparr>vaults_MsgLock_Signer = vaultsv1_MsgLock_Signer x,
      vaults_MsgLock_Vault = vaultsv1_MsgLock_Vault x,
      vaults_MsgLock_Amount = Some a\<rparr>)"
  by (rule codec_readsI [OF vaultsv1_MsgLock_written [OF assms(1,2)] assms(3)],
    unfold vaults_MsgLock_Unmarshal_def, erule readsD [rotated],
    ((rule reads_bytes [OF assms(1)] reads_varint32 [OF assms(1)], rule wire_tags, simp add: vaults_MsgLock_field_def, simp) |
      (rule reads_delimited [OF assms(1)], rule wire_tags, simp add: vaults_MsgLock_field_def, simp add: assms(6) custom_codecD [OF assms(4,5)], simp add: assms(6) custom_codecD [OF assms(4,5)]))+, rule reads_done, simp)

subsection \<open>MsgLockResponse (vaults)\<close>

text \<open>\<open>MsgLockResponse\<close> of \<open>types/vaults/tx.pb.go\<close>.\<close>

datatype vaults_MsgLockResponse = vaults_MsgLockResponse

definition vaults_MsgLockResponse_Size :: "vaults_MsgLockResponse \<Rightarrow> nat" where
  "vaults_MsgLockResponse_Size x =
     0"

definition vaults_MsgLockResponse_Marshal :: "vaults_MsgLockResponse \<Rightarrow> bytes result" where
  "vaults_MsgLockResponse_Marshal x =
     Ok (sized_bytes (vaults_MsgLockResponse_Size x, []))"

definition vaults_MsgLockResponse_field ::
    "int \<Rightarrow> int \<Rightarrow> vaults_MsgLockResponse \<Rightarrow> nat \<Rightarrow> bytes \<Rightarrow> (vaults_MsgLockResponse \<times> nat) result option" where
  "vaults_MsgLockResponse_field fieldNum wireType x i bs =
     None"

definition vaults_MsgLockResponse_Unmarshal :: "bytes \<Rightarrow> vaults_MsgLockResponse result option" where
  "vaults_MsgLockResponse_Unmarshal bs =
     read_fields (Skip gogo_runtime) vaults_MsgLockResponse_field (\<lambda>u x. x)
       vaults_MsgLockResponse 0 bs"

lemma vaults_MsgLockResponse_written:
  shows "writes (vaults_MsgLockResponse_Marshal x)
    ([] :: bytes)
    (vaults_MsgLockResponse_Size x)"
  by (simp add: writes_def vaults_MsgLockResponse_Marshal_def vaults_MsgLockResponse_Size_def wire_puts gogo_varint)

lemma vaults_MsgLockResponse_exact:
  shows "exact_codec (vaults_MsgLockResponse_Size) (vaults_MsgLockResponse_Marshal) (vaults_MsgLockResponse_Unmarshal)
    (\<lambda>x. True)"
  by (rule exact_codecI, rule vaults_MsgLockResponse_written,
    unfold vaults_MsgLockResponse_Unmarshal_def, erule readsD [rotated],
    rule reads_done, metis vaults_MsgLockResponse.exhaust)

lemma vaults_MsgLockResponse_returns: "\<exists>r. vaults_MsgLockResponse_Unmarshal bs = Some r"
  unfolding vaults_MsgLockResponse_Unmarshal_def by (rule read_fields_returns [OF gogo_skip])

subsection \<open>MsgUnlock (vaults)\<close>

text \<open>\<open>MsgUnlock\<close> of \<open>types/vaults/tx.pb.go\<close>.\<close>

record vaults_MsgUnlock =
  vaults_MsgUnlock_Signer :: bytes
  vaults_MsgUnlock_Vault :: "32 word"
  vaults_MsgUnlock_Amount :: "int option"

definition vaults_MsgUnlock_Size :: "custom \<Rightarrow> vaults_MsgUnlock \<Rightarrow> nat" where
  "vaults_MsgUnlock_Size ic x =
     size_delimited gogo_runtime (vaults_MsgUnlock_Signer x) +
     size_varint gogo_runtime (scast (vaults_MsgUnlock_Vault x)) +
     size_custom (Custom_Marshal ic (vaults_MsgUnlock_Amount x))"

definition vaults_MsgUnlock_Marshal :: "custom \<Rightarrow> vaults_MsgUnlock \<Rightarrow> bytes result" where
  "vaults_MsgUnlock_Marshal ic x =
     obind (put_custom 0x1A (Custom_Marshal ic (vaults_MsgUnlock_Amount x)) (vaults_MsgUnlock_Size ic x, [])) (\<lambda>b.
     obind (put_varint gogo_runtime 0x10 (scast (vaults_MsgUnlock_Vault x)) b) (\<lambda>b.
     obind (put_delimited gogo_runtime 0xA (vaults_MsgUnlock_Signer x) b) (\<lambda>b.
     Ok (sized_bytes b))))"

definition vaults_MsgUnlock_field ::
    "custom \<Rightarrow> int \<Rightarrow> int \<Rightarrow> vaults_MsgUnlock \<Rightarrow> nat \<Rightarrow> bytes \<Rightarrow> (vaults_MsgUnlock \<times> nat) result option" where
  "vaults_MsgUnlock_field ic fieldNum wireType x i bs =
     (if fieldNum = 1 then Some (bytes_field wireType i (\<lambda>v. x\<lparr>vaults_MsgUnlock_Signer := v\<rparr>) bs)
      else if fieldNum = 2 then Some (varint_field wireType (\<lambda>v. x\<lparr>vaults_MsgUnlock_Vault := v\<rparr>) bs)
      else if fieldNum = 3 then Some (custom_field wireType i (Custom_Unmarshal ic (vaults_MsgUnlock_Amount x)) (\<lambda>v. x\<lparr>vaults_MsgUnlock_Amount := v\<rparr>) bs)
      else None)"

definition vaults_MsgUnlock_Unmarshal :: "custom \<Rightarrow> bytes \<Rightarrow> vaults_MsgUnlock result option" where
  "vaults_MsgUnlock_Unmarshal ic bs =
     read_fields (Skip gogo_runtime) (vaults_MsgUnlock_field ic) (\<lambda>u x. x)
       \<lparr>vaults_MsgUnlock_Signer = [], vaults_MsgUnlock_Vault = 0, vaults_MsgUnlock_Amount = None\<rparr> 0 bs"

lemma vaults_MsgUnlock_written:
  assumes "custom_codec ic ok" "given ok (vaults_MsgUnlock_Amount x)"
  shows "writes (vaults_MsgUnlock_Marshal ic x)
    (delimited_bytes gogo_runtime 0xA (vaults_MsgUnlock_Signer x) @
      varint_bytes gogo_runtime 0x10 (scast (vaults_MsgUnlock_Vault x)) @
      delimited_bytes gogo_runtime 0x1A (Custom_Marshal ic (vaults_MsgUnlock_Amount x)) @
      [])
    (vaults_MsgUnlock_Size ic x)"
  using assms(2) by (simp add: writes_def vaults_MsgUnlock_Marshal_def vaults_MsgUnlock_Size_def wire_puts gogo_varint
    custom_delimited givenD [OF assms(1)])

lemma vaults_MsgUnlock_exact:
  assumes "custom_codec ic ok"
  shows "exact_codec (vaults_MsgUnlock_Size ic) (vaults_MsgUnlock_Marshal ic) (vaults_MsgUnlock_Unmarshal ic)
    (\<lambda>x. given ok (vaults_MsgUnlock_Amount x))"
  by (rule exact_codecI, rule vaults_MsgUnlock_written [OF assms], assumption,
    unfold vaults_MsgUnlock_Unmarshal_def, erule readsD [rotated],
    ((rule reads_bytes [OF gogo_varint] reads_varint32 [OF gogo_varint], rule wire_tags, simp add: vaults_MsgUnlock_field_def, simp) |
      (rule reads_delimited [OF gogo_varint], rule wire_tags, simp add: vaults_MsgUnlock_field_def, simp add: givenD [OF assms], simp add: givenD [OF assms]))+, rule reads_done, simp)

lemma vaults_MsgUnlock_returns: "\<exists>r. vaults_MsgUnlock_Unmarshal ic bs = Some r"
  unfolding vaults_MsgUnlock_Unmarshal_def by (rule read_fields_returns [OF gogo_skip])

lemma vaults_MsgUnlock_received:
  assumes "varint_runtime rt" "vaultsv1_MsgUnlock_unknownFields x = []"
    and "vaultsv1_MsgUnlock_size rt x < 2 ^ 63" "custom_codec ic ok" "ok a" "vaultsv1_MsgUnlock_Amount x = Custom_Marshal ic (Some a)"
  shows "\<exists>bs. vaultsv1_MsgUnlock_marshal rt x = Ok bs \<and> vaults_MsgUnlock_Unmarshal ic bs = Some (Ok
     \<lparr>vaults_MsgUnlock_Signer = vaultsv1_MsgUnlock_Signer x,
      vaults_MsgUnlock_Vault = vaultsv1_MsgUnlock_Vault x,
      vaults_MsgUnlock_Amount = Some a\<rparr>)"
  by (rule codec_readsI [OF vaultsv1_MsgUnlock_written [OF assms(1,2)] assms(3)],
    unfold vaults_MsgUnlock_Unmarshal_def, erule readsD [rotated],
    ((rule reads_bytes [OF assms(1)] reads_varint32 [OF assms(1)], rule wire_tags, simp add: vaults_MsgUnlock_field_def, simp) |
      (rule reads_delimited [OF assms(1)], rule wire_tags, simp add: vaults_MsgUnlock_field_def, simp add: assms(6) custom_codecD [OF assms(4,5)], simp add: assms(6) custom_codecD [OF assms(4,5)]))+, rule reads_done, simp)

subsection \<open>MsgUnlockResponse (vaults)\<close>

text \<open>\<open>MsgUnlockResponse\<close> of \<open>types/vaults/tx.pb.go\<close>.\<close>

datatype vaults_MsgUnlockResponse = vaults_MsgUnlockResponse

definition vaults_MsgUnlockResponse_Size :: "vaults_MsgUnlockResponse \<Rightarrow> nat" where
  "vaults_MsgUnlockResponse_Size x =
     0"

definition vaults_MsgUnlockResponse_Marshal :: "vaults_MsgUnlockResponse \<Rightarrow> bytes result" where
  "vaults_MsgUnlockResponse_Marshal x =
     Ok (sized_bytes (vaults_MsgUnlockResponse_Size x, []))"

definition vaults_MsgUnlockResponse_field ::
    "int \<Rightarrow> int \<Rightarrow> vaults_MsgUnlockResponse \<Rightarrow> nat \<Rightarrow> bytes \<Rightarrow> (vaults_MsgUnlockResponse \<times> nat) result option" where
  "vaults_MsgUnlockResponse_field fieldNum wireType x i bs =
     None"

definition vaults_MsgUnlockResponse_Unmarshal :: "bytes \<Rightarrow> vaults_MsgUnlockResponse result option" where
  "vaults_MsgUnlockResponse_Unmarshal bs =
     read_fields (Skip gogo_runtime) vaults_MsgUnlockResponse_field (\<lambda>u x. x)
       vaults_MsgUnlockResponse 0 bs"

lemma vaults_MsgUnlockResponse_written:
  shows "writes (vaults_MsgUnlockResponse_Marshal x)
    ([] :: bytes)
    (vaults_MsgUnlockResponse_Size x)"
  by (simp add: writes_def vaults_MsgUnlockResponse_Marshal_def vaults_MsgUnlockResponse_Size_def wire_puts gogo_varint)

lemma vaults_MsgUnlockResponse_exact:
  shows "exact_codec (vaults_MsgUnlockResponse_Size) (vaults_MsgUnlockResponse_Marshal) (vaults_MsgUnlockResponse_Unmarshal)
    (\<lambda>x. True)"
  by (rule exact_codecI, rule vaults_MsgUnlockResponse_written,
    unfold vaults_MsgUnlockResponse_Unmarshal_def, erule readsD [rotated],
    rule reads_done, metis vaults_MsgUnlockResponse.exhaust)

lemma vaults_MsgUnlockResponse_returns: "\<exists>r. vaults_MsgUnlockResponse_Unmarshal bs = Some r"
  unfolding vaults_MsgUnlockResponse_Unmarshal_def by (rule read_fields_returns [OF gogo_skip])

subsection \<open>MsgSetPausedState (vaults)\<close>

text \<open>\<open>MsgSetPausedState\<close> of \<open>types/vaults/tx.pb.go\<close>.\<close>

record vaults_MsgSetPausedState =
  vaults_MsgSetPausedState_Signer :: bytes
  vaults_MsgSetPausedState_Paused :: "32 word"

definition vaults_MsgSetPausedState_Size :: "vaults_MsgSetPausedState \<Rightarrow> nat" where
  "vaults_MsgSetPausedState_Size x =
     size_delimited gogo_runtime (vaults_MsgSetPausedState_Signer x) +
     size_varint gogo_runtime (scast (vaults_MsgSetPausedState_Paused x))"

definition vaults_MsgSetPausedState_Marshal :: "vaults_MsgSetPausedState \<Rightarrow> bytes result" where
  "vaults_MsgSetPausedState_Marshal x =
     obind (put_varint gogo_runtime 0x10 (scast (vaults_MsgSetPausedState_Paused x)) (vaults_MsgSetPausedState_Size x, [])) (\<lambda>b.
     obind (put_delimited gogo_runtime 0xA (vaults_MsgSetPausedState_Signer x) b) (\<lambda>b.
     Ok (sized_bytes b)))"

definition vaults_MsgSetPausedState_field ::
    "int \<Rightarrow> int \<Rightarrow> vaults_MsgSetPausedState \<Rightarrow> nat \<Rightarrow> bytes \<Rightarrow> (vaults_MsgSetPausedState \<times> nat) result option" where
  "vaults_MsgSetPausedState_field fieldNum wireType x i bs =
     (if fieldNum = 1 then Some (bytes_field wireType i (\<lambda>v. x\<lparr>vaults_MsgSetPausedState_Signer := v\<rparr>) bs)
      else if fieldNum = 2 then Some (varint_field wireType (\<lambda>v. x\<lparr>vaults_MsgSetPausedState_Paused := v\<rparr>) bs)
      else None)"

definition vaults_MsgSetPausedState_Unmarshal :: "bytes \<Rightarrow> vaults_MsgSetPausedState result option" where
  "vaults_MsgSetPausedState_Unmarshal bs =
     read_fields (Skip gogo_runtime) vaults_MsgSetPausedState_field (\<lambda>u x. x)
       \<lparr>vaults_MsgSetPausedState_Signer = [], vaults_MsgSetPausedState_Paused = 0\<rparr> 0 bs"

lemma vaults_MsgSetPausedState_written:
  shows "writes (vaults_MsgSetPausedState_Marshal x)
    (delimited_bytes gogo_runtime 0xA (vaults_MsgSetPausedState_Signer x) @
      varint_bytes gogo_runtime 0x10 (scast (vaults_MsgSetPausedState_Paused x)) @
      [])
    (vaults_MsgSetPausedState_Size x)"
  by (simp add: writes_def vaults_MsgSetPausedState_Marshal_def vaults_MsgSetPausedState_Size_def wire_puts gogo_varint)

lemma vaults_MsgSetPausedState_exact:
  shows "exact_codec (vaults_MsgSetPausedState_Size) (vaults_MsgSetPausedState_Marshal) (vaults_MsgSetPausedState_Unmarshal)
    (\<lambda>x. True)"
  by (rule exact_codecI, rule vaults_MsgSetPausedState_written,
    unfold vaults_MsgSetPausedState_Unmarshal_def, erule readsD [rotated],
    (rule reads_bytes [OF gogo_varint] reads_varint32 [OF gogo_varint], rule wire_tags, simp add: vaults_MsgSetPausedState_field_def, simp)+, rule reads_done, simp)

lemma vaults_MsgSetPausedState_returns: "\<exists>r. vaults_MsgSetPausedState_Unmarshal bs = Some r"
  unfolding vaults_MsgSetPausedState_Unmarshal_def by (rule read_fields_returns [OF gogo_skip])

lemma vaults_MsgSetPausedState_received:
  assumes "varint_runtime rt" "vaultsv1_MsgSetPausedState_unknownFields x = []"
    and "vaultsv1_MsgSetPausedState_size rt x < 2 ^ 63"
  shows "\<exists>bs. vaultsv1_MsgSetPausedState_marshal rt x = Ok bs \<and> vaults_MsgSetPausedState_Unmarshal bs = Some (Ok
     \<lparr>vaults_MsgSetPausedState_Signer = vaultsv1_MsgSetPausedState_Signer x,
      vaults_MsgSetPausedState_Paused = vaultsv1_MsgSetPausedState_Paused x\<rparr>)"
  by (rule codec_readsI [OF vaultsv1_MsgSetPausedState_written [OF assms(1,2)] assms(3)],
    unfold vaults_MsgSetPausedState_Unmarshal_def, erule readsD [rotated],
    (rule reads_bytes [OF assms(1)] reads_varint32 [OF assms(1)], rule wire_tags, simp add: vaults_MsgSetPausedState_field_def, simp)+, rule reads_done, simp)

subsection \<open>MsgSetPausedStateResponse (vaults)\<close>

text \<open>\<open>MsgSetPausedStateResponse\<close> of \<open>types/vaults/tx.pb.go\<close>.\<close>

datatype vaults_MsgSetPausedStateResponse = vaults_MsgSetPausedStateResponse

definition vaults_MsgSetPausedStateResponse_Size :: "vaults_MsgSetPausedStateResponse \<Rightarrow> nat" where
  "vaults_MsgSetPausedStateResponse_Size x =
     0"

definition vaults_MsgSetPausedStateResponse_Marshal :: "vaults_MsgSetPausedStateResponse \<Rightarrow> bytes result" where
  "vaults_MsgSetPausedStateResponse_Marshal x =
     Ok (sized_bytes (vaults_MsgSetPausedStateResponse_Size x, []))"

definition vaults_MsgSetPausedStateResponse_field ::
    "int \<Rightarrow> int \<Rightarrow> vaults_MsgSetPausedStateResponse \<Rightarrow> nat \<Rightarrow> bytes \<Rightarrow> (vaults_MsgSetPausedStateResponse \<times> nat) result option" where
  "vaults_MsgSetPausedStateResponse_field fieldNum wireType x i bs =
     None"

definition vaults_MsgSetPausedStateResponse_Unmarshal :: "bytes \<Rightarrow> vaults_MsgSetPausedStateResponse result option" where
  "vaults_MsgSetPausedStateResponse_Unmarshal bs =
     read_fields (Skip gogo_runtime) vaults_MsgSetPausedStateResponse_field (\<lambda>u x. x)
       vaults_MsgSetPausedStateResponse 0 bs"

lemma vaults_MsgSetPausedStateResponse_written:
  shows "writes (vaults_MsgSetPausedStateResponse_Marshal x)
    ([] :: bytes)
    (vaults_MsgSetPausedStateResponse_Size x)"
  by (simp add: writes_def vaults_MsgSetPausedStateResponse_Marshal_def vaults_MsgSetPausedStateResponse_Size_def wire_puts gogo_varint)

lemma vaults_MsgSetPausedStateResponse_exact:
  shows "exact_codec (vaults_MsgSetPausedStateResponse_Size) (vaults_MsgSetPausedStateResponse_Marshal) (vaults_MsgSetPausedStateResponse_Unmarshal)
    (\<lambda>x. True)"
  by (rule exact_codecI, rule vaults_MsgSetPausedStateResponse_written,
    unfold vaults_MsgSetPausedStateResponse_Unmarshal_def, erule readsD [rotated],
    rule reads_done, metis vaults_MsgSetPausedStateResponse.exhaust)

lemma vaults_MsgSetPausedStateResponse_returns: "\<exists>r. vaults_MsgSetPausedStateResponse_Unmarshal bs = Some r"
  unfolding vaults_MsgSetPausedStateResponse_Unmarshal_def by (rule read_fields_returns [OF gogo_skip])

subsection \<open>The codecs together\<close>

lemmas codec_tx_exact =
  types_MsgClaimYield_exact types_MsgClaimYieldResponse_exact types_MsgSetPausedState_exact
  types_MsgSetPausedStateResponse_exact v2_MsgSetYieldRecipient_exact
  v2_MsgSetYieldRecipientResponse_exact portal_MsgDeliver_exact portal_MsgDeliverResponse_exact
  portal_MsgTransfer_exact portal_MsgTransferResponse_exact portal_MsgSetPausedState_exact
  portal_MsgSetPausedStateResponse_exact portal_MsgSetPeer_exact portal_MsgSetPeerResponse_exact
  portal_MsgSetBridgingPath_exact portal_MsgSetBridgingPathResponse_exact
  portal_MsgTransferOwnership_exact portal_MsgTransferOwnershipResponse_exact
  portal_MsgDeliverInjection_exact vaults_MsgLock_exact vaults_MsgLockResponse_exact
  vaults_MsgUnlock_exact vaults_MsgUnlockResponse_exact vaults_MsgSetPausedState_exact
  vaults_MsgSetPausedStateResponse_exact

lemmas codec_tx_returns =
  types_MsgClaimYield_returns types_MsgClaimYieldResponse_returns types_MsgSetPausedState_returns
  types_MsgSetPausedStateResponse_returns v2_MsgSetYieldRecipient_returns
  v2_MsgSetYieldRecipientResponse_returns portal_MsgDeliver_returns
  portal_MsgDeliverResponse_returns portal_MsgTransfer_returns portal_MsgTransferResponse_returns
  portal_MsgSetPausedState_returns portal_MsgSetPausedStateResponse_returns
  portal_MsgSetPeer_returns portal_MsgSetPeerResponse_returns portal_MsgSetBridgingPath_returns
  portal_MsgSetBridgingPathResponse_returns portal_MsgTransferOwnership_returns
  portal_MsgTransferOwnershipResponse_returns portal_MsgDeliverInjection_returns
  vaults_MsgLock_returns vaults_MsgLockResponse_returns vaults_MsgUnlock_returns
  vaults_MsgUnlockResponse_returns vaults_MsgSetPausedState_returns
  vaults_MsgSetPausedStateResponse_returns

lemmas codec_tx_received =
  types_MsgClaimYield_received types_MsgSetPausedState_received v2_MsgSetYieldRecipient_received
  portal_MsgDeliver_received portal_MsgTransfer_received portal_MsgSetPausedState_received
  portal_MsgSetPeer_received portal_MsgSetBridgingPath_received
  portal_MsgTransferOwnership_received portal_MsgDeliverInjection_received vaults_MsgLock_received
  vaults_MsgUnlock_received vaults_MsgSetPausedState_received

end
