(* ===== verification/Services.thy ===== *)
theory Services
  imports Chain Codec_Tx Decimal
begin

text \<open>
  The path of a transaction from a client to the message servers: the stubs of
  \<open>api/**/tx_grpc.pb.go\<close>, which marshal a message of the client API for a method, and the handlers
  and service descriptors of \<open>types/**/tx.pb.go\<close>, which unmarshal it with the module's own code and
  call the server. The router between them is the SDK's and a parameter.
\<close>

subsection \<open>Enumerations\<close>

text \<open>The named values of an enum, which Go keeps as its number.\<close>

definition Provider_of :: "32 word \<Rightarrow> provider" where
  "Provider_of v = (if v = 0 then IBC else if v = 1 then HYPERLANE else OtherProvider v)"

definition VaultType_of :: "32 word \<Rightarrow> vault_type" where
  "VaultType_of v = (if v = 0 then UNSPECIFIED else if v = 1 then STAKED else if v = 2 then FLEXIBLE else OtherVault v)"

definition PausedType_of :: "32 word \<Rightarrow> paused_type" where
  "PausedType_of v = (if v = 0 then PAUSED_NONE else if v = 1 then PAUSED_LOCK else if v = 2 then PAUSED_UNLOCK
     else if v = 3 then PAUSED_ALL else OtherPaused v)"

subsection \<open>Handlers\<close>

text \<open>
  What every handler does: it decodes the request and calls the server, or an interceptor that is
  given the request, the full method name and the server.
\<close>

definition unary_handler ::
    "string \<Rightarrow> ('m \<Rightarrow> ('b, 'r) handler) \<Rightarrow> 'm result \<Rightarrow>
     ('m \<Rightarrow> string \<Rightarrow> ('m \<Rightarrow> ('b, 'r) handler) \<Rightarrow> ('b, 'r) handler) option \<Rightarrow> ('b, 'r) handler" where
  "unary_handler fullMethod srv dec interceptor =
     bnd (lift dec) (\<lambda>req.
     case interceptor of None \<Rightarrow> srv req | Some call \<Rightarrow> call req fullMethod srv)"

definition types_Msg_ClaimYield_Handler ::
    "'b env \<Rightarrow> types_MsgClaimYield result \<Rightarrow>
     (types_MsgClaimYield \<Rightarrow> string \<Rightarrow> (types_MsgClaimYield \<Rightarrow> ('b, unit) handler) \<Rightarrow> ('b, unit) handler) option \<Rightarrow> ('b, unit) handler" where
  "types_Msg_ClaimYield_Handler e = unary_handler ''/noble.dollar.v1.Msg/ClaimYield''
     (\<lambda>req. ClaimYield e (bytes_string (types_MsgClaimYield_Signer req)))"

definition types_Msg_SetPausedState_Handler ::
    "'b env \<Rightarrow> types_MsgSetPausedState result \<Rightarrow>
     (types_MsgSetPausedState \<Rightarrow> string \<Rightarrow> (types_MsgSetPausedState \<Rightarrow> ('b, unit) handler) \<Rightarrow> ('b, unit) handler) option \<Rightarrow> ('b, unit) handler" where
  "types_Msg_SetPausedState_Handler e = unary_handler ''/noble.dollar.v1.Msg/SetPausedState''
     (\<lambda>req. SetPausedState e (bytes_string (types_MsgSetPausedState_Signer req)) (types_MsgSetPausedState_Paused req))"

definition v2_Msg_SetYieldRecipient_Handler ::
    "'b env \<Rightarrow> v2_MsgSetYieldRecipient result \<Rightarrow>
     (v2_MsgSetYieldRecipient \<Rightarrow> string \<Rightarrow> (v2_MsgSetYieldRecipient \<Rightarrow> ('b, unit) handler) \<Rightarrow> ('b, unit) handler) option \<Rightarrow> ('b, unit) handler" where
  "v2_Msg_SetYieldRecipient_Handler e = unary_handler ''/noble.dollar.v2.Msg/SetYieldRecipient''
     (\<lambda>req. SetYieldRecipient e (bytes_string (v2_MsgSetYieldRecipient_Signer req)) (Provider_of (v2_MsgSetYieldRecipient_Provider req)) (bytes_string (v2_MsgSetYieldRecipient_Identifier req)) (bytes_string (v2_MsgSetYieldRecipient_Recipient req)))"

definition portal_Msg_Deliver_Handler ::
    "'b env \<Rightarrow> portal_MsgDeliver result \<Rightarrow>
     (portal_MsgDeliver \<Rightarrow> string \<Rightarrow> (portal_MsgDeliver \<Rightarrow> ('b, unit) handler) \<Rightarrow> ('b, unit) handler) option \<Rightarrow> ('b, unit) handler" where
  "portal_Msg_Deliver_Handler e = unary_handler ''/noble.dollar.portal.v1.Msg/Deliver''
     (\<lambda>req. portal_Deliver e (portal_MsgDeliver_Vaa req))"

definition portal_Msg_Transfer_Handler ::
    "'b env \<Rightarrow> portal_MsgTransfer result \<Rightarrow>
     (portal_MsgTransfer \<Rightarrow> string \<Rightarrow> (portal_MsgTransfer \<Rightarrow> ('b, unit) handler) \<Rightarrow> ('b, unit) handler) option \<Rightarrow> ('b, unit) handler" where
  "portal_Msg_Transfer_Handler e = unary_handler ''/noble.dollar.portal.v1.Msg/Transfer''
     (\<lambda>req. portal_Transfer e (bytes_string (portal_MsgTransfer_Signer req)) (portal_MsgTransfer_Amount req) (portal_MsgTransfer_DestinationChainId req) (portal_MsgTransfer_DestinationToken req) (portal_MsgTransfer_Recipient req))"

definition portal_Msg_SetPausedState_Handler ::
    "'b env \<Rightarrow> portal_MsgSetPausedState result \<Rightarrow>
     (portal_MsgSetPausedState \<Rightarrow> string \<Rightarrow> (portal_MsgSetPausedState \<Rightarrow> ('b, unit) handler) \<Rightarrow> ('b, unit) handler) option \<Rightarrow> ('b, unit) handler" where
  "portal_Msg_SetPausedState_Handler e = unary_handler ''/noble.dollar.portal.v1.Msg/SetPausedState''
     (\<lambda>req. portal_SetPausedState (bytes_string (portal_MsgSetPausedState_Signer req)) (portal_MsgSetPausedState_Paused req))"

definition portal_Msg_SetPeer_Handler ::
    "'b env \<Rightarrow> portal_MsgSetPeer result \<Rightarrow>
     (portal_MsgSetPeer \<Rightarrow> string \<Rightarrow> (portal_MsgSetPeer \<Rightarrow> ('b, unit) handler) \<Rightarrow> ('b, unit) handler) option \<Rightarrow> ('b, unit) handler" where
  "portal_Msg_SetPeer_Handler e = unary_handler ''/noble.dollar.portal.v1.Msg/SetPeer''
     (\<lambda>req. SetPeer e (bytes_string (portal_MsgSetPeer_Signer req)) (portal_MsgSetPeer_Chain req) (portal_MsgSetPeer_Transceiver req) (portal_MsgSetPeer_Manager req))"

definition portal_Msg_SetBridgingPath_Handler ::
    "'b env \<Rightarrow> portal_MsgSetBridgingPath result \<Rightarrow>
     (portal_MsgSetBridgingPath \<Rightarrow> string \<Rightarrow> (portal_MsgSetBridgingPath \<Rightarrow> ('b, unit) handler) \<Rightarrow> ('b, unit) handler) option \<Rightarrow> ('b, unit) handler" where
  "portal_Msg_SetBridgingPath_Handler e = unary_handler ''/noble.dollar.portal.v1.Msg/SetBridgingPath''
     (\<lambda>req. SetBridgingPath e (bytes_string (portal_MsgSetBridgingPath_Signer req)) (portal_MsgSetBridgingPath_DestinationChainId req) (portal_MsgSetBridgingPath_DestinationToken req) (portal_MsgSetBridgingPath_Supported req))"

definition portal_Msg_TransferOwnership_Handler ::
    "'b env \<Rightarrow> portal_MsgTransferOwnership result \<Rightarrow>
     (portal_MsgTransferOwnership \<Rightarrow> string \<Rightarrow> (portal_MsgTransferOwnership \<Rightarrow> ('b, unit) handler) \<Rightarrow> ('b, unit) handler) option \<Rightarrow> ('b, unit) handler" where
  "portal_Msg_TransferOwnership_Handler e = unary_handler ''/noble.dollar.portal.v1.Msg/TransferOwnership''
     (\<lambda>req. TransferOwnership e (bytes_string (portal_MsgTransferOwnership_Signer req)) (bytes_string (portal_MsgTransferOwnership_NewOwner req)))"

definition vaults_Msg_Lock_Handler ::
    "'b env \<Rightarrow> vaults_MsgLock result \<Rightarrow>
     (vaults_MsgLock \<Rightarrow> string \<Rightarrow> (vaults_MsgLock \<Rightarrow> ('b, unit) handler) \<Rightarrow> ('b, unit) handler) option \<Rightarrow> ('b, unit) handler" where
  "vaults_Msg_Lock_Handler e = unary_handler ''/noble.dollar.vaults.v1.Msg/Lock''
     (\<lambda>req. Lock e (bytes_string (vaults_MsgLock_Signer req)) (VaultType_of (vaults_MsgLock_Vault req)) (vaults_MsgLock_Amount req))"

definition vaults_Msg_Unlock_Handler ::
    "'b env \<Rightarrow> vaults_MsgUnlock result \<Rightarrow>
     (vaults_MsgUnlock \<Rightarrow> string \<Rightarrow> (vaults_MsgUnlock \<Rightarrow> ('b, unit) handler) \<Rightarrow> ('b, unit) handler) option \<Rightarrow> ('b, unit) handler" where
  "vaults_Msg_Unlock_Handler e = unary_handler ''/noble.dollar.vaults.v1.Msg/Unlock''
     (\<lambda>req. Unlock e (bytes_string (vaults_MsgUnlock_Signer req)) (VaultType_of (vaults_MsgUnlock_Vault req)) (vaults_MsgUnlock_Amount req))"

definition vaults_Msg_SetPausedState_Handler ::
    "'b env \<Rightarrow> vaults_MsgSetPausedState result \<Rightarrow>
     (vaults_MsgSetPausedState \<Rightarrow> string \<Rightarrow> (vaults_MsgSetPausedState \<Rightarrow> ('b, unit) handler) \<Rightarrow> ('b, unit) handler) option \<Rightarrow> ('b, unit) handler" where
  "vaults_Msg_SetPausedState_Handler e = unary_handler ''/noble.dollar.vaults.v1.Msg/SetPausedState''
     (\<lambda>req. vaults_SetPausedState e (bytes_string (vaults_MsgSetPausedState_Signer req)) (PausedType_of (vaults_MsgSetPausedState_Paused req)))"

subsection \<open>Service descriptors\<close>

text \<open>
  A service has a name and its methods. The decoder a method runs with is \<open>Unmarshal\<close> of its
  request, which returns on every input (\<open>codec_tx_returns\<close>).
\<close>

type_synonym 'b service_desc = "string \<times> (string \<times> (bytes \<Rightarrow> ('b, unit) handler)) list"

definition types_Msg_serviceDesc :: "'b env \<Rightarrow> 'b service_desc" where
  "types_Msg_serviceDesc e = (''noble.dollar.v1.Msg'',
     [(''ClaimYield'', \<lambda>bs. types_Msg_ClaimYield_Handler e (the (types_MsgClaimYield_Unmarshal bs)) None),
      (''SetPausedState'', \<lambda>bs. types_Msg_SetPausedState_Handler e (the (types_MsgSetPausedState_Unmarshal bs)) None)])"

definition v2_Msg_serviceDesc :: "'b env \<Rightarrow> 'b service_desc" where
  "v2_Msg_serviceDesc e = (''noble.dollar.v2.Msg'',
     [(''SetYieldRecipient'', \<lambda>bs. v2_Msg_SetYieldRecipient_Handler e (the (v2_MsgSetYieldRecipient_Unmarshal bs)) None)])"

definition portal_Msg_serviceDesc :: "'b env \<Rightarrow> custom \<Rightarrow> 'b service_desc" where
  "portal_Msg_serviceDesc e ic = (''noble.dollar.portal.v1.Msg'',
     [(''Deliver'', \<lambda>bs. portal_Msg_Deliver_Handler e (the (portal_MsgDeliver_Unmarshal bs)) None),
      (''Transfer'', \<lambda>bs. portal_Msg_Transfer_Handler e (the (portal_MsgTransfer_Unmarshal ic bs)) None),
      (''SetPausedState'', \<lambda>bs. portal_Msg_SetPausedState_Handler e (the (portal_MsgSetPausedState_Unmarshal bs)) None),
      (''SetPeer'', \<lambda>bs. portal_Msg_SetPeer_Handler e (the (portal_MsgSetPeer_Unmarshal bs)) None),
      (''SetBridgingPath'', \<lambda>bs. portal_Msg_SetBridgingPath_Handler e (the (portal_MsgSetBridgingPath_Unmarshal bs)) None),
      (''TransferOwnership'', \<lambda>bs. portal_Msg_TransferOwnership_Handler e (the (portal_MsgTransferOwnership_Unmarshal bs)) None)])"

definition vaults_Msg_serviceDesc :: "'b env \<Rightarrow> custom \<Rightarrow> 'b service_desc" where
  "vaults_Msg_serviceDesc e ic = (''noble.dollar.vaults.v1.Msg'',
     [(''Lock'', \<lambda>bs. vaults_Msg_Lock_Handler e (the (vaults_MsgLock_Unmarshal ic bs)) None),
      (''Unlock'', \<lambda>bs. vaults_Msg_Unlock_Handler e (the (vaults_MsgUnlock_Unmarshal ic bs)) None),
      (''SetPausedState'', \<lambda>bs. vaults_Msg_SetPausedState_Handler e (the (vaults_MsgSetPausedState_Unmarshal bs)) None)])"

text \<open>The descriptors that \<open>RegisterServices\<close> hands to the SDK.\<close>

definition registered_services :: "'b env \<Rightarrow> custom \<Rightarrow> 'b service_desc list" where
  "registered_services e ic =
     [types_Msg_serviceDesc e,
      v2_Msg_serviceDesc e,
      portal_Msg_serviceDesc e ic,
      vaults_Msg_serviceDesc e ic]"

text \<open>A router calls the method that is registered under \<open>/service/method\<close>.\<close>

definition routes :: "'b env \<Rightarrow> custom \<Rightarrow> (string \<Rightarrow> bytes \<Rightarrow> ('b, unit) handler) \<Rightarrow> bool" where
  "routes e ic router \<longleftrightarrow>
     (\<forall>(service, methods) \<in> set (registered_services e ic). \<forall>(method, handler) \<in> set methods.
        \<forall>bs. router (''/'' @ service @ ''/'' @ method) bs = handler bs)"

lemma routed:
  assumes "routes e ic router"
  shows
  "router ''/noble.dollar.v1.Msg/ClaimYield'' bs =
     types_Msg_ClaimYield_Handler e (the (types_MsgClaimYield_Unmarshal bs)) None"
  "router ''/noble.dollar.v1.Msg/SetPausedState'' bs =
     types_Msg_SetPausedState_Handler e (the (types_MsgSetPausedState_Unmarshal bs)) None"
  "router ''/noble.dollar.v2.Msg/SetYieldRecipient'' bs =
     v2_Msg_SetYieldRecipient_Handler e (the (v2_MsgSetYieldRecipient_Unmarshal bs)) None"
  "router ''/noble.dollar.portal.v1.Msg/Deliver'' bs =
     portal_Msg_Deliver_Handler e (the (portal_MsgDeliver_Unmarshal bs)) None"
  "router ''/noble.dollar.portal.v1.Msg/Transfer'' bs =
     portal_Msg_Transfer_Handler e (the (portal_MsgTransfer_Unmarshal ic bs)) None"
  "router ''/noble.dollar.portal.v1.Msg/SetPausedState'' bs =
     portal_Msg_SetPausedState_Handler e (the (portal_MsgSetPausedState_Unmarshal bs)) None"
  "router ''/noble.dollar.portal.v1.Msg/SetPeer'' bs =
     portal_Msg_SetPeer_Handler e (the (portal_MsgSetPeer_Unmarshal bs)) None"
  "router ''/noble.dollar.portal.v1.Msg/SetBridgingPath'' bs =
     portal_Msg_SetBridgingPath_Handler e (the (portal_MsgSetBridgingPath_Unmarshal bs)) None"
  "router ''/noble.dollar.portal.v1.Msg/TransferOwnership'' bs =
     portal_Msg_TransferOwnership_Handler e (the (portal_MsgTransferOwnership_Unmarshal bs)) None"
  "router ''/noble.dollar.vaults.v1.Msg/Lock'' bs =
     vaults_Msg_Lock_Handler e (the (vaults_MsgLock_Unmarshal ic bs)) None"
  "router ''/noble.dollar.vaults.v1.Msg/Unlock'' bs =
     vaults_Msg_Unlock_Handler e (the (vaults_MsgUnlock_Unmarshal ic bs)) None"
  "router ''/noble.dollar.vaults.v1.Msg/SetPausedState'' bs =
     vaults_Msg_SetPausedState_Handler e (the (vaults_MsgSetPausedState_Unmarshal bs)) None"
  using assms unfolding routes_def registered_services_def types_Msg_serviceDesc_def v2_Msg_serviceDesc_def portal_Msg_serviceDesc_def vaults_Msg_serviceDesc_def
  by simp_all

subsection \<open>The client\<close>

text \<open>A stub invokes a method by its full name with the marshalled message.\<close>

definition dollarv1_msgClient_ClaimYield :: "wire_runtime \<Rightarrow> dollarv1_MsgClaimYield \<Rightarrow> string \<times> bytes result" where
  "dollarv1_msgClient_ClaimYield rt req = (''/noble.dollar.v1.Msg/ClaimYield'', dollarv1_MsgClaimYield_marshal rt req)"

definition dollarv1_msgClient_SetPausedState :: "wire_runtime \<Rightarrow> dollarv1_MsgSetPausedState \<Rightarrow> string \<times> bytes result" where
  "dollarv1_msgClient_SetPausedState rt req = (''/noble.dollar.v1.Msg/SetPausedState'', dollarv1_MsgSetPausedState_marshal rt req)"

definition dollarv2_msgClient_SetYieldRecipient :: "wire_runtime \<Rightarrow> dollarv2_MsgSetYieldRecipient \<Rightarrow> string \<times> bytes result" where
  "dollarv2_msgClient_SetYieldRecipient rt req = (''/noble.dollar.v2.Msg/SetYieldRecipient'', dollarv2_MsgSetYieldRecipient_marshal rt req)"

definition portalv1_msgClient_Deliver :: "wire_runtime \<Rightarrow> portalv1_MsgDeliver \<Rightarrow> string \<times> bytes result" where
  "portalv1_msgClient_Deliver rt req = (''/noble.dollar.portal.v1.Msg/Deliver'', portalv1_MsgDeliver_marshal rt req)"

definition portalv1_msgClient_Transfer :: "wire_runtime \<Rightarrow> portalv1_MsgTransfer \<Rightarrow> string \<times> bytes result" where
  "portalv1_msgClient_Transfer rt req = (''/noble.dollar.portal.v1.Msg/Transfer'', portalv1_MsgTransfer_marshal rt req)"

definition portalv1_msgClient_SetPausedState :: "wire_runtime \<Rightarrow> portalv1_MsgSetPausedState \<Rightarrow> string \<times> bytes result" where
  "portalv1_msgClient_SetPausedState rt req = (''/noble.dollar.portal.v1.Msg/SetPausedState'', portalv1_MsgSetPausedState_marshal rt req)"

definition portalv1_msgClient_SetPeer :: "wire_runtime \<Rightarrow> portalv1_MsgSetPeer \<Rightarrow> string \<times> bytes result" where
  "portalv1_msgClient_SetPeer rt req = (''/noble.dollar.portal.v1.Msg/SetPeer'', portalv1_MsgSetPeer_marshal rt req)"

definition portalv1_msgClient_SetBridgingPath :: "wire_runtime \<Rightarrow> portalv1_MsgSetBridgingPath \<Rightarrow> string \<times> bytes result" where
  "portalv1_msgClient_SetBridgingPath rt req = (''/noble.dollar.portal.v1.Msg/SetBridgingPath'', portalv1_MsgSetBridgingPath_marshal rt req)"

definition portalv1_msgClient_TransferOwnership :: "wire_runtime \<Rightarrow> portalv1_MsgTransferOwnership \<Rightarrow> string \<times> bytes result" where
  "portalv1_msgClient_TransferOwnership rt req = (''/noble.dollar.portal.v1.Msg/TransferOwnership'', portalv1_MsgTransferOwnership_marshal rt req)"

definition vaultsv1_msgClient_Lock :: "wire_runtime \<Rightarrow> vaultsv1_MsgLock \<Rightarrow> string \<times> bytes result" where
  "vaultsv1_msgClient_Lock rt req = (''/noble.dollar.vaults.v1.Msg/Lock'', vaultsv1_MsgLock_marshal rt req)"

definition vaultsv1_msgClient_Unlock :: "wire_runtime \<Rightarrow> vaultsv1_MsgUnlock \<Rightarrow> string \<times> bytes result" where
  "vaultsv1_msgClient_Unlock rt req = (''/noble.dollar.vaults.v1.Msg/Unlock'', vaultsv1_MsgUnlock_marshal rt req)"

definition vaultsv1_msgClient_SetPausedState :: "wire_runtime \<Rightarrow> vaultsv1_MsgSetPausedState \<Rightarrow> string \<times> bytes result" where
  "vaultsv1_msgClient_SetPausedState rt req = (''/noble.dollar.vaults.v1.Msg/SetPausedState'', vaultsv1_MsgSetPausedState_marshal rt req)"

text \<open>The transactions a client can send.\<close>

datatype client_tx =
    DollarClaimYield dollarv1_MsgClaimYield
  | DollarSetPausedState dollarv1_MsgSetPausedState
  | Dollar2SetYieldRecipient dollarv2_MsgSetYieldRecipient
  | PortalDeliver portalv1_MsgDeliver
  | PortalTransfer portalv1_MsgTransfer
  | PortalSetPausedState portalv1_MsgSetPausedState
  | PortalSetPeer portalv1_MsgSetPeer
  | PortalSetBridgingPath portalv1_MsgSetBridgingPath
  | PortalTransferOwnership portalv1_MsgTransferOwnership
  | VaultsLock vaultsv1_MsgLock
  | VaultsUnlock vaultsv1_MsgUnlock
  | VaultsSetPausedState vaultsv1_MsgSetPausedState

fun client_call :: "wire_runtime \<Rightarrow> client_tx \<Rightarrow> string \<times> bytes result" where
  "client_call rt (DollarClaimYield req) = dollarv1_msgClient_ClaimYield rt req"
| "client_call rt (DollarSetPausedState req) = dollarv1_msgClient_SetPausedState rt req"
| "client_call rt (Dollar2SetYieldRecipient req) = dollarv2_msgClient_SetYieldRecipient rt req"
| "client_call rt (PortalDeliver req) = portalv1_msgClient_Deliver rt req"
| "client_call rt (PortalTransfer req) = portalv1_msgClient_Transfer rt req"
| "client_call rt (PortalSetPausedState req) = portalv1_msgClient_SetPausedState rt req"
| "client_call rt (PortalSetPeer req) = portalv1_msgClient_SetPeer rt req"
| "client_call rt (PortalSetBridgingPath req) = portalv1_msgClient_SetBridgingPath rt req"
| "client_call rt (PortalTransferOwnership req) = portalv1_msgClient_TransferOwnership rt req"
| "client_call rt (VaultsLock req) = vaultsv1_msgClient_Lock rt req"
| "client_call rt (VaultsUnlock req) = vaultsv1_msgClient_Unlock rt req"
| "client_call rt (VaultsSetPausedState req) = vaultsv1_msgClient_SetPausedState rt req"

text \<open>
  \<open>sends rt ic ok tx m\<close>: a transaction without unknown fields that fits a slice says the message
  \<open>m\<close>. An amount is the text of a number, an enum its number, and of a chain identifier the
  module keeps 16 bits.
\<close>

inductive sends :: "wire_runtime \<Rightarrow> custom \<Rightarrow> (int \<Rightarrow> bool) \<Rightarrow> client_tx \<Rightarrow> message \<Rightarrow> bool" for rt ic ok where
  "dollarv1_MsgClaimYield_unknownFields req = [] \<Longrightarrow>
     dollarv1_MsgClaimYield_size rt req < 2 ^ 63 \<Longrightarrow>
     sends rt ic ok (DollarClaimYield req)
       (MsgClaimYield (bytes_string (dollarv1_MsgClaimYield_Signer req)))"
| "dollarv1_MsgSetPausedState_unknownFields req = [] \<Longrightarrow>
     dollarv1_MsgSetPausedState_size rt req < 2 ^ 63 \<Longrightarrow>
     sends rt ic ok (DollarSetPausedState req)
       (MsgSetPausedState (bytes_string (dollarv1_MsgSetPausedState_Signer req)) (dollarv1_MsgSetPausedState_Paused req))"
| "dollarv2_MsgSetYieldRecipient_unknownFields req = [] \<Longrightarrow>
     dollarv2_MsgSetYieldRecipient_size rt req < 2 ^ 63 \<Longrightarrow>
     sends rt ic ok (Dollar2SetYieldRecipient req)
       (MsgSetYieldRecipient (bytes_string (dollarv2_MsgSetYieldRecipient_Signer req)) (Provider_of (dollarv2_MsgSetYieldRecipient_Provider req)) (bytes_string (dollarv2_MsgSetYieldRecipient_Identifier req)) (bytes_string (dollarv2_MsgSetYieldRecipient_Recipient req)))"
| "portalv1_MsgDeliver_unknownFields req = [] \<Longrightarrow>
     portalv1_MsgDeliver_size rt req < 2 ^ 63 \<Longrightarrow>
     sends rt ic ok (PortalDeliver req)
       (MsgDeliver (portalv1_MsgDeliver_Vaa req))"
| "portalv1_MsgTransfer_unknownFields req = [] \<Longrightarrow>
     portalv1_MsgTransfer_size rt req < 2 ^ 63 \<Longrightarrow>
     portalv1_MsgTransfer_Amount req = Custom_Marshal ic (Some a) \<Longrightarrow>
     ok a \<Longrightarrow>
     sends rt ic ok (PortalTransfer req)
       (MsgTransfer (bytes_string (portalv1_MsgTransfer_Signer req)) (Some a) (ucast (portalv1_MsgTransfer_DestinationChainId req)) (portalv1_MsgTransfer_DestinationToken req) (portalv1_MsgTransfer_Recipient req))"
| "portalv1_MsgSetPausedState_unknownFields req = [] \<Longrightarrow>
     portalv1_MsgSetPausedState_size rt req < 2 ^ 63 \<Longrightarrow>
     sends rt ic ok (PortalSetPausedState req)
       (MsgPortalSetPausedState (bytes_string (portalv1_MsgSetPausedState_Signer req)) (portalv1_MsgSetPausedState_Paused req))"
| "portalv1_MsgSetPeer_unknownFields req = [] \<Longrightarrow>
     portalv1_MsgSetPeer_size rt req < 2 ^ 63 \<Longrightarrow>
     sends rt ic ok (PortalSetPeer req)
       (MsgSetPeer (bytes_string (portalv1_MsgSetPeer_Signer req)) (ucast (portalv1_MsgSetPeer_Chain req)) (portalv1_MsgSetPeer_Transceiver req) (portalv1_MsgSetPeer_Manager req))"
| "portalv1_MsgSetBridgingPath_unknownFields req = [] \<Longrightarrow>
     portalv1_MsgSetBridgingPath_size rt req < 2 ^ 63 \<Longrightarrow>
     sends rt ic ok (PortalSetBridgingPath req)
       (MsgSetBridgingPath (bytes_string (portalv1_MsgSetBridgingPath_Signer req)) (ucast (portalv1_MsgSetBridgingPath_DestinationChainId req)) (portalv1_MsgSetBridgingPath_DestinationToken req) (portalv1_MsgSetBridgingPath_Supported req))"
| "portalv1_MsgTransferOwnership_unknownFields req = [] \<Longrightarrow>
     portalv1_MsgTransferOwnership_size rt req < 2 ^ 63 \<Longrightarrow>
     sends rt ic ok (PortalTransferOwnership req)
       (MsgTransferOwnership (bytes_string (portalv1_MsgTransferOwnership_Signer req)) (bytes_string (portalv1_MsgTransferOwnership_NewOwner req)))"
| "vaultsv1_MsgLock_unknownFields req = [] \<Longrightarrow>
     vaultsv1_MsgLock_size rt req < 2 ^ 63 \<Longrightarrow>
     vaultsv1_MsgLock_Amount req = Custom_Marshal ic (Some a) \<Longrightarrow>
     ok a \<Longrightarrow>
     sends rt ic ok (VaultsLock req)
       (MsgLock (bytes_string (vaultsv1_MsgLock_Signer req)) (VaultType_of (vaultsv1_MsgLock_Vault req)) (Some a))"
| "vaultsv1_MsgUnlock_unknownFields req = [] \<Longrightarrow>
     vaultsv1_MsgUnlock_size rt req < 2 ^ 63 \<Longrightarrow>
     vaultsv1_MsgUnlock_Amount req = Custom_Marshal ic (Some a) \<Longrightarrow>
     ok a \<Longrightarrow>
     sends rt ic ok (VaultsUnlock req)
       (MsgUnlock (bytes_string (vaultsv1_MsgUnlock_Signer req)) (VaultType_of (vaultsv1_MsgUnlock_Vault req)) (Some a))"
| "vaultsv1_MsgSetPausedState_unknownFields req = [] \<Longrightarrow>
     vaultsv1_MsgSetPausedState_size rt req < 2 ^ 63 \<Longrightarrow>
     sends rt ic ok (VaultsSetPausedState req)
       (MsgVaultsSetPausedState (bytes_string (vaultsv1_MsgSetPausedState_Signer req)) (PausedType_of (vaultsv1_MsgSetPausedState_Paused req)))"

inductive_cases sendsE: "sends rt ic ok tx m"

lemmas handler_defs =
  types_Msg_ClaimYield_Handler_def types_Msg_SetPausedState_Handler_def
  v2_Msg_SetYieldRecipient_Handler_def portal_Msg_Deliver_Handler_def
  portal_Msg_Transfer_Handler_def portal_Msg_SetPausedState_Handler_def
  portal_Msg_SetPeer_Handler_def portal_Msg_SetBridgingPath_Handler_def
  portal_Msg_TransferOwnership_Handler_def vaults_Msg_Lock_Handler_def
  vaults_Msg_Unlock_Handler_def vaults_Msg_SetPausedState_Handler_def

lemmas client_defs =
  dollarv1_msgClient_ClaimYield_def dollarv1_msgClient_SetPausedState_def
  dollarv2_msgClient_SetYieldRecipient_def portalv1_msgClient_Deliver_def
  portalv1_msgClient_Transfer_def portalv1_msgClient_SetPausedState_def
  portalv1_msgClient_SetPeer_def portalv1_msgClient_SetBridgingPath_def
  portalv1_msgClient_TransferOwnership_def vaultsv1_msgClient_Lock_def
  vaultsv1_msgClient_Unlock_def vaultsv1_msgClient_SetPausedState_def

lemma unary_plain: "unary_handler fullMethod srv (Ok req) None = srv req"
  by (rule ext) (simp add: unary_handler_def bnd_run_simps)

subsection \<open>From a client to the server\<close>

lemma served:
  assumes "\<exists>bs. marshal = Ok bs \<and> dec bs = Some (Ok req)"
    and "\<And>bs. router method bs = unary_handler fullMethod srv (the (dec bs)) None" "srv req = run"
  shows "\<exists>bs. marshal = Ok bs \<and> router method bs = run"
  using assms by (auto simp: unary_plain)

end
