(* ===== verification/Api_Query.thy ===== *)
theory Api_Query
  imports Messages
begin

text \<open>
  The requests and responses of queries in the client API: \<open>query.pulsar.go\<close> under \<open>api/v1\<close>,
  \<open>api/v2\<close>, \<open>api/portal/v1\<close> and \<open>api/vaults/v1\<close>, except the responses with nested messages
  or maps.
\<close>

subsection \<open>QueryIndex (dollarv1)\<close>

text \<open>\<open>QueryIndex\<close> of \<open>api/v1/query.pulsar.go\<close>.\<close>

record dollarv1_QueryIndex =
  dollarv1_QueryIndex_unknownFields :: bytes

definition dollarv1_QueryIndex_size :: "wire_runtime \<Rightarrow> dollarv1_QueryIndex \<Rightarrow> nat" where
  "dollarv1_QueryIndex_size rt x =
     length (dollarv1_QueryIndex_unknownFields x)"

definition dollarv1_QueryIndex_marshal :: "wire_runtime \<Rightarrow> dollarv1_QueryIndex \<Rightarrow> bytes result" where
  "dollarv1_QueryIndex_marshal rt x =
     obind (put (dollarv1_QueryIndex_unknownFields x) (dollarv1_QueryIndex_size rt x, [])) (\<lambda>b.
     Ok (buffer_bytes b))"

definition dollarv1_QueryIndex_field ::
    "int \<Rightarrow> int \<Rightarrow> dollarv1_QueryIndex \<Rightarrow> nat \<Rightarrow> bytes \<Rightarrow> (dollarv1_QueryIndex \<times> nat) result option" where
  "dollarv1_QueryIndex_field fieldNum wireType x i bs =
     None"

definition dollarv1_QueryIndex_unmarshal :: "wire_runtime \<Rightarrow> bool \<Rightarrow> bytes \<Rightarrow> dollarv1_QueryIndex result option" where
  "dollarv1_QueryIndex_unmarshal rt discardUnknown bs =
     read_fields (Skip rt) dollarv1_QueryIndex_field
       (\<lambda>u x. if discardUnknown then x else x\<lparr>dollarv1_QueryIndex_unknownFields := dollarv1_QueryIndex_unknownFields x @ u\<rparr>)
       \<lparr>dollarv1_QueryIndex_unknownFields = []\<rparr> 0 bs"

lemma dollarv1_QueryIndex_written:
  assumes "varint_runtime rt" "dollarv1_QueryIndex_unknownFields x = []"
  shows "writes (dollarv1_QueryIndex_marshal rt x)
    ([] :: bytes)
    (dollarv1_QueryIndex_size rt x)"
  by (simp add: writes_def dollarv1_QueryIndex_marshal_def dollarv1_QueryIndex_size_def assms wire_puts)

lemma dollarv1_QueryIndex_exact:
  assumes "varint_runtime rt"
  shows "exact_codec (dollarv1_QueryIndex_size rt) (dollarv1_QueryIndex_marshal rt) 
    (dollarv1_QueryIndex_unmarshal rt' discardUnknown) (\<lambda>x. dollarv1_QueryIndex_unknownFields x = [])"
  by (rule exact_codecI, rule dollarv1_QueryIndex_written [OF assms], assumption,
    unfold dollarv1_QueryIndex_unmarshal_def, erule readsD [rotated],
    rule reads_done, simp)

lemma dollarv1_QueryIndex_returns:
  "skip_progress (Skip rt) \<Longrightarrow> \<exists>r. dollarv1_QueryIndex_unmarshal rt discardUnknown bs = Some r"
  unfolding dollarv1_QueryIndex_unmarshal_def by (rule read_fields_returns)

subsection \<open>QueryIndexResponse (dollarv1)\<close>

text \<open>\<open>QueryIndexResponse\<close> of \<open>api/v1/query.pulsar.go\<close>.\<close>

record dollarv1_QueryIndexResponse =
  dollarv1_QueryIndexResponse_Index :: bytes
  dollarv1_QueryIndexResponse_unknownFields :: bytes

definition dollarv1_QueryIndexResponse_size :: "wire_runtime \<Rightarrow> dollarv1_QueryIndexResponse \<Rightarrow> nat" where
  "dollarv1_QueryIndexResponse_size rt x =
     size_delimited rt (dollarv1_QueryIndexResponse_Index x) +
     length (dollarv1_QueryIndexResponse_unknownFields x)"

definition dollarv1_QueryIndexResponse_marshal :: "wire_runtime \<Rightarrow> dollarv1_QueryIndexResponse \<Rightarrow> bytes result" where
  "dollarv1_QueryIndexResponse_marshal rt x =
     obind (put (dollarv1_QueryIndexResponse_unknownFields x) (dollarv1_QueryIndexResponse_size rt x, [])) (\<lambda>b.
     obind (put_delimited rt 0xA (dollarv1_QueryIndexResponse_Index x) b) (\<lambda>b.
     Ok (buffer_bytes b)))"

definition dollarv1_QueryIndexResponse_field ::
    "int \<Rightarrow> int \<Rightarrow> dollarv1_QueryIndexResponse \<Rightarrow> nat \<Rightarrow> bytes \<Rightarrow> (dollarv1_QueryIndexResponse \<times> nat) result option" where
  "dollarv1_QueryIndexResponse_field fieldNum wireType x i bs =
     (if fieldNum = 1 then Some (bytes_field wireType i (\<lambda>v. x\<lparr>dollarv1_QueryIndexResponse_Index := v\<rparr>) bs)
      else None)"

definition dollarv1_QueryIndexResponse_unmarshal :: "wire_runtime \<Rightarrow> bool \<Rightarrow> bytes \<Rightarrow> dollarv1_QueryIndexResponse result option" where
  "dollarv1_QueryIndexResponse_unmarshal rt discardUnknown bs =
     read_fields (Skip rt) dollarv1_QueryIndexResponse_field
       (\<lambda>u x. if discardUnknown then x else x\<lparr>dollarv1_QueryIndexResponse_unknownFields := dollarv1_QueryIndexResponse_unknownFields x @ u\<rparr>)
       \<lparr>dollarv1_QueryIndexResponse_Index = [], dollarv1_QueryIndexResponse_unknownFields = []\<rparr> 0 bs"

lemma dollarv1_QueryIndexResponse_written:
  assumes "varint_runtime rt" "dollarv1_QueryIndexResponse_unknownFields x = []"
  shows "writes (dollarv1_QueryIndexResponse_marshal rt x)
    (delimited_bytes rt 0xA (dollarv1_QueryIndexResponse_Index x) @
      [])
    (dollarv1_QueryIndexResponse_size rt x)"
  by (simp add: writes_def dollarv1_QueryIndexResponse_marshal_def dollarv1_QueryIndexResponse_size_def assms wire_puts)

lemma dollarv1_QueryIndexResponse_exact:
  assumes "varint_runtime rt"
  shows "exact_codec (dollarv1_QueryIndexResponse_size rt) (dollarv1_QueryIndexResponse_marshal rt) 
    (dollarv1_QueryIndexResponse_unmarshal rt' discardUnknown) (\<lambda>x. dollarv1_QueryIndexResponse_unknownFields x = [])"
  by (rule exact_codecI, rule dollarv1_QueryIndexResponse_written [OF assms], assumption,
    unfold dollarv1_QueryIndexResponse_unmarshal_def, erule readsD [rotated],
    (rule reads_bytes [OF assms], rule wire_tags,
        simp add: dollarv1_QueryIndexResponse_field_def, simp)+, rule reads_done, simp)

lemma dollarv1_QueryIndexResponse_returns:
  "skip_progress (Skip rt) \<Longrightarrow> \<exists>r. dollarv1_QueryIndexResponse_unmarshal rt discardUnknown bs = Some r"
  unfolding dollarv1_QueryIndexResponse_unmarshal_def by (rule read_fields_returns)

subsection \<open>QueryPaused (dollarv1)\<close>

text \<open>\<open>QueryPaused\<close> of \<open>api/v1/query.pulsar.go\<close>.\<close>

record dollarv1_QueryPaused =
  dollarv1_QueryPaused_unknownFields :: bytes

definition dollarv1_QueryPaused_size :: "wire_runtime \<Rightarrow> dollarv1_QueryPaused \<Rightarrow> nat" where
  "dollarv1_QueryPaused_size rt x =
     length (dollarv1_QueryPaused_unknownFields x)"

definition dollarv1_QueryPaused_marshal :: "wire_runtime \<Rightarrow> dollarv1_QueryPaused \<Rightarrow> bytes result" where
  "dollarv1_QueryPaused_marshal rt x =
     obind (put (dollarv1_QueryPaused_unknownFields x) (dollarv1_QueryPaused_size rt x, [])) (\<lambda>b.
     Ok (buffer_bytes b))"

definition dollarv1_QueryPaused_field ::
    "int \<Rightarrow> int \<Rightarrow> dollarv1_QueryPaused \<Rightarrow> nat \<Rightarrow> bytes \<Rightarrow> (dollarv1_QueryPaused \<times> nat) result option" where
  "dollarv1_QueryPaused_field fieldNum wireType x i bs =
     None"

definition dollarv1_QueryPaused_unmarshal :: "wire_runtime \<Rightarrow> bool \<Rightarrow> bytes \<Rightarrow> dollarv1_QueryPaused result option" where
  "dollarv1_QueryPaused_unmarshal rt discardUnknown bs =
     read_fields (Skip rt) dollarv1_QueryPaused_field
       (\<lambda>u x. if discardUnknown then x else x\<lparr>dollarv1_QueryPaused_unknownFields := dollarv1_QueryPaused_unknownFields x @ u\<rparr>)
       \<lparr>dollarv1_QueryPaused_unknownFields = []\<rparr> 0 bs"

lemma dollarv1_QueryPaused_written:
  assumes "varint_runtime rt" "dollarv1_QueryPaused_unknownFields x = []"
  shows "writes (dollarv1_QueryPaused_marshal rt x)
    ([] :: bytes)
    (dollarv1_QueryPaused_size rt x)"
  by (simp add: writes_def dollarv1_QueryPaused_marshal_def dollarv1_QueryPaused_size_def assms wire_puts)

lemma dollarv1_QueryPaused_exact:
  assumes "varint_runtime rt"
  shows "exact_codec (dollarv1_QueryPaused_size rt) (dollarv1_QueryPaused_marshal rt) 
    (dollarv1_QueryPaused_unmarshal rt' discardUnknown) (\<lambda>x. dollarv1_QueryPaused_unknownFields x = [])"
  by (rule exact_codecI, rule dollarv1_QueryPaused_written [OF assms], assumption,
    unfold dollarv1_QueryPaused_unmarshal_def, erule readsD [rotated],
    rule reads_done, simp)

lemma dollarv1_QueryPaused_returns:
  "skip_progress (Skip rt) \<Longrightarrow> \<exists>r. dollarv1_QueryPaused_unmarshal rt discardUnknown bs = Some r"
  unfolding dollarv1_QueryPaused_unmarshal_def by (rule read_fields_returns)

subsection \<open>QueryPausedResponse (dollarv1)\<close>

text \<open>\<open>QueryPausedResponse\<close> of \<open>api/v1/query.pulsar.go\<close>.\<close>

record dollarv1_QueryPausedResponse =
  dollarv1_QueryPausedResponse_Paused :: bool
  dollarv1_QueryPausedResponse_unknownFields :: bytes

definition dollarv1_QueryPausedResponse_size :: "wire_runtime \<Rightarrow> dollarv1_QueryPausedResponse \<Rightarrow> nat" where
  "dollarv1_QueryPausedResponse_size rt x =
     size_bool (dollarv1_QueryPausedResponse_Paused x) +
     length (dollarv1_QueryPausedResponse_unknownFields x)"

definition dollarv1_QueryPausedResponse_marshal :: "wire_runtime \<Rightarrow> dollarv1_QueryPausedResponse \<Rightarrow> bytes result" where
  "dollarv1_QueryPausedResponse_marshal rt x =
     obind (put (dollarv1_QueryPausedResponse_unknownFields x) (dollarv1_QueryPausedResponse_size rt x, [])) (\<lambda>b.
     obind (put_bool 0x8 (dollarv1_QueryPausedResponse_Paused x) b) (\<lambda>b.
     Ok (buffer_bytes b)))"

definition dollarv1_QueryPausedResponse_field ::
    "int \<Rightarrow> int \<Rightarrow> dollarv1_QueryPausedResponse \<Rightarrow> nat \<Rightarrow> bytes \<Rightarrow> (dollarv1_QueryPausedResponse \<times> nat) result option" where
  "dollarv1_QueryPausedResponse_field fieldNum wireType x i bs =
     (if fieldNum = 1 then Some (bool_field wireType (\<lambda>v. x\<lparr>dollarv1_QueryPausedResponse_Paused := v\<rparr>) bs)
      else None)"

definition dollarv1_QueryPausedResponse_unmarshal :: "wire_runtime \<Rightarrow> bool \<Rightarrow> bytes \<Rightarrow> dollarv1_QueryPausedResponse result option" where
  "dollarv1_QueryPausedResponse_unmarshal rt discardUnknown bs =
     read_fields (Skip rt) dollarv1_QueryPausedResponse_field
       (\<lambda>u x. if discardUnknown then x else x\<lparr>dollarv1_QueryPausedResponse_unknownFields := dollarv1_QueryPausedResponse_unknownFields x @ u\<rparr>)
       \<lparr>dollarv1_QueryPausedResponse_Paused = False, dollarv1_QueryPausedResponse_unknownFields = []\<rparr> 0 bs"

lemma dollarv1_QueryPausedResponse_written:
  assumes "varint_runtime rt" "dollarv1_QueryPausedResponse_unknownFields x = []"
  shows "writes (dollarv1_QueryPausedResponse_marshal rt x)
    (bool_bytes 0x8 (dollarv1_QueryPausedResponse_Paused x) @
      [])
    (dollarv1_QueryPausedResponse_size rt x)"
  by (simp add: writes_def dollarv1_QueryPausedResponse_marshal_def dollarv1_QueryPausedResponse_size_def assms wire_puts)

lemma dollarv1_QueryPausedResponse_exact:
  assumes "varint_runtime rt"
  shows "exact_codec (dollarv1_QueryPausedResponse_size rt) (dollarv1_QueryPausedResponse_marshal rt) 
    (dollarv1_QueryPausedResponse_unmarshal rt' discardUnknown) (\<lambda>x. dollarv1_QueryPausedResponse_unknownFields x = [])"
  by (rule exact_codecI, rule dollarv1_QueryPausedResponse_written [OF assms], assumption,
    unfold dollarv1_QueryPausedResponse_unmarshal_def, erule readsD [rotated],
    (rule reads_bool, rule wire_tags,
        simp add: dollarv1_QueryPausedResponse_field_def, simp)+, rule reads_done, simp)

lemma dollarv1_QueryPausedResponse_returns:
  "skip_progress (Skip rt) \<Longrightarrow> \<exists>r. dollarv1_QueryPausedResponse_unmarshal rt discardUnknown bs = Some r"
  unfolding dollarv1_QueryPausedResponse_unmarshal_def by (rule read_fields_returns)

subsection \<open>QueryPrincipal (dollarv1)\<close>

text \<open>\<open>QueryPrincipal\<close> of \<open>api/v1/query.pulsar.go\<close>.\<close>

record dollarv1_QueryPrincipal =
  dollarv1_QueryPrincipal_Account :: bytes
  dollarv1_QueryPrincipal_unknownFields :: bytes

definition dollarv1_QueryPrincipal_size :: "wire_runtime \<Rightarrow> dollarv1_QueryPrincipal \<Rightarrow> nat" where
  "dollarv1_QueryPrincipal_size rt x =
     size_delimited rt (dollarv1_QueryPrincipal_Account x) +
     length (dollarv1_QueryPrincipal_unknownFields x)"

definition dollarv1_QueryPrincipal_marshal :: "wire_runtime \<Rightarrow> dollarv1_QueryPrincipal \<Rightarrow> bytes result" where
  "dollarv1_QueryPrincipal_marshal rt x =
     obind (put (dollarv1_QueryPrincipal_unknownFields x) (dollarv1_QueryPrincipal_size rt x, [])) (\<lambda>b.
     obind (put_delimited rt 0xA (dollarv1_QueryPrincipal_Account x) b) (\<lambda>b.
     Ok (buffer_bytes b)))"

definition dollarv1_QueryPrincipal_field ::
    "int \<Rightarrow> int \<Rightarrow> dollarv1_QueryPrincipal \<Rightarrow> nat \<Rightarrow> bytes \<Rightarrow> (dollarv1_QueryPrincipal \<times> nat) result option" where
  "dollarv1_QueryPrincipal_field fieldNum wireType x i bs =
     (if fieldNum = 1 then Some (bytes_field wireType i (\<lambda>v. x\<lparr>dollarv1_QueryPrincipal_Account := v\<rparr>) bs)
      else None)"

definition dollarv1_QueryPrincipal_unmarshal :: "wire_runtime \<Rightarrow> bool \<Rightarrow> bytes \<Rightarrow> dollarv1_QueryPrincipal result option" where
  "dollarv1_QueryPrincipal_unmarshal rt discardUnknown bs =
     read_fields (Skip rt) dollarv1_QueryPrincipal_field
       (\<lambda>u x. if discardUnknown then x else x\<lparr>dollarv1_QueryPrincipal_unknownFields := dollarv1_QueryPrincipal_unknownFields x @ u\<rparr>)
       \<lparr>dollarv1_QueryPrincipal_Account = [], dollarv1_QueryPrincipal_unknownFields = []\<rparr> 0 bs"

lemma dollarv1_QueryPrincipal_written:
  assumes "varint_runtime rt" "dollarv1_QueryPrincipal_unknownFields x = []"
  shows "writes (dollarv1_QueryPrincipal_marshal rt x)
    (delimited_bytes rt 0xA (dollarv1_QueryPrincipal_Account x) @
      [])
    (dollarv1_QueryPrincipal_size rt x)"
  by (simp add: writes_def dollarv1_QueryPrincipal_marshal_def dollarv1_QueryPrincipal_size_def assms wire_puts)

lemma dollarv1_QueryPrincipal_exact:
  assumes "varint_runtime rt"
  shows "exact_codec (dollarv1_QueryPrincipal_size rt) (dollarv1_QueryPrincipal_marshal rt) 
    (dollarv1_QueryPrincipal_unmarshal rt' discardUnknown) (\<lambda>x. dollarv1_QueryPrincipal_unknownFields x = [])"
  by (rule exact_codecI, rule dollarv1_QueryPrincipal_written [OF assms], assumption,
    unfold dollarv1_QueryPrincipal_unmarshal_def, erule readsD [rotated],
    (rule reads_bytes [OF assms], rule wire_tags,
        simp add: dollarv1_QueryPrincipal_field_def, simp)+, rule reads_done, simp)

lemma dollarv1_QueryPrincipal_returns:
  "skip_progress (Skip rt) \<Longrightarrow> \<exists>r. dollarv1_QueryPrincipal_unmarshal rt discardUnknown bs = Some r"
  unfolding dollarv1_QueryPrincipal_unmarshal_def by (rule read_fields_returns)

subsection \<open>QueryPrincipalResponse (dollarv1)\<close>

text \<open>\<open>QueryPrincipalResponse\<close> of \<open>api/v1/query.pulsar.go\<close>.\<close>

record dollarv1_QueryPrincipalResponse =
  dollarv1_QueryPrincipalResponse_Principal :: bytes
  dollarv1_QueryPrincipalResponse_unknownFields :: bytes

definition dollarv1_QueryPrincipalResponse_size :: "wire_runtime \<Rightarrow> dollarv1_QueryPrincipalResponse \<Rightarrow> nat" where
  "dollarv1_QueryPrincipalResponse_size rt x =
     size_delimited rt (dollarv1_QueryPrincipalResponse_Principal x) +
     length (dollarv1_QueryPrincipalResponse_unknownFields x)"

definition dollarv1_QueryPrincipalResponse_marshal :: "wire_runtime \<Rightarrow> dollarv1_QueryPrincipalResponse \<Rightarrow> bytes result" where
  "dollarv1_QueryPrincipalResponse_marshal rt x =
     obind (put (dollarv1_QueryPrincipalResponse_unknownFields x) (dollarv1_QueryPrincipalResponse_size rt x, [])) (\<lambda>b.
     obind (put_delimited rt 0xA (dollarv1_QueryPrincipalResponse_Principal x) b) (\<lambda>b.
     Ok (buffer_bytes b)))"

definition dollarv1_QueryPrincipalResponse_field ::
    "int \<Rightarrow> int \<Rightarrow> dollarv1_QueryPrincipalResponse \<Rightarrow> nat \<Rightarrow> bytes \<Rightarrow> (dollarv1_QueryPrincipalResponse \<times> nat) result option" where
  "dollarv1_QueryPrincipalResponse_field fieldNum wireType x i bs =
     (if fieldNum = 1 then Some (bytes_field wireType i (\<lambda>v. x\<lparr>dollarv1_QueryPrincipalResponse_Principal := v\<rparr>) bs)
      else None)"

definition dollarv1_QueryPrincipalResponse_unmarshal :: "wire_runtime \<Rightarrow> bool \<Rightarrow> bytes \<Rightarrow> dollarv1_QueryPrincipalResponse result option" where
  "dollarv1_QueryPrincipalResponse_unmarshal rt discardUnknown bs =
     read_fields (Skip rt) dollarv1_QueryPrincipalResponse_field
       (\<lambda>u x. if discardUnknown then x else x\<lparr>dollarv1_QueryPrincipalResponse_unknownFields := dollarv1_QueryPrincipalResponse_unknownFields x @ u\<rparr>)
       \<lparr>dollarv1_QueryPrincipalResponse_Principal = [], dollarv1_QueryPrincipalResponse_unknownFields = []\<rparr> 0 bs"

lemma dollarv1_QueryPrincipalResponse_written:
  assumes "varint_runtime rt" "dollarv1_QueryPrincipalResponse_unknownFields x = []"
  shows "writes (dollarv1_QueryPrincipalResponse_marshal rt x)
    (delimited_bytes rt 0xA (dollarv1_QueryPrincipalResponse_Principal x) @
      [])
    (dollarv1_QueryPrincipalResponse_size rt x)"
  by (simp add: writes_def dollarv1_QueryPrincipalResponse_marshal_def dollarv1_QueryPrincipalResponse_size_def assms wire_puts)

lemma dollarv1_QueryPrincipalResponse_exact:
  assumes "varint_runtime rt"
  shows "exact_codec (dollarv1_QueryPrincipalResponse_size rt) (dollarv1_QueryPrincipalResponse_marshal rt) 
    (dollarv1_QueryPrincipalResponse_unmarshal rt' discardUnknown) (\<lambda>x. dollarv1_QueryPrincipalResponse_unknownFields x = [])"
  by (rule exact_codecI, rule dollarv1_QueryPrincipalResponse_written [OF assms], assumption,
    unfold dollarv1_QueryPrincipalResponse_unmarshal_def, erule readsD [rotated],
    (rule reads_bytes [OF assms], rule wire_tags,
        simp add: dollarv1_QueryPrincipalResponse_field_def, simp)+, rule reads_done, simp)

lemma dollarv1_QueryPrincipalResponse_returns:
  "skip_progress (Skip rt) \<Longrightarrow> \<exists>r. dollarv1_QueryPrincipalResponse_unmarshal rt discardUnknown bs = Some r"
  unfolding dollarv1_QueryPrincipalResponse_unmarshal_def by (rule read_fields_returns)

subsection \<open>QueryYield (dollarv1)\<close>

text \<open>\<open>QueryYield\<close> of \<open>api/v1/query.pulsar.go\<close>.\<close>

record dollarv1_QueryYield =
  dollarv1_QueryYield_Account :: bytes
  dollarv1_QueryYield_unknownFields :: bytes

definition dollarv1_QueryYield_size :: "wire_runtime \<Rightarrow> dollarv1_QueryYield \<Rightarrow> nat" where
  "dollarv1_QueryYield_size rt x =
     size_delimited rt (dollarv1_QueryYield_Account x) +
     length (dollarv1_QueryYield_unknownFields x)"

definition dollarv1_QueryYield_marshal :: "wire_runtime \<Rightarrow> dollarv1_QueryYield \<Rightarrow> bytes result" where
  "dollarv1_QueryYield_marshal rt x =
     obind (put (dollarv1_QueryYield_unknownFields x) (dollarv1_QueryYield_size rt x, [])) (\<lambda>b.
     obind (put_delimited rt 0xA (dollarv1_QueryYield_Account x) b) (\<lambda>b.
     Ok (buffer_bytes b)))"

definition dollarv1_QueryYield_field ::
    "int \<Rightarrow> int \<Rightarrow> dollarv1_QueryYield \<Rightarrow> nat \<Rightarrow> bytes \<Rightarrow> (dollarv1_QueryYield \<times> nat) result option" where
  "dollarv1_QueryYield_field fieldNum wireType x i bs =
     (if fieldNum = 1 then Some (bytes_field wireType i (\<lambda>v. x\<lparr>dollarv1_QueryYield_Account := v\<rparr>) bs)
      else None)"

definition dollarv1_QueryYield_unmarshal :: "wire_runtime \<Rightarrow> bool \<Rightarrow> bytes \<Rightarrow> dollarv1_QueryYield result option" where
  "dollarv1_QueryYield_unmarshal rt discardUnknown bs =
     read_fields (Skip rt) dollarv1_QueryYield_field
       (\<lambda>u x. if discardUnknown then x else x\<lparr>dollarv1_QueryYield_unknownFields := dollarv1_QueryYield_unknownFields x @ u\<rparr>)
       \<lparr>dollarv1_QueryYield_Account = [], dollarv1_QueryYield_unknownFields = []\<rparr> 0 bs"

lemma dollarv1_QueryYield_written:
  assumes "varint_runtime rt" "dollarv1_QueryYield_unknownFields x = []"
  shows "writes (dollarv1_QueryYield_marshal rt x)
    (delimited_bytes rt 0xA (dollarv1_QueryYield_Account x) @
      [])
    (dollarv1_QueryYield_size rt x)"
  by (simp add: writes_def dollarv1_QueryYield_marshal_def dollarv1_QueryYield_size_def assms wire_puts)

lemma dollarv1_QueryYield_exact:
  assumes "varint_runtime rt"
  shows "exact_codec (dollarv1_QueryYield_size rt) (dollarv1_QueryYield_marshal rt) 
    (dollarv1_QueryYield_unmarshal rt' discardUnknown) (\<lambda>x. dollarv1_QueryYield_unknownFields x = [])"
  by (rule exact_codecI, rule dollarv1_QueryYield_written [OF assms], assumption,
    unfold dollarv1_QueryYield_unmarshal_def, erule readsD [rotated],
    (rule reads_bytes [OF assms], rule wire_tags,
        simp add: dollarv1_QueryYield_field_def, simp)+, rule reads_done, simp)

lemma dollarv1_QueryYield_returns:
  "skip_progress (Skip rt) \<Longrightarrow> \<exists>r. dollarv1_QueryYield_unmarshal rt discardUnknown bs = Some r"
  unfolding dollarv1_QueryYield_unmarshal_def by (rule read_fields_returns)

subsection \<open>QueryYieldResponse (dollarv1)\<close>

text \<open>\<open>QueryYieldResponse\<close> of \<open>api/v1/query.pulsar.go\<close>.\<close>

record dollarv1_QueryYieldResponse =
  dollarv1_QueryYieldResponse_ClaimableAmount :: bytes
  dollarv1_QueryYieldResponse_unknownFields :: bytes

definition dollarv1_QueryYieldResponse_size :: "wire_runtime \<Rightarrow> dollarv1_QueryYieldResponse \<Rightarrow> nat" where
  "dollarv1_QueryYieldResponse_size rt x =
     size_delimited rt (dollarv1_QueryYieldResponse_ClaimableAmount x) +
     length (dollarv1_QueryYieldResponse_unknownFields x)"

definition dollarv1_QueryYieldResponse_marshal :: "wire_runtime \<Rightarrow> dollarv1_QueryYieldResponse \<Rightarrow> bytes result" where
  "dollarv1_QueryYieldResponse_marshal rt x =
     obind (put (dollarv1_QueryYieldResponse_unknownFields x) (dollarv1_QueryYieldResponse_size rt x, [])) (\<lambda>b.
     obind (put_delimited rt 0xA (dollarv1_QueryYieldResponse_ClaimableAmount x) b) (\<lambda>b.
     Ok (buffer_bytes b)))"

definition dollarv1_QueryYieldResponse_field ::
    "int \<Rightarrow> int \<Rightarrow> dollarv1_QueryYieldResponse \<Rightarrow> nat \<Rightarrow> bytes \<Rightarrow> (dollarv1_QueryYieldResponse \<times> nat) result option" where
  "dollarv1_QueryYieldResponse_field fieldNum wireType x i bs =
     (if fieldNum = 1 then Some (bytes_field wireType i (\<lambda>v. x\<lparr>dollarv1_QueryYieldResponse_ClaimableAmount := v\<rparr>) bs)
      else None)"

definition dollarv1_QueryYieldResponse_unmarshal :: "wire_runtime \<Rightarrow> bool \<Rightarrow> bytes \<Rightarrow> dollarv1_QueryYieldResponse result option" where
  "dollarv1_QueryYieldResponse_unmarshal rt discardUnknown bs =
     read_fields (Skip rt) dollarv1_QueryYieldResponse_field
       (\<lambda>u x. if discardUnknown then x else x\<lparr>dollarv1_QueryYieldResponse_unknownFields := dollarv1_QueryYieldResponse_unknownFields x @ u\<rparr>)
       \<lparr>dollarv1_QueryYieldResponse_ClaimableAmount = [], dollarv1_QueryYieldResponse_unknownFields = []\<rparr> 0 bs"

lemma dollarv1_QueryYieldResponse_written:
  assumes "varint_runtime rt" "dollarv1_QueryYieldResponse_unknownFields x = []"
  shows "writes (dollarv1_QueryYieldResponse_marshal rt x)
    (delimited_bytes rt 0xA (dollarv1_QueryYieldResponse_ClaimableAmount x) @
      [])
    (dollarv1_QueryYieldResponse_size rt x)"
  by (simp add: writes_def dollarv1_QueryYieldResponse_marshal_def dollarv1_QueryYieldResponse_size_def assms wire_puts)

lemma dollarv1_QueryYieldResponse_exact:
  assumes "varint_runtime rt"
  shows "exact_codec (dollarv1_QueryYieldResponse_size rt) (dollarv1_QueryYieldResponse_marshal rt) 
    (dollarv1_QueryYieldResponse_unmarshal rt' discardUnknown) (\<lambda>x. dollarv1_QueryYieldResponse_unknownFields x = [])"
  by (rule exact_codecI, rule dollarv1_QueryYieldResponse_written [OF assms], assumption,
    unfold dollarv1_QueryYieldResponse_unmarshal_def, erule readsD [rotated],
    (rule reads_bytes [OF assms], rule wire_tags,
        simp add: dollarv1_QueryYieldResponse_field_def, simp)+, rule reads_done, simp)

lemma dollarv1_QueryYieldResponse_returns:
  "skip_progress (Skip rt) \<Longrightarrow> \<exists>r. dollarv1_QueryYieldResponse_unmarshal rt discardUnknown bs = Some r"
  unfolding dollarv1_QueryYieldResponse_unmarshal_def by (rule read_fields_returns)

subsection \<open>QueryStats (dollarv1)\<close>

text \<open>\<open>QueryStats\<close> of \<open>api/v1/query.pulsar.go\<close>.\<close>

record dollarv1_QueryStats =
  dollarv1_QueryStats_unknownFields :: bytes

definition dollarv1_QueryStats_size :: "wire_runtime \<Rightarrow> dollarv1_QueryStats \<Rightarrow> nat" where
  "dollarv1_QueryStats_size rt x =
     length (dollarv1_QueryStats_unknownFields x)"

definition dollarv1_QueryStats_marshal :: "wire_runtime \<Rightarrow> dollarv1_QueryStats \<Rightarrow> bytes result" where
  "dollarv1_QueryStats_marshal rt x =
     obind (put (dollarv1_QueryStats_unknownFields x) (dollarv1_QueryStats_size rt x, [])) (\<lambda>b.
     Ok (buffer_bytes b))"

definition dollarv1_QueryStats_field ::
    "int \<Rightarrow> int \<Rightarrow> dollarv1_QueryStats \<Rightarrow> nat \<Rightarrow> bytes \<Rightarrow> (dollarv1_QueryStats \<times> nat) result option" where
  "dollarv1_QueryStats_field fieldNum wireType x i bs =
     None"

definition dollarv1_QueryStats_unmarshal :: "wire_runtime \<Rightarrow> bool \<Rightarrow> bytes \<Rightarrow> dollarv1_QueryStats result option" where
  "dollarv1_QueryStats_unmarshal rt discardUnknown bs =
     read_fields (Skip rt) dollarv1_QueryStats_field
       (\<lambda>u x. if discardUnknown then x else x\<lparr>dollarv1_QueryStats_unknownFields := dollarv1_QueryStats_unknownFields x @ u\<rparr>)
       \<lparr>dollarv1_QueryStats_unknownFields = []\<rparr> 0 bs"

lemma dollarv1_QueryStats_written:
  assumes "varint_runtime rt" "dollarv1_QueryStats_unknownFields x = []"
  shows "writes (dollarv1_QueryStats_marshal rt x)
    ([] :: bytes)
    (dollarv1_QueryStats_size rt x)"
  by (simp add: writes_def dollarv1_QueryStats_marshal_def dollarv1_QueryStats_size_def assms wire_puts)

lemma dollarv1_QueryStats_exact:
  assumes "varint_runtime rt"
  shows "exact_codec (dollarv1_QueryStats_size rt) (dollarv1_QueryStats_marshal rt) 
    (dollarv1_QueryStats_unmarshal rt' discardUnknown) (\<lambda>x. dollarv1_QueryStats_unknownFields x = [])"
  by (rule exact_codecI, rule dollarv1_QueryStats_written [OF assms], assumption,
    unfold dollarv1_QueryStats_unmarshal_def, erule readsD [rotated],
    rule reads_done, simp)

lemma dollarv1_QueryStats_returns:
  "skip_progress (Skip rt) \<Longrightarrow> \<exists>r. dollarv1_QueryStats_unmarshal rt discardUnknown bs = Some r"
  unfolding dollarv1_QueryStats_unmarshal_def by (rule read_fields_returns)

subsection \<open>QueryStatsResponse (dollarv1)\<close>

text \<open>\<open>QueryStatsResponse\<close> of \<open>api/v1/query.pulsar.go\<close>.\<close>

record dollarv1_QueryStatsResponse =
  dollarv1_QueryStatsResponse_TotalHolders :: "64 word"
  dollarv1_QueryStatsResponse_TotalPrincipal :: bytes
  dollarv1_QueryStatsResponse_TotalYieldAccrued :: bytes
  dollarv1_QueryStatsResponse_unknownFields :: bytes

definition dollarv1_QueryStatsResponse_size :: "wire_runtime \<Rightarrow> dollarv1_QueryStatsResponse \<Rightarrow> nat" where
  "dollarv1_QueryStatsResponse_size rt x =
     size_varint rt (dollarv1_QueryStatsResponse_TotalHolders x) +
     size_delimited rt (dollarv1_QueryStatsResponse_TotalPrincipal x) +
     size_delimited rt (dollarv1_QueryStatsResponse_TotalYieldAccrued x) +
     length (dollarv1_QueryStatsResponse_unknownFields x)"

definition dollarv1_QueryStatsResponse_marshal :: "wire_runtime \<Rightarrow> dollarv1_QueryStatsResponse \<Rightarrow> bytes result" where
  "dollarv1_QueryStatsResponse_marshal rt x =
     obind (put (dollarv1_QueryStatsResponse_unknownFields x) (dollarv1_QueryStatsResponse_size rt x, [])) (\<lambda>b.
     obind (put_delimited rt 0x1A (dollarv1_QueryStatsResponse_TotalYieldAccrued x) b) (\<lambda>b.
     obind (put_delimited rt 0x12 (dollarv1_QueryStatsResponse_TotalPrincipal x) b) (\<lambda>b.
     obind (put_varint rt 0x8 (dollarv1_QueryStatsResponse_TotalHolders x) b) (\<lambda>b.
     Ok (buffer_bytes b)))))"

definition dollarv1_QueryStatsResponse_field ::
    "int \<Rightarrow> int \<Rightarrow> dollarv1_QueryStatsResponse \<Rightarrow> nat \<Rightarrow> bytes \<Rightarrow> (dollarv1_QueryStatsResponse \<times> nat) result option" where
  "dollarv1_QueryStatsResponse_field fieldNum wireType x i bs =
     (if fieldNum = 1 then Some (varint_field wireType (\<lambda>v. x\<lparr>dollarv1_QueryStatsResponse_TotalHolders := v\<rparr>) bs)
      else if fieldNum = 2 then Some (bytes_field wireType i (\<lambda>v. x\<lparr>dollarv1_QueryStatsResponse_TotalPrincipal := v\<rparr>) bs)
      else if fieldNum = 3 then Some (bytes_field wireType i (\<lambda>v. x\<lparr>dollarv1_QueryStatsResponse_TotalYieldAccrued := v\<rparr>) bs)
      else None)"

definition dollarv1_QueryStatsResponse_unmarshal :: "wire_runtime \<Rightarrow> bool \<Rightarrow> bytes \<Rightarrow> dollarv1_QueryStatsResponse result option" where
  "dollarv1_QueryStatsResponse_unmarshal rt discardUnknown bs =
     read_fields (Skip rt) dollarv1_QueryStatsResponse_field
       (\<lambda>u x. if discardUnknown then x else x\<lparr>dollarv1_QueryStatsResponse_unknownFields := dollarv1_QueryStatsResponse_unknownFields x @ u\<rparr>)
       \<lparr>dollarv1_QueryStatsResponse_TotalHolders = 0, dollarv1_QueryStatsResponse_TotalPrincipal = [], dollarv1_QueryStatsResponse_TotalYieldAccrued = [], dollarv1_QueryStatsResponse_unknownFields = []\<rparr> 0 bs"

lemma dollarv1_QueryStatsResponse_written:
  assumes "varint_runtime rt" "dollarv1_QueryStatsResponse_unknownFields x = []"
  shows "writes (dollarv1_QueryStatsResponse_marshal rt x)
    (varint_bytes rt 0x8 (dollarv1_QueryStatsResponse_TotalHolders x) @
      delimited_bytes rt 0x12 (dollarv1_QueryStatsResponse_TotalPrincipal x) @
      delimited_bytes rt 0x1A (dollarv1_QueryStatsResponse_TotalYieldAccrued x) @
      [])
    (dollarv1_QueryStatsResponse_size rt x)"
  by (simp add: writes_def dollarv1_QueryStatsResponse_marshal_def dollarv1_QueryStatsResponse_size_def assms wire_puts)

lemma dollarv1_QueryStatsResponse_exact:
  assumes "varint_runtime rt"
  shows "exact_codec (dollarv1_QueryStatsResponse_size rt) (dollarv1_QueryStatsResponse_marshal rt) 
    (dollarv1_QueryStatsResponse_unmarshal rt' discardUnknown) (\<lambda>x. dollarv1_QueryStatsResponse_unknownFields x = [])"
  by (rule exact_codecI, rule dollarv1_QueryStatsResponse_written [OF assms], assumption,
    unfold dollarv1_QueryStatsResponse_unmarshal_def, erule readsD [rotated],
    (rule reads_varint [OF assms] reads_bytes [OF assms], rule wire_tags,
        simp add: dollarv1_QueryStatsResponse_field_def, simp)+, rule reads_done, simp)

lemma dollarv1_QueryStatsResponse_returns:
  "skip_progress (Skip rt) \<Longrightarrow> \<exists>r. dollarv1_QueryStatsResponse_unmarshal rt discardUnknown bs = Some r"
  unfolding dollarv1_QueryStatsResponse_unmarshal_def by (rule read_fields_returns)

subsection \<open>QueryStats (dollarv2)\<close>

text \<open>\<open>QueryStats\<close> of \<open>api/v2/query.pulsar.go\<close>.\<close>

record dollarv2_QueryStats =
  dollarv2_QueryStats_unknownFields :: bytes

definition dollarv2_QueryStats_size :: "wire_runtime \<Rightarrow> dollarv2_QueryStats \<Rightarrow> nat" where
  "dollarv2_QueryStats_size rt x =
     length (dollarv2_QueryStats_unknownFields x)"

definition dollarv2_QueryStats_marshal :: "wire_runtime \<Rightarrow> dollarv2_QueryStats \<Rightarrow> bytes result" where
  "dollarv2_QueryStats_marshal rt x =
     obind (put (dollarv2_QueryStats_unknownFields x) (dollarv2_QueryStats_size rt x, [])) (\<lambda>b.
     Ok (buffer_bytes b))"

definition dollarv2_QueryStats_field ::
    "int \<Rightarrow> int \<Rightarrow> dollarv2_QueryStats \<Rightarrow> nat \<Rightarrow> bytes \<Rightarrow> (dollarv2_QueryStats \<times> nat) result option" where
  "dollarv2_QueryStats_field fieldNum wireType x i bs =
     None"

definition dollarv2_QueryStats_unmarshal :: "wire_runtime \<Rightarrow> bool \<Rightarrow> bytes \<Rightarrow> dollarv2_QueryStats result option" where
  "dollarv2_QueryStats_unmarshal rt discardUnknown bs =
     read_fields (Skip rt) dollarv2_QueryStats_field
       (\<lambda>u x. if discardUnknown then x else x\<lparr>dollarv2_QueryStats_unknownFields := dollarv2_QueryStats_unknownFields x @ u\<rparr>)
       \<lparr>dollarv2_QueryStats_unknownFields = []\<rparr> 0 bs"

lemma dollarv2_QueryStats_written:
  assumes "varint_runtime rt" "dollarv2_QueryStats_unknownFields x = []"
  shows "writes (dollarv2_QueryStats_marshal rt x)
    ([] :: bytes)
    (dollarv2_QueryStats_size rt x)"
  by (simp add: writes_def dollarv2_QueryStats_marshal_def dollarv2_QueryStats_size_def assms wire_puts)

lemma dollarv2_QueryStats_exact:
  assumes "varint_runtime rt"
  shows "exact_codec (dollarv2_QueryStats_size rt) (dollarv2_QueryStats_marshal rt) 
    (dollarv2_QueryStats_unmarshal rt' discardUnknown) (\<lambda>x. dollarv2_QueryStats_unknownFields x = [])"
  by (rule exact_codecI, rule dollarv2_QueryStats_written [OF assms], assumption,
    unfold dollarv2_QueryStats_unmarshal_def, erule readsD [rotated],
    rule reads_done, simp)

lemma dollarv2_QueryStats_returns:
  "skip_progress (Skip rt) \<Longrightarrow> \<exists>r. dollarv2_QueryStats_unmarshal rt discardUnknown bs = Some r"
  unfolding dollarv2_QueryStats_unmarshal_def by (rule read_fields_returns)

subsection \<open>QueryYieldRecipients (dollarv2)\<close>

text \<open>\<open>QueryYieldRecipients\<close> of \<open>api/v2/query.pulsar.go\<close>.\<close>

record dollarv2_QueryYieldRecipients =
  dollarv2_QueryYieldRecipients_unknownFields :: bytes

definition dollarv2_QueryYieldRecipients_size :: "wire_runtime \<Rightarrow> dollarv2_QueryYieldRecipients \<Rightarrow> nat" where
  "dollarv2_QueryYieldRecipients_size rt x =
     length (dollarv2_QueryYieldRecipients_unknownFields x)"

definition dollarv2_QueryYieldRecipients_marshal :: "wire_runtime \<Rightarrow> dollarv2_QueryYieldRecipients \<Rightarrow> bytes result" where
  "dollarv2_QueryYieldRecipients_marshal rt x =
     obind (put (dollarv2_QueryYieldRecipients_unknownFields x) (dollarv2_QueryYieldRecipients_size rt x, [])) (\<lambda>b.
     Ok (buffer_bytes b))"

definition dollarv2_QueryYieldRecipients_field ::
    "int \<Rightarrow> int \<Rightarrow> dollarv2_QueryYieldRecipients \<Rightarrow> nat \<Rightarrow> bytes \<Rightarrow> (dollarv2_QueryYieldRecipients \<times> nat) result option" where
  "dollarv2_QueryYieldRecipients_field fieldNum wireType x i bs =
     None"

definition dollarv2_QueryYieldRecipients_unmarshal :: "wire_runtime \<Rightarrow> bool \<Rightarrow> bytes \<Rightarrow> dollarv2_QueryYieldRecipients result option" where
  "dollarv2_QueryYieldRecipients_unmarshal rt discardUnknown bs =
     read_fields (Skip rt) dollarv2_QueryYieldRecipients_field
       (\<lambda>u x. if discardUnknown then x else x\<lparr>dollarv2_QueryYieldRecipients_unknownFields := dollarv2_QueryYieldRecipients_unknownFields x @ u\<rparr>)
       \<lparr>dollarv2_QueryYieldRecipients_unknownFields = []\<rparr> 0 bs"

lemma dollarv2_QueryYieldRecipients_written:
  assumes "varint_runtime rt" "dollarv2_QueryYieldRecipients_unknownFields x = []"
  shows "writes (dollarv2_QueryYieldRecipients_marshal rt x)
    ([] :: bytes)
    (dollarv2_QueryYieldRecipients_size rt x)"
  by (simp add: writes_def dollarv2_QueryYieldRecipients_marshal_def dollarv2_QueryYieldRecipients_size_def assms wire_puts)

lemma dollarv2_QueryYieldRecipients_exact:
  assumes "varint_runtime rt"
  shows "exact_codec (dollarv2_QueryYieldRecipients_size rt) (dollarv2_QueryYieldRecipients_marshal rt) 
    (dollarv2_QueryYieldRecipients_unmarshal rt' discardUnknown) (\<lambda>x. dollarv2_QueryYieldRecipients_unknownFields x = [])"
  by (rule exact_codecI, rule dollarv2_QueryYieldRecipients_written [OF assms], assumption,
    unfold dollarv2_QueryYieldRecipients_unmarshal_def, erule readsD [rotated],
    rule reads_done, simp)

lemma dollarv2_QueryYieldRecipients_returns:
  "skip_progress (Skip rt) \<Longrightarrow> \<exists>r. dollarv2_QueryYieldRecipients_unmarshal rt discardUnknown bs = Some r"
  unfolding dollarv2_QueryYieldRecipients_unmarshal_def by (rule read_fields_returns)

subsection \<open>QueryYieldRecipient (dollarv2)\<close>

text \<open>\<open>QueryYieldRecipient\<close> of \<open>api/v2/query.pulsar.go\<close>.\<close>

record dollarv2_QueryYieldRecipient =
  dollarv2_QueryYieldRecipient_Provider :: "32 word"
  dollarv2_QueryYieldRecipient_Identifier :: bytes
  dollarv2_QueryYieldRecipient_unknownFields :: bytes

definition dollarv2_QueryYieldRecipient_size :: "wire_runtime \<Rightarrow> dollarv2_QueryYieldRecipient \<Rightarrow> nat" where
  "dollarv2_QueryYieldRecipient_size rt x =
     size_varint rt (scast (dollarv2_QueryYieldRecipient_Provider x)) +
     size_delimited rt (dollarv2_QueryYieldRecipient_Identifier x) +
     length (dollarv2_QueryYieldRecipient_unknownFields x)"

definition dollarv2_QueryYieldRecipient_marshal :: "wire_runtime \<Rightarrow> dollarv2_QueryYieldRecipient \<Rightarrow> bytes result" where
  "dollarv2_QueryYieldRecipient_marshal rt x =
     obind (put (dollarv2_QueryYieldRecipient_unknownFields x) (dollarv2_QueryYieldRecipient_size rt x, [])) (\<lambda>b.
     obind (put_delimited rt 0x12 (dollarv2_QueryYieldRecipient_Identifier x) b) (\<lambda>b.
     obind (put_varint rt 0x8 (scast (dollarv2_QueryYieldRecipient_Provider x)) b) (\<lambda>b.
     Ok (buffer_bytes b))))"

definition dollarv2_QueryYieldRecipient_field ::
    "int \<Rightarrow> int \<Rightarrow> dollarv2_QueryYieldRecipient \<Rightarrow> nat \<Rightarrow> bytes \<Rightarrow> (dollarv2_QueryYieldRecipient \<times> nat) result option" where
  "dollarv2_QueryYieldRecipient_field fieldNum wireType x i bs =
     (if fieldNum = 1 then Some (varint_field wireType (\<lambda>v. x\<lparr>dollarv2_QueryYieldRecipient_Provider := v\<rparr>) bs)
      else if fieldNum = 2 then Some (bytes_field wireType i (\<lambda>v. x\<lparr>dollarv2_QueryYieldRecipient_Identifier := v\<rparr>) bs)
      else None)"

definition dollarv2_QueryYieldRecipient_unmarshal :: "wire_runtime \<Rightarrow> bool \<Rightarrow> bytes \<Rightarrow> dollarv2_QueryYieldRecipient result option" where
  "dollarv2_QueryYieldRecipient_unmarshal rt discardUnknown bs =
     read_fields (Skip rt) dollarv2_QueryYieldRecipient_field
       (\<lambda>u x. if discardUnknown then x else x\<lparr>dollarv2_QueryYieldRecipient_unknownFields := dollarv2_QueryYieldRecipient_unknownFields x @ u\<rparr>)
       \<lparr>dollarv2_QueryYieldRecipient_Provider = 0, dollarv2_QueryYieldRecipient_Identifier = [], dollarv2_QueryYieldRecipient_unknownFields = []\<rparr> 0 bs"

lemma dollarv2_QueryYieldRecipient_written:
  assumes "varint_runtime rt" "dollarv2_QueryYieldRecipient_unknownFields x = []"
  shows "writes (dollarv2_QueryYieldRecipient_marshal rt x)
    (varint_bytes rt 0x8 (scast (dollarv2_QueryYieldRecipient_Provider x)) @
      delimited_bytes rt 0x12 (dollarv2_QueryYieldRecipient_Identifier x) @
      [])
    (dollarv2_QueryYieldRecipient_size rt x)"
  by (simp add: writes_def dollarv2_QueryYieldRecipient_marshal_def dollarv2_QueryYieldRecipient_size_def assms wire_puts)

lemma dollarv2_QueryYieldRecipient_exact:
  assumes "varint_runtime rt"
  shows "exact_codec (dollarv2_QueryYieldRecipient_size rt) (dollarv2_QueryYieldRecipient_marshal rt) 
    (dollarv2_QueryYieldRecipient_unmarshal rt' discardUnknown) (\<lambda>x. dollarv2_QueryYieldRecipient_unknownFields x = [])"
  by (rule exact_codecI, rule dollarv2_QueryYieldRecipient_written [OF assms], assumption,
    unfold dollarv2_QueryYieldRecipient_unmarshal_def, erule readsD [rotated],
    (rule reads_varint32 [OF assms] reads_bytes [OF assms], rule wire_tags,
        simp add: dollarv2_QueryYieldRecipient_field_def, simp)+, rule reads_done, simp)

lemma dollarv2_QueryYieldRecipient_returns:
  "skip_progress (Skip rt) \<Longrightarrow> \<exists>r. dollarv2_QueryYieldRecipient_unmarshal rt discardUnknown bs = Some r"
  unfolding dollarv2_QueryYieldRecipient_unmarshal_def by (rule read_fields_returns)

subsection \<open>QueryYieldRecipientResponse (dollarv2)\<close>

text \<open>\<open>QueryYieldRecipientResponse\<close> of \<open>api/v2/query.pulsar.go\<close>.\<close>

record dollarv2_QueryYieldRecipientResponse =
  dollarv2_QueryYieldRecipientResponse_YieldRecipient :: bytes
  dollarv2_QueryYieldRecipientResponse_unknownFields :: bytes

definition dollarv2_QueryYieldRecipientResponse_size :: "wire_runtime \<Rightarrow> dollarv2_QueryYieldRecipientResponse \<Rightarrow> nat" where
  "dollarv2_QueryYieldRecipientResponse_size rt x =
     size_delimited rt (dollarv2_QueryYieldRecipientResponse_YieldRecipient x) +
     length (dollarv2_QueryYieldRecipientResponse_unknownFields x)"

definition dollarv2_QueryYieldRecipientResponse_marshal :: "wire_runtime \<Rightarrow> dollarv2_QueryYieldRecipientResponse \<Rightarrow> bytes result" where
  "dollarv2_QueryYieldRecipientResponse_marshal rt x =
     obind (put (dollarv2_QueryYieldRecipientResponse_unknownFields x) (dollarv2_QueryYieldRecipientResponse_size rt x, [])) (\<lambda>b.
     obind (put_delimited rt 0xA (dollarv2_QueryYieldRecipientResponse_YieldRecipient x) b) (\<lambda>b.
     Ok (buffer_bytes b)))"

definition dollarv2_QueryYieldRecipientResponse_field ::
    "int \<Rightarrow> int \<Rightarrow> dollarv2_QueryYieldRecipientResponse \<Rightarrow> nat \<Rightarrow> bytes \<Rightarrow> (dollarv2_QueryYieldRecipientResponse \<times> nat) result option" where
  "dollarv2_QueryYieldRecipientResponse_field fieldNum wireType x i bs =
     (if fieldNum = 1 then Some (bytes_field wireType i (\<lambda>v. x\<lparr>dollarv2_QueryYieldRecipientResponse_YieldRecipient := v\<rparr>) bs)
      else None)"

definition dollarv2_QueryYieldRecipientResponse_unmarshal :: "wire_runtime \<Rightarrow> bool \<Rightarrow> bytes \<Rightarrow> dollarv2_QueryYieldRecipientResponse result option" where
  "dollarv2_QueryYieldRecipientResponse_unmarshal rt discardUnknown bs =
     read_fields (Skip rt) dollarv2_QueryYieldRecipientResponse_field
       (\<lambda>u x. if discardUnknown then x else x\<lparr>dollarv2_QueryYieldRecipientResponse_unknownFields := dollarv2_QueryYieldRecipientResponse_unknownFields x @ u\<rparr>)
       \<lparr>dollarv2_QueryYieldRecipientResponse_YieldRecipient = [], dollarv2_QueryYieldRecipientResponse_unknownFields = []\<rparr> 0 bs"

lemma dollarv2_QueryYieldRecipientResponse_written:
  assumes "varint_runtime rt" "dollarv2_QueryYieldRecipientResponse_unknownFields x = []"
  shows "writes (dollarv2_QueryYieldRecipientResponse_marshal rt x)
    (delimited_bytes rt 0xA (dollarv2_QueryYieldRecipientResponse_YieldRecipient x) @
      [])
    (dollarv2_QueryYieldRecipientResponse_size rt x)"
  by (simp add: writes_def dollarv2_QueryYieldRecipientResponse_marshal_def dollarv2_QueryYieldRecipientResponse_size_def assms wire_puts)

lemma dollarv2_QueryYieldRecipientResponse_exact:
  assumes "varint_runtime rt"
  shows "exact_codec (dollarv2_QueryYieldRecipientResponse_size rt) (dollarv2_QueryYieldRecipientResponse_marshal rt) 
    (dollarv2_QueryYieldRecipientResponse_unmarshal rt' discardUnknown) (\<lambda>x. dollarv2_QueryYieldRecipientResponse_unknownFields x = [])"
  by (rule exact_codecI, rule dollarv2_QueryYieldRecipientResponse_written [OF assms], assumption,
    unfold dollarv2_QueryYieldRecipientResponse_unmarshal_def, erule readsD [rotated],
    (rule reads_bytes [OF assms], rule wire_tags,
        simp add: dollarv2_QueryYieldRecipientResponse_field_def, simp)+, rule reads_done, simp)

lemma dollarv2_QueryYieldRecipientResponse_returns:
  "skip_progress (Skip rt) \<Longrightarrow> \<exists>r. dollarv2_QueryYieldRecipientResponse_unmarshal rt discardUnknown bs = Some r"
  unfolding dollarv2_QueryYieldRecipientResponse_unmarshal_def by (rule read_fields_returns)

subsection \<open>QueryRetryAmounts (dollarv2)\<close>

text \<open>\<open>QueryRetryAmounts\<close> of \<open>api/v2/query.pulsar.go\<close>.\<close>

record dollarv2_QueryRetryAmounts =
  dollarv2_QueryRetryAmounts_unknownFields :: bytes

definition dollarv2_QueryRetryAmounts_size :: "wire_runtime \<Rightarrow> dollarv2_QueryRetryAmounts \<Rightarrow> nat" where
  "dollarv2_QueryRetryAmounts_size rt x =
     length (dollarv2_QueryRetryAmounts_unknownFields x)"

definition dollarv2_QueryRetryAmounts_marshal :: "wire_runtime \<Rightarrow> dollarv2_QueryRetryAmounts \<Rightarrow> bytes result" where
  "dollarv2_QueryRetryAmounts_marshal rt x =
     obind (put (dollarv2_QueryRetryAmounts_unknownFields x) (dollarv2_QueryRetryAmounts_size rt x, [])) (\<lambda>b.
     Ok (buffer_bytes b))"

definition dollarv2_QueryRetryAmounts_field ::
    "int \<Rightarrow> int \<Rightarrow> dollarv2_QueryRetryAmounts \<Rightarrow> nat \<Rightarrow> bytes \<Rightarrow> (dollarv2_QueryRetryAmounts \<times> nat) result option" where
  "dollarv2_QueryRetryAmounts_field fieldNum wireType x i bs =
     None"

definition dollarv2_QueryRetryAmounts_unmarshal :: "wire_runtime \<Rightarrow> bool \<Rightarrow> bytes \<Rightarrow> dollarv2_QueryRetryAmounts result option" where
  "dollarv2_QueryRetryAmounts_unmarshal rt discardUnknown bs =
     read_fields (Skip rt) dollarv2_QueryRetryAmounts_field
       (\<lambda>u x. if discardUnknown then x else x\<lparr>dollarv2_QueryRetryAmounts_unknownFields := dollarv2_QueryRetryAmounts_unknownFields x @ u\<rparr>)
       \<lparr>dollarv2_QueryRetryAmounts_unknownFields = []\<rparr> 0 bs"

lemma dollarv2_QueryRetryAmounts_written:
  assumes "varint_runtime rt" "dollarv2_QueryRetryAmounts_unknownFields x = []"
  shows "writes (dollarv2_QueryRetryAmounts_marshal rt x)
    ([] :: bytes)
    (dollarv2_QueryRetryAmounts_size rt x)"
  by (simp add: writes_def dollarv2_QueryRetryAmounts_marshal_def dollarv2_QueryRetryAmounts_size_def assms wire_puts)

lemma dollarv2_QueryRetryAmounts_exact:
  assumes "varint_runtime rt"
  shows "exact_codec (dollarv2_QueryRetryAmounts_size rt) (dollarv2_QueryRetryAmounts_marshal rt) 
    (dollarv2_QueryRetryAmounts_unmarshal rt' discardUnknown) (\<lambda>x. dollarv2_QueryRetryAmounts_unknownFields x = [])"
  by (rule exact_codecI, rule dollarv2_QueryRetryAmounts_written [OF assms], assumption,
    unfold dollarv2_QueryRetryAmounts_unmarshal_def, erule readsD [rotated],
    rule reads_done, simp)

lemma dollarv2_QueryRetryAmounts_returns:
  "skip_progress (Skip rt) \<Longrightarrow> \<exists>r. dollarv2_QueryRetryAmounts_unmarshal rt discardUnknown bs = Some r"
  unfolding dollarv2_QueryRetryAmounts_unmarshal_def by (rule read_fields_returns)

subsection \<open>QueryRetryAmount (dollarv2)\<close>

text \<open>\<open>QueryRetryAmount\<close> of \<open>api/v2/query.pulsar.go\<close>.\<close>

record dollarv2_QueryRetryAmount =
  dollarv2_QueryRetryAmount_Provider :: "32 word"
  dollarv2_QueryRetryAmount_Identifier :: bytes
  dollarv2_QueryRetryAmount_unknownFields :: bytes

definition dollarv2_QueryRetryAmount_size :: "wire_runtime \<Rightarrow> dollarv2_QueryRetryAmount \<Rightarrow> nat" where
  "dollarv2_QueryRetryAmount_size rt x =
     size_varint rt (scast (dollarv2_QueryRetryAmount_Provider x)) +
     size_delimited rt (dollarv2_QueryRetryAmount_Identifier x) +
     length (dollarv2_QueryRetryAmount_unknownFields x)"

definition dollarv2_QueryRetryAmount_marshal :: "wire_runtime \<Rightarrow> dollarv2_QueryRetryAmount \<Rightarrow> bytes result" where
  "dollarv2_QueryRetryAmount_marshal rt x =
     obind (put (dollarv2_QueryRetryAmount_unknownFields x) (dollarv2_QueryRetryAmount_size rt x, [])) (\<lambda>b.
     obind (put_delimited rt 0x12 (dollarv2_QueryRetryAmount_Identifier x) b) (\<lambda>b.
     obind (put_varint rt 0x8 (scast (dollarv2_QueryRetryAmount_Provider x)) b) (\<lambda>b.
     Ok (buffer_bytes b))))"

definition dollarv2_QueryRetryAmount_field ::
    "int \<Rightarrow> int \<Rightarrow> dollarv2_QueryRetryAmount \<Rightarrow> nat \<Rightarrow> bytes \<Rightarrow> (dollarv2_QueryRetryAmount \<times> nat) result option" where
  "dollarv2_QueryRetryAmount_field fieldNum wireType x i bs =
     (if fieldNum = 1 then Some (varint_field wireType (\<lambda>v. x\<lparr>dollarv2_QueryRetryAmount_Provider := v\<rparr>) bs)
      else if fieldNum = 2 then Some (bytes_field wireType i (\<lambda>v. x\<lparr>dollarv2_QueryRetryAmount_Identifier := v\<rparr>) bs)
      else None)"

definition dollarv2_QueryRetryAmount_unmarshal :: "wire_runtime \<Rightarrow> bool \<Rightarrow> bytes \<Rightarrow> dollarv2_QueryRetryAmount result option" where
  "dollarv2_QueryRetryAmount_unmarshal rt discardUnknown bs =
     read_fields (Skip rt) dollarv2_QueryRetryAmount_field
       (\<lambda>u x. if discardUnknown then x else x\<lparr>dollarv2_QueryRetryAmount_unknownFields := dollarv2_QueryRetryAmount_unknownFields x @ u\<rparr>)
       \<lparr>dollarv2_QueryRetryAmount_Provider = 0, dollarv2_QueryRetryAmount_Identifier = [], dollarv2_QueryRetryAmount_unknownFields = []\<rparr> 0 bs"

lemma dollarv2_QueryRetryAmount_written:
  assumes "varint_runtime rt" "dollarv2_QueryRetryAmount_unknownFields x = []"
  shows "writes (dollarv2_QueryRetryAmount_marshal rt x)
    (varint_bytes rt 0x8 (scast (dollarv2_QueryRetryAmount_Provider x)) @
      delimited_bytes rt 0x12 (dollarv2_QueryRetryAmount_Identifier x) @
      [])
    (dollarv2_QueryRetryAmount_size rt x)"
  by (simp add: writes_def dollarv2_QueryRetryAmount_marshal_def dollarv2_QueryRetryAmount_size_def assms wire_puts)

lemma dollarv2_QueryRetryAmount_exact:
  assumes "varint_runtime rt"
  shows "exact_codec (dollarv2_QueryRetryAmount_size rt) (dollarv2_QueryRetryAmount_marshal rt) 
    (dollarv2_QueryRetryAmount_unmarshal rt' discardUnknown) (\<lambda>x. dollarv2_QueryRetryAmount_unknownFields x = [])"
  by (rule exact_codecI, rule dollarv2_QueryRetryAmount_written [OF assms], assumption,
    unfold dollarv2_QueryRetryAmount_unmarshal_def, erule readsD [rotated],
    (rule reads_varint32 [OF assms] reads_bytes [OF assms], rule wire_tags,
        simp add: dollarv2_QueryRetryAmount_field_def, simp)+, rule reads_done, simp)

lemma dollarv2_QueryRetryAmount_returns:
  "skip_progress (Skip rt) \<Longrightarrow> \<exists>r. dollarv2_QueryRetryAmount_unmarshal rt discardUnknown bs = Some r"
  unfolding dollarv2_QueryRetryAmount_unmarshal_def by (rule read_fields_returns)

subsection \<open>QueryRetryAmountResponse (dollarv2)\<close>

text \<open>\<open>QueryRetryAmountResponse\<close> of \<open>api/v2/query.pulsar.go\<close>.\<close>

record dollarv2_QueryRetryAmountResponse =
  dollarv2_QueryRetryAmountResponse_RetryAmount :: bytes
  dollarv2_QueryRetryAmountResponse_unknownFields :: bytes

definition dollarv2_QueryRetryAmountResponse_size :: "wire_runtime \<Rightarrow> dollarv2_QueryRetryAmountResponse \<Rightarrow> nat" where
  "dollarv2_QueryRetryAmountResponse_size rt x =
     size_delimited rt (dollarv2_QueryRetryAmountResponse_RetryAmount x) +
     length (dollarv2_QueryRetryAmountResponse_unknownFields x)"

definition dollarv2_QueryRetryAmountResponse_marshal :: "wire_runtime \<Rightarrow> dollarv2_QueryRetryAmountResponse \<Rightarrow> bytes result" where
  "dollarv2_QueryRetryAmountResponse_marshal rt x =
     obind (put (dollarv2_QueryRetryAmountResponse_unknownFields x) (dollarv2_QueryRetryAmountResponse_size rt x, [])) (\<lambda>b.
     obind (put_delimited rt 0xA (dollarv2_QueryRetryAmountResponse_RetryAmount x) b) (\<lambda>b.
     Ok (buffer_bytes b)))"

definition dollarv2_QueryRetryAmountResponse_field ::
    "int \<Rightarrow> int \<Rightarrow> dollarv2_QueryRetryAmountResponse \<Rightarrow> nat \<Rightarrow> bytes \<Rightarrow> (dollarv2_QueryRetryAmountResponse \<times> nat) result option" where
  "dollarv2_QueryRetryAmountResponse_field fieldNum wireType x i bs =
     (if fieldNum = 1 then Some (bytes_field wireType i (\<lambda>v. x\<lparr>dollarv2_QueryRetryAmountResponse_RetryAmount := v\<rparr>) bs)
      else None)"

definition dollarv2_QueryRetryAmountResponse_unmarshal :: "wire_runtime \<Rightarrow> bool \<Rightarrow> bytes \<Rightarrow> dollarv2_QueryRetryAmountResponse result option" where
  "dollarv2_QueryRetryAmountResponse_unmarshal rt discardUnknown bs =
     read_fields (Skip rt) dollarv2_QueryRetryAmountResponse_field
       (\<lambda>u x. if discardUnknown then x else x\<lparr>dollarv2_QueryRetryAmountResponse_unknownFields := dollarv2_QueryRetryAmountResponse_unknownFields x @ u\<rparr>)
       \<lparr>dollarv2_QueryRetryAmountResponse_RetryAmount = [], dollarv2_QueryRetryAmountResponse_unknownFields = []\<rparr> 0 bs"

lemma dollarv2_QueryRetryAmountResponse_written:
  assumes "varint_runtime rt" "dollarv2_QueryRetryAmountResponse_unknownFields x = []"
  shows "writes (dollarv2_QueryRetryAmountResponse_marshal rt x)
    (delimited_bytes rt 0xA (dollarv2_QueryRetryAmountResponse_RetryAmount x) @
      [])
    (dollarv2_QueryRetryAmountResponse_size rt x)"
  by (simp add: writes_def dollarv2_QueryRetryAmountResponse_marshal_def dollarv2_QueryRetryAmountResponse_size_def assms wire_puts)

lemma dollarv2_QueryRetryAmountResponse_exact:
  assumes "varint_runtime rt"
  shows "exact_codec (dollarv2_QueryRetryAmountResponse_size rt) (dollarv2_QueryRetryAmountResponse_marshal rt) 
    (dollarv2_QueryRetryAmountResponse_unmarshal rt' discardUnknown) (\<lambda>x. dollarv2_QueryRetryAmountResponse_unknownFields x = [])"
  by (rule exact_codecI, rule dollarv2_QueryRetryAmountResponse_written [OF assms], assumption,
    unfold dollarv2_QueryRetryAmountResponse_unmarshal_def, erule readsD [rotated],
    (rule reads_bytes [OF assms], rule wire_tags,
        simp add: dollarv2_QueryRetryAmountResponse_field_def, simp)+, rule reads_done, simp)

lemma dollarv2_QueryRetryAmountResponse_returns:
  "skip_progress (Skip rt) \<Longrightarrow> \<exists>r. dollarv2_QueryRetryAmountResponse_unmarshal rt discardUnknown bs = Some r"
  unfolding dollarv2_QueryRetryAmountResponse_unmarshal_def by (rule read_fields_returns)

subsection \<open>QueryStatsResponse_ExternalYield (dollarv2)\<close>

text \<open>\<open>QueryStatsResponse_ExternalYield\<close> of \<open>api/v2/query.pulsar.go\<close>.\<close>

record dollarv2_QueryStatsResponse_ExternalYield =
  dollarv2_QueryStatsResponse_ExternalYield_ChainId :: bytes
  dollarv2_QueryStatsResponse_ExternalYield_Amount :: bytes
  dollarv2_QueryStatsResponse_ExternalYield_unknownFields :: bytes

definition dollarv2_QueryStatsResponse_ExternalYield_size :: "wire_runtime \<Rightarrow> dollarv2_QueryStatsResponse_ExternalYield \<Rightarrow> nat" where
  "dollarv2_QueryStatsResponse_ExternalYield_size rt x =
     size_delimited rt (dollarv2_QueryStatsResponse_ExternalYield_ChainId x) +
     size_delimited rt (dollarv2_QueryStatsResponse_ExternalYield_Amount x) +
     length (dollarv2_QueryStatsResponse_ExternalYield_unknownFields x)"

definition dollarv2_QueryStatsResponse_ExternalYield_marshal :: "wire_runtime \<Rightarrow> dollarv2_QueryStatsResponse_ExternalYield \<Rightarrow> bytes result" where
  "dollarv2_QueryStatsResponse_ExternalYield_marshal rt x =
     obind (put (dollarv2_QueryStatsResponse_ExternalYield_unknownFields x) (dollarv2_QueryStatsResponse_ExternalYield_size rt x, [])) (\<lambda>b.
     obind (put_delimited rt 0x12 (dollarv2_QueryStatsResponse_ExternalYield_Amount x) b) (\<lambda>b.
     obind (put_delimited rt 0xA (dollarv2_QueryStatsResponse_ExternalYield_ChainId x) b) (\<lambda>b.
     Ok (buffer_bytes b))))"

definition dollarv2_QueryStatsResponse_ExternalYield_field ::
    "int \<Rightarrow> int \<Rightarrow> dollarv2_QueryStatsResponse_ExternalYield \<Rightarrow> nat \<Rightarrow> bytes \<Rightarrow> (dollarv2_QueryStatsResponse_ExternalYield \<times> nat) result option" where
  "dollarv2_QueryStatsResponse_ExternalYield_field fieldNum wireType x i bs =
     (if fieldNum = 1 then Some (bytes_field wireType i (\<lambda>v. x\<lparr>dollarv2_QueryStatsResponse_ExternalYield_ChainId := v\<rparr>) bs)
      else if fieldNum = 2 then Some (bytes_field wireType i (\<lambda>v. x\<lparr>dollarv2_QueryStatsResponse_ExternalYield_Amount := v\<rparr>) bs)
      else None)"

definition dollarv2_QueryStatsResponse_ExternalYield_unmarshal :: "wire_runtime \<Rightarrow> bool \<Rightarrow> bytes \<Rightarrow> dollarv2_QueryStatsResponse_ExternalYield result option" where
  "dollarv2_QueryStatsResponse_ExternalYield_unmarshal rt discardUnknown bs =
     read_fields (Skip rt) dollarv2_QueryStatsResponse_ExternalYield_field
       (\<lambda>u x. if discardUnknown then x else x\<lparr>dollarv2_QueryStatsResponse_ExternalYield_unknownFields := dollarv2_QueryStatsResponse_ExternalYield_unknownFields x @ u\<rparr>)
       \<lparr>dollarv2_QueryStatsResponse_ExternalYield_ChainId = [], dollarv2_QueryStatsResponse_ExternalYield_Amount = [], dollarv2_QueryStatsResponse_ExternalYield_unknownFields = []\<rparr> 0 bs"

lemma dollarv2_QueryStatsResponse_ExternalYield_written:
  assumes "varint_runtime rt" "dollarv2_QueryStatsResponse_ExternalYield_unknownFields x = []"
  shows "writes (dollarv2_QueryStatsResponse_ExternalYield_marshal rt x)
    (delimited_bytes rt 0xA (dollarv2_QueryStatsResponse_ExternalYield_ChainId x) @
      delimited_bytes rt 0x12 (dollarv2_QueryStatsResponse_ExternalYield_Amount x) @
      [])
    (dollarv2_QueryStatsResponse_ExternalYield_size rt x)"
  by (simp add: writes_def dollarv2_QueryStatsResponse_ExternalYield_marshal_def dollarv2_QueryStatsResponse_ExternalYield_size_def assms wire_puts)

lemma dollarv2_QueryStatsResponse_ExternalYield_exact:
  assumes "varint_runtime rt"
  shows "exact_codec (dollarv2_QueryStatsResponse_ExternalYield_size rt) (dollarv2_QueryStatsResponse_ExternalYield_marshal rt) 
    (dollarv2_QueryStatsResponse_ExternalYield_unmarshal rt' discardUnknown) (\<lambda>x. dollarv2_QueryStatsResponse_ExternalYield_unknownFields x = [])"
  by (rule exact_codecI, rule dollarv2_QueryStatsResponse_ExternalYield_written [OF assms], assumption,
    unfold dollarv2_QueryStatsResponse_ExternalYield_unmarshal_def, erule readsD [rotated],
    (rule reads_bytes [OF assms], rule wire_tags,
        simp add: dollarv2_QueryStatsResponse_ExternalYield_field_def, simp)+, rule reads_done, simp)

lemma dollarv2_QueryStatsResponse_ExternalYield_returns:
  "skip_progress (Skip rt) \<Longrightarrow> \<exists>r. dollarv2_QueryStatsResponse_ExternalYield_unmarshal rt discardUnknown bs = Some r"
  unfolding dollarv2_QueryStatsResponse_ExternalYield_unmarshal_def by (rule read_fields_returns)

subsection \<open>QueryOwner (portalv1)\<close>

text \<open>\<open>QueryOwner\<close> of \<open>api/portal/v1/query.pulsar.go\<close>.\<close>

record portalv1_QueryOwner =
  portalv1_QueryOwner_unknownFields :: bytes

definition portalv1_QueryOwner_size :: "wire_runtime \<Rightarrow> portalv1_QueryOwner \<Rightarrow> nat" where
  "portalv1_QueryOwner_size rt x =
     length (portalv1_QueryOwner_unknownFields x)"

definition portalv1_QueryOwner_marshal :: "wire_runtime \<Rightarrow> portalv1_QueryOwner \<Rightarrow> bytes result" where
  "portalv1_QueryOwner_marshal rt x =
     obind (put (portalv1_QueryOwner_unknownFields x) (portalv1_QueryOwner_size rt x, [])) (\<lambda>b.
     Ok (buffer_bytes b))"

definition portalv1_QueryOwner_field ::
    "int \<Rightarrow> int \<Rightarrow> portalv1_QueryOwner \<Rightarrow> nat \<Rightarrow> bytes \<Rightarrow> (portalv1_QueryOwner \<times> nat) result option" where
  "portalv1_QueryOwner_field fieldNum wireType x i bs =
     None"

definition portalv1_QueryOwner_unmarshal :: "wire_runtime \<Rightarrow> bool \<Rightarrow> bytes \<Rightarrow> portalv1_QueryOwner result option" where
  "portalv1_QueryOwner_unmarshal rt discardUnknown bs =
     read_fields (Skip rt) portalv1_QueryOwner_field
       (\<lambda>u x. if discardUnknown then x else x\<lparr>portalv1_QueryOwner_unknownFields := portalv1_QueryOwner_unknownFields x @ u\<rparr>)
       \<lparr>portalv1_QueryOwner_unknownFields = []\<rparr> 0 bs"

lemma portalv1_QueryOwner_written:
  assumes "varint_runtime rt" "portalv1_QueryOwner_unknownFields x = []"
  shows "writes (portalv1_QueryOwner_marshal rt x)
    ([] :: bytes)
    (portalv1_QueryOwner_size rt x)"
  by (simp add: writes_def portalv1_QueryOwner_marshal_def portalv1_QueryOwner_size_def assms wire_puts)

lemma portalv1_QueryOwner_exact:
  assumes "varint_runtime rt"
  shows "exact_codec (portalv1_QueryOwner_size rt) (portalv1_QueryOwner_marshal rt) 
    (portalv1_QueryOwner_unmarshal rt' discardUnknown) (\<lambda>x. portalv1_QueryOwner_unknownFields x = [])"
  by (rule exact_codecI, rule portalv1_QueryOwner_written [OF assms], assumption,
    unfold portalv1_QueryOwner_unmarshal_def, erule readsD [rotated],
    rule reads_done, simp)

lemma portalv1_QueryOwner_returns:
  "skip_progress (Skip rt) \<Longrightarrow> \<exists>r. portalv1_QueryOwner_unmarshal rt discardUnknown bs = Some r"
  unfolding portalv1_QueryOwner_unmarshal_def by (rule read_fields_returns)

subsection \<open>QueryOwnerResponse (portalv1)\<close>

text \<open>\<open>QueryOwnerResponse\<close> of \<open>api/portal/v1/query.pulsar.go\<close>.\<close>

record portalv1_QueryOwnerResponse =
  portalv1_QueryOwnerResponse_Owner :: bytes
  portalv1_QueryOwnerResponse_unknownFields :: bytes

definition portalv1_QueryOwnerResponse_size :: "wire_runtime \<Rightarrow> portalv1_QueryOwnerResponse \<Rightarrow> nat" where
  "portalv1_QueryOwnerResponse_size rt x =
     size_delimited rt (portalv1_QueryOwnerResponse_Owner x) +
     length (portalv1_QueryOwnerResponse_unknownFields x)"

definition portalv1_QueryOwnerResponse_marshal :: "wire_runtime \<Rightarrow> portalv1_QueryOwnerResponse \<Rightarrow> bytes result" where
  "portalv1_QueryOwnerResponse_marshal rt x =
     obind (put (portalv1_QueryOwnerResponse_unknownFields x) (portalv1_QueryOwnerResponse_size rt x, [])) (\<lambda>b.
     obind (put_delimited rt 0xA (portalv1_QueryOwnerResponse_Owner x) b) (\<lambda>b.
     Ok (buffer_bytes b)))"

definition portalv1_QueryOwnerResponse_field ::
    "int \<Rightarrow> int \<Rightarrow> portalv1_QueryOwnerResponse \<Rightarrow> nat \<Rightarrow> bytes \<Rightarrow> (portalv1_QueryOwnerResponse \<times> nat) result option" where
  "portalv1_QueryOwnerResponse_field fieldNum wireType x i bs =
     (if fieldNum = 1 then Some (bytes_field wireType i (\<lambda>v. x\<lparr>portalv1_QueryOwnerResponse_Owner := v\<rparr>) bs)
      else None)"

definition portalv1_QueryOwnerResponse_unmarshal :: "wire_runtime \<Rightarrow> bool \<Rightarrow> bytes \<Rightarrow> portalv1_QueryOwnerResponse result option" where
  "portalv1_QueryOwnerResponse_unmarshal rt discardUnknown bs =
     read_fields (Skip rt) portalv1_QueryOwnerResponse_field
       (\<lambda>u x. if discardUnknown then x else x\<lparr>portalv1_QueryOwnerResponse_unknownFields := portalv1_QueryOwnerResponse_unknownFields x @ u\<rparr>)
       \<lparr>portalv1_QueryOwnerResponse_Owner = [], portalv1_QueryOwnerResponse_unknownFields = []\<rparr> 0 bs"

lemma portalv1_QueryOwnerResponse_written:
  assumes "varint_runtime rt" "portalv1_QueryOwnerResponse_unknownFields x = []"
  shows "writes (portalv1_QueryOwnerResponse_marshal rt x)
    (delimited_bytes rt 0xA (portalv1_QueryOwnerResponse_Owner x) @
      [])
    (portalv1_QueryOwnerResponse_size rt x)"
  by (simp add: writes_def portalv1_QueryOwnerResponse_marshal_def portalv1_QueryOwnerResponse_size_def assms wire_puts)

lemma portalv1_QueryOwnerResponse_exact:
  assumes "varint_runtime rt"
  shows "exact_codec (portalv1_QueryOwnerResponse_size rt) (portalv1_QueryOwnerResponse_marshal rt) 
    (portalv1_QueryOwnerResponse_unmarshal rt' discardUnknown) (\<lambda>x. portalv1_QueryOwnerResponse_unknownFields x = [])"
  by (rule exact_codecI, rule portalv1_QueryOwnerResponse_written [OF assms], assumption,
    unfold portalv1_QueryOwnerResponse_unmarshal_def, erule readsD [rotated],
    (rule reads_bytes [OF assms], rule wire_tags,
        simp add: portalv1_QueryOwnerResponse_field_def, simp)+, rule reads_done, simp)

lemma portalv1_QueryOwnerResponse_returns:
  "skip_progress (Skip rt) \<Longrightarrow> \<exists>r. portalv1_QueryOwnerResponse_unmarshal rt discardUnknown bs = Some r"
  unfolding portalv1_QueryOwnerResponse_unmarshal_def by (rule read_fields_returns)

subsection \<open>QueryPaused (portalv1)\<close>

text \<open>\<open>QueryPaused\<close> of \<open>api/portal/v1/query.pulsar.go\<close>.\<close>

record portalv1_QueryPaused =
  portalv1_QueryPaused_unknownFields :: bytes

definition portalv1_QueryPaused_size :: "wire_runtime \<Rightarrow> portalv1_QueryPaused \<Rightarrow> nat" where
  "portalv1_QueryPaused_size rt x =
     length (portalv1_QueryPaused_unknownFields x)"

definition portalv1_QueryPaused_marshal :: "wire_runtime \<Rightarrow> portalv1_QueryPaused \<Rightarrow> bytes result" where
  "portalv1_QueryPaused_marshal rt x =
     obind (put (portalv1_QueryPaused_unknownFields x) (portalv1_QueryPaused_size rt x, [])) (\<lambda>b.
     Ok (buffer_bytes b))"

definition portalv1_QueryPaused_field ::
    "int \<Rightarrow> int \<Rightarrow> portalv1_QueryPaused \<Rightarrow> nat \<Rightarrow> bytes \<Rightarrow> (portalv1_QueryPaused \<times> nat) result option" where
  "portalv1_QueryPaused_field fieldNum wireType x i bs =
     None"

definition portalv1_QueryPaused_unmarshal :: "wire_runtime \<Rightarrow> bool \<Rightarrow> bytes \<Rightarrow> portalv1_QueryPaused result option" where
  "portalv1_QueryPaused_unmarshal rt discardUnknown bs =
     read_fields (Skip rt) portalv1_QueryPaused_field
       (\<lambda>u x. if discardUnknown then x else x\<lparr>portalv1_QueryPaused_unknownFields := portalv1_QueryPaused_unknownFields x @ u\<rparr>)
       \<lparr>portalv1_QueryPaused_unknownFields = []\<rparr> 0 bs"

lemma portalv1_QueryPaused_written:
  assumes "varint_runtime rt" "portalv1_QueryPaused_unknownFields x = []"
  shows "writes (portalv1_QueryPaused_marshal rt x)
    ([] :: bytes)
    (portalv1_QueryPaused_size rt x)"
  by (simp add: writes_def portalv1_QueryPaused_marshal_def portalv1_QueryPaused_size_def assms wire_puts)

lemma portalv1_QueryPaused_exact:
  assumes "varint_runtime rt"
  shows "exact_codec (portalv1_QueryPaused_size rt) (portalv1_QueryPaused_marshal rt) 
    (portalv1_QueryPaused_unmarshal rt' discardUnknown) (\<lambda>x. portalv1_QueryPaused_unknownFields x = [])"
  by (rule exact_codecI, rule portalv1_QueryPaused_written [OF assms], assumption,
    unfold portalv1_QueryPaused_unmarshal_def, erule readsD [rotated],
    rule reads_done, simp)

lemma portalv1_QueryPaused_returns:
  "skip_progress (Skip rt) \<Longrightarrow> \<exists>r. portalv1_QueryPaused_unmarshal rt discardUnknown bs = Some r"
  unfolding portalv1_QueryPaused_unmarshal_def by (rule read_fields_returns)

subsection \<open>QueryPausedResponse (portalv1)\<close>

text \<open>\<open>QueryPausedResponse\<close> of \<open>api/portal/v1/query.pulsar.go\<close>.\<close>

record portalv1_QueryPausedResponse =
  portalv1_QueryPausedResponse_Paused :: bool
  portalv1_QueryPausedResponse_unknownFields :: bytes

definition portalv1_QueryPausedResponse_size :: "wire_runtime \<Rightarrow> portalv1_QueryPausedResponse \<Rightarrow> nat" where
  "portalv1_QueryPausedResponse_size rt x =
     size_bool (portalv1_QueryPausedResponse_Paused x) +
     length (portalv1_QueryPausedResponse_unknownFields x)"

definition portalv1_QueryPausedResponse_marshal :: "wire_runtime \<Rightarrow> portalv1_QueryPausedResponse \<Rightarrow> bytes result" where
  "portalv1_QueryPausedResponse_marshal rt x =
     obind (put (portalv1_QueryPausedResponse_unknownFields x) (portalv1_QueryPausedResponse_size rt x, [])) (\<lambda>b.
     obind (put_bool 0x8 (portalv1_QueryPausedResponse_Paused x) b) (\<lambda>b.
     Ok (buffer_bytes b)))"

definition portalv1_QueryPausedResponse_field ::
    "int \<Rightarrow> int \<Rightarrow> portalv1_QueryPausedResponse \<Rightarrow> nat \<Rightarrow> bytes \<Rightarrow> (portalv1_QueryPausedResponse \<times> nat) result option" where
  "portalv1_QueryPausedResponse_field fieldNum wireType x i bs =
     (if fieldNum = 1 then Some (bool_field wireType (\<lambda>v. x\<lparr>portalv1_QueryPausedResponse_Paused := v\<rparr>) bs)
      else None)"

definition portalv1_QueryPausedResponse_unmarshal :: "wire_runtime \<Rightarrow> bool \<Rightarrow> bytes \<Rightarrow> portalv1_QueryPausedResponse result option" where
  "portalv1_QueryPausedResponse_unmarshal rt discardUnknown bs =
     read_fields (Skip rt) portalv1_QueryPausedResponse_field
       (\<lambda>u x. if discardUnknown then x else x\<lparr>portalv1_QueryPausedResponse_unknownFields := portalv1_QueryPausedResponse_unknownFields x @ u\<rparr>)
       \<lparr>portalv1_QueryPausedResponse_Paused = False, portalv1_QueryPausedResponse_unknownFields = []\<rparr> 0 bs"

lemma portalv1_QueryPausedResponse_written:
  assumes "varint_runtime rt" "portalv1_QueryPausedResponse_unknownFields x = []"
  shows "writes (portalv1_QueryPausedResponse_marshal rt x)
    (bool_bytes 0x8 (portalv1_QueryPausedResponse_Paused x) @
      [])
    (portalv1_QueryPausedResponse_size rt x)"
  by (simp add: writes_def portalv1_QueryPausedResponse_marshal_def portalv1_QueryPausedResponse_size_def assms wire_puts)

lemma portalv1_QueryPausedResponse_exact:
  assumes "varint_runtime rt"
  shows "exact_codec (portalv1_QueryPausedResponse_size rt) (portalv1_QueryPausedResponse_marshal rt) 
    (portalv1_QueryPausedResponse_unmarshal rt' discardUnknown) (\<lambda>x. portalv1_QueryPausedResponse_unknownFields x = [])"
  by (rule exact_codecI, rule portalv1_QueryPausedResponse_written [OF assms], assumption,
    unfold portalv1_QueryPausedResponse_unmarshal_def, erule readsD [rotated],
    (rule reads_bool, rule wire_tags,
        simp add: portalv1_QueryPausedResponse_field_def, simp)+, rule reads_done, simp)

lemma portalv1_QueryPausedResponse_returns:
  "skip_progress (Skip rt) \<Longrightarrow> \<exists>r. portalv1_QueryPausedResponse_unmarshal rt discardUnknown bs = Some r"
  unfolding portalv1_QueryPausedResponse_unmarshal_def by (rule read_fields_returns)

subsection \<open>QueryPeers (portalv1)\<close>

text \<open>\<open>QueryPeers\<close> of \<open>api/portal/v1/query.pulsar.go\<close>.\<close>

record portalv1_QueryPeers =
  portalv1_QueryPeers_unknownFields :: bytes

definition portalv1_QueryPeers_size :: "wire_runtime \<Rightarrow> portalv1_QueryPeers \<Rightarrow> nat" where
  "portalv1_QueryPeers_size rt x =
     length (portalv1_QueryPeers_unknownFields x)"

definition portalv1_QueryPeers_marshal :: "wire_runtime \<Rightarrow> portalv1_QueryPeers \<Rightarrow> bytes result" where
  "portalv1_QueryPeers_marshal rt x =
     obind (put (portalv1_QueryPeers_unknownFields x) (portalv1_QueryPeers_size rt x, [])) (\<lambda>b.
     Ok (buffer_bytes b))"

definition portalv1_QueryPeers_field ::
    "int \<Rightarrow> int \<Rightarrow> portalv1_QueryPeers \<Rightarrow> nat \<Rightarrow> bytes \<Rightarrow> (portalv1_QueryPeers \<times> nat) result option" where
  "portalv1_QueryPeers_field fieldNum wireType x i bs =
     None"

definition portalv1_QueryPeers_unmarshal :: "wire_runtime \<Rightarrow> bool \<Rightarrow> bytes \<Rightarrow> portalv1_QueryPeers result option" where
  "portalv1_QueryPeers_unmarshal rt discardUnknown bs =
     read_fields (Skip rt) portalv1_QueryPeers_field
       (\<lambda>u x. if discardUnknown then x else x\<lparr>portalv1_QueryPeers_unknownFields := portalv1_QueryPeers_unknownFields x @ u\<rparr>)
       \<lparr>portalv1_QueryPeers_unknownFields = []\<rparr> 0 bs"

lemma portalv1_QueryPeers_written:
  assumes "varint_runtime rt" "portalv1_QueryPeers_unknownFields x = []"
  shows "writes (portalv1_QueryPeers_marshal rt x)
    ([] :: bytes)
    (portalv1_QueryPeers_size rt x)"
  by (simp add: writes_def portalv1_QueryPeers_marshal_def portalv1_QueryPeers_size_def assms wire_puts)

lemma portalv1_QueryPeers_exact:
  assumes "varint_runtime rt"
  shows "exact_codec (portalv1_QueryPeers_size rt) (portalv1_QueryPeers_marshal rt) 
    (portalv1_QueryPeers_unmarshal rt' discardUnknown) (\<lambda>x. portalv1_QueryPeers_unknownFields x = [])"
  by (rule exact_codecI, rule portalv1_QueryPeers_written [OF assms], assumption,
    unfold portalv1_QueryPeers_unmarshal_def, erule readsD [rotated],
    rule reads_done, simp)

lemma portalv1_QueryPeers_returns:
  "skip_progress (Skip rt) \<Longrightarrow> \<exists>r. portalv1_QueryPeers_unmarshal rt discardUnknown bs = Some r"
  unfolding portalv1_QueryPeers_unmarshal_def by (rule read_fields_returns)

subsection \<open>QueryDestinationTokens (portalv1)\<close>

text \<open>\<open>QueryDestinationTokens\<close> of \<open>api/portal/v1/query.pulsar.go\<close>.\<close>

record portalv1_QueryDestinationTokens =
  portalv1_QueryDestinationTokens_ChainId :: "32 word"
  portalv1_QueryDestinationTokens_unknownFields :: bytes

definition portalv1_QueryDestinationTokens_size :: "wire_runtime \<Rightarrow> portalv1_QueryDestinationTokens \<Rightarrow> nat" where
  "portalv1_QueryDestinationTokens_size rt x =
     size_varint rt (ucast (portalv1_QueryDestinationTokens_ChainId x)) +
     length (portalv1_QueryDestinationTokens_unknownFields x)"

definition portalv1_QueryDestinationTokens_marshal :: "wire_runtime \<Rightarrow> portalv1_QueryDestinationTokens \<Rightarrow> bytes result" where
  "portalv1_QueryDestinationTokens_marshal rt x =
     obind (put (portalv1_QueryDestinationTokens_unknownFields x) (portalv1_QueryDestinationTokens_size rt x, [])) (\<lambda>b.
     obind (put_varint rt 0x8 (ucast (portalv1_QueryDestinationTokens_ChainId x)) b) (\<lambda>b.
     Ok (buffer_bytes b)))"

definition portalv1_QueryDestinationTokens_field ::
    "int \<Rightarrow> int \<Rightarrow> portalv1_QueryDestinationTokens \<Rightarrow> nat \<Rightarrow> bytes \<Rightarrow> (portalv1_QueryDestinationTokens \<times> nat) result option" where
  "portalv1_QueryDestinationTokens_field fieldNum wireType x i bs =
     (if fieldNum = 1 then Some (varint_field wireType (\<lambda>v. x\<lparr>portalv1_QueryDestinationTokens_ChainId := v\<rparr>) bs)
      else None)"

definition portalv1_QueryDestinationTokens_unmarshal :: "wire_runtime \<Rightarrow> bool \<Rightarrow> bytes \<Rightarrow> portalv1_QueryDestinationTokens result option" where
  "portalv1_QueryDestinationTokens_unmarshal rt discardUnknown bs =
     read_fields (Skip rt) portalv1_QueryDestinationTokens_field
       (\<lambda>u x. if discardUnknown then x else x\<lparr>portalv1_QueryDestinationTokens_unknownFields := portalv1_QueryDestinationTokens_unknownFields x @ u\<rparr>)
       \<lparr>portalv1_QueryDestinationTokens_ChainId = 0, portalv1_QueryDestinationTokens_unknownFields = []\<rparr> 0 bs"

lemma portalv1_QueryDestinationTokens_written:
  assumes "varint_runtime rt" "portalv1_QueryDestinationTokens_unknownFields x = []"
  shows "writes (portalv1_QueryDestinationTokens_marshal rt x)
    (varint_bytes rt 0x8 (ucast (portalv1_QueryDestinationTokens_ChainId x)) @
      [])
    (portalv1_QueryDestinationTokens_size rt x)"
  by (simp add: writes_def portalv1_QueryDestinationTokens_marshal_def portalv1_QueryDestinationTokens_size_def assms wire_puts)

lemma portalv1_QueryDestinationTokens_exact:
  assumes "varint_runtime rt"
  shows "exact_codec (portalv1_QueryDestinationTokens_size rt) (portalv1_QueryDestinationTokens_marshal rt) 
    (portalv1_QueryDestinationTokens_unmarshal rt' discardUnknown) (\<lambda>x. portalv1_QueryDestinationTokens_unknownFields x = [])"
  by (rule exact_codecI, rule portalv1_QueryDestinationTokens_written [OF assms], assumption,
    unfold portalv1_QueryDestinationTokens_unmarshal_def, erule readsD [rotated],
    (rule reads_varint32 [OF assms], rule wire_tags,
        simp add: portalv1_QueryDestinationTokens_field_def, simp)+, rule reads_done, simp)

lemma portalv1_QueryDestinationTokens_returns:
  "skip_progress (Skip rt) \<Longrightarrow> \<exists>r. portalv1_QueryDestinationTokens_unmarshal rt discardUnknown bs = Some r"
  unfolding portalv1_QueryDestinationTokens_unmarshal_def by (rule read_fields_returns)

subsection \<open>QueryNonce (portalv1)\<close>

text \<open>\<open>QueryNonce\<close> of \<open>api/portal/v1/query.pulsar.go\<close>.\<close>

record portalv1_QueryNonce =
  portalv1_QueryNonce_unknownFields :: bytes

definition portalv1_QueryNonce_size :: "wire_runtime \<Rightarrow> portalv1_QueryNonce \<Rightarrow> nat" where
  "portalv1_QueryNonce_size rt x =
     length (portalv1_QueryNonce_unknownFields x)"

definition portalv1_QueryNonce_marshal :: "wire_runtime \<Rightarrow> portalv1_QueryNonce \<Rightarrow> bytes result" where
  "portalv1_QueryNonce_marshal rt x =
     obind (put (portalv1_QueryNonce_unknownFields x) (portalv1_QueryNonce_size rt x, [])) (\<lambda>b.
     Ok (buffer_bytes b))"

definition portalv1_QueryNonce_field ::
    "int \<Rightarrow> int \<Rightarrow> portalv1_QueryNonce \<Rightarrow> nat \<Rightarrow> bytes \<Rightarrow> (portalv1_QueryNonce \<times> nat) result option" where
  "portalv1_QueryNonce_field fieldNum wireType x i bs =
     None"

definition portalv1_QueryNonce_unmarshal :: "wire_runtime \<Rightarrow> bool \<Rightarrow> bytes \<Rightarrow> portalv1_QueryNonce result option" where
  "portalv1_QueryNonce_unmarshal rt discardUnknown bs =
     read_fields (Skip rt) portalv1_QueryNonce_field
       (\<lambda>u x. if discardUnknown then x else x\<lparr>portalv1_QueryNonce_unknownFields := portalv1_QueryNonce_unknownFields x @ u\<rparr>)
       \<lparr>portalv1_QueryNonce_unknownFields = []\<rparr> 0 bs"

lemma portalv1_QueryNonce_written:
  assumes "varint_runtime rt" "portalv1_QueryNonce_unknownFields x = []"
  shows "writes (portalv1_QueryNonce_marshal rt x)
    ([] :: bytes)
    (portalv1_QueryNonce_size rt x)"
  by (simp add: writes_def portalv1_QueryNonce_marshal_def portalv1_QueryNonce_size_def assms wire_puts)

lemma portalv1_QueryNonce_exact:
  assumes "varint_runtime rt"
  shows "exact_codec (portalv1_QueryNonce_size rt) (portalv1_QueryNonce_marshal rt) 
    (portalv1_QueryNonce_unmarshal rt' discardUnknown) (\<lambda>x. portalv1_QueryNonce_unknownFields x = [])"
  by (rule exact_codecI, rule portalv1_QueryNonce_written [OF assms], assumption,
    unfold portalv1_QueryNonce_unmarshal_def, erule readsD [rotated],
    rule reads_done, simp)

lemma portalv1_QueryNonce_returns:
  "skip_progress (Skip rt) \<Longrightarrow> \<exists>r. portalv1_QueryNonce_unmarshal rt discardUnknown bs = Some r"
  unfolding portalv1_QueryNonce_unmarshal_def by (rule read_fields_returns)

subsection \<open>QueryNonceResponse (portalv1)\<close>

text \<open>\<open>QueryNonceResponse\<close> of \<open>api/portal/v1/query.pulsar.go\<close>.\<close>

record portalv1_QueryNonceResponse =
  portalv1_QueryNonceResponse_Nonce :: "32 word"
  portalv1_QueryNonceResponse_unknownFields :: bytes

definition portalv1_QueryNonceResponse_size :: "wire_runtime \<Rightarrow> portalv1_QueryNonceResponse \<Rightarrow> nat" where
  "portalv1_QueryNonceResponse_size rt x =
     size_varint rt (ucast (portalv1_QueryNonceResponse_Nonce x)) +
     length (portalv1_QueryNonceResponse_unknownFields x)"

definition portalv1_QueryNonceResponse_marshal :: "wire_runtime \<Rightarrow> portalv1_QueryNonceResponse \<Rightarrow> bytes result" where
  "portalv1_QueryNonceResponse_marshal rt x =
     obind (put (portalv1_QueryNonceResponse_unknownFields x) (portalv1_QueryNonceResponse_size rt x, [])) (\<lambda>b.
     obind (put_varint rt 0x8 (ucast (portalv1_QueryNonceResponse_Nonce x)) b) (\<lambda>b.
     Ok (buffer_bytes b)))"

definition portalv1_QueryNonceResponse_field ::
    "int \<Rightarrow> int \<Rightarrow> portalv1_QueryNonceResponse \<Rightarrow> nat \<Rightarrow> bytes \<Rightarrow> (portalv1_QueryNonceResponse \<times> nat) result option" where
  "portalv1_QueryNonceResponse_field fieldNum wireType x i bs =
     (if fieldNum = 1 then Some (varint_field wireType (\<lambda>v. x\<lparr>portalv1_QueryNonceResponse_Nonce := v\<rparr>) bs)
      else None)"

definition portalv1_QueryNonceResponse_unmarshal :: "wire_runtime \<Rightarrow> bool \<Rightarrow> bytes \<Rightarrow> portalv1_QueryNonceResponse result option" where
  "portalv1_QueryNonceResponse_unmarshal rt discardUnknown bs =
     read_fields (Skip rt) portalv1_QueryNonceResponse_field
       (\<lambda>u x. if discardUnknown then x else x\<lparr>portalv1_QueryNonceResponse_unknownFields := portalv1_QueryNonceResponse_unknownFields x @ u\<rparr>)
       \<lparr>portalv1_QueryNonceResponse_Nonce = 0, portalv1_QueryNonceResponse_unknownFields = []\<rparr> 0 bs"

lemma portalv1_QueryNonceResponse_written:
  assumes "varint_runtime rt" "portalv1_QueryNonceResponse_unknownFields x = []"
  shows "writes (portalv1_QueryNonceResponse_marshal rt x)
    (varint_bytes rt 0x8 (ucast (portalv1_QueryNonceResponse_Nonce x)) @
      [])
    (portalv1_QueryNonceResponse_size rt x)"
  by (simp add: writes_def portalv1_QueryNonceResponse_marshal_def portalv1_QueryNonceResponse_size_def assms wire_puts)

lemma portalv1_QueryNonceResponse_exact:
  assumes "varint_runtime rt"
  shows "exact_codec (portalv1_QueryNonceResponse_size rt) (portalv1_QueryNonceResponse_marshal rt) 
    (portalv1_QueryNonceResponse_unmarshal rt' discardUnknown) (\<lambda>x. portalv1_QueryNonceResponse_unknownFields x = [])"
  by (rule exact_codecI, rule portalv1_QueryNonceResponse_written [OF assms], assumption,
    unfold portalv1_QueryNonceResponse_unmarshal_def, erule readsD [rotated],
    (rule reads_varint32 [OF assms], rule wire_tags,
        simp add: portalv1_QueryNonceResponse_field_def, simp)+, rule reads_done, simp)

lemma portalv1_QueryNonceResponse_returns:
  "skip_progress (Skip rt) \<Longrightarrow> \<exists>r. portalv1_QueryNonceResponse_unmarshal rt discardUnknown bs = Some r"
  unfolding portalv1_QueryNonceResponse_unmarshal_def by (rule read_fields_returns)

subsection \<open>QueryPositionsByProvider (vaultsv1)\<close>

text \<open>\<open>QueryPositionsByProvider\<close> of \<open>api/vaults/v1/query.pulsar.go\<close>.\<close>

record vaultsv1_QueryPositionsByProvider =
  vaultsv1_QueryPositionsByProvider_Provider :: bytes
  vaultsv1_QueryPositionsByProvider_unknownFields :: bytes

definition vaultsv1_QueryPositionsByProvider_size :: "wire_runtime \<Rightarrow> vaultsv1_QueryPositionsByProvider \<Rightarrow> nat" where
  "vaultsv1_QueryPositionsByProvider_size rt x =
     size_delimited rt (vaultsv1_QueryPositionsByProvider_Provider x) +
     length (vaultsv1_QueryPositionsByProvider_unknownFields x)"

definition vaultsv1_QueryPositionsByProvider_marshal :: "wire_runtime \<Rightarrow> vaultsv1_QueryPositionsByProvider \<Rightarrow> bytes result" where
  "vaultsv1_QueryPositionsByProvider_marshal rt x =
     obind (put (vaultsv1_QueryPositionsByProvider_unknownFields x) (vaultsv1_QueryPositionsByProvider_size rt x, [])) (\<lambda>b.
     obind (put_delimited rt 0xA (vaultsv1_QueryPositionsByProvider_Provider x) b) (\<lambda>b.
     Ok (buffer_bytes b)))"

definition vaultsv1_QueryPositionsByProvider_field ::
    "int \<Rightarrow> int \<Rightarrow> vaultsv1_QueryPositionsByProvider \<Rightarrow> nat \<Rightarrow> bytes \<Rightarrow> (vaultsv1_QueryPositionsByProvider \<times> nat) result option" where
  "vaultsv1_QueryPositionsByProvider_field fieldNum wireType x i bs =
     (if fieldNum = 1 then Some (bytes_field wireType i (\<lambda>v. x\<lparr>vaultsv1_QueryPositionsByProvider_Provider := v\<rparr>) bs)
      else None)"

definition vaultsv1_QueryPositionsByProvider_unmarshal :: "wire_runtime \<Rightarrow> bool \<Rightarrow> bytes \<Rightarrow> vaultsv1_QueryPositionsByProvider result option" where
  "vaultsv1_QueryPositionsByProvider_unmarshal rt discardUnknown bs =
     read_fields (Skip rt) vaultsv1_QueryPositionsByProvider_field
       (\<lambda>u x. if discardUnknown then x else x\<lparr>vaultsv1_QueryPositionsByProvider_unknownFields := vaultsv1_QueryPositionsByProvider_unknownFields x @ u\<rparr>)
       \<lparr>vaultsv1_QueryPositionsByProvider_Provider = [], vaultsv1_QueryPositionsByProvider_unknownFields = []\<rparr> 0 bs"

lemma vaultsv1_QueryPositionsByProvider_written:
  assumes "varint_runtime rt" "vaultsv1_QueryPositionsByProvider_unknownFields x = []"
  shows "writes (vaultsv1_QueryPositionsByProvider_marshal rt x)
    (delimited_bytes rt 0xA (vaultsv1_QueryPositionsByProvider_Provider x) @
      [])
    (vaultsv1_QueryPositionsByProvider_size rt x)"
  by (simp add: writes_def vaultsv1_QueryPositionsByProvider_marshal_def vaultsv1_QueryPositionsByProvider_size_def assms wire_puts)

lemma vaultsv1_QueryPositionsByProvider_exact:
  assumes "varint_runtime rt"
  shows "exact_codec (vaultsv1_QueryPositionsByProvider_size rt) (vaultsv1_QueryPositionsByProvider_marshal rt) 
    (vaultsv1_QueryPositionsByProvider_unmarshal rt' discardUnknown) (\<lambda>x. vaultsv1_QueryPositionsByProvider_unknownFields x = [])"
  by (rule exact_codecI, rule vaultsv1_QueryPositionsByProvider_written [OF assms], assumption,
    unfold vaultsv1_QueryPositionsByProvider_unmarshal_def, erule readsD [rotated],
    (rule reads_bytes [OF assms], rule wire_tags,
        simp add: vaultsv1_QueryPositionsByProvider_field_def, simp)+, rule reads_done, simp)

lemma vaultsv1_QueryPositionsByProvider_returns:
  "skip_progress (Skip rt) \<Longrightarrow> \<exists>r. vaultsv1_QueryPositionsByProvider_unmarshal rt discardUnknown bs = Some r"
  unfolding vaultsv1_QueryPositionsByProvider_unmarshal_def by (rule read_fields_returns)

subsection \<open>QueryPaused (vaultsv1)\<close>

text \<open>\<open>QueryPaused\<close> of \<open>api/vaults/v1/query.pulsar.go\<close>.\<close>

record vaultsv1_QueryPaused =
  vaultsv1_QueryPaused_unknownFields :: bytes

definition vaultsv1_QueryPaused_size :: "wire_runtime \<Rightarrow> vaultsv1_QueryPaused \<Rightarrow> nat" where
  "vaultsv1_QueryPaused_size rt x =
     length (vaultsv1_QueryPaused_unknownFields x)"

definition vaultsv1_QueryPaused_marshal :: "wire_runtime \<Rightarrow> vaultsv1_QueryPaused \<Rightarrow> bytes result" where
  "vaultsv1_QueryPaused_marshal rt x =
     obind (put (vaultsv1_QueryPaused_unknownFields x) (vaultsv1_QueryPaused_size rt x, [])) (\<lambda>b.
     Ok (buffer_bytes b))"

definition vaultsv1_QueryPaused_field ::
    "int \<Rightarrow> int \<Rightarrow> vaultsv1_QueryPaused \<Rightarrow> nat \<Rightarrow> bytes \<Rightarrow> (vaultsv1_QueryPaused \<times> nat) result option" where
  "vaultsv1_QueryPaused_field fieldNum wireType x i bs =
     None"

definition vaultsv1_QueryPaused_unmarshal :: "wire_runtime \<Rightarrow> bool \<Rightarrow> bytes \<Rightarrow> vaultsv1_QueryPaused result option" where
  "vaultsv1_QueryPaused_unmarshal rt discardUnknown bs =
     read_fields (Skip rt) vaultsv1_QueryPaused_field
       (\<lambda>u x. if discardUnknown then x else x\<lparr>vaultsv1_QueryPaused_unknownFields := vaultsv1_QueryPaused_unknownFields x @ u\<rparr>)
       \<lparr>vaultsv1_QueryPaused_unknownFields = []\<rparr> 0 bs"

lemma vaultsv1_QueryPaused_written:
  assumes "varint_runtime rt" "vaultsv1_QueryPaused_unknownFields x = []"
  shows "writes (vaultsv1_QueryPaused_marshal rt x)
    ([] :: bytes)
    (vaultsv1_QueryPaused_size rt x)"
  by (simp add: writes_def vaultsv1_QueryPaused_marshal_def vaultsv1_QueryPaused_size_def assms wire_puts)

lemma vaultsv1_QueryPaused_exact:
  assumes "varint_runtime rt"
  shows "exact_codec (vaultsv1_QueryPaused_size rt) (vaultsv1_QueryPaused_marshal rt) 
    (vaultsv1_QueryPaused_unmarshal rt' discardUnknown) (\<lambda>x. vaultsv1_QueryPaused_unknownFields x = [])"
  by (rule exact_codecI, rule vaultsv1_QueryPaused_written [OF assms], assumption,
    unfold vaultsv1_QueryPaused_unmarshal_def, erule readsD [rotated],
    rule reads_done, simp)

lemma vaultsv1_QueryPaused_returns:
  "skip_progress (Skip rt) \<Longrightarrow> \<exists>r. vaultsv1_QueryPaused_unmarshal rt discardUnknown bs = Some r"
  unfolding vaultsv1_QueryPaused_unmarshal_def by (rule read_fields_returns)

subsection \<open>QueryPausedResponse (vaultsv1)\<close>

text \<open>\<open>QueryPausedResponse\<close> of \<open>api/vaults/v1/query.pulsar.go\<close>.\<close>

record vaultsv1_QueryPausedResponse =
  vaultsv1_QueryPausedResponse_Paused :: "32 word"
  vaultsv1_QueryPausedResponse_unknownFields :: bytes

definition vaultsv1_QueryPausedResponse_size :: "wire_runtime \<Rightarrow> vaultsv1_QueryPausedResponse \<Rightarrow> nat" where
  "vaultsv1_QueryPausedResponse_size rt x =
     size_varint rt (scast (vaultsv1_QueryPausedResponse_Paused x)) +
     length (vaultsv1_QueryPausedResponse_unknownFields x)"

definition vaultsv1_QueryPausedResponse_marshal :: "wire_runtime \<Rightarrow> vaultsv1_QueryPausedResponse \<Rightarrow> bytes result" where
  "vaultsv1_QueryPausedResponse_marshal rt x =
     obind (put (vaultsv1_QueryPausedResponse_unknownFields x) (vaultsv1_QueryPausedResponse_size rt x, [])) (\<lambda>b.
     obind (put_varint rt 0x8 (scast (vaultsv1_QueryPausedResponse_Paused x)) b) (\<lambda>b.
     Ok (buffer_bytes b)))"

definition vaultsv1_QueryPausedResponse_field ::
    "int \<Rightarrow> int \<Rightarrow> vaultsv1_QueryPausedResponse \<Rightarrow> nat \<Rightarrow> bytes \<Rightarrow> (vaultsv1_QueryPausedResponse \<times> nat) result option" where
  "vaultsv1_QueryPausedResponse_field fieldNum wireType x i bs =
     (if fieldNum = 1 then Some (varint_field wireType (\<lambda>v. x\<lparr>vaultsv1_QueryPausedResponse_Paused := v\<rparr>) bs)
      else None)"

definition vaultsv1_QueryPausedResponse_unmarshal :: "wire_runtime \<Rightarrow> bool \<Rightarrow> bytes \<Rightarrow> vaultsv1_QueryPausedResponse result option" where
  "vaultsv1_QueryPausedResponse_unmarshal rt discardUnknown bs =
     read_fields (Skip rt) vaultsv1_QueryPausedResponse_field
       (\<lambda>u x. if discardUnknown then x else x\<lparr>vaultsv1_QueryPausedResponse_unknownFields := vaultsv1_QueryPausedResponse_unknownFields x @ u\<rparr>)
       \<lparr>vaultsv1_QueryPausedResponse_Paused = 0, vaultsv1_QueryPausedResponse_unknownFields = []\<rparr> 0 bs"

lemma vaultsv1_QueryPausedResponse_written:
  assumes "varint_runtime rt" "vaultsv1_QueryPausedResponse_unknownFields x = []"
  shows "writes (vaultsv1_QueryPausedResponse_marshal rt x)
    (varint_bytes rt 0x8 (scast (vaultsv1_QueryPausedResponse_Paused x)) @
      [])
    (vaultsv1_QueryPausedResponse_size rt x)"
  by (simp add: writes_def vaultsv1_QueryPausedResponse_marshal_def vaultsv1_QueryPausedResponse_size_def assms wire_puts)

lemma vaultsv1_QueryPausedResponse_exact:
  assumes "varint_runtime rt"
  shows "exact_codec (vaultsv1_QueryPausedResponse_size rt) (vaultsv1_QueryPausedResponse_marshal rt) 
    (vaultsv1_QueryPausedResponse_unmarshal rt' discardUnknown) (\<lambda>x. vaultsv1_QueryPausedResponse_unknownFields x = [])"
  by (rule exact_codecI, rule vaultsv1_QueryPausedResponse_written [OF assms], assumption,
    unfold vaultsv1_QueryPausedResponse_unmarshal_def, erule readsD [rotated],
    (rule reads_varint32 [OF assms], rule wire_tags,
        simp add: vaultsv1_QueryPausedResponse_field_def, simp)+, rule reads_done, simp)

lemma vaultsv1_QueryPausedResponse_returns:
  "skip_progress (Skip rt) \<Longrightarrow> \<exists>r. vaultsv1_QueryPausedResponse_unmarshal rt discardUnknown bs = Some r"
  unfolding vaultsv1_QueryPausedResponse_unmarshal_def by (rule read_fields_returns)

subsection \<open>QueryPendingRewards (vaultsv1)\<close>

text \<open>\<open>QueryPendingRewards\<close> of \<open>api/vaults/v1/query.pulsar.go\<close>.\<close>

record vaultsv1_QueryPendingRewards =
  vaultsv1_QueryPendingRewards_unknownFields :: bytes

definition vaultsv1_QueryPendingRewards_size :: "wire_runtime \<Rightarrow> vaultsv1_QueryPendingRewards \<Rightarrow> nat" where
  "vaultsv1_QueryPendingRewards_size rt x =
     length (vaultsv1_QueryPendingRewards_unknownFields x)"

definition vaultsv1_QueryPendingRewards_marshal :: "wire_runtime \<Rightarrow> vaultsv1_QueryPendingRewards \<Rightarrow> bytes result" where
  "vaultsv1_QueryPendingRewards_marshal rt x =
     obind (put (vaultsv1_QueryPendingRewards_unknownFields x) (vaultsv1_QueryPendingRewards_size rt x, [])) (\<lambda>b.
     Ok (buffer_bytes b))"

definition vaultsv1_QueryPendingRewards_field ::
    "int \<Rightarrow> int \<Rightarrow> vaultsv1_QueryPendingRewards \<Rightarrow> nat \<Rightarrow> bytes \<Rightarrow> (vaultsv1_QueryPendingRewards \<times> nat) result option" where
  "vaultsv1_QueryPendingRewards_field fieldNum wireType x i bs =
     None"

definition vaultsv1_QueryPendingRewards_unmarshal :: "wire_runtime \<Rightarrow> bool \<Rightarrow> bytes \<Rightarrow> vaultsv1_QueryPendingRewards result option" where
  "vaultsv1_QueryPendingRewards_unmarshal rt discardUnknown bs =
     read_fields (Skip rt) vaultsv1_QueryPendingRewards_field
       (\<lambda>u x. if discardUnknown then x else x\<lparr>vaultsv1_QueryPendingRewards_unknownFields := vaultsv1_QueryPendingRewards_unknownFields x @ u\<rparr>)
       \<lparr>vaultsv1_QueryPendingRewards_unknownFields = []\<rparr> 0 bs"

lemma vaultsv1_QueryPendingRewards_written:
  assumes "varint_runtime rt" "vaultsv1_QueryPendingRewards_unknownFields x = []"
  shows "writes (vaultsv1_QueryPendingRewards_marshal rt x)
    ([] :: bytes)
    (vaultsv1_QueryPendingRewards_size rt x)"
  by (simp add: writes_def vaultsv1_QueryPendingRewards_marshal_def vaultsv1_QueryPendingRewards_size_def assms wire_puts)

lemma vaultsv1_QueryPendingRewards_exact:
  assumes "varint_runtime rt"
  shows "exact_codec (vaultsv1_QueryPendingRewards_size rt) (vaultsv1_QueryPendingRewards_marshal rt) 
    (vaultsv1_QueryPendingRewards_unmarshal rt' discardUnknown) (\<lambda>x. vaultsv1_QueryPendingRewards_unknownFields x = [])"
  by (rule exact_codecI, rule vaultsv1_QueryPendingRewards_written [OF assms], assumption,
    unfold vaultsv1_QueryPendingRewards_unmarshal_def, erule readsD [rotated],
    rule reads_done, simp)

lemma vaultsv1_QueryPendingRewards_returns:
  "skip_progress (Skip rt) \<Longrightarrow> \<exists>r. vaultsv1_QueryPendingRewards_unmarshal rt discardUnknown bs = Some r"
  unfolding vaultsv1_QueryPendingRewards_unmarshal_def by (rule read_fields_returns)

subsection \<open>QueryPendingRewardsResponse (vaultsv1)\<close>

text \<open>\<open>QueryPendingRewardsResponse\<close> of \<open>api/vaults/v1/query.pulsar.go\<close>.\<close>

record vaultsv1_QueryPendingRewardsResponse =
  vaultsv1_QueryPendingRewardsResponse_PendingRewards :: bytes
  vaultsv1_QueryPendingRewardsResponse_unknownFields :: bytes

definition vaultsv1_QueryPendingRewardsResponse_size :: "wire_runtime \<Rightarrow> vaultsv1_QueryPendingRewardsResponse \<Rightarrow> nat" where
  "vaultsv1_QueryPendingRewardsResponse_size rt x =
     size_delimited rt (vaultsv1_QueryPendingRewardsResponse_PendingRewards x) +
     length (vaultsv1_QueryPendingRewardsResponse_unknownFields x)"

definition vaultsv1_QueryPendingRewardsResponse_marshal :: "wire_runtime \<Rightarrow> vaultsv1_QueryPendingRewardsResponse \<Rightarrow> bytes result" where
  "vaultsv1_QueryPendingRewardsResponse_marshal rt x =
     obind (put (vaultsv1_QueryPendingRewardsResponse_unknownFields x) (vaultsv1_QueryPendingRewardsResponse_size rt x, [])) (\<lambda>b.
     obind (put_delimited rt 0xA (vaultsv1_QueryPendingRewardsResponse_PendingRewards x) b) (\<lambda>b.
     Ok (buffer_bytes b)))"

definition vaultsv1_QueryPendingRewardsResponse_field ::
    "int \<Rightarrow> int \<Rightarrow> vaultsv1_QueryPendingRewardsResponse \<Rightarrow> nat \<Rightarrow> bytes \<Rightarrow> (vaultsv1_QueryPendingRewardsResponse \<times> nat) result option" where
  "vaultsv1_QueryPendingRewardsResponse_field fieldNum wireType x i bs =
     (if fieldNum = 1 then Some (bytes_field wireType i (\<lambda>v. x\<lparr>vaultsv1_QueryPendingRewardsResponse_PendingRewards := v\<rparr>) bs)
      else None)"

definition vaultsv1_QueryPendingRewardsResponse_unmarshal :: "wire_runtime \<Rightarrow> bool \<Rightarrow> bytes \<Rightarrow> vaultsv1_QueryPendingRewardsResponse result option" where
  "vaultsv1_QueryPendingRewardsResponse_unmarshal rt discardUnknown bs =
     read_fields (Skip rt) vaultsv1_QueryPendingRewardsResponse_field
       (\<lambda>u x. if discardUnknown then x else x\<lparr>vaultsv1_QueryPendingRewardsResponse_unknownFields := vaultsv1_QueryPendingRewardsResponse_unknownFields x @ u\<rparr>)
       \<lparr>vaultsv1_QueryPendingRewardsResponse_PendingRewards = [], vaultsv1_QueryPendingRewardsResponse_unknownFields = []\<rparr> 0 bs"

lemma vaultsv1_QueryPendingRewardsResponse_written:
  assumes "varint_runtime rt" "vaultsv1_QueryPendingRewardsResponse_unknownFields x = []"
  shows "writes (vaultsv1_QueryPendingRewardsResponse_marshal rt x)
    (delimited_bytes rt 0xA (vaultsv1_QueryPendingRewardsResponse_PendingRewards x) @
      [])
    (vaultsv1_QueryPendingRewardsResponse_size rt x)"
  by (simp add: writes_def vaultsv1_QueryPendingRewardsResponse_marshal_def vaultsv1_QueryPendingRewardsResponse_size_def assms wire_puts)

lemma vaultsv1_QueryPendingRewardsResponse_exact:
  assumes "varint_runtime rt"
  shows "exact_codec (vaultsv1_QueryPendingRewardsResponse_size rt) (vaultsv1_QueryPendingRewardsResponse_marshal rt) 
    (vaultsv1_QueryPendingRewardsResponse_unmarshal rt' discardUnknown) (\<lambda>x. vaultsv1_QueryPendingRewardsResponse_unknownFields x = [])"
  by (rule exact_codecI, rule vaultsv1_QueryPendingRewardsResponse_written [OF assms], assumption,
    unfold vaultsv1_QueryPendingRewardsResponse_unmarshal_def, erule readsD [rotated],
    (rule reads_bytes [OF assms], rule wire_tags,
        simp add: vaultsv1_QueryPendingRewardsResponse_field_def, simp)+, rule reads_done, simp)

lemma vaultsv1_QueryPendingRewardsResponse_returns:
  "skip_progress (Skip rt) \<Longrightarrow> \<exists>r. vaultsv1_QueryPendingRewardsResponse_unmarshal rt discardUnknown bs = Some r"
  unfolding vaultsv1_QueryPendingRewardsResponse_unmarshal_def by (rule read_fields_returns)

subsection \<open>QueryPendingRewardsByProvider (vaultsv1)\<close>

text \<open>\<open>QueryPendingRewardsByProvider\<close> of \<open>api/vaults/v1/query.pulsar.go\<close>.\<close>

record vaultsv1_QueryPendingRewardsByProvider =
  vaultsv1_QueryPendingRewardsByProvider_Provider :: bytes
  vaultsv1_QueryPendingRewardsByProvider_unknownFields :: bytes

definition vaultsv1_QueryPendingRewardsByProvider_size :: "wire_runtime \<Rightarrow> vaultsv1_QueryPendingRewardsByProvider \<Rightarrow> nat" where
  "vaultsv1_QueryPendingRewardsByProvider_size rt x =
     size_delimited rt (vaultsv1_QueryPendingRewardsByProvider_Provider x) +
     length (vaultsv1_QueryPendingRewardsByProvider_unknownFields x)"

definition vaultsv1_QueryPendingRewardsByProvider_marshal :: "wire_runtime \<Rightarrow> vaultsv1_QueryPendingRewardsByProvider \<Rightarrow> bytes result" where
  "vaultsv1_QueryPendingRewardsByProvider_marshal rt x =
     obind (put (vaultsv1_QueryPendingRewardsByProvider_unknownFields x) (vaultsv1_QueryPendingRewardsByProvider_size rt x, [])) (\<lambda>b.
     obind (put_delimited rt 0xA (vaultsv1_QueryPendingRewardsByProvider_Provider x) b) (\<lambda>b.
     Ok (buffer_bytes b)))"

definition vaultsv1_QueryPendingRewardsByProvider_field ::
    "int \<Rightarrow> int \<Rightarrow> vaultsv1_QueryPendingRewardsByProvider \<Rightarrow> nat \<Rightarrow> bytes \<Rightarrow> (vaultsv1_QueryPendingRewardsByProvider \<times> nat) result option" where
  "vaultsv1_QueryPendingRewardsByProvider_field fieldNum wireType x i bs =
     (if fieldNum = 1 then Some (bytes_field wireType i (\<lambda>v. x\<lparr>vaultsv1_QueryPendingRewardsByProvider_Provider := v\<rparr>) bs)
      else None)"

definition vaultsv1_QueryPendingRewardsByProvider_unmarshal :: "wire_runtime \<Rightarrow> bool \<Rightarrow> bytes \<Rightarrow> vaultsv1_QueryPendingRewardsByProvider result option" where
  "vaultsv1_QueryPendingRewardsByProvider_unmarshal rt discardUnknown bs =
     read_fields (Skip rt) vaultsv1_QueryPendingRewardsByProvider_field
       (\<lambda>u x. if discardUnknown then x else x\<lparr>vaultsv1_QueryPendingRewardsByProvider_unknownFields := vaultsv1_QueryPendingRewardsByProvider_unknownFields x @ u\<rparr>)
       \<lparr>vaultsv1_QueryPendingRewardsByProvider_Provider = [], vaultsv1_QueryPendingRewardsByProvider_unknownFields = []\<rparr> 0 bs"

lemma vaultsv1_QueryPendingRewardsByProvider_written:
  assumes "varint_runtime rt" "vaultsv1_QueryPendingRewardsByProvider_unknownFields x = []"
  shows "writes (vaultsv1_QueryPendingRewardsByProvider_marshal rt x)
    (delimited_bytes rt 0xA (vaultsv1_QueryPendingRewardsByProvider_Provider x) @
      [])
    (vaultsv1_QueryPendingRewardsByProvider_size rt x)"
  by (simp add: writes_def vaultsv1_QueryPendingRewardsByProvider_marshal_def vaultsv1_QueryPendingRewardsByProvider_size_def assms wire_puts)

lemma vaultsv1_QueryPendingRewardsByProvider_exact:
  assumes "varint_runtime rt"
  shows "exact_codec (vaultsv1_QueryPendingRewardsByProvider_size rt) (vaultsv1_QueryPendingRewardsByProvider_marshal rt) 
    (vaultsv1_QueryPendingRewardsByProvider_unmarshal rt' discardUnknown) (\<lambda>x. vaultsv1_QueryPendingRewardsByProvider_unknownFields x = [])"
  by (rule exact_codecI, rule vaultsv1_QueryPendingRewardsByProvider_written [OF assms], assumption,
    unfold vaultsv1_QueryPendingRewardsByProvider_unmarshal_def, erule readsD [rotated],
    (rule reads_bytes [OF assms], rule wire_tags,
        simp add: vaultsv1_QueryPendingRewardsByProvider_field_def, simp)+, rule reads_done, simp)

lemma vaultsv1_QueryPendingRewardsByProvider_returns:
  "skip_progress (Skip rt) \<Longrightarrow> \<exists>r. vaultsv1_QueryPendingRewardsByProvider_unmarshal rt discardUnknown bs = Some r"
  unfolding vaultsv1_QueryPendingRewardsByProvider_unmarshal_def by (rule read_fields_returns)

subsection \<open>QueryStats (vaultsv1)\<close>

text \<open>\<open>QueryStats\<close> of \<open>api/vaults/v1/query.pulsar.go\<close>.\<close>

record vaultsv1_QueryStats =
  vaultsv1_QueryStats_unknownFields :: bytes

definition vaultsv1_QueryStats_size :: "wire_runtime \<Rightarrow> vaultsv1_QueryStats \<Rightarrow> nat" where
  "vaultsv1_QueryStats_size rt x =
     length (vaultsv1_QueryStats_unknownFields x)"

definition vaultsv1_QueryStats_marshal :: "wire_runtime \<Rightarrow> vaultsv1_QueryStats \<Rightarrow> bytes result" where
  "vaultsv1_QueryStats_marshal rt x =
     obind (put (vaultsv1_QueryStats_unknownFields x) (vaultsv1_QueryStats_size rt x, [])) (\<lambda>b.
     Ok (buffer_bytes b))"

definition vaultsv1_QueryStats_field ::
    "int \<Rightarrow> int \<Rightarrow> vaultsv1_QueryStats \<Rightarrow> nat \<Rightarrow> bytes \<Rightarrow> (vaultsv1_QueryStats \<times> nat) result option" where
  "vaultsv1_QueryStats_field fieldNum wireType x i bs =
     None"

definition vaultsv1_QueryStats_unmarshal :: "wire_runtime \<Rightarrow> bool \<Rightarrow> bytes \<Rightarrow> vaultsv1_QueryStats result option" where
  "vaultsv1_QueryStats_unmarshal rt discardUnknown bs =
     read_fields (Skip rt) vaultsv1_QueryStats_field
       (\<lambda>u x. if discardUnknown then x else x\<lparr>vaultsv1_QueryStats_unknownFields := vaultsv1_QueryStats_unknownFields x @ u\<rparr>)
       \<lparr>vaultsv1_QueryStats_unknownFields = []\<rparr> 0 bs"

lemma vaultsv1_QueryStats_written:
  assumes "varint_runtime rt" "vaultsv1_QueryStats_unknownFields x = []"
  shows "writes (vaultsv1_QueryStats_marshal rt x)
    ([] :: bytes)
    (vaultsv1_QueryStats_size rt x)"
  by (simp add: writes_def vaultsv1_QueryStats_marshal_def vaultsv1_QueryStats_size_def assms wire_puts)

lemma vaultsv1_QueryStats_exact:
  assumes "varint_runtime rt"
  shows "exact_codec (vaultsv1_QueryStats_size rt) (vaultsv1_QueryStats_marshal rt) 
    (vaultsv1_QueryStats_unmarshal rt' discardUnknown) (\<lambda>x. vaultsv1_QueryStats_unknownFields x = [])"
  by (rule exact_codecI, rule vaultsv1_QueryStats_written [OF assms], assumption,
    unfold vaultsv1_QueryStats_unmarshal_def, erule readsD [rotated],
    rule reads_done, simp)

lemma vaultsv1_QueryStats_returns:
  "skip_progress (Skip rt) \<Longrightarrow> \<exists>r. vaultsv1_QueryStats_unmarshal rt discardUnknown bs = Some r"
  unfolding vaultsv1_QueryStats_unmarshal_def by (rule read_fields_returns)

subsection \<open>QueryStatsResponse (vaultsv1)\<close>

text \<open>\<open>QueryStatsResponse\<close> of \<open>api/vaults/v1/query.pulsar.go\<close>.\<close>

record vaultsv1_QueryStatsResponse =
  vaultsv1_QueryStatsResponse_FlexibleTotalPrincipal :: bytes
  vaultsv1_QueryStatsResponse_FlexibleTotalUsers :: "64 word"
  vaultsv1_QueryStatsResponse_FlexibleTotalDistributedRewardsPrincipal :: bytes
  vaultsv1_QueryStatsResponse_StakedTotalPrincipal :: bytes
  vaultsv1_QueryStatsResponse_StakedTotalUsers :: "64 word"
  vaultsv1_QueryStatsResponse_unknownFields :: bytes

definition vaultsv1_QueryStatsResponse_size :: "wire_runtime \<Rightarrow> vaultsv1_QueryStatsResponse \<Rightarrow> nat" where
  "vaultsv1_QueryStatsResponse_size rt x =
     size_delimited rt (vaultsv1_QueryStatsResponse_FlexibleTotalPrincipal x) +
     size_varint rt (vaultsv1_QueryStatsResponse_FlexibleTotalUsers x) +
     size_delimited rt (vaultsv1_QueryStatsResponse_FlexibleTotalDistributedRewardsPrincipal x) +
     size_delimited rt (vaultsv1_QueryStatsResponse_StakedTotalPrincipal x) +
     size_varint rt (vaultsv1_QueryStatsResponse_StakedTotalUsers x) +
     length (vaultsv1_QueryStatsResponse_unknownFields x)"

definition vaultsv1_QueryStatsResponse_marshal :: "wire_runtime \<Rightarrow> vaultsv1_QueryStatsResponse \<Rightarrow> bytes result" where
  "vaultsv1_QueryStatsResponse_marshal rt x =
     obind (put (vaultsv1_QueryStatsResponse_unknownFields x) (vaultsv1_QueryStatsResponse_size rt x, [])) (\<lambda>b.
     obind (put_varint rt 0x28 (vaultsv1_QueryStatsResponse_StakedTotalUsers x) b) (\<lambda>b.
     obind (put_delimited rt 0x22 (vaultsv1_QueryStatsResponse_StakedTotalPrincipal x) b) (\<lambda>b.
     obind (put_delimited rt 0x1A (vaultsv1_QueryStatsResponse_FlexibleTotalDistributedRewardsPrincipal x) b) (\<lambda>b.
     obind (put_varint rt 0x10 (vaultsv1_QueryStatsResponse_FlexibleTotalUsers x) b) (\<lambda>b.
     obind (put_delimited rt 0xA (vaultsv1_QueryStatsResponse_FlexibleTotalPrincipal x) b) (\<lambda>b.
     Ok (buffer_bytes b)))))))"

definition vaultsv1_QueryStatsResponse_field ::
    "int \<Rightarrow> int \<Rightarrow> vaultsv1_QueryStatsResponse \<Rightarrow> nat \<Rightarrow> bytes \<Rightarrow> (vaultsv1_QueryStatsResponse \<times> nat) result option" where
  "vaultsv1_QueryStatsResponse_field fieldNum wireType x i bs =
     (if fieldNum = 1 then Some (bytes_field wireType i (\<lambda>v. x\<lparr>vaultsv1_QueryStatsResponse_FlexibleTotalPrincipal := v\<rparr>) bs)
      else if fieldNum = 2 then Some (varint_field wireType (\<lambda>v. x\<lparr>vaultsv1_QueryStatsResponse_FlexibleTotalUsers := v\<rparr>) bs)
      else if fieldNum = 3 then Some (bytes_field wireType i (\<lambda>v. x\<lparr>vaultsv1_QueryStatsResponse_FlexibleTotalDistributedRewardsPrincipal := v\<rparr>) bs)
      else if fieldNum = 4 then Some (bytes_field wireType i (\<lambda>v. x\<lparr>vaultsv1_QueryStatsResponse_StakedTotalPrincipal := v\<rparr>) bs)
      else if fieldNum = 5 then Some (varint_field wireType (\<lambda>v. x\<lparr>vaultsv1_QueryStatsResponse_StakedTotalUsers := v\<rparr>) bs)
      else None)"

definition vaultsv1_QueryStatsResponse_unmarshal :: "wire_runtime \<Rightarrow> bool \<Rightarrow> bytes \<Rightarrow> vaultsv1_QueryStatsResponse result option" where
  "vaultsv1_QueryStatsResponse_unmarshal rt discardUnknown bs =
     read_fields (Skip rt) vaultsv1_QueryStatsResponse_field
       (\<lambda>u x. if discardUnknown then x else x\<lparr>vaultsv1_QueryStatsResponse_unknownFields := vaultsv1_QueryStatsResponse_unknownFields x @ u\<rparr>)
       \<lparr>vaultsv1_QueryStatsResponse_FlexibleTotalPrincipal = [], vaultsv1_QueryStatsResponse_FlexibleTotalUsers = 0, vaultsv1_QueryStatsResponse_FlexibleTotalDistributedRewardsPrincipal = [], vaultsv1_QueryStatsResponse_StakedTotalPrincipal = [], vaultsv1_QueryStatsResponse_StakedTotalUsers = 0, vaultsv1_QueryStatsResponse_unknownFields = []\<rparr> 0 bs"

lemma vaultsv1_QueryStatsResponse_written:
  assumes "varint_runtime rt" "vaultsv1_QueryStatsResponse_unknownFields x = []"
  shows "writes (vaultsv1_QueryStatsResponse_marshal rt x)
    (delimited_bytes rt 0xA (vaultsv1_QueryStatsResponse_FlexibleTotalPrincipal x) @
      varint_bytes rt 0x10 (vaultsv1_QueryStatsResponse_FlexibleTotalUsers x) @
      delimited_bytes rt 0x1A (vaultsv1_QueryStatsResponse_FlexibleTotalDistributedRewardsPrincipal x) @
      delimited_bytes rt 0x22 (vaultsv1_QueryStatsResponse_StakedTotalPrincipal x) @
      varint_bytes rt 0x28 (vaultsv1_QueryStatsResponse_StakedTotalUsers x) @
      [])
    (vaultsv1_QueryStatsResponse_size rt x)"
  by (simp add: writes_def vaultsv1_QueryStatsResponse_marshal_def vaultsv1_QueryStatsResponse_size_def assms wire_puts)

lemma vaultsv1_QueryStatsResponse_exact:
  assumes "varint_runtime rt"
  shows "exact_codec (vaultsv1_QueryStatsResponse_size rt) (vaultsv1_QueryStatsResponse_marshal rt) 
    (vaultsv1_QueryStatsResponse_unmarshal rt' discardUnknown) (\<lambda>x. vaultsv1_QueryStatsResponse_unknownFields x = [])"
  by (rule exact_codecI, rule vaultsv1_QueryStatsResponse_written [OF assms], assumption,
    unfold vaultsv1_QueryStatsResponse_unmarshal_def, erule readsD [rotated],
    (rule reads_bytes [OF assms] reads_varint [OF assms], rule wire_tags,
        simp add: vaultsv1_QueryStatsResponse_field_def, simp)+, rule reads_done, simp)

lemma vaultsv1_QueryStatsResponse_returns:
  "skip_progress (Skip rt) \<Longrightarrow> \<exists>r. vaultsv1_QueryStatsResponse_unmarshal rt discardUnknown bs = Some r"
  unfolding vaultsv1_QueryStatsResponse_unmarshal_def by (rule read_fields_returns)

subsection \<open>The codecs together\<close>

lemmas api_query_exact =
  dollarv1_QueryIndex_exact dollarv1_QueryIndexResponse_exact dollarv1_QueryPaused_exact
  dollarv1_QueryPausedResponse_exact dollarv1_QueryPrincipal_exact
  dollarv1_QueryPrincipalResponse_exact dollarv1_QueryYield_exact
  dollarv1_QueryYieldResponse_exact dollarv1_QueryStats_exact dollarv1_QueryStatsResponse_exact
  dollarv2_QueryStats_exact dollarv2_QueryYieldRecipients_exact dollarv2_QueryYieldRecipient_exact
  dollarv2_QueryYieldRecipientResponse_exact dollarv2_QueryRetryAmounts_exact
  dollarv2_QueryRetryAmount_exact dollarv2_QueryRetryAmountResponse_exact
  dollarv2_QueryStatsResponse_ExternalYield_exact portalv1_QueryOwner_exact
  portalv1_QueryOwnerResponse_exact portalv1_QueryPaused_exact portalv1_QueryPausedResponse_exact
  portalv1_QueryPeers_exact portalv1_QueryDestinationTokens_exact portalv1_QueryNonce_exact
  portalv1_QueryNonceResponse_exact vaultsv1_QueryPositionsByProvider_exact
  vaultsv1_QueryPaused_exact vaultsv1_QueryPausedResponse_exact vaultsv1_QueryPendingRewards_exact
  vaultsv1_QueryPendingRewardsResponse_exact vaultsv1_QueryPendingRewardsByProvider_exact
  vaultsv1_QueryStats_exact vaultsv1_QueryStatsResponse_exact

lemmas api_query_returns =
  dollarv1_QueryIndex_returns dollarv1_QueryIndexResponse_returns dollarv1_QueryPaused_returns
  dollarv1_QueryPausedResponse_returns dollarv1_QueryPrincipal_returns
  dollarv1_QueryPrincipalResponse_returns dollarv1_QueryYield_returns
  dollarv1_QueryYieldResponse_returns dollarv1_QueryStats_returns
  dollarv1_QueryStatsResponse_returns dollarv2_QueryStats_returns
  dollarv2_QueryYieldRecipients_returns dollarv2_QueryYieldRecipient_returns
  dollarv2_QueryYieldRecipientResponse_returns dollarv2_QueryRetryAmounts_returns
  dollarv2_QueryRetryAmount_returns dollarv2_QueryRetryAmountResponse_returns
  dollarv2_QueryStatsResponse_ExternalYield_returns portalv1_QueryOwner_returns
  portalv1_QueryOwnerResponse_returns portalv1_QueryPaused_returns
  portalv1_QueryPausedResponse_returns portalv1_QueryPeers_returns
  portalv1_QueryDestinationTokens_returns portalv1_QueryNonce_returns
  portalv1_QueryNonceResponse_returns vaultsv1_QueryPositionsByProvider_returns
  vaultsv1_QueryPaused_returns vaultsv1_QueryPausedResponse_returns
  vaultsv1_QueryPendingRewards_returns vaultsv1_QueryPendingRewardsResponse_returns
  vaultsv1_QueryPendingRewardsByProvider_returns vaultsv1_QueryStats_returns
  vaultsv1_QueryStatsResponse_returns

end
