(* ===== verification/Codec_Query.thy ===== *)
theory Codec_Query
  imports Api_Query
begin

text \<open>
  The requests and responses of queries on the side of the chain: \<open>types/**/query.pb.go\<close>, except
  the responses with nested messages or maps. The lemmas \<open>_received\<close> say what the chain reads of a
  request, \<open>_answered\<close> what the client reads of a response.
\<close>

subsection \<open>QueryIndex (types)\<close>

text \<open>\<open>QueryIndex\<close> of \<open>types/query.pb.go\<close>.\<close>

datatype types_QueryIndex = types_QueryIndex

definition types_QueryIndex_Size :: "types_QueryIndex \<Rightarrow> nat" where
  "types_QueryIndex_Size x =
     0"

definition types_QueryIndex_Marshal :: "types_QueryIndex \<Rightarrow> bytes result" where
  "types_QueryIndex_Marshal x =
     Ok (sized_bytes (types_QueryIndex_Size x, []))"

definition types_QueryIndex_field ::
    "int \<Rightarrow> int \<Rightarrow> types_QueryIndex \<Rightarrow> nat \<Rightarrow> bytes \<Rightarrow> (types_QueryIndex \<times> nat) result option" where
  "types_QueryIndex_field fieldNum wireType x i bs =
     None"

definition types_QueryIndex_Unmarshal :: "bytes \<Rightarrow> types_QueryIndex result option" where
  "types_QueryIndex_Unmarshal bs =
     read_fields (Skip gogo_runtime) types_QueryIndex_field (\<lambda>u x. x)
       types_QueryIndex 0 bs"

lemma types_QueryIndex_written:
  shows "writes (types_QueryIndex_Marshal x)
    ([] :: bytes)
    (types_QueryIndex_Size x)"
  by (simp add: writes_def types_QueryIndex_Marshal_def types_QueryIndex_Size_def wire_puts gogo_varint)

lemma types_QueryIndex_exact:
  shows "exact_codec (types_QueryIndex_Size) (types_QueryIndex_Marshal) (types_QueryIndex_Unmarshal)
    (\<lambda>x. True)"
  by (rule exact_codecI, rule types_QueryIndex_written,
    unfold types_QueryIndex_Unmarshal_def, erule readsD [rotated],
    rule reads_done, metis types_QueryIndex.exhaust)

lemma types_QueryIndex_returns: "\<exists>r. types_QueryIndex_Unmarshal bs = Some r"
  unfolding types_QueryIndex_Unmarshal_def by (rule read_fields_returns [OF gogo_skip])

lemma types_QueryIndex_received:
  assumes "varint_runtime rt" "dollarv1_QueryIndex_unknownFields x = []"
  shows "\<exists>bs. dollarv1_QueryIndex_marshal rt x = Ok bs \<and> types_QueryIndex_Unmarshal bs = Some (Ok types_QueryIndex)"
  by (rule codec_readsI [OF dollarv1_QueryIndex_written [OF assms]], simp add: dollarv1_QueryIndex_size_def assms,
    unfold types_QueryIndex_Unmarshal_def, erule readsD [rotated], rule reads_done, simp)

subsection \<open>QueryIndexResponse (types)\<close>

text \<open>\<open>QueryIndexResponse\<close> of \<open>types/query.pb.go\<close>.\<close>

record types_QueryIndexResponse =
  types_QueryIndexResponse_Index :: "int option"

definition types_QueryIndexResponse_Size :: "custom \<Rightarrow> types_QueryIndexResponse \<Rightarrow> nat" where
  "types_QueryIndexResponse_Size ic x =
     size_custom (Custom_Marshal ic (types_QueryIndexResponse_Index x))"

definition types_QueryIndexResponse_Marshal :: "custom \<Rightarrow> types_QueryIndexResponse \<Rightarrow> bytes result" where
  "types_QueryIndexResponse_Marshal ic x =
     obind (put_custom 0xA (Custom_Marshal ic (types_QueryIndexResponse_Index x)) (types_QueryIndexResponse_Size ic x, [])) (\<lambda>b.
     Ok (sized_bytes b))"

definition types_QueryIndexResponse_field ::
    "custom \<Rightarrow> int \<Rightarrow> int \<Rightarrow> types_QueryIndexResponse \<Rightarrow> nat \<Rightarrow> bytes \<Rightarrow> (types_QueryIndexResponse \<times> nat) result option" where
  "types_QueryIndexResponse_field ic fieldNum wireType x i bs =
     (if fieldNum = 1 then Some (custom_field wireType i (Custom_Unmarshal ic (types_QueryIndexResponse_Index x)) (\<lambda>v. x\<lparr>types_QueryIndexResponse_Index := v\<rparr>) bs)
      else None)"

definition types_QueryIndexResponse_Unmarshal :: "custom \<Rightarrow> bytes \<Rightarrow> types_QueryIndexResponse result option" where
  "types_QueryIndexResponse_Unmarshal ic bs =
     read_fields (Skip gogo_runtime) (types_QueryIndexResponse_field ic) (\<lambda>u x. x)
       \<lparr>types_QueryIndexResponse_Index = None\<rparr> 0 bs"

lemma types_QueryIndexResponse_written:
  assumes "custom_codec ic ok" "given ok (types_QueryIndexResponse_Index x)"
  shows "writes (types_QueryIndexResponse_Marshal ic x)
    (delimited_bytes gogo_runtime 0xA (Custom_Marshal ic (types_QueryIndexResponse_Index x)) @
      [])
    (types_QueryIndexResponse_Size ic x)"
  using assms(2) by (simp add: writes_def types_QueryIndexResponse_Marshal_def types_QueryIndexResponse_Size_def wire_puts gogo_varint
    custom_delimited givenD [OF assms(1)])

lemma types_QueryIndexResponse_exact:
  assumes "custom_codec ic ok"
  shows "exact_codec (types_QueryIndexResponse_Size ic) (types_QueryIndexResponse_Marshal ic) (types_QueryIndexResponse_Unmarshal ic)
    (\<lambda>x. given ok (types_QueryIndexResponse_Index x))"
  by (rule exact_codecI, rule types_QueryIndexResponse_written [OF assms], assumption,
    unfold types_QueryIndexResponse_Unmarshal_def, erule readsD [rotated],
    (rule reads_delimited [OF gogo_varint], rule wire_tags, simp add: types_QueryIndexResponse_field_def, simp add: givenD [OF assms], simp add: givenD [OF assms])+, rule reads_done, simp)

lemma types_QueryIndexResponse_returns: "\<exists>r. types_QueryIndexResponse_Unmarshal ic bs = Some r"
  unfolding types_QueryIndexResponse_Unmarshal_def by (rule read_fields_returns [OF gogo_skip])

lemma types_QueryIndexResponse_answered:
  assumes "custom_codec ic ok" "given ok (types_QueryIndexResponse_Index x)" "types_QueryIndexResponse_Size ic x < 2 ^ 63"
  shows "\<exists>bs. types_QueryIndexResponse_Marshal ic x = Ok bs \<and> dollarv1_QueryIndexResponse_unmarshal rt discardUnknown bs = Some (Ok
     \<lparr>dollarv1_QueryIndexResponse_Index = Custom_Marshal ic (types_QueryIndexResponse_Index x),
      dollarv1_QueryIndexResponse_unknownFields = []\<rparr>)"
  by (rule codec_readsI [OF types_QueryIndexResponse_written [OF assms(1,2)] assms(3)],
    unfold dollarv1_QueryIndexResponse_unmarshal_def, erule readsD [rotated],
    (rule reads_bytes [OF gogo_varint], rule wire_tags, simp add: dollarv1_QueryIndexResponse_field_def, simp)+, rule reads_done, simp)

subsection \<open>QueryPaused (types)\<close>

text \<open>\<open>QueryPaused\<close> of \<open>types/query.pb.go\<close>.\<close>

datatype types_QueryPaused = types_QueryPaused

definition types_QueryPaused_Size :: "types_QueryPaused \<Rightarrow> nat" where
  "types_QueryPaused_Size x =
     0"

definition types_QueryPaused_Marshal :: "types_QueryPaused \<Rightarrow> bytes result" where
  "types_QueryPaused_Marshal x =
     Ok (sized_bytes (types_QueryPaused_Size x, []))"

definition types_QueryPaused_field ::
    "int \<Rightarrow> int \<Rightarrow> types_QueryPaused \<Rightarrow> nat \<Rightarrow> bytes \<Rightarrow> (types_QueryPaused \<times> nat) result option" where
  "types_QueryPaused_field fieldNum wireType x i bs =
     None"

definition types_QueryPaused_Unmarshal :: "bytes \<Rightarrow> types_QueryPaused result option" where
  "types_QueryPaused_Unmarshal bs =
     read_fields (Skip gogo_runtime) types_QueryPaused_field (\<lambda>u x. x)
       types_QueryPaused 0 bs"

lemma types_QueryPaused_written:
  shows "writes (types_QueryPaused_Marshal x)
    ([] :: bytes)
    (types_QueryPaused_Size x)"
  by (simp add: writes_def types_QueryPaused_Marshal_def types_QueryPaused_Size_def wire_puts gogo_varint)

lemma types_QueryPaused_exact:
  shows "exact_codec (types_QueryPaused_Size) (types_QueryPaused_Marshal) (types_QueryPaused_Unmarshal)
    (\<lambda>x. True)"
  by (rule exact_codecI, rule types_QueryPaused_written,
    unfold types_QueryPaused_Unmarshal_def, erule readsD [rotated],
    rule reads_done, metis types_QueryPaused.exhaust)

lemma types_QueryPaused_returns: "\<exists>r. types_QueryPaused_Unmarshal bs = Some r"
  unfolding types_QueryPaused_Unmarshal_def by (rule read_fields_returns [OF gogo_skip])

lemma types_QueryPaused_received:
  assumes "varint_runtime rt" "dollarv1_QueryPaused_unknownFields x = []"
  shows "\<exists>bs. dollarv1_QueryPaused_marshal rt x = Ok bs \<and> types_QueryPaused_Unmarshal bs = Some (Ok types_QueryPaused)"
  by (rule codec_readsI [OF dollarv1_QueryPaused_written [OF assms]], simp add: dollarv1_QueryPaused_size_def assms,
    unfold types_QueryPaused_Unmarshal_def, erule readsD [rotated], rule reads_done, simp)

subsection \<open>QueryPausedResponse (types)\<close>

text \<open>\<open>QueryPausedResponse\<close> of \<open>types/query.pb.go\<close>.\<close>

record types_QueryPausedResponse =
  types_QueryPausedResponse_Paused :: bool

definition types_QueryPausedResponse_Size :: "types_QueryPausedResponse \<Rightarrow> nat" where
  "types_QueryPausedResponse_Size x =
     size_bool (types_QueryPausedResponse_Paused x)"

definition types_QueryPausedResponse_Marshal :: "types_QueryPausedResponse \<Rightarrow> bytes result" where
  "types_QueryPausedResponse_Marshal x =
     obind (put_bool 0x8 (types_QueryPausedResponse_Paused x) (types_QueryPausedResponse_Size x, [])) (\<lambda>b.
     Ok (sized_bytes b))"

definition types_QueryPausedResponse_field ::
    "int \<Rightarrow> int \<Rightarrow> types_QueryPausedResponse \<Rightarrow> nat \<Rightarrow> bytes \<Rightarrow> (types_QueryPausedResponse \<times> nat) result option" where
  "types_QueryPausedResponse_field fieldNum wireType x i bs =
     (if fieldNum = 1 then Some (bool_field wireType (\<lambda>v. x\<lparr>types_QueryPausedResponse_Paused := v\<rparr>) bs)
      else None)"

definition types_QueryPausedResponse_Unmarshal :: "bytes \<Rightarrow> types_QueryPausedResponse result option" where
  "types_QueryPausedResponse_Unmarshal bs =
     read_fields (Skip gogo_runtime) types_QueryPausedResponse_field (\<lambda>u x. x)
       \<lparr>types_QueryPausedResponse_Paused = False\<rparr> 0 bs"

lemma types_QueryPausedResponse_written:
  shows "writes (types_QueryPausedResponse_Marshal x)
    (bool_bytes 0x8 (types_QueryPausedResponse_Paused x) @
      [])
    (types_QueryPausedResponse_Size x)"
  by (simp add: writes_def types_QueryPausedResponse_Marshal_def types_QueryPausedResponse_Size_def wire_puts gogo_varint)

lemma types_QueryPausedResponse_exact:
  shows "exact_codec (types_QueryPausedResponse_Size) (types_QueryPausedResponse_Marshal) (types_QueryPausedResponse_Unmarshal)
    (\<lambda>x. True)"
  by (rule exact_codecI, rule types_QueryPausedResponse_written,
    unfold types_QueryPausedResponse_Unmarshal_def, erule readsD [rotated],
    (rule reads_bool, rule wire_tags, simp add: types_QueryPausedResponse_field_def, simp)+, rule reads_done, simp)

lemma types_QueryPausedResponse_returns: "\<exists>r. types_QueryPausedResponse_Unmarshal bs = Some r"
  unfolding types_QueryPausedResponse_Unmarshal_def by (rule read_fields_returns [OF gogo_skip])

lemma types_QueryPausedResponse_answered:
  assumes "types_QueryPausedResponse_Size x < 2 ^ 63"
  shows "\<exists>bs. types_QueryPausedResponse_Marshal x = Ok bs \<and> dollarv1_QueryPausedResponse_unmarshal rt discardUnknown bs = Some (Ok
     \<lparr>dollarv1_QueryPausedResponse_Paused = types_QueryPausedResponse_Paused x,
      dollarv1_QueryPausedResponse_unknownFields = []\<rparr>)"
  by (rule codec_readsI [OF types_QueryPausedResponse_written assms(1)],
    unfold dollarv1_QueryPausedResponse_unmarshal_def, erule readsD [rotated],
    (rule reads_bool, rule wire_tags, simp add: dollarv1_QueryPausedResponse_field_def, simp)+, rule reads_done, simp)

subsection \<open>QueryPrincipal (types)\<close>

text \<open>\<open>QueryPrincipal\<close> of \<open>types/query.pb.go\<close>.\<close>

record types_QueryPrincipal =
  types_QueryPrincipal_Account :: bytes

definition types_QueryPrincipal_Size :: "types_QueryPrincipal \<Rightarrow> nat" where
  "types_QueryPrincipal_Size x =
     size_delimited gogo_runtime (types_QueryPrincipal_Account x)"

definition types_QueryPrincipal_Marshal :: "types_QueryPrincipal \<Rightarrow> bytes result" where
  "types_QueryPrincipal_Marshal x =
     obind (put_delimited gogo_runtime 0xA (types_QueryPrincipal_Account x) (types_QueryPrincipal_Size x, [])) (\<lambda>b.
     Ok (sized_bytes b))"

definition types_QueryPrincipal_field ::
    "int \<Rightarrow> int \<Rightarrow> types_QueryPrincipal \<Rightarrow> nat \<Rightarrow> bytes \<Rightarrow> (types_QueryPrincipal \<times> nat) result option" where
  "types_QueryPrincipal_field fieldNum wireType x i bs =
     (if fieldNum = 1 then Some (bytes_field wireType i (\<lambda>v. x\<lparr>types_QueryPrincipal_Account := v\<rparr>) bs)
      else None)"

definition types_QueryPrincipal_Unmarshal :: "bytes \<Rightarrow> types_QueryPrincipal result option" where
  "types_QueryPrincipal_Unmarshal bs =
     read_fields (Skip gogo_runtime) types_QueryPrincipal_field (\<lambda>u x. x)
       \<lparr>types_QueryPrincipal_Account = []\<rparr> 0 bs"

lemma types_QueryPrincipal_written:
  shows "writes (types_QueryPrincipal_Marshal x)
    (delimited_bytes gogo_runtime 0xA (types_QueryPrincipal_Account x) @
      [])
    (types_QueryPrincipal_Size x)"
  by (simp add: writes_def types_QueryPrincipal_Marshal_def types_QueryPrincipal_Size_def wire_puts gogo_varint)

lemma types_QueryPrincipal_exact:
  shows "exact_codec (types_QueryPrincipal_Size) (types_QueryPrincipal_Marshal) (types_QueryPrincipal_Unmarshal)
    (\<lambda>x. True)"
  by (rule exact_codecI, rule types_QueryPrincipal_written,
    unfold types_QueryPrincipal_Unmarshal_def, erule readsD [rotated],
    (rule reads_bytes [OF gogo_varint], rule wire_tags, simp add: types_QueryPrincipal_field_def, simp)+, rule reads_done, simp)

lemma types_QueryPrincipal_returns: "\<exists>r. types_QueryPrincipal_Unmarshal bs = Some r"
  unfolding types_QueryPrincipal_Unmarshal_def by (rule read_fields_returns [OF gogo_skip])

lemma types_QueryPrincipal_received:
  assumes "varint_runtime rt" "dollarv1_QueryPrincipal_unknownFields x = []"
    and "dollarv1_QueryPrincipal_size rt x < 2 ^ 63"
  shows "\<exists>bs. dollarv1_QueryPrincipal_marshal rt x = Ok bs \<and> types_QueryPrincipal_Unmarshal bs = Some (Ok
     \<lparr>types_QueryPrincipal_Account = dollarv1_QueryPrincipal_Account x\<rparr>)"
  by (rule codec_readsI [OF dollarv1_QueryPrincipal_written [OF assms(1,2)] assms(3)],
    unfold types_QueryPrincipal_Unmarshal_def, erule readsD [rotated],
    (rule reads_bytes [OF assms(1)], rule wire_tags, simp add: types_QueryPrincipal_field_def, simp)+, rule reads_done, simp)

subsection \<open>QueryPrincipalResponse (types)\<close>

text \<open>\<open>QueryPrincipalResponse\<close> of \<open>types/query.pb.go\<close>.\<close>

record types_QueryPrincipalResponse =
  types_QueryPrincipalResponse_Principal :: "int option"

definition types_QueryPrincipalResponse_Size :: "custom \<Rightarrow> types_QueryPrincipalResponse \<Rightarrow> nat" where
  "types_QueryPrincipalResponse_Size ic x =
     size_custom (Custom_Marshal ic (types_QueryPrincipalResponse_Principal x))"

definition types_QueryPrincipalResponse_Marshal :: "custom \<Rightarrow> types_QueryPrincipalResponse \<Rightarrow> bytes result" where
  "types_QueryPrincipalResponse_Marshal ic x =
     obind (put_custom 0xA (Custom_Marshal ic (types_QueryPrincipalResponse_Principal x)) (types_QueryPrincipalResponse_Size ic x, [])) (\<lambda>b.
     Ok (sized_bytes b))"

definition types_QueryPrincipalResponse_field ::
    "custom \<Rightarrow> int \<Rightarrow> int \<Rightarrow> types_QueryPrincipalResponse \<Rightarrow> nat \<Rightarrow> bytes \<Rightarrow> (types_QueryPrincipalResponse \<times> nat) result option" where
  "types_QueryPrincipalResponse_field ic fieldNum wireType x i bs =
     (if fieldNum = 1 then Some (custom_field wireType i (Custom_Unmarshal ic (types_QueryPrincipalResponse_Principal x)) (\<lambda>v. x\<lparr>types_QueryPrincipalResponse_Principal := v\<rparr>) bs)
      else None)"

definition types_QueryPrincipalResponse_Unmarshal :: "custom \<Rightarrow> bytes \<Rightarrow> types_QueryPrincipalResponse result option" where
  "types_QueryPrincipalResponse_Unmarshal ic bs =
     read_fields (Skip gogo_runtime) (types_QueryPrincipalResponse_field ic) (\<lambda>u x. x)
       \<lparr>types_QueryPrincipalResponse_Principal = None\<rparr> 0 bs"

lemma types_QueryPrincipalResponse_written:
  assumes "custom_codec ic ok" "given ok (types_QueryPrincipalResponse_Principal x)"
  shows "writes (types_QueryPrincipalResponse_Marshal ic x)
    (delimited_bytes gogo_runtime 0xA (Custom_Marshal ic (types_QueryPrincipalResponse_Principal x)) @
      [])
    (types_QueryPrincipalResponse_Size ic x)"
  using assms(2) by (simp add: writes_def types_QueryPrincipalResponse_Marshal_def types_QueryPrincipalResponse_Size_def wire_puts gogo_varint
    custom_delimited givenD [OF assms(1)])

lemma types_QueryPrincipalResponse_exact:
  assumes "custom_codec ic ok"
  shows "exact_codec (types_QueryPrincipalResponse_Size ic) (types_QueryPrincipalResponse_Marshal ic) (types_QueryPrincipalResponse_Unmarshal ic)
    (\<lambda>x. given ok (types_QueryPrincipalResponse_Principal x))"
  by (rule exact_codecI, rule types_QueryPrincipalResponse_written [OF assms], assumption,
    unfold types_QueryPrincipalResponse_Unmarshal_def, erule readsD [rotated],
    (rule reads_delimited [OF gogo_varint], rule wire_tags, simp add: types_QueryPrincipalResponse_field_def, simp add: givenD [OF assms], simp add: givenD [OF assms])+, rule reads_done, simp)

lemma types_QueryPrincipalResponse_returns: "\<exists>r. types_QueryPrincipalResponse_Unmarshal ic bs = Some r"
  unfolding types_QueryPrincipalResponse_Unmarshal_def by (rule read_fields_returns [OF gogo_skip])

lemma types_QueryPrincipalResponse_answered:
  assumes "custom_codec ic ok" "given ok (types_QueryPrincipalResponse_Principal x)" "types_QueryPrincipalResponse_Size ic x < 2 ^ 63"
  shows "\<exists>bs. types_QueryPrincipalResponse_Marshal ic x = Ok bs \<and> dollarv1_QueryPrincipalResponse_unmarshal rt discardUnknown bs = Some (Ok
     \<lparr>dollarv1_QueryPrincipalResponse_Principal = Custom_Marshal ic (types_QueryPrincipalResponse_Principal x),
      dollarv1_QueryPrincipalResponse_unknownFields = []\<rparr>)"
  by (rule codec_readsI [OF types_QueryPrincipalResponse_written [OF assms(1,2)] assms(3)],
    unfold dollarv1_QueryPrincipalResponse_unmarshal_def, erule readsD [rotated],
    (rule reads_bytes [OF gogo_varint], rule wire_tags, simp add: dollarv1_QueryPrincipalResponse_field_def, simp)+, rule reads_done, simp)

subsection \<open>QueryYield (types)\<close>

text \<open>\<open>QueryYield\<close> of \<open>types/query.pb.go\<close>.\<close>

record types_QueryYield =
  types_QueryYield_Account :: bytes

definition types_QueryYield_Size :: "types_QueryYield \<Rightarrow> nat" where
  "types_QueryYield_Size x =
     size_delimited gogo_runtime (types_QueryYield_Account x)"

definition types_QueryYield_Marshal :: "types_QueryYield \<Rightarrow> bytes result" where
  "types_QueryYield_Marshal x =
     obind (put_delimited gogo_runtime 0xA (types_QueryYield_Account x) (types_QueryYield_Size x, [])) (\<lambda>b.
     Ok (sized_bytes b))"

definition types_QueryYield_field ::
    "int \<Rightarrow> int \<Rightarrow> types_QueryYield \<Rightarrow> nat \<Rightarrow> bytes \<Rightarrow> (types_QueryYield \<times> nat) result option" where
  "types_QueryYield_field fieldNum wireType x i bs =
     (if fieldNum = 1 then Some (bytes_field wireType i (\<lambda>v. x\<lparr>types_QueryYield_Account := v\<rparr>) bs)
      else None)"

definition types_QueryYield_Unmarshal :: "bytes \<Rightarrow> types_QueryYield result option" where
  "types_QueryYield_Unmarshal bs =
     read_fields (Skip gogo_runtime) types_QueryYield_field (\<lambda>u x. x)
       \<lparr>types_QueryYield_Account = []\<rparr> 0 bs"

lemma types_QueryYield_written:
  shows "writes (types_QueryYield_Marshal x)
    (delimited_bytes gogo_runtime 0xA (types_QueryYield_Account x) @
      [])
    (types_QueryYield_Size x)"
  by (simp add: writes_def types_QueryYield_Marshal_def types_QueryYield_Size_def wire_puts gogo_varint)

lemma types_QueryYield_exact:
  shows "exact_codec (types_QueryYield_Size) (types_QueryYield_Marshal) (types_QueryYield_Unmarshal)
    (\<lambda>x. True)"
  by (rule exact_codecI, rule types_QueryYield_written,
    unfold types_QueryYield_Unmarshal_def, erule readsD [rotated],
    (rule reads_bytes [OF gogo_varint], rule wire_tags, simp add: types_QueryYield_field_def, simp)+, rule reads_done, simp)

lemma types_QueryYield_returns: "\<exists>r. types_QueryYield_Unmarshal bs = Some r"
  unfolding types_QueryYield_Unmarshal_def by (rule read_fields_returns [OF gogo_skip])

lemma types_QueryYield_received:
  assumes "varint_runtime rt" "dollarv1_QueryYield_unknownFields x = []"
    and "dollarv1_QueryYield_size rt x < 2 ^ 63"
  shows "\<exists>bs. dollarv1_QueryYield_marshal rt x = Ok bs \<and> types_QueryYield_Unmarshal bs = Some (Ok
     \<lparr>types_QueryYield_Account = dollarv1_QueryYield_Account x\<rparr>)"
  by (rule codec_readsI [OF dollarv1_QueryYield_written [OF assms(1,2)] assms(3)],
    unfold types_QueryYield_Unmarshal_def, erule readsD [rotated],
    (rule reads_bytes [OF assms(1)], rule wire_tags, simp add: types_QueryYield_field_def, simp)+, rule reads_done, simp)

subsection \<open>QueryYieldResponse (types)\<close>

text \<open>\<open>QueryYieldResponse\<close> of \<open>types/query.pb.go\<close>.\<close>

record types_QueryYieldResponse =
  types_QueryYieldResponse_ClaimableAmount :: "int option"

definition types_QueryYieldResponse_Size :: "custom \<Rightarrow> types_QueryYieldResponse \<Rightarrow> nat" where
  "types_QueryYieldResponse_Size ic x =
     size_custom (Custom_Marshal ic (types_QueryYieldResponse_ClaimableAmount x))"

definition types_QueryYieldResponse_Marshal :: "custom \<Rightarrow> types_QueryYieldResponse \<Rightarrow> bytes result" where
  "types_QueryYieldResponse_Marshal ic x =
     obind (put_custom 0xA (Custom_Marshal ic (types_QueryYieldResponse_ClaimableAmount x)) (types_QueryYieldResponse_Size ic x, [])) (\<lambda>b.
     Ok (sized_bytes b))"

definition types_QueryYieldResponse_field ::
    "custom \<Rightarrow> int \<Rightarrow> int \<Rightarrow> types_QueryYieldResponse \<Rightarrow> nat \<Rightarrow> bytes \<Rightarrow> (types_QueryYieldResponse \<times> nat) result option" where
  "types_QueryYieldResponse_field ic fieldNum wireType x i bs =
     (if fieldNum = 1 then Some (custom_field wireType i (Custom_Unmarshal ic (types_QueryYieldResponse_ClaimableAmount x)) (\<lambda>v. x\<lparr>types_QueryYieldResponse_ClaimableAmount := v\<rparr>) bs)
      else None)"

definition types_QueryYieldResponse_Unmarshal :: "custom \<Rightarrow> bytes \<Rightarrow> types_QueryYieldResponse result option" where
  "types_QueryYieldResponse_Unmarshal ic bs =
     read_fields (Skip gogo_runtime) (types_QueryYieldResponse_field ic) (\<lambda>u x. x)
       \<lparr>types_QueryYieldResponse_ClaimableAmount = None\<rparr> 0 bs"

lemma types_QueryYieldResponse_written:
  assumes "custom_codec ic ok" "given ok (types_QueryYieldResponse_ClaimableAmount x)"
  shows "writes (types_QueryYieldResponse_Marshal ic x)
    (delimited_bytes gogo_runtime 0xA (Custom_Marshal ic (types_QueryYieldResponse_ClaimableAmount x)) @
      [])
    (types_QueryYieldResponse_Size ic x)"
  using assms(2) by (simp add: writes_def types_QueryYieldResponse_Marshal_def types_QueryYieldResponse_Size_def wire_puts gogo_varint
    custom_delimited givenD [OF assms(1)])

lemma types_QueryYieldResponse_exact:
  assumes "custom_codec ic ok"
  shows "exact_codec (types_QueryYieldResponse_Size ic) (types_QueryYieldResponse_Marshal ic) (types_QueryYieldResponse_Unmarshal ic)
    (\<lambda>x. given ok (types_QueryYieldResponse_ClaimableAmount x))"
  by (rule exact_codecI, rule types_QueryYieldResponse_written [OF assms], assumption,
    unfold types_QueryYieldResponse_Unmarshal_def, erule readsD [rotated],
    (rule reads_delimited [OF gogo_varint], rule wire_tags, simp add: types_QueryYieldResponse_field_def, simp add: givenD [OF assms], simp add: givenD [OF assms])+, rule reads_done, simp)

lemma types_QueryYieldResponse_returns: "\<exists>r. types_QueryYieldResponse_Unmarshal ic bs = Some r"
  unfolding types_QueryYieldResponse_Unmarshal_def by (rule read_fields_returns [OF gogo_skip])

lemma types_QueryYieldResponse_answered:
  assumes "custom_codec ic ok" "given ok (types_QueryYieldResponse_ClaimableAmount x)" "types_QueryYieldResponse_Size ic x < 2 ^ 63"
  shows "\<exists>bs. types_QueryYieldResponse_Marshal ic x = Ok bs \<and> dollarv1_QueryYieldResponse_unmarshal rt discardUnknown bs = Some (Ok
     \<lparr>dollarv1_QueryYieldResponse_ClaimableAmount = Custom_Marshal ic (types_QueryYieldResponse_ClaimableAmount x),
      dollarv1_QueryYieldResponse_unknownFields = []\<rparr>)"
  by (rule codec_readsI [OF types_QueryYieldResponse_written [OF assms(1,2)] assms(3)],
    unfold dollarv1_QueryYieldResponse_unmarshal_def, erule readsD [rotated],
    (rule reads_bytes [OF gogo_varint], rule wire_tags, simp add: dollarv1_QueryYieldResponse_field_def, simp)+, rule reads_done, simp)

subsection \<open>QueryStats (types)\<close>

text \<open>\<open>QueryStats\<close> of \<open>types/query.pb.go\<close>.\<close>

datatype types_QueryStats = types_QueryStats

definition types_QueryStats_Size :: "types_QueryStats \<Rightarrow> nat" where
  "types_QueryStats_Size x =
     0"

definition types_QueryStats_Marshal :: "types_QueryStats \<Rightarrow> bytes result" where
  "types_QueryStats_Marshal x =
     Ok (sized_bytes (types_QueryStats_Size x, []))"

definition types_QueryStats_field ::
    "int \<Rightarrow> int \<Rightarrow> types_QueryStats \<Rightarrow> nat \<Rightarrow> bytes \<Rightarrow> (types_QueryStats \<times> nat) result option" where
  "types_QueryStats_field fieldNum wireType x i bs =
     None"

definition types_QueryStats_Unmarshal :: "bytes \<Rightarrow> types_QueryStats result option" where
  "types_QueryStats_Unmarshal bs =
     read_fields (Skip gogo_runtime) types_QueryStats_field (\<lambda>u x. x)
       types_QueryStats 0 bs"

lemma types_QueryStats_written:
  shows "writes (types_QueryStats_Marshal x)
    ([] :: bytes)
    (types_QueryStats_Size x)"
  by (simp add: writes_def types_QueryStats_Marshal_def types_QueryStats_Size_def wire_puts gogo_varint)

lemma types_QueryStats_exact:
  shows "exact_codec (types_QueryStats_Size) (types_QueryStats_Marshal) (types_QueryStats_Unmarshal)
    (\<lambda>x. True)"
  by (rule exact_codecI, rule types_QueryStats_written,
    unfold types_QueryStats_Unmarshal_def, erule readsD [rotated],
    rule reads_done, metis types_QueryStats.exhaust)

lemma types_QueryStats_returns: "\<exists>r. types_QueryStats_Unmarshal bs = Some r"
  unfolding types_QueryStats_Unmarshal_def by (rule read_fields_returns [OF gogo_skip])

lemma types_QueryStats_received:
  assumes "varint_runtime rt" "dollarv1_QueryStats_unknownFields x = []"
  shows "\<exists>bs. dollarv1_QueryStats_marshal rt x = Ok bs \<and> types_QueryStats_Unmarshal bs = Some (Ok types_QueryStats)"
  by (rule codec_readsI [OF dollarv1_QueryStats_written [OF assms]], simp add: dollarv1_QueryStats_size_def assms,
    unfold types_QueryStats_Unmarshal_def, erule readsD [rotated], rule reads_done, simp)

subsection \<open>QueryStatsResponse (types)\<close>

text \<open>\<open>QueryStatsResponse\<close> of \<open>types/query.pb.go\<close>.\<close>

record types_QueryStatsResponse =
  types_QueryStatsResponse_TotalHolders :: "64 word"
  types_QueryStatsResponse_TotalPrincipal :: "int option"
  types_QueryStatsResponse_TotalYieldAccrued :: "int option"

definition types_QueryStatsResponse_Size :: "custom \<Rightarrow> types_QueryStatsResponse \<Rightarrow> nat" where
  "types_QueryStatsResponse_Size ic x =
     size_varint gogo_runtime (types_QueryStatsResponse_TotalHolders x) +
     size_custom (Custom_Marshal ic (types_QueryStatsResponse_TotalPrincipal x)) +
     size_custom (Custom_Marshal ic (types_QueryStatsResponse_TotalYieldAccrued x))"

definition types_QueryStatsResponse_Marshal :: "custom \<Rightarrow> types_QueryStatsResponse \<Rightarrow> bytes result" where
  "types_QueryStatsResponse_Marshal ic x =
     obind (put_custom 0x1A (Custom_Marshal ic (types_QueryStatsResponse_TotalYieldAccrued x)) (types_QueryStatsResponse_Size ic x, [])) (\<lambda>b.
     obind (put_custom 0x12 (Custom_Marshal ic (types_QueryStatsResponse_TotalPrincipal x)) b) (\<lambda>b.
     obind (put_varint gogo_runtime 0x8 (types_QueryStatsResponse_TotalHolders x) b) (\<lambda>b.
     Ok (sized_bytes b))))"

definition types_QueryStatsResponse_field ::
    "custom \<Rightarrow> int \<Rightarrow> int \<Rightarrow> types_QueryStatsResponse \<Rightarrow> nat \<Rightarrow> bytes \<Rightarrow> (types_QueryStatsResponse \<times> nat) result option" where
  "types_QueryStatsResponse_field ic fieldNum wireType x i bs =
     (if fieldNum = 1 then Some (varint_field wireType (\<lambda>v. x\<lparr>types_QueryStatsResponse_TotalHolders := v\<rparr>) bs)
      else if fieldNum = 2 then Some (custom_field wireType i (Custom_Unmarshal ic (types_QueryStatsResponse_TotalPrincipal x)) (\<lambda>v. x\<lparr>types_QueryStatsResponse_TotalPrincipal := v\<rparr>) bs)
      else if fieldNum = 3 then Some (custom_field wireType i (Custom_Unmarshal ic (types_QueryStatsResponse_TotalYieldAccrued x)) (\<lambda>v. x\<lparr>types_QueryStatsResponse_TotalYieldAccrued := v\<rparr>) bs)
      else None)"

definition types_QueryStatsResponse_Unmarshal :: "custom \<Rightarrow> bytes \<Rightarrow> types_QueryStatsResponse result option" where
  "types_QueryStatsResponse_Unmarshal ic bs =
     read_fields (Skip gogo_runtime) (types_QueryStatsResponse_field ic) (\<lambda>u x. x)
       \<lparr>types_QueryStatsResponse_TotalHolders = 0, types_QueryStatsResponse_TotalPrincipal = None, types_QueryStatsResponse_TotalYieldAccrued = None\<rparr> 0 bs"

lemma types_QueryStatsResponse_written:
  assumes "custom_codec ic ok" "given ok (types_QueryStatsResponse_TotalPrincipal x) \<and> given ok (types_QueryStatsResponse_TotalYieldAccrued x)"
  shows "writes (types_QueryStatsResponse_Marshal ic x)
    (varint_bytes gogo_runtime 0x8 (types_QueryStatsResponse_TotalHolders x) @
      delimited_bytes gogo_runtime 0x12 (Custom_Marshal ic (types_QueryStatsResponse_TotalPrincipal x)) @
      delimited_bytes gogo_runtime 0x1A (Custom_Marshal ic (types_QueryStatsResponse_TotalYieldAccrued x)) @
      [])
    (types_QueryStatsResponse_Size ic x)"
  using assms(2) by (simp add: writes_def types_QueryStatsResponse_Marshal_def types_QueryStatsResponse_Size_def wire_puts gogo_varint
    custom_delimited givenD [OF assms(1)])

lemma types_QueryStatsResponse_exact:
  assumes "custom_codec ic ok"
  shows "exact_codec (types_QueryStatsResponse_Size ic) (types_QueryStatsResponse_Marshal ic) (types_QueryStatsResponse_Unmarshal ic)
    (\<lambda>x. given ok (types_QueryStatsResponse_TotalPrincipal x) \<and> given ok (types_QueryStatsResponse_TotalYieldAccrued x))"
  by (rule exact_codecI, rule types_QueryStatsResponse_written [OF assms], assumption,
    unfold types_QueryStatsResponse_Unmarshal_def, erule readsD [rotated],
    ((rule reads_varint [OF gogo_varint], rule wire_tags, simp add: types_QueryStatsResponse_field_def, simp) |
      (rule reads_delimited [OF gogo_varint], rule wire_tags, simp add: types_QueryStatsResponse_field_def, simp add: givenD [OF assms], simp add: givenD [OF assms]))+, rule reads_done, simp)

lemma types_QueryStatsResponse_returns: "\<exists>r. types_QueryStatsResponse_Unmarshal ic bs = Some r"
  unfolding types_QueryStatsResponse_Unmarshal_def by (rule read_fields_returns [OF gogo_skip])

lemma types_QueryStatsResponse_answered:
  assumes "custom_codec ic ok" "given ok (types_QueryStatsResponse_TotalPrincipal x) \<and> given ok (types_QueryStatsResponse_TotalYieldAccrued x)" "types_QueryStatsResponse_Size ic x < 2 ^ 63"
  shows "\<exists>bs. types_QueryStatsResponse_Marshal ic x = Ok bs \<and> dollarv1_QueryStatsResponse_unmarshal rt discardUnknown bs = Some (Ok
     \<lparr>dollarv1_QueryStatsResponse_TotalHolders = types_QueryStatsResponse_TotalHolders x,
      dollarv1_QueryStatsResponse_TotalPrincipal = Custom_Marshal ic (types_QueryStatsResponse_TotalPrincipal x),
      dollarv1_QueryStatsResponse_TotalYieldAccrued = Custom_Marshal ic (types_QueryStatsResponse_TotalYieldAccrued x),
      dollarv1_QueryStatsResponse_unknownFields = []\<rparr>)"
  by (rule codec_readsI [OF types_QueryStatsResponse_written [OF assms(1,2)] assms(3)],
    unfold dollarv1_QueryStatsResponse_unmarshal_def, erule readsD [rotated],
    (rule reads_varint [OF gogo_varint] reads_bytes [OF gogo_varint], rule wire_tags, simp add: dollarv1_QueryStatsResponse_field_def, simp)+, rule reads_done, simp)

subsection \<open>QueryStats (v2)\<close>

text \<open>\<open>QueryStats\<close> of \<open>types/v2/query.pb.go\<close>.\<close>

datatype v2_QueryStats = v2_QueryStats

definition v2_QueryStats_Size :: "v2_QueryStats \<Rightarrow> nat" where
  "v2_QueryStats_Size x =
     0"

definition v2_QueryStats_Marshal :: "v2_QueryStats \<Rightarrow> bytes result" where
  "v2_QueryStats_Marshal x =
     Ok (sized_bytes (v2_QueryStats_Size x, []))"

definition v2_QueryStats_field ::
    "int \<Rightarrow> int \<Rightarrow> v2_QueryStats \<Rightarrow> nat \<Rightarrow> bytes \<Rightarrow> (v2_QueryStats \<times> nat) result option" where
  "v2_QueryStats_field fieldNum wireType x i bs =
     None"

definition v2_QueryStats_Unmarshal :: "bytes \<Rightarrow> v2_QueryStats result option" where
  "v2_QueryStats_Unmarshal bs =
     read_fields (Skip gogo_runtime) v2_QueryStats_field (\<lambda>u x. x)
       v2_QueryStats 0 bs"

lemma v2_QueryStats_written:
  shows "writes (v2_QueryStats_Marshal x)
    ([] :: bytes)
    (v2_QueryStats_Size x)"
  by (simp add: writes_def v2_QueryStats_Marshal_def v2_QueryStats_Size_def wire_puts gogo_varint)

lemma v2_QueryStats_exact:
  shows "exact_codec (v2_QueryStats_Size) (v2_QueryStats_Marshal) (v2_QueryStats_Unmarshal)
    (\<lambda>x. True)"
  by (rule exact_codecI, rule v2_QueryStats_written,
    unfold v2_QueryStats_Unmarshal_def, erule readsD [rotated],
    rule reads_done, metis v2_QueryStats.exhaust)

lemma v2_QueryStats_returns: "\<exists>r. v2_QueryStats_Unmarshal bs = Some r"
  unfolding v2_QueryStats_Unmarshal_def by (rule read_fields_returns [OF gogo_skip])

lemma v2_QueryStats_received:
  assumes "varint_runtime rt" "dollarv2_QueryStats_unknownFields x = []"
  shows "\<exists>bs. dollarv2_QueryStats_marshal rt x = Ok bs \<and> v2_QueryStats_Unmarshal bs = Some (Ok v2_QueryStats)"
  by (rule codec_readsI [OF dollarv2_QueryStats_written [OF assms]], simp add: dollarv2_QueryStats_size_def assms,
    unfold v2_QueryStats_Unmarshal_def, erule readsD [rotated], rule reads_done, simp)

subsection \<open>QueryStatsResponse_ExternalYield (v2)\<close>

text \<open>\<open>QueryStatsResponse_ExternalYield\<close> of \<open>types/v2/query.pb.go\<close>.\<close>

record v2_QueryStatsResponse_ExternalYield =
  v2_QueryStatsResponse_ExternalYield_ChainId :: bytes
  v2_QueryStatsResponse_ExternalYield_Amount :: "int option"

definition v2_QueryStatsResponse_ExternalYield_Size :: "custom \<Rightarrow> v2_QueryStatsResponse_ExternalYield \<Rightarrow> nat" where
  "v2_QueryStatsResponse_ExternalYield_Size ic x =
     size_delimited gogo_runtime (v2_QueryStatsResponse_ExternalYield_ChainId x) +
     size_custom (Custom_Marshal ic (v2_QueryStatsResponse_ExternalYield_Amount x))"

definition v2_QueryStatsResponse_ExternalYield_Marshal :: "custom \<Rightarrow> v2_QueryStatsResponse_ExternalYield \<Rightarrow> bytes result" where
  "v2_QueryStatsResponse_ExternalYield_Marshal ic x =
     obind (put_custom 0x12 (Custom_Marshal ic (v2_QueryStatsResponse_ExternalYield_Amount x)) (v2_QueryStatsResponse_ExternalYield_Size ic x, [])) (\<lambda>b.
     obind (put_delimited gogo_runtime 0xA (v2_QueryStatsResponse_ExternalYield_ChainId x) b) (\<lambda>b.
     Ok (sized_bytes b)))"

definition v2_QueryStatsResponse_ExternalYield_field ::
    "custom \<Rightarrow> int \<Rightarrow> int \<Rightarrow> v2_QueryStatsResponse_ExternalYield \<Rightarrow> nat \<Rightarrow> bytes \<Rightarrow> (v2_QueryStatsResponse_ExternalYield \<times> nat) result option" where
  "v2_QueryStatsResponse_ExternalYield_field ic fieldNum wireType x i bs =
     (if fieldNum = 1 then Some (bytes_field wireType i (\<lambda>v. x\<lparr>v2_QueryStatsResponse_ExternalYield_ChainId := v\<rparr>) bs)
      else if fieldNum = 2 then Some (custom_field wireType i (Custom_Unmarshal ic (v2_QueryStatsResponse_ExternalYield_Amount x)) (\<lambda>v. x\<lparr>v2_QueryStatsResponse_ExternalYield_Amount := v\<rparr>) bs)
      else None)"

definition v2_QueryStatsResponse_ExternalYield_Unmarshal :: "custom \<Rightarrow> bytes \<Rightarrow> v2_QueryStatsResponse_ExternalYield result option" where
  "v2_QueryStatsResponse_ExternalYield_Unmarshal ic bs =
     read_fields (Skip gogo_runtime) (v2_QueryStatsResponse_ExternalYield_field ic) (\<lambda>u x. x)
       \<lparr>v2_QueryStatsResponse_ExternalYield_ChainId = [], v2_QueryStatsResponse_ExternalYield_Amount = None\<rparr> 0 bs"

lemma v2_QueryStatsResponse_ExternalYield_written:
  assumes "custom_codec ic ok" "given ok (v2_QueryStatsResponse_ExternalYield_Amount x)"
  shows "writes (v2_QueryStatsResponse_ExternalYield_Marshal ic x)
    (delimited_bytes gogo_runtime 0xA (v2_QueryStatsResponse_ExternalYield_ChainId x) @
      delimited_bytes gogo_runtime 0x12 (Custom_Marshal ic (v2_QueryStatsResponse_ExternalYield_Amount x)) @
      [])
    (v2_QueryStatsResponse_ExternalYield_Size ic x)"
  using assms(2) by (simp add: writes_def v2_QueryStatsResponse_ExternalYield_Marshal_def v2_QueryStatsResponse_ExternalYield_Size_def wire_puts gogo_varint
    custom_delimited givenD [OF assms(1)])

lemma v2_QueryStatsResponse_ExternalYield_exact:
  assumes "custom_codec ic ok"
  shows "exact_codec (v2_QueryStatsResponse_ExternalYield_Size ic) (v2_QueryStatsResponse_ExternalYield_Marshal ic) (v2_QueryStatsResponse_ExternalYield_Unmarshal ic)
    (\<lambda>x. given ok (v2_QueryStatsResponse_ExternalYield_Amount x))"
  by (rule exact_codecI, rule v2_QueryStatsResponse_ExternalYield_written [OF assms], assumption,
    unfold v2_QueryStatsResponse_ExternalYield_Unmarshal_def, erule readsD [rotated],
    ((rule reads_bytes [OF gogo_varint], rule wire_tags, simp add: v2_QueryStatsResponse_ExternalYield_field_def, simp) |
      (rule reads_delimited [OF gogo_varint], rule wire_tags, simp add: v2_QueryStatsResponse_ExternalYield_field_def, simp add: givenD [OF assms], simp add: givenD [OF assms]))+, rule reads_done, simp)

lemma v2_QueryStatsResponse_ExternalYield_returns: "\<exists>r. v2_QueryStatsResponse_ExternalYield_Unmarshal ic bs = Some r"
  unfolding v2_QueryStatsResponse_ExternalYield_Unmarshal_def by (rule read_fields_returns [OF gogo_skip])

lemma v2_QueryStatsResponse_ExternalYield_answered:
  assumes "custom_codec ic ok" "given ok (v2_QueryStatsResponse_ExternalYield_Amount x)" "v2_QueryStatsResponse_ExternalYield_Size ic x < 2 ^ 63"
  shows "\<exists>bs. v2_QueryStatsResponse_ExternalYield_Marshal ic x = Ok bs \<and> dollarv2_QueryStatsResponse_ExternalYield_unmarshal rt discardUnknown bs = Some (Ok
     \<lparr>dollarv2_QueryStatsResponse_ExternalYield_ChainId = v2_QueryStatsResponse_ExternalYield_ChainId x,
      dollarv2_QueryStatsResponse_ExternalYield_Amount = Custom_Marshal ic (v2_QueryStatsResponse_ExternalYield_Amount x),
      dollarv2_QueryStatsResponse_ExternalYield_unknownFields = []\<rparr>)"
  by (rule codec_readsI [OF v2_QueryStatsResponse_ExternalYield_written [OF assms(1,2)] assms(3)],
    unfold dollarv2_QueryStatsResponse_ExternalYield_unmarshal_def, erule readsD [rotated],
    (rule reads_bytes [OF gogo_varint], rule wire_tags, simp add: dollarv2_QueryStatsResponse_ExternalYield_field_def, simp)+, rule reads_done, simp)

subsection \<open>QueryYieldRecipients (v2)\<close>

text \<open>\<open>QueryYieldRecipients\<close> of \<open>types/v2/query.pb.go\<close>.\<close>

datatype v2_QueryYieldRecipients = v2_QueryYieldRecipients

definition v2_QueryYieldRecipients_Size :: "v2_QueryYieldRecipients \<Rightarrow> nat" where
  "v2_QueryYieldRecipients_Size x =
     0"

definition v2_QueryYieldRecipients_Marshal :: "v2_QueryYieldRecipients \<Rightarrow> bytes result" where
  "v2_QueryYieldRecipients_Marshal x =
     Ok (sized_bytes (v2_QueryYieldRecipients_Size x, []))"

definition v2_QueryYieldRecipients_field ::
    "int \<Rightarrow> int \<Rightarrow> v2_QueryYieldRecipients \<Rightarrow> nat \<Rightarrow> bytes \<Rightarrow> (v2_QueryYieldRecipients \<times> nat) result option" where
  "v2_QueryYieldRecipients_field fieldNum wireType x i bs =
     None"

definition v2_QueryYieldRecipients_Unmarshal :: "bytes \<Rightarrow> v2_QueryYieldRecipients result option" where
  "v2_QueryYieldRecipients_Unmarshal bs =
     read_fields (Skip gogo_runtime) v2_QueryYieldRecipients_field (\<lambda>u x. x)
       v2_QueryYieldRecipients 0 bs"

lemma v2_QueryYieldRecipients_written:
  shows "writes (v2_QueryYieldRecipients_Marshal x)
    ([] :: bytes)
    (v2_QueryYieldRecipients_Size x)"
  by (simp add: writes_def v2_QueryYieldRecipients_Marshal_def v2_QueryYieldRecipients_Size_def wire_puts gogo_varint)

lemma v2_QueryYieldRecipients_exact:
  shows "exact_codec (v2_QueryYieldRecipients_Size) (v2_QueryYieldRecipients_Marshal) (v2_QueryYieldRecipients_Unmarshal)
    (\<lambda>x. True)"
  by (rule exact_codecI, rule v2_QueryYieldRecipients_written,
    unfold v2_QueryYieldRecipients_Unmarshal_def, erule readsD [rotated],
    rule reads_done, metis v2_QueryYieldRecipients.exhaust)

lemma v2_QueryYieldRecipients_returns: "\<exists>r. v2_QueryYieldRecipients_Unmarshal bs = Some r"
  unfolding v2_QueryYieldRecipients_Unmarshal_def by (rule read_fields_returns [OF gogo_skip])

lemma v2_QueryYieldRecipients_received:
  assumes "varint_runtime rt" "dollarv2_QueryYieldRecipients_unknownFields x = []"
  shows "\<exists>bs. dollarv2_QueryYieldRecipients_marshal rt x = Ok bs \<and> v2_QueryYieldRecipients_Unmarshal bs = Some (Ok v2_QueryYieldRecipients)"
  by (rule codec_readsI [OF dollarv2_QueryYieldRecipients_written [OF assms]], simp add: dollarv2_QueryYieldRecipients_size_def assms,
    unfold v2_QueryYieldRecipients_Unmarshal_def, erule readsD [rotated], rule reads_done, simp)

subsection \<open>QueryYieldRecipient (v2)\<close>

text \<open>\<open>QueryYieldRecipient\<close> of \<open>types/v2/query.pb.go\<close>.\<close>

record v2_QueryYieldRecipient =
  v2_QueryYieldRecipient_Provider :: "32 word"
  v2_QueryYieldRecipient_Identifier :: bytes

definition v2_QueryYieldRecipient_Size :: "v2_QueryYieldRecipient \<Rightarrow> nat" where
  "v2_QueryYieldRecipient_Size x =
     size_varint gogo_runtime (scast (v2_QueryYieldRecipient_Provider x)) +
     size_delimited gogo_runtime (v2_QueryYieldRecipient_Identifier x)"

definition v2_QueryYieldRecipient_Marshal :: "v2_QueryYieldRecipient \<Rightarrow> bytes result" where
  "v2_QueryYieldRecipient_Marshal x =
     obind (put_delimited gogo_runtime 0x12 (v2_QueryYieldRecipient_Identifier x) (v2_QueryYieldRecipient_Size x, [])) (\<lambda>b.
     obind (put_varint gogo_runtime 0x8 (scast (v2_QueryYieldRecipient_Provider x)) b) (\<lambda>b.
     Ok (sized_bytes b)))"

definition v2_QueryYieldRecipient_field ::
    "int \<Rightarrow> int \<Rightarrow> v2_QueryYieldRecipient \<Rightarrow> nat \<Rightarrow> bytes \<Rightarrow> (v2_QueryYieldRecipient \<times> nat) result option" where
  "v2_QueryYieldRecipient_field fieldNum wireType x i bs =
     (if fieldNum = 1 then Some (varint_field wireType (\<lambda>v. x\<lparr>v2_QueryYieldRecipient_Provider := v\<rparr>) bs)
      else if fieldNum = 2 then Some (bytes_field wireType i (\<lambda>v. x\<lparr>v2_QueryYieldRecipient_Identifier := v\<rparr>) bs)
      else None)"

definition v2_QueryYieldRecipient_Unmarshal :: "bytes \<Rightarrow> v2_QueryYieldRecipient result option" where
  "v2_QueryYieldRecipient_Unmarshal bs =
     read_fields (Skip gogo_runtime) v2_QueryYieldRecipient_field (\<lambda>u x. x)
       \<lparr>v2_QueryYieldRecipient_Provider = 0, v2_QueryYieldRecipient_Identifier = []\<rparr> 0 bs"

lemma v2_QueryYieldRecipient_written:
  shows "writes (v2_QueryYieldRecipient_Marshal x)
    (varint_bytes gogo_runtime 0x8 (scast (v2_QueryYieldRecipient_Provider x)) @
      delimited_bytes gogo_runtime 0x12 (v2_QueryYieldRecipient_Identifier x) @
      [])
    (v2_QueryYieldRecipient_Size x)"
  by (simp add: writes_def v2_QueryYieldRecipient_Marshal_def v2_QueryYieldRecipient_Size_def wire_puts gogo_varint)

lemma v2_QueryYieldRecipient_exact:
  shows "exact_codec (v2_QueryYieldRecipient_Size) (v2_QueryYieldRecipient_Marshal) (v2_QueryYieldRecipient_Unmarshal)
    (\<lambda>x. True)"
  by (rule exact_codecI, rule v2_QueryYieldRecipient_written,
    unfold v2_QueryYieldRecipient_Unmarshal_def, erule readsD [rotated],
    (rule reads_varint32 [OF gogo_varint] reads_bytes [OF gogo_varint], rule wire_tags, simp add: v2_QueryYieldRecipient_field_def, simp)+, rule reads_done, simp)

lemma v2_QueryYieldRecipient_returns: "\<exists>r. v2_QueryYieldRecipient_Unmarshal bs = Some r"
  unfolding v2_QueryYieldRecipient_Unmarshal_def by (rule read_fields_returns [OF gogo_skip])

lemma v2_QueryYieldRecipient_received:
  assumes "varint_runtime rt" "dollarv2_QueryYieldRecipient_unknownFields x = []"
    and "dollarv2_QueryYieldRecipient_size rt x < 2 ^ 63"
  shows "\<exists>bs. dollarv2_QueryYieldRecipient_marshal rt x = Ok bs \<and> v2_QueryYieldRecipient_Unmarshal bs = Some (Ok
     \<lparr>v2_QueryYieldRecipient_Provider = dollarv2_QueryYieldRecipient_Provider x,
      v2_QueryYieldRecipient_Identifier = dollarv2_QueryYieldRecipient_Identifier x\<rparr>)"
  by (rule codec_readsI [OF dollarv2_QueryYieldRecipient_written [OF assms(1,2)] assms(3)],
    unfold v2_QueryYieldRecipient_Unmarshal_def, erule readsD [rotated],
    (rule reads_varint32 [OF assms(1)] reads_bytes [OF assms(1)], rule wire_tags, simp add: v2_QueryYieldRecipient_field_def, simp)+, rule reads_done, simp)

subsection \<open>QueryYieldRecipientResponse (v2)\<close>

text \<open>\<open>QueryYieldRecipientResponse\<close> of \<open>types/v2/query.pb.go\<close>.\<close>

record v2_QueryYieldRecipientResponse =
  v2_QueryYieldRecipientResponse_YieldRecipient :: bytes

definition v2_QueryYieldRecipientResponse_Size :: "v2_QueryYieldRecipientResponse \<Rightarrow> nat" where
  "v2_QueryYieldRecipientResponse_Size x =
     size_delimited gogo_runtime (v2_QueryYieldRecipientResponse_YieldRecipient x)"

definition v2_QueryYieldRecipientResponse_Marshal :: "v2_QueryYieldRecipientResponse \<Rightarrow> bytes result" where
  "v2_QueryYieldRecipientResponse_Marshal x =
     obind (put_delimited gogo_runtime 0xA (v2_QueryYieldRecipientResponse_YieldRecipient x) (v2_QueryYieldRecipientResponse_Size x, [])) (\<lambda>b.
     Ok (sized_bytes b))"

definition v2_QueryYieldRecipientResponse_field ::
    "int \<Rightarrow> int \<Rightarrow> v2_QueryYieldRecipientResponse \<Rightarrow> nat \<Rightarrow> bytes \<Rightarrow> (v2_QueryYieldRecipientResponse \<times> nat) result option" where
  "v2_QueryYieldRecipientResponse_field fieldNum wireType x i bs =
     (if fieldNum = 1 then Some (bytes_field wireType i (\<lambda>v. x\<lparr>v2_QueryYieldRecipientResponse_YieldRecipient := v\<rparr>) bs)
      else None)"

definition v2_QueryYieldRecipientResponse_Unmarshal :: "bytes \<Rightarrow> v2_QueryYieldRecipientResponse result option" where
  "v2_QueryYieldRecipientResponse_Unmarshal bs =
     read_fields (Skip gogo_runtime) v2_QueryYieldRecipientResponse_field (\<lambda>u x. x)
       \<lparr>v2_QueryYieldRecipientResponse_YieldRecipient = []\<rparr> 0 bs"

lemma v2_QueryYieldRecipientResponse_written:
  shows "writes (v2_QueryYieldRecipientResponse_Marshal x)
    (delimited_bytes gogo_runtime 0xA (v2_QueryYieldRecipientResponse_YieldRecipient x) @
      [])
    (v2_QueryYieldRecipientResponse_Size x)"
  by (simp add: writes_def v2_QueryYieldRecipientResponse_Marshal_def v2_QueryYieldRecipientResponse_Size_def wire_puts gogo_varint)

lemma v2_QueryYieldRecipientResponse_exact:
  shows "exact_codec (v2_QueryYieldRecipientResponse_Size) (v2_QueryYieldRecipientResponse_Marshal) (v2_QueryYieldRecipientResponse_Unmarshal)
    (\<lambda>x. True)"
  by (rule exact_codecI, rule v2_QueryYieldRecipientResponse_written,
    unfold v2_QueryYieldRecipientResponse_Unmarshal_def, erule readsD [rotated],
    (rule reads_bytes [OF gogo_varint], rule wire_tags, simp add: v2_QueryYieldRecipientResponse_field_def, simp)+, rule reads_done, simp)

lemma v2_QueryYieldRecipientResponse_returns: "\<exists>r. v2_QueryYieldRecipientResponse_Unmarshal bs = Some r"
  unfolding v2_QueryYieldRecipientResponse_Unmarshal_def by (rule read_fields_returns [OF gogo_skip])

lemma v2_QueryYieldRecipientResponse_answered:
  assumes "v2_QueryYieldRecipientResponse_Size x < 2 ^ 63"
  shows "\<exists>bs. v2_QueryYieldRecipientResponse_Marshal x = Ok bs \<and> dollarv2_QueryYieldRecipientResponse_unmarshal rt discardUnknown bs = Some (Ok
     \<lparr>dollarv2_QueryYieldRecipientResponse_YieldRecipient = v2_QueryYieldRecipientResponse_YieldRecipient x,
      dollarv2_QueryYieldRecipientResponse_unknownFields = []\<rparr>)"
  by (rule codec_readsI [OF v2_QueryYieldRecipientResponse_written assms(1)],
    unfold dollarv2_QueryYieldRecipientResponse_unmarshal_def, erule readsD [rotated],
    (rule reads_bytes [OF gogo_varint], rule wire_tags, simp add: dollarv2_QueryYieldRecipientResponse_field_def, simp)+, rule reads_done, simp)

subsection \<open>QueryRetryAmounts (v2)\<close>

text \<open>\<open>QueryRetryAmounts\<close> of \<open>types/v2/query.pb.go\<close>.\<close>

datatype v2_QueryRetryAmounts = v2_QueryRetryAmounts

definition v2_QueryRetryAmounts_Size :: "v2_QueryRetryAmounts \<Rightarrow> nat" where
  "v2_QueryRetryAmounts_Size x =
     0"

definition v2_QueryRetryAmounts_Marshal :: "v2_QueryRetryAmounts \<Rightarrow> bytes result" where
  "v2_QueryRetryAmounts_Marshal x =
     Ok (sized_bytes (v2_QueryRetryAmounts_Size x, []))"

definition v2_QueryRetryAmounts_field ::
    "int \<Rightarrow> int \<Rightarrow> v2_QueryRetryAmounts \<Rightarrow> nat \<Rightarrow> bytes \<Rightarrow> (v2_QueryRetryAmounts \<times> nat) result option" where
  "v2_QueryRetryAmounts_field fieldNum wireType x i bs =
     None"

definition v2_QueryRetryAmounts_Unmarshal :: "bytes \<Rightarrow> v2_QueryRetryAmounts result option" where
  "v2_QueryRetryAmounts_Unmarshal bs =
     read_fields (Skip gogo_runtime) v2_QueryRetryAmounts_field (\<lambda>u x. x)
       v2_QueryRetryAmounts 0 bs"

lemma v2_QueryRetryAmounts_written:
  shows "writes (v2_QueryRetryAmounts_Marshal x)
    ([] :: bytes)
    (v2_QueryRetryAmounts_Size x)"
  by (simp add: writes_def v2_QueryRetryAmounts_Marshal_def v2_QueryRetryAmounts_Size_def wire_puts gogo_varint)

lemma v2_QueryRetryAmounts_exact:
  shows "exact_codec (v2_QueryRetryAmounts_Size) (v2_QueryRetryAmounts_Marshal) (v2_QueryRetryAmounts_Unmarshal)
    (\<lambda>x. True)"
  by (rule exact_codecI, rule v2_QueryRetryAmounts_written,
    unfold v2_QueryRetryAmounts_Unmarshal_def, erule readsD [rotated],
    rule reads_done, metis v2_QueryRetryAmounts.exhaust)

lemma v2_QueryRetryAmounts_returns: "\<exists>r. v2_QueryRetryAmounts_Unmarshal bs = Some r"
  unfolding v2_QueryRetryAmounts_Unmarshal_def by (rule read_fields_returns [OF gogo_skip])

lemma v2_QueryRetryAmounts_received:
  assumes "varint_runtime rt" "dollarv2_QueryRetryAmounts_unknownFields x = []"
  shows "\<exists>bs. dollarv2_QueryRetryAmounts_marshal rt x = Ok bs \<and> v2_QueryRetryAmounts_Unmarshal bs = Some (Ok v2_QueryRetryAmounts)"
  by (rule codec_readsI [OF dollarv2_QueryRetryAmounts_written [OF assms]], simp add: dollarv2_QueryRetryAmounts_size_def assms,
    unfold v2_QueryRetryAmounts_Unmarshal_def, erule readsD [rotated], rule reads_done, simp)

subsection \<open>QueryRetryAmount (v2)\<close>

text \<open>\<open>QueryRetryAmount\<close> of \<open>types/v2/query.pb.go\<close>.\<close>

record v2_QueryRetryAmount =
  v2_QueryRetryAmount_Provider :: "32 word"
  v2_QueryRetryAmount_Identifier :: bytes

definition v2_QueryRetryAmount_Size :: "v2_QueryRetryAmount \<Rightarrow> nat" where
  "v2_QueryRetryAmount_Size x =
     size_varint gogo_runtime (scast (v2_QueryRetryAmount_Provider x)) +
     size_delimited gogo_runtime (v2_QueryRetryAmount_Identifier x)"

definition v2_QueryRetryAmount_Marshal :: "v2_QueryRetryAmount \<Rightarrow> bytes result" where
  "v2_QueryRetryAmount_Marshal x =
     obind (put_delimited gogo_runtime 0x12 (v2_QueryRetryAmount_Identifier x) (v2_QueryRetryAmount_Size x, [])) (\<lambda>b.
     obind (put_varint gogo_runtime 0x8 (scast (v2_QueryRetryAmount_Provider x)) b) (\<lambda>b.
     Ok (sized_bytes b)))"

definition v2_QueryRetryAmount_field ::
    "int \<Rightarrow> int \<Rightarrow> v2_QueryRetryAmount \<Rightarrow> nat \<Rightarrow> bytes \<Rightarrow> (v2_QueryRetryAmount \<times> nat) result option" where
  "v2_QueryRetryAmount_field fieldNum wireType x i bs =
     (if fieldNum = 1 then Some (varint_field wireType (\<lambda>v. x\<lparr>v2_QueryRetryAmount_Provider := v\<rparr>) bs)
      else if fieldNum = 2 then Some (bytes_field wireType i (\<lambda>v. x\<lparr>v2_QueryRetryAmount_Identifier := v\<rparr>) bs)
      else None)"

definition v2_QueryRetryAmount_Unmarshal :: "bytes \<Rightarrow> v2_QueryRetryAmount result option" where
  "v2_QueryRetryAmount_Unmarshal bs =
     read_fields (Skip gogo_runtime) v2_QueryRetryAmount_field (\<lambda>u x. x)
       \<lparr>v2_QueryRetryAmount_Provider = 0, v2_QueryRetryAmount_Identifier = []\<rparr> 0 bs"

lemma v2_QueryRetryAmount_written:
  shows "writes (v2_QueryRetryAmount_Marshal x)
    (varint_bytes gogo_runtime 0x8 (scast (v2_QueryRetryAmount_Provider x)) @
      delimited_bytes gogo_runtime 0x12 (v2_QueryRetryAmount_Identifier x) @
      [])
    (v2_QueryRetryAmount_Size x)"
  by (simp add: writes_def v2_QueryRetryAmount_Marshal_def v2_QueryRetryAmount_Size_def wire_puts gogo_varint)

lemma v2_QueryRetryAmount_exact:
  shows "exact_codec (v2_QueryRetryAmount_Size) (v2_QueryRetryAmount_Marshal) (v2_QueryRetryAmount_Unmarshal)
    (\<lambda>x. True)"
  by (rule exact_codecI, rule v2_QueryRetryAmount_written,
    unfold v2_QueryRetryAmount_Unmarshal_def, erule readsD [rotated],
    (rule reads_varint32 [OF gogo_varint] reads_bytes [OF gogo_varint], rule wire_tags, simp add: v2_QueryRetryAmount_field_def, simp)+, rule reads_done, simp)

lemma v2_QueryRetryAmount_returns: "\<exists>r. v2_QueryRetryAmount_Unmarshal bs = Some r"
  unfolding v2_QueryRetryAmount_Unmarshal_def by (rule read_fields_returns [OF gogo_skip])

lemma v2_QueryRetryAmount_received:
  assumes "varint_runtime rt" "dollarv2_QueryRetryAmount_unknownFields x = []"
    and "dollarv2_QueryRetryAmount_size rt x < 2 ^ 63"
  shows "\<exists>bs. dollarv2_QueryRetryAmount_marshal rt x = Ok bs \<and> v2_QueryRetryAmount_Unmarshal bs = Some (Ok
     \<lparr>v2_QueryRetryAmount_Provider = dollarv2_QueryRetryAmount_Provider x,
      v2_QueryRetryAmount_Identifier = dollarv2_QueryRetryAmount_Identifier x\<rparr>)"
  by (rule codec_readsI [OF dollarv2_QueryRetryAmount_written [OF assms(1,2)] assms(3)],
    unfold v2_QueryRetryAmount_Unmarshal_def, erule readsD [rotated],
    (rule reads_varint32 [OF assms(1)] reads_bytes [OF assms(1)], rule wire_tags, simp add: v2_QueryRetryAmount_field_def, simp)+, rule reads_done, simp)

subsection \<open>QueryRetryAmountResponse (v2)\<close>

text \<open>\<open>QueryRetryAmountResponse\<close> of \<open>types/v2/query.pb.go\<close>.\<close>

record v2_QueryRetryAmountResponse =
  v2_QueryRetryAmountResponse_RetryAmount :: "int option"

definition v2_QueryRetryAmountResponse_Size :: "custom \<Rightarrow> v2_QueryRetryAmountResponse \<Rightarrow> nat" where
  "v2_QueryRetryAmountResponse_Size ic x =
     size_custom (Custom_Marshal ic (v2_QueryRetryAmountResponse_RetryAmount x))"

definition v2_QueryRetryAmountResponse_Marshal :: "custom \<Rightarrow> v2_QueryRetryAmountResponse \<Rightarrow> bytes result" where
  "v2_QueryRetryAmountResponse_Marshal ic x =
     obind (put_custom 0xA (Custom_Marshal ic (v2_QueryRetryAmountResponse_RetryAmount x)) (v2_QueryRetryAmountResponse_Size ic x, [])) (\<lambda>b.
     Ok (sized_bytes b))"

definition v2_QueryRetryAmountResponse_field ::
    "custom \<Rightarrow> int \<Rightarrow> int \<Rightarrow> v2_QueryRetryAmountResponse \<Rightarrow> nat \<Rightarrow> bytes \<Rightarrow> (v2_QueryRetryAmountResponse \<times> nat) result option" where
  "v2_QueryRetryAmountResponse_field ic fieldNum wireType x i bs =
     (if fieldNum = 1 then Some (custom_field wireType i (Custom_Unmarshal ic (v2_QueryRetryAmountResponse_RetryAmount x)) (\<lambda>v. x\<lparr>v2_QueryRetryAmountResponse_RetryAmount := v\<rparr>) bs)
      else None)"

definition v2_QueryRetryAmountResponse_Unmarshal :: "custom \<Rightarrow> bytes \<Rightarrow> v2_QueryRetryAmountResponse result option" where
  "v2_QueryRetryAmountResponse_Unmarshal ic bs =
     read_fields (Skip gogo_runtime) (v2_QueryRetryAmountResponse_field ic) (\<lambda>u x. x)
       \<lparr>v2_QueryRetryAmountResponse_RetryAmount = None\<rparr> 0 bs"

lemma v2_QueryRetryAmountResponse_written:
  assumes "custom_codec ic ok" "given ok (v2_QueryRetryAmountResponse_RetryAmount x)"
  shows "writes (v2_QueryRetryAmountResponse_Marshal ic x)
    (delimited_bytes gogo_runtime 0xA (Custom_Marshal ic (v2_QueryRetryAmountResponse_RetryAmount x)) @
      [])
    (v2_QueryRetryAmountResponse_Size ic x)"
  using assms(2) by (simp add: writes_def v2_QueryRetryAmountResponse_Marshal_def v2_QueryRetryAmountResponse_Size_def wire_puts gogo_varint
    custom_delimited givenD [OF assms(1)])

lemma v2_QueryRetryAmountResponse_exact:
  assumes "custom_codec ic ok"
  shows "exact_codec (v2_QueryRetryAmountResponse_Size ic) (v2_QueryRetryAmountResponse_Marshal ic) (v2_QueryRetryAmountResponse_Unmarshal ic)
    (\<lambda>x. given ok (v2_QueryRetryAmountResponse_RetryAmount x))"
  by (rule exact_codecI, rule v2_QueryRetryAmountResponse_written [OF assms], assumption,
    unfold v2_QueryRetryAmountResponse_Unmarshal_def, erule readsD [rotated],
    (rule reads_delimited [OF gogo_varint], rule wire_tags, simp add: v2_QueryRetryAmountResponse_field_def, simp add: givenD [OF assms], simp add: givenD [OF assms])+, rule reads_done, simp)

lemma v2_QueryRetryAmountResponse_returns: "\<exists>r. v2_QueryRetryAmountResponse_Unmarshal ic bs = Some r"
  unfolding v2_QueryRetryAmountResponse_Unmarshal_def by (rule read_fields_returns [OF gogo_skip])

lemma v2_QueryRetryAmountResponse_answered:
  assumes "custom_codec ic ok" "given ok (v2_QueryRetryAmountResponse_RetryAmount x)" "v2_QueryRetryAmountResponse_Size ic x < 2 ^ 63"
  shows "\<exists>bs. v2_QueryRetryAmountResponse_Marshal ic x = Ok bs \<and> dollarv2_QueryRetryAmountResponse_unmarshal rt discardUnknown bs = Some (Ok
     \<lparr>dollarv2_QueryRetryAmountResponse_RetryAmount = Custom_Marshal ic (v2_QueryRetryAmountResponse_RetryAmount x),
      dollarv2_QueryRetryAmountResponse_unknownFields = []\<rparr>)"
  by (rule codec_readsI [OF v2_QueryRetryAmountResponse_written [OF assms(1,2)] assms(3)],
    unfold dollarv2_QueryRetryAmountResponse_unmarshal_def, erule readsD [rotated],
    (rule reads_bytes [OF gogo_varint], rule wire_tags, simp add: dollarv2_QueryRetryAmountResponse_field_def, simp)+, rule reads_done, simp)

subsection \<open>QueryOwner (portal)\<close>

text \<open>\<open>QueryOwner\<close> of \<open>types/portal/query.pb.go\<close>.\<close>

datatype portal_QueryOwner = portal_QueryOwner

definition portal_QueryOwner_Size :: "portal_QueryOwner \<Rightarrow> nat" where
  "portal_QueryOwner_Size x =
     0"

definition portal_QueryOwner_Marshal :: "portal_QueryOwner \<Rightarrow> bytes result" where
  "portal_QueryOwner_Marshal x =
     Ok (sized_bytes (portal_QueryOwner_Size x, []))"

definition portal_QueryOwner_field ::
    "int \<Rightarrow> int \<Rightarrow> portal_QueryOwner \<Rightarrow> nat \<Rightarrow> bytes \<Rightarrow> (portal_QueryOwner \<times> nat) result option" where
  "portal_QueryOwner_field fieldNum wireType x i bs =
     None"

definition portal_QueryOwner_Unmarshal :: "bytes \<Rightarrow> portal_QueryOwner result option" where
  "portal_QueryOwner_Unmarshal bs =
     read_fields (Skip gogo_runtime) portal_QueryOwner_field (\<lambda>u x. x)
       portal_QueryOwner 0 bs"

lemma portal_QueryOwner_written:
  shows "writes (portal_QueryOwner_Marshal x)
    ([] :: bytes)
    (portal_QueryOwner_Size x)"
  by (simp add: writes_def portal_QueryOwner_Marshal_def portal_QueryOwner_Size_def wire_puts gogo_varint)

lemma portal_QueryOwner_exact:
  shows "exact_codec (portal_QueryOwner_Size) (portal_QueryOwner_Marshal) (portal_QueryOwner_Unmarshal)
    (\<lambda>x. True)"
  by (rule exact_codecI, rule portal_QueryOwner_written,
    unfold portal_QueryOwner_Unmarshal_def, erule readsD [rotated],
    rule reads_done, metis portal_QueryOwner.exhaust)

lemma portal_QueryOwner_returns: "\<exists>r. portal_QueryOwner_Unmarshal bs = Some r"
  unfolding portal_QueryOwner_Unmarshal_def by (rule read_fields_returns [OF gogo_skip])

lemma portal_QueryOwner_received:
  assumes "varint_runtime rt" "portalv1_QueryOwner_unknownFields x = []"
  shows "\<exists>bs. portalv1_QueryOwner_marshal rt x = Ok bs \<and> portal_QueryOwner_Unmarshal bs = Some (Ok portal_QueryOwner)"
  by (rule codec_readsI [OF portalv1_QueryOwner_written [OF assms]], simp add: portalv1_QueryOwner_size_def assms,
    unfold portal_QueryOwner_Unmarshal_def, erule readsD [rotated], rule reads_done, simp)

subsection \<open>QueryOwnerResponse (portal)\<close>

text \<open>\<open>QueryOwnerResponse\<close> of \<open>types/portal/query.pb.go\<close>.\<close>

record portal_QueryOwnerResponse =
  portal_QueryOwnerResponse_Owner :: bytes

definition portal_QueryOwnerResponse_Size :: "portal_QueryOwnerResponse \<Rightarrow> nat" where
  "portal_QueryOwnerResponse_Size x =
     size_delimited gogo_runtime (portal_QueryOwnerResponse_Owner x)"

definition portal_QueryOwnerResponse_Marshal :: "portal_QueryOwnerResponse \<Rightarrow> bytes result" where
  "portal_QueryOwnerResponse_Marshal x =
     obind (put_delimited gogo_runtime 0xA (portal_QueryOwnerResponse_Owner x) (portal_QueryOwnerResponse_Size x, [])) (\<lambda>b.
     Ok (sized_bytes b))"

definition portal_QueryOwnerResponse_field ::
    "int \<Rightarrow> int \<Rightarrow> portal_QueryOwnerResponse \<Rightarrow> nat \<Rightarrow> bytes \<Rightarrow> (portal_QueryOwnerResponse \<times> nat) result option" where
  "portal_QueryOwnerResponse_field fieldNum wireType x i bs =
     (if fieldNum = 1 then Some (bytes_field wireType i (\<lambda>v. x\<lparr>portal_QueryOwnerResponse_Owner := v\<rparr>) bs)
      else None)"

definition portal_QueryOwnerResponse_Unmarshal :: "bytes \<Rightarrow> portal_QueryOwnerResponse result option" where
  "portal_QueryOwnerResponse_Unmarshal bs =
     read_fields (Skip gogo_runtime) portal_QueryOwnerResponse_field (\<lambda>u x. x)
       \<lparr>portal_QueryOwnerResponse_Owner = []\<rparr> 0 bs"

lemma portal_QueryOwnerResponse_written:
  shows "writes (portal_QueryOwnerResponse_Marshal x)
    (delimited_bytes gogo_runtime 0xA (portal_QueryOwnerResponse_Owner x) @
      [])
    (portal_QueryOwnerResponse_Size x)"
  by (simp add: writes_def portal_QueryOwnerResponse_Marshal_def portal_QueryOwnerResponse_Size_def wire_puts gogo_varint)

lemma portal_QueryOwnerResponse_exact:
  shows "exact_codec (portal_QueryOwnerResponse_Size) (portal_QueryOwnerResponse_Marshal) (portal_QueryOwnerResponse_Unmarshal)
    (\<lambda>x. True)"
  by (rule exact_codecI, rule portal_QueryOwnerResponse_written,
    unfold portal_QueryOwnerResponse_Unmarshal_def, erule readsD [rotated],
    (rule reads_bytes [OF gogo_varint], rule wire_tags, simp add: portal_QueryOwnerResponse_field_def, simp)+, rule reads_done, simp)

lemma portal_QueryOwnerResponse_returns: "\<exists>r. portal_QueryOwnerResponse_Unmarshal bs = Some r"
  unfolding portal_QueryOwnerResponse_Unmarshal_def by (rule read_fields_returns [OF gogo_skip])

lemma portal_QueryOwnerResponse_answered:
  assumes "portal_QueryOwnerResponse_Size x < 2 ^ 63"
  shows "\<exists>bs. portal_QueryOwnerResponse_Marshal x = Ok bs \<and> portalv1_QueryOwnerResponse_unmarshal rt discardUnknown bs = Some (Ok
     \<lparr>portalv1_QueryOwnerResponse_Owner = portal_QueryOwnerResponse_Owner x,
      portalv1_QueryOwnerResponse_unknownFields = []\<rparr>)"
  by (rule codec_readsI [OF portal_QueryOwnerResponse_written assms(1)],
    unfold portalv1_QueryOwnerResponse_unmarshal_def, erule readsD [rotated],
    (rule reads_bytes [OF gogo_varint], rule wire_tags, simp add: portalv1_QueryOwnerResponse_field_def, simp)+, rule reads_done, simp)

subsection \<open>QueryPaused (portal)\<close>

text \<open>\<open>QueryPaused\<close> of \<open>types/portal/query.pb.go\<close>.\<close>

datatype portal_QueryPaused = portal_QueryPaused

definition portal_QueryPaused_Size :: "portal_QueryPaused \<Rightarrow> nat" where
  "portal_QueryPaused_Size x =
     0"

definition portal_QueryPaused_Marshal :: "portal_QueryPaused \<Rightarrow> bytes result" where
  "portal_QueryPaused_Marshal x =
     Ok (sized_bytes (portal_QueryPaused_Size x, []))"

definition portal_QueryPaused_field ::
    "int \<Rightarrow> int \<Rightarrow> portal_QueryPaused \<Rightarrow> nat \<Rightarrow> bytes \<Rightarrow> (portal_QueryPaused \<times> nat) result option" where
  "portal_QueryPaused_field fieldNum wireType x i bs =
     None"

definition portal_QueryPaused_Unmarshal :: "bytes \<Rightarrow> portal_QueryPaused result option" where
  "portal_QueryPaused_Unmarshal bs =
     read_fields (Skip gogo_runtime) portal_QueryPaused_field (\<lambda>u x. x)
       portal_QueryPaused 0 bs"

lemma portal_QueryPaused_written:
  shows "writes (portal_QueryPaused_Marshal x)
    ([] :: bytes)
    (portal_QueryPaused_Size x)"
  by (simp add: writes_def portal_QueryPaused_Marshal_def portal_QueryPaused_Size_def wire_puts gogo_varint)

lemma portal_QueryPaused_exact:
  shows "exact_codec (portal_QueryPaused_Size) (portal_QueryPaused_Marshal) (portal_QueryPaused_Unmarshal)
    (\<lambda>x. True)"
  by (rule exact_codecI, rule portal_QueryPaused_written,
    unfold portal_QueryPaused_Unmarshal_def, erule readsD [rotated],
    rule reads_done, metis portal_QueryPaused.exhaust)

lemma portal_QueryPaused_returns: "\<exists>r. portal_QueryPaused_Unmarshal bs = Some r"
  unfolding portal_QueryPaused_Unmarshal_def by (rule read_fields_returns [OF gogo_skip])

lemma portal_QueryPaused_received:
  assumes "varint_runtime rt" "portalv1_QueryPaused_unknownFields x = []"
  shows "\<exists>bs. portalv1_QueryPaused_marshal rt x = Ok bs \<and> portal_QueryPaused_Unmarshal bs = Some (Ok portal_QueryPaused)"
  by (rule codec_readsI [OF portalv1_QueryPaused_written [OF assms]], simp add: portalv1_QueryPaused_size_def assms,
    unfold portal_QueryPaused_Unmarshal_def, erule readsD [rotated], rule reads_done, simp)

subsection \<open>QueryPausedResponse (portal)\<close>

text \<open>\<open>QueryPausedResponse\<close> of \<open>types/portal/query.pb.go\<close>.\<close>

record portal_QueryPausedResponse =
  portal_QueryPausedResponse_Paused :: bool

definition portal_QueryPausedResponse_Size :: "portal_QueryPausedResponse \<Rightarrow> nat" where
  "portal_QueryPausedResponse_Size x =
     size_bool (portal_QueryPausedResponse_Paused x)"

definition portal_QueryPausedResponse_Marshal :: "portal_QueryPausedResponse \<Rightarrow> bytes result" where
  "portal_QueryPausedResponse_Marshal x =
     obind (put_bool 0x8 (portal_QueryPausedResponse_Paused x) (portal_QueryPausedResponse_Size x, [])) (\<lambda>b.
     Ok (sized_bytes b))"

definition portal_QueryPausedResponse_field ::
    "int \<Rightarrow> int \<Rightarrow> portal_QueryPausedResponse \<Rightarrow> nat \<Rightarrow> bytes \<Rightarrow> (portal_QueryPausedResponse \<times> nat) result option" where
  "portal_QueryPausedResponse_field fieldNum wireType x i bs =
     (if fieldNum = 1 then Some (bool_field wireType (\<lambda>v. x\<lparr>portal_QueryPausedResponse_Paused := v\<rparr>) bs)
      else None)"

definition portal_QueryPausedResponse_Unmarshal :: "bytes \<Rightarrow> portal_QueryPausedResponse result option" where
  "portal_QueryPausedResponse_Unmarshal bs =
     read_fields (Skip gogo_runtime) portal_QueryPausedResponse_field (\<lambda>u x. x)
       \<lparr>portal_QueryPausedResponse_Paused = False\<rparr> 0 bs"

lemma portal_QueryPausedResponse_written:
  shows "writes (portal_QueryPausedResponse_Marshal x)
    (bool_bytes 0x8 (portal_QueryPausedResponse_Paused x) @
      [])
    (portal_QueryPausedResponse_Size x)"
  by (simp add: writes_def portal_QueryPausedResponse_Marshal_def portal_QueryPausedResponse_Size_def wire_puts gogo_varint)

lemma portal_QueryPausedResponse_exact:
  shows "exact_codec (portal_QueryPausedResponse_Size) (portal_QueryPausedResponse_Marshal) (portal_QueryPausedResponse_Unmarshal)
    (\<lambda>x. True)"
  by (rule exact_codecI, rule portal_QueryPausedResponse_written,
    unfold portal_QueryPausedResponse_Unmarshal_def, erule readsD [rotated],
    (rule reads_bool, rule wire_tags, simp add: portal_QueryPausedResponse_field_def, simp)+, rule reads_done, simp)

lemma portal_QueryPausedResponse_returns: "\<exists>r. portal_QueryPausedResponse_Unmarshal bs = Some r"
  unfolding portal_QueryPausedResponse_Unmarshal_def by (rule read_fields_returns [OF gogo_skip])

lemma portal_QueryPausedResponse_answered:
  assumes "portal_QueryPausedResponse_Size x < 2 ^ 63"
  shows "\<exists>bs. portal_QueryPausedResponse_Marshal x = Ok bs \<and> portalv1_QueryPausedResponse_unmarshal rt discardUnknown bs = Some (Ok
     \<lparr>portalv1_QueryPausedResponse_Paused = portal_QueryPausedResponse_Paused x,
      portalv1_QueryPausedResponse_unknownFields = []\<rparr>)"
  by (rule codec_readsI [OF portal_QueryPausedResponse_written assms(1)],
    unfold portalv1_QueryPausedResponse_unmarshal_def, erule readsD [rotated],
    (rule reads_bool, rule wire_tags, simp add: portalv1_QueryPausedResponse_field_def, simp)+, rule reads_done, simp)

subsection \<open>QueryPeers (portal)\<close>

text \<open>\<open>QueryPeers\<close> of \<open>types/portal/query.pb.go\<close>.\<close>

datatype portal_QueryPeers = portal_QueryPeers

definition portal_QueryPeers_Size :: "portal_QueryPeers \<Rightarrow> nat" where
  "portal_QueryPeers_Size x =
     0"

definition portal_QueryPeers_Marshal :: "portal_QueryPeers \<Rightarrow> bytes result" where
  "portal_QueryPeers_Marshal x =
     Ok (sized_bytes (portal_QueryPeers_Size x, []))"

definition portal_QueryPeers_field ::
    "int \<Rightarrow> int \<Rightarrow> portal_QueryPeers \<Rightarrow> nat \<Rightarrow> bytes \<Rightarrow> (portal_QueryPeers \<times> nat) result option" where
  "portal_QueryPeers_field fieldNum wireType x i bs =
     None"

definition portal_QueryPeers_Unmarshal :: "bytes \<Rightarrow> portal_QueryPeers result option" where
  "portal_QueryPeers_Unmarshal bs =
     read_fields (Skip gogo_runtime) portal_QueryPeers_field (\<lambda>u x. x)
       portal_QueryPeers 0 bs"

lemma portal_QueryPeers_written:
  shows "writes (portal_QueryPeers_Marshal x)
    ([] :: bytes)
    (portal_QueryPeers_Size x)"
  by (simp add: writes_def portal_QueryPeers_Marshal_def portal_QueryPeers_Size_def wire_puts gogo_varint)

lemma portal_QueryPeers_exact:
  shows "exact_codec (portal_QueryPeers_Size) (portal_QueryPeers_Marshal) (portal_QueryPeers_Unmarshal)
    (\<lambda>x. True)"
  by (rule exact_codecI, rule portal_QueryPeers_written,
    unfold portal_QueryPeers_Unmarshal_def, erule readsD [rotated],
    rule reads_done, metis portal_QueryPeers.exhaust)

lemma portal_QueryPeers_returns: "\<exists>r. portal_QueryPeers_Unmarshal bs = Some r"
  unfolding portal_QueryPeers_Unmarshal_def by (rule read_fields_returns [OF gogo_skip])

lemma portal_QueryPeers_received:
  assumes "varint_runtime rt" "portalv1_QueryPeers_unknownFields x = []"
  shows "\<exists>bs. portalv1_QueryPeers_marshal rt x = Ok bs \<and> portal_QueryPeers_Unmarshal bs = Some (Ok portal_QueryPeers)"
  by (rule codec_readsI [OF portalv1_QueryPeers_written [OF assms]], simp add: portalv1_QueryPeers_size_def assms,
    unfold portal_QueryPeers_Unmarshal_def, erule readsD [rotated], rule reads_done, simp)

subsection \<open>QueryDestinationTokens (portal)\<close>

text \<open>\<open>QueryDestinationTokens\<close> of \<open>types/portal/query.pb.go\<close>.\<close>

record portal_QueryDestinationTokens =
  portal_QueryDestinationTokens_ChainId :: "32 word"

definition portal_QueryDestinationTokens_Size :: "portal_QueryDestinationTokens \<Rightarrow> nat" where
  "portal_QueryDestinationTokens_Size x =
     size_varint gogo_runtime (ucast (portal_QueryDestinationTokens_ChainId x))"

definition portal_QueryDestinationTokens_Marshal :: "portal_QueryDestinationTokens \<Rightarrow> bytes result" where
  "portal_QueryDestinationTokens_Marshal x =
     obind (put_varint gogo_runtime 0x8 (ucast (portal_QueryDestinationTokens_ChainId x)) (portal_QueryDestinationTokens_Size x, [])) (\<lambda>b.
     Ok (sized_bytes b))"

definition portal_QueryDestinationTokens_field ::
    "int \<Rightarrow> int \<Rightarrow> portal_QueryDestinationTokens \<Rightarrow> nat \<Rightarrow> bytes \<Rightarrow> (portal_QueryDestinationTokens \<times> nat) result option" where
  "portal_QueryDestinationTokens_field fieldNum wireType x i bs =
     (if fieldNum = 1 then Some (varint_field wireType (\<lambda>v. x\<lparr>portal_QueryDestinationTokens_ChainId := v\<rparr>) bs)
      else None)"

definition portal_QueryDestinationTokens_Unmarshal :: "bytes \<Rightarrow> portal_QueryDestinationTokens result option" where
  "portal_QueryDestinationTokens_Unmarshal bs =
     read_fields (Skip gogo_runtime) portal_QueryDestinationTokens_field (\<lambda>u x. x)
       \<lparr>portal_QueryDestinationTokens_ChainId = 0\<rparr> 0 bs"

lemma portal_QueryDestinationTokens_written:
  shows "writes (portal_QueryDestinationTokens_Marshal x)
    (varint_bytes gogo_runtime 0x8 (ucast (portal_QueryDestinationTokens_ChainId x)) @
      [])
    (portal_QueryDestinationTokens_Size x)"
  by (simp add: writes_def portal_QueryDestinationTokens_Marshal_def portal_QueryDestinationTokens_Size_def wire_puts gogo_varint)

lemma portal_QueryDestinationTokens_exact:
  shows "exact_codec (portal_QueryDestinationTokens_Size) (portal_QueryDestinationTokens_Marshal) (portal_QueryDestinationTokens_Unmarshal)
    (\<lambda>x. True)"
  by (rule exact_codecI, rule portal_QueryDestinationTokens_written,
    unfold portal_QueryDestinationTokens_Unmarshal_def, erule readsD [rotated],
    (rule reads_varint32 [OF gogo_varint], rule wire_tags, simp add: portal_QueryDestinationTokens_field_def, simp)+, rule reads_done, simp)

lemma portal_QueryDestinationTokens_returns: "\<exists>r. portal_QueryDestinationTokens_Unmarshal bs = Some r"
  unfolding portal_QueryDestinationTokens_Unmarshal_def by (rule read_fields_returns [OF gogo_skip])

lemma portal_QueryDestinationTokens_received:
  assumes "varint_runtime rt" "portalv1_QueryDestinationTokens_unknownFields x = []"
    and "portalv1_QueryDestinationTokens_size rt x < 2 ^ 63"
  shows "\<exists>bs. portalv1_QueryDestinationTokens_marshal rt x = Ok bs \<and> portal_QueryDestinationTokens_Unmarshal bs = Some (Ok
     \<lparr>portal_QueryDestinationTokens_ChainId = portalv1_QueryDestinationTokens_ChainId x\<rparr>)"
  by (rule codec_readsI [OF portalv1_QueryDestinationTokens_written [OF assms(1,2)] assms(3)],
    unfold portal_QueryDestinationTokens_Unmarshal_def, erule readsD [rotated],
    (rule reads_varint32 [OF assms(1)], rule wire_tags, simp add: portal_QueryDestinationTokens_field_def, simp)+, rule reads_done, simp)

subsection \<open>QueryNonce (portal)\<close>

text \<open>\<open>QueryNonce\<close> of \<open>types/portal/query.pb.go\<close>.\<close>

datatype portal_QueryNonce = portal_QueryNonce

definition portal_QueryNonce_Size :: "portal_QueryNonce \<Rightarrow> nat" where
  "portal_QueryNonce_Size x =
     0"

definition portal_QueryNonce_Marshal :: "portal_QueryNonce \<Rightarrow> bytes result" where
  "portal_QueryNonce_Marshal x =
     Ok (sized_bytes (portal_QueryNonce_Size x, []))"

definition portal_QueryNonce_field ::
    "int \<Rightarrow> int \<Rightarrow> portal_QueryNonce \<Rightarrow> nat \<Rightarrow> bytes \<Rightarrow> (portal_QueryNonce \<times> nat) result option" where
  "portal_QueryNonce_field fieldNum wireType x i bs =
     None"

definition portal_QueryNonce_Unmarshal :: "bytes \<Rightarrow> portal_QueryNonce result option" where
  "portal_QueryNonce_Unmarshal bs =
     read_fields (Skip gogo_runtime) portal_QueryNonce_field (\<lambda>u x. x)
       portal_QueryNonce 0 bs"

lemma portal_QueryNonce_written:
  shows "writes (portal_QueryNonce_Marshal x)
    ([] :: bytes)
    (portal_QueryNonce_Size x)"
  by (simp add: writes_def portal_QueryNonce_Marshal_def portal_QueryNonce_Size_def wire_puts gogo_varint)

lemma portal_QueryNonce_exact:
  shows "exact_codec (portal_QueryNonce_Size) (portal_QueryNonce_Marshal) (portal_QueryNonce_Unmarshal)
    (\<lambda>x. True)"
  by (rule exact_codecI, rule portal_QueryNonce_written,
    unfold portal_QueryNonce_Unmarshal_def, erule readsD [rotated],
    rule reads_done, metis portal_QueryNonce.exhaust)

lemma portal_QueryNonce_returns: "\<exists>r. portal_QueryNonce_Unmarshal bs = Some r"
  unfolding portal_QueryNonce_Unmarshal_def by (rule read_fields_returns [OF gogo_skip])

lemma portal_QueryNonce_received:
  assumes "varint_runtime rt" "portalv1_QueryNonce_unknownFields x = []"
  shows "\<exists>bs. portalv1_QueryNonce_marshal rt x = Ok bs \<and> portal_QueryNonce_Unmarshal bs = Some (Ok portal_QueryNonce)"
  by (rule codec_readsI [OF portalv1_QueryNonce_written [OF assms]], simp add: portalv1_QueryNonce_size_def assms,
    unfold portal_QueryNonce_Unmarshal_def, erule readsD [rotated], rule reads_done, simp)

subsection \<open>QueryNonceResponse (portal)\<close>

text \<open>\<open>QueryNonceResponse\<close> of \<open>types/portal/query.pb.go\<close>.\<close>

record portal_QueryNonceResponse =
  portal_QueryNonceResponse_Nonce :: "32 word"

definition portal_QueryNonceResponse_Size :: "portal_QueryNonceResponse \<Rightarrow> nat" where
  "portal_QueryNonceResponse_Size x =
     size_varint gogo_runtime (ucast (portal_QueryNonceResponse_Nonce x))"

definition portal_QueryNonceResponse_Marshal :: "portal_QueryNonceResponse \<Rightarrow> bytes result" where
  "portal_QueryNonceResponse_Marshal x =
     obind (put_varint gogo_runtime 0x8 (ucast (portal_QueryNonceResponse_Nonce x)) (portal_QueryNonceResponse_Size x, [])) (\<lambda>b.
     Ok (sized_bytes b))"

definition portal_QueryNonceResponse_field ::
    "int \<Rightarrow> int \<Rightarrow> portal_QueryNonceResponse \<Rightarrow> nat \<Rightarrow> bytes \<Rightarrow> (portal_QueryNonceResponse \<times> nat) result option" where
  "portal_QueryNonceResponse_field fieldNum wireType x i bs =
     (if fieldNum = 1 then Some (varint_field wireType (\<lambda>v. x\<lparr>portal_QueryNonceResponse_Nonce := v\<rparr>) bs)
      else None)"

definition portal_QueryNonceResponse_Unmarshal :: "bytes \<Rightarrow> portal_QueryNonceResponse result option" where
  "portal_QueryNonceResponse_Unmarshal bs =
     read_fields (Skip gogo_runtime) portal_QueryNonceResponse_field (\<lambda>u x. x)
       \<lparr>portal_QueryNonceResponse_Nonce = 0\<rparr> 0 bs"

lemma portal_QueryNonceResponse_written:
  shows "writes (portal_QueryNonceResponse_Marshal x)
    (varint_bytes gogo_runtime 0x8 (ucast (portal_QueryNonceResponse_Nonce x)) @
      [])
    (portal_QueryNonceResponse_Size x)"
  by (simp add: writes_def portal_QueryNonceResponse_Marshal_def portal_QueryNonceResponse_Size_def wire_puts gogo_varint)

lemma portal_QueryNonceResponse_exact:
  shows "exact_codec (portal_QueryNonceResponse_Size) (portal_QueryNonceResponse_Marshal) (portal_QueryNonceResponse_Unmarshal)
    (\<lambda>x. True)"
  by (rule exact_codecI, rule portal_QueryNonceResponse_written,
    unfold portal_QueryNonceResponse_Unmarshal_def, erule readsD [rotated],
    (rule reads_varint32 [OF gogo_varint], rule wire_tags, simp add: portal_QueryNonceResponse_field_def, simp)+, rule reads_done, simp)

lemma portal_QueryNonceResponse_returns: "\<exists>r. portal_QueryNonceResponse_Unmarshal bs = Some r"
  unfolding portal_QueryNonceResponse_Unmarshal_def by (rule read_fields_returns [OF gogo_skip])

lemma portal_QueryNonceResponse_answered:
  assumes "portal_QueryNonceResponse_Size x < 2 ^ 63"
  shows "\<exists>bs. portal_QueryNonceResponse_Marshal x = Ok bs \<and> portalv1_QueryNonceResponse_unmarshal rt discardUnknown bs = Some (Ok
     \<lparr>portalv1_QueryNonceResponse_Nonce = portal_QueryNonceResponse_Nonce x,
      portalv1_QueryNonceResponse_unknownFields = []\<rparr>)"
  by (rule codec_readsI [OF portal_QueryNonceResponse_written assms(1)],
    unfold portalv1_QueryNonceResponse_unmarshal_def, erule readsD [rotated],
    (rule reads_varint32 [OF gogo_varint], rule wire_tags, simp add: portalv1_QueryNonceResponse_field_def, simp)+, rule reads_done, simp)

subsection \<open>QueryPositionsByProvider (vaults)\<close>

text \<open>\<open>QueryPositionsByProvider\<close> of \<open>types/vaults/query.pb.go\<close>.\<close>

record vaults_QueryPositionsByProvider =
  vaults_QueryPositionsByProvider_Provider :: bytes

definition vaults_QueryPositionsByProvider_Size :: "vaults_QueryPositionsByProvider \<Rightarrow> nat" where
  "vaults_QueryPositionsByProvider_Size x =
     size_delimited gogo_runtime (vaults_QueryPositionsByProvider_Provider x)"

definition vaults_QueryPositionsByProvider_Marshal :: "vaults_QueryPositionsByProvider \<Rightarrow> bytes result" where
  "vaults_QueryPositionsByProvider_Marshal x =
     obind (put_delimited gogo_runtime 0xA (vaults_QueryPositionsByProvider_Provider x) (vaults_QueryPositionsByProvider_Size x, [])) (\<lambda>b.
     Ok (sized_bytes b))"

definition vaults_QueryPositionsByProvider_field ::
    "int \<Rightarrow> int \<Rightarrow> vaults_QueryPositionsByProvider \<Rightarrow> nat \<Rightarrow> bytes \<Rightarrow> (vaults_QueryPositionsByProvider \<times> nat) result option" where
  "vaults_QueryPositionsByProvider_field fieldNum wireType x i bs =
     (if fieldNum = 1 then Some (bytes_field wireType i (\<lambda>v. x\<lparr>vaults_QueryPositionsByProvider_Provider := v\<rparr>) bs)
      else None)"

definition vaults_QueryPositionsByProvider_Unmarshal :: "bytes \<Rightarrow> vaults_QueryPositionsByProvider result option" where
  "vaults_QueryPositionsByProvider_Unmarshal bs =
     read_fields (Skip gogo_runtime) vaults_QueryPositionsByProvider_field (\<lambda>u x. x)
       \<lparr>vaults_QueryPositionsByProvider_Provider = []\<rparr> 0 bs"

lemma vaults_QueryPositionsByProvider_written:
  shows "writes (vaults_QueryPositionsByProvider_Marshal x)
    (delimited_bytes gogo_runtime 0xA (vaults_QueryPositionsByProvider_Provider x) @
      [])
    (vaults_QueryPositionsByProvider_Size x)"
  by (simp add: writes_def vaults_QueryPositionsByProvider_Marshal_def vaults_QueryPositionsByProvider_Size_def wire_puts gogo_varint)

lemma vaults_QueryPositionsByProvider_exact:
  shows "exact_codec (vaults_QueryPositionsByProvider_Size) (vaults_QueryPositionsByProvider_Marshal) (vaults_QueryPositionsByProvider_Unmarshal)
    (\<lambda>x. True)"
  by (rule exact_codecI, rule vaults_QueryPositionsByProvider_written,
    unfold vaults_QueryPositionsByProvider_Unmarshal_def, erule readsD [rotated],
    (rule reads_bytes [OF gogo_varint], rule wire_tags, simp add: vaults_QueryPositionsByProvider_field_def, simp)+, rule reads_done, simp)

lemma vaults_QueryPositionsByProvider_returns: "\<exists>r. vaults_QueryPositionsByProvider_Unmarshal bs = Some r"
  unfolding vaults_QueryPositionsByProvider_Unmarshal_def by (rule read_fields_returns [OF gogo_skip])

lemma vaults_QueryPositionsByProvider_received:
  assumes "varint_runtime rt" "vaultsv1_QueryPositionsByProvider_unknownFields x = []"
    and "vaultsv1_QueryPositionsByProvider_size rt x < 2 ^ 63"
  shows "\<exists>bs. vaultsv1_QueryPositionsByProvider_marshal rt x = Ok bs \<and> vaults_QueryPositionsByProvider_Unmarshal bs = Some (Ok
     \<lparr>vaults_QueryPositionsByProvider_Provider = vaultsv1_QueryPositionsByProvider_Provider x\<rparr>)"
  by (rule codec_readsI [OF vaultsv1_QueryPositionsByProvider_written [OF assms(1,2)] assms(3)],
    unfold vaults_QueryPositionsByProvider_Unmarshal_def, erule readsD [rotated],
    (rule reads_bytes [OF assms(1)], rule wire_tags, simp add: vaults_QueryPositionsByProvider_field_def, simp)+, rule reads_done, simp)

subsection \<open>QueryPaused (vaults)\<close>

text \<open>\<open>QueryPaused\<close> of \<open>types/vaults/query.pb.go\<close>.\<close>

datatype vaults_QueryPaused = vaults_QueryPaused

definition vaults_QueryPaused_Size :: "vaults_QueryPaused \<Rightarrow> nat" where
  "vaults_QueryPaused_Size x =
     0"

definition vaults_QueryPaused_Marshal :: "vaults_QueryPaused \<Rightarrow> bytes result" where
  "vaults_QueryPaused_Marshal x =
     Ok (sized_bytes (vaults_QueryPaused_Size x, []))"

definition vaults_QueryPaused_field ::
    "int \<Rightarrow> int \<Rightarrow> vaults_QueryPaused \<Rightarrow> nat \<Rightarrow> bytes \<Rightarrow> (vaults_QueryPaused \<times> nat) result option" where
  "vaults_QueryPaused_field fieldNum wireType x i bs =
     None"

definition vaults_QueryPaused_Unmarshal :: "bytes \<Rightarrow> vaults_QueryPaused result option" where
  "vaults_QueryPaused_Unmarshal bs =
     read_fields (Skip gogo_runtime) vaults_QueryPaused_field (\<lambda>u x. x)
       vaults_QueryPaused 0 bs"

lemma vaults_QueryPaused_written:
  shows "writes (vaults_QueryPaused_Marshal x)
    ([] :: bytes)
    (vaults_QueryPaused_Size x)"
  by (simp add: writes_def vaults_QueryPaused_Marshal_def vaults_QueryPaused_Size_def wire_puts gogo_varint)

lemma vaults_QueryPaused_exact:
  shows "exact_codec (vaults_QueryPaused_Size) (vaults_QueryPaused_Marshal) (vaults_QueryPaused_Unmarshal)
    (\<lambda>x. True)"
  by (rule exact_codecI, rule vaults_QueryPaused_written,
    unfold vaults_QueryPaused_Unmarshal_def, erule readsD [rotated],
    rule reads_done, metis vaults_QueryPaused.exhaust)

lemma vaults_QueryPaused_returns: "\<exists>r. vaults_QueryPaused_Unmarshal bs = Some r"
  unfolding vaults_QueryPaused_Unmarshal_def by (rule read_fields_returns [OF gogo_skip])

lemma vaults_QueryPaused_received:
  assumes "varint_runtime rt" "vaultsv1_QueryPaused_unknownFields x = []"
  shows "\<exists>bs. vaultsv1_QueryPaused_marshal rt x = Ok bs \<and> vaults_QueryPaused_Unmarshal bs = Some (Ok vaults_QueryPaused)"
  by (rule codec_readsI [OF vaultsv1_QueryPaused_written [OF assms]], simp add: vaultsv1_QueryPaused_size_def assms,
    unfold vaults_QueryPaused_Unmarshal_def, erule readsD [rotated], rule reads_done, simp)

subsection \<open>QueryPausedResponse (vaults)\<close>

text \<open>\<open>QueryPausedResponse\<close> of \<open>types/vaults/query.pb.go\<close>.\<close>

record vaults_QueryPausedResponse =
  vaults_QueryPausedResponse_Paused :: "32 word"

definition vaults_QueryPausedResponse_Size :: "vaults_QueryPausedResponse \<Rightarrow> nat" where
  "vaults_QueryPausedResponse_Size x =
     size_varint gogo_runtime (scast (vaults_QueryPausedResponse_Paused x))"

definition vaults_QueryPausedResponse_Marshal :: "vaults_QueryPausedResponse \<Rightarrow> bytes result" where
  "vaults_QueryPausedResponse_Marshal x =
     obind (put_varint gogo_runtime 0x8 (scast (vaults_QueryPausedResponse_Paused x)) (vaults_QueryPausedResponse_Size x, [])) (\<lambda>b.
     Ok (sized_bytes b))"

definition vaults_QueryPausedResponse_field ::
    "int \<Rightarrow> int \<Rightarrow> vaults_QueryPausedResponse \<Rightarrow> nat \<Rightarrow> bytes \<Rightarrow> (vaults_QueryPausedResponse \<times> nat) result option" where
  "vaults_QueryPausedResponse_field fieldNum wireType x i bs =
     (if fieldNum = 1 then Some (varint_field wireType (\<lambda>v. x\<lparr>vaults_QueryPausedResponse_Paused := v\<rparr>) bs)
      else None)"

definition vaults_QueryPausedResponse_Unmarshal :: "bytes \<Rightarrow> vaults_QueryPausedResponse result option" where
  "vaults_QueryPausedResponse_Unmarshal bs =
     read_fields (Skip gogo_runtime) vaults_QueryPausedResponse_field (\<lambda>u x. x)
       \<lparr>vaults_QueryPausedResponse_Paused = 0\<rparr> 0 bs"

lemma vaults_QueryPausedResponse_written:
  shows "writes (vaults_QueryPausedResponse_Marshal x)
    (varint_bytes gogo_runtime 0x8 (scast (vaults_QueryPausedResponse_Paused x)) @
      [])
    (vaults_QueryPausedResponse_Size x)"
  by (simp add: writes_def vaults_QueryPausedResponse_Marshal_def vaults_QueryPausedResponse_Size_def wire_puts gogo_varint)

lemma vaults_QueryPausedResponse_exact:
  shows "exact_codec (vaults_QueryPausedResponse_Size) (vaults_QueryPausedResponse_Marshal) (vaults_QueryPausedResponse_Unmarshal)
    (\<lambda>x. True)"
  by (rule exact_codecI, rule vaults_QueryPausedResponse_written,
    unfold vaults_QueryPausedResponse_Unmarshal_def, erule readsD [rotated],
    (rule reads_varint32 [OF gogo_varint], rule wire_tags, simp add: vaults_QueryPausedResponse_field_def, simp)+, rule reads_done, simp)

lemma vaults_QueryPausedResponse_returns: "\<exists>r. vaults_QueryPausedResponse_Unmarshal bs = Some r"
  unfolding vaults_QueryPausedResponse_Unmarshal_def by (rule read_fields_returns [OF gogo_skip])

lemma vaults_QueryPausedResponse_answered:
  assumes "vaults_QueryPausedResponse_Size x < 2 ^ 63"
  shows "\<exists>bs. vaults_QueryPausedResponse_Marshal x = Ok bs \<and> vaultsv1_QueryPausedResponse_unmarshal rt discardUnknown bs = Some (Ok
     \<lparr>vaultsv1_QueryPausedResponse_Paused = vaults_QueryPausedResponse_Paused x,
      vaultsv1_QueryPausedResponse_unknownFields = []\<rparr>)"
  by (rule codec_readsI [OF vaults_QueryPausedResponse_written assms(1)],
    unfold vaultsv1_QueryPausedResponse_unmarshal_def, erule readsD [rotated],
    (rule reads_varint32 [OF gogo_varint], rule wire_tags, simp add: vaultsv1_QueryPausedResponse_field_def, simp)+, rule reads_done, simp)

subsection \<open>QueryPendingRewards (vaults)\<close>

text \<open>\<open>QueryPendingRewards\<close> of \<open>types/vaults/query.pb.go\<close>.\<close>

datatype vaults_QueryPendingRewards = vaults_QueryPendingRewards

definition vaults_QueryPendingRewards_Size :: "vaults_QueryPendingRewards \<Rightarrow> nat" where
  "vaults_QueryPendingRewards_Size x =
     0"

definition vaults_QueryPendingRewards_Marshal :: "vaults_QueryPendingRewards \<Rightarrow> bytes result" where
  "vaults_QueryPendingRewards_Marshal x =
     Ok (sized_bytes (vaults_QueryPendingRewards_Size x, []))"

definition vaults_QueryPendingRewards_field ::
    "int \<Rightarrow> int \<Rightarrow> vaults_QueryPendingRewards \<Rightarrow> nat \<Rightarrow> bytes \<Rightarrow> (vaults_QueryPendingRewards \<times> nat) result option" where
  "vaults_QueryPendingRewards_field fieldNum wireType x i bs =
     None"

definition vaults_QueryPendingRewards_Unmarshal :: "bytes \<Rightarrow> vaults_QueryPendingRewards result option" where
  "vaults_QueryPendingRewards_Unmarshal bs =
     read_fields (Skip gogo_runtime) vaults_QueryPendingRewards_field (\<lambda>u x. x)
       vaults_QueryPendingRewards 0 bs"

lemma vaults_QueryPendingRewards_written:
  shows "writes (vaults_QueryPendingRewards_Marshal x)
    ([] :: bytes)
    (vaults_QueryPendingRewards_Size x)"
  by (simp add: writes_def vaults_QueryPendingRewards_Marshal_def vaults_QueryPendingRewards_Size_def wire_puts gogo_varint)

lemma vaults_QueryPendingRewards_exact:
  shows "exact_codec (vaults_QueryPendingRewards_Size) (vaults_QueryPendingRewards_Marshal) (vaults_QueryPendingRewards_Unmarshal)
    (\<lambda>x. True)"
  by (rule exact_codecI, rule vaults_QueryPendingRewards_written,
    unfold vaults_QueryPendingRewards_Unmarshal_def, erule readsD [rotated],
    rule reads_done, metis vaults_QueryPendingRewards.exhaust)

lemma vaults_QueryPendingRewards_returns: "\<exists>r. vaults_QueryPendingRewards_Unmarshal bs = Some r"
  unfolding vaults_QueryPendingRewards_Unmarshal_def by (rule read_fields_returns [OF gogo_skip])

lemma vaults_QueryPendingRewards_received:
  assumes "varint_runtime rt" "vaultsv1_QueryPendingRewards_unknownFields x = []"
  shows "\<exists>bs. vaultsv1_QueryPendingRewards_marshal rt x = Ok bs \<and> vaults_QueryPendingRewards_Unmarshal bs = Some (Ok vaults_QueryPendingRewards)"
  by (rule codec_readsI [OF vaultsv1_QueryPendingRewards_written [OF assms]], simp add: vaultsv1_QueryPendingRewards_size_def assms,
    unfold vaults_QueryPendingRewards_Unmarshal_def, erule readsD [rotated], rule reads_done, simp)

subsection \<open>QueryPendingRewardsResponse (vaults)\<close>

text \<open>\<open>QueryPendingRewardsResponse\<close> of \<open>types/vaults/query.pb.go\<close>.\<close>

record vaults_QueryPendingRewardsResponse =
  vaults_QueryPendingRewardsResponse_PendingRewards :: "int option"

definition vaults_QueryPendingRewardsResponse_Size :: "custom \<Rightarrow> vaults_QueryPendingRewardsResponse \<Rightarrow> nat" where
  "vaults_QueryPendingRewardsResponse_Size ic x =
     size_custom (Custom_Marshal ic (vaults_QueryPendingRewardsResponse_PendingRewards x))"

definition vaults_QueryPendingRewardsResponse_Marshal :: "custom \<Rightarrow> vaults_QueryPendingRewardsResponse \<Rightarrow> bytes result" where
  "vaults_QueryPendingRewardsResponse_Marshal ic x =
     obind (put_custom 0xA (Custom_Marshal ic (vaults_QueryPendingRewardsResponse_PendingRewards x)) (vaults_QueryPendingRewardsResponse_Size ic x, [])) (\<lambda>b.
     Ok (sized_bytes b))"

definition vaults_QueryPendingRewardsResponse_field ::
    "custom \<Rightarrow> int \<Rightarrow> int \<Rightarrow> vaults_QueryPendingRewardsResponse \<Rightarrow> nat \<Rightarrow> bytes \<Rightarrow> (vaults_QueryPendingRewardsResponse \<times> nat) result option" where
  "vaults_QueryPendingRewardsResponse_field ic fieldNum wireType x i bs =
     (if fieldNum = 1 then Some (custom_field wireType i (Custom_Unmarshal ic (vaults_QueryPendingRewardsResponse_PendingRewards x)) (\<lambda>v. x\<lparr>vaults_QueryPendingRewardsResponse_PendingRewards := v\<rparr>) bs)
      else None)"

definition vaults_QueryPendingRewardsResponse_Unmarshal :: "custom \<Rightarrow> bytes \<Rightarrow> vaults_QueryPendingRewardsResponse result option" where
  "vaults_QueryPendingRewardsResponse_Unmarshal ic bs =
     read_fields (Skip gogo_runtime) (vaults_QueryPendingRewardsResponse_field ic) (\<lambda>u x. x)
       \<lparr>vaults_QueryPendingRewardsResponse_PendingRewards = None\<rparr> 0 bs"

lemma vaults_QueryPendingRewardsResponse_written:
  assumes "custom_codec ic ok" "given ok (vaults_QueryPendingRewardsResponse_PendingRewards x)"
  shows "writes (vaults_QueryPendingRewardsResponse_Marshal ic x)
    (delimited_bytes gogo_runtime 0xA (Custom_Marshal ic (vaults_QueryPendingRewardsResponse_PendingRewards x)) @
      [])
    (vaults_QueryPendingRewardsResponse_Size ic x)"
  using assms(2) by (simp add: writes_def vaults_QueryPendingRewardsResponse_Marshal_def vaults_QueryPendingRewardsResponse_Size_def wire_puts gogo_varint
    custom_delimited givenD [OF assms(1)])

lemma vaults_QueryPendingRewardsResponse_exact:
  assumes "custom_codec ic ok"
  shows "exact_codec (vaults_QueryPendingRewardsResponse_Size ic) (vaults_QueryPendingRewardsResponse_Marshal ic) (vaults_QueryPendingRewardsResponse_Unmarshal ic)
    (\<lambda>x. given ok (vaults_QueryPendingRewardsResponse_PendingRewards x))"
  by (rule exact_codecI, rule vaults_QueryPendingRewardsResponse_written [OF assms], assumption,
    unfold vaults_QueryPendingRewardsResponse_Unmarshal_def, erule readsD [rotated],
    (rule reads_delimited [OF gogo_varint], rule wire_tags, simp add: vaults_QueryPendingRewardsResponse_field_def, simp add: givenD [OF assms], simp add: givenD [OF assms])+, rule reads_done, simp)

lemma vaults_QueryPendingRewardsResponse_returns: "\<exists>r. vaults_QueryPendingRewardsResponse_Unmarshal ic bs = Some r"
  unfolding vaults_QueryPendingRewardsResponse_Unmarshal_def by (rule read_fields_returns [OF gogo_skip])

lemma vaults_QueryPendingRewardsResponse_answered:
  assumes "custom_codec ic ok" "given ok (vaults_QueryPendingRewardsResponse_PendingRewards x)" "vaults_QueryPendingRewardsResponse_Size ic x < 2 ^ 63"
  shows "\<exists>bs. vaults_QueryPendingRewardsResponse_Marshal ic x = Ok bs \<and> vaultsv1_QueryPendingRewardsResponse_unmarshal rt discardUnknown bs = Some (Ok
     \<lparr>vaultsv1_QueryPendingRewardsResponse_PendingRewards = Custom_Marshal ic (vaults_QueryPendingRewardsResponse_PendingRewards x),
      vaultsv1_QueryPendingRewardsResponse_unknownFields = []\<rparr>)"
  by (rule codec_readsI [OF vaults_QueryPendingRewardsResponse_written [OF assms(1,2)] assms(3)],
    unfold vaultsv1_QueryPendingRewardsResponse_unmarshal_def, erule readsD [rotated],
    (rule reads_bytes [OF gogo_varint], rule wire_tags, simp add: vaultsv1_QueryPendingRewardsResponse_field_def, simp)+, rule reads_done, simp)

subsection \<open>QueryPendingRewardsByProvider (vaults)\<close>

text \<open>\<open>QueryPendingRewardsByProvider\<close> of \<open>types/vaults/query.pb.go\<close>.\<close>

record vaults_QueryPendingRewardsByProvider =
  vaults_QueryPendingRewardsByProvider_Provider :: bytes

definition vaults_QueryPendingRewardsByProvider_Size :: "vaults_QueryPendingRewardsByProvider \<Rightarrow> nat" where
  "vaults_QueryPendingRewardsByProvider_Size x =
     size_delimited gogo_runtime (vaults_QueryPendingRewardsByProvider_Provider x)"

definition vaults_QueryPendingRewardsByProvider_Marshal :: "vaults_QueryPendingRewardsByProvider \<Rightarrow> bytes result" where
  "vaults_QueryPendingRewardsByProvider_Marshal x =
     obind (put_delimited gogo_runtime 0xA (vaults_QueryPendingRewardsByProvider_Provider x) (vaults_QueryPendingRewardsByProvider_Size x, [])) (\<lambda>b.
     Ok (sized_bytes b))"

definition vaults_QueryPendingRewardsByProvider_field ::
    "int \<Rightarrow> int \<Rightarrow> vaults_QueryPendingRewardsByProvider \<Rightarrow> nat \<Rightarrow> bytes \<Rightarrow> (vaults_QueryPendingRewardsByProvider \<times> nat) result option" where
  "vaults_QueryPendingRewardsByProvider_field fieldNum wireType x i bs =
     (if fieldNum = 1 then Some (bytes_field wireType i (\<lambda>v. x\<lparr>vaults_QueryPendingRewardsByProvider_Provider := v\<rparr>) bs)
      else None)"

definition vaults_QueryPendingRewardsByProvider_Unmarshal :: "bytes \<Rightarrow> vaults_QueryPendingRewardsByProvider result option" where
  "vaults_QueryPendingRewardsByProvider_Unmarshal bs =
     read_fields (Skip gogo_runtime) vaults_QueryPendingRewardsByProvider_field (\<lambda>u x. x)
       \<lparr>vaults_QueryPendingRewardsByProvider_Provider = []\<rparr> 0 bs"

lemma vaults_QueryPendingRewardsByProvider_written:
  shows "writes (vaults_QueryPendingRewardsByProvider_Marshal x)
    (delimited_bytes gogo_runtime 0xA (vaults_QueryPendingRewardsByProvider_Provider x) @
      [])
    (vaults_QueryPendingRewardsByProvider_Size x)"
  by (simp add: writes_def vaults_QueryPendingRewardsByProvider_Marshal_def vaults_QueryPendingRewardsByProvider_Size_def wire_puts gogo_varint)

lemma vaults_QueryPendingRewardsByProvider_exact:
  shows "exact_codec (vaults_QueryPendingRewardsByProvider_Size) (vaults_QueryPendingRewardsByProvider_Marshal) (vaults_QueryPendingRewardsByProvider_Unmarshal)
    (\<lambda>x. True)"
  by (rule exact_codecI, rule vaults_QueryPendingRewardsByProvider_written,
    unfold vaults_QueryPendingRewardsByProvider_Unmarshal_def, erule readsD [rotated],
    (rule reads_bytes [OF gogo_varint], rule wire_tags, simp add: vaults_QueryPendingRewardsByProvider_field_def, simp)+, rule reads_done, simp)

lemma vaults_QueryPendingRewardsByProvider_returns: "\<exists>r. vaults_QueryPendingRewardsByProvider_Unmarshal bs = Some r"
  unfolding vaults_QueryPendingRewardsByProvider_Unmarshal_def by (rule read_fields_returns [OF gogo_skip])

lemma vaults_QueryPendingRewardsByProvider_received:
  assumes "varint_runtime rt" "vaultsv1_QueryPendingRewardsByProvider_unknownFields x = []"
    and "vaultsv1_QueryPendingRewardsByProvider_size rt x < 2 ^ 63"
  shows "\<exists>bs. vaultsv1_QueryPendingRewardsByProvider_marshal rt x = Ok bs \<and> vaults_QueryPendingRewardsByProvider_Unmarshal bs = Some (Ok
     \<lparr>vaults_QueryPendingRewardsByProvider_Provider = vaultsv1_QueryPendingRewardsByProvider_Provider x\<rparr>)"
  by (rule codec_readsI [OF vaultsv1_QueryPendingRewardsByProvider_written [OF assms(1,2)] assms(3)],
    unfold vaults_QueryPendingRewardsByProvider_Unmarshal_def, erule readsD [rotated],
    (rule reads_bytes [OF assms(1)], rule wire_tags, simp add: vaults_QueryPendingRewardsByProvider_field_def, simp)+, rule reads_done, simp)

subsection \<open>QueryStats (vaults)\<close>

text \<open>\<open>QueryStats\<close> of \<open>types/vaults/query.pb.go\<close>.\<close>

datatype vaults_QueryStats = vaults_QueryStats

definition vaults_QueryStats_Size :: "vaults_QueryStats \<Rightarrow> nat" where
  "vaults_QueryStats_Size x =
     0"

definition vaults_QueryStats_Marshal :: "vaults_QueryStats \<Rightarrow> bytes result" where
  "vaults_QueryStats_Marshal x =
     Ok (sized_bytes (vaults_QueryStats_Size x, []))"

definition vaults_QueryStats_field ::
    "int \<Rightarrow> int \<Rightarrow> vaults_QueryStats \<Rightarrow> nat \<Rightarrow> bytes \<Rightarrow> (vaults_QueryStats \<times> nat) result option" where
  "vaults_QueryStats_field fieldNum wireType x i bs =
     None"

definition vaults_QueryStats_Unmarshal :: "bytes \<Rightarrow> vaults_QueryStats result option" where
  "vaults_QueryStats_Unmarshal bs =
     read_fields (Skip gogo_runtime) vaults_QueryStats_field (\<lambda>u x. x)
       vaults_QueryStats 0 bs"

lemma vaults_QueryStats_written:
  shows "writes (vaults_QueryStats_Marshal x)
    ([] :: bytes)
    (vaults_QueryStats_Size x)"
  by (simp add: writes_def vaults_QueryStats_Marshal_def vaults_QueryStats_Size_def wire_puts gogo_varint)

lemma vaults_QueryStats_exact:
  shows "exact_codec (vaults_QueryStats_Size) (vaults_QueryStats_Marshal) (vaults_QueryStats_Unmarshal)
    (\<lambda>x. True)"
  by (rule exact_codecI, rule vaults_QueryStats_written,
    unfold vaults_QueryStats_Unmarshal_def, erule readsD [rotated],
    rule reads_done, metis vaults_QueryStats.exhaust)

lemma vaults_QueryStats_returns: "\<exists>r. vaults_QueryStats_Unmarshal bs = Some r"
  unfolding vaults_QueryStats_Unmarshal_def by (rule read_fields_returns [OF gogo_skip])

lemma vaults_QueryStats_received:
  assumes "varint_runtime rt" "vaultsv1_QueryStats_unknownFields x = []"
  shows "\<exists>bs. vaultsv1_QueryStats_marshal rt x = Ok bs \<and> vaults_QueryStats_Unmarshal bs = Some (Ok vaults_QueryStats)"
  by (rule codec_readsI [OF vaultsv1_QueryStats_written [OF assms]], simp add: vaultsv1_QueryStats_size_def assms,
    unfold vaults_QueryStats_Unmarshal_def, erule readsD [rotated], rule reads_done, simp)

subsection \<open>QueryStatsResponse (vaults)\<close>

text \<open>\<open>QueryStatsResponse\<close> of \<open>types/vaults/query.pb.go\<close>.\<close>

record vaults_QueryStatsResponse =
  vaults_QueryStatsResponse_FlexibleTotalPrincipal :: "int option"
  vaults_QueryStatsResponse_FlexibleTotalUsers :: "64 word"
  vaults_QueryStatsResponse_FlexibleTotalDistributedRewardsPrincipal :: "int option"
  vaults_QueryStatsResponse_StakedTotalPrincipal :: "int option"
  vaults_QueryStatsResponse_StakedTotalUsers :: "64 word"

definition vaults_QueryStatsResponse_Size :: "custom \<Rightarrow> vaults_QueryStatsResponse \<Rightarrow> nat" where
  "vaults_QueryStatsResponse_Size ic x =
     size_custom (Custom_Marshal ic (vaults_QueryStatsResponse_FlexibleTotalPrincipal x)) +
     size_varint gogo_runtime (vaults_QueryStatsResponse_FlexibleTotalUsers x) +
     size_custom (Custom_Marshal ic (vaults_QueryStatsResponse_FlexibleTotalDistributedRewardsPrincipal x)) +
     size_custom (Custom_Marshal ic (vaults_QueryStatsResponse_StakedTotalPrincipal x)) +
     size_varint gogo_runtime (vaults_QueryStatsResponse_StakedTotalUsers x)"

definition vaults_QueryStatsResponse_Marshal :: "custom \<Rightarrow> vaults_QueryStatsResponse \<Rightarrow> bytes result" where
  "vaults_QueryStatsResponse_Marshal ic x =
     obind (put_varint gogo_runtime 0x28 (vaults_QueryStatsResponse_StakedTotalUsers x) (vaults_QueryStatsResponse_Size ic x, [])) (\<lambda>b.
     obind (put_custom 0x22 (Custom_Marshal ic (vaults_QueryStatsResponse_StakedTotalPrincipal x)) b) (\<lambda>b.
     obind (put_custom 0x1A (Custom_Marshal ic (vaults_QueryStatsResponse_FlexibleTotalDistributedRewardsPrincipal x)) b) (\<lambda>b.
     obind (put_varint gogo_runtime 0x10 (vaults_QueryStatsResponse_FlexibleTotalUsers x) b) (\<lambda>b.
     obind (put_custom 0xA (Custom_Marshal ic (vaults_QueryStatsResponse_FlexibleTotalPrincipal x)) b) (\<lambda>b.
     Ok (sized_bytes b))))))"

definition vaults_QueryStatsResponse_field ::
    "custom \<Rightarrow> int \<Rightarrow> int \<Rightarrow> vaults_QueryStatsResponse \<Rightarrow> nat \<Rightarrow> bytes \<Rightarrow> (vaults_QueryStatsResponse \<times> nat) result option" where
  "vaults_QueryStatsResponse_field ic fieldNum wireType x i bs =
     (if fieldNum = 1 then Some (custom_field wireType i (Custom_Unmarshal ic (vaults_QueryStatsResponse_FlexibleTotalPrincipal x)) (\<lambda>v. x\<lparr>vaults_QueryStatsResponse_FlexibleTotalPrincipal := v\<rparr>) bs)
      else if fieldNum = 2 then Some (varint_field wireType (\<lambda>v. x\<lparr>vaults_QueryStatsResponse_FlexibleTotalUsers := v\<rparr>) bs)
      else if fieldNum = 3 then Some (custom_field wireType i (Custom_Unmarshal ic (vaults_QueryStatsResponse_FlexibleTotalDistributedRewardsPrincipal x)) (\<lambda>v. x\<lparr>vaults_QueryStatsResponse_FlexibleTotalDistributedRewardsPrincipal := v\<rparr>) bs)
      else if fieldNum = 4 then Some (custom_field wireType i (Custom_Unmarshal ic (vaults_QueryStatsResponse_StakedTotalPrincipal x)) (\<lambda>v. x\<lparr>vaults_QueryStatsResponse_StakedTotalPrincipal := v\<rparr>) bs)
      else if fieldNum = 5 then Some (varint_field wireType (\<lambda>v. x\<lparr>vaults_QueryStatsResponse_StakedTotalUsers := v\<rparr>) bs)
      else None)"

definition vaults_QueryStatsResponse_Unmarshal :: "custom \<Rightarrow> bytes \<Rightarrow> vaults_QueryStatsResponse result option" where
  "vaults_QueryStatsResponse_Unmarshal ic bs =
     read_fields (Skip gogo_runtime) (vaults_QueryStatsResponse_field ic) (\<lambda>u x. x)
       \<lparr>vaults_QueryStatsResponse_FlexibleTotalPrincipal = None, vaults_QueryStatsResponse_FlexibleTotalUsers = 0, vaults_QueryStatsResponse_FlexibleTotalDistributedRewardsPrincipal = None, vaults_QueryStatsResponse_StakedTotalPrincipal = None, vaults_QueryStatsResponse_StakedTotalUsers = 0\<rparr> 0 bs"

lemma vaults_QueryStatsResponse_written:
  assumes "custom_codec ic ok" "given ok (vaults_QueryStatsResponse_FlexibleTotalPrincipal x) \<and> given ok (vaults_QueryStatsResponse_FlexibleTotalDistributedRewardsPrincipal x) \<and> given ok (vaults_QueryStatsResponse_StakedTotalPrincipal x)"
  shows "writes (vaults_QueryStatsResponse_Marshal ic x)
    (delimited_bytes gogo_runtime 0xA (Custom_Marshal ic (vaults_QueryStatsResponse_FlexibleTotalPrincipal x)) @
      varint_bytes gogo_runtime 0x10 (vaults_QueryStatsResponse_FlexibleTotalUsers x) @
      delimited_bytes gogo_runtime 0x1A (Custom_Marshal ic (vaults_QueryStatsResponse_FlexibleTotalDistributedRewardsPrincipal x)) @
      delimited_bytes gogo_runtime 0x22 (Custom_Marshal ic (vaults_QueryStatsResponse_StakedTotalPrincipal x)) @
      varint_bytes gogo_runtime 0x28 (vaults_QueryStatsResponse_StakedTotalUsers x) @
      [])
    (vaults_QueryStatsResponse_Size ic x)"
  using assms(2) by (simp add: writes_def vaults_QueryStatsResponse_Marshal_def vaults_QueryStatsResponse_Size_def wire_puts gogo_varint
    custom_delimited givenD [OF assms(1)])

lemma vaults_QueryStatsResponse_exact:
  assumes "custom_codec ic ok"
  shows "exact_codec (vaults_QueryStatsResponse_Size ic) (vaults_QueryStatsResponse_Marshal ic) (vaults_QueryStatsResponse_Unmarshal ic)
    (\<lambda>x. given ok (vaults_QueryStatsResponse_FlexibleTotalPrincipal x) \<and> given ok (vaults_QueryStatsResponse_FlexibleTotalDistributedRewardsPrincipal x) \<and> given ok (vaults_QueryStatsResponse_StakedTotalPrincipal x))"
  by (rule exact_codecI, rule vaults_QueryStatsResponse_written [OF assms], assumption,
    unfold vaults_QueryStatsResponse_Unmarshal_def, erule readsD [rotated],
    ((rule reads_varint [OF gogo_varint], rule wire_tags, simp add: vaults_QueryStatsResponse_field_def, simp) |
      (rule reads_delimited [OF gogo_varint], rule wire_tags, simp add: vaults_QueryStatsResponse_field_def, simp add: givenD [OF assms], simp add: givenD [OF assms]))+, rule reads_done, simp)

lemma vaults_QueryStatsResponse_returns: "\<exists>r. vaults_QueryStatsResponse_Unmarshal ic bs = Some r"
  unfolding vaults_QueryStatsResponse_Unmarshal_def by (rule read_fields_returns [OF gogo_skip])

lemma vaults_QueryStatsResponse_answered:
  assumes "custom_codec ic ok" "given ok (vaults_QueryStatsResponse_FlexibleTotalPrincipal x) \<and> given ok (vaults_QueryStatsResponse_FlexibleTotalDistributedRewardsPrincipal x) \<and> given ok (vaults_QueryStatsResponse_StakedTotalPrincipal x)" "vaults_QueryStatsResponse_Size ic x < 2 ^ 63"
  shows "\<exists>bs. vaults_QueryStatsResponse_Marshal ic x = Ok bs \<and> vaultsv1_QueryStatsResponse_unmarshal rt discardUnknown bs = Some (Ok
     \<lparr>vaultsv1_QueryStatsResponse_FlexibleTotalPrincipal = Custom_Marshal ic (vaults_QueryStatsResponse_FlexibleTotalPrincipal x),
      vaultsv1_QueryStatsResponse_FlexibleTotalUsers = vaults_QueryStatsResponse_FlexibleTotalUsers x,
      vaultsv1_QueryStatsResponse_FlexibleTotalDistributedRewardsPrincipal = Custom_Marshal ic (vaults_QueryStatsResponse_FlexibleTotalDistributedRewardsPrincipal x),
      vaultsv1_QueryStatsResponse_StakedTotalPrincipal = Custom_Marshal ic (vaults_QueryStatsResponse_StakedTotalPrincipal x),
      vaultsv1_QueryStatsResponse_StakedTotalUsers = vaults_QueryStatsResponse_StakedTotalUsers x,
      vaultsv1_QueryStatsResponse_unknownFields = []\<rparr>)"
  by (rule codec_readsI [OF vaults_QueryStatsResponse_written [OF assms(1,2)] assms(3)],
    unfold vaultsv1_QueryStatsResponse_unmarshal_def, erule readsD [rotated],
    (rule reads_bytes [OF gogo_varint] reads_varint [OF gogo_varint], rule wire_tags, simp add: vaultsv1_QueryStatsResponse_field_def, simp)+, rule reads_done, simp)

subsection \<open>The codecs together\<close>

lemmas codec_query_exact =
  types_QueryIndex_exact types_QueryIndexResponse_exact types_QueryPaused_exact
  types_QueryPausedResponse_exact types_QueryPrincipal_exact types_QueryPrincipalResponse_exact
  types_QueryYield_exact types_QueryYieldResponse_exact types_QueryStats_exact
  types_QueryStatsResponse_exact v2_QueryStats_exact v2_QueryStatsResponse_ExternalYield_exact
  v2_QueryYieldRecipients_exact v2_QueryYieldRecipient_exact v2_QueryYieldRecipientResponse_exact
  v2_QueryRetryAmounts_exact v2_QueryRetryAmount_exact v2_QueryRetryAmountResponse_exact
  portal_QueryOwner_exact portal_QueryOwnerResponse_exact portal_QueryPaused_exact
  portal_QueryPausedResponse_exact portal_QueryPeers_exact portal_QueryDestinationTokens_exact
  portal_QueryNonce_exact portal_QueryNonceResponse_exact vaults_QueryPositionsByProvider_exact
  vaults_QueryPaused_exact vaults_QueryPausedResponse_exact vaults_QueryPendingRewards_exact
  vaults_QueryPendingRewardsResponse_exact vaults_QueryPendingRewardsByProvider_exact
  vaults_QueryStats_exact vaults_QueryStatsResponse_exact

lemmas codec_query_returns =
  types_QueryIndex_returns types_QueryIndexResponse_returns types_QueryPaused_returns
  types_QueryPausedResponse_returns types_QueryPrincipal_returns
  types_QueryPrincipalResponse_returns types_QueryYield_returns types_QueryYieldResponse_returns
  types_QueryStats_returns types_QueryStatsResponse_returns v2_QueryStats_returns
  v2_QueryStatsResponse_ExternalYield_returns v2_QueryYieldRecipients_returns
  v2_QueryYieldRecipient_returns v2_QueryYieldRecipientResponse_returns
  v2_QueryRetryAmounts_returns v2_QueryRetryAmount_returns v2_QueryRetryAmountResponse_returns
  portal_QueryOwner_returns portal_QueryOwnerResponse_returns portal_QueryPaused_returns
  portal_QueryPausedResponse_returns portal_QueryPeers_returns
  portal_QueryDestinationTokens_returns portal_QueryNonce_returns
  portal_QueryNonceResponse_returns vaults_QueryPositionsByProvider_returns
  vaults_QueryPaused_returns vaults_QueryPausedResponse_returns vaults_QueryPendingRewards_returns
  vaults_QueryPendingRewardsResponse_returns vaults_QueryPendingRewardsByProvider_returns
  vaults_QueryStats_returns vaults_QueryStatsResponse_returns

lemmas codec_query_received =
  types_QueryIndex_received types_QueryPaused_received types_QueryPrincipal_received
  types_QueryYield_received types_QueryStats_received v2_QueryStats_received
  v2_QueryYieldRecipients_received v2_QueryYieldRecipient_received v2_QueryRetryAmounts_received
  v2_QueryRetryAmount_received portal_QueryOwner_received portal_QueryPaused_received
  portal_QueryPeers_received portal_QueryDestinationTokens_received portal_QueryNonce_received
  vaults_QueryPositionsByProvider_received vaults_QueryPaused_received
  vaults_QueryPendingRewards_received vaults_QueryPendingRewardsByProvider_received
  vaults_QueryStats_received

lemmas codec_query_answered =
  types_QueryIndexResponse_answered types_QueryPausedResponse_answered
  types_QueryPrincipalResponse_answered types_QueryYieldResponse_answered
  types_QueryStatsResponse_answered v2_QueryStatsResponse_ExternalYield_answered
  v2_QueryYieldRecipientResponse_answered v2_QueryRetryAmountResponse_answered
  portal_QueryOwnerResponse_answered portal_QueryPausedResponse_answered
  portal_QueryNonceResponse_answered vaults_QueryPausedResponse_answered
  vaults_QueryPendingRewardsResponse_answered vaults_QueryStatsResponse_answered

end
