(* ===== verification/Api_Data.thy ===== *)
theory Api_Data
  imports Messages
begin

text \<open>
  The remaining data of the client API: the statistics of \<open>api/v1\<close>, the rewards of a position and
  the messages of \<open>api/portal/ntt/v1\<close>.
\<close>

subsection \<open>Stats (dollarv1)\<close>

text \<open>\<open>Stats\<close> of \<open>api/v1/dollar.pulsar.go\<close>.\<close>

record dollarv1_Stats =
  dollarv1_Stats_TotalHolders :: "64 word"
  dollarv1_Stats_TotalPrincipal :: bytes
  dollarv1_Stats_TotalYieldAccrued :: bytes
  dollarv1_Stats_unknownFields :: bytes

definition dollarv1_Stats_size :: "wire_runtime \<Rightarrow> dollarv1_Stats \<Rightarrow> nat" where
  "dollarv1_Stats_size rt x =
     size_varint rt (dollarv1_Stats_TotalHolders x) +
     size_delimited rt (dollarv1_Stats_TotalPrincipal x) +
     size_delimited rt (dollarv1_Stats_TotalYieldAccrued x) +
     length (dollarv1_Stats_unknownFields x)"

definition dollarv1_Stats_marshal :: "wire_runtime \<Rightarrow> dollarv1_Stats \<Rightarrow> bytes result" where
  "dollarv1_Stats_marshal rt x =
     obind (put (dollarv1_Stats_unknownFields x) (dollarv1_Stats_size rt x, [])) (\<lambda>b.
     obind (put_delimited rt 0x1A (dollarv1_Stats_TotalYieldAccrued x) b) (\<lambda>b.
     obind (put_delimited rt 0x12 (dollarv1_Stats_TotalPrincipal x) b) (\<lambda>b.
     obind (put_varint rt 0x8 (dollarv1_Stats_TotalHolders x) b) (\<lambda>b.
     Ok (buffer_bytes b)))))"

definition dollarv1_Stats_field ::
    "int \<Rightarrow> int \<Rightarrow> dollarv1_Stats \<Rightarrow> nat \<Rightarrow> bytes \<Rightarrow> (dollarv1_Stats \<times> nat) result option" where
  "dollarv1_Stats_field fieldNum wireType x i bs =
     (if fieldNum = 1 then Some (varint_field wireType (\<lambda>v. x\<lparr>dollarv1_Stats_TotalHolders := v\<rparr>) bs)
      else if fieldNum = 2 then Some (bytes_field wireType i (\<lambda>v. x\<lparr>dollarv1_Stats_TotalPrincipal := v\<rparr>) bs)
      else if fieldNum = 3 then Some (bytes_field wireType i (\<lambda>v. x\<lparr>dollarv1_Stats_TotalYieldAccrued := v\<rparr>) bs)
      else None)"

definition dollarv1_Stats_unmarshal :: "wire_runtime \<Rightarrow> bool \<Rightarrow> bytes \<Rightarrow> dollarv1_Stats result option" where
  "dollarv1_Stats_unmarshal rt discardUnknown bs =
     read_fields (Skip rt) dollarv1_Stats_field
       (\<lambda>u x. if discardUnknown then x else x\<lparr>dollarv1_Stats_unknownFields := dollarv1_Stats_unknownFields x @ u\<rparr>)
       \<lparr>dollarv1_Stats_TotalHolders = 0, dollarv1_Stats_TotalPrincipal = [], dollarv1_Stats_TotalYieldAccrued = [], dollarv1_Stats_unknownFields = []\<rparr> 0 bs"

lemma dollarv1_Stats_written:
  assumes "varint_runtime rt" "dollarv1_Stats_unknownFields x = []"
  shows "writes (dollarv1_Stats_marshal rt x)
    (varint_bytes rt 0x8 (dollarv1_Stats_TotalHolders x) @
      delimited_bytes rt 0x12 (dollarv1_Stats_TotalPrincipal x) @
      delimited_bytes rt 0x1A (dollarv1_Stats_TotalYieldAccrued x) @
      [])
    (dollarv1_Stats_size rt x)"
  by (simp add: writes_def dollarv1_Stats_marshal_def dollarv1_Stats_size_def assms wire_puts)

lemma dollarv1_Stats_exact:
  assumes "varint_runtime rt"
  shows "exact_codec (dollarv1_Stats_size rt) (dollarv1_Stats_marshal rt) 
    (dollarv1_Stats_unmarshal rt' discardUnknown) (\<lambda>x. dollarv1_Stats_unknownFields x = [])"
  by (rule exact_codecI, rule dollarv1_Stats_written [OF assms], assumption,
    unfold dollarv1_Stats_unmarshal_def, erule readsD [rotated],
    (rule reads_varint [OF assms] reads_bytes [OF assms], rule wire_tags,
        simp add: dollarv1_Stats_field_def, simp)+, rule reads_done, simp)

lemma dollarv1_Stats_returns:
  "skip_progress (Skip rt) \<Longrightarrow> \<exists>r. dollarv1_Stats_unmarshal rt discardUnknown bs = Some r"
  unfolding dollarv1_Stats_unmarshal_def by (rule read_fields_returns)

subsection \<open>PositionRewards (vaultsv1)\<close>

text \<open>\<open>PositionRewards\<close> of \<open>api/vaults/v1/vaults.pulsar.go\<close>.\<close>

record vaultsv1_PositionRewards =
  vaultsv1_PositionRewards_Amount :: bytes
  vaultsv1_PositionRewards_PendingRewards :: bytes
  vaultsv1_PositionRewards_unknownFields :: bytes

definition vaultsv1_PositionRewards_size :: "wire_runtime \<Rightarrow> vaultsv1_PositionRewards \<Rightarrow> nat" where
  "vaultsv1_PositionRewards_size rt x =
     size_delimited rt (vaultsv1_PositionRewards_Amount x) +
     size_delimited rt (vaultsv1_PositionRewards_PendingRewards x) +
     length (vaultsv1_PositionRewards_unknownFields x)"

definition vaultsv1_PositionRewards_marshal :: "wire_runtime \<Rightarrow> vaultsv1_PositionRewards \<Rightarrow> bytes result" where
  "vaultsv1_PositionRewards_marshal rt x =
     obind (put (vaultsv1_PositionRewards_unknownFields x) (vaultsv1_PositionRewards_size rt x, [])) (\<lambda>b.
     obind (put_delimited rt 0x12 (vaultsv1_PositionRewards_PendingRewards x) b) (\<lambda>b.
     obind (put_delimited rt 0xA (vaultsv1_PositionRewards_Amount x) b) (\<lambda>b.
     Ok (buffer_bytes b))))"

definition vaultsv1_PositionRewards_field ::
    "int \<Rightarrow> int \<Rightarrow> vaultsv1_PositionRewards \<Rightarrow> nat \<Rightarrow> bytes \<Rightarrow> (vaultsv1_PositionRewards \<times> nat) result option" where
  "vaultsv1_PositionRewards_field fieldNum wireType x i bs =
     (if fieldNum = 1 then Some (bytes_field wireType i (\<lambda>v. x\<lparr>vaultsv1_PositionRewards_Amount := v\<rparr>) bs)
      else if fieldNum = 2 then Some (bytes_field wireType i (\<lambda>v. x\<lparr>vaultsv1_PositionRewards_PendingRewards := v\<rparr>) bs)
      else None)"

definition vaultsv1_PositionRewards_unmarshal :: "wire_runtime \<Rightarrow> bool \<Rightarrow> bytes \<Rightarrow> vaultsv1_PositionRewards result option" where
  "vaultsv1_PositionRewards_unmarshal rt discardUnknown bs =
     read_fields (Skip rt) vaultsv1_PositionRewards_field
       (\<lambda>u x. if discardUnknown then x else x\<lparr>vaultsv1_PositionRewards_unknownFields := vaultsv1_PositionRewards_unknownFields x @ u\<rparr>)
       \<lparr>vaultsv1_PositionRewards_Amount = [], vaultsv1_PositionRewards_PendingRewards = [], vaultsv1_PositionRewards_unknownFields = []\<rparr> 0 bs"

lemma vaultsv1_PositionRewards_written:
  assumes "varint_runtime rt" "vaultsv1_PositionRewards_unknownFields x = []"
  shows "writes (vaultsv1_PositionRewards_marshal rt x)
    (delimited_bytes rt 0xA (vaultsv1_PositionRewards_Amount x) @
      delimited_bytes rt 0x12 (vaultsv1_PositionRewards_PendingRewards x) @
      [])
    (vaultsv1_PositionRewards_size rt x)"
  by (simp add: writes_def vaultsv1_PositionRewards_marshal_def vaultsv1_PositionRewards_size_def assms wire_puts)

lemma vaultsv1_PositionRewards_exact:
  assumes "varint_runtime rt"
  shows "exact_codec (vaultsv1_PositionRewards_size rt) (vaultsv1_PositionRewards_marshal rt) 
    (vaultsv1_PositionRewards_unmarshal rt' discardUnknown) (\<lambda>x. vaultsv1_PositionRewards_unknownFields x = [])"
  by (rule exact_codecI, rule vaultsv1_PositionRewards_written [OF assms], assumption,
    unfold vaultsv1_PositionRewards_unmarshal_def, erule readsD [rotated],
    (rule reads_bytes [OF assms], rule wire_tags,
        simp add: vaultsv1_PositionRewards_field_def, simp)+, rule reads_done, simp)

lemma vaultsv1_PositionRewards_returns:
  "skip_progress (Skip rt) \<Longrightarrow> \<exists>r. vaultsv1_PositionRewards_unmarshal rt discardUnknown bs = Some r"
  unfolding vaultsv1_PositionRewards_unmarshal_def by (rule read_fields_returns)

subsection \<open>ManagerMessage (nttv1)\<close>

text \<open>\<open>ManagerMessage\<close> of \<open>api/portal/ntt/v1/manager.pulsar.go\<close>.\<close>

record nttv1_ManagerMessage =
  nttv1_ManagerMessage_Id :: bytes
  nttv1_ManagerMessage_Sender :: bytes
  nttv1_ManagerMessage_Payload :: bytes
  nttv1_ManagerMessage_unknownFields :: bytes

definition nttv1_ManagerMessage_size :: "wire_runtime \<Rightarrow> nttv1_ManagerMessage \<Rightarrow> nat" where
  "nttv1_ManagerMessage_size rt x =
     size_delimited rt (nttv1_ManagerMessage_Id x) +
     size_delimited rt (nttv1_ManagerMessage_Sender x) +
     size_delimited rt (nttv1_ManagerMessage_Payload x) +
     length (nttv1_ManagerMessage_unknownFields x)"

definition nttv1_ManagerMessage_marshal :: "wire_runtime \<Rightarrow> nttv1_ManagerMessage \<Rightarrow> bytes result" where
  "nttv1_ManagerMessage_marshal rt x =
     obind (put (nttv1_ManagerMessage_unknownFields x) (nttv1_ManagerMessage_size rt x, [])) (\<lambda>b.
     obind (put_delimited rt 0x1A (nttv1_ManagerMessage_Payload x) b) (\<lambda>b.
     obind (put_delimited rt 0x12 (nttv1_ManagerMessage_Sender x) b) (\<lambda>b.
     obind (put_delimited rt 0xA (nttv1_ManagerMessage_Id x) b) (\<lambda>b.
     Ok (buffer_bytes b)))))"

definition nttv1_ManagerMessage_field ::
    "int \<Rightarrow> int \<Rightarrow> nttv1_ManagerMessage \<Rightarrow> nat \<Rightarrow> bytes \<Rightarrow> (nttv1_ManagerMessage \<times> nat) result option" where
  "nttv1_ManagerMessage_field fieldNum wireType x i bs =
     (if fieldNum = 1 then Some (bytes_field wireType i (\<lambda>v. x\<lparr>nttv1_ManagerMessage_Id := v\<rparr>) bs)
      else if fieldNum = 2 then Some (bytes_field wireType i (\<lambda>v. x\<lparr>nttv1_ManagerMessage_Sender := v\<rparr>) bs)
      else if fieldNum = 3 then Some (bytes_field wireType i (\<lambda>v. x\<lparr>nttv1_ManagerMessage_Payload := v\<rparr>) bs)
      else None)"

definition nttv1_ManagerMessage_unmarshal :: "wire_runtime \<Rightarrow> bool \<Rightarrow> bytes \<Rightarrow> nttv1_ManagerMessage result option" where
  "nttv1_ManagerMessage_unmarshal rt discardUnknown bs =
     read_fields (Skip rt) nttv1_ManagerMessage_field
       (\<lambda>u x. if discardUnknown then x else x\<lparr>nttv1_ManagerMessage_unknownFields := nttv1_ManagerMessage_unknownFields x @ u\<rparr>)
       \<lparr>nttv1_ManagerMessage_Id = [], nttv1_ManagerMessage_Sender = [], nttv1_ManagerMessage_Payload = [], nttv1_ManagerMessage_unknownFields = []\<rparr> 0 bs"

lemma nttv1_ManagerMessage_written:
  assumes "varint_runtime rt" "nttv1_ManagerMessage_unknownFields x = []"
  shows "writes (nttv1_ManagerMessage_marshal rt x)
    (delimited_bytes rt 0xA (nttv1_ManagerMessage_Id x) @
      delimited_bytes rt 0x12 (nttv1_ManagerMessage_Sender x) @
      delimited_bytes rt 0x1A (nttv1_ManagerMessage_Payload x) @
      [])
    (nttv1_ManagerMessage_size rt x)"
  by (simp add: writes_def nttv1_ManagerMessage_marshal_def nttv1_ManagerMessage_size_def assms wire_puts)

lemma nttv1_ManagerMessage_exact:
  assumes "varint_runtime rt"
  shows "exact_codec (nttv1_ManagerMessage_size rt) (nttv1_ManagerMessage_marshal rt) 
    (nttv1_ManagerMessage_unmarshal rt' discardUnknown) (\<lambda>x. nttv1_ManagerMessage_unknownFields x = [])"
  by (rule exact_codecI, rule nttv1_ManagerMessage_written [OF assms], assumption,
    unfold nttv1_ManagerMessage_unmarshal_def, erule readsD [rotated],
    (rule reads_bytes [OF assms], rule wire_tags,
        simp add: nttv1_ManagerMessage_field_def, simp)+, rule reads_done, simp)

lemma nttv1_ManagerMessage_returns:
  "skip_progress (Skip rt) \<Longrightarrow> \<exists>r. nttv1_ManagerMessage_unmarshal rt discardUnknown bs = Some r"
  unfolding nttv1_ManagerMessage_unmarshal_def by (rule read_fields_returns)

subsection \<open>NativeTokenTransfer (nttv1)\<close>

text \<open>\<open>NativeTokenTransfer\<close> of \<open>api/portal/ntt/v1/ntt.pulsar.go\<close>.\<close>

record nttv1_NativeTokenTransfer =
  nttv1_NativeTokenTransfer_Amount :: "64 word"
  nttv1_NativeTokenTransfer_SourceToken :: bytes
  nttv1_NativeTokenTransfer_To :: bytes
  nttv1_NativeTokenTransfer_ToChain :: "32 word"
  nttv1_NativeTokenTransfer_AdditionalPayload :: bytes
  nttv1_NativeTokenTransfer_unknownFields :: bytes

definition nttv1_NativeTokenTransfer_size :: "wire_runtime \<Rightarrow> nttv1_NativeTokenTransfer \<Rightarrow> nat" where
  "nttv1_NativeTokenTransfer_size rt x =
     size_varint rt (nttv1_NativeTokenTransfer_Amount x) +
     size_delimited rt (nttv1_NativeTokenTransfer_SourceToken x) +
     size_delimited rt (nttv1_NativeTokenTransfer_To x) +
     size_varint rt (ucast (nttv1_NativeTokenTransfer_ToChain x)) +
     size_delimited rt (nttv1_NativeTokenTransfer_AdditionalPayload x) +
     length (nttv1_NativeTokenTransfer_unknownFields x)"

definition nttv1_NativeTokenTransfer_marshal :: "wire_runtime \<Rightarrow> nttv1_NativeTokenTransfer \<Rightarrow> bytes result" where
  "nttv1_NativeTokenTransfer_marshal rt x =
     obind (put (nttv1_NativeTokenTransfer_unknownFields x) (nttv1_NativeTokenTransfer_size rt x, [])) (\<lambda>b.
     obind (put_delimited rt 0x2A (nttv1_NativeTokenTransfer_AdditionalPayload x) b) (\<lambda>b.
     obind (put_varint rt 0x20 (ucast (nttv1_NativeTokenTransfer_ToChain x)) b) (\<lambda>b.
     obind (put_delimited rt 0x1A (nttv1_NativeTokenTransfer_To x) b) (\<lambda>b.
     obind (put_delimited rt 0x12 (nttv1_NativeTokenTransfer_SourceToken x) b) (\<lambda>b.
     obind (put_varint rt 0x8 (nttv1_NativeTokenTransfer_Amount x) b) (\<lambda>b.
     Ok (buffer_bytes b)))))))"

definition nttv1_NativeTokenTransfer_field ::
    "int \<Rightarrow> int \<Rightarrow> nttv1_NativeTokenTransfer \<Rightarrow> nat \<Rightarrow> bytes \<Rightarrow> (nttv1_NativeTokenTransfer \<times> nat) result option" where
  "nttv1_NativeTokenTransfer_field fieldNum wireType x i bs =
     (if fieldNum = 1 then Some (varint_field wireType (\<lambda>v. x\<lparr>nttv1_NativeTokenTransfer_Amount := v\<rparr>) bs)
      else if fieldNum = 2 then Some (bytes_field wireType i (\<lambda>v. x\<lparr>nttv1_NativeTokenTransfer_SourceToken := v\<rparr>) bs)
      else if fieldNum = 3 then Some (bytes_field wireType i (\<lambda>v. x\<lparr>nttv1_NativeTokenTransfer_To := v\<rparr>) bs)
      else if fieldNum = 4 then Some (varint_field wireType (\<lambda>v. x\<lparr>nttv1_NativeTokenTransfer_ToChain := v\<rparr>) bs)
      else if fieldNum = 5 then Some (bytes_field wireType i (\<lambda>v. x\<lparr>nttv1_NativeTokenTransfer_AdditionalPayload := v\<rparr>) bs)
      else None)"

definition nttv1_NativeTokenTransfer_unmarshal :: "wire_runtime \<Rightarrow> bool \<Rightarrow> bytes \<Rightarrow> nttv1_NativeTokenTransfer result option" where
  "nttv1_NativeTokenTransfer_unmarshal rt discardUnknown bs =
     read_fields (Skip rt) nttv1_NativeTokenTransfer_field
       (\<lambda>u x. if discardUnknown then x else x\<lparr>nttv1_NativeTokenTransfer_unknownFields := nttv1_NativeTokenTransfer_unknownFields x @ u\<rparr>)
       \<lparr>nttv1_NativeTokenTransfer_Amount = 0, nttv1_NativeTokenTransfer_SourceToken = [], nttv1_NativeTokenTransfer_To = [], nttv1_NativeTokenTransfer_ToChain = 0, nttv1_NativeTokenTransfer_AdditionalPayload = [], nttv1_NativeTokenTransfer_unknownFields = []\<rparr> 0 bs"

lemma nttv1_NativeTokenTransfer_written:
  assumes "varint_runtime rt" "nttv1_NativeTokenTransfer_unknownFields x = []"
  shows "writes (nttv1_NativeTokenTransfer_marshal rt x)
    (varint_bytes rt 0x8 (nttv1_NativeTokenTransfer_Amount x) @
      delimited_bytes rt 0x12 (nttv1_NativeTokenTransfer_SourceToken x) @
      delimited_bytes rt 0x1A (nttv1_NativeTokenTransfer_To x) @
      varint_bytes rt 0x20 (ucast (nttv1_NativeTokenTransfer_ToChain x)) @
      delimited_bytes rt 0x2A (nttv1_NativeTokenTransfer_AdditionalPayload x) @
      [])
    (nttv1_NativeTokenTransfer_size rt x)"
  by (simp add: writes_def nttv1_NativeTokenTransfer_marshal_def nttv1_NativeTokenTransfer_size_def assms wire_puts)

lemma nttv1_NativeTokenTransfer_exact:
  assumes "varint_runtime rt"
  shows "exact_codec (nttv1_NativeTokenTransfer_size rt) (nttv1_NativeTokenTransfer_marshal rt) 
    (nttv1_NativeTokenTransfer_unmarshal rt' discardUnknown) (\<lambda>x. nttv1_NativeTokenTransfer_unknownFields x = [])"
  by (rule exact_codecI, rule nttv1_NativeTokenTransfer_written [OF assms], assumption,
    unfold nttv1_NativeTokenTransfer_unmarshal_def, erule readsD [rotated],
    (rule reads_varint [OF assms] reads_bytes [OF assms] reads_varint32 [OF assms], rule wire_tags,
        simp add: nttv1_NativeTokenTransfer_field_def, simp)+, rule reads_done, simp)

lemma nttv1_NativeTokenTransfer_returns:
  "skip_progress (Skip rt) \<Longrightarrow> \<exists>r. nttv1_NativeTokenTransfer_unmarshal rt discardUnknown bs = Some r"
  unfolding nttv1_NativeTokenTransfer_unmarshal_def by (rule read_fields_returns)

subsection \<open>TransceiverMessage (nttv1)\<close>

text \<open>\<open>TransceiverMessage\<close> of \<open>api/portal/ntt/v1/transceiver.pulsar.go\<close>.\<close>

record nttv1_TransceiverMessage =
  nttv1_TransceiverMessage_SourceManagerAddress :: bytes
  nttv1_TransceiverMessage_RecipientManagerAddress :: bytes
  nttv1_TransceiverMessage_ManagerPayload :: bytes
  nttv1_TransceiverMessage_TransceiverPayload :: bytes
  nttv1_TransceiverMessage_unknownFields :: bytes

definition nttv1_TransceiverMessage_size :: "wire_runtime \<Rightarrow> nttv1_TransceiverMessage \<Rightarrow> nat" where
  "nttv1_TransceiverMessage_size rt x =
     size_delimited rt (nttv1_TransceiverMessage_SourceManagerAddress x) +
     size_delimited rt (nttv1_TransceiverMessage_RecipientManagerAddress x) +
     size_delimited rt (nttv1_TransceiverMessage_ManagerPayload x) +
     size_delimited rt (nttv1_TransceiverMessage_TransceiverPayload x) +
     length (nttv1_TransceiverMessage_unknownFields x)"

definition nttv1_TransceiverMessage_marshal :: "wire_runtime \<Rightarrow> nttv1_TransceiverMessage \<Rightarrow> bytes result" where
  "nttv1_TransceiverMessage_marshal rt x =
     obind (put (nttv1_TransceiverMessage_unknownFields x) (nttv1_TransceiverMessage_size rt x, [])) (\<lambda>b.
     obind (put_delimited rt 0x22 (nttv1_TransceiverMessage_TransceiverPayload x) b) (\<lambda>b.
     obind (put_delimited rt 0x1A (nttv1_TransceiverMessage_ManagerPayload x) b) (\<lambda>b.
     obind (put_delimited rt 0x12 (nttv1_TransceiverMessage_RecipientManagerAddress x) b) (\<lambda>b.
     obind (put_delimited rt 0xA (nttv1_TransceiverMessage_SourceManagerAddress x) b) (\<lambda>b.
     Ok (buffer_bytes b))))))"

definition nttv1_TransceiverMessage_field ::
    "int \<Rightarrow> int \<Rightarrow> nttv1_TransceiverMessage \<Rightarrow> nat \<Rightarrow> bytes \<Rightarrow> (nttv1_TransceiverMessage \<times> nat) result option" where
  "nttv1_TransceiverMessage_field fieldNum wireType x i bs =
     (if fieldNum = 1 then Some (bytes_field wireType i (\<lambda>v. x\<lparr>nttv1_TransceiverMessage_SourceManagerAddress := v\<rparr>) bs)
      else if fieldNum = 2 then Some (bytes_field wireType i (\<lambda>v. x\<lparr>nttv1_TransceiverMessage_RecipientManagerAddress := v\<rparr>) bs)
      else if fieldNum = 3 then Some (bytes_field wireType i (\<lambda>v. x\<lparr>nttv1_TransceiverMessage_ManagerPayload := v\<rparr>) bs)
      else if fieldNum = 4 then Some (bytes_field wireType i (\<lambda>v. x\<lparr>nttv1_TransceiverMessage_TransceiverPayload := v\<rparr>) bs)
      else None)"

definition nttv1_TransceiverMessage_unmarshal :: "wire_runtime \<Rightarrow> bool \<Rightarrow> bytes \<Rightarrow> nttv1_TransceiverMessage result option" where
  "nttv1_TransceiverMessage_unmarshal rt discardUnknown bs =
     read_fields (Skip rt) nttv1_TransceiverMessage_field
       (\<lambda>u x. if discardUnknown then x else x\<lparr>nttv1_TransceiverMessage_unknownFields := nttv1_TransceiverMessage_unknownFields x @ u\<rparr>)
       \<lparr>nttv1_TransceiverMessage_SourceManagerAddress = [], nttv1_TransceiverMessage_RecipientManagerAddress = [], nttv1_TransceiverMessage_ManagerPayload = [], nttv1_TransceiverMessage_TransceiverPayload = [], nttv1_TransceiverMessage_unknownFields = []\<rparr> 0 bs"

lemma nttv1_TransceiverMessage_written:
  assumes "varint_runtime rt" "nttv1_TransceiverMessage_unknownFields x = []"
  shows "writes (nttv1_TransceiverMessage_marshal rt x)
    (delimited_bytes rt 0xA (nttv1_TransceiverMessage_SourceManagerAddress x) @
      delimited_bytes rt 0x12 (nttv1_TransceiverMessage_RecipientManagerAddress x) @
      delimited_bytes rt 0x1A (nttv1_TransceiverMessage_ManagerPayload x) @
      delimited_bytes rt 0x22 (nttv1_TransceiverMessage_TransceiverPayload x) @
      [])
    (nttv1_TransceiverMessage_size rt x)"
  by (simp add: writes_def nttv1_TransceiverMessage_marshal_def nttv1_TransceiverMessage_size_def assms wire_puts)

lemma nttv1_TransceiverMessage_exact:
  assumes "varint_runtime rt"
  shows "exact_codec (nttv1_TransceiverMessage_size rt) (nttv1_TransceiverMessage_marshal rt) 
    (nttv1_TransceiverMessage_unmarshal rt' discardUnknown) (\<lambda>x. nttv1_TransceiverMessage_unknownFields x = [])"
  by (rule exact_codecI, rule nttv1_TransceiverMessage_written [OF assms], assumption,
    unfold nttv1_TransceiverMessage_unmarshal_def, erule readsD [rotated],
    (rule reads_bytes [OF assms], rule wire_tags,
        simp add: nttv1_TransceiverMessage_field_def, simp)+, rule reads_done, simp)

lemma nttv1_TransceiverMessage_returns:
  "skip_progress (Skip rt) \<Longrightarrow> \<exists>r. nttv1_TransceiverMessage_unmarshal rt discardUnknown bs = Some r"
  unfolding nttv1_TransceiverMessage_unmarshal_def by (rule read_fields_returns)

subsection \<open>The codecs together\<close>

lemmas api_data_exact =
  dollarv1_Stats_exact vaultsv1_PositionRewards_exact nttv1_ManagerMessage_exact
  nttv1_NativeTokenTransfer_exact nttv1_TransceiverMessage_exact

lemmas api_data_returns =
  dollarv1_Stats_returns vaultsv1_PositionRewards_returns nttv1_ManagerMessage_returns
  nttv1_NativeTokenTransfer_returns nttv1_TransceiverMessage_returns

end
