(* ===== verification/Codec_Data.thy ===== *)
theory Codec_Data
  imports Api_Data
begin

text \<open>
  The values the module stores or sends, as it writes them: \<open>types/**/dollar.pb.go\<close>,
  \<open>types/portal/portal.pb.go\<close>, \<open>types/vaults/vaults.pb.go\<close> and \<open>types/portal/ntt/*.pb.go\<close>. The lemmas
  \<open>_answered\<close> say that the client API reads what the chain writes.
\<close>

subsection \<open>Stats (types)\<close>

text \<open>\<open>Stats\<close> of \<open>types/dollar.pb.go\<close>.\<close>

record types_Stats =
  types_Stats_TotalHolders :: "64 word"
  types_Stats_TotalPrincipal :: "int option"
  types_Stats_TotalYieldAccrued :: "int option"

definition types_Stats_Size :: "custom \<Rightarrow> types_Stats \<Rightarrow> nat" where
  "types_Stats_Size ic x =
     size_varint gogo_runtime (types_Stats_TotalHolders x) +
     size_custom (Custom_Marshal ic (types_Stats_TotalPrincipal x)) +
     size_custom (Custom_Marshal ic (types_Stats_TotalYieldAccrued x))"

definition types_Stats_Marshal :: "custom \<Rightarrow> types_Stats \<Rightarrow> bytes result" where
  "types_Stats_Marshal ic x =
     obind (put_custom 0x1A (Custom_Marshal ic (types_Stats_TotalYieldAccrued x)) (types_Stats_Size ic x, [])) (\<lambda>b.
     obind (put_custom 0x12 (Custom_Marshal ic (types_Stats_TotalPrincipal x)) b) (\<lambda>b.
     obind (put_varint gogo_runtime 0x8 (types_Stats_TotalHolders x) b) (\<lambda>b.
     Ok (sized_bytes b))))"

definition types_Stats_field ::
    "custom \<Rightarrow> int \<Rightarrow> int \<Rightarrow> types_Stats \<Rightarrow> nat \<Rightarrow> bytes \<Rightarrow> (types_Stats \<times> nat) result option" where
  "types_Stats_field ic fieldNum wireType x i bs =
     (if fieldNum = 1 then Some (varint_field wireType (\<lambda>v. x\<lparr>types_Stats_TotalHolders := v\<rparr>) bs)
      else if fieldNum = 2 then Some (custom_field wireType i (Custom_Unmarshal ic (types_Stats_TotalPrincipal x)) (\<lambda>v. x\<lparr>types_Stats_TotalPrincipal := v\<rparr>) bs)
      else if fieldNum = 3 then Some (custom_field wireType i (Custom_Unmarshal ic (types_Stats_TotalYieldAccrued x)) (\<lambda>v. x\<lparr>types_Stats_TotalYieldAccrued := v\<rparr>) bs)
      else None)"

definition types_Stats_Unmarshal :: "custom \<Rightarrow> bytes \<Rightarrow> types_Stats result option" where
  "types_Stats_Unmarshal ic bs =
     read_fields (Skip gogo_runtime) (types_Stats_field ic) (\<lambda>u x. x)
       \<lparr>types_Stats_TotalHolders = 0, types_Stats_TotalPrincipal = None, types_Stats_TotalYieldAccrued = None\<rparr> 0 bs"

lemma types_Stats_written:
  assumes "custom_codec ic ok" "given ok (types_Stats_TotalPrincipal x) \<and> given ok (types_Stats_TotalYieldAccrued x)"
  shows "writes (types_Stats_Marshal ic x)
    (varint_bytes gogo_runtime 0x8 (types_Stats_TotalHolders x) @
      delimited_bytes gogo_runtime 0x12 (Custom_Marshal ic (types_Stats_TotalPrincipal x)) @
      delimited_bytes gogo_runtime 0x1A (Custom_Marshal ic (types_Stats_TotalYieldAccrued x)) @
      [])
    (types_Stats_Size ic x)"
  using assms(2) by (simp add: writes_def types_Stats_Marshal_def types_Stats_Size_def wire_puts gogo_varint
    custom_delimited givenD [OF assms(1)])

lemma types_Stats_exact:
  assumes "custom_codec ic ok"
  shows "exact_codec (types_Stats_Size ic) (types_Stats_Marshal ic) (types_Stats_Unmarshal ic)
    (\<lambda>x. given ok (types_Stats_TotalPrincipal x) \<and> given ok (types_Stats_TotalYieldAccrued x))"
  by (rule exact_codecI, rule types_Stats_written [OF assms], assumption,
    unfold types_Stats_Unmarshal_def, erule readsD [rotated],
    ((rule reads_varint [OF gogo_varint], rule wire_tags, simp add: types_Stats_field_def, simp) |
      (rule reads_delimited [OF gogo_varint], rule wire_tags, simp add: types_Stats_field_def, simp add: givenD [OF assms], simp add: givenD [OF assms]))+, rule reads_done, simp)

lemma types_Stats_returns: "\<exists>r. types_Stats_Unmarshal ic bs = Some r"
  unfolding types_Stats_Unmarshal_def by (rule read_fields_returns [OF gogo_skip])

lemma types_Stats_answered:
  assumes "custom_codec ic ok" "given ok (types_Stats_TotalPrincipal x) \<and> given ok (types_Stats_TotalYieldAccrued x)" "types_Stats_Size ic x < 2 ^ 63"
  shows "\<exists>bs. types_Stats_Marshal ic x = Ok bs \<and> dollarv1_Stats_unmarshal rt discardUnknown bs = Some (Ok
     \<lparr>dollarv1_Stats_TotalHolders = types_Stats_TotalHolders x,
      dollarv1_Stats_TotalPrincipal = Custom_Marshal ic (types_Stats_TotalPrincipal x),
      dollarv1_Stats_TotalYieldAccrued = Custom_Marshal ic (types_Stats_TotalYieldAccrued x),
      dollarv1_Stats_unknownFields = []\<rparr>)"
  by (rule codec_readsI [OF types_Stats_written [OF assms(1,2)] assms(3)],
    unfold dollarv1_Stats_unmarshal_def, erule readsD [rotated],
    (rule reads_varint [OF gogo_varint] reads_bytes [OF gogo_varint], rule wire_tags, simp add: dollarv1_Stats_field_def, simp)+, rule reads_done, simp)

subsection \<open>Stats (v2)\<close>

text \<open>\<open>Stats\<close> of \<open>types/v2/dollar.pb.go\<close>.\<close>

record v2_Stats =
  v2_Stats_TotalHolders :: "64 word"
  v2_Stats_TotalPrincipal :: "int option"
  v2_Stats_TotalYieldAccrued :: "int option"

definition v2_Stats_Size :: "custom \<Rightarrow> v2_Stats \<Rightarrow> nat" where
  "v2_Stats_Size ic x =
     size_varint gogo_runtime (v2_Stats_TotalHolders x) +
     size_custom (Custom_Marshal ic (v2_Stats_TotalPrincipal x)) +
     size_custom (Custom_Marshal ic (v2_Stats_TotalYieldAccrued x))"

definition v2_Stats_Marshal :: "custom \<Rightarrow> v2_Stats \<Rightarrow> bytes result" where
  "v2_Stats_Marshal ic x =
     obind (put_custom 0x1A (Custom_Marshal ic (v2_Stats_TotalYieldAccrued x)) (v2_Stats_Size ic x, [])) (\<lambda>b.
     obind (put_custom 0x12 (Custom_Marshal ic (v2_Stats_TotalPrincipal x)) b) (\<lambda>b.
     obind (put_varint gogo_runtime 0x8 (v2_Stats_TotalHolders x) b) (\<lambda>b.
     Ok (sized_bytes b))))"

definition v2_Stats_field ::
    "custom \<Rightarrow> int \<Rightarrow> int \<Rightarrow> v2_Stats \<Rightarrow> nat \<Rightarrow> bytes \<Rightarrow> (v2_Stats \<times> nat) result option" where
  "v2_Stats_field ic fieldNum wireType x i bs =
     (if fieldNum = 1 then Some (varint_field wireType (\<lambda>v. x\<lparr>v2_Stats_TotalHolders := v\<rparr>) bs)
      else if fieldNum = 2 then Some (custom_field wireType i (Custom_Unmarshal ic (v2_Stats_TotalPrincipal x)) (\<lambda>v. x\<lparr>v2_Stats_TotalPrincipal := v\<rparr>) bs)
      else if fieldNum = 3 then Some (custom_field wireType i (Custom_Unmarshal ic (v2_Stats_TotalYieldAccrued x)) (\<lambda>v. x\<lparr>v2_Stats_TotalYieldAccrued := v\<rparr>) bs)
      else None)"

definition v2_Stats_Unmarshal :: "custom \<Rightarrow> bytes \<Rightarrow> v2_Stats result option" where
  "v2_Stats_Unmarshal ic bs =
     read_fields (Skip gogo_runtime) (v2_Stats_field ic) (\<lambda>u x. x)
       \<lparr>v2_Stats_TotalHolders = 0, v2_Stats_TotalPrincipal = None, v2_Stats_TotalYieldAccrued = None\<rparr> 0 bs"

lemma v2_Stats_written:
  assumes "custom_codec ic ok" "given ok (v2_Stats_TotalPrincipal x) \<and> given ok (v2_Stats_TotalYieldAccrued x)"
  shows "writes (v2_Stats_Marshal ic x)
    (varint_bytes gogo_runtime 0x8 (v2_Stats_TotalHolders x) @
      delimited_bytes gogo_runtime 0x12 (Custom_Marshal ic (v2_Stats_TotalPrincipal x)) @
      delimited_bytes gogo_runtime 0x1A (Custom_Marshal ic (v2_Stats_TotalYieldAccrued x)) @
      [])
    (v2_Stats_Size ic x)"
  using assms(2) by (simp add: writes_def v2_Stats_Marshal_def v2_Stats_Size_def wire_puts gogo_varint
    custom_delimited givenD [OF assms(1)])

lemma v2_Stats_exact:
  assumes "custom_codec ic ok"
  shows "exact_codec (v2_Stats_Size ic) (v2_Stats_Marshal ic) (v2_Stats_Unmarshal ic)
    (\<lambda>x. given ok (v2_Stats_TotalPrincipal x) \<and> given ok (v2_Stats_TotalYieldAccrued x))"
  by (rule exact_codecI, rule v2_Stats_written [OF assms], assumption,
    unfold v2_Stats_Unmarshal_def, erule readsD [rotated],
    ((rule reads_varint [OF gogo_varint], rule wire_tags, simp add: v2_Stats_field_def, simp) |
      (rule reads_delimited [OF gogo_varint], rule wire_tags, simp add: v2_Stats_field_def, simp add: givenD [OF assms], simp add: givenD [OF assms]))+, rule reads_done, simp)

lemma v2_Stats_returns: "\<exists>r. v2_Stats_Unmarshal ic bs = Some r"
  unfolding v2_Stats_Unmarshal_def by (rule read_fields_returns [OF gogo_skip])

lemma v2_Stats_answered:
  assumes "custom_codec ic ok" "given ok (v2_Stats_TotalPrincipal x) \<and> given ok (v2_Stats_TotalYieldAccrued x)" "v2_Stats_Size ic x < 2 ^ 63"
  shows "\<exists>bs. v2_Stats_Marshal ic x = Ok bs \<and> dollarv2_Stats_unmarshal rt discardUnknown bs = Some (Ok
     \<lparr>dv2_TotalHolders = v2_Stats_TotalHolders x,
      dv2_TotalPrincipal = Custom_Marshal ic (v2_Stats_TotalPrincipal x),
      dv2_TotalYieldAccrued = Custom_Marshal ic (v2_Stats_TotalYieldAccrued x),
      dv2_unknownFields = []\<rparr>)"
  by (rule codec_readsI [OF v2_Stats_written [OF assms(1,2)] assms(3)],
    unfold dollarv2_Stats_unmarshal_def, erule readsD [rotated],
    (rule reads_varint [OF gogo_varint] reads_bytes [OF gogo_varint], rule wire_tags, simp add: dollarv2_Stats_field_def, simp)+, rule reads_done, simp)

subsection \<open>Peer (portal)\<close>

text \<open>\<open>Peer\<close> of \<open>types/portal/portal.pb.go\<close>.\<close>

record portal_Peer =
  portal_Peer_Transceiver :: bytes
  portal_Peer_Manager :: bytes

definition portal_Peer_Size :: "portal_Peer \<Rightarrow> nat" where
  "portal_Peer_Size x =
     size_delimited gogo_runtime (portal_Peer_Transceiver x) +
     size_delimited gogo_runtime (portal_Peer_Manager x)"

definition portal_Peer_Marshal :: "portal_Peer \<Rightarrow> bytes result" where
  "portal_Peer_Marshal x =
     obind (put_delimited gogo_runtime 0x12 (portal_Peer_Manager x) (portal_Peer_Size x, [])) (\<lambda>b.
     obind (put_delimited gogo_runtime 0xA (portal_Peer_Transceiver x) b) (\<lambda>b.
     Ok (sized_bytes b)))"

definition portal_Peer_field ::
    "int \<Rightarrow> int \<Rightarrow> portal_Peer \<Rightarrow> nat \<Rightarrow> bytes \<Rightarrow> (portal_Peer \<times> nat) result option" where
  "portal_Peer_field fieldNum wireType x i bs =
     (if fieldNum = 1 then Some (bytes_field wireType i (\<lambda>v. x\<lparr>portal_Peer_Transceiver := v\<rparr>) bs)
      else if fieldNum = 2 then Some (bytes_field wireType i (\<lambda>v. x\<lparr>portal_Peer_Manager := v\<rparr>) bs)
      else None)"

definition portal_Peer_Unmarshal :: "bytes \<Rightarrow> portal_Peer result option" where
  "portal_Peer_Unmarshal bs =
     read_fields (Skip gogo_runtime) portal_Peer_field (\<lambda>u x. x)
       \<lparr>portal_Peer_Transceiver = [], portal_Peer_Manager = []\<rparr> 0 bs"

lemma portal_Peer_written:
  shows "writes (portal_Peer_Marshal x)
    (delimited_bytes gogo_runtime 0xA (portal_Peer_Transceiver x) @
      delimited_bytes gogo_runtime 0x12 (portal_Peer_Manager x) @
      [])
    (portal_Peer_Size x)"
  by (simp add: writes_def portal_Peer_Marshal_def portal_Peer_Size_def wire_puts gogo_varint)

lemma portal_Peer_exact:
  shows "exact_codec (portal_Peer_Size) (portal_Peer_Marshal) (portal_Peer_Unmarshal)
    (\<lambda>x. True)"
  by (rule exact_codecI, rule portal_Peer_written,
    unfold portal_Peer_Unmarshal_def, erule readsD [rotated],
    (rule reads_bytes [OF gogo_varint], rule wire_tags, simp add: portal_Peer_field_def, simp)+, rule reads_done, simp)

lemma portal_Peer_returns: "\<exists>r. portal_Peer_Unmarshal bs = Some r"
  unfolding portal_Peer_Unmarshal_def by (rule read_fields_returns [OF gogo_skip])

lemma portal_Peer_answered:
  assumes "portal_Peer_Size x < 2 ^ 63"
  shows "\<exists>bs. portal_Peer_Marshal x = Ok bs \<and> portalv1_Peer_unmarshal rt discardUnknown bs = Some (Ok
     \<lparr>pv1_Transceiver = portal_Peer_Transceiver x,
      pv1_Manager = portal_Peer_Manager x,
      pv1_unknownFields = []\<rparr>)"
  by (rule codec_readsI [OF portal_Peer_written assms(1)],
    unfold portalv1_Peer_unmarshal_def, erule readsD [rotated],
    (rule reads_bytes [OF gogo_varint], rule wire_tags, simp add: portalv1_Peer_field_def, simp)+, rule reads_done, simp)

subsection \<open>BridgingPath (portal)\<close>

text \<open>\<open>BridgingPath\<close> of \<open>types/portal/portal.pb.go\<close>.\<close>

record portal_BridgingPath =
  portal_BridgingPath_DestinationChainId :: "16 word"
  portal_BridgingPath_DestinationToken :: bytes

definition portal_BridgingPath_Size :: "portal_BridgingPath \<Rightarrow> nat" where
  "portal_BridgingPath_Size x =
     size_varint gogo_runtime (ucast (portal_BridgingPath_DestinationChainId x)) +
     size_delimited gogo_runtime (portal_BridgingPath_DestinationToken x)"

definition portal_BridgingPath_Marshal :: "portal_BridgingPath \<Rightarrow> bytes result" where
  "portal_BridgingPath_Marshal x =
     obind (put_delimited gogo_runtime 0x12 (portal_BridgingPath_DestinationToken x) (portal_BridgingPath_Size x, [])) (\<lambda>b.
     obind (put_varint gogo_runtime 0x8 (ucast (portal_BridgingPath_DestinationChainId x)) b) (\<lambda>b.
     Ok (sized_bytes b)))"

definition portal_BridgingPath_field ::
    "int \<Rightarrow> int \<Rightarrow> portal_BridgingPath \<Rightarrow> nat \<Rightarrow> bytes \<Rightarrow> (portal_BridgingPath \<times> nat) result option" where
  "portal_BridgingPath_field fieldNum wireType x i bs =
     (if fieldNum = 1 then Some (varint_field wireType (\<lambda>v. x\<lparr>portal_BridgingPath_DestinationChainId := v\<rparr>) bs)
      else if fieldNum = 2 then Some (bytes_field wireType i (\<lambda>v. x\<lparr>portal_BridgingPath_DestinationToken := v\<rparr>) bs)
      else None)"

definition portal_BridgingPath_Unmarshal :: "bytes \<Rightarrow> portal_BridgingPath result option" where
  "portal_BridgingPath_Unmarshal bs =
     read_fields (Skip gogo_runtime) portal_BridgingPath_field (\<lambda>u x. x)
       \<lparr>portal_BridgingPath_DestinationChainId = 0, portal_BridgingPath_DestinationToken = []\<rparr> 0 bs"

lemma portal_BridgingPath_written:
  shows "writes (portal_BridgingPath_Marshal x)
    (varint_bytes gogo_runtime 0x8 (ucast (portal_BridgingPath_DestinationChainId x)) @
      delimited_bytes gogo_runtime 0x12 (portal_BridgingPath_DestinationToken x) @
      [])
    (portal_BridgingPath_Size x)"
  by (simp add: writes_def portal_BridgingPath_Marshal_def portal_BridgingPath_Size_def wire_puts gogo_varint)

lemma portal_BridgingPath_exact:
  shows "exact_codec (portal_BridgingPath_Size) (portal_BridgingPath_Marshal) (portal_BridgingPath_Unmarshal)
    (\<lambda>x. True)"
  by (rule exact_codecI, rule portal_BridgingPath_written,
    unfold portal_BridgingPath_Unmarshal_def, erule readsD [rotated],
    (rule reads_varint16 [OF gogo_varint] reads_bytes [OF gogo_varint], rule wire_tags, simp add: portal_BridgingPath_field_def, simp)+, rule reads_done, simp)

lemma portal_BridgingPath_returns: "\<exists>r. portal_BridgingPath_Unmarshal bs = Some r"
  unfolding portal_BridgingPath_Unmarshal_def by (rule read_fields_returns [OF gogo_skip])

lemma portal_BridgingPath_answered:
  assumes "portal_BridgingPath_Size x < 2 ^ 63"
  shows "\<exists>bs. portal_BridgingPath_Marshal x = Ok bs \<and> portalv1_BridgingPath_unmarshal rt discardUnknown bs = Some (Ok
     \<lparr>pv1b_DestinationChainId = ucast (portal_BridgingPath_DestinationChainId x),
      pv1b_DestinationToken = portal_BridgingPath_DestinationToken x,
      pv1b_unknownFields = []\<rparr>)"
  by (rule codec_readsI [OF portal_BridgingPath_written assms(1)],
    unfold portalv1_BridgingPath_unmarshal_def, erule readsD [rotated],
    (rule reads_varint32 [OF gogo_varint] reads_bytes [OF gogo_varint], rule wire_tags, simp add: portalv1_BridgingPath_field_def, simp)+, rule reads_done, simp)

subsection \<open>Reward (vaults)\<close>

text \<open>\<open>Reward\<close> of \<open>types/vaults/vaults.pb.go\<close>.\<close>

record vaults_Reward =
  vaults_Reward_Index :: "64 word"
  vaults_Reward_Total :: "int option"
  vaults_Reward_Rewards :: "int option"

definition vaults_Reward_Size :: "custom \<Rightarrow> vaults_Reward \<Rightarrow> nat" where
  "vaults_Reward_Size ic x =
     size_varint gogo_runtime (vaults_Reward_Index x) +
     size_custom (Custom_Marshal ic (vaults_Reward_Total x)) +
     size_custom (Custom_Marshal ic (vaults_Reward_Rewards x))"

definition vaults_Reward_Marshal :: "custom \<Rightarrow> vaults_Reward \<Rightarrow> bytes result" where
  "vaults_Reward_Marshal ic x =
     obind (put_custom 0x1A (Custom_Marshal ic (vaults_Reward_Rewards x)) (vaults_Reward_Size ic x, [])) (\<lambda>b.
     obind (put_custom 0x12 (Custom_Marshal ic (vaults_Reward_Total x)) b) (\<lambda>b.
     obind (put_varint gogo_runtime 0x8 (vaults_Reward_Index x) b) (\<lambda>b.
     Ok (sized_bytes b))))"

definition vaults_Reward_field ::
    "custom \<Rightarrow> int \<Rightarrow> int \<Rightarrow> vaults_Reward \<Rightarrow> nat \<Rightarrow> bytes \<Rightarrow> (vaults_Reward \<times> nat) result option" where
  "vaults_Reward_field ic fieldNum wireType x i bs =
     (if fieldNum = 1 then Some (varint_field wireType (\<lambda>v. x\<lparr>vaults_Reward_Index := v\<rparr>) bs)
      else if fieldNum = 2 then Some (custom_field wireType i (Custom_Unmarshal ic (vaults_Reward_Total x)) (\<lambda>v. x\<lparr>vaults_Reward_Total := v\<rparr>) bs)
      else if fieldNum = 3 then Some (custom_field wireType i (Custom_Unmarshal ic (vaults_Reward_Rewards x)) (\<lambda>v. x\<lparr>vaults_Reward_Rewards := v\<rparr>) bs)
      else None)"

definition vaults_Reward_Unmarshal :: "custom \<Rightarrow> bytes \<Rightarrow> vaults_Reward result option" where
  "vaults_Reward_Unmarshal ic bs =
     read_fields (Skip gogo_runtime) (vaults_Reward_field ic) (\<lambda>u x. x)
       \<lparr>vaults_Reward_Index = 0, vaults_Reward_Total = None, vaults_Reward_Rewards = None\<rparr> 0 bs"

lemma vaults_Reward_written:
  assumes "custom_codec ic ok" "given ok (vaults_Reward_Total x) \<and> given ok (vaults_Reward_Rewards x)"
  shows "writes (vaults_Reward_Marshal ic x)
    (varint_bytes gogo_runtime 0x8 (vaults_Reward_Index x) @
      delimited_bytes gogo_runtime 0x12 (Custom_Marshal ic (vaults_Reward_Total x)) @
      delimited_bytes gogo_runtime 0x1A (Custom_Marshal ic (vaults_Reward_Rewards x)) @
      [])
    (vaults_Reward_Size ic x)"
  using assms(2) by (simp add: writes_def vaults_Reward_Marshal_def vaults_Reward_Size_def wire_puts gogo_varint
    custom_delimited givenD [OF assms(1)])

lemma vaults_Reward_exact:
  assumes "custom_codec ic ok"
  shows "exact_codec (vaults_Reward_Size ic) (vaults_Reward_Marshal ic) (vaults_Reward_Unmarshal ic)
    (\<lambda>x. given ok (vaults_Reward_Total x) \<and> given ok (vaults_Reward_Rewards x))"
  by (rule exact_codecI, rule vaults_Reward_written [OF assms], assumption,
    unfold vaults_Reward_Unmarshal_def, erule readsD [rotated],
    ((rule reads_varint [OF gogo_varint], rule wire_tags, simp add: vaults_Reward_field_def, simp) |
      (rule reads_delimited [OF gogo_varint], rule wire_tags, simp add: vaults_Reward_field_def, simp add: givenD [OF assms], simp add: givenD [OF assms]))+, rule reads_done, simp)

lemma vaults_Reward_returns: "\<exists>r. vaults_Reward_Unmarshal ic bs = Some r"
  unfolding vaults_Reward_Unmarshal_def by (rule read_fields_returns [OF gogo_skip])

lemma vaults_Reward_answered:
  assumes "custom_codec ic ok" "given ok (vaults_Reward_Total x) \<and> given ok (vaults_Reward_Rewards x)" "vaults_Reward_Size ic x < 2 ^ 63"
  shows "\<exists>bs. vaults_Reward_Marshal ic x = Ok bs \<and> vaultsv1_Reward_unmarshal rt discardUnknown bs = Some (Ok
     \<lparr>vv1_Index = vaults_Reward_Index x,
      vv1_Total = Custom_Marshal ic (vaults_Reward_Total x),
      vv1_Rewards = Custom_Marshal ic (vaults_Reward_Rewards x),
      vv1_unknownFields = []\<rparr>)"
  by (rule codec_readsI [OF vaults_Reward_written [OF assms(1,2)] assms(3)],
    unfold vaultsv1_Reward_unmarshal_def, erule readsD [rotated],
    (rule reads_varint [OF gogo_varint] reads_bytes [OF gogo_varint], rule wire_tags, simp add: vaultsv1_Reward_field_def, simp)+, rule reads_done, simp)

subsection \<open>PositionRewards (vaults)\<close>

text \<open>\<open>PositionRewards\<close> of \<open>types/vaults/vaults.pb.go\<close>.\<close>

record vaults_PositionRewards =
  vaults_PositionRewards_Amount :: "int option"
  vaults_PositionRewards_PendingRewards :: "int option"

definition vaults_PositionRewards_Size :: "custom \<Rightarrow> vaults_PositionRewards \<Rightarrow> nat" where
  "vaults_PositionRewards_Size ic x =
     size_custom (Custom_Marshal ic (vaults_PositionRewards_Amount x)) +
     size_custom (Custom_Marshal ic (vaults_PositionRewards_PendingRewards x))"

definition vaults_PositionRewards_Marshal :: "custom \<Rightarrow> vaults_PositionRewards \<Rightarrow> bytes result" where
  "vaults_PositionRewards_Marshal ic x =
     obind (put_custom 0x12 (Custom_Marshal ic (vaults_PositionRewards_PendingRewards x)) (vaults_PositionRewards_Size ic x, [])) (\<lambda>b.
     obind (put_custom 0xA (Custom_Marshal ic (vaults_PositionRewards_Amount x)) b) (\<lambda>b.
     Ok (sized_bytes b)))"

definition vaults_PositionRewards_field ::
    "custom \<Rightarrow> int \<Rightarrow> int \<Rightarrow> vaults_PositionRewards \<Rightarrow> nat \<Rightarrow> bytes \<Rightarrow> (vaults_PositionRewards \<times> nat) result option" where
  "vaults_PositionRewards_field ic fieldNum wireType x i bs =
     (if fieldNum = 1 then Some (custom_field wireType i (Custom_Unmarshal ic (vaults_PositionRewards_Amount x)) (\<lambda>v. x\<lparr>vaults_PositionRewards_Amount := v\<rparr>) bs)
      else if fieldNum = 2 then Some (custom_field wireType i (Custom_Unmarshal ic (vaults_PositionRewards_PendingRewards x)) (\<lambda>v. x\<lparr>vaults_PositionRewards_PendingRewards := v\<rparr>) bs)
      else None)"

definition vaults_PositionRewards_Unmarshal :: "custom \<Rightarrow> bytes \<Rightarrow> vaults_PositionRewards result option" where
  "vaults_PositionRewards_Unmarshal ic bs =
     read_fields (Skip gogo_runtime) (vaults_PositionRewards_field ic) (\<lambda>u x. x)
       \<lparr>vaults_PositionRewards_Amount = None, vaults_PositionRewards_PendingRewards = None\<rparr> 0 bs"

lemma vaults_PositionRewards_written:
  assumes "custom_codec ic ok" "given ok (vaults_PositionRewards_Amount x) \<and> given ok (vaults_PositionRewards_PendingRewards x)"
  shows "writes (vaults_PositionRewards_Marshal ic x)
    (delimited_bytes gogo_runtime 0xA (Custom_Marshal ic (vaults_PositionRewards_Amount x)) @
      delimited_bytes gogo_runtime 0x12 (Custom_Marshal ic (vaults_PositionRewards_PendingRewards x)) @
      [])
    (vaults_PositionRewards_Size ic x)"
  using assms(2) by (simp add: writes_def vaults_PositionRewards_Marshal_def vaults_PositionRewards_Size_def wire_puts gogo_varint
    custom_delimited givenD [OF assms(1)])

lemma vaults_PositionRewards_exact:
  assumes "custom_codec ic ok"
  shows "exact_codec (vaults_PositionRewards_Size ic) (vaults_PositionRewards_Marshal ic) (vaults_PositionRewards_Unmarshal ic)
    (\<lambda>x. given ok (vaults_PositionRewards_Amount x) \<and> given ok (vaults_PositionRewards_PendingRewards x))"
  by (rule exact_codecI, rule vaults_PositionRewards_written [OF assms], assumption,
    unfold vaults_PositionRewards_Unmarshal_def, erule readsD [rotated],
    (rule reads_delimited [OF gogo_varint], rule wire_tags, simp add: vaults_PositionRewards_field_def, simp add: givenD [OF assms], simp add: givenD [OF assms])+, rule reads_done, simp)

lemma vaults_PositionRewards_returns: "\<exists>r. vaults_PositionRewards_Unmarshal ic bs = Some r"
  unfolding vaults_PositionRewards_Unmarshal_def by (rule read_fields_returns [OF gogo_skip])

lemma vaults_PositionRewards_answered:
  assumes "custom_codec ic ok" "given ok (vaults_PositionRewards_Amount x) \<and> given ok (vaults_PositionRewards_PendingRewards x)" "vaults_PositionRewards_Size ic x < 2 ^ 63"
  shows "\<exists>bs. vaults_PositionRewards_Marshal ic x = Ok bs \<and> vaultsv1_PositionRewards_unmarshal rt discardUnknown bs = Some (Ok
     \<lparr>vaultsv1_PositionRewards_Amount = Custom_Marshal ic (vaults_PositionRewards_Amount x),
      vaultsv1_PositionRewards_PendingRewards = Custom_Marshal ic (vaults_PositionRewards_PendingRewards x),
      vaultsv1_PositionRewards_unknownFields = []\<rparr>)"
  by (rule codec_readsI [OF vaults_PositionRewards_written [OF assms(1,2)] assms(3)],
    unfold vaultsv1_PositionRewards_unmarshal_def, erule readsD [rotated],
    (rule reads_bytes [OF gogo_varint], rule wire_tags, simp add: vaultsv1_PositionRewards_field_def, simp)+, rule reads_done, simp)

subsection \<open>Stats (vaults)\<close>

text \<open>\<open>Stats\<close> of \<open>types/vaults/vaults.pb.go\<close>.\<close>

record vaults_Stats =
  vaults_Stats_FlexibleTotalPrincipal :: "int option"
  vaults_Stats_FlexibleTotalUsers :: "64 word"
  vaults_Stats_FlexibleTotalDistributedRewardsPrincipal :: "int option"
  vaults_Stats_StakedTotalPrincipal :: "int option"
  vaults_Stats_StakedTotalUsers :: "64 word"

definition vaults_Stats_Size :: "custom \<Rightarrow> vaults_Stats \<Rightarrow> nat" where
  "vaults_Stats_Size ic x =
     size_custom (Custom_Marshal ic (vaults_Stats_FlexibleTotalPrincipal x)) +
     size_varint gogo_runtime (vaults_Stats_FlexibleTotalUsers x) +
     size_custom (Custom_Marshal ic (vaults_Stats_FlexibleTotalDistributedRewardsPrincipal x)) +
     size_custom (Custom_Marshal ic (vaults_Stats_StakedTotalPrincipal x)) +
     size_varint gogo_runtime (vaults_Stats_StakedTotalUsers x)"

definition vaults_Stats_Marshal :: "custom \<Rightarrow> vaults_Stats \<Rightarrow> bytes result" where
  "vaults_Stats_Marshal ic x =
     obind (put_varint gogo_runtime 0x28 (vaults_Stats_StakedTotalUsers x) (vaults_Stats_Size ic x, [])) (\<lambda>b.
     obind (put_custom 0x22 (Custom_Marshal ic (vaults_Stats_StakedTotalPrincipal x)) b) (\<lambda>b.
     obind (put_custom 0x1A (Custom_Marshal ic (vaults_Stats_FlexibleTotalDistributedRewardsPrincipal x)) b) (\<lambda>b.
     obind (put_varint gogo_runtime 0x10 (vaults_Stats_FlexibleTotalUsers x) b) (\<lambda>b.
     obind (put_custom 0xA (Custom_Marshal ic (vaults_Stats_FlexibleTotalPrincipal x)) b) (\<lambda>b.
     Ok (sized_bytes b))))))"

definition vaults_Stats_field ::
    "custom \<Rightarrow> int \<Rightarrow> int \<Rightarrow> vaults_Stats \<Rightarrow> nat \<Rightarrow> bytes \<Rightarrow> (vaults_Stats \<times> nat) result option" where
  "vaults_Stats_field ic fieldNum wireType x i bs =
     (if fieldNum = 1 then Some (custom_field wireType i (Custom_Unmarshal ic (vaults_Stats_FlexibleTotalPrincipal x)) (\<lambda>v. x\<lparr>vaults_Stats_FlexibleTotalPrincipal := v\<rparr>) bs)
      else if fieldNum = 2 then Some (varint_field wireType (\<lambda>v. x\<lparr>vaults_Stats_FlexibleTotalUsers := v\<rparr>) bs)
      else if fieldNum = 3 then Some (custom_field wireType i (Custom_Unmarshal ic (vaults_Stats_FlexibleTotalDistributedRewardsPrincipal x)) (\<lambda>v. x\<lparr>vaults_Stats_FlexibleTotalDistributedRewardsPrincipal := v\<rparr>) bs)
      else if fieldNum = 4 then Some (custom_field wireType i (Custom_Unmarshal ic (vaults_Stats_StakedTotalPrincipal x)) (\<lambda>v. x\<lparr>vaults_Stats_StakedTotalPrincipal := v\<rparr>) bs)
      else if fieldNum = 5 then Some (varint_field wireType (\<lambda>v. x\<lparr>vaults_Stats_StakedTotalUsers := v\<rparr>) bs)
      else None)"

definition vaults_Stats_Unmarshal :: "custom \<Rightarrow> bytes \<Rightarrow> vaults_Stats result option" where
  "vaults_Stats_Unmarshal ic bs =
     read_fields (Skip gogo_runtime) (vaults_Stats_field ic) (\<lambda>u x. x)
       \<lparr>vaults_Stats_FlexibleTotalPrincipal = None, vaults_Stats_FlexibleTotalUsers = 0, vaults_Stats_FlexibleTotalDistributedRewardsPrincipal = None, vaults_Stats_StakedTotalPrincipal = None, vaults_Stats_StakedTotalUsers = 0\<rparr> 0 bs"

lemma vaults_Stats_written:
  assumes "custom_codec ic ok" "given ok (vaults_Stats_FlexibleTotalPrincipal x) \<and> given ok (vaults_Stats_FlexibleTotalDistributedRewardsPrincipal x) \<and> given ok (vaults_Stats_StakedTotalPrincipal x)"
  shows "writes (vaults_Stats_Marshal ic x)
    (delimited_bytes gogo_runtime 0xA (Custom_Marshal ic (vaults_Stats_FlexibleTotalPrincipal x)) @
      varint_bytes gogo_runtime 0x10 (vaults_Stats_FlexibleTotalUsers x) @
      delimited_bytes gogo_runtime 0x1A (Custom_Marshal ic (vaults_Stats_FlexibleTotalDistributedRewardsPrincipal x)) @
      delimited_bytes gogo_runtime 0x22 (Custom_Marshal ic (vaults_Stats_StakedTotalPrincipal x)) @
      varint_bytes gogo_runtime 0x28 (vaults_Stats_StakedTotalUsers x) @
      [])
    (vaults_Stats_Size ic x)"
  using assms(2) by (simp add: writes_def vaults_Stats_Marshal_def vaults_Stats_Size_def wire_puts gogo_varint
    custom_delimited givenD [OF assms(1)])

lemma vaults_Stats_exact:
  assumes "custom_codec ic ok"
  shows "exact_codec (vaults_Stats_Size ic) (vaults_Stats_Marshal ic) (vaults_Stats_Unmarshal ic)
    (\<lambda>x. given ok (vaults_Stats_FlexibleTotalPrincipal x) \<and> given ok (vaults_Stats_FlexibleTotalDistributedRewardsPrincipal x) \<and> given ok (vaults_Stats_StakedTotalPrincipal x))"
  by (rule exact_codecI, rule vaults_Stats_written [OF assms], assumption,
    unfold vaults_Stats_Unmarshal_def, erule readsD [rotated],
    ((rule reads_varint [OF gogo_varint], rule wire_tags, simp add: vaults_Stats_field_def, simp) |
      (rule reads_delimited [OF gogo_varint], rule wire_tags, simp add: vaults_Stats_field_def, simp add: givenD [OF assms], simp add: givenD [OF assms]))+, rule reads_done, simp)

lemma vaults_Stats_returns: "\<exists>r. vaults_Stats_Unmarshal ic bs = Some r"
  unfolding vaults_Stats_Unmarshal_def by (rule read_fields_returns [OF gogo_skip])

lemma vaults_Stats_answered:
  assumes "custom_codec ic ok" "given ok (vaults_Stats_FlexibleTotalPrincipal x) \<and> given ok (vaults_Stats_FlexibleTotalDistributedRewardsPrincipal x) \<and> given ok (vaults_Stats_StakedTotalPrincipal x)" "vaults_Stats_Size ic x < 2 ^ 63"
  shows "\<exists>bs. vaults_Stats_Marshal ic x = Ok bs \<and> vaultsv1_Stats_unmarshal rt discardUnknown bs = Some (Ok
     \<lparr>vv1s_FlexibleTotalPrincipal = Custom_Marshal ic (vaults_Stats_FlexibleTotalPrincipal x),
      vv1s_FlexibleTotalUsers = vaults_Stats_FlexibleTotalUsers x,
      vv1s_FlexibleTotalDistributedRewardsPrincipal = Custom_Marshal ic (vaults_Stats_FlexibleTotalDistributedRewardsPrincipal x),
      vv1s_StakedTotalPrincipal = Custom_Marshal ic (vaults_Stats_StakedTotalPrincipal x),
      vv1s_StakedTotalUsers = vaults_Stats_StakedTotalUsers x,
      vv1s_unknownFields = []\<rparr>)"
  by (rule codec_readsI [OF vaults_Stats_written [OF assms(1,2)] assms(3)],
    unfold vaultsv1_Stats_unmarshal_def, erule readsD [rotated],
    (rule reads_bytes [OF gogo_varint] reads_varint [OF gogo_varint], rule wire_tags, simp add: vaultsv1_Stats_field_def, simp)+, rule reads_done, simp)

subsection \<open>ManagerMessage (ntt)\<close>

text \<open>\<open>ManagerMessage\<close> of \<open>types/portal/ntt/manager.pb.go\<close>.\<close>

record ntt_ManagerMessage =
  ntt_ManagerMessage_Id :: bytes
  ntt_ManagerMessage_Sender :: bytes
  ntt_ManagerMessage_Payload :: bytes

definition ntt_ManagerMessage_Size :: "ntt_ManagerMessage \<Rightarrow> nat" where
  "ntt_ManagerMessage_Size x =
     size_delimited gogo_runtime (ntt_ManagerMessage_Id x) +
     size_delimited gogo_runtime (ntt_ManagerMessage_Sender x) +
     size_delimited gogo_runtime (ntt_ManagerMessage_Payload x)"

definition ntt_ManagerMessage_Marshal :: "ntt_ManagerMessage \<Rightarrow> bytes result" where
  "ntt_ManagerMessage_Marshal x =
     obind (put_delimited gogo_runtime 0x1A (ntt_ManagerMessage_Payload x) (ntt_ManagerMessage_Size x, [])) (\<lambda>b.
     obind (put_delimited gogo_runtime 0x12 (ntt_ManagerMessage_Sender x) b) (\<lambda>b.
     obind (put_delimited gogo_runtime 0xA (ntt_ManagerMessage_Id x) b) (\<lambda>b.
     Ok (sized_bytes b))))"

definition ntt_ManagerMessage_field ::
    "int \<Rightarrow> int \<Rightarrow> ntt_ManagerMessage \<Rightarrow> nat \<Rightarrow> bytes \<Rightarrow> (ntt_ManagerMessage \<times> nat) result option" where
  "ntt_ManagerMessage_field fieldNum wireType x i bs =
     (if fieldNum = 1 then Some (bytes_field wireType i (\<lambda>v. x\<lparr>ntt_ManagerMessage_Id := v\<rparr>) bs)
      else if fieldNum = 2 then Some (bytes_field wireType i (\<lambda>v. x\<lparr>ntt_ManagerMessage_Sender := v\<rparr>) bs)
      else if fieldNum = 3 then Some (bytes_field wireType i (\<lambda>v. x\<lparr>ntt_ManagerMessage_Payload := v\<rparr>) bs)
      else None)"

definition ntt_ManagerMessage_Unmarshal :: "bytes \<Rightarrow> ntt_ManagerMessage result option" where
  "ntt_ManagerMessage_Unmarshal bs =
     read_fields (Skip gogo_runtime) ntt_ManagerMessage_field (\<lambda>u x. x)
       \<lparr>ntt_ManagerMessage_Id = [], ntt_ManagerMessage_Sender = [], ntt_ManagerMessage_Payload = []\<rparr> 0 bs"

lemma ntt_ManagerMessage_written:
  shows "writes (ntt_ManagerMessage_Marshal x)
    (delimited_bytes gogo_runtime 0xA (ntt_ManagerMessage_Id x) @
      delimited_bytes gogo_runtime 0x12 (ntt_ManagerMessage_Sender x) @
      delimited_bytes gogo_runtime 0x1A (ntt_ManagerMessage_Payload x) @
      [])
    (ntt_ManagerMessage_Size x)"
  by (simp add: writes_def ntt_ManagerMessage_Marshal_def ntt_ManagerMessage_Size_def wire_puts gogo_varint)

lemma ntt_ManagerMessage_exact:
  shows "exact_codec (ntt_ManagerMessage_Size) (ntt_ManagerMessage_Marshal) (ntt_ManagerMessage_Unmarshal)
    (\<lambda>x. True)"
  by (rule exact_codecI, rule ntt_ManagerMessage_written,
    unfold ntt_ManagerMessage_Unmarshal_def, erule readsD [rotated],
    (rule reads_bytes [OF gogo_varint], rule wire_tags, simp add: ntt_ManagerMessage_field_def, simp)+, rule reads_done, simp)

lemma ntt_ManagerMessage_returns: "\<exists>r. ntt_ManagerMessage_Unmarshal bs = Some r"
  unfolding ntt_ManagerMessage_Unmarshal_def by (rule read_fields_returns [OF gogo_skip])

lemma ntt_ManagerMessage_answered:
  assumes "ntt_ManagerMessage_Size x < 2 ^ 63"
  shows "\<exists>bs. ntt_ManagerMessage_Marshal x = Ok bs \<and> nttv1_ManagerMessage_unmarshal rt discardUnknown bs = Some (Ok
     \<lparr>nttv1_ManagerMessage_Id = ntt_ManagerMessage_Id x,
      nttv1_ManagerMessage_Sender = ntt_ManagerMessage_Sender x,
      nttv1_ManagerMessage_Payload = ntt_ManagerMessage_Payload x,
      nttv1_ManagerMessage_unknownFields = []\<rparr>)"
  by (rule codec_readsI [OF ntt_ManagerMessage_written assms(1)],
    unfold nttv1_ManagerMessage_unmarshal_def, erule readsD [rotated],
    (rule reads_bytes [OF gogo_varint], rule wire_tags, simp add: nttv1_ManagerMessage_field_def, simp)+, rule reads_done, simp)

subsection \<open>NativeTokenTransfer (ntt)\<close>

text \<open>\<open>NativeTokenTransfer\<close> of \<open>types/portal/ntt/ntt.pb.go\<close>.\<close>

record ntt_NativeTokenTransfer =
  ntt_NativeTokenTransfer_Amount :: "64 word"
  ntt_NativeTokenTransfer_SourceToken :: bytes
  ntt_NativeTokenTransfer_To :: bytes
  ntt_NativeTokenTransfer_ToChain :: "16 word"
  ntt_NativeTokenTransfer_AdditionalPayload :: bytes

definition ntt_NativeTokenTransfer_Size :: "ntt_NativeTokenTransfer \<Rightarrow> nat" where
  "ntt_NativeTokenTransfer_Size x =
     size_varint gogo_runtime (ntt_NativeTokenTransfer_Amount x) +
     size_delimited gogo_runtime (ntt_NativeTokenTransfer_SourceToken x) +
     size_delimited gogo_runtime (ntt_NativeTokenTransfer_To x) +
     size_varint gogo_runtime (ucast (ntt_NativeTokenTransfer_ToChain x)) +
     size_delimited gogo_runtime (ntt_NativeTokenTransfer_AdditionalPayload x)"

definition ntt_NativeTokenTransfer_Marshal :: "ntt_NativeTokenTransfer \<Rightarrow> bytes result" where
  "ntt_NativeTokenTransfer_Marshal x =
     obind (put_delimited gogo_runtime 0x2A (ntt_NativeTokenTransfer_AdditionalPayload x) (ntt_NativeTokenTransfer_Size x, [])) (\<lambda>b.
     obind (put_varint gogo_runtime 0x20 (ucast (ntt_NativeTokenTransfer_ToChain x)) b) (\<lambda>b.
     obind (put_delimited gogo_runtime 0x1A (ntt_NativeTokenTransfer_To x) b) (\<lambda>b.
     obind (put_delimited gogo_runtime 0x12 (ntt_NativeTokenTransfer_SourceToken x) b) (\<lambda>b.
     obind (put_varint gogo_runtime 0x8 (ntt_NativeTokenTransfer_Amount x) b) (\<lambda>b.
     Ok (sized_bytes b))))))"

definition ntt_NativeTokenTransfer_field ::
    "int \<Rightarrow> int \<Rightarrow> ntt_NativeTokenTransfer \<Rightarrow> nat \<Rightarrow> bytes \<Rightarrow> (ntt_NativeTokenTransfer \<times> nat) result option" where
  "ntt_NativeTokenTransfer_field fieldNum wireType x i bs =
     (if fieldNum = 1 then Some (varint_field wireType (\<lambda>v. x\<lparr>ntt_NativeTokenTransfer_Amount := v\<rparr>) bs)
      else if fieldNum = 2 then Some (bytes_field wireType i (\<lambda>v. x\<lparr>ntt_NativeTokenTransfer_SourceToken := v\<rparr>) bs)
      else if fieldNum = 3 then Some (bytes_field wireType i (\<lambda>v. x\<lparr>ntt_NativeTokenTransfer_To := v\<rparr>) bs)
      else if fieldNum = 4 then Some (varint_field wireType (\<lambda>v. x\<lparr>ntt_NativeTokenTransfer_ToChain := v\<rparr>) bs)
      else if fieldNum = 5 then Some (bytes_field wireType i (\<lambda>v. x\<lparr>ntt_NativeTokenTransfer_AdditionalPayload := v\<rparr>) bs)
      else None)"

definition ntt_NativeTokenTransfer_Unmarshal :: "bytes \<Rightarrow> ntt_NativeTokenTransfer result option" where
  "ntt_NativeTokenTransfer_Unmarshal bs =
     read_fields (Skip gogo_runtime) ntt_NativeTokenTransfer_field (\<lambda>u x. x)
       \<lparr>ntt_NativeTokenTransfer_Amount = 0, ntt_NativeTokenTransfer_SourceToken = [], ntt_NativeTokenTransfer_To = [], ntt_NativeTokenTransfer_ToChain = 0, ntt_NativeTokenTransfer_AdditionalPayload = []\<rparr> 0 bs"

lemma ntt_NativeTokenTransfer_written:
  shows "writes (ntt_NativeTokenTransfer_Marshal x)
    (varint_bytes gogo_runtime 0x8 (ntt_NativeTokenTransfer_Amount x) @
      delimited_bytes gogo_runtime 0x12 (ntt_NativeTokenTransfer_SourceToken x) @
      delimited_bytes gogo_runtime 0x1A (ntt_NativeTokenTransfer_To x) @
      varint_bytes gogo_runtime 0x20 (ucast (ntt_NativeTokenTransfer_ToChain x)) @
      delimited_bytes gogo_runtime 0x2A (ntt_NativeTokenTransfer_AdditionalPayload x) @
      [])
    (ntt_NativeTokenTransfer_Size x)"
  by (simp add: writes_def ntt_NativeTokenTransfer_Marshal_def ntt_NativeTokenTransfer_Size_def wire_puts gogo_varint)

lemma ntt_NativeTokenTransfer_exact:
  shows "exact_codec (ntt_NativeTokenTransfer_Size) (ntt_NativeTokenTransfer_Marshal) (ntt_NativeTokenTransfer_Unmarshal)
    (\<lambda>x. True)"
  by (rule exact_codecI, rule ntt_NativeTokenTransfer_written,
    unfold ntt_NativeTokenTransfer_Unmarshal_def, erule readsD [rotated],
    (rule reads_varint [OF gogo_varint] reads_bytes [OF gogo_varint] reads_varint16 [OF gogo_varint], rule wire_tags, simp add: ntt_NativeTokenTransfer_field_def, simp)+, rule reads_done, simp)

lemma ntt_NativeTokenTransfer_returns: "\<exists>r. ntt_NativeTokenTransfer_Unmarshal bs = Some r"
  unfolding ntt_NativeTokenTransfer_Unmarshal_def by (rule read_fields_returns [OF gogo_skip])

lemma ntt_NativeTokenTransfer_answered:
  assumes "ntt_NativeTokenTransfer_Size x < 2 ^ 63"
  shows "\<exists>bs. ntt_NativeTokenTransfer_Marshal x = Ok bs \<and> nttv1_NativeTokenTransfer_unmarshal rt discardUnknown bs = Some (Ok
     \<lparr>nttv1_NativeTokenTransfer_Amount = ntt_NativeTokenTransfer_Amount x,
      nttv1_NativeTokenTransfer_SourceToken = ntt_NativeTokenTransfer_SourceToken x,
      nttv1_NativeTokenTransfer_To = ntt_NativeTokenTransfer_To x,
      nttv1_NativeTokenTransfer_ToChain = ucast (ntt_NativeTokenTransfer_ToChain x),
      nttv1_NativeTokenTransfer_AdditionalPayload = ntt_NativeTokenTransfer_AdditionalPayload x,
      nttv1_NativeTokenTransfer_unknownFields = []\<rparr>)"
  by (rule codec_readsI [OF ntt_NativeTokenTransfer_written assms(1)],
    unfold nttv1_NativeTokenTransfer_unmarshal_def, erule readsD [rotated],
    (rule reads_varint [OF gogo_varint] reads_bytes [OF gogo_varint] reads_varint32 [OF gogo_varint], rule wire_tags, simp add: nttv1_NativeTokenTransfer_field_def, simp)+, rule reads_done, simp)

subsection \<open>TransceiverMessage (ntt)\<close>

text \<open>\<open>TransceiverMessage\<close> of \<open>types/portal/ntt/transceiver.pb.go\<close>.\<close>

record ntt_TransceiverMessage =
  ntt_TransceiverMessage_SourceManagerAddress :: bytes
  ntt_TransceiverMessage_RecipientManagerAddress :: bytes
  ntt_TransceiverMessage_ManagerPayload :: bytes
  ntt_TransceiverMessage_TransceiverPayload :: bytes

definition ntt_TransceiverMessage_Size :: "ntt_TransceiverMessage \<Rightarrow> nat" where
  "ntt_TransceiverMessage_Size x =
     size_delimited gogo_runtime (ntt_TransceiverMessage_SourceManagerAddress x) +
     size_delimited gogo_runtime (ntt_TransceiverMessage_RecipientManagerAddress x) +
     size_delimited gogo_runtime (ntt_TransceiverMessage_ManagerPayload x) +
     size_delimited gogo_runtime (ntt_TransceiverMessage_TransceiverPayload x)"

definition ntt_TransceiverMessage_Marshal :: "ntt_TransceiverMessage \<Rightarrow> bytes result" where
  "ntt_TransceiverMessage_Marshal x =
     obind (put_delimited gogo_runtime 0x22 (ntt_TransceiverMessage_TransceiverPayload x) (ntt_TransceiverMessage_Size x, [])) (\<lambda>b.
     obind (put_delimited gogo_runtime 0x1A (ntt_TransceiverMessage_ManagerPayload x) b) (\<lambda>b.
     obind (put_delimited gogo_runtime 0x12 (ntt_TransceiverMessage_RecipientManagerAddress x) b) (\<lambda>b.
     obind (put_delimited gogo_runtime 0xA (ntt_TransceiverMessage_SourceManagerAddress x) b) (\<lambda>b.
     Ok (sized_bytes b)))))"

definition ntt_TransceiverMessage_field ::
    "int \<Rightarrow> int \<Rightarrow> ntt_TransceiverMessage \<Rightarrow> nat \<Rightarrow> bytes \<Rightarrow> (ntt_TransceiverMessage \<times> nat) result option" where
  "ntt_TransceiverMessage_field fieldNum wireType x i bs =
     (if fieldNum = 1 then Some (bytes_field wireType i (\<lambda>v. x\<lparr>ntt_TransceiverMessage_SourceManagerAddress := v\<rparr>) bs)
      else if fieldNum = 2 then Some (bytes_field wireType i (\<lambda>v. x\<lparr>ntt_TransceiverMessage_RecipientManagerAddress := v\<rparr>) bs)
      else if fieldNum = 3 then Some (bytes_field wireType i (\<lambda>v. x\<lparr>ntt_TransceiverMessage_ManagerPayload := v\<rparr>) bs)
      else if fieldNum = 4 then Some (bytes_field wireType i (\<lambda>v. x\<lparr>ntt_TransceiverMessage_TransceiverPayload := v\<rparr>) bs)
      else None)"

definition ntt_TransceiverMessage_Unmarshal :: "bytes \<Rightarrow> ntt_TransceiverMessage result option" where
  "ntt_TransceiverMessage_Unmarshal bs =
     read_fields (Skip gogo_runtime) ntt_TransceiverMessage_field (\<lambda>u x. x)
       \<lparr>ntt_TransceiverMessage_SourceManagerAddress = [], ntt_TransceiverMessage_RecipientManagerAddress = [], ntt_TransceiverMessage_ManagerPayload = [], ntt_TransceiverMessage_TransceiverPayload = []\<rparr> 0 bs"

lemma ntt_TransceiverMessage_written:
  shows "writes (ntt_TransceiverMessage_Marshal x)
    (delimited_bytes gogo_runtime 0xA (ntt_TransceiverMessage_SourceManagerAddress x) @
      delimited_bytes gogo_runtime 0x12 (ntt_TransceiverMessage_RecipientManagerAddress x) @
      delimited_bytes gogo_runtime 0x1A (ntt_TransceiverMessage_ManagerPayload x) @
      delimited_bytes gogo_runtime 0x22 (ntt_TransceiverMessage_TransceiverPayload x) @
      [])
    (ntt_TransceiverMessage_Size x)"
  by (simp add: writes_def ntt_TransceiverMessage_Marshal_def ntt_TransceiverMessage_Size_def wire_puts gogo_varint)

lemma ntt_TransceiverMessage_exact:
  shows "exact_codec (ntt_TransceiverMessage_Size) (ntt_TransceiverMessage_Marshal) (ntt_TransceiverMessage_Unmarshal)
    (\<lambda>x. True)"
  by (rule exact_codecI, rule ntt_TransceiverMessage_written,
    unfold ntt_TransceiverMessage_Unmarshal_def, erule readsD [rotated],
    (rule reads_bytes [OF gogo_varint], rule wire_tags, simp add: ntt_TransceiverMessage_field_def, simp)+, rule reads_done, simp)

lemma ntt_TransceiverMessage_returns: "\<exists>r. ntt_TransceiverMessage_Unmarshal bs = Some r"
  unfolding ntt_TransceiverMessage_Unmarshal_def by (rule read_fields_returns [OF gogo_skip])

lemma ntt_TransceiverMessage_answered:
  assumes "ntt_TransceiverMessage_Size x < 2 ^ 63"
  shows "\<exists>bs. ntt_TransceiverMessage_Marshal x = Ok bs \<and> nttv1_TransceiverMessage_unmarshal rt discardUnknown bs = Some (Ok
     \<lparr>nttv1_TransceiverMessage_SourceManagerAddress = ntt_TransceiverMessage_SourceManagerAddress x,
      nttv1_TransceiverMessage_RecipientManagerAddress = ntt_TransceiverMessage_RecipientManagerAddress x,
      nttv1_TransceiverMessage_ManagerPayload = ntt_TransceiverMessage_ManagerPayload x,
      nttv1_TransceiverMessage_TransceiverPayload = ntt_TransceiverMessage_TransceiverPayload x,
      nttv1_TransceiverMessage_unknownFields = []\<rparr>)"
  by (rule codec_readsI [OF ntt_TransceiverMessage_written assms(1)],
    unfold nttv1_TransceiverMessage_unmarshal_def, erule readsD [rotated],
    (rule reads_bytes [OF gogo_varint], rule wire_tags, simp add: nttv1_TransceiverMessage_field_def, simp)+, rule reads_done, simp)

subsection \<open>The codecs together\<close>

lemmas codec_data_exact =
  types_Stats_exact v2_Stats_exact portal_Peer_exact portal_BridgingPath_exact vaults_Reward_exact
  vaults_PositionRewards_exact vaults_Stats_exact ntt_ManagerMessage_exact
  ntt_NativeTokenTransfer_exact ntt_TransceiverMessage_exact

lemmas codec_data_returns =
  types_Stats_returns v2_Stats_returns portal_Peer_returns portal_BridgingPath_returns
  vaults_Reward_returns vaults_PositionRewards_returns vaults_Stats_returns
  ntt_ManagerMessage_returns ntt_NativeTokenTransfer_returns ntt_TransceiverMessage_returns

lemmas codec_data_answered =
  types_Stats_answered v2_Stats_answered portal_Peer_answered portal_BridgingPath_answered
  vaults_Reward_answered vaults_PositionRewards_answered vaults_Stats_answered
  ntt_ManagerMessage_answered ntt_NativeTokenTransfer_answered ntt_TransceiverMessage_answered

end
