(* ===== verification/Api_Events.thy ===== *)
theory Api_Events
  imports Messages
begin

text \<open>
  The events as the client API reads them: \<open>events.pulsar.go\<close> under \<open>api/v1\<close>, \<open>api/v2\<close>,
  \<open>api/portal/v1\<close> and \<open>api/vaults/v1\<close>.
\<close>

subsection \<open>Paused (dollarv1)\<close>

text \<open>\<open>Paused\<close> of \<open>api/v1/events.pulsar.go\<close>.\<close>

record dollarv1_Paused =
  dollarv1_Paused_unknownFields :: bytes

definition dollarv1_Paused_size :: "wire_runtime \<Rightarrow> dollarv1_Paused \<Rightarrow> nat" where
  "dollarv1_Paused_size rt x =
     length (dollarv1_Paused_unknownFields x)"

definition dollarv1_Paused_marshal :: "wire_runtime \<Rightarrow> dollarv1_Paused \<Rightarrow> bytes result" where
  "dollarv1_Paused_marshal rt x =
     obind (put (dollarv1_Paused_unknownFields x) (dollarv1_Paused_size rt x, [])) (\<lambda>b.
     Ok (buffer_bytes b))"

definition dollarv1_Paused_field ::
    "int \<Rightarrow> int \<Rightarrow> dollarv1_Paused \<Rightarrow> nat \<Rightarrow> bytes \<Rightarrow> (dollarv1_Paused \<times> nat) result option" where
  "dollarv1_Paused_field fieldNum wireType x i bs =
     None"

definition dollarv1_Paused_unmarshal :: "wire_runtime \<Rightarrow> bool \<Rightarrow> bytes \<Rightarrow> dollarv1_Paused result option" where
  "dollarv1_Paused_unmarshal rt discardUnknown bs =
     read_fields (Skip rt) dollarv1_Paused_field
       (\<lambda>u x. if discardUnknown then x else x\<lparr>dollarv1_Paused_unknownFields := dollarv1_Paused_unknownFields x @ u\<rparr>)
       \<lparr>dollarv1_Paused_unknownFields = []\<rparr> 0 bs"

lemma dollarv1_Paused_written:
  assumes "varint_runtime rt" "dollarv1_Paused_unknownFields x = []"
  shows "writes (dollarv1_Paused_marshal rt x)
    ([] :: bytes)
    (dollarv1_Paused_size rt x)"
  by (simp add: writes_def dollarv1_Paused_marshal_def dollarv1_Paused_size_def assms wire_puts)

lemma dollarv1_Paused_exact:
  assumes "varint_runtime rt"
  shows "exact_codec (dollarv1_Paused_size rt) (dollarv1_Paused_marshal rt) 
    (dollarv1_Paused_unmarshal rt' discardUnknown) (\<lambda>x. dollarv1_Paused_unknownFields x = [])"
  by (rule exact_codecI, rule dollarv1_Paused_written [OF assms], assumption,
    unfold dollarv1_Paused_unmarshal_def, erule readsD [rotated],
    rule reads_done, simp)

lemma dollarv1_Paused_returns:
  "skip_progress (Skip rt) \<Longrightarrow> \<exists>r. dollarv1_Paused_unmarshal rt discardUnknown bs = Some r"
  unfolding dollarv1_Paused_unmarshal_def by (rule read_fields_returns)

subsection \<open>Unpaused (dollarv1)\<close>

text \<open>\<open>Unpaused\<close> of \<open>api/v1/events.pulsar.go\<close>.\<close>

record dollarv1_Unpaused =
  dollarv1_Unpaused_unknownFields :: bytes

definition dollarv1_Unpaused_size :: "wire_runtime \<Rightarrow> dollarv1_Unpaused \<Rightarrow> nat" where
  "dollarv1_Unpaused_size rt x =
     length (dollarv1_Unpaused_unknownFields x)"

definition dollarv1_Unpaused_marshal :: "wire_runtime \<Rightarrow> dollarv1_Unpaused \<Rightarrow> bytes result" where
  "dollarv1_Unpaused_marshal rt x =
     obind (put (dollarv1_Unpaused_unknownFields x) (dollarv1_Unpaused_size rt x, [])) (\<lambda>b.
     Ok (buffer_bytes b))"

definition dollarv1_Unpaused_field ::
    "int \<Rightarrow> int \<Rightarrow> dollarv1_Unpaused \<Rightarrow> nat \<Rightarrow> bytes \<Rightarrow> (dollarv1_Unpaused \<times> nat) result option" where
  "dollarv1_Unpaused_field fieldNum wireType x i bs =
     None"

definition dollarv1_Unpaused_unmarshal :: "wire_runtime \<Rightarrow> bool \<Rightarrow> bytes \<Rightarrow> dollarv1_Unpaused result option" where
  "dollarv1_Unpaused_unmarshal rt discardUnknown bs =
     read_fields (Skip rt) dollarv1_Unpaused_field
       (\<lambda>u x. if discardUnknown then x else x\<lparr>dollarv1_Unpaused_unknownFields := dollarv1_Unpaused_unknownFields x @ u\<rparr>)
       \<lparr>dollarv1_Unpaused_unknownFields = []\<rparr> 0 bs"

lemma dollarv1_Unpaused_written:
  assumes "varint_runtime rt" "dollarv1_Unpaused_unknownFields x = []"
  shows "writes (dollarv1_Unpaused_marshal rt x)
    ([] :: bytes)
    (dollarv1_Unpaused_size rt x)"
  by (simp add: writes_def dollarv1_Unpaused_marshal_def dollarv1_Unpaused_size_def assms wire_puts)

lemma dollarv1_Unpaused_exact:
  assumes "varint_runtime rt"
  shows "exact_codec (dollarv1_Unpaused_size rt) (dollarv1_Unpaused_marshal rt) 
    (dollarv1_Unpaused_unmarshal rt' discardUnknown) (\<lambda>x. dollarv1_Unpaused_unknownFields x = [])"
  by (rule exact_codecI, rule dollarv1_Unpaused_written [OF assms], assumption,
    unfold dollarv1_Unpaused_unmarshal_def, erule readsD [rotated],
    rule reads_done, simp)

lemma dollarv1_Unpaused_returns:
  "skip_progress (Skip rt) \<Longrightarrow> \<exists>r. dollarv1_Unpaused_unmarshal rt discardUnknown bs = Some r"
  unfolding dollarv1_Unpaused_unmarshal_def by (rule read_fields_returns)

subsection \<open>YieldClaimed (dollarv1)\<close>

text \<open>\<open>YieldClaimed\<close> of \<open>api/v1/events.pulsar.go\<close>.\<close>

record dollarv1_YieldClaimed =
  dollarv1_YieldClaimed_Account :: bytes
  dollarv1_YieldClaimed_Amount :: bytes
  dollarv1_YieldClaimed_unknownFields :: bytes

definition dollarv1_YieldClaimed_size :: "wire_runtime \<Rightarrow> dollarv1_YieldClaimed \<Rightarrow> nat" where
  "dollarv1_YieldClaimed_size rt x =
     size_delimited rt (dollarv1_YieldClaimed_Account x) +
     size_delimited rt (dollarv1_YieldClaimed_Amount x) +
     length (dollarv1_YieldClaimed_unknownFields x)"

definition dollarv1_YieldClaimed_marshal :: "wire_runtime \<Rightarrow> dollarv1_YieldClaimed \<Rightarrow> bytes result" where
  "dollarv1_YieldClaimed_marshal rt x =
     obind (put (dollarv1_YieldClaimed_unknownFields x) (dollarv1_YieldClaimed_size rt x, [])) (\<lambda>b.
     obind (put_delimited rt 0x12 (dollarv1_YieldClaimed_Amount x) b) (\<lambda>b.
     obind (put_delimited rt 0xA (dollarv1_YieldClaimed_Account x) b) (\<lambda>b.
     Ok (buffer_bytes b))))"

definition dollarv1_YieldClaimed_field ::
    "int \<Rightarrow> int \<Rightarrow> dollarv1_YieldClaimed \<Rightarrow> nat \<Rightarrow> bytes \<Rightarrow> (dollarv1_YieldClaimed \<times> nat) result option" where
  "dollarv1_YieldClaimed_field fieldNum wireType x i bs =
     (if fieldNum = 1 then Some (bytes_field wireType i (\<lambda>v. x\<lparr>dollarv1_YieldClaimed_Account := v\<rparr>) bs)
      else if fieldNum = 2 then Some (bytes_field wireType i (\<lambda>v. x\<lparr>dollarv1_YieldClaimed_Amount := v\<rparr>) bs)
      else None)"

definition dollarv1_YieldClaimed_unmarshal :: "wire_runtime \<Rightarrow> bool \<Rightarrow> bytes \<Rightarrow> dollarv1_YieldClaimed result option" where
  "dollarv1_YieldClaimed_unmarshal rt discardUnknown bs =
     read_fields (Skip rt) dollarv1_YieldClaimed_field
       (\<lambda>u x. if discardUnknown then x else x\<lparr>dollarv1_YieldClaimed_unknownFields := dollarv1_YieldClaimed_unknownFields x @ u\<rparr>)
       \<lparr>dollarv1_YieldClaimed_Account = [], dollarv1_YieldClaimed_Amount = [], dollarv1_YieldClaimed_unknownFields = []\<rparr> 0 bs"

lemma dollarv1_YieldClaimed_written:
  assumes "varint_runtime rt" "dollarv1_YieldClaimed_unknownFields x = []"
  shows "writes (dollarv1_YieldClaimed_marshal rt x)
    (delimited_bytes rt 0xA (dollarv1_YieldClaimed_Account x) @
      delimited_bytes rt 0x12 (dollarv1_YieldClaimed_Amount x) @
      [])
    (dollarv1_YieldClaimed_size rt x)"
  by (simp add: writes_def dollarv1_YieldClaimed_marshal_def dollarv1_YieldClaimed_size_def assms wire_puts)

lemma dollarv1_YieldClaimed_exact:
  assumes "varint_runtime rt"
  shows "exact_codec (dollarv1_YieldClaimed_size rt) (dollarv1_YieldClaimed_marshal rt) 
    (dollarv1_YieldClaimed_unmarshal rt' discardUnknown) (\<lambda>x. dollarv1_YieldClaimed_unknownFields x = [])"
  by (rule exact_codecI, rule dollarv1_YieldClaimed_written [OF assms], assumption,
    unfold dollarv1_YieldClaimed_unmarshal_def, erule readsD [rotated],
    (rule reads_bytes [OF assms], rule wire_tags,
        simp add: dollarv1_YieldClaimed_field_def, simp)+, rule reads_done, simp)

lemma dollarv1_YieldClaimed_returns:
  "skip_progress (Skip rt) \<Longrightarrow> \<exists>r. dollarv1_YieldClaimed_unmarshal rt discardUnknown bs = Some r"
  unfolding dollarv1_YieldClaimed_unmarshal_def by (rule read_fields_returns)

subsection \<open>IndexUpdated (dollarv1)\<close>

text \<open>\<open>IndexUpdated\<close> of \<open>api/v1/events.pulsar.go\<close>.\<close>

record dollarv1_IndexUpdated =
  dollarv1_IndexUpdated_OldIndex :: "64 word"
  dollarv1_IndexUpdated_NewIndex :: "64 word"
  dollarv1_IndexUpdated_TotalPrincipal :: bytes
  dollarv1_IndexUpdated_YieldAccrued :: bytes
  dollarv1_IndexUpdated_unknownFields :: bytes

definition dollarv1_IndexUpdated_size :: "wire_runtime \<Rightarrow> dollarv1_IndexUpdated \<Rightarrow> nat" where
  "dollarv1_IndexUpdated_size rt x =
     size_varint rt (dollarv1_IndexUpdated_OldIndex x) +
     size_varint rt (dollarv1_IndexUpdated_NewIndex x) +
     size_delimited rt (dollarv1_IndexUpdated_TotalPrincipal x) +
     size_delimited rt (dollarv1_IndexUpdated_YieldAccrued x) +
     length (dollarv1_IndexUpdated_unknownFields x)"

definition dollarv1_IndexUpdated_marshal :: "wire_runtime \<Rightarrow> dollarv1_IndexUpdated \<Rightarrow> bytes result" where
  "dollarv1_IndexUpdated_marshal rt x =
     obind (put (dollarv1_IndexUpdated_unknownFields x) (dollarv1_IndexUpdated_size rt x, [])) (\<lambda>b.
     obind (put_delimited rt 0x22 (dollarv1_IndexUpdated_YieldAccrued x) b) (\<lambda>b.
     obind (put_delimited rt 0x1A (dollarv1_IndexUpdated_TotalPrincipal x) b) (\<lambda>b.
     obind (put_varint rt 0x10 (dollarv1_IndexUpdated_NewIndex x) b) (\<lambda>b.
     obind (put_varint rt 0x8 (dollarv1_IndexUpdated_OldIndex x) b) (\<lambda>b.
     Ok (buffer_bytes b))))))"

definition dollarv1_IndexUpdated_field ::
    "int \<Rightarrow> int \<Rightarrow> dollarv1_IndexUpdated \<Rightarrow> nat \<Rightarrow> bytes \<Rightarrow> (dollarv1_IndexUpdated \<times> nat) result option" where
  "dollarv1_IndexUpdated_field fieldNum wireType x i bs =
     (if fieldNum = 1 then Some (varint_field wireType (\<lambda>v. x\<lparr>dollarv1_IndexUpdated_OldIndex := v\<rparr>) bs)
      else if fieldNum = 2 then Some (varint_field wireType (\<lambda>v. x\<lparr>dollarv1_IndexUpdated_NewIndex := v\<rparr>) bs)
      else if fieldNum = 3 then Some (bytes_field wireType i (\<lambda>v. x\<lparr>dollarv1_IndexUpdated_TotalPrincipal := v\<rparr>) bs)
      else if fieldNum = 4 then Some (bytes_field wireType i (\<lambda>v. x\<lparr>dollarv1_IndexUpdated_YieldAccrued := v\<rparr>) bs)
      else None)"

definition dollarv1_IndexUpdated_unmarshal :: "wire_runtime \<Rightarrow> bool \<Rightarrow> bytes \<Rightarrow> dollarv1_IndexUpdated result option" where
  "dollarv1_IndexUpdated_unmarshal rt discardUnknown bs =
     read_fields (Skip rt) dollarv1_IndexUpdated_field
       (\<lambda>u x. if discardUnknown then x else x\<lparr>dollarv1_IndexUpdated_unknownFields := dollarv1_IndexUpdated_unknownFields x @ u\<rparr>)
       \<lparr>dollarv1_IndexUpdated_OldIndex = 0, dollarv1_IndexUpdated_NewIndex = 0, dollarv1_IndexUpdated_TotalPrincipal = [], dollarv1_IndexUpdated_YieldAccrued = [], dollarv1_IndexUpdated_unknownFields = []\<rparr> 0 bs"

lemma dollarv1_IndexUpdated_written:
  assumes "varint_runtime rt" "dollarv1_IndexUpdated_unknownFields x = []"
  shows "writes (dollarv1_IndexUpdated_marshal rt x)
    (varint_bytes rt 0x8 (dollarv1_IndexUpdated_OldIndex x) @
      varint_bytes rt 0x10 (dollarv1_IndexUpdated_NewIndex x) @
      delimited_bytes rt 0x1A (dollarv1_IndexUpdated_TotalPrincipal x) @
      delimited_bytes rt 0x22 (dollarv1_IndexUpdated_YieldAccrued x) @
      [])
    (dollarv1_IndexUpdated_size rt x)"
  by (simp add: writes_def dollarv1_IndexUpdated_marshal_def dollarv1_IndexUpdated_size_def assms wire_puts)

lemma dollarv1_IndexUpdated_exact:
  assumes "varint_runtime rt"
  shows "exact_codec (dollarv1_IndexUpdated_size rt) (dollarv1_IndexUpdated_marshal rt) 
    (dollarv1_IndexUpdated_unmarshal rt' discardUnknown) (\<lambda>x. dollarv1_IndexUpdated_unknownFields x = [])"
  by (rule exact_codecI, rule dollarv1_IndexUpdated_written [OF assms], assumption,
    unfold dollarv1_IndexUpdated_unmarshal_def, erule readsD [rotated],
    (rule reads_varint [OF assms] reads_bytes [OF assms], rule wire_tags,
        simp add: dollarv1_IndexUpdated_field_def, simp)+, rule reads_done, simp)

lemma dollarv1_IndexUpdated_returns:
  "skip_progress (Skip rt) \<Longrightarrow> \<exists>r. dollarv1_IndexUpdated_unmarshal rt discardUnknown bs = Some r"
  unfolding dollarv1_IndexUpdated_unmarshal_def by (rule read_fields_returns)

subsection \<open>YieldRecipientSet (dollarv2)\<close>

text \<open>\<open>YieldRecipientSet\<close> of \<open>api/v2/events.pulsar.go\<close>.\<close>

record dollarv2_YieldRecipientSet =
  dollarv2_YieldRecipientSet_Provider :: "32 word"
  dollarv2_YieldRecipientSet_Identifier :: bytes
  dollarv2_YieldRecipientSet_Recipient :: bytes
  dollarv2_YieldRecipientSet_unknownFields :: bytes

definition dollarv2_YieldRecipientSet_size :: "wire_runtime \<Rightarrow> dollarv2_YieldRecipientSet \<Rightarrow> nat" where
  "dollarv2_YieldRecipientSet_size rt x =
     size_varint rt (scast (dollarv2_YieldRecipientSet_Provider x)) +
     size_delimited rt (dollarv2_YieldRecipientSet_Identifier x) +
     size_delimited rt (dollarv2_YieldRecipientSet_Recipient x) +
     length (dollarv2_YieldRecipientSet_unknownFields x)"

definition dollarv2_YieldRecipientSet_marshal :: "wire_runtime \<Rightarrow> dollarv2_YieldRecipientSet \<Rightarrow> bytes result" where
  "dollarv2_YieldRecipientSet_marshal rt x =
     obind (put (dollarv2_YieldRecipientSet_unknownFields x) (dollarv2_YieldRecipientSet_size rt x, [])) (\<lambda>b.
     obind (put_delimited rt 0x1A (dollarv2_YieldRecipientSet_Recipient x) b) (\<lambda>b.
     obind (put_delimited rt 0x12 (dollarv2_YieldRecipientSet_Identifier x) b) (\<lambda>b.
     obind (put_varint rt 0x8 (scast (dollarv2_YieldRecipientSet_Provider x)) b) (\<lambda>b.
     Ok (buffer_bytes b)))))"

definition dollarv2_YieldRecipientSet_field ::
    "int \<Rightarrow> int \<Rightarrow> dollarv2_YieldRecipientSet \<Rightarrow> nat \<Rightarrow> bytes \<Rightarrow> (dollarv2_YieldRecipientSet \<times> nat) result option" where
  "dollarv2_YieldRecipientSet_field fieldNum wireType x i bs =
     (if fieldNum = 1 then Some (varint_field wireType (\<lambda>v. x\<lparr>dollarv2_YieldRecipientSet_Provider := v\<rparr>) bs)
      else if fieldNum = 2 then Some (bytes_field wireType i (\<lambda>v. x\<lparr>dollarv2_YieldRecipientSet_Identifier := v\<rparr>) bs)
      else if fieldNum = 3 then Some (bytes_field wireType i (\<lambda>v. x\<lparr>dollarv2_YieldRecipientSet_Recipient := v\<rparr>) bs)
      else None)"

definition dollarv2_YieldRecipientSet_unmarshal :: "wire_runtime \<Rightarrow> bool \<Rightarrow> bytes \<Rightarrow> dollarv2_YieldRecipientSet result option" where
  "dollarv2_YieldRecipientSet_unmarshal rt discardUnknown bs =
     read_fields (Skip rt) dollarv2_YieldRecipientSet_field
       (\<lambda>u x. if discardUnknown then x else x\<lparr>dollarv2_YieldRecipientSet_unknownFields := dollarv2_YieldRecipientSet_unknownFields x @ u\<rparr>)
       \<lparr>dollarv2_YieldRecipientSet_Provider = 0, dollarv2_YieldRecipientSet_Identifier = [], dollarv2_YieldRecipientSet_Recipient = [], dollarv2_YieldRecipientSet_unknownFields = []\<rparr> 0 bs"

lemma dollarv2_YieldRecipientSet_written:
  assumes "varint_runtime rt" "dollarv2_YieldRecipientSet_unknownFields x = []"
  shows "writes (dollarv2_YieldRecipientSet_marshal rt x)
    (varint_bytes rt 0x8 (scast (dollarv2_YieldRecipientSet_Provider x)) @
      delimited_bytes rt 0x12 (dollarv2_YieldRecipientSet_Identifier x) @
      delimited_bytes rt 0x1A (dollarv2_YieldRecipientSet_Recipient x) @
      [])
    (dollarv2_YieldRecipientSet_size rt x)"
  by (simp add: writes_def dollarv2_YieldRecipientSet_marshal_def dollarv2_YieldRecipientSet_size_def assms wire_puts)

lemma dollarv2_YieldRecipientSet_exact:
  assumes "varint_runtime rt"
  shows "exact_codec (dollarv2_YieldRecipientSet_size rt) (dollarv2_YieldRecipientSet_marshal rt) 
    (dollarv2_YieldRecipientSet_unmarshal rt' discardUnknown) (\<lambda>x. dollarv2_YieldRecipientSet_unknownFields x = [])"
  by (rule exact_codecI, rule dollarv2_YieldRecipientSet_written [OF assms], assumption,
    unfold dollarv2_YieldRecipientSet_unmarshal_def, erule readsD [rotated],
    (rule reads_varint32 [OF assms] reads_bytes [OF assms], rule wire_tags,
        simp add: dollarv2_YieldRecipientSet_field_def, simp)+, rule reads_done, simp)

lemma dollarv2_YieldRecipientSet_returns:
  "skip_progress (Skip rt) \<Longrightarrow> \<exists>r. dollarv2_YieldRecipientSet_unmarshal rt discardUnknown bs = Some r"
  unfolding dollarv2_YieldRecipientSet_unmarshal_def by (rule read_fields_returns)

subsection \<open>Delivered (portalv1)\<close>

text \<open>\<open>Delivered\<close> of \<open>api/portal/v1/events.pulsar.go\<close>.\<close>

record portalv1_Delivered =
  portalv1_Delivered_Vaa :: bytes
  portalv1_Delivered_unknownFields :: bytes

definition portalv1_Delivered_size :: "wire_runtime \<Rightarrow> portalv1_Delivered \<Rightarrow> nat" where
  "portalv1_Delivered_size rt x =
     size_delimited rt (portalv1_Delivered_Vaa x) +
     length (portalv1_Delivered_unknownFields x)"

definition portalv1_Delivered_marshal :: "wire_runtime \<Rightarrow> portalv1_Delivered \<Rightarrow> bytes result" where
  "portalv1_Delivered_marshal rt x =
     obind (put (portalv1_Delivered_unknownFields x) (portalv1_Delivered_size rt x, [])) (\<lambda>b.
     obind (put_delimited rt 0xA (portalv1_Delivered_Vaa x) b) (\<lambda>b.
     Ok (buffer_bytes b)))"

definition portalv1_Delivered_field ::
    "int \<Rightarrow> int \<Rightarrow> portalv1_Delivered \<Rightarrow> nat \<Rightarrow> bytes \<Rightarrow> (portalv1_Delivered \<times> nat) result option" where
  "portalv1_Delivered_field fieldNum wireType x i bs =
     (if fieldNum = 1 then Some (bytes_field wireType i (\<lambda>v. x\<lparr>portalv1_Delivered_Vaa := v\<rparr>) bs)
      else None)"

definition portalv1_Delivered_unmarshal :: "wire_runtime \<Rightarrow> bool \<Rightarrow> bytes \<Rightarrow> portalv1_Delivered result option" where
  "portalv1_Delivered_unmarshal rt discardUnknown bs =
     read_fields (Skip rt) portalv1_Delivered_field
       (\<lambda>u x. if discardUnknown then x else x\<lparr>portalv1_Delivered_unknownFields := portalv1_Delivered_unknownFields x @ u\<rparr>)
       \<lparr>portalv1_Delivered_Vaa = [], portalv1_Delivered_unknownFields = []\<rparr> 0 bs"

lemma portalv1_Delivered_written:
  assumes "varint_runtime rt" "portalv1_Delivered_unknownFields x = []"
  shows "writes (portalv1_Delivered_marshal rt x)
    (delimited_bytes rt 0xA (portalv1_Delivered_Vaa x) @
      [])
    (portalv1_Delivered_size rt x)"
  by (simp add: writes_def portalv1_Delivered_marshal_def portalv1_Delivered_size_def assms wire_puts)

lemma portalv1_Delivered_exact:
  assumes "varint_runtime rt"
  shows "exact_codec (portalv1_Delivered_size rt) (portalv1_Delivered_marshal rt) 
    (portalv1_Delivered_unmarshal rt' discardUnknown) (\<lambda>x. portalv1_Delivered_unknownFields x = [])"
  by (rule exact_codecI, rule portalv1_Delivered_written [OF assms], assumption,
    unfold portalv1_Delivered_unmarshal_def, erule readsD [rotated],
    (rule reads_bytes [OF assms], rule wire_tags,
        simp add: portalv1_Delivered_field_def, simp)+, rule reads_done, simp)

lemma portalv1_Delivered_returns:
  "skip_progress (Skip rt) \<Longrightarrow> \<exists>r. portalv1_Delivered_unmarshal rt discardUnknown bs = Some r"
  unfolding portalv1_Delivered_unmarshal_def by (rule read_fields_returns)

subsection \<open>MTokenReceived (portalv1)\<close>

text \<open>\<open>MTokenReceived\<close> of \<open>api/portal/v1/events.pulsar.go\<close>.\<close>

record portalv1_MTokenReceived =
  portalv1_MTokenReceived_SourceChainId :: "32 word"
  portalv1_MTokenReceived_DestinationToken :: bytes
  portalv1_MTokenReceived_Sender :: bytes
  portalv1_MTokenReceived_Recipient :: bytes
  portalv1_MTokenReceived_Amount :: bytes
  portalv1_MTokenReceived_Index :: "64 word"
  portalv1_MTokenReceived_MessageId :: bytes
  portalv1_MTokenReceived_unknownFields :: bytes

definition portalv1_MTokenReceived_size :: "wire_runtime \<Rightarrow> portalv1_MTokenReceived \<Rightarrow> nat" where
  "portalv1_MTokenReceived_size rt x =
     size_varint rt (ucast (portalv1_MTokenReceived_SourceChainId x)) +
     size_delimited rt (portalv1_MTokenReceived_DestinationToken x) +
     size_delimited rt (portalv1_MTokenReceived_Sender x) +
     size_delimited rt (portalv1_MTokenReceived_Recipient x) +
     size_delimited rt (portalv1_MTokenReceived_Amount x) +
     size_varint rt (portalv1_MTokenReceived_Index x) +
     size_delimited rt (portalv1_MTokenReceived_MessageId x) +
     length (portalv1_MTokenReceived_unknownFields x)"

definition portalv1_MTokenReceived_marshal :: "wire_runtime \<Rightarrow> portalv1_MTokenReceived \<Rightarrow> bytes result" where
  "portalv1_MTokenReceived_marshal rt x =
     obind (put (portalv1_MTokenReceived_unknownFields x) (portalv1_MTokenReceived_size rt x, [])) (\<lambda>b.
     obind (put_delimited rt 0x3A (portalv1_MTokenReceived_MessageId x) b) (\<lambda>b.
     obind (put_varint rt 0x30 (portalv1_MTokenReceived_Index x) b) (\<lambda>b.
     obind (put_delimited rt 0x2A (portalv1_MTokenReceived_Amount x) b) (\<lambda>b.
     obind (put_delimited rt 0x22 (portalv1_MTokenReceived_Recipient x) b) (\<lambda>b.
     obind (put_delimited rt 0x1A (portalv1_MTokenReceived_Sender x) b) (\<lambda>b.
     obind (put_delimited rt 0x12 (portalv1_MTokenReceived_DestinationToken x) b) (\<lambda>b.
     obind (put_varint rt 0x8 (ucast (portalv1_MTokenReceived_SourceChainId x)) b) (\<lambda>b.
     Ok (buffer_bytes b)))))))))"

definition portalv1_MTokenReceived_field ::
    "int \<Rightarrow> int \<Rightarrow> portalv1_MTokenReceived \<Rightarrow> nat \<Rightarrow> bytes \<Rightarrow> (portalv1_MTokenReceived \<times> nat) result option" where
  "portalv1_MTokenReceived_field fieldNum wireType x i bs =
     (if fieldNum = 1 then Some (varint_field wireType (\<lambda>v. x\<lparr>portalv1_MTokenReceived_SourceChainId := v\<rparr>) bs)
      else if fieldNum = 2 then Some (bytes_field wireType i (\<lambda>v. x\<lparr>portalv1_MTokenReceived_DestinationToken := v\<rparr>) bs)
      else if fieldNum = 3 then Some (bytes_field wireType i (\<lambda>v. x\<lparr>portalv1_MTokenReceived_Sender := v\<rparr>) bs)
      else if fieldNum = 4 then Some (bytes_field wireType i (\<lambda>v. x\<lparr>portalv1_MTokenReceived_Recipient := v\<rparr>) bs)
      else if fieldNum = 5 then Some (bytes_field wireType i (\<lambda>v. x\<lparr>portalv1_MTokenReceived_Amount := v\<rparr>) bs)
      else if fieldNum = 6 then Some (varint_field wireType (\<lambda>v. x\<lparr>portalv1_MTokenReceived_Index := v\<rparr>) bs)
      else if fieldNum = 7 then Some (bytes_field wireType i (\<lambda>v. x\<lparr>portalv1_MTokenReceived_MessageId := v\<rparr>) bs)
      else None)"

definition portalv1_MTokenReceived_unmarshal :: "wire_runtime \<Rightarrow> bool \<Rightarrow> bytes \<Rightarrow> portalv1_MTokenReceived result option" where
  "portalv1_MTokenReceived_unmarshal rt discardUnknown bs =
     read_fields (Skip rt) portalv1_MTokenReceived_field
       (\<lambda>u x. if discardUnknown then x else x\<lparr>portalv1_MTokenReceived_unknownFields := portalv1_MTokenReceived_unknownFields x @ u\<rparr>)
       \<lparr>portalv1_MTokenReceived_SourceChainId = 0, portalv1_MTokenReceived_DestinationToken = [], portalv1_MTokenReceived_Sender = [], portalv1_MTokenReceived_Recipient = [], portalv1_MTokenReceived_Amount = [], portalv1_MTokenReceived_Index = 0, portalv1_MTokenReceived_MessageId = [], portalv1_MTokenReceived_unknownFields = []\<rparr> 0 bs"

lemma portalv1_MTokenReceived_written:
  assumes "varint_runtime rt" "portalv1_MTokenReceived_unknownFields x = []"
  shows "writes (portalv1_MTokenReceived_marshal rt x)
    (varint_bytes rt 0x8 (ucast (portalv1_MTokenReceived_SourceChainId x)) @
      delimited_bytes rt 0x12 (portalv1_MTokenReceived_DestinationToken x) @
      delimited_bytes rt 0x1A (portalv1_MTokenReceived_Sender x) @
      delimited_bytes rt 0x22 (portalv1_MTokenReceived_Recipient x) @
      delimited_bytes rt 0x2A (portalv1_MTokenReceived_Amount x) @
      varint_bytes rt 0x30 (portalv1_MTokenReceived_Index x) @
      delimited_bytes rt 0x3A (portalv1_MTokenReceived_MessageId x) @
      [])
    (portalv1_MTokenReceived_size rt x)"
  by (simp add: writes_def portalv1_MTokenReceived_marshal_def portalv1_MTokenReceived_size_def assms wire_puts)

lemma portalv1_MTokenReceived_exact:
  assumes "varint_runtime rt"
  shows "exact_codec (portalv1_MTokenReceived_size rt) (portalv1_MTokenReceived_marshal rt) 
    (portalv1_MTokenReceived_unmarshal rt' discardUnknown) (\<lambda>x. portalv1_MTokenReceived_unknownFields x = [])"
  by (rule exact_codecI, rule portalv1_MTokenReceived_written [OF assms], assumption,
    unfold portalv1_MTokenReceived_unmarshal_def, erule readsD [rotated],
    (rule reads_varint32 [OF assms] reads_bytes [OF assms] reads_varint [OF assms], rule wire_tags,
        simp add: portalv1_MTokenReceived_field_def, simp)+, rule reads_done, simp)

lemma portalv1_MTokenReceived_returns:
  "skip_progress (Skip rt) \<Longrightarrow> \<exists>r. portalv1_MTokenReceived_unmarshal rt discardUnknown bs = Some r"
  unfolding portalv1_MTokenReceived_unmarshal_def by (rule read_fields_returns)

subsection \<open>TransferRedeemed (portalv1)\<close>

text \<open>\<open>TransferRedeemed\<close> of \<open>api/portal/v1/events.pulsar.go\<close>.\<close>

record portalv1_TransferRedeemed =
  portalv1_TransferRedeemed_Digest :: bytes
  portalv1_TransferRedeemed_unknownFields :: bytes

definition portalv1_TransferRedeemed_size :: "wire_runtime \<Rightarrow> portalv1_TransferRedeemed \<Rightarrow> nat" where
  "portalv1_TransferRedeemed_size rt x =
     size_delimited rt (portalv1_TransferRedeemed_Digest x) +
     length (portalv1_TransferRedeemed_unknownFields x)"

definition portalv1_TransferRedeemed_marshal :: "wire_runtime \<Rightarrow> portalv1_TransferRedeemed \<Rightarrow> bytes result" where
  "portalv1_TransferRedeemed_marshal rt x =
     obind (put (portalv1_TransferRedeemed_unknownFields x) (portalv1_TransferRedeemed_size rt x, [])) (\<lambda>b.
     obind (put_delimited rt 0xA (portalv1_TransferRedeemed_Digest x) b) (\<lambda>b.
     Ok (buffer_bytes b)))"

definition portalv1_TransferRedeemed_field ::
    "int \<Rightarrow> int \<Rightarrow> portalv1_TransferRedeemed \<Rightarrow> nat \<Rightarrow> bytes \<Rightarrow> (portalv1_TransferRedeemed \<times> nat) result option" where
  "portalv1_TransferRedeemed_field fieldNum wireType x i bs =
     (if fieldNum = 1 then Some (bytes_field wireType i (\<lambda>v. x\<lparr>portalv1_TransferRedeemed_Digest := v\<rparr>) bs)
      else None)"

definition portalv1_TransferRedeemed_unmarshal :: "wire_runtime \<Rightarrow> bool \<Rightarrow> bytes \<Rightarrow> portalv1_TransferRedeemed result option" where
  "portalv1_TransferRedeemed_unmarshal rt discardUnknown bs =
     read_fields (Skip rt) portalv1_TransferRedeemed_field
       (\<lambda>u x. if discardUnknown then x else x\<lparr>portalv1_TransferRedeemed_unknownFields := portalv1_TransferRedeemed_unknownFields x @ u\<rparr>)
       \<lparr>portalv1_TransferRedeemed_Digest = [], portalv1_TransferRedeemed_unknownFields = []\<rparr> 0 bs"

lemma portalv1_TransferRedeemed_written:
  assumes "varint_runtime rt" "portalv1_TransferRedeemed_unknownFields x = []"
  shows "writes (portalv1_TransferRedeemed_marshal rt x)
    (delimited_bytes rt 0xA (portalv1_TransferRedeemed_Digest x) @
      [])
    (portalv1_TransferRedeemed_size rt x)"
  by (simp add: writes_def portalv1_TransferRedeemed_marshal_def portalv1_TransferRedeemed_size_def assms wire_puts)

lemma portalv1_TransferRedeemed_exact:
  assumes "varint_runtime rt"
  shows "exact_codec (portalv1_TransferRedeemed_size rt) (portalv1_TransferRedeemed_marshal rt) 
    (portalv1_TransferRedeemed_unmarshal rt' discardUnknown) (\<lambda>x. portalv1_TransferRedeemed_unknownFields x = [])"
  by (rule exact_codecI, rule portalv1_TransferRedeemed_written [OF assms], assumption,
    unfold portalv1_TransferRedeemed_unmarshal_def, erule readsD [rotated],
    (rule reads_bytes [OF assms], rule wire_tags,
        simp add: portalv1_TransferRedeemed_field_def, simp)+, rule reads_done, simp)

lemma portalv1_TransferRedeemed_returns:
  "skip_progress (Skip rt) \<Longrightarrow> \<exists>r. portalv1_TransferRedeemed_unmarshal rt discardUnknown bs = Some r"
  unfolding portalv1_TransferRedeemed_unmarshal_def by (rule read_fields_returns)

subsection \<open>USDNTokenSent (portalv1)\<close>

text \<open>\<open>USDNTokenSent\<close> of \<open>api/portal/v1/events.pulsar.go\<close>.\<close>

record portalv1_USDNTokenSent =
  portalv1_USDNTokenSent_SourceToken :: bytes
  portalv1_USDNTokenSent_DestinationChainId :: "32 word"
  portalv1_USDNTokenSent_DestinationToken :: bytes
  portalv1_USDNTokenSent_Sender :: bytes
  portalv1_USDNTokenSent_Recipient :: bytes
  portalv1_USDNTokenSent_Amount :: bytes
  portalv1_USDNTokenSent_Index :: "64 word"
  portalv1_USDNTokenSent_MessageId :: bytes
  portalv1_USDNTokenSent_unknownFields :: bytes

definition portalv1_USDNTokenSent_size :: "wire_runtime \<Rightarrow> portalv1_USDNTokenSent \<Rightarrow> nat" where
  "portalv1_USDNTokenSent_size rt x =
     size_delimited rt (portalv1_USDNTokenSent_SourceToken x) +
     size_varint rt (ucast (portalv1_USDNTokenSent_DestinationChainId x)) +
     size_delimited rt (portalv1_USDNTokenSent_DestinationToken x) +
     size_delimited rt (portalv1_USDNTokenSent_Sender x) +
     size_delimited rt (portalv1_USDNTokenSent_Recipient x) +
     size_delimited rt (portalv1_USDNTokenSent_Amount x) +
     size_varint rt (portalv1_USDNTokenSent_Index x) +
     size_delimited rt (portalv1_USDNTokenSent_MessageId x) +
     length (portalv1_USDNTokenSent_unknownFields x)"

definition portalv1_USDNTokenSent_marshal :: "wire_runtime \<Rightarrow> portalv1_USDNTokenSent \<Rightarrow> bytes result" where
  "portalv1_USDNTokenSent_marshal rt x =
     obind (put (portalv1_USDNTokenSent_unknownFields x) (portalv1_USDNTokenSent_size rt x, [])) (\<lambda>b.
     obind (put_delimited rt 0x42 (portalv1_USDNTokenSent_MessageId x) b) (\<lambda>b.
     obind (put_varint rt 0x38 (portalv1_USDNTokenSent_Index x) b) (\<lambda>b.
     obind (put_delimited rt 0x32 (portalv1_USDNTokenSent_Amount x) b) (\<lambda>b.
     obind (put_delimited rt 0x2A (portalv1_USDNTokenSent_Recipient x) b) (\<lambda>b.
     obind (put_delimited rt 0x22 (portalv1_USDNTokenSent_Sender x) b) (\<lambda>b.
     obind (put_delimited rt 0x1A (portalv1_USDNTokenSent_DestinationToken x) b) (\<lambda>b.
     obind (put_varint rt 0x10 (ucast (portalv1_USDNTokenSent_DestinationChainId x)) b) (\<lambda>b.
     obind (put_delimited rt 0xA (portalv1_USDNTokenSent_SourceToken x) b) (\<lambda>b.
     Ok (buffer_bytes b))))))))))"

definition portalv1_USDNTokenSent_field ::
    "int \<Rightarrow> int \<Rightarrow> portalv1_USDNTokenSent \<Rightarrow> nat \<Rightarrow> bytes \<Rightarrow> (portalv1_USDNTokenSent \<times> nat) result option" where
  "portalv1_USDNTokenSent_field fieldNum wireType x i bs =
     (if fieldNum = 1 then Some (bytes_field wireType i (\<lambda>v. x\<lparr>portalv1_USDNTokenSent_SourceToken := v\<rparr>) bs)
      else if fieldNum = 2 then Some (varint_field wireType (\<lambda>v. x\<lparr>portalv1_USDNTokenSent_DestinationChainId := v\<rparr>) bs)
      else if fieldNum = 3 then Some (bytes_field wireType i (\<lambda>v. x\<lparr>portalv1_USDNTokenSent_DestinationToken := v\<rparr>) bs)
      else if fieldNum = 4 then Some (bytes_field wireType i (\<lambda>v. x\<lparr>portalv1_USDNTokenSent_Sender := v\<rparr>) bs)
      else if fieldNum = 5 then Some (bytes_field wireType i (\<lambda>v. x\<lparr>portalv1_USDNTokenSent_Recipient := v\<rparr>) bs)
      else if fieldNum = 6 then Some (bytes_field wireType i (\<lambda>v. x\<lparr>portalv1_USDNTokenSent_Amount := v\<rparr>) bs)
      else if fieldNum = 7 then Some (varint_field wireType (\<lambda>v. x\<lparr>portalv1_USDNTokenSent_Index := v\<rparr>) bs)
      else if fieldNum = 8 then Some (bytes_field wireType i (\<lambda>v. x\<lparr>portalv1_USDNTokenSent_MessageId := v\<rparr>) bs)
      else None)"

definition portalv1_USDNTokenSent_unmarshal :: "wire_runtime \<Rightarrow> bool \<Rightarrow> bytes \<Rightarrow> portalv1_USDNTokenSent result option" where
  "portalv1_USDNTokenSent_unmarshal rt discardUnknown bs =
     read_fields (Skip rt) portalv1_USDNTokenSent_field
       (\<lambda>u x. if discardUnknown then x else x\<lparr>portalv1_USDNTokenSent_unknownFields := portalv1_USDNTokenSent_unknownFields x @ u\<rparr>)
       \<lparr>portalv1_USDNTokenSent_SourceToken = [], portalv1_USDNTokenSent_DestinationChainId = 0, portalv1_USDNTokenSent_DestinationToken = [], portalv1_USDNTokenSent_Sender = [], portalv1_USDNTokenSent_Recipient = [], portalv1_USDNTokenSent_Amount = [], portalv1_USDNTokenSent_Index = 0, portalv1_USDNTokenSent_MessageId = [], portalv1_USDNTokenSent_unknownFields = []\<rparr> 0 bs"

lemma portalv1_USDNTokenSent_written:
  assumes "varint_runtime rt" "portalv1_USDNTokenSent_unknownFields x = []"
  shows "writes (portalv1_USDNTokenSent_marshal rt x)
    (delimited_bytes rt 0xA (portalv1_USDNTokenSent_SourceToken x) @
      varint_bytes rt 0x10 (ucast (portalv1_USDNTokenSent_DestinationChainId x)) @
      delimited_bytes rt 0x1A (portalv1_USDNTokenSent_DestinationToken x) @
      delimited_bytes rt 0x22 (portalv1_USDNTokenSent_Sender x) @
      delimited_bytes rt 0x2A (portalv1_USDNTokenSent_Recipient x) @
      delimited_bytes rt 0x32 (portalv1_USDNTokenSent_Amount x) @
      varint_bytes rt 0x38 (portalv1_USDNTokenSent_Index x) @
      delimited_bytes rt 0x42 (portalv1_USDNTokenSent_MessageId x) @
      [])
    (portalv1_USDNTokenSent_size rt x)"
  by (simp add: writes_def portalv1_USDNTokenSent_marshal_def portalv1_USDNTokenSent_size_def assms wire_puts)

lemma portalv1_USDNTokenSent_exact:
  assumes "varint_runtime rt"
  shows "exact_codec (portalv1_USDNTokenSent_size rt) (portalv1_USDNTokenSent_marshal rt) 
    (portalv1_USDNTokenSent_unmarshal rt' discardUnknown) (\<lambda>x. portalv1_USDNTokenSent_unknownFields x = [])"
  by (rule exact_codecI, rule portalv1_USDNTokenSent_written [OF assms], assumption,
    unfold portalv1_USDNTokenSent_unmarshal_def, erule readsD [rotated],
    (rule reads_bytes [OF assms] reads_varint32 [OF assms] reads_varint [OF assms], rule wire_tags,
        simp add: portalv1_USDNTokenSent_field_def, simp)+, rule reads_done, simp)

lemma portalv1_USDNTokenSent_returns:
  "skip_progress (Skip rt) \<Longrightarrow> \<exists>r. portalv1_USDNTokenSent_unmarshal rt discardUnknown bs = Some r"
  unfolding portalv1_USDNTokenSent_unmarshal_def by (rule read_fields_returns)

subsection \<open>PeerUpdated (portalv1)\<close>

text \<open>\<open>PeerUpdated\<close> of \<open>api/portal/v1/events.pulsar.go\<close>.\<close>

record portalv1_PeerUpdated =
  portalv1_PeerUpdated_Chain :: "32 word"
  portalv1_PeerUpdated_OldTransceiver :: bytes
  portalv1_PeerUpdated_NewTransceiver :: bytes
  portalv1_PeerUpdated_OldManager :: bytes
  portalv1_PeerUpdated_NewManager :: bytes
  portalv1_PeerUpdated_unknownFields :: bytes

definition portalv1_PeerUpdated_size :: "wire_runtime \<Rightarrow> portalv1_PeerUpdated \<Rightarrow> nat" where
  "portalv1_PeerUpdated_size rt x =
     size_varint rt (ucast (portalv1_PeerUpdated_Chain x)) +
     size_delimited rt (portalv1_PeerUpdated_OldTransceiver x) +
     size_delimited rt (portalv1_PeerUpdated_NewTransceiver x) +
     size_delimited rt (portalv1_PeerUpdated_OldManager x) +
     size_delimited rt (portalv1_PeerUpdated_NewManager x) +
     length (portalv1_PeerUpdated_unknownFields x)"

definition portalv1_PeerUpdated_marshal :: "wire_runtime \<Rightarrow> portalv1_PeerUpdated \<Rightarrow> bytes result" where
  "portalv1_PeerUpdated_marshal rt x =
     obind (put (portalv1_PeerUpdated_unknownFields x) (portalv1_PeerUpdated_size rt x, [])) (\<lambda>b.
     obind (put_delimited rt 0x2A (portalv1_PeerUpdated_NewManager x) b) (\<lambda>b.
     obind (put_delimited rt 0x22 (portalv1_PeerUpdated_OldManager x) b) (\<lambda>b.
     obind (put_delimited rt 0x1A (portalv1_PeerUpdated_NewTransceiver x) b) (\<lambda>b.
     obind (put_delimited rt 0x12 (portalv1_PeerUpdated_OldTransceiver x) b) (\<lambda>b.
     obind (put_varint rt 0x8 (ucast (portalv1_PeerUpdated_Chain x)) b) (\<lambda>b.
     Ok (buffer_bytes b)))))))"

definition portalv1_PeerUpdated_field ::
    "int \<Rightarrow> int \<Rightarrow> portalv1_PeerUpdated \<Rightarrow> nat \<Rightarrow> bytes \<Rightarrow> (portalv1_PeerUpdated \<times> nat) result option" where
  "portalv1_PeerUpdated_field fieldNum wireType x i bs =
     (if fieldNum = 1 then Some (varint_field wireType (\<lambda>v. x\<lparr>portalv1_PeerUpdated_Chain := v\<rparr>) bs)
      else if fieldNum = 2 then Some (bytes_field wireType i (\<lambda>v. x\<lparr>portalv1_PeerUpdated_OldTransceiver := v\<rparr>) bs)
      else if fieldNum = 3 then Some (bytes_field wireType i (\<lambda>v. x\<lparr>portalv1_PeerUpdated_NewTransceiver := v\<rparr>) bs)
      else if fieldNum = 4 then Some (bytes_field wireType i (\<lambda>v. x\<lparr>portalv1_PeerUpdated_OldManager := v\<rparr>) bs)
      else if fieldNum = 5 then Some (bytes_field wireType i (\<lambda>v. x\<lparr>portalv1_PeerUpdated_NewManager := v\<rparr>) bs)
      else None)"

definition portalv1_PeerUpdated_unmarshal :: "wire_runtime \<Rightarrow> bool \<Rightarrow> bytes \<Rightarrow> portalv1_PeerUpdated result option" where
  "portalv1_PeerUpdated_unmarshal rt discardUnknown bs =
     read_fields (Skip rt) portalv1_PeerUpdated_field
       (\<lambda>u x. if discardUnknown then x else x\<lparr>portalv1_PeerUpdated_unknownFields := portalv1_PeerUpdated_unknownFields x @ u\<rparr>)
       \<lparr>portalv1_PeerUpdated_Chain = 0, portalv1_PeerUpdated_OldTransceiver = [], portalv1_PeerUpdated_NewTransceiver = [], portalv1_PeerUpdated_OldManager = [], portalv1_PeerUpdated_NewManager = [], portalv1_PeerUpdated_unknownFields = []\<rparr> 0 bs"

lemma portalv1_PeerUpdated_written:
  assumes "varint_runtime rt" "portalv1_PeerUpdated_unknownFields x = []"
  shows "writes (portalv1_PeerUpdated_marshal rt x)
    (varint_bytes rt 0x8 (ucast (portalv1_PeerUpdated_Chain x)) @
      delimited_bytes rt 0x12 (portalv1_PeerUpdated_OldTransceiver x) @
      delimited_bytes rt 0x1A (portalv1_PeerUpdated_NewTransceiver x) @
      delimited_bytes rt 0x22 (portalv1_PeerUpdated_OldManager x) @
      delimited_bytes rt 0x2A (portalv1_PeerUpdated_NewManager x) @
      [])
    (portalv1_PeerUpdated_size rt x)"
  by (simp add: writes_def portalv1_PeerUpdated_marshal_def portalv1_PeerUpdated_size_def assms wire_puts)

lemma portalv1_PeerUpdated_exact:
  assumes "varint_runtime rt"
  shows "exact_codec (portalv1_PeerUpdated_size rt) (portalv1_PeerUpdated_marshal rt) 
    (portalv1_PeerUpdated_unmarshal rt' discardUnknown) (\<lambda>x. portalv1_PeerUpdated_unknownFields x = [])"
  by (rule exact_codecI, rule portalv1_PeerUpdated_written [OF assms], assumption,
    unfold portalv1_PeerUpdated_unmarshal_def, erule readsD [rotated],
    (rule reads_varint32 [OF assms] reads_bytes [OF assms], rule wire_tags,
        simp add: portalv1_PeerUpdated_field_def, simp)+, rule reads_done, simp)

lemma portalv1_PeerUpdated_returns:
  "skip_progress (Skip rt) \<Longrightarrow> \<exists>r. portalv1_PeerUpdated_unmarshal rt discardUnknown bs = Some r"
  unfolding portalv1_PeerUpdated_unmarshal_def by (rule read_fields_returns)

subsection \<open>BridgingPathSet (portalv1)\<close>

text \<open>\<open>BridgingPathSet\<close> of \<open>api/portal/v1/events.pulsar.go\<close>.\<close>

record portalv1_BridgingPathSet =
  portalv1_BridgingPathSet_DestinationChainId :: "32 word"
  portalv1_BridgingPathSet_DestinationToken :: bytes
  portalv1_BridgingPathSet_Supported :: bool
  portalv1_BridgingPathSet_unknownFields :: bytes

definition portalv1_BridgingPathSet_size :: "wire_runtime \<Rightarrow> portalv1_BridgingPathSet \<Rightarrow> nat" where
  "portalv1_BridgingPathSet_size rt x =
     size_varint rt (ucast (portalv1_BridgingPathSet_DestinationChainId x)) +
     size_delimited rt (portalv1_BridgingPathSet_DestinationToken x) +
     size_bool (portalv1_BridgingPathSet_Supported x) +
     length (portalv1_BridgingPathSet_unknownFields x)"

definition portalv1_BridgingPathSet_marshal :: "wire_runtime \<Rightarrow> portalv1_BridgingPathSet \<Rightarrow> bytes result" where
  "portalv1_BridgingPathSet_marshal rt x =
     obind (put (portalv1_BridgingPathSet_unknownFields x) (portalv1_BridgingPathSet_size rt x, [])) (\<lambda>b.
     obind (put_bool 0x18 (portalv1_BridgingPathSet_Supported x) b) (\<lambda>b.
     obind (put_delimited rt 0x12 (portalv1_BridgingPathSet_DestinationToken x) b) (\<lambda>b.
     obind (put_varint rt 0x8 (ucast (portalv1_BridgingPathSet_DestinationChainId x)) b) (\<lambda>b.
     Ok (buffer_bytes b)))))"

definition portalv1_BridgingPathSet_field ::
    "int \<Rightarrow> int \<Rightarrow> portalv1_BridgingPathSet \<Rightarrow> nat \<Rightarrow> bytes \<Rightarrow> (portalv1_BridgingPathSet \<times> nat) result option" where
  "portalv1_BridgingPathSet_field fieldNum wireType x i bs =
     (if fieldNum = 1 then Some (varint_field wireType (\<lambda>v. x\<lparr>portalv1_BridgingPathSet_DestinationChainId := v\<rparr>) bs)
      else if fieldNum = 2 then Some (bytes_field wireType i (\<lambda>v. x\<lparr>portalv1_BridgingPathSet_DestinationToken := v\<rparr>) bs)
      else if fieldNum = 3 then Some (bool_field wireType (\<lambda>v. x\<lparr>portalv1_BridgingPathSet_Supported := v\<rparr>) bs)
      else None)"

definition portalv1_BridgingPathSet_unmarshal :: "wire_runtime \<Rightarrow> bool \<Rightarrow> bytes \<Rightarrow> portalv1_BridgingPathSet result option" where
  "portalv1_BridgingPathSet_unmarshal rt discardUnknown bs =
     read_fields (Skip rt) portalv1_BridgingPathSet_field
       (\<lambda>u x. if discardUnknown then x else x\<lparr>portalv1_BridgingPathSet_unknownFields := portalv1_BridgingPathSet_unknownFields x @ u\<rparr>)
       \<lparr>portalv1_BridgingPathSet_DestinationChainId = 0, portalv1_BridgingPathSet_DestinationToken = [], portalv1_BridgingPathSet_Supported = False, portalv1_BridgingPathSet_unknownFields = []\<rparr> 0 bs"

lemma portalv1_BridgingPathSet_written:
  assumes "varint_runtime rt" "portalv1_BridgingPathSet_unknownFields x = []"
  shows "writes (portalv1_BridgingPathSet_marshal rt x)
    (varint_bytes rt 0x8 (ucast (portalv1_BridgingPathSet_DestinationChainId x)) @
      delimited_bytes rt 0x12 (portalv1_BridgingPathSet_DestinationToken x) @
      bool_bytes 0x18 (portalv1_BridgingPathSet_Supported x) @
      [])
    (portalv1_BridgingPathSet_size rt x)"
  by (simp add: writes_def portalv1_BridgingPathSet_marshal_def portalv1_BridgingPathSet_size_def assms wire_puts)

lemma portalv1_BridgingPathSet_exact:
  assumes "varint_runtime rt"
  shows "exact_codec (portalv1_BridgingPathSet_size rt) (portalv1_BridgingPathSet_marshal rt) 
    (portalv1_BridgingPathSet_unmarshal rt' discardUnknown) (\<lambda>x. portalv1_BridgingPathSet_unknownFields x = [])"
  by (rule exact_codecI, rule portalv1_BridgingPathSet_written [OF assms], assumption,
    unfold portalv1_BridgingPathSet_unmarshal_def, erule readsD [rotated],
    (rule reads_varint32 [OF assms] reads_bytes [OF assms] reads_bool, rule wire_tags,
        simp add: portalv1_BridgingPathSet_field_def, simp)+, rule reads_done, simp)

lemma portalv1_BridgingPathSet_returns:
  "skip_progress (Skip rt) \<Longrightarrow> \<exists>r. portalv1_BridgingPathSet_unmarshal rt discardUnknown bs = Some r"
  unfolding portalv1_BridgingPathSet_unmarshal_def by (rule read_fields_returns)

subsection \<open>OwnershipTransferred (portalv1)\<close>

text \<open>\<open>OwnershipTransferred\<close> of \<open>api/portal/v1/events.pulsar.go\<close>.\<close>

record portalv1_OwnershipTransferred =
  portalv1_OwnershipTransferred_PreviousOwner :: bytes
  portalv1_OwnershipTransferred_NewOwner :: bytes
  portalv1_OwnershipTransferred_unknownFields :: bytes

definition portalv1_OwnershipTransferred_size :: "wire_runtime \<Rightarrow> portalv1_OwnershipTransferred \<Rightarrow> nat" where
  "portalv1_OwnershipTransferred_size rt x =
     size_delimited rt (portalv1_OwnershipTransferred_PreviousOwner x) +
     size_delimited rt (portalv1_OwnershipTransferred_NewOwner x) +
     length (portalv1_OwnershipTransferred_unknownFields x)"

definition portalv1_OwnershipTransferred_marshal :: "wire_runtime \<Rightarrow> portalv1_OwnershipTransferred \<Rightarrow> bytes result" where
  "portalv1_OwnershipTransferred_marshal rt x =
     obind (put (portalv1_OwnershipTransferred_unknownFields x) (portalv1_OwnershipTransferred_size rt x, [])) (\<lambda>b.
     obind (put_delimited rt 0x12 (portalv1_OwnershipTransferred_NewOwner x) b) (\<lambda>b.
     obind (put_delimited rt 0xA (portalv1_OwnershipTransferred_PreviousOwner x) b) (\<lambda>b.
     Ok (buffer_bytes b))))"

definition portalv1_OwnershipTransferred_field ::
    "int \<Rightarrow> int \<Rightarrow> portalv1_OwnershipTransferred \<Rightarrow> nat \<Rightarrow> bytes \<Rightarrow> (portalv1_OwnershipTransferred \<times> nat) result option" where
  "portalv1_OwnershipTransferred_field fieldNum wireType x i bs =
     (if fieldNum = 1 then Some (bytes_field wireType i (\<lambda>v. x\<lparr>portalv1_OwnershipTransferred_PreviousOwner := v\<rparr>) bs)
      else if fieldNum = 2 then Some (bytes_field wireType i (\<lambda>v. x\<lparr>portalv1_OwnershipTransferred_NewOwner := v\<rparr>) bs)
      else None)"

definition portalv1_OwnershipTransferred_unmarshal :: "wire_runtime \<Rightarrow> bool \<Rightarrow> bytes \<Rightarrow> portalv1_OwnershipTransferred result option" where
  "portalv1_OwnershipTransferred_unmarshal rt discardUnknown bs =
     read_fields (Skip rt) portalv1_OwnershipTransferred_field
       (\<lambda>u x. if discardUnknown then x else x\<lparr>portalv1_OwnershipTransferred_unknownFields := portalv1_OwnershipTransferred_unknownFields x @ u\<rparr>)
       \<lparr>portalv1_OwnershipTransferred_PreviousOwner = [], portalv1_OwnershipTransferred_NewOwner = [], portalv1_OwnershipTransferred_unknownFields = []\<rparr> 0 bs"

lemma portalv1_OwnershipTransferred_written:
  assumes "varint_runtime rt" "portalv1_OwnershipTransferred_unknownFields x = []"
  shows "writes (portalv1_OwnershipTransferred_marshal rt x)
    (delimited_bytes rt 0xA (portalv1_OwnershipTransferred_PreviousOwner x) @
      delimited_bytes rt 0x12 (portalv1_OwnershipTransferred_NewOwner x) @
      [])
    (portalv1_OwnershipTransferred_size rt x)"
  by (simp add: writes_def portalv1_OwnershipTransferred_marshal_def portalv1_OwnershipTransferred_size_def assms wire_puts)

lemma portalv1_OwnershipTransferred_exact:
  assumes "varint_runtime rt"
  shows "exact_codec (portalv1_OwnershipTransferred_size rt) (portalv1_OwnershipTransferred_marshal rt) 
    (portalv1_OwnershipTransferred_unmarshal rt' discardUnknown) (\<lambda>x. portalv1_OwnershipTransferred_unknownFields x = [])"
  by (rule exact_codecI, rule portalv1_OwnershipTransferred_written [OF assms], assumption,
    unfold portalv1_OwnershipTransferred_unmarshal_def, erule readsD [rotated],
    (rule reads_bytes [OF assms], rule wire_tags,
        simp add: portalv1_OwnershipTransferred_field_def, simp)+, rule reads_done, simp)

lemma portalv1_OwnershipTransferred_returns:
  "skip_progress (Skip rt) \<Longrightarrow> \<exists>r. portalv1_OwnershipTransferred_unmarshal rt discardUnknown bs = Some r"
  unfolding portalv1_OwnershipTransferred_unmarshal_def by (rule read_fields_returns)

subsection \<open>Paused (portalv1)\<close>

text \<open>\<open>Paused\<close> of \<open>api/portal/v1/events.pulsar.go\<close>.\<close>

record portalv1_Paused =
  portalv1_Paused_unknownFields :: bytes

definition portalv1_Paused_size :: "wire_runtime \<Rightarrow> portalv1_Paused \<Rightarrow> nat" where
  "portalv1_Paused_size rt x =
     length (portalv1_Paused_unknownFields x)"

definition portalv1_Paused_marshal :: "wire_runtime \<Rightarrow> portalv1_Paused \<Rightarrow> bytes result" where
  "portalv1_Paused_marshal rt x =
     obind (put (portalv1_Paused_unknownFields x) (portalv1_Paused_size rt x, [])) (\<lambda>b.
     Ok (buffer_bytes b))"

definition portalv1_Paused_field ::
    "int \<Rightarrow> int \<Rightarrow> portalv1_Paused \<Rightarrow> nat \<Rightarrow> bytes \<Rightarrow> (portalv1_Paused \<times> nat) result option" where
  "portalv1_Paused_field fieldNum wireType x i bs =
     None"

definition portalv1_Paused_unmarshal :: "wire_runtime \<Rightarrow> bool \<Rightarrow> bytes \<Rightarrow> portalv1_Paused result option" where
  "portalv1_Paused_unmarshal rt discardUnknown bs =
     read_fields (Skip rt) portalv1_Paused_field
       (\<lambda>u x. if discardUnknown then x else x\<lparr>portalv1_Paused_unknownFields := portalv1_Paused_unknownFields x @ u\<rparr>)
       \<lparr>portalv1_Paused_unknownFields = []\<rparr> 0 bs"

lemma portalv1_Paused_written:
  assumes "varint_runtime rt" "portalv1_Paused_unknownFields x = []"
  shows "writes (portalv1_Paused_marshal rt x)
    ([] :: bytes)
    (portalv1_Paused_size rt x)"
  by (simp add: writes_def portalv1_Paused_marshal_def portalv1_Paused_size_def assms wire_puts)

lemma portalv1_Paused_exact:
  assumes "varint_runtime rt"
  shows "exact_codec (portalv1_Paused_size rt) (portalv1_Paused_marshal rt) 
    (portalv1_Paused_unmarshal rt' discardUnknown) (\<lambda>x. portalv1_Paused_unknownFields x = [])"
  by (rule exact_codecI, rule portalv1_Paused_written [OF assms], assumption,
    unfold portalv1_Paused_unmarshal_def, erule readsD [rotated],
    rule reads_done, simp)

lemma portalv1_Paused_returns:
  "skip_progress (Skip rt) \<Longrightarrow> \<exists>r. portalv1_Paused_unmarshal rt discardUnknown bs = Some r"
  unfolding portalv1_Paused_unmarshal_def by (rule read_fields_returns)

subsection \<open>Unpaused (portalv1)\<close>

text \<open>\<open>Unpaused\<close> of \<open>api/portal/v1/events.pulsar.go\<close>.\<close>

record portalv1_Unpaused =
  portalv1_Unpaused_unknownFields :: bytes

definition portalv1_Unpaused_size :: "wire_runtime \<Rightarrow> portalv1_Unpaused \<Rightarrow> nat" where
  "portalv1_Unpaused_size rt x =
     length (portalv1_Unpaused_unknownFields x)"

definition portalv1_Unpaused_marshal :: "wire_runtime \<Rightarrow> portalv1_Unpaused \<Rightarrow> bytes result" where
  "portalv1_Unpaused_marshal rt x =
     obind (put (portalv1_Unpaused_unknownFields x) (portalv1_Unpaused_size rt x, [])) (\<lambda>b.
     Ok (buffer_bytes b))"

definition portalv1_Unpaused_field ::
    "int \<Rightarrow> int \<Rightarrow> portalv1_Unpaused \<Rightarrow> nat \<Rightarrow> bytes \<Rightarrow> (portalv1_Unpaused \<times> nat) result option" where
  "portalv1_Unpaused_field fieldNum wireType x i bs =
     None"

definition portalv1_Unpaused_unmarshal :: "wire_runtime \<Rightarrow> bool \<Rightarrow> bytes \<Rightarrow> portalv1_Unpaused result option" where
  "portalv1_Unpaused_unmarshal rt discardUnknown bs =
     read_fields (Skip rt) portalv1_Unpaused_field
       (\<lambda>u x. if discardUnknown then x else x\<lparr>portalv1_Unpaused_unknownFields := portalv1_Unpaused_unknownFields x @ u\<rparr>)
       \<lparr>portalv1_Unpaused_unknownFields = []\<rparr> 0 bs"

lemma portalv1_Unpaused_written:
  assumes "varint_runtime rt" "portalv1_Unpaused_unknownFields x = []"
  shows "writes (portalv1_Unpaused_marshal rt x)
    ([] :: bytes)
    (portalv1_Unpaused_size rt x)"
  by (simp add: writes_def portalv1_Unpaused_marshal_def portalv1_Unpaused_size_def assms wire_puts)

lemma portalv1_Unpaused_exact:
  assumes "varint_runtime rt"
  shows "exact_codec (portalv1_Unpaused_size rt) (portalv1_Unpaused_marshal rt) 
    (portalv1_Unpaused_unmarshal rt' discardUnknown) (\<lambda>x. portalv1_Unpaused_unknownFields x = [])"
  by (rule exact_codecI, rule portalv1_Unpaused_written [OF assms], assumption,
    unfold portalv1_Unpaused_unmarshal_def, erule readsD [rotated],
    rule reads_done, simp)

lemma portalv1_Unpaused_returns:
  "skip_progress (Skip rt) \<Longrightarrow> \<exists>r. portalv1_Unpaused_unmarshal rt discardUnknown bs = Some r"
  unfolding portalv1_Unpaused_unmarshal_def by (rule read_fields_returns)

subsection \<open>PositionLocked (vaultsv1)\<close>

text \<open>\<open>PositionLocked\<close> of \<open>api/vaults/v1/events.pulsar.go\<close>.\<close>

record vaultsv1_PositionLocked =
  vaultsv1_PositionLocked_Account :: bytes
  vaultsv1_PositionLocked_VaultType :: bytes
  vaultsv1_PositionLocked_Index :: "64 word"
  vaultsv1_PositionLocked_Amount :: bytes
  vaultsv1_PositionLocked_Principal :: bytes
  vaultsv1_PositionLocked_unknownFields :: bytes

definition vaultsv1_PositionLocked_size :: "wire_runtime \<Rightarrow> vaultsv1_PositionLocked \<Rightarrow> nat" where
  "vaultsv1_PositionLocked_size rt x =
     size_delimited rt (vaultsv1_PositionLocked_Account x) +
     size_delimited rt (vaultsv1_PositionLocked_VaultType x) +
     size_varint rt (vaultsv1_PositionLocked_Index x) +
     size_delimited rt (vaultsv1_PositionLocked_Amount x) +
     size_delimited rt (vaultsv1_PositionLocked_Principal x) +
     length (vaultsv1_PositionLocked_unknownFields x)"

definition vaultsv1_PositionLocked_marshal :: "wire_runtime \<Rightarrow> vaultsv1_PositionLocked \<Rightarrow> bytes result" where
  "vaultsv1_PositionLocked_marshal rt x =
     obind (put (vaultsv1_PositionLocked_unknownFields x) (vaultsv1_PositionLocked_size rt x, [])) (\<lambda>b.
     obind (put_delimited rt 0x2A (vaultsv1_PositionLocked_Principal x) b) (\<lambda>b.
     obind (put_delimited rt 0x22 (vaultsv1_PositionLocked_Amount x) b) (\<lambda>b.
     obind (put_varint rt 0x18 (vaultsv1_PositionLocked_Index x) b) (\<lambda>b.
     obind (put_delimited rt 0x12 (vaultsv1_PositionLocked_VaultType x) b) (\<lambda>b.
     obind (put_delimited rt 0xA (vaultsv1_PositionLocked_Account x) b) (\<lambda>b.
     Ok (buffer_bytes b)))))))"

definition vaultsv1_PositionLocked_field ::
    "int \<Rightarrow> int \<Rightarrow> vaultsv1_PositionLocked \<Rightarrow> nat \<Rightarrow> bytes \<Rightarrow> (vaultsv1_PositionLocked \<times> nat) result option" where
  "vaultsv1_PositionLocked_field fieldNum wireType x i bs =
     (if fieldNum = 1 then Some (bytes_field wireType i (\<lambda>v. x\<lparr>vaultsv1_PositionLocked_Account := v\<rparr>) bs)
      else if fieldNum = 2 then Some (bytes_field wireType i (\<lambda>v. x\<lparr>vaultsv1_PositionLocked_VaultType := v\<rparr>) bs)
      else if fieldNum = 3 then Some (varint_field wireType (\<lambda>v. x\<lparr>vaultsv1_PositionLocked_Index := v\<rparr>) bs)
      else if fieldNum = 4 then Some (bytes_field wireType i (\<lambda>v. x\<lparr>vaultsv1_PositionLocked_Amount := v\<rparr>) bs)
      else if fieldNum = 5 then Some (bytes_field wireType i (\<lambda>v. x\<lparr>vaultsv1_PositionLocked_Principal := v\<rparr>) bs)
      else None)"

definition vaultsv1_PositionLocked_unmarshal :: "wire_runtime \<Rightarrow> bool \<Rightarrow> bytes \<Rightarrow> vaultsv1_PositionLocked result option" where
  "vaultsv1_PositionLocked_unmarshal rt discardUnknown bs =
     read_fields (Skip rt) vaultsv1_PositionLocked_field
       (\<lambda>u x. if discardUnknown then x else x\<lparr>vaultsv1_PositionLocked_unknownFields := vaultsv1_PositionLocked_unknownFields x @ u\<rparr>)
       \<lparr>vaultsv1_PositionLocked_Account = [], vaultsv1_PositionLocked_VaultType = [], vaultsv1_PositionLocked_Index = 0, vaultsv1_PositionLocked_Amount = [], vaultsv1_PositionLocked_Principal = [], vaultsv1_PositionLocked_unknownFields = []\<rparr> 0 bs"

lemma vaultsv1_PositionLocked_written:
  assumes "varint_runtime rt" "vaultsv1_PositionLocked_unknownFields x = []"
  shows "writes (vaultsv1_PositionLocked_marshal rt x)
    (delimited_bytes rt 0xA (vaultsv1_PositionLocked_Account x) @
      delimited_bytes rt 0x12 (vaultsv1_PositionLocked_VaultType x) @
      varint_bytes rt 0x18 (vaultsv1_PositionLocked_Index x) @
      delimited_bytes rt 0x22 (vaultsv1_PositionLocked_Amount x) @
      delimited_bytes rt 0x2A (vaultsv1_PositionLocked_Principal x) @
      [])
    (vaultsv1_PositionLocked_size rt x)"
  by (simp add: writes_def vaultsv1_PositionLocked_marshal_def vaultsv1_PositionLocked_size_def assms wire_puts)

lemma vaultsv1_PositionLocked_exact:
  assumes "varint_runtime rt"
  shows "exact_codec (vaultsv1_PositionLocked_size rt) (vaultsv1_PositionLocked_marshal rt) 
    (vaultsv1_PositionLocked_unmarshal rt' discardUnknown) (\<lambda>x. vaultsv1_PositionLocked_unknownFields x = [])"
  by (rule exact_codecI, rule vaultsv1_PositionLocked_written [OF assms], assumption,
    unfold vaultsv1_PositionLocked_unmarshal_def, erule readsD [rotated],
    (rule reads_bytes [OF assms] reads_varint [OF assms], rule wire_tags,
        simp add: vaultsv1_PositionLocked_field_def, simp)+, rule reads_done, simp)

lemma vaultsv1_PositionLocked_returns:
  "skip_progress (Skip rt) \<Longrightarrow> \<exists>r. vaultsv1_PositionLocked_unmarshal rt discardUnknown bs = Some r"
  unfolding vaultsv1_PositionLocked_unmarshal_def by (rule read_fields_returns)

subsection \<open>PositionUnlocked (vaultsv1)\<close>

text \<open>\<open>PositionUnlocked\<close> of \<open>api/vaults/v1/events.pulsar.go\<close>.\<close>

record vaultsv1_PositionUnlocked =
  vaultsv1_PositionUnlocked_Account :: bytes
  vaultsv1_PositionUnlocked_VaultType :: bytes
  vaultsv1_PositionUnlocked_Index :: "64 word"
  vaultsv1_PositionUnlocked_Amount :: bytes
  vaultsv1_PositionUnlocked_Principal :: bytes
  vaultsv1_PositionUnlocked_unknownFields :: bytes

definition vaultsv1_PositionUnlocked_size :: "wire_runtime \<Rightarrow> vaultsv1_PositionUnlocked \<Rightarrow> nat" where
  "vaultsv1_PositionUnlocked_size rt x =
     size_delimited rt (vaultsv1_PositionUnlocked_Account x) +
     size_delimited rt (vaultsv1_PositionUnlocked_VaultType x) +
     size_varint rt (vaultsv1_PositionUnlocked_Index x) +
     size_delimited rt (vaultsv1_PositionUnlocked_Amount x) +
     size_delimited rt (vaultsv1_PositionUnlocked_Principal x) +
     length (vaultsv1_PositionUnlocked_unknownFields x)"

definition vaultsv1_PositionUnlocked_marshal :: "wire_runtime \<Rightarrow> vaultsv1_PositionUnlocked \<Rightarrow> bytes result" where
  "vaultsv1_PositionUnlocked_marshal rt x =
     obind (put (vaultsv1_PositionUnlocked_unknownFields x) (vaultsv1_PositionUnlocked_size rt x, [])) (\<lambda>b.
     obind (put_delimited rt 0x2A (vaultsv1_PositionUnlocked_Principal x) b) (\<lambda>b.
     obind (put_delimited rt 0x22 (vaultsv1_PositionUnlocked_Amount x) b) (\<lambda>b.
     obind (put_varint rt 0x18 (vaultsv1_PositionUnlocked_Index x) b) (\<lambda>b.
     obind (put_delimited rt 0x12 (vaultsv1_PositionUnlocked_VaultType x) b) (\<lambda>b.
     obind (put_delimited rt 0xA (vaultsv1_PositionUnlocked_Account x) b) (\<lambda>b.
     Ok (buffer_bytes b)))))))"

definition vaultsv1_PositionUnlocked_field ::
    "int \<Rightarrow> int \<Rightarrow> vaultsv1_PositionUnlocked \<Rightarrow> nat \<Rightarrow> bytes \<Rightarrow> (vaultsv1_PositionUnlocked \<times> nat) result option" where
  "vaultsv1_PositionUnlocked_field fieldNum wireType x i bs =
     (if fieldNum = 1 then Some (bytes_field wireType i (\<lambda>v. x\<lparr>vaultsv1_PositionUnlocked_Account := v\<rparr>) bs)
      else if fieldNum = 2 then Some (bytes_field wireType i (\<lambda>v. x\<lparr>vaultsv1_PositionUnlocked_VaultType := v\<rparr>) bs)
      else if fieldNum = 3 then Some (varint_field wireType (\<lambda>v. x\<lparr>vaultsv1_PositionUnlocked_Index := v\<rparr>) bs)
      else if fieldNum = 4 then Some (bytes_field wireType i (\<lambda>v. x\<lparr>vaultsv1_PositionUnlocked_Amount := v\<rparr>) bs)
      else if fieldNum = 5 then Some (bytes_field wireType i (\<lambda>v. x\<lparr>vaultsv1_PositionUnlocked_Principal := v\<rparr>) bs)
      else None)"

definition vaultsv1_PositionUnlocked_unmarshal :: "wire_runtime \<Rightarrow> bool \<Rightarrow> bytes \<Rightarrow> vaultsv1_PositionUnlocked result option" where
  "vaultsv1_PositionUnlocked_unmarshal rt discardUnknown bs =
     read_fields (Skip rt) vaultsv1_PositionUnlocked_field
       (\<lambda>u x. if discardUnknown then x else x\<lparr>vaultsv1_PositionUnlocked_unknownFields := vaultsv1_PositionUnlocked_unknownFields x @ u\<rparr>)
       \<lparr>vaultsv1_PositionUnlocked_Account = [], vaultsv1_PositionUnlocked_VaultType = [], vaultsv1_PositionUnlocked_Index = 0, vaultsv1_PositionUnlocked_Amount = [], vaultsv1_PositionUnlocked_Principal = [], vaultsv1_PositionUnlocked_unknownFields = []\<rparr> 0 bs"

lemma vaultsv1_PositionUnlocked_written:
  assumes "varint_runtime rt" "vaultsv1_PositionUnlocked_unknownFields x = []"
  shows "writes (vaultsv1_PositionUnlocked_marshal rt x)
    (delimited_bytes rt 0xA (vaultsv1_PositionUnlocked_Account x) @
      delimited_bytes rt 0x12 (vaultsv1_PositionUnlocked_VaultType x) @
      varint_bytes rt 0x18 (vaultsv1_PositionUnlocked_Index x) @
      delimited_bytes rt 0x22 (vaultsv1_PositionUnlocked_Amount x) @
      delimited_bytes rt 0x2A (vaultsv1_PositionUnlocked_Principal x) @
      [])
    (vaultsv1_PositionUnlocked_size rt x)"
  by (simp add: writes_def vaultsv1_PositionUnlocked_marshal_def vaultsv1_PositionUnlocked_size_def assms wire_puts)

lemma vaultsv1_PositionUnlocked_exact:
  assumes "varint_runtime rt"
  shows "exact_codec (vaultsv1_PositionUnlocked_size rt) (vaultsv1_PositionUnlocked_marshal rt) 
    (vaultsv1_PositionUnlocked_unmarshal rt' discardUnknown) (\<lambda>x. vaultsv1_PositionUnlocked_unknownFields x = [])"
  by (rule exact_codecI, rule vaultsv1_PositionUnlocked_written [OF assms], assumption,
    unfold vaultsv1_PositionUnlocked_unmarshal_def, erule readsD [rotated],
    (rule reads_bytes [OF assms] reads_varint [OF assms], rule wire_tags,
        simp add: vaultsv1_PositionUnlocked_field_def, simp)+, rule reads_done, simp)

lemma vaultsv1_PositionUnlocked_returns:
  "skip_progress (Skip rt) \<Longrightarrow> \<exists>r. vaultsv1_PositionUnlocked_unmarshal rt discardUnknown bs = Some r"
  unfolding vaultsv1_PositionUnlocked_unmarshal_def by (rule read_fields_returns)

subsection \<open>PausedStateUpdated (vaultsv1)\<close>

text \<open>\<open>PausedStateUpdated\<close> of \<open>api/vaults/v1/events.pulsar.go\<close>.\<close>

record vaultsv1_PausedStateUpdated =
  vaultsv1_PausedStateUpdated_Paused :: bytes
  vaultsv1_PausedStateUpdated_unknownFields :: bytes

definition vaultsv1_PausedStateUpdated_size :: "wire_runtime \<Rightarrow> vaultsv1_PausedStateUpdated \<Rightarrow> nat" where
  "vaultsv1_PausedStateUpdated_size rt x =
     size_delimited rt (vaultsv1_PausedStateUpdated_Paused x) +
     length (vaultsv1_PausedStateUpdated_unknownFields x)"

definition vaultsv1_PausedStateUpdated_marshal :: "wire_runtime \<Rightarrow> vaultsv1_PausedStateUpdated \<Rightarrow> bytes result" where
  "vaultsv1_PausedStateUpdated_marshal rt x =
     obind (put (vaultsv1_PausedStateUpdated_unknownFields x) (vaultsv1_PausedStateUpdated_size rt x, [])) (\<lambda>b.
     obind (put_delimited rt 0xA (vaultsv1_PausedStateUpdated_Paused x) b) (\<lambda>b.
     Ok (buffer_bytes b)))"

definition vaultsv1_PausedStateUpdated_field ::
    "int \<Rightarrow> int \<Rightarrow> vaultsv1_PausedStateUpdated \<Rightarrow> nat \<Rightarrow> bytes \<Rightarrow> (vaultsv1_PausedStateUpdated \<times> nat) result option" where
  "vaultsv1_PausedStateUpdated_field fieldNum wireType x i bs =
     (if fieldNum = 1 then Some (bytes_field wireType i (\<lambda>v. x\<lparr>vaultsv1_PausedStateUpdated_Paused := v\<rparr>) bs)
      else None)"

definition vaultsv1_PausedStateUpdated_unmarshal :: "wire_runtime \<Rightarrow> bool \<Rightarrow> bytes \<Rightarrow> vaultsv1_PausedStateUpdated result option" where
  "vaultsv1_PausedStateUpdated_unmarshal rt discardUnknown bs =
     read_fields (Skip rt) vaultsv1_PausedStateUpdated_field
       (\<lambda>u x. if discardUnknown then x else x\<lparr>vaultsv1_PausedStateUpdated_unknownFields := vaultsv1_PausedStateUpdated_unknownFields x @ u\<rparr>)
       \<lparr>vaultsv1_PausedStateUpdated_Paused = [], vaultsv1_PausedStateUpdated_unknownFields = []\<rparr> 0 bs"

lemma vaultsv1_PausedStateUpdated_written:
  assumes "varint_runtime rt" "vaultsv1_PausedStateUpdated_unknownFields x = []"
  shows "writes (vaultsv1_PausedStateUpdated_marshal rt x)
    (delimited_bytes rt 0xA (vaultsv1_PausedStateUpdated_Paused x) @
      [])
    (vaultsv1_PausedStateUpdated_size rt x)"
  by (simp add: writes_def vaultsv1_PausedStateUpdated_marshal_def vaultsv1_PausedStateUpdated_size_def assms wire_puts)

lemma vaultsv1_PausedStateUpdated_exact:
  assumes "varint_runtime rt"
  shows "exact_codec (vaultsv1_PausedStateUpdated_size rt) (vaultsv1_PausedStateUpdated_marshal rt) 
    (vaultsv1_PausedStateUpdated_unmarshal rt' discardUnknown) (\<lambda>x. vaultsv1_PausedStateUpdated_unknownFields x = [])"
  by (rule exact_codecI, rule vaultsv1_PausedStateUpdated_written [OF assms], assumption,
    unfold vaultsv1_PausedStateUpdated_unmarshal_def, erule readsD [rotated],
    (rule reads_bytes [OF assms], rule wire_tags,
        simp add: vaultsv1_PausedStateUpdated_field_def, simp)+, rule reads_done, simp)

lemma vaultsv1_PausedStateUpdated_returns:
  "skip_progress (Skip rt) \<Longrightarrow> \<exists>r. vaultsv1_PausedStateUpdated_unmarshal rt discardUnknown bs = Some r"
  unfolding vaultsv1_PausedStateUpdated_unmarshal_def by (rule read_fields_returns)

subsection \<open>RewardClaimed (vaultsv1)\<close>

text \<open>\<open>RewardClaimed\<close> of \<open>api/vaults/v1/events.pulsar.go\<close>.\<close>

record vaultsv1_RewardClaimed =
  vaultsv1_RewardClaimed_Account :: bytes
  vaultsv1_RewardClaimed_Amount :: bytes
  vaultsv1_RewardClaimed_unknownFields :: bytes

definition vaultsv1_RewardClaimed_size :: "wire_runtime \<Rightarrow> vaultsv1_RewardClaimed \<Rightarrow> nat" where
  "vaultsv1_RewardClaimed_size rt x =
     size_delimited rt (vaultsv1_RewardClaimed_Account x) +
     size_delimited rt (vaultsv1_RewardClaimed_Amount x) +
     length (vaultsv1_RewardClaimed_unknownFields x)"

definition vaultsv1_RewardClaimed_marshal :: "wire_runtime \<Rightarrow> vaultsv1_RewardClaimed \<Rightarrow> bytes result" where
  "vaultsv1_RewardClaimed_marshal rt x =
     obind (put (vaultsv1_RewardClaimed_unknownFields x) (vaultsv1_RewardClaimed_size rt x, [])) (\<lambda>b.
     obind (put_delimited rt 0x12 (vaultsv1_RewardClaimed_Amount x) b) (\<lambda>b.
     obind (put_delimited rt 0xA (vaultsv1_RewardClaimed_Account x) b) (\<lambda>b.
     Ok (buffer_bytes b))))"

definition vaultsv1_RewardClaimed_field ::
    "int \<Rightarrow> int \<Rightarrow> vaultsv1_RewardClaimed \<Rightarrow> nat \<Rightarrow> bytes \<Rightarrow> (vaultsv1_RewardClaimed \<times> nat) result option" where
  "vaultsv1_RewardClaimed_field fieldNum wireType x i bs =
     (if fieldNum = 1 then Some (bytes_field wireType i (\<lambda>v. x\<lparr>vaultsv1_RewardClaimed_Account := v\<rparr>) bs)
      else if fieldNum = 2 then Some (bytes_field wireType i (\<lambda>v. x\<lparr>vaultsv1_RewardClaimed_Amount := v\<rparr>) bs)
      else None)"

definition vaultsv1_RewardClaimed_unmarshal :: "wire_runtime \<Rightarrow> bool \<Rightarrow> bytes \<Rightarrow> vaultsv1_RewardClaimed result option" where
  "vaultsv1_RewardClaimed_unmarshal rt discardUnknown bs =
     read_fields (Skip rt) vaultsv1_RewardClaimed_field
       (\<lambda>u x. if discardUnknown then x else x\<lparr>vaultsv1_RewardClaimed_unknownFields := vaultsv1_RewardClaimed_unknownFields x @ u\<rparr>)
       \<lparr>vaultsv1_RewardClaimed_Account = [], vaultsv1_RewardClaimed_Amount = [], vaultsv1_RewardClaimed_unknownFields = []\<rparr> 0 bs"

lemma vaultsv1_RewardClaimed_written:
  assumes "varint_runtime rt" "vaultsv1_RewardClaimed_unknownFields x = []"
  shows "writes (vaultsv1_RewardClaimed_marshal rt x)
    (delimited_bytes rt 0xA (vaultsv1_RewardClaimed_Account x) @
      delimited_bytes rt 0x12 (vaultsv1_RewardClaimed_Amount x) @
      [])
    (vaultsv1_RewardClaimed_size rt x)"
  by (simp add: writes_def vaultsv1_RewardClaimed_marshal_def vaultsv1_RewardClaimed_size_def assms wire_puts)

lemma vaultsv1_RewardClaimed_exact:
  assumes "varint_runtime rt"
  shows "exact_codec (vaultsv1_RewardClaimed_size rt) (vaultsv1_RewardClaimed_marshal rt) 
    (vaultsv1_RewardClaimed_unmarshal rt' discardUnknown) (\<lambda>x. vaultsv1_RewardClaimed_unknownFields x = [])"
  by (rule exact_codecI, rule vaultsv1_RewardClaimed_written [OF assms], assumption,
    unfold vaultsv1_RewardClaimed_unmarshal_def, erule readsD [rotated],
    (rule reads_bytes [OF assms], rule wire_tags,
        simp add: vaultsv1_RewardClaimed_field_def, simp)+, rule reads_done, simp)

lemma vaultsv1_RewardClaimed_returns:
  "skip_progress (Skip rt) \<Longrightarrow> \<exists>r. vaultsv1_RewardClaimed_unmarshal rt discardUnknown bs = Some r"
  unfolding vaultsv1_RewardClaimed_unmarshal_def by (rule read_fields_returns)

subsection \<open>The codecs together\<close>

lemmas api_events_exact =
  dollarv1_Paused_exact dollarv1_Unpaused_exact dollarv1_YieldClaimed_exact
  dollarv1_IndexUpdated_exact dollarv2_YieldRecipientSet_exact portalv1_Delivered_exact
  portalv1_MTokenReceived_exact portalv1_TransferRedeemed_exact portalv1_USDNTokenSent_exact
  portalv1_PeerUpdated_exact portalv1_BridgingPathSet_exact portalv1_OwnershipTransferred_exact
  portalv1_Paused_exact portalv1_Unpaused_exact vaultsv1_PositionLocked_exact
  vaultsv1_PositionUnlocked_exact vaultsv1_PausedStateUpdated_exact vaultsv1_RewardClaimed_exact

lemmas api_events_returns =
  dollarv1_Paused_returns dollarv1_Unpaused_returns dollarv1_YieldClaimed_returns
  dollarv1_IndexUpdated_returns dollarv2_YieldRecipientSet_returns portalv1_Delivered_returns
  portalv1_MTokenReceived_returns portalv1_TransferRedeemed_returns portalv1_USDNTokenSent_returns
  portalv1_PeerUpdated_returns portalv1_BridgingPathSet_returns
  portalv1_OwnershipTransferred_returns portalv1_Paused_returns portalv1_Unpaused_returns
  vaultsv1_PositionLocked_returns vaultsv1_PositionUnlocked_returns
  vaultsv1_PausedStateUpdated_returns vaultsv1_RewardClaimed_returns

end
