(* ===== verification/Codec_Events.thy ===== *)
theory Codec_Events
  imports Api_Events
begin

text \<open>
  The events as the chain writes them: \<open>types/**/events.pb.go\<close>.
\<close>

subsection \<open>Paused (types)\<close>

text \<open>\<open>Paused\<close> of \<open>types/events.pb.go\<close>.\<close>

datatype types_Paused = types_Paused

definition types_Paused_Size :: "types_Paused \<Rightarrow> nat" where
  "types_Paused_Size x =
     0"

definition types_Paused_Marshal :: "types_Paused \<Rightarrow> bytes result" where
  "types_Paused_Marshal x =
     Ok (sized_bytes (types_Paused_Size x, []))"

definition types_Paused_field ::
    "int \<Rightarrow> int \<Rightarrow> types_Paused \<Rightarrow> nat \<Rightarrow> bytes \<Rightarrow> (types_Paused \<times> nat) result option" where
  "types_Paused_field fieldNum wireType x i bs =
     None"

definition types_Paused_Unmarshal :: "bytes \<Rightarrow> types_Paused result option" where
  "types_Paused_Unmarshal bs =
     read_fields (Skip gogo_runtime) types_Paused_field (\<lambda>u x. x)
       types_Paused 0 bs"

lemma types_Paused_written:
  shows "writes (types_Paused_Marshal x)
    ([] :: bytes)
    (types_Paused_Size x)"
  by (simp add: writes_def types_Paused_Marshal_def types_Paused_Size_def wire_puts gogo_varint)

lemma types_Paused_exact:
  shows "exact_codec (types_Paused_Size) (types_Paused_Marshal) (types_Paused_Unmarshal)
    (\<lambda>x. True)"
  by (rule exact_codecI, rule types_Paused_written,
    unfold types_Paused_Unmarshal_def, erule readsD [rotated],
    rule reads_done, metis types_Paused.exhaust)

lemma types_Paused_returns: "\<exists>r. types_Paused_Unmarshal bs = Some r"
  unfolding types_Paused_Unmarshal_def by (rule read_fields_returns [OF gogo_skip])

subsection \<open>Unpaused (types)\<close>

text \<open>\<open>Unpaused\<close> of \<open>types/events.pb.go\<close>.\<close>

datatype types_Unpaused = types_Unpaused

definition types_Unpaused_Size :: "types_Unpaused \<Rightarrow> nat" where
  "types_Unpaused_Size x =
     0"

definition types_Unpaused_Marshal :: "types_Unpaused \<Rightarrow> bytes result" where
  "types_Unpaused_Marshal x =
     Ok (sized_bytes (types_Unpaused_Size x, []))"

definition types_Unpaused_field ::
    "int \<Rightarrow> int \<Rightarrow> types_Unpaused \<Rightarrow> nat \<Rightarrow> bytes \<Rightarrow> (types_Unpaused \<times> nat) result option" where
  "types_Unpaused_field fieldNum wireType x i bs =
     None"

definition types_Unpaused_Unmarshal :: "bytes \<Rightarrow> types_Unpaused result option" where
  "types_Unpaused_Unmarshal bs =
     read_fields (Skip gogo_runtime) types_Unpaused_field (\<lambda>u x. x)
       types_Unpaused 0 bs"

lemma types_Unpaused_written:
  shows "writes (types_Unpaused_Marshal x)
    ([] :: bytes)
    (types_Unpaused_Size x)"
  by (simp add: writes_def types_Unpaused_Marshal_def types_Unpaused_Size_def wire_puts gogo_varint)

lemma types_Unpaused_exact:
  shows "exact_codec (types_Unpaused_Size) (types_Unpaused_Marshal) (types_Unpaused_Unmarshal)
    (\<lambda>x. True)"
  by (rule exact_codecI, rule types_Unpaused_written,
    unfold types_Unpaused_Unmarshal_def, erule readsD [rotated],
    rule reads_done, metis types_Unpaused.exhaust)

lemma types_Unpaused_returns: "\<exists>r. types_Unpaused_Unmarshal bs = Some r"
  unfolding types_Unpaused_Unmarshal_def by (rule read_fields_returns [OF gogo_skip])

subsection \<open>YieldClaimed (types)\<close>

text \<open>\<open>YieldClaimed\<close> of \<open>types/events.pb.go\<close>.\<close>

record types_YieldClaimed =
  types_YieldClaimed_Account :: bytes
  types_YieldClaimed_Amount :: "int option"

definition types_YieldClaimed_Size :: "custom \<Rightarrow> types_YieldClaimed \<Rightarrow> nat" where
  "types_YieldClaimed_Size ic x =
     size_delimited gogo_runtime (types_YieldClaimed_Account x) +
     size_custom (Custom_Marshal ic (types_YieldClaimed_Amount x))"

definition types_YieldClaimed_Marshal :: "custom \<Rightarrow> types_YieldClaimed \<Rightarrow> bytes result" where
  "types_YieldClaimed_Marshal ic x =
     obind (put_custom 0x12 (Custom_Marshal ic (types_YieldClaimed_Amount x)) (types_YieldClaimed_Size ic x, [])) (\<lambda>b.
     obind (put_delimited gogo_runtime 0xA (types_YieldClaimed_Account x) b) (\<lambda>b.
     Ok (sized_bytes b)))"

definition types_YieldClaimed_field ::
    "custom \<Rightarrow> int \<Rightarrow> int \<Rightarrow> types_YieldClaimed \<Rightarrow> nat \<Rightarrow> bytes \<Rightarrow> (types_YieldClaimed \<times> nat) result option" where
  "types_YieldClaimed_field ic fieldNum wireType x i bs =
     (if fieldNum = 1 then Some (bytes_field wireType i (\<lambda>v. x\<lparr>types_YieldClaimed_Account := v\<rparr>) bs)
      else if fieldNum = 2 then Some (custom_field wireType i (Custom_Unmarshal ic (types_YieldClaimed_Amount x)) (\<lambda>v. x\<lparr>types_YieldClaimed_Amount := v\<rparr>) bs)
      else None)"

definition types_YieldClaimed_Unmarshal :: "custom \<Rightarrow> bytes \<Rightarrow> types_YieldClaimed result option" where
  "types_YieldClaimed_Unmarshal ic bs =
     read_fields (Skip gogo_runtime) (types_YieldClaimed_field ic) (\<lambda>u x. x)
       \<lparr>types_YieldClaimed_Account = [], types_YieldClaimed_Amount = None\<rparr> 0 bs"

lemma types_YieldClaimed_written:
  assumes "custom_codec ic ok" "given ok (types_YieldClaimed_Amount x)"
  shows "writes (types_YieldClaimed_Marshal ic x)
    (delimited_bytes gogo_runtime 0xA (types_YieldClaimed_Account x) @
      delimited_bytes gogo_runtime 0x12 (Custom_Marshal ic (types_YieldClaimed_Amount x)) @
      [])
    (types_YieldClaimed_Size ic x)"
  using assms(2) by (simp add: writes_def types_YieldClaimed_Marshal_def types_YieldClaimed_Size_def wire_puts gogo_varint
    custom_delimited givenD [OF assms(1)])

lemma types_YieldClaimed_exact:
  assumes "custom_codec ic ok"
  shows "exact_codec (types_YieldClaimed_Size ic) (types_YieldClaimed_Marshal ic) (types_YieldClaimed_Unmarshal ic)
    (\<lambda>x. given ok (types_YieldClaimed_Amount x))"
  by (rule exact_codecI, rule types_YieldClaimed_written [OF assms], assumption,
    unfold types_YieldClaimed_Unmarshal_def, erule readsD [rotated],
    ((rule reads_bytes [OF gogo_varint], rule wire_tags, simp add: types_YieldClaimed_field_def, simp) |
      (rule reads_delimited [OF gogo_varint], rule wire_tags, simp add: types_YieldClaimed_field_def, simp add: givenD [OF assms], simp add: givenD [OF assms]))+, rule reads_done, simp)

lemma types_YieldClaimed_returns: "\<exists>r. types_YieldClaimed_Unmarshal ic bs = Some r"
  unfolding types_YieldClaimed_Unmarshal_def by (rule read_fields_returns [OF gogo_skip])

lemma types_YieldClaimed_answered:
  assumes "custom_codec ic ok" "given ok (types_YieldClaimed_Amount x)" "types_YieldClaimed_Size ic x < 2 ^ 63"
  shows "\<exists>bs. types_YieldClaimed_Marshal ic x = Ok bs \<and> dollarv1_YieldClaimed_unmarshal rt discardUnknown bs = Some (Ok
     \<lparr>dollarv1_YieldClaimed_Account = types_YieldClaimed_Account x,
      dollarv1_YieldClaimed_Amount = Custom_Marshal ic (types_YieldClaimed_Amount x),
      dollarv1_YieldClaimed_unknownFields = []\<rparr>)"
  by (rule codec_readsI [OF types_YieldClaimed_written [OF assms(1,2)] assms(3)],
    unfold dollarv1_YieldClaimed_unmarshal_def, erule readsD [rotated],
    (rule reads_bytes [OF gogo_varint], rule wire_tags, simp add: dollarv1_YieldClaimed_field_def, simp)+, rule reads_done, simp)

subsection \<open>IndexUpdated (types)\<close>

text \<open>\<open>IndexUpdated\<close> of \<open>types/events.pb.go\<close>.\<close>

record types_IndexUpdated =
  types_IndexUpdated_OldIndex :: "64 word"
  types_IndexUpdated_NewIndex :: "64 word"
  types_IndexUpdated_TotalPrincipal :: "int option"
  types_IndexUpdated_YieldAccrued :: "int option"

definition types_IndexUpdated_Size :: "custom \<Rightarrow> types_IndexUpdated \<Rightarrow> nat" where
  "types_IndexUpdated_Size ic x =
     size_varint gogo_runtime (types_IndexUpdated_OldIndex x) +
     size_varint gogo_runtime (types_IndexUpdated_NewIndex x) +
     size_custom (Custom_Marshal ic (types_IndexUpdated_TotalPrincipal x)) +
     size_custom (Custom_Marshal ic (types_IndexUpdated_YieldAccrued x))"

definition types_IndexUpdated_Marshal :: "custom \<Rightarrow> types_IndexUpdated \<Rightarrow> bytes result" where
  "types_IndexUpdated_Marshal ic x =
     obind (put_custom 0x22 (Custom_Marshal ic (types_IndexUpdated_YieldAccrued x)) (types_IndexUpdated_Size ic x, [])) (\<lambda>b.
     obind (put_custom 0x1A (Custom_Marshal ic (types_IndexUpdated_TotalPrincipal x)) b) (\<lambda>b.
     obind (put_varint gogo_runtime 0x10 (types_IndexUpdated_NewIndex x) b) (\<lambda>b.
     obind (put_varint gogo_runtime 0x8 (types_IndexUpdated_OldIndex x) b) (\<lambda>b.
     Ok (sized_bytes b)))))"

definition types_IndexUpdated_field ::
    "custom \<Rightarrow> int \<Rightarrow> int \<Rightarrow> types_IndexUpdated \<Rightarrow> nat \<Rightarrow> bytes \<Rightarrow> (types_IndexUpdated \<times> nat) result option" where
  "types_IndexUpdated_field ic fieldNum wireType x i bs =
     (if fieldNum = 1 then Some (varint_field wireType (\<lambda>v. x\<lparr>types_IndexUpdated_OldIndex := v\<rparr>) bs)
      else if fieldNum = 2 then Some (varint_field wireType (\<lambda>v. x\<lparr>types_IndexUpdated_NewIndex := v\<rparr>) bs)
      else if fieldNum = 3 then Some (custom_field wireType i (Custom_Unmarshal ic (types_IndexUpdated_TotalPrincipal x)) (\<lambda>v. x\<lparr>types_IndexUpdated_TotalPrincipal := v\<rparr>) bs)
      else if fieldNum = 4 then Some (custom_field wireType i (Custom_Unmarshal ic (types_IndexUpdated_YieldAccrued x)) (\<lambda>v. x\<lparr>types_IndexUpdated_YieldAccrued := v\<rparr>) bs)
      else None)"

definition types_IndexUpdated_Unmarshal :: "custom \<Rightarrow> bytes \<Rightarrow> types_IndexUpdated result option" where
  "types_IndexUpdated_Unmarshal ic bs =
     read_fields (Skip gogo_runtime) (types_IndexUpdated_field ic) (\<lambda>u x. x)
       \<lparr>types_IndexUpdated_OldIndex = 0, types_IndexUpdated_NewIndex = 0, types_IndexUpdated_TotalPrincipal = None, types_IndexUpdated_YieldAccrued = None\<rparr> 0 bs"

lemma types_IndexUpdated_written:
  assumes "custom_codec ic ok" "given ok (types_IndexUpdated_TotalPrincipal x) \<and> given ok (types_IndexUpdated_YieldAccrued x)"
  shows "writes (types_IndexUpdated_Marshal ic x)
    (varint_bytes gogo_runtime 0x8 (types_IndexUpdated_OldIndex x) @
      varint_bytes gogo_runtime 0x10 (types_IndexUpdated_NewIndex x) @
      delimited_bytes gogo_runtime 0x1A (Custom_Marshal ic (types_IndexUpdated_TotalPrincipal x)) @
      delimited_bytes gogo_runtime 0x22 (Custom_Marshal ic (types_IndexUpdated_YieldAccrued x)) @
      [])
    (types_IndexUpdated_Size ic x)"
  using assms(2) by (simp add: writes_def types_IndexUpdated_Marshal_def types_IndexUpdated_Size_def wire_puts gogo_varint
    custom_delimited givenD [OF assms(1)])

lemma types_IndexUpdated_exact:
  assumes "custom_codec ic ok"
  shows "exact_codec (types_IndexUpdated_Size ic) (types_IndexUpdated_Marshal ic) (types_IndexUpdated_Unmarshal ic)
    (\<lambda>x. given ok (types_IndexUpdated_TotalPrincipal x) \<and> given ok (types_IndexUpdated_YieldAccrued x))"
  by (rule exact_codecI, rule types_IndexUpdated_written [OF assms], assumption,
    unfold types_IndexUpdated_Unmarshal_def, erule readsD [rotated],
    ((rule reads_varint [OF gogo_varint], rule wire_tags, simp add: types_IndexUpdated_field_def, simp) |
      (rule reads_delimited [OF gogo_varint], rule wire_tags, simp add: types_IndexUpdated_field_def, simp add: givenD [OF assms], simp add: givenD [OF assms]))+, rule reads_done, simp)

lemma types_IndexUpdated_returns: "\<exists>r. types_IndexUpdated_Unmarshal ic bs = Some r"
  unfolding types_IndexUpdated_Unmarshal_def by (rule read_fields_returns [OF gogo_skip])

lemma types_IndexUpdated_answered:
  assumes "custom_codec ic ok" "given ok (types_IndexUpdated_TotalPrincipal x) \<and> given ok (types_IndexUpdated_YieldAccrued x)" "types_IndexUpdated_Size ic x < 2 ^ 63"
  shows "\<exists>bs. types_IndexUpdated_Marshal ic x = Ok bs \<and> dollarv1_IndexUpdated_unmarshal rt discardUnknown bs = Some (Ok
     \<lparr>dollarv1_IndexUpdated_OldIndex = types_IndexUpdated_OldIndex x,
      dollarv1_IndexUpdated_NewIndex = types_IndexUpdated_NewIndex x,
      dollarv1_IndexUpdated_TotalPrincipal = Custom_Marshal ic (types_IndexUpdated_TotalPrincipal x),
      dollarv1_IndexUpdated_YieldAccrued = Custom_Marshal ic (types_IndexUpdated_YieldAccrued x),
      dollarv1_IndexUpdated_unknownFields = []\<rparr>)"
  by (rule codec_readsI [OF types_IndexUpdated_written [OF assms(1,2)] assms(3)],
    unfold dollarv1_IndexUpdated_unmarshal_def, erule readsD [rotated],
    (rule reads_varint [OF gogo_varint] reads_bytes [OF gogo_varint], rule wire_tags, simp add: dollarv1_IndexUpdated_field_def, simp)+, rule reads_done, simp)

subsection \<open>YieldRecipientSet (v2)\<close>

text \<open>\<open>YieldRecipientSet\<close> of \<open>types/v2/events.pb.go\<close>.\<close>

record v2_YieldRecipientSet =
  v2_YieldRecipientSet_Provider :: "32 word"
  v2_YieldRecipientSet_Identifier :: bytes
  v2_YieldRecipientSet_Recipient :: bytes

definition v2_YieldRecipientSet_Size :: "v2_YieldRecipientSet \<Rightarrow> nat" where
  "v2_YieldRecipientSet_Size x =
     size_varint gogo_runtime (scast (v2_YieldRecipientSet_Provider x)) +
     size_delimited gogo_runtime (v2_YieldRecipientSet_Identifier x) +
     size_delimited gogo_runtime (v2_YieldRecipientSet_Recipient x)"

definition v2_YieldRecipientSet_Marshal :: "v2_YieldRecipientSet \<Rightarrow> bytes result" where
  "v2_YieldRecipientSet_Marshal x =
     obind (put_delimited gogo_runtime 0x1A (v2_YieldRecipientSet_Recipient x) (v2_YieldRecipientSet_Size x, [])) (\<lambda>b.
     obind (put_delimited gogo_runtime 0x12 (v2_YieldRecipientSet_Identifier x) b) (\<lambda>b.
     obind (put_varint gogo_runtime 0x8 (scast (v2_YieldRecipientSet_Provider x)) b) (\<lambda>b.
     Ok (sized_bytes b))))"

definition v2_YieldRecipientSet_field ::
    "int \<Rightarrow> int \<Rightarrow> v2_YieldRecipientSet \<Rightarrow> nat \<Rightarrow> bytes \<Rightarrow> (v2_YieldRecipientSet \<times> nat) result option" where
  "v2_YieldRecipientSet_field fieldNum wireType x i bs =
     (if fieldNum = 1 then Some (varint_field wireType (\<lambda>v. x\<lparr>v2_YieldRecipientSet_Provider := v\<rparr>) bs)
      else if fieldNum = 2 then Some (bytes_field wireType i (\<lambda>v. x\<lparr>v2_YieldRecipientSet_Identifier := v\<rparr>) bs)
      else if fieldNum = 3 then Some (bytes_field wireType i (\<lambda>v. x\<lparr>v2_YieldRecipientSet_Recipient := v\<rparr>) bs)
      else None)"

definition v2_YieldRecipientSet_Unmarshal :: "bytes \<Rightarrow> v2_YieldRecipientSet result option" where
  "v2_YieldRecipientSet_Unmarshal bs =
     read_fields (Skip gogo_runtime) v2_YieldRecipientSet_field (\<lambda>u x. x)
       \<lparr>v2_YieldRecipientSet_Provider = 0, v2_YieldRecipientSet_Identifier = [], v2_YieldRecipientSet_Recipient = []\<rparr> 0 bs"

lemma v2_YieldRecipientSet_written:
  shows "writes (v2_YieldRecipientSet_Marshal x)
    (varint_bytes gogo_runtime 0x8 (scast (v2_YieldRecipientSet_Provider x)) @
      delimited_bytes gogo_runtime 0x12 (v2_YieldRecipientSet_Identifier x) @
      delimited_bytes gogo_runtime 0x1A (v2_YieldRecipientSet_Recipient x) @
      [])
    (v2_YieldRecipientSet_Size x)"
  by (simp add: writes_def v2_YieldRecipientSet_Marshal_def v2_YieldRecipientSet_Size_def wire_puts gogo_varint)

lemma v2_YieldRecipientSet_exact:
  shows "exact_codec (v2_YieldRecipientSet_Size) (v2_YieldRecipientSet_Marshal) (v2_YieldRecipientSet_Unmarshal)
    (\<lambda>x. True)"
  by (rule exact_codecI, rule v2_YieldRecipientSet_written,
    unfold v2_YieldRecipientSet_Unmarshal_def, erule readsD [rotated],
    (rule reads_varint32 [OF gogo_varint] reads_bytes [OF gogo_varint], rule wire_tags, simp add: v2_YieldRecipientSet_field_def, simp)+, rule reads_done, simp)

lemma v2_YieldRecipientSet_returns: "\<exists>r. v2_YieldRecipientSet_Unmarshal bs = Some r"
  unfolding v2_YieldRecipientSet_Unmarshal_def by (rule read_fields_returns [OF gogo_skip])

lemma v2_YieldRecipientSet_answered:
  assumes "v2_YieldRecipientSet_Size x < 2 ^ 63"
  shows "\<exists>bs. v2_YieldRecipientSet_Marshal x = Ok bs \<and> dollarv2_YieldRecipientSet_unmarshal rt discardUnknown bs = Some (Ok
     \<lparr>dollarv2_YieldRecipientSet_Provider = v2_YieldRecipientSet_Provider x,
      dollarv2_YieldRecipientSet_Identifier = v2_YieldRecipientSet_Identifier x,
      dollarv2_YieldRecipientSet_Recipient = v2_YieldRecipientSet_Recipient x,
      dollarv2_YieldRecipientSet_unknownFields = []\<rparr>)"
  by (rule codec_readsI [OF v2_YieldRecipientSet_written assms(1)],
    unfold dollarv2_YieldRecipientSet_unmarshal_def, erule readsD [rotated],
    (rule reads_varint32 [OF gogo_varint] reads_bytes [OF gogo_varint], rule wire_tags, simp add: dollarv2_YieldRecipientSet_field_def, simp)+, rule reads_done, simp)

subsection \<open>Delivered (portal)\<close>

text \<open>\<open>Delivered\<close> of \<open>types/portal/events.pb.go\<close>.\<close>

record portal_Delivered =
  portal_Delivered_Vaa :: bytes

definition portal_Delivered_Size :: "portal_Delivered \<Rightarrow> nat" where
  "portal_Delivered_Size x =
     size_delimited gogo_runtime (portal_Delivered_Vaa x)"

definition portal_Delivered_Marshal :: "portal_Delivered \<Rightarrow> bytes result" where
  "portal_Delivered_Marshal x =
     obind (put_delimited gogo_runtime 0xA (portal_Delivered_Vaa x) (portal_Delivered_Size x, [])) (\<lambda>b.
     Ok (sized_bytes b))"

definition portal_Delivered_field ::
    "int \<Rightarrow> int \<Rightarrow> portal_Delivered \<Rightarrow> nat \<Rightarrow> bytes \<Rightarrow> (portal_Delivered \<times> nat) result option" where
  "portal_Delivered_field fieldNum wireType x i bs =
     (if fieldNum = 1 then Some (bytes_field wireType i (\<lambda>v. x\<lparr>portal_Delivered_Vaa := v\<rparr>) bs)
      else None)"

definition portal_Delivered_Unmarshal :: "bytes \<Rightarrow> portal_Delivered result option" where
  "portal_Delivered_Unmarshal bs =
     read_fields (Skip gogo_runtime) portal_Delivered_field (\<lambda>u x. x)
       \<lparr>portal_Delivered_Vaa = []\<rparr> 0 bs"

lemma portal_Delivered_written:
  shows "writes (portal_Delivered_Marshal x)
    (delimited_bytes gogo_runtime 0xA (portal_Delivered_Vaa x) @
      [])
    (portal_Delivered_Size x)"
  by (simp add: writes_def portal_Delivered_Marshal_def portal_Delivered_Size_def wire_puts gogo_varint)

lemma portal_Delivered_exact:
  shows "exact_codec (portal_Delivered_Size) (portal_Delivered_Marshal) (portal_Delivered_Unmarshal)
    (\<lambda>x. True)"
  by (rule exact_codecI, rule portal_Delivered_written,
    unfold portal_Delivered_Unmarshal_def, erule readsD [rotated],
    (rule reads_bytes [OF gogo_varint], rule wire_tags, simp add: portal_Delivered_field_def, simp)+, rule reads_done, simp)

lemma portal_Delivered_returns: "\<exists>r. portal_Delivered_Unmarshal bs = Some r"
  unfolding portal_Delivered_Unmarshal_def by (rule read_fields_returns [OF gogo_skip])

lemma portal_Delivered_answered:
  assumes "portal_Delivered_Size x < 2 ^ 63"
  shows "\<exists>bs. portal_Delivered_Marshal x = Ok bs \<and> portalv1_Delivered_unmarshal rt discardUnknown bs = Some (Ok
     \<lparr>portalv1_Delivered_Vaa = portal_Delivered_Vaa x,
      portalv1_Delivered_unknownFields = []\<rparr>)"
  by (rule codec_readsI [OF portal_Delivered_written assms(1)],
    unfold portalv1_Delivered_unmarshal_def, erule readsD [rotated],
    (rule reads_bytes [OF gogo_varint], rule wire_tags, simp add: portalv1_Delivered_field_def, simp)+, rule reads_done, simp)

subsection \<open>MTokenReceived (portal)\<close>

text \<open>\<open>MTokenReceived\<close> of \<open>types/portal/events.pb.go\<close>.\<close>

record portal_MTokenReceived =
  portal_MTokenReceived_SourceChainId :: "32 word"
  portal_MTokenReceived_DestinationToken :: bytes
  portal_MTokenReceived_Sender :: bytes
  portal_MTokenReceived_Recipient :: bytes
  portal_MTokenReceived_Amount :: "int option"
  portal_MTokenReceived_Index :: "64 word"
  portal_MTokenReceived_MessageId :: bytes

definition portal_MTokenReceived_Size :: "custom \<Rightarrow> portal_MTokenReceived \<Rightarrow> nat" where
  "portal_MTokenReceived_Size ic x =
     size_varint gogo_runtime (ucast (portal_MTokenReceived_SourceChainId x)) +
     size_delimited gogo_runtime (portal_MTokenReceived_DestinationToken x) +
     size_delimited gogo_runtime (portal_MTokenReceived_Sender x) +
     size_delimited gogo_runtime (portal_MTokenReceived_Recipient x) +
     size_custom (Custom_Marshal ic (portal_MTokenReceived_Amount x)) +
     size_varint gogo_runtime (portal_MTokenReceived_Index x) +
     size_delimited gogo_runtime (portal_MTokenReceived_MessageId x)"

definition portal_MTokenReceived_Marshal :: "custom \<Rightarrow> portal_MTokenReceived \<Rightarrow> bytes result" where
  "portal_MTokenReceived_Marshal ic x =
     obind (put_delimited gogo_runtime 0x3A (portal_MTokenReceived_MessageId x) (portal_MTokenReceived_Size ic x, [])) (\<lambda>b.
     obind (put_varint gogo_runtime 0x30 (portal_MTokenReceived_Index x) b) (\<lambda>b.
     obind (put_custom 0x2A (Custom_Marshal ic (portal_MTokenReceived_Amount x)) b) (\<lambda>b.
     obind (put_delimited gogo_runtime 0x22 (portal_MTokenReceived_Recipient x) b) (\<lambda>b.
     obind (put_delimited gogo_runtime 0x1A (portal_MTokenReceived_Sender x) b) (\<lambda>b.
     obind (put_delimited gogo_runtime 0x12 (portal_MTokenReceived_DestinationToken x) b) (\<lambda>b.
     obind (put_varint gogo_runtime 0x8 (ucast (portal_MTokenReceived_SourceChainId x)) b) (\<lambda>b.
     Ok (sized_bytes b))))))))"

definition portal_MTokenReceived_field ::
    "custom \<Rightarrow> int \<Rightarrow> int \<Rightarrow> portal_MTokenReceived \<Rightarrow> nat \<Rightarrow> bytes \<Rightarrow> (portal_MTokenReceived \<times> nat) result option" where
  "portal_MTokenReceived_field ic fieldNum wireType x i bs =
     (if fieldNum = 1 then Some (varint_field wireType (\<lambda>v. x\<lparr>portal_MTokenReceived_SourceChainId := v\<rparr>) bs)
      else if fieldNum = 2 then Some (bytes_field wireType i (\<lambda>v. x\<lparr>portal_MTokenReceived_DestinationToken := v\<rparr>) bs)
      else if fieldNum = 3 then Some (bytes_field wireType i (\<lambda>v. x\<lparr>portal_MTokenReceived_Sender := v\<rparr>) bs)
      else if fieldNum = 4 then Some (bytes_field wireType i (\<lambda>v. x\<lparr>portal_MTokenReceived_Recipient := v\<rparr>) bs)
      else if fieldNum = 5 then Some (custom_field wireType i (Custom_Unmarshal ic (portal_MTokenReceived_Amount x)) (\<lambda>v. x\<lparr>portal_MTokenReceived_Amount := v\<rparr>) bs)
      else if fieldNum = 6 then Some (varint_field wireType (\<lambda>v. x\<lparr>portal_MTokenReceived_Index := v\<rparr>) bs)
      else if fieldNum = 7 then Some (bytes_field wireType i (\<lambda>v. x\<lparr>portal_MTokenReceived_MessageId := v\<rparr>) bs)
      else None)"

definition portal_MTokenReceived_Unmarshal :: "custom \<Rightarrow> bytes \<Rightarrow> portal_MTokenReceived result option" where
  "portal_MTokenReceived_Unmarshal ic bs =
     read_fields (Skip gogo_runtime) (portal_MTokenReceived_field ic) (\<lambda>u x. x)
       \<lparr>portal_MTokenReceived_SourceChainId = 0, portal_MTokenReceived_DestinationToken = [], portal_MTokenReceived_Sender = [], portal_MTokenReceived_Recipient = [], portal_MTokenReceived_Amount = None, portal_MTokenReceived_Index = 0, portal_MTokenReceived_MessageId = []\<rparr> 0 bs"

lemma portal_MTokenReceived_written:
  assumes "custom_codec ic ok" "given ok (portal_MTokenReceived_Amount x)"
  shows "writes (portal_MTokenReceived_Marshal ic x)
    (varint_bytes gogo_runtime 0x8 (ucast (portal_MTokenReceived_SourceChainId x)) @
      delimited_bytes gogo_runtime 0x12 (portal_MTokenReceived_DestinationToken x) @
      delimited_bytes gogo_runtime 0x1A (portal_MTokenReceived_Sender x) @
      delimited_bytes gogo_runtime 0x22 (portal_MTokenReceived_Recipient x) @
      delimited_bytes gogo_runtime 0x2A (Custom_Marshal ic (portal_MTokenReceived_Amount x)) @
      varint_bytes gogo_runtime 0x30 (portal_MTokenReceived_Index x) @
      delimited_bytes gogo_runtime 0x3A (portal_MTokenReceived_MessageId x) @
      [])
    (portal_MTokenReceived_Size ic x)"
  using assms(2) by (simp add: writes_def portal_MTokenReceived_Marshal_def portal_MTokenReceived_Size_def wire_puts gogo_varint
    custom_delimited givenD [OF assms(1)])

lemma portal_MTokenReceived_exact:
  assumes "custom_codec ic ok"
  shows "exact_codec (portal_MTokenReceived_Size ic) (portal_MTokenReceived_Marshal ic) (portal_MTokenReceived_Unmarshal ic)
    (\<lambda>x. given ok (portal_MTokenReceived_Amount x))"
  by (rule exact_codecI, rule portal_MTokenReceived_written [OF assms], assumption,
    unfold portal_MTokenReceived_Unmarshal_def, erule readsD [rotated],
    ((rule reads_varint32 [OF gogo_varint] reads_bytes [OF gogo_varint] reads_varint [OF gogo_varint], rule wire_tags, simp add: portal_MTokenReceived_field_def, simp) |
      (rule reads_delimited [OF gogo_varint], rule wire_tags, simp add: portal_MTokenReceived_field_def, simp add: givenD [OF assms], simp add: givenD [OF assms]))+, rule reads_done, simp)

lemma portal_MTokenReceived_returns: "\<exists>r. portal_MTokenReceived_Unmarshal ic bs = Some r"
  unfolding portal_MTokenReceived_Unmarshal_def by (rule read_fields_returns [OF gogo_skip])

lemma portal_MTokenReceived_answered:
  assumes "custom_codec ic ok" "given ok (portal_MTokenReceived_Amount x)" "portal_MTokenReceived_Size ic x < 2 ^ 63"
  shows "\<exists>bs. portal_MTokenReceived_Marshal ic x = Ok bs \<and> portalv1_MTokenReceived_unmarshal rt discardUnknown bs = Some (Ok
     \<lparr>portalv1_MTokenReceived_SourceChainId = portal_MTokenReceived_SourceChainId x,
      portalv1_MTokenReceived_DestinationToken = portal_MTokenReceived_DestinationToken x,
      portalv1_MTokenReceived_Sender = portal_MTokenReceived_Sender x,
      portalv1_MTokenReceived_Recipient = portal_MTokenReceived_Recipient x,
      portalv1_MTokenReceived_Amount = Custom_Marshal ic (portal_MTokenReceived_Amount x),
      portalv1_MTokenReceived_Index = portal_MTokenReceived_Index x,
      portalv1_MTokenReceived_MessageId = portal_MTokenReceived_MessageId x,
      portalv1_MTokenReceived_unknownFields = []\<rparr>)"
  by (rule codec_readsI [OF portal_MTokenReceived_written [OF assms(1,2)] assms(3)],
    unfold portalv1_MTokenReceived_unmarshal_def, erule readsD [rotated],
    (rule reads_varint32 [OF gogo_varint] reads_bytes [OF gogo_varint] reads_varint [OF gogo_varint], rule wire_tags, simp add: portalv1_MTokenReceived_field_def, simp)+, rule reads_done, simp)

subsection \<open>TransferRedeemed (portal)\<close>

text \<open>\<open>TransferRedeemed\<close> of \<open>types/portal/events.pb.go\<close>.\<close>

record portal_TransferRedeemed =
  portal_TransferRedeemed_Digest :: bytes

definition portal_TransferRedeemed_Size :: "portal_TransferRedeemed \<Rightarrow> nat" where
  "portal_TransferRedeemed_Size x =
     size_delimited gogo_runtime (portal_TransferRedeemed_Digest x)"

definition portal_TransferRedeemed_Marshal :: "portal_TransferRedeemed \<Rightarrow> bytes result" where
  "portal_TransferRedeemed_Marshal x =
     obind (put_delimited gogo_runtime 0xA (portal_TransferRedeemed_Digest x) (portal_TransferRedeemed_Size x, [])) (\<lambda>b.
     Ok (sized_bytes b))"

definition portal_TransferRedeemed_field ::
    "int \<Rightarrow> int \<Rightarrow> portal_TransferRedeemed \<Rightarrow> nat \<Rightarrow> bytes \<Rightarrow> (portal_TransferRedeemed \<times> nat) result option" where
  "portal_TransferRedeemed_field fieldNum wireType x i bs =
     (if fieldNum = 1 then Some (bytes_field wireType i (\<lambda>v. x\<lparr>portal_TransferRedeemed_Digest := v\<rparr>) bs)
      else None)"

definition portal_TransferRedeemed_Unmarshal :: "bytes \<Rightarrow> portal_TransferRedeemed result option" where
  "portal_TransferRedeemed_Unmarshal bs =
     read_fields (Skip gogo_runtime) portal_TransferRedeemed_field (\<lambda>u x. x)
       \<lparr>portal_TransferRedeemed_Digest = []\<rparr> 0 bs"

lemma portal_TransferRedeemed_written:
  shows "writes (portal_TransferRedeemed_Marshal x)
    (delimited_bytes gogo_runtime 0xA (portal_TransferRedeemed_Digest x) @
      [])
    (portal_TransferRedeemed_Size x)"
  by (simp add: writes_def portal_TransferRedeemed_Marshal_def portal_TransferRedeemed_Size_def wire_puts gogo_varint)

lemma portal_TransferRedeemed_exact:
  shows "exact_codec (portal_TransferRedeemed_Size) (portal_TransferRedeemed_Marshal) (portal_TransferRedeemed_Unmarshal)
    (\<lambda>x. True)"
  by (rule exact_codecI, rule portal_TransferRedeemed_written,
    unfold portal_TransferRedeemed_Unmarshal_def, erule readsD [rotated],
    (rule reads_bytes [OF gogo_varint], rule wire_tags, simp add: portal_TransferRedeemed_field_def, simp)+, rule reads_done, simp)

lemma portal_TransferRedeemed_returns: "\<exists>r. portal_TransferRedeemed_Unmarshal bs = Some r"
  unfolding portal_TransferRedeemed_Unmarshal_def by (rule read_fields_returns [OF gogo_skip])

lemma portal_TransferRedeemed_answered:
  assumes "portal_TransferRedeemed_Size x < 2 ^ 63"
  shows "\<exists>bs. portal_TransferRedeemed_Marshal x = Ok bs \<and> portalv1_TransferRedeemed_unmarshal rt discardUnknown bs = Some (Ok
     \<lparr>portalv1_TransferRedeemed_Digest = portal_TransferRedeemed_Digest x,
      portalv1_TransferRedeemed_unknownFields = []\<rparr>)"
  by (rule codec_readsI [OF portal_TransferRedeemed_written assms(1)],
    unfold portalv1_TransferRedeemed_unmarshal_def, erule readsD [rotated],
    (rule reads_bytes [OF gogo_varint], rule wire_tags, simp add: portalv1_TransferRedeemed_field_def, simp)+, rule reads_done, simp)

subsection \<open>USDNTokenSent (portal)\<close>

text \<open>\<open>USDNTokenSent\<close> of \<open>types/portal/events.pb.go\<close>.\<close>

record portal_USDNTokenSent =
  portal_USDNTokenSent_SourceToken :: bytes
  portal_USDNTokenSent_DestinationChainId :: "16 word"
  portal_USDNTokenSent_DestinationToken :: bytes
  portal_USDNTokenSent_Sender :: bytes
  portal_USDNTokenSent_Recipient :: bytes
  portal_USDNTokenSent_Amount :: "int option"
  portal_USDNTokenSent_Index :: "64 word"
  portal_USDNTokenSent_MessageId :: bytes

definition portal_USDNTokenSent_Size :: "custom \<Rightarrow> portal_USDNTokenSent \<Rightarrow> nat" where
  "portal_USDNTokenSent_Size ic x =
     size_delimited gogo_runtime (portal_USDNTokenSent_SourceToken x) +
     size_varint gogo_runtime (ucast (portal_USDNTokenSent_DestinationChainId x)) +
     size_delimited gogo_runtime (portal_USDNTokenSent_DestinationToken x) +
     size_delimited gogo_runtime (portal_USDNTokenSent_Sender x) +
     size_delimited gogo_runtime (portal_USDNTokenSent_Recipient x) +
     size_custom (Custom_Marshal ic (portal_USDNTokenSent_Amount x)) +
     size_varint gogo_runtime (portal_USDNTokenSent_Index x) +
     size_delimited gogo_runtime (portal_USDNTokenSent_MessageId x)"

definition portal_USDNTokenSent_Marshal :: "custom \<Rightarrow> portal_USDNTokenSent \<Rightarrow> bytes result" where
  "portal_USDNTokenSent_Marshal ic x =
     obind (put_delimited gogo_runtime 0x42 (portal_USDNTokenSent_MessageId x) (portal_USDNTokenSent_Size ic x, [])) (\<lambda>b.
     obind (put_varint gogo_runtime 0x38 (portal_USDNTokenSent_Index x) b) (\<lambda>b.
     obind (put_custom 0x32 (Custom_Marshal ic (portal_USDNTokenSent_Amount x)) b) (\<lambda>b.
     obind (put_delimited gogo_runtime 0x2A (portal_USDNTokenSent_Recipient x) b) (\<lambda>b.
     obind (put_delimited gogo_runtime 0x22 (portal_USDNTokenSent_Sender x) b) (\<lambda>b.
     obind (put_delimited gogo_runtime 0x1A (portal_USDNTokenSent_DestinationToken x) b) (\<lambda>b.
     obind (put_varint gogo_runtime 0x10 (ucast (portal_USDNTokenSent_DestinationChainId x)) b) (\<lambda>b.
     obind (put_delimited gogo_runtime 0xA (portal_USDNTokenSent_SourceToken x) b) (\<lambda>b.
     Ok (sized_bytes b)))))))))"

definition portal_USDNTokenSent_field ::
    "custom \<Rightarrow> int \<Rightarrow> int \<Rightarrow> portal_USDNTokenSent \<Rightarrow> nat \<Rightarrow> bytes \<Rightarrow> (portal_USDNTokenSent \<times> nat) result option" where
  "portal_USDNTokenSent_field ic fieldNum wireType x i bs =
     (if fieldNum = 1 then Some (bytes_field wireType i (\<lambda>v. x\<lparr>portal_USDNTokenSent_SourceToken := v\<rparr>) bs)
      else if fieldNum = 2 then Some (varint_field wireType (\<lambda>v. x\<lparr>portal_USDNTokenSent_DestinationChainId := v\<rparr>) bs)
      else if fieldNum = 3 then Some (bytes_field wireType i (\<lambda>v. x\<lparr>portal_USDNTokenSent_DestinationToken := v\<rparr>) bs)
      else if fieldNum = 4 then Some (bytes_field wireType i (\<lambda>v. x\<lparr>portal_USDNTokenSent_Sender := v\<rparr>) bs)
      else if fieldNum = 5 then Some (bytes_field wireType i (\<lambda>v. x\<lparr>portal_USDNTokenSent_Recipient := v\<rparr>) bs)
      else if fieldNum = 6 then Some (custom_field wireType i (Custom_Unmarshal ic (portal_USDNTokenSent_Amount x)) (\<lambda>v. x\<lparr>portal_USDNTokenSent_Amount := v\<rparr>) bs)
      else if fieldNum = 7 then Some (varint_field wireType (\<lambda>v. x\<lparr>portal_USDNTokenSent_Index := v\<rparr>) bs)
      else if fieldNum = 8 then Some (bytes_field wireType i (\<lambda>v. x\<lparr>portal_USDNTokenSent_MessageId := v\<rparr>) bs)
      else None)"

definition portal_USDNTokenSent_Unmarshal :: "custom \<Rightarrow> bytes \<Rightarrow> portal_USDNTokenSent result option" where
  "portal_USDNTokenSent_Unmarshal ic bs =
     read_fields (Skip gogo_runtime) (portal_USDNTokenSent_field ic) (\<lambda>u x. x)
       \<lparr>portal_USDNTokenSent_SourceToken = [], portal_USDNTokenSent_DestinationChainId = 0, portal_USDNTokenSent_DestinationToken = [], portal_USDNTokenSent_Sender = [], portal_USDNTokenSent_Recipient = [], portal_USDNTokenSent_Amount = None, portal_USDNTokenSent_Index = 0, portal_USDNTokenSent_MessageId = []\<rparr> 0 bs"

lemma portal_USDNTokenSent_written:
  assumes "custom_codec ic ok" "given ok (portal_USDNTokenSent_Amount x)"
  shows "writes (portal_USDNTokenSent_Marshal ic x)
    (delimited_bytes gogo_runtime 0xA (portal_USDNTokenSent_SourceToken x) @
      varint_bytes gogo_runtime 0x10 (ucast (portal_USDNTokenSent_DestinationChainId x)) @
      delimited_bytes gogo_runtime 0x1A (portal_USDNTokenSent_DestinationToken x) @
      delimited_bytes gogo_runtime 0x22 (portal_USDNTokenSent_Sender x) @
      delimited_bytes gogo_runtime 0x2A (portal_USDNTokenSent_Recipient x) @
      delimited_bytes gogo_runtime 0x32 (Custom_Marshal ic (portal_USDNTokenSent_Amount x)) @
      varint_bytes gogo_runtime 0x38 (portal_USDNTokenSent_Index x) @
      delimited_bytes gogo_runtime 0x42 (portal_USDNTokenSent_MessageId x) @
      [])
    (portal_USDNTokenSent_Size ic x)"
  using assms(2) by (simp add: writes_def portal_USDNTokenSent_Marshal_def portal_USDNTokenSent_Size_def wire_puts gogo_varint
    custom_delimited givenD [OF assms(1)])

lemma portal_USDNTokenSent_exact:
  assumes "custom_codec ic ok"
  shows "exact_codec (portal_USDNTokenSent_Size ic) (portal_USDNTokenSent_Marshal ic) (portal_USDNTokenSent_Unmarshal ic)
    (\<lambda>x. given ok (portal_USDNTokenSent_Amount x))"
  by (rule exact_codecI, rule portal_USDNTokenSent_written [OF assms], assumption,
    unfold portal_USDNTokenSent_Unmarshal_def, erule readsD [rotated],
    ((rule reads_bytes [OF gogo_varint] reads_varint16 [OF gogo_varint] reads_varint [OF gogo_varint], rule wire_tags, simp add: portal_USDNTokenSent_field_def, simp) |
      (rule reads_delimited [OF gogo_varint], rule wire_tags, simp add: portal_USDNTokenSent_field_def, simp add: givenD [OF assms], simp add: givenD [OF assms]))+, rule reads_done, simp)

lemma portal_USDNTokenSent_returns: "\<exists>r. portal_USDNTokenSent_Unmarshal ic bs = Some r"
  unfolding portal_USDNTokenSent_Unmarshal_def by (rule read_fields_returns [OF gogo_skip])

lemma portal_USDNTokenSent_answered:
  assumes "custom_codec ic ok" "given ok (portal_USDNTokenSent_Amount x)" "portal_USDNTokenSent_Size ic x < 2 ^ 63"
  shows "\<exists>bs. portal_USDNTokenSent_Marshal ic x = Ok bs \<and> portalv1_USDNTokenSent_unmarshal rt discardUnknown bs = Some (Ok
     \<lparr>portalv1_USDNTokenSent_SourceToken = portal_USDNTokenSent_SourceToken x,
      portalv1_USDNTokenSent_DestinationChainId = ucast (portal_USDNTokenSent_DestinationChainId x),
      portalv1_USDNTokenSent_DestinationToken = portal_USDNTokenSent_DestinationToken x,
      portalv1_USDNTokenSent_Sender = portal_USDNTokenSent_Sender x,
      portalv1_USDNTokenSent_Recipient = portal_USDNTokenSent_Recipient x,
      portalv1_USDNTokenSent_Amount = Custom_Marshal ic (portal_USDNTokenSent_Amount x),
      portalv1_USDNTokenSent_Index = portal_USDNTokenSent_Index x,
      portalv1_USDNTokenSent_MessageId = portal_USDNTokenSent_MessageId x,
      portalv1_USDNTokenSent_unknownFields = []\<rparr>)"
  by (rule codec_readsI [OF portal_USDNTokenSent_written [OF assms(1,2)] assms(3)],
    unfold portalv1_USDNTokenSent_unmarshal_def, erule readsD [rotated],
    (rule reads_bytes [OF gogo_varint] reads_varint32 [OF gogo_varint] reads_varint [OF gogo_varint], rule wire_tags, simp add: portalv1_USDNTokenSent_field_def, simp)+, rule reads_done, simp)

subsection \<open>PeerUpdated (portal)\<close>

text \<open>\<open>PeerUpdated\<close> of \<open>types/portal/events.pb.go\<close>.\<close>

record portal_PeerUpdated =
  portal_PeerUpdated_Chain :: "16 word"
  portal_PeerUpdated_OldTransceiver :: bytes
  portal_PeerUpdated_NewTransceiver :: bytes
  portal_PeerUpdated_OldManager :: bytes
  portal_PeerUpdated_NewManager :: bytes

definition portal_PeerUpdated_Size :: "portal_PeerUpdated \<Rightarrow> nat" where
  "portal_PeerUpdated_Size x =
     size_varint gogo_runtime (ucast (portal_PeerUpdated_Chain x)) +
     size_delimited gogo_runtime (portal_PeerUpdated_OldTransceiver x) +
     size_delimited gogo_runtime (portal_PeerUpdated_NewTransceiver x) +
     size_delimited gogo_runtime (portal_PeerUpdated_OldManager x) +
     size_delimited gogo_runtime (portal_PeerUpdated_NewManager x)"

definition portal_PeerUpdated_Marshal :: "portal_PeerUpdated \<Rightarrow> bytes result" where
  "portal_PeerUpdated_Marshal x =
     obind (put_delimited gogo_runtime 0x2A (portal_PeerUpdated_NewManager x) (portal_PeerUpdated_Size x, [])) (\<lambda>b.
     obind (put_delimited gogo_runtime 0x22 (portal_PeerUpdated_OldManager x) b) (\<lambda>b.
     obind (put_delimited gogo_runtime 0x1A (portal_PeerUpdated_NewTransceiver x) b) (\<lambda>b.
     obind (put_delimited gogo_runtime 0x12 (portal_PeerUpdated_OldTransceiver x) b) (\<lambda>b.
     obind (put_varint gogo_runtime 0x8 (ucast (portal_PeerUpdated_Chain x)) b) (\<lambda>b.
     Ok (sized_bytes b))))))"

definition portal_PeerUpdated_field ::
    "int \<Rightarrow> int \<Rightarrow> portal_PeerUpdated \<Rightarrow> nat \<Rightarrow> bytes \<Rightarrow> (portal_PeerUpdated \<times> nat) result option" where
  "portal_PeerUpdated_field fieldNum wireType x i bs =
     (if fieldNum = 1 then Some (varint_field wireType (\<lambda>v. x\<lparr>portal_PeerUpdated_Chain := v\<rparr>) bs)
      else if fieldNum = 2 then Some (bytes_field wireType i (\<lambda>v. x\<lparr>portal_PeerUpdated_OldTransceiver := v\<rparr>) bs)
      else if fieldNum = 3 then Some (bytes_field wireType i (\<lambda>v. x\<lparr>portal_PeerUpdated_NewTransceiver := v\<rparr>) bs)
      else if fieldNum = 4 then Some (bytes_field wireType i (\<lambda>v. x\<lparr>portal_PeerUpdated_OldManager := v\<rparr>) bs)
      else if fieldNum = 5 then Some (bytes_field wireType i (\<lambda>v. x\<lparr>portal_PeerUpdated_NewManager := v\<rparr>) bs)
      else None)"

definition portal_PeerUpdated_Unmarshal :: "bytes \<Rightarrow> portal_PeerUpdated result option" where
  "portal_PeerUpdated_Unmarshal bs =
     read_fields (Skip gogo_runtime) portal_PeerUpdated_field (\<lambda>u x. x)
       \<lparr>portal_PeerUpdated_Chain = 0, portal_PeerUpdated_OldTransceiver = [], portal_PeerUpdated_NewTransceiver = [], portal_PeerUpdated_OldManager = [], portal_PeerUpdated_NewManager = []\<rparr> 0 bs"

lemma portal_PeerUpdated_written:
  shows "writes (portal_PeerUpdated_Marshal x)
    (varint_bytes gogo_runtime 0x8 (ucast (portal_PeerUpdated_Chain x)) @
      delimited_bytes gogo_runtime 0x12 (portal_PeerUpdated_OldTransceiver x) @
      delimited_bytes gogo_runtime 0x1A (portal_PeerUpdated_NewTransceiver x) @
      delimited_bytes gogo_runtime 0x22 (portal_PeerUpdated_OldManager x) @
      delimited_bytes gogo_runtime 0x2A (portal_PeerUpdated_NewManager x) @
      [])
    (portal_PeerUpdated_Size x)"
  by (simp add: writes_def portal_PeerUpdated_Marshal_def portal_PeerUpdated_Size_def wire_puts gogo_varint)

lemma portal_PeerUpdated_exact:
  shows "exact_codec (portal_PeerUpdated_Size) (portal_PeerUpdated_Marshal) (portal_PeerUpdated_Unmarshal)
    (\<lambda>x. True)"
  by (rule exact_codecI, rule portal_PeerUpdated_written,
    unfold portal_PeerUpdated_Unmarshal_def, erule readsD [rotated],
    (rule reads_varint16 [OF gogo_varint] reads_bytes [OF gogo_varint], rule wire_tags, simp add: portal_PeerUpdated_field_def, simp)+, rule reads_done, simp)

lemma portal_PeerUpdated_returns: "\<exists>r. portal_PeerUpdated_Unmarshal bs = Some r"
  unfolding portal_PeerUpdated_Unmarshal_def by (rule read_fields_returns [OF gogo_skip])

lemma portal_PeerUpdated_answered:
  assumes "portal_PeerUpdated_Size x < 2 ^ 63"
  shows "\<exists>bs. portal_PeerUpdated_Marshal x = Ok bs \<and> portalv1_PeerUpdated_unmarshal rt discardUnknown bs = Some (Ok
     \<lparr>portalv1_PeerUpdated_Chain = ucast (portal_PeerUpdated_Chain x),
      portalv1_PeerUpdated_OldTransceiver = portal_PeerUpdated_OldTransceiver x,
      portalv1_PeerUpdated_NewTransceiver = portal_PeerUpdated_NewTransceiver x,
      portalv1_PeerUpdated_OldManager = portal_PeerUpdated_OldManager x,
      portalv1_PeerUpdated_NewManager = portal_PeerUpdated_NewManager x,
      portalv1_PeerUpdated_unknownFields = []\<rparr>)"
  by (rule codec_readsI [OF portal_PeerUpdated_written assms(1)],
    unfold portalv1_PeerUpdated_unmarshal_def, erule readsD [rotated],
    (rule reads_varint32 [OF gogo_varint] reads_bytes [OF gogo_varint], rule wire_tags, simp add: portalv1_PeerUpdated_field_def, simp)+, rule reads_done, simp)

subsection \<open>BridgingPathSet (portal)\<close>

text \<open>\<open>BridgingPathSet\<close> of \<open>types/portal/events.pb.go\<close>.\<close>

record portal_BridgingPathSet =
  portal_BridgingPathSet_DestinationChainId :: "16 word"
  portal_BridgingPathSet_DestinationToken :: bytes
  portal_BridgingPathSet_Supported :: bool

definition portal_BridgingPathSet_Size :: "portal_BridgingPathSet \<Rightarrow> nat" where
  "portal_BridgingPathSet_Size x =
     size_varint gogo_runtime (ucast (portal_BridgingPathSet_DestinationChainId x)) +
     size_delimited gogo_runtime (portal_BridgingPathSet_DestinationToken x) +
     size_bool (portal_BridgingPathSet_Supported x)"

definition portal_BridgingPathSet_Marshal :: "portal_BridgingPathSet \<Rightarrow> bytes result" where
  "portal_BridgingPathSet_Marshal x =
     obind (put_bool 0x18 (portal_BridgingPathSet_Supported x) (portal_BridgingPathSet_Size x, [])) (\<lambda>b.
     obind (put_delimited gogo_runtime 0x12 (portal_BridgingPathSet_DestinationToken x) b) (\<lambda>b.
     obind (put_varint gogo_runtime 0x8 (ucast (portal_BridgingPathSet_DestinationChainId x)) b) (\<lambda>b.
     Ok (sized_bytes b))))"

definition portal_BridgingPathSet_field ::
    "int \<Rightarrow> int \<Rightarrow> portal_BridgingPathSet \<Rightarrow> nat \<Rightarrow> bytes \<Rightarrow> (portal_BridgingPathSet \<times> nat) result option" where
  "portal_BridgingPathSet_field fieldNum wireType x i bs =
     (if fieldNum = 1 then Some (varint_field wireType (\<lambda>v. x\<lparr>portal_BridgingPathSet_DestinationChainId := v\<rparr>) bs)
      else if fieldNum = 2 then Some (bytes_field wireType i (\<lambda>v. x\<lparr>portal_BridgingPathSet_DestinationToken := v\<rparr>) bs)
      else if fieldNum = 3 then Some (bool_field wireType (\<lambda>v. x\<lparr>portal_BridgingPathSet_Supported := v\<rparr>) bs)
      else None)"

definition portal_BridgingPathSet_Unmarshal :: "bytes \<Rightarrow> portal_BridgingPathSet result option" where
  "portal_BridgingPathSet_Unmarshal bs =
     read_fields (Skip gogo_runtime) portal_BridgingPathSet_field (\<lambda>u x. x)
       \<lparr>portal_BridgingPathSet_DestinationChainId = 0, portal_BridgingPathSet_DestinationToken = [], portal_BridgingPathSet_Supported = False\<rparr> 0 bs"

lemma portal_BridgingPathSet_written:
  shows "writes (portal_BridgingPathSet_Marshal x)
    (varint_bytes gogo_runtime 0x8 (ucast (portal_BridgingPathSet_DestinationChainId x)) @
      delimited_bytes gogo_runtime 0x12 (portal_BridgingPathSet_DestinationToken x) @
      bool_bytes 0x18 (portal_BridgingPathSet_Supported x) @
      [])
    (portal_BridgingPathSet_Size x)"
  by (simp add: writes_def portal_BridgingPathSet_Marshal_def portal_BridgingPathSet_Size_def wire_puts gogo_varint)

lemma portal_BridgingPathSet_exact:
  shows "exact_codec (portal_BridgingPathSet_Size) (portal_BridgingPathSet_Marshal) (portal_BridgingPathSet_Unmarshal)
    (\<lambda>x. True)"
  by (rule exact_codecI, rule portal_BridgingPathSet_written,
    unfold portal_BridgingPathSet_Unmarshal_def, erule readsD [rotated],
    (rule reads_varint16 [OF gogo_varint] reads_bytes [OF gogo_varint] reads_bool, rule wire_tags, simp add: portal_BridgingPathSet_field_def, simp)+, rule reads_done, simp)

lemma portal_BridgingPathSet_returns: "\<exists>r. portal_BridgingPathSet_Unmarshal bs = Some r"
  unfolding portal_BridgingPathSet_Unmarshal_def by (rule read_fields_returns [OF gogo_skip])

lemma portal_BridgingPathSet_answered:
  assumes "portal_BridgingPathSet_Size x < 2 ^ 63"
  shows "\<exists>bs. portal_BridgingPathSet_Marshal x = Ok bs \<and> portalv1_BridgingPathSet_unmarshal rt discardUnknown bs = Some (Ok
     \<lparr>portalv1_BridgingPathSet_DestinationChainId = ucast (portal_BridgingPathSet_DestinationChainId x),
      portalv1_BridgingPathSet_DestinationToken = portal_BridgingPathSet_DestinationToken x,
      portalv1_BridgingPathSet_Supported = portal_BridgingPathSet_Supported x,
      portalv1_BridgingPathSet_unknownFields = []\<rparr>)"
  by (rule codec_readsI [OF portal_BridgingPathSet_written assms(1)],
    unfold portalv1_BridgingPathSet_unmarshal_def, erule readsD [rotated],
    (rule reads_varint32 [OF gogo_varint] reads_bytes [OF gogo_varint] reads_bool, rule wire_tags, simp add: portalv1_BridgingPathSet_field_def, simp)+, rule reads_done, simp)

subsection \<open>OwnershipTransferred (portal)\<close>

text \<open>\<open>OwnershipTransferred\<close> of \<open>types/portal/events.pb.go\<close>.\<close>

record portal_OwnershipTransferred =
  portal_OwnershipTransferred_PreviousOwner :: bytes
  portal_OwnershipTransferred_NewOwner :: bytes

definition portal_OwnershipTransferred_Size :: "portal_OwnershipTransferred \<Rightarrow> nat" where
  "portal_OwnershipTransferred_Size x =
     size_delimited gogo_runtime (portal_OwnershipTransferred_PreviousOwner x) +
     size_delimited gogo_runtime (portal_OwnershipTransferred_NewOwner x)"

definition portal_OwnershipTransferred_Marshal :: "portal_OwnershipTransferred \<Rightarrow> bytes result" where
  "portal_OwnershipTransferred_Marshal x =
     obind (put_delimited gogo_runtime 0x12 (portal_OwnershipTransferred_NewOwner x) (portal_OwnershipTransferred_Size x, [])) (\<lambda>b.
     obind (put_delimited gogo_runtime 0xA (portal_OwnershipTransferred_PreviousOwner x) b) (\<lambda>b.
     Ok (sized_bytes b)))"

definition portal_OwnershipTransferred_field ::
    "int \<Rightarrow> int \<Rightarrow> portal_OwnershipTransferred \<Rightarrow> nat \<Rightarrow> bytes \<Rightarrow> (portal_OwnershipTransferred \<times> nat) result option" where
  "portal_OwnershipTransferred_field fieldNum wireType x i bs =
     (if fieldNum = 1 then Some (bytes_field wireType i (\<lambda>v. x\<lparr>portal_OwnershipTransferred_PreviousOwner := v\<rparr>) bs)
      else if fieldNum = 2 then Some (bytes_field wireType i (\<lambda>v. x\<lparr>portal_OwnershipTransferred_NewOwner := v\<rparr>) bs)
      else None)"

definition portal_OwnershipTransferred_Unmarshal :: "bytes \<Rightarrow> portal_OwnershipTransferred result option" where
  "portal_OwnershipTransferred_Unmarshal bs =
     read_fields (Skip gogo_runtime) portal_OwnershipTransferred_field (\<lambda>u x. x)
       \<lparr>portal_OwnershipTransferred_PreviousOwner = [], portal_OwnershipTransferred_NewOwner = []\<rparr> 0 bs"

lemma portal_OwnershipTransferred_written:
  shows "writes (portal_OwnershipTransferred_Marshal x)
    (delimited_bytes gogo_runtime 0xA (portal_OwnershipTransferred_PreviousOwner x) @
      delimited_bytes gogo_runtime 0x12 (portal_OwnershipTransferred_NewOwner x) @
      [])
    (portal_OwnershipTransferred_Size x)"
  by (simp add: writes_def portal_OwnershipTransferred_Marshal_def portal_OwnershipTransferred_Size_def wire_puts gogo_varint)

lemma portal_OwnershipTransferred_exact:
  shows "exact_codec (portal_OwnershipTransferred_Size) (portal_OwnershipTransferred_Marshal) (portal_OwnershipTransferred_Unmarshal)
    (\<lambda>x. True)"
  by (rule exact_codecI, rule portal_OwnershipTransferred_written,
    unfold portal_OwnershipTransferred_Unmarshal_def, erule readsD [rotated],
    (rule reads_bytes [OF gogo_varint], rule wire_tags, simp add: portal_OwnershipTransferred_field_def, simp)+, rule reads_done, simp)

lemma portal_OwnershipTransferred_returns: "\<exists>r. portal_OwnershipTransferred_Unmarshal bs = Some r"
  unfolding portal_OwnershipTransferred_Unmarshal_def by (rule read_fields_returns [OF gogo_skip])

lemma portal_OwnershipTransferred_answered:
  assumes "portal_OwnershipTransferred_Size x < 2 ^ 63"
  shows "\<exists>bs. portal_OwnershipTransferred_Marshal x = Ok bs \<and> portalv1_OwnershipTransferred_unmarshal rt discardUnknown bs = Some (Ok
     \<lparr>portalv1_OwnershipTransferred_PreviousOwner = portal_OwnershipTransferred_PreviousOwner x,
      portalv1_OwnershipTransferred_NewOwner = portal_OwnershipTransferred_NewOwner x,
      portalv1_OwnershipTransferred_unknownFields = []\<rparr>)"
  by (rule codec_readsI [OF portal_OwnershipTransferred_written assms(1)],
    unfold portalv1_OwnershipTransferred_unmarshal_def, erule readsD [rotated],
    (rule reads_bytes [OF gogo_varint], rule wire_tags, simp add: portalv1_OwnershipTransferred_field_def, simp)+, rule reads_done, simp)

subsection \<open>Paused (portal)\<close>

text \<open>\<open>Paused\<close> of \<open>types/portal/events.pb.go\<close>.\<close>

datatype portal_Paused = portal_Paused

definition portal_Paused_Size :: "portal_Paused \<Rightarrow> nat" where
  "portal_Paused_Size x =
     0"

definition portal_Paused_Marshal :: "portal_Paused \<Rightarrow> bytes result" where
  "portal_Paused_Marshal x =
     Ok (sized_bytes (portal_Paused_Size x, []))"

definition portal_Paused_field ::
    "int \<Rightarrow> int \<Rightarrow> portal_Paused \<Rightarrow> nat \<Rightarrow> bytes \<Rightarrow> (portal_Paused \<times> nat) result option" where
  "portal_Paused_field fieldNum wireType x i bs =
     None"

definition portal_Paused_Unmarshal :: "bytes \<Rightarrow> portal_Paused result option" where
  "portal_Paused_Unmarshal bs =
     read_fields (Skip gogo_runtime) portal_Paused_field (\<lambda>u x. x)
       portal_Paused 0 bs"

lemma portal_Paused_written:
  shows "writes (portal_Paused_Marshal x)
    ([] :: bytes)
    (portal_Paused_Size x)"
  by (simp add: writes_def portal_Paused_Marshal_def portal_Paused_Size_def wire_puts gogo_varint)

lemma portal_Paused_exact:
  shows "exact_codec (portal_Paused_Size) (portal_Paused_Marshal) (portal_Paused_Unmarshal)
    (\<lambda>x. True)"
  by (rule exact_codecI, rule portal_Paused_written,
    unfold portal_Paused_Unmarshal_def, erule readsD [rotated],
    rule reads_done, metis portal_Paused.exhaust)

lemma portal_Paused_returns: "\<exists>r. portal_Paused_Unmarshal bs = Some r"
  unfolding portal_Paused_Unmarshal_def by (rule read_fields_returns [OF gogo_skip])

subsection \<open>Unpaused (portal)\<close>

text \<open>\<open>Unpaused\<close> of \<open>types/portal/events.pb.go\<close>.\<close>

datatype portal_Unpaused = portal_Unpaused

definition portal_Unpaused_Size :: "portal_Unpaused \<Rightarrow> nat" where
  "portal_Unpaused_Size x =
     0"

definition portal_Unpaused_Marshal :: "portal_Unpaused \<Rightarrow> bytes result" where
  "portal_Unpaused_Marshal x =
     Ok (sized_bytes (portal_Unpaused_Size x, []))"

definition portal_Unpaused_field ::
    "int \<Rightarrow> int \<Rightarrow> portal_Unpaused \<Rightarrow> nat \<Rightarrow> bytes \<Rightarrow> (portal_Unpaused \<times> nat) result option" where
  "portal_Unpaused_field fieldNum wireType x i bs =
     None"

definition portal_Unpaused_Unmarshal :: "bytes \<Rightarrow> portal_Unpaused result option" where
  "portal_Unpaused_Unmarshal bs =
     read_fields (Skip gogo_runtime) portal_Unpaused_field (\<lambda>u x. x)
       portal_Unpaused 0 bs"

lemma portal_Unpaused_written:
  shows "writes (portal_Unpaused_Marshal x)
    ([] :: bytes)
    (portal_Unpaused_Size x)"
  by (simp add: writes_def portal_Unpaused_Marshal_def portal_Unpaused_Size_def wire_puts gogo_varint)

lemma portal_Unpaused_exact:
  shows "exact_codec (portal_Unpaused_Size) (portal_Unpaused_Marshal) (portal_Unpaused_Unmarshal)
    (\<lambda>x. True)"
  by (rule exact_codecI, rule portal_Unpaused_written,
    unfold portal_Unpaused_Unmarshal_def, erule readsD [rotated],
    rule reads_done, metis portal_Unpaused.exhaust)

lemma portal_Unpaused_returns: "\<exists>r. portal_Unpaused_Unmarshal bs = Some r"
  unfolding portal_Unpaused_Unmarshal_def by (rule read_fields_returns [OF gogo_skip])

subsection \<open>PositionLocked (vaults)\<close>

text \<open>\<open>PositionLocked\<close> of \<open>types/vaults/events.pb.go\<close>.\<close>

record vaults_PositionLocked =
  vaults_PositionLocked_Account :: bytes
  vaults_PositionLocked_VaultType :: bytes
  vaults_PositionLocked_Index :: "64 word"
  vaults_PositionLocked_Amount :: "int option"
  vaults_PositionLocked_Principal :: "int option"

definition vaults_PositionLocked_Size :: "custom \<Rightarrow> vaults_PositionLocked \<Rightarrow> nat" where
  "vaults_PositionLocked_Size ic x =
     size_delimited gogo_runtime (vaults_PositionLocked_Account x) +
     size_delimited gogo_runtime (vaults_PositionLocked_VaultType x) +
     size_varint gogo_runtime (vaults_PositionLocked_Index x) +
     size_custom (Custom_Marshal ic (vaults_PositionLocked_Amount x)) +
     size_custom (Custom_Marshal ic (vaults_PositionLocked_Principal x))"

definition vaults_PositionLocked_Marshal :: "custom \<Rightarrow> vaults_PositionLocked \<Rightarrow> bytes result" where
  "vaults_PositionLocked_Marshal ic x =
     obind (put_custom 0x2A (Custom_Marshal ic (vaults_PositionLocked_Principal x)) (vaults_PositionLocked_Size ic x, [])) (\<lambda>b.
     obind (put_custom 0x22 (Custom_Marshal ic (vaults_PositionLocked_Amount x)) b) (\<lambda>b.
     obind (put_varint gogo_runtime 0x18 (vaults_PositionLocked_Index x) b) (\<lambda>b.
     obind (put_delimited gogo_runtime 0x12 (vaults_PositionLocked_VaultType x) b) (\<lambda>b.
     obind (put_delimited gogo_runtime 0xA (vaults_PositionLocked_Account x) b) (\<lambda>b.
     Ok (sized_bytes b))))))"

definition vaults_PositionLocked_field ::
    "custom \<Rightarrow> int \<Rightarrow> int \<Rightarrow> vaults_PositionLocked \<Rightarrow> nat \<Rightarrow> bytes \<Rightarrow> (vaults_PositionLocked \<times> nat) result option" where
  "vaults_PositionLocked_field ic fieldNum wireType x i bs =
     (if fieldNum = 1 then Some (bytes_field wireType i (\<lambda>v. x\<lparr>vaults_PositionLocked_Account := v\<rparr>) bs)
      else if fieldNum = 2 then Some (bytes_field wireType i (\<lambda>v. x\<lparr>vaults_PositionLocked_VaultType := v\<rparr>) bs)
      else if fieldNum = 3 then Some (varint_field wireType (\<lambda>v. x\<lparr>vaults_PositionLocked_Index := v\<rparr>) bs)
      else if fieldNum = 4 then Some (custom_field wireType i (Custom_Unmarshal ic (vaults_PositionLocked_Amount x)) (\<lambda>v. x\<lparr>vaults_PositionLocked_Amount := v\<rparr>) bs)
      else if fieldNum = 5 then Some (custom_field wireType i (Custom_Unmarshal ic (vaults_PositionLocked_Principal x)) (\<lambda>v. x\<lparr>vaults_PositionLocked_Principal := v\<rparr>) bs)
      else None)"

definition vaults_PositionLocked_Unmarshal :: "custom \<Rightarrow> bytes \<Rightarrow> vaults_PositionLocked result option" where
  "vaults_PositionLocked_Unmarshal ic bs =
     read_fields (Skip gogo_runtime) (vaults_PositionLocked_field ic) (\<lambda>u x. x)
       \<lparr>vaults_PositionLocked_Account = [], vaults_PositionLocked_VaultType = [], vaults_PositionLocked_Index = 0, vaults_PositionLocked_Amount = None, vaults_PositionLocked_Principal = None\<rparr> 0 bs"

lemma vaults_PositionLocked_written:
  assumes "custom_codec ic ok" "given ok (vaults_PositionLocked_Amount x) \<and> given ok (vaults_PositionLocked_Principal x)"
  shows "writes (vaults_PositionLocked_Marshal ic x)
    (delimited_bytes gogo_runtime 0xA (vaults_PositionLocked_Account x) @
      delimited_bytes gogo_runtime 0x12 (vaults_PositionLocked_VaultType x) @
      varint_bytes gogo_runtime 0x18 (vaults_PositionLocked_Index x) @
      delimited_bytes gogo_runtime 0x22 (Custom_Marshal ic (vaults_PositionLocked_Amount x)) @
      delimited_bytes gogo_runtime 0x2A (Custom_Marshal ic (vaults_PositionLocked_Principal x)) @
      [])
    (vaults_PositionLocked_Size ic x)"
  using assms(2) by (simp add: writes_def vaults_PositionLocked_Marshal_def vaults_PositionLocked_Size_def wire_puts gogo_varint
    custom_delimited givenD [OF assms(1)])

lemma vaults_PositionLocked_exact:
  assumes "custom_codec ic ok"
  shows "exact_codec (vaults_PositionLocked_Size ic) (vaults_PositionLocked_Marshal ic) (vaults_PositionLocked_Unmarshal ic)
    (\<lambda>x. given ok (vaults_PositionLocked_Amount x) \<and> given ok (vaults_PositionLocked_Principal x))"
  by (rule exact_codecI, rule vaults_PositionLocked_written [OF assms], assumption,
    unfold vaults_PositionLocked_Unmarshal_def, erule readsD [rotated],
    ((rule reads_bytes [OF gogo_varint] reads_varint [OF gogo_varint], rule wire_tags, simp add: vaults_PositionLocked_field_def, simp) |
      (rule reads_delimited [OF gogo_varint], rule wire_tags, simp add: vaults_PositionLocked_field_def, simp add: givenD [OF assms], simp add: givenD [OF assms]))+, rule reads_done, simp)

lemma vaults_PositionLocked_returns: "\<exists>r. vaults_PositionLocked_Unmarshal ic bs = Some r"
  unfolding vaults_PositionLocked_Unmarshal_def by (rule read_fields_returns [OF gogo_skip])

lemma vaults_PositionLocked_answered:
  assumes "custom_codec ic ok" "given ok (vaults_PositionLocked_Amount x) \<and> given ok (vaults_PositionLocked_Principal x)" "vaults_PositionLocked_Size ic x < 2 ^ 63"
  shows "\<exists>bs. vaults_PositionLocked_Marshal ic x = Ok bs \<and> vaultsv1_PositionLocked_unmarshal rt discardUnknown bs = Some (Ok
     \<lparr>vaultsv1_PositionLocked_Account = vaults_PositionLocked_Account x,
      vaultsv1_PositionLocked_VaultType = vaults_PositionLocked_VaultType x,
      vaultsv1_PositionLocked_Index = vaults_PositionLocked_Index x,
      vaultsv1_PositionLocked_Amount = Custom_Marshal ic (vaults_PositionLocked_Amount x),
      vaultsv1_PositionLocked_Principal = Custom_Marshal ic (vaults_PositionLocked_Principal x),
      vaultsv1_PositionLocked_unknownFields = []\<rparr>)"
  by (rule codec_readsI [OF vaults_PositionLocked_written [OF assms(1,2)] assms(3)],
    unfold vaultsv1_PositionLocked_unmarshal_def, erule readsD [rotated],
    (rule reads_bytes [OF gogo_varint] reads_varint [OF gogo_varint], rule wire_tags, simp add: vaultsv1_PositionLocked_field_def, simp)+, rule reads_done, simp)

subsection \<open>PositionUnlocked (vaults)\<close>

text \<open>\<open>PositionUnlocked\<close> of \<open>types/vaults/events.pb.go\<close>.\<close>

record vaults_PositionUnlocked =
  vaults_PositionUnlocked_Account :: bytes
  vaults_PositionUnlocked_VaultType :: bytes
  vaults_PositionUnlocked_Index :: "64 word"
  vaults_PositionUnlocked_Amount :: "int option"
  vaults_PositionUnlocked_Principal :: "int option"

definition vaults_PositionUnlocked_Size :: "custom \<Rightarrow> vaults_PositionUnlocked \<Rightarrow> nat" where
  "vaults_PositionUnlocked_Size ic x =
     size_delimited gogo_runtime (vaults_PositionUnlocked_Account x) +
     size_delimited gogo_runtime (vaults_PositionUnlocked_VaultType x) +
     size_varint gogo_runtime (vaults_PositionUnlocked_Index x) +
     size_custom (Custom_Marshal ic (vaults_PositionUnlocked_Amount x)) +
     size_custom (Custom_Marshal ic (vaults_PositionUnlocked_Principal x))"

definition vaults_PositionUnlocked_Marshal :: "custom \<Rightarrow> vaults_PositionUnlocked \<Rightarrow> bytes result" where
  "vaults_PositionUnlocked_Marshal ic x =
     obind (put_custom 0x2A (Custom_Marshal ic (vaults_PositionUnlocked_Principal x)) (vaults_PositionUnlocked_Size ic x, [])) (\<lambda>b.
     obind (put_custom 0x22 (Custom_Marshal ic (vaults_PositionUnlocked_Amount x)) b) (\<lambda>b.
     obind (put_varint gogo_runtime 0x18 (vaults_PositionUnlocked_Index x) b) (\<lambda>b.
     obind (put_delimited gogo_runtime 0x12 (vaults_PositionUnlocked_VaultType x) b) (\<lambda>b.
     obind (put_delimited gogo_runtime 0xA (vaults_PositionUnlocked_Account x) b) (\<lambda>b.
     Ok (sized_bytes b))))))"

definition vaults_PositionUnlocked_field ::
    "custom \<Rightarrow> int \<Rightarrow> int \<Rightarrow> vaults_PositionUnlocked \<Rightarrow> nat \<Rightarrow> bytes \<Rightarrow> (vaults_PositionUnlocked \<times> nat) result option" where
  "vaults_PositionUnlocked_field ic fieldNum wireType x i bs =
     (if fieldNum = 1 then Some (bytes_field wireType i (\<lambda>v. x\<lparr>vaults_PositionUnlocked_Account := v\<rparr>) bs)
      else if fieldNum = 2 then Some (bytes_field wireType i (\<lambda>v. x\<lparr>vaults_PositionUnlocked_VaultType := v\<rparr>) bs)
      else if fieldNum = 3 then Some (varint_field wireType (\<lambda>v. x\<lparr>vaults_PositionUnlocked_Index := v\<rparr>) bs)
      else if fieldNum = 4 then Some (custom_field wireType i (Custom_Unmarshal ic (vaults_PositionUnlocked_Amount x)) (\<lambda>v. x\<lparr>vaults_PositionUnlocked_Amount := v\<rparr>) bs)
      else if fieldNum = 5 then Some (custom_field wireType i (Custom_Unmarshal ic (vaults_PositionUnlocked_Principal x)) (\<lambda>v. x\<lparr>vaults_PositionUnlocked_Principal := v\<rparr>) bs)
      else None)"

definition vaults_PositionUnlocked_Unmarshal :: "custom \<Rightarrow> bytes \<Rightarrow> vaults_PositionUnlocked result option" where
  "vaults_PositionUnlocked_Unmarshal ic bs =
     read_fields (Skip gogo_runtime) (vaults_PositionUnlocked_field ic) (\<lambda>u x. x)
       \<lparr>vaults_PositionUnlocked_Account = [], vaults_PositionUnlocked_VaultType = [], vaults_PositionUnlocked_Index = 0, vaults_PositionUnlocked_Amount = None, vaults_PositionUnlocked_Principal = None\<rparr> 0 bs"

lemma vaults_PositionUnlocked_written:
  assumes "custom_codec ic ok" "given ok (vaults_PositionUnlocked_Amount x) \<and> given ok (vaults_PositionUnlocked_Principal x)"
  shows "writes (vaults_PositionUnlocked_Marshal ic x)
    (delimited_bytes gogo_runtime 0xA (vaults_PositionUnlocked_Account x) @
      delimited_bytes gogo_runtime 0x12 (vaults_PositionUnlocked_VaultType x) @
      varint_bytes gogo_runtime 0x18 (vaults_PositionUnlocked_Index x) @
      delimited_bytes gogo_runtime 0x22 (Custom_Marshal ic (vaults_PositionUnlocked_Amount x)) @
      delimited_bytes gogo_runtime 0x2A (Custom_Marshal ic (vaults_PositionUnlocked_Principal x)) @
      [])
    (vaults_PositionUnlocked_Size ic x)"
  using assms(2) by (simp add: writes_def vaults_PositionUnlocked_Marshal_def vaults_PositionUnlocked_Size_def wire_puts gogo_varint
    custom_delimited givenD [OF assms(1)])

lemma vaults_PositionUnlocked_exact:
  assumes "custom_codec ic ok"
  shows "exact_codec (vaults_PositionUnlocked_Size ic) (vaults_PositionUnlocked_Marshal ic) (vaults_PositionUnlocked_Unmarshal ic)
    (\<lambda>x. given ok (vaults_PositionUnlocked_Amount x) \<and> given ok (vaults_PositionUnlocked_Principal x))"
  by (rule exact_codecI, rule vaults_PositionUnlocked_written [OF assms], assumption,
    unfold vaults_PositionUnlocked_Unmarshal_def, erule readsD [rotated],
    ((rule reads_bytes [OF gogo_varint] reads_varint [OF gogo_varint], rule wire_tags, simp add: vaults_PositionUnlocked_field_def, simp) |
      (rule reads_delimited [OF gogo_varint], rule wire_tags, simp add: vaults_PositionUnlocked_field_def, simp add: givenD [OF assms], simp add: givenD [OF assms]))+, rule reads_done, simp)

lemma vaults_PositionUnlocked_returns: "\<exists>r. vaults_PositionUnlocked_Unmarshal ic bs = Some r"
  unfolding vaults_PositionUnlocked_Unmarshal_def by (rule read_fields_returns [OF gogo_skip])

lemma vaults_PositionUnlocked_answered:
  assumes "custom_codec ic ok" "given ok (vaults_PositionUnlocked_Amount x) \<and> given ok (vaults_PositionUnlocked_Principal x)" "vaults_PositionUnlocked_Size ic x < 2 ^ 63"
  shows "\<exists>bs. vaults_PositionUnlocked_Marshal ic x = Ok bs \<and> vaultsv1_PositionUnlocked_unmarshal rt discardUnknown bs = Some (Ok
     \<lparr>vaultsv1_PositionUnlocked_Account = vaults_PositionUnlocked_Account x,
      vaultsv1_PositionUnlocked_VaultType = vaults_PositionUnlocked_VaultType x,
      vaultsv1_PositionUnlocked_Index = vaults_PositionUnlocked_Index x,
      vaultsv1_PositionUnlocked_Amount = Custom_Marshal ic (vaults_PositionUnlocked_Amount x),
      vaultsv1_PositionUnlocked_Principal = Custom_Marshal ic (vaults_PositionUnlocked_Principal x),
      vaultsv1_PositionUnlocked_unknownFields = []\<rparr>)"
  by (rule codec_readsI [OF vaults_PositionUnlocked_written [OF assms(1,2)] assms(3)],
    unfold vaultsv1_PositionUnlocked_unmarshal_def, erule readsD [rotated],
    (rule reads_bytes [OF gogo_varint] reads_varint [OF gogo_varint], rule wire_tags, simp add: vaultsv1_PositionUnlocked_field_def, simp)+, rule reads_done, simp)

subsection \<open>PausedStateUpdated (vaults)\<close>

text \<open>\<open>PausedStateUpdated\<close> of \<open>types/vaults/events.pb.go\<close>.\<close>

record vaults_PausedStateUpdated =
  vaults_PausedStateUpdated_Paused :: bytes

definition vaults_PausedStateUpdated_Size :: "vaults_PausedStateUpdated \<Rightarrow> nat" where
  "vaults_PausedStateUpdated_Size x =
     size_delimited gogo_runtime (vaults_PausedStateUpdated_Paused x)"

definition vaults_PausedStateUpdated_Marshal :: "vaults_PausedStateUpdated \<Rightarrow> bytes result" where
  "vaults_PausedStateUpdated_Marshal x =
     obind (put_delimited gogo_runtime 0xA (vaults_PausedStateUpdated_Paused x) (vaults_PausedStateUpdated_Size x, [])) (\<lambda>b.
     Ok (sized_bytes b))"

definition vaults_PausedStateUpdated_field ::
    "int \<Rightarrow> int \<Rightarrow> vaults_PausedStateUpdated \<Rightarrow> nat \<Rightarrow> bytes \<Rightarrow> (vaults_PausedStateUpdated \<times> nat) result option" where
  "vaults_PausedStateUpdated_field fieldNum wireType x i bs =
     (if fieldNum = 1 then Some (bytes_field wireType i (\<lambda>v. x\<lparr>vaults_PausedStateUpdated_Paused := v\<rparr>) bs)
      else None)"

definition vaults_PausedStateUpdated_Unmarshal :: "bytes \<Rightarrow> vaults_PausedStateUpdated result option" where
  "vaults_PausedStateUpdated_Unmarshal bs =
     read_fields (Skip gogo_runtime) vaults_PausedStateUpdated_field (\<lambda>u x. x)
       \<lparr>vaults_PausedStateUpdated_Paused = []\<rparr> 0 bs"

lemma vaults_PausedStateUpdated_written:
  shows "writes (vaults_PausedStateUpdated_Marshal x)
    (delimited_bytes gogo_runtime 0xA (vaults_PausedStateUpdated_Paused x) @
      [])
    (vaults_PausedStateUpdated_Size x)"
  by (simp add: writes_def vaults_PausedStateUpdated_Marshal_def vaults_PausedStateUpdated_Size_def wire_puts gogo_varint)

lemma vaults_PausedStateUpdated_exact:
  shows "exact_codec (vaults_PausedStateUpdated_Size) (vaults_PausedStateUpdated_Marshal) (vaults_PausedStateUpdated_Unmarshal)
    (\<lambda>x. True)"
  by (rule exact_codecI, rule vaults_PausedStateUpdated_written,
    unfold vaults_PausedStateUpdated_Unmarshal_def, erule readsD [rotated],
    (rule reads_bytes [OF gogo_varint], rule wire_tags, simp add: vaults_PausedStateUpdated_field_def, simp)+, rule reads_done, simp)

lemma vaults_PausedStateUpdated_returns: "\<exists>r. vaults_PausedStateUpdated_Unmarshal bs = Some r"
  unfolding vaults_PausedStateUpdated_Unmarshal_def by (rule read_fields_returns [OF gogo_skip])

lemma vaults_PausedStateUpdated_answered:
  assumes "vaults_PausedStateUpdated_Size x < 2 ^ 63"
  shows "\<exists>bs. vaults_PausedStateUpdated_Marshal x = Ok bs \<and> vaultsv1_PausedStateUpdated_unmarshal rt discardUnknown bs = Some (Ok
     \<lparr>vaultsv1_PausedStateUpdated_Paused = vaults_PausedStateUpdated_Paused x,
      vaultsv1_PausedStateUpdated_unknownFields = []\<rparr>)"
  by (rule codec_readsI [OF vaults_PausedStateUpdated_written assms(1)],
    unfold vaultsv1_PausedStateUpdated_unmarshal_def, erule readsD [rotated],
    (rule reads_bytes [OF gogo_varint], rule wire_tags, simp add: vaultsv1_PausedStateUpdated_field_def, simp)+, rule reads_done, simp)

subsection \<open>RewardClaimed (vaults)\<close>

text \<open>\<open>RewardClaimed\<close> of \<open>types/vaults/events.pb.go\<close>.\<close>

record vaults_RewardClaimed =
  vaults_RewardClaimed_Account :: bytes
  vaults_RewardClaimed_Amount :: "int option"

definition vaults_RewardClaimed_Size :: "custom \<Rightarrow> vaults_RewardClaimed \<Rightarrow> nat" where
  "vaults_RewardClaimed_Size ic x =
     size_delimited gogo_runtime (vaults_RewardClaimed_Account x) +
     size_custom (Custom_Marshal ic (vaults_RewardClaimed_Amount x))"

definition vaults_RewardClaimed_Marshal :: "custom \<Rightarrow> vaults_RewardClaimed \<Rightarrow> bytes result" where
  "vaults_RewardClaimed_Marshal ic x =
     obind (put_custom 0x12 (Custom_Marshal ic (vaults_RewardClaimed_Amount x)) (vaults_RewardClaimed_Size ic x, [])) (\<lambda>b.
     obind (put_delimited gogo_runtime 0xA (vaults_RewardClaimed_Account x) b) (\<lambda>b.
     Ok (sized_bytes b)))"

definition vaults_RewardClaimed_field ::
    "custom \<Rightarrow> int \<Rightarrow> int \<Rightarrow> vaults_RewardClaimed \<Rightarrow> nat \<Rightarrow> bytes \<Rightarrow> (vaults_RewardClaimed \<times> nat) result option" where
  "vaults_RewardClaimed_field ic fieldNum wireType x i bs =
     (if fieldNum = 1 then Some (bytes_field wireType i (\<lambda>v. x\<lparr>vaults_RewardClaimed_Account := v\<rparr>) bs)
      else if fieldNum = 2 then Some (custom_field wireType i (Custom_Unmarshal ic (vaults_RewardClaimed_Amount x)) (\<lambda>v. x\<lparr>vaults_RewardClaimed_Amount := v\<rparr>) bs)
      else None)"

definition vaults_RewardClaimed_Unmarshal :: "custom \<Rightarrow> bytes \<Rightarrow> vaults_RewardClaimed result option" where
  "vaults_RewardClaimed_Unmarshal ic bs =
     read_fields (Skip gogo_runtime) (vaults_RewardClaimed_field ic) (\<lambda>u x. x)
       \<lparr>vaults_RewardClaimed_Account = [], vaults_RewardClaimed_Amount = None\<rparr> 0 bs"

lemma vaults_RewardClaimed_written:
  assumes "custom_codec ic ok" "given ok (vaults_RewardClaimed_Amount x)"
  shows "writes (vaults_RewardClaimed_Marshal ic x)
    (delimited_bytes gogo_runtime 0xA (vaults_RewardClaimed_Account x) @
      delimited_bytes gogo_runtime 0x12 (Custom_Marshal ic (vaults_RewardClaimed_Amount x)) @
      [])
    (vaults_RewardClaimed_Size ic x)"
  using assms(2) by (simp add: writes_def vaults_RewardClaimed_Marshal_def vaults_RewardClaimed_Size_def wire_puts gogo_varint
    custom_delimited givenD [OF assms(1)])

lemma vaults_RewardClaimed_exact:
  assumes "custom_codec ic ok"
  shows "exact_codec (vaults_RewardClaimed_Size ic) (vaults_RewardClaimed_Marshal ic) (vaults_RewardClaimed_Unmarshal ic)
    (\<lambda>x. given ok (vaults_RewardClaimed_Amount x))"
  by (rule exact_codecI, rule vaults_RewardClaimed_written [OF assms], assumption,
    unfold vaults_RewardClaimed_Unmarshal_def, erule readsD [rotated],
    ((rule reads_bytes [OF gogo_varint], rule wire_tags, simp add: vaults_RewardClaimed_field_def, simp) |
      (rule reads_delimited [OF gogo_varint], rule wire_tags, simp add: vaults_RewardClaimed_field_def, simp add: givenD [OF assms], simp add: givenD [OF assms]))+, rule reads_done, simp)

lemma vaults_RewardClaimed_returns: "\<exists>r. vaults_RewardClaimed_Unmarshal ic bs = Some r"
  unfolding vaults_RewardClaimed_Unmarshal_def by (rule read_fields_returns [OF gogo_skip])

lemma vaults_RewardClaimed_answered:
  assumes "custom_codec ic ok" "given ok (vaults_RewardClaimed_Amount x)" "vaults_RewardClaimed_Size ic x < 2 ^ 63"
  shows "\<exists>bs. vaults_RewardClaimed_Marshal ic x = Ok bs \<and> vaultsv1_RewardClaimed_unmarshal rt discardUnknown bs = Some (Ok
     \<lparr>vaultsv1_RewardClaimed_Account = vaults_RewardClaimed_Account x,
      vaultsv1_RewardClaimed_Amount = Custom_Marshal ic (vaults_RewardClaimed_Amount x),
      vaultsv1_RewardClaimed_unknownFields = []\<rparr>)"
  by (rule codec_readsI [OF vaults_RewardClaimed_written [OF assms(1,2)] assms(3)],
    unfold vaultsv1_RewardClaimed_unmarshal_def, erule readsD [rotated],
    (rule reads_bytes [OF gogo_varint], rule wire_tags, simp add: vaultsv1_RewardClaimed_field_def, simp)+, rule reads_done, simp)

subsection \<open>The codecs together\<close>

lemmas codec_events_exact =
  types_Paused_exact types_Unpaused_exact types_YieldClaimed_exact types_IndexUpdated_exact
  v2_YieldRecipientSet_exact portal_Delivered_exact portal_MTokenReceived_exact
  portal_TransferRedeemed_exact portal_USDNTokenSent_exact portal_PeerUpdated_exact
  portal_BridgingPathSet_exact portal_OwnershipTransferred_exact portal_Paused_exact
  portal_Unpaused_exact vaults_PositionLocked_exact vaults_PositionUnlocked_exact
  vaults_PausedStateUpdated_exact vaults_RewardClaimed_exact

lemmas codec_events_returns =
  types_Paused_returns types_Unpaused_returns types_YieldClaimed_returns
  types_IndexUpdated_returns v2_YieldRecipientSet_returns portal_Delivered_returns
  portal_MTokenReceived_returns portal_TransferRedeemed_returns portal_USDNTokenSent_returns
  portal_PeerUpdated_returns portal_BridgingPathSet_returns portal_OwnershipTransferred_returns
  portal_Paused_returns portal_Unpaused_returns vaults_PositionLocked_returns
  vaults_PositionUnlocked_returns vaults_PausedStateUpdated_returns vaults_RewardClaimed_returns

lemmas codec_events_answered =
  types_YieldClaimed_answered types_IndexUpdated_answered v2_YieldRecipientSet_answered
  portal_Delivered_answered portal_MTokenReceived_answered portal_TransferRedeemed_answered
  portal_USDNTokenSent_answered portal_PeerUpdated_answered portal_BridgingPathSet_answered
  portal_OwnershipTransferred_answered vaults_PositionLocked_answered
  vaults_PositionUnlocked_answered vaults_PausedStateUpdated_answered
  vaults_RewardClaimed_answered

end
