(* ===== verification/Nested.thy ===== *)
theory Nested
  imports Messages State_Maps "HOL-Library.Multiset"
begin

text \<open>
  What the generated code does for fields that are messages, lists or maps: the backward writes of
  an element with its length, the loops over a list or a map, and the inner loop that reads the
  entry of a map. The order in which Go ranges over a map is random and a parameter.
\<close>

subsection \<open>Writing\<close>

definition size_message :: "wire_runtime \<Rightarrow> nat \<Rightarrow> nat" where
  "size_message rt l = 1 + l + Sov rt (word_of_nat l)"

text \<open>
  \<open>pulsar\<close> code marshals an element into a buffer of its own and copies it; \<open>gogo\<close> code lets the
  element write itself in front (\<open>MarshalToSizedBuffer(dAtA[:i])\<close>) and then writes how many bytes that were.
  Both write it even when it is empty.
\<close>

definition put_encoded :: "wire_runtime \<Rightarrow> 8 word \<Rightarrow> bytes \<Rightarrow> buffer \<Rightarrow> buffer result" where
  "put_encoded rt tag bs b =
     obind (put bs b) (\<lambda>b.
     obind (put (EncodeVarint rt (word_of_nat (length bs))) b) (put [tag]))"

definition put_message :: "wire_runtime \<Rightarrow> 8 word \<Rightarrow> (buffer \<Rightarrow> buffer result) \<Rightarrow> buffer \<Rightarrow> buffer result" where
  "put_message rt tag f = (\<lambda>(i, written).
     obind (f (i, [])) (\<lambda>(j, encoded).
     obind (put (EncodeVarint rt (word_of_nat (i - j))) (j, encoded @ written)) (put [tag])))"

text \<open>The key of an entry is written even when it is zero.\<close>

definition put_number :: "wire_runtime \<Rightarrow> 8 word \<Rightarrow> 64 word \<Rightarrow> buffer \<Rightarrow> buffer result" where
  "put_number rt tag v b = obind (put (EncodeVarint rt v) b) (put [tag])"

text \<open>\<open>for iNdEx := len(x) - 1; iNdEx >= 0; iNdEx--\<close>, and \<open>for k := range x\<close> over the entries in the order taken.\<close>

primrec put_all :: "('a \<Rightarrow> buffer \<Rightarrow> buffer result) \<Rightarrow> 'a list \<Rightarrow> buffer \<Rightarrow> buffer result" where
  "put_all f [] b = Ok b"
| "put_all f (x # xs) b = obind (put_all f xs b) (f x)"

primrec put_each :: "('a \<Rightarrow> buffer \<Rightarrow> buffer result) \<Rightarrow> 'a list \<Rightarrow> buffer \<Rightarrow> buffer result" where
  "put_each f [] b = Ok b"
| "put_each f (x # xs) b = obind (f x b) (put_each f xs)"

text \<open>The entries of a map of \<open>n\<close> entries in the order in which Go ranges over those of a field.\<close>

type_synonym range_order = "int \<Rightarrow> nat \<Rightarrow> nat list"

definition range_of :: "range_order \<Rightarrow> int \<Rightarrow> 'a list \<Rightarrow> 'a list" where
  "range_of order fieldNum m = map ((!) m) (order fieldNum (length m))"

text \<open>A client that asks for it gets the entries in the order of their keys, from the last on.\<close>

definition put_entries :: "bool \<Rightarrow> range_order \<Rightarrow> int \<Rightarrow> ('a \<Rightarrow> buffer \<Rightarrow> buffer result) \<Rightarrow> 'a list \<Rightarrow> buffer \<Rightarrow> buffer result" where
  "put_entries deterministic order fieldNum f m =
     (if deterministic then put_all f m else put_each f (range_of order fieldNum m))"

text \<open>A pointer that is nil is not written.\<close>

definition put_optional :: "('a \<Rightarrow> buffer \<Rightarrow> buffer result) \<Rightarrow> 'a option \<Rightarrow> buffer \<Rightarrow> buffer result" where
  "put_optional f v b = (case v of None \<Rightarrow> Ok b | Some e \<Rightarrow> f e b)"

definition map_range :: "range_order \<Rightarrow> bool" where
  "map_range order \<longleftrightarrow> (\<forall>fieldNum n. mset (order fieldNum n) = mset [0..<n])"

subsection \<open>Reading\<close>

text \<open>
  The inner loop over the bytes of an entry, \<open>for iNdEx < postIndex\<close>: neither wire types nor the
  sign of a field number are checked, and a field may reach past the end of the entry.
\<close>

partial_function (option) read_entry ::
    "(bytes \<Rightarrow> int result) \<Rightarrow> (int \<Rightarrow> 'kv \<Rightarrow> nat \<Rightarrow> bytes \<Rightarrow> ('kv \<times> nat) result option) \<Rightarrow>
     'kv \<Rightarrow> nat \<Rightarrow> nat \<Rightarrow> bytes \<Rightarrow> 'kv result option" where
  "read_entry skip field kv post i bs =
     (if post \<le> i then Some (Ok kv)
      else
        (case read_varint 0 (0 :: 64 word) bs of
          Err err \<Rightarrow> Some (Err err)
        | Panic p \<Rightarrow> Some (Panic p)
        | Ok (wire, n) \<Rightarrow>
            let fieldNum = sint (ucast (drop_bit 3 wire) :: 32 word) in
            (case field fieldNum kv (i + n) (drop n bs) of
              Some (Ok (kv', k)) \<Rightarrow> read_entry skip field kv' post (i + n + k) (drop (n + k) bs)
            | Some (Err err) \<Rightarrow> Some (Err err)
            | Some (Panic p) \<Rightarrow> Some (Panic p)
            | None \<Rightarrow>
                (case skip bs of
                   Err err \<Rightarrow> Some (Err err)
                 | Panic p \<Rightarrow> Some (Panic p)
                 | Ok skippy \<Rightarrow>
                     if skippy < 0 \<or> 2 ^ 63 \<le> int i + skippy then Some (Err WireInvalidLength)
                     else if int post < int i + skippy then Some (Err WireUnexpectedEOF)
                     else read_entry skip field kv post (i + nat skippy) (drop (nat skippy) bs)))))"

text \<open>The key is field one, the value field two. A number is read onto the key that is there.\<close>

definition entry_field ::
    "('kv \<Rightarrow> nat \<Rightarrow> bytes \<Rightarrow> ('kv \<times> nat) result) \<Rightarrow> ('kv \<Rightarrow> nat \<Rightarrow> bytes \<Rightarrow> ('kv \<times> nat) result) \<Rightarrow>
     int \<Rightarrow> 'kv \<Rightarrow> nat \<Rightarrow> bytes \<Rightarrow> ('kv \<times> nat) result option" where
  "entry_field key value fieldNum kv i bs =
     (if fieldNum = 1 then Some (key kv i bs) else if fieldNum = 2 then Some (value kv i bs) else None)"

definition key_text :: "bytes \<times> 'v \<Rightarrow> nat \<Rightarrow> bytes \<Rightarrow> ((bytes \<times> 'v) \<times> nat) result" where
  "key_text kv i bs = obind (read_delimited i bs) (\<lambda>(s, n). Ok ((s, snd kv), n))"

definition key_number :: "'w::len word \<times> 'v \<Rightarrow> nat \<Rightarrow> bytes \<Rightarrow> (('w word \<times> 'v) \<times> nat) result" where
  "key_number kv i bs = obind (read_varint 0 (fst kv) bs) (\<lambda>(v, n). Ok ((v, snd kv), n))"

definition value_message :: "(bytes \<Rightarrow> 'v result) \<Rightarrow> 'k \<times> 'v \<Rightarrow> nat \<Rightarrow> bytes \<Rightarrow> (('k \<times> 'v) \<times> nat) result" where
  "value_message parse kv i bs =
     obind (read_delimited i bs) (\<lambda>(s, n). obind (parse s) (\<lambda>v. Ok ((fst kv, v), n)))"

text \<open>A map field: its length, its entry, which is read from \<open>kv\<close> on, and \<open>iNdEx = postIndex\<close>.\<close>

definition map_field ::
    "(bytes \<Rightarrow> int result) \<Rightarrow> (int \<Rightarrow> 'kv \<Rightarrow> nat \<Rightarrow> bytes \<Rightarrow> ('kv \<times> nat) result option) \<Rightarrow> 'kv \<Rightarrow>
     int \<Rightarrow> nat \<Rightarrow> ('kv \<Rightarrow> 'm) \<Rightarrow> bytes \<Rightarrow> ('m \<times> nat) result" where
  "map_field skip field kv wireType i upd bs =
     (if wireType \<noteq> 2 then Err (Errorf ''proto: wrong wireType'')
      else
        obind (read_varint 0 (0 :: 64 word) bs) (\<lambda>(len, n).
        if 2 ^ 63 \<le> unat len then Err WireInvalidLength
        else if 2 ^ 63 \<le> i + n + unat len then Err WireInvalidLength
        else if length bs < n + unat len then Err WireUnexpectedEOF
        else
          obind (the (read_entry skip field kv (i + n + unat len) (i + n) (drop n bs))) (\<lambda>kv.
          Ok (upd kv, n + unat len))))"

subsection \<open>Lemmas on writing\<close>

definition message_bytes :: "wire_runtime \<Rightarrow> 8 word \<Rightarrow> bytes \<Rightarrow> bytes" where
  "message_bytes rt tag bs = tag # EncodeVarint rt (word_of_nat (length bs)) @ bs"

definition number_bytes :: "wire_runtime \<Rightarrow> 8 word \<Rightarrow> 64 word \<Rightarrow> bytes" where
  "number_bytes rt tag v = tag # EncodeVarint rt v"

definition size_number :: "wire_runtime \<Rightarrow> 64 word \<Rightarrow> nat" where
  "size_number rt v = 1 + Sov rt v"

lemma nested_lengths [simp]:
  "varint_runtime rt \<Longrightarrow> length (message_bytes rt tag bs) = size_message rt (length bs)"
  "varint_runtime rt \<Longrightarrow> length (number_bytes rt tag v) = size_number rt v"
  by (simp_all add: message_bytes_def size_message_def number_bytes_def size_number_def varint_runtime_def)

lemma put_encoded_bytes:
  "varint_runtime rt \<Longrightarrow> size_message rt (length bs) \<le> i \<Longrightarrow>
    put_encoded rt tag bs (i, written) = Ok (i - size_message rt (length bs), message_bytes rt tag bs @ written)"
  by (auto simp: put_encoded_def put_def message_bytes_def size_message_def varint_runtime_def)

lemma put_number_bytes:
  "varint_runtime rt \<Longrightarrow> size_number rt v \<le> i \<Longrightarrow>
    put_number rt tag v (i, written) = Ok (i - size_number rt v, number_bytes rt tag v @ written)"
  by (auto simp: put_number_def put_def number_bytes_def size_number_def varint_runtime_def)

text \<open>
  \<open>fills f bs\<close>: where there is room, the writes of \<open>f\<close> put \<open>bs\<close> in front; \<open>fills_after f rest bs\<close>: in front of
  \<open>rest\<close>, they complete \<open>bs\<close>.
\<close>

definition fills :: "(buffer \<Rightarrow> buffer result) \<Rightarrow> bytes \<Rightarrow> bool" where
  "fills f bs \<longleftrightarrow> (\<forall>i written. length bs \<le> i \<longrightarrow> f (i, written) = Ok (i - length bs, bs @ written))"

definition fills_after :: "(buffer \<Rightarrow> buffer result) \<Rightarrow> bytes \<Rightarrow> bytes \<Rightarrow> bool" where
  "fills_after f rest bs \<longleftrightarrow> (\<exists>cs. bs = cs @ rest \<and>
     (\<forall>i written. length cs \<le> i \<longrightarrow> f (i, rest @ written) = Ok (i - length cs, bs @ written)))"

lemma fillsI: "(\<And>i written. length bs \<le> i \<Longrightarrow> f (i, written) = Ok (i - length bs, bs @ written)) \<Longrightarrow> fills f bs"
  by (simp add: fills_def)

lemma fillsD: "fills f bs \<Longrightarrow> length bs \<le> i \<Longrightarrow> f (i, written) = Ok (i - length bs, bs @ written)"
  by (simp add: fills_def)

lemma fills_start: "fills_after f [] bs \<Longrightarrow> fills f bs"
  by (auto simp: fills_after_def fills_def)

lemma fills_end: "fills_after Ok bs bs"
  by (auto simp: fills_after_def)

lemma fills_step:
  assumes "fills p cs" "fills_after f (cs @ rest) bs"
  shows "fills_after (\<lambda>b. obind (p b) f) rest bs"
proof -
  from assms(2) obtain ds where ds: "bs = ds @ cs @ rest"
    and f: "\<And>i written. length ds \<le> i \<Longrightarrow> f (i, (cs @ rest) @ written) = Ok (i - length ds, bs @ written)"
    unfolding fills_after_def by blast
  have "obind (p (i, rest @ written)) f = Ok (i - length (ds @ cs), bs @ written)"
    if "length (ds @ cs) \<le> i" for i written
    using that fillsD [OF assms(1), of i "rest @ written"] f [of "i - length cs" written] by (simp add: add.commute)
  with ds show ?thesis unfolding fills_after_def by (intro exI [of _ "ds @ cs"]) simp
qed

lemma fills_step_nil: "fills p [] \<Longrightarrow> fills_after f rest bs \<Longrightarrow> fills_after (\<lambda>b. obind (p b) f) rest bs"
  using fills_step [of p "[]" f rest bs] by simp

lemma fills_put_nil: "fills (put []) []"
  by (simp add: fills_def put_def)

lemma fills_seq: "fills f bs \<Longrightarrow> fills g cs \<Longrightarrow> fills (\<lambda>b. obind (f b) g) (cs @ bs)"
  by (simp add: fills_def add.commute)

lemma fills_put: "fills (put bs) bs"
  by (intro fillsI) (simp add: put_bytes)

lemma fills_scalars:
  "varint_runtime rt \<Longrightarrow> fills (put_varint rt tag v) (varint_bytes rt tag v)"
  "varint_runtime rt \<Longrightarrow> fills (put_delimited rt tag s) (delimited_bytes rt tag s)"
  "fills (put_bool tag t) (bool_bytes tag t)"
  by (intro fillsI; simp add: put_varint_bytes put_delimited_bytes put_bool_bytes)+

lemma fills_put_message:
  assumes "varint_runtime rt" "fills f bs"
  shows "fills (put_message rt tag f) (message_bytes rt tag bs)"
  using assms(1) fillsD [OF assms(2)]
  by (intro fillsI)
    (auto simp: put_message_def put_def message_bytes_def varint_runtime_def)

lemma fills_put_encoded: "varint_runtime rt \<Longrightarrow> fills (put_encoded rt tag bs) (message_bytes rt tag bs)"
  by (intro fillsI) (simp add: put_encoded_bytes)

lemma fills_put_number: "varint_runtime rt \<Longrightarrow> fills (put_number rt tag v) (number_bytes rt tag v)"
  by (intro fillsI) (simp add: put_number_bytes)

lemma fills_put_all: "(\<And>x. x \<in> set xs \<Longrightarrow> fills (f x) (g x)) \<Longrightarrow> fills (put_all f xs) (concat (map g xs))"
proof (induction xs)
  case (Cons x xs)
  then have "fills (\<lambda>b. obind (put_all f xs b) (f x)) (g x @ concat (map g xs))" by (intro fills_seq) auto
  then show ?case by (simp add: fills_def)
qed (simp add: fills_def)

lemma fills_put_each: "(\<And>x. x \<in> set xs \<Longrightarrow> fills (f x) (g x)) \<Longrightarrow> fills (put_each f xs) (concat (map g (rev xs)))"
proof (induction xs)
  case (Cons x xs)
  then have "fills (\<lambda>b. obind (f x b) (put_each f xs)) (concat (map g (rev xs)) @ g x)" by (intro fills_seq) auto
  then show ?case by (simp add: fills_def)
qed (simp add: fills_def)

text \<open>An amount is always written, like a message.\<close>

lemma custom_message: "put_custom = put_encoded gogo_runtime" "size_custom bs = size_message gogo_runtime (length bs)"
  by (rule ext)+ (simp_all add: put_custom_def put_encoded_def size_custom_def size_message_def gogo_runtime_def Let_def)

lemma fills_put_custom: "fills (put_custom tag bs) (message_bytes gogo_runtime tag bs)"
  unfolding custom_message by (rule fills_put_encoded [OF gogo_varint])

lemma cast_key [simp]: "ucast (ucast (h :: 16 word) :: 32 word) = h"
  by (rule bit_word_eqI) (auto simp: bit_simps)

lemma strict_mono_key: "strict_mono (\<lambda>h :: 16 word. ucast h :: 32 word)"
proof (rule strict_monoI)
  fix x y :: "16 word"
  assume "x < y"
  have bound: "unat h < 2 ^ LENGTH(16)" for h :: "16 word" by (rule unsigned_less)
  have small: "unat (ucast h :: 32 word) = unat h" for h :: "16 word"
    using bound [of h] by (simp add: unsigned_ucast_eq take_bit_nat_eq_self)
  from \<open>x < y\<close> show "(ucast x :: 32 word) < ucast y" by (simp add: word_less_nat_alt small)
qed

text \<open>For instance from the first entry to the last.\<close>

lemma first_to_last: "map_range (\<lambda>_ n. [0..<n])"
  by (simp add: map_range_def)

lemma mset_range: "map_range order \<Longrightarrow> mset (range_of order fieldNum m) = mset m"
  unfolding map_range_def range_of_def by (metis map_nth mset_map)

lemma set_range: "map_range order \<Longrightarrow> set (range_of order fieldNum m) = set m"
  using mset_range by (metis set_mset_mset)

lemma sum_range:
  assumes "map_range order"
  shows "sum_list (map f (range_of order fieldNum m)) = (sum_list (map f m) :: nat)"
proof -
  have "mset (map f (range_of order fieldNum m)) = mset (map f m)" using assms by (simp add: mset_range)
  then show ?thesis by (metis sum_mset_sum_list)
qed

text \<open>The entries in the order of their bytes.\<close>

definition entries_order :: "bool \<Rightarrow> range_order \<Rightarrow> int \<Rightarrow> 'a list \<Rightarrow> 'a list" where
  "entries_order deterministic order fieldNum m = (if deterministic then m else rev (range_of order fieldNum m))"

lemma mset_entries: "map_range order \<Longrightarrow> mset (entries_order d order n m) = mset m"
  by (simp add: entries_order_def mset_range)

lemma set_entries: "map_range order \<Longrightarrow> set (entries_order d order n m) = set m"
  using mset_entries by (metis set_mset_mset)

lemma sum_entries:
  assumes "map_range order"
  shows "sum_list (map f (entries_order d order n m)) = (sum_list (map f m) :: nat)"
proof -
  have "mset (map f (entries_order d order n m)) = mset (map f m)" using assms by (simp add: mset_entries)
  then show ?thesis by (metis sum_mset_sum_list)
qed

lemma fills_put_entries:
  assumes "map_range order" "\<And>x. x \<in> set m \<Longrightarrow> fills (f x) (g x)"
  shows "fills (put_entries d order n f m) (concat (map g (entries_order d order n m)))"
proof (cases d)
  case False
  have "fills (put_each f (range_of order n m)) (concat (map g (rev (range_of order n m))))"
    by (rule fills_put_each, rule assms(2)) (simp add: set_range [OF assms(1)])
  with False show ?thesis by (simp add: put_entries_def entries_order_def)
qed (simp add: put_entries_def entries_order_def assms(2) fills_put_all)

lemma fills_put_optional:
  "(\<And>v. e = Some v \<Longrightarrow> fills (f v) (g v)) \<Longrightarrow> fills (put_optional f e) (case e of None \<Rightarrow> [] | Some v \<Rightarrow> g v)"
  by (cases e) (simp_all add: put_optional_def fills_def)

text \<open>What a \<open>Marshal\<close> returns, where it returns.\<close>

definition marshalled :: "bytes result \<Rightarrow> bytes" where
  "marshalled m = (case m of Ok bs \<Rightarrow> bs | _ \<Rightarrow> [])"

lemma marshalled_Ok [simp]: "marshalled (Ok bs) = bs"
  by (simp add: marshalled_def)

lemma fills_sized: "fills f bs \<Longrightarrow> length bs = n \<Longrightarrow> obind (f (n, [])) (\<lambda>b. Ok (sized_bytes b)) = Ok bs"
  by (simp add: fillsD)

lemma fills_marshalled:
  assumes "fills f bs" "length bs = n" "m = obind (f (n, [])) (\<lambda>b. Ok (sized_bytes b))"
  shows "writes m bs n" "fills f (marshalled m)"
  using assms by (simp_all add: fills_sized writes_def)

lemma fills_buffer: "fills f bs \<Longrightarrow> length bs = n \<Longrightarrow> obind (f (n, [])) (\<lambda>b. Ok (buffer_bytes b)) = Ok bs"
  by (simp add: fillsD)

lemma exact_marshalled:
  assumes "exact_codec size_of marshal unmarshal kept" "kept x" "size_of x < 2 ^ 63"
  shows "marshal x = Ok (marshalled (marshal x))" "length (marshalled (marshal x)) = size_of x"
    "unmarshal (marshalled (marshal x)) = Some (Ok x)"
  using assms by (auto simp: exact_codec_def)

lemma writes_marshalled:
  "writes m bs n \<Longrightarrow> m = Ok (marshalled m)" "writes m bs n \<Longrightarrow> length (marshalled m) = n"
  by (auto simp: writes_def)

lemma fills_marshal:
  assumes "varint_runtime rt" "m = Ok s"
  shows "fills (\<lambda>b. obind m (\<lambda>s. put_encoded rt tag s b)) (message_bytes rt tag s)"
  using fills_put_encoded [OF assms(1), of tag s] assms(2) by simp

text \<open>What one side writes and the other reads.\<close>

lemma answered_the:
  "\<exists>bs. m = Ok bs \<and> u bs = Some (Ok y) \<Longrightarrow> the (u (marshalled m)) = Ok y"
  by auto

text \<open>A codec that is exact reads the bytes it writes.\<close>

lemma exact_reads:
  assumes "exact_codec size_of marshal unmarshal kept" "kept x" "writes (marshal x) bs (size_of x)"
    and "length (marshalled (marshal x)) < 2 ^ 63"
  shows "the (unmarshal (marshalled (marshal x))) = Ok x"
  using exact_marshalled(3) [OF assms(1,2)] assms(4) writes_marshalled(2) [OF assms(3)] by simp

lemma obind_assoc: "obind (obind m f) g = obind m (\<lambda>x. obind (f x) g)"
  by (cases m) simp_all

lemma obind_Ok: "obind m Ok = m"
  by (cases m) simp_all

subsection \<open>Lemmas on reading\<close>

lemma reads_message:
  assumes "varint_runtime rt" "wire_tag tag num 2"
    and "\<And>bs. field num 2 x (i + 1) bs = Some (custom_field 2 (i + 1) parse upd bs)"
    and "length s < 2 ^ 63 \<Longrightarrow> parse s = Ok v"
    and "reads skip field unknown (upd v) (i + size_message rt (length s)) rest y"
  shows "reads skip field unknown x i (message_bytes rt tag s @ rest) y"
proof -
  let ?b = "EncodeVarint rt (word_of_nat (length s)) @ s"
  have l: "i + 1 + length ?b = i + size_message rt (length s)"
    using assms(1) by (simp add: size_message_def varint_runtime_def)
  show ?thesis
  proof (cases "i + 1 + length ?b < 2 ^ 63")
    case True
    then have "parse s = Ok v" by (intro assms(4)) simp
    with True have "custom_field 2 (i + 1) parse upd (?b @ rest) = Ok (upd v, length ?b)"
      using custom_field_bytes [OF assms(1), of "i + 1" s parse upd rest] assms(1)
      by (simp add: varint_runtime_def)
    with reads_field [where field = field, OF assms(2), of x i "?b" rest "upd v", unfolded l] assms(3,5)
    show ?thesis by (simp add: message_bytes_def)
  qed (use assms(1) l in \<open>simp add: reads_def\<close>)
qed

text \<open>A list is read element by element.\<close>

lemma reads_each:
  assumes "\<And>e x i rest. e \<in> set es \<Longrightarrow>
      reads skip field unknown (upd e x) (i + length (g e)) rest y \<Longrightarrow> reads skip field unknown x i (g e @ rest) y"
    and "reads skip field unknown (fold upd es x) (i + length (concat (map g es))) rest y"
  shows "reads skip field unknown x i (concat (map g es) @ rest) y"
  using assms
proof (induction es arbitrary: x i)
  case (Cons e es)
  have "reads skip field unknown (upd e x) (i + length (g e)) (concat (map g es) @ rest) y"
    by (rule Cons.IH) (use Cons.prems in \<open>simp_all add: add.assoc\<close>)
  with Cons.prems(1) [of e x i "concat (map g es) @ rest"] show ?case by simp
qed simp

lemma read_entry_done: "post \<le> i \<Longrightarrow> read_entry skip field kv post i bs = Some (Ok kv)"
  by (subst read_entry.simps) simp

lemma read_entry_step:
  assumes "wire_tag tag num wt" "i < post" "field num kv (i + 1) (cs @ rest) = Some (Ok (kv', length cs))"
  shows "read_entry skip field kv post i (tag # cs @ rest) = read_entry skip field kv' post (i + 1 + length cs) rest"
proof -
  let ?w = "ucast (and tag 0x7F) :: 64 word"
  from assms(1) have "tag < 0x80" "num = sint (ucast (drop_bit 3 ?w) :: 32 word)"
    by (simp_all add: wire_tag_def Let_def)
  then show ?thesis using assms(2,3) by (subst read_entry.simps) (simp add: Let_def)
qed

lemma read_delimited_bytes:
  assumes "varint_runtime rt" "i + length (EncodeVarint rt (word_of_nat (length s)) @ s) < 2 ^ 63"
  shows "read_delimited i (EncodeVarint rt (word_of_nat (length s)) @ s @ rest)
    = Ok (s, length (EncodeVarint rt (word_of_nat (length s)) @ s))"
proof -
  let ?l = "word_of_nat (length s) :: 64 word"
  have l: "unat ?l = length s"
    using assms(2) by (simp add: unsigned_of_nat take_bit_nat_eq_self)
  have n: "length (EncodeVarint rt ?l) = Sov rt ?l"
    using assms(1) by (simp add: varint_runtime_def)
  have "read_varint 0 0 (EncodeVarint rt ?l @ s @ rest) = Ok (?l, Sov rt ?l)"
    using assms(1) by (simp add: varint_runtime_def)
  then show ?thesis
    using assms(2) l n by (simp add: read_delimited_def drop_append)
qed

text \<open>
  \<open>entry_reads \<dots> kv s kv'\<close>: the bytes of an entry, wherever they stand, turn \<open>kv\<close> into \<open>kv'\<close>.
\<close>

definition entry_reads ::
    "(bytes \<Rightarrow> int result) \<Rightarrow> (int \<Rightarrow> 'kv \<Rightarrow> nat \<Rightarrow> bytes \<Rightarrow> ('kv \<times> nat) result option) \<Rightarrow> 'kv \<Rightarrow> bytes \<Rightarrow> 'kv \<Rightarrow> bool" where
  "entry_reads skip field kv s kv' \<longleftrightarrow>
     (\<forall>i rest. i + length s < 2 ^ 63 \<longrightarrow> read_entry skip field kv (i + length s) i (s @ rest) = Some (Ok kv'))"

lemma entry_readsD:
  "entry_reads skip field kv s kv' \<Longrightarrow> i + length s < 2 ^ 63 \<Longrightarrow> post = i + length s \<Longrightarrow>
    read_entry skip field kv post i (s @ rest) = Some (Ok kv')"
  unfolding entry_reads_def by blast

lemma entry_reads_done: "entry_reads skip field kv [] kv"
  by (simp add: entry_reads_def read_entry_done)

lemma entry_reads_part:
  assumes "wire_tag tag num wt"
    and "\<And>i rest. i + length cs < 2 ^ 63 \<Longrightarrow> field num kv i (cs @ rest) = Some (Ok (kv', length cs))"
    and "entry_reads skip field kv' s kv''"
  shows "entry_reads skip field kv (tag # cs @ s) kv''"
  unfolding entry_reads_def
proof (intro allI impI)
  fix i rest
  assume b: "i + length (tag # cs @ s) < 2 ^ 63"
  then have "read_entry skip field kv (i + length (tag # cs @ s)) i (tag # cs @ (s @ rest))
      = read_entry skip field kv' (i + length (tag # cs @ s)) (i + 1 + length cs) (s @ rest)"
    by (intro read_entry_step [OF assms(1)] assms(2)) simp_all
  moreover have "read_entry skip field kv' (i + length (tag # cs @ s)) (i + 1 + length cs) (s @ rest) = Some (Ok kv'')"
    by (rule entry_readsD [OF assms(3)]) (use b in simp_all)
  ultimately show "read_entry skip field kv (i + length (tag # cs @ s)) i ((tag # cs @ s) @ rest) = Some (Ok kv'')"
    by simp
qed

lemma reads_map:
  assumes "varint_runtime rt" "wire_tag tag num 2"
    and "\<And>bs. field num 2 x (i + 1) bs = Some (map_field skip' entry kv 2 (i + 1) upd bs)"
    and "entry_reads skip' entry kv s kv'"
    and "reads skip field unknown (upd kv') (i + size_message rt (length s)) rest y"
  shows "reads skip field unknown x i (message_bytes rt tag s @ rest) y"
proof -
  let ?l = "word_of_nat (length s) :: 64 word"
  let ?b = "EncodeVarint rt ?l @ s"
  have l: "i + 1 + length ?b = i + size_message rt (length s)"
    using assms(1) by (simp add: size_message_def varint_runtime_def)
  show ?thesis
  proof (cases "i + 1 + length ?b < 2 ^ 63")
    case True
    then have u: "unat ?l = length s" by (simp add: unsigned_of_nat take_bit_nat_eq_self)
    have n: "length (EncodeVarint rt ?l) = Sov rt ?l" using assms(1) by (simp add: varint_runtime_def)
    have v: "read_varint 0 0 (EncodeVarint rt ?l @ s @ rest) = Ok (?l, Sov rt ?l)"
      using assms(1) by (simp add: varint_runtime_def)
    have "read_entry skip' entry kv (i + 1 + Sov rt ?l + length s) (i + 1 + Sov rt ?l) (s @ rest) = Some (Ok kv')"
      by (rule entry_readsD [OF assms(4)]) (use True n in simp_all)
    with True u n v have "map_field skip' entry kv 2 (i + 1) upd (?b @ rest) = Ok (upd kv', length ?b)"
      by (simp add: map_field_def drop_append)
    with reads_field [where field = field, OF assms(2), of x i "?b" rest "upd kv'", unfolded l] assms(3,5)
    show ?thesis by (simp add: message_bytes_def)
  qed (use assms(1) l in \<open>simp add: reads_def\<close>)
qed

text \<open>The fields of an entry, and entries as both sides write them.\<close>

lemma entry_wire_tags: "wire_tag 0xA 1 2" "wire_tag 0x8 1 0" "wire_tag 0x12 2 2"
  by (rule wire_tags)+

lemma entry_reads_text:
  assumes "varint_runtime rt" "entry_reads skip (entry_field key_text value) (s, v) bs kv'"
  shows "entry_reads skip (entry_field key_text value) (k, v) (message_bytes rt 0xA s @ bs) kv'"
proof -
  have "entry_field key_text value 1 (k, v) i ((EncodeVarint rt (word_of_nat (length s)) @ s) @ rest)
      = Some (Ok ((s, v), length (EncodeVarint rt (word_of_nat (length s)) @ s)))"
    if "i + length (EncodeVarint rt (word_of_nat (length s)) @ s) < 2 ^ 63" for i rest
    using read_delimited_bytes [OF assms(1) that, of rest] by (simp add: entry_field_def key_text_def)
  from entry_reads_part [where field = "entry_field key_text value", OF entry_wire_tags(1) this assms(2)]
  show ?thesis by (simp add: message_bytes_def)
qed

lemma entry_reads_number:
  assumes "varint_runtime rt" "LENGTH('w::len) \<le> 64"
    and "entry_reads skip (entry_field key_number value) (ucast n :: 'w word, v) bs kv'"
  shows "entry_reads skip (entry_field key_number value) (0, v) (number_bytes rt 0x8 n @ bs) kv'"
proof -
  have "read_varint 0 (0 :: 'w word) (EncodeVarint rt n @ rest) = Ok (ucast n, length (EncodeVarint rt n))" for rest
    using read_varint_ucast [OF assms(2), of 0 0 "EncodeVarint rt n @ rest"] assms(1)
    by (simp add: varint_runtime_def)
  then have "entry_field key_number value 1 (0 :: 'w word, v) i (EncodeVarint rt n @ rest)
      = Some (Ok ((ucast n, v), length (EncodeVarint rt n)))" for i rest
    by (simp add: entry_field_def key_number_def)
  from entry_reads_part [where field = "entry_field key_number value", OF entry_wire_tags(2) this assms(3)]
  show ?thesis by (simp add: number_bytes_def)
qed

lemma entry_reads_value:
  assumes "varint_runtime rt" "length s < 2 ^ 63 \<Longrightarrow> parse s = Ok v"
  shows "entry_reads skip (entry_field key (value_message parse)) (k, u) (message_bytes rt 0x12 s) (k, v)"
proof -
  have "entry_field key (value_message parse) 2 (k, u) i ((EncodeVarint rt (word_of_nat (length s)) @ s) @ rest)
      = Some (Ok ((k, v), length (EncodeVarint rt (word_of_nat (length s)) @ s)))"
    if "i + length (EncodeVarint rt (word_of_nat (length s)) @ s) < 2 ^ 63" for i rest
    using read_delimited_bytes [OF assms(1) that, of rest] assms(2) that
    by (simp add: entry_field_def value_message_def)
  from entry_reads_part [where field = "entry_field key (value_message parse)", OF entry_wire_tags(3) this entry_reads_done]
  show ?thesis by (simp add: message_bytes_def)
qed

text \<open>A repeated field of a record is read by reading its elements into the field.\<close>

lemma fold_field:
  assumes "\<And>f x. get (upd f x) = f (get x)" "\<And>f g x. upd f (upd g x) = upd (\<lambda>u. f (g u)) x" "\<And>x. upd (\<lambda>_. get x) x = x"
  shows "fold (\<lambda>e x. upd (\<lambda>_. h e (get x)) x) es x = upd (\<lambda>_. fold h es (get x)) x"
  by (induction es arbitrary: x) (simp_all add: assms)

lemma reads_repeated:
  assumes "\<And>f x. get (upd f x) = f (get x)" "\<And>f g x. upd f (upd g x) = upd (\<lambda>u. f (g u)) x" "\<And>x. upd (\<lambda>_. get x) x = x"
    and "\<And>e x i rest. e \<in> set es \<Longrightarrow>
      reads skip field unknown (upd (\<lambda>_. h e (get x)) x) (i + length (g e)) rest y \<Longrightarrow>
      reads skip field unknown x i (g e @ rest) y"
    and "reads skip field unknown (upd (\<lambda>_. fold h es (get x)) x) (i + length (concat (map g es))) rest y"
  shows "reads skip field unknown x i (concat (map g es) @ rest) y"
  using assms(5) unfolding fold_field [of get upd h, OF assms(1-3), symmetric]
  by (intro reads_each [where upd = "\<lambda>e x. upd (\<lambda>_. h e (get x)) x"]) (rule assms(4))

lemma fold_snoc: "fold (\<lambda>e l. l @ [f e]) es l = l @ map f es"
  by (induction es arbitrary: l) simp_all

lemma fold_entries:
  assumes "map_ok m" "mset es = mset m" "strict_mono ck"
  shows "fold (\<lambda>(k, v). Map_Set (ck k) (cv v)) es [] = map (\<lambda>(k, v). (ck k, cv v)) m"
proof -
  have "fold (\<lambda>(k, v). Map_Set (ck k) (cv v)) es n = fill (\<lambda>e. ck (fst e)) (\<lambda>e. cv (snd e)) es n" for n
    by (induction es arbitrary: n) auto
  moreover have "fill (\<lambda>e. ck (fst e)) (\<lambda>e. cv (snd e)) es [] = map (\<lambda>(k, v). (ck k, cv v)) m"
  proof (rule fill_rebuild)
    have mono: "ck j < ck k \<longleftrightarrow> j < k" for j k using assms(3) by (rule strict_mono_less)
    from assms(1) show "map_ok (map (\<lambda>(k, v). (ck k, cv v)) m)"
      by (auto simp: map_ok_def sorted_wrt_map mono split_beta elim!: sorted_wrt_mono_rel [rotated])
    have "mset (map fst es) = mset (map fst m)" using assms(2) by simp
    then have "distinct (map fst es)" using map_ok_distinct [OF assms(1)] by (metis mset_eq_imp_distinct_iff)
    then show "distinct (map (\<lambda>e. ck (fst e)) es)"
      using strict_mono_eq [OF assms(3)] by (auto simp: distinct_map inj_on_def)
    have "set es = set m" using assms(2) by (metis set_mset_mset)
    then show "(a, b) \<in> set (map (\<lambda>(k, v). (ck k, cv v)) m) \<longleftrightarrow> (\<exists>e\<in>set es. ck (fst e) = a \<and> cv (snd e) = b)" for a b
      by force
  qed
  ultimately show ?thesis by simp
qed

lemma fold_same_entries:
  "map_ok m \<Longrightarrow> mset es = mset m \<Longrightarrow> fold (\<lambda>(k, v). Map_Set k v) es [] = m"
  using fold_entries [of m es "\<lambda>k. k" "\<lambda>v. v"] by (simp add: strict_mono_def)

lemma reads_messages:
  assumes "varint_runtime rt" "wire_tag tag num 2"
    and "\<And>f x. get (upd f x) = f (get x)" "\<And>f g x. upd f (upd g x) = upd (\<lambda>u. f (g u)) x" "\<And>x. upd (\<lambda>_. get x) x = x"
    and "\<And>x i bs. field num 2 x (i + 1) bs = Some (custom_field 2 (i + 1) parse (\<lambda>v. upd (\<lambda>_. get x @ [v]) x) bs)"
    and "\<And>e. e \<in> set es \<Longrightarrow> length (s e) < 2 ^ 63 \<Longrightarrow> parse (s e) = Ok (c e)"
    and "reads skip field unknown (upd (\<lambda>_. get x @ map c es) x) (i + length (concat (map (\<lambda>e. message_bytes rt tag (s e)) es))) rest y"
  shows "reads skip field unknown x i (concat (map (\<lambda>e. message_bytes rt tag (s e)) es) @ rest) y"
proof (rule reads_repeated [where get = get and upd = upd and h = "\<lambda>e l. l @ [c e]"])
  fix e x i rest
  assume e: "e \<in> set es" and r: "reads skip field unknown (upd (\<lambda>_. get x @ [c e]) x) (i + length (message_bytes rt tag (s e))) rest y"
  show "reads skip field unknown x i (message_bytes rt tag (s e) @ rest) y"
    by (rule reads_message [where parse = parse and v = "c e" and upd = "\<lambda>v. upd (\<lambda>_. get x @ [v]) x" and x = x
          and i = i and field = field and num = num,
        OF assms(1,2) assms(6) [of x i] assms(7) [OF e]], assumption) (use r assms(1) in simp)
qed (use assms(3-5,8) in \<open>simp_all add: fold_snoc\<close>)

lemma reads_entries:
  assumes "varint_runtime rt" "wire_tag tag num 2"
    and "\<And>f x. get (upd f x) = f (get x)" "\<And>f g x. upd f (upd g x) = upd (\<lambda>u. f (g u)) x" "\<And>x. upd (\<lambda>_. get x) x = x"
    and "\<And>x i bs. field num 2 x (i + 1) bs
      = Some (map_field skip' entry kv 2 (i + 1) (\<lambda>kv. upd (\<lambda>_. Map_Set (kc (fst kv)) (snd kv) (get x)) x) bs)"
    and "\<And>e. e \<in> set es \<Longrightarrow> entry_reads skip' entry kv (s e) (kr e)"
    and "fold (\<lambda>e. Map_Set (kc (fst (kr e))) (snd (kr e))) es (get x) = m"
    and "reads skip field unknown (upd (\<lambda>_. m) x) (i + length (concat (map (\<lambda>e. message_bytes rt tag (s e)) es))) rest y"
  shows "reads skip field unknown x i (concat (map (\<lambda>e. message_bytes rt tag (s e)) es) @ rest) y"
proof (rule reads_repeated [where get = get and upd = upd and h = "\<lambda>e. Map_Set (kc (fst (kr e))) (snd (kr e))"])
  fix e x i rest
  assume e: "e \<in> set es"
    and r: "reads skip field unknown (upd (\<lambda>_. Map_Set (kc (fst (kr e))) (snd (kr e)) (get x)) x)
      (i + length (message_bytes rt tag (s e))) rest y"
  show "reads skip field unknown x i (message_bytes rt tag (s e) @ rest) y"
    by (rule reads_map [where upd = "\<lambda>kv. upd (\<lambda>_. Map_Set (kc (fst kv)) (snd kv) (get x)) x" and x = x
          and i = i and field = field and num = num,
        OF assms(1,2) assms(6) [of x i] assms(7) [OF e]]) (use r assms(1) in simp)
qed (use assms(3-5,8,9) in simp_all)

lemma reads_optional:
  assumes "varint_runtime rt" "wire_tag tag num 2" "\<And>x. upd (\<lambda>_. get x) x = x" "get x = None"
    and "\<And>bs. field num 2 x (i + 1) bs = Some (custom_field 2 (i + 1) parse (\<lambda>v. upd (\<lambda>_. Some v) x) bs)"
    and "\<And>v. e = Some v \<Longrightarrow> length (s v) < 2 ^ 63 \<Longrightarrow> parse (s v) = Ok (c v)"
    and "reads skip field unknown (upd (\<lambda>_. map_option c e) x)
      (i + length (case e of None \<Rightarrow> [] | Some v \<Rightarrow> message_bytes rt tag (s v))) rest y"
  shows "reads skip field unknown x i ((case e of None \<Rightarrow> [] | Some v \<Rightarrow> message_bytes rt tag (s v)) @ rest) y"
proof (cases e)
  case None
  then show ?thesis using assms(3) [of x] assms(4,7) by simp
next
  case (Some v)
  have "reads skip field unknown (upd (\<lambda>_. Some (c v)) x) (i + size_message rt (length (s v))) rest y"
    using assms(1,7) Some by simp
  from reads_message [where parse = parse and v = "c v" and upd = "\<lambda>v. upd (\<lambda>_. Some v) x", OF assms(1,2,5) assms(6) [OF Some] this] Some show ?thesis by simp
qed

text \<open>What the entries amount to.\<close>

lemma fold_ordered:
  assumes "map_ok m" "map_range order" "strict_mono ck"
  shows "fold (\<lambda>e. Map_Set (ck (fst e)) (cv (snd e))) (entries_order d order n m) [] = map (\<lambda>(k, v). (ck k, cv v)) m"
  using fold_entries [OF assms(1) mset_entries [OF assms(2)] assms(3), of cv] by (simp add: case_prod_beta')

lemma fold_ordered_same:
  "map_ok m \<Longrightarrow> map_range order \<Longrightarrow> fold (\<lambda>e. Map_Set (fst e) (snd e)) (entries_order d order n m) [] = m"
  using fold_ordered [of m order "\<lambda>k. k" "\<lambda>v. v"] by (simp add: strict_mono_def)

text \<open>The loop over an entry returns where the skip makes progress.\<close>

lemma read_entry_returns:
  assumes "skip_progress skip"
  shows "\<exists>r. read_entry skip field kv post i bs = Some r"
proof (induction "length bs" arbitrary: kv i bs rule: less_induct)
  case less
  show ?case
  proof (cases "i < post \<and> bs \<noteq> []")
    case True
    have again: "\<exists>r. read_entry skip field kv' post j (drop n bs) = Some r" if "0 < n" for kv' j n
      using less [of "drop n bs" kv' j] that True by simp
    show ?thesis
    proof (cases "read_varint 0 (0 :: 64 word) bs")
      case (Ok vn)
      obtain wire n where vn: "vn = (wire, n)" by fastforce
      with Ok have "0 < n" using read_varint_pos [of 0 "0 :: 64 word" bs wire n] by simp
      have skipped: "0 < nat k" if "skip bs = Ok k" "\<not> k < 0" for k
        using assms that by (auto simp: skip_progress_def order_less_le)
      from again skipped Ok vn True \<open>0 < n\<close> show ?thesis
        by (subst read_entry.simps) (auto simp: Let_def split: outcome.split option.split)
    qed (use True in \<open>subst read_entry.simps, simp\<close>)+
  qed (subst read_entry.simps, auto split: if_splits)
qed

end
