(* ===== verification/Timestamps.thy ===== *)
theory Timestamps
  imports Nested
begin

text \<open>
  Times in messages. In the module's own code a time is a \<open>time.Time\<close> (Unix nanoseconds here),
  written by the \<open>StdTime\<close> functions of \<open>gogoproto\<close>; in the client API it is a pointer to
  a \<open>timestamppb.Timestamp\<close>. Both are third-party code and parameters; the encoding that protobuf
  prescribes for both is an instance.
\<close>

subsection \<open>The parameters\<close>

record std_time =
  SizeOfStdTime :: "int \<Rightarrow> nat"
  StdTimeMarshal :: "int \<Rightarrow> bytes result"
  StdTimeUnmarshal :: "bytes \<Rightarrow> int result"

record timestamp =
  ts_Seconds :: "64 word"
  ts_Nanos :: "32 word"

text \<open>\<open>Timestamp_unmarshal\<close> reads into the message that is there.\<close>

record timestamp_codec =
  Timestamp_size :: "timestamp \<Rightarrow> nat"
  Timestamp_marshal :: "timestamp \<Rightarrow> bytes result"
  Timestamp_unmarshal :: "timestamp \<Rightarrow> bytes \<Rightarrow> timestamp result"

text \<open>The zero value of \<open>time.Time\<close> is the first of January of the year 1.\<close>

definition zero_time :: int where
  "zero_time = - 62135596800 * 10 ^ 9"

definition zero_stamp :: timestamp where
  "zero_stamp = \<lparr>ts_Seconds = 0, ts_Nanos = 0\<rparr>"

subsection \<open>What is relied on\<close>

definition time_codec :: "std_time \<Rightarrow> (int \<Rightarrow> bool) \<Rightarrow> bool" where
  "time_codec tc okt \<longleftrightarrow> (\<forall>t. okt t \<longrightarrow>
     (\<exists>bs. StdTimeMarshal tc t = Ok bs \<and> length bs = SizeOfStdTime tc t \<and> StdTimeUnmarshal tc bs = Ok t))"

definition stamp_codec :: "timestamp_codec \<Rightarrow> (timestamp \<Rightarrow> bool) \<Rightarrow> bool" where
  "stamp_codec sc oks \<longleftrightarrow> (\<forall>s. oks s \<longrightarrow>
     (\<exists>bs. Timestamp_marshal sc s = Ok bs \<and> length bs = Timestamp_size sc s \<and> Timestamp_unmarshal sc zero_stamp bs = Ok s))"

text \<open>\<open>stamps tc sc okt stamp\<close>: the client reads the time \<open>t\<close> as \<open>stamp t\<close>.\<close>

definition stamps :: "std_time \<Rightarrow> timestamp_codec \<Rightarrow> (int \<Rightarrow> bool) \<Rightarrow> (int \<Rightarrow> timestamp) \<Rightarrow> bool" where
  "stamps tc sc okt stamp \<longleftrightarrow>
     (\<forall>t. okt t \<longrightarrow> Timestamp_unmarshal sc zero_stamp (marshalled (StdTimeMarshal tc t)) = Ok (stamp t))"

lemma time_codecD:
  assumes "time_codec tc okt" "okt t"
  shows "StdTimeMarshal tc t = Ok (marshalled (StdTimeMarshal tc t))"
    "length (marshalled (StdTimeMarshal tc t)) = SizeOfStdTime tc t"
    "StdTimeUnmarshal tc (marshalled (StdTimeMarshal tc t)) = Ok t"
  using assms by (auto simp: time_codec_def)

lemma stamp_codecD:
  assumes "stamp_codec sc oks" "oks s"
  shows "Timestamp_marshal sc s = Ok (marshalled (Timestamp_marshal sc s))"
    "length (marshalled (Timestamp_marshal sc s)) = Timestamp_size sc s"
    "Timestamp_unmarshal sc zero_stamp (marshalled (Timestamp_marshal sc s)) = Ok s"
  using assms by (auto simp: stamp_codec_def)

lemma stampsD:
  "stamps tc sc okt stamp \<Longrightarrow> okt t \<Longrightarrow> Timestamp_unmarshal sc zero_stamp (marshalled (StdTimeMarshal tc t)) = Ok (stamp t)"
  by (simp add: stamps_def)

subsection \<open>The encoding of protobuf\<close>

definition stamp_of :: "int \<Rightarrow> timestamp" where
  "stamp_of t = \<lparr>ts_Seconds = word_of_int (t div 10 ^ 9), ts_Nanos = word_of_int (t mod 10 ^ 9)\<rparr>"

definition stamp_bytes :: "timestamp \<Rightarrow> bytes" where
  "stamp_bytes s = varint_bytes gogo_runtime 0x8 (ts_Seconds s) @ varint_bytes gogo_runtime 0x10 (scast (ts_Nanos s)) @ []"

definition stamp_field :: "int \<Rightarrow> int \<Rightarrow> timestamp \<Rightarrow> nat \<Rightarrow> bytes \<Rightarrow> (timestamp \<times> nat) result option" where
  "stamp_field fieldNum wireType x i bs =
     (if fieldNum = 1 then Some (varint_field wireType (\<lambda>v. x\<lparr>ts_Seconds := v\<rparr>) bs)
      else if fieldNum = 2 then Some (varint_field wireType (\<lambda>v. x\<lparr>ts_Nanos := v\<rparr>) bs)
      else None)"

definition stamp_read :: "timestamp \<Rightarrow> bytes \<Rightarrow> timestamp result" where
  "stamp_read x bs = the (read_fields (Skip gogo_runtime) stamp_field (\<lambda>u x. x) x 0 bs)"

definition proto_stamp :: timestamp_codec where
  "proto_stamp = \<lparr>Timestamp_size = (\<lambda>s. length (stamp_bytes s)), Timestamp_marshal = (\<lambda>s. Ok (stamp_bytes s)),
     Timestamp_unmarshal = stamp_read\<rparr>"

definition proto_time :: std_time where
  "proto_time = \<lparr>SizeOfStdTime = (\<lambda>t. length (stamp_bytes (stamp_of t))),
     StdTimeMarshal = (\<lambda>t. Ok (stamp_bytes (stamp_of t))),
     StdTimeUnmarshal = (\<lambda>bs. obind (stamp_read zero_stamp bs) (\<lambda>s. Ok (sint (ts_Seconds s) * 10 ^ 9 + sint (ts_Nanos s))))\<rparr>"

lemma stamp_size: "length (stamp_bytes s) \<le> 22"
  using gogo_size_bounds(1) [of "ts_Seconds s"] gogo_size_bounds(1) [of "scast (ts_Nanos s)"]
  by (simp add: stamp_bytes_def gogo_varint)

lemma stamp_read_back: "stamp_read zero_stamp (stamp_bytes s) = Ok s"
proof -
  have "length (stamp_bytes s) < 2 ^ 63" using stamp_size [of s] by (rule le_less_trans) simp
  moreover have "reads (Skip gogo_runtime) stamp_field (\<lambda>u x. x) zero_stamp 0 (stamp_bytes s) s"
    unfolding stamp_bytes_def
    by ((rule reads_varint [OF gogo_varint] reads_varint32 [OF gogo_varint], rule wire_tags, simp add: stamp_field_def,
        simp add: zero_stamp_def)+, rule reads_done, simp add: zero_stamp_def)
  ultimately show ?thesis by (simp add: stamp_read_def readsD)
qed

lemma proto_stamp_codec: "stamp_codec proto_stamp (\<lambda>_. True)"
  by (simp add: stamp_codec_def proto_stamp_def stamp_read_back)

definition time_fits :: "int \<Rightarrow> bool" where
  "time_fits t \<longleftrightarrow> - (2 ^ 63) \<le> t div 10 ^ 9 \<and> t div 10 ^ 9 < 2 ^ 63"

lemma proto_time_codec: "time_codec proto_time time_fits"
  unfolding time_codec_def
proof (intro allI impI)
  fix t
  assume "time_fits t"
  then have "sint (word_of_int (t div 10 ^ 9) :: 64 word) = t div 10 ^ 9"
    by (simp add: time_fits_def sint_sbintrunc' signed_take_bit_int_eq_self)
  moreover have "sint (word_of_int (t mod 10 ^ 9) :: 32 word) = t mod 10 ^ 9"
  proof -
    have "0 \<le> t mod 10 ^ 9" "t mod 10 ^ 9 < 10 ^ 9" by simp_all
    then show ?thesis by (intro trans [OF sint_sbintrunc'] signed_take_bit_int_eq_self) simp_all
  qed
  ultimately have "sint (ts_Seconds (stamp_of t)) * 10 ^ 9 + sint (ts_Nanos (stamp_of t)) = t"
    by (simp add: stamp_of_def)
  then show "\<exists>bs. StdTimeMarshal proto_time t = Ok bs \<and> length bs = SizeOfStdTime proto_time t \<and> StdTimeUnmarshal proto_time bs = Ok t"
    by (simp add: proto_time_def stamp_read_back)
qed

lemma proto_stamps: "stamps proto_time proto_stamp okt stamp_of"
  by (simp add: stamps_def proto_time_def proto_stamp_def stamp_read_back)

end
