(* ===== verification/Api_Nested.thy ===== *)
theory Api_Nested
  imports Timestamps Api_Query Api_Data
begin

text \<open>
  The messages of the client API with nested messages, lists, maps or times: the positions, the
  responses of queries that list, and the genesis states. \<open>options.Marshal\<close>, \<open>options.Size\<close> and
  \<open>options.Unmarshal\<close> of the runtime come back to the code of the nested message, as do the
  definitions here. A pointer to a message in a list or map is not nil.
\<close>

subsection \<open>Messages that are read in place\<close>

definition dollarv1_Stats_empty :: dollarv1_Stats where
  "dollarv1_Stats_empty = \<lparr>dollarv1_Stats_TotalHolders = 0, dollarv1_Stats_TotalPrincipal = [], dollarv1_Stats_TotalYieldAccrued = [], dollarv1_Stats_unknownFields = []\<rparr>"

definition dollarv1_Stats_unmarshal_into :: "wire_runtime \<Rightarrow> bool \<Rightarrow> dollarv1_Stats \<Rightarrow> bytes \<Rightarrow> dollarv1_Stats result option" where
  "dollarv1_Stats_unmarshal_into rt discardUnknown x bs =
     read_fields (Skip rt) dollarv1_Stats_field
       (\<lambda>u x. if discardUnknown then x else x\<lparr>dollarv1_Stats_unknownFields := dollarv1_Stats_unknownFields x @ u\<rparr>) x 0 bs"

lemma dollarv1_Stats_unmarshal_empty: "dollarv1_Stats_unmarshal_into rt' discardUnknown dollarv1_Stats_empty = dollarv1_Stats_unmarshal rt' discardUnknown"
  by (rule ext) (simp add: dollarv1_Stats_unmarshal_into_def dollarv1_Stats_unmarshal_def dollarv1_Stats_empty_def)

definition dollarv2_QueryStatsResponse_ExternalYield_empty :: dollarv2_QueryStatsResponse_ExternalYield where
  "dollarv2_QueryStatsResponse_ExternalYield_empty = \<lparr>dollarv2_QueryStatsResponse_ExternalYield_ChainId = [], dollarv2_QueryStatsResponse_ExternalYield_Amount = [], dollarv2_QueryStatsResponse_ExternalYield_unknownFields = []\<rparr>"

definition dollarv2_Stats_empty :: dollarv2_Stats where
  "dollarv2_Stats_empty = \<lparr>dv2_TotalHolders = 0, dv2_TotalPrincipal = [], dv2_TotalYieldAccrued = [], dv2_unknownFields = []\<rparr>"

definition dollarv2_Stats_unmarshal_into :: "wire_runtime \<Rightarrow> bool \<Rightarrow> dollarv2_Stats \<Rightarrow> bytes \<Rightarrow> dollarv2_Stats result option" where
  "dollarv2_Stats_unmarshal_into rt discardUnknown x bs =
     read_fields (Skip rt) dollarv2_Stats_field
       (\<lambda>u x. if discardUnknown then x else x\<lparr>dv2_unknownFields := dv2_unknownFields x @ u\<rparr>) x 0 bs"

lemma dollarv2_Stats_unmarshal_empty: "dollarv2_Stats_unmarshal_into rt' discardUnknown dollarv2_Stats_empty = dollarv2_Stats_unmarshal rt' discardUnknown"
  by (rule ext) (simp add: dollarv2_Stats_unmarshal_into_def dollarv2_Stats_unmarshal_def dollarv2_Stats_empty_def)

definition portalv1_Peer_empty :: portalv1_Peer where
  "portalv1_Peer_empty = \<lparr>pv1_Transceiver = [], pv1_Manager = [], pv1_unknownFields = []\<rparr>"

definition vaultsv1_Stats_empty :: vaultsv1_Stats where
  "vaultsv1_Stats_empty = \<lparr>vv1s_FlexibleTotalPrincipal = [], vv1s_FlexibleTotalUsers = 0, vv1s_FlexibleTotalDistributedRewardsPrincipal = [], vv1s_StakedTotalPrincipal = [], vv1s_StakedTotalUsers = 0, vv1s_unknownFields = []\<rparr>"

definition vaultsv1_Stats_unmarshal_into :: "wire_runtime \<Rightarrow> bool \<Rightarrow> vaultsv1_Stats \<Rightarrow> bytes \<Rightarrow> vaultsv1_Stats result option" where
  "vaultsv1_Stats_unmarshal_into rt discardUnknown x bs =
     read_fields (Skip rt) vaultsv1_Stats_field
       (\<lambda>u x. if discardUnknown then x else x\<lparr>vv1s_unknownFields := vv1s_unknownFields x @ u\<rparr>) x 0 bs"

lemma vaultsv1_Stats_unmarshal_empty: "vaultsv1_Stats_unmarshal_into rt' discardUnknown vaultsv1_Stats_empty = vaultsv1_Stats_unmarshal rt' discardUnknown"
  by (rule ext) (simp add: vaultsv1_Stats_unmarshal_into_def vaultsv1_Stats_unmarshal_def vaultsv1_Stats_empty_def)

subsection \<open>Position (vaultsv1)\<close>

text \<open>\<open>Position\<close> of \<open>api/vaults/v1/vaults.pulsar.go\<close>.\<close>

record vaultsv1_Position =
  vaultsv1_Position_Principal :: bytes
  vaultsv1_Position_Index :: "64 word"
  vaultsv1_Position_Amount :: bytes
  vaultsv1_Position_Time :: "timestamp option"
  vaultsv1_Position_unknownFields :: bytes

definition vaultsv1_Position_size :: "wire_runtime \<Rightarrow> timestamp_codec \<Rightarrow> vaultsv1_Position \<Rightarrow> nat" where
  "vaultsv1_Position_size rt sc x =
     size_delimited rt (vaultsv1_Position_Principal x) +
     size_varint rt (vaultsv1_Position_Index x) +
     size_delimited rt (vaultsv1_Position_Amount x) +
     (case vaultsv1_Position_Time x of None \<Rightarrow> 0 | Some v \<Rightarrow> size_message rt (Timestamp_size sc v)) +
     length (vaultsv1_Position_unknownFields x)"

definition vaultsv1_Position_put :: "wire_runtime \<Rightarrow> timestamp_codec \<Rightarrow> vaultsv1_Position \<Rightarrow> buffer \<Rightarrow> buffer result" where
  "vaultsv1_Position_put rt sc x b =
     obind (put (vaultsv1_Position_unknownFields x) b) (\<lambda>b.
     obind (put_optional (\<lambda>v b. obind (Timestamp_marshal sc v) (\<lambda>s. put_encoded rt 0x22 s b)) (vaultsv1_Position_Time x) b) (\<lambda>b.
     obind (put_delimited rt 0x1A (vaultsv1_Position_Amount x) b) (\<lambda>b.
     obind (put_varint rt 0x10 (vaultsv1_Position_Index x) b) (\<lambda>b.
     obind (put_delimited rt 0xA (vaultsv1_Position_Principal x) b) Ok))))"

definition vaultsv1_Position_marshal :: "wire_runtime \<Rightarrow> timestamp_codec \<Rightarrow> vaultsv1_Position \<Rightarrow> bytes result" where
  "vaultsv1_Position_marshal rt sc x =
     obind (vaultsv1_Position_put rt sc x (vaultsv1_Position_size rt sc x, [])) (\<lambda>b. Ok (buffer_bytes b))"

definition vaultsv1_Position_field ::
    "wire_runtime \<Rightarrow> bool \<Rightarrow> timestamp_codec \<Rightarrow> int \<Rightarrow> int \<Rightarrow> vaultsv1_Position \<Rightarrow> nat \<Rightarrow> bytes \<Rightarrow> (vaultsv1_Position \<times> nat) result option" where
  "vaultsv1_Position_field rt discardUnknown sc fieldNum wireType x i bs =
     (if fieldNum = 1 then Some (bytes_field wireType i (\<lambda>v. x\<lparr>vaultsv1_Position_Principal := v\<rparr>) bs)
      else if fieldNum = 2 then Some (varint_field wireType (\<lambda>v. x\<lparr>vaultsv1_Position_Index := v\<rparr>) bs)
      else if fieldNum = 3 then Some (bytes_field wireType i (\<lambda>v. x\<lparr>vaultsv1_Position_Amount := v\<rparr>) bs)
      else if fieldNum = 4 then Some (custom_field wireType i (Timestamp_unmarshal sc (case vaultsv1_Position_Time x of None \<Rightarrow> zero_stamp | Some v \<Rightarrow> v))
        (\<lambda>v. x\<lparr>vaultsv1_Position_Time := Some v\<rparr>) bs)
      else None)"

definition vaultsv1_Position_empty :: vaultsv1_Position where
  "vaultsv1_Position_empty = \<lparr>vaultsv1_Position_Principal = [], vaultsv1_Position_Index = 0, vaultsv1_Position_Amount = [], vaultsv1_Position_Time = None, vaultsv1_Position_unknownFields = []\<rparr>"

definition vaultsv1_Position_unmarshal :: "wire_runtime \<Rightarrow> bool \<Rightarrow> timestamp_codec \<Rightarrow> bytes \<Rightarrow> vaultsv1_Position result option" where
  "vaultsv1_Position_unmarshal rt discardUnknown sc bs =
     read_fields (Skip rt) (vaultsv1_Position_field rt discardUnknown sc)
       (\<lambda>u x. if discardUnknown then x else x\<lparr>vaultsv1_Position_unknownFields := vaultsv1_Position_unknownFields x @ u\<rparr>) vaultsv1_Position_empty 0 bs"

definition vaultsv1_Position_kept :: "(timestamp \<Rightarrow> bool) \<Rightarrow> vaultsv1_Position \<Rightarrow> bool" where
  "vaultsv1_Position_kept oks x \<longleftrightarrow>
     vaultsv1_Position_unknownFields x = [] \<and>
     (\<forall>v. vaultsv1_Position_Time x = Some v \<longrightarrow> oks v)"

lemma vaultsv1_Position_written:
  assumes "varint_runtime rt" "stamp_codec sc oks" "vaultsv1_Position_kept oks x"
  shows "writes (vaultsv1_Position_marshal rt sc x)
    (delimited_bytes rt 0xA (vaultsv1_Position_Principal x) @
      varint_bytes rt 0x10 (vaultsv1_Position_Index x) @
      delimited_bytes rt 0x1A (vaultsv1_Position_Amount x) @
      (case vaultsv1_Position_Time x of None \<Rightarrow> [] | Some v \<Rightarrow> message_bytes rt 0x22 (marshalled (Timestamp_marshal sc v))) @
      [])
    (vaultsv1_Position_size rt sc x)" (is "writes _ ?bs _")
proof -
  note kept = assms(3) [unfolded vaultsv1_Position_kept_def]
  have Time: "Timestamp_marshal sc v = Ok (marshalled (Timestamp_marshal sc v))" "length (marshalled (Timestamp_marshal sc v)) = Timestamp_size sc v"
      if "vaultsv1_Position_Time x = Some v" for v
    by (rule stamp_codecD [OF assms(2)], use kept that in simp)+
  have "fills (vaultsv1_Position_put rt sc x) ?bs"
    unfolding vaultsv1_Position_put_def
    by (rule fills_start, rule fills_step_nil, simp add: kept fills_put_nil,
      rule fills_step, rule fills_put_optional, rule fills_marshal [OF assms(1)], erule Time(1),
      rule fills_step, rule fills_scalars(2) [OF assms(1)],
      rule fills_step, rule fills_scalars(1) [OF assms(1)],
      rule fills_step, rule fills_scalars(2) [OF assms(1)],
      rule fills_end)
  moreover have "length ?bs = vaultsv1_Position_size rt sc x"
    by (simp add: vaultsv1_Position_size_def assms(1) kept Time(2) length_concat comp_def cong: map_cong option.case_cong split: option.split)
  ultimately show ?thesis unfolding writes_def vaultsv1_Position_marshal_def by (simp add: fills_buffer)
qed

lemma vaultsv1_Position_read:
  assumes "varint_runtime rt" "stamp_codec sc oks" "vaultsv1_Position_kept oks x"
    and "length (delimited_bytes rt 0xA (vaultsv1_Position_Principal x) @
      varint_bytes rt 0x10 (vaultsv1_Position_Index x) @
      delimited_bytes rt 0x1A (vaultsv1_Position_Amount x) @
      (case vaultsv1_Position_Time x of None \<Rightarrow> [] | Some v \<Rightarrow> message_bytes rt 0x22 (marshalled (Timestamp_marshal sc v))) @
      []) < 2 ^ 63" (is "length ?bs < _")
  shows "vaultsv1_Position_unmarshal rt' discardUnknown sc ?bs = Some (Ok x)"
proof -
  note kept = assms(3) [unfolded vaultsv1_Position_kept_def]
  have Time: "Timestamp_unmarshal sc zero_stamp (marshalled (Timestamp_marshal sc v)) = Ok v" if "vaultsv1_Position_Time x = Some v" for v
    by (rule stamp_codecD [OF assms(2)]) (use kept that in simp)
  show ?thesis unfolding vaultsv1_Position_unmarshal_def
    by (rule readsD [OF _ assms(4)],
      rule reads_bytes [OF assms(1)], rule wire_tags, simp add: vaultsv1_Position_field_def, simp add: vaultsv1_Position_empty_def,
      rule reads_varint [OF assms(1)], rule wire_tags, simp add: vaultsv1_Position_field_def, simp add: vaultsv1_Position_empty_def,
      rule reads_bytes [OF assms(1)], rule wire_tags, simp add: vaultsv1_Position_field_def, simp add: vaultsv1_Position_empty_def,
      rule reads_optional [where get = vaultsv1_Position_Time and upd = vaultsv1_Position_Time_update and c = "\<lambda>v. v", OF assms(1)], rule wire_tags,
        simp, simp add: vaultsv1_Position_empty_def, simp add: vaultsv1_Position_field_def vaultsv1_Position_empty_def, erule Time,
      rule reads_done, simp add: vaultsv1_Position_empty_def kept option.map_ident)
qed

lemma vaultsv1_Position_exact:
  assumes "varint_runtime rt" "stamp_codec sc oks"
  shows "exact_codec (vaultsv1_Position_size rt sc) (vaultsv1_Position_marshal rt sc)
    (vaultsv1_Position_unmarshal rt' discardUnknown sc) (vaultsv1_Position_kept oks)"
  by (rule exact_codecI, rule vaultsv1_Position_written [OF assms], assumption, rule vaultsv1_Position_read [OF assms]; assumption)

lemma vaultsv1_Position_returns:
  "skip_progress (Skip rt) \<Longrightarrow> \<exists>r. vaultsv1_Position_unmarshal rt discardUnknown sc bs = Some r"
  unfolding vaultsv1_Position_unmarshal_def by (rule read_fields_returns)

subsection \<open>PositionEntry (vaultsv1)\<close>

text \<open>\<open>PositionEntry\<close> of \<open>api/vaults/v1/vaults.pulsar.go\<close>.\<close>

record vaultsv1_PositionEntry =
  vaultsv1_PositionEntry_Address :: bytes
  vaultsv1_PositionEntry_Vault :: "32 word"
  vaultsv1_PositionEntry_Principal :: bytes
  vaultsv1_PositionEntry_Index :: "64 word"
  vaultsv1_PositionEntry_Amount :: bytes
  vaultsv1_PositionEntry_Time :: "timestamp option"
  vaultsv1_PositionEntry_unknownFields :: bytes

definition vaultsv1_PositionEntry_size :: "wire_runtime \<Rightarrow> timestamp_codec \<Rightarrow> vaultsv1_PositionEntry \<Rightarrow> nat" where
  "vaultsv1_PositionEntry_size rt sc x =
     size_delimited rt (vaultsv1_PositionEntry_Address x) +
     size_varint rt (scast (vaultsv1_PositionEntry_Vault x)) +
     size_delimited rt (vaultsv1_PositionEntry_Principal x) +
     size_varint rt (vaultsv1_PositionEntry_Index x) +
     size_delimited rt (vaultsv1_PositionEntry_Amount x) +
     (case vaultsv1_PositionEntry_Time x of None \<Rightarrow> 0 | Some v \<Rightarrow> size_message rt (Timestamp_size sc v)) +
     length (vaultsv1_PositionEntry_unknownFields x)"

definition vaultsv1_PositionEntry_put :: "wire_runtime \<Rightarrow> timestamp_codec \<Rightarrow> vaultsv1_PositionEntry \<Rightarrow> buffer \<Rightarrow> buffer result" where
  "vaultsv1_PositionEntry_put rt sc x b =
     obind (put (vaultsv1_PositionEntry_unknownFields x) b) (\<lambda>b.
     obind (put_optional (\<lambda>v b. obind (Timestamp_marshal sc v) (\<lambda>s. put_encoded rt 0x32 s b)) (vaultsv1_PositionEntry_Time x) b) (\<lambda>b.
     obind (put_delimited rt 0x2A (vaultsv1_PositionEntry_Amount x) b) (\<lambda>b.
     obind (put_varint rt 0x20 (vaultsv1_PositionEntry_Index x) b) (\<lambda>b.
     obind (put_delimited rt 0x1A (vaultsv1_PositionEntry_Principal x) b) (\<lambda>b.
     obind (put_varint rt 0x10 (scast (vaultsv1_PositionEntry_Vault x)) b) (\<lambda>b.
     obind (put_delimited rt 0xA (vaultsv1_PositionEntry_Address x) b) Ok))))))"

definition vaultsv1_PositionEntry_marshal :: "wire_runtime \<Rightarrow> timestamp_codec \<Rightarrow> vaultsv1_PositionEntry \<Rightarrow> bytes result" where
  "vaultsv1_PositionEntry_marshal rt sc x =
     obind (vaultsv1_PositionEntry_put rt sc x (vaultsv1_PositionEntry_size rt sc x, [])) (\<lambda>b. Ok (buffer_bytes b))"

definition vaultsv1_PositionEntry_field ::
    "wire_runtime \<Rightarrow> bool \<Rightarrow> timestamp_codec \<Rightarrow> int \<Rightarrow> int \<Rightarrow> vaultsv1_PositionEntry \<Rightarrow> nat \<Rightarrow> bytes \<Rightarrow> (vaultsv1_PositionEntry \<times> nat) result option" where
  "vaultsv1_PositionEntry_field rt discardUnknown sc fieldNum wireType x i bs =
     (if fieldNum = 1 then Some (bytes_field wireType i (\<lambda>v. x\<lparr>vaultsv1_PositionEntry_Address := v\<rparr>) bs)
      else if fieldNum = 2 then Some (varint_field wireType (\<lambda>v. x\<lparr>vaultsv1_PositionEntry_Vault := v\<rparr>) bs)
      else if fieldNum = 3 then Some (bytes_field wireType i (\<lambda>v. x\<lparr>vaultsv1_PositionEntry_Principal := v\<rparr>) bs)
      else if fieldNum = 4 then Some (varint_field wireType (\<lambda>v. x\<lparr>vaultsv1_PositionEntry_Index := v\<rparr>) bs)
      else if fieldNum = 5 then Some (bytes_field wireType i (\<lambda>v. x\<lparr>vaultsv1_PositionEntry_Amount := v\<rparr>) bs)
      else if fieldNum = 6 then Some (custom_field wireType i (Timestamp_unmarshal sc (case vaultsv1_PositionEntry_Time x of None \<Rightarrow> zero_stamp | Some v \<Rightarrow> v))
        (\<lambda>v. x\<lparr>vaultsv1_PositionEntry_Time := Some v\<rparr>) bs)
      else None)"

definition vaultsv1_PositionEntry_empty :: vaultsv1_PositionEntry where
  "vaultsv1_PositionEntry_empty = \<lparr>vaultsv1_PositionEntry_Address = [], vaultsv1_PositionEntry_Vault = 0, vaultsv1_PositionEntry_Principal = [], vaultsv1_PositionEntry_Index = 0, vaultsv1_PositionEntry_Amount = [], vaultsv1_PositionEntry_Time = None, vaultsv1_PositionEntry_unknownFields = []\<rparr>"

definition vaultsv1_PositionEntry_unmarshal :: "wire_runtime \<Rightarrow> bool \<Rightarrow> timestamp_codec \<Rightarrow> bytes \<Rightarrow> vaultsv1_PositionEntry result option" where
  "vaultsv1_PositionEntry_unmarshal rt discardUnknown sc bs =
     read_fields (Skip rt) (vaultsv1_PositionEntry_field rt discardUnknown sc)
       (\<lambda>u x. if discardUnknown then x else x\<lparr>vaultsv1_PositionEntry_unknownFields := vaultsv1_PositionEntry_unknownFields x @ u\<rparr>) vaultsv1_PositionEntry_empty 0 bs"

definition vaultsv1_PositionEntry_kept :: "(timestamp \<Rightarrow> bool) \<Rightarrow> vaultsv1_PositionEntry \<Rightarrow> bool" where
  "vaultsv1_PositionEntry_kept oks x \<longleftrightarrow>
     vaultsv1_PositionEntry_unknownFields x = [] \<and>
     (\<forall>v. vaultsv1_PositionEntry_Time x = Some v \<longrightarrow> oks v)"

lemma vaultsv1_PositionEntry_written:
  assumes "varint_runtime rt" "stamp_codec sc oks" "vaultsv1_PositionEntry_kept oks x"
  shows "writes (vaultsv1_PositionEntry_marshal rt sc x)
    (delimited_bytes rt 0xA (vaultsv1_PositionEntry_Address x) @
      varint_bytes rt 0x10 (scast (vaultsv1_PositionEntry_Vault x)) @
      delimited_bytes rt 0x1A (vaultsv1_PositionEntry_Principal x) @
      varint_bytes rt 0x20 (vaultsv1_PositionEntry_Index x) @
      delimited_bytes rt 0x2A (vaultsv1_PositionEntry_Amount x) @
      (case vaultsv1_PositionEntry_Time x of None \<Rightarrow> [] | Some v \<Rightarrow> message_bytes rt 0x32 (marshalled (Timestamp_marshal sc v))) @
      [])
    (vaultsv1_PositionEntry_size rt sc x)" (is "writes _ ?bs _")
proof -
  note kept = assms(3) [unfolded vaultsv1_PositionEntry_kept_def]
  have Time: "Timestamp_marshal sc v = Ok (marshalled (Timestamp_marshal sc v))" "length (marshalled (Timestamp_marshal sc v)) = Timestamp_size sc v"
      if "vaultsv1_PositionEntry_Time x = Some v" for v
    by (rule stamp_codecD [OF assms(2)], use kept that in simp)+
  have "fills (vaultsv1_PositionEntry_put rt sc x) ?bs"
    unfolding vaultsv1_PositionEntry_put_def
    by (rule fills_start, rule fills_step_nil, simp add: kept fills_put_nil,
      rule fills_step, rule fills_put_optional, rule fills_marshal [OF assms(1)], erule Time(1),
      rule fills_step, rule fills_scalars(2) [OF assms(1)],
      rule fills_step, rule fills_scalars(1) [OF assms(1)],
      rule fills_step, rule fills_scalars(2) [OF assms(1)],
      rule fills_step, rule fills_scalars(1) [OF assms(1)],
      rule fills_step, rule fills_scalars(2) [OF assms(1)],
      rule fills_end)
  moreover have "length ?bs = vaultsv1_PositionEntry_size rt sc x"
    by (simp add: vaultsv1_PositionEntry_size_def assms(1) kept Time(2) length_concat comp_def cong: map_cong option.case_cong split: option.split)
  ultimately show ?thesis unfolding writes_def vaultsv1_PositionEntry_marshal_def by (simp add: fills_buffer)
qed

lemma vaultsv1_PositionEntry_read:
  assumes "varint_runtime rt" "stamp_codec sc oks" "vaultsv1_PositionEntry_kept oks x"
    and "length (delimited_bytes rt 0xA (vaultsv1_PositionEntry_Address x) @
      varint_bytes rt 0x10 (scast (vaultsv1_PositionEntry_Vault x)) @
      delimited_bytes rt 0x1A (vaultsv1_PositionEntry_Principal x) @
      varint_bytes rt 0x20 (vaultsv1_PositionEntry_Index x) @
      delimited_bytes rt 0x2A (vaultsv1_PositionEntry_Amount x) @
      (case vaultsv1_PositionEntry_Time x of None \<Rightarrow> [] | Some v \<Rightarrow> message_bytes rt 0x32 (marshalled (Timestamp_marshal sc v))) @
      []) < 2 ^ 63" (is "length ?bs < _")
  shows "vaultsv1_PositionEntry_unmarshal rt' discardUnknown sc ?bs = Some (Ok x)"
proof -
  note kept = assms(3) [unfolded vaultsv1_PositionEntry_kept_def]
  have Time: "Timestamp_unmarshal sc zero_stamp (marshalled (Timestamp_marshal sc v)) = Ok v" if "vaultsv1_PositionEntry_Time x = Some v" for v
    by (rule stamp_codecD [OF assms(2)]) (use kept that in simp)
  show ?thesis unfolding vaultsv1_PositionEntry_unmarshal_def
    by (rule readsD [OF _ assms(4)],
      rule reads_bytes [OF assms(1)], rule wire_tags, simp add: vaultsv1_PositionEntry_field_def, simp add: vaultsv1_PositionEntry_empty_def,
      rule reads_varint32 [OF assms(1)], rule wire_tags, simp add: vaultsv1_PositionEntry_field_def, simp add: vaultsv1_PositionEntry_empty_def,
      rule reads_bytes [OF assms(1)], rule wire_tags, simp add: vaultsv1_PositionEntry_field_def, simp add: vaultsv1_PositionEntry_empty_def,
      rule reads_varint [OF assms(1)], rule wire_tags, simp add: vaultsv1_PositionEntry_field_def, simp add: vaultsv1_PositionEntry_empty_def,
      rule reads_bytes [OF assms(1)], rule wire_tags, simp add: vaultsv1_PositionEntry_field_def, simp add: vaultsv1_PositionEntry_empty_def,
      rule reads_optional [where get = vaultsv1_PositionEntry_Time and upd = vaultsv1_PositionEntry_Time_update and c = "\<lambda>v. v", OF assms(1)], rule wire_tags,
        simp, simp add: vaultsv1_PositionEntry_empty_def, simp add: vaultsv1_PositionEntry_field_def vaultsv1_PositionEntry_empty_def, erule Time,
      rule reads_done, simp add: vaultsv1_PositionEntry_empty_def kept option.map_ident)
qed

lemma vaultsv1_PositionEntry_exact:
  assumes "varint_runtime rt" "stamp_codec sc oks"
  shows "exact_codec (vaultsv1_PositionEntry_size rt sc) (vaultsv1_PositionEntry_marshal rt sc)
    (vaultsv1_PositionEntry_unmarshal rt' discardUnknown sc) (vaultsv1_PositionEntry_kept oks)"
  by (rule exact_codecI, rule vaultsv1_PositionEntry_written [OF assms], assumption, rule vaultsv1_PositionEntry_read [OF assms]; assumption)

lemma vaultsv1_PositionEntry_returns:
  "skip_progress (Skip rt) \<Longrightarrow> \<exists>r. vaultsv1_PositionEntry_unmarshal rt discardUnknown sc bs = Some r"
  unfolding vaultsv1_PositionEntry_unmarshal_def by (rule read_fields_returns)

subsection \<open>QueryPositionsByProviderResponse (vaultsv1)\<close>

text \<open>\<open>QueryPositionsByProviderResponse\<close> of \<open>api/vaults/v1/query.pulsar.go\<close>.\<close>

record vaultsv1_QueryPositionsByProviderResponse =
  vaultsv1_QueryPositionsByProviderResponse_Positions :: "vaultsv1_PositionEntry list"
  vaultsv1_QueryPositionsByProviderResponse_unknownFields :: bytes

definition vaultsv1_QueryPositionsByProviderResponse_size :: "wire_runtime \<Rightarrow> timestamp_codec \<Rightarrow> vaultsv1_QueryPositionsByProviderResponse \<Rightarrow> nat" where
  "vaultsv1_QueryPositionsByProviderResponse_size rt sc x =
     sum_list (map (\<lambda>e. size_message rt (vaultsv1_PositionEntry_size rt sc e)) (vaultsv1_QueryPositionsByProviderResponse_Positions x)) +
     length (vaultsv1_QueryPositionsByProviderResponse_unknownFields x)"

definition vaultsv1_QueryPositionsByProviderResponse_put :: "wire_runtime \<Rightarrow> timestamp_codec \<Rightarrow> vaultsv1_QueryPositionsByProviderResponse \<Rightarrow> buffer \<Rightarrow> buffer result" where
  "vaultsv1_QueryPositionsByProviderResponse_put rt sc x b =
     obind (put (vaultsv1_QueryPositionsByProviderResponse_unknownFields x) b) (\<lambda>b.
     obind (put_all (\<lambda>e b. obind (vaultsv1_PositionEntry_marshal rt sc e) (\<lambda>s. put_encoded rt 0xA s b)) (vaultsv1_QueryPositionsByProviderResponse_Positions x) b) Ok)"

definition vaultsv1_QueryPositionsByProviderResponse_marshal :: "wire_runtime \<Rightarrow> timestamp_codec \<Rightarrow> vaultsv1_QueryPositionsByProviderResponse \<Rightarrow> bytes result" where
  "vaultsv1_QueryPositionsByProviderResponse_marshal rt sc x =
     obind (vaultsv1_QueryPositionsByProviderResponse_put rt sc x (vaultsv1_QueryPositionsByProviderResponse_size rt sc x, [])) (\<lambda>b. Ok (buffer_bytes b))"

definition vaultsv1_QueryPositionsByProviderResponse_field ::
    "wire_runtime \<Rightarrow> bool \<Rightarrow> timestamp_codec \<Rightarrow> int \<Rightarrow> int \<Rightarrow> vaultsv1_QueryPositionsByProviderResponse \<Rightarrow> nat \<Rightarrow> bytes \<Rightarrow> (vaultsv1_QueryPositionsByProviderResponse \<times> nat) result option" where
  "vaultsv1_QueryPositionsByProviderResponse_field rt discardUnknown sc fieldNum wireType x i bs =
     (if fieldNum = 1 then Some (custom_field wireType i (\<lambda>s. the (vaultsv1_PositionEntry_unmarshal rt discardUnknown sc s)) (\<lambda>v. x\<lparr>vaultsv1_QueryPositionsByProviderResponse_Positions := vaultsv1_QueryPositionsByProviderResponse_Positions x @ [v]\<rparr>) bs)
      else None)"

definition vaultsv1_QueryPositionsByProviderResponse_empty :: vaultsv1_QueryPositionsByProviderResponse where
  "vaultsv1_QueryPositionsByProviderResponse_empty = \<lparr>vaultsv1_QueryPositionsByProviderResponse_Positions = [], vaultsv1_QueryPositionsByProviderResponse_unknownFields = []\<rparr>"

definition vaultsv1_QueryPositionsByProviderResponse_unmarshal :: "wire_runtime \<Rightarrow> bool \<Rightarrow> timestamp_codec \<Rightarrow> bytes \<Rightarrow> vaultsv1_QueryPositionsByProviderResponse result option" where
  "vaultsv1_QueryPositionsByProviderResponse_unmarshal rt discardUnknown sc bs =
     read_fields (Skip rt) (vaultsv1_QueryPositionsByProviderResponse_field rt discardUnknown sc)
       (\<lambda>u x. if discardUnknown then x else x\<lparr>vaultsv1_QueryPositionsByProviderResponse_unknownFields := vaultsv1_QueryPositionsByProviderResponse_unknownFields x @ u\<rparr>) vaultsv1_QueryPositionsByProviderResponse_empty 0 bs"

definition vaultsv1_QueryPositionsByProviderResponse_kept :: "(timestamp \<Rightarrow> bool) \<Rightarrow> vaultsv1_QueryPositionsByProviderResponse \<Rightarrow> bool" where
  "vaultsv1_QueryPositionsByProviderResponse_kept oks x \<longleftrightarrow>
     vaultsv1_QueryPositionsByProviderResponse_unknownFields x = [] \<and>
     (\<forall>e\<in>set (vaultsv1_QueryPositionsByProviderResponse_Positions x). vaultsv1_PositionEntry_kept oks e)"

lemma vaultsv1_QueryPositionsByProviderResponse_written:
  assumes "varint_runtime rt" "stamp_codec sc oks" "vaultsv1_QueryPositionsByProviderResponse_kept oks x"
  shows "writes (vaultsv1_QueryPositionsByProviderResponse_marshal rt sc x)
    (concat (map (\<lambda>e. message_bytes rt 0xA (marshalled (vaultsv1_PositionEntry_marshal rt sc e))) (vaultsv1_QueryPositionsByProviderResponse_Positions x)) @
      [])
    (vaultsv1_QueryPositionsByProviderResponse_size rt sc x)" (is "writes _ ?bs _")
proof -
  note kept = assms(3) [unfolded vaultsv1_QueryPositionsByProviderResponse_kept_def]
  have Positions: "vaultsv1_PositionEntry_marshal rt sc e = Ok (marshalled (vaultsv1_PositionEntry_marshal rt sc e))" "length (marshalled (vaultsv1_PositionEntry_marshal rt sc e)) = vaultsv1_PositionEntry_size rt sc e"
      if "e \<in> set (vaultsv1_QueryPositionsByProviderResponse_Positions x)" for e
    by (rule writes_marshalled [OF vaultsv1_PositionEntry_written [OF assms(1,2)]], use kept that in simp)+
  have "fills (vaultsv1_QueryPositionsByProviderResponse_put rt sc x) ?bs"
    unfolding vaultsv1_QueryPositionsByProviderResponse_put_def
    by (rule fills_start, rule fills_step_nil, simp add: kept fills_put_nil,
      rule fills_step, rule fills_put_all, rule fills_marshal [OF assms(1)], erule Positions(1),
      rule fills_end)
  moreover have "length ?bs = vaultsv1_QueryPositionsByProviderResponse_size rt sc x"
    by (simp add: vaultsv1_QueryPositionsByProviderResponse_size_def assms(1) kept Positions(2) length_concat comp_def cong: map_cong option.case_cong split: option.split)
  ultimately show ?thesis unfolding writes_def vaultsv1_QueryPositionsByProviderResponse_marshal_def by (simp add: fills_buffer)
qed

lemma vaultsv1_QueryPositionsByProviderResponse_read:
  assumes "varint_runtime rt" "stamp_codec sc oks" "vaultsv1_QueryPositionsByProviderResponse_kept oks x"
    and "length (concat (map (\<lambda>e. message_bytes rt 0xA (marshalled (vaultsv1_PositionEntry_marshal rt sc e))) (vaultsv1_QueryPositionsByProviderResponse_Positions x)) @
      []) < 2 ^ 63" (is "length ?bs < _")
  shows "vaultsv1_QueryPositionsByProviderResponse_unmarshal rt' discardUnknown sc ?bs = Some (Ok x)"
proof -
  note kept = assms(3) [unfolded vaultsv1_QueryPositionsByProviderResponse_kept_def]
  have Positions: "the (vaultsv1_PositionEntry_unmarshal rt' discardUnknown sc (marshalled (vaultsv1_PositionEntry_marshal rt sc e))) = Ok e"
      if "e \<in> set (vaultsv1_QueryPositionsByProviderResponse_Positions x)" "length (marshalled (vaultsv1_PositionEntry_marshal rt sc e)) < 2 ^ 63" for e
    by (rule exact_reads [OF vaultsv1_PositionEntry_exact [OF assms(1,2)] _ vaultsv1_PositionEntry_written [OF assms(1,2)] that(2)]; use kept that in simp)
  show ?thesis unfolding vaultsv1_QueryPositionsByProviderResponse_unmarshal_def
    by (rule readsD [OF _ assms(4)],
      rule reads_messages [where get = vaultsv1_QueryPositionsByProviderResponse_Positions and upd = vaultsv1_QueryPositionsByProviderResponse_Positions_update and c = "\<lambda>e. e", OF assms(1)], rule wire_tags,
        simp, simp, simp, simp add: vaultsv1_QueryPositionsByProviderResponse_field_def, erule (1) Positions,
      rule reads_done, simp add: vaultsv1_QueryPositionsByProviderResponse_empty_def kept option.map_ident)
qed

lemma vaultsv1_QueryPositionsByProviderResponse_exact:
  assumes "varint_runtime rt" "stamp_codec sc oks"
  shows "exact_codec (vaultsv1_QueryPositionsByProviderResponse_size rt sc) (vaultsv1_QueryPositionsByProviderResponse_marshal rt sc)
    (vaultsv1_QueryPositionsByProviderResponse_unmarshal rt' discardUnknown sc) (vaultsv1_QueryPositionsByProviderResponse_kept oks)"
  by (rule exact_codecI, rule vaultsv1_QueryPositionsByProviderResponse_written [OF assms], assumption, rule vaultsv1_QueryPositionsByProviderResponse_read [OF assms]; assumption)

lemma vaultsv1_QueryPositionsByProviderResponse_returns:
  "skip_progress (Skip rt) \<Longrightarrow> \<exists>r. vaultsv1_QueryPositionsByProviderResponse_unmarshal rt discardUnknown sc bs = Some r"
  unfolding vaultsv1_QueryPositionsByProviderResponse_unmarshal_def by (rule read_fields_returns)

subsection \<open>QueryPendingRewardsByProviderResponse (vaultsv1)\<close>

text \<open>\<open>QueryPendingRewardsByProviderResponse\<close> of \<open>api/vaults/v1/query.pulsar.go\<close>.\<close>

record vaultsv1_QueryPendingRewardsByProviderResponse =
  vaultsv1_QueryPendingRewardsByProviderResponse_PendingRewards :: bytes
  vaultsv1_QueryPendingRewardsByProviderResponse_PositionsRewards :: "vaultsv1_PositionRewards list"
  vaultsv1_QueryPendingRewardsByProviderResponse_unknownFields :: bytes

definition vaultsv1_QueryPendingRewardsByProviderResponse_size :: "wire_runtime \<Rightarrow> vaultsv1_QueryPendingRewardsByProviderResponse \<Rightarrow> nat" where
  "vaultsv1_QueryPendingRewardsByProviderResponse_size rt x =
     size_delimited rt (vaultsv1_QueryPendingRewardsByProviderResponse_PendingRewards x) +
     sum_list (map (\<lambda>e. size_message rt (vaultsv1_PositionRewards_size rt e)) (vaultsv1_QueryPendingRewardsByProviderResponse_PositionsRewards x)) +
     length (vaultsv1_QueryPendingRewardsByProviderResponse_unknownFields x)"

definition vaultsv1_QueryPendingRewardsByProviderResponse_put :: "wire_runtime \<Rightarrow> vaultsv1_QueryPendingRewardsByProviderResponse \<Rightarrow> buffer \<Rightarrow> buffer result" where
  "vaultsv1_QueryPendingRewardsByProviderResponse_put rt x b =
     obind (put (vaultsv1_QueryPendingRewardsByProviderResponse_unknownFields x) b) (\<lambda>b.
     obind (put_all (\<lambda>e b. obind (vaultsv1_PositionRewards_marshal rt e) (\<lambda>s. put_encoded rt 0x12 s b)) (vaultsv1_QueryPendingRewardsByProviderResponse_PositionsRewards x) b) (\<lambda>b.
     obind (put_delimited rt 0xA (vaultsv1_QueryPendingRewardsByProviderResponse_PendingRewards x) b) Ok))"

definition vaultsv1_QueryPendingRewardsByProviderResponse_marshal :: "wire_runtime \<Rightarrow> vaultsv1_QueryPendingRewardsByProviderResponse \<Rightarrow> bytes result" where
  "vaultsv1_QueryPendingRewardsByProviderResponse_marshal rt x =
     obind (vaultsv1_QueryPendingRewardsByProviderResponse_put rt x (vaultsv1_QueryPendingRewardsByProviderResponse_size rt x, [])) (\<lambda>b. Ok (buffer_bytes b))"

definition vaultsv1_QueryPendingRewardsByProviderResponse_field ::
    "wire_runtime \<Rightarrow> bool \<Rightarrow> int \<Rightarrow> int \<Rightarrow> vaultsv1_QueryPendingRewardsByProviderResponse \<Rightarrow> nat \<Rightarrow> bytes \<Rightarrow> (vaultsv1_QueryPendingRewardsByProviderResponse \<times> nat) result option" where
  "vaultsv1_QueryPendingRewardsByProviderResponse_field rt discardUnknown fieldNum wireType x i bs =
     (if fieldNum = 1 then Some (bytes_field wireType i (\<lambda>v. x\<lparr>vaultsv1_QueryPendingRewardsByProviderResponse_PendingRewards := v\<rparr>) bs)
      else if fieldNum = 2 then Some (custom_field wireType i (\<lambda>s. the (vaultsv1_PositionRewards_unmarshal rt discardUnknown s)) (\<lambda>v. x\<lparr>vaultsv1_QueryPendingRewardsByProviderResponse_PositionsRewards := vaultsv1_QueryPendingRewardsByProviderResponse_PositionsRewards x @ [v]\<rparr>) bs)
      else None)"

definition vaultsv1_QueryPendingRewardsByProviderResponse_empty :: vaultsv1_QueryPendingRewardsByProviderResponse where
  "vaultsv1_QueryPendingRewardsByProviderResponse_empty = \<lparr>vaultsv1_QueryPendingRewardsByProviderResponse_PendingRewards = [], vaultsv1_QueryPendingRewardsByProviderResponse_PositionsRewards = [], vaultsv1_QueryPendingRewardsByProviderResponse_unknownFields = []\<rparr>"

definition vaultsv1_QueryPendingRewardsByProviderResponse_unmarshal :: "wire_runtime \<Rightarrow> bool \<Rightarrow> bytes \<Rightarrow> vaultsv1_QueryPendingRewardsByProviderResponse result option" where
  "vaultsv1_QueryPendingRewardsByProviderResponse_unmarshal rt discardUnknown bs =
     read_fields (Skip rt) (vaultsv1_QueryPendingRewardsByProviderResponse_field rt discardUnknown)
       (\<lambda>u x. if discardUnknown then x else x\<lparr>vaultsv1_QueryPendingRewardsByProviderResponse_unknownFields := vaultsv1_QueryPendingRewardsByProviderResponse_unknownFields x @ u\<rparr>) vaultsv1_QueryPendingRewardsByProviderResponse_empty 0 bs"

definition vaultsv1_QueryPendingRewardsByProviderResponse_kept :: "vaultsv1_QueryPendingRewardsByProviderResponse \<Rightarrow> bool" where
  "vaultsv1_QueryPendingRewardsByProviderResponse_kept x \<longleftrightarrow>
     vaultsv1_QueryPendingRewardsByProviderResponse_unknownFields x = [] \<and>
     (\<forall>e\<in>set (vaultsv1_QueryPendingRewardsByProviderResponse_PositionsRewards x). vaultsv1_PositionRewards_unknownFields e = [])"

lemma vaultsv1_QueryPendingRewardsByProviderResponse_written:
  assumes "varint_runtime rt" "vaultsv1_QueryPendingRewardsByProviderResponse_kept x"
  shows "writes (vaultsv1_QueryPendingRewardsByProviderResponse_marshal rt x)
    (delimited_bytes rt 0xA (vaultsv1_QueryPendingRewardsByProviderResponse_PendingRewards x) @
      concat (map (\<lambda>e. message_bytes rt 0x12 (marshalled (vaultsv1_PositionRewards_marshal rt e))) (vaultsv1_QueryPendingRewardsByProviderResponse_PositionsRewards x)) @
      [])
    (vaultsv1_QueryPendingRewardsByProviderResponse_size rt x)" (is "writes _ ?bs _")
proof -
  note kept = assms(2) [unfolded vaultsv1_QueryPendingRewardsByProviderResponse_kept_def]
  have PositionsRewards: "vaultsv1_PositionRewards_marshal rt e = Ok (marshalled (vaultsv1_PositionRewards_marshal rt e))" "length (marshalled (vaultsv1_PositionRewards_marshal rt e)) = vaultsv1_PositionRewards_size rt e"
      if "e \<in> set (vaultsv1_QueryPendingRewardsByProviderResponse_PositionsRewards x)" for e
    by (rule writes_marshalled [OF vaultsv1_PositionRewards_written [OF assms(1)]], use kept that in simp)+
  have "fills (vaultsv1_QueryPendingRewardsByProviderResponse_put rt x) ?bs"
    unfolding vaultsv1_QueryPendingRewardsByProviderResponse_put_def
    by (rule fills_start, rule fills_step_nil, simp add: kept fills_put_nil,
      rule fills_step, rule fills_put_all, rule fills_marshal [OF assms(1)], erule PositionsRewards(1),
      rule fills_step, rule fills_scalars(2) [OF assms(1)],
      rule fills_end)
  moreover have "length ?bs = vaultsv1_QueryPendingRewardsByProviderResponse_size rt x"
    by (simp add: vaultsv1_QueryPendingRewardsByProviderResponse_size_def assms(1) kept PositionsRewards(2) length_concat comp_def cong: map_cong option.case_cong split: option.split)
  ultimately show ?thesis unfolding writes_def vaultsv1_QueryPendingRewardsByProviderResponse_marshal_def by (simp add: fills_buffer)
qed

lemma vaultsv1_QueryPendingRewardsByProviderResponse_read:
  assumes "varint_runtime rt" "vaultsv1_QueryPendingRewardsByProviderResponse_kept x"
    and "length (delimited_bytes rt 0xA (vaultsv1_QueryPendingRewardsByProviderResponse_PendingRewards x) @
      concat (map (\<lambda>e. message_bytes rt 0x12 (marshalled (vaultsv1_PositionRewards_marshal rt e))) (vaultsv1_QueryPendingRewardsByProviderResponse_PositionsRewards x)) @
      []) < 2 ^ 63" (is "length ?bs < _")
  shows "vaultsv1_QueryPendingRewardsByProviderResponse_unmarshal rt' discardUnknown ?bs = Some (Ok x)"
proof -
  note kept = assms(2) [unfolded vaultsv1_QueryPendingRewardsByProviderResponse_kept_def]
  have PositionsRewards: "the (vaultsv1_PositionRewards_unmarshal rt' discardUnknown (marshalled (vaultsv1_PositionRewards_marshal rt e))) = Ok e"
      if "e \<in> set (vaultsv1_QueryPendingRewardsByProviderResponse_PositionsRewards x)" "length (marshalled (vaultsv1_PositionRewards_marshal rt e)) < 2 ^ 63" for e
    by (rule exact_reads [OF vaultsv1_PositionRewards_exact [OF assms(1)] _ vaultsv1_PositionRewards_written [OF assms(1)] that(2)]; use kept that in simp)
  show ?thesis unfolding vaultsv1_QueryPendingRewardsByProviderResponse_unmarshal_def
    by (rule readsD [OF _ assms(3)],
      rule reads_bytes [OF assms(1)], rule wire_tags, simp add: vaultsv1_QueryPendingRewardsByProviderResponse_field_def, simp add: vaultsv1_QueryPendingRewardsByProviderResponse_empty_def,
      rule reads_messages [where get = vaultsv1_QueryPendingRewardsByProviderResponse_PositionsRewards and upd = vaultsv1_QueryPendingRewardsByProviderResponse_PositionsRewards_update and c = "\<lambda>e. e", OF assms(1)], rule wire_tags,
        simp, simp, simp, simp add: vaultsv1_QueryPendingRewardsByProviderResponse_field_def, erule (1) PositionsRewards,
      rule reads_done, simp add: vaultsv1_QueryPendingRewardsByProviderResponse_empty_def kept option.map_ident)
qed

lemma vaultsv1_QueryPendingRewardsByProviderResponse_exact:
  assumes "varint_runtime rt"
  shows "exact_codec (vaultsv1_QueryPendingRewardsByProviderResponse_size rt) (vaultsv1_QueryPendingRewardsByProviderResponse_marshal rt)
    (vaultsv1_QueryPendingRewardsByProviderResponse_unmarshal rt' discardUnknown) vaultsv1_QueryPendingRewardsByProviderResponse_kept"
  by (rule exact_codecI, rule vaultsv1_QueryPendingRewardsByProviderResponse_written [OF assms], assumption, rule vaultsv1_QueryPendingRewardsByProviderResponse_read [OF assms]; assumption)

lemma vaultsv1_QueryPendingRewardsByProviderResponse_returns:
  "skip_progress (Skip rt) \<Longrightarrow> \<exists>r. vaultsv1_QueryPendingRewardsByProviderResponse_unmarshal rt discardUnknown bs = Some r"
  unfolding vaultsv1_QueryPendingRewardsByProviderResponse_unmarshal_def by (rule read_fields_returns)

subsection \<open>QueryDestinationTokensResponse (portalv1)\<close>

text \<open>\<open>QueryDestinationTokensResponse\<close> of \<open>api/portal/v1/query.pulsar.go\<close>.\<close>

record portalv1_QueryDestinationTokensResponse =
  portalv1_QueryDestinationTokensResponse_DestinationTokens :: "bytes list"
  portalv1_QueryDestinationTokensResponse_unknownFields :: bytes

definition portalv1_QueryDestinationTokensResponse_size :: "wire_runtime \<Rightarrow> portalv1_QueryDestinationTokensResponse \<Rightarrow> nat" where
  "portalv1_QueryDestinationTokensResponse_size rt x =
     sum_list (map (\<lambda>e. size_message rt (length e)) (portalv1_QueryDestinationTokensResponse_DestinationTokens x)) +
     length (portalv1_QueryDestinationTokensResponse_unknownFields x)"

definition portalv1_QueryDestinationTokensResponse_put :: "wire_runtime \<Rightarrow> portalv1_QueryDestinationTokensResponse \<Rightarrow> buffer \<Rightarrow> buffer result" where
  "portalv1_QueryDestinationTokensResponse_put rt x b =
     obind (put (portalv1_QueryDestinationTokensResponse_unknownFields x) b) (\<lambda>b.
     obind (put_all (\<lambda>e. put_encoded rt 0x12 e) (portalv1_QueryDestinationTokensResponse_DestinationTokens x) b) Ok)"

definition portalv1_QueryDestinationTokensResponse_marshal :: "wire_runtime \<Rightarrow> portalv1_QueryDestinationTokensResponse \<Rightarrow> bytes result" where
  "portalv1_QueryDestinationTokensResponse_marshal rt x =
     obind (portalv1_QueryDestinationTokensResponse_put rt x (portalv1_QueryDestinationTokensResponse_size rt x, [])) (\<lambda>b. Ok (buffer_bytes b))"

definition portalv1_QueryDestinationTokensResponse_field ::
    "wire_runtime \<Rightarrow> bool \<Rightarrow> int \<Rightarrow> int \<Rightarrow> portalv1_QueryDestinationTokensResponse \<Rightarrow> nat \<Rightarrow> bytes \<Rightarrow> (portalv1_QueryDestinationTokensResponse \<times> nat) result option" where
  "portalv1_QueryDestinationTokensResponse_field rt discardUnknown fieldNum wireType x i bs =
     (if fieldNum = 2 then Some (bytes_field wireType i (\<lambda>v. x\<lparr>portalv1_QueryDestinationTokensResponse_DestinationTokens := portalv1_QueryDestinationTokensResponse_DestinationTokens x @ [v]\<rparr>) bs)
      else None)"

definition portalv1_QueryDestinationTokensResponse_empty :: portalv1_QueryDestinationTokensResponse where
  "portalv1_QueryDestinationTokensResponse_empty = \<lparr>portalv1_QueryDestinationTokensResponse_DestinationTokens = [], portalv1_QueryDestinationTokensResponse_unknownFields = []\<rparr>"

definition portalv1_QueryDestinationTokensResponse_unmarshal :: "wire_runtime \<Rightarrow> bool \<Rightarrow> bytes \<Rightarrow> portalv1_QueryDestinationTokensResponse result option" where
  "portalv1_QueryDestinationTokensResponse_unmarshal rt discardUnknown bs =
     read_fields (Skip rt) (portalv1_QueryDestinationTokensResponse_field rt discardUnknown)
       (\<lambda>u x. if discardUnknown then x else x\<lparr>portalv1_QueryDestinationTokensResponse_unknownFields := portalv1_QueryDestinationTokensResponse_unknownFields x @ u\<rparr>) portalv1_QueryDestinationTokensResponse_empty 0 bs"

definition portalv1_QueryDestinationTokensResponse_kept :: "portalv1_QueryDestinationTokensResponse \<Rightarrow> bool" where
  "portalv1_QueryDestinationTokensResponse_kept x \<longleftrightarrow>
     portalv1_QueryDestinationTokensResponse_unknownFields x = []"

lemma portalv1_QueryDestinationTokensResponse_written:
  assumes "varint_runtime rt" "portalv1_QueryDestinationTokensResponse_kept x"
  shows "writes (portalv1_QueryDestinationTokensResponse_marshal rt x)
    (concat (map (\<lambda>e. message_bytes rt 0x12 e) (portalv1_QueryDestinationTokensResponse_DestinationTokens x)) @
      [])
    (portalv1_QueryDestinationTokensResponse_size rt x)" (is "writes _ ?bs _")
proof -
  note kept = assms(2) [unfolded portalv1_QueryDestinationTokensResponse_kept_def]
  have "fills (portalv1_QueryDestinationTokensResponse_put rt x) ?bs"
    unfolding portalv1_QueryDestinationTokensResponse_put_def
    by (rule fills_start, rule fills_step_nil, simp add: kept fills_put_nil,
      rule fills_step, rule fills_put_all, rule fills_put_encoded [OF assms(1)],
      rule fills_end)
  moreover have "length ?bs = portalv1_QueryDestinationTokensResponse_size rt x"
    by (simp add: portalv1_QueryDestinationTokensResponse_size_def assms(1) kept  length_concat comp_def cong: map_cong option.case_cong split: option.split)
  ultimately show ?thesis unfolding writes_def portalv1_QueryDestinationTokensResponse_marshal_def by (simp add: fills_buffer)
qed

lemma portalv1_QueryDestinationTokensResponse_read:
  assumes "varint_runtime rt" "portalv1_QueryDestinationTokensResponse_kept x"
    and "length (concat (map (\<lambda>e. message_bytes rt 0x12 e) (portalv1_QueryDestinationTokensResponse_DestinationTokens x)) @
      []) < 2 ^ 63" (is "length ?bs < _")
  shows "portalv1_QueryDestinationTokensResponse_unmarshal rt' discardUnknown ?bs = Some (Ok x)"
proof -
  note kept = assms(2) [unfolded portalv1_QueryDestinationTokensResponse_kept_def]
  show ?thesis unfolding portalv1_QueryDestinationTokensResponse_unmarshal_def
    by (rule readsD [OF _ assms(3)],
      rule reads_messages [where get = portalv1_QueryDestinationTokensResponse_DestinationTokens and upd = portalv1_QueryDestinationTokensResponse_DestinationTokens_update and c = "\<lambda>e. e", OF assms(1)], rule wire_tags,
        simp, simp, simp, simp add: portalv1_QueryDestinationTokensResponse_field_def bytes_field_custom, rule refl,
      rule reads_done, simp add: portalv1_QueryDestinationTokensResponse_empty_def kept option.map_ident)
qed

lemma portalv1_QueryDestinationTokensResponse_exact:
  assumes "varint_runtime rt"
  shows "exact_codec (portalv1_QueryDestinationTokensResponse_size rt) (portalv1_QueryDestinationTokensResponse_marshal rt)
    (portalv1_QueryDestinationTokensResponse_unmarshal rt' discardUnknown) portalv1_QueryDestinationTokensResponse_kept"
  by (rule exact_codecI, rule portalv1_QueryDestinationTokensResponse_written [OF assms], assumption, rule portalv1_QueryDestinationTokensResponse_read [OF assms]; assumption)

lemma portalv1_QueryDestinationTokensResponse_returns:
  "skip_progress (Skip rt) \<Longrightarrow> \<exists>r. portalv1_QueryDestinationTokensResponse_unmarshal rt discardUnknown bs = Some r"
  unfolding portalv1_QueryDestinationTokensResponse_unmarshal_def by (rule read_fields_returns)

subsection \<open>QueryPeersResponse (portalv1)\<close>

text \<open>\<open>QueryPeersResponse\<close> of \<open>api/portal/v1/query.pulsar.go\<close>.\<close>

record portalv1_QueryPeersResponse =
  portalv1_QueryPeersResponse_Peers :: "(32 word, portalv1_Peer) cmap"
  portalv1_QueryPeersResponse_unknownFields :: bytes

definition portalv1_QueryPeersResponse_size :: "wire_runtime \<Rightarrow> portalv1_QueryPeersResponse \<Rightarrow> nat" where
  "portalv1_QueryPeersResponse_size rt x =
     sum_list (map (\<lambda>e. size_message rt (size_number rt (ucast (fst e)) + size_message rt (portalv1_Peer_size rt (snd e)))) (portalv1_QueryPeersResponse_Peers x)) +
     length (portalv1_QueryPeersResponse_unknownFields x)"

definition portalv1_QueryPeersResponse_put :: "wire_runtime \<Rightarrow> bool \<Rightarrow> range_order \<Rightarrow> portalv1_QueryPeersResponse \<Rightarrow> buffer \<Rightarrow> buffer result" where
  "portalv1_QueryPeersResponse_put rt deterministic order x b =
     obind (put (portalv1_QueryPeersResponse_unknownFields x) b) (\<lambda>b.
     obind (put_entries deterministic order 1 (\<lambda>e. put_message rt 0xA (\<lambda>b.
         obind (obind (portalv1_Peer_marshal rt (snd e)) (\<lambda>s. put_encoded rt 0x12 s b)) (put_number rt 0x8 (ucast (fst e))))) (portalv1_QueryPeersResponse_Peers x) b) Ok)"

definition portalv1_QueryPeersResponse_marshal :: "wire_runtime \<Rightarrow> bool \<Rightarrow> range_order \<Rightarrow> portalv1_QueryPeersResponse \<Rightarrow> bytes result" where
  "portalv1_QueryPeersResponse_marshal rt deterministic order x =
     obind (portalv1_QueryPeersResponse_put rt deterministic order x (portalv1_QueryPeersResponse_size rt x, [])) (\<lambda>b. Ok (buffer_bytes b))"

definition portalv1_QueryPeersResponse_field ::
    "wire_runtime \<Rightarrow> bool \<Rightarrow> int \<Rightarrow> int \<Rightarrow> portalv1_QueryPeersResponse \<Rightarrow> nat \<Rightarrow> bytes \<Rightarrow> (portalv1_QueryPeersResponse \<times> nat) result option" where
  "portalv1_QueryPeersResponse_field rt discardUnknown fieldNum wireType x i bs =
     (if fieldNum = 1 then Some (map_field (Skip rt) (entry_field key_number (value_message (\<lambda>s. the (portalv1_Peer_unmarshal rt discardUnknown s)))) (0, portalv1_Peer_empty) wireType i
        (\<lambda>kv. x\<lparr>portalv1_QueryPeersResponse_Peers := Map_Set (fst kv) (snd kv) (portalv1_QueryPeersResponse_Peers x)\<rparr>) bs)
      else None)"

definition portalv1_QueryPeersResponse_empty :: portalv1_QueryPeersResponse where
  "portalv1_QueryPeersResponse_empty = \<lparr>portalv1_QueryPeersResponse_Peers = [], portalv1_QueryPeersResponse_unknownFields = []\<rparr>"

definition portalv1_QueryPeersResponse_unmarshal :: "wire_runtime \<Rightarrow> bool \<Rightarrow> bytes \<Rightarrow> portalv1_QueryPeersResponse result option" where
  "portalv1_QueryPeersResponse_unmarshal rt discardUnknown bs =
     read_fields (Skip rt) (portalv1_QueryPeersResponse_field rt discardUnknown)
       (\<lambda>u x. if discardUnknown then x else x\<lparr>portalv1_QueryPeersResponse_unknownFields := portalv1_QueryPeersResponse_unknownFields x @ u\<rparr>) portalv1_QueryPeersResponse_empty 0 bs"

definition portalv1_QueryPeersResponse_kept :: "portalv1_QueryPeersResponse \<Rightarrow> bool" where
  "portalv1_QueryPeersResponse_kept x \<longleftrightarrow>
     portalv1_QueryPeersResponse_unknownFields x = [] \<and>
     map_ok (portalv1_QueryPeersResponse_Peers x) \<and>
     (\<forall>e\<in>set (portalv1_QueryPeersResponse_Peers x). pv1_unknownFields (snd e) = [])"

lemma portalv1_QueryPeersResponse_written:
  assumes "varint_runtime rt" "map_range order" "portalv1_QueryPeersResponse_kept x"
  shows "writes (portalv1_QueryPeersResponse_marshal rt deterministic order x)
    (concat (map (\<lambda>e. message_bytes rt 0xA (number_bytes rt 0x8 (ucast (fst e)) @ message_bytes rt 0x12 (marshalled (portalv1_Peer_marshal rt (snd e)))))
      (entries_order deterministic order 1 (portalv1_QueryPeersResponse_Peers x))) @
      [])
    (portalv1_QueryPeersResponse_size rt x)" (is "writes _ ?bs _")
proof -
  note kept = assms(3) [unfolded portalv1_QueryPeersResponse_kept_def]
  have Peers: "portalv1_Peer_marshal rt (snd e) = Ok (marshalled (portalv1_Peer_marshal rt (snd e)))" "length (marshalled (portalv1_Peer_marshal rt (snd e))) = portalv1_Peer_size rt (snd e)"
      if "e \<in> set (portalv1_QueryPeersResponse_Peers x)" for e
    by (rule writes_marshalled [OF portalv1_Peer_written [OF assms(1)]], use kept that in simp)+
  have "fills (portalv1_QueryPeersResponse_put rt deterministic order x) ?bs"
    unfolding portalv1_QueryPeersResponse_put_def
    by (rule fills_start, rule fills_step_nil, simp add: kept fills_put_nil,
      rule fills_step, rule fills_put_entries [OF assms(2)], rule fills_put_message [OF assms(1)], rule fills_seq, rule fills_marshal [OF assms(1)], erule Peers(1), rule fills_put_number [OF assms(1)],
      rule fills_end)
  moreover have "length ?bs = portalv1_QueryPeersResponse_size rt x"
    by (simp add: portalv1_QueryPeersResponse_size_def assms(1) kept Peers(2) length_concat comp_def sum_entries [OF assms(2)] cong: map_cong option.case_cong split: option.split)
  ultimately show ?thesis unfolding writes_def portalv1_QueryPeersResponse_marshal_def by (simp add: fills_buffer)
qed

lemma portalv1_QueryPeersResponse_read:
  assumes "varint_runtime rt" "map_range order" "portalv1_QueryPeersResponse_kept x"
    and "length (concat (map (\<lambda>e. message_bytes rt 0xA (number_bytes rt 0x8 (ucast (fst e)) @ message_bytes rt 0x12 (marshalled (portalv1_Peer_marshal rt (snd e)))))
      (entries_order deterministic order 1 (portalv1_QueryPeersResponse_Peers x))) @
      []) < 2 ^ 63" (is "length ?bs < _")
  shows "portalv1_QueryPeersResponse_unmarshal rt' discardUnknown ?bs = Some (Ok x)"
proof -
  note kept = assms(3) [unfolded portalv1_QueryPeersResponse_kept_def]
  have Peers: "the (portalv1_Peer_unmarshal rt' discardUnknown (marshalled (portalv1_Peer_marshal rt (snd e)))) = Ok (snd e)"
      if "e \<in> set (entries_order deterministic order 1 (portalv1_QueryPeersResponse_Peers x))" "length (marshalled (portalv1_Peer_marshal rt (snd e))) < 2 ^ 63" for e
    by (rule exact_reads [OF portalv1_Peer_exact [OF assms(1)] _ portalv1_Peer_written [OF assms(1)] that(2)]; use kept that in \<open>simp add: set_entries [OF assms(2)]\<close>)
  have Peers_map: "map_ok (portalv1_QueryPeersResponse_Peers x)" using kept by simp
  show ?thesis unfolding portalv1_QueryPeersResponse_unmarshal_def
    by (rule readsD [OF _ assms(4)],
      rule reads_entries [where get = portalv1_QueryPeersResponse_Peers and upd = portalv1_QueryPeersResponse_Peers_update and kc = "\<lambda>k. k" and kr = "\<lambda>e. (ucast (ucast (fst e) :: 64 word), snd e)", OF assms(1)], rule wire_tags,
        simp, simp, simp, simp add: portalv1_QueryPeersResponse_field_def, rule entry_reads_number [OF assms(1)], simp, rule entry_reads_value [OF assms(1)], erule (1) Peers,
        simp add: portalv1_QueryPeersResponse_empty_def fold_ordered_same [OF Peers_map assms(2)],
      rule reads_done, simp add: portalv1_QueryPeersResponse_empty_def kept option.map_ident)
qed

lemma portalv1_QueryPeersResponse_exact:
  assumes "varint_runtime rt" "map_range order"
  shows "exact_codec (portalv1_QueryPeersResponse_size rt) (portalv1_QueryPeersResponse_marshal rt deterministic order)
    (portalv1_QueryPeersResponse_unmarshal rt' discardUnknown) portalv1_QueryPeersResponse_kept"
  by (rule exact_codecI, rule portalv1_QueryPeersResponse_written [OF assms], assumption, rule portalv1_QueryPeersResponse_read [OF assms]; assumption)

lemma portalv1_QueryPeersResponse_returns:
  "skip_progress (Skip rt) \<Longrightarrow> \<exists>r. portalv1_QueryPeersResponse_unmarshal rt discardUnknown bs = Some r"
  unfolding portalv1_QueryPeersResponse_unmarshal_def by (rule read_fields_returns)

subsection \<open>QueryStatsResponse (dollarv2)\<close>

text \<open>\<open>QueryStatsResponse\<close> of \<open>api/v2/query.pulsar.go\<close>.\<close>

record dollarv2_QueryStatsResponse =
  dollarv2_QueryStatsResponse_TotalHolders :: "64 word"
  dollarv2_QueryStatsResponse_TotalPrincipal :: bytes
  dollarv2_QueryStatsResponse_TotalYieldAccrued :: bytes
  dollarv2_QueryStatsResponse_TotalExternalYield :: "(bytes, dollarv2_QueryStatsResponse_ExternalYield) cmap"
  dollarv2_QueryStatsResponse_unknownFields :: bytes

definition dollarv2_QueryStatsResponse_size :: "wire_runtime \<Rightarrow> dollarv2_QueryStatsResponse \<Rightarrow> nat" where
  "dollarv2_QueryStatsResponse_size rt x =
     size_varint rt (dollarv2_QueryStatsResponse_TotalHolders x) +
     size_delimited rt (dollarv2_QueryStatsResponse_TotalPrincipal x) +
     size_delimited rt (dollarv2_QueryStatsResponse_TotalYieldAccrued x) +
     sum_list (map (\<lambda>e. size_message rt (size_message rt (length (fst e)) + size_message rt (dollarv2_QueryStatsResponse_ExternalYield_size rt (snd e)))) (dollarv2_QueryStatsResponse_TotalExternalYield x)) +
     length (dollarv2_QueryStatsResponse_unknownFields x)"

definition dollarv2_QueryStatsResponse_put :: "wire_runtime \<Rightarrow> bool \<Rightarrow> range_order \<Rightarrow> dollarv2_QueryStatsResponse \<Rightarrow> buffer \<Rightarrow> buffer result" where
  "dollarv2_QueryStatsResponse_put rt deterministic order x b =
     obind (put (dollarv2_QueryStatsResponse_unknownFields x) b) (\<lambda>b.
     obind (put_entries deterministic order 4 (\<lambda>e. put_message rt 0x22 (\<lambda>b.
         obind (obind (dollarv2_QueryStatsResponse_ExternalYield_marshal rt (snd e)) (\<lambda>s. put_encoded rt 0x12 s b)) (put_encoded rt 0xA (fst e)))) (dollarv2_QueryStatsResponse_TotalExternalYield x) b) (\<lambda>b.
     obind (put_delimited rt 0x1A (dollarv2_QueryStatsResponse_TotalYieldAccrued x) b) (\<lambda>b.
     obind (put_delimited rt 0x12 (dollarv2_QueryStatsResponse_TotalPrincipal x) b) (\<lambda>b.
     obind (put_varint rt 0x8 (dollarv2_QueryStatsResponse_TotalHolders x) b) Ok))))"

definition dollarv2_QueryStatsResponse_marshal :: "wire_runtime \<Rightarrow> bool \<Rightarrow> range_order \<Rightarrow> dollarv2_QueryStatsResponse \<Rightarrow> bytes result" where
  "dollarv2_QueryStatsResponse_marshal rt deterministic order x =
     obind (dollarv2_QueryStatsResponse_put rt deterministic order x (dollarv2_QueryStatsResponse_size rt x, [])) (\<lambda>b. Ok (buffer_bytes b))"

definition dollarv2_QueryStatsResponse_field ::
    "wire_runtime \<Rightarrow> bool \<Rightarrow> int \<Rightarrow> int \<Rightarrow> dollarv2_QueryStatsResponse \<Rightarrow> nat \<Rightarrow> bytes \<Rightarrow> (dollarv2_QueryStatsResponse \<times> nat) result option" where
  "dollarv2_QueryStatsResponse_field rt discardUnknown fieldNum wireType x i bs =
     (if fieldNum = 1 then Some (varint_field wireType (\<lambda>v. x\<lparr>dollarv2_QueryStatsResponse_TotalHolders := v\<rparr>) bs)
      else if fieldNum = 2 then Some (bytes_field wireType i (\<lambda>v. x\<lparr>dollarv2_QueryStatsResponse_TotalPrincipal := v\<rparr>) bs)
      else if fieldNum = 3 then Some (bytes_field wireType i (\<lambda>v. x\<lparr>dollarv2_QueryStatsResponse_TotalYieldAccrued := v\<rparr>) bs)
      else if fieldNum = 4 then Some (map_field (Skip rt) (entry_field key_text (value_message (\<lambda>s. the (dollarv2_QueryStatsResponse_ExternalYield_unmarshal rt discardUnknown s)))) ([], dollarv2_QueryStatsResponse_ExternalYield_empty) wireType i
        (\<lambda>kv. x\<lparr>dollarv2_QueryStatsResponse_TotalExternalYield := Map_Set (fst kv) (snd kv) (dollarv2_QueryStatsResponse_TotalExternalYield x)\<rparr>) bs)
      else None)"

definition dollarv2_QueryStatsResponse_empty :: dollarv2_QueryStatsResponse where
  "dollarv2_QueryStatsResponse_empty = \<lparr>dollarv2_QueryStatsResponse_TotalHolders = 0, dollarv2_QueryStatsResponse_TotalPrincipal = [], dollarv2_QueryStatsResponse_TotalYieldAccrued = [], dollarv2_QueryStatsResponse_TotalExternalYield = [], dollarv2_QueryStatsResponse_unknownFields = []\<rparr>"

definition dollarv2_QueryStatsResponse_unmarshal :: "wire_runtime \<Rightarrow> bool \<Rightarrow> bytes \<Rightarrow> dollarv2_QueryStatsResponse result option" where
  "dollarv2_QueryStatsResponse_unmarshal rt discardUnknown bs =
     read_fields (Skip rt) (dollarv2_QueryStatsResponse_field rt discardUnknown)
       (\<lambda>u x. if discardUnknown then x else x\<lparr>dollarv2_QueryStatsResponse_unknownFields := dollarv2_QueryStatsResponse_unknownFields x @ u\<rparr>) dollarv2_QueryStatsResponse_empty 0 bs"

definition dollarv2_QueryStatsResponse_kept :: "dollarv2_QueryStatsResponse \<Rightarrow> bool" where
  "dollarv2_QueryStatsResponse_kept x \<longleftrightarrow>
     dollarv2_QueryStatsResponse_unknownFields x = [] \<and>
     map_ok (dollarv2_QueryStatsResponse_TotalExternalYield x) \<and>
     (\<forall>e\<in>set (dollarv2_QueryStatsResponse_TotalExternalYield x). dollarv2_QueryStatsResponse_ExternalYield_unknownFields (snd e) = [])"

lemma dollarv2_QueryStatsResponse_written:
  assumes "varint_runtime rt" "map_range order" "dollarv2_QueryStatsResponse_kept x"
  shows "writes (dollarv2_QueryStatsResponse_marshal rt deterministic order x)
    (varint_bytes rt 0x8 (dollarv2_QueryStatsResponse_TotalHolders x) @
      delimited_bytes rt 0x12 (dollarv2_QueryStatsResponse_TotalPrincipal x) @
      delimited_bytes rt 0x1A (dollarv2_QueryStatsResponse_TotalYieldAccrued x) @
      concat (map (\<lambda>e. message_bytes rt 0x22 (message_bytes rt 0xA (fst e) @ message_bytes rt 0x12 (marshalled (dollarv2_QueryStatsResponse_ExternalYield_marshal rt (snd e)))))
      (entries_order deterministic order 4 (dollarv2_QueryStatsResponse_TotalExternalYield x))) @
      [])
    (dollarv2_QueryStatsResponse_size rt x)" (is "writes _ ?bs _")
proof -
  note kept = assms(3) [unfolded dollarv2_QueryStatsResponse_kept_def]
  have TotalExternalYield: "dollarv2_QueryStatsResponse_ExternalYield_marshal rt (snd e) = Ok (marshalled (dollarv2_QueryStatsResponse_ExternalYield_marshal rt (snd e)))" "length (marshalled (dollarv2_QueryStatsResponse_ExternalYield_marshal rt (snd e))) = dollarv2_QueryStatsResponse_ExternalYield_size rt (snd e)"
      if "e \<in> set (dollarv2_QueryStatsResponse_TotalExternalYield x)" for e
    by (rule writes_marshalled [OF dollarv2_QueryStatsResponse_ExternalYield_written [OF assms(1)]], use kept that in simp)+
  have "fills (dollarv2_QueryStatsResponse_put rt deterministic order x) ?bs"
    unfolding dollarv2_QueryStatsResponse_put_def
    by (rule fills_start, rule fills_step_nil, simp add: kept fills_put_nil,
      rule fills_step, rule fills_put_entries [OF assms(2)], rule fills_put_message [OF assms(1)], rule fills_seq, rule fills_marshal [OF assms(1)], erule TotalExternalYield(1), rule fills_put_encoded [OF assms(1)],
      rule fills_step, rule fills_scalars(2) [OF assms(1)],
      rule fills_step, rule fills_scalars(2) [OF assms(1)],
      rule fills_step, rule fills_scalars(1) [OF assms(1)],
      rule fills_end)
  moreover have "length ?bs = dollarv2_QueryStatsResponse_size rt x"
    by (simp add: dollarv2_QueryStatsResponse_size_def assms(1) kept TotalExternalYield(2) length_concat comp_def sum_entries [OF assms(2)] cong: map_cong option.case_cong split: option.split)
  ultimately show ?thesis unfolding writes_def dollarv2_QueryStatsResponse_marshal_def by (simp add: fills_buffer)
qed

lemma dollarv2_QueryStatsResponse_read:
  assumes "varint_runtime rt" "map_range order" "dollarv2_QueryStatsResponse_kept x"
    and "length (varint_bytes rt 0x8 (dollarv2_QueryStatsResponse_TotalHolders x) @
      delimited_bytes rt 0x12 (dollarv2_QueryStatsResponse_TotalPrincipal x) @
      delimited_bytes rt 0x1A (dollarv2_QueryStatsResponse_TotalYieldAccrued x) @
      concat (map (\<lambda>e. message_bytes rt 0x22 (message_bytes rt 0xA (fst e) @ message_bytes rt 0x12 (marshalled (dollarv2_QueryStatsResponse_ExternalYield_marshal rt (snd e)))))
      (entries_order deterministic order 4 (dollarv2_QueryStatsResponse_TotalExternalYield x))) @
      []) < 2 ^ 63" (is "length ?bs < _")
  shows "dollarv2_QueryStatsResponse_unmarshal rt' discardUnknown ?bs = Some (Ok x)"
proof -
  note kept = assms(3) [unfolded dollarv2_QueryStatsResponse_kept_def]
  have TotalExternalYield: "the (dollarv2_QueryStatsResponse_ExternalYield_unmarshal rt' discardUnknown (marshalled (dollarv2_QueryStatsResponse_ExternalYield_marshal rt (snd e)))) = Ok (snd e)"
      if "e \<in> set (entries_order deterministic order 4 (dollarv2_QueryStatsResponse_TotalExternalYield x))" "length (marshalled (dollarv2_QueryStatsResponse_ExternalYield_marshal rt (snd e))) < 2 ^ 63" for e
    by (rule exact_reads [OF dollarv2_QueryStatsResponse_ExternalYield_exact [OF assms(1)] _ dollarv2_QueryStatsResponse_ExternalYield_written [OF assms(1)] that(2)]; use kept that in \<open>simp add: set_entries [OF assms(2)]\<close>)
  have TotalExternalYield_map: "map_ok (dollarv2_QueryStatsResponse_TotalExternalYield x)" using kept by simp
  show ?thesis unfolding dollarv2_QueryStatsResponse_unmarshal_def
    by (rule readsD [OF _ assms(4)],
      rule reads_varint [OF assms(1)], rule wire_tags, simp add: dollarv2_QueryStatsResponse_field_def, simp add: dollarv2_QueryStatsResponse_empty_def,
      rule reads_bytes [OF assms(1)], rule wire_tags, simp add: dollarv2_QueryStatsResponse_field_def, simp add: dollarv2_QueryStatsResponse_empty_def,
      rule reads_bytes [OF assms(1)], rule wire_tags, simp add: dollarv2_QueryStatsResponse_field_def, simp add: dollarv2_QueryStatsResponse_empty_def,
      rule reads_entries [where get = dollarv2_QueryStatsResponse_TotalExternalYield and upd = dollarv2_QueryStatsResponse_TotalExternalYield_update and kc = "\<lambda>k. k" and kr = "\<lambda>e. (fst e, snd e)", OF assms(1)], rule wire_tags,
        simp, simp, simp, simp add: dollarv2_QueryStatsResponse_field_def, rule entry_reads_text [OF assms(1)], rule entry_reads_value [OF assms(1)], erule (1) TotalExternalYield,
        simp add: dollarv2_QueryStatsResponse_empty_def fold_ordered_same [OF TotalExternalYield_map assms(2)],
      rule reads_done, simp add: dollarv2_QueryStatsResponse_empty_def kept option.map_ident)
qed

lemma dollarv2_QueryStatsResponse_exact:
  assumes "varint_runtime rt" "map_range order"
  shows "exact_codec (dollarv2_QueryStatsResponse_size rt) (dollarv2_QueryStatsResponse_marshal rt deterministic order)
    (dollarv2_QueryStatsResponse_unmarshal rt' discardUnknown) dollarv2_QueryStatsResponse_kept"
  by (rule exact_codecI, rule dollarv2_QueryStatsResponse_written [OF assms], assumption, rule dollarv2_QueryStatsResponse_read [OF assms]; assumption)

lemma dollarv2_QueryStatsResponse_returns:
  "skip_progress (Skip rt) \<Longrightarrow> \<exists>r. dollarv2_QueryStatsResponse_unmarshal rt discardUnknown bs = Some r"
  unfolding dollarv2_QueryStatsResponse_unmarshal_def by (rule read_fields_returns)

subsection \<open>QueryYieldRecipientsResponse (dollarv2)\<close>

text \<open>\<open>QueryYieldRecipientsResponse\<close> of \<open>api/v2/query.pulsar.go\<close>.\<close>

record dollarv2_QueryYieldRecipientsResponse =
  dollarv2_QueryYieldRecipientsResponse_YieldRecipients :: "(bytes, bytes) cmap"
  dollarv2_QueryYieldRecipientsResponse_unknownFields :: bytes

definition dollarv2_QueryYieldRecipientsResponse_size :: "wire_runtime \<Rightarrow> dollarv2_QueryYieldRecipientsResponse \<Rightarrow> nat" where
  "dollarv2_QueryYieldRecipientsResponse_size rt x =
     sum_list (map (\<lambda>e. size_message rt (size_message rt (length (fst e)) + size_message rt (length (snd e)))) (dollarv2_QueryYieldRecipientsResponse_YieldRecipients x)) +
     length (dollarv2_QueryYieldRecipientsResponse_unknownFields x)"

definition dollarv2_QueryYieldRecipientsResponse_put :: "wire_runtime \<Rightarrow> bool \<Rightarrow> range_order \<Rightarrow> dollarv2_QueryYieldRecipientsResponse \<Rightarrow> buffer \<Rightarrow> buffer result" where
  "dollarv2_QueryYieldRecipientsResponse_put rt deterministic order x b =
     obind (put (dollarv2_QueryYieldRecipientsResponse_unknownFields x) b) (\<lambda>b.
     obind (put_entries deterministic order 1 (\<lambda>e. put_message rt 0xA (\<lambda>b.
         obind (put_encoded rt 0x12 (snd e) b) (put_encoded rt 0xA (fst e)))) (dollarv2_QueryYieldRecipientsResponse_YieldRecipients x) b) Ok)"

definition dollarv2_QueryYieldRecipientsResponse_marshal :: "wire_runtime \<Rightarrow> bool \<Rightarrow> range_order \<Rightarrow> dollarv2_QueryYieldRecipientsResponse \<Rightarrow> bytes result" where
  "dollarv2_QueryYieldRecipientsResponse_marshal rt deterministic order x =
     obind (dollarv2_QueryYieldRecipientsResponse_put rt deterministic order x (dollarv2_QueryYieldRecipientsResponse_size rt x, [])) (\<lambda>b. Ok (buffer_bytes b))"

definition dollarv2_QueryYieldRecipientsResponse_field ::
    "wire_runtime \<Rightarrow> bool \<Rightarrow> int \<Rightarrow> int \<Rightarrow> dollarv2_QueryYieldRecipientsResponse \<Rightarrow> nat \<Rightarrow> bytes \<Rightarrow> (dollarv2_QueryYieldRecipientsResponse \<times> nat) result option" where
  "dollarv2_QueryYieldRecipientsResponse_field rt discardUnknown fieldNum wireType x i bs =
     (if fieldNum = 1 then Some (map_field (Skip rt) (entry_field key_text (value_message Ok)) ([], []) wireType i
        (\<lambda>kv. x\<lparr>dollarv2_QueryYieldRecipientsResponse_YieldRecipients := Map_Set (fst kv) (snd kv) (dollarv2_QueryYieldRecipientsResponse_YieldRecipients x)\<rparr>) bs)
      else None)"

definition dollarv2_QueryYieldRecipientsResponse_empty :: dollarv2_QueryYieldRecipientsResponse where
  "dollarv2_QueryYieldRecipientsResponse_empty = \<lparr>dollarv2_QueryYieldRecipientsResponse_YieldRecipients = [], dollarv2_QueryYieldRecipientsResponse_unknownFields = []\<rparr>"

definition dollarv2_QueryYieldRecipientsResponse_unmarshal :: "wire_runtime \<Rightarrow> bool \<Rightarrow> bytes \<Rightarrow> dollarv2_QueryYieldRecipientsResponse result option" where
  "dollarv2_QueryYieldRecipientsResponse_unmarshal rt discardUnknown bs =
     read_fields (Skip rt) (dollarv2_QueryYieldRecipientsResponse_field rt discardUnknown)
       (\<lambda>u x. if discardUnknown then x else x\<lparr>dollarv2_QueryYieldRecipientsResponse_unknownFields := dollarv2_QueryYieldRecipientsResponse_unknownFields x @ u\<rparr>) dollarv2_QueryYieldRecipientsResponse_empty 0 bs"

definition dollarv2_QueryYieldRecipientsResponse_kept :: "dollarv2_QueryYieldRecipientsResponse \<Rightarrow> bool" where
  "dollarv2_QueryYieldRecipientsResponse_kept x \<longleftrightarrow>
     dollarv2_QueryYieldRecipientsResponse_unknownFields x = [] \<and>
     map_ok (dollarv2_QueryYieldRecipientsResponse_YieldRecipients x)"

lemma dollarv2_QueryYieldRecipientsResponse_written:
  assumes "varint_runtime rt" "map_range order" "dollarv2_QueryYieldRecipientsResponse_kept x"
  shows "writes (dollarv2_QueryYieldRecipientsResponse_marshal rt deterministic order x)
    (concat (map (\<lambda>e. message_bytes rt 0xA (message_bytes rt 0xA (fst e) @ message_bytes rt 0x12 (snd e)))
      (entries_order deterministic order 1 (dollarv2_QueryYieldRecipientsResponse_YieldRecipients x))) @
      [])
    (dollarv2_QueryYieldRecipientsResponse_size rt x)" (is "writes _ ?bs _")
proof -
  note kept = assms(3) [unfolded dollarv2_QueryYieldRecipientsResponse_kept_def]
  have "fills (dollarv2_QueryYieldRecipientsResponse_put rt deterministic order x) ?bs"
    unfolding dollarv2_QueryYieldRecipientsResponse_put_def
    by (rule fills_start, rule fills_step_nil, simp add: kept fills_put_nil,
      rule fills_step, rule fills_put_entries [OF assms(2)], rule fills_put_message [OF assms(1)], rule fills_seq, rule fills_put_encoded [OF assms(1)], rule fills_put_encoded [OF assms(1)],
      rule fills_end)
  moreover have "length ?bs = dollarv2_QueryYieldRecipientsResponse_size rt x"
    by (simp add: dollarv2_QueryYieldRecipientsResponse_size_def assms(1) kept  length_concat comp_def sum_entries [OF assms(2)] cong: map_cong option.case_cong split: option.split)
  ultimately show ?thesis unfolding writes_def dollarv2_QueryYieldRecipientsResponse_marshal_def by (simp add: fills_buffer)
qed

lemma dollarv2_QueryYieldRecipientsResponse_read:
  assumes "varint_runtime rt" "map_range order" "dollarv2_QueryYieldRecipientsResponse_kept x"
    and "length (concat (map (\<lambda>e. message_bytes rt 0xA (message_bytes rt 0xA (fst e) @ message_bytes rt 0x12 (snd e)))
      (entries_order deterministic order 1 (dollarv2_QueryYieldRecipientsResponse_YieldRecipients x))) @
      []) < 2 ^ 63" (is "length ?bs < _")
  shows "dollarv2_QueryYieldRecipientsResponse_unmarshal rt' discardUnknown ?bs = Some (Ok x)"
proof -
  note kept = assms(3) [unfolded dollarv2_QueryYieldRecipientsResponse_kept_def]
  have YieldRecipients_map: "map_ok (dollarv2_QueryYieldRecipientsResponse_YieldRecipients x)" using kept by simp
  show ?thesis unfolding dollarv2_QueryYieldRecipientsResponse_unmarshal_def
    by (rule readsD [OF _ assms(4)],
      rule reads_entries [where get = dollarv2_QueryYieldRecipientsResponse_YieldRecipients and upd = dollarv2_QueryYieldRecipientsResponse_YieldRecipients_update and kc = "\<lambda>k. k" and kr = "\<lambda>e. (fst e, snd e)", OF assms(1)], rule wire_tags,
        simp, simp, simp, simp add: dollarv2_QueryYieldRecipientsResponse_field_def, rule entry_reads_text [OF assms(1)], rule entry_reads_value [OF assms(1)], rule refl,
        simp add: dollarv2_QueryYieldRecipientsResponse_empty_def fold_ordered_same [OF YieldRecipients_map assms(2)],
      rule reads_done, simp add: dollarv2_QueryYieldRecipientsResponse_empty_def kept option.map_ident)
qed

lemma dollarv2_QueryYieldRecipientsResponse_exact:
  assumes "varint_runtime rt" "map_range order"
  shows "exact_codec (dollarv2_QueryYieldRecipientsResponse_size rt) (dollarv2_QueryYieldRecipientsResponse_marshal rt deterministic order)
    (dollarv2_QueryYieldRecipientsResponse_unmarshal rt' discardUnknown) dollarv2_QueryYieldRecipientsResponse_kept"
  by (rule exact_codecI, rule dollarv2_QueryYieldRecipientsResponse_written [OF assms], assumption, rule dollarv2_QueryYieldRecipientsResponse_read [OF assms]; assumption)

lemma dollarv2_QueryYieldRecipientsResponse_returns:
  "skip_progress (Skip rt) \<Longrightarrow> \<exists>r. dollarv2_QueryYieldRecipientsResponse_unmarshal rt discardUnknown bs = Some r"
  unfolding dollarv2_QueryYieldRecipientsResponse_unmarshal_def by (rule read_fields_returns)

subsection \<open>QueryRetryAmountsResponse (dollarv2)\<close>

text \<open>\<open>QueryRetryAmountsResponse\<close> of \<open>api/v2/query.pulsar.go\<close>.\<close>

record dollarv2_QueryRetryAmountsResponse =
  dollarv2_QueryRetryAmountsResponse_RetryAmounts :: "(bytes, bytes) cmap"
  dollarv2_QueryRetryAmountsResponse_unknownFields :: bytes

definition dollarv2_QueryRetryAmountsResponse_size :: "wire_runtime \<Rightarrow> dollarv2_QueryRetryAmountsResponse \<Rightarrow> nat" where
  "dollarv2_QueryRetryAmountsResponse_size rt x =
     sum_list (map (\<lambda>e. size_message rt (size_message rt (length (fst e)) + size_message rt (length (snd e)))) (dollarv2_QueryRetryAmountsResponse_RetryAmounts x)) +
     length (dollarv2_QueryRetryAmountsResponse_unknownFields x)"

definition dollarv2_QueryRetryAmountsResponse_put :: "wire_runtime \<Rightarrow> bool \<Rightarrow> range_order \<Rightarrow> dollarv2_QueryRetryAmountsResponse \<Rightarrow> buffer \<Rightarrow> buffer result" where
  "dollarv2_QueryRetryAmountsResponse_put rt deterministic order x b =
     obind (put (dollarv2_QueryRetryAmountsResponse_unknownFields x) b) (\<lambda>b.
     obind (put_entries deterministic order 1 (\<lambda>e. put_message rt 0xA (\<lambda>b.
         obind (put_encoded rt 0x12 (snd e) b) (put_encoded rt 0xA (fst e)))) (dollarv2_QueryRetryAmountsResponse_RetryAmounts x) b) Ok)"

definition dollarv2_QueryRetryAmountsResponse_marshal :: "wire_runtime \<Rightarrow> bool \<Rightarrow> range_order \<Rightarrow> dollarv2_QueryRetryAmountsResponse \<Rightarrow> bytes result" where
  "dollarv2_QueryRetryAmountsResponse_marshal rt deterministic order x =
     obind (dollarv2_QueryRetryAmountsResponse_put rt deterministic order x (dollarv2_QueryRetryAmountsResponse_size rt x, [])) (\<lambda>b. Ok (buffer_bytes b))"

definition dollarv2_QueryRetryAmountsResponse_field ::
    "wire_runtime \<Rightarrow> bool \<Rightarrow> int \<Rightarrow> int \<Rightarrow> dollarv2_QueryRetryAmountsResponse \<Rightarrow> nat \<Rightarrow> bytes \<Rightarrow> (dollarv2_QueryRetryAmountsResponse \<times> nat) result option" where
  "dollarv2_QueryRetryAmountsResponse_field rt discardUnknown fieldNum wireType x i bs =
     (if fieldNum = 1 then Some (map_field (Skip rt) (entry_field key_text (value_message Ok)) ([], []) wireType i
        (\<lambda>kv. x\<lparr>dollarv2_QueryRetryAmountsResponse_RetryAmounts := Map_Set (fst kv) (snd kv) (dollarv2_QueryRetryAmountsResponse_RetryAmounts x)\<rparr>) bs)
      else None)"

definition dollarv2_QueryRetryAmountsResponse_empty :: dollarv2_QueryRetryAmountsResponse where
  "dollarv2_QueryRetryAmountsResponse_empty = \<lparr>dollarv2_QueryRetryAmountsResponse_RetryAmounts = [], dollarv2_QueryRetryAmountsResponse_unknownFields = []\<rparr>"

definition dollarv2_QueryRetryAmountsResponse_unmarshal :: "wire_runtime \<Rightarrow> bool \<Rightarrow> bytes \<Rightarrow> dollarv2_QueryRetryAmountsResponse result option" where
  "dollarv2_QueryRetryAmountsResponse_unmarshal rt discardUnknown bs =
     read_fields (Skip rt) (dollarv2_QueryRetryAmountsResponse_field rt discardUnknown)
       (\<lambda>u x. if discardUnknown then x else x\<lparr>dollarv2_QueryRetryAmountsResponse_unknownFields := dollarv2_QueryRetryAmountsResponse_unknownFields x @ u\<rparr>) dollarv2_QueryRetryAmountsResponse_empty 0 bs"

definition dollarv2_QueryRetryAmountsResponse_kept :: "dollarv2_QueryRetryAmountsResponse \<Rightarrow> bool" where
  "dollarv2_QueryRetryAmountsResponse_kept x \<longleftrightarrow>
     dollarv2_QueryRetryAmountsResponse_unknownFields x = [] \<and>
     map_ok (dollarv2_QueryRetryAmountsResponse_RetryAmounts x)"

lemma dollarv2_QueryRetryAmountsResponse_written:
  assumes "varint_runtime rt" "map_range order" "dollarv2_QueryRetryAmountsResponse_kept x"
  shows "writes (dollarv2_QueryRetryAmountsResponse_marshal rt deterministic order x)
    (concat (map (\<lambda>e. message_bytes rt 0xA (message_bytes rt 0xA (fst e) @ message_bytes rt 0x12 (snd e)))
      (entries_order deterministic order 1 (dollarv2_QueryRetryAmountsResponse_RetryAmounts x))) @
      [])
    (dollarv2_QueryRetryAmountsResponse_size rt x)" (is "writes _ ?bs _")
proof -
  note kept = assms(3) [unfolded dollarv2_QueryRetryAmountsResponse_kept_def]
  have "fills (dollarv2_QueryRetryAmountsResponse_put rt deterministic order x) ?bs"
    unfolding dollarv2_QueryRetryAmountsResponse_put_def
    by (rule fills_start, rule fills_step_nil, simp add: kept fills_put_nil,
      rule fills_step, rule fills_put_entries [OF assms(2)], rule fills_put_message [OF assms(1)], rule fills_seq, rule fills_put_encoded [OF assms(1)], rule fills_put_encoded [OF assms(1)],
      rule fills_end)
  moreover have "length ?bs = dollarv2_QueryRetryAmountsResponse_size rt x"
    by (simp add: dollarv2_QueryRetryAmountsResponse_size_def assms(1) kept  length_concat comp_def sum_entries [OF assms(2)] cong: map_cong option.case_cong split: option.split)
  ultimately show ?thesis unfolding writes_def dollarv2_QueryRetryAmountsResponse_marshal_def by (simp add: fills_buffer)
qed

lemma dollarv2_QueryRetryAmountsResponse_read:
  assumes "varint_runtime rt" "map_range order" "dollarv2_QueryRetryAmountsResponse_kept x"
    and "length (concat (map (\<lambda>e. message_bytes rt 0xA (message_bytes rt 0xA (fst e) @ message_bytes rt 0x12 (snd e)))
      (entries_order deterministic order 1 (dollarv2_QueryRetryAmountsResponse_RetryAmounts x))) @
      []) < 2 ^ 63" (is "length ?bs < _")
  shows "dollarv2_QueryRetryAmountsResponse_unmarshal rt' discardUnknown ?bs = Some (Ok x)"
proof -
  note kept = assms(3) [unfolded dollarv2_QueryRetryAmountsResponse_kept_def]
  have RetryAmounts_map: "map_ok (dollarv2_QueryRetryAmountsResponse_RetryAmounts x)" using kept by simp
  show ?thesis unfolding dollarv2_QueryRetryAmountsResponse_unmarshal_def
    by (rule readsD [OF _ assms(4)],
      rule reads_entries [where get = dollarv2_QueryRetryAmountsResponse_RetryAmounts and upd = dollarv2_QueryRetryAmountsResponse_RetryAmounts_update and kc = "\<lambda>k. k" and kr = "\<lambda>e. (fst e, snd e)", OF assms(1)], rule wire_tags,
        simp, simp, simp, simp add: dollarv2_QueryRetryAmountsResponse_field_def, rule entry_reads_text [OF assms(1)], rule entry_reads_value [OF assms(1)], rule refl,
        simp add: dollarv2_QueryRetryAmountsResponse_empty_def fold_ordered_same [OF RetryAmounts_map assms(2)],
      rule reads_done, simp add: dollarv2_QueryRetryAmountsResponse_empty_def kept option.map_ident)
qed

lemma dollarv2_QueryRetryAmountsResponse_exact:
  assumes "varint_runtime rt" "map_range order"
  shows "exact_codec (dollarv2_QueryRetryAmountsResponse_size rt) (dollarv2_QueryRetryAmountsResponse_marshal rt deterministic order)
    (dollarv2_QueryRetryAmountsResponse_unmarshal rt' discardUnknown) dollarv2_QueryRetryAmountsResponse_kept"
  by (rule exact_codecI, rule dollarv2_QueryRetryAmountsResponse_written [OF assms], assumption, rule dollarv2_QueryRetryAmountsResponse_read [OF assms]; assumption)

lemma dollarv2_QueryRetryAmountsResponse_returns:
  "skip_progress (Skip rt) \<Longrightarrow> \<exists>r. dollarv2_QueryRetryAmountsResponse_unmarshal rt discardUnknown bs = Some r"
  unfolding dollarv2_QueryRetryAmountsResponse_unmarshal_def by (rule read_fields_returns)

subsection \<open>GenesisState (portalv1)\<close>

text \<open>\<open>GenesisState\<close> of \<open>api/portal/v1/genesis.pulsar.go\<close>.\<close>

record portalv1_GenesisState =
  portalv1_GenesisState_Owner :: bytes
  portalv1_GenesisState_Paused :: bool
  portalv1_GenesisState_Peers :: "(32 word, portalv1_Peer) cmap"
  portalv1_GenesisState_BridgingPaths :: "portalv1_BridgingPath list"
  portalv1_GenesisState_Nonce :: "32 word"
  portalv1_GenesisState_unknownFields :: bytes

definition portalv1_GenesisState_size :: "wire_runtime \<Rightarrow> portalv1_GenesisState \<Rightarrow> nat" where
  "portalv1_GenesisState_size rt x =
     size_delimited rt (portalv1_GenesisState_Owner x) +
     size_bool (portalv1_GenesisState_Paused x) +
     sum_list (map (\<lambda>e. size_message rt (size_number rt (ucast (fst e)) + size_message rt (portalv1_Peer_size rt (snd e)))) (portalv1_GenesisState_Peers x)) +
     sum_list (map (\<lambda>e. size_message rt (portalv1_BridgingPath_size rt e)) (portalv1_GenesisState_BridgingPaths x)) +
     size_varint rt (ucast (portalv1_GenesisState_Nonce x)) +
     length (portalv1_GenesisState_unknownFields x)"

definition portalv1_GenesisState_put :: "wire_runtime \<Rightarrow> bool \<Rightarrow> range_order \<Rightarrow> portalv1_GenesisState \<Rightarrow> buffer \<Rightarrow> buffer result" where
  "portalv1_GenesisState_put rt deterministic order x b =
     obind (put (portalv1_GenesisState_unknownFields x) b) (\<lambda>b.
     obind (put_varint rt 0x28 (ucast (portalv1_GenesisState_Nonce x)) b) (\<lambda>b.
     obind (put_all (\<lambda>e b. obind (portalv1_BridgingPath_marshal rt e) (\<lambda>s. put_encoded rt 0x22 s b)) (portalv1_GenesisState_BridgingPaths x) b) (\<lambda>b.
     obind (put_entries deterministic order 3 (\<lambda>e. put_message rt 0x1A (\<lambda>b.
         obind (obind (portalv1_Peer_marshal rt (snd e)) (\<lambda>s. put_encoded rt 0x12 s b)) (put_number rt 0x8 (ucast (fst e))))) (portalv1_GenesisState_Peers x) b) (\<lambda>b.
     obind (put_bool 0x10 (portalv1_GenesisState_Paused x) b) (\<lambda>b.
     obind (put_delimited rt 0xA (portalv1_GenesisState_Owner x) b) Ok)))))"

definition portalv1_GenesisState_marshal :: "wire_runtime \<Rightarrow> bool \<Rightarrow> range_order \<Rightarrow> portalv1_GenesisState \<Rightarrow> bytes result" where
  "portalv1_GenesisState_marshal rt deterministic order x =
     obind (portalv1_GenesisState_put rt deterministic order x (portalv1_GenesisState_size rt x, [])) (\<lambda>b. Ok (buffer_bytes b))"

definition portalv1_GenesisState_field ::
    "wire_runtime \<Rightarrow> bool \<Rightarrow> int \<Rightarrow> int \<Rightarrow> portalv1_GenesisState \<Rightarrow> nat \<Rightarrow> bytes \<Rightarrow> (portalv1_GenesisState \<times> nat) result option" where
  "portalv1_GenesisState_field rt discardUnknown fieldNum wireType x i bs =
     (if fieldNum = 1 then Some (bytes_field wireType i (\<lambda>v. x\<lparr>portalv1_GenesisState_Owner := v\<rparr>) bs)
      else if fieldNum = 2 then Some (bool_field wireType (\<lambda>v. x\<lparr>portalv1_GenesisState_Paused := v\<rparr>) bs)
      else if fieldNum = 3 then Some (map_field (Skip rt) (entry_field key_number (value_message (\<lambda>s. the (portalv1_Peer_unmarshal rt discardUnknown s)))) (0, portalv1_Peer_empty) wireType i
        (\<lambda>kv. x\<lparr>portalv1_GenesisState_Peers := Map_Set (fst kv) (snd kv) (portalv1_GenesisState_Peers x)\<rparr>) bs)
      else if fieldNum = 4 then Some (custom_field wireType i (\<lambda>s. the (portalv1_BridgingPath_unmarshal rt discardUnknown s)) (\<lambda>v. x\<lparr>portalv1_GenesisState_BridgingPaths := portalv1_GenesisState_BridgingPaths x @ [v]\<rparr>) bs)
      else if fieldNum = 5 then Some (varint_field wireType (\<lambda>v. x\<lparr>portalv1_GenesisState_Nonce := v\<rparr>) bs)
      else None)"

definition portalv1_GenesisState_empty :: portalv1_GenesisState where
  "portalv1_GenesisState_empty = \<lparr>portalv1_GenesisState_Owner = [], portalv1_GenesisState_Paused = False, portalv1_GenesisState_Peers = [], portalv1_GenesisState_BridgingPaths = [], portalv1_GenesisState_Nonce = 0, portalv1_GenesisState_unknownFields = []\<rparr>"

definition portalv1_GenesisState_unmarshal_into :: "wire_runtime \<Rightarrow> bool \<Rightarrow> portalv1_GenesisState \<Rightarrow> bytes \<Rightarrow> portalv1_GenesisState result option" where
  "portalv1_GenesisState_unmarshal_into rt discardUnknown x bs =
     read_fields (Skip rt) (portalv1_GenesisState_field rt discardUnknown)
       (\<lambda>u x. if discardUnknown then x else x\<lparr>portalv1_GenesisState_unknownFields := portalv1_GenesisState_unknownFields x @ u\<rparr>) x 0 bs"

definition portalv1_GenesisState_unmarshal :: "wire_runtime \<Rightarrow> bool \<Rightarrow> bytes \<Rightarrow> portalv1_GenesisState result option" where
  "portalv1_GenesisState_unmarshal rt discardUnknown bs =
     read_fields (Skip rt) (portalv1_GenesisState_field rt discardUnknown)
       (\<lambda>u x. if discardUnknown then x else x\<lparr>portalv1_GenesisState_unknownFields := portalv1_GenesisState_unknownFields x @ u\<rparr>) portalv1_GenesisState_empty 0 bs"

definition portalv1_GenesisState_kept :: "portalv1_GenesisState \<Rightarrow> bool" where
  "portalv1_GenesisState_kept x \<longleftrightarrow>
     portalv1_GenesisState_unknownFields x = [] \<and>
     map_ok (portalv1_GenesisState_Peers x) \<and>
     (\<forall>e\<in>set (portalv1_GenesisState_Peers x). pv1_unknownFields (snd e) = []) \<and>
     (\<forall>e\<in>set (portalv1_GenesisState_BridgingPaths x). pv1b_unknownFields e = [])"

lemma portalv1_GenesisState_written:
  assumes "varint_runtime rt" "map_range order" "portalv1_GenesisState_kept x"
  shows "writes (portalv1_GenesisState_marshal rt deterministic order x)
    (delimited_bytes rt 0xA (portalv1_GenesisState_Owner x) @
      bool_bytes 0x10 (portalv1_GenesisState_Paused x) @
      concat (map (\<lambda>e. message_bytes rt 0x1A (number_bytes rt 0x8 (ucast (fst e)) @ message_bytes rt 0x12 (marshalled (portalv1_Peer_marshal rt (snd e)))))
      (entries_order deterministic order 3 (portalv1_GenesisState_Peers x))) @
      concat (map (\<lambda>e. message_bytes rt 0x22 (marshalled (portalv1_BridgingPath_marshal rt e))) (portalv1_GenesisState_BridgingPaths x)) @
      varint_bytes rt 0x28 (ucast (portalv1_GenesisState_Nonce x)) @
      [])
    (portalv1_GenesisState_size rt x)" (is "writes _ ?bs _")
proof -
  note kept = assms(3) [unfolded portalv1_GenesisState_kept_def]
  have BridgingPaths: "portalv1_BridgingPath_marshal rt e = Ok (marshalled (portalv1_BridgingPath_marshal rt e))" "length (marshalled (portalv1_BridgingPath_marshal rt e)) = portalv1_BridgingPath_size rt e"
      if "e \<in> set (portalv1_GenesisState_BridgingPaths x)" for e
    by (rule writes_marshalled [OF portalv1_BridgingPath_written [OF assms(1)]], use kept that in simp)+
  have Peers: "portalv1_Peer_marshal rt (snd e) = Ok (marshalled (portalv1_Peer_marshal rt (snd e)))" "length (marshalled (portalv1_Peer_marshal rt (snd e))) = portalv1_Peer_size rt (snd e)"
      if "e \<in> set (portalv1_GenesisState_Peers x)" for e
    by (rule writes_marshalled [OF portalv1_Peer_written [OF assms(1)]], use kept that in simp)+
  have "fills (portalv1_GenesisState_put rt deterministic order x) ?bs"
    unfolding portalv1_GenesisState_put_def
    by (rule fills_start, rule fills_step_nil, simp add: kept fills_put_nil,
      rule fills_step, rule fills_scalars(1) [OF assms(1)],
      rule fills_step, rule fills_put_all, rule fills_marshal [OF assms(1)], erule BridgingPaths(1),
      rule fills_step, rule fills_put_entries [OF assms(2)], rule fills_put_message [OF assms(1)], rule fills_seq, rule fills_marshal [OF assms(1)], erule Peers(1), rule fills_put_number [OF assms(1)],
      rule fills_step, rule fills_scalars(3),
      rule fills_step, rule fills_scalars(2) [OF assms(1)],
      rule fills_end)
  moreover have "length ?bs = portalv1_GenesisState_size rt x"
    by (simp add: portalv1_GenesisState_size_def assms(1) kept BridgingPaths(2) Peers(2) length_concat comp_def sum_entries [OF assms(2)] cong: map_cong option.case_cong split: option.split)
  ultimately show ?thesis unfolding writes_def portalv1_GenesisState_marshal_def by (simp add: fills_buffer)
qed

lemma portalv1_GenesisState_read:
  assumes "varint_runtime rt" "map_range order" "portalv1_GenesisState_kept x"
    and "length (delimited_bytes rt 0xA (portalv1_GenesisState_Owner x) @
      bool_bytes 0x10 (portalv1_GenesisState_Paused x) @
      concat (map (\<lambda>e. message_bytes rt 0x1A (number_bytes rt 0x8 (ucast (fst e)) @ message_bytes rt 0x12 (marshalled (portalv1_Peer_marshal rt (snd e)))))
      (entries_order deterministic order 3 (portalv1_GenesisState_Peers x))) @
      concat (map (\<lambda>e. message_bytes rt 0x22 (marshalled (portalv1_BridgingPath_marshal rt e))) (portalv1_GenesisState_BridgingPaths x)) @
      varint_bytes rt 0x28 (ucast (portalv1_GenesisState_Nonce x)) @
      []) < 2 ^ 63" (is "length ?bs < _")
  shows "portalv1_GenesisState_unmarshal rt' discardUnknown ?bs = Some (Ok x)"
proof -
  note kept = assms(3) [unfolded portalv1_GenesisState_kept_def]
  have Peers: "the (portalv1_Peer_unmarshal rt' discardUnknown (marshalled (portalv1_Peer_marshal rt (snd e)))) = Ok (snd e)"
      if "e \<in> set (entries_order deterministic order 3 (portalv1_GenesisState_Peers x))" "length (marshalled (portalv1_Peer_marshal rt (snd e))) < 2 ^ 63" for e
    by (rule exact_reads [OF portalv1_Peer_exact [OF assms(1)] _ portalv1_Peer_written [OF assms(1)] that(2)]; use kept that in \<open>simp add: set_entries [OF assms(2)]\<close>)
  have Peers_map: "map_ok (portalv1_GenesisState_Peers x)" using kept by simp
  have BridgingPaths: "the (portalv1_BridgingPath_unmarshal rt' discardUnknown (marshalled (portalv1_BridgingPath_marshal rt e))) = Ok e"
      if "e \<in> set (portalv1_GenesisState_BridgingPaths x)" "length (marshalled (portalv1_BridgingPath_marshal rt e)) < 2 ^ 63" for e
    by (rule exact_reads [OF portalv1_BridgingPath_exact [OF assms(1)] _ portalv1_BridgingPath_written [OF assms(1)] that(2)]; use kept that in simp)
  show ?thesis unfolding portalv1_GenesisState_unmarshal_def
    by (rule readsD [OF _ assms(4)],
      rule reads_bytes [OF assms(1)], rule wire_tags, simp add: portalv1_GenesisState_field_def, simp add: portalv1_GenesisState_empty_def,
      rule reads_bool, rule wire_tags, simp add: portalv1_GenesisState_field_def, simp add: portalv1_GenesisState_empty_def,
      rule reads_entries [where get = portalv1_GenesisState_Peers and upd = portalv1_GenesisState_Peers_update and kc = "\<lambda>k. k" and kr = "\<lambda>e. (ucast (ucast (fst e) :: 64 word), snd e)", OF assms(1)], rule wire_tags,
        simp, simp, simp, simp add: portalv1_GenesisState_field_def, rule entry_reads_number [OF assms(1)], simp, rule entry_reads_value [OF assms(1)], erule (1) Peers,
        simp add: portalv1_GenesisState_empty_def fold_ordered_same [OF Peers_map assms(2)],
      rule reads_messages [where get = portalv1_GenesisState_BridgingPaths and upd = portalv1_GenesisState_BridgingPaths_update and c = "\<lambda>e. e", OF assms(1)], rule wire_tags,
        simp, simp, simp, simp add: portalv1_GenesisState_field_def, erule (1) BridgingPaths,
      rule reads_varint32 [OF assms(1)], rule wire_tags, simp add: portalv1_GenesisState_field_def, simp add: portalv1_GenesisState_empty_def,
      rule reads_done, simp add: portalv1_GenesisState_empty_def kept option.map_ident)
qed

lemma portalv1_GenesisState_exact:
  assumes "varint_runtime rt" "map_range order"
  shows "exact_codec (portalv1_GenesisState_size rt) (portalv1_GenesisState_marshal rt deterministic order)
    (portalv1_GenesisState_unmarshal rt' discardUnknown) portalv1_GenesisState_kept"
  by (rule exact_codecI, rule portalv1_GenesisState_written [OF assms], assumption, rule portalv1_GenesisState_read [OF assms]; assumption)

lemma portalv1_GenesisState_returns:
  "skip_progress (Skip rt) \<Longrightarrow> \<exists>r. portalv1_GenesisState_unmarshal rt discardUnknown bs = Some r"
  unfolding portalv1_GenesisState_unmarshal_def by (rule read_fields_returns)

lemma portalv1_GenesisState_unmarshal_empty: "portalv1_GenesisState_unmarshal_into rt' discardUnknown portalv1_GenesisState_empty = portalv1_GenesisState_unmarshal rt' discardUnknown"
  by (rule ext) (simp add: portalv1_GenesisState_unmarshal_into_def portalv1_GenesisState_unmarshal_def)

subsection \<open>GenesisState (vaultsv1)\<close>

text \<open>\<open>GenesisState\<close> of \<open>api/vaults/v1/genesis.pulsar.go\<close>.\<close>

record vaultsv1_GenesisState =
  vaultsv1_GenesisState_Positions :: "vaultsv1_PositionEntry list"
  vaultsv1_GenesisState_Rewards :: "vaultsv1_Reward list"
  vaultsv1_GenesisState_TotalFlexiblePrincipal :: bytes
  vaultsv1_GenesisState_Paused :: "32 word"
  vaultsv1_GenesisState_Stats :: "vaultsv1_Stats option"
  vaultsv1_GenesisState_SeasonOneEnded :: bool
  vaultsv1_GenesisState_unknownFields :: bytes

definition vaultsv1_GenesisState_size :: "wire_runtime \<Rightarrow> timestamp_codec \<Rightarrow> vaultsv1_GenesisState \<Rightarrow> nat" where
  "vaultsv1_GenesisState_size rt sc x =
     sum_list (map (\<lambda>e. size_message rt (vaultsv1_PositionEntry_size rt sc e)) (vaultsv1_GenesisState_Positions x)) +
     sum_list (map (\<lambda>e. size_message rt (vaultsv1_Reward_size rt e)) (vaultsv1_GenesisState_Rewards x)) +
     size_delimited rt (vaultsv1_GenesisState_TotalFlexiblePrincipal x) +
     size_varint rt (scast (vaultsv1_GenesisState_Paused x)) +
     (case vaultsv1_GenesisState_Stats x of None \<Rightarrow> 0 | Some v \<Rightarrow> size_message rt (vaultsv1_Stats_size rt v)) +
     size_bool (vaultsv1_GenesisState_SeasonOneEnded x) +
     length (vaultsv1_GenesisState_unknownFields x)"

definition vaultsv1_GenesisState_put :: "wire_runtime \<Rightarrow> timestamp_codec \<Rightarrow> vaultsv1_GenesisState \<Rightarrow> buffer \<Rightarrow> buffer result" where
  "vaultsv1_GenesisState_put rt sc x b =
     obind (put (vaultsv1_GenesisState_unknownFields x) b) (\<lambda>b.
     obind (put_bool 0x38 (vaultsv1_GenesisState_SeasonOneEnded x) b) (\<lambda>b.
     obind (put_optional (\<lambda>v b. obind (vaultsv1_Stats_marshal rt v) (\<lambda>s. put_encoded rt 0x32 s b)) (vaultsv1_GenesisState_Stats x) b) (\<lambda>b.
     obind (put_varint rt 0x28 (scast (vaultsv1_GenesisState_Paused x)) b) (\<lambda>b.
     obind (put_delimited rt 0x22 (vaultsv1_GenesisState_TotalFlexiblePrincipal x) b) (\<lambda>b.
     obind (put_all (\<lambda>e b. obind (vaultsv1_Reward_marshal rt e) (\<lambda>s. put_encoded rt 0x1A s b)) (vaultsv1_GenesisState_Rewards x) b) (\<lambda>b.
     obind (put_all (\<lambda>e b. obind (vaultsv1_PositionEntry_marshal rt sc e) (\<lambda>s. put_encoded rt 0x12 s b)) (vaultsv1_GenesisState_Positions x) b) Ok))))))"

definition vaultsv1_GenesisState_marshal :: "wire_runtime \<Rightarrow> timestamp_codec \<Rightarrow> vaultsv1_GenesisState \<Rightarrow> bytes result" where
  "vaultsv1_GenesisState_marshal rt sc x =
     obind (vaultsv1_GenesisState_put rt sc x (vaultsv1_GenesisState_size rt sc x, [])) (\<lambda>b. Ok (buffer_bytes b))"

definition vaultsv1_GenesisState_field ::
    "wire_runtime \<Rightarrow> bool \<Rightarrow> timestamp_codec \<Rightarrow> int \<Rightarrow> int \<Rightarrow> vaultsv1_GenesisState \<Rightarrow> nat \<Rightarrow> bytes \<Rightarrow> (vaultsv1_GenesisState \<times> nat) result option" where
  "vaultsv1_GenesisState_field rt discardUnknown sc fieldNum wireType x i bs =
     (if fieldNum = 2 then Some (custom_field wireType i (\<lambda>s. the (vaultsv1_PositionEntry_unmarshal rt discardUnknown sc s)) (\<lambda>v. x\<lparr>vaultsv1_GenesisState_Positions := vaultsv1_GenesisState_Positions x @ [v]\<rparr>) bs)
      else if fieldNum = 3 then Some (custom_field wireType i (\<lambda>s. the (vaultsv1_Reward_unmarshal rt discardUnknown s)) (\<lambda>v. x\<lparr>vaultsv1_GenesisState_Rewards := vaultsv1_GenesisState_Rewards x @ [v]\<rparr>) bs)
      else if fieldNum = 4 then Some (bytes_field wireType i (\<lambda>v. x\<lparr>vaultsv1_GenesisState_TotalFlexiblePrincipal := v\<rparr>) bs)
      else if fieldNum = 5 then Some (varint_field wireType (\<lambda>v. x\<lparr>vaultsv1_GenesisState_Paused := v\<rparr>) bs)
      else if fieldNum = 6 then Some (custom_field wireType i (\<lambda>s. the (vaultsv1_Stats_unmarshal_into rt discardUnknown (case vaultsv1_GenesisState_Stats x of None \<Rightarrow> vaultsv1_Stats_empty | Some v \<Rightarrow> v) s))
        (\<lambda>v. x\<lparr>vaultsv1_GenesisState_Stats := Some v\<rparr>) bs)
      else if fieldNum = 7 then Some (bool_field wireType (\<lambda>v. x\<lparr>vaultsv1_GenesisState_SeasonOneEnded := v\<rparr>) bs)
      else None)"

definition vaultsv1_GenesisState_empty :: vaultsv1_GenesisState where
  "vaultsv1_GenesisState_empty = \<lparr>vaultsv1_GenesisState_Positions = [], vaultsv1_GenesisState_Rewards = [], vaultsv1_GenesisState_TotalFlexiblePrincipal = [], vaultsv1_GenesisState_Paused = 0, vaultsv1_GenesisState_Stats = None, vaultsv1_GenesisState_SeasonOneEnded = False, vaultsv1_GenesisState_unknownFields = []\<rparr>"

definition vaultsv1_GenesisState_unmarshal_into :: "wire_runtime \<Rightarrow> bool \<Rightarrow> timestamp_codec \<Rightarrow> vaultsv1_GenesisState \<Rightarrow> bytes \<Rightarrow> vaultsv1_GenesisState result option" where
  "vaultsv1_GenesisState_unmarshal_into rt discardUnknown sc x bs =
     read_fields (Skip rt) (vaultsv1_GenesisState_field rt discardUnknown sc)
       (\<lambda>u x. if discardUnknown then x else x\<lparr>vaultsv1_GenesisState_unknownFields := vaultsv1_GenesisState_unknownFields x @ u\<rparr>) x 0 bs"

definition vaultsv1_GenesisState_unmarshal :: "wire_runtime \<Rightarrow> bool \<Rightarrow> timestamp_codec \<Rightarrow> bytes \<Rightarrow> vaultsv1_GenesisState result option" where
  "vaultsv1_GenesisState_unmarshal rt discardUnknown sc bs =
     read_fields (Skip rt) (vaultsv1_GenesisState_field rt discardUnknown sc)
       (\<lambda>u x. if discardUnknown then x else x\<lparr>vaultsv1_GenesisState_unknownFields := vaultsv1_GenesisState_unknownFields x @ u\<rparr>) vaultsv1_GenesisState_empty 0 bs"

definition vaultsv1_GenesisState_kept :: "(timestamp \<Rightarrow> bool) \<Rightarrow> vaultsv1_GenesisState \<Rightarrow> bool" where
  "vaultsv1_GenesisState_kept oks x \<longleftrightarrow>
     vaultsv1_GenesisState_unknownFields x = [] \<and>
     (\<forall>e\<in>set (vaultsv1_GenesisState_Positions x). vaultsv1_PositionEntry_kept oks e) \<and>
     (\<forall>e\<in>set (vaultsv1_GenesisState_Rewards x). vv1_unknownFields e = []) \<and>
     (\<forall>v. vaultsv1_GenesisState_Stats x = Some v \<longrightarrow> vv1s_unknownFields v = [])"

lemma vaultsv1_GenesisState_written:
  assumes "varint_runtime rt" "stamp_codec sc oks" "vaultsv1_GenesisState_kept oks x"
  shows "writes (vaultsv1_GenesisState_marshal rt sc x)
    (concat (map (\<lambda>e. message_bytes rt 0x12 (marshalled (vaultsv1_PositionEntry_marshal rt sc e))) (vaultsv1_GenesisState_Positions x)) @
      concat (map (\<lambda>e. message_bytes rt 0x1A (marshalled (vaultsv1_Reward_marshal rt e))) (vaultsv1_GenesisState_Rewards x)) @
      delimited_bytes rt 0x22 (vaultsv1_GenesisState_TotalFlexiblePrincipal x) @
      varint_bytes rt 0x28 (scast (vaultsv1_GenesisState_Paused x)) @
      (case vaultsv1_GenesisState_Stats x of None \<Rightarrow> [] | Some v \<Rightarrow> message_bytes rt 0x32 (marshalled (vaultsv1_Stats_marshal rt v))) @
      bool_bytes 0x38 (vaultsv1_GenesisState_SeasonOneEnded x) @
      [])
    (vaultsv1_GenesisState_size rt sc x)" (is "writes _ ?bs _")
proof -
  note kept = assms(3) [unfolded vaultsv1_GenesisState_kept_def]
  have Stats: "vaultsv1_Stats_marshal rt v = Ok (marshalled (vaultsv1_Stats_marshal rt v))" "length (marshalled (vaultsv1_Stats_marshal rt v)) = vaultsv1_Stats_size rt v"
      if "vaultsv1_GenesisState_Stats x = Some v" for v
    by (rule writes_marshalled [OF vaultsv1_Stats_written [OF assms(1)]], use kept that in simp)+
  have Rewards: "vaultsv1_Reward_marshal rt e = Ok (marshalled (vaultsv1_Reward_marshal rt e))" "length (marshalled (vaultsv1_Reward_marshal rt e)) = vaultsv1_Reward_size rt e"
      if "e \<in> set (vaultsv1_GenesisState_Rewards x)" for e
    by (rule writes_marshalled [OF vaultsv1_Reward_written [OF assms(1)]], use kept that in simp)+
  have Positions: "vaultsv1_PositionEntry_marshal rt sc e = Ok (marshalled (vaultsv1_PositionEntry_marshal rt sc e))" "length (marshalled (vaultsv1_PositionEntry_marshal rt sc e)) = vaultsv1_PositionEntry_size rt sc e"
      if "e \<in> set (vaultsv1_GenesisState_Positions x)" for e
    by (rule writes_marshalled [OF vaultsv1_PositionEntry_written [OF assms(1,2)]], use kept that in simp)+
  have "fills (vaultsv1_GenesisState_put rt sc x) ?bs"
    unfolding vaultsv1_GenesisState_put_def
    by (rule fills_start, rule fills_step_nil, simp add: kept fills_put_nil,
      rule fills_step, rule fills_scalars(3),
      rule fills_step, rule fills_put_optional, rule fills_marshal [OF assms(1)], erule Stats(1),
      rule fills_step, rule fills_scalars(1) [OF assms(1)],
      rule fills_step, rule fills_scalars(2) [OF assms(1)],
      rule fills_step, rule fills_put_all, rule fills_marshal [OF assms(1)], erule Rewards(1),
      rule fills_step, rule fills_put_all, rule fills_marshal [OF assms(1)], erule Positions(1),
      rule fills_end)
  moreover have "length ?bs = vaultsv1_GenesisState_size rt sc x"
    by (simp add: vaultsv1_GenesisState_size_def assms(1) kept Stats(2) Rewards(2) Positions(2) length_concat comp_def cong: map_cong option.case_cong split: option.split)
  ultimately show ?thesis unfolding writes_def vaultsv1_GenesisState_marshal_def by (simp add: fills_buffer)
qed

lemma vaultsv1_GenesisState_read:
  assumes "varint_runtime rt" "stamp_codec sc oks" "vaultsv1_GenesisState_kept oks x"
    and "length (concat (map (\<lambda>e. message_bytes rt 0x12 (marshalled (vaultsv1_PositionEntry_marshal rt sc e))) (vaultsv1_GenesisState_Positions x)) @
      concat (map (\<lambda>e. message_bytes rt 0x1A (marshalled (vaultsv1_Reward_marshal rt e))) (vaultsv1_GenesisState_Rewards x)) @
      delimited_bytes rt 0x22 (vaultsv1_GenesisState_TotalFlexiblePrincipal x) @
      varint_bytes rt 0x28 (scast (vaultsv1_GenesisState_Paused x)) @
      (case vaultsv1_GenesisState_Stats x of None \<Rightarrow> [] | Some v \<Rightarrow> message_bytes rt 0x32 (marshalled (vaultsv1_Stats_marshal rt v))) @
      bool_bytes 0x38 (vaultsv1_GenesisState_SeasonOneEnded x) @
      []) < 2 ^ 63" (is "length ?bs < _")
  shows "vaultsv1_GenesisState_unmarshal rt' discardUnknown sc ?bs = Some (Ok x)"
proof -
  note kept = assms(3) [unfolded vaultsv1_GenesisState_kept_def]
  have Positions: "the (vaultsv1_PositionEntry_unmarshal rt' discardUnknown sc (marshalled (vaultsv1_PositionEntry_marshal rt sc e))) = Ok e"
      if "e \<in> set (vaultsv1_GenesisState_Positions x)" "length (marshalled (vaultsv1_PositionEntry_marshal rt sc e)) < 2 ^ 63" for e
    by (rule exact_reads [OF vaultsv1_PositionEntry_exact [OF assms(1,2)] _ vaultsv1_PositionEntry_written [OF assms(1,2)] that(2)]; use kept that in simp)
  have Rewards: "the (vaultsv1_Reward_unmarshal rt' discardUnknown (marshalled (vaultsv1_Reward_marshal rt e))) = Ok e"
      if "e \<in> set (vaultsv1_GenesisState_Rewards x)" "length (marshalled (vaultsv1_Reward_marshal rt e)) < 2 ^ 63" for e
    by (rule exact_reads [OF vaultsv1_Reward_exact [OF assms(1)] _ vaultsv1_Reward_written [OF assms(1)] that(2)]; use kept that in simp)
  have Stats: "the (vaultsv1_Stats_unmarshal_into rt' discardUnknown vaultsv1_Stats_empty (marshalled (vaultsv1_Stats_marshal rt v))) = Ok v"
      if "vaultsv1_GenesisState_Stats x = Some v" "length (marshalled (vaultsv1_Stats_marshal rt v)) < 2 ^ 63" for v
    unfolding vaultsv1_Stats_unmarshal_empty
    by (rule exact_reads [OF vaultsv1_Stats_exact [OF assms(1)] _ vaultsv1_Stats_written [OF assms(1)] that(2)]; use kept that in simp)
  show ?thesis unfolding vaultsv1_GenesisState_unmarshal_def
    by (rule readsD [OF _ assms(4)],
      rule reads_messages [where get = vaultsv1_GenesisState_Positions and upd = vaultsv1_GenesisState_Positions_update and c = "\<lambda>e. e", OF assms(1)], rule wire_tags,
        simp, simp, simp, simp add: vaultsv1_GenesisState_field_def, erule (1) Positions,
      rule reads_messages [where get = vaultsv1_GenesisState_Rewards and upd = vaultsv1_GenesisState_Rewards_update and c = "\<lambda>e. e", OF assms(1)], rule wire_tags,
        simp, simp, simp, simp add: vaultsv1_GenesisState_field_def, erule (1) Rewards,
      rule reads_bytes [OF assms(1)], rule wire_tags, simp add: vaultsv1_GenesisState_field_def, simp add: vaultsv1_GenesisState_empty_def,
      rule reads_varint32 [OF assms(1)], rule wire_tags, simp add: vaultsv1_GenesisState_field_def, simp add: vaultsv1_GenesisState_empty_def,
      rule reads_optional [where get = vaultsv1_GenesisState_Stats and upd = vaultsv1_GenesisState_Stats_update and c = "\<lambda>v. v", OF assms(1)], rule wire_tags,
        simp, simp add: vaultsv1_GenesisState_empty_def, simp add: vaultsv1_GenesisState_field_def vaultsv1_GenesisState_empty_def, erule (1) Stats,
      rule reads_bool, rule wire_tags, simp add: vaultsv1_GenesisState_field_def, simp add: vaultsv1_GenesisState_empty_def,
      rule reads_done, simp add: vaultsv1_GenesisState_empty_def kept option.map_ident)
qed

lemma vaultsv1_GenesisState_exact:
  assumes "varint_runtime rt" "stamp_codec sc oks"
  shows "exact_codec (vaultsv1_GenesisState_size rt sc) (vaultsv1_GenesisState_marshal rt sc)
    (vaultsv1_GenesisState_unmarshal rt' discardUnknown sc) (vaultsv1_GenesisState_kept oks)"
  by (rule exact_codecI, rule vaultsv1_GenesisState_written [OF assms], assumption, rule vaultsv1_GenesisState_read [OF assms]; assumption)

lemma vaultsv1_GenesisState_returns:
  "skip_progress (Skip rt) \<Longrightarrow> \<exists>r. vaultsv1_GenesisState_unmarshal rt discardUnknown sc bs = Some r"
  unfolding vaultsv1_GenesisState_unmarshal_def by (rule read_fields_returns)

lemma vaultsv1_GenesisState_unmarshal_empty: "vaultsv1_GenesisState_unmarshal_into rt' discardUnknown sc vaultsv1_GenesisState_empty = vaultsv1_GenesisState_unmarshal rt' discardUnknown sc"
  by (rule ext) (simp add: vaultsv1_GenesisState_unmarshal_into_def vaultsv1_GenesisState_unmarshal_def)

subsection \<open>GenesisState (dollarv1)\<close>

text \<open>\<open>GenesisState\<close> of \<open>api/v1/genesis.pulsar.go\<close>.\<close>

record dollarv1_GenesisState =
  dollarv1_GenesisState_Portal :: "portalv1_GenesisState option"
  dollarv1_GenesisState_Vaults :: "vaultsv1_GenesisState option"
  dollarv1_GenesisState_Paused :: bool
  dollarv1_GenesisState_Index :: "64 word"
  dollarv1_GenesisState_Principal :: "(bytes, bytes) cmap"
  dollarv1_GenesisState_Stats :: "dollarv1_Stats option"
  dollarv1_GenesisState_unknownFields :: bytes

definition dollarv1_GenesisState_size :: "wire_runtime \<Rightarrow> timestamp_codec \<Rightarrow> dollarv1_GenesisState \<Rightarrow> nat" where
  "dollarv1_GenesisState_size rt sc x =
     (case dollarv1_GenesisState_Portal x of None \<Rightarrow> 0 | Some v \<Rightarrow> size_message rt (portalv1_GenesisState_size rt v)) +
     (case dollarv1_GenesisState_Vaults x of None \<Rightarrow> 0 | Some v \<Rightarrow> size_message rt (vaultsv1_GenesisState_size rt sc v)) +
     size_bool (dollarv1_GenesisState_Paused x) +
     size_varint rt (dollarv1_GenesisState_Index x) +
     sum_list (map (\<lambda>e. size_message rt (size_message rt (length (fst e)) + size_message rt (length (snd e)))) (dollarv1_GenesisState_Principal x)) +
     (case dollarv1_GenesisState_Stats x of None \<Rightarrow> 0 | Some v \<Rightarrow> size_message rt (dollarv1_Stats_size rt v)) +
     length (dollarv1_GenesisState_unknownFields x)"

definition dollarv1_GenesisState_put :: "wire_runtime \<Rightarrow> timestamp_codec \<Rightarrow> bool \<Rightarrow> range_order \<Rightarrow> dollarv1_GenesisState \<Rightarrow> buffer \<Rightarrow> buffer result" where
  "dollarv1_GenesisState_put rt sc deterministic order x b =
     obind (put (dollarv1_GenesisState_unknownFields x) b) (\<lambda>b.
     obind (put_optional (\<lambda>v b. obind (dollarv1_Stats_marshal rt v) (\<lambda>s. put_encoded rt 0x32 s b)) (dollarv1_GenesisState_Stats x) b) (\<lambda>b.
     obind (put_entries deterministic order 5 (\<lambda>e. put_message rt 0x2A (\<lambda>b.
         obind (put_encoded rt 0x12 (snd e) b) (put_encoded rt 0xA (fst e)))) (dollarv1_GenesisState_Principal x) b) (\<lambda>b.
     obind (put_varint rt 0x20 (dollarv1_GenesisState_Index x) b) (\<lambda>b.
     obind (put_bool 0x18 (dollarv1_GenesisState_Paused x) b) (\<lambda>b.
     obind (put_optional (\<lambda>v b. obind (vaultsv1_GenesisState_marshal rt sc v) (\<lambda>s. put_encoded rt 0x12 s b)) (dollarv1_GenesisState_Vaults x) b) (\<lambda>b.
     obind (put_optional (\<lambda>v b. obind (portalv1_GenesisState_marshal rt deterministic order v) (\<lambda>s. put_encoded rt 0xA s b)) (dollarv1_GenesisState_Portal x) b) Ok))))))"

definition dollarv1_GenesisState_marshal :: "wire_runtime \<Rightarrow> timestamp_codec \<Rightarrow> bool \<Rightarrow> range_order \<Rightarrow> dollarv1_GenesisState \<Rightarrow> bytes result" where
  "dollarv1_GenesisState_marshal rt sc deterministic order x =
     obind (dollarv1_GenesisState_put rt sc deterministic order x (dollarv1_GenesisState_size rt sc x, [])) (\<lambda>b. Ok (buffer_bytes b))"

definition dollarv1_GenesisState_field ::
    "wire_runtime \<Rightarrow> bool \<Rightarrow> timestamp_codec \<Rightarrow> int \<Rightarrow> int \<Rightarrow> dollarv1_GenesisState \<Rightarrow> nat \<Rightarrow> bytes \<Rightarrow> (dollarv1_GenesisState \<times> nat) result option" where
  "dollarv1_GenesisState_field rt discardUnknown sc fieldNum wireType x i bs =
     (if fieldNum = 1 then Some (custom_field wireType i (\<lambda>s. the (portalv1_GenesisState_unmarshal_into rt discardUnknown (case dollarv1_GenesisState_Portal x of None \<Rightarrow> portalv1_GenesisState_empty | Some v \<Rightarrow> v) s))
        (\<lambda>v. x\<lparr>dollarv1_GenesisState_Portal := Some v\<rparr>) bs)
      else if fieldNum = 2 then Some (custom_field wireType i (\<lambda>s. the (vaultsv1_GenesisState_unmarshal_into rt discardUnknown sc (case dollarv1_GenesisState_Vaults x of None \<Rightarrow> vaultsv1_GenesisState_empty | Some v \<Rightarrow> v) s))
        (\<lambda>v. x\<lparr>dollarv1_GenesisState_Vaults := Some v\<rparr>) bs)
      else if fieldNum = 3 then Some (bool_field wireType (\<lambda>v. x\<lparr>dollarv1_GenesisState_Paused := v\<rparr>) bs)
      else if fieldNum = 4 then Some (varint_field wireType (\<lambda>v. x\<lparr>dollarv1_GenesisState_Index := v\<rparr>) bs)
      else if fieldNum = 5 then Some (map_field (Skip rt) (entry_field key_text (value_message Ok)) ([], []) wireType i
        (\<lambda>kv. x\<lparr>dollarv1_GenesisState_Principal := Map_Set (fst kv) (snd kv) (dollarv1_GenesisState_Principal x)\<rparr>) bs)
      else if fieldNum = 6 then Some (custom_field wireType i (\<lambda>s. the (dollarv1_Stats_unmarshal_into rt discardUnknown (case dollarv1_GenesisState_Stats x of None \<Rightarrow> dollarv1_Stats_empty | Some v \<Rightarrow> v) s))
        (\<lambda>v. x\<lparr>dollarv1_GenesisState_Stats := Some v\<rparr>) bs)
      else None)"

definition dollarv1_GenesisState_empty :: dollarv1_GenesisState where
  "dollarv1_GenesisState_empty = \<lparr>dollarv1_GenesisState_Portal = None, dollarv1_GenesisState_Vaults = None, dollarv1_GenesisState_Paused = False, dollarv1_GenesisState_Index = 0, dollarv1_GenesisState_Principal = [], dollarv1_GenesisState_Stats = None, dollarv1_GenesisState_unknownFields = []\<rparr>"

definition dollarv1_GenesisState_unmarshal :: "wire_runtime \<Rightarrow> bool \<Rightarrow> timestamp_codec \<Rightarrow> bytes \<Rightarrow> dollarv1_GenesisState result option" where
  "dollarv1_GenesisState_unmarshal rt discardUnknown sc bs =
     read_fields (Skip rt) (dollarv1_GenesisState_field rt discardUnknown sc)
       (\<lambda>u x. if discardUnknown then x else x\<lparr>dollarv1_GenesisState_unknownFields := dollarv1_GenesisState_unknownFields x @ u\<rparr>) dollarv1_GenesisState_empty 0 bs"

definition dollarv1_GenesisState_kept :: "(timestamp \<Rightarrow> bool) \<Rightarrow> dollarv1_GenesisState \<Rightarrow> bool" where
  "dollarv1_GenesisState_kept oks x \<longleftrightarrow>
     dollarv1_GenesisState_unknownFields x = [] \<and>
     (\<forall>v. dollarv1_GenesisState_Portal x = Some v \<longrightarrow> portalv1_GenesisState_kept v) \<and>
     (\<forall>v. dollarv1_GenesisState_Vaults x = Some v \<longrightarrow> vaultsv1_GenesisState_kept oks v) \<and>
     map_ok (dollarv1_GenesisState_Principal x) \<and>
     (\<forall>v. dollarv1_GenesisState_Stats x = Some v \<longrightarrow> dollarv1_Stats_unknownFields v = [])"

lemma dollarv1_GenesisState_written:
  assumes "varint_runtime rt" "stamp_codec sc oks" "map_range order" "dollarv1_GenesisState_kept oks x"
  shows "writes (dollarv1_GenesisState_marshal rt sc deterministic order x)
    ((case dollarv1_GenesisState_Portal x of None \<Rightarrow> [] | Some v \<Rightarrow> message_bytes rt 0xA (marshalled (portalv1_GenesisState_marshal rt deterministic order v))) @
      (case dollarv1_GenesisState_Vaults x of None \<Rightarrow> [] | Some v \<Rightarrow> message_bytes rt 0x12 (marshalled (vaultsv1_GenesisState_marshal rt sc v))) @
      bool_bytes 0x18 (dollarv1_GenesisState_Paused x) @
      varint_bytes rt 0x20 (dollarv1_GenesisState_Index x) @
      concat (map (\<lambda>e. message_bytes rt 0x2A (message_bytes rt 0xA (fst e) @ message_bytes rt 0x12 (snd e)))
      (entries_order deterministic order 5 (dollarv1_GenesisState_Principal x))) @
      (case dollarv1_GenesisState_Stats x of None \<Rightarrow> [] | Some v \<Rightarrow> message_bytes rt 0x32 (marshalled (dollarv1_Stats_marshal rt v))) @
      [])
    (dollarv1_GenesisState_size rt sc x)" (is "writes _ ?bs _")
proof -
  note kept = assms(4) [unfolded dollarv1_GenesisState_kept_def]
  have Stats: "dollarv1_Stats_marshal rt v = Ok (marshalled (dollarv1_Stats_marshal rt v))" "length (marshalled (dollarv1_Stats_marshal rt v)) = dollarv1_Stats_size rt v"
      if "dollarv1_GenesisState_Stats x = Some v" for v
    by (rule writes_marshalled [OF dollarv1_Stats_written [OF assms(1)]], use kept that in simp)+
  have Vaults: "vaultsv1_GenesisState_marshal rt sc v = Ok (marshalled (vaultsv1_GenesisState_marshal rt sc v))" "length (marshalled (vaultsv1_GenesisState_marshal rt sc v)) = vaultsv1_GenesisState_size rt sc v"
      if "dollarv1_GenesisState_Vaults x = Some v" for v
    by (rule writes_marshalled [OF vaultsv1_GenesisState_written [OF assms(1,2)]], use kept that in simp)+
  have Portal: "portalv1_GenesisState_marshal rt deterministic order v = Ok (marshalled (portalv1_GenesisState_marshal rt deterministic order v))" "length (marshalled (portalv1_GenesisState_marshal rt deterministic order v)) = portalv1_GenesisState_size rt v"
      if "dollarv1_GenesisState_Portal x = Some v" for v
    by (rule writes_marshalled [OF portalv1_GenesisState_written [OF assms(1,3)]], use kept that in simp)+
  have "fills (dollarv1_GenesisState_put rt sc deterministic order x) ?bs"
    unfolding dollarv1_GenesisState_put_def
    by (rule fills_start, rule fills_step_nil, simp add: kept fills_put_nil,
      rule fills_step, rule fills_put_optional, rule fills_marshal [OF assms(1)], erule Stats(1),
      rule fills_step, rule fills_put_entries [OF assms(3)], rule fills_put_message [OF assms(1)], rule fills_seq, rule fills_put_encoded [OF assms(1)], rule fills_put_encoded [OF assms(1)],
      rule fills_step, rule fills_scalars(1) [OF assms(1)],
      rule fills_step, rule fills_scalars(3),
      rule fills_step, rule fills_put_optional, rule fills_marshal [OF assms(1)], erule Vaults(1),
      rule fills_step, rule fills_put_optional, rule fills_marshal [OF assms(1)], erule Portal(1),
      rule fills_end)
  moreover have "length ?bs = dollarv1_GenesisState_size rt sc x"
    by (simp add: dollarv1_GenesisState_size_def assms(1) kept Stats(2) Vaults(2) Portal(2) length_concat comp_def sum_entries [OF assms(3)] cong: map_cong option.case_cong split: option.split)
  ultimately show ?thesis unfolding writes_def dollarv1_GenesisState_marshal_def by (simp add: fills_buffer)
qed

lemma dollarv1_GenesisState_read:
  assumes "varint_runtime rt" "stamp_codec sc oks" "map_range order" "dollarv1_GenesisState_kept oks x"
    and "length ((case dollarv1_GenesisState_Portal x of None \<Rightarrow> [] | Some v \<Rightarrow> message_bytes rt 0xA (marshalled (portalv1_GenesisState_marshal rt deterministic order v))) @
      (case dollarv1_GenesisState_Vaults x of None \<Rightarrow> [] | Some v \<Rightarrow> message_bytes rt 0x12 (marshalled (vaultsv1_GenesisState_marshal rt sc v))) @
      bool_bytes 0x18 (dollarv1_GenesisState_Paused x) @
      varint_bytes rt 0x20 (dollarv1_GenesisState_Index x) @
      concat (map (\<lambda>e. message_bytes rt 0x2A (message_bytes rt 0xA (fst e) @ message_bytes rt 0x12 (snd e)))
      (entries_order deterministic order 5 (dollarv1_GenesisState_Principal x))) @
      (case dollarv1_GenesisState_Stats x of None \<Rightarrow> [] | Some v \<Rightarrow> message_bytes rt 0x32 (marshalled (dollarv1_Stats_marshal rt v))) @
      []) < 2 ^ 63" (is "length ?bs < _")
  shows "dollarv1_GenesisState_unmarshal rt' discardUnknown sc ?bs = Some (Ok x)"
proof -
  note kept = assms(4) [unfolded dollarv1_GenesisState_kept_def]
  have Portal: "the (portalv1_GenesisState_unmarshal_into rt' discardUnknown portalv1_GenesisState_empty (marshalled (portalv1_GenesisState_marshal rt deterministic order v))) = Ok v"
      if "dollarv1_GenesisState_Portal x = Some v" "length (marshalled (portalv1_GenesisState_marshal rt deterministic order v)) < 2 ^ 63" for v
    unfolding portalv1_GenesisState_unmarshal_empty
    by (rule exact_reads [OF portalv1_GenesisState_exact [OF assms(1,3)] _ portalv1_GenesisState_written [OF assms(1,3)] that(2)]; use kept that in simp)
  have Vaults: "the (vaultsv1_GenesisState_unmarshal_into rt' discardUnknown sc vaultsv1_GenesisState_empty (marshalled (vaultsv1_GenesisState_marshal rt sc v))) = Ok v"
      if "dollarv1_GenesisState_Vaults x = Some v" "length (marshalled (vaultsv1_GenesisState_marshal rt sc v)) < 2 ^ 63" for v
    unfolding vaultsv1_GenesisState_unmarshal_empty
    by (rule exact_reads [OF vaultsv1_GenesisState_exact [OF assms(1,2)] _ vaultsv1_GenesisState_written [OF assms(1,2)] that(2)]; use kept that in simp)
  have Principal_map: "map_ok (dollarv1_GenesisState_Principal x)" using kept by simp
  have Stats: "the (dollarv1_Stats_unmarshal_into rt' discardUnknown dollarv1_Stats_empty (marshalled (dollarv1_Stats_marshal rt v))) = Ok v"
      if "dollarv1_GenesisState_Stats x = Some v" "length (marshalled (dollarv1_Stats_marshal rt v)) < 2 ^ 63" for v
    unfolding dollarv1_Stats_unmarshal_empty
    by (rule exact_reads [OF dollarv1_Stats_exact [OF assms(1)] _ dollarv1_Stats_written [OF assms(1)] that(2)]; use kept that in simp)
  show ?thesis unfolding dollarv1_GenesisState_unmarshal_def
    by (rule readsD [OF _ assms(5)],
      rule reads_optional [where get = dollarv1_GenesisState_Portal and upd = dollarv1_GenesisState_Portal_update and c = "\<lambda>v. v", OF assms(1)], rule wire_tags,
        simp, simp add: dollarv1_GenesisState_empty_def, simp add: dollarv1_GenesisState_field_def dollarv1_GenesisState_empty_def, erule (1) Portal,
      rule reads_optional [where get = dollarv1_GenesisState_Vaults and upd = dollarv1_GenesisState_Vaults_update and c = "\<lambda>v. v", OF assms(1)], rule wire_tags,
        simp, simp add: dollarv1_GenesisState_empty_def, simp add: dollarv1_GenesisState_field_def dollarv1_GenesisState_empty_def, erule (1) Vaults,
      rule reads_bool, rule wire_tags, simp add: dollarv1_GenesisState_field_def, simp add: dollarv1_GenesisState_empty_def,
      rule reads_varint [OF assms(1)], rule wire_tags, simp add: dollarv1_GenesisState_field_def, simp add: dollarv1_GenesisState_empty_def,
      rule reads_entries [where get = dollarv1_GenesisState_Principal and upd = dollarv1_GenesisState_Principal_update and kc = "\<lambda>k. k" and kr = "\<lambda>e. (fst e, snd e)", OF assms(1)], rule wire_tags,
        simp, simp, simp, simp add: dollarv1_GenesisState_field_def, rule entry_reads_text [OF assms(1)], rule entry_reads_value [OF assms(1)], rule refl,
        simp add: dollarv1_GenesisState_empty_def fold_ordered_same [OF Principal_map assms(3)],
      rule reads_optional [where get = dollarv1_GenesisState_Stats and upd = dollarv1_GenesisState_Stats_update and c = "\<lambda>v. v", OF assms(1)], rule wire_tags,
        simp, simp add: dollarv1_GenesisState_empty_def, simp add: dollarv1_GenesisState_field_def dollarv1_GenesisState_empty_def, erule (1) Stats,
      rule reads_done, simp add: dollarv1_GenesisState_empty_def kept option.map_ident)
qed

lemma dollarv1_GenesisState_exact:
  assumes "varint_runtime rt" "stamp_codec sc oks" "map_range order"
  shows "exact_codec (dollarv1_GenesisState_size rt sc) (dollarv1_GenesisState_marshal rt sc deterministic order)
    (dollarv1_GenesisState_unmarshal rt' discardUnknown sc) (dollarv1_GenesisState_kept oks)"
  by (rule exact_codecI, rule dollarv1_GenesisState_written [OF assms], assumption, rule dollarv1_GenesisState_read [OF assms]; assumption)

lemma dollarv1_GenesisState_returns:
  "skip_progress (Skip rt) \<Longrightarrow> \<exists>r. dollarv1_GenesisState_unmarshal rt discardUnknown sc bs = Some r"
  unfolding dollarv1_GenesisState_unmarshal_def by (rule read_fields_returns)

subsection \<open>GenesisState (dollarv2)\<close>

text \<open>\<open>GenesisState\<close> of \<open>api/v2/genesis.pulsar.go\<close>.\<close>

record dollarv2_GenesisState =
  dollarv2_GenesisState_Portal :: "portalv1_GenesisState option"
  dollarv2_GenesisState_Vaults :: "vaultsv1_GenesisState option"
  dollarv2_GenesisState_Paused :: bool
  dollarv2_GenesisState_Index :: "64 word"
  dollarv2_GenesisState_Principal :: "(bytes, bytes) cmap"
  dollarv2_GenesisState_Stats :: "dollarv2_Stats option"
  dollarv2_GenesisState_TotalExternalYield :: "(bytes, bytes) cmap"
  dollarv2_GenesisState_YieldRecipients :: "(bytes, bytes) cmap"
  dollarv2_GenesisState_RetryAmounts :: "(bytes, bytes) cmap"
  dollarv2_GenesisState_unknownFields :: bytes

definition dollarv2_GenesisState_size :: "wire_runtime \<Rightarrow> timestamp_codec \<Rightarrow> dollarv2_GenesisState \<Rightarrow> nat" where
  "dollarv2_GenesisState_size rt sc x =
     (case dollarv2_GenesisState_Portal x of None \<Rightarrow> 0 | Some v \<Rightarrow> size_message rt (portalv1_GenesisState_size rt v)) +
     (case dollarv2_GenesisState_Vaults x of None \<Rightarrow> 0 | Some v \<Rightarrow> size_message rt (vaultsv1_GenesisState_size rt sc v)) +
     size_bool (dollarv2_GenesisState_Paused x) +
     size_varint rt (dollarv2_GenesisState_Index x) +
     sum_list (map (\<lambda>e. size_message rt (size_message rt (length (fst e)) + size_message rt (length (snd e)))) (dollarv2_GenesisState_Principal x)) +
     (case dollarv2_GenesisState_Stats x of None \<Rightarrow> 0 | Some v \<Rightarrow> size_message rt (dollarv2_Stats_size rt v)) +
     sum_list (map (\<lambda>e. size_message rt (size_message rt (length (fst e)) + size_message rt (length (snd e)))) (dollarv2_GenesisState_TotalExternalYield x)) +
     sum_list (map (\<lambda>e. size_message rt (size_message rt (length (fst e)) + size_message rt (length (snd e)))) (dollarv2_GenesisState_YieldRecipients x)) +
     sum_list (map (\<lambda>e. size_message rt (size_message rt (length (fst e)) + size_message rt (length (snd e)))) (dollarv2_GenesisState_RetryAmounts x)) +
     length (dollarv2_GenesisState_unknownFields x)"

definition dollarv2_GenesisState_put :: "wire_runtime \<Rightarrow> timestamp_codec \<Rightarrow> bool \<Rightarrow> range_order \<Rightarrow> dollarv2_GenesisState \<Rightarrow> buffer \<Rightarrow> buffer result" where
  "dollarv2_GenesisState_put rt sc deterministic order x b =
     obind (put (dollarv2_GenesisState_unknownFields x) b) (\<lambda>b.
     obind (put_entries deterministic order 9 (\<lambda>e. put_message rt 0x4A (\<lambda>b.
         obind (put_encoded rt 0x12 (snd e) b) (put_encoded rt 0xA (fst e)))) (dollarv2_GenesisState_RetryAmounts x) b) (\<lambda>b.
     obind (put_entries deterministic order 8 (\<lambda>e. put_message rt 0x42 (\<lambda>b.
         obind (put_encoded rt 0x12 (snd e) b) (put_encoded rt 0xA (fst e)))) (dollarv2_GenesisState_YieldRecipients x) b) (\<lambda>b.
     obind (put_entries deterministic order 7 (\<lambda>e. put_message rt 0x3A (\<lambda>b.
         obind (put_encoded rt 0x12 (snd e) b) (put_encoded rt 0xA (fst e)))) (dollarv2_GenesisState_TotalExternalYield x) b) (\<lambda>b.
     obind (put_optional (\<lambda>v b. obind (dollarv2_Stats_marshal rt v) (\<lambda>s. put_encoded rt 0x32 s b)) (dollarv2_GenesisState_Stats x) b) (\<lambda>b.
     obind (put_entries deterministic order 5 (\<lambda>e. put_message rt 0x2A (\<lambda>b.
         obind (put_encoded rt 0x12 (snd e) b) (put_encoded rt 0xA (fst e)))) (dollarv2_GenesisState_Principal x) b) (\<lambda>b.
     obind (put_varint rt 0x20 (dollarv2_GenesisState_Index x) b) (\<lambda>b.
     obind (put_bool 0x18 (dollarv2_GenesisState_Paused x) b) (\<lambda>b.
     obind (put_optional (\<lambda>v b. obind (vaultsv1_GenesisState_marshal rt sc v) (\<lambda>s. put_encoded rt 0x12 s b)) (dollarv2_GenesisState_Vaults x) b) (\<lambda>b.
     obind (put_optional (\<lambda>v b. obind (portalv1_GenesisState_marshal rt deterministic order v) (\<lambda>s. put_encoded rt 0xA s b)) (dollarv2_GenesisState_Portal x) b) Ok)))))))))"

definition dollarv2_GenesisState_marshal :: "wire_runtime \<Rightarrow> timestamp_codec \<Rightarrow> bool \<Rightarrow> range_order \<Rightarrow> dollarv2_GenesisState \<Rightarrow> bytes result" where
  "dollarv2_GenesisState_marshal rt sc deterministic order x =
     obind (dollarv2_GenesisState_put rt sc deterministic order x (dollarv2_GenesisState_size rt sc x, [])) (\<lambda>b. Ok (buffer_bytes b))"

definition dollarv2_GenesisState_field ::
    "wire_runtime \<Rightarrow> bool \<Rightarrow> timestamp_codec \<Rightarrow> int \<Rightarrow> int \<Rightarrow> dollarv2_GenesisState \<Rightarrow> nat \<Rightarrow> bytes \<Rightarrow> (dollarv2_GenesisState \<times> nat) result option" where
  "dollarv2_GenesisState_field rt discardUnknown sc fieldNum wireType x i bs =
     (if fieldNum = 1 then Some (custom_field wireType i (\<lambda>s. the (portalv1_GenesisState_unmarshal_into rt discardUnknown (case dollarv2_GenesisState_Portal x of None \<Rightarrow> portalv1_GenesisState_empty | Some v \<Rightarrow> v) s))
        (\<lambda>v. x\<lparr>dollarv2_GenesisState_Portal := Some v\<rparr>) bs)
      else if fieldNum = 2 then Some (custom_field wireType i (\<lambda>s. the (vaultsv1_GenesisState_unmarshal_into rt discardUnknown sc (case dollarv2_GenesisState_Vaults x of None \<Rightarrow> vaultsv1_GenesisState_empty | Some v \<Rightarrow> v) s))
        (\<lambda>v. x\<lparr>dollarv2_GenesisState_Vaults := Some v\<rparr>) bs)
      else if fieldNum = 3 then Some (bool_field wireType (\<lambda>v. x\<lparr>dollarv2_GenesisState_Paused := v\<rparr>) bs)
      else if fieldNum = 4 then Some (varint_field wireType (\<lambda>v. x\<lparr>dollarv2_GenesisState_Index := v\<rparr>) bs)
      else if fieldNum = 5 then Some (map_field (Skip rt) (entry_field key_text (value_message Ok)) ([], []) wireType i
        (\<lambda>kv. x\<lparr>dollarv2_GenesisState_Principal := Map_Set (fst kv) (snd kv) (dollarv2_GenesisState_Principal x)\<rparr>) bs)
      else if fieldNum = 6 then Some (custom_field wireType i (\<lambda>s. the (dollarv2_Stats_unmarshal_into rt discardUnknown (case dollarv2_GenesisState_Stats x of None \<Rightarrow> dollarv2_Stats_empty | Some v \<Rightarrow> v) s))
        (\<lambda>v. x\<lparr>dollarv2_GenesisState_Stats := Some v\<rparr>) bs)
      else if fieldNum = 7 then Some (map_field (Skip rt) (entry_field key_text (value_message Ok)) ([], []) wireType i
        (\<lambda>kv. x\<lparr>dollarv2_GenesisState_TotalExternalYield := Map_Set (fst kv) (snd kv) (dollarv2_GenesisState_TotalExternalYield x)\<rparr>) bs)
      else if fieldNum = 8 then Some (map_field (Skip rt) (entry_field key_text (value_message Ok)) ([], []) wireType i
        (\<lambda>kv. x\<lparr>dollarv2_GenesisState_YieldRecipients := Map_Set (fst kv) (snd kv) (dollarv2_GenesisState_YieldRecipients x)\<rparr>) bs)
      else if fieldNum = 9 then Some (map_field (Skip rt) (entry_field key_text (value_message Ok)) ([], []) wireType i
        (\<lambda>kv. x\<lparr>dollarv2_GenesisState_RetryAmounts := Map_Set (fst kv) (snd kv) (dollarv2_GenesisState_RetryAmounts x)\<rparr>) bs)
      else None)"

definition dollarv2_GenesisState_empty :: dollarv2_GenesisState where
  "dollarv2_GenesisState_empty = \<lparr>dollarv2_GenesisState_Portal = None, dollarv2_GenesisState_Vaults = None, dollarv2_GenesisState_Paused = False, dollarv2_GenesisState_Index = 0, dollarv2_GenesisState_Principal = [], dollarv2_GenesisState_Stats = None, dollarv2_GenesisState_TotalExternalYield = [], dollarv2_GenesisState_YieldRecipients = [], dollarv2_GenesisState_RetryAmounts = [], dollarv2_GenesisState_unknownFields = []\<rparr>"

definition dollarv2_GenesisState_unmarshal :: "wire_runtime \<Rightarrow> bool \<Rightarrow> timestamp_codec \<Rightarrow> bytes \<Rightarrow> dollarv2_GenesisState result option" where
  "dollarv2_GenesisState_unmarshal rt discardUnknown sc bs =
     read_fields (Skip rt) (dollarv2_GenesisState_field rt discardUnknown sc)
       (\<lambda>u x. if discardUnknown then x else x\<lparr>dollarv2_GenesisState_unknownFields := dollarv2_GenesisState_unknownFields x @ u\<rparr>) dollarv2_GenesisState_empty 0 bs"

definition dollarv2_GenesisState_kept :: "(timestamp \<Rightarrow> bool) \<Rightarrow> dollarv2_GenesisState \<Rightarrow> bool" where
  "dollarv2_GenesisState_kept oks x \<longleftrightarrow>
     dollarv2_GenesisState_unknownFields x = [] \<and>
     (\<forall>v. dollarv2_GenesisState_Portal x = Some v \<longrightarrow> portalv1_GenesisState_kept v) \<and>
     (\<forall>v. dollarv2_GenesisState_Vaults x = Some v \<longrightarrow> vaultsv1_GenesisState_kept oks v) \<and>
     map_ok (dollarv2_GenesisState_Principal x) \<and>
     (\<forall>v. dollarv2_GenesisState_Stats x = Some v \<longrightarrow> dv2_unknownFields v = []) \<and>
     map_ok (dollarv2_GenesisState_TotalExternalYield x) \<and>
     map_ok (dollarv2_GenesisState_YieldRecipients x) \<and>
     map_ok (dollarv2_GenesisState_RetryAmounts x)"

lemma dollarv2_GenesisState_written:
  assumes "varint_runtime rt" "stamp_codec sc oks" "map_range order" "dollarv2_GenesisState_kept oks x"
  shows "writes (dollarv2_GenesisState_marshal rt sc deterministic order x)
    ((case dollarv2_GenesisState_Portal x of None \<Rightarrow> [] | Some v \<Rightarrow> message_bytes rt 0xA (marshalled (portalv1_GenesisState_marshal rt deterministic order v))) @
      (case dollarv2_GenesisState_Vaults x of None \<Rightarrow> [] | Some v \<Rightarrow> message_bytes rt 0x12 (marshalled (vaultsv1_GenesisState_marshal rt sc v))) @
      bool_bytes 0x18 (dollarv2_GenesisState_Paused x) @
      varint_bytes rt 0x20 (dollarv2_GenesisState_Index x) @
      concat (map (\<lambda>e. message_bytes rt 0x2A (message_bytes rt 0xA (fst e) @ message_bytes rt 0x12 (snd e)))
      (entries_order deterministic order 5 (dollarv2_GenesisState_Principal x))) @
      (case dollarv2_GenesisState_Stats x of None \<Rightarrow> [] | Some v \<Rightarrow> message_bytes rt 0x32 (marshalled (dollarv2_Stats_marshal rt v))) @
      concat (map (\<lambda>e. message_bytes rt 0x3A (message_bytes rt 0xA (fst e) @ message_bytes rt 0x12 (snd e)))
      (entries_order deterministic order 7 (dollarv2_GenesisState_TotalExternalYield x))) @
      concat (map (\<lambda>e. message_bytes rt 0x42 (message_bytes rt 0xA (fst e) @ message_bytes rt 0x12 (snd e)))
      (entries_order deterministic order 8 (dollarv2_GenesisState_YieldRecipients x))) @
      concat (map (\<lambda>e. message_bytes rt 0x4A (message_bytes rt 0xA (fst e) @ message_bytes rt 0x12 (snd e)))
      (entries_order deterministic order 9 (dollarv2_GenesisState_RetryAmounts x))) @
      [])
    (dollarv2_GenesisState_size rt sc x)" (is "writes _ ?bs _")
proof -
  note kept = assms(4) [unfolded dollarv2_GenesisState_kept_def]
  have Stats: "dollarv2_Stats_marshal rt v = Ok (marshalled (dollarv2_Stats_marshal rt v))" "length (marshalled (dollarv2_Stats_marshal rt v)) = dollarv2_Stats_size rt v"
      if "dollarv2_GenesisState_Stats x = Some v" for v
    by (rule writes_marshalled [OF dollarv2_Stats_written [OF assms(1)]], use kept that in simp)+
  have Vaults: "vaultsv1_GenesisState_marshal rt sc v = Ok (marshalled (vaultsv1_GenesisState_marshal rt sc v))" "length (marshalled (vaultsv1_GenesisState_marshal rt sc v)) = vaultsv1_GenesisState_size rt sc v"
      if "dollarv2_GenesisState_Vaults x = Some v" for v
    by (rule writes_marshalled [OF vaultsv1_GenesisState_written [OF assms(1,2)]], use kept that in simp)+
  have Portal: "portalv1_GenesisState_marshal rt deterministic order v = Ok (marshalled (portalv1_GenesisState_marshal rt deterministic order v))" "length (marshalled (portalv1_GenesisState_marshal rt deterministic order v)) = portalv1_GenesisState_size rt v"
      if "dollarv2_GenesisState_Portal x = Some v" for v
    by (rule writes_marshalled [OF portalv1_GenesisState_written [OF assms(1,3)]], use kept that in simp)+
  have "fills (dollarv2_GenesisState_put rt sc deterministic order x) ?bs"
    unfolding dollarv2_GenesisState_put_def
    by (rule fills_start, rule fills_step_nil, simp add: kept fills_put_nil,
      rule fills_step, rule fills_put_entries [OF assms(3)], rule fills_put_message [OF assms(1)], rule fills_seq, rule fills_put_encoded [OF assms(1)], rule fills_put_encoded [OF assms(1)],
      rule fills_step, rule fills_put_entries [OF assms(3)], rule fills_put_message [OF assms(1)], rule fills_seq, rule fills_put_encoded [OF assms(1)], rule fills_put_encoded [OF assms(1)],
      rule fills_step, rule fills_put_entries [OF assms(3)], rule fills_put_message [OF assms(1)], rule fills_seq, rule fills_put_encoded [OF assms(1)], rule fills_put_encoded [OF assms(1)],
      rule fills_step, rule fills_put_optional, rule fills_marshal [OF assms(1)], erule Stats(1),
      rule fills_step, rule fills_put_entries [OF assms(3)], rule fills_put_message [OF assms(1)], rule fills_seq, rule fills_put_encoded [OF assms(1)], rule fills_put_encoded [OF assms(1)],
      rule fills_step, rule fills_scalars(1) [OF assms(1)],
      rule fills_step, rule fills_scalars(3),
      rule fills_step, rule fills_put_optional, rule fills_marshal [OF assms(1)], erule Vaults(1),
      rule fills_step, rule fills_put_optional, rule fills_marshal [OF assms(1)], erule Portal(1),
      rule fills_end)
  moreover have "length ?bs = dollarv2_GenesisState_size rt sc x"
    by (simp add: dollarv2_GenesisState_size_def assms(1) kept Stats(2) Vaults(2) Portal(2) length_concat comp_def sum_entries [OF assms(3)] cong: map_cong option.case_cong split: option.split)
  ultimately show ?thesis unfolding writes_def dollarv2_GenesisState_marshal_def by (simp add: fills_buffer)
qed

lemma dollarv2_GenesisState_read:
  assumes "varint_runtime rt" "stamp_codec sc oks" "map_range order" "dollarv2_GenesisState_kept oks x"
    and "length ((case dollarv2_GenesisState_Portal x of None \<Rightarrow> [] | Some v \<Rightarrow> message_bytes rt 0xA (marshalled (portalv1_GenesisState_marshal rt deterministic order v))) @
      (case dollarv2_GenesisState_Vaults x of None \<Rightarrow> [] | Some v \<Rightarrow> message_bytes rt 0x12 (marshalled (vaultsv1_GenesisState_marshal rt sc v))) @
      bool_bytes 0x18 (dollarv2_GenesisState_Paused x) @
      varint_bytes rt 0x20 (dollarv2_GenesisState_Index x) @
      concat (map (\<lambda>e. message_bytes rt 0x2A (message_bytes rt 0xA (fst e) @ message_bytes rt 0x12 (snd e)))
      (entries_order deterministic order 5 (dollarv2_GenesisState_Principal x))) @
      (case dollarv2_GenesisState_Stats x of None \<Rightarrow> [] | Some v \<Rightarrow> message_bytes rt 0x32 (marshalled (dollarv2_Stats_marshal rt v))) @
      concat (map (\<lambda>e. message_bytes rt 0x3A (message_bytes rt 0xA (fst e) @ message_bytes rt 0x12 (snd e)))
      (entries_order deterministic order 7 (dollarv2_GenesisState_TotalExternalYield x))) @
      concat (map (\<lambda>e. message_bytes rt 0x42 (message_bytes rt 0xA (fst e) @ message_bytes rt 0x12 (snd e)))
      (entries_order deterministic order 8 (dollarv2_GenesisState_YieldRecipients x))) @
      concat (map (\<lambda>e. message_bytes rt 0x4A (message_bytes rt 0xA (fst e) @ message_bytes rt 0x12 (snd e)))
      (entries_order deterministic order 9 (dollarv2_GenesisState_RetryAmounts x))) @
      []) < 2 ^ 63" (is "length ?bs < _")
  shows "dollarv2_GenesisState_unmarshal rt' discardUnknown sc ?bs = Some (Ok x)"
proof -
  note kept = assms(4) [unfolded dollarv2_GenesisState_kept_def]
  have Portal: "the (portalv1_GenesisState_unmarshal_into rt' discardUnknown portalv1_GenesisState_empty (marshalled (portalv1_GenesisState_marshal rt deterministic order v))) = Ok v"
      if "dollarv2_GenesisState_Portal x = Some v" "length (marshalled (portalv1_GenesisState_marshal rt deterministic order v)) < 2 ^ 63" for v
    unfolding portalv1_GenesisState_unmarshal_empty
    by (rule exact_reads [OF portalv1_GenesisState_exact [OF assms(1,3)] _ portalv1_GenesisState_written [OF assms(1,3)] that(2)]; use kept that in simp)
  have Vaults: "the (vaultsv1_GenesisState_unmarshal_into rt' discardUnknown sc vaultsv1_GenesisState_empty (marshalled (vaultsv1_GenesisState_marshal rt sc v))) = Ok v"
      if "dollarv2_GenesisState_Vaults x = Some v" "length (marshalled (vaultsv1_GenesisState_marshal rt sc v)) < 2 ^ 63" for v
    unfolding vaultsv1_GenesisState_unmarshal_empty
    by (rule exact_reads [OF vaultsv1_GenesisState_exact [OF assms(1,2)] _ vaultsv1_GenesisState_written [OF assms(1,2)] that(2)]; use kept that in simp)
  have Principal_map: "map_ok (dollarv2_GenesisState_Principal x)" using kept by simp
  have Stats: "the (dollarv2_Stats_unmarshal_into rt' discardUnknown dollarv2_Stats_empty (marshalled (dollarv2_Stats_marshal rt v))) = Ok v"
      if "dollarv2_GenesisState_Stats x = Some v" "length (marshalled (dollarv2_Stats_marshal rt v)) < 2 ^ 63" for v
    unfolding dollarv2_Stats_unmarshal_empty
    by (rule exact_reads [OF dollarv2_Stats_exact [OF assms(1)] _ dollarv2_Stats_written [OF assms(1)] that(2)]; use kept that in simp)
  have TotalExternalYield_map: "map_ok (dollarv2_GenesisState_TotalExternalYield x)" using kept by simp
  have YieldRecipients_map: "map_ok (dollarv2_GenesisState_YieldRecipients x)" using kept by simp
  have RetryAmounts_map: "map_ok (dollarv2_GenesisState_RetryAmounts x)" using kept by simp
  show ?thesis unfolding dollarv2_GenesisState_unmarshal_def
    by (rule readsD [OF _ assms(5)],
      rule reads_optional [where get = dollarv2_GenesisState_Portal and upd = dollarv2_GenesisState_Portal_update and c = "\<lambda>v. v", OF assms(1)], rule wire_tags,
        simp, simp add: dollarv2_GenesisState_empty_def, simp add: dollarv2_GenesisState_field_def dollarv2_GenesisState_empty_def, erule (1) Portal,
      rule reads_optional [where get = dollarv2_GenesisState_Vaults and upd = dollarv2_GenesisState_Vaults_update and c = "\<lambda>v. v", OF assms(1)], rule wire_tags,
        simp, simp add: dollarv2_GenesisState_empty_def, simp add: dollarv2_GenesisState_field_def dollarv2_GenesisState_empty_def, erule (1) Vaults,
      rule reads_bool, rule wire_tags, simp add: dollarv2_GenesisState_field_def, simp add: dollarv2_GenesisState_empty_def,
      rule reads_varint [OF assms(1)], rule wire_tags, simp add: dollarv2_GenesisState_field_def, simp add: dollarv2_GenesisState_empty_def,
      rule reads_entries [where get = dollarv2_GenesisState_Principal and upd = dollarv2_GenesisState_Principal_update and kc = "\<lambda>k. k" and kr = "\<lambda>e. (fst e, snd e)", OF assms(1)], rule wire_tags,
        simp, simp, simp, simp add: dollarv2_GenesisState_field_def, rule entry_reads_text [OF assms(1)], rule entry_reads_value [OF assms(1)], rule refl,
        simp add: dollarv2_GenesisState_empty_def fold_ordered_same [OF Principal_map assms(3)],
      rule reads_optional [where get = dollarv2_GenesisState_Stats and upd = dollarv2_GenesisState_Stats_update and c = "\<lambda>v. v", OF assms(1)], rule wire_tags,
        simp, simp add: dollarv2_GenesisState_empty_def, simp add: dollarv2_GenesisState_field_def dollarv2_GenesisState_empty_def, erule (1) Stats,
      rule reads_entries [where get = dollarv2_GenesisState_TotalExternalYield and upd = dollarv2_GenesisState_TotalExternalYield_update and kc = "\<lambda>k. k" and kr = "\<lambda>e. (fst e, snd e)", OF assms(1)], rule wire_tags,
        simp, simp, simp, simp add: dollarv2_GenesisState_field_def, rule entry_reads_text [OF assms(1)], rule entry_reads_value [OF assms(1)], rule refl,
        simp add: dollarv2_GenesisState_empty_def fold_ordered_same [OF TotalExternalYield_map assms(3)],
      rule reads_entries [where get = dollarv2_GenesisState_YieldRecipients and upd = dollarv2_GenesisState_YieldRecipients_update and kc = "\<lambda>k. k" and kr = "\<lambda>e. (fst e, snd e)", OF assms(1)], rule wire_tags,
        simp, simp, simp, simp add: dollarv2_GenesisState_field_def, rule entry_reads_text [OF assms(1)], rule entry_reads_value [OF assms(1)], rule refl,
        simp add: dollarv2_GenesisState_empty_def fold_ordered_same [OF YieldRecipients_map assms(3)],
      rule reads_entries [where get = dollarv2_GenesisState_RetryAmounts and upd = dollarv2_GenesisState_RetryAmounts_update and kc = "\<lambda>k. k" and kr = "\<lambda>e. (fst e, snd e)", OF assms(1)], rule wire_tags,
        simp, simp, simp, simp add: dollarv2_GenesisState_field_def, rule entry_reads_text [OF assms(1)], rule entry_reads_value [OF assms(1)], rule refl,
        simp add: dollarv2_GenesisState_empty_def fold_ordered_same [OF RetryAmounts_map assms(3)],
      rule reads_done, simp add: dollarv2_GenesisState_empty_def kept option.map_ident)
qed

lemma dollarv2_GenesisState_exact:
  assumes "varint_runtime rt" "stamp_codec sc oks" "map_range order"
  shows "exact_codec (dollarv2_GenesisState_size rt sc) (dollarv2_GenesisState_marshal rt sc deterministic order)
    (dollarv2_GenesisState_unmarshal rt' discardUnknown sc) (dollarv2_GenesisState_kept oks)"
  by (rule exact_codecI, rule dollarv2_GenesisState_written [OF assms], assumption, rule dollarv2_GenesisState_read [OF assms]; assumption)

lemma dollarv2_GenesisState_returns:
  "skip_progress (Skip rt) \<Longrightarrow> \<exists>r. dollarv2_GenesisState_unmarshal rt discardUnknown sc bs = Some r"
  unfolding dollarv2_GenesisState_unmarshal_def by (rule read_fields_returns)

lemmas api_nested_exact =
  vaultsv1_Position_exact vaultsv1_PositionEntry_exact
  vaultsv1_QueryPositionsByProviderResponse_exact
  vaultsv1_QueryPendingRewardsByProviderResponse_exact
  portalv1_QueryDestinationTokensResponse_exact portalv1_QueryPeersResponse_exact
  dollarv2_QueryStatsResponse_exact dollarv2_QueryYieldRecipientsResponse_exact
  dollarv2_QueryRetryAmountsResponse_exact portalv1_GenesisState_exact vaultsv1_GenesisState_exact
  dollarv1_GenesisState_exact dollarv2_GenesisState_exact

lemmas api_nested_returns =
  vaultsv1_Position_returns vaultsv1_PositionEntry_returns
  vaultsv1_QueryPositionsByProviderResponse_returns
  vaultsv1_QueryPendingRewardsByProviderResponse_returns
  portalv1_QueryDestinationTokensResponse_returns portalv1_QueryPeersResponse_returns
  dollarv2_QueryStatsResponse_returns dollarv2_QueryYieldRecipientsResponse_returns
  dollarv2_QueryRetryAmountsResponse_returns portalv1_GenesisState_returns
  vaultsv1_GenesisState_returns dollarv1_GenesisState_returns dollarv2_GenesisState_returns

end
