(* ===== verification/Codec_Nested.thy ===== *)
theory Codec_Nested
  imports Api_Nested Codec_Query Codec_Data
begin

text \<open>
  The messages with nested messages, lists, maps or times as the chain writes them. An element
  writes itself with \<open>MarshalToSizedBuffer\<close> in front of what is written already; a message in a
  message is read in place. Of a map the bytes depend on the order in which Go ranges over it, what
  is read from them does not.
\<close>

subsection \<open>BridgingPath (portal) inside a message\<close>

definition portal_BridgingPath_MarshalToSizedBuffer :: "portal_BridgingPath \<Rightarrow> buffer \<Rightarrow> buffer result" where
  "portal_BridgingPath_MarshalToSizedBuffer x b =
     obind (put_delimited gogo_runtime 0x12 (portal_BridgingPath_DestinationToken x) b) (\<lambda>b.
     obind (put_varint gogo_runtime 0x8 (ucast (portal_BridgingPath_DestinationChainId x)) b) Ok)"

lemma portal_BridgingPath_filled:
  "writes (portal_BridgingPath_Marshal x)
    (varint_bytes gogo_runtime 0x8 (ucast (portal_BridgingPath_DestinationChainId x)) @
      delimited_bytes gogo_runtime 0x12 (portal_BridgingPath_DestinationToken x) @
      [])
    (portal_BridgingPath_Size x)" (is "writes _ ?bs _")
  "fills (portal_BridgingPath_MarshalToSizedBuffer x) (marshalled (portal_BridgingPath_Marshal x))"
proof -
  have f: "fills (portal_BridgingPath_MarshalToSizedBuffer x) ?bs"
    unfolding portal_BridgingPath_MarshalToSizedBuffer_def
    by (rule fills_start,
      rule fills_step, rule fills_scalars(2) [OF gogo_varint],
      rule fills_step, rule fills_scalars(1) [OF gogo_varint],
      rule fills_end)
  have l: "length ?bs = portal_BridgingPath_Size x"
    by (simp add: portal_BridgingPath_Size_def gogo_varint custom_message)
  have m: "portal_BridgingPath_Marshal x = obind (portal_BridgingPath_MarshalToSizedBuffer x (portal_BridgingPath_Size x, [])) (\<lambda>b. Ok (sized_bytes b))"
    by (simp add: portal_BridgingPath_Marshal_def portal_BridgingPath_MarshalToSizedBuffer_def obind_assoc)
  show "writes (portal_BridgingPath_Marshal x) ?bs (portal_BridgingPath_Size x)" "fills (portal_BridgingPath_MarshalToSizedBuffer x) (marshalled (portal_BridgingPath_Marshal x))"
    by (rule fills_marshalled [OF f l m])+
qed

subsection \<open>Peer (portal) inside a message\<close>

definition portal_Peer_MarshalToSizedBuffer :: "portal_Peer \<Rightarrow> buffer \<Rightarrow> buffer result" where
  "portal_Peer_MarshalToSizedBuffer x b =
     obind (put_delimited gogo_runtime 0x12 (portal_Peer_Manager x) b) (\<lambda>b.
     obind (put_delimited gogo_runtime 0xA (portal_Peer_Transceiver x) b) Ok)"

lemma portal_Peer_filled:
  "writes (portal_Peer_Marshal x)
    (delimited_bytes gogo_runtime 0xA (portal_Peer_Transceiver x) @
      delimited_bytes gogo_runtime 0x12 (portal_Peer_Manager x) @
      [])
    (portal_Peer_Size x)" (is "writes _ ?bs _")
  "fills (portal_Peer_MarshalToSizedBuffer x) (marshalled (portal_Peer_Marshal x))"
proof -
  have f: "fills (portal_Peer_MarshalToSizedBuffer x) ?bs"
    unfolding portal_Peer_MarshalToSizedBuffer_def
    by (rule fills_start,
      rule fills_step, rule fills_scalars(2) [OF gogo_varint],
      rule fills_step, rule fills_scalars(2) [OF gogo_varint],
      rule fills_end)
  have l: "length ?bs = portal_Peer_Size x"
    by (simp add: portal_Peer_Size_def gogo_varint custom_message)
  have m: "portal_Peer_Marshal x = obind (portal_Peer_MarshalToSizedBuffer x (portal_Peer_Size x, [])) (\<lambda>b. Ok (sized_bytes b))"
    by (simp add: portal_Peer_Marshal_def portal_Peer_MarshalToSizedBuffer_def obind_assoc)
  show "writes (portal_Peer_Marshal x) ?bs (portal_Peer_Size x)" "fills (portal_Peer_MarshalToSizedBuffer x) (marshalled (portal_Peer_Marshal x))"
    by (rule fills_marshalled [OF f l m])+
qed

definition portal_Peer_empty :: portal_Peer where
  "portal_Peer_empty = \<lparr>portal_Peer_Transceiver = [], portal_Peer_Manager = []\<rparr>"

subsection \<open>Stats (types) inside a message\<close>

definition types_Stats_MarshalToSizedBuffer :: "custom \<Rightarrow> types_Stats \<Rightarrow> buffer \<Rightarrow> buffer result" where
  "types_Stats_MarshalToSizedBuffer ic x b =
     obind (put_custom 0x1A (Custom_Marshal ic (types_Stats_TotalYieldAccrued x)) b) (\<lambda>b.
     obind (put_custom 0x12 (Custom_Marshal ic (types_Stats_TotalPrincipal x)) b) (\<lambda>b.
     obind (put_varint gogo_runtime 0x8 (types_Stats_TotalHolders x) b) Ok))"

lemma types_Stats_filled:
  "writes (types_Stats_Marshal ic x)
    (varint_bytes gogo_runtime 0x8 (types_Stats_TotalHolders x) @
      message_bytes gogo_runtime 0x12 (Custom_Marshal ic (types_Stats_TotalPrincipal x)) @
      message_bytes gogo_runtime 0x1A (Custom_Marshal ic (types_Stats_TotalYieldAccrued x)) @
      [])
    (types_Stats_Size ic x)" (is "writes _ ?bs _")
  "fills (types_Stats_MarshalToSizedBuffer ic x) (marshalled (types_Stats_Marshal ic x))"
proof -
  have f: "fills (types_Stats_MarshalToSizedBuffer ic x) ?bs"
    unfolding types_Stats_MarshalToSizedBuffer_def
    by (rule fills_start,
      rule fills_step, rule fills_put_custom,
      rule fills_step, rule fills_put_custom,
      rule fills_step, rule fills_scalars(1) [OF gogo_varint],
      rule fills_end)
  have l: "length ?bs = types_Stats_Size ic x"
    by (simp add: types_Stats_Size_def gogo_varint custom_message)
  have m: "types_Stats_Marshal ic x = obind (types_Stats_MarshalToSizedBuffer ic x (types_Stats_Size ic x, [])) (\<lambda>b. Ok (sized_bytes b))"
    by (simp add: types_Stats_Marshal_def types_Stats_MarshalToSizedBuffer_def obind_assoc)
  show "writes (types_Stats_Marshal ic x) ?bs (types_Stats_Size ic x)" "fills (types_Stats_MarshalToSizedBuffer ic x) (marshalled (types_Stats_Marshal ic x))"
    by (rule fills_marshalled [OF f l m])+
qed

definition types_Stats_empty :: types_Stats where
  "types_Stats_empty = \<lparr>types_Stats_TotalHolders = 0, types_Stats_TotalPrincipal = None, types_Stats_TotalYieldAccrued = None\<rparr>"

definition types_Stats_UnmarshalInto :: "custom \<Rightarrow> types_Stats \<Rightarrow> bytes \<Rightarrow> types_Stats result option" where
  "types_Stats_UnmarshalInto ic x bs = read_fields (Skip gogo_runtime) (types_Stats_field ic) (\<lambda>u x. x) x 0 bs"

lemma types_Stats_Unmarshal_empty: "types_Stats_UnmarshalInto ic types_Stats_empty = types_Stats_Unmarshal ic"
  by (rule ext) (simp add: types_Stats_UnmarshalInto_def types_Stats_Unmarshal_def types_Stats_empty_def)

subsection \<open>QueryStatsResponse_ExternalYield (v2) inside a message\<close>

definition v2_QueryStatsResponse_ExternalYield_MarshalToSizedBuffer :: "custom \<Rightarrow> v2_QueryStatsResponse_ExternalYield \<Rightarrow> buffer \<Rightarrow> buffer result" where
  "v2_QueryStatsResponse_ExternalYield_MarshalToSizedBuffer ic x b =
     obind (put_custom 0x12 (Custom_Marshal ic (v2_QueryStatsResponse_ExternalYield_Amount x)) b) (\<lambda>b.
     obind (put_delimited gogo_runtime 0xA (v2_QueryStatsResponse_ExternalYield_ChainId x) b) Ok)"

lemma v2_QueryStatsResponse_ExternalYield_filled:
  "writes (v2_QueryStatsResponse_ExternalYield_Marshal ic x)
    (delimited_bytes gogo_runtime 0xA (v2_QueryStatsResponse_ExternalYield_ChainId x) @
      message_bytes gogo_runtime 0x12 (Custom_Marshal ic (v2_QueryStatsResponse_ExternalYield_Amount x)) @
      [])
    (v2_QueryStatsResponse_ExternalYield_Size ic x)" (is "writes _ ?bs _")
  "fills (v2_QueryStatsResponse_ExternalYield_MarshalToSizedBuffer ic x) (marshalled (v2_QueryStatsResponse_ExternalYield_Marshal ic x))"
proof -
  have f: "fills (v2_QueryStatsResponse_ExternalYield_MarshalToSizedBuffer ic x) ?bs"
    unfolding v2_QueryStatsResponse_ExternalYield_MarshalToSizedBuffer_def
    by (rule fills_start,
      rule fills_step, rule fills_put_custom,
      rule fills_step, rule fills_scalars(2) [OF gogo_varint],
      rule fills_end)
  have l: "length ?bs = v2_QueryStatsResponse_ExternalYield_Size ic x"
    by (simp add: v2_QueryStatsResponse_ExternalYield_Size_def gogo_varint custom_message)
  have m: "v2_QueryStatsResponse_ExternalYield_Marshal ic x = obind (v2_QueryStatsResponse_ExternalYield_MarshalToSizedBuffer ic x (v2_QueryStatsResponse_ExternalYield_Size ic x, [])) (\<lambda>b. Ok (sized_bytes b))"
    by (simp add: v2_QueryStatsResponse_ExternalYield_Marshal_def v2_QueryStatsResponse_ExternalYield_MarshalToSizedBuffer_def obind_assoc)
  show "writes (v2_QueryStatsResponse_ExternalYield_Marshal ic x) ?bs (v2_QueryStatsResponse_ExternalYield_Size ic x)" "fills (v2_QueryStatsResponse_ExternalYield_MarshalToSizedBuffer ic x) (marshalled (v2_QueryStatsResponse_ExternalYield_Marshal ic x))"
    by (rule fills_marshalled [OF f l m])+
qed

definition v2_QueryStatsResponse_ExternalYield_empty :: v2_QueryStatsResponse_ExternalYield where
  "v2_QueryStatsResponse_ExternalYield_empty = \<lparr>v2_QueryStatsResponse_ExternalYield_ChainId = [], v2_QueryStatsResponse_ExternalYield_Amount = None\<rparr>"

subsection \<open>Stats (v2) inside a message\<close>

definition v2_Stats_MarshalToSizedBuffer :: "custom \<Rightarrow> v2_Stats \<Rightarrow> buffer \<Rightarrow> buffer result" where
  "v2_Stats_MarshalToSizedBuffer ic x b =
     obind (put_custom 0x1A (Custom_Marshal ic (v2_Stats_TotalYieldAccrued x)) b) (\<lambda>b.
     obind (put_custom 0x12 (Custom_Marshal ic (v2_Stats_TotalPrincipal x)) b) (\<lambda>b.
     obind (put_varint gogo_runtime 0x8 (v2_Stats_TotalHolders x) b) Ok))"

lemma v2_Stats_filled:
  "writes (v2_Stats_Marshal ic x)
    (varint_bytes gogo_runtime 0x8 (v2_Stats_TotalHolders x) @
      message_bytes gogo_runtime 0x12 (Custom_Marshal ic (v2_Stats_TotalPrincipal x)) @
      message_bytes gogo_runtime 0x1A (Custom_Marshal ic (v2_Stats_TotalYieldAccrued x)) @
      [])
    (v2_Stats_Size ic x)" (is "writes _ ?bs _")
  "fills (v2_Stats_MarshalToSizedBuffer ic x) (marshalled (v2_Stats_Marshal ic x))"
proof -
  have f: "fills (v2_Stats_MarshalToSizedBuffer ic x) ?bs"
    unfolding v2_Stats_MarshalToSizedBuffer_def
    by (rule fills_start,
      rule fills_step, rule fills_put_custom,
      rule fills_step, rule fills_put_custom,
      rule fills_step, rule fills_scalars(1) [OF gogo_varint],
      rule fills_end)
  have l: "length ?bs = v2_Stats_Size ic x"
    by (simp add: v2_Stats_Size_def gogo_varint custom_message)
  have m: "v2_Stats_Marshal ic x = obind (v2_Stats_MarshalToSizedBuffer ic x (v2_Stats_Size ic x, [])) (\<lambda>b. Ok (sized_bytes b))"
    by (simp add: v2_Stats_Marshal_def v2_Stats_MarshalToSizedBuffer_def obind_assoc)
  show "writes (v2_Stats_Marshal ic x) ?bs (v2_Stats_Size ic x)" "fills (v2_Stats_MarshalToSizedBuffer ic x) (marshalled (v2_Stats_Marshal ic x))"
    by (rule fills_marshalled [OF f l m])+
qed

definition v2_Stats_empty :: v2_Stats where
  "v2_Stats_empty = \<lparr>v2_Stats_TotalHolders = 0, v2_Stats_TotalPrincipal = None, v2_Stats_TotalYieldAccrued = None\<rparr>"

definition v2_Stats_UnmarshalInto :: "custom \<Rightarrow> v2_Stats \<Rightarrow> bytes \<Rightarrow> v2_Stats result option" where
  "v2_Stats_UnmarshalInto ic x bs = read_fields (Skip gogo_runtime) (v2_Stats_field ic) (\<lambda>u x. x) x 0 bs"

lemma v2_Stats_Unmarshal_empty: "v2_Stats_UnmarshalInto ic v2_Stats_empty = v2_Stats_Unmarshal ic"
  by (rule ext) (simp add: v2_Stats_UnmarshalInto_def v2_Stats_Unmarshal_def v2_Stats_empty_def)

subsection \<open>PositionRewards (vaults) inside a message\<close>

definition vaults_PositionRewards_MarshalToSizedBuffer :: "custom \<Rightarrow> vaults_PositionRewards \<Rightarrow> buffer \<Rightarrow> buffer result" where
  "vaults_PositionRewards_MarshalToSizedBuffer ic x b =
     obind (put_custom 0x12 (Custom_Marshal ic (vaults_PositionRewards_PendingRewards x)) b) (\<lambda>b.
     obind (put_custom 0xA (Custom_Marshal ic (vaults_PositionRewards_Amount x)) b) Ok)"

lemma vaults_PositionRewards_filled:
  "writes (vaults_PositionRewards_Marshal ic x)
    (message_bytes gogo_runtime 0xA (Custom_Marshal ic (vaults_PositionRewards_Amount x)) @
      message_bytes gogo_runtime 0x12 (Custom_Marshal ic (vaults_PositionRewards_PendingRewards x)) @
      [])
    (vaults_PositionRewards_Size ic x)" (is "writes _ ?bs _")
  "fills (vaults_PositionRewards_MarshalToSizedBuffer ic x) (marshalled (vaults_PositionRewards_Marshal ic x))"
proof -
  have f: "fills (vaults_PositionRewards_MarshalToSizedBuffer ic x) ?bs"
    unfolding vaults_PositionRewards_MarshalToSizedBuffer_def
    by (rule fills_start,
      rule fills_step, rule fills_put_custom,
      rule fills_step, rule fills_put_custom,
      rule fills_end)
  have l: "length ?bs = vaults_PositionRewards_Size ic x"
    by (simp add: vaults_PositionRewards_Size_def gogo_varint custom_message)
  have m: "vaults_PositionRewards_Marshal ic x = obind (vaults_PositionRewards_MarshalToSizedBuffer ic x (vaults_PositionRewards_Size ic x, [])) (\<lambda>b. Ok (sized_bytes b))"
    by (simp add: vaults_PositionRewards_Marshal_def vaults_PositionRewards_MarshalToSizedBuffer_def obind_assoc)
  show "writes (vaults_PositionRewards_Marshal ic x) ?bs (vaults_PositionRewards_Size ic x)" "fills (vaults_PositionRewards_MarshalToSizedBuffer ic x) (marshalled (vaults_PositionRewards_Marshal ic x))"
    by (rule fills_marshalled [OF f l m])+
qed

subsection \<open>Reward (vaults) inside a message\<close>

definition vaults_Reward_MarshalToSizedBuffer :: "custom \<Rightarrow> vaults_Reward \<Rightarrow> buffer \<Rightarrow> buffer result" where
  "vaults_Reward_MarshalToSizedBuffer ic x b =
     obind (put_custom 0x1A (Custom_Marshal ic (vaults_Reward_Rewards x)) b) (\<lambda>b.
     obind (put_custom 0x12 (Custom_Marshal ic (vaults_Reward_Total x)) b) (\<lambda>b.
     obind (put_varint gogo_runtime 0x8 (vaults_Reward_Index x) b) Ok))"

lemma vaults_Reward_filled:
  "writes (vaults_Reward_Marshal ic x)
    (varint_bytes gogo_runtime 0x8 (vaults_Reward_Index x) @
      message_bytes gogo_runtime 0x12 (Custom_Marshal ic (vaults_Reward_Total x)) @
      message_bytes gogo_runtime 0x1A (Custom_Marshal ic (vaults_Reward_Rewards x)) @
      [])
    (vaults_Reward_Size ic x)" (is "writes _ ?bs _")
  "fills (vaults_Reward_MarshalToSizedBuffer ic x) (marshalled (vaults_Reward_Marshal ic x))"
proof -
  have f: "fills (vaults_Reward_MarshalToSizedBuffer ic x) ?bs"
    unfolding vaults_Reward_MarshalToSizedBuffer_def
    by (rule fills_start,
      rule fills_step, rule fills_put_custom,
      rule fills_step, rule fills_put_custom,
      rule fills_step, rule fills_scalars(1) [OF gogo_varint],
      rule fills_end)
  have l: "length ?bs = vaults_Reward_Size ic x"
    by (simp add: vaults_Reward_Size_def gogo_varint custom_message)
  have m: "vaults_Reward_Marshal ic x = obind (vaults_Reward_MarshalToSizedBuffer ic x (vaults_Reward_Size ic x, [])) (\<lambda>b. Ok (sized_bytes b))"
    by (simp add: vaults_Reward_Marshal_def vaults_Reward_MarshalToSizedBuffer_def obind_assoc)
  show "writes (vaults_Reward_Marshal ic x) ?bs (vaults_Reward_Size ic x)" "fills (vaults_Reward_MarshalToSizedBuffer ic x) (marshalled (vaults_Reward_Marshal ic x))"
    by (rule fills_marshalled [OF f l m])+
qed

subsection \<open>Stats (vaults) inside a message\<close>

definition vaults_Stats_MarshalToSizedBuffer :: "custom \<Rightarrow> vaults_Stats \<Rightarrow> buffer \<Rightarrow> buffer result" where
  "vaults_Stats_MarshalToSizedBuffer ic x b =
     obind (put_varint gogo_runtime 0x28 (vaults_Stats_StakedTotalUsers x) b) (\<lambda>b.
     obind (put_custom 0x22 (Custom_Marshal ic (vaults_Stats_StakedTotalPrincipal x)) b) (\<lambda>b.
     obind (put_custom 0x1A (Custom_Marshal ic (vaults_Stats_FlexibleTotalDistributedRewardsPrincipal x)) b) (\<lambda>b.
     obind (put_varint gogo_runtime 0x10 (vaults_Stats_FlexibleTotalUsers x) b) (\<lambda>b.
     obind (put_custom 0xA (Custom_Marshal ic (vaults_Stats_FlexibleTotalPrincipal x)) b) Ok))))"

lemma vaults_Stats_filled:
  "writes (vaults_Stats_Marshal ic x)
    (message_bytes gogo_runtime 0xA (Custom_Marshal ic (vaults_Stats_FlexibleTotalPrincipal x)) @
      varint_bytes gogo_runtime 0x10 (vaults_Stats_FlexibleTotalUsers x) @
      message_bytes gogo_runtime 0x1A (Custom_Marshal ic (vaults_Stats_FlexibleTotalDistributedRewardsPrincipal x)) @
      message_bytes gogo_runtime 0x22 (Custom_Marshal ic (vaults_Stats_StakedTotalPrincipal x)) @
      varint_bytes gogo_runtime 0x28 (vaults_Stats_StakedTotalUsers x) @
      [])
    (vaults_Stats_Size ic x)" (is "writes _ ?bs _")
  "fills (vaults_Stats_MarshalToSizedBuffer ic x) (marshalled (vaults_Stats_Marshal ic x))"
proof -
  have f: "fills (vaults_Stats_MarshalToSizedBuffer ic x) ?bs"
    unfolding vaults_Stats_MarshalToSizedBuffer_def
    by (rule fills_start,
      rule fills_step, rule fills_scalars(1) [OF gogo_varint],
      rule fills_step, rule fills_put_custom,
      rule fills_step, rule fills_put_custom,
      rule fills_step, rule fills_scalars(1) [OF gogo_varint],
      rule fills_step, rule fills_put_custom,
      rule fills_end)
  have l: "length ?bs = vaults_Stats_Size ic x"
    by (simp add: vaults_Stats_Size_def gogo_varint custom_message)
  have m: "vaults_Stats_Marshal ic x = obind (vaults_Stats_MarshalToSizedBuffer ic x (vaults_Stats_Size ic x, [])) (\<lambda>b. Ok (sized_bytes b))"
    by (simp add: vaults_Stats_Marshal_def vaults_Stats_MarshalToSizedBuffer_def obind_assoc)
  show "writes (vaults_Stats_Marshal ic x) ?bs (vaults_Stats_Size ic x)" "fills (vaults_Stats_MarshalToSizedBuffer ic x) (marshalled (vaults_Stats_Marshal ic x))"
    by (rule fills_marshalled [OF f l m])+
qed

definition vaults_Stats_empty :: vaults_Stats where
  "vaults_Stats_empty = \<lparr>vaults_Stats_FlexibleTotalPrincipal = None, vaults_Stats_FlexibleTotalUsers = 0, vaults_Stats_FlexibleTotalDistributedRewardsPrincipal = None, vaults_Stats_StakedTotalPrincipal = None, vaults_Stats_StakedTotalUsers = 0\<rparr>"

definition vaults_Stats_UnmarshalInto :: "custom \<Rightarrow> vaults_Stats \<Rightarrow> bytes \<Rightarrow> vaults_Stats result option" where
  "vaults_Stats_UnmarshalInto ic x bs = read_fields (Skip gogo_runtime) (vaults_Stats_field ic) (\<lambda>u x. x) x 0 bs"

lemma vaults_Stats_Unmarshal_empty: "vaults_Stats_UnmarshalInto ic vaults_Stats_empty = vaults_Stats_Unmarshal ic"
  by (rule ext) (simp add: vaults_Stats_UnmarshalInto_def vaults_Stats_Unmarshal_def vaults_Stats_empty_def)

subsection \<open>Position (vaults)\<close>

text \<open>\<open>Position\<close> of \<open>types/vaults/vaults.pb.go\<close>.\<close>

record vaults_Position =
  vaults_Position_Principal :: "int option"
  vaults_Position_Index :: "64 word"
  vaults_Position_Amount :: "int option"
  vaults_Position_Time :: int

definition vaults_Position_Size :: "custom \<Rightarrow> std_time \<Rightarrow> vaults_Position \<Rightarrow> nat" where
  "vaults_Position_Size ic tc x =
     size_custom (Custom_Marshal ic (vaults_Position_Principal x)) +
     size_varint gogo_runtime (vaults_Position_Index x) +
     size_custom (Custom_Marshal ic (vaults_Position_Amount x)) +
     size_message gogo_runtime (SizeOfStdTime tc (vaults_Position_Time x))"

definition vaults_Position_MarshalToSizedBuffer :: "custom \<Rightarrow> std_time \<Rightarrow> vaults_Position \<Rightarrow> buffer \<Rightarrow> buffer result" where
  "vaults_Position_MarshalToSizedBuffer ic tc x b =
     obind (obind (StdTimeMarshal tc (vaults_Position_Time x)) (\<lambda>s. put_encoded gogo_runtime 0x22 s b)) (\<lambda>b.
     obind (put_custom 0x1A (Custom_Marshal ic (vaults_Position_Amount x)) b) (\<lambda>b.
     obind (put_varint gogo_runtime 0x10 (vaults_Position_Index x) b) (\<lambda>b.
     obind (put_custom 0xA (Custom_Marshal ic (vaults_Position_Principal x)) b) Ok)))"

definition vaults_Position_Marshal :: "custom \<Rightarrow> std_time \<Rightarrow> vaults_Position \<Rightarrow> bytes result" where
  "vaults_Position_Marshal ic tc x =
     obind (vaults_Position_MarshalToSizedBuffer ic tc x (vaults_Position_Size ic tc x, [])) (\<lambda>b. Ok (sized_bytes b))"

definition vaults_Position_field ::
    "custom \<Rightarrow> std_time \<Rightarrow> int \<Rightarrow> int \<Rightarrow> vaults_Position \<Rightarrow> nat \<Rightarrow> bytes \<Rightarrow> (vaults_Position \<times> nat) result option" where
  "vaults_Position_field ic tc fieldNum wireType x i bs =
     (if fieldNum = 1 then Some (custom_field wireType i (Custom_Unmarshal ic (vaults_Position_Principal x)) (\<lambda>v. x\<lparr>vaults_Position_Principal := v\<rparr>) bs)
      else if fieldNum = 2 then Some (varint_field wireType (\<lambda>v. x\<lparr>vaults_Position_Index := v\<rparr>) bs)
      else if fieldNum = 3 then Some (custom_field wireType i (Custom_Unmarshal ic (vaults_Position_Amount x)) (\<lambda>v. x\<lparr>vaults_Position_Amount := v\<rparr>) bs)
      else if fieldNum = 4 then Some (custom_field wireType i (StdTimeUnmarshal tc) (\<lambda>v. x\<lparr>vaults_Position_Time := v\<rparr>) bs)
      else None)"

definition vaults_Position_empty :: vaults_Position where
  "vaults_Position_empty = \<lparr>vaults_Position_Principal = None, vaults_Position_Index = 0, vaults_Position_Amount = None, vaults_Position_Time = zero_time\<rparr>"

definition vaults_Position_Unmarshal :: "custom \<Rightarrow> std_time \<Rightarrow> bytes \<Rightarrow> vaults_Position result option" where
  "vaults_Position_Unmarshal ic tc bs = read_fields (Skip gogo_runtime) (vaults_Position_field ic tc) (\<lambda>u x. x) vaults_Position_empty 0 bs"

definition vaults_Position_kept :: "(int \<Rightarrow> bool) \<Rightarrow> (int \<Rightarrow> bool) \<Rightarrow> vaults_Position \<Rightarrow> bool" where
  "vaults_Position_kept ok okt x \<longleftrightarrow>
     given ok (vaults_Position_Principal x) \<and>
     given ok (vaults_Position_Amount x) \<and>
     okt (vaults_Position_Time x)"

lemma vaults_Position_filled:
  assumes "custom_codec ic ok" "time_codec tc okt" "vaults_Position_kept ok okt x"
  shows "writes (vaults_Position_Marshal ic tc x)
    (message_bytes gogo_runtime 0xA (Custom_Marshal ic (vaults_Position_Principal x)) @
      varint_bytes gogo_runtime 0x10 (vaults_Position_Index x) @
      message_bytes gogo_runtime 0x1A (Custom_Marshal ic (vaults_Position_Amount x)) @
      message_bytes gogo_runtime 0x22 (marshalled (StdTimeMarshal tc (vaults_Position_Time x))) @
      [])
    (vaults_Position_Size ic tc x)" (is "writes _ ?bs _")
    "fills (vaults_Position_MarshalToSizedBuffer ic tc x) (marshalled (vaults_Position_Marshal ic tc x))"
proof -
  note kept = assms(3) [unfolded vaults_Position_kept_def]
  note Time = time_codecD [OF assms(2), of "vaults_Position_Time x"]
  have f: "fills (vaults_Position_MarshalToSizedBuffer ic tc x) ?bs"
    unfolding vaults_Position_MarshalToSizedBuffer_def
    by (rule fills_start,
      rule fills_step, rule fills_marshal [OF gogo_varint Time(1)], simp add: kept,
      rule fills_step, rule fills_put_custom,
      rule fills_step, rule fills_scalars(1) [OF gogo_varint],
      rule fills_step, rule fills_put_custom,
      rule fills_end)
  have l: "length ?bs = vaults_Position_Size ic tc x"
    by (simp add: vaults_Position_Size_def gogo_varint custom_message kept Time(2) length_concat comp_def cong: map_cong)
  show "writes (vaults_Position_Marshal ic tc x) ?bs (vaults_Position_Size ic tc x)" "fills (vaults_Position_MarshalToSizedBuffer ic tc x) (marshalled (vaults_Position_Marshal ic tc x))"
    by (rule fills_marshalled [OF f l vaults_Position_Marshal_def])+
qed

lemma vaults_Position_read:
  assumes "custom_codec ic ok" "time_codec tc okt" "vaults_Position_kept ok okt x"
    and "length (message_bytes gogo_runtime 0xA (Custom_Marshal ic (vaults_Position_Principal x)) @
      varint_bytes gogo_runtime 0x10 (vaults_Position_Index x) @
      message_bytes gogo_runtime 0x1A (Custom_Marshal ic (vaults_Position_Amount x)) @
      message_bytes gogo_runtime 0x22 (marshalled (StdTimeMarshal tc (vaults_Position_Time x))) @
      []) < 2 ^ 63" (is "length ?bs < _")
  shows "vaults_Position_Unmarshal ic tc ?bs = Some (Ok x)"
proof -
  note kept = assms(3) [unfolded vaults_Position_kept_def]
  show ?thesis unfolding vaults_Position_Unmarshal_def
    by (rule readsD [OF _ assms(4)],
      rule reads_message [OF gogo_varint], rule wire_tags, simp add: vaults_Position_field_def, simp add: givenD [OF assms(1)] kept,
      rule reads_varint [OF gogo_varint], rule wire_tags, simp add: vaults_Position_field_def, simp add: vaults_Position_empty_def,
      rule reads_message [OF gogo_varint], rule wire_tags, simp add: vaults_Position_field_def, simp add: givenD [OF assms(1)] kept,
      rule reads_message [OF gogo_varint], rule wire_tags, simp add: vaults_Position_field_def, simp add: time_codecD(3) [OF assms(2)] kept,
      rule reads_done, simp add: vaults_Position_empty_def)
qed

lemma vaults_Position_exact:
  assumes "custom_codec ic ok" "time_codec tc okt"
  shows "exact_codec (vaults_Position_Size ic tc) (vaults_Position_Marshal ic tc)
    (vaults_Position_Unmarshal ic tc) (vaults_Position_kept ok okt)"
  by (rule exact_codecI, rule vaults_Position_filled(1) [OF assms], assumption, rule vaults_Position_read [OF assms]; assumption)

lemma vaults_Position_returns: "\<exists>r. vaults_Position_Unmarshal ic tc bs = Some r"
  unfolding vaults_Position_Unmarshal_def by (rule read_fields_returns [OF gogo_skip])

subsection \<open>PositionEntry (vaults)\<close>

text \<open>\<open>PositionEntry\<close> of \<open>types/vaults/vaults.pb.go\<close>.\<close>

record vaults_PositionEntry =
  vaults_PositionEntry_Address :: bytes
  vaults_PositionEntry_Vault :: "32 word"
  vaults_PositionEntry_Principal :: "int option"
  vaults_PositionEntry_Index :: "64 word"
  vaults_PositionEntry_Amount :: "int option"
  vaults_PositionEntry_Time :: int

definition vaults_PositionEntry_Size :: "custom \<Rightarrow> std_time \<Rightarrow> vaults_PositionEntry \<Rightarrow> nat" where
  "vaults_PositionEntry_Size ic tc x =
     size_delimited gogo_runtime (vaults_PositionEntry_Address x) +
     size_varint gogo_runtime (scast (vaults_PositionEntry_Vault x)) +
     size_custom (Custom_Marshal ic (vaults_PositionEntry_Principal x)) +
     size_varint gogo_runtime (vaults_PositionEntry_Index x) +
     size_custom (Custom_Marshal ic (vaults_PositionEntry_Amount x)) +
     size_message gogo_runtime (SizeOfStdTime tc (vaults_PositionEntry_Time x))"

definition vaults_PositionEntry_MarshalToSizedBuffer :: "custom \<Rightarrow> std_time \<Rightarrow> vaults_PositionEntry \<Rightarrow> buffer \<Rightarrow> buffer result" where
  "vaults_PositionEntry_MarshalToSizedBuffer ic tc x b =
     obind (obind (StdTimeMarshal tc (vaults_PositionEntry_Time x)) (\<lambda>s. put_encoded gogo_runtime 0x32 s b)) (\<lambda>b.
     obind (put_custom 0x2A (Custom_Marshal ic (vaults_PositionEntry_Amount x)) b) (\<lambda>b.
     obind (put_varint gogo_runtime 0x20 (vaults_PositionEntry_Index x) b) (\<lambda>b.
     obind (put_custom 0x1A (Custom_Marshal ic (vaults_PositionEntry_Principal x)) b) (\<lambda>b.
     obind (put_varint gogo_runtime 0x10 (scast (vaults_PositionEntry_Vault x)) b) (\<lambda>b.
     obind (put_delimited gogo_runtime 0xA (vaults_PositionEntry_Address x) b) Ok)))))"

definition vaults_PositionEntry_Marshal :: "custom \<Rightarrow> std_time \<Rightarrow> vaults_PositionEntry \<Rightarrow> bytes result" where
  "vaults_PositionEntry_Marshal ic tc x =
     obind (vaults_PositionEntry_MarshalToSizedBuffer ic tc x (vaults_PositionEntry_Size ic tc x, [])) (\<lambda>b. Ok (sized_bytes b))"

definition vaults_PositionEntry_field ::
    "custom \<Rightarrow> std_time \<Rightarrow> int \<Rightarrow> int \<Rightarrow> vaults_PositionEntry \<Rightarrow> nat \<Rightarrow> bytes \<Rightarrow> (vaults_PositionEntry \<times> nat) result option" where
  "vaults_PositionEntry_field ic tc fieldNum wireType x i bs =
     (if fieldNum = 1 then Some (bytes_field wireType i (\<lambda>v. x\<lparr>vaults_PositionEntry_Address := v\<rparr>) bs)
      else if fieldNum = 2 then Some (varint_field wireType (\<lambda>v. x\<lparr>vaults_PositionEntry_Vault := v\<rparr>) bs)
      else if fieldNum = 3 then Some (custom_field wireType i (Custom_Unmarshal ic (vaults_PositionEntry_Principal x)) (\<lambda>v. x\<lparr>vaults_PositionEntry_Principal := v\<rparr>) bs)
      else if fieldNum = 4 then Some (varint_field wireType (\<lambda>v. x\<lparr>vaults_PositionEntry_Index := v\<rparr>) bs)
      else if fieldNum = 5 then Some (custom_field wireType i (Custom_Unmarshal ic (vaults_PositionEntry_Amount x)) (\<lambda>v. x\<lparr>vaults_PositionEntry_Amount := v\<rparr>) bs)
      else if fieldNum = 6 then Some (custom_field wireType i (StdTimeUnmarshal tc) (\<lambda>v. x\<lparr>vaults_PositionEntry_Time := v\<rparr>) bs)
      else None)"

definition vaults_PositionEntry_empty :: vaults_PositionEntry where
  "vaults_PositionEntry_empty = \<lparr>vaults_PositionEntry_Address = [], vaults_PositionEntry_Vault = 0, vaults_PositionEntry_Principal = None, vaults_PositionEntry_Index = 0, vaults_PositionEntry_Amount = None, vaults_PositionEntry_Time = zero_time\<rparr>"

definition vaults_PositionEntry_Unmarshal :: "custom \<Rightarrow> std_time \<Rightarrow> bytes \<Rightarrow> vaults_PositionEntry result option" where
  "vaults_PositionEntry_Unmarshal ic tc bs = read_fields (Skip gogo_runtime) (vaults_PositionEntry_field ic tc) (\<lambda>u x. x) vaults_PositionEntry_empty 0 bs"

definition vaults_PositionEntry_kept :: "(int \<Rightarrow> bool) \<Rightarrow> (int \<Rightarrow> bool) \<Rightarrow> vaults_PositionEntry \<Rightarrow> bool" where
  "vaults_PositionEntry_kept ok okt x \<longleftrightarrow>
     given ok (vaults_PositionEntry_Principal x) \<and>
     given ok (vaults_PositionEntry_Amount x) \<and>
     okt (vaults_PositionEntry_Time x)"

lemma vaults_PositionEntry_filled:
  assumes "custom_codec ic ok" "time_codec tc okt" "vaults_PositionEntry_kept ok okt x"
  shows "writes (vaults_PositionEntry_Marshal ic tc x)
    (delimited_bytes gogo_runtime 0xA (vaults_PositionEntry_Address x) @
      varint_bytes gogo_runtime 0x10 (scast (vaults_PositionEntry_Vault x)) @
      message_bytes gogo_runtime 0x1A (Custom_Marshal ic (vaults_PositionEntry_Principal x)) @
      varint_bytes gogo_runtime 0x20 (vaults_PositionEntry_Index x) @
      message_bytes gogo_runtime 0x2A (Custom_Marshal ic (vaults_PositionEntry_Amount x)) @
      message_bytes gogo_runtime 0x32 (marshalled (StdTimeMarshal tc (vaults_PositionEntry_Time x))) @
      [])
    (vaults_PositionEntry_Size ic tc x)" (is "writes _ ?bs _")
    "fills (vaults_PositionEntry_MarshalToSizedBuffer ic tc x) (marshalled (vaults_PositionEntry_Marshal ic tc x))"
proof -
  note kept = assms(3) [unfolded vaults_PositionEntry_kept_def]
  note Time = time_codecD [OF assms(2), of "vaults_PositionEntry_Time x"]
  have f: "fills (vaults_PositionEntry_MarshalToSizedBuffer ic tc x) ?bs"
    unfolding vaults_PositionEntry_MarshalToSizedBuffer_def
    by (rule fills_start,
      rule fills_step, rule fills_marshal [OF gogo_varint Time(1)], simp add: kept,
      rule fills_step, rule fills_put_custom,
      rule fills_step, rule fills_scalars(1) [OF gogo_varint],
      rule fills_step, rule fills_put_custom,
      rule fills_step, rule fills_scalars(1) [OF gogo_varint],
      rule fills_step, rule fills_scalars(2) [OF gogo_varint],
      rule fills_end)
  have l: "length ?bs = vaults_PositionEntry_Size ic tc x"
    by (simp add: vaults_PositionEntry_Size_def gogo_varint custom_message kept Time(2) length_concat comp_def cong: map_cong)
  show "writes (vaults_PositionEntry_Marshal ic tc x) ?bs (vaults_PositionEntry_Size ic tc x)" "fills (vaults_PositionEntry_MarshalToSizedBuffer ic tc x) (marshalled (vaults_PositionEntry_Marshal ic tc x))"
    by (rule fills_marshalled [OF f l vaults_PositionEntry_Marshal_def])+
qed

lemma vaults_PositionEntry_read:
  assumes "custom_codec ic ok" "time_codec tc okt" "vaults_PositionEntry_kept ok okt x"
    and "length (delimited_bytes gogo_runtime 0xA (vaults_PositionEntry_Address x) @
      varint_bytes gogo_runtime 0x10 (scast (vaults_PositionEntry_Vault x)) @
      message_bytes gogo_runtime 0x1A (Custom_Marshal ic (vaults_PositionEntry_Principal x)) @
      varint_bytes gogo_runtime 0x20 (vaults_PositionEntry_Index x) @
      message_bytes gogo_runtime 0x2A (Custom_Marshal ic (vaults_PositionEntry_Amount x)) @
      message_bytes gogo_runtime 0x32 (marshalled (StdTimeMarshal tc (vaults_PositionEntry_Time x))) @
      []) < 2 ^ 63" (is "length ?bs < _")
  shows "vaults_PositionEntry_Unmarshal ic tc ?bs = Some (Ok x)"
proof -
  note kept = assms(3) [unfolded vaults_PositionEntry_kept_def]
  show ?thesis unfolding vaults_PositionEntry_Unmarshal_def
    by (rule readsD [OF _ assms(4)],
      rule reads_bytes [OF gogo_varint], rule wire_tags, simp add: vaults_PositionEntry_field_def, simp add: vaults_PositionEntry_empty_def,
      rule reads_varint32 [OF gogo_varint], rule wire_tags, simp add: vaults_PositionEntry_field_def, simp add: vaults_PositionEntry_empty_def,
      rule reads_message [OF gogo_varint], rule wire_tags, simp add: vaults_PositionEntry_field_def, simp add: givenD [OF assms(1)] kept,
      rule reads_varint [OF gogo_varint], rule wire_tags, simp add: vaults_PositionEntry_field_def, simp add: vaults_PositionEntry_empty_def,
      rule reads_message [OF gogo_varint], rule wire_tags, simp add: vaults_PositionEntry_field_def, simp add: givenD [OF assms(1)] kept,
      rule reads_message [OF gogo_varint], rule wire_tags, simp add: vaults_PositionEntry_field_def, simp add: time_codecD(3) [OF assms(2)] kept,
      rule reads_done, simp add: vaults_PositionEntry_empty_def)
qed

lemma vaults_PositionEntry_exact:
  assumes "custom_codec ic ok" "time_codec tc okt"
  shows "exact_codec (vaults_PositionEntry_Size ic tc) (vaults_PositionEntry_Marshal ic tc)
    (vaults_PositionEntry_Unmarshal ic tc) (vaults_PositionEntry_kept ok okt)"
  by (rule exact_codecI, rule vaults_PositionEntry_filled(1) [OF assms], assumption, rule vaults_PositionEntry_read [OF assms]; assumption)

lemma vaults_PositionEntry_returns: "\<exists>r. vaults_PositionEntry_Unmarshal ic tc bs = Some r"
  unfolding vaults_PositionEntry_Unmarshal_def by (rule read_fields_returns [OF gogo_skip])

subsection \<open>QueryPositionsByProviderResponse (vaults)\<close>

text \<open>\<open>QueryPositionsByProviderResponse\<close> of \<open>types/vaults/query.pb.go\<close>.\<close>

record vaults_QueryPositionsByProviderResponse =
  vaults_QueryPositionsByProviderResponse_Positions :: "vaults_PositionEntry list"

definition vaults_QueryPositionsByProviderResponse_Size :: "custom \<Rightarrow> std_time \<Rightarrow> vaults_QueryPositionsByProviderResponse \<Rightarrow> nat" where
  "vaults_QueryPositionsByProviderResponse_Size ic tc x =
     sum_list (map (\<lambda>e. size_message gogo_runtime (vaults_PositionEntry_Size ic tc e)) (vaults_QueryPositionsByProviderResponse_Positions x))"

definition vaults_QueryPositionsByProviderResponse_MarshalToSizedBuffer :: "custom \<Rightarrow> std_time \<Rightarrow> vaults_QueryPositionsByProviderResponse \<Rightarrow> buffer \<Rightarrow> buffer result" where
  "vaults_QueryPositionsByProviderResponse_MarshalToSizedBuffer ic tc x b =
     obind (put_all (\<lambda>e. put_message gogo_runtime 0xA (vaults_PositionEntry_MarshalToSizedBuffer ic tc e)) (vaults_QueryPositionsByProviderResponse_Positions x) b) Ok"

definition vaults_QueryPositionsByProviderResponse_Marshal :: "custom \<Rightarrow> std_time \<Rightarrow> vaults_QueryPositionsByProviderResponse \<Rightarrow> bytes result" where
  "vaults_QueryPositionsByProviderResponse_Marshal ic tc x =
     obind (vaults_QueryPositionsByProviderResponse_MarshalToSizedBuffer ic tc x (vaults_QueryPositionsByProviderResponse_Size ic tc x, [])) (\<lambda>b. Ok (sized_bytes b))"

definition vaults_QueryPositionsByProviderResponse_field ::
    "custom \<Rightarrow> std_time \<Rightarrow> int \<Rightarrow> int \<Rightarrow> vaults_QueryPositionsByProviderResponse \<Rightarrow> nat \<Rightarrow> bytes \<Rightarrow> (vaults_QueryPositionsByProviderResponse \<times> nat) result option" where
  "vaults_QueryPositionsByProviderResponse_field ic tc fieldNum wireType x i bs =
     (if fieldNum = 1 then Some (custom_field wireType i (\<lambda>s. the (vaults_PositionEntry_Unmarshal ic tc s)) (\<lambda>v. x\<lparr>vaults_QueryPositionsByProviderResponse_Positions := vaults_QueryPositionsByProviderResponse_Positions x @ [v]\<rparr>) bs)
      else None)"

definition vaults_QueryPositionsByProviderResponse_empty :: vaults_QueryPositionsByProviderResponse where
  "vaults_QueryPositionsByProviderResponse_empty = \<lparr>vaults_QueryPositionsByProviderResponse_Positions = []\<rparr>"

definition vaults_QueryPositionsByProviderResponse_Unmarshal :: "custom \<Rightarrow> std_time \<Rightarrow> bytes \<Rightarrow> vaults_QueryPositionsByProviderResponse result option" where
  "vaults_QueryPositionsByProviderResponse_Unmarshal ic tc bs = read_fields (Skip gogo_runtime) (vaults_QueryPositionsByProviderResponse_field ic tc) (\<lambda>u x. x) vaults_QueryPositionsByProviderResponse_empty 0 bs"

definition vaults_QueryPositionsByProviderResponse_kept :: "(int \<Rightarrow> bool) \<Rightarrow> (int \<Rightarrow> bool) \<Rightarrow> vaults_QueryPositionsByProviderResponse \<Rightarrow> bool" where
  "vaults_QueryPositionsByProviderResponse_kept ok okt x \<longleftrightarrow>
     (\<forall>e\<in>set (vaults_QueryPositionsByProviderResponse_Positions x). vaults_PositionEntry_kept ok okt e)"

lemma vaults_QueryPositionsByProviderResponse_filled:
  assumes "custom_codec ic ok" "time_codec tc okt" "vaults_QueryPositionsByProviderResponse_kept ok okt x"
  shows "writes (vaults_QueryPositionsByProviderResponse_Marshal ic tc x)
    (concat (map (\<lambda>e. message_bytes gogo_runtime 0xA (marshalled (vaults_PositionEntry_Marshal ic tc e))) (vaults_QueryPositionsByProviderResponse_Positions x)) @
      [])
    (vaults_QueryPositionsByProviderResponse_Size ic tc x)" (is "writes _ ?bs _")
    "fills (vaults_QueryPositionsByProviderResponse_MarshalToSizedBuffer ic tc x) (marshalled (vaults_QueryPositionsByProviderResponse_Marshal ic tc x))"
proof -
  note kept = assms(3) [unfolded vaults_QueryPositionsByProviderResponse_kept_def]
  have Positions: "fills (vaults_PositionEntry_MarshalToSizedBuffer ic tc e) (marshalled (vaults_PositionEntry_Marshal ic tc e))"
      if "e \<in> set (vaults_QueryPositionsByProviderResponse_Positions x)" for e
    by (rule vaults_PositionEntry_filled(2) [OF assms(1,2)], use kept that in simp)
  have Positions_length: "length (marshalled (vaults_PositionEntry_Marshal ic tc e)) = vaults_PositionEntry_Size ic tc e"
      if "e \<in> set (vaults_QueryPositionsByProviderResponse_Positions x)" for e
    by (rule writes_marshalled(2) [OF vaults_PositionEntry_filled(1) [OF assms(1,2)]], use kept that in simp)
  have f: "fills (vaults_QueryPositionsByProviderResponse_MarshalToSizedBuffer ic tc x) ?bs"
    unfolding vaults_QueryPositionsByProviderResponse_MarshalToSizedBuffer_def
    by (rule fills_start,
      rule fills_step, rule fills_put_all, rule fills_put_message [OF gogo_varint], erule Positions,
      rule fills_end)
  have l: "length ?bs = vaults_QueryPositionsByProviderResponse_Size ic tc x"
    by (simp add: vaults_QueryPositionsByProviderResponse_Size_def gogo_varint custom_message kept Positions_length length_concat comp_def cong: map_cong)
  show "writes (vaults_QueryPositionsByProviderResponse_Marshal ic tc x) ?bs (vaults_QueryPositionsByProviderResponse_Size ic tc x)" "fills (vaults_QueryPositionsByProviderResponse_MarshalToSizedBuffer ic tc x) (marshalled (vaults_QueryPositionsByProviderResponse_Marshal ic tc x))"
    by (rule fills_marshalled [OF f l vaults_QueryPositionsByProviderResponse_Marshal_def])+
qed

lemma vaults_QueryPositionsByProviderResponse_read:
  assumes "custom_codec ic ok" "time_codec tc okt" "vaults_QueryPositionsByProviderResponse_kept ok okt x"
    and "length (concat (map (\<lambda>e. message_bytes gogo_runtime 0xA (marshalled (vaults_PositionEntry_Marshal ic tc e))) (vaults_QueryPositionsByProviderResponse_Positions x)) @
      []) < 2 ^ 63" (is "length ?bs < _")
  shows "vaults_QueryPositionsByProviderResponse_Unmarshal ic tc ?bs = Some (Ok x)"
proof -
  note kept = assms(3) [unfolded vaults_QueryPositionsByProviderResponse_kept_def]
  have Positions: "the (vaults_PositionEntry_Unmarshal ic tc (marshalled (vaults_PositionEntry_Marshal ic tc e))) = Ok e"
      if "e \<in> set (vaults_QueryPositionsByProviderResponse_Positions x)" "length (marshalled (vaults_PositionEntry_Marshal ic tc e)) < 2 ^ 63" for e
    by (rule exact_reads [OF vaults_PositionEntry_exact [OF assms(1,2)] _ vaults_PositionEntry_filled(1) [OF assms(1,2)] that(2)]; use kept that in \<open>simp\<close>)
  show ?thesis unfolding vaults_QueryPositionsByProviderResponse_Unmarshal_def
    by (rule readsD [OF _ assms(4)],
      rule reads_messages [where get = vaults_QueryPositionsByProviderResponse_Positions and upd = vaults_QueryPositionsByProviderResponse_Positions_update and c = "\<lambda>e. e", OF gogo_varint], rule wire_tags,
        simp, simp, simp, simp add: vaults_QueryPositionsByProviderResponse_field_def, erule (1) Positions,
      rule reads_done, simp add: vaults_QueryPositionsByProviderResponse_empty_def)
qed

lemma vaults_QueryPositionsByProviderResponse_exact:
  assumes "custom_codec ic ok" "time_codec tc okt"
  shows "exact_codec (vaults_QueryPositionsByProviderResponse_Size ic tc) (vaults_QueryPositionsByProviderResponse_Marshal ic tc)
    (vaults_QueryPositionsByProviderResponse_Unmarshal ic tc) (vaults_QueryPositionsByProviderResponse_kept ok okt)"
  by (rule exact_codecI, rule vaults_QueryPositionsByProviderResponse_filled(1) [OF assms], assumption, rule vaults_QueryPositionsByProviderResponse_read [OF assms]; assumption)

lemma vaults_QueryPositionsByProviderResponse_returns: "\<exists>r. vaults_QueryPositionsByProviderResponse_Unmarshal ic tc bs = Some r"
  unfolding vaults_QueryPositionsByProviderResponse_Unmarshal_def by (rule read_fields_returns [OF gogo_skip])

subsection \<open>QueryPendingRewardsByProviderResponse (vaults)\<close>

text \<open>\<open>QueryPendingRewardsByProviderResponse\<close> of \<open>types/vaults/query.pb.go\<close>.\<close>

record vaults_QueryPendingRewardsByProviderResponse =
  vaults_QueryPendingRewardsByProviderResponse_PendingRewards :: "int option"
  vaults_QueryPendingRewardsByProviderResponse_PositionsRewards :: "vaults_PositionRewards list"

definition vaults_QueryPendingRewardsByProviderResponse_Size :: "custom \<Rightarrow> vaults_QueryPendingRewardsByProviderResponse \<Rightarrow> nat" where
  "vaults_QueryPendingRewardsByProviderResponse_Size ic x =
     size_custom (Custom_Marshal ic (vaults_QueryPendingRewardsByProviderResponse_PendingRewards x)) +
     sum_list (map (\<lambda>e. size_message gogo_runtime (vaults_PositionRewards_Size ic e)) (vaults_QueryPendingRewardsByProviderResponse_PositionsRewards x))"

definition vaults_QueryPendingRewardsByProviderResponse_MarshalToSizedBuffer :: "custom \<Rightarrow> vaults_QueryPendingRewardsByProviderResponse \<Rightarrow> buffer \<Rightarrow> buffer result" where
  "vaults_QueryPendingRewardsByProviderResponse_MarshalToSizedBuffer ic x b =
     obind (put_all (\<lambda>e. put_message gogo_runtime 0x12 (vaults_PositionRewards_MarshalToSizedBuffer ic e)) (vaults_QueryPendingRewardsByProviderResponse_PositionsRewards x) b) (\<lambda>b.
     obind (put_custom 0xA (Custom_Marshal ic (vaults_QueryPendingRewardsByProviderResponse_PendingRewards x)) b) Ok)"

definition vaults_QueryPendingRewardsByProviderResponse_Marshal :: "custom \<Rightarrow> vaults_QueryPendingRewardsByProviderResponse \<Rightarrow> bytes result" where
  "vaults_QueryPendingRewardsByProviderResponse_Marshal ic x =
     obind (vaults_QueryPendingRewardsByProviderResponse_MarshalToSizedBuffer ic x (vaults_QueryPendingRewardsByProviderResponse_Size ic x, [])) (\<lambda>b. Ok (sized_bytes b))"

definition vaults_QueryPendingRewardsByProviderResponse_field ::
    "custom \<Rightarrow> int \<Rightarrow> int \<Rightarrow> vaults_QueryPendingRewardsByProviderResponse \<Rightarrow> nat \<Rightarrow> bytes \<Rightarrow> (vaults_QueryPendingRewardsByProviderResponse \<times> nat) result option" where
  "vaults_QueryPendingRewardsByProviderResponse_field ic fieldNum wireType x i bs =
     (if fieldNum = 1 then Some (custom_field wireType i (Custom_Unmarshal ic (vaults_QueryPendingRewardsByProviderResponse_PendingRewards x)) (\<lambda>v. x\<lparr>vaults_QueryPendingRewardsByProviderResponse_PendingRewards := v\<rparr>) bs)
      else if fieldNum = 2 then Some (custom_field wireType i (\<lambda>s. the (vaults_PositionRewards_Unmarshal ic s)) (\<lambda>v. x\<lparr>vaults_QueryPendingRewardsByProviderResponse_PositionsRewards := vaults_QueryPendingRewardsByProviderResponse_PositionsRewards x @ [v]\<rparr>) bs)
      else None)"

definition vaults_QueryPendingRewardsByProviderResponse_empty :: vaults_QueryPendingRewardsByProviderResponse where
  "vaults_QueryPendingRewardsByProviderResponse_empty = \<lparr>vaults_QueryPendingRewardsByProviderResponse_PendingRewards = None, vaults_QueryPendingRewardsByProviderResponse_PositionsRewards = []\<rparr>"

definition vaults_QueryPendingRewardsByProviderResponse_Unmarshal :: "custom \<Rightarrow> bytes \<Rightarrow> vaults_QueryPendingRewardsByProviderResponse result option" where
  "vaults_QueryPendingRewardsByProviderResponse_Unmarshal ic bs = read_fields (Skip gogo_runtime) (vaults_QueryPendingRewardsByProviderResponse_field ic) (\<lambda>u x. x) vaults_QueryPendingRewardsByProviderResponse_empty 0 bs"

definition vaults_QueryPendingRewardsByProviderResponse_kept :: "(int \<Rightarrow> bool) \<Rightarrow> vaults_QueryPendingRewardsByProviderResponse \<Rightarrow> bool" where
  "vaults_QueryPendingRewardsByProviderResponse_kept ok x \<longleftrightarrow>
     given ok (vaults_QueryPendingRewardsByProviderResponse_PendingRewards x) \<and>
     (\<forall>e\<in>set (vaults_QueryPendingRewardsByProviderResponse_PositionsRewards x). given ok (vaults_PositionRewards_Amount e) \<and> given ok (vaults_PositionRewards_PendingRewards e))"

lemma vaults_QueryPendingRewardsByProviderResponse_filled:
  assumes "custom_codec ic ok" "vaults_QueryPendingRewardsByProviderResponse_kept ok x"
  shows "writes (vaults_QueryPendingRewardsByProviderResponse_Marshal ic x)
    (message_bytes gogo_runtime 0xA (Custom_Marshal ic (vaults_QueryPendingRewardsByProviderResponse_PendingRewards x)) @
      concat (map (\<lambda>e. message_bytes gogo_runtime 0x12 (marshalled (vaults_PositionRewards_Marshal ic e))) (vaults_QueryPendingRewardsByProviderResponse_PositionsRewards x)) @
      [])
    (vaults_QueryPendingRewardsByProviderResponse_Size ic x)" (is "writes _ ?bs _")
    "fills (vaults_QueryPendingRewardsByProviderResponse_MarshalToSizedBuffer ic x) (marshalled (vaults_QueryPendingRewardsByProviderResponse_Marshal ic x))"
proof -
  note kept = assms(2) [unfolded vaults_QueryPendingRewardsByProviderResponse_kept_def]
  have PositionsRewards: "fills (vaults_PositionRewards_MarshalToSizedBuffer ic e) (marshalled (vaults_PositionRewards_Marshal ic e))"
      if "e \<in> set (vaults_QueryPendingRewardsByProviderResponse_PositionsRewards x)" for e
    by (rule vaults_PositionRewards_filled(2))
  have PositionsRewards_length: "length (marshalled (vaults_PositionRewards_Marshal ic e)) = vaults_PositionRewards_Size ic e"
      if "e \<in> set (vaults_QueryPendingRewardsByProviderResponse_PositionsRewards x)" for e
    by (rule writes_marshalled(2) [OF vaults_PositionRewards_filled(1)])
  have f: "fills (vaults_QueryPendingRewardsByProviderResponse_MarshalToSizedBuffer ic x) ?bs"
    unfolding vaults_QueryPendingRewardsByProviderResponse_MarshalToSizedBuffer_def
    by (rule fills_start,
      rule fills_step, rule fills_put_all, rule fills_put_message [OF gogo_varint], erule PositionsRewards,
      rule fills_step, rule fills_put_custom,
      rule fills_end)
  have l: "length ?bs = vaults_QueryPendingRewardsByProviderResponse_Size ic x"
    by (simp add: vaults_QueryPendingRewardsByProviderResponse_Size_def gogo_varint custom_message kept PositionsRewards_length length_concat comp_def cong: map_cong)
  show "writes (vaults_QueryPendingRewardsByProviderResponse_Marshal ic x) ?bs (vaults_QueryPendingRewardsByProviderResponse_Size ic x)" "fills (vaults_QueryPendingRewardsByProviderResponse_MarshalToSizedBuffer ic x) (marshalled (vaults_QueryPendingRewardsByProviderResponse_Marshal ic x))"
    by (rule fills_marshalled [OF f l vaults_QueryPendingRewardsByProviderResponse_Marshal_def])+
qed

lemma vaults_QueryPendingRewardsByProviderResponse_read:
  assumes "custom_codec ic ok" "vaults_QueryPendingRewardsByProviderResponse_kept ok x"
    and "length (message_bytes gogo_runtime 0xA (Custom_Marshal ic (vaults_QueryPendingRewardsByProviderResponse_PendingRewards x)) @
      concat (map (\<lambda>e. message_bytes gogo_runtime 0x12 (marshalled (vaults_PositionRewards_Marshal ic e))) (vaults_QueryPendingRewardsByProviderResponse_PositionsRewards x)) @
      []) < 2 ^ 63" (is "length ?bs < _")
  shows "vaults_QueryPendingRewardsByProviderResponse_Unmarshal ic ?bs = Some (Ok x)"
proof -
  note kept = assms(2) [unfolded vaults_QueryPendingRewardsByProviderResponse_kept_def]
  have PositionsRewards: "the (vaults_PositionRewards_Unmarshal ic (marshalled (vaults_PositionRewards_Marshal ic e))) = Ok e"
      if "e \<in> set (vaults_QueryPendingRewardsByProviderResponse_PositionsRewards x)" "length (marshalled (vaults_PositionRewards_Marshal ic e)) < 2 ^ 63" for e
    by (rule exact_reads [OF vaults_PositionRewards_exact [OF assms(1)] _ vaults_PositionRewards_filled(1) that(2)]; use kept that in \<open>simp\<close>)
  show ?thesis unfolding vaults_QueryPendingRewardsByProviderResponse_Unmarshal_def
    by (rule readsD [OF _ assms(3)],
      rule reads_message [OF gogo_varint], rule wire_tags, simp add: vaults_QueryPendingRewardsByProviderResponse_field_def, simp add: givenD [OF assms(1)] kept,
      rule reads_messages [where get = vaults_QueryPendingRewardsByProviderResponse_PositionsRewards and upd = vaults_QueryPendingRewardsByProviderResponse_PositionsRewards_update and c = "\<lambda>e. e", OF gogo_varint], rule wire_tags,
        simp, simp, simp, simp add: vaults_QueryPendingRewardsByProviderResponse_field_def, erule (1) PositionsRewards,
      rule reads_done, simp add: vaults_QueryPendingRewardsByProviderResponse_empty_def)
qed

lemma vaults_QueryPendingRewardsByProviderResponse_exact:
  assumes "custom_codec ic ok"
  shows "exact_codec (vaults_QueryPendingRewardsByProviderResponse_Size ic) (vaults_QueryPendingRewardsByProviderResponse_Marshal ic)
    (vaults_QueryPendingRewardsByProviderResponse_Unmarshal ic) (vaults_QueryPendingRewardsByProviderResponse_kept ok)"
  by (rule exact_codecI, rule vaults_QueryPendingRewardsByProviderResponse_filled(1) [OF assms], assumption, rule vaults_QueryPendingRewardsByProviderResponse_read [OF assms]; assumption)

lemma vaults_QueryPendingRewardsByProviderResponse_returns: "\<exists>r. vaults_QueryPendingRewardsByProviderResponse_Unmarshal ic bs = Some r"
  unfolding vaults_QueryPendingRewardsByProviderResponse_Unmarshal_def by (rule read_fields_returns [OF gogo_skip])

subsection \<open>QueryDestinationTokensResponse (portal)\<close>

text \<open>\<open>QueryDestinationTokensResponse\<close> of \<open>types/portal/query.pb.go\<close>.\<close>

record portal_QueryDestinationTokensResponse =
  portal_QueryDestinationTokensResponse_DestinationTokens :: "bytes list"

definition portal_QueryDestinationTokensResponse_Size :: "portal_QueryDestinationTokensResponse \<Rightarrow> nat" where
  "portal_QueryDestinationTokensResponse_Size x =
     sum_list (map (\<lambda>e. size_message gogo_runtime (length e)) (portal_QueryDestinationTokensResponse_DestinationTokens x))"

definition portal_QueryDestinationTokensResponse_MarshalToSizedBuffer :: "portal_QueryDestinationTokensResponse \<Rightarrow> buffer \<Rightarrow> buffer result" where
  "portal_QueryDestinationTokensResponse_MarshalToSizedBuffer x b =
     obind (put_all (\<lambda>e. put_encoded gogo_runtime 0x12 e) (portal_QueryDestinationTokensResponse_DestinationTokens x) b) Ok"

definition portal_QueryDestinationTokensResponse_Marshal :: "portal_QueryDestinationTokensResponse \<Rightarrow> bytes result" where
  "portal_QueryDestinationTokensResponse_Marshal x =
     obind (portal_QueryDestinationTokensResponse_MarshalToSizedBuffer x (portal_QueryDestinationTokensResponse_Size x, [])) (\<lambda>b. Ok (sized_bytes b))"

definition portal_QueryDestinationTokensResponse_field ::
    "int \<Rightarrow> int \<Rightarrow> portal_QueryDestinationTokensResponse \<Rightarrow> nat \<Rightarrow> bytes \<Rightarrow> (portal_QueryDestinationTokensResponse \<times> nat) result option" where
  "portal_QueryDestinationTokensResponse_field fieldNum wireType x i bs =
     (if fieldNum = 2 then Some (bytes_field wireType i (\<lambda>v. x\<lparr>portal_QueryDestinationTokensResponse_DestinationTokens := portal_QueryDestinationTokensResponse_DestinationTokens x @ [v]\<rparr>) bs)
      else None)"

definition portal_QueryDestinationTokensResponse_empty :: portal_QueryDestinationTokensResponse where
  "portal_QueryDestinationTokensResponse_empty = \<lparr>portal_QueryDestinationTokensResponse_DestinationTokens = []\<rparr>"

definition portal_QueryDestinationTokensResponse_Unmarshal :: "bytes \<Rightarrow> portal_QueryDestinationTokensResponse result option" where
  "portal_QueryDestinationTokensResponse_Unmarshal bs = read_fields (Skip gogo_runtime) portal_QueryDestinationTokensResponse_field (\<lambda>u x. x) portal_QueryDestinationTokensResponse_empty 0 bs"

definition portal_QueryDestinationTokensResponse_kept :: "portal_QueryDestinationTokensResponse \<Rightarrow> bool" where
  "portal_QueryDestinationTokensResponse_kept x \<longleftrightarrow>
     True"

lemma portal_QueryDestinationTokensResponse_filled:
  assumes "portal_QueryDestinationTokensResponse_kept x"
  shows "writes (portal_QueryDestinationTokensResponse_Marshal x)
    (concat (map (\<lambda>e. message_bytes gogo_runtime 0x12 e) (portal_QueryDestinationTokensResponse_DestinationTokens x)) @
      [])
    (portal_QueryDestinationTokensResponse_Size x)" (is "writes _ ?bs _")
    "fills (portal_QueryDestinationTokensResponse_MarshalToSizedBuffer x) (marshalled (portal_QueryDestinationTokensResponse_Marshal x))"
proof -
  note kept = assms(1) [unfolded portal_QueryDestinationTokensResponse_kept_def]
  have f: "fills (portal_QueryDestinationTokensResponse_MarshalToSizedBuffer x) ?bs"
    unfolding portal_QueryDestinationTokensResponse_MarshalToSizedBuffer_def
    by (rule fills_start,
      rule fills_step, rule fills_put_all, rule fills_put_encoded [OF gogo_varint],
      rule fills_end)
  have l: "length ?bs = portal_QueryDestinationTokensResponse_Size x"
    by (simp add: portal_QueryDestinationTokensResponse_Size_def gogo_varint custom_message kept  length_concat comp_def cong: map_cong)
  show "writes (portal_QueryDestinationTokensResponse_Marshal x) ?bs (portal_QueryDestinationTokensResponse_Size x)" "fills (portal_QueryDestinationTokensResponse_MarshalToSizedBuffer x) (marshalled (portal_QueryDestinationTokensResponse_Marshal x))"
    by (rule fills_marshalled [OF f l portal_QueryDestinationTokensResponse_Marshal_def])+
qed

lemma portal_QueryDestinationTokensResponse_read:
  assumes "portal_QueryDestinationTokensResponse_kept x"
    and "length (concat (map (\<lambda>e. message_bytes gogo_runtime 0x12 e) (portal_QueryDestinationTokensResponse_DestinationTokens x)) @
      []) < 2 ^ 63" (is "length ?bs < _")
  shows "portal_QueryDestinationTokensResponse_Unmarshal ?bs = Some (Ok x)"
proof -
  note kept = assms(1) [unfolded portal_QueryDestinationTokensResponse_kept_def]
  show ?thesis unfolding portal_QueryDestinationTokensResponse_Unmarshal_def
    by (rule readsD [OF _ assms(2)],
      rule reads_messages [where get = portal_QueryDestinationTokensResponse_DestinationTokens and upd = portal_QueryDestinationTokensResponse_DestinationTokens_update and c = "\<lambda>e. e", OF gogo_varint], rule wire_tags,
        simp, simp, simp, simp add: portal_QueryDestinationTokensResponse_field_def bytes_field_custom, rule refl,
      rule reads_done, simp add: portal_QueryDestinationTokensResponse_empty_def)
qed

lemma portal_QueryDestinationTokensResponse_exact:
  shows "exact_codec (portal_QueryDestinationTokensResponse_Size) (portal_QueryDestinationTokensResponse_Marshal)
    (portal_QueryDestinationTokensResponse_Unmarshal) (portal_QueryDestinationTokensResponse_kept)"
  by (rule exact_codecI, rule portal_QueryDestinationTokensResponse_filled(1), assumption, rule portal_QueryDestinationTokensResponse_read; assumption)

lemma portal_QueryDestinationTokensResponse_returns: "\<exists>r. portal_QueryDestinationTokensResponse_Unmarshal bs = Some r"
  unfolding portal_QueryDestinationTokensResponse_Unmarshal_def by (rule read_fields_returns [OF gogo_skip])

subsection \<open>QueryPeersResponse (portal)\<close>

text \<open>\<open>QueryPeersResponse\<close> of \<open>types/portal/query.pb.go\<close>.\<close>

record portal_QueryPeersResponse =
  portal_QueryPeersResponse_Peers :: "(16 word, portal_Peer) cmap"

definition portal_QueryPeersResponse_Size :: "portal_QueryPeersResponse \<Rightarrow> nat" where
  "portal_QueryPeersResponse_Size x =
     sum_list (map (\<lambda>e. size_message gogo_runtime (size_number gogo_runtime (ucast (fst e)) + size_message gogo_runtime (portal_Peer_Size (snd e)))) (portal_QueryPeersResponse_Peers x))"

definition portal_QueryPeersResponse_MarshalToSizedBuffer :: "range_order \<Rightarrow> portal_QueryPeersResponse \<Rightarrow> buffer \<Rightarrow> buffer result" where
  "portal_QueryPeersResponse_MarshalToSizedBuffer order x b =
     obind (put_entries False order 1 (\<lambda>e. put_message gogo_runtime 0xA (\<lambda>b.
         obind (put_message gogo_runtime 0x12 (portal_Peer_MarshalToSizedBuffer (snd e)) b) (put_number gogo_runtime 0x8 (ucast (fst e))))) (portal_QueryPeersResponse_Peers x) b) Ok"

definition portal_QueryPeersResponse_Marshal :: "range_order \<Rightarrow> portal_QueryPeersResponse \<Rightarrow> bytes result" where
  "portal_QueryPeersResponse_Marshal order x =
     obind (portal_QueryPeersResponse_MarshalToSizedBuffer order x (portal_QueryPeersResponse_Size x, [])) (\<lambda>b. Ok (sized_bytes b))"

definition portal_QueryPeersResponse_field ::
    "int \<Rightarrow> int \<Rightarrow> portal_QueryPeersResponse \<Rightarrow> nat \<Rightarrow> bytes \<Rightarrow> (portal_QueryPeersResponse \<times> nat) result option" where
  "portal_QueryPeersResponse_field fieldNum wireType x i bs =
     (if fieldNum = 1 then Some (map_field (Skip gogo_runtime) (entry_field key_number (value_message (\<lambda>s. the (portal_Peer_Unmarshal s)))) (0 :: 32 word, portal_Peer_empty) wireType i
        (\<lambda>kv. x\<lparr>portal_QueryPeersResponse_Peers := Map_Set (ucast (fst kv)) (snd kv) (portal_QueryPeersResponse_Peers x)\<rparr>) bs)
      else None)"

definition portal_QueryPeersResponse_empty :: portal_QueryPeersResponse where
  "portal_QueryPeersResponse_empty = \<lparr>portal_QueryPeersResponse_Peers = []\<rparr>"

definition portal_QueryPeersResponse_Unmarshal :: "bytes \<Rightarrow> portal_QueryPeersResponse result option" where
  "portal_QueryPeersResponse_Unmarshal bs = read_fields (Skip gogo_runtime) portal_QueryPeersResponse_field (\<lambda>u x. x) portal_QueryPeersResponse_empty 0 bs"

definition portal_QueryPeersResponse_kept :: "portal_QueryPeersResponse \<Rightarrow> bool" where
  "portal_QueryPeersResponse_kept x \<longleftrightarrow>
     map_ok (portal_QueryPeersResponse_Peers x)"

lemma portal_QueryPeersResponse_filled:
  assumes "map_range order" "portal_QueryPeersResponse_kept x"
  shows "writes (portal_QueryPeersResponse_Marshal order x)
    (concat (map (\<lambda>e. message_bytes gogo_runtime 0xA (number_bytes gogo_runtime 0x8 (ucast (fst e)) @ message_bytes gogo_runtime 0x12 (marshalled (portal_Peer_Marshal (snd e)))))
      (entries_order False order 1 (portal_QueryPeersResponse_Peers x))) @
      [])
    (portal_QueryPeersResponse_Size x)" (is "writes _ ?bs _")
    "fills (portal_QueryPeersResponse_MarshalToSizedBuffer order x) (marshalled (portal_QueryPeersResponse_Marshal order x))"
proof -
  note kept = assms(2) [unfolded portal_QueryPeersResponse_kept_def]
  have Peers: "fills (portal_Peer_MarshalToSizedBuffer (snd e)) (marshalled (portal_Peer_Marshal (snd e)))"
      if "e \<in> set (portal_QueryPeersResponse_Peers x)" for e
    by (rule portal_Peer_filled(2))
  have Peers_length: "length (marshalled (portal_Peer_Marshal (snd e))) = portal_Peer_Size (snd e)"
      if "e \<in> set (portal_QueryPeersResponse_Peers x)" for e
    by (rule writes_marshalled(2) [OF portal_Peer_filled(1)])
  have f: "fills (portal_QueryPeersResponse_MarshalToSizedBuffer order x) ?bs"
    unfolding portal_QueryPeersResponse_MarshalToSizedBuffer_def
    by (rule fills_start,
      rule fills_step, rule fills_put_entries [OF assms(1)], rule fills_put_message [OF gogo_varint], rule fills_seq, rule fills_put_message [OF gogo_varint], erule Peers, rule fills_put_number [OF gogo_varint],
      rule fills_end)
  have l: "length ?bs = portal_QueryPeersResponse_Size x"
    by (simp add: portal_QueryPeersResponse_Size_def gogo_varint custom_message kept Peers_length length_concat comp_def sum_entries [OF assms(1)] cong: map_cong)
  show "writes (portal_QueryPeersResponse_Marshal order x) ?bs (portal_QueryPeersResponse_Size x)" "fills (portal_QueryPeersResponse_MarshalToSizedBuffer order x) (marshalled (portal_QueryPeersResponse_Marshal order x))"
    by (rule fills_marshalled [OF f l portal_QueryPeersResponse_Marshal_def])+
qed

lemma portal_QueryPeersResponse_read:
  assumes "map_range order" "portal_QueryPeersResponse_kept x"
    and "length (concat (map (\<lambda>e. message_bytes gogo_runtime 0xA (number_bytes gogo_runtime 0x8 (ucast (fst e)) @ message_bytes gogo_runtime 0x12 (marshalled (portal_Peer_Marshal (snd e)))))
      (entries_order False order 1 (portal_QueryPeersResponse_Peers x))) @
      []) < 2 ^ 63" (is "length ?bs < _")
  shows "portal_QueryPeersResponse_Unmarshal ?bs = Some (Ok x)"
proof -
  note kept = assms(2) [unfolded portal_QueryPeersResponse_kept_def]
  have Peers: "the (portal_Peer_Unmarshal (marshalled (portal_Peer_Marshal (snd e)))) = Ok (snd e)"
      if "e \<in> set (entries_order False order 1 (portal_QueryPeersResponse_Peers x))" "length (marshalled (portal_Peer_Marshal (snd e))) < 2 ^ 63" for e
    by (rule exact_reads [OF portal_Peer_exact _ portal_Peer_filled(1) that(2)]; use kept that in \<open>simp add: set_entries [OF assms(1)]\<close>)
  have Peers_map: "map_ok (portal_QueryPeersResponse_Peers x)" using kept by simp
  show ?thesis unfolding portal_QueryPeersResponse_Unmarshal_def
    by (rule readsD [OF _ assms(3)],
      rule reads_entries [where get = portal_QueryPeersResponse_Peers and upd = portal_QueryPeersResponse_Peers_update and kc = "\<lambda>k. ucast k" and kr = "\<lambda>e. (ucast (ucast (fst e) :: 64 word) :: 32 word, snd e)", OF gogo_varint], rule wire_tags,
        simp, simp, simp, simp add: portal_QueryPeersResponse_field_def, rule entry_reads_number [OF gogo_varint], simp, rule entry_reads_value [OF gogo_varint], erule (1) Peers,
        simp add: portal_QueryPeersResponse_empty_def fold_ordered_same [OF Peers_map assms(1)],
      rule reads_done, simp add: portal_QueryPeersResponse_empty_def)
qed

lemma portal_QueryPeersResponse_exact:
  assumes "map_range order"
  shows "exact_codec (portal_QueryPeersResponse_Size) (portal_QueryPeersResponse_Marshal order)
    (portal_QueryPeersResponse_Unmarshal) (portal_QueryPeersResponse_kept)"
  by (rule exact_codecI, rule portal_QueryPeersResponse_filled(1) [OF assms], assumption, rule portal_QueryPeersResponse_read [OF assms]; assumption)

lemma portal_QueryPeersResponse_returns: "\<exists>r. portal_QueryPeersResponse_Unmarshal bs = Some r"
  unfolding portal_QueryPeersResponse_Unmarshal_def by (rule read_fields_returns [OF gogo_skip])

subsection \<open>QueryStatsResponse (v2)\<close>

text \<open>\<open>QueryStatsResponse\<close> of \<open>types/v2/query.pb.go\<close>.\<close>

record v2_QueryStatsResponse =
  v2_QueryStatsResponse_TotalHolders :: "64 word"
  v2_QueryStatsResponse_TotalPrincipal :: "int option"
  v2_QueryStatsResponse_TotalYieldAccrued :: "int option"
  v2_QueryStatsResponse_TotalExternalYield :: "(bytes, v2_QueryStatsResponse_ExternalYield) cmap"

definition v2_QueryStatsResponse_Size :: "custom \<Rightarrow> v2_QueryStatsResponse \<Rightarrow> nat" where
  "v2_QueryStatsResponse_Size ic x =
     size_varint gogo_runtime (v2_QueryStatsResponse_TotalHolders x) +
     size_custom (Custom_Marshal ic (v2_QueryStatsResponse_TotalPrincipal x)) +
     size_custom (Custom_Marshal ic (v2_QueryStatsResponse_TotalYieldAccrued x)) +
     sum_list (map (\<lambda>e. size_message gogo_runtime (size_message gogo_runtime (length (fst e)) + size_message gogo_runtime (v2_QueryStatsResponse_ExternalYield_Size ic (snd e)))) (v2_QueryStatsResponse_TotalExternalYield x))"

definition v2_QueryStatsResponse_MarshalToSizedBuffer :: "custom \<Rightarrow> range_order \<Rightarrow> v2_QueryStatsResponse \<Rightarrow> buffer \<Rightarrow> buffer result" where
  "v2_QueryStatsResponse_MarshalToSizedBuffer ic order x b =
     obind (put_entries False order 4 (\<lambda>e. put_message gogo_runtime 0x22 (\<lambda>b.
         obind (put_message gogo_runtime 0x12 (v2_QueryStatsResponse_ExternalYield_MarshalToSizedBuffer ic (snd e)) b) (put_encoded gogo_runtime 0xA (fst e)))) (v2_QueryStatsResponse_TotalExternalYield x) b) (\<lambda>b.
     obind (put_custom 0x1A (Custom_Marshal ic (v2_QueryStatsResponse_TotalYieldAccrued x)) b) (\<lambda>b.
     obind (put_custom 0x12 (Custom_Marshal ic (v2_QueryStatsResponse_TotalPrincipal x)) b) (\<lambda>b.
     obind (put_varint gogo_runtime 0x8 (v2_QueryStatsResponse_TotalHolders x) b) Ok)))"

definition v2_QueryStatsResponse_Marshal :: "custom \<Rightarrow> range_order \<Rightarrow> v2_QueryStatsResponse \<Rightarrow> bytes result" where
  "v2_QueryStatsResponse_Marshal ic order x =
     obind (v2_QueryStatsResponse_MarshalToSizedBuffer ic order x (v2_QueryStatsResponse_Size ic x, [])) (\<lambda>b. Ok (sized_bytes b))"

definition v2_QueryStatsResponse_field ::
    "custom \<Rightarrow> int \<Rightarrow> int \<Rightarrow> v2_QueryStatsResponse \<Rightarrow> nat \<Rightarrow> bytes \<Rightarrow> (v2_QueryStatsResponse \<times> nat) result option" where
  "v2_QueryStatsResponse_field ic fieldNum wireType x i bs =
     (if fieldNum = 1 then Some (varint_field wireType (\<lambda>v. x\<lparr>v2_QueryStatsResponse_TotalHolders := v\<rparr>) bs)
      else if fieldNum = 2 then Some (custom_field wireType i (Custom_Unmarshal ic (v2_QueryStatsResponse_TotalPrincipal x)) (\<lambda>v. x\<lparr>v2_QueryStatsResponse_TotalPrincipal := v\<rparr>) bs)
      else if fieldNum = 3 then Some (custom_field wireType i (Custom_Unmarshal ic (v2_QueryStatsResponse_TotalYieldAccrued x)) (\<lambda>v. x\<lparr>v2_QueryStatsResponse_TotalYieldAccrued := v\<rparr>) bs)
      else if fieldNum = 4 then Some (map_field (Skip gogo_runtime) (entry_field key_text (value_message (\<lambda>s. the (v2_QueryStatsResponse_ExternalYield_Unmarshal ic s)))) ([], v2_QueryStatsResponse_ExternalYield_empty) wireType i
        (\<lambda>kv. x\<lparr>v2_QueryStatsResponse_TotalExternalYield := Map_Set (fst kv) (snd kv) (v2_QueryStatsResponse_TotalExternalYield x)\<rparr>) bs)
      else None)"

definition v2_QueryStatsResponse_empty :: v2_QueryStatsResponse where
  "v2_QueryStatsResponse_empty = \<lparr>v2_QueryStatsResponse_TotalHolders = 0, v2_QueryStatsResponse_TotalPrincipal = None, v2_QueryStatsResponse_TotalYieldAccrued = None, v2_QueryStatsResponse_TotalExternalYield = []\<rparr>"

definition v2_QueryStatsResponse_Unmarshal :: "custom \<Rightarrow> bytes \<Rightarrow> v2_QueryStatsResponse result option" where
  "v2_QueryStatsResponse_Unmarshal ic bs = read_fields (Skip gogo_runtime) (v2_QueryStatsResponse_field ic) (\<lambda>u x. x) v2_QueryStatsResponse_empty 0 bs"

definition v2_QueryStatsResponse_kept :: "(int \<Rightarrow> bool) \<Rightarrow> v2_QueryStatsResponse \<Rightarrow> bool" where
  "v2_QueryStatsResponse_kept ok x \<longleftrightarrow>
     given ok (v2_QueryStatsResponse_TotalPrincipal x) \<and>
     given ok (v2_QueryStatsResponse_TotalYieldAccrued x) \<and>
     map_ok (v2_QueryStatsResponse_TotalExternalYield x) \<and>
     (\<forall>e\<in>set (v2_QueryStatsResponse_TotalExternalYield x). given ok (v2_QueryStatsResponse_ExternalYield_Amount (snd e)))"

lemma v2_QueryStatsResponse_filled:
  assumes "custom_codec ic ok" "map_range order" "v2_QueryStatsResponse_kept ok x"
  shows "writes (v2_QueryStatsResponse_Marshal ic order x)
    (varint_bytes gogo_runtime 0x8 (v2_QueryStatsResponse_TotalHolders x) @
      message_bytes gogo_runtime 0x12 (Custom_Marshal ic (v2_QueryStatsResponse_TotalPrincipal x)) @
      message_bytes gogo_runtime 0x1A (Custom_Marshal ic (v2_QueryStatsResponse_TotalYieldAccrued x)) @
      concat (map (\<lambda>e. message_bytes gogo_runtime 0x22 (message_bytes gogo_runtime 0xA (fst e) @ message_bytes gogo_runtime 0x12 (marshalled (v2_QueryStatsResponse_ExternalYield_Marshal ic (snd e)))))
      (entries_order False order 4 (v2_QueryStatsResponse_TotalExternalYield x))) @
      [])
    (v2_QueryStatsResponse_Size ic x)" (is "writes _ ?bs _")
    "fills (v2_QueryStatsResponse_MarshalToSizedBuffer ic order x) (marshalled (v2_QueryStatsResponse_Marshal ic order x))"
proof -
  note kept = assms(3) [unfolded v2_QueryStatsResponse_kept_def]
  have TotalExternalYield: "fills (v2_QueryStatsResponse_ExternalYield_MarshalToSizedBuffer ic (snd e)) (marshalled (v2_QueryStatsResponse_ExternalYield_Marshal ic (snd e)))"
      if "e \<in> set (v2_QueryStatsResponse_TotalExternalYield x)" for e
    by (rule v2_QueryStatsResponse_ExternalYield_filled(2))
  have TotalExternalYield_length: "length (marshalled (v2_QueryStatsResponse_ExternalYield_Marshal ic (snd e))) = v2_QueryStatsResponse_ExternalYield_Size ic (snd e)"
      if "e \<in> set (v2_QueryStatsResponse_TotalExternalYield x)" for e
    by (rule writes_marshalled(2) [OF v2_QueryStatsResponse_ExternalYield_filled(1)])
  have f: "fills (v2_QueryStatsResponse_MarshalToSizedBuffer ic order x) ?bs"
    unfolding v2_QueryStatsResponse_MarshalToSizedBuffer_def
    by (rule fills_start,
      rule fills_step, rule fills_put_entries [OF assms(2)], rule fills_put_message [OF gogo_varint], rule fills_seq, rule fills_put_message [OF gogo_varint], erule TotalExternalYield, rule fills_put_encoded [OF gogo_varint],
      rule fills_step, rule fills_put_custom,
      rule fills_step, rule fills_put_custom,
      rule fills_step, rule fills_scalars(1) [OF gogo_varint],
      rule fills_end)
  have l: "length ?bs = v2_QueryStatsResponse_Size ic x"
    by (simp add: v2_QueryStatsResponse_Size_def gogo_varint custom_message kept TotalExternalYield_length length_concat comp_def sum_entries [OF assms(2)] cong: map_cong)
  show "writes (v2_QueryStatsResponse_Marshal ic order x) ?bs (v2_QueryStatsResponse_Size ic x)" "fills (v2_QueryStatsResponse_MarshalToSizedBuffer ic order x) (marshalled (v2_QueryStatsResponse_Marshal ic order x))"
    by (rule fills_marshalled [OF f l v2_QueryStatsResponse_Marshal_def])+
qed

lemma v2_QueryStatsResponse_read:
  assumes "custom_codec ic ok" "map_range order" "v2_QueryStatsResponse_kept ok x"
    and "length (varint_bytes gogo_runtime 0x8 (v2_QueryStatsResponse_TotalHolders x) @
      message_bytes gogo_runtime 0x12 (Custom_Marshal ic (v2_QueryStatsResponse_TotalPrincipal x)) @
      message_bytes gogo_runtime 0x1A (Custom_Marshal ic (v2_QueryStatsResponse_TotalYieldAccrued x)) @
      concat (map (\<lambda>e. message_bytes gogo_runtime 0x22 (message_bytes gogo_runtime 0xA (fst e) @ message_bytes gogo_runtime 0x12 (marshalled (v2_QueryStatsResponse_ExternalYield_Marshal ic (snd e)))))
      (entries_order False order 4 (v2_QueryStatsResponse_TotalExternalYield x))) @
      []) < 2 ^ 63" (is "length ?bs < _")
  shows "v2_QueryStatsResponse_Unmarshal ic ?bs = Some (Ok x)"
proof -
  note kept = assms(3) [unfolded v2_QueryStatsResponse_kept_def]
  have TotalExternalYield: "the (v2_QueryStatsResponse_ExternalYield_Unmarshal ic (marshalled (v2_QueryStatsResponse_ExternalYield_Marshal ic (snd e)))) = Ok (snd e)"
      if "e \<in> set (entries_order False order 4 (v2_QueryStatsResponse_TotalExternalYield x))" "length (marshalled (v2_QueryStatsResponse_ExternalYield_Marshal ic (snd e))) < 2 ^ 63" for e
    by (rule exact_reads [OF v2_QueryStatsResponse_ExternalYield_exact [OF assms(1)] _ v2_QueryStatsResponse_ExternalYield_filled(1) that(2)]; use kept that in \<open>simp add: set_entries [OF assms(2)]\<close>)
  have TotalExternalYield_map: "map_ok (v2_QueryStatsResponse_TotalExternalYield x)" using kept by simp
  show ?thesis unfolding v2_QueryStatsResponse_Unmarshal_def
    by (rule readsD [OF _ assms(4)],
      rule reads_varint [OF gogo_varint], rule wire_tags, simp add: v2_QueryStatsResponse_field_def, simp add: v2_QueryStatsResponse_empty_def,
      rule reads_message [OF gogo_varint], rule wire_tags, simp add: v2_QueryStatsResponse_field_def, simp add: givenD [OF assms(1)] kept,
      rule reads_message [OF gogo_varint], rule wire_tags, simp add: v2_QueryStatsResponse_field_def, simp add: givenD [OF assms(1)] kept,
      rule reads_entries [where get = v2_QueryStatsResponse_TotalExternalYield and upd = v2_QueryStatsResponse_TotalExternalYield_update and kc = "\<lambda>k. k" and kr = "\<lambda>e. (fst e, snd e)", OF gogo_varint], rule wire_tags,
        simp, simp, simp, simp add: v2_QueryStatsResponse_field_def, rule entry_reads_text [OF gogo_varint], rule entry_reads_value [OF gogo_varint], erule (1) TotalExternalYield,
        simp add: v2_QueryStatsResponse_empty_def fold_ordered_same [OF TotalExternalYield_map assms(2)],
      rule reads_done, simp add: v2_QueryStatsResponse_empty_def)
qed

lemma v2_QueryStatsResponse_exact:
  assumes "custom_codec ic ok" "map_range order"
  shows "exact_codec (v2_QueryStatsResponse_Size ic) (v2_QueryStatsResponse_Marshal ic order)
    (v2_QueryStatsResponse_Unmarshal ic) (v2_QueryStatsResponse_kept ok)"
  by (rule exact_codecI, rule v2_QueryStatsResponse_filled(1) [OF assms], assumption, rule v2_QueryStatsResponse_read [OF assms]; assumption)

lemma v2_QueryStatsResponse_returns: "\<exists>r. v2_QueryStatsResponse_Unmarshal ic bs = Some r"
  unfolding v2_QueryStatsResponse_Unmarshal_def by (rule read_fields_returns [OF gogo_skip])

subsection \<open>QueryYieldRecipientsResponse (v2)\<close>

text \<open>\<open>QueryYieldRecipientsResponse\<close> of \<open>types/v2/query.pb.go\<close>.\<close>

record v2_QueryYieldRecipientsResponse =
  v2_QueryYieldRecipientsResponse_YieldRecipients :: "(bytes, bytes) cmap"

definition v2_QueryYieldRecipientsResponse_Size :: "v2_QueryYieldRecipientsResponse \<Rightarrow> nat" where
  "v2_QueryYieldRecipientsResponse_Size x =
     sum_list (map (\<lambda>e. size_message gogo_runtime (size_message gogo_runtime (length (fst e)) + size_message gogo_runtime (length (snd e)))) (v2_QueryYieldRecipientsResponse_YieldRecipients x))"

definition v2_QueryYieldRecipientsResponse_MarshalToSizedBuffer :: "range_order \<Rightarrow> v2_QueryYieldRecipientsResponse \<Rightarrow> buffer \<Rightarrow> buffer result" where
  "v2_QueryYieldRecipientsResponse_MarshalToSizedBuffer order x b =
     obind (put_entries False order 1 (\<lambda>e. put_message gogo_runtime 0xA (\<lambda>b.
         obind (put_encoded gogo_runtime 0x12 (snd e) b) (put_encoded gogo_runtime 0xA (fst e)))) (v2_QueryYieldRecipientsResponse_YieldRecipients x) b) Ok"

definition v2_QueryYieldRecipientsResponse_Marshal :: "range_order \<Rightarrow> v2_QueryYieldRecipientsResponse \<Rightarrow> bytes result" where
  "v2_QueryYieldRecipientsResponse_Marshal order x =
     obind (v2_QueryYieldRecipientsResponse_MarshalToSizedBuffer order x (v2_QueryYieldRecipientsResponse_Size x, [])) (\<lambda>b. Ok (sized_bytes b))"

definition v2_QueryYieldRecipientsResponse_field ::
    "int \<Rightarrow> int \<Rightarrow> v2_QueryYieldRecipientsResponse \<Rightarrow> nat \<Rightarrow> bytes \<Rightarrow> (v2_QueryYieldRecipientsResponse \<times> nat) result option" where
  "v2_QueryYieldRecipientsResponse_field fieldNum wireType x i bs =
     (if fieldNum = 1 then Some (map_field (Skip gogo_runtime) (entry_field key_text (value_message Ok)) ([], []) wireType i
        (\<lambda>kv. x\<lparr>v2_QueryYieldRecipientsResponse_YieldRecipients := Map_Set (fst kv) (snd kv) (v2_QueryYieldRecipientsResponse_YieldRecipients x)\<rparr>) bs)
      else None)"

definition v2_QueryYieldRecipientsResponse_empty :: v2_QueryYieldRecipientsResponse where
  "v2_QueryYieldRecipientsResponse_empty = \<lparr>v2_QueryYieldRecipientsResponse_YieldRecipients = []\<rparr>"

definition v2_QueryYieldRecipientsResponse_Unmarshal :: "bytes \<Rightarrow> v2_QueryYieldRecipientsResponse result option" where
  "v2_QueryYieldRecipientsResponse_Unmarshal bs = read_fields (Skip gogo_runtime) v2_QueryYieldRecipientsResponse_field (\<lambda>u x. x) v2_QueryYieldRecipientsResponse_empty 0 bs"

definition v2_QueryYieldRecipientsResponse_kept :: "v2_QueryYieldRecipientsResponse \<Rightarrow> bool" where
  "v2_QueryYieldRecipientsResponse_kept x \<longleftrightarrow>
     map_ok (v2_QueryYieldRecipientsResponse_YieldRecipients x)"

lemma v2_QueryYieldRecipientsResponse_filled:
  assumes "map_range order" "v2_QueryYieldRecipientsResponse_kept x"
  shows "writes (v2_QueryYieldRecipientsResponse_Marshal order x)
    (concat (map (\<lambda>e. message_bytes gogo_runtime 0xA (message_bytes gogo_runtime 0xA (fst e) @ message_bytes gogo_runtime 0x12 (snd e)))
      (entries_order False order 1 (v2_QueryYieldRecipientsResponse_YieldRecipients x))) @
      [])
    (v2_QueryYieldRecipientsResponse_Size x)" (is "writes _ ?bs _")
    "fills (v2_QueryYieldRecipientsResponse_MarshalToSizedBuffer order x) (marshalled (v2_QueryYieldRecipientsResponse_Marshal order x))"
proof -
  note kept = assms(2) [unfolded v2_QueryYieldRecipientsResponse_kept_def]
  have f: "fills (v2_QueryYieldRecipientsResponse_MarshalToSizedBuffer order x) ?bs"
    unfolding v2_QueryYieldRecipientsResponse_MarshalToSizedBuffer_def
    by (rule fills_start,
      rule fills_step, rule fills_put_entries [OF assms(1)], rule fills_put_message [OF gogo_varint], rule fills_seq, rule fills_put_encoded [OF gogo_varint], rule fills_put_encoded [OF gogo_varint],
      rule fills_end)
  have l: "length ?bs = v2_QueryYieldRecipientsResponse_Size x"
    by (simp add: v2_QueryYieldRecipientsResponse_Size_def gogo_varint custom_message kept  length_concat comp_def sum_entries [OF assms(1)] cong: map_cong)
  show "writes (v2_QueryYieldRecipientsResponse_Marshal order x) ?bs (v2_QueryYieldRecipientsResponse_Size x)" "fills (v2_QueryYieldRecipientsResponse_MarshalToSizedBuffer order x) (marshalled (v2_QueryYieldRecipientsResponse_Marshal order x))"
    by (rule fills_marshalled [OF f l v2_QueryYieldRecipientsResponse_Marshal_def])+
qed

lemma v2_QueryYieldRecipientsResponse_read:
  assumes "map_range order" "v2_QueryYieldRecipientsResponse_kept x"
    and "length (concat (map (\<lambda>e. message_bytes gogo_runtime 0xA (message_bytes gogo_runtime 0xA (fst e) @ message_bytes gogo_runtime 0x12 (snd e)))
      (entries_order False order 1 (v2_QueryYieldRecipientsResponse_YieldRecipients x))) @
      []) < 2 ^ 63" (is "length ?bs < _")
  shows "v2_QueryYieldRecipientsResponse_Unmarshal ?bs = Some (Ok x)"
proof -
  note kept = assms(2) [unfolded v2_QueryYieldRecipientsResponse_kept_def]
  have YieldRecipients_map: "map_ok (v2_QueryYieldRecipientsResponse_YieldRecipients x)" using kept by simp
  show ?thesis unfolding v2_QueryYieldRecipientsResponse_Unmarshal_def
    by (rule readsD [OF _ assms(3)],
      rule reads_entries [where get = v2_QueryYieldRecipientsResponse_YieldRecipients and upd = v2_QueryYieldRecipientsResponse_YieldRecipients_update and kc = "\<lambda>k. k" and kr = "\<lambda>e. (fst e, snd e)", OF gogo_varint], rule wire_tags,
        simp, simp, simp, simp add: v2_QueryYieldRecipientsResponse_field_def, rule entry_reads_text [OF gogo_varint], rule entry_reads_value [OF gogo_varint], rule refl,
        simp add: v2_QueryYieldRecipientsResponse_empty_def fold_ordered_same [OF YieldRecipients_map assms(1)],
      rule reads_done, simp add: v2_QueryYieldRecipientsResponse_empty_def)
qed

lemma v2_QueryYieldRecipientsResponse_exact:
  assumes "map_range order"
  shows "exact_codec (v2_QueryYieldRecipientsResponse_Size) (v2_QueryYieldRecipientsResponse_Marshal order)
    (v2_QueryYieldRecipientsResponse_Unmarshal) (v2_QueryYieldRecipientsResponse_kept)"
  by (rule exact_codecI, rule v2_QueryYieldRecipientsResponse_filled(1) [OF assms], assumption, rule v2_QueryYieldRecipientsResponse_read [OF assms]; assumption)

lemma v2_QueryYieldRecipientsResponse_returns: "\<exists>r. v2_QueryYieldRecipientsResponse_Unmarshal bs = Some r"
  unfolding v2_QueryYieldRecipientsResponse_Unmarshal_def by (rule read_fields_returns [OF gogo_skip])

subsection \<open>QueryRetryAmountsResponse (v2)\<close>

text \<open>\<open>QueryRetryAmountsResponse\<close> of \<open>types/v2/query.pb.go\<close>.\<close>

record v2_QueryRetryAmountsResponse =
  v2_QueryRetryAmountsResponse_RetryAmounts :: "(bytes, bytes) cmap"

definition v2_QueryRetryAmountsResponse_Size :: "v2_QueryRetryAmountsResponse \<Rightarrow> nat" where
  "v2_QueryRetryAmountsResponse_Size x =
     sum_list (map (\<lambda>e. size_message gogo_runtime (size_message gogo_runtime (length (fst e)) + size_message gogo_runtime (length (snd e)))) (v2_QueryRetryAmountsResponse_RetryAmounts x))"

definition v2_QueryRetryAmountsResponse_MarshalToSizedBuffer :: "range_order \<Rightarrow> v2_QueryRetryAmountsResponse \<Rightarrow> buffer \<Rightarrow> buffer result" where
  "v2_QueryRetryAmountsResponse_MarshalToSizedBuffer order x b =
     obind (put_entries False order 1 (\<lambda>e. put_message gogo_runtime 0xA (\<lambda>b.
         obind (put_encoded gogo_runtime 0x12 (snd e) b) (put_encoded gogo_runtime 0xA (fst e)))) (v2_QueryRetryAmountsResponse_RetryAmounts x) b) Ok"

definition v2_QueryRetryAmountsResponse_Marshal :: "range_order \<Rightarrow> v2_QueryRetryAmountsResponse \<Rightarrow> bytes result" where
  "v2_QueryRetryAmountsResponse_Marshal order x =
     obind (v2_QueryRetryAmountsResponse_MarshalToSizedBuffer order x (v2_QueryRetryAmountsResponse_Size x, [])) (\<lambda>b. Ok (sized_bytes b))"

definition v2_QueryRetryAmountsResponse_field ::
    "int \<Rightarrow> int \<Rightarrow> v2_QueryRetryAmountsResponse \<Rightarrow> nat \<Rightarrow> bytes \<Rightarrow> (v2_QueryRetryAmountsResponse \<times> nat) result option" where
  "v2_QueryRetryAmountsResponse_field fieldNum wireType x i bs =
     (if fieldNum = 1 then Some (map_field (Skip gogo_runtime) (entry_field key_text (value_message Ok)) ([], []) wireType i
        (\<lambda>kv. x\<lparr>v2_QueryRetryAmountsResponse_RetryAmounts := Map_Set (fst kv) (snd kv) (v2_QueryRetryAmountsResponse_RetryAmounts x)\<rparr>) bs)
      else None)"

definition v2_QueryRetryAmountsResponse_empty :: v2_QueryRetryAmountsResponse where
  "v2_QueryRetryAmountsResponse_empty = \<lparr>v2_QueryRetryAmountsResponse_RetryAmounts = []\<rparr>"

definition v2_QueryRetryAmountsResponse_Unmarshal :: "bytes \<Rightarrow> v2_QueryRetryAmountsResponse result option" where
  "v2_QueryRetryAmountsResponse_Unmarshal bs = read_fields (Skip gogo_runtime) v2_QueryRetryAmountsResponse_field (\<lambda>u x. x) v2_QueryRetryAmountsResponse_empty 0 bs"

definition v2_QueryRetryAmountsResponse_kept :: "v2_QueryRetryAmountsResponse \<Rightarrow> bool" where
  "v2_QueryRetryAmountsResponse_kept x \<longleftrightarrow>
     map_ok (v2_QueryRetryAmountsResponse_RetryAmounts x)"

lemma v2_QueryRetryAmountsResponse_filled:
  assumes "map_range order" "v2_QueryRetryAmountsResponse_kept x"
  shows "writes (v2_QueryRetryAmountsResponse_Marshal order x)
    (concat (map (\<lambda>e. message_bytes gogo_runtime 0xA (message_bytes gogo_runtime 0xA (fst e) @ message_bytes gogo_runtime 0x12 (snd e)))
      (entries_order False order 1 (v2_QueryRetryAmountsResponse_RetryAmounts x))) @
      [])
    (v2_QueryRetryAmountsResponse_Size x)" (is "writes _ ?bs _")
    "fills (v2_QueryRetryAmountsResponse_MarshalToSizedBuffer order x) (marshalled (v2_QueryRetryAmountsResponse_Marshal order x))"
proof -
  note kept = assms(2) [unfolded v2_QueryRetryAmountsResponse_kept_def]
  have f: "fills (v2_QueryRetryAmountsResponse_MarshalToSizedBuffer order x) ?bs"
    unfolding v2_QueryRetryAmountsResponse_MarshalToSizedBuffer_def
    by (rule fills_start,
      rule fills_step, rule fills_put_entries [OF assms(1)], rule fills_put_message [OF gogo_varint], rule fills_seq, rule fills_put_encoded [OF gogo_varint], rule fills_put_encoded [OF gogo_varint],
      rule fills_end)
  have l: "length ?bs = v2_QueryRetryAmountsResponse_Size x"
    by (simp add: v2_QueryRetryAmountsResponse_Size_def gogo_varint custom_message kept  length_concat comp_def sum_entries [OF assms(1)] cong: map_cong)
  show "writes (v2_QueryRetryAmountsResponse_Marshal order x) ?bs (v2_QueryRetryAmountsResponse_Size x)" "fills (v2_QueryRetryAmountsResponse_MarshalToSizedBuffer order x) (marshalled (v2_QueryRetryAmountsResponse_Marshal order x))"
    by (rule fills_marshalled [OF f l v2_QueryRetryAmountsResponse_Marshal_def])+
qed

lemma v2_QueryRetryAmountsResponse_read:
  assumes "map_range order" "v2_QueryRetryAmountsResponse_kept x"
    and "length (concat (map (\<lambda>e. message_bytes gogo_runtime 0xA (message_bytes gogo_runtime 0xA (fst e) @ message_bytes gogo_runtime 0x12 (snd e)))
      (entries_order False order 1 (v2_QueryRetryAmountsResponse_RetryAmounts x))) @
      []) < 2 ^ 63" (is "length ?bs < _")
  shows "v2_QueryRetryAmountsResponse_Unmarshal ?bs = Some (Ok x)"
proof -
  note kept = assms(2) [unfolded v2_QueryRetryAmountsResponse_kept_def]
  have RetryAmounts_map: "map_ok (v2_QueryRetryAmountsResponse_RetryAmounts x)" using kept by simp
  show ?thesis unfolding v2_QueryRetryAmountsResponse_Unmarshal_def
    by (rule readsD [OF _ assms(3)],
      rule reads_entries [where get = v2_QueryRetryAmountsResponse_RetryAmounts and upd = v2_QueryRetryAmountsResponse_RetryAmounts_update and kc = "\<lambda>k. k" and kr = "\<lambda>e. (fst e, snd e)", OF gogo_varint], rule wire_tags,
        simp, simp, simp, simp add: v2_QueryRetryAmountsResponse_field_def, rule entry_reads_text [OF gogo_varint], rule entry_reads_value [OF gogo_varint], rule refl,
        simp add: v2_QueryRetryAmountsResponse_empty_def fold_ordered_same [OF RetryAmounts_map assms(1)],
      rule reads_done, simp add: v2_QueryRetryAmountsResponse_empty_def)
qed

lemma v2_QueryRetryAmountsResponse_exact:
  assumes "map_range order"
  shows "exact_codec (v2_QueryRetryAmountsResponse_Size) (v2_QueryRetryAmountsResponse_Marshal order)
    (v2_QueryRetryAmountsResponse_Unmarshal) (v2_QueryRetryAmountsResponse_kept)"
  by (rule exact_codecI, rule v2_QueryRetryAmountsResponse_filled(1) [OF assms], assumption, rule v2_QueryRetryAmountsResponse_read [OF assms]; assumption)

lemma v2_QueryRetryAmountsResponse_returns: "\<exists>r. v2_QueryRetryAmountsResponse_Unmarshal bs = Some r"
  unfolding v2_QueryRetryAmountsResponse_Unmarshal_def by (rule read_fields_returns [OF gogo_skip])

subsection \<open>GenesisState (portal)\<close>

text \<open>\<open>GenesisState\<close> of \<open>types/portal/genesis.pb.go\<close>.\<close>

record portal_GenesisState =
  portal_GenesisState_Owner :: bytes
  portal_GenesisState_Paused :: bool
  portal_GenesisState_Peers :: "(16 word, portal_Peer) cmap"
  portal_GenesisState_BridgingPaths :: "portal_BridgingPath list"
  portal_GenesisState_Nonce :: "32 word"

definition portal_GenesisState_Size :: "portal_GenesisState \<Rightarrow> nat" where
  "portal_GenesisState_Size x =
     size_delimited gogo_runtime (portal_GenesisState_Owner x) +
     size_bool (portal_GenesisState_Paused x) +
     sum_list (map (\<lambda>e. size_message gogo_runtime (size_number gogo_runtime (ucast (fst e)) + size_message gogo_runtime (portal_Peer_Size (snd e)))) (portal_GenesisState_Peers x)) +
     sum_list (map (\<lambda>e. size_message gogo_runtime (portal_BridgingPath_Size e)) (portal_GenesisState_BridgingPaths x)) +
     size_varint gogo_runtime (ucast (portal_GenesisState_Nonce x))"

definition portal_GenesisState_MarshalToSizedBuffer :: "range_order \<Rightarrow> portal_GenesisState \<Rightarrow> buffer \<Rightarrow> buffer result" where
  "portal_GenesisState_MarshalToSizedBuffer order x b =
     obind (put_varint gogo_runtime 0x28 (ucast (portal_GenesisState_Nonce x)) b) (\<lambda>b.
     obind (put_all (\<lambda>e. put_message gogo_runtime 0x22 (portal_BridgingPath_MarshalToSizedBuffer e)) (portal_GenesisState_BridgingPaths x) b) (\<lambda>b.
     obind (put_entries False order 3 (\<lambda>e. put_message gogo_runtime 0x1A (\<lambda>b.
         obind (put_message gogo_runtime 0x12 (portal_Peer_MarshalToSizedBuffer (snd e)) b) (put_number gogo_runtime 0x8 (ucast (fst e))))) (portal_GenesisState_Peers x) b) (\<lambda>b.
     obind (put_bool 0x10 (portal_GenesisState_Paused x) b) (\<lambda>b.
     obind (put_delimited gogo_runtime 0xA (portal_GenesisState_Owner x) b) Ok))))"

definition portal_GenesisState_Marshal :: "range_order \<Rightarrow> portal_GenesisState \<Rightarrow> bytes result" where
  "portal_GenesisState_Marshal order x =
     obind (portal_GenesisState_MarshalToSizedBuffer order x (portal_GenesisState_Size x, [])) (\<lambda>b. Ok (sized_bytes b))"

definition portal_GenesisState_field ::
    "int \<Rightarrow> int \<Rightarrow> portal_GenesisState \<Rightarrow> nat \<Rightarrow> bytes \<Rightarrow> (portal_GenesisState \<times> nat) result option" where
  "portal_GenesisState_field fieldNum wireType x i bs =
     (if fieldNum = 1 then Some (bytes_field wireType i (\<lambda>v. x\<lparr>portal_GenesisState_Owner := v\<rparr>) bs)
      else if fieldNum = 2 then Some (bool_field wireType (\<lambda>v. x\<lparr>portal_GenesisState_Paused := v\<rparr>) bs)
      else if fieldNum = 3 then Some (map_field (Skip gogo_runtime) (entry_field key_number (value_message (\<lambda>s. the (portal_Peer_Unmarshal s)))) (0 :: 32 word, portal_Peer_empty) wireType i
        (\<lambda>kv. x\<lparr>portal_GenesisState_Peers := Map_Set (ucast (fst kv)) (snd kv) (portal_GenesisState_Peers x)\<rparr>) bs)
      else if fieldNum = 4 then Some (custom_field wireType i (\<lambda>s. the (portal_BridgingPath_Unmarshal s)) (\<lambda>v. x\<lparr>portal_GenesisState_BridgingPaths := portal_GenesisState_BridgingPaths x @ [v]\<rparr>) bs)
      else if fieldNum = 5 then Some (varint_field wireType (\<lambda>v. x\<lparr>portal_GenesisState_Nonce := v\<rparr>) bs)
      else None)"

definition portal_GenesisState_empty :: portal_GenesisState where
  "portal_GenesisState_empty = \<lparr>portal_GenesisState_Owner = [], portal_GenesisState_Paused = False, portal_GenesisState_Peers = [], portal_GenesisState_BridgingPaths = [], portal_GenesisState_Nonce = 0\<rparr>"

definition portal_GenesisState_UnmarshalInto :: "portal_GenesisState \<Rightarrow> bytes \<Rightarrow> portal_GenesisState result option" where
  "portal_GenesisState_UnmarshalInto x bs = read_fields (Skip gogo_runtime) portal_GenesisState_field (\<lambda>u x. x) x 0 bs"

definition portal_GenesisState_Unmarshal :: "bytes \<Rightarrow> portal_GenesisState result option" where
  "portal_GenesisState_Unmarshal bs = read_fields (Skip gogo_runtime) portal_GenesisState_field (\<lambda>u x. x) portal_GenesisState_empty 0 bs"

definition portal_GenesisState_kept :: "portal_GenesisState \<Rightarrow> bool" where
  "portal_GenesisState_kept x \<longleftrightarrow>
     map_ok (portal_GenesisState_Peers x)"

lemma portal_GenesisState_filled:
  assumes "map_range order" "portal_GenesisState_kept x"
  shows "writes (portal_GenesisState_Marshal order x)
    (delimited_bytes gogo_runtime 0xA (portal_GenesisState_Owner x) @
      bool_bytes 0x10 (portal_GenesisState_Paused x) @
      concat (map (\<lambda>e. message_bytes gogo_runtime 0x1A (number_bytes gogo_runtime 0x8 (ucast (fst e)) @ message_bytes gogo_runtime 0x12 (marshalled (portal_Peer_Marshal (snd e)))))
      (entries_order False order 3 (portal_GenesisState_Peers x))) @
      concat (map (\<lambda>e. message_bytes gogo_runtime 0x22 (marshalled (portal_BridgingPath_Marshal e))) (portal_GenesisState_BridgingPaths x)) @
      varint_bytes gogo_runtime 0x28 (ucast (portal_GenesisState_Nonce x)) @
      [])
    (portal_GenesisState_Size x)" (is "writes _ ?bs _")
    "fills (portal_GenesisState_MarshalToSizedBuffer order x) (marshalled (portal_GenesisState_Marshal order x))"
proof -
  note kept = assms(2) [unfolded portal_GenesisState_kept_def]
  have BridgingPaths: "fills (portal_BridgingPath_MarshalToSizedBuffer e) (marshalled (portal_BridgingPath_Marshal e))"
      if "e \<in> set (portal_GenesisState_BridgingPaths x)" for e
    by (rule portal_BridgingPath_filled(2))
  have BridgingPaths_length: "length (marshalled (portal_BridgingPath_Marshal e)) = portal_BridgingPath_Size e"
      if "e \<in> set (portal_GenesisState_BridgingPaths x)" for e
    by (rule writes_marshalled(2) [OF portal_BridgingPath_filled(1)])
  have Peers: "fills (portal_Peer_MarshalToSizedBuffer (snd e)) (marshalled (portal_Peer_Marshal (snd e)))"
      if "e \<in> set (portal_GenesisState_Peers x)" for e
    by (rule portal_Peer_filled(2))
  have Peers_length: "length (marshalled (portal_Peer_Marshal (snd e))) = portal_Peer_Size (snd e)"
      if "e \<in> set (portal_GenesisState_Peers x)" for e
    by (rule writes_marshalled(2) [OF portal_Peer_filled(1)])
  have f: "fills (portal_GenesisState_MarshalToSizedBuffer order x) ?bs"
    unfolding portal_GenesisState_MarshalToSizedBuffer_def
    by (rule fills_start,
      rule fills_step, rule fills_scalars(1) [OF gogo_varint],
      rule fills_step, rule fills_put_all, rule fills_put_message [OF gogo_varint], erule BridgingPaths,
      rule fills_step, rule fills_put_entries [OF assms(1)], rule fills_put_message [OF gogo_varint], rule fills_seq, rule fills_put_message [OF gogo_varint], erule Peers, rule fills_put_number [OF gogo_varint],
      rule fills_step, rule fills_scalars(3),
      rule fills_step, rule fills_scalars(2) [OF gogo_varint],
      rule fills_end)
  have l: "length ?bs = portal_GenesisState_Size x"
    by (simp add: portal_GenesisState_Size_def gogo_varint custom_message kept BridgingPaths_length Peers_length length_concat comp_def sum_entries [OF assms(1)] cong: map_cong)
  show "writes (portal_GenesisState_Marshal order x) ?bs (portal_GenesisState_Size x)" "fills (portal_GenesisState_MarshalToSizedBuffer order x) (marshalled (portal_GenesisState_Marshal order x))"
    by (rule fills_marshalled [OF f l portal_GenesisState_Marshal_def])+
qed

lemma portal_GenesisState_read:
  assumes "map_range order" "portal_GenesisState_kept x"
    and "length (delimited_bytes gogo_runtime 0xA (portal_GenesisState_Owner x) @
      bool_bytes 0x10 (portal_GenesisState_Paused x) @
      concat (map (\<lambda>e. message_bytes gogo_runtime 0x1A (number_bytes gogo_runtime 0x8 (ucast (fst e)) @ message_bytes gogo_runtime 0x12 (marshalled (portal_Peer_Marshal (snd e)))))
      (entries_order False order 3 (portal_GenesisState_Peers x))) @
      concat (map (\<lambda>e. message_bytes gogo_runtime 0x22 (marshalled (portal_BridgingPath_Marshal e))) (portal_GenesisState_BridgingPaths x)) @
      varint_bytes gogo_runtime 0x28 (ucast (portal_GenesisState_Nonce x)) @
      []) < 2 ^ 63" (is "length ?bs < _")
  shows "portal_GenesisState_Unmarshal ?bs = Some (Ok x)"
proof -
  note kept = assms(2) [unfolded portal_GenesisState_kept_def]
  have Peers: "the (portal_Peer_Unmarshal (marshalled (portal_Peer_Marshal (snd e)))) = Ok (snd e)"
      if "e \<in> set (entries_order False order 3 (portal_GenesisState_Peers x))" "length (marshalled (portal_Peer_Marshal (snd e))) < 2 ^ 63" for e
    by (rule exact_reads [OF portal_Peer_exact _ portal_Peer_filled(1) that(2)]; use kept that in \<open>simp add: set_entries [OF assms(1)]\<close>)
  have Peers_map: "map_ok (portal_GenesisState_Peers x)" using kept by simp
  have BridgingPaths: "the (portal_BridgingPath_Unmarshal (marshalled (portal_BridgingPath_Marshal e))) = Ok e"
      if "e \<in> set (portal_GenesisState_BridgingPaths x)" "length (marshalled (portal_BridgingPath_Marshal e)) < 2 ^ 63" for e
    by (rule exact_reads [OF portal_BridgingPath_exact _ portal_BridgingPath_filled(1) that(2)]; use kept that in \<open>simp\<close>)
  show ?thesis unfolding portal_GenesisState_Unmarshal_def
    by (rule readsD [OF _ assms(3)],
      rule reads_bytes [OF gogo_varint], rule wire_tags, simp add: portal_GenesisState_field_def, simp add: portal_GenesisState_empty_def,
      rule reads_bool, rule wire_tags, simp add: portal_GenesisState_field_def, simp add: portal_GenesisState_empty_def,
      rule reads_entries [where get = portal_GenesisState_Peers and upd = portal_GenesisState_Peers_update and kc = "\<lambda>k. ucast k" and kr = "\<lambda>e. (ucast (ucast (fst e) :: 64 word) :: 32 word, snd e)", OF gogo_varint], rule wire_tags,
        simp, simp, simp, simp add: portal_GenesisState_field_def, rule entry_reads_number [OF gogo_varint], simp, rule entry_reads_value [OF gogo_varint], erule (1) Peers,
        simp add: portal_GenesisState_empty_def fold_ordered_same [OF Peers_map assms(1)],
      rule reads_messages [where get = portal_GenesisState_BridgingPaths and upd = portal_GenesisState_BridgingPaths_update and c = "\<lambda>e. e", OF gogo_varint], rule wire_tags,
        simp, simp, simp, simp add: portal_GenesisState_field_def, erule (1) BridgingPaths,
      rule reads_varint32 [OF gogo_varint], rule wire_tags, simp add: portal_GenesisState_field_def, simp add: portal_GenesisState_empty_def,
      rule reads_done, simp add: portal_GenesisState_empty_def)
qed

lemma portal_GenesisState_exact:
  assumes "map_range order"
  shows "exact_codec (portal_GenesisState_Size) (portal_GenesisState_Marshal order)
    (portal_GenesisState_Unmarshal) (portal_GenesisState_kept)"
  by (rule exact_codecI, rule portal_GenesisState_filled(1) [OF assms], assumption, rule portal_GenesisState_read [OF assms]; assumption)

lemma portal_GenesisState_returns: "\<exists>r. portal_GenesisState_Unmarshal bs = Some r"
  unfolding portal_GenesisState_Unmarshal_def by (rule read_fields_returns [OF gogo_skip])

lemma portal_GenesisState_Unmarshal_empty: "portal_GenesisState_UnmarshalInto portal_GenesisState_empty = portal_GenesisState_Unmarshal"
  by (rule ext) (simp add: portal_GenesisState_UnmarshalInto_def portal_GenesisState_Unmarshal_def)

subsection \<open>GenesisState (vaults)\<close>

text \<open>\<open>GenesisState\<close> of \<open>types/vaults/genesis.pb.go\<close>.\<close>

record vaults_GenesisState =
  vaults_GenesisState_Positions :: "vaults_PositionEntry list"
  vaults_GenesisState_Rewards :: "vaults_Reward list"
  vaults_GenesisState_TotalFlexiblePrincipal :: "int option"
  vaults_GenesisState_Paused :: "32 word"
  vaults_GenesisState_Stats :: vaults_Stats
  vaults_GenesisState_SeasonOneEnded :: bool

definition vaults_GenesisState_Size :: "custom \<Rightarrow> std_time \<Rightarrow> vaults_GenesisState \<Rightarrow> nat" where
  "vaults_GenesisState_Size ic tc x =
     sum_list (map (\<lambda>e. size_message gogo_runtime (vaults_PositionEntry_Size ic tc e)) (vaults_GenesisState_Positions x)) +
     sum_list (map (\<lambda>e. size_message gogo_runtime (vaults_Reward_Size ic e)) (vaults_GenesisState_Rewards x)) +
     size_custom (Custom_Marshal ic (vaults_GenesisState_TotalFlexiblePrincipal x)) +
     size_varint gogo_runtime (scast (vaults_GenesisState_Paused x)) +
     size_message gogo_runtime (vaults_Stats_Size ic (vaults_GenesisState_Stats x)) +
     size_bool (vaults_GenesisState_SeasonOneEnded x)"

definition vaults_GenesisState_MarshalToSizedBuffer :: "custom \<Rightarrow> std_time \<Rightarrow> vaults_GenesisState \<Rightarrow> buffer \<Rightarrow> buffer result" where
  "vaults_GenesisState_MarshalToSizedBuffer ic tc x b =
     obind (put_bool 0x38 (vaults_GenesisState_SeasonOneEnded x) b) (\<lambda>b.
     obind (put_message gogo_runtime 0x32 (vaults_Stats_MarshalToSizedBuffer ic (vaults_GenesisState_Stats x)) b) (\<lambda>b.
     obind (put_varint gogo_runtime 0x28 (scast (vaults_GenesisState_Paused x)) b) (\<lambda>b.
     obind (put_custom 0x22 (Custom_Marshal ic (vaults_GenesisState_TotalFlexiblePrincipal x)) b) (\<lambda>b.
     obind (put_all (\<lambda>e. put_message gogo_runtime 0x1A (vaults_Reward_MarshalToSizedBuffer ic e)) (vaults_GenesisState_Rewards x) b) (\<lambda>b.
     obind (put_all (\<lambda>e. put_message gogo_runtime 0x12 (vaults_PositionEntry_MarshalToSizedBuffer ic tc e)) (vaults_GenesisState_Positions x) b) Ok)))))"

definition vaults_GenesisState_Marshal :: "custom \<Rightarrow> std_time \<Rightarrow> vaults_GenesisState \<Rightarrow> bytes result" where
  "vaults_GenesisState_Marshal ic tc x =
     obind (vaults_GenesisState_MarshalToSizedBuffer ic tc x (vaults_GenesisState_Size ic tc x, [])) (\<lambda>b. Ok (sized_bytes b))"

definition vaults_GenesisState_field ::
    "custom \<Rightarrow> std_time \<Rightarrow> int \<Rightarrow> int \<Rightarrow> vaults_GenesisState \<Rightarrow> nat \<Rightarrow> bytes \<Rightarrow> (vaults_GenesisState \<times> nat) result option" where
  "vaults_GenesisState_field ic tc fieldNum wireType x i bs =
     (if fieldNum = 2 then Some (custom_field wireType i (\<lambda>s. the (vaults_PositionEntry_Unmarshal ic tc s)) (\<lambda>v. x\<lparr>vaults_GenesisState_Positions := vaults_GenesisState_Positions x @ [v]\<rparr>) bs)
      else if fieldNum = 3 then Some (custom_field wireType i (\<lambda>s. the (vaults_Reward_Unmarshal ic s)) (\<lambda>v. x\<lparr>vaults_GenesisState_Rewards := vaults_GenesisState_Rewards x @ [v]\<rparr>) bs)
      else if fieldNum = 4 then Some (custom_field wireType i (Custom_Unmarshal ic (vaults_GenesisState_TotalFlexiblePrincipal x)) (\<lambda>v. x\<lparr>vaults_GenesisState_TotalFlexiblePrincipal := v\<rparr>) bs)
      else if fieldNum = 5 then Some (varint_field wireType (\<lambda>v. x\<lparr>vaults_GenesisState_Paused := v\<rparr>) bs)
      else if fieldNum = 6 then Some (custom_field wireType i (\<lambda>s. the (vaults_Stats_UnmarshalInto ic (vaults_GenesisState_Stats x) s)) (\<lambda>v. x\<lparr>vaults_GenesisState_Stats := v\<rparr>) bs)
      else if fieldNum = 7 then Some (bool_field wireType (\<lambda>v. x\<lparr>vaults_GenesisState_SeasonOneEnded := v\<rparr>) bs)
      else None)"

definition vaults_GenesisState_empty :: vaults_GenesisState where
  "vaults_GenesisState_empty = \<lparr>vaults_GenesisState_Positions = [], vaults_GenesisState_Rewards = [], vaults_GenesisState_TotalFlexiblePrincipal = None, vaults_GenesisState_Paused = 0, vaults_GenesisState_Stats = vaults_Stats_empty, vaults_GenesisState_SeasonOneEnded = False\<rparr>"

definition vaults_GenesisState_UnmarshalInto :: "custom \<Rightarrow> std_time \<Rightarrow> vaults_GenesisState \<Rightarrow> bytes \<Rightarrow> vaults_GenesisState result option" where
  "vaults_GenesisState_UnmarshalInto ic tc x bs = read_fields (Skip gogo_runtime) (vaults_GenesisState_field ic tc) (\<lambda>u x. x) x 0 bs"

definition vaults_GenesisState_Unmarshal :: "custom \<Rightarrow> std_time \<Rightarrow> bytes \<Rightarrow> vaults_GenesisState result option" where
  "vaults_GenesisState_Unmarshal ic tc bs = read_fields (Skip gogo_runtime) (vaults_GenesisState_field ic tc) (\<lambda>u x. x) vaults_GenesisState_empty 0 bs"

definition vaults_GenesisState_kept :: "(int \<Rightarrow> bool) \<Rightarrow> (int \<Rightarrow> bool) \<Rightarrow> vaults_GenesisState \<Rightarrow> bool" where
  "vaults_GenesisState_kept ok okt x \<longleftrightarrow>
     (\<forall>e\<in>set (vaults_GenesisState_Positions x). vaults_PositionEntry_kept ok okt e) \<and>
     (\<forall>e\<in>set (vaults_GenesisState_Rewards x). given ok (vaults_Reward_Total e) \<and> given ok (vaults_Reward_Rewards e)) \<and>
     given ok (vaults_GenesisState_TotalFlexiblePrincipal x) \<and>
     given ok (vaults_Stats_FlexibleTotalPrincipal (vaults_GenesisState_Stats x)) \<and> given ok (vaults_Stats_FlexibleTotalDistributedRewardsPrincipal (vaults_GenesisState_Stats x)) \<and> given ok (vaults_Stats_StakedTotalPrincipal (vaults_GenesisState_Stats x))"

lemma vaults_GenesisState_filled:
  assumes "custom_codec ic ok" "time_codec tc okt" "vaults_GenesisState_kept ok okt x"
  shows "writes (vaults_GenesisState_Marshal ic tc x)
    (concat (map (\<lambda>e. message_bytes gogo_runtime 0x12 (marshalled (vaults_PositionEntry_Marshal ic tc e))) (vaults_GenesisState_Positions x)) @
      concat (map (\<lambda>e. message_bytes gogo_runtime 0x1A (marshalled (vaults_Reward_Marshal ic e))) (vaults_GenesisState_Rewards x)) @
      message_bytes gogo_runtime 0x22 (Custom_Marshal ic (vaults_GenesisState_TotalFlexiblePrincipal x)) @
      varint_bytes gogo_runtime 0x28 (scast (vaults_GenesisState_Paused x)) @
      message_bytes gogo_runtime 0x32 (marshalled (vaults_Stats_Marshal ic (vaults_GenesisState_Stats x))) @
      bool_bytes 0x38 (vaults_GenesisState_SeasonOneEnded x) @
      [])
    (vaults_GenesisState_Size ic tc x)" (is "writes _ ?bs _")
    "fills (vaults_GenesisState_MarshalToSizedBuffer ic tc x) (marshalled (vaults_GenesisState_Marshal ic tc x))"
proof -
  note kept = assms(3) [unfolded vaults_GenesisState_kept_def]
  have Stats: "fills (vaults_Stats_MarshalToSizedBuffer ic (vaults_GenesisState_Stats x)) (marshalled (vaults_Stats_Marshal ic (vaults_GenesisState_Stats x)))"
    by (rule vaults_Stats_filled(2))
  have Stats_length: "length (marshalled (vaults_Stats_Marshal ic (vaults_GenesisState_Stats x))) = vaults_Stats_Size ic (vaults_GenesisState_Stats x)"
    by (rule writes_marshalled(2) [OF vaults_Stats_filled(1)])
  have Rewards: "fills (vaults_Reward_MarshalToSizedBuffer ic e) (marshalled (vaults_Reward_Marshal ic e))"
      if "e \<in> set (vaults_GenesisState_Rewards x)" for e
    by (rule vaults_Reward_filled(2))
  have Rewards_length: "length (marshalled (vaults_Reward_Marshal ic e)) = vaults_Reward_Size ic e"
      if "e \<in> set (vaults_GenesisState_Rewards x)" for e
    by (rule writes_marshalled(2) [OF vaults_Reward_filled(1)])
  have Positions: "fills (vaults_PositionEntry_MarshalToSizedBuffer ic tc e) (marshalled (vaults_PositionEntry_Marshal ic tc e))"
      if "e \<in> set (vaults_GenesisState_Positions x)" for e
    by (rule vaults_PositionEntry_filled(2) [OF assms(1,2)], use kept that in simp)
  have Positions_length: "length (marshalled (vaults_PositionEntry_Marshal ic tc e)) = vaults_PositionEntry_Size ic tc e"
      if "e \<in> set (vaults_GenesisState_Positions x)" for e
    by (rule writes_marshalled(2) [OF vaults_PositionEntry_filled(1) [OF assms(1,2)]], use kept that in simp)
  have f: "fills (vaults_GenesisState_MarshalToSizedBuffer ic tc x) ?bs"
    unfolding vaults_GenesisState_MarshalToSizedBuffer_def
    by (rule fills_start,
      rule fills_step, rule fills_scalars(3),
      rule fills_step, rule fills_put_message [OF gogo_varint], rule Stats,
      rule fills_step, rule fills_scalars(1) [OF gogo_varint],
      rule fills_step, rule fills_put_custom,
      rule fills_step, rule fills_put_all, rule fills_put_message [OF gogo_varint], erule Rewards,
      rule fills_step, rule fills_put_all, rule fills_put_message [OF gogo_varint], erule Positions,
      rule fills_end)
  have l: "length ?bs = vaults_GenesisState_Size ic tc x"
    by (simp add: vaults_GenesisState_Size_def gogo_varint custom_message kept Stats_length Rewards_length Positions_length length_concat comp_def cong: map_cong)
  show "writes (vaults_GenesisState_Marshal ic tc x) ?bs (vaults_GenesisState_Size ic tc x)" "fills (vaults_GenesisState_MarshalToSizedBuffer ic tc x) (marshalled (vaults_GenesisState_Marshal ic tc x))"
    by (rule fills_marshalled [OF f l vaults_GenesisState_Marshal_def])+
qed

lemma vaults_GenesisState_read:
  assumes "custom_codec ic ok" "time_codec tc okt" "vaults_GenesisState_kept ok okt x"
    and "length (concat (map (\<lambda>e. message_bytes gogo_runtime 0x12 (marshalled (vaults_PositionEntry_Marshal ic tc e))) (vaults_GenesisState_Positions x)) @
      concat (map (\<lambda>e. message_bytes gogo_runtime 0x1A (marshalled (vaults_Reward_Marshal ic e))) (vaults_GenesisState_Rewards x)) @
      message_bytes gogo_runtime 0x22 (Custom_Marshal ic (vaults_GenesisState_TotalFlexiblePrincipal x)) @
      varint_bytes gogo_runtime 0x28 (scast (vaults_GenesisState_Paused x)) @
      message_bytes gogo_runtime 0x32 (marshalled (vaults_Stats_Marshal ic (vaults_GenesisState_Stats x))) @
      bool_bytes 0x38 (vaults_GenesisState_SeasonOneEnded x) @
      []) < 2 ^ 63" (is "length ?bs < _")
  shows "vaults_GenesisState_Unmarshal ic tc ?bs = Some (Ok x)"
proof -
  note kept = assms(3) [unfolded vaults_GenesisState_kept_def]
  have Positions: "the (vaults_PositionEntry_Unmarshal ic tc (marshalled (vaults_PositionEntry_Marshal ic tc e))) = Ok e"
      if "e \<in> set (vaults_GenesisState_Positions x)" "length (marshalled (vaults_PositionEntry_Marshal ic tc e)) < 2 ^ 63" for e
    by (rule exact_reads [OF vaults_PositionEntry_exact [OF assms(1,2)] _ vaults_PositionEntry_filled(1) [OF assms(1,2)] that(2)]; use kept that in \<open>simp\<close>)
  have Rewards: "the (vaults_Reward_Unmarshal ic (marshalled (vaults_Reward_Marshal ic e))) = Ok e"
      if "e \<in> set (vaults_GenesisState_Rewards x)" "length (marshalled (vaults_Reward_Marshal ic e)) < 2 ^ 63" for e
    by (rule exact_reads [OF vaults_Reward_exact [OF assms(1)] _ vaults_Reward_filled(1) that(2)]; use kept that in \<open>simp\<close>)
  have Stats: "the (vaults_Stats_UnmarshalInto ic vaults_Stats_empty (marshalled (vaults_Stats_Marshal ic (vaults_GenesisState_Stats x)))) = Ok (vaults_GenesisState_Stats x)"
      if "length (marshalled (vaults_Stats_Marshal ic (vaults_GenesisState_Stats x))) < 2 ^ 63"
    unfolding vaults_Stats_Unmarshal_empty
    by (rule exact_reads [OF vaults_Stats_exact [OF assms(1)] _ vaults_Stats_filled(1) that]; use kept that in \<open>simp\<close>)
  show ?thesis unfolding vaults_GenesisState_Unmarshal_def
    by (rule readsD [OF _ assms(4)],
      rule reads_messages [where get = vaults_GenesisState_Positions and upd = vaults_GenesisState_Positions_update and c = "\<lambda>e. e", OF gogo_varint], rule wire_tags,
        simp, simp, simp, simp add: vaults_GenesisState_field_def, erule (1) Positions,
      rule reads_messages [where get = vaults_GenesisState_Rewards and upd = vaults_GenesisState_Rewards_update and c = "\<lambda>e. e", OF gogo_varint], rule wire_tags,
        simp, simp, simp, simp add: vaults_GenesisState_field_def, erule (1) Rewards,
      rule reads_message [OF gogo_varint], rule wire_tags, simp add: vaults_GenesisState_field_def, simp add: givenD [OF assms(1)] kept,
      rule reads_varint32 [OF gogo_varint], rule wire_tags, simp add: vaults_GenesisState_field_def, simp add: vaults_GenesisState_empty_def,
      rule reads_message [OF gogo_varint], rule wire_tags, simp add: vaults_GenesisState_field_def vaults_GenesisState_empty_def, erule Stats,
      rule reads_bool, rule wire_tags, simp add: vaults_GenesisState_field_def, simp add: vaults_GenesisState_empty_def,
      rule reads_done, simp add: vaults_GenesisState_empty_def)
qed

lemma vaults_GenesisState_exact:
  assumes "custom_codec ic ok" "time_codec tc okt"
  shows "exact_codec (vaults_GenesisState_Size ic tc) (vaults_GenesisState_Marshal ic tc)
    (vaults_GenesisState_Unmarshal ic tc) (vaults_GenesisState_kept ok okt)"
  by (rule exact_codecI, rule vaults_GenesisState_filled(1) [OF assms], assumption, rule vaults_GenesisState_read [OF assms]; assumption)

lemma vaults_GenesisState_returns: "\<exists>r. vaults_GenesisState_Unmarshal ic tc bs = Some r"
  unfolding vaults_GenesisState_Unmarshal_def by (rule read_fields_returns [OF gogo_skip])

lemma vaults_GenesisState_Unmarshal_empty: "vaults_GenesisState_UnmarshalInto ic tc vaults_GenesisState_empty = vaults_GenesisState_Unmarshal ic tc"
  by (rule ext) (simp add: vaults_GenesisState_UnmarshalInto_def vaults_GenesisState_Unmarshal_def)

subsection \<open>GenesisState (types)\<close>

text \<open>\<open>GenesisState\<close> of \<open>types/genesis.pb.go\<close>.\<close>

record types_GenesisState =
  types_GenesisState_Portal :: portal_GenesisState
  types_GenesisState_Vaults :: vaults_GenesisState
  types_GenesisState_Paused :: bool
  types_GenesisState_Index :: "64 word"
  types_GenesisState_Principal :: "(bytes, bytes) cmap"
  types_GenesisState_Stats :: types_Stats

definition types_GenesisState_Size :: "custom \<Rightarrow> std_time \<Rightarrow> types_GenesisState \<Rightarrow> nat" where
  "types_GenesisState_Size ic tc x =
     size_message gogo_runtime (portal_GenesisState_Size (types_GenesisState_Portal x)) +
     size_message gogo_runtime (vaults_GenesisState_Size ic tc (types_GenesisState_Vaults x)) +
     size_bool (types_GenesisState_Paused x) +
     size_varint gogo_runtime (types_GenesisState_Index x) +
     sum_list (map (\<lambda>e. size_message gogo_runtime (size_message gogo_runtime (length (fst e)) + size_message gogo_runtime (length (snd e)))) (types_GenesisState_Principal x)) +
     size_message gogo_runtime (types_Stats_Size ic (types_GenesisState_Stats x))"

definition types_GenesisState_MarshalToSizedBuffer :: "custom \<Rightarrow> std_time \<Rightarrow> range_order \<Rightarrow> types_GenesisState \<Rightarrow> buffer \<Rightarrow> buffer result" where
  "types_GenesisState_MarshalToSizedBuffer ic tc order x b =
     obind (put_message gogo_runtime 0x32 (types_Stats_MarshalToSizedBuffer ic (types_GenesisState_Stats x)) b) (\<lambda>b.
     obind (put_entries False order 5 (\<lambda>e. put_message gogo_runtime 0x2A (\<lambda>b.
         obind (put_encoded gogo_runtime 0x12 (snd e) b) (put_encoded gogo_runtime 0xA (fst e)))) (types_GenesisState_Principal x) b) (\<lambda>b.
     obind (put_varint gogo_runtime 0x20 (types_GenesisState_Index x) b) (\<lambda>b.
     obind (put_bool 0x18 (types_GenesisState_Paused x) b) (\<lambda>b.
     obind (put_message gogo_runtime 0x12 (vaults_GenesisState_MarshalToSizedBuffer ic tc (types_GenesisState_Vaults x)) b) (\<lambda>b.
     obind (put_message gogo_runtime 0xA (portal_GenesisState_MarshalToSizedBuffer order (types_GenesisState_Portal x)) b) Ok)))))"

definition types_GenesisState_Marshal :: "custom \<Rightarrow> std_time \<Rightarrow> range_order \<Rightarrow> types_GenesisState \<Rightarrow> bytes result" where
  "types_GenesisState_Marshal ic tc order x =
     obind (types_GenesisState_MarshalToSizedBuffer ic tc order x (types_GenesisState_Size ic tc x, [])) (\<lambda>b. Ok (sized_bytes b))"

definition types_GenesisState_field ::
    "custom \<Rightarrow> std_time \<Rightarrow> int \<Rightarrow> int \<Rightarrow> types_GenesisState \<Rightarrow> nat \<Rightarrow> bytes \<Rightarrow> (types_GenesisState \<times> nat) result option" where
  "types_GenesisState_field ic tc fieldNum wireType x i bs =
     (if fieldNum = 1 then Some (custom_field wireType i (\<lambda>s. the (portal_GenesisState_UnmarshalInto (types_GenesisState_Portal x) s)) (\<lambda>v. x\<lparr>types_GenesisState_Portal := v\<rparr>) bs)
      else if fieldNum = 2 then Some (custom_field wireType i (\<lambda>s. the (vaults_GenesisState_UnmarshalInto ic tc (types_GenesisState_Vaults x) s)) (\<lambda>v. x\<lparr>types_GenesisState_Vaults := v\<rparr>) bs)
      else if fieldNum = 3 then Some (bool_field wireType (\<lambda>v. x\<lparr>types_GenesisState_Paused := v\<rparr>) bs)
      else if fieldNum = 4 then Some (varint_field wireType (\<lambda>v. x\<lparr>types_GenesisState_Index := v\<rparr>) bs)
      else if fieldNum = 5 then Some (map_field (Skip gogo_runtime) (entry_field key_text (value_message Ok)) ([], []) wireType i
        (\<lambda>kv. x\<lparr>types_GenesisState_Principal := Map_Set (fst kv) (snd kv) (types_GenesisState_Principal x)\<rparr>) bs)
      else if fieldNum = 6 then Some (custom_field wireType i (\<lambda>s. the (types_Stats_UnmarshalInto ic (types_GenesisState_Stats x) s)) (\<lambda>v. x\<lparr>types_GenesisState_Stats := v\<rparr>) bs)
      else None)"

definition types_GenesisState_empty :: types_GenesisState where
  "types_GenesisState_empty = \<lparr>types_GenesisState_Portal = portal_GenesisState_empty, types_GenesisState_Vaults = vaults_GenesisState_empty, types_GenesisState_Paused = False, types_GenesisState_Index = 0, types_GenesisState_Principal = [], types_GenesisState_Stats = types_Stats_empty\<rparr>"

definition types_GenesisState_Unmarshal :: "custom \<Rightarrow> std_time \<Rightarrow> bytes \<Rightarrow> types_GenesisState result option" where
  "types_GenesisState_Unmarshal ic tc bs = read_fields (Skip gogo_runtime) (types_GenesisState_field ic tc) (\<lambda>u x. x) types_GenesisState_empty 0 bs"

definition types_GenesisState_kept :: "(int \<Rightarrow> bool) \<Rightarrow> (int \<Rightarrow> bool) \<Rightarrow> types_GenesisState \<Rightarrow> bool" where
  "types_GenesisState_kept ok okt x \<longleftrightarrow>
     portal_GenesisState_kept (types_GenesisState_Portal x) \<and>
     vaults_GenesisState_kept ok okt (types_GenesisState_Vaults x) \<and>
     map_ok (types_GenesisState_Principal x) \<and>
     given ok (types_Stats_TotalPrincipal (types_GenesisState_Stats x)) \<and> given ok (types_Stats_TotalYieldAccrued (types_GenesisState_Stats x))"

lemma types_GenesisState_filled:
  assumes "custom_codec ic ok" "time_codec tc okt" "map_range order" "types_GenesisState_kept ok okt x"
  shows "writes (types_GenesisState_Marshal ic tc order x)
    (message_bytes gogo_runtime 0xA (marshalled (portal_GenesisState_Marshal order (types_GenesisState_Portal x))) @
      message_bytes gogo_runtime 0x12 (marshalled (vaults_GenesisState_Marshal ic tc (types_GenesisState_Vaults x))) @
      bool_bytes 0x18 (types_GenesisState_Paused x) @
      varint_bytes gogo_runtime 0x20 (types_GenesisState_Index x) @
      concat (map (\<lambda>e. message_bytes gogo_runtime 0x2A (message_bytes gogo_runtime 0xA (fst e) @ message_bytes gogo_runtime 0x12 (snd e)))
      (entries_order False order 5 (types_GenesisState_Principal x))) @
      message_bytes gogo_runtime 0x32 (marshalled (types_Stats_Marshal ic (types_GenesisState_Stats x))) @
      [])
    (types_GenesisState_Size ic tc x)" (is "writes _ ?bs _")
    "fills (types_GenesisState_MarshalToSizedBuffer ic tc order x) (marshalled (types_GenesisState_Marshal ic tc order x))"
proof -
  note kept = assms(4) [unfolded types_GenesisState_kept_def]
  have Stats: "fills (types_Stats_MarshalToSizedBuffer ic (types_GenesisState_Stats x)) (marshalled (types_Stats_Marshal ic (types_GenesisState_Stats x)))"
    by (rule types_Stats_filled(2))
  have Stats_length: "length (marshalled (types_Stats_Marshal ic (types_GenesisState_Stats x))) = types_Stats_Size ic (types_GenesisState_Stats x)"
    by (rule writes_marshalled(2) [OF types_Stats_filled(1)])
  have Vaults: "fills (vaults_GenesisState_MarshalToSizedBuffer ic tc (types_GenesisState_Vaults x)) (marshalled (vaults_GenesisState_Marshal ic tc (types_GenesisState_Vaults x)))"
    by (rule vaults_GenesisState_filled(2) [OF assms(1,2)], use kept in simp)
  have Vaults_length: "length (marshalled (vaults_GenesisState_Marshal ic tc (types_GenesisState_Vaults x))) = vaults_GenesisState_Size ic tc (types_GenesisState_Vaults x)"
    by (rule writes_marshalled(2) [OF vaults_GenesisState_filled(1) [OF assms(1,2)]], use kept in simp)
  have Portal: "fills (portal_GenesisState_MarshalToSizedBuffer order (types_GenesisState_Portal x)) (marshalled (portal_GenesisState_Marshal order (types_GenesisState_Portal x)))"
    by (rule portal_GenesisState_filled(2) [OF assms(3)], use kept in simp)
  have Portal_length: "length (marshalled (portal_GenesisState_Marshal order (types_GenesisState_Portal x))) = portal_GenesisState_Size (types_GenesisState_Portal x)"
    by (rule writes_marshalled(2) [OF portal_GenesisState_filled(1) [OF assms(3)]], use kept in simp)
  have f: "fills (types_GenesisState_MarshalToSizedBuffer ic tc order x) ?bs"
    unfolding types_GenesisState_MarshalToSizedBuffer_def
    by (rule fills_start,
      rule fills_step, rule fills_put_message [OF gogo_varint], rule Stats,
      rule fills_step, rule fills_put_entries [OF assms(3)], rule fills_put_message [OF gogo_varint], rule fills_seq, rule fills_put_encoded [OF gogo_varint], rule fills_put_encoded [OF gogo_varint],
      rule fills_step, rule fills_scalars(1) [OF gogo_varint],
      rule fills_step, rule fills_scalars(3),
      rule fills_step, rule fills_put_message [OF gogo_varint], rule Vaults,
      rule fills_step, rule fills_put_message [OF gogo_varint], rule Portal,
      rule fills_end)
  have l: "length ?bs = types_GenesisState_Size ic tc x"
    by (simp add: types_GenesisState_Size_def gogo_varint custom_message kept Stats_length Vaults_length Portal_length length_concat comp_def sum_entries [OF assms(3)] cong: map_cong)
  show "writes (types_GenesisState_Marshal ic tc order x) ?bs (types_GenesisState_Size ic tc x)" "fills (types_GenesisState_MarshalToSizedBuffer ic tc order x) (marshalled (types_GenesisState_Marshal ic tc order x))"
    by (rule fills_marshalled [OF f l types_GenesisState_Marshal_def])+
qed

lemma types_GenesisState_read:
  assumes "custom_codec ic ok" "time_codec tc okt" "map_range order" "types_GenesisState_kept ok okt x"
    and "length (message_bytes gogo_runtime 0xA (marshalled (portal_GenesisState_Marshal order (types_GenesisState_Portal x))) @
      message_bytes gogo_runtime 0x12 (marshalled (vaults_GenesisState_Marshal ic tc (types_GenesisState_Vaults x))) @
      bool_bytes 0x18 (types_GenesisState_Paused x) @
      varint_bytes gogo_runtime 0x20 (types_GenesisState_Index x) @
      concat (map (\<lambda>e. message_bytes gogo_runtime 0x2A (message_bytes gogo_runtime 0xA (fst e) @ message_bytes gogo_runtime 0x12 (snd e)))
      (entries_order False order 5 (types_GenesisState_Principal x))) @
      message_bytes gogo_runtime 0x32 (marshalled (types_Stats_Marshal ic (types_GenesisState_Stats x))) @
      []) < 2 ^ 63" (is "length ?bs < _")
  shows "types_GenesisState_Unmarshal ic tc ?bs = Some (Ok x)"
proof -
  note kept = assms(4) [unfolded types_GenesisState_kept_def]
  have Portal: "the (portal_GenesisState_UnmarshalInto portal_GenesisState_empty (marshalled (portal_GenesisState_Marshal order (types_GenesisState_Portal x)))) = Ok (types_GenesisState_Portal x)"
      if "length (marshalled (portal_GenesisState_Marshal order (types_GenesisState_Portal x))) < 2 ^ 63"
    unfolding portal_GenesisState_Unmarshal_empty
    by (rule exact_reads [OF portal_GenesisState_exact [OF assms(3)] _ portal_GenesisState_filled(1) [OF assms(3)] that]; use kept that in \<open>simp\<close>)
  have Vaults: "the (vaults_GenesisState_UnmarshalInto ic tc vaults_GenesisState_empty (marshalled (vaults_GenesisState_Marshal ic tc (types_GenesisState_Vaults x)))) = Ok (types_GenesisState_Vaults x)"
      if "length (marshalled (vaults_GenesisState_Marshal ic tc (types_GenesisState_Vaults x))) < 2 ^ 63"
    unfolding vaults_GenesisState_Unmarshal_empty
    by (rule exact_reads [OF vaults_GenesisState_exact [OF assms(1,2)] _ vaults_GenesisState_filled(1) [OF assms(1,2)] that]; use kept that in \<open>simp\<close>)
  have Principal_map: "map_ok (types_GenesisState_Principal x)" using kept by simp
  have Stats: "the (types_Stats_UnmarshalInto ic types_Stats_empty (marshalled (types_Stats_Marshal ic (types_GenesisState_Stats x)))) = Ok (types_GenesisState_Stats x)"
      if "length (marshalled (types_Stats_Marshal ic (types_GenesisState_Stats x))) < 2 ^ 63"
    unfolding types_Stats_Unmarshal_empty
    by (rule exact_reads [OF types_Stats_exact [OF assms(1)] _ types_Stats_filled(1) that]; use kept that in \<open>simp\<close>)
  show ?thesis unfolding types_GenesisState_Unmarshal_def
    by (rule readsD [OF _ assms(5)],
      rule reads_message [OF gogo_varint], rule wire_tags, simp add: types_GenesisState_field_def types_GenesisState_empty_def, erule Portal,
      rule reads_message [OF gogo_varint], rule wire_tags, simp add: types_GenesisState_field_def types_GenesisState_empty_def, erule Vaults,
      rule reads_bool, rule wire_tags, simp add: types_GenesisState_field_def, simp add: types_GenesisState_empty_def,
      rule reads_varint [OF gogo_varint], rule wire_tags, simp add: types_GenesisState_field_def, simp add: types_GenesisState_empty_def,
      rule reads_entries [where get = types_GenesisState_Principal and upd = types_GenesisState_Principal_update and kc = "\<lambda>k. k" and kr = "\<lambda>e. (fst e, snd e)", OF gogo_varint], rule wire_tags,
        simp, simp, simp, simp add: types_GenesisState_field_def, rule entry_reads_text [OF gogo_varint], rule entry_reads_value [OF gogo_varint], rule refl,
        simp add: types_GenesisState_empty_def fold_ordered_same [OF Principal_map assms(3)],
      rule reads_message [OF gogo_varint], rule wire_tags, simp add: types_GenesisState_field_def types_GenesisState_empty_def, erule Stats,
      rule reads_done, simp add: types_GenesisState_empty_def)
qed

lemma types_GenesisState_exact:
  assumes "custom_codec ic ok" "time_codec tc okt" "map_range order"
  shows "exact_codec (types_GenesisState_Size ic tc) (types_GenesisState_Marshal ic tc order)
    (types_GenesisState_Unmarshal ic tc) (types_GenesisState_kept ok okt)"
  by (rule exact_codecI, rule types_GenesisState_filled(1) [OF assms], assumption, rule types_GenesisState_read [OF assms]; assumption)

lemma types_GenesisState_returns: "\<exists>r. types_GenesisState_Unmarshal ic tc bs = Some r"
  unfolding types_GenesisState_Unmarshal_def by (rule read_fields_returns [OF gogo_skip])

subsection \<open>GenesisState (v2)\<close>

text \<open>\<open>GenesisState\<close> of \<open>types/v2/genesis.pb.go\<close>.\<close>

record v2_GenesisState =
  v2_GenesisState_Portal :: portal_GenesisState
  v2_GenesisState_Vaults :: vaults_GenesisState
  v2_GenesisState_Paused :: bool
  v2_GenesisState_Index :: "64 word"
  v2_GenesisState_Principal :: "(bytes, bytes) cmap"
  v2_GenesisState_Stats :: v2_Stats
  v2_GenesisState_TotalExternalYield :: "(bytes, bytes) cmap"
  v2_GenesisState_YieldRecipients :: "(bytes, bytes) cmap"
  v2_GenesisState_RetryAmounts :: "(bytes, bytes) cmap"

definition v2_GenesisState_Size :: "custom \<Rightarrow> std_time \<Rightarrow> v2_GenesisState \<Rightarrow> nat" where
  "v2_GenesisState_Size ic tc x =
     size_message gogo_runtime (portal_GenesisState_Size (v2_GenesisState_Portal x)) +
     size_message gogo_runtime (vaults_GenesisState_Size ic tc (v2_GenesisState_Vaults x)) +
     size_bool (v2_GenesisState_Paused x) +
     size_varint gogo_runtime (v2_GenesisState_Index x) +
     sum_list (map (\<lambda>e. size_message gogo_runtime (size_message gogo_runtime (length (fst e)) + size_message gogo_runtime (length (snd e)))) (v2_GenesisState_Principal x)) +
     size_message gogo_runtime (v2_Stats_Size ic (v2_GenesisState_Stats x)) +
     sum_list (map (\<lambda>e. size_message gogo_runtime (size_message gogo_runtime (length (fst e)) + size_message gogo_runtime (length (snd e)))) (v2_GenesisState_TotalExternalYield x)) +
     sum_list (map (\<lambda>e. size_message gogo_runtime (size_message gogo_runtime (length (fst e)) + size_message gogo_runtime (length (snd e)))) (v2_GenesisState_YieldRecipients x)) +
     sum_list (map (\<lambda>e. size_message gogo_runtime (size_message gogo_runtime (length (fst e)) + size_message gogo_runtime (length (snd e)))) (v2_GenesisState_RetryAmounts x))"

definition v2_GenesisState_MarshalToSizedBuffer :: "custom \<Rightarrow> std_time \<Rightarrow> range_order \<Rightarrow> v2_GenesisState \<Rightarrow> buffer \<Rightarrow> buffer result" where
  "v2_GenesisState_MarshalToSizedBuffer ic tc order x b =
     obind (put_entries False order 9 (\<lambda>e. put_message gogo_runtime 0x4A (\<lambda>b.
         obind (put_encoded gogo_runtime 0x12 (snd e) b) (put_encoded gogo_runtime 0xA (fst e)))) (v2_GenesisState_RetryAmounts x) b) (\<lambda>b.
     obind (put_entries False order 8 (\<lambda>e. put_message gogo_runtime 0x42 (\<lambda>b.
         obind (put_encoded gogo_runtime 0x12 (snd e) b) (put_encoded gogo_runtime 0xA (fst e)))) (v2_GenesisState_YieldRecipients x) b) (\<lambda>b.
     obind (put_entries False order 7 (\<lambda>e. put_message gogo_runtime 0x3A (\<lambda>b.
         obind (put_encoded gogo_runtime 0x12 (snd e) b) (put_encoded gogo_runtime 0xA (fst e)))) (v2_GenesisState_TotalExternalYield x) b) (\<lambda>b.
     obind (put_message gogo_runtime 0x32 (v2_Stats_MarshalToSizedBuffer ic (v2_GenesisState_Stats x)) b) (\<lambda>b.
     obind (put_entries False order 5 (\<lambda>e. put_message gogo_runtime 0x2A (\<lambda>b.
         obind (put_encoded gogo_runtime 0x12 (snd e) b) (put_encoded gogo_runtime 0xA (fst e)))) (v2_GenesisState_Principal x) b) (\<lambda>b.
     obind (put_varint gogo_runtime 0x20 (v2_GenesisState_Index x) b) (\<lambda>b.
     obind (put_bool 0x18 (v2_GenesisState_Paused x) b) (\<lambda>b.
     obind (put_message gogo_runtime 0x12 (vaults_GenesisState_MarshalToSizedBuffer ic tc (v2_GenesisState_Vaults x)) b) (\<lambda>b.
     obind (put_message gogo_runtime 0xA (portal_GenesisState_MarshalToSizedBuffer order (v2_GenesisState_Portal x)) b) Ok))))))))"

definition v2_GenesisState_Marshal :: "custom \<Rightarrow> std_time \<Rightarrow> range_order \<Rightarrow> v2_GenesisState \<Rightarrow> bytes result" where
  "v2_GenesisState_Marshal ic tc order x =
     obind (v2_GenesisState_MarshalToSizedBuffer ic tc order x (v2_GenesisState_Size ic tc x, [])) (\<lambda>b. Ok (sized_bytes b))"

definition v2_GenesisState_field ::
    "custom \<Rightarrow> std_time \<Rightarrow> int \<Rightarrow> int \<Rightarrow> v2_GenesisState \<Rightarrow> nat \<Rightarrow> bytes \<Rightarrow> (v2_GenesisState \<times> nat) result option" where
  "v2_GenesisState_field ic tc fieldNum wireType x i bs =
     (if fieldNum = 1 then Some (custom_field wireType i (\<lambda>s. the (portal_GenesisState_UnmarshalInto (v2_GenesisState_Portal x) s)) (\<lambda>v. x\<lparr>v2_GenesisState_Portal := v\<rparr>) bs)
      else if fieldNum = 2 then Some (custom_field wireType i (\<lambda>s. the (vaults_GenesisState_UnmarshalInto ic tc (v2_GenesisState_Vaults x) s)) (\<lambda>v. x\<lparr>v2_GenesisState_Vaults := v\<rparr>) bs)
      else if fieldNum = 3 then Some (bool_field wireType (\<lambda>v. x\<lparr>v2_GenesisState_Paused := v\<rparr>) bs)
      else if fieldNum = 4 then Some (varint_field wireType (\<lambda>v. x\<lparr>v2_GenesisState_Index := v\<rparr>) bs)
      else if fieldNum = 5 then Some (map_field (Skip gogo_runtime) (entry_field key_text (value_message Ok)) ([], []) wireType i
        (\<lambda>kv. x\<lparr>v2_GenesisState_Principal := Map_Set (fst kv) (snd kv) (v2_GenesisState_Principal x)\<rparr>) bs)
      else if fieldNum = 6 then Some (custom_field wireType i (\<lambda>s. the (v2_Stats_UnmarshalInto ic (v2_GenesisState_Stats x) s)) (\<lambda>v. x\<lparr>v2_GenesisState_Stats := v\<rparr>) bs)
      else if fieldNum = 7 then Some (map_field (Skip gogo_runtime) (entry_field key_text (value_message Ok)) ([], []) wireType i
        (\<lambda>kv. x\<lparr>v2_GenesisState_TotalExternalYield := Map_Set (fst kv) (snd kv) (v2_GenesisState_TotalExternalYield x)\<rparr>) bs)
      else if fieldNum = 8 then Some (map_field (Skip gogo_runtime) (entry_field key_text (value_message Ok)) ([], []) wireType i
        (\<lambda>kv. x\<lparr>v2_GenesisState_YieldRecipients := Map_Set (fst kv) (snd kv) (v2_GenesisState_YieldRecipients x)\<rparr>) bs)
      else if fieldNum = 9 then Some (map_field (Skip gogo_runtime) (entry_field key_text (value_message Ok)) ([], []) wireType i
        (\<lambda>kv. x\<lparr>v2_GenesisState_RetryAmounts := Map_Set (fst kv) (snd kv) (v2_GenesisState_RetryAmounts x)\<rparr>) bs)
      else None)"

definition v2_GenesisState_empty :: v2_GenesisState where
  "v2_GenesisState_empty = \<lparr>v2_GenesisState_Portal = portal_GenesisState_empty, v2_GenesisState_Vaults = vaults_GenesisState_empty, v2_GenesisState_Paused = False, v2_GenesisState_Index = 0, v2_GenesisState_Principal = [], v2_GenesisState_Stats = v2_Stats_empty, v2_GenesisState_TotalExternalYield = [], v2_GenesisState_YieldRecipients = [], v2_GenesisState_RetryAmounts = []\<rparr>"

definition v2_GenesisState_Unmarshal :: "custom \<Rightarrow> std_time \<Rightarrow> bytes \<Rightarrow> v2_GenesisState result option" where
  "v2_GenesisState_Unmarshal ic tc bs = read_fields (Skip gogo_runtime) (v2_GenesisState_field ic tc) (\<lambda>u x. x) v2_GenesisState_empty 0 bs"

definition v2_GenesisState_kept :: "(int \<Rightarrow> bool) \<Rightarrow> (int \<Rightarrow> bool) \<Rightarrow> v2_GenesisState \<Rightarrow> bool" where
  "v2_GenesisState_kept ok okt x \<longleftrightarrow>
     portal_GenesisState_kept (v2_GenesisState_Portal x) \<and>
     vaults_GenesisState_kept ok okt (v2_GenesisState_Vaults x) \<and>
     map_ok (v2_GenesisState_Principal x) \<and>
     given ok (v2_Stats_TotalPrincipal (v2_GenesisState_Stats x)) \<and> given ok (v2_Stats_TotalYieldAccrued (v2_GenesisState_Stats x)) \<and>
     map_ok (v2_GenesisState_TotalExternalYield x) \<and>
     map_ok (v2_GenesisState_YieldRecipients x) \<and>
     map_ok (v2_GenesisState_RetryAmounts x)"

lemma v2_GenesisState_filled:
  assumes "custom_codec ic ok" "time_codec tc okt" "map_range order" "v2_GenesisState_kept ok okt x"
  shows "writes (v2_GenesisState_Marshal ic tc order x)
    (message_bytes gogo_runtime 0xA (marshalled (portal_GenesisState_Marshal order (v2_GenesisState_Portal x))) @
      message_bytes gogo_runtime 0x12 (marshalled (vaults_GenesisState_Marshal ic tc (v2_GenesisState_Vaults x))) @
      bool_bytes 0x18 (v2_GenesisState_Paused x) @
      varint_bytes gogo_runtime 0x20 (v2_GenesisState_Index x) @
      concat (map (\<lambda>e. message_bytes gogo_runtime 0x2A (message_bytes gogo_runtime 0xA (fst e) @ message_bytes gogo_runtime 0x12 (snd e)))
      (entries_order False order 5 (v2_GenesisState_Principal x))) @
      message_bytes gogo_runtime 0x32 (marshalled (v2_Stats_Marshal ic (v2_GenesisState_Stats x))) @
      concat (map (\<lambda>e. message_bytes gogo_runtime 0x3A (message_bytes gogo_runtime 0xA (fst e) @ message_bytes gogo_runtime 0x12 (snd e)))
      (entries_order False order 7 (v2_GenesisState_TotalExternalYield x))) @
      concat (map (\<lambda>e. message_bytes gogo_runtime 0x42 (message_bytes gogo_runtime 0xA (fst e) @ message_bytes gogo_runtime 0x12 (snd e)))
      (entries_order False order 8 (v2_GenesisState_YieldRecipients x))) @
      concat (map (\<lambda>e. message_bytes gogo_runtime 0x4A (message_bytes gogo_runtime 0xA (fst e) @ message_bytes gogo_runtime 0x12 (snd e)))
      (entries_order False order 9 (v2_GenesisState_RetryAmounts x))) @
      [])
    (v2_GenesisState_Size ic tc x)" (is "writes _ ?bs _")
    "fills (v2_GenesisState_MarshalToSizedBuffer ic tc order x) (marshalled (v2_GenesisState_Marshal ic tc order x))"
proof -
  note kept = assms(4) [unfolded v2_GenesisState_kept_def]
  have Stats: "fills (v2_Stats_MarshalToSizedBuffer ic (v2_GenesisState_Stats x)) (marshalled (v2_Stats_Marshal ic (v2_GenesisState_Stats x)))"
    by (rule v2_Stats_filled(2))
  have Stats_length: "length (marshalled (v2_Stats_Marshal ic (v2_GenesisState_Stats x))) = v2_Stats_Size ic (v2_GenesisState_Stats x)"
    by (rule writes_marshalled(2) [OF v2_Stats_filled(1)])
  have Vaults: "fills (vaults_GenesisState_MarshalToSizedBuffer ic tc (v2_GenesisState_Vaults x)) (marshalled (vaults_GenesisState_Marshal ic tc (v2_GenesisState_Vaults x)))"
    by (rule vaults_GenesisState_filled(2) [OF assms(1,2)], use kept in simp)
  have Vaults_length: "length (marshalled (vaults_GenesisState_Marshal ic tc (v2_GenesisState_Vaults x))) = vaults_GenesisState_Size ic tc (v2_GenesisState_Vaults x)"
    by (rule writes_marshalled(2) [OF vaults_GenesisState_filled(1) [OF assms(1,2)]], use kept in simp)
  have Portal: "fills (portal_GenesisState_MarshalToSizedBuffer order (v2_GenesisState_Portal x)) (marshalled (portal_GenesisState_Marshal order (v2_GenesisState_Portal x)))"
    by (rule portal_GenesisState_filled(2) [OF assms(3)], use kept in simp)
  have Portal_length: "length (marshalled (portal_GenesisState_Marshal order (v2_GenesisState_Portal x))) = portal_GenesisState_Size (v2_GenesisState_Portal x)"
    by (rule writes_marshalled(2) [OF portal_GenesisState_filled(1) [OF assms(3)]], use kept in simp)
  have f: "fills (v2_GenesisState_MarshalToSizedBuffer ic tc order x) ?bs"
    unfolding v2_GenesisState_MarshalToSizedBuffer_def
    by (rule fills_start,
      rule fills_step, rule fills_put_entries [OF assms(3)], rule fills_put_message [OF gogo_varint], rule fills_seq, rule fills_put_encoded [OF gogo_varint], rule fills_put_encoded [OF gogo_varint],
      rule fills_step, rule fills_put_entries [OF assms(3)], rule fills_put_message [OF gogo_varint], rule fills_seq, rule fills_put_encoded [OF gogo_varint], rule fills_put_encoded [OF gogo_varint],
      rule fills_step, rule fills_put_entries [OF assms(3)], rule fills_put_message [OF gogo_varint], rule fills_seq, rule fills_put_encoded [OF gogo_varint], rule fills_put_encoded [OF gogo_varint],
      rule fills_step, rule fills_put_message [OF gogo_varint], rule Stats,
      rule fills_step, rule fills_put_entries [OF assms(3)], rule fills_put_message [OF gogo_varint], rule fills_seq, rule fills_put_encoded [OF gogo_varint], rule fills_put_encoded [OF gogo_varint],
      rule fills_step, rule fills_scalars(1) [OF gogo_varint],
      rule fills_step, rule fills_scalars(3),
      rule fills_step, rule fills_put_message [OF gogo_varint], rule Vaults,
      rule fills_step, rule fills_put_message [OF gogo_varint], rule Portal,
      rule fills_end)
  have l: "length ?bs = v2_GenesisState_Size ic tc x"
    by (simp add: v2_GenesisState_Size_def gogo_varint custom_message kept Stats_length Vaults_length Portal_length length_concat comp_def sum_entries [OF assms(3)] cong: map_cong)
  show "writes (v2_GenesisState_Marshal ic tc order x) ?bs (v2_GenesisState_Size ic tc x)" "fills (v2_GenesisState_MarshalToSizedBuffer ic tc order x) (marshalled (v2_GenesisState_Marshal ic tc order x))"
    by (rule fills_marshalled [OF f l v2_GenesisState_Marshal_def])+
qed

lemma v2_GenesisState_read:
  assumes "custom_codec ic ok" "time_codec tc okt" "map_range order" "v2_GenesisState_kept ok okt x"
    and "length (message_bytes gogo_runtime 0xA (marshalled (portal_GenesisState_Marshal order (v2_GenesisState_Portal x))) @
      message_bytes gogo_runtime 0x12 (marshalled (vaults_GenesisState_Marshal ic tc (v2_GenesisState_Vaults x))) @
      bool_bytes 0x18 (v2_GenesisState_Paused x) @
      varint_bytes gogo_runtime 0x20 (v2_GenesisState_Index x) @
      concat (map (\<lambda>e. message_bytes gogo_runtime 0x2A (message_bytes gogo_runtime 0xA (fst e) @ message_bytes gogo_runtime 0x12 (snd e)))
      (entries_order False order 5 (v2_GenesisState_Principal x))) @
      message_bytes gogo_runtime 0x32 (marshalled (v2_Stats_Marshal ic (v2_GenesisState_Stats x))) @
      concat (map (\<lambda>e. message_bytes gogo_runtime 0x3A (message_bytes gogo_runtime 0xA (fst e) @ message_bytes gogo_runtime 0x12 (snd e)))
      (entries_order False order 7 (v2_GenesisState_TotalExternalYield x))) @
      concat (map (\<lambda>e. message_bytes gogo_runtime 0x42 (message_bytes gogo_runtime 0xA (fst e) @ message_bytes gogo_runtime 0x12 (snd e)))
      (entries_order False order 8 (v2_GenesisState_YieldRecipients x))) @
      concat (map (\<lambda>e. message_bytes gogo_runtime 0x4A (message_bytes gogo_runtime 0xA (fst e) @ message_bytes gogo_runtime 0x12 (snd e)))
      (entries_order False order 9 (v2_GenesisState_RetryAmounts x))) @
      []) < 2 ^ 63" (is "length ?bs < _")
  shows "v2_GenesisState_Unmarshal ic tc ?bs = Some (Ok x)"
proof -
  note kept = assms(4) [unfolded v2_GenesisState_kept_def]
  have Portal: "the (portal_GenesisState_UnmarshalInto portal_GenesisState_empty (marshalled (portal_GenesisState_Marshal order (v2_GenesisState_Portal x)))) = Ok (v2_GenesisState_Portal x)"
      if "length (marshalled (portal_GenesisState_Marshal order (v2_GenesisState_Portal x))) < 2 ^ 63"
    unfolding portal_GenesisState_Unmarshal_empty
    by (rule exact_reads [OF portal_GenesisState_exact [OF assms(3)] _ portal_GenesisState_filled(1) [OF assms(3)] that]; use kept that in \<open>simp\<close>)
  have Vaults: "the (vaults_GenesisState_UnmarshalInto ic tc vaults_GenesisState_empty (marshalled (vaults_GenesisState_Marshal ic tc (v2_GenesisState_Vaults x)))) = Ok (v2_GenesisState_Vaults x)"
      if "length (marshalled (vaults_GenesisState_Marshal ic tc (v2_GenesisState_Vaults x))) < 2 ^ 63"
    unfolding vaults_GenesisState_Unmarshal_empty
    by (rule exact_reads [OF vaults_GenesisState_exact [OF assms(1,2)] _ vaults_GenesisState_filled(1) [OF assms(1,2)] that]; use kept that in \<open>simp\<close>)
  have Principal_map: "map_ok (v2_GenesisState_Principal x)" using kept by simp
  have Stats: "the (v2_Stats_UnmarshalInto ic v2_Stats_empty (marshalled (v2_Stats_Marshal ic (v2_GenesisState_Stats x)))) = Ok (v2_GenesisState_Stats x)"
      if "length (marshalled (v2_Stats_Marshal ic (v2_GenesisState_Stats x))) < 2 ^ 63"
    unfolding v2_Stats_Unmarshal_empty
    by (rule exact_reads [OF v2_Stats_exact [OF assms(1)] _ v2_Stats_filled(1) that]; use kept that in \<open>simp\<close>)
  have TotalExternalYield_map: "map_ok (v2_GenesisState_TotalExternalYield x)" using kept by simp
  have YieldRecipients_map: "map_ok (v2_GenesisState_YieldRecipients x)" using kept by simp
  have RetryAmounts_map: "map_ok (v2_GenesisState_RetryAmounts x)" using kept by simp
  show ?thesis unfolding v2_GenesisState_Unmarshal_def
    by (rule readsD [OF _ assms(5)],
      rule reads_message [OF gogo_varint], rule wire_tags, simp add: v2_GenesisState_field_def v2_GenesisState_empty_def, erule Portal,
      rule reads_message [OF gogo_varint], rule wire_tags, simp add: v2_GenesisState_field_def v2_GenesisState_empty_def, erule Vaults,
      rule reads_bool, rule wire_tags, simp add: v2_GenesisState_field_def, simp add: v2_GenesisState_empty_def,
      rule reads_varint [OF gogo_varint], rule wire_tags, simp add: v2_GenesisState_field_def, simp add: v2_GenesisState_empty_def,
      rule reads_entries [where get = v2_GenesisState_Principal and upd = v2_GenesisState_Principal_update and kc = "\<lambda>k. k" and kr = "\<lambda>e. (fst e, snd e)", OF gogo_varint], rule wire_tags,
        simp, simp, simp, simp add: v2_GenesisState_field_def, rule entry_reads_text [OF gogo_varint], rule entry_reads_value [OF gogo_varint], rule refl,
        simp add: v2_GenesisState_empty_def fold_ordered_same [OF Principal_map assms(3)],
      rule reads_message [OF gogo_varint], rule wire_tags, simp add: v2_GenesisState_field_def v2_GenesisState_empty_def, erule Stats,
      rule reads_entries [where get = v2_GenesisState_TotalExternalYield and upd = v2_GenesisState_TotalExternalYield_update and kc = "\<lambda>k. k" and kr = "\<lambda>e. (fst e, snd e)", OF gogo_varint], rule wire_tags,
        simp, simp, simp, simp add: v2_GenesisState_field_def, rule entry_reads_text [OF gogo_varint], rule entry_reads_value [OF gogo_varint], rule refl,
        simp add: v2_GenesisState_empty_def fold_ordered_same [OF TotalExternalYield_map assms(3)],
      rule reads_entries [where get = v2_GenesisState_YieldRecipients and upd = v2_GenesisState_YieldRecipients_update and kc = "\<lambda>k. k" and kr = "\<lambda>e. (fst e, snd e)", OF gogo_varint], rule wire_tags,
        simp, simp, simp, simp add: v2_GenesisState_field_def, rule entry_reads_text [OF gogo_varint], rule entry_reads_value [OF gogo_varint], rule refl,
        simp add: v2_GenesisState_empty_def fold_ordered_same [OF YieldRecipients_map assms(3)],
      rule reads_entries [where get = v2_GenesisState_RetryAmounts and upd = v2_GenesisState_RetryAmounts_update and kc = "\<lambda>k. k" and kr = "\<lambda>e. (fst e, snd e)", OF gogo_varint], rule wire_tags,
        simp, simp, simp, simp add: v2_GenesisState_field_def, rule entry_reads_text [OF gogo_varint], rule entry_reads_value [OF gogo_varint], rule refl,
        simp add: v2_GenesisState_empty_def fold_ordered_same [OF RetryAmounts_map assms(3)],
      rule reads_done, simp add: v2_GenesisState_empty_def)
qed

lemma v2_GenesisState_exact:
  assumes "custom_codec ic ok" "time_codec tc okt" "map_range order"
  shows "exact_codec (v2_GenesisState_Size ic tc) (v2_GenesisState_Marshal ic tc order)
    (v2_GenesisState_Unmarshal ic tc) (v2_GenesisState_kept ok okt)"
  by (rule exact_codecI, rule v2_GenesisState_filled(1) [OF assms], assumption, rule v2_GenesisState_read [OF assms]; assumption)

lemma v2_GenesisState_returns: "\<exists>r. v2_GenesisState_Unmarshal ic tc bs = Some r"
  unfolding v2_GenesisState_Unmarshal_def by (rule read_fields_returns [OF gogo_skip])

lemmas codec_nested_exact =
  vaults_Position_exact vaults_PositionEntry_exact vaults_QueryPositionsByProviderResponse_exact
  vaults_QueryPendingRewardsByProviderResponse_exact portal_QueryDestinationTokensResponse_exact
  portal_QueryPeersResponse_exact v2_QueryStatsResponse_exact
  v2_QueryYieldRecipientsResponse_exact v2_QueryRetryAmountsResponse_exact
  portal_GenesisState_exact vaults_GenesisState_exact types_GenesisState_exact
  v2_GenesisState_exact

lemmas codec_nested_returns =
  vaults_Position_returns vaults_PositionEntry_returns
  vaults_QueryPositionsByProviderResponse_returns
  vaults_QueryPendingRewardsByProviderResponse_returns
  portal_QueryDestinationTokensResponse_returns portal_QueryPeersResponse_returns
  v2_QueryStatsResponse_returns v2_QueryYieldRecipientsResponse_returns
  v2_QueryRetryAmountsResponse_returns portal_GenesisState_returns vaults_GenesisState_returns
  types_GenesisState_returns v2_GenesisState_returns

end
