(* ===== verification/Portal_Properties.thy ===== *)
theory Portal_Properties
  imports Portal_Laws Testbed
begin

text \<open>
  The properties of the Portal: round trips of the wire formats, the guards of delivery and of
  transfer, the path of a transfer from one chain to another, and administration.
\<close>

text \<open>A Portal connected to chains 5 and 9, with one path each.\<close>

definition portal_world :: "mock_app world" where
  "portal_world = test_world\<lparr>
     PortalPeers := [(5, \<lparr>Transceiver = replicate 32 5, Manager = PaddedManagerAddress test_env\<rparr>),
       (9, \<lparr>Transceiver = replicate 32 9, Manager = PaddedManagerAddress test_env\<rparr>)],
     PortalBridgingPaths := [((9, RawToken test_env), True)]\<rparr>"

subsection \<open>Wire formats\<close>

text \<open>A manager message with a 32-byte identifier and sender and a payload whose length
  fits sixteen bits is parsed back to what was encoded, whatever lies behind it in memory.\<close>

theorem manager_round_trip:
  assumes "length (data (Id m)) = 32" "length (data (mm_Sender m)) = 32" "length (data (Payload m)) < 2 ^ 16"
  shows "\<exists>m'. ParseManagerMessage (Slice (EncodeManagerMessage m) t) = Ok m' \<and> data (Id m') = data (Id m) \<and>
    data (mm_Sender m') = data (mm_Sender m) \<and> data (Payload m') = data (Payload m)"
  using assms by (auto intro: parse_manager [of m t])

theorem manager_round_trip_witness:
  "\<exists>m'. ParseManagerMessage (lit (EncodeManagerMessage \<lparr>Id = lit (replicate 32 1),
     mm_Sender = lit (replicate 32 2), Payload = lit [3, 4]\<rparr>)) = Ok m' \<and> data (Payload m') = [3, 4]"
  using manager_round_trip [of "\<lparr>Id = lit (replicate 32 1), mm_Sender = lit (replicate 32 2),
     Payload = lit [3, 4]\<rparr>" "[]"] by auto

text \<open>A transceiver message with 32-byte manager addresses and payloads whose lengths
  fit sixteen bits is parsed back to what was encoded.\<close>

theorem transceiver_round_trip:
  assumes "length (data (SourceManagerAddress m)) = 32" "length (data (RecipientManagerAddress m)) = 32"
    and "length (data (ManagerPayload m)) < 2 ^ 16" "length (data (TransceiverPayload m)) < 2 ^ 16"
  shows "\<exists>m'. ParseTransceiverMessage (Slice (EncodeTransceiverMessage m) t) = Ok m' \<and>
    data (SourceManagerAddress m') = data (SourceManagerAddress m) \<and>
    data (RecipientManagerAddress m') = data (RecipientManagerAddress m) \<and>
    data (ManagerPayload m') = data (ManagerPayload m) \<and>
    data (TransceiverPayload m') = data (TransceiverPayload m)"
  using assms by (auto intro: parse_transceiver [of m t])

theorem transceiver_round_trip_witness:
  "\<exists>m'. ParseTransceiverMessage (lit (EncodeTransceiverMessage \<lparr>SourceManagerAddress = lit (replicate 32 1),
     RecipientManagerAddress = lit (replicate 32 2), ManagerPayload = lit [3, 4], TransceiverPayload = lit [5]\<rparr>))
     = Ok m' \<and> data (ManagerPayload m') = [3, 4] \<and> data (TransceiverPayload m') = [5]"
  using transceiver_round_trip [of "\<lparr>SourceManagerAddress = lit (replicate 32 1),
     RecipientManagerAddress = lit (replicate 32 2), ManagerPayload = lit [3, 4], TransceiverPayload = lit [5]\<rparr>" "[]"]
  by auto

text \<open>The payload the Portal sends for a transfer is recognised as a token payload and
  decoded to the amount, the index, the destination and the recipient without its padding; an
  index payload is recognised as one and decoded to its index, negative ones included.\<close>

theorem payload_round_trip:
  assumes "length (RawToken e) = 32" "length to = 32" "length tok = 32" "- (2 ^ 63) \<le> i" "i < 2 ^ 63"
  shows "(\<exists>p. GetPayloadType (Slice (transferPayload e i a c tok to) t) = Token_Payload \<and>
      DecodeTokenPayload (Slice (transferPayload e i a c tok to) t) = Ok p \<and>
      tp_Amount p = uint a \<and> tp_Index p = i \<and> data (tp_Recipient p) = drop 12 to \<and>
      tp_DestinationChainId p = c \<and> data (tp_DestinationToken p) = tok) \<and>
    GetPayloadType (Slice (EncodeIndexPayload i c) t) = Index_Payload \<and>
    DecodeIndexPayload (Slice (EncodeIndexPayload i c) t) = Ok (i, c)"
proof -
  obtain p where "DecodeTokenPayload (Slice (transferPayload e i a c tok to) t) = Ok p \<and>
      tp_Amount p = uint a \<and> tp_Index p = i \<and> data (tp_Recipient p) = drop 12 to \<and>
      tp_DestinationChainId p = c \<and> data (tp_DestinationToken p) = tok"
    unfolding transferPayload_def by (rule decode_token [OF assms, of a c t]) blast
  then show ?thesis
    using type_of_transfer type_of_index decode_index [OF assms(4,5)]
    unfolding transferPayload_def by blast
qed

theorem payload_round_trip_witness:
  "DecodeIndexPayload (lit (EncodeIndexPayload (- 3) 9)) = Ok (- 3, 9)"
proof -
  have "length (RawToken test_env) = 32" by code_simp
  from payload_round_trip [OF this, of "replicate 32 1" "replicate 32 2" "- 3" 0 9 "[]"]
  show ?thesis by simp
qed

subsection \<open>Delivery\<close>

text \<open>C10 (deliver_authenticated): a delivery succeeds only when the Portal is not paused, Wormhole has verified the
  message, and it comes from the transceiver and the manager configured for its chain and is
  addressed to this manager.\<close>

theorem deliver_authenticated:
  assumes "portal_Deliver e bz w = (Ok (), w')"
  shows "\<not> GetPortalPaused w \<and> (\<exists>v b peer tm. ParseAndVerifyVAA e bz (App w) = (Ok v, b) \<and>
    Map_Get (PortalPeers w) (EmitterChain v) = Some peer \<and> EmitterAddress v = Transceiver peer \<and>
    ParseTransceiverMessage (VaaPayload v) = Ok tm \<and> data (SourceManagerAddress tm) = Manager peer \<and>
    data (RecipientManagerAddress tm) = PaddedManagerAddress e)"
proof -
  from assms obtain u v where "Deliver e bz w = (Ok u, v)"
    by (auto simp: portal_Deliver_def thn_Ok)
  then show ?thesis by (rule Deliver_Ok) metis
qed

text \<open>A message of chain 5 with a given payload, verified by the concrete Wormhole.\<close>

definition test_vaa :: "bytes \<Rightarrow> bytes" where
  "test_vaa payload = 5 # envelope (PaddedManagerAddress test_env) (PaddedManagerAddress test_env)
     (replicate 32 0) (replicate 32 0) payload"

definition test_peer :: "8 word \<Rightarrow> peer" where
  "test_peer x = \<lparr>Transceiver = replicate 32 x, Manager = PaddedManagerAddress test_env\<rparr>"

lemma test_vaa_verified:
  "ParseAndVerifyVAA test_env (test_vaa p) b = (Ok \<lparr>EmitterChain = 5, EmitterAddress = replicate 32 5,
     VaaPayload = lit (envelope (PaddedManagerAddress test_env) (PaddedManagerAddress test_env)
       (replicate 32 0) (replicate 32 0) p)\<rparr>, b)"
  by (simp add: test_env_def test_vaa_def)

lemma portal_world_facts:
  "\<not> GetPortalPaused portal_world" "Map_Get (PortalPeers portal_world) 5 = Some (test_peer 5)"
  "Map_Get (PortalPeers portal_world) 9 = Some (test_peer 9)"
  "Index portal_world = Some (10 ^ 12)" "GetChain test_env b = Ok 4009"
  by (simp_all add: portal_world_def test_world_def test_env_def test_peer_def GetPortalPaused_def)

theorem deliver_authenticated_witness:
  "\<exists>w'. portal_Deliver test_env (test_vaa []) portal_world = (Ok (), w') \<and> \<not> GetPortalPaused portal_world"
proof -
  let ?b = "App portal_world"
  have "fst (Deliver test_env (test_vaa []) portal_world) = Ok ()"
    by (rule Deliver_envelope [OF portal_world_facts(1) test_vaa_verified, where peer = "test_peer 5"
          and mid = "replicate 32 0" and sender = "replicate 32 0" and payload = "[]" and t = "[]"])
      (simp_all add: portal_world_facts test_peer_def HandlePayload_def bnd_def wrap_err_def catch_def
        GetPayloadType_def ret_def, simp only: fst_conv)
  from run_of [OF this] have run: "portal_Deliver test_env (test_vaa []) portal_world
      = emit (Delivered (test_vaa [])) (snd (Deliver test_env (test_vaa []) portal_world))"
    unfolding portal_Deliver_def by (rule thn_step)
  then show ?thesis unfolding emit_run using deliver_authenticated [of test_env "test_vaa []" portal_world] by auto
qed



text \<open>An index message from the peer, addressed to this chain, does what the index update
  does and nothing more; one addressed to another chain is refused.\<close>

theorem index_delivered:
  assumes "\<not> GetPortalPaused w" "ParseAndVerifyVAA e bz (App w) = (Ok v, b)"
    and "Map_Get (PortalPeers w) (EmitterChain v) = Some peer" "EmitterAddress v = Transceiver peer"
    and "VaaPayload v = Slice (envelope (Manager peer) (PaddedManagerAddress e) mid sender (EncodeIndexPayload i d)) t"
    and "length mid = 32" "length sender = 32" "length (Manager peer) = 32"
    and "- (2 ^ 63) \<le> i" "i < 2 ^ 63" "GetChain e b = Ok c"
  shows "Deliver e bz w = (if d = c then UpdateIndex e i (w\<lparr>App := b\<rparr>)
    else (Err (Errorf ''not destination chain''), w\<lparr>App := b\<rparr>))"
proof -
  have len: "length (EncodeIndexPayload i d) < 65536 - 66"
    by (simp add: EncodeIndexPayload_def M0IT_def)
  have chain: "GetChain e (App (w\<lparr>App := b\<rparr>)) = Ok c" using assms(11) by simp
  show ?thesis
    by (rule Deliver_envelope [OF assms(1-8) len]) (simp add: HandlePayload_index [OF _ chain assms(9,10)])
qed

theorem index_delivered_witness:
  "Deliver test_env (test_vaa (EncodeIndexPayload (2 * 10 ^ 12) 4009)) portal_world
     = UpdateIndex test_env (2 * 10 ^ 12) (portal_world\<lparr>App := App portal_world\<rparr>)"
proof -
  have "Map_Get (PortalPeers portal_world) (EmitterChain \<lparr>EmitterChain = 5, EmitterAddress = a, VaaPayload = p\<rparr>)
      = Some (test_peer 5)" for a p
    by (simp add: portal_world_facts)
  from index_delivered [OF portal_world_facts(1) test_vaa_verified this, where mid = "replicate 32 0"
      and sender = "replicate 32 0" and i = "2 * 10 ^ 12" and d = 4009 and t = "[]" and c = 4009]
  show ?thesis by (simp add: test_peer_def portal_world_facts)
qed

subsection \<open>Transfers\<close>

text \<open>A transfer while the Portal is paused, to a chain without a peer, of a token without a
  path or to a recipient that is not 32 bytes long is refused and changes nothing.\<close>

theorem transfer_refuses:
  assumes "GetPortalPaused w \<or> Map_Get (PortalPeers w) c = None \<or>
    \<not> Map_Has (PortalBridgingPaths w) (c, tok) \<or> length recipient \<noteq> 32"
  shows "\<exists>err. root_error err \<in> {ErrPortalPaused, ErrInvalidPeer, ErrInvalidBridgePath, ErrInvalidRecipient} \<and>
    portal_Transfer e signer amount c tok recipient w = (Err err, w)"
  using assms
  by (auto simp: portal_Transfer_def bnd_def gets_def from_option_def fail_def ret_def split: option.split)

theorem transfer_refuses_witness:
  "\<exists>err. portal_Transfer test_env ''a'' (Some 10) 9 (RawToken test_env) [1] portal_world = (Err err, portal_world)"
  using transfer_refuses [of portal_world 9 "RawToken test_env" "[1]" test_env "''a''" "Some 10"] by auto


text \<open>The concrete transfer of the witnesses: a user sends 100 to chain 9.\<close>

definition test_recipient :: bytes where
  "test_recipient = replicate 31 0 @ [98]"

lemma test_transfer:
  assumes "w \<in> {portal_world, portal_world\<lparr>PortalBridgingPaths := [((9, RawToken test_env), False)], Events := es\<rparr>}"
  shows "portal_Transfer test_env ''a'' (Some 100) 9 (RawToken test_env) test_recipient w
    = (Ok (), snd (portal_Transfer test_env ''a'' (Some 100) 9 (RawToken test_env) test_recipient w))"
proof (rule run_of, rule Transfer_run)
  show "\<not> GetPortalPaused w" "Map_Get (PortalPeers w) 9 = Some (test_peer 9)"
    "Map_Has (PortalBridgingPaths w) (9, RawToken test_env)" "Index w = Some (10 ^ 12)"
    "PortalNonce w = Some 7"
    using assms by (auto simp: portal_world_def test_world_def GetPortalPaused_def test_peer_def Map_Has_def)
  show "length test_recipient = 32" by (simp add: test_recipient_def)
  show "StringToBytes test_env ''a'' = Some [97]" "GetChain test_env (App w) = Ok 4009" by code_simp+
  have "fst (Burn test_env [97] 100 (portal_world\<lparr>PortalNonce := Some (7 + 1)\<rparr>)) = Ok ()"
    "fst (Burn test_env [97] 100 (portal_world\<lparr>PortalBridgingPaths := [((9, RawToken test_env), False)],
       Events := es, PortalNonce := Some (7 + 1)\<rparr>)) = Ok ()"
    by code_simp+
  then have "fst (Burn test_env [97] 100 (w\<lparr>PortalNonce := Some (7 + 1)\<rparr>)) = Ok ()"
    using assms by auto
  then show "Burn test_env [97] 100 (w\<lparr>PortalNonce := Some (7 + 1)\<rparr>)
      = (Ok (), snd (Burn test_env [97] 100 (w\<lparr>PortalNonce := Some (7 + 1)\<rparr>)))"
    by (rule run_of)
  show "PostMessage test_env s m n b = (Ok (), b)" for s m n b
    by (simp add: test_env_def)
qed simp_all


subsection \<open>From one chain to another\<close>

text \<open>C7 (portal_round_trip): what a transfer posts on one chain, once it is verified and delivered by the Portal of
  the destination chain, whose token and manager the transfer named, mints there exactly the
  amount that was burned, to the account behind the padding of the recipient, at the index of the
  source chain.\<close>

theorem portal_round_trip:
  assumes "portal_Transfer e signer (Some amount) c (RawToken e') recipient w = (Ok (), w')"
    and "Map_Get (PortalPeers w) c = Some there" "Index w = Some i" "- (2 ^ 63) \<le> i" "i < 2 ^ 63"
    and "length (RawToken e) = 32" "length (RawToken e') = 32" "Manager there = PaddedManagerAddress e'"
    and "BytesToString e' (drop 12 recipient) = Some name"
  shows "\<exists>m n b. (\<exists>a. PostMessage e (TransceiverAddress e) m n a = (Ok (), b)) \<and>
    (\<forall>bz v vaa b' here t u.
       \<not> GetPortalPaused v \<and> ParseAndVerifyVAA e' bz (App v) = (Ok vaa, b') \<and> VaaPayload vaa = Slice m t \<and>
       Map_Get (PortalPeers v) (EmitterChain vaa) = Some here \<and> EmitterAddress vaa = Transceiver here \<and>
       Manager here = PaddedManagerAddress e \<and> GetChain e' b' = Ok c \<and>
       Mint e' (drop 12 recipient) amount (Some i) (v\<lparr>App := b'\<rparr>) = (Ok (), u) \<longrightarrow>
       (\<exists>h. Deliver e' bz v = (Ok (), Events_update h u)))"
proof (rule Transfer_effect [OF assms(1)])
  fix peer i' sender n v0 b x y
  assume t: "Map_Get (PortalPeers w) c = Some peer" "length recipient = 32" "Index w = Some i'"
    "0 \<le> amount" "amount < 2 ^ 63" "length sender \<le> 32"
    and post: "PostMessage e (TransceiverAddress e) (envelope (PaddedManagerAddress e) (Manager peer)
       (replicate 28 0 @ put32 n) (replicate (32 - length sender) 0 @ sender)
       (transferPayload e i' (word_of_int amount) c (RawToken e') recipient)) n (App v0) = (Ok y, b)"
  let ?p = "transferPayload e i (word_of_int amount) c (RawToken e') recipient"
  let ?m = "envelope (PaddedManagerAddress e) (PaddedManagerAddress e') (replicate 28 0 @ put32 n)
    (replicate (32 - length sender) 0 @ sender) ?p"
  have amt: "uint (word_of_int amount :: 64 word) = amount"
    using uint_Uint64 [of amount] t(4,5) by (simp add: Int_Uint64_def)
  have len: "length ?p < 65536 - 66"
    using assms(6,7) t(2)
    by (simp add: transferPayload_def EncodeNativeTokenTransfer_def EncodeAdditionalPayload_def
        NativeTokenTransferPrefix_def)
  have "\<exists>h. Deliver e' bz v = (Ok (), Events_update h u)"
    if d: "\<not> GetPortalPaused v" "ParseAndVerifyVAA e' bz (App v) = (Ok vaa, b')" "VaaPayload vaa = Slice ?m t"
      "Map_Get (PortalPeers v) (EmitterChain vaa) = Some here" "EmitterAddress vaa = Transceiver here"
      "Manager here = PaddedManagerAddress e" "GetChain e' b' = Ok c"
      "Mint e' (drop 12 recipient) amount (Some i) (v\<lparr>App := b'\<rparr>) = (Ok (), u)"
    for bz v vaa b' here t u
  proof -
    have chain: "GetChain e' (App (v\<lparr>App := b'\<rparr>)) = Ok c" using d(7) by simp
    have mint: "Mint e' (drop 12 recipient) (uint (word_of_int amount :: 64 word)) (Some i) (v\<lparr>App := b'\<rparr>) = (Ok (), u)"
      using d(8) by (simp add: amt)
    show ?thesis
      by (rule Deliver_envelope [OF d(1,2,4,5), of "replicate 28 0 @ put32 n"
            "replicate (32 - length sender) 0 @ sender" ?p t])
        (use d(3,6) t(6) len HandlePayload_transfer [OF _ chain assms(6,7) t(2) assms(4,5) mint assms(9)]
         in auto)
  qed
  moreover have "PostMessage e (TransceiverAddress e) ?m n (App v0) = (Ok (), b)"
    using post t(1,3) assms(2,3,8) by simp
  ultimately show ?thesis by blast
qed

definition far_env :: "mock_app env" where
  "far_env = test_env\<lparr>GetChain := (\<lambda>_. Ok 9)\<rparr>"

theorem portal_round_trip_witness:
  "\<exists>m h u. Mint far_env (drop 12 test_recipient) 100 (Some (10 ^ 12)) portal_world = (Ok (), u) \<and>
     Deliver far_env (5 # m) portal_world = (Ok (), Events_update h u)"
proof -
  have far: "RawToken far_env = RawToken test_env" "PaddedManagerAddress far_env = PaddedManagerAddress test_env"
    by (simp_all add: far_env_def RawToken_def PaddedManagerAddress_def)
  have run: "portal_Transfer test_env ''a'' (Some 100) 9 (RawToken far_env) test_recipient portal_world
    = (Ok (), snd (portal_Transfer test_env ''a'' (Some 100) 9 (RawToken test_env) test_recipient portal_world))"
    unfolding far by (rule test_transfer) simp
  have token: "length (RawToken test_env) = 32" "length (RawToken far_env) = 32" by code_simp+
  have manager: "Manager (test_peer 9) = PaddedManagerAddress far_env" by (simp add: far test_peer_def)
  have name: "BytesToString far_env (drop 12 test_recipient) = Some (bytes_string (drop 12 test_recipient))"
    by (simp add: far_env_def test_env_def)
  have index: "- (2 ^ 63) \<le> (10 :: int) ^ 12" "(10 :: int) ^ 12 < 2 ^ 63" by simp_all
  from portal_round_trip [OF run portal_world_facts(3,4) index token manager name]
  obtain m where m: "\<And>bz v vaa b' here t u.
       \<not> GetPortalPaused v \<and> ParseAndVerifyVAA far_env bz (App v) = (Ok vaa, b') \<and> VaaPayload vaa = Slice m t \<and>
       Map_Get (PortalPeers v) (EmitterChain vaa) = Some here \<and> EmitterAddress vaa = Transceiver here \<and>
       Manager here = PaddedManagerAddress test_env \<and> GetChain far_env b' = Ok 9 \<and>
       Mint far_env (drop 12 test_recipient) 100 (Some (10 ^ 12)) (v\<lparr>App := b'\<rparr>) = (Ok (), u) \<Longrightarrow>
       \<exists>h. Deliver far_env bz v = (Ok (), Events_update h u)"
    by blast
  have "fst (Mint far_env (drop 12 test_recipient) 100 (Some (10 ^ 12)) portal_world) = Ok ()" by code_simp
  from run_of [OF this]
  obtain u where mint: "Mint far_env (drop 12 test_recipient) 100 (Some (10 ^ 12)) portal_world = (Ok (), u)" ..
  have vaa: "ParseAndVerifyVAA far_env (5 # m) (App portal_world)
      = (Ok \<lparr>EmitterChain = 5, EmitterAddress = replicate 32 5, VaaPayload = lit m\<rparr>, App portal_world)"
    by (simp add: far_env_def test_env_def)
  have chain: "GetChain far_env (App portal_world) = Ok 9" by (simp add: far_env_def)
  have "\<exists>h. Deliver far_env (5 # m) portal_world = (Ok (), Events_update h u)"
    by (rule m [where here = "test_peer 5" and t = "[]", OF conjI, OF portal_world_facts(1) conjI, OF vaa])
      (use mint in \<open>simp add: portal_world_facts chain test_peer_def\<close>)
  with mint show ?thesis by blast
qed

subsection \<open>Administration\<close>

text \<open>C35 (administration_guarded): none of the four administrative messages has any effect unless it is signed by the
  owner, and none at all while there is no owner.\<close>

theorem administration_guarded:
  assumes "PortalOwner w \<noteq> Some signer \<or> signer = ''''"
    and "m \<in> {portal_SetPausedState signer p, SetPeer e signer c t k, SetBridgingPath e signer c tok s,
      TransferOwnership e signer n}"
  shows "\<exists>err. root_error err \<in> {ErrNoOwner, ErrNotOwner} \<and> m w = (Err err, w)"
  using assms asOwner_refuses [OF assms(1)]
  unfolding portal_SetPausedState_def SetPeer_def SetBridgingPath_def TransferOwnership_def by blast

theorem administration_guarded_witness:
  "\<exists>err. portal_SetPausedState ''mallory'' True portal_world = (Err err, portal_world)"
proof -
  have "PortalOwner portal_world \<noteq> Some ''mallory'' \<or> ''mallory'' = ''''"
    by (simp add: portal_world_def test_world_def)
  from administration_guarded [OF this, of "portal_SetPausedState ''mallory'' True"] show ?thesis by blast
qed

text \<open>Every peer that is set has a 32-byte, non-zero transceiver and manager and a chain
  other than zero and this one, replaces the peer of its chain only, and keeps all peers well formed.\<close>

theorem peers_well_formed:
  assumes "SetPeer e signer c t m w = (Ok (), w')" "peers_ok e w"
  shows "peers_ok e w' \<and> t \<noteq> replicate 32 0 \<and> m \<noteq> replicate 32 0 \<and> GetChain e (App w) \<noteq> Ok c \<and>
    Map_Get (PortalPeers w') c = Some \<lparr>Transceiver = t, Manager = m\<rparr> \<and>
    (\<forall>d. d \<noteq> c \<longrightarrow> Map_Get (PortalPeers w') d = Map_Get (PortalPeers w) d)"
  using SetPeer_Ok [OF assms(1)] SetPeer_peers_ok [OF assms] by auto

theorem peers_well_formed_witness:
  "peers_ok test_env (snd (SetPeer test_env ''owner'' 3 (replicate 32 1) (replicate 32 2) portal_world))"
proof -
  have "fst (SetPeer test_env ''owner'' 3 (replicate 32 1) (replicate 32 2) portal_world) = Ok ()" by code_simp
  note run = run_of [OF this]
  have "peers_ok test_env portal_world"
    by (auto simp: peers_ok_def portal_world_def map_ok_def split: if_splits)
  from peers_well_formed [OF run this] show ?thesis by blast
qed

text \<open>After an ownership transfer the new owner, another account with a decodable address, is
  the owner, and the previous owner can no longer administer the Portal.\<close>

theorem ownership_moves:
  assumes "TransferOwnership e signer n w = (Ok (), w')"
  shows "PortalOwner w = Some signer \<and> PortalOwner w' = Some n \<and> n \<noteq> signer \<and> StringToBytes e n \<noteq> None \<and>
    (\<exists>err. portal_SetPausedState signer p w' = (Err err, w')) \<and>
    (\<exists>err. TransferOwnership e signer k w' = (Err err, w'))"
proof -
  have own: "PortalOwner w = Some signer" "PortalOwner w' = Some n" "n \<noteq> signer" "StringToBytes e n \<noteq> None"
    using assms
    by (auto simp: TransferOwnership_def asOwner_Ok bnd_Ok from_option_Ok if_fail_Ok thn_Ok modify_Ok emit_Ok)
  then have out: "PortalOwner w' \<noteq> Some signer \<or> signer = ''''" by simp
  then show ?thesis
    using own asOwner_refuses [OF out] unfolding portal_SetPausedState_def TransferOwnership_def by blast
qed

theorem ownership_moves_witness:
  "\<exists>w'. TransferOwnership test_env ''owner'' ''heir'' portal_world = (Ok (), w') \<and> PortalOwner w' = Some ''heir''"
proof -
  have "fst (TransferOwnership test_env ''owner'' ''heir'' portal_world) = Ok ()" by code_simp
  from run_of [OF this] ownership_moves [OF run_of [OF this]] show ?thesis by blast
qed

text \<open>C38 (disabled_path_transfers): a bridging path that the owner sets to unsupported disappears from the supported
  paths, yet a transfer over it still succeeds: the transfer asks whether the path has an entry,
  not what the entry says.\<close>

theorem disabled_path_transfers:
  assumes "SetBridgingPath e owner c tok False w = (Ok (), w')" "map_ok (PortalBridgingPaths w)"
    and "\<not> GetPortalPaused w'" "Map_Get (PortalPeers w') c = Some peer" "length recipient = 32"
    and "Index w' = Some i" "0 \<le> amount" "amount < 2 ^ 63" "StringToBytes e signer = Some sender"
    and "length sender \<le> 32" "PortalNonce w' = Some n" "GetChain e (App w') = Ok own"
    and "Burn e sender amount (w'\<lparr>PortalNonce := Some (n + 1)\<rparr>) = (Ok (), v)"
    and "\<And>s m k. PostMessage e s m k (App v) = (Ok (), b s m k)"
  shows "(c, tok) \<notin> set (GetPortalBridgingPaths w') \<and>
    fst (portal_Transfer e signer (Some amount) c tok recipient w') = Ok ()"
proof -
  have paths: "PortalBridgingPaths w' = Map_Set (c, tok) False (PortalBridgingPaths w)"
    using assms(1)
    by (auto simp: SetBridgingPath_def asOwner_Ok bnd_Ok wrap_err_Ok if_fail_Ok thn_Ok modify_Ok emit_Ok)
  have ok: "map_ok (PortalBridgingPaths w')" using assms(2) by (simp add: paths map_ok_Set)
  have at: "Map_Get (PortalBridgingPaths w') (c, tok) = Some False" by (simp add: paths)
  have "((c, tok), True) \<notin> set (PortalBridgingPaths w')"
    using map_of_is_SomeI [of "PortalBridgingPaths w'" "(c, tok)" True] ok at
    by (auto simp: map_ok_def strict_sorted_iff)
  then have "(c, tok) \<notin> set (GetPortalBridgingPaths w')"
    by (auto simp: GetPortalBridgingPaths_def)
  moreover have "Map_Has (PortalBridgingPaths w') (c, tok)" using at by (simp add: Map_Has_def)
  ultimately show ?thesis using Transfer_run [OF assms(3,4) _ assms(5-13) assms(14)] by blast
qed

theorem disabled_path_transfers_witness:
  "\<exists>w'. SetBridgingPath test_env ''owner'' 9 (RawToken test_env) False portal_world = (Ok (), w') \<and>
     GetPortalBridgingPaths w' = [] \<and>
     fst (portal_Transfer test_env ''a'' (Some 100) 9 (RawToken test_env) test_recipient w') = Ok ()"
proof -
  let ?w = "snd (SetBridgingPath test_env ''owner'' 9 (RawToken test_env) False portal_world)"
  have "fst (SetBridgingPath test_env ''owner'' 9 (RawToken test_env) False portal_world) = Ok ()" by code_simp
  note set = run_of [OF this]
  have at: "\<not> GetPortalPaused ?w" "Map_Get (PortalPeers ?w) 9 = Some \<lparr>Transceiver = replicate 32 9,
      Manager = PaddedManagerAddress test_env\<rparr>" "length test_recipient = 32" "Index ?w = Some (10 ^ 12)"
    "StringToBytes test_env ''a'' = Some [97]" "PortalNonce ?w = Some 7" "GetChain test_env (App ?w) = Ok 4009"
    "GetPortalBridgingPaths ?w = []"
    by code_simp+
  have ok: "map_ok (PortalBridgingPaths portal_world)" by (simp add: portal_world_def map_ok_def)
  have "fst (Burn test_env [97] 100 (?w\<lparr>PortalNonce := Some (7 + 1)\<rparr>)) = Ok ()" by code_simp
  note burn = run_of [OF this]
  have "PostMessage test_env s m k b = (Ok (), b)" for s m k b by (simp add: test_env_def)
  from disabled_path_transfers [OF set ok at(1-4) _ _ at(5) _ at(6,7) burn this]
  have "fst (portal_Transfer test_env ''a'' (Some 100) 9 (RawToken test_env) test_recipient ?w) = Ok ()" by simp
  with set at(8) show ?thesis by blast
qed

text \<open>A request of the owner that succeeds.\<close>

lemma replaced_peer_run:
  "fst (SetPeer test_env ''owner'' 9 (replicate 32 1) (replicate 32 2) portal_world) = Ok ()"
  by code_simp

end
