(* ===== verification/Codec_Properties.thy ===== *)
theory Codec_Properties
  imports Services Codec_Query Codec_Data Codec_Events Codec_Nested Portal_Properties
begin

text \<open>
  Properties of the generated code: what the client API writes it reads back, so does the module's
  own code, both return on every input, and each reads what the other writes; a transaction of a
  client reaches the server as the message it says.
\<close>

subsection \<open>Round trips\<close>

text \<open>C16 (api_round_trip): on a runtime whose varints are written in the size it computes and read back, every
  message without unknown fields whose size fits an \<open>int\<close> is marshalled by the client API into
  exactly its size, without writing out of the buffer, and unmarshalled to what it was: the
  statistics, peers, bridging paths, rewards and the module's configuration, every transaction,
  positions, genesis and the responses of queries with lists and maps, in whatever order Go ranges
  over a map.\<close>

theorem api_round_trip:
  assumes "varint_runtime rt" "stamp_codec sc oks" "map_range order"
  shows "exact_codec (dollarv2_Stats_size rt) (dollarv2_Stats_marshal rt) (dollarv2_Stats_unmarshal rt' discardUnknown)
      (\<lambda>x. dv2_unknownFields x = []) \<and>
    exact_codec (portalv1_Peer_size rt) (portalv1_Peer_marshal rt) (portalv1_Peer_unmarshal rt' discardUnknown)
      (\<lambda>x. pv1_unknownFields x = []) \<and>
    exact_codec (portalv1_BridgingPath_size rt) (portalv1_BridgingPath_marshal rt) (portalv1_BridgingPath_unmarshal rt' discardUnknown)
      (\<lambda>x. pv1b_unknownFields x = []) \<and>
    exact_codec (vaultsv1_Reward_size rt) (vaultsv1_Reward_marshal rt) (vaultsv1_Reward_unmarshal rt' discardUnknown)
      (\<lambda>x. vv1_unknownFields x = []) \<and>
    exact_codec (vaultsv1_Stats_size rt) (vaultsv1_Stats_marshal rt) (vaultsv1_Stats_unmarshal rt' discardUnknown)
      (\<lambda>x. vv1s_unknownFields x = []) \<and>
    exact_codec (modulev1_Module_size rt) (modulev1_Module_marshal rt) (modulev1_Module_unmarshal rt' discardUnknown)
      (\<lambda>x. mv1_unknownFields x = []) \<and>
    exact_codec (dollarv1_MsgClaimYield_size rt) (dollarv1_MsgClaimYield_marshal rt) (dollarv1_MsgClaimYield_unmarshal rt' discardUnknown)
      (\<lambda>x. dollarv1_MsgClaimYield_unknownFields x = []) \<and>
    exact_codec (dollarv1_MsgSetPausedState_size rt) (dollarv1_MsgSetPausedState_marshal rt) (dollarv1_MsgSetPausedState_unmarshal rt' discardUnknown)
      (\<lambda>x. dollarv1_MsgSetPausedState_unknownFields x = []) \<and>
    exact_codec (dollarv2_MsgSetYieldRecipient_size rt) (dollarv2_MsgSetYieldRecipient_marshal rt) (dollarv2_MsgSetYieldRecipient_unmarshal rt' discardUnknown)
      (\<lambda>x. dollarv2_MsgSetYieldRecipient_unknownFields x = []) \<and>
    exact_codec (portalv1_MsgDeliver_size rt) (portalv1_MsgDeliver_marshal rt) (portalv1_MsgDeliver_unmarshal rt' discardUnknown)
      (\<lambda>x. portalv1_MsgDeliver_unknownFields x = []) \<and>
    exact_codec (portalv1_MsgTransfer_size rt) (portalv1_MsgTransfer_marshal rt) (portalv1_MsgTransfer_unmarshal rt' discardUnknown)
      (\<lambda>x. portalv1_MsgTransfer_unknownFields x = []) \<and>
    exact_codec (portalv1_MsgSetPausedState_size rt) (portalv1_MsgSetPausedState_marshal rt) (portalv1_MsgSetPausedState_unmarshal rt' discardUnknown)
      (\<lambda>x. portalv1_MsgSetPausedState_unknownFields x = []) \<and>
    exact_codec (portalv1_MsgSetPeer_size rt) (portalv1_MsgSetPeer_marshal rt) (portalv1_MsgSetPeer_unmarshal rt' discardUnknown)
      (\<lambda>x. portalv1_MsgSetPeer_unknownFields x = []) \<and>
    exact_codec (portalv1_MsgSetBridgingPath_size rt) (portalv1_MsgSetBridgingPath_marshal rt) (portalv1_MsgSetBridgingPath_unmarshal rt' discardUnknown)
      (\<lambda>x. portalv1_MsgSetBridgingPath_unknownFields x = []) \<and>
    exact_codec (portalv1_MsgTransferOwnership_size rt) (portalv1_MsgTransferOwnership_marshal rt) (portalv1_MsgTransferOwnership_unmarshal rt' discardUnknown)
      (\<lambda>x. portalv1_MsgTransferOwnership_unknownFields x = []) \<and>
    exact_codec (portalv1_MsgDeliverInjection_size rt) (portalv1_MsgDeliverInjection_marshal rt) (portalv1_MsgDeliverInjection_unmarshal rt' discardUnknown)
      (\<lambda>x. portalv1_MsgDeliverInjection_unknownFields x = []) \<and>
    exact_codec (vaultsv1_MsgLock_size rt) (vaultsv1_MsgLock_marshal rt) (vaultsv1_MsgLock_unmarshal rt' discardUnknown)
      (\<lambda>x. vaultsv1_MsgLock_unknownFields x = []) \<and>
    exact_codec (vaultsv1_MsgUnlock_size rt) (vaultsv1_MsgUnlock_marshal rt) (vaultsv1_MsgUnlock_unmarshal rt' discardUnknown)
      (\<lambda>x. vaultsv1_MsgUnlock_unknownFields x = []) \<and>
    exact_codec (vaultsv1_MsgSetPausedState_size rt) (vaultsv1_MsgSetPausedState_marshal rt) (vaultsv1_MsgSetPausedState_unmarshal rt' discardUnknown)
      (\<lambda>x. vaultsv1_MsgSetPausedState_unknownFields x = []) \<and>
    exact_codec (vaultsv1_Position_size rt sc) (vaultsv1_Position_marshal rt sc)
      (vaultsv1_Position_unmarshal rt' discardUnknown sc) (vaultsv1_Position_kept oks) \<and>
    exact_codec (vaultsv1_PositionEntry_size rt sc) (vaultsv1_PositionEntry_marshal rt sc)
      (vaultsv1_PositionEntry_unmarshal rt' discardUnknown sc) (vaultsv1_PositionEntry_kept oks) \<and>
    exact_codec (vaultsv1_QueryPositionsByProviderResponse_size rt sc) (vaultsv1_QueryPositionsByProviderResponse_marshal rt sc)
      (vaultsv1_QueryPositionsByProviderResponse_unmarshal rt' discardUnknown sc) (vaultsv1_QueryPositionsByProviderResponse_kept oks) \<and>
    exact_codec (vaultsv1_QueryPendingRewardsByProviderResponse_size rt) (vaultsv1_QueryPendingRewardsByProviderResponse_marshal rt)
      (vaultsv1_QueryPendingRewardsByProviderResponse_unmarshal rt' discardUnknown) vaultsv1_QueryPendingRewardsByProviderResponse_kept \<and>
    exact_codec (portalv1_QueryDestinationTokensResponse_size rt) (portalv1_QueryDestinationTokensResponse_marshal rt)
      (portalv1_QueryDestinationTokensResponse_unmarshal rt' discardUnknown) portalv1_QueryDestinationTokensResponse_kept \<and>
    exact_codec (portalv1_QueryPeersResponse_size rt) (portalv1_QueryPeersResponse_marshal rt deterministic order)
      (portalv1_QueryPeersResponse_unmarshal rt' discardUnknown) portalv1_QueryPeersResponse_kept \<and>
    exact_codec (dollarv2_QueryStatsResponse_size rt) (dollarv2_QueryStatsResponse_marshal rt deterministic order)
      (dollarv2_QueryStatsResponse_unmarshal rt' discardUnknown) dollarv2_QueryStatsResponse_kept \<and>
    exact_codec (dollarv2_QueryYieldRecipientsResponse_size rt) (dollarv2_QueryYieldRecipientsResponse_marshal rt deterministic order)
      (dollarv2_QueryYieldRecipientsResponse_unmarshal rt' discardUnknown) dollarv2_QueryYieldRecipientsResponse_kept \<and>
    exact_codec (dollarv2_QueryRetryAmountsResponse_size rt) (dollarv2_QueryRetryAmountsResponse_marshal rt deterministic order)
      (dollarv2_QueryRetryAmountsResponse_unmarshal rt' discardUnknown) dollarv2_QueryRetryAmountsResponse_kept \<and>
    exact_codec (portalv1_GenesisState_size rt) (portalv1_GenesisState_marshal rt deterministic order)
      (portalv1_GenesisState_unmarshal rt' discardUnknown) portalv1_GenesisState_kept \<and>
    exact_codec (vaultsv1_GenesisState_size rt sc) (vaultsv1_GenesisState_marshal rt sc)
      (vaultsv1_GenesisState_unmarshal rt' discardUnknown sc) (vaultsv1_GenesisState_kept oks) \<and>
    exact_codec (dollarv1_GenesisState_size rt sc) (dollarv1_GenesisState_marshal rt sc deterministic order)
      (dollarv1_GenesisState_unmarshal rt' discardUnknown sc) (dollarv1_GenesisState_kept oks) \<and>
    exact_codec (dollarv2_GenesisState_size rt sc) (dollarv2_GenesisState_marshal rt sc deterministic order)
      (dollarv2_GenesisState_unmarshal rt' discardUnknown sc) (dollarv2_GenesisState_kept oks)"
  by (intro conjI) (rule stored_exact api_tx_exact api_nested_exact; rule assms)+

text \<open>The reward of 300 units of principal and 7 of rewards recorded at an index of 1.1.\<close>

definition test_reward :: vaultsv1_Reward where
  "test_reward = \<lparr>vv1_Index = 1100000000000, vv1_Total = [0x33, 0x30, 0x30], vv1_Rewards = [0x37],
     vv1_unknownFields = []\<rparr>"

lemma api_round_trip_witness:
  "\<exists>bs. vaultsv1_Reward_marshal gogo_runtime test_reward = Ok bs \<and>
    vaultsv1_Reward_unmarshal gogo_runtime False bs = Some (Ok test_reward)"
proof -
  have "vaultsv1_Reward_size gogo_runtime test_reward < 2 ^ 63" "vv1_unknownFields test_reward = []"
    using gogo_size_bounds(1) [of 1100000000000] gogo_size_bounds(2) [of "[0x33, 0x30, 0x30]"] gogo_size_bounds(2) [of "[0x37]"]
    by (simp_all add: vaultsv1_Reward_size_def test_reward_def)
  moreover have "exact_codec (vaultsv1_Reward_size gogo_runtime) (vaultsv1_Reward_marshal gogo_runtime)
      (vaultsv1_Reward_unmarshal gogo_runtime False) (\<lambda>x. vv1_unknownFields x = [])"
    using api_round_trip [OF gogo_varint proto_stamp_codec first_to_last, of gogo_runtime False False] by (elim conjE)
  ultimately show ?thesis unfolding exact_codec_def by auto
qed

text \<open>C17 (chain_round_trip): the module's own code marshals every transaction, every value it stores, genesis and
  the responses with lists and maps, with all amounts set, into exactly its size, and unmarshals it
  to what it was, given that the texts of amounts and the encodings of times are read back. The
  order in which Go ranges over a map does not matter.\<close>

theorem chain_round_trip:
  assumes "custom_codec ic ok" "time_codec tc okt" "map_range order"
  shows "exact_codec types_MsgClaimYield_Size types_MsgClaimYield_Marshal types_MsgClaimYield_Unmarshal
      (\<lambda>x. True) \<and>
    exact_codec types_MsgSetPausedState_Size types_MsgSetPausedState_Marshal types_MsgSetPausedState_Unmarshal
      (\<lambda>x. True) \<and>
    exact_codec v2_MsgSetYieldRecipient_Size v2_MsgSetYieldRecipient_Marshal v2_MsgSetYieldRecipient_Unmarshal
      (\<lambda>x. True) \<and>
    exact_codec portal_MsgDeliver_Size portal_MsgDeliver_Marshal portal_MsgDeliver_Unmarshal
      (\<lambda>x. True) \<and>
    exact_codec (portal_MsgTransfer_Size ic) (portal_MsgTransfer_Marshal ic) (portal_MsgTransfer_Unmarshal ic)
      (\<lambda>x. given ok (portal_MsgTransfer_Amount x)) \<and>
    exact_codec portal_MsgSetPausedState_Size portal_MsgSetPausedState_Marshal portal_MsgSetPausedState_Unmarshal
      (\<lambda>x. True) \<and>
    exact_codec portal_MsgSetPeer_Size portal_MsgSetPeer_Marshal portal_MsgSetPeer_Unmarshal
      (\<lambda>x. True) \<and>
    exact_codec portal_MsgSetBridgingPath_Size portal_MsgSetBridgingPath_Marshal portal_MsgSetBridgingPath_Unmarshal
      (\<lambda>x. True) \<and>
    exact_codec portal_MsgTransferOwnership_Size portal_MsgTransferOwnership_Marshal portal_MsgTransferOwnership_Unmarshal
      (\<lambda>x. True) \<and>
    exact_codec portal_MsgDeliverInjection_Size portal_MsgDeliverInjection_Marshal portal_MsgDeliverInjection_Unmarshal
      (\<lambda>x. True) \<and>
    exact_codec (vaults_MsgLock_Size ic) (vaults_MsgLock_Marshal ic) (vaults_MsgLock_Unmarshal ic)
      (\<lambda>x. given ok (vaults_MsgLock_Amount x)) \<and>
    exact_codec (vaults_MsgUnlock_Size ic) (vaults_MsgUnlock_Marshal ic) (vaults_MsgUnlock_Unmarshal ic)
      (\<lambda>x. given ok (vaults_MsgUnlock_Amount x)) \<and>
    exact_codec vaults_MsgSetPausedState_Size vaults_MsgSetPausedState_Marshal vaults_MsgSetPausedState_Unmarshal
      (\<lambda>x. True) \<and>
    exact_codec (types_Stats_Size ic) (types_Stats_Marshal ic) (types_Stats_Unmarshal ic)
      (\<lambda>x. given ok (types_Stats_TotalPrincipal x) \<and> given ok (types_Stats_TotalYieldAccrued x)) \<and>
    exact_codec (v2_Stats_Size ic) (v2_Stats_Marshal ic) (v2_Stats_Unmarshal ic)
      (\<lambda>x. given ok (v2_Stats_TotalPrincipal x) \<and> given ok (v2_Stats_TotalYieldAccrued x)) \<and>
    exact_codec portal_Peer_Size portal_Peer_Marshal portal_Peer_Unmarshal
      (\<lambda>x. True) \<and>
    exact_codec portal_BridgingPath_Size portal_BridgingPath_Marshal portal_BridgingPath_Unmarshal
      (\<lambda>x. True) \<and>
    exact_codec (vaults_Reward_Size ic) (vaults_Reward_Marshal ic) (vaults_Reward_Unmarshal ic)
      (\<lambda>x. given ok (vaults_Reward_Total x) \<and> given ok (vaults_Reward_Rewards x)) \<and>
    exact_codec (vaults_PositionRewards_Size ic) (vaults_PositionRewards_Marshal ic) (vaults_PositionRewards_Unmarshal ic)
      (\<lambda>x. given ok (vaults_PositionRewards_Amount x) \<and> given ok (vaults_PositionRewards_PendingRewards x)) \<and>
    exact_codec (vaults_Stats_Size ic) (vaults_Stats_Marshal ic) (vaults_Stats_Unmarshal ic)
      (\<lambda>x. given ok (vaults_Stats_FlexibleTotalPrincipal x) \<and> given ok (vaults_Stats_FlexibleTotalDistributedRewardsPrincipal x) \<and> given ok (vaults_Stats_StakedTotalPrincipal x)) \<and>
    exact_codec ntt_ManagerMessage_Size ntt_ManagerMessage_Marshal ntt_ManagerMessage_Unmarshal
      (\<lambda>x. True) \<and>
    exact_codec ntt_NativeTokenTransfer_Size ntt_NativeTokenTransfer_Marshal ntt_NativeTokenTransfer_Unmarshal
      (\<lambda>x. True) \<and>
    exact_codec ntt_TransceiverMessage_Size ntt_TransceiverMessage_Marshal ntt_TransceiverMessage_Unmarshal
      (\<lambda>x. True) \<and>
    exact_codec (vaults_Position_Size ic tc) (vaults_Position_Marshal ic tc)
      (vaults_Position_Unmarshal ic tc) (vaults_Position_kept ok okt) \<and>
    exact_codec (vaults_PositionEntry_Size ic tc) (vaults_PositionEntry_Marshal ic tc)
      (vaults_PositionEntry_Unmarshal ic tc) (vaults_PositionEntry_kept ok okt) \<and>
    exact_codec (vaults_QueryPositionsByProviderResponse_Size ic tc) (vaults_QueryPositionsByProviderResponse_Marshal ic tc)
      (vaults_QueryPositionsByProviderResponse_Unmarshal ic tc) (vaults_QueryPositionsByProviderResponse_kept ok okt) \<and>
    exact_codec (vaults_QueryPendingRewardsByProviderResponse_Size ic) (vaults_QueryPendingRewardsByProviderResponse_Marshal ic)
      (vaults_QueryPendingRewardsByProviderResponse_Unmarshal ic) (vaults_QueryPendingRewardsByProviderResponse_kept ok) \<and>
    exact_codec portal_QueryDestinationTokensResponse_Size portal_QueryDestinationTokensResponse_Marshal
      portal_QueryDestinationTokensResponse_Unmarshal portal_QueryDestinationTokensResponse_kept \<and>
    exact_codec portal_QueryPeersResponse_Size (portal_QueryPeersResponse_Marshal order)
      portal_QueryPeersResponse_Unmarshal portal_QueryPeersResponse_kept \<and>
    exact_codec (v2_QueryStatsResponse_Size ic) (v2_QueryStatsResponse_Marshal ic order)
      (v2_QueryStatsResponse_Unmarshal ic) (v2_QueryStatsResponse_kept ok) \<and>
    exact_codec v2_QueryYieldRecipientsResponse_Size (v2_QueryYieldRecipientsResponse_Marshal order)
      v2_QueryYieldRecipientsResponse_Unmarshal v2_QueryYieldRecipientsResponse_kept \<and>
    exact_codec v2_QueryRetryAmountsResponse_Size (v2_QueryRetryAmountsResponse_Marshal order)
      v2_QueryRetryAmountsResponse_Unmarshal v2_QueryRetryAmountsResponse_kept \<and>
    exact_codec portal_GenesisState_Size (portal_GenesisState_Marshal order)
      portal_GenesisState_Unmarshal portal_GenesisState_kept \<and>
    exact_codec (vaults_GenesisState_Size ic tc) (vaults_GenesisState_Marshal ic tc)
      (vaults_GenesisState_Unmarshal ic tc) (vaults_GenesisState_kept ok okt) \<and>
    exact_codec (types_GenesisState_Size ic tc) (types_GenesisState_Marshal ic tc order)
      (types_GenesisState_Unmarshal ic tc) (types_GenesisState_kept ok okt) \<and>
    exact_codec (v2_GenesisState_Size ic tc) (v2_GenesisState_Marshal ic tc order)
      (v2_GenesisState_Unmarshal ic tc) (v2_GenesisState_kept ok okt)"
  by (intro conjI) (rule codec_tx_exact codec_data_exact codec_nested_exact; rule assms)+

lemma chain_round_trip_witness:
  "\<exists>bs. vaults_MsgLock_Marshal decimal_codec \<lparr>vaults_MsgLock_Signer = [97], vaults_MsgLock_Vault = 2,
      vaults_MsgLock_Amount = Some 100\<rparr> = Ok bs \<and>
    vaults_MsgLock_Unmarshal decimal_codec bs = Some (Ok \<lparr>vaults_MsgLock_Signer = [97],
      vaults_MsgLock_Vault = 2, vaults_MsgLock_Amount = Some 100\<rparr>)"
proof -
  let ?x = "\<lparr>vaults_MsgLock_Signer = [97], vaults_MsgLock_Vault = 2, vaults_MsgLock_Amount = Some 100\<rparr>"
  have "vaults_MsgLock_Size decimal_codec ?x < 2 ^ 63"
    using gogo_size_bounds(1) [of 2] gogo_size_bounds(2) [of "[97]"] gogo_size_bounds(3) [of "[0x31, 0x30, 0x30]"]
    by (simp add: vaults_MsgLock_Size_def decimal_texts)
  moreover have "exact_codec (vaults_MsgLock_Size decimal_codec) (vaults_MsgLock_Marshal decimal_codec)
      (vaults_MsgLock_Unmarshal decimal_codec) (\<lambda>x. given (\<lambda>_. True) (vaults_MsgLock_Amount x))"
    using chain_round_trip [OF decimal_custom proto_time_codec first_to_last] by (elim conjE)
  ultimately show ?thesis unfolding exact_codec_def by (auto dest!: spec [of _ ?x] simp: given_def)
qed

subsection \<open>Termination\<close>

text \<open>C26 (unmarshal_returns): no input makes the chain loop forever when it unmarshals a transaction, the request of a
  query or a message with lists and maps: whatever the bytes, it returns the message or an error,
  and so does the inner loop over the entry of a map. The same holds of the client API with a runtime whose \<open>Skip\<close> never reports that nothing was skipped.\<close>

theorem unmarshal_returns:
  assumes "skip_progress (Skip rt)"
  shows "(\<exists>r. types_MsgClaimYield_Unmarshal bs = Some r) \<and>
    (\<exists>r. types_MsgSetPausedState_Unmarshal bs = Some r) \<and>
    (\<exists>r. v2_MsgSetYieldRecipient_Unmarshal bs = Some r) \<and>
    (\<exists>r. portal_MsgDeliver_Unmarshal bs = Some r) \<and>
    (\<exists>r. portal_MsgTransfer_Unmarshal ic bs = Some r) \<and>
    (\<exists>r. portal_MsgSetPausedState_Unmarshal bs = Some r) \<and>
    (\<exists>r. portal_MsgSetPeer_Unmarshal bs = Some r) \<and>
    (\<exists>r. portal_MsgSetBridgingPath_Unmarshal bs = Some r) \<and>
    (\<exists>r. portal_MsgTransferOwnership_Unmarshal bs = Some r) \<and>
    (\<exists>r. portal_MsgDeliverInjection_Unmarshal bs = Some r) \<and>
    (\<exists>r. vaults_MsgLock_Unmarshal ic bs = Some r) \<and>
    (\<exists>r. vaults_MsgUnlock_Unmarshal ic bs = Some r) \<and>
    (\<exists>r. vaults_MsgSetPausedState_Unmarshal bs = Some r) \<and>
    (\<exists>r. types_QueryPrincipal_Unmarshal bs = Some r) \<and>
    (\<exists>r. types_QueryYield_Unmarshal bs = Some r) \<and>
    (\<exists>r. v2_QueryYieldRecipient_Unmarshal bs = Some r) \<and>
    (\<exists>r. v2_QueryRetryAmount_Unmarshal bs = Some r) \<and>
    (\<exists>r. portal_QueryDestinationTokens_Unmarshal bs = Some r) \<and>
    (\<exists>r. vaults_QueryPositionsByProvider_Unmarshal bs = Some r) \<and>
    (\<exists>r. vaults_QueryPendingRewardsByProvider_Unmarshal bs = Some r) \<and>
    (\<exists>r. dollarv2_Stats_unmarshal rt discardUnknown bs = Some r) \<and>
    (\<exists>r. portalv1_Peer_unmarshal rt discardUnknown bs = Some r) \<and>
    (\<exists>r. portalv1_BridgingPath_unmarshal rt discardUnknown bs = Some r) \<and>
    (\<exists>r. vaultsv1_Reward_unmarshal rt discardUnknown bs = Some r) \<and>
    (\<exists>r. vaultsv1_Stats_unmarshal rt discardUnknown bs = Some r) \<and>
    (\<exists>r. modulev1_Module_unmarshal rt discardUnknown bs = Some r) \<and>
    (\<exists>r. dollarv1_MsgClaimYield_unmarshal rt discardUnknown bs = Some r) \<and>
    (\<exists>r. dollarv1_MsgSetPausedState_unmarshal rt discardUnknown bs = Some r) \<and>
    (\<exists>r. dollarv2_MsgSetYieldRecipient_unmarshal rt discardUnknown bs = Some r) \<and>
    (\<exists>r. portalv1_MsgDeliver_unmarshal rt discardUnknown bs = Some r) \<and>
    (\<exists>r. portalv1_MsgTransfer_unmarshal rt discardUnknown bs = Some r) \<and>
    (\<exists>r. portalv1_MsgSetPausedState_unmarshal rt discardUnknown bs = Some r) \<and>
    (\<exists>r. portalv1_MsgSetPeer_unmarshal rt discardUnknown bs = Some r) \<and>
    (\<exists>r. portalv1_MsgSetBridgingPath_unmarshal rt discardUnknown bs = Some r) \<and>
    (\<exists>r. portalv1_MsgTransferOwnership_unmarshal rt discardUnknown bs = Some r) \<and>
    (\<exists>r. portalv1_MsgDeliverInjection_unmarshal rt discardUnknown bs = Some r) \<and>
    (\<exists>r. vaultsv1_MsgLock_unmarshal rt discardUnknown bs = Some r) \<and>
    (\<exists>r. vaultsv1_MsgUnlock_unmarshal rt discardUnknown bs = Some r) \<and>
    (\<exists>r. vaultsv1_MsgSetPausedState_unmarshal rt discardUnknown bs = Some r) \<and>
    (\<exists>r. vaults_Position_Unmarshal ic tc bs = Some r) \<and>
    (\<exists>r. vaults_PositionEntry_Unmarshal ic tc bs = Some r) \<and>
    (\<exists>r. vaults_QueryPositionsByProviderResponse_Unmarshal ic tc bs = Some r) \<and>
    (\<exists>r. vaults_QueryPendingRewardsByProviderResponse_Unmarshal ic bs = Some r) \<and>
    (\<exists>r. portal_QueryDestinationTokensResponse_Unmarshal bs = Some r) \<and>
    (\<exists>r. portal_QueryPeersResponse_Unmarshal bs = Some r) \<and>
    (\<exists>r. v2_QueryStatsResponse_Unmarshal ic bs = Some r) \<and>
    (\<exists>r. v2_QueryYieldRecipientsResponse_Unmarshal bs = Some r) \<and>
    (\<exists>r. v2_QueryRetryAmountsResponse_Unmarshal bs = Some r) \<and>
    (\<exists>r. portal_GenesisState_Unmarshal bs = Some r) \<and>
    (\<exists>r. vaults_GenesisState_Unmarshal ic tc bs = Some r) \<and>
    (\<exists>r. types_GenesisState_Unmarshal ic tc bs = Some r) \<and>
    (\<exists>r. v2_GenesisState_Unmarshal ic tc bs = Some r) \<and>
    (\<exists>r. vaultsv1_Position_unmarshal rt discardUnknown sc bs = Some r) \<and>
    (\<exists>r. vaultsv1_PositionEntry_unmarshal rt discardUnknown sc bs = Some r) \<and>
    (\<exists>r. vaultsv1_QueryPositionsByProviderResponse_unmarshal rt discardUnknown sc bs = Some r) \<and>
    (\<exists>r. vaultsv1_QueryPendingRewardsByProviderResponse_unmarshal rt discardUnknown bs = Some r) \<and>
    (\<exists>r. portalv1_QueryDestinationTokensResponse_unmarshal rt discardUnknown bs = Some r) \<and>
    (\<exists>r. portalv1_QueryPeersResponse_unmarshal rt discardUnknown bs = Some r) \<and>
    (\<exists>r. dollarv2_QueryStatsResponse_unmarshal rt discardUnknown bs = Some r) \<and>
    (\<exists>r. dollarv2_QueryYieldRecipientsResponse_unmarshal rt discardUnknown bs = Some r) \<and>
    (\<exists>r. dollarv2_QueryRetryAmountsResponse_unmarshal rt discardUnknown bs = Some r) \<and>
    (\<exists>r. portalv1_GenesisState_unmarshal rt discardUnknown bs = Some r) \<and>
    (\<exists>r. vaultsv1_GenesisState_unmarshal rt discardUnknown sc bs = Some r) \<and>
    (\<exists>r. dollarv1_GenesisState_unmarshal rt discardUnknown sc bs = Some r) \<and>
    (\<exists>r. dollarv2_GenesisState_unmarshal rt discardUnknown sc bs = Some r) \<and>
    (\<exists>r. read_entry (Skip rt) entry kv post n bs = Some r)"
  using assms by (intro conjI) (rule codec_tx_returns codec_query_returns stored_returns api_tx_returns codec_nested_returns
    api_nested_returns read_entry_returns; assumption?)+

lemma unmarshal_returns_witness:
  "\<exists>r. vaultsv1_Reward_unmarshal gogo_runtime False [0x7F, 0xFF, 0x01] = Some r"
  using unmarshal_returns [OF gogo_skip, of "[0x7F, 0xFF, 0x01]" decimal_codec False proto_time proto_stamp
    "\<lambda>_ kv _ _. Some (Ok (kv, 1))" "()" 3 0] by (elim conjE)

subsection \<open>What the client reads\<close>

text \<open>C29 (client_reads_stored): the bytes the chain writes for the values it stores and returns are read by the client
  API, whatever its runtime: numbers as they are, amounts as their texts, chains widened.\<close>

theorem client_reads_stored:
  assumes "custom_codec ic ok"
  shows "(\<forall>x. given ok (v2_Stats_TotalPrincipal x) \<and> given ok (v2_Stats_TotalYieldAccrued x) \<and> v2_Stats_Size ic x < 2 ^ 63 \<longrightarrow>
      (\<exists>bs. v2_Stats_Marshal ic x = Ok bs \<and> dollarv2_Stats_unmarshal rt discardUnknown bs = Some (Ok
        \<lparr>dv2_TotalHolders = v2_Stats_TotalHolders x,
         dv2_TotalPrincipal = Custom_Marshal ic (v2_Stats_TotalPrincipal x),
         dv2_TotalYieldAccrued = Custom_Marshal ic (v2_Stats_TotalYieldAccrued x),
         dv2_unknownFields = []\<rparr>))) \<and>
    (\<forall>x. portal_Peer_Size x < 2 ^ 63 \<longrightarrow>
      (\<exists>bs. portal_Peer_Marshal x = Ok bs \<and> portalv1_Peer_unmarshal rt discardUnknown bs = Some (Ok
        \<lparr>pv1_Transceiver = portal_Peer_Transceiver x,
         pv1_Manager = portal_Peer_Manager x,
         pv1_unknownFields = []\<rparr>))) \<and>
    (\<forall>x. portal_BridgingPath_Size x < 2 ^ 63 \<longrightarrow>
      (\<exists>bs. portal_BridgingPath_Marshal x = Ok bs \<and> portalv1_BridgingPath_unmarshal rt discardUnknown bs = Some (Ok
        \<lparr>pv1b_DestinationChainId = ucast (portal_BridgingPath_DestinationChainId x),
         pv1b_DestinationToken = portal_BridgingPath_DestinationToken x,
         pv1b_unknownFields = []\<rparr>))) \<and>
    (\<forall>x. given ok (vaults_Reward_Total x) \<and> given ok (vaults_Reward_Rewards x) \<and> vaults_Reward_Size ic x < 2 ^ 63 \<longrightarrow>
      (\<exists>bs. vaults_Reward_Marshal ic x = Ok bs \<and> vaultsv1_Reward_unmarshal rt discardUnknown bs = Some (Ok
        \<lparr>vv1_Index = vaults_Reward_Index x,
         vv1_Total = Custom_Marshal ic (vaults_Reward_Total x),
         vv1_Rewards = Custom_Marshal ic (vaults_Reward_Rewards x),
         vv1_unknownFields = []\<rparr>))) \<and>
    (\<forall>x. given ok (vaults_Stats_FlexibleTotalPrincipal x) \<and> given ok (vaults_Stats_FlexibleTotalDistributedRewardsPrincipal x) \<and> given ok (vaults_Stats_StakedTotalPrincipal x) \<and> vaults_Stats_Size ic x < 2 ^ 63 \<longrightarrow>
      (\<exists>bs. vaults_Stats_Marshal ic x = Ok bs \<and> vaultsv1_Stats_unmarshal rt discardUnknown bs = Some (Ok
        \<lparr>vv1s_FlexibleTotalPrincipal = Custom_Marshal ic (vaults_Stats_FlexibleTotalPrincipal x),
         vv1s_FlexibleTotalUsers = vaults_Stats_FlexibleTotalUsers x,
         vv1s_FlexibleTotalDistributedRewardsPrincipal = Custom_Marshal ic (vaults_Stats_FlexibleTotalDistributedRewardsPrincipal x),
         vv1s_StakedTotalPrincipal = Custom_Marshal ic (vaults_Stats_StakedTotalPrincipal x),
         vv1s_StakedTotalUsers = vaults_Stats_StakedTotalUsers x,
         vv1s_unknownFields = []\<rparr>)))"
  by (intro conjI allI impI; (elim conjE)?;
    rule assms [THEN v2_Stats_answered] portal_Peer_answered portal_BridgingPath_answered assms [THEN vaults_Reward_answered] assms [THEN vaults_Stats_answered]; (intro conjI)?; assumption)

lemma client_reads_stored_witness:
  "\<exists>bs. v2_Stats_Marshal decimal_codec \<lparr>v2_Stats_TotalHolders = 2, v2_Stats_TotalPrincipal = Some 1500,
      v2_Stats_TotalYieldAccrued = Some 0\<rparr> = Ok bs \<and>
    dollarv2_Stats_unmarshal gogo_runtime False bs = Some (Ok \<lparr>dv2_TotalHolders = 2,
      dv2_TotalPrincipal = [0x31, 0x35, 0x30, 0x30], dv2_TotalYieldAccrued = [0x30], dv2_unknownFields = []\<rparr>)"
proof -
  let ?m = "\<lparr>v2_Stats_TotalHolders = 2, v2_Stats_TotalPrincipal = Some 1500, v2_Stats_TotalYieldAccrued = Some 0\<rparr>"
  have at: "v2_Stats_Size decimal_codec ?m < 2 ^ 63"
    using gogo_size_bounds(1) [of 2] gogo_size_bounds(3) [of "[0x31, 0x35, 0x30, 0x30]"] gogo_size_bounds(3) [of "[0x30]"]
    by (simp add: v2_Stats_Size_def decimal_texts)
  have "\<forall>x. given (\<lambda>_. True) (v2_Stats_TotalPrincipal x) \<and> given (\<lambda>_. True) (v2_Stats_TotalYieldAccrued x) \<and>
      v2_Stats_Size decimal_codec x < 2 ^ 63 \<longrightarrow>
      (\<exists>bs. v2_Stats_Marshal decimal_codec x = Ok bs \<and> dollarv2_Stats_unmarshal gogo_runtime False bs = Some (Ok
        \<lparr>dv2_TotalHolders = v2_Stats_TotalHolders x,
         dv2_TotalPrincipal = Custom_Marshal decimal_codec (v2_Stats_TotalPrincipal x),
         dv2_TotalYieldAccrued = Custom_Marshal decimal_codec (v2_Stats_TotalYieldAccrued x),
         dv2_unknownFields = []\<rparr>))"
    by (rule conjunct1 [OF client_reads_stored [OF decimal_custom]])
  from spec [OF this, of ?m] at show ?thesis by (simp add: given_def decimal_texts)
qed

subsection \<open>Transactions of a client\<close>

text \<open>C13 (client_runs_message): whatever a client sends through the stubs of the API, every message of the four
  services, reaches the server as the message it says: the router, called with the method and the
  bytes of the stub, runs exactly the handler of the message on the chain.\<close>

theorem client_runs_message:
  assumes "varint_runtime rt" "custom_codec ic ok" "routes e ic router" "sends rt ic ok tx m"
  shows "\<exists>bs. snd (client_call rt tx) = Ok bs \<and> router (fst (client_call rt tx)) bs = RegisterServices e m"
  using assms(4)
  by (cases rule: sends.cases, simp_all only: client_call.simps client_defs fst_conv snd_conv)
    (rule served, rule codec_tx_received, (rule assms(1,2) | assumption)+,
      simp only: routed [OF assms(3)] handler_defs, simp)+

text \<open>A router that looks the method up, and a client that locks 100 in the Flexible vault.\<close>

definition test_router :: "'b env \<Rightarrow> custom \<Rightarrow> string \<Rightarrow> bytes \<Rightarrow> ('b, unit) handler" where
  "test_router e ic path bs =
     (case map_of (concat (map (\<lambda>(service, methods). map (\<lambda>(method, handler). (''/'' @ service @ ''/'' @ method, handler))
              methods) (registered_services e ic))) path of
        None \<Rightarrow> fail (Errorf ''unknown method'')
      | Some handler \<Rightarrow> handler bs)"

lemma test_routes: "routes e ic (test_router e ic)"
  unfolding routes_def test_router_def registered_services_def types_Msg_serviceDesc_def v2_Msg_serviceDesc_def
    portal_Msg_serviceDesc_def vaults_Msg_serviceDesc_def
  by simp

definition test_lock :: vaultsv1_MsgLock where
  "test_lock = \<lparr>vaultsv1_MsgLock_Signer = string_bytes ''a'', vaultsv1_MsgLock_Vault = 2,
     vaultsv1_MsgLock_Amount = string_bytes ''100'', vaultsv1_MsgLock_unknownFields = []\<rparr>"

lemma client_runs_message_witness:
  "\<exists>bs. snd (client_call gogo_runtime (VaultsLock test_lock)) = Ok bs \<and>
    test_router test_env decimal_codec ''/noble.dollar.vaults.v1.Msg/Lock'' bs = Lock test_env ''a'' FLEXIBLE (Some 100)"
proof -
  have at: "vaultsv1_MsgLock_unknownFields test_lock = []" "vaultsv1_MsgLock_size gogo_runtime test_lock < 2 ^ 63"
    "vaultsv1_MsgLock_Amount test_lock = Custom_Marshal decimal_codec (Some 100)"
    "VaultType_of (vaultsv1_MsgLock_Vault test_lock) = FLEXIBLE"
    using gogo_size_bounds(1) [of 2] gogo_size_bounds(2) [of "[97]"] gogo_size_bounds(2) [of "[0x31, 0x30, 0x30]"]
    by (simp_all add: vaultsv1_MsgLock_size_def test_lock_def decimal_texts string_bytes_def VaultType_of_def)
  have "bytes_string (vaultsv1_MsgLock_Signer test_lock) = ''a''" by (simp add: test_lock_def bytes_string_bytes)
  with at have "sends gogo_runtime decimal_codec (\<lambda>_. True) (VaultsLock test_lock) (MsgLock ''a'' FLEXIBLE (Some 100))"
    using sends.intros(10) [of test_lock gogo_runtime decimal_codec 100 "\<lambda>_. True"] by simp
  from client_runs_message [OF gogo_varint decimal_custom test_routes this, of test_env] show ?thesis
    by (simp add: vaultsv1_msgClient_Lock_def)
qed

text \<open>C15 (chain_narrowed): the client API has 32 bits for a chain, the module's code keeps 16 of them without an
  error: a request of the owner to configure a peer for a chain above 65535 that succeeds
  replaces the peer of another chain, the remainder by 65536.\<close>

theorem chain_narrowed:
  assumes "varint_runtime rt" "routes e ic router" "portalv1_MsgSetPeer_unknownFields req = []"
    and "portalv1_MsgSetPeer_size rt req < 2 ^ 63" "portalv1_MsgSetPeer_marshal rt req = Ok bs"
    and "router ''/noble.dollar.portal.v1.Msg/SetPeer'' bs w = (Ok u, w')"
    and "2 ^ 16 \<le> uint (portalv1_MsgSetPeer_Chain req)"
  shows "\<exists>c. uint c = uint (portalv1_MsgSetPeer_Chain req) mod 2 ^ 16 \<and> uint c \<noteq> uint (portalv1_MsgSetPeer_Chain req) \<and>
    PortalPeers w' = Map_Set c \<lparr>Transceiver = portalv1_MsgSetPeer_Transceiver req,
      Manager = portalv1_MsgSetPeer_Manager req\<rparr> (PortalPeers w)"
proof -
  let ?c = "ucast (portalv1_MsgSetPeer_Chain req) :: 16 word"
  from portal_MsgSetPeer_received [OF assms(1,3,4)] assms(5)
  have "portal_MsgSetPeer_Unmarshal bs = Some (Ok \<lparr>portal_MsgSetPeer_Signer = portalv1_MsgSetPeer_Signer req,
      portal_MsgSetPeer_Chain = ?c, portal_MsgSetPeer_Transceiver = portalv1_MsgSetPeer_Transceiver req,
      portal_MsgSetPeer_Manager = portalv1_MsgSetPeer_Manager req\<rparr>)" by simp
  with assms(6) have "SetPeer e (bytes_string (portalv1_MsgSetPeer_Signer req)) ?c (portalv1_MsgSetPeer_Transceiver req)
      (portalv1_MsgSetPeer_Manager req) w = (Ok u, w')"
    by (simp add: routed [OF assms(2)] portal_Msg_SetPeer_Handler_def unary_plain)
  from SetPeer_Ok(8) [OF this] have "PortalPeers w' = Map_Set ?c \<lparr>Transceiver = portalv1_MsgSetPeer_Transceiver req,
      Manager = portalv1_MsgSetPeer_Manager req\<rparr> (PortalPeers w)" .
  moreover have "uint ?c = uint (portalv1_MsgSetPeer_Chain req) mod 2 ^ 16"
    by (simp add: unsigned_ucast_eq take_bit_eq_mod)
  moreover have "uint ?c < 2 ^ 16" using uint_lt2p [of ?c] by simp
  ultimately show ?thesis using assms(7) by (intro exI [of _ ?c]) auto
qed

definition test_set_peer :: portalv1_MsgSetPeer where
  "test_set_peer = \<lparr>portalv1_MsgSetPeer_Signer = string_bytes ''owner'', portalv1_MsgSetPeer_Chain = 65545,
     portalv1_MsgSetPeer_Transceiver = replicate 32 1, portalv1_MsgSetPeer_Manager = replicate 32 2,
     portalv1_MsgSetPeer_unknownFields = []\<rparr>"

text \<open>The owner asks for chain 65545 and replaces the peer of chain 9.\<close>

lemma chain_narrowed_witness:
  "\<exists>bs w'. portalv1_MsgSetPeer_marshal gogo_runtime test_set_peer = Ok bs \<and>
    test_router test_env decimal_codec ''/noble.dollar.portal.v1.Msg/SetPeer'' bs portal_world = (Ok (), w') \<and>
    Map_Get (PortalPeers w') 9 = Some \<lparr>Transceiver = replicate 32 1, Manager = replicate 32 2\<rparr>"
proof -
  have at: "portalv1_MsgSetPeer_unknownFields test_set_peer = []" "portalv1_MsgSetPeer_size gogo_runtime test_set_peer < 2 ^ 63"
    "uint (portalv1_MsgSetPeer_Chain test_set_peer) = 65545"
    "bytes_string (portalv1_MsgSetPeer_Signer test_set_peer) = ''owner''"
    using gogo_size_bounds(1) [of "ucast (65545 :: 32 word)"] gogo_size_bounds(2) [of "string_bytes ''owner''"]
      gogo_size_bounds(2) [of "replicate 32 1"] gogo_size_bounds(2) [of "replicate 32 2"]
    by (simp_all add: portalv1_MsgSetPeer_size_def test_set_peer_def bytes_string_bytes)
  note run = run_of [OF replaced_peer_run]
  from portal_MsgSetPeer_received [OF gogo_varint at(1)] at(2) obtain bs where
    bs: "portalv1_MsgSetPeer_marshal gogo_runtime test_set_peer = Ok bs" and
    dec: "portal_MsgSetPeer_Unmarshal bs = Some (Ok \<lparr>portal_MsgSetPeer_Signer = portalv1_MsgSetPeer_Signer test_set_peer,
      portal_MsgSetPeer_Chain = ucast (portalv1_MsgSetPeer_Chain test_set_peer),
      portal_MsgSetPeer_Transceiver = portalv1_MsgSetPeer_Transceiver test_set_peer,
      portal_MsgSetPeer_Manager = portalv1_MsgSetPeer_Manager test_set_peer\<rparr>)" by auto
  have "(ucast (portalv1_MsgSetPeer_Chain test_set_peer) :: 16 word) = 9" by (simp add: test_set_peer_def)
  with dec run at(4) have r: "test_router test_env decimal_codec ''/noble.dollar.portal.v1.Msg/SetPeer'' bs portal_world
      = (Ok (), snd (SetPeer test_env ''owner'' 9 (replicate 32 1) (replicate 32 2) portal_world))"
    by (simp add: routed [OF test_routes] portal_Msg_SetPeer_Handler_def unary_plain) (simp add: test_set_peer_def)
  from chain_narrowed [OF gogo_varint test_routes at(1) _ bs r] at obtain c where
    c: "uint c = 9" "Map_Get (PortalPeers (snd (SetPeer test_env ''owner'' 9 (replicate 32 1) (replicate 32 2) portal_world))) c
      = Some \<lparr>Transceiver = replicate 32 1, Manager = replicate 32 2\<rparr>"
    by (auto simp: test_set_peer_def)
  from c(1) have "c = 9" by (simp add: word_uint_eq_iff)
  with bs r c(2) show ?thesis by blast
qed

end
