(* ===== verification/Queries.thy ===== *)
theory Queries
  imports State_Maps Portal Vaults_Laws
begin

text \<open>
  The query servers: \<open>keeper/query_server.go\<close>, \<open>query_server_v2.go\<close>, \<open>query_server_portal.go\<close>
  and \<open>query_server_vaults.go\<close>. A request may be nil, which is the error \<open>ErrInvalidRequest\<close>;
  a response that is returned beside an error is dropped by the caller, so only the error is kept.
\<close>

definition with_request :: "'q option \<Rightarrow> ('q \<Rightarrow> ('b, 'a) handler) \<Rightarrow> ('b, 'a) handler" where
  "with_request req f = (case req of None \<Rightarrow> fail ErrInvalidRequest | Some q \<Rightarrow> f q)"

subsection \<open>The dollar itself\<close>

text \<open>\<open>Keeper.denom\<close> as the middlewares read it.\<close>

definition query_Index :: "'b env \<Rightarrow> unit option \<Rightarrow> ('b, int) handler" where
  "query_Index e req = with_request req (\<lambda>_.
     bnd (wrap_err ''unable to get index from state'' (item_get Index)) (\<lambda>rawIndex.
     lift (dec_QuoInt e (LegacyDec_of rawIndex) (10 ^ 12))))"

definition query_Paused :: "unit option \<Rightarrow> ('b, bool) handler" where
  "query_Paused req = with_request req (\<lambda>_. gets GetPaused)"

text \<open>The principal of an account without an entry is a nil \<open>Int\<close>.\<close>

definition query_Principal :: "'b env \<Rightarrow> string option \<Rightarrow> ('b, int option) handler" where
  "query_Principal e req = with_request req (\<lambda>account.
     bnd (from_option (Wrap (ErrExternal ''bech32'') ''unable to decode account'') (StringToBytes e account)) (\<lambda>a.
     gets (\<lambda>w. Map_Get (Principal w) a)))"

definition query_Yield :: "'b env \<Rightarrow> string option \<Rightarrow> ('b, int) handler" where
  "query_Yield e req = with_request req (\<lambda>account.
     bnd (GetYield e account) (\<lambda>(yield, _). ret yield))"

definition query_Stats :: "unit option \<Rightarrow> ('b, stats) handler" where
  "query_Stats req = with_request req (\<lambda>_. wrap_err ''unable to get stats from state'' (item_get Stats))"

subsection \<open>Version two\<close>

datatype client_state = Solomachine (Diversifier: string) | Tendermint (ChainId: string) | OtherClient

text \<open>\<open>channel.GetChannelClientState\<close> is third-party code, as is the parser of integers.\<close>

record 'b query_env =
  GetChannelClientState :: "'b \<Rightarrow> string \<Rightarrow> string \<Rightarrow> client_state"
  ParseInt :: "string \<Rightarrow> int option"

record stats_response =
  sr_Stats :: stats
  sr_TotalExternalYield :: "(string \<times> string \<times> int option) list"

definition getIBCChainId :: "'b query_env \<Rightarrow> string \<Rightarrow> 'b world \<Rightarrow> string" where
  "getIBCChainId q channelId w =
     (case GetChannelClientState q (App w) PortID channelId of
        Solomachine d \<Rightarrow> d | Tendermint c \<Rightarrow> c | OtherClient \<Rightarrow> ''UNKNOWN'')"

definition getHyperlaneChainId :: "'b env \<Rightarrow> string \<Rightarrow> 'b world \<Rightarrow> string" where
  "getHyperlaneChainId e identifier w =
     (case DecodeHexAddress e identifier of
        None \<Rightarrow> ''UNKNOWN''
      | Some rawIdentifier \<Rightarrow>
          (case fst (getHyperlaneRouter e (GetInternalId e rawIdentifier) w) of
             Ok router \<Rightarrow> Itoa (uint (ReceiverDomain router))
           | _ \<Rightarrow> ''UNKNOWN''))"

definition external_entry ::
    "'b env \<Rightarrow> 'b query_env \<Rightarrow> 'b world \<Rightarrow> string \<times> string \<Rightarrow> (string \<times> string \<times> int option) result" where
  "external_entry e q w = (\<lambda>(key, rawAmount).
     obind (ParseYieldRecipientKey key) (\<lambda>(p, identifier).
     Ok (key, (case p of
           IBC \<Rightarrow> getIBCChainId q identifier w
         | HYPERLANE \<Rightarrow> getHyperlaneChainId e identifier w
         | OtherProvider _ \<Rightarrow> ''UNKNOWN''), ParseInt q rawAmount)))"

fun map_result :: "('x \<Rightarrow> 'y result) \<Rightarrow> 'x list \<Rightarrow> 'y list result" where
  "map_result f [] = Ok []"
| "map_result f (x # xs) = obind (f x) (\<lambda>y. obind (map_result f xs) (\<lambda>ys. Ok (y # ys)))"

definition query_StatsV2 :: "'b env \<Rightarrow> 'b query_env \<Rightarrow> unit option \<Rightarrow> ('b, stats_response) handler" where
  "query_StatsV2 e q req = with_request req (\<lambda>_.
     bnd (wrap_err ''unable to get stats from state'' (item_get Stats)) (\<lambda>s.
     bnd (gets (\<lambda>w. map_result (external_entry e q w) (GetTotalExternalYield w))) (\<lambda>r.
     bnd (lift r) (\<lambda>totalExternalYield.
     ret \<lparr>sr_Stats = s, sr_TotalExternalYield = totalExternalYield\<rparr>))))"

definition query_YieldRecipients :: "unit option \<Rightarrow> ('b, (string, string) cmap) handler" where
  "query_YieldRecipients req = with_request req (\<lambda>_. gets GetYieldRecipients)"

definition query_YieldRecipient :: "(provider \<times> string) option \<Rightarrow> ('b, string) handler" where
  "query_YieldRecipient req = with_request req (\<lambda>key.
     bnd (gets (\<lambda>w. Map_Get (YieldRecipients w) key)) (\<lambda>r.
     from_option (Errorf ''unable to find yield recipient'') r))"

definition query_RetryAmounts :: "unit option \<Rightarrow> ('b, (string, string) cmap) handler" where
  "query_RetryAmounts req = with_request req (\<lambda>_. gets GetRetryAmounts)"

definition query_RetryAmount :: "(provider \<times> string) option \<Rightarrow> ('b, int) handler" where
  "query_RetryAmount req = with_request req (\<lambda>(p, identifier). gets (GetRetryAmount p identifier))"

subsection \<open>The Portal\<close>

definition query_Owner :: "unit option \<Rightarrow> ('b, string) handler" where
  "query_Owner req = with_request req (\<lambda>_. item_get PortalOwner)"

definition query_PortalPaused :: "unit option \<Rightarrow> ('b, bool) handler" where
  "query_PortalPaused req = with_request req (\<lambda>_. gets GetPortalPaused)"

definition query_Peers :: "unit option \<Rightarrow> ('b, (16 word, peer) cmap) handler" where
  "query_Peers req = with_request req (\<lambda>_. gets GetPortalPeers)"

text \<open>The chain of the request has 32 bits and is cut to 16.\<close>

definition query_DestinationTokens :: "32 word option \<Rightarrow> ('b, bytes list) handler" where
  "query_DestinationTokens req = with_request req (\<lambda>chain.
     gets (\<lambda>w. map fst (filter snd (Map_Prefix (ucast chain) (PortalBridgingPaths w)))))"

definition query_Nonce :: "unit option \<Rightarrow> ('b, 32 word) handler" where
  "query_Nonce req = with_request req (\<lambda>_. item_get PortalNonce)"

subsection \<open>The vaults\<close>

definition query_VaultsPaused :: "unit option \<Rightarrow> ('b, paused_type) handler" where
  "query_VaultsPaused req = with_request req (\<lambda>_. gets GetVaultsPaused)"

definition query_PositionsByProvider :: "'b env \<Rightarrow> string option \<Rightarrow> ('b, position_entry list) handler" where
  "query_PositionsByProvider e req = with_request req (\<lambda>provider.
     bnd (from_option ErrInvalidRequest (StringToBytes e provider)) (\<lambda>addr.
     gets (GetVaultsPositionsByProvider addr)))"

fun sum_rewards :: "reward list \<Rightarrow> int \<Rightarrow> int result" where
  "sum_rewards [] t = Ok t"
| "sum_rewards (r # rs) t = obind (Int_Add t (rew_Rewards r)) (sum_rewards rs)"

definition query_PendingRewards :: "unit option \<Rightarrow> ('b, int) handler" where
  "query_PendingRewards req = with_request req (\<lambda>_.
     bnd (gets GetVaultsRewards) (\<lambda>rewards. lift (sum_rewards rewards 0)))"

text \<open>The walk over the rewards for one position; \<open>t\<close> is the running total over all positions.\<close>

fun positionRewards :: "'b env \<Rightarrow> int \<Rightarrow> int \<Rightarrow> (int \<times> reward) list \<Rightarrow> int \<times> int \<Rightarrow> (int \<times> int) result" where
  "positionRewards e currentIndex amountPrincipal [] acc = Ok acc"
| "positionRewards e currentIndex amountPrincipal ((key, r) # rs) (p, t) =
     (if \<not> 0 < rew_Total r \<or> \<not> 0 < rew_Rewards r
      then positionRewards e currentIndex amountPrincipal rs (p, t)
      else
        obind (userReward e currentIndex amountPrincipal r) (\<lambda>x.
        obind (Int_Add p x) (\<lambda>p'.
        obind (Int_Add t x) (\<lambda>t'.
        positionRewards e currentIndex amountPrincipal rs (p', t')))))"

text \<open>The loop over the positions: amount and rewards of each, and the total.\<close>

fun pendingRewards ::
    "'b env \<Rightarrow> int \<Rightarrow> (int, reward) cmap \<Rightarrow> position_entry list \<Rightarrow> int \<Rightarrow> ((int \<times> int) list \<times> int) result" where
  "pendingRewards e currentIndex rewards [] t = Ok ([], t)"
| "pendingRewards e currentIndex rewards (pos # ps) t =
     obind (GetPrincipalAmountRoundedDown (pos_Amount pos) (pos_Index pos)) (\<lambda>amountPrincipal.
     obind (positionRewards e currentIndex amountPrincipal (Map_After (pos_Index pos) rewards) (0, t)) (\<lambda>(p, t').
     obind (pendingRewards e currentIndex rewards ps t') (\<lambda>(rest, t'').
     Ok ((pos_Amount pos, p) # rest, t''))))"

definition query_PendingRewardsByProvider ::
    "'b env \<Rightarrow> string option \<Rightarrow> ('b, (int \<times> int) list \<times> int) handler" where
  "query_PendingRewardsByProvider e req = with_request req (\<lambda>provider.
     bnd (from_option (Wrap (ErrExternal ''bech32'') ''unable to decode account'') (StringToBytes e provider)) (\<lambda>addr.
     bnd (gets (GetVaultsPositionsByProviderAndVault addr FLEXIBLE)) (\<lambda>positions.
     bnd (wrap_err ''unable to get index from state'' (item_get Index)) (\<lambda>currentIndex.
     bnd (gets VaultsRewards) (\<lambda>rewards.
     lift (pendingRewards e currentIndex rewards positions 0))))))"

definition query_VaultsStats :: "unit option \<Rightarrow> ('b, vaults_stats) handler" where
  "query_VaultsStats req = with_request req (\<lambda>_.
     wrap_err ''unable to get vaults stats from state'' GetVaultsStats)"

subsection \<open>Queries only read\<close>

context world_relation
begin

lemma steps_with_request: "(\<And>q. steps R (f q)) \<Longrightarrow> steps R (with_request req f)"
  by (simp add: with_request_def steps_pure split: option.split)

lemma steps_queries:
  "steps R (query_Index e r)" "steps R (query_Paused r)" "steps R (query_Principal e a)"
  "steps R (query_Stats r)" "steps R (query_StatsV2 e q r)"
  "steps R (query_YieldRecipients r)" "steps R (query_YieldRecipient k)"
  "steps R (query_RetryAmounts r)" "steps R (query_RetryAmount k)"
  "steps R (query_Owner r)" "steps R (query_PortalPaused r)" "steps R (query_Peers r)"
  "steps R (query_DestinationTokens c)" "steps R (query_Nonce r)"
  "steps R (query_VaultsPaused r)" "steps R (query_PositionsByProvider e a)"
  "steps R (query_PendingRewards r)" "steps R (query_PendingRewardsByProvider e a)"
  "steps R (query_VaultsStats r)"
  unfolding query_Index_def query_Paused_def query_Principal_def query_Stats_def query_StatsV2_def
    query_YieldRecipients_def query_YieldRecipient_def query_RetryAmounts_def query_RetryAmount_def
    query_Owner_def query_PortalPaused_def query_Peers_def query_DestinationTokens_def query_Nonce_def
    query_VaultsPaused_def query_PositionsByProvider_def query_PendingRewards_def
    query_PendingRewardsByProvider_def query_VaultsStats_def GetVaultsStats_def
  by (intro steps_with_request steps_control)+

end

end
