(* ===== verification/Query_Services.thy ===== *)
theory Query_Services
  imports Services Queries Codec_Query Testbed
begin

text \<open>
  The path of a query from a client to the query servers and back: the stubs of
  \<open>api/**/query_grpc.pb.go\<close>, which marshal the request, invoke the method and unmarshal the response,
  and the handlers of \<open>types/**/query.pb.go\<close>, which unmarshal the request and call the server. The
  connection, which runs the handler that is registered for a method and marshals its response, is
  the SDK's. The queries whose response has nested parts are not modelled here.
\<close>

subsection \<open>Handlers\<close>

text \<open>The number of a value of the enum, the inverse of \<open>PausedType_of\<close>.\<close>

fun PausedType_number :: "paused_type \<Rightarrow> 32 word" where
  "PausedType_number PAUSED_NONE = 0"
| "PausedType_number PAUSED_LOCK = 1"
| "PausedType_number PAUSED_UNLOCK = 2"
| "PausedType_number PAUSED_ALL = 3"
| "PausedType_number (OtherPaused v) = v"

definition types_Query_Index_Handler ::
    "'b env \<Rightarrow> types_QueryIndex result \<Rightarrow>
     (types_QueryIndex \<Rightarrow> string \<Rightarrow> (types_QueryIndex \<Rightarrow> ('b, types_QueryIndexResponse) handler) \<Rightarrow> ('b, types_QueryIndexResponse) handler) option \<Rightarrow>
     ('b, types_QueryIndexResponse) handler" where
  "types_Query_Index_Handler e = unary_handler ''/noble.dollar.v1.Query/Index''
     (\<lambda>req. bnd (query_Index e (Some ())) (\<lambda>y.
      ret \<lparr>types_QueryIndexResponse_Index = Some y\<rparr>))"

definition types_Query_Paused_Handler ::
    "types_QueryPaused result \<Rightarrow>
     (types_QueryPaused \<Rightarrow> string \<Rightarrow> (types_QueryPaused \<Rightarrow> ('b, types_QueryPausedResponse) handler) \<Rightarrow> ('b, types_QueryPausedResponse) handler) option \<Rightarrow>
     ('b, types_QueryPausedResponse) handler" where
  "types_Query_Paused_Handler = unary_handler ''/noble.dollar.v1.Query/Paused''
     (\<lambda>req. bnd (query_Paused (Some ())) (\<lambda>y.
      ret \<lparr>types_QueryPausedResponse_Paused = y\<rparr>))"

definition types_Query_Principal_Handler ::
    "'b env \<Rightarrow> types_QueryPrincipal result \<Rightarrow>
     (types_QueryPrincipal \<Rightarrow> string \<Rightarrow> (types_QueryPrincipal \<Rightarrow> ('b, types_QueryPrincipalResponse) handler) \<Rightarrow> ('b, types_QueryPrincipalResponse) handler) option \<Rightarrow>
     ('b, types_QueryPrincipalResponse) handler" where
  "types_Query_Principal_Handler e = unary_handler ''/noble.dollar.v1.Query/Principal''
     (\<lambda>req. bnd (query_Principal e (Some (bytes_string (types_QueryPrincipal_Account req)))) (\<lambda>y.
      ret \<lparr>types_QueryPrincipalResponse_Principal = y\<rparr>))"

definition types_Query_Yield_Handler ::
    "'b env \<Rightarrow> types_QueryYield result \<Rightarrow>
     (types_QueryYield \<Rightarrow> string \<Rightarrow> (types_QueryYield \<Rightarrow> ('b, types_QueryYieldResponse) handler) \<Rightarrow> ('b, types_QueryYieldResponse) handler) option \<Rightarrow>
     ('b, types_QueryYieldResponse) handler" where
  "types_Query_Yield_Handler e = unary_handler ''/noble.dollar.v1.Query/Yield''
     (\<lambda>req. bnd (query_Yield e (Some (bytes_string (types_QueryYield_Account req)))) (\<lambda>y.
      ret \<lparr>types_QueryYieldResponse_ClaimableAmount = Some y\<rparr>))"

definition types_Query_Stats_Handler ::
    "types_QueryStats result \<Rightarrow>
     (types_QueryStats \<Rightarrow> string \<Rightarrow> (types_QueryStats \<Rightarrow> ('b, types_QueryStatsResponse) handler) \<Rightarrow> ('b, types_QueryStatsResponse) handler) option \<Rightarrow>
     ('b, types_QueryStatsResponse) handler" where
  "types_Query_Stats_Handler = unary_handler ''/noble.dollar.v1.Query/Stats''
     (\<lambda>req. bnd (query_Stats (Some ())) (\<lambda>y.
      ret \<lparr>types_QueryStatsResponse_TotalHolders = TotalHolders y,
        types_QueryStatsResponse_TotalPrincipal = Some (TotalPrincipal y),
        types_QueryStatsResponse_TotalYieldAccrued = Some (TotalYieldAccrued y)\<rparr>))"

definition v2_Query_YieldRecipient_Handler ::
    "v2_QueryYieldRecipient result \<Rightarrow>
     (v2_QueryYieldRecipient \<Rightarrow> string \<Rightarrow> (v2_QueryYieldRecipient \<Rightarrow> ('b, v2_QueryYieldRecipientResponse) handler) \<Rightarrow> ('b, v2_QueryYieldRecipientResponse) handler) option \<Rightarrow>
     ('b, v2_QueryYieldRecipientResponse) handler" where
  "v2_Query_YieldRecipient_Handler = unary_handler ''/noble.dollar.v2.Query/YieldRecipient''
     (\<lambda>req. bnd (query_YieldRecipient (Some (Provider_of (v2_QueryYieldRecipient_Provider req), (bytes_string (v2_QueryYieldRecipient_Identifier req))))) (\<lambda>y.
      ret \<lparr>v2_QueryYieldRecipientResponse_YieldRecipient = string_bytes y\<rparr>))"

definition v2_Query_RetryAmount_Handler ::
    "v2_QueryRetryAmount result \<Rightarrow>
     (v2_QueryRetryAmount \<Rightarrow> string \<Rightarrow> (v2_QueryRetryAmount \<Rightarrow> ('b, v2_QueryRetryAmountResponse) handler) \<Rightarrow> ('b, v2_QueryRetryAmountResponse) handler) option \<Rightarrow>
     ('b, v2_QueryRetryAmountResponse) handler" where
  "v2_Query_RetryAmount_Handler = unary_handler ''/noble.dollar.v2.Query/RetryAmount''
     (\<lambda>req. bnd (query_RetryAmount (Some (Provider_of (v2_QueryRetryAmount_Provider req), (bytes_string (v2_QueryRetryAmount_Identifier req))))) (\<lambda>y.
      ret \<lparr>v2_QueryRetryAmountResponse_RetryAmount = Some y\<rparr>))"

definition portal_Query_Owner_Handler ::
    "portal_QueryOwner result \<Rightarrow>
     (portal_QueryOwner \<Rightarrow> string \<Rightarrow> (portal_QueryOwner \<Rightarrow> ('b, portal_QueryOwnerResponse) handler) \<Rightarrow> ('b, portal_QueryOwnerResponse) handler) option \<Rightarrow>
     ('b, portal_QueryOwnerResponse) handler" where
  "portal_Query_Owner_Handler = unary_handler ''/noble.dollar.portal.v1.Query/Owner''
     (\<lambda>req. bnd (query_Owner (Some ())) (\<lambda>y.
      ret \<lparr>portal_QueryOwnerResponse_Owner = string_bytes y\<rparr>))"

definition portal_Query_Paused_Handler ::
    "portal_QueryPaused result \<Rightarrow>
     (portal_QueryPaused \<Rightarrow> string \<Rightarrow> (portal_QueryPaused \<Rightarrow> ('b, portal_QueryPausedResponse) handler) \<Rightarrow> ('b, portal_QueryPausedResponse) handler) option \<Rightarrow>
     ('b, portal_QueryPausedResponse) handler" where
  "portal_Query_Paused_Handler = unary_handler ''/noble.dollar.portal.v1.Query/Paused''
     (\<lambda>req. bnd (query_PortalPaused (Some ())) (\<lambda>y.
      ret \<lparr>portal_QueryPausedResponse_Paused = y\<rparr>))"

definition portal_Query_Nonce_Handler ::
    "portal_QueryNonce result \<Rightarrow>
     (portal_QueryNonce \<Rightarrow> string \<Rightarrow> (portal_QueryNonce \<Rightarrow> ('b, portal_QueryNonceResponse) handler) \<Rightarrow> ('b, portal_QueryNonceResponse) handler) option \<Rightarrow>
     ('b, portal_QueryNonceResponse) handler" where
  "portal_Query_Nonce_Handler = unary_handler ''/noble.dollar.portal.v1.Query/Nonce''
     (\<lambda>req. bnd (query_Nonce (Some ())) (\<lambda>y.
      ret \<lparr>portal_QueryNonceResponse_Nonce = y\<rparr>))"

definition vaults_Query_Paused_Handler ::
    "vaults_QueryPaused result \<Rightarrow>
     (vaults_QueryPaused \<Rightarrow> string \<Rightarrow> (vaults_QueryPaused \<Rightarrow> ('b, vaults_QueryPausedResponse) handler) \<Rightarrow> ('b, vaults_QueryPausedResponse) handler) option \<Rightarrow>
     ('b, vaults_QueryPausedResponse) handler" where
  "vaults_Query_Paused_Handler = unary_handler ''/noble.dollar.vaults.v1.Query/Paused''
     (\<lambda>req. bnd (query_VaultsPaused (Some ())) (\<lambda>y.
      ret \<lparr>vaults_QueryPausedResponse_Paused = PausedType_number y\<rparr>))"

definition vaults_Query_PendingRewards_Handler ::
    "vaults_QueryPendingRewards result \<Rightarrow>
     (vaults_QueryPendingRewards \<Rightarrow> string \<Rightarrow> (vaults_QueryPendingRewards \<Rightarrow> ('b, vaults_QueryPendingRewardsResponse) handler) \<Rightarrow> ('b, vaults_QueryPendingRewardsResponse) handler) option \<Rightarrow>
     ('b, vaults_QueryPendingRewardsResponse) handler" where
  "vaults_Query_PendingRewards_Handler = unary_handler ''/noble.dollar.vaults.v1.Query/PendingRewards''
     (\<lambda>req. bnd (query_PendingRewards (Some ())) (\<lambda>y.
      ret \<lparr>vaults_QueryPendingRewardsResponse_PendingRewards = Some y\<rparr>))"

definition vaults_Query_Stats_Handler ::
    "vaults_QueryStats result \<Rightarrow>
     (vaults_QueryStats \<Rightarrow> string \<Rightarrow> (vaults_QueryStats \<Rightarrow> ('b, vaults_QueryStatsResponse) handler) \<Rightarrow> ('b, vaults_QueryStatsResponse) handler) option \<Rightarrow>
     ('b, vaults_QueryStatsResponse) handler" where
  "vaults_Query_Stats_Handler = unary_handler ''/noble.dollar.vaults.v1.Query/Stats''
     (\<lambda>req. bnd (query_VaultsStats (Some ())) (\<lambda>y.
      ret \<lparr>vaults_QueryStatsResponse_FlexibleTotalPrincipal = Some (FlexibleTotalPrincipal y),
        vaults_QueryStatsResponse_FlexibleTotalUsers = FlexibleTotalUsers y,
        vaults_QueryStatsResponse_FlexibleTotalDistributedRewardsPrincipal = FlexibleTotalDistributedRewardsPrincipal y,
        vaults_QueryStatsResponse_StakedTotalPrincipal = Some (StakedTotalPrincipal y),
        vaults_QueryStatsResponse_StakedTotalUsers = StakedTotalUsers y\<rparr>))"

subsection \<open>The connection\<close>

text \<open>The response of a handler, marshalled.\<close>

definition reply :: "('b, 'r) handler \<Rightarrow> ('r \<Rightarrow> bytes result) \<Rightarrow> ('b, bytes) handler" where
  "reply h marshal = bnd h (\<lambda>r. lift (marshal r))"

text \<open>
  The methods of the services, by name, as the connection serves them: all of the first version's
  descriptor, and of the other three those with flat responses.
\<close>

type_synonym 'b query_methods = "string \<times> (string \<times> (bytes \<Rightarrow> ('b, bytes) handler)) list"

definition types_Query_serviceDesc :: "'b env \<Rightarrow> custom \<Rightarrow> 'b query_methods" where
  "types_Query_serviceDesc e ic = (''noble.dollar.v1.Query'',
     [(''Index'', \<lambda>bs. reply (types_Query_Index_Handler e (the (types_QueryIndex_Unmarshal bs)) None) (types_QueryIndexResponse_Marshal ic)),
      (''Paused'', \<lambda>bs. reply (types_Query_Paused_Handler (the (types_QueryPaused_Unmarshal bs)) None) (types_QueryPausedResponse_Marshal)),
      (''Principal'', \<lambda>bs. reply (types_Query_Principal_Handler e (the (types_QueryPrincipal_Unmarshal bs)) None) (types_QueryPrincipalResponse_Marshal ic)),
      (''Yield'', \<lambda>bs. reply (types_Query_Yield_Handler e (the (types_QueryYield_Unmarshal bs)) None) (types_QueryYieldResponse_Marshal ic)),
      (''Stats'', \<lambda>bs. reply (types_Query_Stats_Handler (the (types_QueryStats_Unmarshal bs)) None) (types_QueryStatsResponse_Marshal ic))])"

definition v2_Query_methods :: "custom \<Rightarrow> 'b query_methods" where
  "v2_Query_methods ic = (''noble.dollar.v2.Query'',
     [(''YieldRecipient'', \<lambda>bs. reply (v2_Query_YieldRecipient_Handler (the (v2_QueryYieldRecipient_Unmarshal bs)) None) (v2_QueryYieldRecipientResponse_Marshal)),
      (''RetryAmount'', \<lambda>bs. reply (v2_Query_RetryAmount_Handler (the (v2_QueryRetryAmount_Unmarshal bs)) None) (v2_QueryRetryAmountResponse_Marshal ic))])"

definition portal_Query_methods :: "'b query_methods" where
  "portal_Query_methods = (''noble.dollar.portal.v1.Query'',
     [(''Owner'', \<lambda>bs. reply (portal_Query_Owner_Handler (the (portal_QueryOwner_Unmarshal bs)) None) (portal_QueryOwnerResponse_Marshal)),
      (''Paused'', \<lambda>bs. reply (portal_Query_Paused_Handler (the (portal_QueryPaused_Unmarshal bs)) None) (portal_QueryPausedResponse_Marshal)),
      (''Nonce'', \<lambda>bs. reply (portal_Query_Nonce_Handler (the (portal_QueryNonce_Unmarshal bs)) None) (portal_QueryNonceResponse_Marshal))])"

definition vaults_Query_methods :: "custom \<Rightarrow> 'b query_methods" where
  "vaults_Query_methods ic = (''noble.dollar.vaults.v1.Query'',
     [(''Paused'', \<lambda>bs. reply (vaults_Query_Paused_Handler (the (vaults_QueryPaused_Unmarshal bs)) None) (vaults_QueryPausedResponse_Marshal)),
      (''PendingRewards'', \<lambda>bs. reply (vaults_Query_PendingRewards_Handler (the (vaults_QueryPendingRewards_Unmarshal bs)) None) (vaults_QueryPendingRewardsResponse_Marshal ic)),
      (''Stats'', \<lambda>bs. reply (vaults_Query_Stats_Handler (the (vaults_QueryStats_Unmarshal bs)) None) (vaults_QueryStatsResponse_Marshal ic))])"

definition query_services :: "'b env \<Rightarrow> custom \<Rightarrow> 'b query_methods list" where
  "query_services e ic =
     [types_Query_serviceDesc e ic,
      v2_Query_methods ic,
      portal_Query_methods,
      vaults_Query_methods ic]"

definition serves :: "'b env \<Rightarrow> custom \<Rightarrow> (string \<Rightarrow> bytes \<Rightarrow> ('b, bytes) handler) \<Rightarrow> bool" where
  "serves e ic cc \<longleftrightarrow>
     (\<forall>(service, methods) \<in> set (query_services e ic). \<forall>(method, handler) \<in> set methods.
        \<forall>bs. cc (''/'' @ service @ ''/'' @ method) bs = handler bs)"

lemma query_served:
  assumes "serves e ic cc"
  shows
  "cc ''/noble.dollar.v1.Query/Index'' bs =
     reply (types_Query_Index_Handler e (the (types_QueryIndex_Unmarshal bs)) None) (types_QueryIndexResponse_Marshal ic)"
  "cc ''/noble.dollar.v1.Query/Paused'' bs =
     reply (types_Query_Paused_Handler (the (types_QueryPaused_Unmarshal bs)) None) (types_QueryPausedResponse_Marshal)"
  "cc ''/noble.dollar.v1.Query/Principal'' bs =
     reply (types_Query_Principal_Handler e (the (types_QueryPrincipal_Unmarshal bs)) None) (types_QueryPrincipalResponse_Marshal ic)"
  "cc ''/noble.dollar.v1.Query/Yield'' bs =
     reply (types_Query_Yield_Handler e (the (types_QueryYield_Unmarshal bs)) None) (types_QueryYieldResponse_Marshal ic)"
  "cc ''/noble.dollar.v1.Query/Stats'' bs =
     reply (types_Query_Stats_Handler (the (types_QueryStats_Unmarshal bs)) None) (types_QueryStatsResponse_Marshal ic)"
  "cc ''/noble.dollar.v2.Query/YieldRecipient'' bs =
     reply (v2_Query_YieldRecipient_Handler (the (v2_QueryYieldRecipient_Unmarshal bs)) None) (v2_QueryYieldRecipientResponse_Marshal)"
  "cc ''/noble.dollar.v2.Query/RetryAmount'' bs =
     reply (v2_Query_RetryAmount_Handler (the (v2_QueryRetryAmount_Unmarshal bs)) None) (v2_QueryRetryAmountResponse_Marshal ic)"
  "cc ''/noble.dollar.portal.v1.Query/Owner'' bs =
     reply (portal_Query_Owner_Handler (the (portal_QueryOwner_Unmarshal bs)) None) (portal_QueryOwnerResponse_Marshal)"
  "cc ''/noble.dollar.portal.v1.Query/Paused'' bs =
     reply (portal_Query_Paused_Handler (the (portal_QueryPaused_Unmarshal bs)) None) (portal_QueryPausedResponse_Marshal)"
  "cc ''/noble.dollar.portal.v1.Query/Nonce'' bs =
     reply (portal_Query_Nonce_Handler (the (portal_QueryNonce_Unmarshal bs)) None) (portal_QueryNonceResponse_Marshal)"
  "cc ''/noble.dollar.vaults.v1.Query/Paused'' bs =
     reply (vaults_Query_Paused_Handler (the (vaults_QueryPaused_Unmarshal bs)) None) (vaults_QueryPausedResponse_Marshal)"
  "cc ''/noble.dollar.vaults.v1.Query/PendingRewards'' bs =
     reply (vaults_Query_PendingRewards_Handler (the (vaults_QueryPendingRewards_Unmarshal bs)) None) (vaults_QueryPendingRewardsResponse_Marshal ic)"
  "cc ''/noble.dollar.vaults.v1.Query/Stats'' bs =
     reply (vaults_Query_Stats_Handler (the (vaults_QueryStats_Unmarshal bs)) None) (vaults_QueryStatsResponse_Marshal ic)"
  using assms unfolding serves_def query_services_def types_Query_serviceDesc_def v2_Query_methods_def portal_Query_methods_def vaults_Query_methods_def
  by simp_all

subsection \<open>The client\<close>

text \<open>\<open>Invoke\<close> sends the marshalled request and unmarshals what comes back.\<close>

definition invoke ::
    "(string \<Rightarrow> bytes \<Rightarrow> ('b, bytes) handler) \<Rightarrow> string \<Rightarrow> bytes result \<Rightarrow> (bytes \<Rightarrow> 'r result option) \<Rightarrow> ('b, 'r) handler" where
  "invoke cc method request unmarshal = bnd (lift request) (\<lambda>bs. bnd (cc method bs) (\<lambda>out. lift (the (unmarshal out))))"

definition dollarv1_queryClient_Index ::
    "wire_runtime \<Rightarrow> bool \<Rightarrow> (string \<Rightarrow> bytes \<Rightarrow> ('b, bytes) handler) \<Rightarrow> dollarv1_QueryIndex \<Rightarrow> ('b, dollarv1_QueryIndexResponse) handler" where
  "dollarv1_queryClient_Index rt discardUnknown cc req =
     invoke cc ''/noble.dollar.v1.Query/Index'' (dollarv1_QueryIndex_marshal rt req) (dollarv1_QueryIndexResponse_unmarshal rt discardUnknown)"

definition dollarv1_queryClient_Paused ::
    "wire_runtime \<Rightarrow> bool \<Rightarrow> (string \<Rightarrow> bytes \<Rightarrow> ('b, bytes) handler) \<Rightarrow> dollarv1_QueryPaused \<Rightarrow> ('b, dollarv1_QueryPausedResponse) handler" where
  "dollarv1_queryClient_Paused rt discardUnknown cc req =
     invoke cc ''/noble.dollar.v1.Query/Paused'' (dollarv1_QueryPaused_marshal rt req) (dollarv1_QueryPausedResponse_unmarshal rt discardUnknown)"

definition dollarv1_queryClient_Principal ::
    "wire_runtime \<Rightarrow> bool \<Rightarrow> (string \<Rightarrow> bytes \<Rightarrow> ('b, bytes) handler) \<Rightarrow> dollarv1_QueryPrincipal \<Rightarrow> ('b, dollarv1_QueryPrincipalResponse) handler" where
  "dollarv1_queryClient_Principal rt discardUnknown cc req =
     invoke cc ''/noble.dollar.v1.Query/Principal'' (dollarv1_QueryPrincipal_marshal rt req) (dollarv1_QueryPrincipalResponse_unmarshal rt discardUnknown)"

definition dollarv1_queryClient_Yield ::
    "wire_runtime \<Rightarrow> bool \<Rightarrow> (string \<Rightarrow> bytes \<Rightarrow> ('b, bytes) handler) \<Rightarrow> dollarv1_QueryYield \<Rightarrow> ('b, dollarv1_QueryYieldResponse) handler" where
  "dollarv1_queryClient_Yield rt discardUnknown cc req =
     invoke cc ''/noble.dollar.v1.Query/Yield'' (dollarv1_QueryYield_marshal rt req) (dollarv1_QueryYieldResponse_unmarshal rt discardUnknown)"

definition dollarv1_queryClient_Stats ::
    "wire_runtime \<Rightarrow> bool \<Rightarrow> (string \<Rightarrow> bytes \<Rightarrow> ('b, bytes) handler) \<Rightarrow> dollarv1_QueryStats \<Rightarrow> ('b, dollarv1_QueryStatsResponse) handler" where
  "dollarv1_queryClient_Stats rt discardUnknown cc req =
     invoke cc ''/noble.dollar.v1.Query/Stats'' (dollarv1_QueryStats_marshal rt req) (dollarv1_QueryStatsResponse_unmarshal rt discardUnknown)"

definition dollarv2_queryClient_YieldRecipient ::
    "wire_runtime \<Rightarrow> bool \<Rightarrow> (string \<Rightarrow> bytes \<Rightarrow> ('b, bytes) handler) \<Rightarrow> dollarv2_QueryYieldRecipient \<Rightarrow> ('b, dollarv2_QueryYieldRecipientResponse) handler" where
  "dollarv2_queryClient_YieldRecipient rt discardUnknown cc req =
     invoke cc ''/noble.dollar.v2.Query/YieldRecipient'' (dollarv2_QueryYieldRecipient_marshal rt req) (dollarv2_QueryYieldRecipientResponse_unmarshal rt discardUnknown)"

definition dollarv2_queryClient_RetryAmount ::
    "wire_runtime \<Rightarrow> bool \<Rightarrow> (string \<Rightarrow> bytes \<Rightarrow> ('b, bytes) handler) \<Rightarrow> dollarv2_QueryRetryAmount \<Rightarrow> ('b, dollarv2_QueryRetryAmountResponse) handler" where
  "dollarv2_queryClient_RetryAmount rt discardUnknown cc req =
     invoke cc ''/noble.dollar.v2.Query/RetryAmount'' (dollarv2_QueryRetryAmount_marshal rt req) (dollarv2_QueryRetryAmountResponse_unmarshal rt discardUnknown)"

definition portalv1_queryClient_Owner ::
    "wire_runtime \<Rightarrow> bool \<Rightarrow> (string \<Rightarrow> bytes \<Rightarrow> ('b, bytes) handler) \<Rightarrow> portalv1_QueryOwner \<Rightarrow> ('b, portalv1_QueryOwnerResponse) handler" where
  "portalv1_queryClient_Owner rt discardUnknown cc req =
     invoke cc ''/noble.dollar.portal.v1.Query/Owner'' (portalv1_QueryOwner_marshal rt req) (portalv1_QueryOwnerResponse_unmarshal rt discardUnknown)"

definition portalv1_queryClient_Paused ::
    "wire_runtime \<Rightarrow> bool \<Rightarrow> (string \<Rightarrow> bytes \<Rightarrow> ('b, bytes) handler) \<Rightarrow> portalv1_QueryPaused \<Rightarrow> ('b, portalv1_QueryPausedResponse) handler" where
  "portalv1_queryClient_Paused rt discardUnknown cc req =
     invoke cc ''/noble.dollar.portal.v1.Query/Paused'' (portalv1_QueryPaused_marshal rt req) (portalv1_QueryPausedResponse_unmarshal rt discardUnknown)"

definition portalv1_queryClient_Nonce ::
    "wire_runtime \<Rightarrow> bool \<Rightarrow> (string \<Rightarrow> bytes \<Rightarrow> ('b, bytes) handler) \<Rightarrow> portalv1_QueryNonce \<Rightarrow> ('b, portalv1_QueryNonceResponse) handler" where
  "portalv1_queryClient_Nonce rt discardUnknown cc req =
     invoke cc ''/noble.dollar.portal.v1.Query/Nonce'' (portalv1_QueryNonce_marshal rt req) (portalv1_QueryNonceResponse_unmarshal rt discardUnknown)"

definition vaultsv1_queryClient_Paused ::
    "wire_runtime \<Rightarrow> bool \<Rightarrow> (string \<Rightarrow> bytes \<Rightarrow> ('b, bytes) handler) \<Rightarrow> vaultsv1_QueryPaused \<Rightarrow> ('b, vaultsv1_QueryPausedResponse) handler" where
  "vaultsv1_queryClient_Paused rt discardUnknown cc req =
     invoke cc ''/noble.dollar.vaults.v1.Query/Paused'' (vaultsv1_QueryPaused_marshal rt req) (vaultsv1_QueryPausedResponse_unmarshal rt discardUnknown)"

definition vaultsv1_queryClient_PendingRewards ::
    "wire_runtime \<Rightarrow> bool \<Rightarrow> (string \<Rightarrow> bytes \<Rightarrow> ('b, bytes) handler) \<Rightarrow> vaultsv1_QueryPendingRewards \<Rightarrow> ('b, vaultsv1_QueryPendingRewardsResponse) handler" where
  "vaultsv1_queryClient_PendingRewards rt discardUnknown cc req =
     invoke cc ''/noble.dollar.vaults.v1.Query/PendingRewards'' (vaultsv1_QueryPendingRewards_marshal rt req) (vaultsv1_QueryPendingRewardsResponse_unmarshal rt discardUnknown)"

definition vaultsv1_queryClient_Stats ::
    "wire_runtime \<Rightarrow> bool \<Rightarrow> (string \<Rightarrow> bytes \<Rightarrow> ('b, bytes) handler) \<Rightarrow> vaultsv1_QueryStats \<Rightarrow> ('b, vaultsv1_QueryStatsResponse) handler" where
  "vaultsv1_queryClient_Stats rt discardUnknown cc req =
     invoke cc ''/noble.dollar.vaults.v1.Query/Stats'' (vaultsv1_QueryStats_marshal rt req) (vaultsv1_QueryStatsResponse_unmarshal rt discardUnknown)"

lemmas query_handler_defs =
  types_Query_Index_Handler_def types_Query_Paused_Handler_def types_Query_Principal_Handler_def
  types_Query_Yield_Handler_def types_Query_Stats_Handler_def v2_Query_YieldRecipient_Handler_def
  v2_Query_RetryAmount_Handler_def portal_Query_Owner_Handler_def portal_Query_Paused_Handler_def
  portal_Query_Nonce_Handler_def vaults_Query_Paused_Handler_def
  vaults_Query_PendingRewards_Handler_def vaults_Query_Stats_Handler_def

lemmas query_client_defs =
  dollarv1_queryClient_Index_def dollarv1_queryClient_Paused_def
  dollarv1_queryClient_Principal_def dollarv1_queryClient_Yield_def dollarv1_queryClient_Stats_def
  dollarv2_queryClient_YieldRecipient_def dollarv2_queryClient_RetryAmount_def
  portalv1_queryClient_Owner_def portalv1_queryClient_Paused_def portalv1_queryClient_Nonce_def
  vaultsv1_queryClient_Paused_def vaultsv1_queryClient_PendingRewards_def
  vaultsv1_queryClient_Stats_def

text \<open>A response of a number or a truth value fits a slice.\<close>

lemma small_responses:
  shows "types_QueryPausedResponse_Size r0 < 2 ^ 63"
    "portal_QueryPausedResponse_Size r1 < 2 ^ 63"
    "portal_QueryNonceResponse_Size r2 < 2 ^ 63"
    "vaults_QueryPausedResponse_Size r3 < 2 ^ 63"
  by (simp_all add: size_bool_def le_less_trans [OF gogo_size_bounds(1)]
    types_QueryPausedResponse_Size_def portal_QueryPausedResponse_Size_def portal_QueryNonceResponse_Size_def vaults_QueryPausedResponse_Size_def)

subsection \<open>From a client to the server and back\<close>

text \<open>
  \<open>agrees client query view sendable\<close>: whatever the store, the client gets the view of what the query
  returns, or its error, and the store changes as the query changes it, provided that what the
  query returns can be sent.
\<close>

definition agrees :: "('b, 'r) handler \<Rightarrow> ('b, 'a) handler \<Rightarrow> ('a \<Rightarrow> 'r) \<Rightarrow> ('a \<Rightarrow> bool) \<Rightarrow> bool" where
  "agrees client query view sendable \<longleftrightarrow>
     (\<forall>w. (\<forall>y w'. query w = (Ok y, w') \<longrightarrow> sendable y) \<longrightarrow> client w = bnd query (\<lambda>y. ret (view y)) w)"

lemma invoke_agrees:
  assumes "\<exists>bs. request = Ok bs \<and> dec bs = Some (Ok req)"
    and "\<And>bs. cc method bs = reply (unary_handler method (\<lambda>req. bnd (query req) (\<lambda>y. ret (mk y))) (the (dec bs)) None) marshal"
    and "query req = asked"
    and "\<And>y. sendable y \<Longrightarrow> \<exists>bs. marshal (mk y) = Ok bs \<and> unmarshal bs = Some (Ok (view y))"
  shows "agrees (invoke cc method request unmarshal) asked view sendable"
  unfolding agrees_def
proof (intro allI impI)
  fix w
  assume "\<forall>y w'. asked w = (Ok y, w') \<longrightarrow> sendable y"
  then have "\<exists>bs. marshal (mk y) = Ok bs \<and> unmarshal bs = Some (Ok (view y))" if "asked w = (Ok y, w')" for y w'
    using assms(4) that by blast
  with assms(1) show "invoke cc method request unmarshal w = bnd asked (\<lambda>y. ret (view y)) w"
    by (auto simp: invoke_def assms(2,3) reply_def unary_plain bnd_def ret_def lift_def split: prod.split outcome.split)
qed

text \<open>What a client reads of the responses.\<close>

lemmas query_told =
  types_QueryIndexResponse_answered [where x = "\<lparr>types_QueryIndexResponse_Index = a0\<rparr>" for a0,
    simplified types_QueryIndexResponse.simps]
  types_QueryPausedResponse_answered [where x = "\<lparr>types_QueryPausedResponse_Paused = a0\<rparr>" for a0,
    simplified types_QueryPausedResponse.simps]
  types_QueryPrincipalResponse_answered [where x = "\<lparr>types_QueryPrincipalResponse_Principal = a0\<rparr>" for a0,
    simplified types_QueryPrincipalResponse.simps]
  types_QueryYieldResponse_answered [where x = "\<lparr>types_QueryYieldResponse_ClaimableAmount = a0\<rparr>" for a0,
    simplified types_QueryYieldResponse.simps]
  types_QueryStatsResponse_answered [where x = "\<lparr>types_QueryStatsResponse_TotalHolders = a0, types_QueryStatsResponse_TotalPrincipal = a1, types_QueryStatsResponse_TotalYieldAccrued = a2\<rparr>" for a0 a1 a2,
    simplified types_QueryStatsResponse.simps]
  v2_QueryYieldRecipientResponse_answered [where x = "\<lparr>v2_QueryYieldRecipientResponse_YieldRecipient = a0\<rparr>" for a0,
    simplified v2_QueryYieldRecipientResponse.simps]
  v2_QueryRetryAmountResponse_answered [where x = "\<lparr>v2_QueryRetryAmountResponse_RetryAmount = a0\<rparr>" for a0,
    simplified v2_QueryRetryAmountResponse.simps]
  portal_QueryOwnerResponse_answered [where x = "\<lparr>portal_QueryOwnerResponse_Owner = a0\<rparr>" for a0,
    simplified portal_QueryOwnerResponse.simps]
  portal_QueryPausedResponse_answered [where x = "\<lparr>portal_QueryPausedResponse_Paused = a0\<rparr>" for a0,
    simplified portal_QueryPausedResponse.simps]
  portal_QueryNonceResponse_answered [where x = "\<lparr>portal_QueryNonceResponse_Nonce = a0\<rparr>" for a0,
    simplified portal_QueryNonceResponse.simps]
  vaults_QueryPausedResponse_answered [where x = "\<lparr>vaults_QueryPausedResponse_Paused = a0\<rparr>" for a0,
    simplified vaults_QueryPausedResponse.simps]
  vaults_QueryPendingRewardsResponse_answered [where x = "\<lparr>vaults_QueryPendingRewardsResponse_PendingRewards = a0\<rparr>" for a0,
    simplified vaults_QueryPendingRewardsResponse.simps]
  vaults_QueryStatsResponse_answered [where x = "\<lparr>vaults_QueryStatsResponse_FlexibleTotalPrincipal = a0, vaults_QueryStatsResponse_FlexibleTotalUsers = a1, vaults_QueryStatsResponse_FlexibleTotalDistributedRewardsPrincipal = a2, vaults_QueryStatsResponse_StakedTotalPrincipal = a3, vaults_QueryStatsResponse_StakedTotalUsers = a4\<rparr>" for a0 a1 a2 a3 a4,
    simplified vaults_QueryStatsResponse.simps]

text \<open>C14 (client_query_answered): what a client asks through the stubs of the API, it is told as the query server finds it:
  on a connection that serves the methods, each of the thirteen queries with a flat response returns
  what the server returns for the request, field by field, with amounts as their texts, and fails with the error
  the server fails with.\<close>

theorem client_query_answered:
  assumes "varint_runtime rt" "custom_codec ic ok" "serves e ic cc"
  shows "(\<forall>req. dollarv1_QueryIndex_unknownFields req = [] \<longrightarrow>
      agrees (dollarv1_queryClient_Index rt discardUnknown cc req) (query_Index e (Some ()))
        (\<lambda>y. \<lparr>dollarv1_QueryIndexResponse_Index = Custom_Marshal ic (Some y), dollarv1_QueryIndexResponse_unknownFields = []\<rparr>)
        (\<lambda>y. given ok (Some y) \<and> types_QueryIndexResponse_Size ic \<lparr>types_QueryIndexResponse_Index = Some y\<rparr> < 2 ^ 63)) \<and>
    (\<forall>req. dollarv1_QueryPaused_unknownFields req = [] \<longrightarrow>
      agrees (dollarv1_queryClient_Paused rt discardUnknown cc req) (query_Paused (Some ()))
        (\<lambda>y. \<lparr>dollarv1_QueryPausedResponse_Paused = y, dollarv1_QueryPausedResponse_unknownFields = []\<rparr>)
        (\<lambda>_. True)) \<and>
    (\<forall>req. dollarv1_QueryPrincipal_unknownFields req = [] \<and> dollarv1_QueryPrincipal_size rt req < 2 ^ 63 \<longrightarrow>
      agrees (dollarv1_queryClient_Principal rt discardUnknown cc req) (query_Principal e (Some (bytes_string (dollarv1_QueryPrincipal_Account req))))
        (\<lambda>y. \<lparr>dollarv1_QueryPrincipalResponse_Principal = Custom_Marshal ic y, dollarv1_QueryPrincipalResponse_unknownFields = []\<rparr>)
        (\<lambda>y. given ok y \<and> types_QueryPrincipalResponse_Size ic \<lparr>types_QueryPrincipalResponse_Principal = y\<rparr> < 2 ^ 63)) \<and>
    (\<forall>req. dollarv1_QueryYield_unknownFields req = [] \<and> dollarv1_QueryYield_size rt req < 2 ^ 63 \<longrightarrow>
      agrees (dollarv1_queryClient_Yield rt discardUnknown cc req) (query_Yield e (Some (bytes_string (dollarv1_QueryYield_Account req))))
        (\<lambda>y. \<lparr>dollarv1_QueryYieldResponse_ClaimableAmount = Custom_Marshal ic (Some y), dollarv1_QueryYieldResponse_unknownFields = []\<rparr>)
        (\<lambda>y. given ok (Some y) \<and> types_QueryYieldResponse_Size ic \<lparr>types_QueryYieldResponse_ClaimableAmount = Some y\<rparr> < 2 ^ 63)) \<and>
    (\<forall>req. dollarv1_QueryStats_unknownFields req = [] \<longrightarrow>
      agrees (dollarv1_queryClient_Stats rt discardUnknown cc req) (query_Stats (Some ()))
        (\<lambda>y. \<lparr>dollarv1_QueryStatsResponse_TotalHolders = TotalHolders y,
           dollarv1_QueryStatsResponse_TotalPrincipal = Custom_Marshal ic (Some (TotalPrincipal y)),
           dollarv1_QueryStatsResponse_TotalYieldAccrued = Custom_Marshal ic (Some (TotalYieldAccrued y)),
           dollarv1_QueryStatsResponse_unknownFields = []\<rparr>)
        (\<lambda>y. given ok (Some (TotalPrincipal y)) \<and> given ok (Some (TotalYieldAccrued y)) \<and> types_QueryStatsResponse_Size ic \<lparr>types_QueryStatsResponse_TotalHolders = TotalHolders y, types_QueryStatsResponse_TotalPrincipal = Some (TotalPrincipal y), types_QueryStatsResponse_TotalYieldAccrued = Some (TotalYieldAccrued y)\<rparr> < 2 ^ 63)) \<and>
    (\<forall>req. dollarv2_QueryYieldRecipient_unknownFields req = [] \<and> dollarv2_QueryYieldRecipient_size rt req < 2 ^ 63 \<longrightarrow>
      agrees (dollarv2_queryClient_YieldRecipient rt discardUnknown cc req) (query_YieldRecipient (Some (Provider_of (dollarv2_QueryYieldRecipient_Provider req), (bytes_string (dollarv2_QueryYieldRecipient_Identifier req)))))
        (\<lambda>y. \<lparr>dollarv2_QueryYieldRecipientResponse_YieldRecipient = string_bytes y, dollarv2_QueryYieldRecipientResponse_unknownFields = []\<rparr>)
        (\<lambda>y. v2_QueryYieldRecipientResponse_Size \<lparr>v2_QueryYieldRecipientResponse_YieldRecipient = string_bytes y\<rparr> < 2 ^ 63)) \<and>
    (\<forall>req. dollarv2_QueryRetryAmount_unknownFields req = [] \<and> dollarv2_QueryRetryAmount_size rt req < 2 ^ 63 \<longrightarrow>
      agrees (dollarv2_queryClient_RetryAmount rt discardUnknown cc req) (query_RetryAmount (Some (Provider_of (dollarv2_QueryRetryAmount_Provider req), (bytes_string (dollarv2_QueryRetryAmount_Identifier req)))))
        (\<lambda>y. \<lparr>dollarv2_QueryRetryAmountResponse_RetryAmount = Custom_Marshal ic (Some y), dollarv2_QueryRetryAmountResponse_unknownFields = []\<rparr>)
        (\<lambda>y. given ok (Some y) \<and> v2_QueryRetryAmountResponse_Size ic \<lparr>v2_QueryRetryAmountResponse_RetryAmount = Some y\<rparr> < 2 ^ 63)) \<and>
    (\<forall>req. portalv1_QueryOwner_unknownFields req = [] \<longrightarrow>
      agrees (portalv1_queryClient_Owner rt discardUnknown cc req) (query_Owner (Some ()))
        (\<lambda>y. \<lparr>portalv1_QueryOwnerResponse_Owner = string_bytes y, portalv1_QueryOwnerResponse_unknownFields = []\<rparr>)
        (\<lambda>y. portal_QueryOwnerResponse_Size \<lparr>portal_QueryOwnerResponse_Owner = string_bytes y\<rparr> < 2 ^ 63)) \<and>
    (\<forall>req. portalv1_QueryPaused_unknownFields req = [] \<longrightarrow>
      agrees (portalv1_queryClient_Paused rt discardUnknown cc req) (query_PortalPaused (Some ()))
        (\<lambda>y. \<lparr>portalv1_QueryPausedResponse_Paused = y, portalv1_QueryPausedResponse_unknownFields = []\<rparr>)
        (\<lambda>_. True)) \<and>
    (\<forall>req. portalv1_QueryNonce_unknownFields req = [] \<longrightarrow>
      agrees (portalv1_queryClient_Nonce rt discardUnknown cc req) (query_Nonce (Some ()))
        (\<lambda>y. \<lparr>portalv1_QueryNonceResponse_Nonce = y, portalv1_QueryNonceResponse_unknownFields = []\<rparr>)
        (\<lambda>_. True)) \<and>
    (\<forall>req. vaultsv1_QueryPaused_unknownFields req = [] \<longrightarrow>
      agrees (vaultsv1_queryClient_Paused rt discardUnknown cc req) (query_VaultsPaused (Some ()))
        (\<lambda>y. \<lparr>vaultsv1_QueryPausedResponse_Paused = PausedType_number y, vaultsv1_QueryPausedResponse_unknownFields = []\<rparr>)
        (\<lambda>_. True)) \<and>
    (\<forall>req. vaultsv1_QueryPendingRewards_unknownFields req = [] \<longrightarrow>
      agrees (vaultsv1_queryClient_PendingRewards rt discardUnknown cc req) (query_PendingRewards (Some ()))
        (\<lambda>y. \<lparr>vaultsv1_QueryPendingRewardsResponse_PendingRewards = Custom_Marshal ic (Some y), vaultsv1_QueryPendingRewardsResponse_unknownFields = []\<rparr>)
        (\<lambda>y. given ok (Some y) \<and> vaults_QueryPendingRewardsResponse_Size ic \<lparr>vaults_QueryPendingRewardsResponse_PendingRewards = Some y\<rparr> < 2 ^ 63)) \<and>
    (\<forall>req. vaultsv1_QueryStats_unknownFields req = [] \<longrightarrow>
      agrees (vaultsv1_queryClient_Stats rt discardUnknown cc req) (query_VaultsStats (Some ()))
        (\<lambda>y. \<lparr>vaultsv1_QueryStatsResponse_FlexibleTotalPrincipal = Custom_Marshal ic (Some (FlexibleTotalPrincipal y)),
           vaultsv1_QueryStatsResponse_FlexibleTotalUsers = FlexibleTotalUsers y,
           vaultsv1_QueryStatsResponse_FlexibleTotalDistributedRewardsPrincipal = Custom_Marshal ic (FlexibleTotalDistributedRewardsPrincipal y),
           vaultsv1_QueryStatsResponse_StakedTotalPrincipal = Custom_Marshal ic (Some (StakedTotalPrincipal y)),
           vaultsv1_QueryStatsResponse_StakedTotalUsers = StakedTotalUsers y,
           vaultsv1_QueryStatsResponse_unknownFields = []\<rparr>)
        (\<lambda>y. given ok (Some (FlexibleTotalPrincipal y)) \<and> given ok (FlexibleTotalDistributedRewardsPrincipal y) \<and> given ok (Some (StakedTotalPrincipal y)) \<and> vaults_QueryStatsResponse_Size ic \<lparr>vaults_QueryStatsResponse_FlexibleTotalPrincipal = Some (FlexibleTotalPrincipal y), vaults_QueryStatsResponse_FlexibleTotalUsers = FlexibleTotalUsers y, vaults_QueryStatsResponse_FlexibleTotalDistributedRewardsPrincipal = FlexibleTotalDistributedRewardsPrincipal y, vaults_QueryStatsResponse_StakedTotalPrincipal = Some (StakedTotalPrincipal y), vaults_QueryStatsResponse_StakedTotalUsers = StakedTotalUsers y\<rparr> < 2 ^ 63))"
  by ((intro conjI allI impI; (elim conjE)?; unfold query_client_defs),
    ((rule invoke_agrees, rule codec_query_received, (rule assms(1) | assumption)+,
      unfold query_served [OF assms(3)] query_handler_defs, rule refl, simp, (elim conjE)?,
      (rule query_told assms(2) [THEN query_told(1)] assms(2) [THEN query_told(3)] assms(2) [THEN query_told(4)]
        assms(2) [THEN query_told(5)] assms(2) [THEN query_told(7)] assms(2) [THEN query_told(12)] assms(2) [THEN query_told(13)];
        (intro conjI)?; (assumption | rule small_responses)))+))

text \<open>A connection that looks the method up, and a client that asks for the statistics.\<close>

definition test_connection :: "'b env \<Rightarrow> custom \<Rightarrow> string \<Rightarrow> bytes \<Rightarrow> ('b, bytes) handler" where
  "test_connection e ic path bs =
     (case map_of (concat (map (\<lambda>(service, methods). map (\<lambda>(method, handler). (''/'' @ service @ ''/'' @ method, handler))
              methods) (query_services e ic))) path of
        None \<Rightarrow> fail (Errorf ''unknown method'')
      | Some handler \<Rightarrow> handler bs)"

lemma test_serves: "serves e ic (test_connection e ic)"
  unfolding serves_def test_connection_def query_services_def types_Query_serviceDesc_def v2_Query_methods_def
    portal_Query_methods_def vaults_Query_methods_def
  by simp

lemma client_query_answered_witness:
  "dollarv1_queryClient_Stats gogo_runtime False (test_connection test_env decimal_codec) \<lparr>dollarv1_QueryStats_unknownFields = []\<rparr>
      test_world =
    (Ok \<lparr>dollarv1_QueryStatsResponse_TotalHolders = 2,
       dollarv1_QueryStatsResponse_TotalPrincipal = [0x31, 0x35, 0x30, 0x30],
       dollarv1_QueryStatsResponse_TotalYieldAccrued = [0x30],
       dollarv1_QueryStatsResponse_unknownFields = []\<rparr>, test_world)"
proof -
  let ?req = "\<lparr>dollarv1_QueryStats_unknownFields = []\<rparr>"
  let ?s = "\<lparr>types_QueryStatsResponse_TotalHolders = 2, types_QueryStatsResponse_TotalPrincipal = Some 1500,
    types_QueryStatsResponse_TotalYieldAccrued = Some 0\<rparr>"
  have found: "query_Stats (Some ()) test_world = (Ok \<lparr>TotalHolders = 2, TotalPrincipal = 1500, TotalYieldAccrued = 0\<rparr>, test_world)"
    by (simp add: query_Stats_def with_request_def item_get_def wrap_err_def catch_def run_simps test_world_def)
  have "types_QueryStatsResponse_Size decimal_codec ?s < 2 ^ 63"
    using gogo_size_bounds(1) [of 2] gogo_size_bounds(3) [of "[0x31, 0x35, 0x30, 0x30]"] gogo_size_bounds(3) [of "[0x30]"]
    by (simp add: types_QueryStatsResponse_Size_def decimal_texts)
  moreover have "agrees (dollarv1_queryClient_Stats gogo_runtime False (test_connection test_env decimal_codec) ?req)
      (query_Stats (Some ()))
      (\<lambda>y. \<lparr>dollarv1_QueryStatsResponse_TotalHolders = TotalHolders y,
         dollarv1_QueryStatsResponse_TotalPrincipal = Custom_Marshal decimal_codec (Some (TotalPrincipal y)),
         dollarv1_QueryStatsResponse_TotalYieldAccrued = Custom_Marshal decimal_codec (Some (TotalYieldAccrued y)),
         dollarv1_QueryStatsResponse_unknownFields = []\<rparr>)
      (\<lambda>y. given (\<lambda>_. True) (Some (TotalPrincipal y)) \<and> given (\<lambda>_. True) (Some (TotalYieldAccrued y)) \<and>
        types_QueryStatsResponse_Size decimal_codec \<lparr>types_QueryStatsResponse_TotalHolders = TotalHolders y,
          types_QueryStatsResponse_TotalPrincipal = Some (TotalPrincipal y),
          types_QueryStatsResponse_TotalYieldAccrued = Some (TotalYieldAccrued y)\<rparr> < 2 ^ 63)"
    using client_query_answered [OF gogo_varint decimal_custom test_serves [of test_env], of False] by (elim conjE) simp
  ultimately show ?thesis by (simp add: agrees_def found given_def bnd_def ret_def decimal_texts)
qed

end
