(* ===== verification/Dollar_Properties.thy ===== *)
theory Dollar_Properties
  imports Effects
begin

text \<open>
  The properties of the dollar submodule: rounding, the send restriction and the principal
  ledger, issuance and redemption, claiming, the index update, and the distribution of yield to
  external chains. Each is followed by its instance on the concrete keeper of \<open>Testbed\<close>.
\<close>

subsection \<open>Conversions\<close>

text \<open>C33 (rounding_round_trip): converting an amount to principal rounded up and back never loses, rounded down
  and back never gains, and the two principals differ by at most one unit, so neither is off by
  more than what one unit of principal is worth.\<close>

theorem rounding_round_trip:
  assumes "0 \<le> a" "0 < i"
    and "GetPrincipalAmountRoundedUp a i = Ok up" "GetPrincipalAmountRoundedDown a i = Ok down"
    and "GetPresentAmount up i = Ok pu" "GetPresentAmount down i = Ok pd"
  shows "down \<le> up \<and> up \<le> down + 1 \<and> pd \<le> a \<and> a \<le> pu \<and> pu * 10 ^ 12 < a * 10 ^ 12 + i"
proof -
  note gap = rounded_down_le_up [OF assms(4,3,1,2)]
  note cover = rounded_up_covers [OF assms(3,1,2)]
  have pu: "pu = (up * i) div 10 ^ 12" and pd: "pd = (down * i) div 10 ^ 12"
    using assms gap by (auto simp: PresentAmount_Ok sdiv_nonneg)
  have "down * i \<le> a * 10 ^ 12" using rounded_down_covered [OF assms(4,1,2)] by simp
  then have "pd \<le> (a * 10 ^ 12) div 10 ^ 12" unfolding pd by (rule zdiv_mono1) simp
  moreover have "(a * 10 ^ 12) div 10 ^ 12 \<le> pu" unfolding pu using cover(1) by (rule zdiv_mono1) simp
  moreover have "pu * 10 ^ 12 \<le> up * i" unfolding pu by (rule int_div_mult_le) simp
  ultimately show ?thesis using gap cover(2) by simp
qed

theorem rounding_round_trip_witness:
  "(7::int) \<le> 8 \<and> (8::int) \<le> 7 + 1 \<and> (9::int) \<le> 10 \<and> (10::int) \<le> 10 \<and> (10::int) * 10 ^ 12 < 10 * 10 ^ 12 + 13 * 10 ^ 11"
  by (rule rounding_round_trip)
    (simp_all add: GetPrincipalAmountRoundedUp_def GetPrincipalAmountRoundedDown_def GetPresentAmount_def
      Int_Mul_def Int_Add_def Int_Sub_def Int_Quo_def checked_def fits_def signed_divide_int_def)

subsection \<open>Transfers and the ledger\<close>

text \<open>C3 (transfer_moves_principal): a transfer between two users moves the principal of the amount, rounded up,
  from the sender to the recipient, leaves the recorded total as it is and moves exactly the
  amount between the balances, also when sender and recipient are the same account.\<close>

theorem transfer_moves_principal:
  assumes "bank_env e valid" "valid (App w)" "valid_coins c" "AmountOf c (denom e) \<noteq> 0"
    and "is_user e f" "is_user e t" "SendCoins e f t c w = (Ok (), w')"
  shows "\<exists>i p. Index w = Some i \<and> GetPrincipalAmountRoundedUp (AmountOf c (denom e)) i = Ok p \<and>
    (\<forall>a. principal_of w' a = principal_of w a - (if a = f then p else 0) + (if a = t then p else 0) \<and>
       balance e w' a = balance e w a - (if a = f then AmountOf c (denom e) else 0)
         + (if a = t then AmountOf c (denom e) else 0)) \<and>
    recorded_principal w' = recorded_principal w \<and> total_supply e w' = total_supply e w"
proof -
  note eff = bank_env.SendCoins_effect [OF assms(1,7,2,3)]
  from assms(7) obtain w1 b where sr: "SendRestrictionFn e f t c w = (Ok t, w1)"
      and w': "w' = w1\<lparr>App := b\<rparr>" by (auto simp: SendCoins_Ok)
  have mv: "movement_of e f t = Mirrored" using assms(5,6) by (simp add: movement_of_def is_user_def)
  show ?thesis
    by (rule transfer_effect [OF sr mv assms(4)])
      (use eff(2,3) assms(5,6) w' in \<open>auto simp: is_user_def recorded_principal_def\<close>)
qed

theorem transfer_moves_principal_witness:
  "\<exists>w'. SendCoins test_env [97] [98] [(''uusdn'', 100)] test_world = (Ok (), w') \<and>
     principal_of w' [97] = 900 \<and> recorded_principal w' = recorded_principal test_world"
proof -
  define w' where "w' = snd (SendCoins test_env [97] [98] [(''uusdn'', 100)] test_world)"
  have "fst (SendCoins test_env [97] [98] [(''uusdn'', 100)] test_world) = Ok ()" by code_simp
  from run_of [OF this] have run: "SendCoins test_env [97] [98] [(''uusdn'', 100)] test_world = (Ok (), w')"
    by (simp add: w'_def)
  have user: "is_user test_env [97]" "is_user test_env [98]" by code_simp+
  have coins: "valid_coins [(''uusdn'', 100)]" "AmountOf [(''uusdn'', 100)] (denom test_env) = 100"
    by code_simp+
  have "Index test_world = Some (10 ^ 12)" "principal_of test_world [97] = 1000"
    "GetPrincipalAmountRoundedUp 100 (10 ^ 12) = Ok 100" by code_simp+
  with transfer_moves_principal [OF test_bank test_valid coins(1) _ user run] coins run
  show ?thesis by auto
qed

text \<open>Nobody but the module can pay into the yield account: a transfer of a user to it is
  refused before any balance or principal changes.\<close>

theorem yield_account_closed:
  assumes "is_user e f" "AmountOf c (denom e) \<noteq> 0"
  shows "SendCoins e f (YieldAddress e) c w
    = (Err (Errorf ''transfers to the yield account are not allowed''), w)"
  using assms
  by (simp add: SendCoins_def restriction_forbidden movement_of_def is_user_def bnd_run_simps run_simps)

theorem yield_account_closed_witness:
  "SendCoins test_env [97] (YieldAddress test_env) [(''uusdn'', 100)] test_world
    = (Err (Errorf ''transfers to the yield account are not allowed''), test_world)"
proof (rule yield_account_closed)
  show "is_user test_env [97]" by code_simp
  show "AmountOf [(''uusdn'', 100)] (denom test_env) \<noteq> 0" by code_simp
qed

subsection \<open>Issuance and redemption\<close>



text \<open>C19 (burn_records_principal): burning from a user needs the amount on its balance, lowers supply and balance by the
  amount, and lowers the user's principal and the recorded total by the same principal, rounded up.\<close>

theorem burn_records_principal:
  assumes "bank_env e valid" "valid (App w)" "is_user e s" "ModuleAddress e \<noteq> YieldAddress e"
    and "amt \<noteq> 0" "Burn e s amt w = (Ok (), w')"
  shows "\<exists>i up. Index w = Some i \<and> GetPrincipalAmountRoundedUp amt i = Ok up \<and>
    (\<forall>a. principal_of w' a = principal_of w a - (if a = s then up else 0) \<and>
       balance e w' a = balance e w a - (if a = s then amt else 0)) \<and>
    recorded_principal w' = recorded_principal w - up \<and>
    total_supply e w' = total_supply e w - amt \<and> amt \<le> balance e w s"
  by (rule bank_env.Burn_effect [OF assms(1,6,2,5,3,4)]) auto

theorem burn_records_principal_witness:
  "\<exists>w'. Burn test_env [97] 10 test_world = (Ok (), w') \<and> total_supply test_env w' = 1490"
proof -
  define w' where "w' = snd (Burn test_env [97] 10 test_world)"
  have "fst (Burn test_env [97] 10 test_world) = Ok ()" by code_simp
  from run_of [OF this] have run: "Burn test_env [97] 10 test_world = (Ok (), w')"
    by (simp add: w'_def)
  have user: "is_user test_env [97]" "ModuleAddress test_env \<noteq> YieldAddress test_env" by code_simp+
  have "total_supply test_env test_world = 1500" by code_simp
  with burn_records_principal [OF test_bank test_valid user _ run] run show ?thesis by auto
qed

text \<open>A mint that carries an index which is not above the stored one is the plain mint: the
  refused update leaves no trace.\<close>

theorem stale_mint:
  assumes "Index w = Some j" "i \<le> j"
  shows "Mint e r amt (Some i) w = Mint e r amt None w"
proof -
  have "UpdateIndex e i w = (Err ErrDecreasingIndex, w)"
    using assms by (simp add: UpdateIndex_def bnd_def advanceIndex_decreasing)
  then show ?thesis by (simp add: Mint_def thn_def bnd_def attempt_def ret_def)
qed

theorem stale_mint_witness:
  "Mint test_env [97] 10 (Some (10 ^ 12)) test_world = Mint test_env [97] 10 None test_world"
  by (rule stale_mint [of _ "10 ^ 12"]) (simp_all add: test_world_def)

subsection \<open>Claiming yield\<close>

text \<open>C20 (claim_pays_yield): a claim pays the user its claimable yield out of the yield account, leaves supply,
  principal, index and statistics as they are, and leaves nothing to claim a second time.\<close>

theorem claim_pays_yield:
  assumes "bank_env e valid" "valid (App w)" "ClaimYield e signer w = (Ok (), w')"
    and "StringToBytes e signer = Some a" "Index w = Some i" "a \<noteq> YieldAddress e"
  shows "\<not> GetPaused w \<and> balance e w' a = balance e w a + claimable e w a i \<and>
    balance e w' (YieldAddress e) = balance e w (YieldAddress e) - claimable e w a i \<and>
    total_supply e w' = total_supply e w \<and>
    Principal w' = Principal w \<and> Index w' = Index w \<and> Stats w' = Stats w \<and>
    claimable e w' a i = 0"
  using bank_env.ClaimYield_effect [OF assms(1,3,2,4-6)] assms(3) by (auto simp: ClaimYield_Ok)

theorem claim_pays_yield_witness:
  "\<exists>w'. ClaimYield test_env ''a'' (snd (UpdateIndex test_env (11 * 10 ^ 11) test_world)) = (Ok (), w') \<and>
     balance test_env w' [97] = 1100"
proof -
  define w where "w = snd (UpdateIndex test_env (11 * 10 ^ 11) test_world)"
  have ok: "mock_valid (App w)" unfolding w_def by code_simp
  have "fst (ClaimYield test_env ''a'' w) = Ok ()" unfolding w_def by code_simp
  note run = run_of [OF this]
  have at: "StringToBytes test_env ''a'' = Some [97]" "[97] \<noteq> YieldAddress test_env" by code_simp+
  have i: "Index w = Some (11 * 10 ^ 11)" unfolding w_def by code_simp
  have b: "balance test_env w [97] = 1000" "claimable test_env w [97] (11 * 10 ^ 11) = 100"
    unfolding w_def by code_simp+
  from claim_pays_yield [OF test_bank ok run at(1) i at(2)] b run show ?thesis
    unfolding w_def by auto
qed

subsection \<open>The index update\<close>

text \<open>An index that is not above the stored one is refused and changes nothing.\<close>

theorem stale_index_refused:
  assumes "Index w = Some j" "i \<le> j"
  shows "UpdateIndex e i w = (Err ErrDecreasingIndex, w)"
  using assms by (simp add: UpdateIndex_def bnd_def advanceIndex_decreasing)

theorem stale_index_refused_witness:
  "UpdateIndex test_env (10 ^ 12) test_world = (Err ErrDecreasingIndex, test_world)"
  by (rule stale_index_refused [of _ "10 ^ 12"]) (simp_all add: test_world_def)

text \<open>C8 (accrual_backs_supply): the accrual of an index update mints to the yield account exactly what raises the
  supply to the present value of the recorded principal, and touches neither the ledger nor any
  other balance.\<close>

theorem accrual_backs_supply:
  assumes "bank_env e valid" "valid (App w)" "ModuleAddress e \<noteq> YieldAddress e"
    and "accrueYield e p i w = (Ok y, w')"
  shows "GetPresentAmount p i = Ok (total_supply e w') \<and> 0 \<le> y \<and>
    total_supply e w' = total_supply e w + y \<and>
    (\<forall>a. balance e w' a = balance e w a + (if a = YieldAddress e then y else 0)) \<and>
    Principal w' = Principal w \<and> recorded_principal w' = recorded_principal w"
  using bank_env.accrueYield_effect [OF assms(1,4,2,3)] by simp

theorem accrual_backs_supply_witness:
  "\<exists>y w'. accrueYield test_env 1500 (11 * 10 ^ 11) test_world = (Ok y, w') \<and> total_supply test_env w' = 1650"
proof -
  have "fst (accrueYield test_env 1500 (11 * 10 ^ 11) test_world) = Ok 150" by code_simp
  note run = run_of [OF this]
  have "ModuleAddress test_env \<noteq> YieldAddress test_env"
    "GetPresentAmount 1500 (11 * 10 ^ 11) = (Ok 1650 :: int result)" by code_simp+
  with accrual_backs_supply [OF test_bank test_valid _ run] run show ?thesis by auto
qed

text \<open>C39 (oversupply_panics): when the recorded principal is worth less at the new index than the supply, the update
  does not skip the accrual: constructing the coin panics, with the new index already written.\<close>

theorem oversupply_panics:
  assumes "Index w = Some j" "j < i" "Stats w = Some s"
    and "GetPresentAmount (TotalPrincipal s) i = Ok x" "x < total_supply e w"
    and "fits (x - total_supply e w)"
  shows "UpdateIndex e i w = (Panic ''negative coin amount'', w\<lparr>Index := Some i\<rparr>)"
proof -
  have "accrueYield e (TotalPrincipal s) i (w\<lparr>Index := Some i\<rparr>)
      = (Panic ''negative coin amount'', w\<lparr>Index := Some i\<rparr>)"
    using assms by (intro accrueYield_oversupplied [of _ _ x]) (simp_all add: total_supply_def)
  then show ?thesis
    using assms(1-3)
    by (simp add: UpdateIndex_def bnd_def advanceIndex_increasing wrap_err_def catch_def
        GetTotalPrincipal_def item_get_def ret_def)
qed

theorem oversupply_panics_witness:
  "UpdateIndex test_env (10 ^ 12 + 1) (test_world\<lparr>Stats := Some \<lparr>TotalHolders = 2,
       TotalPrincipal = 1499, TotalYieldAccrued = 0\<rparr>\<rparr>)
     = (Panic ''negative coin amount'', test_world\<lparr>Stats := Some \<lparr>TotalHolders = 2,
       TotalPrincipal = 1499, TotalYieldAccrued = 0\<rparr>, Index := Some (10 ^ 12 + 1)\<rparr>)"
proof -
  let ?w = "test_world\<lparr>Stats := Some \<lparr>TotalHolders = 2, TotalPrincipal = 1499, TotalYieldAccrued = 0\<rparr>\<rparr>"
  have s: "total_supply test_env ?w = 1500" by code_simp
  have "UpdateIndex test_env (10 ^ 12 + 1) ?w
      = (Panic ''negative coin amount'', ?w\<lparr>Index := Some (10 ^ 12 + 1)\<rparr>)"
    by (rule oversupply_panics [where x = 1499 and j = "10 ^ 12" and
          s = "\<lparr>TotalHolders = 2, TotalPrincipal = 1499, TotalYieldAccrued = 0\<rparr>"])
      (simp_all add: s, simp_all add: test_world_def GetPresentAmount_def Int_Mul_def Int_Quo_def
        checked_def fits_def signed_divide_int_def)
  then show ?thesis by simp
qed

subsection \<open>Yield of external chains\<close>

text \<open>C9 (ibc_yield_not_lost): a turn of the distribution over the IBC channels adds the claimed yield to the
  channel's total; the yield together with the amount kept from earlier failures is handed to the
  transfer, and when the transfer fails it is kept in full for the next retry.\<close>

theorem ibc_yield_not_lost:
  assumes "external_calls e" "0 \<le> GetRetryAmount IBC ch w" "claimYieldIBC e (ch, rc) w = (Ok (), w')"
  shows "\<exists>y w1. claimModuleYield e (GetEscrowAddress e PortID ch) w = (Ok y, w1) \<and> 0 \<le> y \<and>
    (let acc = y + GetRetryAmount IBC ch w in
      if 0 < acc then
        (\<exists>w2 r w3. ibc_Transfer e (ibc_message e ch rc acc (BlockTime w2)) w2 = (r, w3) \<and>
           GetRetryAmount IBC ch w' = (if is_Ok r then 0 else acc) \<and>
           external_total IBC ch w' = external_total IBC ch w + y)
      else GetRetryAmount IBC ch w' = 0 \<and> external_total IBC ch w' = external_total IBC ch w)"
  by (rule claimYieldIBC_books [OF assms(3,1,2)]) blast

theorem ibc_yield_not_lost_witness:
  "\<exists>w'. claimYieldIBC test_env (''channel-9'', ''r'')
       (test_world\<lparr>RetryAmounts := [((IBC, ''channel-9''), 40)]\<rparr>) = (Ok (), w') \<and>
     GetRetryAmount IBC ''channel-9'' w' = 40"
proof -
  let ?w = "test_world\<lparr>RetryAmounts := [((IBC, ''channel-9''), 40)]\<rparr>"
  have "fst (claimYieldIBC test_env (''channel-9'', ''r'') ?w) = Ok ()" by code_simp
  note run = run_of [OF this]
  have r: "GetRetryAmount IBC ''channel-9'' ?w = 40" by code_simp
  have y: "fst (claimModuleYield test_env (GetEscrowAddress test_env PortID ''channel-9'') ?w) = Ok 0"
    by code_simp
  have closed: "\<not> is_Ok (fst (ibc_Transfer test_env (ibc_message test_env ''channel-9'' rc acc t) v))"
    for rc acc t v by (simp add: test_env_def ibc_message_def run_simps)
  have "0 \<le> GetRetryAmount IBC ''channel-9'' ?w" using r by simp
  from ibc_yield_not_lost [OF test_external this run] obtain y' w1 where
    c: "claimModuleYield test_env (GetEscrowAddress test_env PortID ''channel-9'') ?w = (Ok y', w1)"
    and b: "let acc = y' + GetRetryAmount IBC ''channel-9'' ?w in
      if 0 < acc then
        (\<exists>w2 q w3. ibc_Transfer test_env (ibc_message test_env ''channel-9'' ''r'' acc (BlockTime w2)) w2 = (q, w3) \<and>
           GetRetryAmount IBC ''channel-9'' (snd (claimYieldIBC test_env (''channel-9'', ''r'') ?w))
             = (if is_Ok q then 0 else acc) \<and>
           external_total IBC ''channel-9'' (snd (claimYieldIBC test_env (''channel-9'', ''r'') ?w))
             = external_total IBC ''channel-9'' ?w + y')
      else GetRetryAmount IBC ''channel-9'' (snd (claimYieldIBC test_env (''channel-9'', ''r'') ?w)) = 0 \<and>
        external_total IBC ''channel-9'' (snd (claimYieldIBC test_env (''channel-9'', ''r'') ?w))
          = external_total IBC ''channel-9'' ?w"
    by blast
  from c y have "y' = 0" by simp
  with b r obtain w2 q w3 where
    "ibc_Transfer test_env (ibc_message test_env ''channel-9'' ''r'' 40 (BlockTime w2)) w2 = (q, w3)"
    "GetRetryAmount IBC ''channel-9'' (snd (claimYieldIBC test_env (''channel-9'', ''r'') ?w))
      = (if is_Ok q then 0 else 40)"
    by (auto simp: Let_def)
  with closed [of "''r''" 40 "BlockTime w2" w2] run show ?thesis by auto
qed

text \<open>The portions of the Hyperlane routes, each its share of the total collateral of
  the registered routes, add up to at most the yield that was claimed for them.\<close>

theorem hyperlane_shares_bounded:
  assumes "legacy_env e" "distinct (map fst rs)" "0 \<le> y" "0 < coll"
    and "fold_prog (collectToken e) rs (0, []) w = (Ok (coll, tokens), w')"
    and "\<And>i. i \<in> fst ` set rs \<Longrightarrow> 0 \<le> collateral_in tokens i \<and>
      collateralShare e (collateral_in tokens i) coll y = Ok (portion i)"
  shows "(\<Sum>(i, _)\<leftarrow>rs. portion i) \<le> y"
proof -
  have "coll = (\<Sum>x\<leftarrow>rs. collateral_in tokens (fst x))"
    using collectTokens_total [OF assms(5,2)] by (simp add: case_prod_unfold)
  then have "(\<Sum>x\<leftarrow>rs. portion (fst x)) \<le> y"
    using assms(6) by (intro collateralShares_sum [OF assms(1,4) _ assms(3)]) auto
  then show ?thesis by (simp add: case_prod_unfold)
qed

theorem hyperlane_shares_bounded_witness:
  "(\<Sum>(i, _)\<leftarrow>[(''a'', ''r''), (''bb'', ''s'')]. if i = ''a'' then 66 else 33) \<le> (100::int)"
proof (rule hyperlane_shares_bounded [OF test_legacy, where coll = 900])
  let ?rs = "[(''a'', ''r''), (''bb'', ''s'')]"
  have "fst (fold_prog (collectToken test_env) ?rs (0, []) test_world)
      = Ok (900, [(''a'', \<lparr>TokenId = [1], CollateralBalance = 600\<rparr>), (''bb'', \<lparr>TokenId = [1, 2], CollateralBalance = 300\<rparr>)])"
    by code_simp
  from run_of [OF this] show "fold_prog (collectToken test_env) ?rs (0, []) test_world
      = (Ok (900, [(''a'', \<lparr>TokenId = [1], CollateralBalance = 600\<rparr>), (''bb'', \<lparr>TokenId = [1, 2], CollateralBalance = 300\<rparr>)]),
         snd (fold_prog (collectToken test_env) ?rs (0, []) test_world))" .
  have "collateralShare test_env 600 900 100 = Ok 66" "collateralShare test_env 300 900 100 = Ok 33"
    by code_simp+
  then show "0 \<le> collateral_in [(''a'', \<lparr>TokenId = [1], CollateralBalance = 600\<rparr>), (''bb'', \<lparr>TokenId = [1, 2], CollateralBalance = 300\<rparr>)] i \<and>
      collateralShare test_env (collateral_in [(''a'', \<lparr>TokenId = [1], CollateralBalance = 600\<rparr>), (''bb'', \<lparr>TokenId = [1, 2], CollateralBalance = 300\<rparr>)] i) 900 100
        = Ok (if i = ''a'' then 66 else 33)" if "i \<in> fst ` set ?rs" for i
    using that by auto
qed simp_all






end
