(* ===== verification/Vault_Properties.thy ===== *)
theory Vault_Properties
  imports Vaults_Laws
begin

text \<open>
  The properties of the vaults submodule: what locking and unlocking do to positions, the
  invariant that the total flexible principal covers the flexible positions, the safety of the
  rewards, the pause flag and the end of season one. Each is followed by its instance on a
  store with one Staked and two Flexible positions of one user.
\<close>

subsection \<open>A store with positions\<close>

definition vault_world :: "mock_app world" where
  "vault_world = test_world\<lparr>
     Index := Some (12 * 10 ^ 11),
     Principal := [([20], 100), ([22], 50), ([28], 500), ([97], 1000)],
     VaultsPositions := [
       (([97], STAKED, 400), \<lparr>pos_Principal = 100, pos_Index = 10 ^ 12, pos_Amount = 100, pos_Time = 400 * 10 ^ 9\<rparr>),
       (([97], FLEXIBLE, 400), \<lparr>pos_Principal = 200, pos_Index = 10 ^ 12, pos_Amount = 200, pos_Time = 400 * 10 ^ 9\<rparr>),
       (([97], FLEXIBLE, 450), \<lparr>pos_Principal = 300, pos_Index = 10 ^ 12, pos_Amount = 300, pos_Time = 450 * 10 ^ 9\<rparr>)],
     VaultsTotalFlexiblePrincipal := Some 500,
     VaultsRewards := [(11 * 10 ^ 11, \<lparr>rew_Index = 11 * 10 ^ 11, rew_Total = 500, rew_Rewards = 50\<rparr>)],
     VaultsStats := Some \<lparr>FlexibleTotalPrincipal = 500, FlexibleTotalUsers = 1,
       FlexibleTotalDistributedRewardsPrincipal = Some 0, StakedTotalPrincipal = 100, StakedTotalUsers = 1\<rparr>,
     App := \<lparr>Balances = [([12], [(''uusdn'', 1000)]), ([20], [(''uusdn'', 100)]),
       ([22], [(''uusdn'', 60)]), ([28], [(''uusdn'', 500)]), ([97], [(''uusdn'', 1000)])],
       Accounts = []\<rparr>\<rparr>"

lemma ok_run: "is_Ok (fst p) \<Longrightarrow> \<exists>x s. p = (Ok x, s)"
  by (cases p) (auto simp: is_Ok_iff)

lemma vault_world_ok: "vaults_inv vault_world"
proof -
  have "map_ok (VaultsPositions vault_world)"
    "list_all (\<lambda>(k, p). position_ok k p) (VaultsPositions vault_world)"
    "vault_principal FLEXIBLE vault_world \<le> flexible_total vault_world"
    by code_simp+
  then show ?thesis
    unfolding vaults_inv_def positions_ok_def
    by (auto simp: list_all_iff dest!: map_of_SomeD simp del: split_paired_All)
qed

subsection \<open>Locking\<close>

text \<open>C11 (lock_opens_position): a lock that succeeds opens exactly one new position, under the user, the vault and
  the block's second, with the amount, the current index and the principal of the amount rounded
  down; it was covered by the user's balance, at least the minimum, and for the Flexible vault
  its principal is added to the total.\<close>

theorem lock_opens_position:
  assumes "Lock e signer vault msg w = (Ok (), w')"
  shows "\<exists>a amount i p. StringToBytes e signer = Some a \<and> msg = Some amount \<and>
    vaultsMinimumLock e \<le> amount \<and> amount \<le> balance e w a \<and> Index w = Some i \<and>
    GetPrincipalAmountRoundedDown amount i = Ok p \<and>
    Map_Get (VaultsPositions w) (a, vault, Unix (BlockTime w)) = None \<and>
    (\<forall>k. Map_Get (VaultsPositions w') k =
       (if k = (a, vault, Unix (BlockTime w))
        then Some \<lparr>pos_Principal = p, pos_Index = i, pos_Amount = amount, pos_Time = BlockTime w\<rparr>
        else Map_Get (VaultsPositions w) k)) \<and>
    flexible_total w' = flexible_total w + (if vault = FLEXIBLE then p else 0)"
  by (rule Lock_effect [OF assms]) (auto simp del: split_paired_All)

theorem lock_opens_position_witness:
  "\<exists>w'. Lock test_env ''a'' FLEXIBLE (Some 100) vault_world = (Ok (), w') \<and>
     flexible_total w' = 583 \<and> Map_Get (VaultsPositions w') ([97], FLEXIBLE, 500) \<noteq> None"
proof -
  define w' where "w' = snd (Lock test_env ''a'' FLEXIBLE (Some 100) vault_world)"
  have "fst (Lock test_env ''a'' FLEXIBLE (Some 100) vault_world) = Ok ()" by code_simp
  from run_of [OF this] have run: "Lock test_env ''a'' FLEXIBLE (Some 100) vault_world = (Ok (), w')"
    by (simp add: w'_def)
  have at: "StringToBytes test_env ''a'' = Some [97]" "Unix (BlockTime vault_world) = 500"
    "Index vault_world = Some (12 * 10 ^ 11)" "flexible_total vault_world = 500"
    "GetPrincipalAmountRoundedDown 100 (12 * 10 ^ 11) = Ok 83"
    by code_simp+
  from lock_opens_position [OF run] at
  have "flexible_total w' = 583 \<and> Map_Get (VaultsPositions w') ([97], FLEXIBLE, 500) \<noteq> None"
    by auto
  with run show ?thesis by blast
qed

text \<open>A lock while the submodule is paused for locking, of a Flexible position after season one,
  below the minimum, of an unknown vault, in the same second as another one, or above the user's
  balance is refused and changes nothing.\<close>

theorem lock_refuses:
  assumes "StringToBytes e signer = Some a"
    and "vault = FLEXIBLE \<and> vaultsSeasonOneEndTimestamp e < Unix (BlockTime w) \<or>
      GetVaultsPaused w \<in> {PAUSED_ALL, PAUSED_LOCK} \<or> amount < vaultsMinimumLock e \<or>
      vault \<notin> {STAKED, FLEXIBLE} \<or> Map_Has (VaultsPositions w) (a, vault, Unix (BlockTime w)) \<or>
      balance e w a < amount"
  shows "\<exists>err. Lock e signer vault (Some amount) w = (Err err, w)"
proof -
  have "\<exists>err. checkLock e signer vault (Some amount) w = (Err err, w)"
    using assms
    by (cases vault) (auto simp: checkLock_def non_nil_def Let_def balance_def from_option_def
        run_simps bnd_run_simps)
  then show ?thesis unfolding Lock_def by (auto intro: bnd_err)
qed

theorem lock_refuses_witness:
  "\<exists>err. Lock test_env ''a'' STAKED (Some 5) vault_world = (Err err, vault_world)"
proof (rule lock_refuses)
  show "StringToBytes test_env ''a'' = Some [97]" by code_simp
  have "(5::int) < vaultsMinimumLock test_env" by code_simp
  then show "STAKED = FLEXIBLE \<and> vaultsSeasonOneEndTimestamp test_env < Unix (BlockTime vault_world) \<or>
      GetVaultsPaused vault_world \<in> {PAUSED_ALL, PAUSED_LOCK} \<or> 5 < vaultsMinimumLock test_env \<or>
      STAKED \<notin> {STAKED, FLEXIBLE} \<or>
      Map_Has (VaultsPositions vault_world) ([97], STAKED, Unix (BlockTime vault_world)) \<or>
      balance test_env vault_world [97] < 5" by simp
qed

subsection \<open>Unlocking\<close>

text \<open>C6 (unlock_takes_exactly): an unlock that succeeds lowers the user's locked amount in the vault by exactly the
  amount asked for, which was positive and at most that locked amount, leaves the locked amount
  of every other user and vault, and keeps the positions well formed.\<close>

theorem unlock_takes_exactly:
  assumes "unlock e signer vault msg w = (Ok (), w')" "positions_ok w"
  shows "\<exists>a amount. StringToBytes e signer = Some a \<and> msg = Some amount \<and> 0 < amount \<and>
    amount \<le> locked_amount a vault w \<and> positions_ok w' \<and>
    (\<forall>a' v'. locked_amount a' v' w'
       = locked_amount a' v' w - (if a' = a \<and> v' = vault then amount else 0))"
  by (rule unlock_effect [OF assms]) (intro exI conjI allI)

theorem unlock_takes_exactly_witness:
  "\<exists>w'. unlock test_env ''a'' FLEXIBLE (Some 250) vault_world = (Ok (), w') \<and>
     locked_amount [97] FLEXIBLE w' = 250 \<and> locked_amount [97] STAKED w' = 100"
proof -
  define w' where "w' = snd (unlock test_env ''a'' FLEXIBLE (Some 250) vault_world)"
  have "fst (unlock test_env ''a'' FLEXIBLE (Some 250) vault_world) = Ok ()" by code_simp
  from run_of [OF this] have run: "unlock test_env ''a'' FLEXIBLE (Some 250) vault_world = (Ok (), w')"
    by (simp add: w'_def)
  have at: "StringToBytes test_env ''a'' = Some [97]" "locked_amount [97] FLEXIBLE vault_world = 500"
    "locked_amount [97] STAKED vault_world = 100" by code_simp+
  have "positions_ok vault_world" using vault_world_ok by (simp add: vaults_inv_def)
  from unlock_takes_exactly [OF run this] at
  have "locked_amount [97] FLEXIBLE w' = 250 \<and> locked_amount [97] STAKED w' = 100" by auto
  with run show ?thesis by blast
qed

text \<open>An unlock of more than the user has locked, or of less than the minimum without emptying
  the vault, is refused with the invalid-amount error and changes nothing.\<close>

theorem unlock_refuses:
  assumes "StringToBytes e signer = Some a" "vault \<in> {STAKED, FLEXIBLE}" "0 < amount"
    and "sum_amounts (GetVaultsPositionsByProviderAndVault a vault w) 0 = Ok s"
    and "s < amount \<or> amount < vaultsMinimumUnlock e \<and> amount \<noteq> s"
  shows "\<exists>msg. unlock e signer vault (Some amount) w = (Err (Wrap ErrInvalidAmount msg), w)"
proof -
  have "\<exists>msg. checkUnlock e signer vault (Some amount) w = (Err (Wrap ErrInvalidAmount msg), w)"
    using assms
    by (auto simp: checkUnlock_def from_option_def run_simps bnd_run_simps)
  then show ?thesis unfolding unlock_def by (auto intro: bnd_err)
qed

theorem unlock_refuses_witness:
  "\<exists>msg. unlock test_env ''a'' STAKED (Some 101) vault_world = (Err (Wrap ErrInvalidAmount msg), vault_world)"
proof (rule unlock_refuses)
  show "StringToBytes test_env ''a'' = Some [97]" by code_simp
  show "sum_amounts (GetVaultsPositionsByProviderAndVault [97] STAKED vault_world) 0 = Ok 100" by code_simp
qed simp_all

text \<open>Once the checks have passed, the loop over the positions takes the whole amount: the
  final check for a remaining amount cannot fire.\<close>

theorem unlock_no_remainder:
  assumes "checkUnlock e signer vault msg w = (Ok (a, amount, ps), w1)" "positions_ok w"
    and "fold_prog (unlockPosition e signer vault a) ps (amount, 0) w1 = (Ok (rem, removed), w')"
  shows "rem = 0"
  using unlock_loop_complete [OF assms] by blast

theorem unlock_no_remainder_witness:
  "\<exists>ps w1 removed w'. fold_prog (unlockPosition test_env ''a'' STAKED [97]) ps (60, 0) w1
     = (Ok (0, removed), w')"
proof -
  let ?c = "checkUnlock test_env ''a'' STAKED (Some 60) vault_world"
  have "fst ?c = Ok ([97], 60, GetVaultsPositionsByProviderAndVault [97] STAKED vault_world)" by code_simp
  note run = run_of [OF this]
  from checkUnlock_Ok [OF run] have "snd ?c = vault_world" by simp
  with run have c: "?c = (Ok ([97], 60, GetVaultsPositionsByProviderAndVault [97] STAKED vault_world), vault_world)"
    by metis
  let ?l = "fold_prog (unlockPosition test_env ''a'' STAKED [97])
    (GetVaultsPositionsByProviderAndVault [97] STAKED vault_world) (60, 0) vault_world"
  have "is_Ok (fst ?l)" by code_simp
  then obtain rem removed w' where l: "?l = (Ok (rem, removed), w')"
    by (metis ok_run surj_pair)
  have "positions_ok vault_world" using vault_world_ok by (simp add: vaults_inv_def)
  from unlock_no_remainder [OF c this l] l show ?thesis by blast
qed

text \<open>C24 (flexible_total_covers): locking and unlocking keep the positions well formed and the total flexible
  principal, the denominator of the rewards, at least the principal of the flexible positions.\<close>

theorem flexible_total_covers:
  assumes "vaults_inv w" "0 < vaultsMinimumLock e" "\<And>i. Index w = Some i \<Longrightarrow> 0 < i"
    and "Lock e signer vault msg w = (Ok (), w') \<or> unlock e signer vault msg w = (Ok (), w')"
  shows "vaults_inv w'"
  using assms(4)
proof
  assume "Lock e signer vault msg w = (Ok (), w')"
  then show ?thesis using assms(1-3) by (rule Lock_vaults_inv)
next
  assume "unlock e signer vault msg w = (Ok (), w')"
  then show ?thesis using assms(1) by (rule unlock_vaults_inv)
qed

theorem flexible_total_covers_witness:
  "vaults_inv (snd (unlock test_env ''a'' FLEXIBLE (Some 250) vault_world))"
proof (rule flexible_total_covers [OF vault_world_ok])
  show "0 < vaultsMinimumLock test_env" by code_simp
  show "\<And>i. Index vault_world = Some i \<Longrightarrow> 0 < i" by (simp add: vault_world_def)
  have "fst (unlock test_env ''a'' FLEXIBLE (Some 250) vault_world) = Ok ()" by code_simp
  then show "Lock test_env ''a'' FLEXIBLE (Some 250) vault_world
      = (Ok (), snd (unlock test_env ''a'' FLEXIBLE (Some 250) vault_world)) \<or>
    unlock test_env ''a'' FLEXIBLE (Some 250) vault_world
      = (Ok (), snd (unlock test_env ''a'' FLEXIBLE (Some 250) vault_world))"
    by (intro disjI2 run_of)
qed

subsection \<open>Rewards\<close>

text \<open>C22 (rewards_never_overdrawn): a claim pays out exactly what it takes from the rewards records; as long as the
  totals cover the position and stay below two trillion dollars, the payment is not negative and
  no record is left negative.\<close>

theorem rewards_never_overdrawn:
  assumes "legacy_env e" "map_ok (VaultsRewards w)" "0 \<le> amount" "0 < pos_Index pos"
    and "\<And>k r p. Map_Get (VaultsRewards w) k = Some r \<Longrightarrow> pos_Index pos < k \<Longrightarrow>
      GetPrincipalAmountRoundedDown amount (pos_Index pos) = Ok p \<Longrightarrow> covers p r"
    and "\<And>k r. Map_Get (VaultsRewards w) k = Some r \<Longrightarrow> 0 \<le> rew_Rewards r"
    and "ClaimRewards e pos amount w = (Ok x, w')"
  shows "reward_pot w' = reward_pot w - x \<and> 0 \<le> x \<and>
    (\<forall>k r. Map_Get (VaultsRewards w') k = Some r \<longrightarrow> 0 \<le> rew_Rewards r)"
  using ClaimRewards_effect [OF assms(7,2)] assms(1,3-6) by blast

theorem rewards_never_overdrawn_witness:
  "\<exists>x w'. ClaimRewards test_env (position_entry_of (([97], FLEXIBLE, 400),
       \<lparr>pos_Principal = 200, pos_Index = 10 ^ 12, pos_Amount = 200, pos_Time = 400 * 10 ^ 9\<rparr>)) 200 vault_world
     = (Ok x, w') \<and> reward_pot w' = 50 - x \<and> 0 \<le> x"
proof -
  let ?p = "position_entry_of (([97], FLEXIBLE, 400),
       \<lparr>pos_Principal = 200, pos_Index = 10 ^ 12, pos_Amount = 200, pos_Time = 400 * 10 ^ 9\<rparr>)"
  let ?c = "ClaimRewards test_env ?p 200 vault_world"
  have "is_Ok (fst ?c)" by code_simp
  then obtain x w' where c: "?c = (Ok x, w')" by (metis ok_run)
  have pot: "reward_pot vault_world = 50" "GetPrincipalAmountRoundedDown 200 (10 ^ 12) = Ok 200"
    by code_simp+
  have "reward_pot w' = reward_pot vault_world - x \<and> 0 \<le> x \<and>
      (\<forall>k r. Map_Get (VaultsRewards w') k = Some r \<longrightarrow> 0 \<le> rew_Rewards r)"
    by (rule rewards_never_overdrawn [OF test_legacy _ _ _ _ _ c])
      (use pot in \<open>auto simp: vault_world_def map_ok_def covers_def dec_one_def split: if_splits\<close>)
  with c pot show ?thesis by auto
qed

subsection \<open>Pausing\<close>

text \<open>Only the authority sets the pause flag, and once it is set to all, every lock and unlock
  is refused without a change.\<close>

theorem pause_blocks:
  assumes "vaults_SetPausedState e signer PAUSED_ALL w = (Ok (), w')"
  shows "signer = authority e \<and>
    (\<exists>err. Lock e user vault amount w' = (Err err, w')) \<and>
    (\<exists>err. Unlock e user vault amount w' = (Err err, w'))"
proof -
  have p: "signer = authority e" "GetVaultsPaused w' = PAUSED_ALL"
    using assms by (auto simp: vaults_SetPausedState_def GetVaultsPaused_def ok_simps)
  then have "\<exists>err. checkLock e user vault amount w' = (Err err, w')"
    by (simp add: checkLock_def bnd_run_simps run_simps)
  then have "\<exists>err. Lock e user vault amount w' = (Err err, w')"
    unfolding Lock_def by (auto intro: bnd_err)
  moreover have "\<exists>err. Unlock e user vault amount w' = (Err err, w')"
    using p by (simp add: Unlock_def bnd_run_simps run_simps)
  ultimately show ?thesis using p by blast
qed

theorem pause_blocks_witness:
  "\<exists>err w'. Unlock test_env ''a'' STAKED (Some 50) w' = (Err err, w')"
proof -
  have "fst (vaults_SetPausedState test_env ''authority'' PAUSED_ALL vault_world) = Ok ()" by code_simp
  from pause_blocks [OF run_of [OF this]] show ?thesis by blast
qed

subsection \<open>The end of season one\<close>

text \<open>The begin blocker never fails; once the end time has passed it marks season one as
  ended whatever happens while the positions are unlocked, and keeps nothing else of a run that
  panicked; in every later block it does nothing.\<close>

theorem season_one_ends_once:
  assumes "vaultsSeasonOneEndTimestamp e < Unix (BlockTime w)" "\<not> IsVaultsSeasonOneEnded w"
  shows "\<exists>w'. BeginBlocker e w = (Ok (), w') \<and> IsVaultsSeasonOneEnded w' \<and>
    (\<forall>p v. endVaultsSeasonOne e w = (Panic p, v) \<longrightarrow> w' = w\<lparr>VaultsSeasonOneEnded := Some True\<rparr>) \<and>
    (\<forall>t. BeginBlocker e (w'\<lparr>BlockTime := t\<rparr>) = (Ok (), w'\<lparr>BlockTime := t\<rparr>))"
  using assms by (auto simp: BeginBlocker_cases IsVaultsSeasonOneEnded_def)

theorem season_one_ends_once_witness:
  "\<exists>w'. BeginBlocker test_env (vault_world\<lparr>BlockTime := 2000 * 10 ^ 9\<rparr>) = (Ok (), w') \<and>
     IsVaultsSeasonOneEnded w'"
proof -
  let ?w = "vault_world\<lparr>BlockTime := 2000 * 10 ^ 9\<rparr>"
  have "vaultsSeasonOneEndTimestamp test_env < Unix (BlockTime ?w)" "\<not> IsVaultsSeasonOneEnded ?w"
    by code_simp+
  from season_one_ends_once [OF this] show ?thesis by blast
qed

end
