(* ===== verification/Query_Properties.thy ===== *)
theory Query_Properties
  imports Queries Vault_Properties
begin

text \<open>
  What the queries promise: the answers agree with what the messages do, and the printable maps
  list exactly the entries of the store.
\<close>

subsection \<open>Yield\<close>

text \<open>C40 (query_yield_paid): the yield a query reports is what a claim at that moment pays to the account, and
  asking changes nothing.\<close>

theorem query_yield_paid:
  assumes "bank_env e valid" "valid (App w)" "StringToBytes e signer = Some a" "a \<noteq> YieldAddress e"
    and "query_Yield e (Some signer) w = (Ok y, v)" "ClaimYield e signer w = (Ok (), w')"
  shows "v = w \<and> balance e w' a = balance e w a + y"
proof -
  from assms(5) obtain i where i: "Index w = Some i" "y = claimable e w a i" "v = w"
    using assms(3) by (auto simp: query_Yield_def with_request_def bnd_Ok GetYield_Ok ret_Ok)
  from bank_env.ClaimYield_effect(1) [OF assms(1,6,2,3) i(1) assms(4)] i show ?thesis by simp
qed

text \<open>An index of two, with the yield account holding what the principals have earned.\<close>

definition yield_world :: "mock_app world" where
  "yield_world = test_world\<lparr>Index := Some (2 * 10 ^ 12),
     App := \<lparr>Balances = [([12], [(''uusdn'', 1500)]), ([97], [(''uusdn'', 1000)]), ([98], [(''uusdn'', 500)])],
       Accounts = []\<rparr>\<rparr>"

theorem query_yield_paid_witness:
  "\<exists>w'. query_Yield test_env (Some ''a'') yield_world = (Ok 1000, yield_world) \<and>
     ClaimYield test_env ''a'' yield_world = (Ok (), w') \<and> balance test_env w' [97] = 2000"
proof -
  have a: "StringToBytes test_env ''a'' = Some [97]" "[97] \<noteq> YieldAddress test_env"
    "balance test_env yield_world [97] = 1000" by code_simp+
  have valid: "mock_valid (App yield_world)"
    by (simp add: mock_valid_def yield_world_def map_ok_def valid_coins_def)
  have "fst (query_Yield test_env (Some ''a'') yield_world) = Ok 1000"
    "fst (ClaimYield test_env ''a'' yield_world) = Ok ()" by code_simp+
  note q = run_of [OF this(1)] and c = run_of [OF this(2)]
  from query_yield_paid [OF test_bank valid a(1,2) q c] a(3)
  have "snd (query_Yield test_env (Some ''a'') yield_world) = yield_world"
    "balance test_env (snd (ClaimYield test_env ''a'' yield_world)) [97] = 2000"
    by simp_all
  with q c show ?thesis by (intro exI conjI) simp_all
qed

subsection \<open>Rewards\<close>

lemma pending_agrees:
  "positionRewards e ci p es (a, t) = Ok (a', t') \<Longrightarrow>
     fold_prog (claimReward e ci p) es acc w = (Ok acc', w') \<Longrightarrow>
     a' - a = acc' - acc \<and> t' - t = acc' - acc"
proof (induction es arbitrary: a t acc w)
  case Nil
  then show ?case by (simp add: ret_Ok)
next
  case (Cons x es)
  obtain k r where x: "x = (k, r)" by fastforce
  from Cons.prems(2) x obtain a1 w1 where step: "claimReward e ci p (k, r) acc w = (Ok a1, w1)"
      and rest: "fold_prog (claimReward e ci p) es a1 w1 = (Ok acc', w')"
    by (auto simp: bnd_Ok)
  show ?case
  proof (cases "0 < rew_Total r \<and> 0 < rew_Rewards r")
    case False
    with step have "a1 = acc" unfolding claimReward_def by (auto simp: ret_Ok split: if_splits)
    with Cons.IH [OF _ rest] Cons.prems(1) False show ?thesis by (auto simp: x)
  next
    case True
    with step obtain y where y: "userReward e ci p r = Ok y" "a1 = acc + y"
      unfolding claimReward_def
      by (auto simp: bnd_Ok thn_Ok lift_Ok Int_Ok modify_Ok split: if_splits)
    with Cons.prems(1) True have "positionRewards e ci p es (a + y, t + y) = Ok (a', t')"
      by (auto simp: x obind_eq_Ok Int_Ok)
    from Cons.IH [OF this rest] y show ?thesis by simp
  qed
qed

text \<open>C21 (pending_rewards_paid): the pending rewards the query computes for a position are exactly what claiming
  them for the whole position pays, as long as the Flexible vault has principal of its own.\<close>

theorem pending_rewards_paid:
  assumes "ClaimRewards e pos (pos_Amount pos) w = (Ok x, w')"
    and "0 < principal_of w (FlexibleVaultAddress e)" "Index w = Some ci"
    and "pendingRewards e ci (VaultsRewards w) [pos] t = Ok (answer, t')"
  shows "answer = [(pos_Amount pos, x)] \<and> t' = t + x"
proof -
  from assms(1-3) obtain p v where p: "GetPrincipalAmountRoundedDown (pos_Amount pos) (pos_Index pos) = Ok p"
    and walk: "fold_prog (claimReward e ci p) (Map_After (pos_Index pos) (VaultsRewards w)) 0 w = (Ok x, v)"
    unfolding ClaimRewards_def principal_of_def
    by (auto simp: bnd_Ok thn_Ok gets_Ok lift_Ok Int_Ok item_get_Ok wrap_err_Ok from_option_Ok
        emit_Ok ret_Ok if_run split: if_splits)
  from assms(4) p obtain y where y: "positionRewards e ci p (Map_After (pos_Index pos) (VaultsRewards w)) (0, t)
      = Ok (y, t')" and a: "answer = [(pos_Amount pos, y)]"
    by (auto simp: obind_eq_Ok)
  from pending_agrees [OF y walk] a show ?thesis by simp
qed

theorem pending_rewards_paid_witness:
  "\<exists>x w'. ClaimRewards test_env (position_entry_of (([97], FLEXIBLE, 400),
       \<lparr>pos_Principal = 200, pos_Index = 10 ^ 12, pos_Amount = 200, pos_Time = 400 * 10 ^ 9\<rparr>)) 200 vault_world
     = (Ok x, w') \<and> x = 20"
proof -
  let ?p = "position_entry_of (([97], FLEXIBLE, 400),
       \<lparr>pos_Principal = 200, pos_Index = 10 ^ 12, pos_Amount = 200, pos_Time = 400 * 10 ^ 9\<rparr>)"
  have "is_Ok (fst (ClaimRewards test_env ?p 200 vault_world))" by code_simp
  then obtain x w' where c: "ClaimRewards test_env ?p 200 vault_world = (Ok x, w')" by (metis ok_run)
  have at: "0 < principal_of vault_world (FlexibleVaultAddress test_env)"
    "Index vault_world = Some (12 * 10 ^ 11)"
    "pendingRewards test_env (12 * 10 ^ 11) (VaultsRewards vault_world) [?p] 0 = Ok ([(200, 20)], 20)"
    by code_simp+
  have "pos_Amount ?p = 200" by simp
  with pending_rewards_paid [of test_env ?p vault_world x w' _ 0, OF _ at] c show ?thesis by auto
qed

subsection \<open>Lists\<close>

text \<open>The destination tokens of a chain are the tokens of the supported bridging
  paths to it, each once; the chain asked for is taken modulo sixteen bits.\<close>

theorem destination_tokens_listed:
  assumes "map_ok (PortalBridgingPaths w)"
  shows "\<exists>toks. query_DestinationTokens (Some chain) w = (Ok toks, w) \<and>
    set toks = {tok. (ucast chain, tok) \<in> set (GetPortalBridgingPaths w)} \<and>
    query_DestinationTokens (Some (chain + 2 ^ 16)) w = (Ok toks, w)"
proof -
  let ?t = "\<lambda>c. map fst (filter snd (Map_Prefix c (PortalBridgingPaths w)))"
  have run: "query_DestinationTokens (Some c) w = (Ok (?t (ucast c)), w)" for c
    by (simp add: query_DestinationTokens_def with_request_def run_simps)
  have "set (?t c) = {tok. (c, tok) \<in> set (GetPortalBridgingPaths w)}" for c
    by (force simp: Map_Prefix_def GetPortalBridgingPaths_def image_iff)
  moreover have "(ucast (chain + 2 ^ 16) :: 16 word) = ucast chain"
    by (rule word_unat_eq_iff [THEN iffD2])
      (simp add: unsigned_ucast_eq unsigned_take_bit_eq unat_word_ariths take_bit_eq_mod mod_mod_cancel)
  ultimately show ?thesis using run by metis
qed

theorem destination_tokens_listed_witness:
  "\<exists>toks. query_DestinationTokens (Some 9) (test_world\<lparr>PortalBridgingPaths := [((9, [1]), True), ((9, [2]), False)]\<rparr>)
     = (Ok toks, test_world\<lparr>PortalBridgingPaths := [((9, [1]), True), ((9, [2]), False)]\<rparr>) \<and> set toks = {[1]}"
proof -
  let ?w = "test_world\<lparr>PortalBridgingPaths := [((9, [1]), True), ((9, [2]), False)]\<rparr>"
  have "map_ok (PortalBridgingPaths ?w)" by (simp add: map_ok_def)
  from destination_tokens_listed [OF this, of 9]
  obtain toks where t: "query_DestinationTokens (Some 9) ?w = (Ok toks, ?w)"
      "set toks = {tok. (9, tok) \<in> set (GetPortalBridgingPaths ?w)}" by auto
  have "GetPortalBridgingPaths ?w = [(9, [1])]" by code_simp
  with t show ?thesis by auto
qed

end
