(* ===== verification/Spec2Isabelle.thy ===== *)
theory Spec2Isabelle
  imports Custody Withdrawal Store_Type Wiring Codec_Properties Query_Services Genesis Dollar_Properties Vault_Properties Portal_Properties Query_Properties
begin

text \<open>
  A verification library for the \<open>dollar\<close> module (\<open>x/dollar\<close> of Noble): a Cosmos SDK module
  that issues a yield-bearing dollar on a chain.

  \<^bold>\<open>The program.\<close> An account holds a present amount, which the bank keeps, and a principal, which
  the module keeps; the present value of a principal is its product with an index of twelve
  decimals. The Portal (\<open>keeper/msg_server_portal.go\<close>, \<open>Deliver\<close> in \<open>keeper/keeper.go\<close>) receives
  Wormhole messages that raise the index and issue tokens, and burns tokens to send them out. The
  bank calls \<open>SendRestrictionFn\<close> (\<open>keeper/keeper.go\<close>) on every transfer of the dollar, which moves
  the principal. \<open>UpdateIndex\<close> (\<open>keeper/msg_server.go\<close>) mints the accrued yield to a yield account
  and distributes it: to the vaults, and to recipients behind IBC channels and Hyperlane tokens;
  the others claim theirs with \<open>ClaimYield\<close>. The vaults (\<open>keeper/msg_server_vaults.go\<close>,
  \<open>keeper/abci.go\<close>) lock amounts in positions; the Flexible one pays rewards in its first season,
  which a begin blocker ends. \<open>ibc_middleware.go\<close> returns the yield of failed packets to the amounts
  to retry, and \<open>isc4_wrapper.go\<close> limits the channels the dollar may leave by.

  \<^bold>\<open>Style.\<close> A Go call is a program \<open>'s \<Rightarrow> outcome \<times> 's\<close> (\<open>Prelude\<close>) that ends with a value, an error
  or a panic and always yields the store, since Go does not undo writes made before an error; the
  caller decides, as a failed message does by leaving no step of the chain. \<open>wp\<close> is a weakest
  precondition with a postcondition for success and one for failure, \<open>steps R\<close> says that every
  run, whatever its outcome, relates the store before to the store after, and \<open>settles R\<close> that every
  run but a panic, which is thrown away, does. Third-party modules are
  fields of \<open>env\<close> (\<open>Types\<close>); what is relied on is stated where it is used: \<open>bank_keeper\<close> for the
  bank, \<open>legacy_dec\<close> for decimal division, \<open>external_calls\<close> for calls that may transfer dollars and
  nothing else of this module's, \<open>guarded_calls\<close> for calls that leave the accounts of positions
  alone, \<open>varint_runtime\<close>, \<open>skip_progress\<close> and \<open>custom_codec\<close> for the codecs, \<open>routes\<close> and \<open>serves\<close>
  for the routers. Each of them
  has an instance: the bank of \<open>utils/mocks\<close>, a division that rounds half to even, the \<open>gogo\<close> helpers.

  \<^bold>\<open>Theories and the code they model.\<close>
  \<^item> \<open>Prelude\<close>: outcomes, programs, loops (\<open>for_each\<close>, \<open>fold_prog\<close>), \<open>wp\<close>, the locale
    \<open>store_relation\<close>. \<open>Collections\<close>: the maps of \<open>cosmossdk.io/collections\<close> as association lists in
    key order, with the locale \<open>kv_map\<close>. \<open>Sdk_Math\<close>: \<open>math.Int\<close> (integers of at most 256 bits, whose
    operations panic beyond, truncated division) and \<open>math.LegacyDec\<close>.
  \<^item> \<open>Types\<close>: messages of \<open>types/**\<close>, errors, events, the store (\<open>Keeper\<close>, one field per
    collection) and the surroundings. \<open>State\<close>, \<open>State_Maps\<close>: \<open>keeper/math.go\<close>, \<open>keeper/state.go\<close>.
  \<^item> \<open>Bank\<close>: \<open>utils/mocks/bank.go\<close> and the contract of a bank. \<open>Transfers\<close>: the send restriction and
    \<open>GetYield\<close>. \<open>Yield\<close>: \<open>keeper/msg_server.go\<close>, \<open>keeper/msg_server_v2.go\<close>. \<open>Yield_Laws\<close>: what these
    keep of the store, by the locales \<open>transfer_relation\<close> and \<open>keeper_relation\<close>, whose assumptions
    list the elementary writes; their interpretations give frames and the ledger invariant.
    \<open>Effects\<close>: what the messages do to balances, supply and principal, given a bank. \<open>Testbed\<close>: a
    concrete keeper, for the witnesses.
  \<^item> \<open>Vault_State\<close>, \<open>Vaults\<close>, \<open>Vaults_Laws\<close>: \<open>keeper/state_vaults.go\<close>, \<open>keeper/msg_server_vaults.go\<close>,
    \<open>keeper/abci.go\<close>; frames by extensions of the same locales, and the effect of locking, of the
    unlock loop and of the rewards walk.
  \<^item> \<open>Ntt\<close>: \<open>types/portal/**\<close>, encoders and parsers over slices with their capacity. \<open>Portal\<close>,
    \<open>Portal_Laws\<close>: \<open>keeper/msg_server_portal.go\<close>, \<open>keeper/state_portal.go\<close>, \<open>Deliver\<close>.
  \<^item> \<open>Ibc\<close>: \<open>ibc_middleware.go\<close>, \<open>isc4_wrapper.go\<close>. \<open>Queries\<close>: the four query servers. \<open>Genesis\<close>:
    \<open>genesis.go\<close>, \<open>types/v2/genesis.go\<close>, \<open>keeper/migrations.go\<close>. \<open>Wiring\<close>: \<open>NewKeeper\<close> with the
    schema of its collections, whose prefixes are shown to be disjoint, \<open>ProvideModule\<close> of
    \<open>module.go\<close>, and the registered error codes.
  \<^item> \<open>Chain\<close>: \<open>RegisterServices\<close> of \<open>module.go\<close> and the steps of a chain that runs the module:
    successful messages, begin blockers, failed packets, transfers by other modules, time. The
    locale \<open>chain_relation\<close> joins the component interfaces; \<open>chain_inv\<close> is the invariant of the
    module. \<open>Custody\<close>: an abstract custodian and the refinement by the vaults. \<open>Guards\<close>,
    \<open>Solvency\<close>, \<open>Withdrawal\<close>: the accounts of positions. The locale \<open>guarded_relation\<close> covers the
    messages that spend only from accounts without an owner's guard, \<open>vault_custody\<close> adds locking and
    unlocking; every account keeps what its positions are for, so a Staked position can be withdrawn.
    \<open>Store_Type\<close>: the type of the store, from any genesis on.
  \<^item> \<open>Wire\<close>, \<open>Gogo\<close>: the readers and writers every generated file repeats, with rules (\<open>reads_*\<close>)
    that read a message back field by field, and the helpers of \<open>types/**/*.pb.go\<close>. \<open>Messages\<close>,
    \<open>Api_Tx\<close>, \<open>Api_Events\<close>, \<open>Api_Query\<close>, \<open>Api_Data\<close>: the client API (\<open>api/**/*.pulsar.go\<close>), per
    message a record with size, \<open>Marshal\<close> and \<open>Unmarshal\<close>. \<open>Codec_Tx\<close>, \<open>Codec_Events\<close>,
    \<open>Codec_Query\<close>, \<open>Codec_Data\<close>: the module's own code for the same messages (\<open>types/**/*.pb.go\<close>),
    and what each side reads of the other's bytes. Go strings and byte slices are byte lists, an
    enum its number, an amount an integer whose text is the library's.
  \<^item> \<open>Nested\<close>, \<open>Timestamps\<close>: what generated code does for messages in messages, lists, maps and times,
    with rules for writers (\<open>fills_*\<close>) beside those for readers. \<open>Api_Nested\<close>, \<open>Codec_Nested\<close>: the
    messages with such parts on both sides: positions, genesis and the responses with lists. The
    order in which Go ranges over a map is a parameter, as are the encodings of times.
  \<^item> \<open>Services\<close>: the handlers and service descriptors of \<open>types/**/tx.pb.go\<close> and the stubs of
    \<open>api/**/tx_grpc.pb.go\<close>; \<open>Query_Services\<close>: the same for the queries with flat responses, and back.
    \<open>Decimal\<close>: decimal texts, for the concrete examples.
  \<^item> \<open>*_Properties\<close> and this theory: the properties, numbered C1 and on, each with a concrete
    instance where it has hypotheses.

  \<^bold>\<open>What is shown.\<close> An invariant of every reachable state: recorded principal covers all accounts',
  peers are well formed, and until season one ends the positions are sound and covered (C1), with
  genesis as a start; a store that stays well typed; monotone history; the refinement of the
  custodian; the accounts of positions stay solvent, and what is in the Staked vault can be
  withdrawn. What each message of each
  submodule does when it succeeds, and what it refuses. That yield is backed, conserved and not
  lost. Round trips of Portal payloads, of a transfer between two chains, of genesis, and of the
  generated codecs, whose readers return on every input; a transaction that a client sends through
  the stubs runs the handler it names, and a query is answered with what the server finds. That queries agree with messages. Where
  the code does not do what it seems to mean, the theorem says what it does
  (\<open>disabled_path_transfers\<close>, \<open>oversupply_panics\<close>, \<open>chain_narrowed\<close>).

  \<^bold>\<open>Bounds and loops.\<close> Loops over collections are recursion over lists, so they return; no fuel is
  used. The loop of \<open>Unmarshal\<close>, which a \<open>Skip\<close> of no bytes would repeat forever, is a partial
  function, and its return is a property. Go integers keep their width where the code computes with
  them (holders, users, nonces, chains, lengths, varints); the index and Unix seconds are integers.

  \<^bold>\<open>Abstractions.\<close> Go maps are lists in the order of their keys, and the model loops over them in
  that order, while Go's own order is random. A walk over a collection visits the
  entries it had at its start. The two indexes of the positions are functions of the key and are
  read as filters. Nil messages and nil byte slices are not told apart from empty ones; a nil
  \<open>math.Int\<close> of a message is \<open>None\<close> where the code can meet one. Texts of errors are shortened. An
  error of the store itself is not modelled. Logs and gas are not modelled.

  \<^bold>\<open>Not modelled.\<close> The command line (\<open>client/cli\<close>), the registration of codecs (\<open>types/**/codec.go\<close>)
  and the rest of \<open>module.go\<close>, which are glue; the
  REST gateways (\<open>types/**/query.pb.gw.go\<close>) and the services of the queries whose responses have
  nested parts; the accessors of generated messages, which only reflect on fields; \<open>simapp\<close>, \<open>e2e\<close> and the
  test doubles other than the bank.
\<close>

section \<open>The module as a whole\<close>

text \<open>The surroundings of the tests, with a positive minimum, satisfy what the invariant needs.\<close>

lemma test_chain: "chain_env test_env"
  using test_external test_legacy by (simp add: chain_env_def test_env_def)

lemma test_chain_inv: "chain_inv test_env test_world"
  using test_ledger
  by (simp add: chain_inv_def peers_ok_def vaults_safe_def vaults_inv_def positions_ok_def vault_principal_def
      flexible_total_def test_world_def map_ok_def IsVaultsSeasonOneEnded_def total_of_def)

text \<open>Two blocks on it: a position is locked, then the begin blocker runs.\<close>

lemma test_reach: "(chain_step test_env)\<^sup>*\<^sup>* test_world (snd (BeginBlocker test_env locked_world))"
proof -
  from run_of [OF locked_world_run(1)] have "RegisterServices test_env (MsgLock ''a'' FLEXIBLE (Some 100)) test_world = (Ok (), locked_world)"
    by (simp add: locked_world_def)
  then have "chain_step test_env test_world locked_world" by (rule message)
  moreover have "chain_step test_env locked_world (snd (BeginBlocker test_env locked_world))"
    by (rule begin_block [OF prod.collapse [symmetric]])
  ultimately show ?thesis by (rule converse_rtranclp_into_rtranclp [OF _ r_into_rtranclp])
qed

text \<open>C1 (invariant_reachable): every state a chain can reach from a sound one is sound: the recorded total
  principal covers what all accounts hold, every configured peer has a 32-byte transceiver and
  manager under a chain other than zero, and, until season one has ended, every position is
  worth its principal and the total flexible principal covers the flexible positions.\<close>

theorem invariant_reachable:
  assumes "chain_env e" "chain_inv e w" "(chain_step e)\<^sup>*\<^sup>* w v"
  shows "(\<exists>s. Stats v = Some s \<and> principal_sum v \<le> TotalPrincipal s) \<and> peers_ok e v \<and>
    (IsVaultsSeasonOneEnded v \<or> positions_ok v \<and> vault_principal FLEXIBLE v \<le> flexible_total v)"
  using reach_chain_inv [OF assms(3,1,2)]
  by (auto simp: chain_inv_def ledger_inv_def vaults_safe_def vaults_inv_def)

lemma invariant_reachable_witness:
  "let v = snd (BeginBlocker test_env locked_world) in
    (\<exists>s. Stats v = Some s \<and> principal_sum v \<le> TotalPrincipal s) \<and> peers_ok test_env v \<and>
    (IsVaultsSeasonOneEnded v \<or> positions_ok v \<and> vault_principal FLEXIBLE v \<le> flexible_total v)"
  unfolding Let_def by (rule invariant_reachable [OF test_chain test_chain_inv test_reach])

text \<open>C28 (genesis_sound): the default genesis state is imported into an empty store without a panic and
  yields a sound state at an index of one, so that everything reachable from it is sound.\<close>

theorem genesis_sound:
  assumes "empty_store w"
  shows "\<exists>v. InitGenesis e parse_int DefaultGenesisState w = (Ok (), v) \<and> chain_inv e v \<and>
    Index v = Some (10 ^ 12)"
  using assms
  by (auto simp: InitGenesis_def DefaultGenesisState_def init_portal_def init_vaults_def thn_def bnd_def modify_def
      run_simps chain_inv_def ledger_inv_def principal_sum_def peers_ok_def vaults_safe_def vaults_inv_def
      positions_ok_def vault_principal_def flexible_total_def zero_stats_def empty_store_def map_ok_def
      total_of_def)

lemma genesis_sound_witness:
  "\<exists>v. InitGenesis test_env test_NewIntFromString DefaultGenesisState (test_world\<lparr>Principal := []\<rparr>) = (Ok (), v) \<and>
    chain_inv test_env v \<and> Index v = Some (10 ^ 12)"
  by (rule genesis_sound) (simp add: empty_store_def test_world_def)

text \<open>C4 (vaults_refine_custody): while season one is open, the module refines a custodian: every chain run maps to a
  run of the abstract specification, which takes an amount of at least the minimum into one
  vault of one user, or gives back a positive amount that is at most what that user has in that
  vault. Nothing else that happens on the chain touches what is locked.\<close>

theorem vaults_refine_custody:
  assumes "chain_env e" "chain_inv e w" "(chain_step e)\<^sup>*\<^sup>* w v" "\<not> IsVaultsSeasonOneEnded v"
  shows "(custody_step (vaultsMinimumLock e))\<^sup>*\<^sup>* (locked w) (locked v)"
  using assms(3,1,2,4) by (rule reach_refines)

lemma vaults_refine_custody_witness:
  "(custody_step (vaultsMinimumLock test_env))\<^sup>*\<^sup>* (locked test_world)
    (locked (snd (BeginBlocker test_env locked_world)))"
proof -
  from vaults_refine_custody [OF test_chain test_chain_inv test_reach locked_world_run(2)] show ?thesis .
qed

text \<open>C27 (history_monotone): whatever happens on the chain, an index once set is never unset or lowered, time
  does not run backwards, and season one does not reopen once it has ended.\<close>

theorem history_monotone:
  assumes "external_calls e" "(chain_step e)\<^sup>*\<^sup>* w v"
  shows "(\<forall>i. Index w = Some i \<longrightarrow> (\<exists>j. Index v = Some j \<and> i \<le> j)) \<and> BlockTime w \<le> BlockTime v \<and>
    (IsVaultsSeasonOneEnded w \<longrightarrow> IsVaultsSeasonOneEnded v)"
  using index_chain.reach_rel [OF assms(2,1)] time_chain.reach_rel [OF assms(2,1)]
    season_chain.reach_rel [OF assms(2,1)]
  by (simp add: index_grows_def time_passes_def season_stays_def)

lemma history_monotone_witness:
  "let v = snd (BeginBlocker test_env locked_world) in
    (\<forall>i. Index test_world = Some i \<longrightarrow> (\<exists>j. Index v = Some j \<and> i \<le> j)) \<and> BlockTime test_world \<le> BlockTime v \<and>
    (IsVaultsSeasonOneEnded test_world \<longrightarrow> IsVaultsSeasonOneEnded v)"
  unfolding Let_def by (rule history_monotone [OF test_external test_reach])

text \<open>C25 (season_one_closes): once the configured end of season one has passed, then in every later state users
  can neither lock into nor unlock from the Flexible vault, the next begin blocker ends the
  season without an error, and it has ended in every state after that.\<close>

theorem season_one_closes:
  assumes "external_calls e" "vaultsSeasonOneEndTimestamp e < Unix (BlockTime w)" "(chain_step e)\<^sup>*\<^sup>* w v"
  shows "(\<exists>x. root_error x = ErrActionPaused \<and> Lock e signer FLEXIBLE amount v = (Err x, v)) \<and>
    (\<exists>x. root_error x = ErrActionPaused \<and> Unlock e signer FLEXIBLE amount v = (Err x, v)) \<and>
    (\<exists>u. BeginBlocker e v = (Ok (), u) \<and> (\<forall>u'. (chain_step e)\<^sup>*\<^sup>* u u' \<longrightarrow> IsVaultsSeasonOneEnded u'))"
proof -
  have "BlockTime w \<le> BlockTime v"
    using time_chain.reach_rel [OF assms(3,1)] by (simp add: time_passes_def)
  then have late: "vaultsSeasonOneEndTimestamp e < Unix (BlockTime v)"
    using assms(2) zdiv_mono1 [of "BlockTime w" "BlockTime v" "10 ^ 9"] by (simp add: Unix_def)
  have "\<exists>u. BeginBlocker e v = (Ok (), u) \<and> IsVaultsSeasonOneEnded u"
    using late by (simp add: BeginBlocker_cases IsVaultsSeasonOneEnded_def)
  then obtain u where u: "BeginBlocker e v = (Ok (), u)" "IsVaultsSeasonOneEnded u" by blast
  have "IsVaultsSeasonOneEnded u'" if "(chain_step e)\<^sup>*\<^sup>* u u'" for u'
    using season_chain.reach_rel [OF that assms(1)] u(2) by (simp add: season_stays_def)
  moreover have "\<exists>x. root_error x = ErrActionPaused \<and> Lock e signer FLEXIBLE amount v = (Err x, v)"
  proof -
    have "checkLock e signer FLEXIBLE amount v
        = (Err (Wrap ErrActionPaused ''cannot lock because season one has ended''), v)"
      using late by (simp add: checkLock_def bnd_run_simps run_simps)
    then show ?thesis by (simp add: Lock_def bnd_def)
  qed
  moreover have "\<exists>x. root_error x = ErrActionPaused \<and> Unlock e signer FLEXIBLE amount v = (Err x, v)"
    using late by (simp add: Unlock_def bnd_run_simps run_simps)
  ultimately show ?thesis using u(1) by blast
qed

lemma season_one_closes_witness:
  "let v = test_world\<lparr>BlockTime := 2000 * 10 ^ 9\<rparr> in
    (\<exists>x. root_error x = ErrActionPaused \<and> Lock test_env ''a'' FLEXIBLE (Some 100) v = (Err x, v)) \<and>
    (\<exists>x. root_error x = ErrActionPaused \<and> Unlock test_env ''a'' FLEXIBLE (Some 100) v = (Err x, v)) \<and>
    (\<exists>u. BeginBlocker test_env v = (Ok (), u) \<and>
      (\<forall>u'. (chain_step test_env)\<^sup>*\<^sup>* u u' \<longrightarrow> IsVaultsSeasonOneEnded u'))"
  unfolding Let_def
  by (rule season_one_closes [OF test_external _ rtranclp.rtrancl_refl]) (simp add: test_env_def Unix_def)

end
